(* ===== verification/Prelude.thy ===== *)
theory Prelude
  imports Main "HOL-Library.Word"
begin

text \<open>
  Shared ground of the development: the collections of facts the component proofs
  draw on, results that may be errors, and the list facts that indexing into C arrays
  needs. Nothing here models a particular source file.
\<close>

named_theorems safe_intros \<open>rules that walk a configuration script\<close>
named_theorems safe_scripts \<open>the judgement on each translated script\<close>

section \<open>Results\<close>

text \<open>A computation that may abort: \<open>Inl\<close> carries the reason, \<open>Inr\<close> the value.\<close>

definition bind_res :: "'e + 'a \<Rightarrow> ('a \<Rightarrow> 'e + 'b) \<Rightarrow> 'e + 'b" where
  "bind_res r f = (case r of Inl e \<Rightarrow> Inl e | Inr a \<Rightarrow> f a)"

lemma bind_res_simps [simp]:
  "bind_res (Inl e) f = Inl e"
  "bind_res (Inr a) f = f a"
  by (simp_all add: bind_res_def)

lemma bind_res_eq_Inr: "bind_res r f = Inr b \<longleftrightarrow> (\<exists>a. r = Inr a \<and> f a = Inr b)"
  by (cases r) auto

lemma bind_res_eq_Inl:
  "bind_res r f = Inl e \<longleftrightarrow> r = Inl e \<or> (\<exists>a. r = Inr a \<and> f a = Inl e)"
  by (cases r) auto

lemma bind_res_assoc: "bind_res (bind_res r f) g = bind_res r (\<lambda>a. bind_res (f a) g)"
  by (cases r) auto

lemmas bind_res_iffs = bind_res_eq_Inr bind_res_eq_Inl

section \<open>Lists as arrays\<close>

lemma nth_list_update_map:
  "(\<And>x. f (g x) = f x) \<Longrightarrow> map f (xs[i := g (xs ! i)]) = map f xs"
  by (rule nth_equalityI) (simp, metis length_list_update length_map nth_list_update_eq nth_list_update_neq nth_map)

lemma take_eq_short: "take n xs = ys \<Longrightarrow> length ys < n \<Longrightarrow> xs = ys"
  by (cases "length xs \<le> n") auto

lemma list_update_nth_other: "i \<noteq> j \<Longrightarrow> xs[i := x] ! j = xs ! j"
  by simp

lemma takeWhile_delim: "d \<notin> set t \<Longrightarrow> takeWhile (\<lambda>c. c \<noteq> d) (t @ d # rest) = t"
  by (induction t) auto

lemma dropWhile_delim: "d \<notin> set t \<Longrightarrow> dropWhile (\<lambda>c. c \<noteq> d) (t @ d # rest) = d # rest"
  by (induction t) auto

lemma dropWhile_no_delim: "d \<notin> set t \<Longrightarrow> dropWhile (\<lambda>c. c \<noteq> d) t = []"
  by (induction t) auto

lemma takeWhile_no_delim: "d \<notin> set t \<Longrightarrow> takeWhile (\<lambda>c. c \<noteq> d) t = t"
  by (induction t) auto

lemmas delim_simps = takeWhile_delim dropWhile_delim takeWhile_no_delim dropWhile_no_delim

lemma distinct_map_nth_eq:
  "distinct (map f xs) \<Longrightarrow> i < length xs \<Longrightarrow> j < length xs \<Longrightarrow> f (xs ! i) = f (xs ! j) \<Longrightarrow> i = j"
  by (metis distinct_conv_nth length_map nth_map)

end
