(* ===== verification/C_Lib.thy ===== *)
theory C_Lib
  imports Prelude
begin

text \<open>
  The parts of the C library the modelled programs call: character classes in the C
  locale, string comparison, the scanning and printing of integers, and the formatter
  behind \<open>vsnprintf\<close>. A C string is its characters before the terminating zero; where
  the source passes a pointer that may be null, the model passes an \<open>option\<close>.
\<close>

section \<open>Characters\<close>

definition isspace :: "char \<Rightarrow> bool" where
  "isspace c \<longleftrightarrow> (of_char c :: nat) = 32 \<or> (9 \<le> (of_char c :: nat) \<and> (of_char c :: nat) \<le> 13)"

definition isdigit :: "char \<Rightarrow> bool" where
  "isdigit c \<longleftrightarrow> 48 \<le> (of_char c :: nat) \<and> (of_char c :: nat) \<le> 57"

definition isxdigit :: "char \<Rightarrow> bool" where
  "isxdigit c \<longleftrightarrow> isdigit c
     \<or> (65 \<le> (of_char c :: nat) \<and> (of_char c :: nat) \<le> 70)
     \<or> (97 \<le> (of_char c :: nat) \<and> (of_char c :: nat) \<le> 102)"

definition toupper :: "char \<Rightarrow> char" where
  "toupper c = (let n = (of_char c :: nat) in if 97 \<le> n \<and> n \<le> 122 then char_of (n - 32) else c)"

definition tolower :: "char \<Rightarrow> char" where
  "tolower c = (let n = (of_char c :: nat) in if 65 \<le> n \<and> n \<le> 90 then char_of (n + 32) else c)"

definition NL :: char where
  "NL = char_of (10 :: nat)"

definition NUL :: char where
  "NUL = char_of (0 :: nat)"

text \<open>What a C string can hold: every byte but the terminator.\<close>

definition c_string :: "string \<Rightarrow> bool" where
  "c_string s \<longleftrightarrow> NUL \<notin> set s"

section \<open>Reading integers\<close>

definition digit_val :: "char \<Rightarrow> int" where
  "digit_val c = (let n = (of_char c :: nat) in
     if isdigit c then int n - 48 else if 97 \<le> n then int n - 87 else int n - 55)"

text \<open>The value of the longest prefix of digits, as \<open>strtol\<close> accumulates it.\<close>

fun scan_digits :: "(char \<Rightarrow> bool) \<Rightarrow> int \<Rightarrow> int \<Rightarrow> string \<Rightarrow> int" where
  "scan_digits P base acc [] = acc"
| "scan_digits P base acc (c # cs) =
     (if P c then scan_digits P base (base * acc + digit_val c) cs else acc)"

text \<open>An \<open>int\<close> object holds 32 bits; a larger scanned number is truncated into it.\<close>

definition to_int32 :: "int \<Rightarrow> int" where
  "to_int32 n = sint (word_of_int n :: 32 word)"

definition scan_sign :: "(string \<Rightarrow> int) \<Rightarrow> string \<Rightarrow> int" where
  "scan_sign f s = (case s of
       [] \<Rightarrow> f []
     | c # cs \<Rightarrow> if c = CHR ''-'' then - f cs else if c = CHR ''+'' then f cs else f s)"

text \<open>\<open>sscanf(s, "%d", &i)\<close> with \<open>i\<close> zero before the call; \<open>atoi\<close> reads the same.\<close>

definition scan_dec :: "string \<Rightarrow> int" where
  "scan_dec s = to_int32 (scan_sign (scan_digits isdigit 10 0) (dropWhile isspace s))"

abbreviation atoi :: "string \<Rightarrow> int" where
  "atoi \<equiv> scan_dec"

text \<open>\<open>sscanf(s, "%x", &i)\<close> with \<open>i\<close> zero before the call: an optional \<open>0x\<close> is skipped.\<close>

definition skip_0x :: "string \<Rightarrow> string" where
  "skip_0x s = (case s of
       c # d # cs \<Rightarrow> if c = CHR ''0'' \<and> (d = CHR ''x'' \<or> d = CHR ''X'') then cs else s
     | _ \<Rightarrow> s)"

definition scan_hex :: "string \<Rightarrow> int" where
  "scan_hex s = to_int32 (scan_sign (\<lambda>t. scan_digits isxdigit 16 0 (skip_0x t)) (dropWhile isspace s))"

section \<open>Printing\<close>

definition dec_digit :: "nat \<Rightarrow> char" where
  "dec_digit n = char_of (48 + n)"

fun show_nat :: "nat \<Rightarrow> string" where
  "show_nat n = (if n < 10 then [dec_digit n] else show_nat (n div 10) @ [dec_digit (n mod 10)])"

declare show_nat.simps [simp del]

definition show_int :: "int \<Rightarrow> string" where
  "show_int i = (if i < 0 then CHR ''-'' # show_nat (nat (- i)) else show_nat (nat i))"

text \<open>
  Arguments of a variadic call. A null string printed by \<open>%s\<close>, an argument that is
  missing or of the wrong type, and a conversion the sources never use have no defined
  result: \<open>None\<close>.
\<close>

datatype fmt_arg = Str_arg "string option" | Int_arg int

fun c_format :: "string \<Rightarrow> fmt_arg list \<Rightarrow> string option" where
  "c_format [] args = Some []"
| "c_format [c] args = (if c = CHR ''%'' then None else Some [c])"
| "c_format (c # d # cs) args =
     (if c = CHR ''%'' then
        if d = CHR ''%'' then map_option ((#) d) (c_format cs args)
        else if d = CHR ''s'' then
          (case args of Str_arg (Some x) # rest \<Rightarrow> map_option ((@) x) (c_format cs rest) | _ \<Rightarrow> None)
        else if d = CHR ''d'' then
          (case args of Int_arg n # rest \<Rightarrow> map_option ((@) (show_int n)) (c_format cs rest) | _ \<Rightarrow> None)
        else None
      else map_option ((#) c) (c_format (d # cs) args))"

lemma c_format_plain: "CHR ''%'' \<notin> set f \<Longrightarrow> c_format f args = Some f"
  by (induction f args rule: c_format.induct) auto

text \<open>\<open>vsnprintf(buf, n, fmt, ap)\<close>: what a buffer of \<open>n\<close> bytes holds afterwards.\<close>

definition vsnprintf :: "nat \<Rightarrow> string \<Rightarrow> fmt_arg list \<Rightarrow> string option" where
  "vsnprintf n f args = map_option (take (n - 1)) (c_format f args)"

lemma vsnprintf_length: "vsnprintf n f args = Some v \<Longrightarrow> length v \<le> n - 1"
  by (auto simp: vsnprintf_def)

lemma vsnprintf_plain:
  "CHR ''%'' \<notin> set f \<Longrightarrow> length f < n \<Longrightarrow> vsnprintf n f args = Some f"
  by (simp add: vsnprintf_def c_format_plain)

section \<open>Comparison and search\<close>

text \<open>
  \<open>strcmp\<close> as the difference of the first bytes that differ, the terminator counting
  as zero; only the sign and whether it is zero are used.
\<close>

fun strcmp :: "string \<Rightarrow> string \<Rightarrow> int" where
  "strcmp [] [] = 0"
| "strcmp [] (d # ds) = - int (of_char d)"
| "strcmp (c # cs) [] = int (of_char c)"
| "strcmp (c # cs) (d # ds) =
     (if c = d then strcmp cs ds else int (of_char c) - int (of_char d))"

lemma c_string_Nil [simp]: "c_string []"
  by (simp add: c_string_def)

lemma c_string_Cons [simp]: "c_string (c # cs) \<longleftrightarrow> c \<noteq> NUL \<and> c_string cs"
  by (auto simp: c_string_def)

lemma c_string_append [simp]: "c_string (s @ t) \<longleftrightarrow> c_string s \<and> c_string t"
  by (auto simp: c_string_def)

lemma of_char_0_iff: "(of_char c :: nat) = 0 \<longleftrightarrow> c = NUL"
  by (metis NUL_def char_of_char of_char_of mod_0)

lemma of_char_eq_nat: "(of_char c :: nat) = of_char d \<longleftrightarrow> c = d"
  by (metis char_of_char)

lemma strcmp_eq_0: "c_string s \<Longrightarrow> c_string t \<Longrightarrow> strcmp s t = 0 \<longleftrightarrow> s = t"
  by (induction s t rule: strcmp.induct) (auto simp: of_char_0_iff of_char_eq_nat)

end
