(* ===== verification/Config_Opt.thy ===== *)
theory Config_Opt
  imports C_Lib
begin

text \<open>
  The option store of the configuration program: \<open>config_opt.h\<close> and the accessors at
  the end of \<open>feature_config.c\<close>. An option array is a list of records without the
  terminating null entry; a pointer into it is an index. The C enum \<open>opt_type_t\<close> is a
  bit mask and stays one (a 32-bit word).
\<close>

unbundle bit_operations_syntax

section \<open>Options\<close>

type_synonym opt_type_t = "32 word"

definition OPT_NONE :: opt_type_t where "OPT_NONE = 0"
definition OPT_MODULE_EXPAND :: opt_type_t where "OPT_MODULE_EXPAND = 0x1"
definition OPT_STATIC_ON_DEVELOP :: opt_type_t where "OPT_STATIC_ON_DEVELOP = 0x2"
definition OPT_NOSTRIP :: opt_type_t where "OPT_NOSTRIP = 0x4"
definition OPT_MAJOR_FEATURE :: opt_type_t where "OPT_MAJOR_FEATURE = 0x8"
definition OPT_STRIP_ON_Y :: opt_type_t where "OPT_STRIP_ON_Y = 0x10"
definition OPT_THEME :: opt_type_t where "OPT_THEME = 0x20"
definition OPT_MODULE :: opt_type_t where "OPT_MODULE = 0x40"
definition OPT_HARDWARE :: opt_type_t where "OPT_HARDWARE = 0x80"
definition OPT_H :: opt_type_t where "OPT_H = 0x100"
definition OPT_HC :: opt_type_t where "OPT_HC = 0x200"
definition OPT_MK :: opt_type_t where "OPT_MK = 0x400"
definition OPT_INT :: opt_type_t where "OPT_INT = 0x800"
definition OPT_STR :: opt_type_t where "OPT_STR = 0x1000"
definition OPT_C_STR :: opt_type_t where "OPT_C_STR = 0x2000"
definition OPT_NUMBER :: opt_type_t where "OPT_NUMBER = 0x4000"
definition OPT_EXPORT :: opt_type_t where "OPT_EXPORT = 0x8000"

lemmas opt_type_defs =
  OPT_NONE_def OPT_MODULE_EXPAND_def OPT_STATIC_ON_DEVELOP_def OPT_NOSTRIP_def
  OPT_MAJOR_FEATURE_def OPT_STRIP_ON_Y_def OPT_THEME_def OPT_MODULE_def OPT_HARDWARE_def
  OPT_H_def OPT_HC_def OPT_MK_def OPT_INT_def OPT_STR_def OPT_C_STR_def OPT_NUMBER_def
  OPT_EXPORT_def

text \<open>
  The priority with which an option was last set. A freshly allocated entry holds the
  value 0, which the enum does not name: \<open>SET_PRIO_NONE\<close>.
\<close>

datatype set_prio_t =
    SET_PRIO_NONE
  | SET_PRIO_INIT
  | SET_PRIO_TOKEN_SET_DEFAULT
  | SET_PRIO_TOKEN_SET
  | SET_PRIO_CMD_LINE

primrec prio_num :: "set_prio_t \<Rightarrow> nat" where
  "prio_num SET_PRIO_NONE = 0"
| "prio_num SET_PRIO_INIT = 1"
| "prio_num SET_PRIO_TOKEN_SET_DEFAULT = 2"
| "prio_num SET_PRIO_TOKEN_SET = 3"
| "prio_num SET_PRIO_CMD_LINE = 4"

lemma prio_num_inject [simp]: "prio_num p = prio_num q \<longleftrightarrow> p = q"
  by (cases p; cases q) simp_all

instantiation set_prio_t :: linorder
begin

definition less_eq_set_prio_t :: "set_prio_t \<Rightarrow> set_prio_t \<Rightarrow> bool" where
  "p \<le> q \<longleftrightarrow> prio_num p \<le> prio_num q"

definition less_set_prio_t :: "set_prio_t \<Rightarrow> set_prio_t \<Rightarrow> bool" where
  "p < q \<longleftrightarrow> prio_num p < prio_num q"

instance
  by standard (auto simp: less_eq_set_prio_t_def less_set_prio_t_def)

end

lemmas prio_order_defs = less_eq_set_prio_t_def less_set_prio_t_def

lemma prio_le_CMD_LINE [simp]: "p \<le> SET_PRIO_CMD_LINE"
  by (cases p) (simp_all add: less_eq_set_prio_t_def)

record option_t =
  opt_token :: string
  opt_value :: "string option"
  opt_type :: opt_type_t
  opt_description :: "string option"
  opt_file :: "string option"
  opt_line :: nat
  opt_prio :: set_prio_t

text \<open>An array initialiser \<open>{ token, value, type, description }\<close>; C zeroes the rest.\<close>

definition opt :: "string \<Rightarrow> string option \<Rightarrow> opt_type_t \<Rightarrow> string option \<Rightarrow> option_t" where
  "opt t v ty d = \<lparr> opt_token = t, opt_value = v, opt_type = ty, opt_description = d,
                    opt_file = None, opt_line = 0, opt_prio = SET_PRIO_NONE \<rparr>"

lemma opt_sel [simp]:
  "opt_token (opt t v ty d) = t" "opt_value (opt t v ty d) = v"
  "opt_type (opt t v ty d) = ty" "opt_description (opt t v ty d) = d"
  "opt_file (opt t v ty d) = None" "opt_line (opt t v ty d) = 0"
  "opt_prio (opt t v ty d) = SET_PRIO_NONE"
  by (simp_all add: opt_def)

section \<open>State, failures, scripts\<close>

text \<open>
  Why the program stops early. \<open>Conf_err\<close> has the message or its format, mostly without the
  newline at its end; \<open>Undefined\<close> is behaviour C leaves undefined.
\<close>

datatype conf_error =
    No_such_option string
  | String_token string
  | Value_too_long string nat string
  | Not_module_expand string
  | Failed_dependency string string
  | Conf_err string
  | Usage
  | Duplicated string
  | Illegal string
  | Undefined

text \<open>
  What the program writes to its streams and goes on, and the commands it has the host
  system run.
\<close>

datatype message =
    Replacing string string "string option" nat string string nat
  | License_warning string
  | License_notice string
  | Printed string
  | Command string

text \<open>
  The globals of the program: \<open>openrg_config_options\<close>, \<open>config_options_base\<close>, \<open>hw\<close>,
  \<open>os\<close>, \<open>dist\<close>, \<open>features\<close>, the list \<open>jpkg_dists\<close> and \<open>is_evaluation\<close>; and the
  messages written so far.
\<close>

record conf =
  cfg_options :: "option_t list"
  cfg_base :: "option_t list"
  cfg_hw :: "string option"
  cfg_os :: string
  cfg_dist :: "string option"
  cfg_features :: "string option"
  cfg_jpkg :: "(string \<times> option_t list) list"
  cfg_eval :: bool
  cfg_log :: "message list"

type_synonym 'a rd = "conf \<Rightarrow> conf_error + 'a"
type_synonym stmt = "conf \<Rightarrow> conf_error + conf"

text \<open>Statements in sequence, conditionals and local variables, each stopping at an error.\<close>

primrec block :: "stmt list \<Rightarrow> stmt" where
  "block [] s = Inr s"
| "block (c # cs) s = bind_res (c s) (block cs)"

definition ifc :: "bool rd \<Rightarrow> stmt list \<Rightarrow> stmt list \<Rightarrow> stmt" where
  "ifc b cs ds s = bind_res (b s) (\<lambda>v. if v then block cs s else block ds s)"

definition when_c :: "bool rd \<Rightarrow> stmt list \<Rightarrow> stmt" where
  "when_c b cs = ifc b cs []"

text \<open>A chain of \<open>if\<close> ... \<open>else if\<close> ... \<open>else\<close>.\<close>

primrec cases_c :: "(bool rd \<times> stmt list) list \<Rightarrow> stmt list \<Rightarrow> stmt" where
  "cases_c [] ds = block ds"
| "cases_c (x # xs) ds = ifc (fst x) (snd x) [cases_c xs ds]"

definition local_c :: "'a rd \<Rightarrow> ('a \<Rightarrow> stmt list) \<Rightarrow> stmt" where
  "local_c r f s = bind_res (r s) (\<lambda>v. block (f v) s)"

definition pure :: "'a \<Rightarrow> 'a rd" where
  "pure a s = Inr a"

definition neg :: "bool rd \<Rightarrow> bool rd" where
  "neg b s = bind_res (b s) (\<lambda>v. Inr (\<not> v))"

definition conj_c :: "bool rd \<Rightarrow> bool rd \<Rightarrow> bool rd" where
  "conj_c a b s = bind_res (a s) (\<lambda>v. if v then b s else Inr False)"

definition disj_c :: "bool rd \<Rightarrow> bool rd \<Rightarrow> bool rd" where
  "disj_c a b s = bind_res (a s) (\<lambda>v. if v then Inr True else b s)"

definition cond_str :: "bool rd \<Rightarrow> string \<Rightarrow> string \<Rightarrow> fmt_arg rd" where
  "cond_str b x y s = bind_res (b s) (\<lambda>v. Inr (Str_arg (Some (if v then x else y))))"

section \<open>Looking options up\<close>

fun option_token_get_nofail :: "option_t list \<Rightarrow> string \<Rightarrow> nat option" where
  "option_token_get_nofail [] t = None"
| "option_token_get_nofail (o1 # os) t =
     (if opt_token o1 = t then Some 0 else map_option Suc (option_token_get_nofail os t))"

definition option_token_get :: "option_t list \<Rightarrow> string \<Rightarrow> conf_error + nat" where
  "option_token_get array t = (case option_token_get_nofail array t of
       None \<Rightarrow> Inl (No_such_option t)
     | Some i \<Rightarrow> Inr i)"

definition token_get_str :: "string \<Rightarrow> string option rd" where
  "token_get_str t s =
     bind_res (option_token_get (cfg_options s) t) (\<lambda>i. Inr (opt_value (cfg_options s ! i)))"

definition token_getz :: "string \<Rightarrow> string rd" where
  "token_getz t s =
     bind_res (token_get_str t s) (\<lambda>v. Inr (case v of None \<Rightarrow> '''' | Some x \<Rightarrow> x))"

definition token_is_y :: "string \<Rightarrow> bool rd" where
  "token_is_y t s = bind_res (token_get_str t s) (\<lambda>v. Inr (v = Some ''y''))"

definition str_is_number_value :: "string \<Rightarrow> bool" where
  "str_is_number_value val =
     (if val = [] then True
      else if take 2 val = ''0x'' then
        length (takeWhile isxdigit (drop 2 val)) > 0 \<and> dropWhile isxdigit (drop 2 val) = []
      else length (takeWhile isxdigit val) > 0 \<and> dropWhile isxdigit val = [])"

definition str_to_number :: "string \<Rightarrow> int" where
  "str_to_number val =
     (if val = [] then 0
      else if take 2 val = ''0x'' then scan_hex val
      else scan_dec val)"

definition token_get :: "string \<Rightarrow> int rd" where
  "token_get t s = bind_res (option_token_get (cfg_options s) t) (\<lambda>i.
     let o1 = cfg_options s ! i in
     if opt_type o1 AND (OPT_STR OR OPT_C_STR) \<noteq> 0 then Inl (String_token t)
     else case opt_value o1 of
         None \<Rightarrow> Inr 0
       | Some val \<Rightarrow>
           if opt_type o1 AND OPT_NUMBER \<noteq> 0 then Inr (str_to_number val)
           else Inr (if val = ''y'' \<or> val = ''m'' then 1 else 0))"

text \<open>The tests the scripts write: \<open>if (token_get(t))\<close>, \<open>token_get(t) > 1\<close> and so on.\<close>

definition on :: "string \<Rightarrow> bool rd" where
  "on t s = bind_res (token_get t s) (\<lambda>v. Inr (v \<noteq> 0))"

definition token_cmp :: "(int \<Rightarrow> bool) \<Rightarrow> string \<Rightarrow> bool rd" where
  "token_cmp p t s = bind_res (token_get t s) (\<lambda>v. Inr (p v))"

definition has_str :: "string \<Rightarrow> bool rd" where
  "has_str t s = bind_res (token_get_str t s) (\<lambda>v. Inr (v \<noteq> None))"

definition str_arg :: "string \<Rightarrow> fmt_arg rd" where
  "str_arg t s = bind_res (token_get_str t s) (\<lambda>v. Inr (Str_arg v))"

text \<open>\<open>!strcmp(token_get_str(t), x)\<close>: comparing a null pointer is undefined.\<close>

definition str_is :: "string \<Rightarrow> string \<Rightarrow> bool rd" where
  "str_is t x s = bind_res (token_get_str t s)
     (\<lambda>v. case v of None \<Rightarrow> Inl Undefined | Some y \<Rightarrow> Inr (y = x))"

definition is_dist :: "string \<Rightarrow> bool rd" where
  "is_dist x s = (case cfg_dist s of None \<Rightarrow> Inl Undefined | Some d \<Rightarrow> Inr (d = x))"

definition is_hw :: "string \<Rightarrow> bool rd" where
  "is_hw x s = Inr (cfg_hw s = Some x)"

text \<open>\<open>!strcmp(hw, x)\<close>, without the null test of \<open>IS_HW\<close>.\<close>

definition hw_is :: "string \<Rightarrow> bool rd" where
  "hw_is x s = (case cfg_hw s of None \<Rightarrow> Inl Undefined | Some h \<Rightarrow> Inr (h = x))"

definition dist_set :: "bool rd" where
  "dist_set s = Inr (cfg_dist s \<noteq> None)"

definition hw_set :: "bool rd" where
  "hw_set s = Inr (cfg_hw s \<noteq> None)"

definition os_is :: "string \<Rightarrow> bool rd" where
  "os_is x s = Inr (cfg_os s = x)"

definition is_evaluation :: "bool rd" where
  "is_evaluation s = Inr (cfg_eval s)"

text \<open>\<open>(size = token_get_str(t)) && atoi(size) <= n\<close>\<close>

definition atoi_le :: "string \<Rightarrow> int \<Rightarrow> bool rd" where
  "atoi_le t n s = bind_res (token_get_str t s)
     (\<lambda>v. Inr (case v of None \<Rightarrow> False | Some x \<Rightarrow> atoi x \<le> n))"

text \<open>\<open>dist\<close> and \<open>hw\<close> as strings: dereferencing a null pointer is undefined.\<close>

definition dist_str :: "string option rd" where
  "dist_str s = Inr (cfg_dist s)"

definition hw_str :: "string option rd" where
  "hw_str s = Inr (cfg_hw s)"

definition dist_name :: "string rd" where
  "dist_name s = (case cfg_dist s of None \<Rightarrow> Inl Undefined | Some d \<Rightarrow> Inr d)"

section \<open>Setting options\<close>

text \<open>
  The part of \<open>_token_set\<close> that looks at the value \<open>m\<close>. The source tests
  \<open>!opt->type & OPT_MODULE_EXPAND\<close>, and \<open>!\<close> binds tighter than \<open>&\<close>.
\<close>

definition module_value :: "string \<Rightarrow> option_t \<Rightarrow> string \<Rightarrow> string rd" where
  "module_value t o1 v s =
     (if v = ''m'' then
        if (if opt_type o1 = 0 then 1 else 0) AND OPT_MODULE_EXPAND \<noteq> 0
        then Inl (Not_module_expand t)
        else if opt_type o1 AND OPT_STATIC_ON_DEVELOP \<noteq> 0
        then bind_res (on ''CONFIG_RG_DEV'' s) (\<lambda>d. Inr (if d then ''y'' else v))
        else Inr v
      else Inr v)"

definition store_option :: "string \<Rightarrow> nat \<Rightarrow> set_prio_t \<Rightarrow> string \<Rightarrow> option_t \<Rightarrow> option_t" where
  "store_option file line p v o1 =
     o1\<lparr> opt_file := Some file, opt_line := line, opt_value := Some v, opt_prio := p \<rparr>"

definition replace_log ::
    "string \<Rightarrow> nat \<Rightarrow> set_prio_t \<Rightarrow> string \<Rightarrow> string \<Rightarrow> option_t \<Rightarrow> message list" where
  "replace_log file line p t v o1 = (case opt_value o1 of
       Some old \<Rightarrow> if p = opt_prio o1 \<and> old \<noteq> v
                   then [Replacing t old (opt_file o1) (opt_line o1) v file line] else []
     | None \<Rightarrow> [])"

definition raw_token_set ::
    "string \<Rightarrow> nat \<Rightarrow> set_prio_t \<Rightarrow> string \<Rightarrow> string option \<Rightarrow> fmt_arg list \<Rightarrow> stmt" where
  "raw_token_set file line p t fmt args s =
     (case Option.bind fmt (\<lambda>f. vsnprintf 4096 f args) of
        None \<Rightarrow> Inl Undefined
      | Some v \<Rightarrow>
          if length v > 4096 - 2 then Inl (Value_too_long file line t)
          else bind_res (option_token_get (cfg_options s) t) (\<lambda>i.
            let o1 = cfg_options s ! i in
            if p < opt_prio o1 then Inr s
            else bind_res (module_value t o1 v s) (\<lambda>w.
              Inr (s\<lparr> cfg_options := (cfg_options s)[i := store_option file line p w o1],
                      cfg_log := cfg_log s @ replace_log file line p t w o1 \<rparr>))))"

primrec eval_args :: "fmt_arg rd list \<Rightarrow> fmt_arg list rd" where
  "eval_args [] s = Inr []"
| "eval_args (a # as) s = bind_res (a s) (\<lambda>x. bind_res (eval_args as s) (\<lambda>xs. Inr (x # xs)))"

text \<open>The macros \<open>token_set\<close> and \<open>token_set_default\<close>, with a literal format or a computed one.\<close>

definition token_set :: "string \<Rightarrow> nat \<Rightarrow> string \<Rightarrow> string \<Rightarrow> fmt_arg rd list \<Rightarrow> stmt" where
  "token_set file line t f args s =
     bind_res (eval_args args s) (\<lambda>xs. raw_token_set file line SET_PRIO_TOKEN_SET t (Some f) xs s)"

definition token_set_of :: "string \<Rightarrow> nat \<Rightarrow> string \<Rightarrow> string option rd \<Rightarrow> stmt" where
  "token_set_of file line t r s =
     bind_res (r s) (\<lambda>f. raw_token_set file line SET_PRIO_TOKEN_SET t f [] s)"

definition token_set_default :: "string \<Rightarrow> nat \<Rightarrow> string \<Rightarrow> string \<Rightarrow> fmt_arg rd list \<Rightarrow> stmt" where
  "token_set_default file line t f args s =
     bind_res (eval_args args s)
       (\<lambda>xs. raw_token_set file line SET_PRIO_TOKEN_SET_DEFAULT t (Some f) xs s)"

definition token_set_y :: "string \<Rightarrow> nat \<Rightarrow> string \<Rightarrow> stmt" where
  "token_set_y file line t = raw_token_set file line SET_PRIO_TOKEN_SET t (Some ''y'') []"

definition token_set_m :: "string \<Rightarrow> nat \<Rightarrow> string \<Rightarrow> stmt" where
  "token_set_m file line t s = bind_res (on ''CONFIG_RG_OS_VXWORKS'' s) (\<lambda>vx.
     raw_token_set file line SET_PRIO_TOKEN_SET t (Some (if vx then ''y'' else ''m'')) [] s)"

text \<open>\<open>sprintf\<close> into a character array of \<open>n\<close> bytes: overrunning it is undefined.\<close>

definition sprintf_buf :: "nat \<Rightarrow> string \<Rightarrow> fmt_arg rd list \<Rightarrow> string rd" where
  "sprintf_buf n f args s = bind_res (eval_args args s) (\<lambda>xs. case c_format f xs of
       None \<Rightarrow> Inl Undefined
     | Some v \<Rightarrow> if length v < n then Inr v else Inl Undefined)"

definition conf_err :: "string \<Rightarrow> stmt" where
  "conf_err msg s = Inl (Conf_err msg)"

definition set_hw :: "string \<Rightarrow> stmt" where
  "set_hw x s = Inr (s\<lparr> cfg_hw := Some x \<rparr>)"

definition clear_hw :: stmt where
  "clear_hw s = Inr (s\<lparr> cfg_hw := None \<rparr>)"

definition set_os :: "string \<Rightarrow> stmt" where
  "set_os x s = Inr (s\<lparr> cfg_os := x \<rparr>)"

end
