(* ===== verification/Script_Logic.thy ===== *)
theory Script_Logic
  imports Config_Opt
begin

text \<open>
  How scripts change the option store. Every change is one step of the relation
  \<open>cfg_step\<close>, labelled with what it writes; a script that succeeds is a run of such
  steps. Two judgements on scripts are closed under sequencing and conditionals and are
  established once per script by walking its text: \<open>emits\<close> (which writes it may make)
  and \<open>safe\<close> (which failures it may end in, on a store with a given schema). What every
  step keeps is then a fact about every script.
\<close>

section \<open>Facts about lookup\<close>

lemma nofail_Some:
  "option_token_get_nofail os t = Some i \<Longrightarrow> i < length os \<and> opt_token (os ! i) = t"
  by (induction os arbitrary: i) (auto split: if_splits)

lemma nofail_None_iff: "option_token_get_nofail os t = None \<longleftrightarrow> t \<notin> opt_token ` set os"
  by (induction os) auto

lemma nofail_Some_iff: "(\<exists>i. option_token_get_nofail os t = Some i) \<longleftrightarrow> t \<in> opt_token ` set os"
  using nofail_None_iff [of os t] by (cases "option_token_get_nofail os t") auto

lemma nofail_least:
  "option_token_get_nofail os t = Some i \<Longrightarrow> j < i \<Longrightarrow> opt_token (os ! j) \<noteq> t"
proof (induction os arbitrary: i j)
  case Nil
  then show ?case by simp
next
  case (Cons x xs)
  then show ?case by (cases j) (auto split: if_splits)
qed

lemma nofail_cong:
  "map opt_token os = map opt_token os' \<Longrightarrow> option_token_get_nofail os t = option_token_get_nofail os' t"
proof (induction os arbitrary: os')
  case Nil
  then show ?case by simp
next
  case (Cons x xs)
  from Cons.prems obtain y ys where "os' = y # ys" "opt_token x = opt_token y"
    "map opt_token xs = map opt_token ys" by (cases os') auto
  with Cons.IH [of ys] show ?case by simp
qed

lemma nofail_distinct:
  assumes "distinct (map opt_token os)" "i < length os"
  shows "option_token_get_nofail os (opt_token (os ! i)) = Some i"
proof -
  have "opt_token (os ! i) \<in> opt_token ` set os" using assms(2) by simp
  then obtain j where j: "option_token_get_nofail os (opt_token (os ! i)) = Some j"
    using nofail_Some_iff by blast
  with nofail_Some have "j < length os" "opt_token (os ! j) = opt_token (os ! i)" by blast+
  with assms distinct_map_nth_eq have "j = i" by blast
  with j show ?thesis by simp
qed

lemma store_option_sel [simp]:
  "opt_token (store_option f l p v o1) = opt_token o1"
  "opt_type (store_option f l p v o1) = opt_type o1"
  "opt_description (store_option f l p v o1) = opt_description o1"
  "opt_value (store_option f l p v o1) = Some v"
  "opt_prio (store_option f l p v o1) = p"
  "opt_file (store_option f l p v o1) = Some f"
  "opt_line (store_option f l p v o1) = l"
  by (simp_all add: store_option_def)

section \<open>The step relation\<close>

datatype event =
    Set_Token set_prio_t string string
  | Set_Hw "string option"
  | Set_Os string
  | Add_Jpkg string
  | Log message

inductive cfg_step :: "conf \<Rightarrow> event \<Rightarrow> conf \<Rightarrow> bool" where
  set_token: "option_token_get_nofail (cfg_options s) t = Some i \<Longrightarrow>
     opt_prio (cfg_options s ! i) \<le> p \<Longrightarrow>
     cfg_step s (Set_Token p t v)
       (s\<lparr> cfg_options := (cfg_options s)[i := store_option f l p v (cfg_options s ! i)],
           cfg_log := cfg_log s @ ms \<rparr>)"
| set_hw: "cfg_step s (Set_Hw x) (s\<lparr> cfg_hw := x \<rparr>)"
| set_os: "cfg_step s (Set_Os x) (s\<lparr> cfg_os := x \<rparr>)"
| add_jpkg: "cfg_step s (Add_Jpkg d) (s\<lparr> cfg_jpkg := cfg_jpkg s @ [(d, cfg_base s)] \<rparr>)"
| log: "cfg_step s (Log m) (s\<lparr> cfg_log := cfg_log s @ [m] \<rparr>)"

inductive_cases set_token_stepE: "cfg_step s (Set_Token p t v) s'"

primrec cfg_run :: "conf \<Rightarrow> event list \<Rightarrow> conf \<Rightarrow> bool" where
  "cfg_run s [] s' \<longleftrightarrow> s = s'"
| "cfg_run s (e # es) s' \<longleftrightarrow> (\<exists>t. cfg_step s e t \<and> cfg_run t es s')"

lemma cfg_run_append: "cfg_run s (es @ es') s' \<longleftrightarrow> (\<exists>t. cfg_run s es t \<and> cfg_run t es' s')"
  by (induction es arbitrary: s) auto

text \<open>
  An invariant of the steps is a reflexive and transitive relation between the states
  before and after that every step with an admitted label satisfies.
\<close>

locale step_invariant =
  fixes P :: "event \<Rightarrow> bool" and R :: "conf \<Rightarrow> conf \<Rightarrow> bool"
  assumes refl: "R s s"
    and trans: "R s t \<Longrightarrow> R t u \<Longrightarrow> R s u"
    and step: "cfg_step s e t \<Longrightarrow> P e \<Longrightarrow> R s t"
begin

lemma run: "cfg_run s es s' \<Longrightarrow> list_all P es \<Longrightarrow> R s s'"
  by (induction es arbitrary: s) (auto intro: refl trans step)

end

definition schema_of :: "option_t list \<Rightarrow> (string \<times> opt_type_t) list" where
  "schema_of os = map (\<lambda>o1. (opt_token o1, opt_type o1)) os"

lemma map_fst_schema [simp]: "map fst (schema_of os) = map opt_token os"
  by (simp add: schema_of_def comp_def)

lemma schema_of_update [simp]:
  "schema_of (os[i := store_option f l p v (os ! i)]) = schema_of os"
  unfolding schema_of_def by (rule nth_list_update_map) simp

definition same_schema :: "conf \<Rightarrow> conf \<Rightarrow> bool" where
  "same_schema s t \<longleftrightarrow> schema_of (cfg_options t) = schema_of (cfg_options s)"

interpretation schema: step_invariant "\<lambda>_. True" same_schema
  by unfold_locales (auto simp: same_schema_def elim: cfg_step.cases)

section \<open>What a script may write\<close>

text \<open>A state has schema \<open>sch\<close> when it declares these options, each once.\<close>

definition has_schema :: "(string \<times> opt_type_t) list \<Rightarrow> conf \<Rightarrow> bool" where
  "has_schema sch s \<longleftrightarrow> schema_of (cfg_options s) = sch \<and> distinct (map opt_token (cfg_options s))"

lemma has_schema_in: "has_schema sch s \<Longrightarrow> o1 \<in> set (cfg_options s) \<Longrightarrow> (opt_token o1, opt_type o1) \<in> set sch"
  by (auto simp: has_schema_def schema_of_def)

lemma same_schema_has: "same_schema s s' \<Longrightarrow> has_schema sch s \<Longrightarrow> has_schema sch s'"
  by (metis has_schema_def map_fst_schema same_schema_def)

lemma run_has_schema: "cfg_run s es s' \<Longrightarrow> has_schema sch s \<Longrightarrow> has_schema sch s'"
  by (rule same_schema_has [OF schema.run]) (simp_all add: list_all_iff)

definition emits :: "(string \<times> opt_type_t) list \<Rightarrow> (event \<Rightarrow> bool) \<Rightarrow> stmt \<Rightarrow> bool" where
  "emits sch P c \<longleftrightarrow>
     (\<forall>s s'. has_schema sch s \<longrightarrow> c s = Inr s' \<longrightarrow> (\<exists>es. cfg_run s es s' \<and> list_all P es))"

lemma emitsI:
  "(\<And>s s'. has_schema sch s \<Longrightarrow> c s = Inr s' \<Longrightarrow> \<exists>es. cfg_run s es s' \<and> list_all P es) \<Longrightarrow> emits sch P c"
  by (auto simp: emits_def)

lemma emitsD:
  "emits sch P c \<Longrightarrow> has_schema sch s \<Longrightarrow> c s = Inr s' \<Longrightarrow> \<exists>es. cfg_run s es s' \<and> list_all P es"
  by (auto simp: emits_def)

lemma emits_mono: "emits sch P c \<Longrightarrow> (\<And>e. P e \<Longrightarrow> Q e) \<Longrightarrow> emits sch Q c"
  unfolding emits_def list_all_iff by blast

lemma emits_schema: "emits sch P c \<Longrightarrow> has_schema sch s \<Longrightarrow> c s = Inr s' \<Longrightarrow> has_schema sch s'"
  using run_has_schema by (blast dest: emitsD)

lemma emits_unchanged: "(\<And>s s'. c s = Inr s' \<Longrightarrow> s' = s) \<Longrightarrow> emits sch P c"
proof (rule emitsI)
  fix s s'
  assume "\<And>s s'. c s = Inr s' \<Longrightarrow> s' = s" and "c s = Inr s'"
  then have "s' = s" by blast
  then show "\<exists>es. cfg_run s es s' \<and> list_all P es" by (intro exI [of _ "[]"]) simp
qed

lemma emits_one: "(\<And>s s'. c s = Inr s' \<Longrightarrow> \<exists>e. cfg_step s e s' \<and> P e) \<Longrightarrow> emits sch P c"
proof (rule emitsI)
  fix s s'
  assume one: "\<And>s s'. c s = Inr s' \<Longrightarrow> \<exists>e. cfg_step s e s' \<and> P e" and "c s = Inr s'"
  then obtain e where "cfg_step s e s'" "P e" by blast
  then show "\<exists>es. cfg_run s es s' \<and> list_all P es" by (intro exI [of _ "[e]"]) simp
qed

lemma emits_Nil: "emits sch P (block [])"
  by (rule emits_unchanged) simp

lemma emits_Cons: "emits sch P c \<Longrightarrow> emits sch P (block cs) \<Longrightarrow> emits sch P (block (c # cs))"
proof (rule emitsI)
  fix s s'
  assume c: "emits sch P c" and cs: "emits sch P (block cs)" and h: "has_schema sch s"
    and r: "block (c # cs) s = Inr s'"
  from r obtain t where t: "c s = Inr t" "block cs t = Inr s'" by (auto simp: bind_res_eq_Inr)
  with emitsD [OF c h] emitsD [OF cs emits_schema [OF c h]] obtain es es' where
    "cfg_run s es t" "list_all P es" "cfg_run t es' s'" "list_all P es'" by blast
  then show "\<exists>es. cfg_run s es s' \<and> list_all P es"
    by (intro exI [of _ "es @ es'"]) (auto simp: cfg_run_append)
qed

lemma emits_ifc: "emits sch P (block cs) \<Longrightarrow> emits sch P (block ds) \<Longrightarrow> emits sch P (ifc b cs ds)"
  unfolding emits_def ifc_def by (auto simp: bind_res_eq_Inr split: if_splits)

lemma emits_when: "emits sch P (block cs) \<Longrightarrow> emits sch P (when_c b cs)"
  unfolding when_c_def by (intro emits_ifc emits_Nil)

lemma emits_local: "(\<And>v. emits sch P (block (f v))) \<Longrightarrow> emits sch P (local_c r f)"
  unfolding emits_def local_c_def by (auto simp: bind_res_eq_Inr)

lemma option_token_get_eq [simp]:
  "option_token_get os t = Inr i \<longleftrightarrow> option_token_get_nofail os t = Some i"
  "option_token_get os t = Inl e \<longleftrightarrow> option_token_get_nofail os t = None \<and> e = No_such_option t"
  by (auto simp: option_token_get_def split: option.splits)

lemma module_value_Inr:
  "module_value t o1 v s = Inr w \<Longrightarrow> w = v \<or> v = ''m'' \<and> w = ''y''"
  by (auto simp: module_value_def bind_res_eq_Inr split: if_splits)

text \<open>A successful call stores one value at a priority no lower, or leaves the store alone.\<close>

lemma raw_token_set_Inr:
  assumes "raw_token_set f l p t fmt args s = Inr s'"
  obtains "s' = s"
  | v w where "Option.bind fmt (\<lambda>x. vsnprintf 4096 x args) = Some v"
      and "w = v \<or> v = ''m'' \<and> w = ''y''" and "cfg_step s (Set_Token p t w) s'"
proof -
  from assms obtain v i where v: "Option.bind fmt (\<lambda>x. vsnprintf 4096 x args) = Some v"
    and i: "option_token_get_nofail (cfg_options s) t = Some i"
    and r: "(let o1 = cfg_options s ! i in if p < opt_prio o1 then Inr s
            else bind_res (module_value t o1 v s) (\<lambda>w.
              Inr (s\<lparr> cfg_options := (cfg_options s)[i := store_option f l p w o1],
                      cfg_log := cfg_log s @ replace_log f l p t w o1 \<rparr>))) = Inr s'"
    by (auto simp: raw_token_set_def bind_res_eq_Inr split: option.splits if_splits)
  show thesis
  proof (cases "p < opt_prio (cfg_options s ! i)")
    case True
    with r that(1) show thesis by simp
  next
    case False
    with r obtain w where w: "module_value t (cfg_options s ! i) v s = Inr w"
      and s': "s' = s\<lparr> cfg_options := (cfg_options s)[i := store_option f l p w (cfg_options s ! i)],
                      cfg_log := cfg_log s @ replace_log f l p t w (cfg_options s ! i) \<rparr>"
      by (auto simp: bind_res_eq_Inr Let_def)
    from False have "opt_prio (cfg_options s ! i) \<le> p" by simp
    from set_token [OF i this] s' have "cfg_step s (Set_Token p t w) s'" by simp
    with v module_value_Inr [OF w] that(2) show thesis by blast
  qed
qed

lemma emits_raw_token_set:
  assumes "\<And>v w. Option.bind fmt (\<lambda>x. vsnprintf 4096 x args) = Some v \<Longrightarrow>
             w = v \<or> v = ''m'' \<and> w = ''y'' \<Longrightarrow> P (Set_Token p t w)"
  shows "emits sch P (raw_token_set f l p t fmt args)"
proof (rule emitsI)
  fix s s'
  assume "raw_token_set f l p t fmt args s = Inr s'"
  then show "\<exists>es. cfg_run s es s' \<and> list_all P es"
  proof (cases rule: raw_token_set_Inr)
    case 1
    then show ?thesis by (intro exI [of _ "[]"]) simp
  next
    case (2 v w)
    with assms show ?thesis by (intro exI [of _ "[Set_Token p t w]"]) auto
  qed
qed

section \<open>How a script may fail\<close>

text \<open>
  The failures a script may end in on a store whose schema fits it: a failed dependency,
  an explicit \<open>conf_err\<close>, an overlong value, or a value C leaves undefined. A misspelt
  option, a string option tested as a number, and \<open>m\<close> on an option that takes no module
  are not among them. The exceptions are named: one option the scripts test and no table
  declares, and three untyped options they copy a board's value to.
\<close>

primrec script_failure :: "conf_error \<Rightarrow> bool" where
  "script_failure (No_such_option t) \<longleftrightarrow> t = ''CONFIG_KNCX821XX_PCB''"
| "script_failure (String_token t) \<longleftrightarrow> False"
| "script_failure (Value_too_long f l t) \<longleftrightarrow> True"
| "script_failure (Not_module_expand t) \<longleftrightarrow> t \<in> {''CONFIG_USB_OV511'', ''CONFIG_USB_PWC'', ''CONFIG_USB_SPCA5XX''}"
| "script_failure (Failed_dependency d t) \<longleftrightarrow> True"
| "script_failure (Conf_err m) \<longleftrightarrow> True"
| "script_failure Usage \<longleftrightarrow> False"
| "script_failure (Duplicated t) \<longleftrightarrow> False"
| "script_failure (Illegal x) \<longleftrightarrow> False"
| "script_failure Undefined \<longleftrightarrow> True"

definition settable :: "(string \<times> opt_type_t) list \<Rightarrow> string \<Rightarrow> bool" where
  "settable sch t \<longleftrightarrow> t \<in> fst ` set sch"

definition testable :: "(string \<times> opt_type_t) list \<Rightarrow> string \<Rightarrow> bool" where
  "testable sch t \<longleftrightarrow> (\<exists>ty. (t, ty) \<in> set sch \<and> ty AND (OPT_STR OR OPT_C_STR) = 0)"

text \<open>An option that is neither a number nor a string: a switch.\<close>

definition switch :: "(string \<times> opt_type_t) list \<Rightarrow> string \<Rightarrow> bool" where
  "switch sch t \<longleftrightarrow> (\<exists>ty. (t, ty) \<in> set sch \<and> ty AND (OPT_NUMBER OR OPT_STR OR OPT_C_STR) = 0)"

definition modular :: "(string \<times> opt_type_t) list \<Rightarrow> string \<Rightarrow> bool" where
  "modular sch t \<longleftrightarrow> (\<exists>ty. (t, ty) \<in> set sch \<and> ty AND (OPT_MODULE OR OPT_MODULE_EXPAND) \<noteq> 0)"

lemma nofail_settable:
  "settable (schema_of os) t \<longleftrightarrow> (\<exists>i. option_token_get_nofail os t = Some i)"
  by (simp add: settable_def schema_of_def nofail_Some_iff image_image)

lemma nofail_type:
  assumes "has_schema sch s" "(t, ty) \<in> set sch"
  shows "\<exists>i. option_token_get_nofail (cfg_options s) t = Some i \<and> opt_type (cfg_options s ! i) = ty"
proof -
  from assms obtain i where i: "i < length (cfg_options s)"
    and "opt_token (cfg_options s ! i) = t" "opt_type (cfg_options s ! i) = ty"
    by (auto simp: has_schema_def schema_of_def in_set_conv_nth)
  with nofail_distinct [of "cfg_options s" i] assms(1) show ?thesis by (auto simp: has_schema_def)
qed

lemma has_schema_settable:
  "has_schema sch s \<Longrightarrow> settable sch t \<Longrightarrow> \<exists>i. option_token_get_nofail (cfg_options s) t = Some i"
  using nofail_settable by (auto simp: has_schema_def)

definition rsafe :: "(string \<times> opt_type_t) list \<Rightarrow> 'a rd \<Rightarrow> bool" where
  "rsafe sch r \<longleftrightarrow> (\<forall>s e. has_schema sch s \<longrightarrow> r s = Inl e \<longrightarrow> script_failure e)"

definition safe :: "(string \<times> opt_type_t) list \<Rightarrow> stmt \<Rightarrow> bool" where
  "safe sch c \<longleftrightarrow> (\<forall>s e. has_schema sch s \<longrightarrow> c s = Inl e \<longrightarrow> script_failure e)"

lemma rsafeD: "rsafe sch r \<Longrightarrow> has_schema sch s \<Longrightarrow> r s = Inl e \<Longrightarrow> script_failure e"
  by (simp add: rsafe_def)

lemma safeD: "safe sch c \<Longrightarrow> has_schema sch s \<Longrightarrow> c s = Inl e \<Longrightarrow> script_failure e"
  by (simp add: safe_def)

lemma rsafe_total: "(\<And>s. \<exists>v. r s = Inr v) \<Longrightarrow> rsafe sch r"
  unfolding rsafe_def by (metis Inl_Inr_False)

lemma rsafe_token_get: "testable sch t \<Longrightarrow> rsafe sch (token_get t)"
proof -
  assume "testable sch t"
  then obtain ty where ty: "(t, ty) \<in> set sch" "ty AND (OPT_STR OR OPT_C_STR) = 0"
    by (auto simp: testable_def)
  have False if "has_schema sch s" "token_get t s = Inl e" for s e
    using nofail_type [OF that(1) ty(1)] ty(2) that(2)
    by (auto simp: token_get_def bind_res_eq_Inl Let_def split: if_splits option.splits)
  then show ?thesis by (auto simp: rsafe_def)
qed

lemma rsafe_token_get_str [safe_intros]: "settable sch t \<Longrightarrow> rsafe sch (token_get_str t)"
  using has_schema_settable by (fastforce simp: rsafe_def token_get_str_def bind_res_eq_Inl)

lemma rsafe_bind:
  assumes "rsafe sch r" "\<And>s v e. r s = Inr v \<Longrightarrow> f v s = Inl e \<Longrightarrow> has_schema sch s \<Longrightarrow> script_failure e"
  shows "rsafe sch (\<lambda>s. bind_res (r s) (\<lambda>v. f v s))"
  unfolding rsafe_def
proof (intro allI impI)
  fix s e
  assume "has_schema sch s" "bind_res (r s) (\<lambda>v. f v s) = Inl e"
  with assms show "script_failure e" by (auto simp: bind_res_eq_Inl dest: rsafeD)
qed

lemma rsafe_on: "testable sch t \<Longrightarrow> rsafe sch (on t)"
  unfolding on_def by (rule rsafe_bind) (auto intro: rsafe_token_get)

lemma rsafe_undeclared:
  assumes "\<not> settable sch ''CONFIG_KNCX821XX_PCB''"
  shows "rsafe sch (on ''CONFIG_KNCX821XX_PCB'')"
  unfolding rsafe_def
proof (intro allI impI)
  fix s e
  assume "has_schema sch s" and e: "on ''CONFIG_KNCX821XX_PCB'' s = Inl e"
  with assms have "option_token_get_nofail (cfg_options s) ''CONFIG_KNCX821XX_PCB'' = None"
    using nofail_settable [of "cfg_options s"] by (auto simp: has_schema_def)
  with e show "script_failure e"
    by (auto simp: on_def token_get_def bind_res_eq_Inl option_token_get_def)
qed

lemma rsafe_on_literal [safe_intros]:
  "testable sch t \<or> \<not> settable sch t \<and> t = ''CONFIG_KNCX821XX_PCB'' \<Longrightarrow> rsafe sch (on t)"
  using rsafe_on rsafe_undeclared by blast

lemma rsafe_token_cmp [safe_intros]: "testable sch t \<Longrightarrow> rsafe sch (token_cmp p t)"
  unfolding token_cmp_def by (rule rsafe_bind) (auto intro: rsafe_token_get)

lemma rsafe_token_is_y [safe_intros]: "settable sch t \<Longrightarrow> rsafe sch (token_is_y t)"
  unfolding token_is_y_def by (rule rsafe_bind) (auto intro: rsafe_token_get_str)

lemma rsafe_token_getz [safe_intros]: "settable sch t \<Longrightarrow> rsafe sch (token_getz t)"
  unfolding token_getz_def by (rule rsafe_bind) (auto intro: rsafe_token_get_str)

lemma rsafe_has_str [safe_intros]: "settable sch t \<Longrightarrow> rsafe sch (has_str t)"
  unfolding has_str_def by (rule rsafe_bind) (auto intro: rsafe_token_get_str)

lemma rsafe_str_arg [safe_intros]: "settable sch t \<Longrightarrow> rsafe sch (str_arg t)"
  unfolding str_arg_def by (rule rsafe_bind) (auto intro: rsafe_token_get_str)

lemma rsafe_str_is [safe_intros]: "settable sch t \<Longrightarrow> rsafe sch (str_is t x)"
  unfolding str_is_def by (rule rsafe_bind) (auto intro: rsafe_token_get_str split: option.splits)

lemma rsafe_is_dist [safe_intros]: "rsafe sch (is_dist x)"
  by (auto simp: rsafe_def is_dist_def split: option.splits)

lemma rsafe_is_hw [safe_intros]: "rsafe sch (is_hw x)"
  by (rule rsafe_total) (simp add: is_hw_def)

lemma rsafe_dist_set [safe_intros]: "rsafe sch dist_set"
  by (rule rsafe_total) (simp add: dist_set_def)

lemma rsafe_hw_set [safe_intros]: "rsafe sch hw_set"
  by (rule rsafe_total) (simp add: hw_set_def)

lemma rsafe_os_is [safe_intros]: "rsafe sch (os_is x)"
  by (rule rsafe_total) (simp add: os_is_def)

lemma rsafe_hw_is [safe_intros]: "rsafe sch (hw_is x)"
  by (auto simp: rsafe_def hw_is_def split: option.splits)

lemma rsafe_is_evaluation [safe_intros]: "rsafe sch is_evaluation"
  by (rule rsafe_total) (simp add: is_evaluation_def)

lemma rsafe_atoi_le [safe_intros]: "settable sch t \<Longrightarrow> rsafe sch (atoi_le t n)"
  unfolding atoi_le_def by (rule rsafe_bind) (auto intro: rsafe_token_get_str)

lemma rsafe_dist_str [safe_intros]: "rsafe sch dist_str"
  by (rule rsafe_total) (simp add: dist_str_def)

lemma rsafe_hw_str [safe_intros]: "rsafe sch hw_str"
  by (rule rsafe_total) (simp add: hw_str_def)

lemma rsafe_dist_name [safe_intros]: "rsafe sch dist_name"
  by (auto simp: rsafe_def dist_name_def split: option.splits)

lemma rsafe_pure [safe_intros]: "rsafe sch (pure x)"
  by (rule rsafe_total) (simp add: pure_def)

lemma rsafe_neg [safe_intros]: "rsafe sch b \<Longrightarrow> rsafe sch (neg b)"
  unfolding neg_def by (erule rsafe_bind) simp

lemma rsafe_conj [safe_intros]: "rsafe sch a \<Longrightarrow> rsafe sch b \<Longrightarrow> rsafe sch (conj_c a b)"
  unfolding conj_c_def by (erule rsafe_bind) (auto split: if_splits dest: rsafeD)

lemma rsafe_disj [safe_intros]: "rsafe sch a \<Longrightarrow> rsafe sch b \<Longrightarrow> rsafe sch (disj_c a b)"
  unfolding disj_c_def by (erule rsafe_bind) (auto split: if_splits dest: rsafeD)

lemma rsafe_cond_str [safe_intros]: "rsafe sch b \<Longrightarrow> rsafe sch (cond_str b x y)"
  unfolding cond_str_def by (erule rsafe_bind) simp

lemma rsafe_args_Nil [safe_intros]: "rsafe sch (eval_args [])"
  by (rule rsafe_total) simp

lemma rsafe_args_Cons [safe_intros]:
  assumes "rsafe sch a" "rsafe sch (eval_args as)"
  shows "rsafe sch (eval_args (a # as))"
  using assms by (auto simp: rsafe_def bind_res_eq_Inl)

lemma rsafe_sprintf_buf [safe_intros]: "rsafe sch (eval_args args) \<Longrightarrow> rsafe sch (sprintf_buf n f args)"
  unfolding sprintf_buf_def by (erule rsafe_bind) (auto split: option.splits if_splits)

section \<open>Scripts that fit a schema\<close>

text \<open>
  The writes the scripts may make: always with the priority of \<open>token_set\<close>, and, but
  for a set \<open>V\<close> of options that carry values, only on switches, \<open>y\<close>, or \<open>m\<close> if the
  option's type admits modules. Only distributions of a set \<open>J\<close> are bundled.
\<close>

primrec policy :: "(string \<times> opt_type_t) list \<Rightarrow> string set \<Rightarrow> string set \<Rightarrow> event \<Rightarrow> bool" where
  "policy sch V J (Set_Token p t v) \<longleftrightarrow>
     p = SET_PRIO_TOKEN_SET \<and> ((v = ''y'' \<or> v = ''m'' \<and> modular sch t) \<and> switch sch t \<or> t \<in> V)"
| "policy sch V J (Set_Hw x) \<longleftrightarrow> True"
| "policy sch V J (Set_Os x) \<longleftrightarrow> True"
| "policy sch V J (Add_Jpkg d) \<longleftrightarrow> d \<in> J"
| "policy sch V J (Log m) \<longleftrightarrow> True"

definition typed :: "(string \<times> opt_type_t) list \<Rightarrow> string \<Rightarrow> bool" where
  "typed sch t \<longleftrightarrow> (\<exists>ty. (t, ty) \<in> set sch \<and> ty \<noteq> 0)"

lemma switch_settable: "switch sch t \<Longrightarrow> settable sch t"
  by (force simp: switch_def settable_def)

lemma modular_typed: "modular sch t \<Longrightarrow> typed sch t"
  by (auto simp: typed_def modular_def)

definition ok :: "(string \<times> opt_type_t) list \<Rightarrow> string set \<Rightarrow> string set \<Rightarrow> stmt \<Rightarrow> bool" where
  "ok sch V J c \<longleftrightarrow> emits sch (policy sch V J) c \<and> safe sch c"

lemma ok_emits: "ok sch V J c \<Longrightarrow> emits sch (policy sch V J) c"
  and ok_safe: "ok sch V J c \<Longrightarrow> safe sch c"
  by (simp_all add: ok_def)

lemma ok_schema: "ok sch V J c \<Longrightarrow> c s = Inr s' \<Longrightarrow> has_schema sch s \<Longrightarrow> has_schema sch s'"
  by (metis ok_def emits_schema)

lemma ok_Nil [safe_intros]: "ok sch V J (block [])"
  by (simp add: ok_def emits_Nil safe_def)

lemma ok_Cons [safe_intros]: "ok sch V J c \<Longrightarrow> ok sch V J (block cs) \<Longrightarrow> ok sch V J (block (c # cs))"
proof -
  assume c: "ok sch V J c" and cs: "ok sch V J (block cs)"
  have "script_failure e" if "has_schema sch s" "block (c # cs) s = Inl e" for s e
    using that ok_schema [OF c] ok_safe [OF c] ok_safe [OF cs]
    by (auto simp: bind_res_eq_Inl dest: safeD)
  with c cs show ?thesis by (auto simp: ok_def safe_def intro: emits_Cons)
qed

lemma ok_ifc [safe_intros]:
  "rsafe sch b \<Longrightarrow> ok sch V J (block cs) \<Longrightarrow> ok sch V J (block ds) \<Longrightarrow> ok sch V J (ifc b cs ds)"
  by (auto simp: ok_def safe_def ifc_def bind_res_eq_Inl split: if_splits
      intro: emits_ifc dest: rsafeD)

lemma ok_when [safe_intros]: "rsafe sch b \<Longrightarrow> ok sch V J (block cs) \<Longrightarrow> ok sch V J (when_c b cs)"
  unfolding when_c_def by (intro ok_ifc ok_Nil)

lemma ok_cases_Nil [safe_intros]: "ok sch V J (block ds) \<Longrightarrow> ok sch V J (cases_c [] ds)"
  by simp

lemma ok_cases_Cons [safe_intros]:
  "rsafe sch b \<Longrightarrow> ok sch V J (block cs) \<Longrightarrow> ok sch V J (cases_c xs ds) \<Longrightarrow> ok sch V J (cases_c ((b, cs) # xs) ds)"
  by (simp add: ok_ifc ok_Cons ok_Nil)

lemma ok_block_map: "(\<And>x. x \<in> set xs \<Longrightarrow> ok sch V J (f x)) \<Longrightarrow> ok sch V J (block (map f xs))"
  by (induction xs) (auto intro: ok_Nil ok_Cons simp del: block.simps)

lemma ok_local [safe_intros]:
  assumes "rsafe sch r" "\<And>v. ok sch V J (block (f v))"
  shows "ok sch V J (local_c r f)"
  using assms by (auto simp: ok_def safe_def local_c_def bind_res_eq_Inl
      intro: emits_local dest: rsafeD)

lemma ok_conf_err [safe_intros]: "ok sch V J (conf_err m)"
  by (auto simp: ok_def safe_def emits_def conf_err_def)

lemma ok_set_hw [safe_intros]: "ok sch V J (set_hw x)"
  by (auto simp: ok_def safe_def set_hw_def intro!: emits_one cfg_step.set_hw)

lemma ok_clear_hw [safe_intros]: "ok sch V J clear_hw"
  by (auto simp: ok_def safe_def clear_hw_def intro!: emits_one cfg_step.set_hw)

lemma ok_set_os [safe_intros]: "ok sch V J (set_os x)"
  by (auto simp: ok_def safe_def set_os_def intro!: emits_one cfg_step.set_os)

text \<open>Setting an option the schema declares fails only on the value's account.\<close>

lemma raw_token_set_Inl:
  assumes "raw_token_set f l p t fmt args s = Inl e"
    and "option_token_get_nofail (cfg_options s) t = Some i"
  shows "script_failure e \<or> (Option.bind fmt (\<lambda>x. vsnprintf 4096 x args) = Some ''m''
           \<and> module_value t (cfg_options s ! i) ''m'' s = Inl e)"
  using assms
  by (auto simp: raw_token_set_def bind_res_eq_Inl Let_def option_token_get_def module_value_def
      split: option.splits if_splits)

text \<open>
  A schema the accessors can work with: the two options they test themselves are
  declared and are not strings.
\<close>

locale script_schema =
  fixes sch :: "(string \<times> opt_type_t) list" and V :: "string set"
  assumes vx: "testable sch ''CONFIG_RG_OS_VXWORKS''"
    and dev: "testable sch ''CONFIG_RG_DEV''"
begin

lemma safe_typed: "typed sch t \<Longrightarrow> safe sch (raw_token_set f l p t fmt args)"
proof -
  assume "typed sch t"
  then obtain ty where ty: "(t, ty) \<in> set sch" "ty \<noteq> 0" by (auto simp: typed_def)
  have "script_failure e" if h: "has_schema sch s" and e: "raw_token_set f l p t fmt args s = Inl e" for s e
  proof -
    from nofail_type [OF h ty(1)] obtain i where
      i: "option_token_get_nofail (cfg_options s) t = Some i" and "opt_type (cfg_options s ! i) = ty"
      by blast
    with ty(2) have "module_value t (cfg_options s ! i) ''m'' s = Inl e \<Longrightarrow> on ''CONFIG_RG_DEV'' s = Inl e"
      by (auto simp: module_value_def bind_res_eq_Inl split: if_splits)
    with raw_token_set_Inl [OF e i] rsafe_on [OF dev] h show ?thesis by (auto dest: rsafeD)
  qed
  then show ?thesis by (simp add: safe_def)
qed

lemma safe_not_m:
  assumes "settable sch t" "Option.bind fmt (\<lambda>x. vsnprintf 4096 x args) \<noteq> Some ''m''"
  shows "safe sch (raw_token_set f l p t fmt args)"
  unfolding safe_def using raw_token_set_Inl has_schema_settable assms by metis

lemma ok_set_y: "switch sch t \<or> settable sch t \<and> t \<in> V \<Longrightarrow> ok sch V J (token_set_y f l t)"
  unfolding ok_def token_set_y_def
  by (intro conjI emits_raw_token_set safe_not_m) (auto simp: vsnprintf_plain switch_settable)

lemma ok_bind:
  assumes "rsafe sch r" "\<And>v. emits sch (policy sch V J) (c v)" "\<And>v. safe sch (c v)"
  shows "ok sch V J (\<lambda>s. bind_res (r s) (\<lambda>v. c v s))"
  using assms by (auto simp: ok_def emits_def safe_def bind_res_iffs dest: rsafeD)

lemma ok_set_m: "modular sch t \<Longrightarrow> switch sch t \<or> t \<in> V \<Longrightarrow> ok sch V J (token_set_m f l t)"
  unfolding token_set_m_def
  by (rule ok_bind, rule rsafe_on [OF vx], rule emits_raw_token_set)
    (auto simp: vsnprintf_plain intro: safe_typed modular_typed split: if_splits)

lemma ok_set_plain:
  assumes "settable sch t" "t \<in> V \<or> x = ''y'' \<and> switch sch t" "CHR ''%'' \<notin> set x" "x \<noteq> ''m'' \<or> typed sch t"
  shows "ok sch V J (token_set f l t x [])"
proof -
  have "Option.bind (Some x) (\<lambda>x. vsnprintf 4096 x xs) \<noteq> Some ''m''" if "x \<noteq> ''m''" for xs
    using assms(3) that take_eq_short [of 4095 x "''m''"] by (auto simp: vsnprintf_def c_format_plain)
  with assms show ?thesis unfolding token_set_def
    by (intro ok_bind rsafe_args_Nil emits_raw_token_set)
      (auto simp: vsnprintf_plain intro: safe_not_m safe_typed)
qed

lemma ok_set_fmt:
  assumes "typed sch t" "t \<in> V" "rsafe sch (eval_args (a # as))"
  shows "ok sch V J (token_set f l t x (a # as))"
  unfolding token_set_def using assms
  by (intro ok_bind [OF assms(3)] emits_raw_token_set) (auto intro: safe_typed)

lemma safe_untyped:
  assumes "settable sch t" "script_failure (Not_module_expand t)"
  shows "safe sch (raw_token_set f l p t fmt args)"
  unfolding safe_def
proof (intro allI impI)
  fix s e
  assume h: "has_schema sch s" and e: "raw_token_set f l p t fmt args s = Inl e"
  from has_schema_settable [OF h assms(1)] obtain i where
    "option_token_get_nofail (cfg_options s) t = Some i" by blast
  from raw_token_set_Inl [OF e this] rsafe_on [OF dev] h assms(2) show "script_failure e"
    by (auto simp: module_value_def bind_res_eq_Inl split: if_splits dest: rsafeD)
qed

lemma ok_set_of:
  assumes "typed sch t \<or> settable sch t \<and> script_failure (Not_module_expand t)" "t \<in> V" "rsafe sch r"
  shows "ok sch V J (token_set_of f l t r)"
  unfolding token_set_of_def using assms
  by (intro ok_bind emits_raw_token_set) (auto intro: safe_typed safe_untyped simp del: script_failure.simps)

lemmas ok_sets = ok_set_y ok_set_m ok_set_plain ok_set_fmt ok_set_of

end

end
