(* ===== verification/Option_Tables.thy ===== *)
theory Option_Tables
  imports Script_Logic
begin

text \<open>
  The option tables of \<open>config_opt.c\<close>, entry by entry: the boards, the operating
  systems, the distributions, and the configuration options with their types. The
  array of configuration options is cut into consecutive pieces.
\<close>

unbundle bit_operations_syntax

definition openrg_hw_options :: "option_t list" where
  "openrg_hw_options = [
   opt ''WADB102GB'' (Some ''BCM6348'') 0 None,
   opt ''ASUS6020VI'' (Some ''BCM6348'') 0 None,
   opt ''WADB100G'' (Some ''BCM6348'') 0 None,
   opt ''MPC8272ADS'' (Some ''FreeScale mpc8272ads'') 0 None,
   opt ''EP8248'' (Some ''Embedded Planet EP8248 (FreeScale mpc8248)'') 0 None,
   opt ''MPC8349ITX'' (Some ''FreeScale mpc8349-itx'') 0 None,
   opt ''ALLWELL_RTL_RTL'' (Some ''Allwell'') 0 None,
   opt ''ALLWELL_RTL_RTL_ISL38XX'' (Some ''Allwell'') 0 None,
   opt ''ALLWELL_RTL_EEP'' (Some ''Allwell 1030N'') 0 None,
   opt ''ALLWELL_ATMNULL_RTL'' (Some ''Allwell'') 0 None,
   opt ''PCBOX_EEP_EEP'' (Some ''Generic PCBOX'') 0 None,
   opt ''CX82100'' (Some ''Conexant CX82100'') 0 None,
   opt ''TI_404'' (Some ''TNETC440'') 0 None,
   opt ''AR531X_G'' (Some ''Atheros AR531x'') 0 None,
   opt ''AR531X_AG'' (Some ''Atheros AR531x A+G'') 0 None,
   opt ''AR531X_WRT55AG'' (Some ''Gemtek WRT55AG Atheros AR531X'') 0 None,
   opt ''WRT108G'' (Some ''WRT108G'') 0 None,
   opt ''TI_TNETWA100'' (Some ''TI TNETWA100 AP VX'') 0 None,
   opt ''I386_BOCHS'' (Some ''Jungo i386'') 0 None,
   opt ''IXDP425'' (Some ''IXDP425'') 0 None,
   opt ''IXDP425_TMT'' (Some ''IXDP425'') 0 None,
   opt ''MATECUMBE'' (Some ''Matecumbe'') 0 None,
   opt ''COYOTE'' (Some ''Coyote'') 0 None,
   opt ''KINGSCANYON'' (Some ''Kings Canyon'') 0 None,
   opt ''ROCKAWAYBEACH'' (Some ''Rockaway Beach'') 0 None,
   opt ''HG21'' (Some ''HG21'') 0 None,
   opt ''NAPA'' (Some ''Napa'') 0 None,
   opt ''BAMBOO'' (Some ''Bamboo'') 0 None,
   opt ''BCM94702'' (Some ''Broadcom 94702'') 0 None,
   opt ''BCM94704'' (Some ''Broadcom 94704'') 0 None,
   opt ''BCM94712'' (Some ''Broadcom 94712'') 0 None,
   opt ''BCM96358'' (Some ''Broadcom 96358'') 0 None,
   opt ''RTA770W'' (Some ''Belkin RTA770W'') 0 None,
   opt ''GTWX5803'' (Some ''Gemtek GTWX5803'') 0 None,
   opt ''RTA770W_RGLOADER'' (Some ''Belkin RTA770W RGLoader'') 0 None,
   opt ''WRT54G'' (Some ''Cybertan WRT54G'') 0 None,
   opt ''USR8200'' (Some ''US Robotics USR8200'') 0 None,
   opt ''GTWX5715'' (Some ''Gemtek WX5715'') 0 None,
   opt ''WAV54G'' (Some ''Cybertan WAV54G'') 0 None,
   opt ''INCAIP'' (Some ''Infineon INCA-IP'') 0 None,
   opt ''INCAIP_LSP'' (Some ''Infineon INCA-IP LSP'') 0 None,
   opt ''INCAIP_RGLOADER'' (Some ''RGLoader for Infineon INCA-IP'') 0 None,
   opt ''ALLTEK'' (Some ''Alltek INCA-IP ATA'') 0 None,
   opt ''FLEXTRONICS'' (Some ''Infineon Flextronics'') 0 None,
   opt ''ALLTEK_VLAN'' (Some ''Alltek INCA-IP IAD'') 0 None,
   opt ''ALLTEK_RGLOADER'' (Some ''RGLoader for Infineon INCA-IP ATA/IAD'') 0 None,
   opt ''ADM5120P'' (Some ''ADMTek 5120P'') 0 None,
   opt ''BCM91125E'' (Some ''Broadcom 91125E'') 0 None,
   opt ''COLORADO'' (Some ''Interface Masters Colorado'') 0 None,
   opt ''CX8620XR'' (Some ''Conexant CX8620X Reference Board'') 0 None,
   opt ''CX8620XD'' (Some ''Conexant CX8620X Development Board'') 0 None,
   opt ''CX9451X'' (Some ''Conexant CX9451x Solos'') 0 None,
   opt ''COMCERTO'' (Some ''Mindspeed M828xx Development Board'') 0 None,
   opt ''CENTROID'' (Some ''Storlink Centroid'') 0 None,
   opt ''MONTEJADE'' (Some ''Monte Jade'') 0 None,
   opt ''PUNDIT'' (Some ''Asus Pundit'') 0 None,
   opt ''BRUCE'' (Some ''Jabil Bruce'') 0 None,
   opt ''JIWIS800'' (Some ''JStream JI-WIS 800 Platform'') 0 None,
   opt ''JIWIS832'' (Some ''JStream JI-WIS 832 Platform'') 0 None,
   opt ''JIWIS832FL'' (Some ''JStream JI-WIS 832FL (Forval) Platform'') 0 None,
   opt ''TWINPASS'' (Some ''Infineon TwinPass Reference Board'') 0 None,
   opt ''ULTRALINE3_TWINPASS'' (Some ''Westell UltraLine Series3'') 0 None,
   opt ''ULTRALINE3_TWINPASS_TURBO'' (Some ''Westell UltraLine Series3 Turbo'') 0 None,
   opt ''AD6834'' (Some ''ADI AD6834 Reference Board'') 0 None,
   opt ''CENTAUR'' (Some ''MICREL CENTAUR KS8695PX'') 0 None,
   opt ''UML'' (Some ''UML'') 0 None,
   opt ''JPKG'' (Some ''JPKG'') 0 None]"

definition openrg_os_options :: "option_t list" where
  "openrg_os_options = [
   opt ''LINUX_22'' None 0 None,
   opt ''LINUX_24'' None 0 None,
   opt ''LINUX_26'' None 0 None,
   opt ''ECOS'' None 0 None,
   opt ''VXWORKS'' None 0 None]"

definition openrg_distribution_options_1 :: "option_t list" where
  "openrg_distribution_options_1 = [
   opt ''INCAIP_LSP'' None 0 None,
   opt ''INCAIP'' None 0 None,
   opt ''INCAIP_IPPHONE'' None 0 None,
   opt ''INCAIP_ATA'' None 0 None,
   opt ''INCAIP_ATA_OSIP'' None 0 None,
   opt ''INCAIP_VGW'' None 0 None,
   opt ''INCAIP_VGW_OSIP'' None 0 None,
   opt ''INCAIP_FULLSOURCE'' None 0 None,
   opt ''FLEXTRONICS_IPPHONE'' None 0 None,
   opt ''ADM5120_LSP'' None 0 None,
   opt ''BCM91125E'' None 0 None,
   opt ''BCM_SB1125'' None 0 None,
   opt ''RGLOADER_ADM5120'' None 0 None,
   opt ''ADM5120_VGW'' None 0 None,
   opt ''ADM5120_VGW_OSIP'' None 0 None,
   opt ''ADM5120_ATA'' None 0 None,
   opt ''BCM94702'' None 0 None,
   opt ''BCM94704'' None 0 None,
   opt ''USI_BCM94712'' None 0 None,
   opt ''SRI_USI_BCM94712'' None 0 None,
   opt ''RTA770W'' None 0 None,
   opt ''RTA770W_EVAL'' None 0 None,
   opt ''RGLOADER_RTA770W'' None 0 None,
   opt ''GTWX5803'' None 0 None,
   opt ''RGLOADER_GTWX5803'' None 0 None,
   opt ''WRT54G'' None 0 None,
   opt ''BCM96358'' None 0 None,
   opt ''BCM96358_LSP'' None 0 None,
   opt ''ALLWELL_RTL_RTL'' None 0 None,
   opt ''ALLWELL_RTL_RTL_SSI'' None 0 None,
   opt ''ALLWELL_RTL_RTL_ISL38XX'' None 0 None,
   opt ''ALLWELL_RTL_RTL_ALADDIN'' None 0 None,
   opt ''ALLWELL_RTL_RTL_WELLTECH'' None 0 None,
   opt ''ALLWELL_RTL_EEP'' None 0 None,
   opt ''ALLWELL_ATMNULL_RTL'' None 0 None,
   opt ''PCBOX_EEP_EEP'' None 0 None,
   opt ''PCBOX_EEP_EEP_EICON'' None 0 None,
   opt ''PCBOX_RTL_RTL_EICON'' None 0 None,
   opt ''X86_FRG_TMT'' None 0 None,
   opt ''CX82100_SCHMID'' None 0 None,
   opt ''CENTROID'' None 0 None,
   opt ''RGLOADER_CENTROID'' None 0 None,
   opt ''IXDP425'' None 0 None,
   opt ''IXDP425_WIRELESS'' None 0 None,
   opt ''IXDP425_ATM_WIRELESS'' None 0 None,
   opt ''IXDP425_FULLSOURCE'' None 0 None,
   opt ''IXDP425_NETKLASS'' None 0 None,
   opt ''IXDP425_VPN'' None 0 None,
   opt ''IXDP425_FRG'' None 0 None,
   opt ''IXDP425_TMT'' None 0 None,
   opt ''WADB102GB'' None 0 None,
   opt ''RGLOADER_WADB102GB'' (Some ''WADB102GB RGLOADER'') 0 None,
   opt ''ASUS6020VI'' None 0 None,
   opt ''WADB100G'' None 0 None,
   opt ''RGLOADER_WADB100G'' (Some ''WADB100G RGLOADER'') 0 None,
   opt ''MPC8272ADS_LSP'' None 0 None,
   opt ''MPC8272ADS'' None 0 None,
   opt ''EP8248_LSP_26'' None 0 None,
   opt ''EP8248_26'' None 0 None,
   opt ''MPC8349ITX_LSP'' None 0 None,
   opt ''MPC8349ITX'' None 0 None,
   opt ''IXDP425_LSP'' None 0 None,
   opt ''IXDP425_ATM'' None 0 None,
   opt ''COYOTE_CAVIUM'' None 0 None,
   opt ''MATECUMBE'' None 0 None,
   opt ''COYOTE'' None 0 None,
   opt ''COYOTE_ACTIONTEC_OSIP'' None 0 None,
   opt ''KINGSCANYON'' None 0 None,
   opt ''RGLOADER_KINGSCANYON_LSP'' None 0 None,
   opt ''KINGSCANYON_LSP'' None 0 None,
   opt ''KINGSCANYON_WIRELESS'' None 0 None,
   opt ''ROCKAWAYBEACH'' None 0 None,
   opt ''ROCKAWAYBEACH_WIRELESS'' None 0 None,
   opt ''HG21'' None 0 None,
   opt ''COYOTE_LSP'' None 0 None,
   opt ''COYOTE_WIRELESS_80211B'' None 0 None,
   opt ''COYOTE_WIRELESS_ISL'' None 0 None,
   opt ''COYOTE_WIRELESS_SOFTMAC'' None 0 None,
   opt ''COYOTE_WIRELESS_RALINK'' None 0 None,
   opt ''COYOTE_EEP'' None 0 None,
   opt ''BRUCE'' None 0 None,
   opt ''RGLOADER_BRUCE'' None 0 None,
   opt ''COYOTE_ATM_WIRELESS_ISL'' (Some ''Coyote with ADSL and Wireless'') 0 None,
   opt ''COYOTE_ALL'' (Some ''Coyote with everything on it'') 0 None,
   opt ''NAPA'' None 0 None,
   opt ''BAMBOO'' None 0 None,
   opt ''BAMBOO_ALADDIN'' None 0 None,
   opt ''USR8200'' None 0 None,
   opt ''USR8200_ALADDIN'' None 0 None,
   opt ''USR8200_EVAL'' None 0 None,
   opt ''USR8200_TUTORIAL'' None 0 None,
   opt ''GTWX5715'' None 0 None,
   opt ''IXDP425_CYBERTAN'' None 0 None,
   opt ''WAV54G'' None 0 None,
   opt ''MONTEJADE'' None 0 None,
   opt ''MONTEJADE_ATM'' None 0 None,
   opt ''TWINPASS'' None 0 None,
   opt ''ULTRALINE3_TWINPASS'' None 0 None,
   opt ''WSTL_ULS3_DUAL_MOCA_64'' None 0 None,
   opt ''WSTL_ULS3_DUAL_MOCA_USB_64'' None 0 None,
   opt ''WSTL_ULS3_DUAL_MOCA_USB_11N_64'' None 0 None,
   opt ''WSTL_ULS3_VDSL_IKANOS_64'' None 0 None,
   opt ''WSTL_ULS3_VDSL_INFINEON_64'' None 0 None,
   opt ''WSTL_ULS3_VDSL_IKANOS_GENERIC_64'' None 0 None,
   opt ''WSTL_ULS3_WAN_ETHERNET_64'' None 0 None,
   opt ''WSTL_ULS3_WAN_ETHERNET_CO_64'' None 0 None,
   opt ''WSTL_ULS3_DMOCA_GENERIC_64'' None 0 None,
   opt ''WSTL_ULS3_VDSL_INFINEON_GENERIC_64'' None 0 None,
   opt ''WSTL_ULS3_TURBO_DUAL_MOCA_64'' None 0 None,
   opt ''WSTL_ULS3_TURBO_DUAL_MOCA_11N_64'' None 0 None,
   opt ''WSTL_ULS3_TURBO_M100_64'' None 0 None,
   opt ''WSTL_ULS3_TURBO_COMMON_ART_64'' None 0 None,
   opt ''WSTL_ULS3_VDSL_INFINEON_GENERIC_USB_64'' None 0 None,
   opt ''AD6834'' None 0 None,
   opt ''AD6834_26'' None 0 None,
   opt ''AD6834_26_LSP'' None 0 None,
   opt ''REDBOOT_RICHFIELD'' None 0 None,
   opt ''REDBOOT_MATECUMBE'' None 0 None,
   opt ''REDBOOT_COYOTE'' None 0 None,
   opt ''REDBOOT_NAPA'' None 0 None,
   opt ''CX8620XR_LSP'' None 0 None,
   opt ''CX8620XD_LSP'' None 0 None,
   opt ''CX8620XR'' None 0 None,
   opt ''CX8620XD_FILESERVER'' None 0 None,
   opt ''CX8620XD_SOHO'' None 0 None,
   opt ''RGLOADER_CX8620XD'' None 0 None,
   opt ''SOLOS'' None 0 None,
   opt ''SOLOS_LSP'' None 0 None,
   opt ''MALINDI'' None 0 None,
   opt ''MALINDI2'' None 0 None]"

definition openrg_distribution_options_2 :: "option_t list" where
  "openrg_distribution_options_2 = [
   opt ''RGLOADER_MATECUMBE'' None 0 None,
   opt ''RGLOADER_IXDP425'' None 0 None,
   opt ''RGLOADER_IXDP425_16MB'' None 0 None,
   opt ''RGLOADER_IXDP425_LSP'' None 0 None,
   opt ''RGLOADER_NAPA'' None 0 None,
   opt ''RGLOADER_KINGSCANYON'' None 0 None,
   opt ''RGLOADER_ROCKAWAYBEACH'' None 0 None,
   opt ''RGLOADER_USR8200'' None 0 None,
   opt ''RGLOADER_COYOTE'' None 0 None,
   opt ''RGLOADER_COYOTE_64MB_RAM'' None 0 None,
   opt ''RGLOADER_COYOTE_64MB_RAM_32MB_FLASH'' None 0 None,
   opt ''RGLOADER_COYOTE_LSP'' None 0 None,
   opt ''RGLOADER_HG21'' None 0 None,
   opt ''RGLOADER_GTWX5715'' None 0 None,
   opt ''RGLOADER_BAMBOO'' None 0 None,
   opt ''RGLOADER_ALLWELL_RTL_RTL'' None 0 None,
   opt ''RGLOADER_ALLWELL_RTL_EEP'' None 0 None,
   opt ''RGLOADER_ALLWELL_EEP_EEP'' None 0 None,
   opt ''RGLOADER_UML'' None 0 None,
   opt ''RGLOADER_WAV54G'' None 0 None,
   opt ''RGLOADER_X86_TMT'' None 0 None,
   opt ''RGLOADER_INCAIP'' None 0 None,
   opt ''RGLOADER_ALLTEK'' None 0 None,
   opt ''RGLOADER_ALLTEK_FULLSOURCE'' None 0 None,
   opt ''RGLOADER_FLEXTRONICS'' None 0 None,
   opt ''RGLOADER_MONTEJADE'' None 0 None,
   opt ''RGLOADER_JIWIS8XX'' None 0 None,
   opt ''TI_WPA_VX'' None 0 None,
   opt ''TI_404_VX_EVAL'' None 0 None,
   opt ''TI_404_VX_CH_ESCROW_FULL'' None 0 None,
   opt ''TI_404_VX_CH_ESCROW_PARTIAL'' None 0 None,
   opt ''TI_TNETC440_VX_CH'' None 0 None,
   opt ''HITRON_TNETC440_VX'' None 0 None,
   opt ''HITRON_TNETC440_VX_CH'' None 0 None,
   opt ''TI_404_VX_CH_EVAL'' None 0 None,
   opt ''ARRIS_TI_404_VX'' None 0 None,
   opt ''ARRIS_TI_404_VX_CH'' None 0 None,
   opt ''T_TI_404_VX'' None 0 None,
   opt ''T_TI_404_VX_CH'' None 0 None,
   opt ''AR2313_LIZZY'' None 0 None,
   opt ''AR2313_ZIPPY'' None 0 None,
   opt ''ATHEROS_AR531X_VX'' None 0 None,
   opt ''WRT108G_VX'' None 0 None,
   opt ''WRT55AG'' None 0 None,
   opt ''WRT55AG_INT'' None 0 None,
   opt ''ATHEROS_AR531X_AG_VX'' None 0 None,
   opt ''I386_BOCHS_VX'' None 0 None,
   opt ''BOCHS_LIZZY'' None 0 None,
   opt ''BOCHS_ZIPPY'' None 0 None,
   opt ''ALLWELL_RTL_RTL_VALGRIND'' None 0 None,
   opt ''UML_ATM'' None 0 None,
   opt ''UML_ATM_VALGRIND'' None 0 None,
   opt ''UML'' None 0 None,
   opt ''UML_GLIBC'' None 0 None,
   opt ''UML_DUAL_WAN'' None 0 None,
   opt ''UML_26'' None 0 None,
   opt ''UML_LSP'' None 0 None,
   opt ''UML_LSP_26'' None 0 None,
   opt ''UML_VALGRIND'' None 0 None,
   opt ''UML_IPPHONE_VALGRIND'' None 0 None,
   opt ''UML_IPPHONE'' None 0 None,
   opt ''UML_ATA'' None 0 None,
   opt ''UML_ATA_OSIP'' None 0 None,
   opt ''UML_ATA_OSIP_VALGRIND'' None 0 None,
   opt ''UML_ATA_VALGRIND'' None 0 None,
   opt ''CENTAUR'' (Some ''MICREL CENTAUR KS8695PX'') 0 None,
   opt ''CENTAUR_VGW'' (Some ''MICREL CENTAUR KS8695PX VOICE GATEWAY'') 0 None,
   opt ''CENTAUR_LSP'' (Some ''MICREL CENTAUR KS8695PX LSP'') 0 None,
   opt ''RGLOADER_CENTAUR'' (Some ''MICREL CENTAUR KS8695PX RGLOADER'') 0 None,
   opt ''JIWIS8XX'' (Some ''JStream JI-WIS 8XX'') 0 None,
   opt ''JPKG_SRC'' None 0 None,
   opt ''JPKG_I386'' None 0 None,
   opt ''JPKG_UML'' None 0 None,
   opt ''JPKG_ARMV5B'' None 0 None,
   opt ''JPKG_ARMV5L'' None 0 None,
   opt ''JPKG_PPC'' None 0 None,
   opt ''JPKG_BCM9634X'' None 0 None,
   opt ''JPKG_MIPSEB'' None 0 None,
   opt ''JPKG_SB1250'' None 0 None,
   opt ''JPKG_TWINPASS'' None 0 None,
   opt ''JPKG_XSCALE'' None 0 None,
   opt ''JPKG_ARM_920T_LE'' None 0 None,
   opt ''JPKG_LX4189'' None 0 None,
   opt ''JPKG_LOCAL_I386'' None 0 None,
   opt ''JPKG_ARMV4L'' None 0 None,
   opt ''JPKG_ARM_LINUX_UCLIBC'' None 0 None,
   opt ''FULL'' (Some ''Full distribution (OS-less, HW-less)'') 0 None,
   opt ''RGTV'' None 0 None,
   opt ''JNET_SERVER'' None 0 None]"

definition openrg_distribution_options :: "option_t list" where
  "openrg_distribution_options =
     openrg_distribution_options_1 @
     openrg_distribution_options_2"

definition config_options_base_1 :: "option_t list" where
  "config_options_base_1 = [
   opt ''CONFIG_RG_DEV_IF_EEPRO100'' None 0 None,
   opt ''CONFIG_RG_DEV_IF_EEPRO1000'' None 0 None,
   opt ''CONFIG_RG_DEV_IF_ETH1394'' None 0 None,
   opt ''CONFIG_RG_DEV_IF_INCAIP_ETH'' None 0 None,
   opt ''CONFIG_RG_DEV_IF_INCAIP_VLAN'' None 0 None,
   opt ''CONFIG_RG_DEV_IF_ISL38XX'' None 0 None,
   opt ''CONFIG_RG_DEV_IF_ISL_SOFTMAC'' None 0 None,
   opt ''CONFIG_RG_DEV_IF_BCM43XX'' None OPT_HC None,
   opt ''CONFIG_RG_DEV_IF_PRISM2'' None 0 None,
   opt ''CONFIG_RG_DEV_IF_RT2560'' None 0 None,
   opt ''CONFIG_RG_DEV_IF_RT2561'' None 0 None,
   opt ''CONFIG_RG_DEV_IF_AGN100'' None 0 None,
   opt ''CONFIG_RG_DEV_IF_AR531X_WLAN_G'' None 0 None,
   opt ''CONFIG_RG_DEV_IF_AR531X_WLAN_A'' None 0 None,
   opt ''CONFIG_RG_DEV_IF_AR531X_ETH'' None 0 None,
   opt ''CONFIG_RG_DEV_IF_IXP425_DSL'' None 0 None,
   opt ''CONFIG_RG_DEV_IF_IXP425_ETH'' None 0 None,
   opt ''CONFIG_RG_DEV_IF_NATSEMI'' None 0 None,
   opt ''CONFIG_RG_DEV_IF_NE2000'' None 0 None,
   opt ''CONFIG_RG_DEV_IF_NE2K_VX'' None 0 None,
   opt ''CONFIG_RG_DEV_IF_RTL8139'' None 0 None,
   opt ''CONFIG_RG_DEV_IF_MPC82XX_ETH'' None 0 None,
   opt ''CONFIG_RG_DEV_IF_TI404_CBL'' None 0 None,
   opt ''CONFIG_RG_DEV_IF_TI404_LAN'' None 0 None,
   opt ''CONFIG_RG_DEV_IF_TI_CABLE'' None 0 None,
   opt ''CONFIG_RG_DEV_IF_UML'' None 0 None,
   opt ''CONFIG_RG_DEV_IF_UML_HW_SWITCH'' None 0 None,
   opt ''CONFIG_RG_DEV_IF_USB_RNDIS'' None 0 None,
   opt ''CONFIG_RG_DEV_IF_VLAN'' None 0 None,
   opt ''CONFIG_RG_DEV_IF_PPPOA'' None 0 None,
   opt ''CONFIG_RG_DEV_IF_PPPOE'' None 0 None,
   opt ''CONFIG_RG_DEV_IF_PPPSTUB'' None 0 None,
   opt ''CONFIG_RG_DEV_IF_PPPOES_CONN'' None 0 None,
   opt ''CONFIG_RG_DEV_IF_PPPOH'' None 0 None,
   opt ''CONFIG_RG_DEV_IF_ETHOA'' None 0 None,
   opt ''CONFIG_RG_DEV_IF_PPTPC'' None 0 None,
   opt ''CONFIG_RG_DEV_IF_PPTPS_CONN'' None 0 None,
   opt ''CONFIG_RG_DEV_IF_L2TPS_CONN'' None 0 None,
   opt ''CONFIG_RG_DEV_IF_IPSEC_DEV'' None 0 None,
   opt ''CONFIG_RG_DEV_IF_IPSEC_CONN'' None 0 None,
   opt ''CONFIG_RG_DEV_IF_IPSEC_TEMPL'' None 0 None,
   opt ''CONFIG_RG_DEV_IF_IPSEC_TEMPL_TRANSIENT'' None 0 None,
   opt ''CONFIG_RG_DEV_IF_IPSEC_TEMPL_CONN'' None 0 None,
   opt ''CONFIG_RG_DEV_IF_BRIDGE'' None 0 None,
   opt ''CONFIG_RG_DEV_IF_CHWAN_MASTER'' None 0 None,
   opt ''CONFIG_RG_DEV_IF_DOCSIS'' None 0 None,
   opt ''CONFIG_RG_DEV_IF_ETH_SHADOW'' None 0 None,
   opt ''CONFIG_RG_DEV_IF_ELCP'' None 0 None,
   opt ''CONFIG_RG_DEV_IF_CAS'' None 0 None,
   opt ''CONFIG_RG_DEV_IF_CLIP'' None 0 None,
   opt ''CONFIG_RG_DEV_IF_L2TPC'' None 0 None,
   opt ''CONFIG_RG_DEV_IF_TICPE'' None 0 None,
   opt ''CONFIG_RG_DEV_IF_USER_VLAN'' None 0 None,
   opt ''CONFIG_RG_DEV_IF_IPV6_OVER_IPV4_TUN'' None 0 None,
   opt ''CONFIG_RG_DEV_IF_IPOA'' None 0 None,
   opt ''CONFIG_RG_DEV_IF_ATM_NULL'' None 0 None,
   opt ''CONFIG_RG_DEV_IF_BCM963XX_ETH'' None 0 None,
   opt ''CONFIG_RG_DEV_IF_CX821XX_ETH'' None 0 None,
   opt ''CONFIG_RG_DEV_IF_BCM963XX_ADSL'' None 0 None,
   opt ''CONFIG_RG_DEV_IF_BCM4710_ETH'' None 0 None,
   opt ''CONFIG_RG_DEV_IF_ADM5120_ETH'' None 0 None,
   opt ''CONFIG_RG_DEV_IF_CX8620X_SWITCH'' None 0 None,
   opt ''CONFIG_RG_DEV_IF_AD6834_ETH'' None 0 None,
   opt ''CONFIG_RG_DEV_IF_AD68XX_ADSL'' None 0 None,
   opt ''CONFIG_RG_DEV_IF_KS8695_ETH'' None 0 None,
   opt ''CONFIG_RG_DEV_IF_BCM5325A_HW_SWITCH'' None 0 None,
   opt ''CONFIG_RG_DEV_IF_BCM5325E_HW_SWITCH'' None 0 None,
   opt ''CONFIG_RG_DEV_IF_BRCM91125E_ETH'' None 0 None,
   opt ''CONFIG_RG_DEV_IF_RTL8305SC_HW_SWITCH'' None 0 None,
   opt ''CONFIG_RG_DEV_IF_RTL8305SB_HW_SWITCH'' None 0 None,
   opt ''CONFIG_RG_DEV_IF_COMCERTO_ETH'' None 0 None,
   opt ''CONFIG_RG_DEV_IF_SOLOS_WLAN'' None 0 None,
   opt ''CONFIG_RG_DEV_IF_SOLOS_LAN'' None 0 None,
   opt ''CONFIG_RG_DEV_IF_SOLOS_DMZ'' None 0 None,
   opt ''CONFIG_RG_DEV_IF_SOLOS_DSL'' None 0 None,
   opt ''CONFIG_RG_DEV_IF_AR521X'' None 0 None,
   opt ''CONFIG_RG_DEV_IF_AR521X_VAP'' None 0 None,
   opt ''CONFIG_RG_DEV_IF_AR50WL'' None 0 None,
   opt ''CONFIG_RG_DEV_IF_AR50WL_VAP'' None 0 None,
   opt ''CONFIG_RG_DEV_IF_TWINPASS_ETH'' None 0 None,
   opt ''CONFIG_RG_DEV_IF_MV88E60XX_HW_SWITCH'' None 0 None,
   opt ''CONFIG_RG_DEV_IF_MV88E60XX_HW_WAN_SWITCH'' None 0 None,
   opt ''CONFIG_RG_DEV_IF_MOCA_EN2210_MII'' None 0 None,
   opt ''CONFIG_RG_DEV_IF_IKANOS_VDSL'' None 0 None,
   opt ''CONFIG_RG_DEV_IF_INFINEON_VDSL'' None 0 None,
   opt ''CONFIG_RG_DEV_IF_PSB6973_HW_SWITCH'' None 0 None,
   opt ''CONFIG_RG_DEV_IF_PSB6973_HW_WAN_SWITCH'' None 0 None,
   opt ''CONFIG_RG_TURBO_SWITCH_IGMP'' None 0 None,
   opt ''CONFIG_RG_TURBO_SWITCH_IGMP_MODULE'' None (OPT_MK OR OPT_HC OR OPT_MODULE_EXPAND) None,
   opt ''CONFIG_BOOTLDR_UBOOT'' None OPT_HC None,
   opt ''CONFIG_BOOTLDR_UBOOT_COMP'' None (OPT_HC OR OPT_C_STR) None,
   opt ''RG_PROD_STR'' None OPT_C_STR None,
   opt ''CONFIG_RG_OS'' None (OPT_C_STR OR OPT_EXPORT) None,
   opt ''CONFIG_RG_HW'' None (OPT_HC OR OPT_C_STR OR OPT_EXPORT) None,
   opt ''RMT_UPG_SITE'' None (OPT_HC OR OPT_C_STR) None,
   opt ''RMT_UPG_URL'' None (OPT_HC OR OPT_C_STR) None,
   opt ''CONFIG_RG_DEV_IF_SL2312_ETH'' None 0 None,
   opt ''CONFIG_RG_HW_DESC_STR'' None (OPT_HC OR OPT_C_STR) None,
   opt ''CONFIG_RG_DIST'' None (OPT_HC OR OPT_C_STR) None,
   opt ''CONFIG_RG_WIRELESS_COUNTRY_REGION'' None (OPT_HC OR OPT_C_STR) None,
   opt ''CONFIG_RG_WIRELESS_COUNTRY_CODE'' None (OPT_HC OR OPT_C_STR) None,
   opt ''CONFIG_RG_HTTP_AUTH'' None OPT_HC None,
   opt ''CONFIG_RG_JPKG'' None 0 None,
   opt ''CONFIG_RG_JPKG_DEBUG'' None (OPT_MK OR OPT_EXPORT) None,
   opt ''CONFIG_RG_JPKG_SRC'' None OPT_HC None,
   opt ''CONFIG_RG_JPKG_BIN'' None 0 None,
   opt ''CONFIG_RG_JPKG_I386'' None 0 None,
   opt ''CONFIG_RG_JPKG_UML'' None 0 None,
   opt ''CONFIG_RG_JPKG_ARMV5B'' None 0 None,
   opt ''CONFIG_RG_JPKG_ARMV5L'' None 0 None,
   opt ''CONFIG_RG_JPKG_ARMV4L'' None 0 None,
   opt ''CONFIG_RG_JPKG_PPC'' None 0 None,
   opt ''CONFIG_RG_JPKG_MIPSEB'' None 0 None,
   opt ''CONFIG_RG_JPKG_BCM9634X'' None 0 None,
   opt ''CONFIG_RG_JPKG_SB1250'' None 0 None,
   opt ''CONFIG_RG_JPKG_TWINPASS'' None 0 None,
   opt ''CONFIG_RG_JPKG_XSCALE'' None 0 None,
   opt ''CONFIG_RG_JPKG_ARM_920T_LE'' None 0 None,
   opt ''CONFIG_RG_JPKG_LX4189'' None 0 None,
   opt ''CONFIG_RG_JPKG_LOCAL_I386'' None 0 None,
   opt ''CONFIG_RG_JPKG_BUILD_LIBC'' None 0 None,
   opt ''CONFIG_RG_JPKG_ARM_LINUX_UCLIBC'' None 0 None,
   opt ''CONFIG_RG_FULL_FEATURES'' None 0 None,
   opt ''CONFIG_RG_SMB'' None OPT_HC None,
   opt ''JPKG_DISTS'' None (OPT_MK OR OPT_STR) None,
   opt ''JPKG_ARCH'' None (OPT_H OR OPT_STR) None,
   opt ''CONFIG_MMU'' None 0 None,
   opt ''CONFIG_CLEAN_COMPILE'' None 0 None,
   opt ''CONFIG_BROKEN_ON_SMP'' None 0 None,
   opt ''CONFIG_INIT_ENV_ARG_LIMIT'' None OPT_NUMBER None,
   opt ''CONFIG_PRINTK'' None 0 None,
   opt ''CONFIG_BUG'' None 0 None,
   opt ''CONFIG_BASE_FULL'' None 0 None,
   opt ''CONFIG_FUTEX'' None 0 None,
   opt ''CONFIG_EPOLL'' None 0 None,
   opt ''CONFIG_TINY_SHMEM'' None 0 None]"

definition config_options_base_2 :: "option_t list" where
  "config_options_base_2 = [
   opt ''CONFIG_BASE_SMALL'' None OPT_NUMBER None,
   opt ''CONFIG_OBSOLETE_MODPARM'' None 0 None,
   opt ''CONFIG_KMOD'' None 0 None,
   opt ''CONFIG_X86_XADD'' None 0 None,
   opt ''CONFIG_GENERIC_CALIBRATE_DELAY'' None 0 None,
   opt ''CONFIG_HIGHMEM'' None 0 None,
   opt ''CONFIG_BINFMT_MISC'' None 0 None,
   opt ''CONFIG_STANDALONE'' None 0 None,
   opt ''CONFIG_PREVENT_FIRMWARE_BUILD'' None 0 None,
   opt ''CONFIG_BLK_DEV_RAM_COUNT'' None OPT_NUMBER None,
   opt ''CONFIG_IOSCHED_NOOP'' None 0 None,
   opt ''CONFIG_IOSCHED_AS'' None 0 None,
   opt ''CONFIG_IOSCHED_DEADLINE'' None 0 None,
   opt ''CONFIG_IOSCHED_CFQ'' None 0 None,
   opt ''CONFIG_DEFAULT_IOSCHED'' None OPT_STR None,
   opt ''CONFIG_NET_IPGRE'' None OPT_MODULE_EXPAND None,
   opt ''CONFIG_NET_IPGRE_BROADCAST'' None 0 None,
   opt ''CONFIG_INET_TUNNEL'' None 0 None,
   opt ''CONFIG_XFRM'' None 0 None,
   opt ''CONFIG_NET_SCH_CLK_JIFFIES'' None 0 None,
   opt ''CONFIG_LEGACY_PTYS'' None 0 None,
   opt ''CONFIG_LEGACY_PTY_COUNT'' None OPT_NUMBER None,
   opt ''CONFIG_LOG_BUF_SHIFT'' None OPT_NUMBER None,
   opt ''CONFIG_CRC32'' None 0 None,
   opt ''CONFIG_GENERIC_HARDIRQS'' None 0 None,
   opt ''CONFIG_UML_X86'' None 0 None,
   opt ''CONFIG_ARCH_HAS_SC_SIGNALS'' None 0 None,
   opt ''CONFIG_TOP_ADDR'' None OPT_NUMBER None,
   opt ''CONFIG_ARCH_REUSE_HOST_VSYSCALL_AREA'' None 0 None,
   opt ''CONFIG_LD_SCRIPT_STATIC'' None 0 None,
   opt ''CONFIG_UML_REAL_TIME_CLOCK'' None 0 None,
   opt ''CONFIG_NOCONFIG_CHAN'' None 0 None,
   opt ''CONFIG_BLK_DEV_COW_COMMON'' None 0 None,
   opt ''CONFIG_QUOTACTL'' None 0 None,
   opt ''CONFIG_MODULE_UNLOAD'' None 0 None,
   opt ''CONFIG_HAVE_DEC_LOCK'' None 0 None,
   opt ''CONFIG_IRQ_CPU'' None 0 None,
   opt ''CONFIG_CPU_R3000'' None 0 None,
   opt ''CONFIG_LOCKD_V4'' None 0 None,
   opt ''CONFIG_CC_ALIGN_FUNCTIONS'' None OPT_NUMBER None,
   opt ''CONFIG_CC_ALIGN_JUMPS'' None OPT_NUMBER None,
   opt ''CONFIG_CC_ALIGN_LABELS'' None OPT_NUMBER None,
   opt ''CONFIG_CC_ALIGN_LOOPS'' None OPT_NUMBER None,
   opt ''CONFIG_DEBUG_KERNEL'' None 0 None,
   opt ''CONFIG_DEBUG_PREEMPT'' None 0 None,
   opt ''CONFIG_PREEMPT'' None 0 None,
   opt ''CONFIG_INITRAMFS_SOURCE'' None OPT_STR None,
   opt ''CONFIG_INITRAMFS_ROOT_UID'' None OPT_STR None,
   opt ''CONFIG_INITRAMFS_ROOT_GID'' None OPT_STR None,
   opt ''CONFIG_IP_FIB_HASH'' None 0 None,
   opt ''CONFIG_CC_OPTIMIZE_FOR_SIZE'' None 0 None,
   opt ''CONFIG_OBSOLETE_INTERMODULE'' None 0 None,
   opt ''CONFIG_TRAD_SIGNALS'' None 0 None,
   opt ''CONFIG_BUILD_ELF64'' None 0 None,
   opt ''CONFIG_BUILD_ELF32'' None 0 None,
   opt ''CONFIG_NFS_FS'' None 0 None,
   opt ''CONFIG_NFS_V3'' None 0 None,
   opt ''CONFIG_LOCKD'' None OPT_MODULE_EXPAND None,
   opt ''CONFIG_RG_JPKG_DIST'' (Some ''JPKG_SRC'') (OPT_MK OR OPT_STR) None,
   opt ''ARCH'' None (OPT_C_STR OR OPT_EXPORT) None,
   opt ''LIBC_ARCH'' None (OPT_STR OR OPT_EXPORT) None,
   opt ''CONFIG_BUILD_ARCHCONFIG'' None 0 None,
   opt ''CONFIG_RG_DEV'' None 0 None,
   opt ''CONFIG_RG_IPROUTE2_UTILS'' None OPT_HC (Some ''IPRoute2 user-mode configuration tools''),
   opt ''CONFIG_RG_FOOTPRINT_REDUCTION'' None 0 None,
   opt ''ENDIANESS_SUFFIX'' None OPT_STR None,
   opt ''INTERSIL_EVENTS'' None 0 None,
   opt ''OPENRG_DEBUG'' None 0 None,
   opt ''OPENRG_DEBUG_OPENRG'' None 0 None,
   opt ''OPENRG_DEBUG_EXEC_SH'' None OPT_NOSTRIP None,
   opt ''OPENRG_DEBUG_FILE_OPEN'' None 0 None,
   opt ''CONFIG_DEBUG_KMALLOC'' None 0 None,
   opt ''CONFIG_DEBUG_SLAB'' None 0 None,
   opt ''CONFIG_DEBUG_SPINLOCK_SLEEP'' None 0 None,
   opt ''CONFIG_DEBUG_INFO'' None 0 None,
   opt ''CONFIG_KALLSYMS'' None 0 None,
   opt ''CONFIG_DEBUGSYM'' None 0 None,
   opt ''CONFIG_DISABLE_NETDEV_MODIFYING'' None 0 None,
   opt ''CONFIG_BRIDGE'' None OPT_MODULE_EXPAND None,
   opt ''CONFIG_BRIDGE_UTILS'' None OPT_HC None,
   opt ''CONFIG_IPTABLES'' None OPT_HC None,
   opt ''CONFIG_NETFILTER'' None OPT_MAJOR_FEATURE (Some ''NetFilter Linux Firewall''),
   opt ''CONFIG_NETFILTER_XTABLES'' None 0 None,
   opt ''CONFIG_NETFILTER_XT_TARGET_CLASSIFY'' None 0 None,
   opt ''CONFIG_NETFILTER_XT_TARGET_CONNMARK'' None 0 None,
   opt ''CONFIG_NETFILTER_XT_TARGET_MARK'' None 0 None,
   opt ''CONFIG_NETFILTER_XT_TARGET_NFQUEUE'' None 0 None,
   opt ''CONFIG_NETFILTER_XT_TARGET_NOTRACK'' None 0 None,
   opt ''CONFIG_NETFILTER_XT_MATCH_COMMENT'' None 0 None,
   opt ''CONFIG_NETFILTER_XT_MATCH_CONNBYTES'' None 0 None,
   opt ''CONFIG_NETFILTER_XT_MATCH_CONNMARK'' None 0 None,
   opt ''CONFIG_NETFILTER_XT_MATCH_CONNTRACK'' None 0 None,
   opt ''CONFIG_NETFILTER_XT_MATCH_DCCP'' None 0 None,
   opt ''CONFIG_NETFILTER_XT_MATCH_HELPER'' None 0 None,
   opt ''CONFIG_NETFILTER_XT_MATCH_LENGTH'' None 0 None,
   opt ''CONFIG_NETFILTER_XT_MATCH_LIMIT'' None 0 None,
   opt ''CONFIG_NETFILTER_XT_MATCH_MAC'' None 0 None,
   opt ''CONFIG_NETFILTER_XT_MATCH_MARK'' None 0 None,
   opt ''CONFIG_NETFILTER_XT_MATCH_PKTTYPE'' None 0 None,
   opt ''CONFIG_NETFILTER_XT_MATCH_REALM'' None 0 None,
   opt ''CONFIG_NETFILTER_XT_MATCH_SCTP'' None 0 None,
   opt ''CONFIG_NETFILTER_XT_MATCH_STATE'' None 0 None,
   opt ''CONFIG_NETFILTER_XT_MATCH_STRING'' None 0 None,
   opt ''CONFIG_NETFILTER_XT_MATCH_TCPMSS'' None 0 None,
   opt ''CONFIG_NETFILTER_XT_MATCH_PHYSDEV'' None 0 None,
   opt ''CONFIG_NET_CLS_ROUTE'' None 0 None,
   opt ''CONFIG_BRIDGE_NETFILTER'' None 0 None,
   opt ''CONFIG_IP_NF_CT_ACCT'' None 0 None,
   opt ''CONFIG_IP_NF_CONNTRACK_MARK'' None 0 None,
   opt ''CONFIG_TEXTSEARCH'' None 0 None,
   opt ''CONFIG_IP_NF_FILTER'' None OPT_MODULE_EXPAND None,
   opt ''CONFIG_IP_NF_IPTABLES'' None OPT_MODULE_EXPAND None,
   opt ''CONFIG_IP_NF_CONNTRACK'' None OPT_MODULE_EXPAND None,
   opt ''CONFIG_IP_NF_NAT_NEEDED'' None 0 None,
   opt ''CONFIG_IP_NF_NAT'' None OPT_MODULE_EXPAND None,
   opt ''CONFIG_IP_NF_NAT_LOCAL'' None 0 None,
   opt ''CONFIG_IP_NF_TARGET_MASQUERADE'' None OPT_MODULE_EXPAND None,
   opt ''CONFIG_EXPORT_BINARIES'' None 0 None,
   opt ''CONFIG_RG_NO_OPT'' None 0 None,
   opt ''CONFIG_LSP_DIST'' None OPT_HC None,
   opt ''CONFIG_RG_RGLOADER'' None (OPT_HC OR OPT_EXPORT) None,
   opt ''CONFIG_RG_NETWORK_BOOT'' None OPT_HC None,
   opt ''CONFIG_RG_RGLOADER_CLI_CMD'' None 0 None,
   opt ''CONFIG_RG_UIEVENTS'' None OPT_HC None,
   opt ''CONFIG_RG_KLEDS'' None OPT_MODULE_EXPAND None]"

definition config_options_base_3 :: "option_t list" where
  "config_options_base_3 = [
   opt ''CONFIG_RG_KRGLDR'' None OPT_MODULE_EXPAND None,
   opt ''CONFIG_RG_KMONTE'' None OPT_HC None,
   opt ''CONFIG_SAVE_REAL_MODE_CONF'' None 0 None,
   opt ''CONFIG_IXP425_POST'' None 0 None,
   opt ''CONFIG_PCMCIA'' None (OPT_MODULE_EXPAND OR OPT_HC) None,
   opt ''CONFIG_80211G_AP_ADVANCED'' None OPT_HC None,
   opt ''CONFIG_80211NG_AP_ADVANCED'' None OPT_HC None,
   opt ''CONFIG_80211_WDS'' None OPT_HC None,
   opt ''CONFIG_PCMCIA_80211B'' None 0 None,
   opt ''CONFIG_8139TOO'' None OPT_MODULE_EXPAND None,
   opt ''CONFIG_ALIGNMENT_TRAP'' None 0 None,
   opt ''CONFIG_ALIGNMENT_TRAP_MODE'' None OPT_NUMBER None,
   opt ''CONFIG_APM'' None 0 None,
   opt ''CONFIG_APM_POWER_OFF'' None 0 None,
   opt ''CONFIG_APP_IPR'' None 0 None,
   opt ''CONFIG_ARCH_CNXT'' None 0 None,
   opt ''CONFIG_ARCH_CX821XX'' None 0 None,
   opt ''CONFIG_ARCH_IXP22X'' None OPT_HC None,
   opt ''CONFIG_ARCH_IXP425_IXDP425'' None 0 None,
   opt ''CONFIG_ARCH_IXP425_MATECUMBE'' None 0 None,
   opt ''CONFIG_ARCH_IXP425_COYOTE'' None 0 None,
   opt ''CONFIG_ARCH_IXP425_KINGSCANYON'' None 0 None,
   opt ''CONFIG_ARCH_IXP425_ROCKAWAYBEACH'' None 0 None,
   opt ''CONFIG_ARCH_IXP425_HG21'' None OPT_HC None,
   opt ''CONFIG_ARCH_IXP425_NAPA'' None OPT_HC None,
   opt ''CONFIG_ARCH_IXP425_BAMBOO'' None OPT_HC None,
   opt ''CONFIG_ARCH_IXP425_JEEVES'' None OPT_HC None,
   opt ''CONFIG_ARCH_IXP425_JIWIS800'' None OPT_HC None,
   opt ''CONFIG_ARCH_IXP425_JIWIS832'' None OPT_HC None,
   opt ''CONFIG_JEEVES_RTC7301'' None OPT_MODULE_EXPAND None,
   opt ''CONFIG_ARCH_IXP425_GTWX5715'' None 0 None,
   opt ''CONFIG_ARCH_IXP425_WAV54G'' None OPT_HC None,
   opt ''CONFIG_ARCH_IXP425_MONTEJADE'' None 0 None,
   opt ''CONFIG_ARCH_IXP425_BRUCE'' None OPT_HC None,
   opt ''CONFIG_ARCH_IXP425_BRUCE_CPLD'' None OPT_MODULE_EXPAND None,
   opt ''CONFIG_ARCH_MACHINE'' None OPT_STR None,
   opt ''CONFIG_ARM'' None OPT_HC None,
   opt ''CONFIG_ARM_THUMB'' None 0 None,
   opt ''CONFIG_ARMNOMMU'' None OPT_HC None,
   opt ''CONFIG_ARM_24_FAST_MODULES'' None 0 None,
   opt ''CONFIG_ATALK'' None OPT_MODULE_EXPAND None,
   opt ''CONFIG_ATM'' None (OPT_NOSTRIP OR OPT_HC) None,
   opt ''CONFIG_ATM_NULL'' None OPT_HC None,
   opt ''CONFIG_ATM_BR2684'' None (OPT_MODULE_EXPAND OR OPT_MAJOR_FEATURE) (Some ''Ethernet over ATM (RFC2684)''),
   opt ''CONFIG_ATM_CLIP'' None (OPT_MODULE_EXPAND OR OPT_MAJOR_FEATURE) (Some ''Classical IP''),
   opt ''CONFIG_ATM_CONEXANT_DSL'' None OPT_MODULE_EXPAND None,
   opt ''CONFIG_ATM_NICSTAR'' None 0 None,
   opt ''CONFIG_ATM_NICSTAR_USE_IDT77105'' None 0 None,
   opt ''CONFIG_ATM_SKB'' None 0 None,
   opt ''CONFIG_ATM_PVC_SCAN'' None (OPT_HC OR OPT_MAJOR_FEATURE) (Some ''PVC Scan''),
   opt ''CONFIG_RG_ATM_QOS'' None OPT_HC None,
   opt ''CONFIG_AUTOFS_FS'' None 0 None,
   opt ''CONFIG_AUTO_LEARN_DNS'' None OPT_HC None,
   opt ''CONFIG_BD_GOLDENGATE'' None 0 None,
   opt ''CONFIG_BD_MACKINAC'' None 0 None,
   opt ''CONFIG_BD_RUSHMORE'' None 0 None,
   opt ''CONFIG_CHIP_CX82100'' None 0 None,
   opt ''CONFIG_CHIP_CX82110'' None 0 None,
   opt ''CONFIG_BINFMT_ELF'' None OPT_MODULE_EXPAND None,
   opt ''CONFIG_BINFMT_FLAT'' None OPT_EXPORT None,
   opt ''CONFIG_BINUTILS_NEW'' None 0 None,
   opt ''CONFIG_BLK_DEV_IDE'' None OPT_MODULE_EXPAND None,
   opt ''CONFIG_BLK_DEV_IDEDISK'' None OPT_NOSTRIP None,
   opt ''CONFIG_BLK_DEV_IDECD'' None OPT_NOSTRIP None,
   opt ''CONFIG_BLK_DEV_IDEDMA'' None OPT_NOSTRIP None,
   opt ''CONFIG_BLK_DEV_IDEDMA_PCI'' None OPT_NOSTRIP None,
   opt ''CONFIG_BLK_DEV_IDEPCI'' None OPT_NOSTRIP None,
   opt ''CONFIG_BLK_DEV_OFFBOARD'' None OPT_NOSTRIP None,
   opt ''CONFIG_BLK_DEV_SIIMAGE'' None OPT_NOSTRIP None,
   opt ''CONFIG_BLK_DEV_CS5530'' None 0 None,
   opt ''CONFIG_BLK_DEV_INITRD'' None 0 None,
   opt ''CONFIG_BLK_DEV_LOOP'' None 0 None,
   opt ''CONFIG_BLK_DEV_RAM'' None 0 None,
   opt ''CONFIG_BLK_DEV_RAM_SIZE'' None OPT_STR None,
   opt ''CONFIG_BLK_DEV_VIA82CXXX'' None 0 None,
   opt ''CONFIG_EMBEDDED_RAMDISK'' None 0 None,
   opt ''CONFIG_BOOT_FREE_MEM_END'' None 0 None,
   opt ''CONFIG_BOOT_FREE_MEM_START'' None 0 None,
   opt ''CONFIG_BOOT_RAM_POS'' None 0 None,
   opt ''CONFIG_BOOT_SP_POS'' None 0 None,
   opt ''CONFIG_BSD_PROCESS_ACCT'' None 0 None,
   opt ''CONFIG_BURNER_POS'' None 0 None,
   opt ''CONFIG_CARDBUS'' None 0 None,
   opt ''CONFIG_CD_NOPKG'' None 0 None,
   opt ''CONFIG_CMDLINE'' None OPT_C_STR None,
   opt ''CONFIG_CMDLINE_BOOL'' None 0 None,
   opt ''CONFIG_CNXT_EMAC'' None OPT_MODULE_EXPAND None,
   opt ''CONFIG_CNXT_ADSL'' None OPT_MODULE_EXPAND None,
   opt ''CONFIG_CNXT_ATM'' None OPT_MODULE_EXPAND None,
   opt ''CONFIG_CNXT_SOFTSAR'' None OPT_MODULE_EXPAND None,
   opt ''CONFIG_ETHOA_STANDALONE'' None 0 None,
   opt ''CONFIG_CNXT_TERMINAL'' None 0 None,
   opt ''CONFIG_CONEXANT_DSL_TIGRIS'' None OPT_MODULE_EXPAND None,
   opt ''CONFIG_CONEXANT_DSL_YUKON'' None OPT_MODULE_EXPAND None,
   opt ''CONFIG_COPY_CRAMFS_TO_RAM'' None 0 None,
   opt ''CONFIG_CRAMFS_DYN_BLOCKSIZE'' None OPT_EXPORT None,
   opt ''CONFIG_CRAMFS_BLKSZ'' None (OPT_NUMBER OR OPT_EXPORT) None,
   opt ''CONFIG_CPLUSPLUS'' None 0 None,
   opt ''CONFIG_CPU_32'' None 0 None,
   opt ''CONFIG_CPU_32v4'' None 0 None,
   opt ''CONFIG_CPU_32v5'' None 0 None,
   opt ''CONFIG_CPU_ADVANCED'' None 0 None,
   opt ''CONFIG_CPU_ARM7'' None 0 None,
   opt ''CONFIG_CPU_ARM940_CPU_IDLE'' None 0 None,
   opt ''CONFIG_CPU_ARM940_D_CACHE_ON'' None 0 None,
   opt ''CONFIG_CPU_ARM940_I_CACHE_ON'' None 0 None,
   opt ''CONFIG_CPU_ARM940T'' None 0 None,
   opt ''CONFIG_CPU_ARM940_WRITETHROUGH'' None 0 None,
   opt ''CONFIG_CPU_BIG_ENDIAN'' None 0 None,
   opt ''CONFIG_CPU_LITTLE_ENDIAN'' None 0 None,
   opt ''CONFIG_CPU_MIPS32'' None 0 None,
   opt ''CONFIG_CPU_MIPS32_R1'' None 0 None,
   opt ''CONFIG_CPU_XSCALE'' None 0 None,
   opt ''CONFIG_CPU_ARM926T'' None 0 None,
   opt ''CONFIG_CPU_ARM920T'' None 0 None,
   opt ''CONFIG_CPU_ABRT_EV4T'' None 0 None,
   opt ''CONFIG_CPU_CACHE_V4WT'' None 0 None,
   opt ''CONFIG_CPU_CACHE_VIVT'' None 0 None,
   opt ''CONFIG_CPU_COPY_V4WB'' None 0 None,
   opt ''CONFIG_CPU_TLB_V4WBI'' None 0 None,
   opt ''CONFIG_ROMFS_FS'' None (OPT_HC OR OPT_EXPORT) None,
   opt ''CONFIG_RG_BZIP2'' None OPT_HC None,
   opt ''CONFIG_CPU_ARM922T'' None 0 None,
   opt ''CONFIG_CPU_ARM922_CPU_IDLE'' None 0 None,
   opt ''CONFIG_CPU_ARM922_I_CACHE_ON'' None 0 None,
   opt ''CONFIG_CPU_ARM922_D_CACHE_ON'' None 0 None,
   opt ''CONFIG_RG_NONCOMPRESSED_USERMODE_IMAGE'' None OPT_EXPORT None,
   opt ''CONFIG_CRAMFS'' None 0 None,
   opt ''CONFIG_CRAMFS_FS'' None OPT_EXPORT None,
   opt ''CONFIG_CRAMFS_FS_COMMON'' None OPT_HC None,
   opt ''CONFIG_CRAMFS_IN_RAM'' None 0 None,
   opt ''CONFIG_CRAMFS_IN_RAM_OFFSET'' None 0 None,
   opt ''CONFIG_CRAMFS_LINEAR'' None 0 None,
   opt ''RG_BLOCK_SIZE_BITS'' None 0 None,
   opt ''CONFIG_CRAMFS_RAM_ADDR'' None 0 None,
   opt ''CONFIG_CROSSCOMPILE'' None 0 None,
   opt ''CONFIG_CONEXANT_COMMON'' None 0 None,
   opt ''CONFIG_CX821XX_COMMON'' None OPT_HC None,
   opt ''CONFIG_CX821XX_MXIC_FLASH'' None 0 None,
   opt ''CONFIG_MINDSPEED_COMMON'' None 0 None]"

definition config_options_base_4 :: "option_t list" where
  "config_options_base_4 = [
   opt ''CONFIG_GEMTEK_COMMON'' None 0 None,
   opt ''CONFIG_GEMTEK_WX5715'' None OPT_HC None,
   opt ''CONFIG_INTERSIL_COMMON'' None 0 None,
   opt ''CONFIG_ISL38XX'' None (OPT_MODULE_EXPAND OR OPT_NOSTRIP) None,
   opt ''CONFIG_ISL_SOFTMAC'' None (OPT_MODULE_EXPAND OR OPT_NOSTRIP) None,
   opt ''CONFIG_RG_WIRELESS_TOOLS'' None 0 None,
   opt ''CONFIG_RG_ATHEROS_WIRELESS_TOOLS'' None 0 None,
   opt ''CONFIG_ATHEROS_ART_TOOLS'' None 0 None,
   opt ''CONFIG_RALINK_RT2560'' None (OPT_MODULE_EXPAND OR OPT_NOSTRIP) None,
   opt ''CONFIG_RALINK_RT2560_TIMECSR'' None OPT_NUMBER None,
   opt ''CONFIG_RALINK_RT2561'' None (OPT_MODULE_EXPAND OR OPT_NOSTRIP) None,
   opt ''CONFIG_AGN100'' None (OPT_MODULE_EXPAND OR OPT_NOSTRIP) None,
   opt ''CONFIG_DE4X5'' None 0 None,
   opt ''CONFIG_DEBUG_LL'' None OPT_NOSTRIP None,
   opt ''CONFIG_DEBUG_USER'' None 0 None,
   opt ''CONFIG_DELIVER_GDBSERVER'' None 0 None,
   opt ''CONFIG_DEVPTS_FS'' None 0 None,
   opt ''CONFIG_DEF_KEYS'' None 0 None,
   opt ''CONFIG_DHCP_TIMEOUT'' None 0 None,
   opt ''CONFIG_DIST_'' None 0 None,
   opt ''CONFIG_DSL'' None 0 None,
   opt ''CONFIG_DSL_SYNCD'' None OPT_MODULE_EXPAND None,
   opt ''CONFIG_DUETTE'' None OPT_MODULE_EXPAND None,
   opt ''CONFIG_DUMMY_CONSOLE'' None 0 None,
   opt ''CONFIG_DYN_LINK'' None 0 None,
   opt ''CONFIG_ULIBC_SHARED'' None 0 None,
   opt ''CONFIG_EEPRO100'' None OPT_MODULE_EXPAND None,
   opt ''CONFIG_E1000'' None 0 None,
   opt ''CONFIG_EEXPRESS_PRO100'' None OPT_MODULE_EXPAND None,
   opt ''CONFIG_ESP_NULL_MD5_96'' None 0 None,
   opt ''CONFIG_ESP_NULL_SHA1_96'' None 0 None,
   opt ''CONFIG_EST8xx'' None 0 None,
   opt ''LIC'' None OPT_STR None,
   opt ''LICSTR'' None OPT_STR None,
   opt ''LIC_AUTOCONF'' None 0 None,
   opt ''LIC_FORCE'' None 0 None,
   opt ''CONFIG_LICENSE_AGREEMENT'' None (OPT_MAJOR_FEATURE OR OPT_NOSTRIP OR OPT_HC) (Some ''WBM Evaluation License Agreement''),
   opt ''CONFIG_EVEREX'' None 0 None,
   opt ''CONFIG_EXP_BUS_SHL'' None 0 None,
   opt ''CONFIG_EXPERIMENTAL'' None 0 None,
   opt ''CONFIG_EXT2_FS'' None OPT_EXPORT None,
   opt ''CONFIG_EXT3_FS'' None 0 None,
   opt ''CONFIG_JBD'' None 0 None,
   opt ''CONFIG_EXTRA_ALLOC'' None 0 None,
   opt ''CONFIG_FAST_RAM'' None 0 None,
   opt ''CONFIG_FPE_NWFPE'' None 0 None,
   opt ''CONFIG_FPE_FASTFPE'' None 0 None,
   opt ''CONFIG_FPE_NWFPE_XP'' None 0 None,
   opt ''CONFIG_FILTER'' None 0 None,
   opt ''CONFIG_FLASH_FSTYPE'' None OPT_STR None,
   opt ''CONFIG_FLASH_IMAGE_OFFSET'' None 0 None,
   opt ''CONFIG_FLASH_POS'' None 0 None,
   opt ''CONFIG_FORCE_MAX_ZONEORDER'' None OPT_NUMBER None,
   opt ''CONFIG_FRAME_POINTER'' None OPT_NOSTRIP None,
   opt ''CONFIG_MAGIC_SYSRQ'' None OPT_NOSTRIP None,
   opt ''CONFIG_FREEPAGES_HIGH'' None OPT_NUMBER None,
   opt ''CONFIG_FREEPAGES_LOW'' None OPT_NUMBER None,
   opt ''CONFIG_FREEPAGES_MIN'' None OPT_NUMBER None,
   opt ''CONFIG_FREEPAGES_THRESHOLD'' None 0 None,
   opt ''CONFIG_FREESWAN'' None OPT_HC None,
   opt ''CONFIG_RG_NETBIOS_RT'' None OPT_MODULE_EXPAND None,
   opt ''CONFIG_GDB'' None OPT_NOSTRIP None,
   opt ''CONFIG_GDB_CONSOLE'' None OPT_NOSTRIP None,
   opt ''CONFIG_GEN_RG_DEFAULT'' None 0 None,
   opt ''CONFIG_GLIBC'' None (OPT_HC OR OPT_EXPORT) None,
   opt ''CONFIG_GMP'' None OPT_HC None,
   opt ''CONFIG_HAS_MMU'' None 0 None,
   opt ''CONFIG_HAVE_STD_PC_SERIAL_PORT'' None 0 None,
   opt ''CONFIG_HPNA'' None 0 None,
   opt ''CONFIG_IDEDMA_AUTO'' None OPT_NOSTRIP None,
   opt ''CONFIG_IDE'' None OPT_NOSTRIP None,
   opt ''CONFIG_IDEDISK_MULTI_MODE'' None OPT_NOSTRIP None,
   opt ''CONFIG_RG_IDE_NON_BLOCKING'' None 0 None,
   opt ''CONFIG_DEF_BRIDGE_LANS'' None OPT_HC None,
   opt ''CONFIG_DEF_BRIDGE_WAN'' None OPT_HC None,
   opt ''CONFIG_DEF_WAN_BRIDGE_FALLBACK_IP'' None OPT_HC None,
   opt ''CONFIG_DEF_BRIDGE_ALTERNATE_IP'' None OPT_HC None,
   opt ''CONFIG_DEF_WAN_ALIAS_IP'' None OPT_HC None,
   opt ''CONFIG_IEEE1394'' None OPT_MODULE_EXPAND None,
   opt ''CONFIG_IEEE1394_OHCI1394'' None OPT_MODULE_EXPAND None,
   opt ''CONFIG_IEEE1394_ETH1394'' None OPT_MODULE_EXPAND None,
   opt ''CONFIG_IEEE1394_SBP2'' None OPT_MODULE_EXPAND None,
   opt ''CONFIG_IMG_PRODUCT'' None OPT_STR None,
   opt ''CONFIG_IMG_SREC_SLICES'' None 0 None,
   opt ''CONFIG_INET'' None OPT_MODULE_EXPAND None,
   opt ''CONFIG_INIT_BASIC_RUNLEVELS'' None OPT_HC None,
   opt ''CONFIG_INITRD_ADDR'' None OPT_STR None,
   opt ''CONFIG_INITRD_IN_IMAGE'' None 0 None,
   opt ''CONFIG_IP_ADVANCED_ROUTER'' None 0 None,
   opt ''CONFIG_IP_MULTICAST'' None OPT_HC None,
   opt ''CONFIG_IPSEC'' None (OPT_MAJOR_FEATURE OR OPT_HC) (Some ''Internet Protocol Security''),
   opt ''CONFIG_IPSEC_AH'' None 0 None,
   opt ''CONFIG_IPSEC_AUTH_HMAC_MD5'' None 0 None,
   opt ''CONFIG_IPSEC_ALG_MD5'' None OPT_MODULE_EXPAND None,
   opt ''CONFIG_IPSEC_AUTH_HMAC_SHA1'' None 0 None,
   opt ''CONFIG_IPSEC_ALG_SHA1'' None OPT_MODULE_EXPAND None,
   opt ''CONFIG_IPSEC_CON_PASSTHRU_TRANSFER'' None 0 None,
   opt ''CONFIG_IPSEC_DEBUG'' None 0 None,
   opt ''CONFIG_IPSEC_ENC_3DES'' None 0 None,
   opt ''CONFIG_IPSEC_ALG_3DES'' None OPT_MODULE_EXPAND None,
   opt ''CONFIG_IPSEC_ENC_1DES'' None 0 None,
   opt ''CONFIG_IPSEC_ALG_1DES'' None OPT_MODULE_EXPAND None,
   opt ''CONFIG_IPSEC_ENC_NULL'' None 0 None,
   opt ''CONFIG_IPSEC_ALG_NULL'' None OPT_MODULE_EXPAND None,
   opt ''CONFIG_IPSEC_ENC_AES'' None OPT_HC None,
   opt ''CONFIG_IPSEC_ALG_AES'' None OPT_MODULE_EXPAND None,
   opt ''CONFIG_IPSEC_ESP'' None 0 None,
   opt ''CONFIG_IPSEC_IPCOMP'' None 0 None,
   opt ''CONFIG_IPSEC_IPIP'' None 0 None,
   opt ''CONFIG_RG_IPSEC_NO_SECRET_FILE'' None 0 None,
   opt ''CONFIG_IPSEC_USE_IXP4XX_CRYPTO'' None OPT_NOSTRIP None,
   opt ''CONFIG_IPSEC_USE_MPC_CRYPTO'' None 0 None,
   opt ''CONFIG_IPSEC_DRIVER'' None OPT_MODULE_EXPAND None,
   opt ''CONFIG_RG_IPSEC_ESP_ALG'' None 0 None,
   opt ''CONFIG_RG_IPSEC_IKE_ALG'' None 0 None,
   opt ''CONFIG_IPSEC_ALG'' None 0 None,
   opt ''CONFIG_CADENCE_IPSEC2'' None 0 None,
   opt ''CONFIG_IPSEC_NAT_TRAVERSAL'' None OPT_HC None,
   opt ''CONFIG_IXP_CS8900'' None OPT_MODULE_EXPAND None,
   opt ''CONFIG_ARCH_IXP425'' None OPT_HC None,
   opt ''CONFIG_IXP425'' None 0 None,
   opt ''CONFIG_IXP425_CODELET_DSP_ENG'' None OPT_MODULE_EXPAND None,
   opt ''CONFIG_IXP425_CODELET_ATM'' None OPT_MODULE_EXPAND None,
   opt ''CONFIG_IXP425_CODELET_ETH'' None OPT_MODULE_EXPAND None,
   opt ''CONFIG_IXP425_CODELET_HSS'' None OPT_MODULE_EXPAND None,
   opt ''CONFIG_IXP425_CODELET_USB'' None OPT_MODULE_EXPAND None,
   opt ''CONFIG_IXP425_CODELET_DMA'' None OPT_MODULE_EXPAND None]"

definition config_options_base_5 :: "option_t list" where
  "config_options_base_5 = [
   opt ''CONFIG_IXP425_CODELET_CRYPTO'' None OPT_MODULE_EXPAND None,
   opt ''CONFIG_IXP425_CODELET_PERF_PROF'' None OPT_MODULE_EXPAND None,
   opt ''CONFIG_IXP425_CODELET_TIMERS'' None OPT_MODULE_EXPAND None,
   opt ''CONFIG_IXP425_CODELETS'' None OPT_MODULE_EXPAND None,
   opt ''CONFIG_IXP425_COMMON'' None OPT_HC None,
   opt ''CONFIG_IXP425_COMMON_RG'' None 0 None,
   opt ''CONFIG_IXP425_COMMON_RGLOADER'' None 0 None,
   opt ''CONFIG_IXP425_COMMON_LSP'' None 0 None,
   opt ''CONFIG_IXP425_CSR'' None OPT_MODULE_EXPAND None,
   opt ''CONFIG_IXP425_DSR'' None (OPT_MODULE_EXPAND OR OPT_MAJOR_FEATURE OR OPT_HC) (Some ''Intel DSR support''),
   opt ''CONFIG_IXP425_DSR_DEMO'' None 0 None,
   opt ''CONFIG_IXP425_CSR_FULL'' None 0 None,
   opt ''CONFIG_IXP425_CSR_ATM'' None OPT_NOSTRIP None,
   opt ''CONFIG_IXP425_CSR_ETH_ACC'' None OPT_NOSTRIP None,
   opt ''CONFIG_IXP425_CSR_ETH_DB'' None OPT_NOSTRIP None,
   opt ''CONFIG_IXP425_CSR_ETH_MII'' None OPT_NOSTRIP None,
   opt ''CONFIG_IXP425_CSR_DMA_ACC'' None OPT_NOSTRIP None,
   opt ''CONFIG_IXP425_CSR_CRYPTO_ACC'' None OPT_NOSTRIP None,
   opt ''CONFIG_IXP425_CSR_PERF_PROF_ACC'' None OPT_NOSTRIP None,
   opt ''CONFIG_IXP425_CSR_HSS'' None OPT_NOSTRIP None,
   opt ''CONFIG_IXP425_CSR_USB'' None OPT_NOSTRIP None,
   opt ''CONFIG_IXP425_CSR_UART'' None OPT_NOSTRIP None,
   opt ''CONFIG_IXP425_CSR_ETHDB'' None OPT_NOSTRIP None,
   opt ''CONFIG_IXP425_ETH'' None OPT_MODULE_EXPAND None,
   opt ''CONFIG_IXP425_ATM'' None OPT_MODULE_EXPAND None,
   opt ''CONFIG_IXP425_FLASH_E28F128J3'' None OPT_MODULE_EXPAND None,
   opt ''CONFIG_IXP425_FLASH_E28F640J3'' None OPT_MODULE_EXPAND None,
   opt ''CONFIG_IXP425_FLASH_E28F320J3'' None OPT_MODULE_EXPAND None,
   opt ''CONFIG_IXP425_FLASH_USER_PART'' None (OPT_NOSTRIP OR OPT_NUMBER) None,
   opt ''CONFIG_IXP425_OS_TIMER1'' None 0 None,
   opt ''CONFIG_IXP425_PCI_NP_WORKAROUND'' None 0 None,
   opt ''CONFIG_IXP425_JFFS2_WORKAROUND'' None 0 None,
   opt ''CONFIG_IXP425_SDRAM_SIZE'' None OPT_NUMBER None,
   opt ''CONFIG_IXP425_NUMBER_OF_MEM_CHIPS'' None OPT_NUMBER None,
   opt ''CONFIG_IXP425_NUMBER_OF_FLASH_CHIPS'' None OPT_NUMBER None,
   opt ''CONFIG_ADSL_LOOPBACK_TEST'' None 0 None,
   opt ''CONFIG_IXP425_ADSL_USE_SPHY'' None 0 None,
   opt ''CONFIG_IXP425_ADSL_USE_MPHY'' None OPT_HC None,
   opt ''CONFIG_JFFS2_FS'' None (OPT_MODULE_EXPAND OR OPT_EXPORT) None,
   opt ''CONFIG_JFFS2_SIZE'' None (OPT_NUMBER OR OPT_EXPORT) None,
   opt ''CONFIG_KCORE_ELF'' None 0 None,
   opt ''CONFIG_KERNEL_ASSERTS'' None OPT_NOSTRIP None,
   opt ''CONFIG_KERNEL_ELF'' None 0 None,
   opt ''CONFIG_KERNEL_FLASH_POS'' None 0 None,
   opt ''CONFIG_FLASH_START_ADDR'' None 0 None,
   opt ''CONFIG_KERNEL_MATH_EMULATION'' None 0 None,
   opt ''CONFIG_KERNEL_RAM_POS'' None 0 None,
   opt ''CONFIG_KERNEL_RAM_SIZE'' None 0 None,
   opt ''CONFIG_KEYBOARD'' None 0 None,
   opt ''CONFIG_KGDB'' None OPT_NOSTRIP None,
   opt ''CONFIG_KGDB_SERIAL'' None OPT_NOSTRIP None,
   opt ''CONFIG_KGDB_CONSOLE'' None OPT_NOSTRIP None,
   opt ''CONFIG_IXDP425_KGDB_UART'' None (OPT_NOSTRIP OR OPT_NUMBER) None,
   opt ''CONFIG_KGDB_THREAD'' None OPT_NOSTRIP None,
   opt ''CONFIG_LAN_SAA9730'' None 0 None,
   opt ''CONFIG_LIBDES'' None 0 None,
   opt ''CONFIG_LINUX_BSP'' None 0 None,
   opt ''CONFIG_LINUX_OAM'' None OPT_MODULE_EXPAND None,
   opt ''CONFIG_I2C'' None OPT_MODULE_EXPAND None,
   opt ''CONFIG_I2C_ALGOBIT'' None OPT_MODULE_EXPAND None,
   opt ''CONFIG_I2C_IXP425'' None OPT_MODULE_EXPAND None,
   opt ''CONFIG_I2C_DS1374'' None OPT_MODULE_EXPAND None,
   opt ''CONFIG_I2C_LM81'' None OPT_MODULE_EXPAND None,
   opt ''CONFIG_LOG_FILES_MAX_SIZE'' None OPT_NUMBER None,
   opt ''CONFIG_LOG_FILES_MIN_SIZE'' None OPT_NUMBER None,
   opt ''CONFIG_M386'' None 0 None,
   opt ''CONFIG_MACH_SPECIFIC'' None 0 None,
   opt ''CONFIG_MALLOC_CONSERVE_RAM'' None 0 None,
   opt ''CONFIG_MATH_EMULATION'' None 0 None,
   opt ''CONFIG_MINIX_FS'' None 0 None,
   opt ''CONFIG_MIPS'' None OPT_HC None,
   opt ''CONFIG_MIPS32'' None 0 None,
   opt ''CONFIG_MIPS_PATENTFREE'' None 0 None,
   opt ''CONFIG_MIPS64'' None 0 None,
   opt ''CONFIG_MIPS_ATLAS'' None 0 None,
   opt ''CONFIG_MIPS_FPU_EMULATOR'' None 0 None,
   opt ''CONFIG_MIPS_IDT'' None 0 None,
   opt ''CONFIG_MIPS_MALTA'' None 0 None,
   opt ''CONFIG_RG_INSMOD_SILENT'' None OPT_HC None,
   opt ''CONFIG_DIVDI3'' None 0 None,
   opt ''CONFIG_INCAIP'' None (OPT_HC OR OPT_EXPORT) None,
   opt ''CONFIG_INCA_IP'' None 0 None,
   opt ''CONFIG_INCAIP_COMMON'' None 0 None,
   opt ''CONFIG_INCAIP_ALLTEK'' None 0 None,
   opt ''CONFIG_INCAIP_KEYPAD'' None (OPT_MODULE_EXPAND OR OPT_EXPORT) None,
   opt ''CONFIG_INCAIP_LEDMATRIX'' None (OPT_MODULE_EXPAND OR OPT_EXPORT) None,
   opt ''CONFIG_INCAIP_DSP'' None (OPT_MODULE_EXPAND OR OPT_EXPORT) None,
   opt ''CONFIG_INCAIP_FLEXTRONICS'' None 0 None,
   opt ''CONFIG_VINETIC'' None (OPT_MODULE_EXPAND OR OPT_EXPORT) None,
   opt ''CONFIG_VINETIC_TAPIDEMO'' None 0 None,
   opt ''CONFIG_VINETIC_LINES_PER_CHIP'' None OPT_NUMBER None,
   opt ''CONFIG_INCAIP_IOM2'' None OPT_MODULE_EXPAND None,
   opt ''CONFIG_INCAIP_ETHERNET'' None OPT_MODULE_EXPAND None,
   opt ''CONFIG_INCAIP_PSEUDO_LAN'' None OPT_MODULE_EXPAND None,
   opt ''CONFIG_INCAIPSSC'' None (OPT_MODULE_EXPAND OR OPT_EXPORT) None,
   opt ''CONFIG_INCAIPPWM'' None (OPT_MODULE_EXPAND OR OPT_EXPORT) None,
   opt ''CONFIG_SERIAL_INCAIPASC'' None OPT_MODULE_EXPAND None,
   opt ''CONFIG_SERIAL_INCAIPASC_CONSOLE'' None 0 None,
   opt ''CONFIG_INCAIPASC_DEFAULT_BAUDRATE'' None 0 None,
   opt ''CONFIG_INCAIP_EVALBOARD'' None 0 None,
   opt ''CONFIG_MTD_INCAIP'' None OPT_MODULE_EXPAND None,
   opt ''CONFIG_INCAIP_WATCHDOG'' None 0 None,
   opt ''CONFIG_INCAIP_WATCHDOG_HEARTBEAT'' None 0 None,
   opt ''CONFIG_INCAIP_WATCHDOG_TIMEOUT'' None 0 None,
   opt ''CONFIG_INCAIP_MUX'' None 0 None,
   opt ''CONFIG_INCAIP_MUX_KEY0'' None 0 None,
   opt ''CONFIG_INCAIP_MUX_KEY1'' None 0 None,
   opt ''CONFIG_INCAIP_MUX_KEY2'' None 0 None,
   opt ''CONFIG_INCAIP_MUX_KEY3'' None 0 None,
   opt ''CONFIG_INCAIP_MUX_KEY4'' None 0 None,
   opt ''CONFIG_INCAIP_MUX_KEY5'' None 0 None,
   opt ''CONFIG_INCAIP_MUX_KEY6'' None 0 None,
   opt ''CONFIG_INCAIP_MUX_KEY7'' None 0 None,
   opt ''CONFIG_INCAIP_MUX_LED0'' None 0 None,
   opt ''CONFIG_INCAIP_MUX_LED1'' None 0 None,
   opt ''CONFIG_INCAIP_MUX_LED2'' None 0 None,
   opt ''CONFIG_INCAIP_MUX_LED3'' None 0 None,
   opt ''CONFIG_INCAIP_MUX_LED4'' None 0 None,
   opt ''CONFIG_INCAIP_MUX_LED5'' None 0 None,
   opt ''CONFIG_INCAIP_MUX_LED6'' None 0 None,
   opt ''CONFIG_INCAIP_MUX_LED7'' None 0 None,
   opt ''CONFIG_INCAIP_MUX_LED8'' None 0 None,
   opt ''CONFIG_INCAIP_MUX_RXD'' None 0 None,
   opt ''CONFIG_INCAIP_MUX_TXD'' None 0 None,
   opt ''CONFIG_INCAIP_MUX_SSC1'' None 0 None,
   opt ''CONFIG_INCAIP_MUX_SSC2'' None 0 None,
   opt ''CONFIG_INCAIP_MUX_FSC'' None 0 None,
   opt ''CONFIG_INCAIP_MUX_DCL'' None 0 None,
   opt ''CONFIG_INCAIP_MUX_DU'' None 0 None,
   opt ''CONFIG_INCAIP_MUX_DD'' None 0 None,
   opt ''CONFIG_INCAIP_MUX_PWM1'' None 0 None,
   opt ''CONFIG_INCAIP_MUX_PWM2'' None 0 None,
   opt ''CONFIG_INCAIP_MUX_P2_9'' None 0 None,
   opt ''CONFIG_INCAIP_MUX_P1_16'' None 0 None,
   opt ''CONFIG_INCAIP_MUX_P1_17'' None 0 None,
   opt ''CONFIG_INCAIP_MUX_P2_10'' None 0 None,
   opt ''CONFIG_INCAIP_MUX_P2_11'' None 0 None,
   opt ''CONFIG_INCAIP_MUX_P2_12'' None 0 None]"

definition config_options_base_6 :: "option_t list" where
  "config_options_base_6 = [
   opt ''CONFIG_INCAIP_MUX_P2_13'' None 0 None,
   opt ''CONFIG_INCAIP_MUX_P2_14'' None 0 None,
   opt ''CONFIG_INCAIP_MUX_P2_15'' None 0 None,
   opt ''CONFIG_ZSP400'' None (OPT_MODULE_EXPAND OR OPT_EXPORT OR OPT_HC) None,
   opt ''CONFIG_INCAIP_SWITCH'' None OPT_MODULE_EXPAND None,
   opt ''CONFIG_INCAIP_SWITCH_API'' None OPT_MODULE_EXPAND None,
   opt ''CONFIG_INCA_HW_ENCRYPT'' None 0 None,
   opt ''CONFIG_MPC8272ADS'' None OPT_HC None,
   opt ''CONFIG_EP8248'' None OPT_HC None,
   opt ''CONFIG_PPC32'' None 0 None,
   opt ''CONFIG_6xx'' None 0 None,
   opt ''CONFIG_8260'' None 0 None,
   opt ''CONFIG_CPM2'' None 0 None,
   opt ''CONFIG_USE_MDIO'' None 0 None,
   opt ''CONFIG_FCC_DM9161'' None 0 None,
   opt ''CONFIG_FCC_LXT971'' None 0 None,
   opt ''CONFIG_PQ2ADS'' None 0 None,
   opt ''CONFIG_ADS8272'' None 0 None,
   opt ''CONFIG_8272'' None 0 None,
   opt ''CONFIG_PPC_STD_MMU'' None 0 None,
   opt ''CONFIG_HIGHMEM_START'' None OPT_NUMBER None,
   opt ''CONFIG_LOWMEM_SIZE'' None OPT_NUMBER None,
   opt ''CONFIG_TASK_SIZE'' None OPT_NUMBER None,
   opt ''CONFIG_MBX'' None 0 None,
   opt ''CONFIG_SCC_CONSOLE'' None 0 None,
   opt ''CONFIG_FEC_ENET'' None 0 None,
   opt ''CONFIG_FCC1_ENET'' None 0 None,
   opt ''CONFIG_FCC2_ENET'' None 0 None,
   opt ''CONFIG_MTD_EP8248'' None 0 None,
   opt ''CONFIG_CC_HAVE_VA_COPY'' None 0 None,
   opt ''CONFIG_SERIAL_CPM'' None 0 None,
   opt ''CONFIG_SERIAL_CPM_CONSOLE'' None 0 None,
   opt ''CONFIG_SERIAL_CPM_SCC1'' None 0 None,
   opt ''CONFIG_SERIAL_CPM_SCC4'' None 0 None,
   opt ''CONFIG_SERIAL_CPM_SMC1'' None 0 None,
   opt ''CONFIG_SERIAL_CPM_SMC2'' None 0 None,
   opt ''CONFIG_PPC_FPU'' None 0 None,
   opt ''CONFIG_PCI_8260'' None 0 None,
   opt ''CONFIG_PPC_INDIRECT_PCI'' None 0 None,
   opt ''CONFIG_USB_M82XX_HCD'' None 0 None,
   opt ''CONFIG_MPC8349_ITX'' None OPT_HC None,
   opt ''CONFIG_GENERIC_NVRAM'' None 0 None,
   opt ''CONFIG_SCHED_NO_NO_OMIT_FRAME_POINTER'' None 0 None,
   opt ''CONFIG_PPC_GEN550'' None 0 None,
   opt ''CONFIG_83xx'' None 0 None,
   opt ''CONFIG_PPC_83xx'' None 0 None,
   opt ''CONFIG_MPC834x'' None 0 None,
   opt ''CONFIG_HZ_250'' None 0 None,
   opt ''CONFIG_HZ'' None OPT_NUMBER None,
   opt ''CONFIG_ISA_DMA_API'' None 0 None,
   opt ''CONFIG_SECCOMP'' None 0 None,
   opt ''CONFIG_MPC83xx_PCI2'' None 0 None,
   opt ''CONFIG_GIANFAR'' None 0 None,
   opt ''CONFIG_CICADA_PHY'' None 0 None,
   opt ''CONFIG_FSL_USB20'' None 0 None,
   opt ''CONFIG_USB_MPC'' None 0 None,
   opt ''CONFIG_USB_GADGET_MPC'' None 0 None,
   opt ''CONFIG_MPH_USB_SUPPORT'' None 0 None,
   opt ''CONFIG_MPH0_USB_ENABLE'' None 0 None,
   opt ''CONFIG_MPH0_ULPI'' None 0 None,
   opt ''CONFIG_MPH1_USB_ENABLE'' None 0 None,
   opt ''CONFIG_MPH1_ULPI'' None 0 None,
   opt ''CONFIG_MPC8349E_SEC2x'' None OPT_MODULE_EXPAND None,
   opt ''CONFIG_MPC8349E_SEC2xTEST'' None OPT_MODULE_EXPAND None,
   opt ''CONFIG_PHYLIB'' None 0 None,
   opt ''CONFIG_USB_ETH_RNDIS'' None 0 None,
   opt ''CONFIG_ADM5120_COMMON'' None OPT_HC None,
   opt ''CONFIG_MIPS_AM5120'' None 0 None,
   opt ''CONFIG_ADM5120_SERIAL'' None 0 None,
   opt ''CONFIG_ADM5120_MTD'' None OPT_MODULE_EXPAND None,
   opt ''CONFIG_ADM5120_SWITCH'' None OPT_MODULE_EXPAND None,
   opt ''CONFIG_ADM5120_IPTOS'' None 0 None,
   opt ''CONFIG_ARCH_BCM947_CYBERTAN'' None 0 None,
   opt ''CONFIG_RG_BCM947_NVRAM_CONVERT'' None 0 None,
   opt ''CONFIG_ET'' None OPT_MODULE_EXPAND None,
   opt ''CONFIG_ET_47XX'' None 0 None,
   opt ''CONFIG_SIMPLE_CRAMDISK'' None OPT_EXPORT None,
   opt ''CONFIG_NONCOHERENT_IO'' None 0 None,
   opt ''CONFIG_MIPS_BRCM'' None OPT_HC None,
   opt ''CONFIG_BCM947XX'' None OPT_HC None,
   opt ''CONFIG_BCM947_COMMON'' None OPT_HC None,
   opt ''CONFIG_BCM4710'' None 0 None,
   opt ''CONFIG_BCM4310'' None 0 None,
   opt ''CONFIG_BCM4704'' None 0 None,
   opt ''CONFIG_BCM4702'' None 0 None,
   opt ''CONFIG_BCM96345'' None OPT_HC None,
   opt ''CONFIG_BCM96348'' None OPT_HC None,
   opt ''CONFIG_BCM96358'' None OPT_HC None,
   opt ''CONFIG_BCM963XX'' None OPT_HC None,
   opt ''CONFIG_BCM963XX_COMMON'' None 0 None,
   opt ''CONFIG_BCM963XX_BOARD_ID'' None OPT_C_STR None,
   opt ''CONFIG_BCM963XX_CHIP'' None OPT_C_STR None,
   opt ''CONFIG_BCM963XX_SDRAM_SIZE'' None OPT_NUMBER None,
   opt ''CONFIG_BCM963XX_MTD'' None OPT_MODULE_EXPAND None,
   opt ''CONFIG_BCM96358_MTD'' None OPT_MODULE_EXPAND None,
   opt ''CONFIG_BCM963XX_SERIAL'' None OPT_MODULE_EXPAND None,
   opt ''CONFIG_BCM963XX_BOARD'' None OPT_MODULE_EXPAND None,
   opt ''CONFIG_BCM96358_BOARD'' None OPT_MODULE_EXPAND None,
   opt ''CONFIG_BCM963XX_ETH'' None OPT_MODULE_EXPAND None,
   opt ''CONFIG_BCM963XX_ETH_VPORTS'' None 0 None,
   opt ''CONFIG_BCM963XX_ATM'' None OPT_MODULE_EXPAND None,
   opt ''CONFIG_BCM963XX_ADSL'' None OPT_MODULE_EXPAND None,
   opt ''CONFIG_BCM963XX_USB'' None OPT_MODULE_EXPAND None,
   opt ''CONFIG_BCM963XX_WLAN'' None OPT_MODULE_EXPAND None,
   opt ''CONFIG_BCM963XX_WLAN_4318'' None 0 None,
   opt ''CONFIG_BCM963XX_ENDPOINT'' None OPT_MODULE_EXPAND None,
   opt ''CONFIG_BCM963XX_PROCFS'' None OPT_MODULE_EXPAND None,
   opt ''CONFIG_BCM963XX_SIMPLE_FLASH_LAYOUT'' None 0 None,
   opt ''CONFIG_BCM963XX_RGL_FLASH_LAYOUT'' None 0 None,
   opt ''CONFIG_BCM4318'' None OPT_MODULE_EXPAND None,
   opt ''CONFIG_BCM43XX_MODE'' None (OPT_HC OR OPT_C_STR) None,
   opt ''CONFIG_BCM43XX_WLCTL_TOOL'' None 0 None,
   opt ''CONFIG_CPU_LX4189'' None OPT_HC None,
   opt ''CONFIG_ADI_6843'' None OPT_HC None,
   opt ''CONFIG_ETH_NETPRO_SIERRA'' None OPT_MODULE_EXPAND None,
   opt ''CONFIG_ADI_6843_RG1'' None 0 None,
   opt ''CONFIG_ADI_6843_USB'' None OPT_MODULE_EXPAND None,
   opt ''CONFIG_ADI_6843_MTD'' None OPT_MODULE_EXPAND None,
   opt ''CONFIG_ADI_6843_UART2'' None OPT_MODULE_EXPAND None,
   opt ''CONFIG_DSPDRIVER_218X'' None OPT_MODULE_EXPAND None,
   opt ''CONFIG_MACH_ADI_FUSIV'' None 0 None,
   opt ''CONFIG_ADI_FUSIV_ETHERNET'' None 0 None,
   opt ''CONFIG_RG_IKANOS_VDSL'' None (OPT_H OR OPT_HC OR OPT_MK) None,
   opt ''CONFIG_RG_INFINEON_VDSL'' None (OPT_H OR OPT_HC OR OPT_MK) None,
   opt ''CONFIG_RG_MOCA_WAN'' None (OPT_H OR OPT_HC OR OPT_MK) None,
   opt ''CONFIG_RG_WAN_ETHERNET'' None (OPT_H OR OPT_HC OR OPT_MK) None,
   opt ''CONFIG_RG_WSTL_WAN_CABLE'' None (OPT_H OR OPT_HC OR OPT_MK) None]"

definition config_options_base_7 :: "option_t list" where
  "config_options_base_7 = [
   opt ''CONFIG_INFINEON_PPE_D4'' None (OPT_H OR OPT_HC OR OPT_MK) None,
   opt ''CONFIG_INFINEON_PPE_D4_11N'' None (OPT_H OR OPT_HC OR OPT_MK) None,
   opt ''CONFIG_KS8695_COMMON'' None 0 None,
   opt ''CONFIG_KS8695'' None OPT_HC None,
   opt ''CONFIG_ARCH_KS8695'' None 0 None,
   opt ''CONFIG_ARCH_KS8695P'' None 0 None,
   opt ''CONFIG_PCI_KS8695P'' None 0 None,
   opt ''CONFIG_SERIAL_KS8695'' None 0 None,
   opt ''CONFIG_SERIAL_KS8695_CONSOLE'' None 0 None,
   opt ''CONFIG_KS8695_FLASH_AM29LV033C'' None OPT_MODULE_EXPAND None,
   opt ''CONFIG_KSFLASH'' None (OPT_MODULE_EXPAND OR OPT_EXPORT) None,
   opt ''CONFIG_CX8620X'' None 0 None,
   opt ''CONFIG_CX8620X_COMMON'' None OPT_HC None,
   opt ''CONFIG_CX8620X_COMMON_RGLOADER'' None 0 None,
   opt ''CONFIG_CX8620X_SDRAM_SIZE'' None OPT_NUMBER None,
   opt ''CONFIG_ARCH_CX8620X'' None 0 None,
   opt ''CONFIG_CX8620X_FLASH_TE28F160C3'' None OPT_MODULE_EXPAND None,
   opt ''CONFIG_CX8620X_FLASH_TE28F320C3'' None OPT_MODULE_EXPAND None,
   opt ''CONFIG_CX8620X_FLASH_TE28F640C3'' None OPT_MODULE_EXPAND None,
   opt ''CONFIG_CX8620X_SWITCH'' None OPT_MODULE_EXPAND None,
   opt ''CONFIG_CX8620X_EHCI'' None 0 None,
   opt ''CONFIG_COMCERTO'' None OPT_HC None,
   opt ''CONFIG_COMCERTO_COMMON'' None OPT_HC None,
   opt ''CONFIG_COMCERTO_SINGLE_IMAGE'' None 0 None,
   opt ''CONFIG_COMCERTO_MALINDI'' None 0 None,
   opt ''CONFIG_COMCERTO_NAIROBI'' None 0 None,
   opt ''CONFIG_ARCH_COMCERTO'' None 0 None,
   opt ''CONFIG_ARCH_M828XX'' None 0 None,
   opt ''CONFIG_EVM_MALINDI'' None 0 None,
   opt ''CONFIG_EVM_SUPERMOMBASA'' None 0 None,
   opt ''CONFIG_CSP_16M'' None 0 None,
   opt ''CONFIG_M828XX_PROC_FS'' None 0 None,
   opt ''CONFIG_LOCALVERSION'' None OPT_STR None,
   opt ''MSP_CODE_LOCATION'' None OPT_C_STR None,
   opt ''MSP_NODE_LOCATION'' None OPT_C_STR None,
   opt ''CONFIG_COMCERTO_VED'' None OPT_EXPORT None,
   opt ''CONFIG_MII'' None OPT_EXPORT None,
   opt ''CONFIG_COMCERTO_OHCI'' None 0 None,
   opt ''CONFIG_SPI'' None OPT_MODULE_EXPAND None,
   opt ''CONFIG_COMCERTO_SPI'' None OPT_MODULE_EXPAND None,
   opt ''CONFIG_SPI_SI3220'' None OPT_MODULE_EXPAND None,
   opt ''CONFIG_COMCERTO_MATISSE'' None 0 None,
   opt ''CONFIG_COMCERTO_CAL'' None OPT_HC None,
   opt ''CONFIG_MTD_COMCERTO'' None 0 None,
   opt ''CONFIG_MTD_NAND'' None 0 None,
   opt ''CONFIG_MTD_NAND_COMCERTO'' None 0 None,
   opt ''CONFIG_BCM963XX_BOOTSTRAP'' None 0 None,
   opt ''CONFIG_VTAG_ICACHE'' None 0 None,
   opt ''CONFIG_NEW_TIME_C'' None 0 None,
   opt ''CONFIG_NEW_IRQ'' None 0 None,
   opt ''CONFIG_CPU_HAS_WB'' None 0 None,
   opt ''CONFIG_HOTPLUG'' None OPT_HC None,
   opt ''CONFIG_PCMCIA_BCM4710'' None 0 None,
   opt ''CONFIG_MTD_BCM947XX'' None OPT_MODULE_EXPAND None,
   opt ''CONFIG_MTD_XG1000'' None OPT_MODULE_EXPAND None,
   opt ''CONFIG_IL'' None OPT_MODULE_EXPAND None,
   opt ''CONFIG_IL_47XX'' None OPT_MODULE_EXPAND None,
   opt ''CONFIG_WL'' None OPT_MODULE_EXPAND None,
   opt ''CONFIG_WL_AP'' None 0 None,
   opt ''CONFIG_HERMES'' None OPT_MODULE_EXPAND None,
   opt ''CONFIG_PCMCIA_HERMES'' None OPT_MODULE_EXPAND None,
   opt ''CONFIG_RAMFS'' None 0 None,
   opt ''CONFIG_PARTITION_ADVANCED'' None 0 None,
   opt ''CONFIG_BCM947'' None 0 None,
   opt ''CONFIG_MTD_IXP425'' None 0 None,
   opt ''CONFIG_MNG_SHOW'' None 0 None,
   opt ''CONFIG_MODULES'' None 0 None,
   opt ''CONFIG_MPC850'' None 0 None,
   opt ''CONFIG_SYSFS'' None OPT_HC None,
   opt ''CONFIG_MTD'' None OPT_EXPORT None,
   opt ''CONFIG_MTD_BLKMTD'' None 0 None,
   opt ''CONFIG_MTD_BLOCK'' None 0 None,
   opt ''CONFIG_MTD_CFI'' None 0 None,
   opt ''CONFIG_MTD_CFI_INTELEXT'' None 0 None,
   opt ''CONFIG_MTD_CHAR'' None 0 None,
   opt ''CONFIG_MTD_CONCAT'' None 0 None,
   opt ''CONFIG_MTD_GEN_PROBE'' None 0 None,
   opt ''CONFIG_MTD_PARTITIONS'' None 0 None,
   opt ''CONFIG_MTD_REDBOOT_PARTS'' None OPT_NOSTRIP None,
   opt ''CONFIG_MTD_PHYSMAP'' None 0 None,
   opt ''CONFIG_MTD_MAP_BANK_WIDTH_1'' None 0 None,
   opt ''CONFIG_MTD_MAP_BANK_WIDTH_2'' None 0 None,
   opt ''CONFIG_MTD_MAP_BANK_WIDTH_4'' None 0 None,
   opt ''CONFIG_MTD_CFI_ADV_OPTIONS'' None 0 None,
   opt ''CONFIG_MTD_CFI_NOSWAP'' None 0 None,
   opt ''CONFIG_MTD_CFI_GEOMETRY'' None 0 None,
   opt ''CONFIG_MTD_CFI_B2'' None 0 None,
   opt ''CONFIG_MTD_CFI_I1'' None 0 None,
   opt ''CONFIG_MTD_CFI_I2'' None 0 None,
   opt ''CONFIG_MTD_CFI_I4'' None 0 None,
   opt ''CONFIG_MTD_CFI_AMDSTD'' None 0 None,
   opt ''CONFIG_MTD_JEDECPROBE'' None 0 None,
   opt ''CONFIG_MTD_CFI_LE_BYTE_SWAP'' None 0 None,
   opt ''CONFIG_MTD_COMPLEX_MAPPINGS'' None 0 None,
   opt ''CONFIG_MTD_CFI_UTIL'' None 0 None,
   opt ''CONFIG_RG_MTD'' None OPT_MODULE_EXPAND None,
   opt ''CONFIG_RG_MTD_DEFAULT_PARTITION'' None OPT_HC None,
   opt ''CONFIG_MTD_CFI_AMDSTD_RETRY'' None OPT_STR None,
   opt ''CONFIG_MTD_JEDEC'' None 0 None,
   opt ''CONFIG_MTD_CMDLINE_PARTS'' None 0 None,
   opt ''CONFIG_MTD_PHYSMAP_START'' None (OPT_NUMBER OR OPT_HC) None,
   opt ''CONFIG_MTD_PHYSMAP_LEN'' None (OPT_NUMBER OR OPT_HC) None,
   opt ''CONFIG_MTD_PHYSMAP_BUSWIDTH'' None (OPT_NUMBER OR OPT_HC) None,
   opt ''CONFIG_MTD_PHYSMAP_BANKWIDTH'' None (OPT_NUMBER OR OPT_HC) None,
   opt ''CONFIG_MTD_ROM'' None 0 None,
   opt ''CONFIG_NATSEMI'' None OPT_MODULE_EXPAND None,
   opt ''CONFIG_NE2000'' None OPT_MODULE_EXPAND None,
   opt ''CONFIG_NE2000_DEV'' None 0 None,
   opt ''CONFIG_NE2K_PCI'' None OPT_MODULE_EXPAND None,
   opt ''CONFIG_NET'' None 0 None,
   opt ''CONFIG_NETDEVICES'' None 0 None,
   opt ''CONFIG_NET_EISA'' None 0 None,
   opt ''CONFIG_NET_ETHERNET'' None 0 None,
   opt ''CONFIG_NETIF_EXT'' None 0 None,
   opt ''CONFIG_NETIF_INT'' None 0 None,
   opt ''CONFIG_NET_ISA'' None 0 None,
   opt ''CONFIG_NET_PCI'' None 0 None,
   opt ''CONFIG_NETLINK_DEV'' None OPT_MODULE_EXPAND None,
   opt ''CONFIG_NET_RADIO'' None 0 None,
   opt ''CONFIG_NET_WIRELESS'' None OPT_HC None,
   opt ''CONFIG_NET_IPIP'' None 0 None,
   opt ''CONFIG_NOMMU_PAGECACHE_THRESHOLD'' None 0 None,
   opt ''CONFIG_NO_NAT'' None 0 None,
   opt ''CONFIG_NO_PGT_CACHE'' None 0 None,
   opt ''CONFIG_NO_REMOVABLE_IDE'' None 0 None,
   opt ''CONFIG_NO_UNALIGNED_ACCESS'' None 0 None,
   opt ''CONFIG_NO_UART2'' None 0 None,
   opt ''CONFIG_OPENRG'' None OPT_HC None,
   opt ''CONFIG_RG_CONFIG_STRINGS'' None OPT_HC None,
   opt ''CONFIG_PACKET'' None 0 None,
   opt ''CONFIG_PARIDE_PARPORT'' None 0 None,
   opt ''CONFIG_PCF8594C2'' None OPT_MODULE_EXPAND None,
   opt ''CONFIG_PCI'' None 0 None,
   opt ''CONFIG_PCI_DOMAINS'' None 0 None,
   opt ''CONFIG_PCI_BIOS'' None 0 None]"

definition config_options_base_8 :: "option_t list" where
  "config_options_base_8 = [
   opt ''CONFIG_PCI_DIRECT'' None 0 None,
   opt ''CONFIG_PCI_GOANY'' None 0 None,
   opt ''CONFIG_PCI_NAMES'' None 0 None,
   opt ''CONFIG_PCI_OLD_PROC'' None 0 None,
   opt ''CONFIG_PCI_QUIRKS'' None 0 None,
   opt ''CONFIG_NEW_PCI'' None 0 None,
   opt ''CONFIG_PCI_AUTO'' None 0 None,
   opt ''MAX_DMA_ADDRESS'' None OPT_NUMBER None,
   opt ''IO_SPACE_LIMIT'' None OPT_NUMBER None,
   opt ''CONFIG_PCMCIA_DEVELOPMENT'' None OPT_HC None,
   opt ''CONFIG_PCNET32'' None OPT_MODULE_EXPAND None,
   opt ''CONFIG_PHY_KS8721'' None OPT_NOSTRIP None,
   opt ''CONFIG_PHY_CX11656'' None OPT_NOSTRIP None,
   opt ''CONFIG_PHY_KS8737'' None OPT_NOSTRIP None,
   opt ''CONFIG_PHY_KS8995E'' None OPT_NOSTRIP None,
   opt ''CONFIG_PHY_KS8995M'' None OPT_NOSTRIP None,
   opt ''CONFIG_PHY_MARVEL'' None OPT_NOSTRIP None,
   opt ''CONFIG_PHY_RTL8201'' None OPT_NOSTRIP None,
   opt ''CONFIG_PLUTO_DEBUG'' None 0 None,
   opt ''CONFIG_PM'' None 0 None,
   opt ''CONFIG_RG_PPTPS'' None (OPT_MAJOR_FEATURE OR OPT_HC) (Some ''PPTP Server''),
   opt ''CONFIG_RG_L2TPS'' None (OPT_MAJOR_FEATURE OR OPT_HC) (Some ''L2TP Server''),
   opt ''CONFIG_PPC'' None OPT_HC None,
   opt ''CONFIG_RG_PPP'' None (OPT_MODULE_EXPAND OR OPT_STATIC_ON_DEVELOP OR OPT_HC) (Some ''Basic PPP Support''),
   opt ''CONFIG_RG_PPP_BSDCOMP'' None OPT_HC None,
   opt ''CONFIG_RG_PPP_DEFLATE'' None OPT_HC None,
   opt ''CONFIG_RG_PPP_ON_DEMAND_AS_DEFAULT'' None OPT_HC None,
   opt ''CONFIG_RG_PPP_ON_DEMAND_DEFAULT_MAX_IDLE_TIME'' None (OPT_HC OR OPT_NUMBER) None,
   opt ''CONFIG_RG_PPP_DEFAULT_BSD_COMPRESSION'' None (OPT_HC OR OPT_NUMBER) None,
   opt ''CONFIG_RG_PPP_DEFAULT_DEFLATE_COMPRESSION'' None (OPT_HC OR OPT_NUMBER) None,
   opt ''CONFIG_RG_PPP_MPPE'' None OPT_HC None,
   opt ''CONFIG_RG_PPPOA'' None (OPT_MODULE_EXPAND OR OPT_STATIC_ON_DEVELOP OR OPT_MAJOR_FEATURE) (Some ''PPP Over ATM''),
   opt ''CONFIG_RG_PPPOE'' None (OPT_MAJOR_FEATURE OR OPT_HC) (Some ''PPP Over Ethernet''),
   opt ''CONFIG_RG_PPPOES'' None (OPT_MAJOR_FEATURE OR OPT_HC) (Some ''PPP Over Ethernet Server''),
   opt ''CONFIG_RG_PPPOS'' None OPT_MAJOR_FEATURE (Some ''PPP Over Serial''),
   opt ''CONFIG_RG_PPPOS_CLI'' None OPT_HC (Some ''PPP and CLI Over Serial''),
   opt ''CONFIG_RG_SERIAL'' None OPT_NONE (Some ''Serial support for PPPOS''),
   opt ''CONFIG_RG_HSS'' None (OPT_MAJOR_FEATURE OR OPT_HC) (Some ''PPP Over HSS (T1/E1)''),
   opt ''CONFIG_RG_IPV6'' None (OPT_MAJOR_FEATURE OR OPT_HC) (Some ''IPv6''),
   opt ''CONFIG_RG_PPTP'' None OPT_HC None,
   opt ''CONFIG_RG_PPTPC'' None (OPT_MAJOR_FEATURE OR OPT_HC) (Some ''PPTP Client''),
   opt ''CONFIG_RG_L2TPC'' None (OPT_MAJOR_FEATURE OR OPT_HC) (Some ''L2TP Client''),
   opt ''CONFIG_RG_PPTP_ECHO_INTERVAL'' None OPT_NUMBER None,
   opt ''CONFIG_RG_PPTP_ECHO_FAILURE'' None OPT_NUMBER None,
   opt ''CONFIG_PPPOE_RETRANSMIT'' None 0 None,
   opt ''CONFIG_PPPOE_MAX_RETRANSMIT_TIMEOUT'' None OPT_NUMBER None,
   opt ''CONFIG_PRISM2_PCI'' None OPT_MODULE_EXPAND None,
   opt ''CONFIG_PRISM2_LOAD_FIRMWARE'' None 0 None,
   opt ''CONFIG_PROC_FS'' None 0 None,
   opt ''CONFIG_RAMDISK_SIZE'' None (OPT_NUMBER OR OPT_EXPORT) None,
   opt ''CONFIG_RAM_LIMIT'' None OPT_NUMBER None,
   opt ''CONFIG_RELEASE'' None 0 None,
   opt ''CONFIG_RELEASE_COMMON'' None 0 None,
   opt ''CONFIG_RG_ALG'' None 0 None,
   opt ''CONFIG_RG_ALG_ICMP'' None OPT_MAJOR_FEATURE (Some ''ICMP ALG''),
   opt ''CONFIG_RG_ALG_PORT_TRIGGER'' None (OPT_MAJOR_FEATURE OR OPT_HC) (Some ''Port trigger (TFTP) ALG''),
   opt ''CONFIG_RG_ALG_FTP'' None (OPT_MAJOR_FEATURE OR OPT_HC) (Some ''FTP/FTPS ALG''),
   opt ''CONFIG_RG_ALG_RTSP'' None (OPT_MAJOR_FEATURE OR OPT_HC) (Some ''QuickTime/RealAudio/RealPlayer (RTSP) ALG''),
   opt ''CONFIG_RG_ALG_H323'' None (OPT_MAJOR_FEATURE OR OPT_HC) (Some ''H323 ALG (Netmeeting, CuSeeMe ...)''),
   opt ''CONFIG_RG_ALG_SIP'' None (OPT_MAJOR_FEATURE OR OPT_HC) (Some ''SIP ALG''),
   opt ''CONFIG_RG_ALG_MGCP'' None (OPT_MAJOR_FEATURE OR OPT_HC) (Some ''MGCP ALG''),
   opt ''CONFIG_RG_ALG_PPTP'' None (OPT_MAJOR_FEATURE OR OPT_HC) (Some ''PPTP Client (multiuser) ALG''),
   opt ''CONFIG_RG_ALG_MSNMS'' None (OPT_MAJOR_FEATURE OR OPT_HC) (Some ''Microsoft Network Messenger/Windows Messenger ALG''),
   opt ''CONFIG_RG_ALG_IPSEC'' None (OPT_MAJOR_FEATURE OR OPT_HC) (Some ''IPSec (multiuser) ALG''),
   opt ''CONFIG_RG_ALG_L2TP'' None (OPT_MAJOR_FEATURE OR OPT_HC) (Some ''L2TP ALG''),
   opt ''CONFIG_RG_ALG_AIM'' None (OPT_MAJOR_FEATURE OR OPT_HC) (Some ''AOL Instant Messenger ALG''),
   opt ''CONFIG_RG_ALG_DNS'' None (OPT_MAJOR_FEATURE OR OPT_HC) (Some ''DNS ALG''),
   opt ''CONFIG_RG_ALG_DHCP'' None (OPT_MAJOR_FEATURE OR OPT_HC) (Some ''DHCP ALG''),
   opt ''CONFIG_RG_ALG_USERSPACE'' None OPT_HC None,
   opt ''CONFIG_RG_BOOTSTRAP'' None 0 None,
   opt ''CONFIG_RG_BOOTLDR_REDBOOT'' None 0 None,
   opt ''CONFIG_RG_BRIDGE'' None (OPT_MODULE_EXPAND OR OPT_STATIC_ON_DEVELOP OR OPT_MAJOR_FEATURE OR OPT_HC) (Some ''Bridge''),
   opt ''CONFIG_RG_VLAN_BRIDGE'' None (OPT_MAJOR_FEATURE OR OPT_HC) (Some ''VLAN 802.1Q bridge''),
   opt ''CONFIG_RG_8021Q_IF'' None (OPT_MAJOR_FEATURE OR OPT_HC) (Some ''VLAN 802.1Q interfaces management''),
   opt ''CONFIG_RG_FASTPATH'' None (OPT_MODULE_EXPAND OR OPT_HC) (Some ''Hardware FastPath Accelaration''),
   opt ''CONFIG_RG_FASTPATH_PLAT_PATH'' None OPT_STR None,
   opt ''CONFIG_RG_FASTPATH_PLAT_TEST'' None 0 None,
   opt ''CONFIG_RG_FASTPATH_PLAT_AD6834'' None OPT_HC None,
   opt ''CONFIG_RG_FASTPATH_PLAT_TWINPASS'' None OPT_HC None,
   opt ''CONFIG_RG_CABLEHOME'' None OPT_HC None,
   opt ''CONFIG_RG_CABLEHOME_10'' None (OPT_MAJOR_FEATURE OR OPT_HC) (Some ''CableHome 1.0''),
   opt ''CONFIG_RG_CABLEHOME_11'' None (OPT_MAJOR_FEATURE OR OPT_HC) (Some ''CableHome 1.1''),
   opt ''CONFIG_RG_CABLEHOME_EMBEDDED'' None OPT_HC None,
   opt ''CONFIG_RG_CABLEHOME_FULL_WBM'' None OPT_HC None,
   opt ''CONFIG_RG_DSL_CH'' None OPT_HC None,
   opt ''CONFIG_RG_CH_FW'' None OPT_HC None,
   opt ''CONFIG_RG_CH_EVT_RPT'' None OPT_HC None,
   opt ''CABLEHOME_TEP_BUG'' None 0 None,
   opt ''CONFIG_RG_CHRDEV'' None 0 None,
   opt ''CONFIG_RG_CHWAN'' None (OPT_MODULE_EXPAND OR OPT_STATIC_ON_DEVELOP) None,
   opt ''CONFIG_RG_USFS'' None (OPT_MODULE_EXPAND OR OPT_STATIC_ON_DEVELOP) None,
   opt ''CONFIG_RG_PPPOE_RELAY'' None (OPT_MODULE_EXPAND OR OPT_HC OR OPT_STATIC_ON_DEVELOP OR OPT_MAJOR_FEATURE) (Some ''PPPoE Relay''),
   opt ''CONFIG_RG_BROUTE'' None (OPT_MODULE_EXPAND OR OPT_STATIC_ON_DEVELOP) None,
   opt ''CONFIG_RG_DISPLAY_MSG'' None 0 None,
   opt ''CONFIG_RG_ELVIS'' None OPT_HC None,
   opt ''CONFIG_RG_DSLHOME'' None OPT_HC None,
   opt ''CONFIG_RG_TR_098'' None OPT_HC None,
   opt ''CONFIG_RG_TR_064'' None OPT_HC None,
   opt ''CONFIG_RG_DSLHOME_VOUCHERS'' None OPT_HC None,
   opt ''CONFIG_RG_OPTION_MANAGER'' None OPT_HC None,
   opt ''CONFIG_RG_XMLSEC'' None OPT_HC None,
   opt ''CONFIG_RG_XML2'' None OPT_HC None,
   opt ''CONFIG_RG_FIREWALL'' None OPT_HC None]"

definition config_options_base_9 :: "option_t list" where
  "config_options_base_9 = [
   opt ''CONFIG_RG_FW_ICSA'' None OPT_HC None,
   opt ''CONFIG_RG_FTP_CLIENT'' None OPT_MAJOR_FEATURE (Some ''FTP Client''),
   opt ''CONFIG_RG_GDBSERVER'' None (OPT_MAJOR_FEATURE OR OPT_HC) (Some ''GDB Server''),
   opt ''CONFIG_RG_HAVE_VENDOR_SRC'' None 0 None,
   opt ''CONFIG_RG_ADV_SERVICES_LEVEL'' None (OPT_HC OR OPT_NUMBER) None,
   opt ''CONFIG_RG_IGD'' None OPT_HC None,
   opt ''CONFIG_RG_IGD_XBOX'' None OPT_HC None,
   opt ''CONFIG_RG_MGT_IGD'' None 0 None,
   opt ''CONFIG_RG_IGMP_PROXY'' None (OPT_MODULE_EXPAND OR OPT_HC OR OPT_STATIC_ON_DEVELOP OR OPT_MAJOR_FEATURE) (Some ''IGMP Proxy''),
   opt ''CONFIG_RG_MCAST_RELAY'' None (OPT_MODULE_EXPAND OR OPT_HC OR OPT_STATIC_ON_DEVELOP OR OPT_MAJOR_FEATURE) (Some ''Multicast Relay''),
   opt ''CONFIG_RG_JFW'' None (OPT_MODULE_EXPAND OR OPT_STATIC_ON_DEVELOP OR OPT_MAJOR_FEATURE) (Some ''Jungo Firewall''),
   opt ''CONFIG_RG_MSS'' None (OPT_MODULE_EXPAND OR OPT_STATIC_ON_DEVELOP OR OPT_HC) None,
   opt ''CONFIG_RG_IPOA'' None 0 None,
   opt ''CONFIG_RG_KGDB'' None OPT_NOSTRIP None,
   opt ''CONFIG_RG_LAN_UPGRADE'' None (OPT_MAJOR_FEATURE OR OPT_HC) (Some ''Remote Upgrade from LAN''),
   opt ''CONFIG_RG_OS_LINUX'' None 0 None,
   opt ''CONFIG_RG_OS_ECOS'' None 0 None,
   opt ''CONFIG_RG_OS_VXWORKS'' None OPT_HC None,
   opt ''CONFIG_RG_NAT'' None (OPT_MAJOR_FEATURE OR OPT_HC) (Some ''NAT''),
   opt ''CONFIG_RG_NETKIT'' None (OPT_MAJOR_FEATURE OR OPT_HC) (Some ''Netkit Telnet server''),
   opt ''CONFIG_RG_NETTOOLS_ARP'' None OPT_HC None,
   opt ''CONFIG_RG_OPENSSL'' None OPT_NONE (Some ''OpenSSL's ssl library''),
   opt ''CONFIG_RG_CRYPTO'' None OPT_HC (Some ''OpenSSL's crypto library''),
   opt ''CONFIG_RG_SSL'' None (OPT_MAJOR_FEATURE OR OPT_HC) (Some ''Secure HTTP (SSL)''),
   opt ''CONFIG_RG_PERM_STORAGE'' None (OPT_MAJOR_FEATURE OR OPT_HC) (Some ''Permanent Storage''),
   opt ''CONFIG_RG_PERM_STORAGE_VENDOR_HEADER'' None OPT_HC None,
   opt ''CONFIG_RG_ONE_MODULE'' None (OPT_MODULE_EXPAND OR OPT_HC) None,
   opt ''CONFIG_RG_KOS'' None (OPT_MODULE_EXPAND OR OPT_STATIC_ON_DEVELOP OR OPT_HC) None,
   opt ''CONFIG_RG_KOS_KNET'' None OPT_HC None,
   opt ''CONFIG_RG_IPV4'' None (OPT_MODULE_EXPAND OR OPT_STATIC_ON_DEVELOP) None,
   opt ''CONFIG_RG_RIP'' None (OPT_MAJOR_FEATURE OR OPT_HC) (Some ''RIP V1/V2''),
   opt ''CONFIG_RG_RMT_UPDATE'' None OPT_HC None,
   opt ''CONFIG_RG_RMT_UPGRADE_IMG_IN_MEM'' None (OPT_NOSTRIP OR OPT_HC) None,
   opt ''CONFIG_RG_RNAT'' None (OPT_MAJOR_FEATURE OR OPT_HC) (Some ''Reverse NAT''),
   opt ''CONFIG_BIDIR_NAT'' None OPT_HC None,
   opt ''CONFIG_RG_RNDIS'' None OPT_MODULE_EXPAND None,
   opt ''CONFIG_RG_RMT_FW_CONF'' None 0 None,
   opt ''CONFIG_RG_STANDALONE_PS'' None OPT_HC None,
   opt ''CONFIG_RG_SYSINIT'' None 0 None,
   opt ''CONFIG_RG_SYSLOG_REMOTE'' None OPT_HC None,
   opt ''CONFIG_RG_TFTP_SERVER'' None (OPT_MAJOR_FEATURE OR OPT_HC) (Some ''Remote Upgrade using TFTP Server''),
   opt ''CONFIG_RG_TFTP_SERVER_PASSWORD'' None OPT_HC (Some ''Verify TFTP password (non-standard)''),
   opt ''CONFIG_RG_TFTP_UPGRADE'' None OPT_HC None,
   opt ''CONFIG_RG_UCD_SNMP'' None (OPT_MAJOR_FEATURE OR OPT_HC) (Some ''SNMP v1/v2''),
   opt ''CONFIG_RG_UCD_SNMP_V3'' None OPT_MAJOR_FEATURE (Some ''SNMP v3''),
   opt ''CONFIG_RG_UPNP'' None (OPT_MAJOR_FEATURE OR OPT_HC) (Some ''Universal Plug & Play''),
   opt ''CONFIG_RG_USB_SLAVE'' None (OPT_MODULE_EXPAND OR OPT_HC) None,
   opt ''CONFIG_RG_WAN_UPGRADE'' None (OPT_MAJOR_FEATURE OR OPT_HC) (Some ''Remote Upgrade from WAN''),
   opt ''CONFIG_RG_WLAN_AUTO_CHANNEL_SELECT'' None OPT_HC None,
   opt ''CONFIG_RG_RMT_UPD_LOW_MEM'' None OPT_HC None,
   opt ''CONFIG_RG_DNS'' None (OPT_MAJOR_FEATURE OR OPT_HC) (Some ''DNS''),
   opt ''CONFIG_RG_DNS_CONCURRENT'' None (OPT_MAJOR_FEATURE OR OPT_HC) (Some ''Concurrent DNS query''),
   opt ''CONFIG_RG_DNS_ROUTE'' None (OPT_MAJOR_FEATURE OR OPT_HC) (Some ''DNS Router. Add route rules according to which dns server answer queries''),
   opt ''CONFIG_RG_DNS_DOMAIN_ROUTING'' None (OPT_MAJOR_FEATURE OR OPT_HC) (Some ''Domain routing. Route according to domains listed on a device''),
   opt ''CONFIG_RG_DDNS'' None (OPT_MAJOR_FEATURE OR OPT_HC) (Some ''Dynamic DNS''),
   opt ''CONFIG_RG_ENTFY'' None (OPT_MAJOR_FEATURE OR OPT_HC) (Some ''Email Notification''),
   opt ''CONFIG_RG_HTTP_PROXY'' None (OPT_MAJOR_FEATURE OR OPT_HC) (Some ''HTTP Proxy''),
   opt ''CONFIG_RG_GENERIC_PROXY'' None OPT_MAJOR_FEATURE (Some ''Generic Proxy''),
   opt ''CONFIG_RG_MAIL_FILTER'' None (OPT_MAJOR_FEATURE OR OPT_HC) (Some ''Mail filter''),
   opt ''CONFIG_RG_URL_KEYWORD_FILTER'' None (OPT_MAJOR_FEATURE OR OPT_HC) (Some ''URL Keyword Filtering''),
   opt ''CONFIG_RG_SURFCONTROL'' None (OPT_MAJOR_FEATURE OR OPT_HC) (Some ''SurfControl''),
   opt ''CONFIG_RG_SURFCONTROL_PARTNER_ID'' None OPT_NUMBER None,
   opt ''CONFIG_RG_8021X'' None (OPT_MAJOR_FEATURE OR OPT_HC) (Some ''802.1X''),
   opt ''CONFIG_RG_8021X_MD5'' None (OPT_MAJOR_FEATURE OR OPT_HC) (Some ''802.1X MD5 - Internal Authentication''),
   opt ''CONFIG_RG_8021X_TTLS'' None (OPT_MAJOR_FEATURE OR OPT_HC) (Some ''802.1X TTLS - Internal Authentication''),
   opt ''CONFIG_RG_8021X_PKTFIL'' None (OPT_MODULE_EXPAND OR OPT_STATIC_ON_DEVELOP) None,
   opt ''CONFIG_RG_8021X_TLS'' None (OPT_MAJOR_FEATURE OR OPT_HC) (Some ''802.1X TLS - Internal Authentication''),
   opt ''CONFIG_RG_8021X_RADIUS'' None OPT_HC None,
   opt ''CONFIG_RG_8021X_WBM'' None OPT_HC None,
   opt ''CONFIG_RG_RADIUS'' None (OPT_MAJOR_FEATURE OR OPT_HC) (Some ''RADIUS - External Authentication''),
   opt ''CONFIG_RG_VENDOR_WLAN_SEC'' None 0 None,
   opt ''CONFIG_RG_AUTH'' None (OPT_HC OR OPT_MK) None,
   opt ''CONFIG_RG_SSID_NAME'' None OPT_C_STR None,
   opt ''CONFIG_RG_BLUETOOTH_NAME'' None 0 None,
   opt ''CONFIG_RG_RADIUS_WBM_IN_CONN'' None OPT_HC None,
   opt ''CONFIG_RG_RADIUS_LOGIN_AUTH'' None OPT_HC (Some ''RADIUS Authentication for TELNET and WBM''),
   opt ''CONFIG_RG_WEP'' None OPT_MAJOR_FEATURE (Some ''WEP''),
   opt ''CONFIG_RG_WPA'' None (OPT_MAJOR_FEATURE OR OPT_HC) (Some ''WPA''),
   opt ''CONFIG_RG_WPA_BCM'' None OPT_HC None,
   opt ''CONFIG_RG_WPA_WBM'' None OPT_HC None,
   opt ''CONFIG_RG_DHCPS'' None (OPT_MAJOR_FEATURE OR OPT_HC) (Some ''DHCP Server''),
   opt ''CONFIG_RG_DHCPC'' None (OPT_MAJOR_FEATURE OR OPT_HC) (Some ''DHCP Client''),
   opt ''CONFIG_RG_HOSTAPD'' None (OPT_HC OR OPT_MK) None,
   opt ''CONFIG_RSN_PREAUTH'' None (OPT_HC OR OPT_MK) None,
   opt ''CONFIG_DRIVER_MADWIFI'' None (OPT_HC OR OPT_MK) None,
   opt ''CONFIG_RG_DHCPR'' None (OPT_MAJOR_FEATURE OR OPT_HC) (Some ''DHCP Relay Agent''),
   opt ''CONFIG_RG_DHCP_PKTFIL'' None (OPT_MODULE_EXPAND OR OPT_STATIC_ON_DEVELOP) None,
   opt ''CONFIG_RG_PKTCBL'' None (OPT_MODULE_EXPAND OR OPT_STATIC_ON_DEVELOP) None]"

definition config_options_base_10 :: "option_t list" where
  "config_options_base_10 = [
   opt ''CONFIG_RG_SSI'' None (OPT_MAJOR_FEATURE OR OPT_HC) (Some ''Static HTML Management''),
   opt ''CONFIG_RG_SSI_PAGES'' None OPT_HC (Some ''Sample Static HTML Management Pages''),
   opt ''CONFIG_RG_WBM'' None (OPT_MAJOR_FEATURE OR OPT_HC) (Some ''Web Based Management''),
   opt ''CONFIG_LOCAL_WBM_LIB'' None (OPT_MK OR OPT_HC) None,
   opt ''CONFIG_RG_TCPDUMP'' None (OPT_MK OR OPT_HC) None,
   opt ''CONFIG_FREESWAN_COMMON'' None (OPT_MK OR OPT_HC) None,
   opt ''CONFIG_RG_ACL'' None (OPT_MK OR OPT_HC) None,
   opt ''CONFIG_RG_ATTR'' None (OPT_MK OR OPT_HC) None,
   opt ''CONFIG_RG_BACKUP'' None (OPT_MK OR OPT_HC) None,
   opt ''CONFIG_RG_BOOTLDR'' None (OPT_MK OR OPT_HC) None,
   opt ''CONFIG_RG_CABLEHOME_COMMON'' None OPT_HC None,
   opt ''CONFIG_RG_DHCP_COMMON'' None (OPT_MK OR OPT_HC) None,
   opt ''CONFIG_RG_SAMPLES_COMMON'' None (OPT_MK OR OPT_HC) None,
   opt ''CONFIG_RG_DOSFSTOOLS '' None (OPT_MK OR OPT_HC) None,
   opt ''CONFIG_RG_E2FSPROGS'' None (OPT_MK OR OPT_HC) None,
   opt ''CONFIG_RG_FLEX'' None (OPT_MK OR OPT_HC) None,
   opt ''CONFIG_RG_LIBPCAP'' None (OPT_MK OR OPT_HC) None,
   opt ''CONFIG_RG_LZMA'' None OPT_HC None,
   opt ''CONFIG_RG_MGT'' None OPT_HC None,
   opt ''CONFIG_RG_OPENSSL_COMMON'' None OPT_HC None,
   opt ''CONFIG_RG_OPENSSL_MD5'' None OPT_HC None,
   opt ''CONFIG_RG_OPENSSL_SHA'' None OPT_HC None,
   opt ''CONFIG_RG_OPENSSL_DES'' None OPT_HC None,
   opt ''CONFIG_RG_OPENSSL_MD4'' None OPT_HC None,
   opt ''CONFIG_RG_OPENSSL_BLOWFISH'' None 0 None,
   opt ''CONFIG_RG_OPENSSL_CAST'' None 0 None,
   opt ''CONFIG_RG_READLINE'' None (OPT_MK OR OPT_HC) None,
   opt ''CONFIG_RG_RGLOADER_COMMON'' None (OPT_MK OR OPT_HC) None,
   opt ''CONFIG_RG_STAR'' None (OPT_MK OR OPT_HC) None,
   opt ''CONFIG_RG_SYSLOG_COMMON'' None OPT_HC None,
   opt ''CONFIG_RG_TERMCAP'' None (OPT_MK OR OPT_HC) None,
   opt ''CONFIG_RG_TEST_TOOLS'' None (OPT_MK OR OPT_HC) None,
   opt ''CONFIG_RG_TZ'' None OPT_HC None,
   opt ''CONFIG_RG_USAGI'' None (OPT_MK OR OPT_HC) None,
   opt ''CONFIG_RG_UTIL_LINUX'' None (OPT_MK OR OPT_HC) None,
   opt ''CONFIG_GUI_RG'' None (OPT_THEME OR OPT_HC) None,
   opt ''CONFIG_GUI_SMB'' None OPT_THEME None,
   opt ''CONFIG_GUI_RG2'' None (OPT_THEME OR OPT_HC) None,
   opt ''CONFIG_GUI_SMB2'' None (OPT_THEME OR OPT_HC) None,
   opt ''CONFIG_GUI_CUST_RG2'' None (OPT_THEME OR OPT_HC) None,
   opt ''CONFIG_GUI_CUST_SMB2'' None (OPT_THEME OR OPT_HC) None,
   opt ''CONFIG_GUI_LINKSYS'' None OPT_THEME None,
   opt ''CONFIG_GUI_NETGEAR'' None OPT_THEME None,
   opt ''CONFIG_GUI_WELLTECH'' None OPT_THEME None,
   opt ''CONFIG_GUI_BELKIN'' None (OPT_THEME OR OPT_HC) None,
   opt ''CONFIG_RG_LIBIMAGE'' None OPT_HC None,
   opt ''CONFIG_RG_LIBIMAGE_DIM'' None OPT_HC None,
   opt ''CONFIG_RG_LIBJPEG'' None OPT_HC None,
   opt ''CONFIG_RG_NETOBJ'' None OPT_HC None,
   opt ''CONFIG_RG_LAN_BRIDGE_CONST'' None OPT_HC None,
   opt ''CONFIG_RG_AUTO_DST'' None OPT_HC None,
   opt ''CONFIG_RG_TZ_COMMON'' None OPT_MAJOR_FEATURE (Some ''TimeZone support''),
   opt ''CONFIG_RG_TZ_FULL'' None (OPT_MAJOR_FEATURE OR OPT_HC) (Some ''Full TimeZone support''),
   opt ''CONFIG_RG_TZ_YEARS'' None OPT_NUMBER None,
   opt ''CONFIG_RG_HTTPS'' None (OPT_MAJOR_FEATURE OR OPT_HC) (Some ''HTTP Server''),
   opt ''CONFIG_HTTP_CGI_PROCESS'' None OPT_HC None,
   opt ''CONFIG_RG_SAMPLES'' None 0 None,
   opt ''CONFIG_RG_TELNETS'' None (OPT_MAJOR_FEATURE OR OPT_HC) (Some ''Telnet Server''),
   opt ''CONFIG_RG_SYSLOG'' None (OPT_MAJOR_FEATURE OR OPT_HC) (Some ''SysLog''),
   opt ''CONFIG_RG_SYSLOG_GLIBC'' None (OPT_MK OR OPT_HC) None,
   opt ''CONFIG_RG_LOG_DEV'' None (OPT_MODULE_EXPAND OR OPT_STATIC_ON_DEVELOP) None,
   opt ''CONFIG_RG_KERN_LOG'' None 0 None,
   opt ''CONFIG_BASIC_LOG'' None 0 None,
   opt ''CONFIG_RG_LOG_DEV_BUF_SIZE'' None OPT_NUMBER None,
   opt ''CONFIG_RG_SYSLOG_FW_DEF_SIZE'' None OPT_NUMBER None,
   opt ''CONFIG_RG_CLI'' None (OPT_MAJOR_FEATURE OR OPT_HC) (Some ''Command Line Interface''),
   opt ''CONFIG_RG_CLI_SERVER'' None 0 None,
   opt ''CONFIG_RG_CLI_SERIAL'' None 0 None,
   opt ''CONFIG_RG_TTYP'' None 0 None,
   opt ''CONFIG_RG_LOGIN'' None 0 None,
   opt ''CONFIG_RG_STATIC_ROUTE'' None OPT_HC None,
   opt ''CONFIG_RG_BUSYBOX'' None OPT_HC None,
   opt ''CONFIG_RG_ERESOLV'' None 0 None,
   opt ''CONFIG_RG_WGET'' None OPT_HC None,
   opt ''CONFIG_RG_NON_ROUTABLE_LAN_DEVICE_IP'' None OPT_HC None,
   opt ''CONFIG_RG_FREESWAN'' None OPT_HC None,
   opt ''CONFIG_RG_X509'' None OPT_HC None,
   opt ''CONFIG_RG_CERT'' None OPT_HC None,
   opt ''CONFIG_RG_CERT_SHORT_LIST'' None OPT_HC None,
   opt ''CONFIG_RG_KERBEROS'' None (OPT_MAJOR_FEATURE OR OPT_HC) (Some ''Kerberos''),
   opt ''CONFIG_RGLOADER_CLI'' None 0 None,
   opt ''CONFIG_ROOT_ON_FLASH'' None 0 None,
   opt ''CONFIG_RTC'' None 0 None,
   opt ''CONFIG_RTL8139'' None OPT_MODULE_EXPAND None,
   opt ''CONFIG_RWSEM_GENERIC_SPINLOCK'' None 0 None,
   opt ''CONFIG_SCC2_ENET'' None 0 None,
   opt ''CONFIG_SCC_ENET'' None 0 None,
   opt ''CONFIG_SDRAM_BASE'' None 0 None,
   opt ''CONFIG_SDRAM_END'' None 0 None,
   opt ''CONFIG_SDRAM_SIZE'' None (OPT_NUMBER OR OPT_HC) None,
   opt ''CONFIG_PHYS_SDRAM_SIZE'' None 0 None,
   opt ''CONFIG_SERIAL'' None 0 None,
   opt ''CONFIG_SERIAL_CORE'' None 0 None,
   opt ''CONFIG_SERIAL_CORE_CONSOLE'' None 0 None,
   opt ''CONFIG_SERIAL_8250'' None 0 None,
   opt ''CONFIG_SERIAL_8250_CONSOLE'' None 0 None,
   opt ''CONFIG_SERIAL_8250_COMCERTO'' None 0 None,
   opt ''CONFIG_SERIAL_8250_NR_UARTS'' None OPT_NUMBER None,
   opt ''CONFIG_SERIAL_8250_RUNTIME_UARTS'' None OPT_NUMBER None,
   opt ''CONFIG_SERIAL_CNXT'' None 0 None,
   opt ''CONFIG_SERIAL_CONSOLE'' None 0 None,
   opt ''CONFIG_SERIAL_ECHO'' None 0 None,
   opt ''CONFIG_SERIAL_IXP'' None 0 None,
   opt ''CONFIG_SIMPLE_RAMDISK'' None OPT_EXPORT None,
   opt ''CONFIG_SKB_LARGE'' None 0 None,
   opt ''CONFIG_SMALL_FLASH'' None 0 None,
   opt ''CONFIG_SMALL_SDRAM'' None 0 None,
   opt ''CONFIG_SMALL_STACK'' None 0 None,
   opt ''CONFIG_SOFT_FLOAT'' None 0 None,
   opt ''CONFIG_SOFTSAR_SMALL_BUFFERS'' None 0 None,
   opt ''CONFIG_SP_RAM_POS'' None 0 None,
   opt ''CONFIG_SP_RAM_SIZE'' None 0 None,
   opt ''CONFIG_START_KERNEL_POS'' None 0 None,
   opt ''CONFIG_STRONGARM'' None 0 None,
   opt ''CONFIG_SUNRPC'' None 0 None,
   opt ''CONFIG_SYN_COOKIES'' None 0 None,
   opt ''CONFIG_SYSCTL'' None 0 None,
   opt ''CONFIG_SYSLOG_UNIXSOCK_SUPPORT'' None 0 None,
   opt ''CONFIG_SYSVIPC'' None 0 None,
   opt ''CONFIG_RG_PING'' None 0 None,
   opt ''CONFIG_RG_CONN_SPEED'' None 0 None,
   opt ''CONFIG_RG_TRACEROUTE'' None OPT_HC None,
   opt ''CONFIG_TEXT_SECTIONS'' None 0 None,
   opt ''CONFIG_RG_TODC'' None (OPT_MAJOR_FEATURE OR OPT_HC) (Some ''TOD Client''),
   opt ''CONFIG_UCD_SNMP_AGENT_LIB'' None 0 None,
   opt ''CONFIG_UCD_SNMP_NO_DEF_MIBS'' None 0 None,
   opt ''CONFIG_UID16'' None 0 None,
   opt ''CONFIG_ULIBC'' None (OPT_HC OR OPT_EXPORT) None,
   opt ''CONFIG_ULIBC_DO_C99_MATH'' None 0 None,
   opt ''CONFIG_RG_CXX'' None OPT_EXPORT None,
   opt ''CONFIG_UCLIBCXX'' None OPT_HC None,
   opt ''CONFIG_UNIX'' None 0 None,
   opt ''CONFIG_UNIX98_PTY_COUNT'' None OPT_NUMBER None,
   opt ''CONFIG_UNIX98_PTYS'' None 0 None]"

definition config_options_base_11 :: "option_t list" where
  "config_options_base_11 = [
   opt ''CONFIG_USB'' None OPT_MODULE_EXPAND None,
   opt ''CONFIG_USB_GADGET'' None OPT_MODULE_EXPAND None,
   opt ''CONFIG_USB_GADGET_DUALSPEED'' None 0 None,
   opt ''CONFIG_USB_ETH'' None OPT_MODULE_EXPAND None,
   opt ''CONFIG_RG_USB'' None OPT_MODULE_EXPAND None,
   opt ''CONFIG_USB_OV511'' None 0 None,
   opt ''CONFIG_VIDEO_DEV'' None 0 None,
   opt ''CONFIG_VIDEO_PROC_FS'' None 0 None,
   opt ''CONFIG_USB_PWC'' None 0 None,
   opt ''CONFIG_USB_SPCA5XX'' None 0 None,
   opt ''CONFIG_FILESERVER_KERNEL_CONFIG'' None 0 None,
   opt ''CONFIG_USB_STORAGE'' None OPT_MODULE_EXPAND None,
   opt ''CONFIG_USB_DEVICEFS'' None 0 None,
   opt ''CONFIG_USB_OHCI'' None OPT_MODULE_EXPAND None,
   opt ''CONFIG_USB_UHCI'' None OPT_MODULE_EXPAND None,
   opt ''CONFIG_USB_OHCI_HCD'' None OPT_MODULE_EXPAND None,
   opt ''CONFIG_USB_UHCI_HCD'' None OPT_MODULE_EXPAND None,
   opt ''CONFIG_USB_EHCI_HCD'' None OPT_MODULE_EXPAND None,
   opt ''CONFIG_USB_EHCI_ROOT_HUB_TT'' None 0 None,
   opt ''CONFIG_USB_CONN_MONITOR'' None 0 None,
   opt ''CONFIG_USB_RNDIS'' None (OPT_MODULE_EXPAND OR OPT_MAJOR_FEATURE) (Some ''USB RNDIS''),
   opt ''OPENRG_DEBUG_MODULES'' None 0 None,
   opt ''CONFIG_USB_SIMPLE_DMA'' None 0 None,
   opt ''CONFIG_GENERIC_ISA_DMA'' None 0 None,
   opt ''CONFIG_INSURE'' None OPT_EXPORT None,
   opt ''CONFIG_VALGRIND'' None OPT_HC None,
   opt ''CONFIG_VIA_RHINE'' None 0 None,
   opt ''CONFIG_VPN'' None 0 None,
   opt ''CONFIG_VT'' None 0 None,
   opt ''CONFIG_VT_CONSOLE'' None 0 None,
   opt ''CONFIG_X86'' None 0 None,
   opt ''CONFIG_X86_L1_CACHE_SHIFT'' None OPT_NUMBER None,
   opt ''CONFIG_X86_PPRO_FENCE'' None 0 None,
   opt ''CONFIG_X86_REMOTE_DEBUG'' None OPT_NOSTRIP None,
   opt ''CONFIG_ZBOOT_ROM_TEXT'' None OPT_NUMBER None,
   opt ''CONFIG_ZBOOT_ROM_BSS'' None OPT_NUMBER None,
   opt ''CONFIG_ZCOM_XG1000'' None 0 None,
   opt ''CONFIG_ZKERNEL_RAM_POS'' None 0 None,
   opt ''CONFIG_ZOOM_CM'' None OPT_MODULE_EXPAND None,
   opt ''CONFIG_ZRAMDISK_POS'' None 0 None,
   opt ''CONFIG_PCBOX'' None OPT_HC None,
   opt ''TARGET_ENDIANESS'' None (OPT_STR OR OPT_EXPORT) None,
   opt ''BOARD'' None OPT_STR None,
   opt ''CONFIG_IDT_COMMON'' None 0 None,
   opt ''CONFIG_RG_FLASHDISK'' None 0 None,
   opt ''FIRM'' None OPT_STR None,
   opt ''MAGIC_ROM_PTR'' None 0 None,
   opt ''CONFIG_RG_FLASH_LINEAR'' None 0 None,
   opt ''CONFIG_RG_TELEPHONY'' None (OPT_MAJOR_FEATURE OR OPT_HC) (Some ''Telephony''),
   opt ''CONFIG_RG_VOATM'' None OPT_HC None,
   opt ''CONFIG_RG_VOATM_ELCP'' None OPT_MODULE_EXPAND None,
   opt ''CONFIG_RG_VOATM_CAS'' None OPT_MODULE_EXPAND None,
   opt ''CONFIG_PHY_LSI_LOGIC'' None 0 None,
   opt ''CONFIG_RG_FACTORY_SETTINGS'' None OPT_HC None,
   opt ''CONFIG_RG_MAC_COMPANY_ID'' None 0 None,
   opt ''CONFIG_RG_HW_BUTTONS'' None (OPT_MODULE_EXPAND OR OPT_STATIC_ON_DEVELOP) None,
   opt ''DIST_TYPE'' None 0 None,
   opt ''CONFIG_REMOTE_DEBUG'' None OPT_NOSTRIP None,
   opt ''CONFIG_PCI_RESET'' None OPT_NOSTRIP None,
   opt ''CONFIG_RG_CONSOLE_DEVICE'' None (OPT_STR OR OPT_EXPORT) None,
   opt ''CONFIG_RG_SAMBA'' None OPT_HC None,
   opt ''OPENRG_CHRDEV_MAJOR'' None OPT_NUMBER None,
   opt ''OPENRG_CHRDEV_NAME'' None OPT_C_STR None,
   opt ''CONFIG_RG_NOT_UNIX'' None 0 None,
   opt ''CONFIG_RG_EFSS'' None 0 None,
   opt ''CONFIG_VX_SYMTBL'' None 0 None,
   opt ''CONFIG_ATHEROS_AR531X_MIPS'' None OPT_HC None,
   opt ''CONFIG_ARCH_AR531X'' None 0 None,
   opt ''CONFIG_ARCH_WRT108G'' None OPT_HC None,
   opt ''CONFIG_AR531X_DEBUG'' None 0 None,
   opt ''CONFIG_TI_404_MIPS'' None OPT_HC None,
   opt ''CONFIG_TI_404_COMMON'' None OPT_HC None,
   opt ''CONFIG_TI_404_HAS_QOS_API'' None 0 None,
   opt ''CONFIG_WINDOWS_HOST'' None 0 None,
   opt ''CONFIG_GCC_CAN_INLINE'' None 0 None,
   opt ''CONFIG_GCC_CANNOT_OPTIMIZE'' None 0 None,
   opt ''RAM_HIGH_ADRS'' None 0 None,
   opt ''RAM_LOW_ADRS'' None 0 None,
   opt ''CONFIG_I386_BOCHS'' None 0 None,
   opt ''CONFIG_I386'' None OPT_HC None,
   opt ''CONFIG_UM'' None OPT_HC None,
   opt ''CONFIG_VX_KNET_SYMLINK'' None 0 None,
   opt ''CONFIG_RG_VX_DEFERRED_TX'' None 0 None,
   opt ''CONFIG_RG_DISK_MNG'' None OPT_HC None,
   opt ''CONFIG_RG_FILESERVER'' None (OPT_MAJOR_FEATURE OR OPT_HC OR OPT_EXPORT) (Some ''File Server''),
   opt ''CONFIG_RG_STORAGE'' None 0 None,
   opt ''CONFIG_RG_STORAGE_UTILS'' None 0 None,
   opt ''CONFIG_RG_MAX_EXT2_CHECK_SIZE'' None OPT_NUMBER None,
   opt ''CONFIG_RG_MAX_FAT_CHECK_SIZE'' None OPT_NUMBER None,
   opt ''CONFIG_RG_LARGE_FILE_SUPPORT'' None 0 None,
   opt ''CONFIG_RG_CODEPAGE'' None OPT_STR None,
   opt ''CONFIG_EXACT_EVENT_LOOP'' None 0 None,
   opt ''CONFIG_MSDOS_PARTITION'' None OPT_NOSTRIP None,
   opt ''CONFIG_FAT_FS'' None 0 None,
   opt ''CONFIG_FAT_DEFAULT_CODEPAGE'' None OPT_NUMBER None,
   opt ''CONFIG_MSDOS_FS'' None 0 None,
   opt ''CONFIG_VFAT_FS'' None 0 None,
   opt ''CONFIG_NLS'' None 0 None,
   opt ''CONFIG_NLS_DEFAULT'' None OPT_STR None,
   opt ''CONFIG_NLS_CODEPAGE_437'' None 0 None,
   opt ''CONFIG_NLS_CODEPAGE_850'' None 0 None,
   opt ''CONFIG_NLS_UTF8'' None 0 None,
   opt ''CONFIG_SMB_FS'' None OPT_MODULE_EXPAND None,
   opt ''CONFIG_RG_FILESERVER_ACLS'' None OPT_HC None,
   opt ''CONFIG_RG_FILESERVER_ACLS_DEBUG'' None OPT_HC None,
   opt ''CONFIG_FS_POSIX_ACL'' None 0 None,
   opt ''CONFIG_EXT3_FS_POSIX_ACL'' None 0 None,
   opt ''CONFIG_EXT2_FS_POSIX_ACL'' None 0 None,
   opt ''CONFIG_EXT3_FS_XATTR'' None 0 None,
   opt ''CONFIG_EXT3_FS_XATTR_SHARING'' None 0 None,
   opt ''CONFIG_EXT3_FS_XATTR_USER'' None 0 None,
   opt ''CONFIG_EXT2_FS_XATTR'' None 0 None,
   opt ''CONFIG_EXT2_FS_XATTR_SHARING'' None 0 None,
   opt ''CONFIG_EXT2_FS_XATTR_USER'' None 0 None,
   opt ''CONFIG_FS_MBCACHE'' None 0 None,
   opt ''CONFIG_RG_SSH'' None (OPT_MAJOR_FEATURE OR OPT_HC) (Some ''SSH''),
   opt ''CONFIG_RG_RAID'' None (OPT_MAJOR_FEATURE OR OPT_HC) (Some ''RAID''),
   opt ''CONFIG_RG_RAID_IDE_ONLY'' None OPT_HC None]"

definition config_options_base_12 :: "option_t list" where
  "config_options_base_12 = [
   opt ''CONFIG_MD'' None 0 None,
   opt ''CONFIG_BLK_DEV_MD'' None OPT_EXPORT None,
   opt ''CONFIG_MD_RAID0'' None 0 None,
   opt ''CONFIG_MD_RAID1'' None 0 None,
   opt ''CONFIG_MD_RAID5'' None 0 None,
   opt ''CONFIG_SCSI'' None 0 None,
   opt ''CONFIG_BLK_DEV_SD'' None OPT_EXPORT None,
   opt ''CONFIG_SCSI_SATA'' None 0 None,
   opt ''CONFIG_SCSI_SATA_SIL'' None 0 None,
   opt ''CONFIG_SD_EXTRA_DEVS'' None OPT_NUMBER None,
   opt ''CONFIG_FLASH'' None (OPT_MODULE_EXPAND OR OPT_STATIC_ON_DEVELOP OR OPT_HC) None,
   opt ''CONFIG_FLASH_IN_FILE'' None 0 None,
   opt ''CONFIG_RG_IR_TEST'' None 0 None,
   opt ''CONFIG_VLAN_8021Q'' None 0 None,
   opt ''CONFIG_RG_VLAN_8021Q'' None OPT_HC None,
   opt ''CONFIG_VLAN_8021Q_FAST'' None 0 None,
   opt ''CONFIG_AT93CXX'' None OPT_MODULE_EXPAND None,
   opt ''CONFIG_ADM6996'' None OPT_MODULE_EXPAND None,
   opt ''CONFIG_MARVELL_88E60XX'' None (OPT_MODULE_EXPAND OR OPT_HC) None,
   opt ''CONFIG_TANTOS_PSB6973'' None (OPT_MODULE_EXPAND OR OPT_HC) None,
   opt ''CONFIG_NO_FRAME_POINTER'' None 0 None,
   opt ''CONFIG_RG_OS_LINUX_26'' None OPT_HC None,
   opt ''CONFIG_RG_OS_LINUX_24'' None OPT_HC None,
   opt ''CONFIG_RG_OS_LINUX_22'' None OPT_HC None,
   opt ''CONFIG_RG_EMI'' None OPT_HC None,
   opt ''CONFIG_RG_EMI_IRDA'' None OPT_HC None,
   opt ''CONFIG_RG_EMI_USB'' None OPT_MODULE_EXPAND None,
   opt ''CONFIG_RG_LANGUAGES'' None OPT_STR None,
   opt ''CONFIG_RG_DIST_LANG'' None OPT_STR None,
   opt ''CONFIG_DMA_COHERENT'' None 0 None,
   opt ''CONFIG_SWAP_IO_SPACE'' None 0 None,
   opt ''CONFIG_SWAP_IO_SPACE_W'' None 0 None,
   opt ''CONFIG_SWAP_IO_SPACE_L'' None 0 None,
   opt ''CONFIG_BOOT_ELF32'' None 0 None,
   opt ''CONFIG_MIPS_L1_CACHE_SHIFT'' None OPT_NUMBER None,
   opt ''CONFIG_CPU_HAS_PREFETCH'' None 0 None,
   opt ''CONFIG_CPU_HAS_LLSC'' None 0 None,
   opt ''CONFIG_CPU_HAS_SYNC'' None 0 None,
   opt ''CONFIG_CPU_HAS_LLDSCD'' None 0 None,
   opt ''CONFIG_NO_ISA'' None 0 None,
   opt ''CONFIG_DMA_NONCOHERENT'' None 0 None,
   opt ''CONFIG_32BIT'' None 0 None,
   opt ''CONFIG_64BIT'' None 0 None,
   opt ''CONFIG_PAGE_SIZE_4KB'' None 0 None,
   opt ''CONFIG_GENERIC_IRQ_PROBE'' None 0 None,
   opt ''CONFIG_FLATMEM'' None 0 None,
   opt ''CONFIG_FLAT_NODE_MEM_MAP'' None 0 None,
   opt ''CONFIG_LINUX_SKB_REUSE'' None 0 None,
   opt ''CONFIG_NET_HW_FLOWCONTROL'' None 0 None,
   opt ''CONFIG_SMP'' None 0 None,
   opt ''CONFIG_NR_CPUS'' None OPT_NUMBER None,
   opt ''CONFIG_PREEMPT_BKL'' None 0 None,
   opt ''CONFIG_LOCK_KERNEL'' None 0 None,
   opt ''CONFIG_CPU_SB1'' None 0 None,
   opt ''CONFIG_SB1_PASS_1_WORKAROUNDS'' None 0 None,
   opt ''CONFIG_SIBYTE_SWARM'' None 0 None,
   opt ''CONFIG_SIBYTE_SENTOSA'' None 0 None,
   opt ''CONFIG_SIBYTE_COLORADO'' None 0 None,
   opt ''CONFIG_SIBYTE_SB1250'' None OPT_HC None,
   opt ''CONFIG_SIBYTE_SB1xxx_SOC'' None 0 None,
   opt ''CONFIG_CPU_SB1_PASS_1'' None 0 None,
   opt ''CONFIG_SIBYTE_HAS_LDT'' None 0 None,
   opt ''CONFIG_SIBYTE_CFE'' None 0 None,
   opt ''CONFIG_SIBYTE_BOARD'' None 0 None,
   opt ''CONFIG_SERIAL_NONSTANDARD'' None 0 None,
   opt ''CONFIG_SIBYTE_SB1250_DUART'' None 0 None,
   opt ''CONFIG_SIBYTE_SB1250_DUART_CONSOLE'' None 0 None,
   opt ''CONFIG_NET_SB1250_MAC'' None 0 None,
   opt ''CONFIG_NET_SB1250_MAC_TASKLET'' None 0 None,
   opt ''CONFIG_BCM91125E_MTD'' None OPT_MODULE_EXPAND None,
   opt ''CONFIG_INFINEON_TWINPASS'' None OPT_HC None,
   opt ''CONFIG_DANUBE'' None 0 None,
   opt ''CONFIG_DANUBE_PCI'' None 0 None,
   opt ''CONFIG_DANUBE_PCI_HW_SWAP'' None 0 None,
   opt ''CONFIG_DANUBE_MPS'' None 0 None,
   opt ''CONFIG_DANUBE_MPS_PROC_DEBUG'' None 0 None,
   opt ''CONFIG_TWINPASS_64_MEG'' None 0 None,
   opt ''CONFIG_BOARD_TWINPASS_E'' None 0 None,
   opt ''CONFIG_DANUBE_ETHERNET'' None 0 None,
   opt ''CONFIG_DANUBE_ETHERNET_D2'' None 0 None,
   opt ''CONFIG_DANUBE_ETHERNET_D4'' None OPT_MODULE_EXPAND None,
   opt ''CONFIG_DANUBE_PPA_D4'' None 0 None,
   opt ''CONFIG_DANUBE_PPA'' None OPT_MODULE_EXPAND None,
   opt ''CONFIG_ADM6996_SUPPORT'' None 0 None,
   opt ''CONFIG_SWITCH_ADM6996I'' None 0 None,
   opt ''CONFIG_SWITCH_ADM6996_MDIO'' None 0 None,
   opt ''CONFIG_SERIAL_IFX_ASC'' None 0 None,
   opt ''CONFIG_SERIAL_IFX_ASC_CONSOLE'' None 0 None,
   opt ''CONFIG_IFX_ASC_CONSOLE_ASC0'' None 0 None,
   opt ''CONFIG_IFX_ASC_CONSOLE_ASC1'' None 0 None,
   opt ''CONFIG_IFX_ASC_DEFAULT_BAUDRATE'' None OPT_NUMBER None,
   opt ''CONFIG_CRYPTO_DANUBE'' None OPT_MODULE_EXPAND None,
   opt ''CONFIG_CRYPTO_DEV_DANUBE'' None OPT_HC None,
   opt ''CONFIG_CRYPTO_DEV_DANUBE_DES'' None OPT_HC None,
   opt ''CONFIG_CRYPTO_DEV_DANUBE_AES'' None OPT_HC None,
   opt ''CONFIG_CRYPTO_DEV_DANUBE_SHA1'' None OPT_HC None,
   opt ''CONFIG_CRYPTO_DEV_DANUBE_MD5'' None OPT_HC None,
   opt ''CONFIG_CRYPTO_DEV_DEU'' None OPT_HC None,
   opt ''CONFIG_CRYPTO_DEV_DANUBE_DMA'' None OPT_HC None,
   opt ''CONFIG_RG_DANUBE_DUALCORE'' None (OPT_MODULE_EXPAND OR OPT_HC) None,
   opt ''CONFIG_TWINPASS_DUALCORE_WLAN'' None (OPT_MODULE_EXPAND OR OPT_HC) None,
   opt ''CONFIG_WESTELL_ULTRALINE3'' None 0 None,
   opt ''CONFIG_WESTELL_ULTRALINE3_TURBO'' None 0 None,
   opt ''CONFIG_WESTELL_MGMUT_FTM'' None 0 None,
   opt ''MOCA_ENTROPIC_V_04'' None 0 None,
   opt ''MOCA_ENTROPIC_TURBO'' None 0 None,
   opt ''MOCA_TURBO_LAN'' None 0 None,
   opt ''MOCA_VERSION_1_1'' None (OPT_H OR OPT_HC OR OPT_MK) None,
   opt ''CONFIG_ENTROPIC_CLINK'' None (OPT_HC OR OPT_MK) None,
   opt ''CONFIG_RG_UML'' None (OPT_HC OR OPT_EXPORT) None,
   opt ''CONFIG_PROC_MM'' None 0 None,
   opt ''CONFIG_KERNEL_HALF_GIGS'' None OPT_NUMBER None,
   opt ''CONFIG_CON_ZERO_CHAN'' None OPT_C_STR None,
   opt ''CONFIG_NEST_LEVEL'' None OPT_NUMBER None,
   opt ''CONFIG_KERNEL_STACK_ORDER'' None OPT_NUMBER None,
   opt ''CONFIG_MCONSOLE'' None 0 None,
   opt ''CONFIG_HPPFS'' None 0 None,
   opt ''CONFIG_HOSTFS'' None 0 None,
   opt ''CONFIG_MODE_TT'' None 0 None]"

definition config_options_base_13 :: "option_t list" where
  "config_options_base_13 = [
   opt ''CONFIG_MODE_SKAS'' None 0 None,
   opt ''CONFIG_CON_CHAN'' None OPT_C_STR None,
   opt ''CONFIG_SSL_CHAN'' None OPT_C_STR None,
   opt ''CONFIG_PT_PROXY'' None 0 None,
   opt ''CONFIG_USERMODE'' None 0 None,
   opt ''CONFIG_RWSEM_XCHGADD_ALGORITHM'' None 0 None,
   opt ''CONFIG_STDIO_CONSOLE'' None 0 None,
   opt ''CONFIG_SSL'' None 0 None,
   opt ''CONFIG_FD_CHAN'' None 0 None,
   opt ''CONFIG_NULL_CHAN'' None 0 None,
   opt ''CONFIG_PORT_CHAN'' None 0 None,
   opt ''CONFIG_PTY_CHAN'' None 0 None,
   opt ''CONFIG_TTY_CHAN'' None 0 None,
   opt ''CONFIG_XTERM_CHAN'' None 0 None,
   opt ''CONFIG_BLK_DEV_UBD'' None 0 None,
   opt ''CONFIG_BLK_DEV_NBD'' None 0 None,
   opt ''CONFIG_UML_NET'' None 0 None,
   opt ''CONFIG_UML_NET_ETHERTAP'' None 0 None,
   opt ''CONFIG_UML_NET_TUNTAP'' None 0 None,
   opt ''CONFIG_UML_NET_SLIP'' None 0 None,
   opt ''CONFIG_UML_NET_SLIRP'' None 0 None,
   opt ''CONFIG_UML_NET_DAEMON'' None 0 None,
   opt ''CONFIG_UML_NET_MCAST'' None 0 None,
   opt ''CONFIG_UML_RAM_SIZE'' None OPT_C_STR None,
   opt ''CONFIG_UML_BIG_FLASH'' None 0 None,
   opt ''CONFIG_DUMMY'' None 0 None,
   opt ''CONFIG_TUN'' None 0 None,
   opt ''CONFIG_PACKET_MMAP'' None 0 None,
   opt ''CONFIG_QUOTA'' None 0 None,
   opt ''CONFIG_AUTOFS4_FS'' None 0 None,
   opt ''CONFIG_DEVFS_FS'' None 0 None,
   opt ''CONFIG_DEVFS_MOUNT'' None 0 None,
   opt ''CONFIG_REISERFS_FS'' None 0 None,
   opt ''CONFIG_ZLIB_INFLATE'' None 0 None,
   opt ''CONFIG_ZLIB_DEFLATE'' None 0 None,
   opt ''CONFIG_USB_SERIAL'' None 0 None,
   opt ''CONFIG_USB_SERIAL_PL2303'' None 0 None,
   opt ''CONFIG_USB_SERIAL_SPCP8X5'' None 0 None,
   opt ''CONFIG_ADSL_CHIP_ALCATEL_20150'' None 0 None,
   opt ''CONFIG_ADSL_CHIP_ALCATEL_20170'' None 0 None,
   opt ''CONFIG_RG_PROXY_ARP'' None (OPT_MAJOR_FEATURE OR OPT_HC) (Some ''Proxy ARP''),
   opt ''CONFIG_BCM947_HW_BUG_HACK'' None 0 None,
   opt ''CONFIG_RG_OAM_PING'' None (OPT_MAJOR_FEATURE OR OPT_HC) (Some ''OAM F4/F5 Loopback''),
   opt ''CONFIG_STOP_ON_INIT_FAIL'' None OPT_HC None,
   opt ''CONFIG_KNSN_SDRAM_16BIT'' None 0 None,
   opt ''CONFIG_IPV6'' None 0 None,
   opt ''CONFIG_IPV6_RESTRICTED_DOUBLE_BIND'' None 0 None,
   opt ''CONFIG_IPV6_6TO4_NEXTHOP'' None 0 None,
   opt ''CONFIG_RG_KCALL'' None OPT_MODULE_EXPAND None,
   opt ''CONFIG_RG_FRAG_CACHE'' None (OPT_MODULE_EXPAND OR OPT_STATIC_ON_DEVELOP) None,
   opt ''CONFIG_RG_NET_NO_THROTTLE'' None 0 None,
   opt ''CONFIG_RG_XML'' None OPT_HC None,
   opt ''CONFIG_RG_FLASH_LAYOUT_SIZE'' None OPT_NUMBER None,
   opt ''CONFIG_LSP_FLASH_LAYOUT'' None 0 None,
   opt ''CONFIG_RG_AUTOTEST'' None OPT_HC None,
   opt ''CONFIG_RG_DATE'' None 0 None,
   opt ''CONFIG_RG_PROD_IMG'' None 0 None,
   opt ''CONFIG_RG_TUTORIAL'' None (OPT_NOSTRIP OR OPT_HC) None,
   opt ''CONFIG_RG_TUTORIAL_ADVANCED'' None (OPT_NOSTRIP OR OPT_HC) None,
   opt ''CONFIG_RG_WEBCAM'' None OPT_HC None,
   opt ''CONFIG_ZERO_CONFIGURATION'' None OPT_MAJOR_FEATURE (Some ''Zero Configuration Technology''),
   opt ''CONFIG_ZC_IP_AUTO_DETECTION'' None OPT_HC (Some ''IP Auto Detection''),
   opt ''CONFIG_ZC_AUTO_CONFIG_NON_PNP'' None OPT_HC (Some ''Auto Configuration Of Non-PNP Networks''),
   opt ''CONFIG_USB_PRINTER'' None OPT_EXPORT None,
   opt ''CONFIG_RG_PRINT_SERVER_SPOOL'' None OPT_NUMBER None,
   opt ''CONFIG_RG_PRINT_SERVER_PRINTER_NULL'' None 0 None,
   opt ''CONFIG_RG_PRINT_SERVER'' None (OPT_MAJOR_FEATURE OR OPT_HC) (Some ''Print Server''),
   opt ''CONFIG_RG_SAMBA_PRINTING'' None (OPT_MAJOR_FEATURE OR OPT_HC) (Some ''Microsoft Shared Printing''),
   opt ''CONFIG_RG_IPP'' None (OPT_MAJOR_FEATURE OR OPT_HC) (Some ''Internet Printing''),
   opt ''CONFIG_RG_LPD'' None OPT_HC None,
   opt ''CONFIG_RG_LANG'' None OPT_HC None,
   opt ''CONFIG_RG_DYN_FLASH_LAYOUT'' None OPT_HC None,
   opt ''CONFIG_RG_DNS_USE_ISP_DOMAIN'' None OPT_HC None,
   opt ''CONFIG_VX_TFFS'' None 0 None,
   opt ''CONFIG_RG_ZLIB'' None OPT_HC None,
   opt ''CONFIG_RG_KERNEL'' None OPT_HC None,
   opt ''CONFIG_RG_MAIN'' None OPT_HC None,
   opt ''CONFIG_RG_VENDOR'' None OPT_HC None,
   opt ''CONFIG_RG_GNUDIP'' None OPT_HC None,
   opt ''CONFIG_RG_VOIP'' None (OPT_MAJOR_FEATURE OR OPT_HC) (Some ''Voice Over IP''),
   opt ''CONFIG_RG_IPPHONE'' None OPT_HC None,
   opt ''CONFIG_RG_ATA'' None OPT_HC None,
   opt ''CONFIG_RG_PBX'' None OPT_HC None,
   opt ''CONFIG_RG_AUDIO_MGT'' None OPT_HC None,
   opt ''CONFIG_RG_VOIP_SIP'' None (OPT_MAJOR_FEATURE OR OPT_HC) (Some ''SIP Signalling''),
   opt ''CONFIG_RG_VOIP_H323'' None (OPT_MAJOR_FEATURE OR OPT_HC) (Some ''H.323 Signalling''),
   opt ''CONFIG_RG_VOIP_MGCP'' None (OPT_MAJOR_FEATURE OR OPT_HC) (Some ''MGCP Signalling''),
   opt ''CONFIG_RG_VOIP_MGCP_CALL_AGENT'' None (OPT_MAJOR_FEATURE OR OPT_HC) (Some ''MGCP Call Agent''),
   opt ''CONFIG_HW_NUMBER_OF_FXS_PORTS'' None (OPT_HC OR OPT_NUMBER) None,
   opt ''CONFIG_RG_VOIP_HW_EMULATION'' None OPT_HC None,
   opt ''CONFIG_RG_VOIP_USE_SIP_ALG'' None OPT_HC None,
   opt ''CONFIG_RG_VOIP_RV'' None OPT_HC None,
   opt ''CONFIG_RG_VOIP_RV_SIP'' None OPT_HC None,
   opt ''CONFIG_RG_VOIP_RV_H323'' None OPT_HC None,
   opt ''CONFIG_RG_VOIP_RV_MGCP'' None OPT_HC None,
   opt ''CONFIG_RG_VOIP_OSIP'' None OPT_HC None,
   opt ''CONFIG_RG_VOIP_ASTERISK'' None (OPT_HC OR OPT_EXPORT) None,
   opt ''CONFIG_RG_VOIP_ASTERISK_SIP'' None OPT_HC None,
   opt ''CONFIG_RG_VOIP_ASTERISK_H323'' None OPT_HC None,
   opt ''CONFIG_RG_VOIP_ASTERISK_MGCP_GW'' None OPT_HC None,
   opt ''CONFIG_RG_VOIP_ASTERISK_MGCP_CALL_AGENT'' None OPT_HC None]"

definition config_options_base_14 :: "option_t list" where
  "config_options_base_14 = [
   opt ''CONFIG_RG_JRTP'' None (OPT_MODULE_EXPAND OR OPT_HC OR OPT_STATIC_ON_DEVELOP) (Some ''RTP kernel module''),
   opt ''CONFIG_WX5715_VLAN_SWITCH_DISABLE'' None 0 None,
   opt ''CONFIG_RG_KERNEL_NEEDED_SYMBOLS'' None OPT_EXPORT None,
   opt ''CONFIG_RG_OLD_XSCALE_TOOLCHAIN'' None 0 None,
   opt ''CONFIG_RG_THREADS'' None OPT_EXPORT None,
   opt ''CONFIG_RG_OSS_RMT'' None (OPT_MAJOR_FEATURE OR OPT_HC) (Some ''Remote Update Management''),
   opt ''CONFIG_HITRON_BSP'' None OPT_HC None,
   opt ''CONFIG_RG_VX_TIMERS_TASK'' None 0 None,
   opt ''CONFIG_RG_RMT_MNG'' None (OPT_MAJOR_FEATURE OR OPT_HC) (Some ''Remote Management Server''),
   opt ''CONFIG_SL2312_COMMON_RG'' None 0 None,
   opt ''CONFIG_SL2312_COMMON_RGLOADER'' None 0 None,
   opt ''CONFIG_SL2312_COMMON'' None OPT_HC None,
   opt ''CONFIG_ARCH_SL2312'' None 0 None,
   opt ''CONFIG_SL2312_ASIC'' None 0 None,
   opt ''CONFIG_BLK_DEV_IDE_MODES'' None 0 None,
   opt ''CONFIG_BLK_DEV_SL2312_IDE'' None 0 None,
   opt ''CONFIG_BLK_DEV_SL2312_IDE_CHANNEL_0'' None 0 None,
   opt ''CONFIG_BLK_DEV_SL2312_IDE_CHANNEL_1'' None 0 None,
   opt ''CONFIG_CPU_FA52X'' None 0 None,
   opt ''CONFIG_CPU_FA52X_I_CACHE_ON'' None 0 None,
   opt ''CONFIG_CPU_FA52X_D_CACHE_ON'' None 0 None,
   opt ''CONFIG_CPU_FA52X_WRITETHROUGH'' None 0 None,
   opt ''CONFIG_SL2312_FLASH'' None OPT_MODULE_EXPAND None,
   opt ''CONFIG_SERIAL_IT8712'' None 0 None,
   opt ''CONFIG_SERIAL_IT8712_CONSOLE'' None 0 None,
   opt ''CONFIG_KERNEL_START'' None OPT_STR None,
   opt ''CONFIG_USB_OHCI_SL2312'' None OPT_MODULE_EXPAND None,
   opt ''CONFIG_SL2312'' None 0 None,
   opt ''CONFIG_SL2312_LPC'' None 0 None,
   opt ''CONFIG_SL2312_LPC_IT8712'' None 0 None,
   opt ''CONFIG_IT8712_GPIO'' None 0 None,
   opt ''CONFIG_SL2312_SHARE_PIN'' None 0 None,
   opt ''CONFIG_SL2312_ETH'' None OPT_MODULE_EXPAND None,
   opt ''CONFIG_BINFMT_AOUT'' None 0 None,
   opt ''CONFIG_RG_EVENT_LOGGING'' None OPT_MAJOR_FEATURE (Some ''Event Logging''),
   opt ''CONFIG_RG_WINS_SERVER'' None (OPT_MAJOR_FEATURE OR OPT_HC) (Some ''WINS Server''),
   opt ''CONFIG_RG_FTP_SERVER'' None (OPT_MAJOR_FEATURE OR OPT_HC) (Some ''FTP Server''),
   opt ''CONFIG_RG_MAIL_SERVER'' None (OPT_MAJOR_FEATURE OR OPT_HC) (Some ''Mail Server''),
   opt ''CONFIG_RG_WEB_SERVER'' None (OPT_MAJOR_FEATURE OR OPT_HC) (Some ''Web Server''),
   opt ''CONFIG_RG_FS_BACKUP'' None (OPT_MAJOR_FEATURE OR OPT_HC) (Some ''File System Backup and Restore''),
   opt ''CONFIG_NEW_NONE_PRICED_FEATURES'' None 0 None,
   opt ''CONFIG_RG_CFG_SERVER'' None 0 None,
   opt ''CONFIG_TOS_DSCP_RFC2474'' None OPT_MODULE_EXPAND (Some ''Treat ToS octet according to RFC2474''),
   opt ''CONFIG_RG_IPROUTE2'' None OPT_HC (Some ''IPRoute2 kernel support''),
   opt ''CONFIG_RG_QOS'' None (OPT_MAJOR_FEATURE OR OPT_HC) (Some ''OpenRG QOS support''),
   opt ''CONFIG_RG_QOS_INGRESS'' None (OPT_MODULE_EXPAND OR OPT_STATIC_ON_DEVELOP) (Some ''OpenRG QoS ingress support''),
   opt ''CONFIG_RG_HW_SWITCH_QOS'' None (OPT_MODULE_EXPAND OR OPT_HC) (Some ''Hardware Switch QoS support''),
   opt ''CONFIG_RG_VLAN_DSCP'' None (OPT_MAJOR_FEATURE OR OPT_HC) (Some ''802.1p to DSCP translate''),
   opt ''CONFIG_NET_SCHED'' None OPT_MODULE_EXPAND (Some ''QoS and/or fair queueing''),
   opt ''CONFIG_NET_SCH_INGRESS'' None OPT_MODULE_EXPAND (Some ''Ingress qdisc''),
   opt ''CONFIG_NET_SCH_HTB'' None OPT_MODULE_EXPAND (Some ''HTB packet scheduler''),
   opt ''CONFIG_NET_SCH_ATM'' None OPT_MODULE_EXPAND (Some ''ATM packet pseudoscheduler''),
   opt ''CONFIG_NET_SCH_PRIO'' None OPT_MODULE_EXPAND (Some ''The simplest PRIO pseudoscheduler''),
   opt ''CONFIG_NET_SCH_RED'' None OPT_MODULE_EXPAND (Some ''The simplest RED pseudoscheduler''),
   opt ''CONFIG_NET_SCH_SFQ'' None OPT_MODULE_EXPAND (Some ''The simplest SFQ pseudoscheduler''),
   opt ''CONFIG_NET_SCH_DSMARK'' None OPT_MODULE_EXPAND (Some ''Diffserv field marker''),
   opt ''CONFIG_NET_QOS'' None OPT_MODULE_EXPAND (Some ''QoS support''),
   opt ''CONFIG_NET_ESTIMATOR'' None OPT_MODULE_EXPAND (Some ''Rate estimator''),
   opt ''CONFIG_NET_CLS'' None OPT_MODULE_EXPAND (Some ''Packet classifier API''),
   opt ''CONFIG_NET_CLS_POLICE'' None OPT_MODULE_EXPAND (Some ''Traffic policing''),
   opt ''CONFIG_NET_CLS_TCINDEX'' None OPT_MODULE_EXPAND (Some ''TC index classifier''),
   opt ''CONFIG_NET_CLS_FW'' None OPT_MODULE_EXPAND (Some ''Firewall based classifier''),
   opt ''CONFIG_NET_CLS_U32'' None OPT_MODULE_EXPAND (Some ''U32 classifier''),
   opt ''CONFIG_NET_CLS_RSVP'' None OPT_MODULE_EXPAND (Some ''Special RSVP classifier''),
   opt ''CONFIG_NET_CLS_RSVP6'' None OPT_MODULE_EXPAND (Some ''Special RSVP classifier for IPv6''),
   opt ''CONFIG_IP_ROUTE_MULTIPATH'' None OPT_MODULE_EXPAND (Some ''Equal cost multipath''),
   opt ''CONFIG_IP_ROUTE_VERBOSE'' None OPT_MODULE_EXPAND (Some ''Verbose route monitoring''),
   opt ''CONFIG_IP_ROUTE_FWMARK'' None OPT_MODULE_EXPAND (Some ''Use netfilter MARK value as routing key''),
   opt ''CONFIG_RG_ROUTE_MULTIWAN'' None (OPT_MAJOR_FEATURE OR OPT_HC) (Some ''Routing over multiple WAN devices support''),
   opt ''CONFIG_IP_MULTIPLE_TABLES'' None OPT_MODULE_EXPAND (Some ''Policy routing''),
   opt ''CONFIG_IP_ROUTE_TOS'' None OPT_MODULE_EXPAND (Some ''Use TOS value as routing key''),
   opt ''CONFIG_RG_DSCP_POLICY_ROUTING'' None (OPT_MAJOR_FEATURE OR OPT_HC) (Some ''Routing by DSCP value''),
   opt ''CONFIG_RG_LOAD_BALANCING'' None (OPT_MAJOR_FEATURE OR OPT_HC) (Some ''Load Balancing''),
   opt ''CONFIG_RG_FAILOVER'' None (OPT_MAJOR_FEATURE OR OPT_HC) (Some ''Fail-over of multiple WAN interfaces''),
   opt ''CONFIG_RG_TUNNELS'' None (OPT_MAJOR_FEATURE OR OPT_HC) (Some ''IPIP and IPGRE Tunnels''),
   opt ''CONFIG_RG_SSL_VPN'' None (OPT_MAJOR_FEATURE OR OPT_HC) (Some ''VPN over SSL''),
   opt ''CONFIG_RG_SSL_VPN_SMALL_FLASH'' None 0 None,
   opt ''CONFIG_RG_JAVA'' None OPT_HC None,
   opt ''CONFIG_RG_JTA'' None OPT_HC None,
   opt ''CONFIG_RG_PROPER_JAVA_RDP'' None OPT_HC None,
   opt ''CONFIG_RG_JVFTP'' None OPT_HC None,
   opt ''CONFIG_RG_JCIFS'' None OPT_HC None,
   opt ''CONFIG_RG_SMB_EXPLORER'' None OPT_HC None,
   opt ''CONFIG_RG_TIGHT_VNC'' None OPT_HC None,
   opt ''CONFIG_RG_WEB_CIFS'' None OPT_HC None,
   opt ''CONFIG_RG_FOUNDATION_CORE'' None 0 None,
   opt ''CONFIG_RG_TARGET_LINUX'' None 0 None,
   opt ''CONFIG_RG_TARGET_VXWORKS'' None 0 None,
   opt ''CONFIG_RG_HOST_CYGWIN'' None 0 None,
   opt ''CONFIG_RG_WINDOWS_HOST'' None 0 None,
   opt ''CONFIG_RG_HOST_LINUX'' None 0 None,
   opt ''CONFIG_RG_GPL'' None 0 None,
   opt ''CONFIG_RG_DO_DEVICES'' None 0 None,
   opt ''PACKAGE_OPENRG_BASIC_GATEWAY'' None 0 None,
   opt ''PACKAGE_OPENRG_SECURITY_GATEWAY'' None 0 None,
   opt ''PACKAGE_OPENRG_VPN_GATEWAY'' None 0 None,
   opt ''PACKAGE_OPENRG_SOHO_GATEWAY'' None 0 None,
   opt ''MODULE_RG_FOUNDATION'' None OPT_MODULE (Some ''OpenRG Foundation Module (Mandatory)''),
   opt ''MODULE_RG_ADVANCED_MANAGEMENT'' None OPT_MODULE (Some ''Advanced Management'')]"

definition config_options_base_15 :: "option_t list" where
  "config_options_base_15 = [
   opt ''MODULE_RG_SNMP'' None OPT_MODULE (Some ''SNMP Module''),
   opt ''MODULE_RG_DSL'' None OPT_MODULE (Some ''DSL Module (ATM)''),
   opt ''MODULE_RG_PPP'' None OPT_MODULE (Some ''PPP Module''),
   opt ''MODULE_RG_IPV6'' None OPT_MODULE (Some ''IPv6 Module''),
   opt ''MODULE_RG_VLAN'' None OPT_MODULE (Some ''VLAN Module''),
   opt ''MODULE_RG_UPNP'' None OPT_MODULE (Some ''Universal Plug and Play''),
   opt ''MODULE_RG_ADVANCED_ROUTING'' None OPT_MODULE (Some ''Advanced Routing''),
   opt ''MODULE_RG_FIREWALL_AND_SECURITY'' None OPT_MODULE (Some ''Firewall and Security Module''),
   opt ''MODULE_RG_L2TP'' None OPT_MODULE (Some ''VPN L2TP''),
   opt ''MODULE_RG_IPSEC'' None OPT_MODULE (Some ''VPN IPSec''),
   opt ''MODULE_RG_PPTP'' None OPT_MODULE (Some ''VPN PPTP''),
   opt ''MODULE_RG_FILESERVER'' None OPT_MODULE (Some ''File Server''),
   opt ''MODULE_RG_PRINTSERVER'' None OPT_MODULE (Some ''Print Server''),
   opt ''MODULE_RG_WLAN_AND_ADVANCED_WLAN'' None OPT_MODULE (Some ''WLAN and Advanced WLAN Security Module''),
   opt ''MODULE_RG_CABLEHOME'' None OPT_MODULE (Some ''Cablehome''),
   opt ''MODULE_RG_VODSL'' None OPT_MODULE (Some ''Voice over DSL (VoDSL)''),
   opt ''MODULE_RG_VOIP_RV_SIP'' None OPT_MODULE (Some ''VoIP SIP Stack (RADVISION)''),
   opt ''MODULE_RG_VOIP_RV_MGCP'' None OPT_MODULE (Some ''VoIP MGCP Stack (RADVISION)''),
   opt ''MODULE_RG_VOIP_RV_H323'' None OPT_MODULE (Some ''VoIP H.323 Stack (RADVISION)''),
   opt ''MODULE_RG_VOIP_OSIP'' None OPT_MODULE (Some ''VoIP SIP Stack (oSIP)''),
   opt ''MODULE_RG_VOIP_ASTERISK_SIP'' None OPT_MODULE (Some ''VoIP SIP Stack (Asterisk)''),
   opt ''MODULE_RG_VOIP_ASTERISK_H323'' None OPT_MODULE (Some ''VoIP H.323 Stack (Asterisk)''),
   opt ''MODULE_RG_VOIP_ASTERISK_MGCP_GW'' None OPT_MODULE (Some ''VoIP MGCP Gateway Stack (Asterisk)''),
   opt ''MODULE_RG_VOIP_ASTERISK_MGCP_CALL_AGENT'' None OPT_MODULE (Some ''VoIP MGCP Call Agent (Asterisk)''),
   opt ''MODULE_RG_URL_FILTERING'' None OPT_MODULE (Some ''URL Filtering (Parental Control)''),
   opt ''MODULE_RG_QOS'' None OPT_MODULE (Some ''Quality of Service''),
   opt ''MODULE_RG_DSLHOME'' None OPT_MODULE (Some ''DSL Home''),
   opt ''MODULE_RG_TR_098'' None OPT_MODULE (Some ''TR-098''),
   opt ''MODULE_RG_MAIL_FILTER'' None OPT_MODULE (Some ''Mail filtering (Anti-Virus)''),
   opt ''MODULE_RG_ADVANCED_OFFICE_SERVERS'' None OPT_MODULE (Some ''Advanced Office Servers''),
   opt ''MODULE_RG_ZERO_CONFIGURATION_NETWORKING'' None OPT_MODULE (Some ''Zero Configuration Networking''),
   opt ''MODULE_RG_BLUETOOTH'' None OPT_MODULE (Some ''Bluetooth''),
   opt ''MODULE_RG_TR_064'' None OPT_MODULE (Some ''TR-064''),
   opt ''MODULE_RG_ROUTE_MULTIWAN'' None OPT_MODULE (Some ''Multiple WAN Routing''),
   opt ''MODULE_RG_JVM'' None OPT_MODULE (Some ''JVM (Java Virtual Machine)''),
   opt ''MODULE_RG_SSL_VPN'' None OPT_MODULE (Some ''SSL VPN''),
   opt ''MODULE_RG_ATA'' None OPT_MODULE (Some ''ATA''),
   opt ''MODULE_RG_PBX'' None OPT_MODULE (Some ''PBX''),
   opt ''CONFIG_HW_ETH_WAN'' None (OPT_HARDWARE OR OPT_HC) (Some ''WAN Interface: ETH''),
   opt ''CONFIG_HW_ETH_WAN2'' None (OPT_HARDWARE OR OPT_HC) (Some ''WAN Interface: ETH2''),
   opt ''CONFIG_HW_CABLE_WAN'' None (OPT_HARDWARE OR OPT_HC) (Some ''WAN Interface: CABLE''),
   opt ''CONFIG_HW_VDSL_WAN'' None (OPT_HARDWARE OR OPT_HC) (Some ''WAN Interface: VDSL''),
   opt ''CONFIG_HW_MOCA_WAN'' None (OPT_HARDWARE OR OPT_HC) (Some ''WAN Interface: MOCA''),
   opt ''CONFIG_HW_WAN_ETHERNET'' None (OPT_HARDWARE OR OPT_HC) (Some ''WAN Interface: Ethernet''),
   opt ''CONFIG_HW_DUAL_MOCA'' None (OPT_HARDWARE OR OPT_HC) (Some ''UL3 Dual Moca''),
   opt ''CONFIG_HW_TURBO_DUAL_MOCA'' None (OPT_HARDWARE OR OPT_HC) (Some ''UL3 Turbo Dual Moca''),
   opt ''CONFIG_HW_TURBO_M100'' None (OPT_HARDWARE OR OPT_HC) (Some ''UL3 Turbo M100''),
   opt ''CONFIG_HW_DEF_TO_WAN_ETH'' None (OPT_HARDWARE OR OPT_HC) (Some ''WAN Interface: Ethernet''),
   opt ''CONFIG_HW_DSL_WAN'' None (OPT_HARDWARE OR OPT_HC) (Some ''WAN Interface: DSL''),
   opt ''CONFIG_HW_HSS_WAN'' None (OPT_HARDWARE OR OPT_HC) (Some ''WAN Interface: HSS (E1/T1)''),
   opt ''CONFIG_HW_ETH_LAN'' None OPT_HARDWARE (Some ''LAN Interface: ETH''),
   opt ''CONFIG_HW_ETH_FEC'' None OPT_HARDWARE (Some ''LAN Interface: Fast Ethernet Controller''),
   opt ''CONFIG_HW_ETH_EEPRO1000'' None OPT_HARDWARE (Some ''LAN Interface: ETH EEPRO1000''),
   opt ''CONFIG_HW_ETH_EEPRO100_LAN'' None OPT_HARDWARE (Some ''LAN Interface: ETH EEPRO100''),
   opt ''CONFIG_HW_ETH_LAN2'' None OPT_HARDWARE (Some ''LAN Interface: ETH2''),
   opt ''CONFIG_HW_SWITCH_LAN'' None OPT_HARDWARE (Some ''LAN Interface: HW Switch''),
   opt ''CONFIG_HW_SWITCH_WAN'' None OPT_HARDWARE (Some ''WAN Interface: HW Switch''),
   opt ''CONFIG_HW_MOCA'' None OPT_HARDWARE (Some ''Multimedia over Coax Interface''),
   opt ''CONFIG_HW_ETH_MSPCTRL'' None OPT_HARDWARE (Some ''MSP Control Interface: ETH1''),
   opt ''CONFIG_HW_80211B_PRISM2'' None OPT_HARDWARE (Some ''LAN Interface: Wireless 80211B PRISM2''),
   opt ''CONFIG_HW_80211G_ISL38XX'' None OPT_HARDWARE (Some ''LAN Interface: Wireless 80211G ISL38XX''),
   opt ''CONFIG_HW_80211G_ISL_SOFTMAC'' None OPT_HARDWARE (Some ''LAN Interface: Wireless 80211G ISL SOFTMAC''),
   opt ''CONFIG_HW_80211G_AR531X'' None OPT_HARDWARE (Some ''LAN Interface: Wireless 80211G AR531X''),
   opt ''CONFIG_HW_80211A_AR531X'' None OPT_HARDWARE (Some ''LAN Interface: Wireless 80211A AR531X''),
   opt ''CONFIG_HW_80211G_ATHEROS_AR521X'' None (OPT_HARDWARE OR OPT_HC) (Some ''LAN Interface: Wireless 80211G Atheros AR521X''),
   opt ''CONFIG_HW_80211N_ATHEROS_AR50WL'' None (OPT_HARDWARE OR OPT_HC) (Some ''LAN Interface: Wireless 80211N Atheros AR50WL''),
   opt ''CONFIG_HW_80211G_BCM43XX'' None OPT_HARDWARE (Some ''LAN Interface: Wireless 80211G BCM43XX''),
   opt ''CONFIG_WESTELL_WIRELESS_ONBOARD'' None (OPT_HARDWARE OR OPT_HC) (Some ''Enable on board radio''),
   opt ''CONFIG_HW_80211G_RALINK_RT2560'' None OPT_HARDWARE (Some ''LAN Interface: Wireless 80211G Ralink RT2560''),
   opt ''CONFIG_HW_80211G_RALINK_RT2561'' None OPT_HARDWARE (Some ''LAN Interface: Wireless 80211G Ralink RT2561''),
   opt ''CONFIG_HW_80211N_AIRGO_AGN100'' None OPT_HARDWARE (Some ''LAN Interface: Wireless 80211N Airgo AGN100''),
   opt ''CONFIG_HW_USB_RNDIS'' None OPT_HARDWARE (Some ''LAN Interface: USB''),
   opt ''CONFIG_HW_USB_ETH'' None OPT_HARDWARE (Some ''LAN Interface: USB Ethernet''),
   opt ''CONFIG_HW_USB_HOST_UHCI'' None (OPT_MODULE_EXPAND OR OPT_HARDWARE) (Some ''USB Host 1.1''),
   opt ''CONFIG_HW_USB_HOST_OHCI'' None OPT_HARDWARE (Some ''USB Host 1.1''),
   opt ''CONFIG_HW_USB_HOST_EHCI'' None (OPT_MODULE_EXPAND OR OPT_HARDWARE) (Some ''USB Host 2.0''),
   opt ''CONFIG_HW_FIREWIRE'' None OPT_HARDWARE (Some ''Firewire IEEE1394''),
   opt ''CONFIG_HW_FIREWIRE_STORAGE'' None OPT_HARDWARE (Some ''Firewire File Storage''),
   opt ''CONFIG_HW_USB_STORAGE'' None OPT_HARDWARE (Some ''USB file Storage''),
   opt ''CONFIG_HW_DSP'' None OPT_HARDWARE (Some ''VoIP DSP Driver''),
   opt ''CONFIG_HW_KEYPAD'' None 0 None,
   opt ''CONFIG_HW_PCMCIA_CARDBUS'' None OPT_MODULE_EXPAND None,
   opt ''CONFIG_HW_CAMERA_USB_OV511'' None 0 None,
   opt ''CONFIG_HW_CAMERA_USB_PWC'' None 0 None,
   opt ''CONFIG_HW_CAMERA_USB_SPCA5XX'' None 0 None,
   opt ''CONFIG_HW_EEPROM'' None 0 None,
   opt ''CONFIG_HW_LEDS'' None (OPT_MODULE_EXPAND OR OPT_HARDWARE) (Some ''LED Support''),
   opt ''CONFIG_HW_BLUETOOTH'' None OPT_HARDWARE (Some ''Bluetooth''),
   opt ''CONFIG_HW_BUTTONS'' None (OPT_MODULE_EXPAND OR OPT_STATIC_ON_DEVELOP) None,
   opt ''CONFIG_HW_ENCRYPTION'' None OPT_HARDWARE (Some ''IPSec HW Encryption''),
   opt ''CONFIG_HW_CLOCK'' None (OPT_NOSTRIP OR OPT_HC) (Some ''Hardware clock support''),
   opt ''CONFIG_HW_IDE'' None 0 None,
   opt ''CONFIG_IXJ'' None OPT_MODULE_EXPAND None,
   opt ''CONFIG_ZAPTEL'' None (OPT_MODULE_EXPAND OR OPT_HC) None,
   opt ''CONFIG_HW_I2C'' None OPT_HC None,
   opt ''CONFIG_HW_ENV_MONITOR'' None OPT_HC None,
   opt ''CONFIG_HW_ST_20190'' None (OPT_HARDWARE OR OPT_HC OR OPT_EXPORT) (Some ''ADSL2+''),
   opt ''CONFIG_HW_ETH_GIANFAR'' None OPT_HARDWARE (Some ''Freescale gigabit ethernet MAC''),
   opt ''CONFIG_HW_SWITCH_BCM53XX'' None (OPT_HARDWARE OR OPT_HC OR OPT_MODULE_EXPAND) (Some ''Broadcom hardware switch''),
   opt ''CONFIG_RG_BCM53XX_STORM_SUPPRESSION'' None 0 None,
   opt ''CONFIG_RG_FLASH_ONLY_ON_BOOT'' None OPT_HC None,
   opt ''CONFIG_RG_MAC_CLONING'' None OPT_HC None,
   opt ''CONFIG_RG_WLAN_REPEATING'' None OPT_HC None,
   opt ''CONFIG_RG_WDS_CONN_NOTIFIER'' None OPT_MODULE_EXPAND None]"

definition config_options_base_16 :: "option_t list" where
  "config_options_base_16 = [
   opt ''CONFIG_RG_UNCONFIGURED_WAN_INTERCEPTION'' None OPT_HC None,
   opt ''CONFIG_RG_STATISTICS_CTRL_WBM'' None OPT_HC None,
   opt ''CONFIG_RG_WLAN_STA_STATISTICS_WBM'' None OPT_HC None,
   opt ''CONFIG_RG_CHECK_BAD_REBOOTS'' None OPT_HC None,
   opt ''CONFIG_RG_BLUETOOTH'' None (OPT_MAJOR_FEATURE OR OPT_HC) (Some ''Bluetooth support''),
   opt ''CONFIG_BLUEZ'' None OPT_MODULE_EXPAND None,
   opt ''CONFIG_BLUEZ_L2CAP'' None OPT_MODULE_EXPAND None,
   opt ''CONFIG_BLUEZ_SCO'' None OPT_MODULE_EXPAND None,
   opt ''CONFIG_BLUEZ_RFCOMM'' None OPT_MODULE_EXPAND None,
   opt ''CONFIG_BLUEZ_RFCOMM_TTY'' None 0 None,
   opt ''CONFIG_BLUEZ_BNEP'' None OPT_MODULE_EXPAND None,
   opt ''CONFIG_BLUEZ_BNEP_MC_FILTER'' None 0 None,
   opt ''CONFIG_BLUEZ_BNEP_PROTO_FILTER'' None 0 None,
   opt ''CONFIG_BLUEZ_HCIUSB'' None OPT_MODULE_EXPAND None,
   opt ''CONFIG_BLUEZ_HCIUART'' None OPT_MODULE_EXPAND None,
   opt ''CONFIG_BLUEZ_HCIUART_H4'' None 0 None,
   opt ''CONFIG_BLUEZ_HCIUART_BCSP'' None 0 None,
   opt ''CONFIG_BLUEZ_HCIVHCI'' None OPT_MODULE_EXPAND None,
   opt ''CONFIG_BLUEZ_HCIBTUART'' None OPT_MODULE_EXPAND None,
   opt ''CONFIG_BT'' None OPT_MODULE_EXPAND None,
   opt ''CONFIG_BT_L2CAP'' None OPT_MODULE_EXPAND None,
   opt ''CONFIG_BT_SCO'' None OPT_MODULE_EXPAND None,
   opt ''CONFIG_BT_RFCOMM'' None OPT_MODULE_EXPAND None,
   opt ''CONFIG_BT_RFCOMM_TTY'' None 0 None,
   opt ''CONFIG_BT_BNEP'' None OPT_MODULE_EXPAND None,
   opt ''CONFIG_BT_BNEP_MC_FILTER'' None 0 None,
   opt ''CONFIG_BT_BNEP_PROTO_FILTER'' None 0 None,
   opt ''CONFIG_BT_HCIUSB'' None OPT_MODULE_EXPAND None,
   opt ''CONFIG_BT_HCIUART'' None OPT_MODULE_EXPAND None,
   opt ''CONFIG_BT_HCIUART_H4'' None 0 None,
   opt ''CONFIG_BT_HCIUART_BCSP'' None 0 None,
   opt ''CONFIG_BT_HCIVHCI'' None OPT_MODULE_EXPAND None,
   opt ''CONFIG_BT_HCIBTUART'' None OPT_MODULE_EXPAND None,
   opt ''CONFIG_RG_BLUETOOTH_REQUIRES_MAC'' None OPT_HC None,
   opt ''CONFIG_RG_BLUETOOTH_PAN'' None OPT_HC None,
   opt ''CONFIG_RG_OBEX'' None OPT_HC None,
   opt ''CONFIG_RG_CTP'' None OPT_HC None,
   opt ''CONFIG_RG_CTP_VOIP_EMULATOR'' None OPT_HC None,
   opt ''CONFIG_RG_KAFFE'' None (OPT_HC OR OPT_MAJOR_FEATURE) (Some ''Kaffe support''),
   opt ''CONFIG_RG_KAFFE_JAVALIB_RT'' None 0 None,
   opt ''CONFIG_RG_KAFFE_JAVALIB_TOOLS'' None 0 None,
   opt ''CONFIG_RGTV'' None 0 None,
   opt ''CONFIG_SOUND_ICH'' None OPT_MODULE_EXPAND (Some ''Intel's on board sound''),
   opt ''CONFIG_BLK_DEV_SIS5513'' None OPT_MODULE_EXPAND (Some ''HD DMA support''),
   opt ''CONFIG_B44'' None OPT_MODULE_EXPAND (Some ''BCM 4400 ethernet driver''),
   opt ''CONFIG_RG_LIBMAD'' None OPT_HC (Some ''MAD: MPEG Audio Decoder library''),
   opt ''CONFIG_RG_ROOTFS_TMPFS'' None 0 None,
   opt ''CONFIG_RG_INITFS_CRAMFS'' None OPT_EXPORT None,
   opt ''CONFIG_RG_ROOTFS_RAMDISK'' None 0 None,
   opt ''CONFIG_RG_INITFS_RAMDISK'' None OPT_EXPORT None,
   opt ''CONFIG_TMPFS'' None OPT_NOSTRIP None,
   opt ''CONFIG_RG_INITFS_RAMFS'' None OPT_EXPORT None,
   opt ''CONFIG_RG_MAINFS'' None 0 None,
   opt ''CONFIG_RG_MAINFS_CRAMFS'' None OPT_EXPORT None,
   opt ''CONFIG_RG_MODFS'' None OPT_EXPORT None,
   opt ''CONFIG_RG_MODFS_CRAMFS'' None OPT_EXPORT None,
   opt ''CONFIG_RG_MODFS_ROMFS'' None OPT_EXPORT None,
   opt ''CONFIG_RG_CRAMFS_COMP_METHOD'' None (OPT_STR OR OPT_EXPORT) None,
   opt ''CONFIG_RG_KERNEL_COMP_METHOD'' None OPT_STR None,
   opt ''CONFIG_RG_BZIP2_COMPRESSED_KERNEL'' None OPT_NOSTRIP None,
   opt ''CONFIG_RG_GZIP_COMPRESSED_KERNEL'' None OPT_NOSTRIP None,
   opt ''CONFIG_RG_LZMA_COMPRESSED_KERNEL'' None OPT_NOSTRIP None,
   opt ''CONFIG_RG_CCACHE'' None OPT_MK None,
   opt ''CONFIG_RG_LICENSE'' None 0 None,
   opt ''CONFIG_RG_VALGRIND_LOCAL_TARGET'' None OPT_MK None,
   opt ''CONFIG_RG_LANG_TEST'' None OPT_MK None,
   opt ''LANG_COMPILER_OPT'' None (OPT_MK OR OPT_STR) None,
   opt ''LANG_COMPILER'' None (OPT_MK OR OPT_STR) None,
   opt ''ENDIAN_LDFLAGS'' None (OPT_INT OR OPT_MK OR OPT_STR) None,
   opt ''ENDIAN_CFLAGS'' None (OPT_INT OR OPT_MK OR OPT_STR) None,
   opt ''OS_PATH'' None (OPT_INT OR OPT_MK OR OPT_STR) None,
   opt ''TOOLCHAIN_ROOT'' None (OPT_MK OR OPT_STR) None,
   opt ''I386_TARGET_MACHINE'' None (OPT_MK OR OPT_STR) None,
   opt ''I386_TOOLS_PREFIX'' None (OPT_MK OR OPT_STR OR OPT_EXPORT) None,
   opt ''TARGET_MACHINE'' None (OPT_MK OR OPT_STR OR OPT_EXPORT) None,
   opt ''TARGET_PREFIX'' None (OPT_INT OR OPT_MK OR OPT_STR) None,
   opt ''TOOLS_PREFIX'' None (OPT_MK OR OPT_STR OR OPT_EXPORT) None,
   opt ''CROSS_COMPILE'' None (OPT_INT OR OPT_MK OR OPT_STR OR OPT_EXPORT) None,
   opt ''LIBC_IN_TOOLCHAIN'' None (OPT_MK OR OPT_EXPORT OR OPT_HC) None,
   opt ''ULIBC_IN_TOOLCHAIN'' None (OPT_MK OR OPT_EXPORT OR OPT_HC) None,
   opt ''GLIBC_IN_TOOLCHAIN'' None (OPT_MK OR OPT_EXPORT OR OPT_HC) None,
   opt ''CC'' None (OPT_INT OR OPT_MK OR OPT_STR OR OPT_EXPORT) None,
   opt ''CXX'' None (OPT_INT OR OPT_MK OR OPT_STR OR OPT_EXPORT) None,
   opt ''TARGET_CXX'' None (OPT_INT OR OPT_MK OR OPT_STR OR OPT_EXPORT) None,
   opt ''TARGET_CC'' None (OPT_INT OR OPT_MK OR OPT_STR OR OPT_EXPORT) None,
   opt ''TARGET_CPP'' None (OPT_INT OR OPT_MK OR OPT_STR OR OPT_EXPORT) None,
   opt ''REAL_GCC'' None (OPT_INT OR OPT_MK OR OPT_STR) None,
   opt ''CC_FOR_BUILD'' None (OPT_INT OR OPT_MK OR OPT_STR OR OPT_EXPORT) None,
   opt ''CXX_FOR_BUILD'' None (OPT_INT OR OPT_MK OR OPT_STR OR OPT_EXPORT) None,
   opt ''GCC_HAS_SIZE_OPTIMIZE'' None (OPT_INT OR OPT_MK) None,
   opt ''GCC_VERSION'' None (OPT_INT OR OPT_MK OR OPT_STR) None,
   opt ''AR'' None (OPT_INT OR OPT_MK OR OPT_STR OR OPT_EXPORT) None,
   opt ''LD'' None (OPT_INT OR OPT_MK OR OPT_STR OR OPT_EXPORT) None,
   opt ''AS'' None (OPT_INT OR OPT_MK OR OPT_STR OR OPT_EXPORT) None,
   opt ''NM'' None (OPT_INT OR OPT_MK OR OPT_STR OR OPT_EXPORT) None,
   opt ''RANLIB'' None (OPT_INT OR OPT_MK OR OPT_STR OR OPT_EXPORT) None,
   opt ''STRIP'' None (OPT_INT OR OPT_MK OR OPT_STR OR OPT_EXPORT) None,
   opt ''SIZE'' None (OPT_INT OR OPT_MK OR OPT_STR OR OPT_EXPORT) None,
   opt ''OBJCOPY'' None (OPT_INT OR OPT_MK OR OPT_STR OR OPT_EXPORT) None,
   opt ''OBJDUMP'' None (OPT_INT OR OPT_MK OR OPT_STR OR OPT_EXPORT) None,
   opt ''HOST_AR'' None (OPT_INT OR OPT_MK OR OPT_STR) None,
   opt ''HOST_LD'' None (OPT_INT OR OPT_MK OR OPT_STR) None,
   opt ''HOST_AS'' None (OPT_INT OR OPT_MK OR OPT_STR) None,
   opt ''HOST_NM'' None (OPT_INT OR OPT_MK OR OPT_STR) None,
   opt ''HOST_RANLIB'' None (OPT_INT OR OPT_MK OR OPT_STR) None,
   opt ''HOST_STRIP'' None (OPT_INT OR OPT_MK OR OPT_STR) None,
   opt ''HOST_SIZE'' None (OPT_INT OR OPT_MK OR OPT_STR) None,
   opt ''HOST_OBJCOPY'' None (OPT_INT OR OPT_MK OR OPT_STR) None,
   opt ''HOST_OBJDUMP'' None (OPT_INT OR OPT_MK OR OPT_STR) None,
   opt ''YACC'' None (OPT_INT OR OPT_MK OR OPT_STR) None,
   opt ''LEX'' None (OPT_INT OR OPT_MK OR OPT_STR) None,
   opt ''ENV'' None (OPT_INT OR OPT_MK OR OPT_STR OR OPT_EXPORT) None,
   opt ''BASH_ENV'' None (OPT_INT OR OPT_MK OR OPT_STR OR OPT_EXPORT) None,
   opt ''YFLAGS'' None (OPT_INT OR OPT_MK OR OPT_STR) None,
   opt ''SPCC'' None (OPT_INT OR OPT_MK OR OPT_STR) None,
   opt ''FLTHDR'' None (OPT_INT OR OPT_MK OR OPT_STR OR OPT_EXPORT) None,
   opt ''TEXMFCNF'' None (OPT_INT OR OPT_MK OR OPT_STR) None,
   opt ''TEXMF'' None (OPT_INT OR OPT_MK OR OPT_STR) None,
   opt ''CONFIG_RG_DOC_ENABLED'' None (OPT_INT OR OPT_MK OR OPT_HC) None,
   opt ''RG_INCLUDE_DIR'' None (OPT_INT OR OPT_MK OR OPT_STR) None,
   opt ''RG_BIN'' None (OPT_INT OR OPT_MK OR OPT_STR OR OPT_EXPORT) None]"

definition config_options_base_17 :: "option_t list" where
  "config_options_base_17 = [
   opt ''RG_LIB'' None (OPT_INT OR OPT_MK OR OPT_STR OR OPT_EXPORT) None,
   opt ''RG_BUILD'' None (OPT_INT OR OPT_MK OR OPT_STR OR OPT_EXPORT) None,
   opt ''NET_TOOLS_MAKE_FILE'' None (OPT_INT OR OPT_MK OR OPT_STR OR OPT_EXPORT) None,
   opt ''LOCAL_ADD_RG_KERNEL_FOR_TARGET'' None (OPT_INT OR OPT_MK OR OPT_STR) None,
   opt ''PATH'' None (OPT_INT OR OPT_MK OR OPT_STR OR OPT_EXPORT) None,
   opt ''DYNAMIC_LINKER'' None (OPT_INT OR OPT_MK OR OPT_STR) None,
   opt ''LDFLAT'' None (OPT_INT OR OPT_MK OR OPT_STR OR OPT_EXPORT) None,
   opt ''PERM_STORAGE_FILES_DIR'' None (OPT_INT OR OPT_MK OR OPT_STR) None,
   opt ''LZMAMK'' None (OPT_INT OR OPT_MK OR OPT_STR) None,
   opt ''BINFRMT_FILE'' None (OPT_INT OR OPT_MK OR OPT_STR) None,
   opt ''COMPRESSED_RAMDISK'' None (OPT_INT OR OPT_MK OR OPT_STR OR OPT_EXPORT) None,
   opt ''COMPRESSED_INIT_DISK'' None (OPT_INT OR OPT_MK OR OPT_STR OR OPT_EXPORT) None,
   opt ''MODFS_DISK'' None (OPT_INT OR OPT_MK OR OPT_STR OR OPT_EXPORT) None,
   opt ''AUTOCONF_H'' None (OPT_INT OR OPT_MK OR OPT_STR) None,
   opt ''PROD_LINUX_TARGET'' None (OPT_INT OR OPT_MK OR OPT_STR) None,
   opt ''OS_TARGET'' None (OPT_INT OR OPT_MK OR OPT_STR OR OPT_EXPORT) None,
   opt ''HOSTCC'' None (OPT_INT OR OPT_MK OR OPT_STR) None,
   opt ''HOSTCPP'' None (OPT_INT OR OPT_MK OR OPT_STR) None,
   opt ''CPP'' None (OPT_INT OR OPT_MK OR OPT_STR) None,
   opt ''CPP_FOR_BUILD'' None (OPT_INT OR OPT_MK OR OPT_STR) None,
   opt ''RG_CFLAGS'' None (OPT_INT OR OPT_MK OR OPT_STR) None,
   opt ''STATIC_MOD_DIR'' None (OPT_INT OR OPT_MK OR OPT_STR) None,
   opt ''RG_LIBPTHREAD_VERSION'' None (OPT_INT OR OPT_MK OR OPT_STR OR OPT_EXPORT) None,
   opt ''NEEDED_SYMBOLS'' None (OPT_INT OR OPT_MK OR OPT_STR OR OPT_EXPORT) None,
   opt ''COMPRESSED_DISK'' None (OPT_INT OR OPT_MK OR OPT_STR OR OPT_EXPORT) None,
   opt ''BOOTLDR_COMPRESSED_DISK'' None (OPT_INT OR OPT_MK OR OPT_STR OR OPT_EXPORT) None,
   opt ''GENROMFS'' None (OPT_INT OR OPT_MK OR OPT_STR OR OPT_EXPORT) None,
   opt ''PROD_KERNEL_IMAGE'' None (OPT_INT OR OPT_MK OR OPT_STR OR OPT_EXPORT) None,
   opt ''OPENRG_IMG'' None (OPT_INT OR OPT_MK OR OPT_STR) None,
   opt ''OPENRG_RMT_UPDATE_IMG'' None (OPT_INT OR OPT_MK OR OPT_STR) None,
   opt ''OPENRG_PROD'' None (OPT_INT OR OPT_MK OR OPT_STR) None,
   opt ''BOOTSTRAP'' None (OPT_INT OR OPT_MK OR OPT_STR) None,
   opt ''FLASH_IMG'' None (OPT_INT OR OPT_MK OR OPT_STR) None,
   opt ''BOOTLDR_IMG'' None (OPT_INT OR OPT_MK OR OPT_STR) None,
   opt ''HAVE_GC_SECTIONS'' None (OPT_INT OR OPT_MK) None,
   opt ''HAVE_ATTRIBUTE_NONNULL'' None (OPT_HC OR OPT_MK) None,
   opt ''LINUX_ARCH_PATH'' None (OPT_INT OR OPT_MK OR OPT_STR) None,
   opt ''VX_INCLUDE_DIR'' None (OPT_INT OR OPT_MK OR OPT_STR) None,
   opt ''ARCH_CFLAGS'' None (OPT_INT OR OPT_MK OR OPT_STR) None,
   opt ''RG_CPU'' None (OPT_INT OR OPT_MK OR OPT_STR OR OPT_EXPORT) None,
   opt ''FLASH_IMG_OFFSET'' None (OPT_INT OR OPT_MK OR OPT_STR) None,
   opt ''FLASH_IMG_REAL_OFFSET'' None (OPT_INT OR OPT_MK OR OPT_STR) None,
   opt ''RG_LINUX_CFLAGS'' None (OPT_INT OR OPT_MK OR OPT_STR) None,
   opt ''MOD_24_CFLAGS'' None (OPT_MK OR OPT_STR) None,
   opt ''MOD_26_CFLAGS'' None (OPT_MK OR OPT_STR) None,
   opt ''RG_LINUX_24_CFLAGS'' None (OPT_INT OR OPT_MK OR OPT_STR) None,
   opt ''RG_LINUX_26_CFLAGS'' None (OPT_INT OR OPT_MK OR OPT_STR) None,
   opt ''LINUX_CFLAGS'' None (OPT_INT OR OPT_MK OR OPT_STR) None,
   opt ''ARCH_LINUX_FLAGS'' None (OPT_INT OR OPT_MK OR OPT_STR) None,
   opt ''LDFLAGS_ENVIR'' None (OPT_INT OR OPT_MK OR OPT_STR) None,
   opt ''LOCAL_LDFLAGS'' None (OPT_INT OR OPT_MK OR OPT_STR) None,
   opt ''LOCAL_CFLAGS'' None (OPT_INT OR OPT_MK OR OPT_STR) None,
   opt ''LIB_GCC_DIR_PREFIX'' None (OPT_INT OR OPT_MK OR OPT_STR) None,
   opt ''CFLAGS_ENVIR'' None (OPT_INT OR OPT_MK OR OPT_STR) None,
   opt ''OPENRG_LIB'' None (OPT_INT OR OPT_MK OR OPT_STR) None,
   opt ''OPENRG_GPL_LIB'' None (OPT_INT OR OPT_MK OR OPT_STR) None,
   opt ''OPENRG_GPL_LDLIBS'' None (OPT_INT OR OPT_MK OR OPT_STR) None,
   opt ''OPENRG_LDLIBS'' None (OPT_INT OR OPT_MK OR OPT_STR) None,
   opt ''OPENRG_LOCAL_LDLIBS'' None (OPT_INT OR OPT_MK OR OPT_STR) None,
   opt ''MGT_LDLIBS'' None (OPT_INT OR OPT_MK OR OPT_STR) None,
   opt ''MGT_LOCAL_LDLIBS'' None (OPT_INT OR OPT_MK OR OPT_STR) None,
   opt ''TRX'' None (OPT_INT OR OPT_MK OR OPT_STR) None,
   opt ''UNITTEST_SPAWNER'' None (OPT_INT OR OPT_MK OR OPT_STR) None,
   opt ''VALGRIND_CMD'' None (OPT_INT OR OPT_MK OR OPT_STR) None,
   opt ''CONFIG_ICONV_CONST_CAST'' None OPT_STR None,
   opt ''CONFIG_RG_IPERF'' None OPT_MK None,
   opt ''CONFIG_RG_USE_LOCAL_TOOLCHAIN'' None 0 None,
   opt ''CONFIG_RG_BUILD_LOCAL_TARGETS_ONLY'' None OPT_MK None,
   opt ''HAVE_MYSQL'' None (OPT_HC OR OPT_MK OR OPT_EXPORT) None,
   opt ''CONFIG_RG_MYSQL_PREFIX'' None OPT_STR None,
   opt ''CONFIG_RG_MYSQL_LIB_PREFIX'' None OPT_STR None,
   opt ''CONFIG_RG_JNET_SERVER'' None OPT_HC None,
   opt ''CONFIG_RG_JNET_CLIENT'' None OPT_HC None,
   opt ''CONFIG_RG_OPENSSL_LOCAL'' None 0 None,
   opt ''CONFIG_RG_OPENSSL_LOCAL_PREFIX'' None OPT_STR None,
   opt ''CONFIG_RG_TOOLS'' None (OPT_MK OR OPT_HC) None,
   opt ''CONFIG_RG_SESSION_MEMORY'' None (OPT_MK OR OPT_H) None,
   opt ''CONFIG_RG_SESSION_LIBDB'' None (OPT_MK OR OPT_H) None,
   opt ''CONFIG_SPLIT_PTLOCK_CPUS'' None OPT_NUMBER None,
   opt ''CONFIG_IRQ_RELEASE_METHOD'' None 0 None,
   opt ''UML_CONFIG_STUB_DATA'' None (OPT_H OR OPT_NUMBER) None,
   opt ''CONFIG_STUB_DATA'' None (OPT_H OR OPT_NUMBER) None,
   opt ''CONFIG_STUB_START'' None (OPT_H OR OPT_NUMBER) None,
   opt ''CONFIG_STUB_CODE'' None (OPT_H OR OPT_NUMBER) None,
   opt ''CONFIG_SWAP'' None 0 None,
   opt ''CONFIG_X86_F00F_BUG'' None 0 None,
   opt ''CONFIG_SEMAPHORE_SLEEPERS'' None 0 None,
   opt ''CONFIG_SELECT_MEMORY_MODEL'' None 0 None,
   opt ''CONFIG_FLATMEM_MANUAL'' None 0 None,
   opt ''CONFIG_FORCED_INLINING'' None 0 None,
   opt ''CONFIG_DEBUG_MUTEXES'' None 0 None,
   opt ''CONFIG_DEFAULT_AS'' None 0 None,
   opt ''CONFIG_DETECT_SOFTLOCKUP'' None 0 None,
   opt ''CONFIG_INET_DIAG'' None 0 None,
   opt ''CONFIG_INET_TCP_DIAG'' None 0 None,
   opt ''CONFIG_SLAB'' None 0 None,
   opt ''CONFIG_TCP_CONG_BIC'' None 0 None,
   opt ''CONFIG_FW_LOADER'' None 0 None,
   opt ''CONFIG_RG_EXTERNAL_TOOLS_PATH'' None OPT_STR None,
   opt ''CONFIG_CX9451X_COMMON'' None OPT_HC None,
   opt ''CONFIG_CX9451X_DSP'' None (OPT_MODULE OR OPT_EXPORT) (Some ''DSP driver for Conexant CX9451x''),
   opt ''CONFIG_ARCH_SOLOS'' None 0 None,
   opt ''CONFIG_ARCH_SOLOS_GALLUS'' None 0 None,
   opt ''CONFIG_ARCH_SOLOS_376PIN'' None 0 None,
   opt ''CONFIG_MACH_SOLOS_GALLUSBU'' None 0 None,
   opt ''CONFIG_ARM_SOLOS_ETHER'' None 0 None,
   opt ''CONFIG_CPU_ARM1026'' None 0 None,
   opt ''CONFIG_SERIAL_SOLOS'' None 0 None,
   opt ''CONFIG_SERIAL_SOLOS_CONSOLE'' None 0 None,
   opt ''CONFIG_SERIAL_SOLOS_CONSOLE_BAUD'' None OPT_NUMBER None,
   opt ''CONFIG_KGDB_SOLOS_SERIAL'' None OPT_NOSTRIP None,
   opt ''CONFIG_CPU_ABRT_EV5T'' None 0 None,
   opt ''CONFIG_USB_SOLOS_HCD'' None OPT_MODULE_EXPAND (Some ''SOLOS EHCI HCD''),
   opt ''CONFIG_SOLOS_USB_HOST0'' None 0 None,
   opt ''CONFIG_SOLOS_USB_HOST1'' None 0 None,
   opt ''CONFIG_IPSEC_USE_SOLOS_CRYPTO'' None OPT_MK None,
   opt ''CONFIG_OPENSOURCE_HTTPTINY'' None 0 None,
   opt ''CONFIG_MAX_DMA_SIZE'' None (OPT_NUMBER OR OPT_EXPORT) None,
   opt ''CONFIG_WESTELL_GUI'' None 0 None,
   opt ''CONFIG_REDUCED_DNS_TRAFFIC'' None 0 None,
   opt ''CONFIG_USB_DWC3884_HCD'' None OPT_MODULE_EXPAND None,
   opt ''CONFIG_USB_DWC_OTG_HCD'' None OPT_MODULE_EXPAND None,
   opt ''CONFIG_TWINPASS_ULTRALINE_FLASH'' None OPT_HC None,
   opt ''CONFIG_GUI_WSTL'' None (OPT_THEME OR OPT_HC) None,
   opt ''CONFIG_GUI_WSTL_VZ'' None (OPT_THEME OR OPT_HC) None,
   opt ''CONFIG_GUI_WSTL_RETAIL'' None (OPT_THEME OR OPT_HC) None,
   opt ''CONFIG_WSTL_ARPMON'' None 0 None,
   opt ''CONFIG_WSTL_SAVE_RXDEV'' None 0 None,
   opt ''CONFIG_WSTL_FIREBALL'' None 0 None,
   opt ''CONFIG_WSTL_CONFIG_DEFAULTS'' None 0 None,
   opt ''CONFIG_WSTL_GUI_HIDE'' None 0 None,
   opt ''CONFIG_WSTL_GUI_NO_HELP'' None 0 None,
   opt ''CONFIG_WSTL_WBA'' None 0 None,
   opt ''CONFIG_WSTL_LOOP_DETECT'' None 0 None,
   opt ''CONFIG_WSTL_MEDIASERVER'' None 0 None]"

definition config_options_base_18 :: "option_t list" where
  "config_options_base_18 = [
   opt ''CONFIG_WSTL_4HOMEMEDIA_HOMECONTROL'' None OPT_EXPORT None,
   opt ''CONFIG_WSTL_4HOMEMEDIA_MEDIACONTROL'' None OPT_EXPORT None,
   opt ''CONFIG_WSTL_4HOMEMEDIA_GUI'' None 0 None,
   opt ''CONFIG_WSTL_INTERNAL_STORAGE_SUPPORT'' None 0 None,
   opt ''CONFIG_WSTL_LOG_DIAGNOSTICS'' None 0 None,
   opt ''CONFIG_WSTL_DEV_STATS'' None 0 None,
   opt ''CONFIG_WSTL_WAN_PROTOCOL_DETECT'' None 0 None,
   opt ''WSTL_QND_PARENTAL'' None 0 None,
   opt ''CONFIG_WSTL_MOCA_CHANGE'' None 0 None,
   opt ''CONFIG_WSTL_CR_FIX'' None 0 None,
   opt ''CONFIG_WSTL_TR_HIDDEN_PAGE'' None 0 None,
   opt ''CONFIG_HNAP'' None 0 None,
   opt ''HNAP_WBM'' None 0 None,
   opt ''CONFIG_DEBUG_PAGES'' None 0 None,
   opt ''CONFIG_WSTL_BOOTLOADER_IMG'' None 0 None,
   opt ''CONFIG_BOOT_UBOOT_VDSL'' None 0 None,
   opt ''CONFIG_BOOT_UBOOT_VDSL_64'' None 0 None,
   opt ''CONFIG_BOOT_WSTL_VDSL'' None 0 None,
   opt ''CONFIG_BOOT_WSTL_VDSL_64'' None 0 None,
   opt ''CONFIG_BOOT_WSTL_VDSL_64_16'' None 0 None,
   opt ''CONFIG_BOOT_WSTL_DUAL_MOCA'' None 0 None,
   opt ''CONFIG_BOOT_WSTL_DUAL_MOCA_64'' None 0 None,
   opt ''CONFIG_BOOT_WSTL_TURBO_64'' None 0 None,
   opt ''CONFIG_BOOT_WSTL_M100_64'' None 0 None,
   opt ''CONFIG_WSTL_COMCAST'' None 0 None,
   opt ''CONFIG_WSTL_RETAIL'' None 0 None,
   opt ''CONFIG_WSTL_GENERIC'' None 0 None,
   opt ''CONFIG_GUI_VZ_NO_ICONS'' None 0 None,
   opt ''CONFIG_WSTL_VERIZON_DHCP_OPT_60'' None OPT_HC None,
   opt ''CONFIG_WSTL_VERIZON_DNS_RESOLUTION'' None OPT_HC None,
   opt ''CONFIG_VERIZON_ONLY'' None 0 None,
   opt ''CONFIG_WSTL_IGMP_CHANGE'' None OPT_HC None,
   opt ''CONFIG_WSTL_FLASH_LAYOUT_8FLASH_7APP'' None OPT_HC None,
   opt ''CONFIG_WSTL_FLASH_LAYOUT_16FLASH'' None OPT_HC None,
   opt ''CONFIG_WSTL_FLASH_LAYOUT_16FLASH_ART'' None OPT_HC None,
   opt ''CONFIG_GENERIC_IKANOS'' None 0 None,
   opt ''CONFIG_WSTL_WATCHDOG_CPLD'' None 0 None,
   opt ''CONFIG_WSTL_USBHUBOVERCURRENT_CPLD'' None 0 None,
   opt ''CONFIG_WSTL_USBHOSTOVERCURRENT_GPIO'' None 0 None,
   opt ''CONFIG_WSTL_DUAL_SPI_MDIO'' None 0 None,
   opt ''CONFIG_WSTL_CPLD_CONFIG'' None 0 None,
   opt ''CONFIG_WSTL_CPLD_REVISION'' None (OPT_HC OR OPT_NUMBER) None,
   opt ''CONFIG_PPPSTUB'' None 0 None]"

definition config_options_base :: "option_t list" where
  "config_options_base =
     config_options_base_1 @
     config_options_base_2 @
     config_options_base_3 @
     config_options_base_4 @
     config_options_base_5 @
     config_options_base_6 @
     config_options_base_7 @
     config_options_base_8 @
     config_options_base_9 @
     config_options_base_10 @
     config_options_base_11 @
     config_options_base_12 @
     config_options_base_13 @
     config_options_base_14 @
     config_options_base_15 @
     config_options_base_16 @
     config_options_base_17 @
     config_options_base_18"

end
