(* ===== verification/License.thy ===== *)
theory License
  imports Script_Logic
begin

text \<open>
  Licensing in \<open>create_config.c\<close>. \<open>_enable_module\<close> is modelled for any answer of
  \<open>is_feature_enabled\<close>. The sources are built with \<open>CONFIG_RG_GPL\<close> defined, where
  \<open>is_feature_enabled\<close> is the constant 1; the scripts use that instance.
\<close>

definition token_set_by_cmdline :: "string \<Rightarrow> bool rd" where
  "token_set_by_cmdline t s =
     bind_res (option_token_get (cfg_options s) t)
       (\<lambda>i. Inr (opt_prio (cfg_options s ! i) = SET_PRIO_CMD_LINE))"

definition log_message :: "message \<Rightarrow> stmt" where
  "log_message m s = Inr (s\<lparr> cfg_log := cfg_log s @ [m] \<rparr>)"

definition enable_module_with :: "(string \<Rightarrow> bool) \<Rightarrow> string \<Rightarrow> nat \<Rightarrow> string \<Rightarrow> stmt" where
  "enable_module_with is_feature_enabled file line name =
     ifc (token_set_by_cmdline name) [
       when_c (on name) [
         when_c (pure (\<not> is_feature_enabled name)) [
           ifc (on ''LIC_FORCE'') [
             log_message (License_warning name)] [
             conf_err ''ERROR: There is no valid license''] ],
         token_set_y file line name] ] [
       ifc (pure (is_feature_enabled name)) [
         token_set_y file line name] [
         ifc (on ''LIC_FORCE'') [
           log_message (License_warning name),
           token_set_y file line name] [
           ifc (token_is_y ''LIC_AUTOCONF'') [
             log_message (License_notice name)] [
             conf_err ''ERROR: There is no valid license''] ] ] ]"

definition is_feature_enabled :: "string \<Rightarrow> bool" where
  "is_feature_enabled feature_name = True"

definition enable_module :: "string \<Rightarrow> nat \<Rightarrow> string \<Rightarrow> stmt" where
  "enable_module = enable_module_with is_feature_enabled"

lemma ok_log_message [safe_intros]: "ok sch V J (log_message m)"
  by (auto simp: ok_def safe_def log_message_def intro!: emits_one cfg_step.log)

lemma rsafe_token_set_by_cmdline [safe_intros]:
  "settable sch t \<Longrightarrow> rsafe sch (token_set_by_cmdline t)"
  using has_schema_settable by (fastforce simp: rsafe_def token_set_by_cmdline_def bind_res_eq_Inl)

text \<open>A schema that declares the two license switches as well.\<close>

locale license_schema = script_schema +
  assumes lic_force: "testable sch ''LIC_FORCE''"
    and lic_autoconf: "settable sch ''LIC_AUTOCONF''"
begin

lemma ok_enable_module_with:
  "testable sch t \<Longrightarrow> switch sch t \<Longrightarrow> ok sch V J (enable_module_with feature f l t)"
  unfolding enable_module_with_def
  by (intro safe_intros ok_set_y disjI1 lic_force lic_autoconf switch_settable)

lemma ok_enable_module: "testable sch t \<Longrightarrow> switch sch t \<Longrightarrow> ok sch V J (enable_module f l t)"
  unfolding enable_module_def by (rule ok_enable_module_with)

end

end
