(* ===== verification/Table_Facts.thy ===== *)
theory Table_Facts
  imports Option_Tables License
begin

text \<open>
  What the option table declares, as ground facts the script proofs look up: which
  options exist, which may be tested as switches, which may be modules, and which carry
  a type at all.
\<close>

unbundle bit_operations_syntax

definition base_schema :: "(string \<times> opt_type_t) list" where
  "base_schema = schema_of config_options_base"

definition declared :: "option_t list \<Rightarrow> bool" where
  "declared os \<longleftrightarrow> list_all (\<lambda>o1. (opt_token o1, opt_type o1) \<in> set base_schema) os"

lemma declared_subset: "set os \<subseteq> set config_options_base \<Longrightarrow> declared os"
  by (auto simp: declared_def base_schema_def schema_of_def list_all_iff)

lemma testable_settable [simp]: "testable base_schema t \<Longrightarrow> settable base_schema t"
  by (force simp: testable_def settable_def)

lemma switch_testable [simp]: "switch base_schema t \<Longrightarrow> testable base_schema t"
  by (auto simp: testable_def switch_def bit_eq_iff bit_simps)

lemma declared_settable:
  "declared os \<Longrightarrow> list_all (\<lambda>o1. opt_type o1 AND (OPT_STR OR OPT_C_STR) \<noteq> 0 \<longrightarrow>
     settable base_schema (opt_token o1)) os"
  by (force simp: declared_def settable_def list_all_iff)

lemma declared_switch:
  "declared os \<Longrightarrow> list_all (\<lambda>o1. opt_type o1 AND (OPT_NUMBER OR OPT_STR OR OPT_C_STR) = 0 \<longrightarrow>
     switch base_schema (opt_token o1)) os"
  by (auto simp: declared_def switch_def list_all_iff)

lemma declared_testable:
  "declared os \<Longrightarrow> list_all (\<lambda>o1. opt_type o1 AND OPT_NUMBER \<noteq> 0 \<and> opt_type o1 AND (OPT_STR OR OPT_C_STR) = 0 \<longrightarrow>
     testable base_schema (opt_token o1)) os"
  by (auto simp: declared_def testable_def list_all_iff)

lemma declared_modular:
  "declared os \<Longrightarrow> list_all (\<lambda>o1. opt_type o1 AND (OPT_MODULE OR OPT_MODULE_EXPAND) \<noteq> 0 \<longrightarrow>
     modular base_schema (opt_token o1)) os"
  by (auto simp: declared_def modular_def list_all_iff)

lemma declared_typed:
  "declared os \<Longrightarrow> list_all (\<lambda>o1. opt_type o1 \<noteq> 0 \<longrightarrow> typed base_schema (opt_token o1)) os"
  by (auto simp: declared_def typed_def list_all_iff)

lemma or_and_eq_0: "(a OR b) AND m = 0 \<longleftrightarrow> a AND m = 0 \<and> b AND m = 0" for a b m :: "32 word"
  by (auto simp: bit_eq_iff bit_simps)

lemma or_eq_0: "a OR b = 0 \<longleftrightarrow> a = 0 \<and> b = 0" for a b :: "32 word"
  by (auto simp: bit_eq_iff bit_simps)

lemma value_bits:
  "(OPT_NONE AND (OPT_NUMBER OR OPT_STR OR OPT_C_STR) = 0) = True"
  "(OPT_MODULE_EXPAND AND (OPT_NUMBER OR OPT_STR OR OPT_C_STR) = 0) = True"
  "(OPT_STATIC_ON_DEVELOP AND (OPT_NUMBER OR OPT_STR OR OPT_C_STR) = 0) = True"
  "(OPT_NOSTRIP AND (OPT_NUMBER OR OPT_STR OR OPT_C_STR) = 0) = True"
  "(OPT_MAJOR_FEATURE AND (OPT_NUMBER OR OPT_STR OR OPT_C_STR) = 0) = True"
  "(OPT_STRIP_ON_Y AND (OPT_NUMBER OR OPT_STR OR OPT_C_STR) = 0) = True"
  "(OPT_THEME AND (OPT_NUMBER OR OPT_STR OR OPT_C_STR) = 0) = True"
  "(OPT_MODULE AND (OPT_NUMBER OR OPT_STR OR OPT_C_STR) = 0) = True"
  "(OPT_HARDWARE AND (OPT_NUMBER OR OPT_STR OR OPT_C_STR) = 0) = True"
  "(OPT_H AND (OPT_NUMBER OR OPT_STR OR OPT_C_STR) = 0) = True"
  "(OPT_HC AND (OPT_NUMBER OR OPT_STR OR OPT_C_STR) = 0) = True"
  "(OPT_MK AND (OPT_NUMBER OR OPT_STR OR OPT_C_STR) = 0) = True"
  "(OPT_INT AND (OPT_NUMBER OR OPT_STR OR OPT_C_STR) = 0) = True"
  "(OPT_STR AND (OPT_NUMBER OR OPT_STR OR OPT_C_STR) = 0) = False"
  "(OPT_C_STR AND (OPT_NUMBER OR OPT_STR OR OPT_C_STR) = 0) = False"
  "(OPT_NUMBER AND (OPT_NUMBER OR OPT_STR OR OPT_C_STR) = 0) = False"
  "(OPT_EXPORT AND (OPT_NUMBER OR OPT_STR OR OPT_C_STR) = 0) = True"
  "(0 AND (OPT_NUMBER OR OPT_STR OR OPT_C_STR) = 0) = True"
  by (simp_all add: opt_type_defs)

lemma number_bits:
  "(OPT_NONE AND OPT_NUMBER = 0) = True"
  "(OPT_MODULE_EXPAND AND OPT_NUMBER = 0) = True"
  "(OPT_STATIC_ON_DEVELOP AND OPT_NUMBER = 0) = True"
  "(OPT_NOSTRIP AND OPT_NUMBER = 0) = True"
  "(OPT_MAJOR_FEATURE AND OPT_NUMBER = 0) = True"
  "(OPT_STRIP_ON_Y AND OPT_NUMBER = 0) = True"
  "(OPT_THEME AND OPT_NUMBER = 0) = True"
  "(OPT_MODULE AND OPT_NUMBER = 0) = True"
  "(OPT_HARDWARE AND OPT_NUMBER = 0) = True"
  "(OPT_H AND OPT_NUMBER = 0) = True"
  "(OPT_HC AND OPT_NUMBER = 0) = True"
  "(OPT_MK AND OPT_NUMBER = 0) = True"
  "(OPT_INT AND OPT_NUMBER = 0) = True"
  "(OPT_STR AND OPT_NUMBER = 0) = True"
  "(OPT_C_STR AND OPT_NUMBER = 0) = True"
  "(OPT_NUMBER AND OPT_NUMBER = 0) = False"
  "(OPT_EXPORT AND OPT_NUMBER = 0) = True"
  "(0 AND OPT_NUMBER = 0) = True"
  by (simp_all add: opt_type_defs)

lemma theme_bits:
  "(OPT_NONE AND OPT_THEME = 0) = True"
  "(OPT_MODULE_EXPAND AND OPT_THEME = 0) = True"
  "(OPT_STATIC_ON_DEVELOP AND OPT_THEME = 0) = True"
  "(OPT_NOSTRIP AND OPT_THEME = 0) = True"
  "(OPT_MAJOR_FEATURE AND OPT_THEME = 0) = True"
  "(OPT_STRIP_ON_Y AND OPT_THEME = 0) = True"
  "(OPT_THEME AND OPT_THEME = 0) = False"
  "(OPT_MODULE AND OPT_THEME = 0) = True"
  "(OPT_HARDWARE AND OPT_THEME = 0) = True"
  "(OPT_H AND OPT_THEME = 0) = True"
  "(OPT_HC AND OPT_THEME = 0) = True"
  "(OPT_MK AND OPT_THEME = 0) = True"
  "(OPT_INT AND OPT_THEME = 0) = True"
  "(OPT_STR AND OPT_THEME = 0) = True"
  "(OPT_C_STR AND OPT_THEME = 0) = True"
  "(OPT_NUMBER AND OPT_THEME = 0) = True"
  "(OPT_EXPORT AND OPT_THEME = 0) = True"
  "(0 AND OPT_THEME = 0) = True"
  by (simp_all add: opt_type_defs)

lemma str_bits:
  "(OPT_NONE AND (OPT_STR OR OPT_C_STR) = 0) = True"
  "(OPT_MODULE_EXPAND AND (OPT_STR OR OPT_C_STR) = 0) = True"
  "(OPT_STATIC_ON_DEVELOP AND (OPT_STR OR OPT_C_STR) = 0) = True"
  "(OPT_NOSTRIP AND (OPT_STR OR OPT_C_STR) = 0) = True"
  "(OPT_MAJOR_FEATURE AND (OPT_STR OR OPT_C_STR) = 0) = True"
  "(OPT_STRIP_ON_Y AND (OPT_STR OR OPT_C_STR) = 0) = True"
  "(OPT_THEME AND (OPT_STR OR OPT_C_STR) = 0) = True"
  "(OPT_MODULE AND (OPT_STR OR OPT_C_STR) = 0) = True"
  "(OPT_HARDWARE AND (OPT_STR OR OPT_C_STR) = 0) = True"
  "(OPT_H AND (OPT_STR OR OPT_C_STR) = 0) = True"
  "(OPT_HC AND (OPT_STR OR OPT_C_STR) = 0) = True"
  "(OPT_MK AND (OPT_STR OR OPT_C_STR) = 0) = True"
  "(OPT_INT AND (OPT_STR OR OPT_C_STR) = 0) = True"
  "(OPT_STR AND (OPT_STR OR OPT_C_STR) = 0) = False"
  "(OPT_C_STR AND (OPT_STR OR OPT_C_STR) = 0) = False"
  "(OPT_NUMBER AND (OPT_STR OR OPT_C_STR) = 0) = True"
  "(OPT_EXPORT AND (OPT_STR OR OPT_C_STR) = 0) = True"
  "(0 AND (OPT_STR OR OPT_C_STR) = 0) = True"
  by (simp_all add: opt_type_defs)

lemma module_bits:
  "(OPT_NONE AND (OPT_MODULE OR OPT_MODULE_EXPAND) = 0) = True"
  "(OPT_MODULE_EXPAND AND (OPT_MODULE OR OPT_MODULE_EXPAND) = 0) = False"
  "(OPT_STATIC_ON_DEVELOP AND (OPT_MODULE OR OPT_MODULE_EXPAND) = 0) = True"
  "(OPT_NOSTRIP AND (OPT_MODULE OR OPT_MODULE_EXPAND) = 0) = True"
  "(OPT_MAJOR_FEATURE AND (OPT_MODULE OR OPT_MODULE_EXPAND) = 0) = True"
  "(OPT_STRIP_ON_Y AND (OPT_MODULE OR OPT_MODULE_EXPAND) = 0) = True"
  "(OPT_THEME AND (OPT_MODULE OR OPT_MODULE_EXPAND) = 0) = True"
  "(OPT_MODULE AND (OPT_MODULE OR OPT_MODULE_EXPAND) = 0) = False"
  "(OPT_HARDWARE AND (OPT_MODULE OR OPT_MODULE_EXPAND) = 0) = True"
  "(OPT_H AND (OPT_MODULE OR OPT_MODULE_EXPAND) = 0) = True"
  "(OPT_HC AND (OPT_MODULE OR OPT_MODULE_EXPAND) = 0) = True"
  "(OPT_MK AND (OPT_MODULE OR OPT_MODULE_EXPAND) = 0) = True"
  "(OPT_INT AND (OPT_MODULE OR OPT_MODULE_EXPAND) = 0) = True"
  "(OPT_STR AND (OPT_MODULE OR OPT_MODULE_EXPAND) = 0) = True"
  "(OPT_C_STR AND (OPT_MODULE OR OPT_MODULE_EXPAND) = 0) = True"
  "(OPT_NUMBER AND (OPT_MODULE OR OPT_MODULE_EXPAND) = 0) = True"
  "(OPT_EXPORT AND (OPT_MODULE OR OPT_MODULE_EXPAND) = 0) = True"
  "(0 AND (OPT_MODULE OR OPT_MODULE_EXPAND) = 0) = True"
  by (simp_all add: opt_type_defs)

lemma zero_bits:
  "(OPT_NONE = 0) = True"
  "(OPT_MODULE_EXPAND = 0) = False"
  "(OPT_STATIC_ON_DEVELOP = 0) = False"
  "(OPT_NOSTRIP = 0) = False"
  "(OPT_MAJOR_FEATURE = 0) = False"
  "(OPT_STRIP_ON_Y = 0) = False"
  "(OPT_THEME = 0) = False"
  "(OPT_MODULE = 0) = False"
  "(OPT_HARDWARE = 0) = False"
  "(OPT_H = 0) = False"
  "(OPT_HC = 0) = False"
  "(OPT_MK = 0) = False"
  "(OPT_INT = 0) = False"
  "(OPT_STR = 0) = False"
  "(OPT_C_STR = 0) = False"
  "(OPT_NUMBER = 0) = False"
  "(OPT_EXPORT = 0) = False"
  "((0::32 word) = 0) = True"
  by (simp_all add: opt_type_defs)

lemmas declared_unfolds =
  list.pred_inject opt_sel or_and_eq_0 or_eq_0 str_bits value_bits number_bits theme_bits module_bits zero_bits simp_thms

lemma declared_1: "declared config_options_base_1"
  by (rule declared_subset) (auto simp: config_options_base_def)

lemma declared_2: "declared config_options_base_2"
  by (rule declared_subset) (auto simp: config_options_base_def)

lemma declared_3: "declared config_options_base_3"
  by (rule declared_subset) (auto simp: config_options_base_def)

lemma declared_4: "declared config_options_base_4"
  by (rule declared_subset) (auto simp: config_options_base_def)

lemma declared_5: "declared config_options_base_5"
  by (rule declared_subset) (auto simp: config_options_base_def)

lemma declared_6: "declared config_options_base_6"
  by (rule declared_subset) (auto simp: config_options_base_def)

lemma declared_7: "declared config_options_base_7"
  by (rule declared_subset) (auto simp: config_options_base_def)

lemma declared_8: "declared config_options_base_8"
  by (rule declared_subset) (auto simp: config_options_base_def)

lemma declared_9: "declared config_options_base_9"
  by (rule declared_subset) (auto simp: config_options_base_def)

lemma declared_10: "declared config_options_base_10"
  by (rule declared_subset) (auto simp: config_options_base_def)

lemma declared_11: "declared config_options_base_11"
  by (rule declared_subset) (auto simp: config_options_base_def)

lemma declared_12: "declared config_options_base_12"
  by (rule declared_subset) (auto simp: config_options_base_def)

lemma declared_13: "declared config_options_base_13"
  by (rule declared_subset) (auto simp: config_options_base_def)

lemma declared_14: "declared config_options_base_14"
  by (rule declared_subset) (auto simp: config_options_base_def)

lemma declared_15: "declared config_options_base_15"
  by (rule declared_subset) (auto simp: config_options_base_def)

lemma declared_16: "declared config_options_base_16"
  by (rule declared_subset) (auto simp: config_options_base_def)

lemma declared_17: "declared config_options_base_17"
  by (rule declared_subset) (auto simp: config_options_base_def)

lemma declared_18: "declared config_options_base_18"
  by (rule declared_subset) (auto simp: config_options_base_def)

lemmas switch_1 [simp] = declared_switch [OF declared_1, unfolded config_options_base_1_def declared_unfolds]
lemmas switch_2 [simp] = declared_switch [OF declared_2, unfolded config_options_base_2_def declared_unfolds]
lemmas switch_3 [simp] = declared_switch [OF declared_3, unfolded config_options_base_3_def declared_unfolds]
lemmas switch_4 [simp] = declared_switch [OF declared_4, unfolded config_options_base_4_def declared_unfolds]
lemmas switch_5 [simp] = declared_switch [OF declared_5, unfolded config_options_base_5_def declared_unfolds]
lemmas switch_6 [simp] = declared_switch [OF declared_6, unfolded config_options_base_6_def declared_unfolds]
lemmas switch_7 [simp] = declared_switch [OF declared_7, unfolded config_options_base_7_def declared_unfolds]
lemmas switch_8 [simp] = declared_switch [OF declared_8, unfolded config_options_base_8_def declared_unfolds]
lemmas switch_9 [simp] = declared_switch [OF declared_9, unfolded config_options_base_9_def declared_unfolds]
lemmas switch_10 [simp] = declared_switch [OF declared_10, unfolded config_options_base_10_def declared_unfolds]
lemmas switch_11 [simp] = declared_switch [OF declared_11, unfolded config_options_base_11_def declared_unfolds]
lemmas switch_12 [simp] = declared_switch [OF declared_12, unfolded config_options_base_12_def declared_unfolds]
lemmas switch_13 [simp] = declared_switch [OF declared_13, unfolded config_options_base_13_def declared_unfolds]
lemmas switch_14 [simp] = declared_switch [OF declared_14, unfolded config_options_base_14_def declared_unfolds]
lemmas switch_15 [simp] = declared_switch [OF declared_15, unfolded config_options_base_15_def declared_unfolds]
lemmas switch_16 [simp] = declared_switch [OF declared_16, unfolded config_options_base_16_def declared_unfolds]
lemmas switch_17 [simp] = declared_switch [OF declared_17, unfolded config_options_base_17_def declared_unfolds]
lemmas switch_18 [simp] = declared_switch [OF declared_18, unfolded config_options_base_18_def declared_unfolds]

lemmas settable_1 [simp] = declared_settable [OF declared_1, unfolded config_options_base_1_def declared_unfolds]
lemmas settable_2 [simp] = declared_settable [OF declared_2, unfolded config_options_base_2_def declared_unfolds]
lemmas settable_3 [simp] = declared_settable [OF declared_3, unfolded config_options_base_3_def declared_unfolds]
lemmas settable_4 [simp] = declared_settable [OF declared_4, unfolded config_options_base_4_def declared_unfolds]
lemmas settable_5 [simp] = declared_settable [OF declared_5, unfolded config_options_base_5_def declared_unfolds]
lemmas settable_6 [simp] = declared_settable [OF declared_6, unfolded config_options_base_6_def declared_unfolds]
lemmas settable_7 [simp] = declared_settable [OF declared_7, unfolded config_options_base_7_def declared_unfolds]
lemmas settable_8 [simp] = declared_settable [OF declared_8, unfolded config_options_base_8_def declared_unfolds]
lemmas settable_9 [simp] = declared_settable [OF declared_9, unfolded config_options_base_9_def declared_unfolds]
lemmas settable_10 [simp] = declared_settable [OF declared_10, unfolded config_options_base_10_def declared_unfolds]
lemmas settable_11 [simp] = declared_settable [OF declared_11, unfolded config_options_base_11_def declared_unfolds]
lemmas settable_12 [simp] = declared_settable [OF declared_12, unfolded config_options_base_12_def declared_unfolds]
lemmas settable_13 [simp] = declared_settable [OF declared_13, unfolded config_options_base_13_def declared_unfolds]
lemmas settable_14 [simp] = declared_settable [OF declared_14, unfolded config_options_base_14_def declared_unfolds]
lemmas settable_15 [simp] = declared_settable [OF declared_15, unfolded config_options_base_15_def declared_unfolds]
lemmas settable_16 [simp] = declared_settable [OF declared_16, unfolded config_options_base_16_def declared_unfolds]
lemmas settable_17 [simp] = declared_settable [OF declared_17, unfolded config_options_base_17_def declared_unfolds]
lemmas settable_18 [simp] = declared_settable [OF declared_18, unfolded config_options_base_18_def declared_unfolds]

lemmas testable_1 [simp] = declared_testable [OF declared_1, unfolded config_options_base_1_def declared_unfolds]
lemmas testable_2 [simp] = declared_testable [OF declared_2, unfolded config_options_base_2_def declared_unfolds]
lemmas testable_3 [simp] = declared_testable [OF declared_3, unfolded config_options_base_3_def declared_unfolds]
lemmas testable_4 [simp] = declared_testable [OF declared_4, unfolded config_options_base_4_def declared_unfolds]
lemmas testable_5 [simp] = declared_testable [OF declared_5, unfolded config_options_base_5_def declared_unfolds]
lemmas testable_6 [simp] = declared_testable [OF declared_6, unfolded config_options_base_6_def declared_unfolds]
lemmas testable_7 [simp] = declared_testable [OF declared_7, unfolded config_options_base_7_def declared_unfolds]
lemmas testable_8 [simp] = declared_testable [OF declared_8, unfolded config_options_base_8_def declared_unfolds]
lemmas testable_9 [simp] = declared_testable [OF declared_9, unfolded config_options_base_9_def declared_unfolds]
lemmas testable_10 [simp] = declared_testable [OF declared_10, unfolded config_options_base_10_def declared_unfolds]
lemmas testable_11 [simp] = declared_testable [OF declared_11, unfolded config_options_base_11_def declared_unfolds]
lemmas testable_12 [simp] = declared_testable [OF declared_12, unfolded config_options_base_12_def declared_unfolds]
lemmas testable_13 [simp] = declared_testable [OF declared_13, unfolded config_options_base_13_def declared_unfolds]
lemmas testable_14 [simp] = declared_testable [OF declared_14, unfolded config_options_base_14_def declared_unfolds]
lemmas testable_15 [simp] = declared_testable [OF declared_15, unfolded config_options_base_15_def declared_unfolds]
lemmas testable_16 [simp] = declared_testable [OF declared_16, unfolded config_options_base_16_def declared_unfolds]
lemmas testable_17 [simp] = declared_testable [OF declared_17, unfolded config_options_base_17_def declared_unfolds]
lemmas testable_18 [simp] = declared_testable [OF declared_18, unfolded config_options_base_18_def declared_unfolds]

lemmas modular_1 [simp] = declared_modular [OF declared_1, unfolded config_options_base_1_def declared_unfolds]
lemmas modular_2 [simp] = declared_modular [OF declared_2, unfolded config_options_base_2_def declared_unfolds]
lemmas modular_3 [simp] = declared_modular [OF declared_3, unfolded config_options_base_3_def declared_unfolds]
lemmas modular_4 [simp] = declared_modular [OF declared_4, unfolded config_options_base_4_def declared_unfolds]
lemmas modular_5 [simp] = declared_modular [OF declared_5, unfolded config_options_base_5_def declared_unfolds]
lemmas modular_6 [simp] = declared_modular [OF declared_6, unfolded config_options_base_6_def declared_unfolds]
lemmas modular_7 [simp] = declared_modular [OF declared_7, unfolded config_options_base_7_def declared_unfolds]
lemmas modular_8 [simp] = declared_modular [OF declared_8, unfolded config_options_base_8_def declared_unfolds]
lemmas modular_9 [simp] = declared_modular [OF declared_9, unfolded config_options_base_9_def declared_unfolds]
lemmas modular_10 [simp] = declared_modular [OF declared_10, unfolded config_options_base_10_def declared_unfolds]
lemmas modular_11 [simp] = declared_modular [OF declared_11, unfolded config_options_base_11_def declared_unfolds]
lemmas modular_12 [simp] = declared_modular [OF declared_12, unfolded config_options_base_12_def declared_unfolds]
lemmas modular_13 [simp] = declared_modular [OF declared_13, unfolded config_options_base_13_def declared_unfolds]
lemmas modular_14 [simp] = declared_modular [OF declared_14, unfolded config_options_base_14_def declared_unfolds]
lemmas modular_15 [simp] = declared_modular [OF declared_15, unfolded config_options_base_15_def declared_unfolds]
lemmas modular_16 [simp] = declared_modular [OF declared_16, unfolded config_options_base_16_def declared_unfolds]
lemmas modular_17 [simp] = declared_modular [OF declared_17, unfolded config_options_base_17_def declared_unfolds]
lemmas modular_18 [simp] = declared_modular [OF declared_18, unfolded config_options_base_18_def declared_unfolds]

lemmas typed_1 [simp] = declared_typed [OF declared_1, unfolded config_options_base_1_def declared_unfolds]
lemmas typed_2 [simp] = declared_typed [OF declared_2, unfolded config_options_base_2_def declared_unfolds]
lemmas typed_3 [simp] = declared_typed [OF declared_3, unfolded config_options_base_3_def declared_unfolds]
lemmas typed_4 [simp] = declared_typed [OF declared_4, unfolded config_options_base_4_def declared_unfolds]
lemmas typed_5 [simp] = declared_typed [OF declared_5, unfolded config_options_base_5_def declared_unfolds]
lemmas typed_6 [simp] = declared_typed [OF declared_6, unfolded config_options_base_6_def declared_unfolds]
lemmas typed_7 [simp] = declared_typed [OF declared_7, unfolded config_options_base_7_def declared_unfolds]
lemmas typed_8 [simp] = declared_typed [OF declared_8, unfolded config_options_base_8_def declared_unfolds]
lemmas typed_9 [simp] = declared_typed [OF declared_9, unfolded config_options_base_9_def declared_unfolds]
lemmas typed_10 [simp] = declared_typed [OF declared_10, unfolded config_options_base_10_def declared_unfolds]
lemmas typed_11 [simp] = declared_typed [OF declared_11, unfolded config_options_base_11_def declared_unfolds]
lemmas typed_12 [simp] = declared_typed [OF declared_12, unfolded config_options_base_12_def declared_unfolds]
lemmas typed_13 [simp] = declared_typed [OF declared_13, unfolded config_options_base_13_def declared_unfolds]
lemmas typed_14 [simp] = declared_typed [OF declared_14, unfolded config_options_base_14_def declared_unfolds]
lemmas typed_15 [simp] = declared_typed [OF declared_15, unfolded config_options_base_15_def declared_unfolds]
lemmas typed_16 [simp] = declared_typed [OF declared_16, unfolded config_options_base_16_def declared_unfolds]
lemmas typed_17 [simp] = declared_typed [OF declared_17, unfolded config_options_base_17_def declared_unfolds]
lemmas typed_18 [simp] = declared_typed [OF declared_18, unfolded config_options_base_18_def declared_unfolds]

text \<open>A user-interface theme is a switch.\<close>

definition theme_switches :: "option_t list \<Rightarrow> bool" where
  "theme_switches os \<longleftrightarrow> list_all (\<lambda>o1. opt_type o1 AND OPT_THEME \<noteq> 0 \<longrightarrow>
     opt_type o1 AND (OPT_NUMBER OR OPT_STR OR OPT_C_STR) = 0) os"

lemma theme_switches_1: "theme_switches config_options_base_1"
  unfolding theme_switches_def config_options_base_1_def by (simp only: declared_unfolds)

lemma theme_switches_2: "theme_switches config_options_base_2"
  unfolding theme_switches_def config_options_base_2_def by (simp only: declared_unfolds)

lemma theme_switches_3: "theme_switches config_options_base_3"
  unfolding theme_switches_def config_options_base_3_def by (simp only: declared_unfolds)

lemma theme_switches_4: "theme_switches config_options_base_4"
  unfolding theme_switches_def config_options_base_4_def by (simp only: declared_unfolds)

lemma theme_switches_5: "theme_switches config_options_base_5"
  unfolding theme_switches_def config_options_base_5_def by (simp only: declared_unfolds)

lemma theme_switches_6: "theme_switches config_options_base_6"
  unfolding theme_switches_def config_options_base_6_def by (simp only: declared_unfolds)

lemma theme_switches_7: "theme_switches config_options_base_7"
  unfolding theme_switches_def config_options_base_7_def by (simp only: declared_unfolds)

lemma theme_switches_8: "theme_switches config_options_base_8"
  unfolding theme_switches_def config_options_base_8_def by (simp only: declared_unfolds)

lemma theme_switches_9: "theme_switches config_options_base_9"
  unfolding theme_switches_def config_options_base_9_def by (simp only: declared_unfolds)

lemma theme_switches_10: "theme_switches config_options_base_10"
  unfolding theme_switches_def config_options_base_10_def by (simp only: declared_unfolds)

lemma theme_switches_11: "theme_switches config_options_base_11"
  unfolding theme_switches_def config_options_base_11_def by (simp only: declared_unfolds)

lemma theme_switches_12: "theme_switches config_options_base_12"
  unfolding theme_switches_def config_options_base_12_def by (simp only: declared_unfolds)

lemma theme_switches_13: "theme_switches config_options_base_13"
  unfolding theme_switches_def config_options_base_13_def by (simp only: declared_unfolds)

lemma theme_switches_14: "theme_switches config_options_base_14"
  unfolding theme_switches_def config_options_base_14_def by (simp only: declared_unfolds)

lemma theme_switches_15: "theme_switches config_options_base_15"
  unfolding theme_switches_def config_options_base_15_def by (simp only: declared_unfolds)

lemma theme_switches_16: "theme_switches config_options_base_16"
  unfolding theme_switches_def config_options_base_16_def by (simp only: declared_unfolds)

lemma theme_switches_17: "theme_switches config_options_base_17"
  unfolding theme_switches_def config_options_base_17_def by (simp only: declared_unfolds)

lemma theme_switches_18: "theme_switches config_options_base_18"
  unfolding theme_switches_def config_options_base_18_def by (simp only: declared_unfolds)

lemma theme_switch:
  assumes "(t, ty) \<in> set base_schema" "ty AND OPT_THEME \<noteq> 0"
  shows "switch base_schema t"
proof -
  have "theme_switches config_options_base"
    using theme_switches_1 theme_switches_2 theme_switches_3 theme_switches_4 theme_switches_5 theme_switches_6 theme_switches_7 theme_switches_8 theme_switches_9 theme_switches_10 theme_switches_11 theme_switches_12 theme_switches_13 theme_switches_14 theme_switches_15 theme_switches_16 theme_switches_17 theme_switches_18
    by (simp add: theme_switches_def config_options_base_def)
  with assms show ?thesis
    by (auto simp: theme_switches_def switch_def base_schema_def schema_of_def list_all_iff)
qed

text \<open>The one option the scripts test that no table declares.\<close>

definition no_such :: "option_t list \<Rightarrow> bool" where
  "no_such os \<longleftrightarrow> list_all (\<lambda>o1. opt_token o1 \<noteq> ''CONFIG_KNCX821XX_PCB'') os"

lemma no_such_1: "no_such config_options_base_1"
  by code_simp

lemma no_such_2: "no_such config_options_base_2"
  by code_simp

lemma no_such_3: "no_such config_options_base_3"
  by code_simp

lemma no_such_4: "no_such config_options_base_4"
  by code_simp

lemma no_such_5: "no_such config_options_base_5"
  by code_simp

lemma no_such_6: "no_such config_options_base_6"
  by code_simp

lemma no_such_7: "no_such config_options_base_7"
  by code_simp

lemma no_such_8: "no_such config_options_base_8"
  by code_simp

lemma no_such_9: "no_such config_options_base_9"
  by code_simp

lemma no_such_10: "no_such config_options_base_10"
  by code_simp

lemma no_such_11: "no_such config_options_base_11"
  by code_simp

lemma no_such_12: "no_such config_options_base_12"
  by code_simp

lemma no_such_13: "no_such config_options_base_13"
  by code_simp

lemma no_such_14: "no_such config_options_base_14"
  by code_simp

lemma no_such_15: "no_such config_options_base_15"
  by code_simp

lemma no_such_16: "no_such config_options_base_16"
  by code_simp

lemma no_such_17: "no_such config_options_base_17"
  by code_simp

lemma no_such_18: "no_such config_options_base_18"
  by code_simp

lemma undeclared_option [simp]: "\<not> settable base_schema ''CONFIG_KNCX821XX_PCB''"
proof -
  have "no_such config_options_base"
    using no_such_1 no_such_2 no_such_3 no_such_4 no_such_5 no_such_6 no_such_7 no_such_8 no_such_9 no_such_10 no_such_11 no_such_12 no_such_13 no_such_14 no_such_15 no_such_16 no_such_17 no_such_18
    by (simp add: no_such_def config_options_base_def)
  then show ?thesis
    by (auto simp: no_such_def settable_def base_schema_def schema_of_def list_all_iff)
qed

text \<open>
  The options the scripts give a value other than \<open>y\<close> or a module's \<open>m\<close>: numbers,
  strings, and switches copied from another option.
\<close>

definition value_token_list :: "string list" where
  "value_token_list = [
   ''ARCH'',
   ''BOARD'',
   ''CONFIG_ALIGNMENT_TRAP_MODE'',
   ''CONFIG_ARCH_MACHINE'',
   ''CONFIG_BASE_SMALL'',
   ''CONFIG_BCM43XX_MODE'',
   ''CONFIG_BCM963XX_BOARD_ID'',
   ''CONFIG_BCM963XX_CHIP'',
   ''CONFIG_BCM963XX_SDRAM_SIZE'',
   ''CONFIG_BLK_DEV_RAM_COUNT'',
   ''CONFIG_BLK_DEV_RAM_SIZE'',
   ''CONFIG_BOOTLDR_UBOOT_COMP'',
   ''CONFIG_BOOT_FREE_MEM_END'',
   ''CONFIG_BOOT_FREE_MEM_START'',
   ''CONFIG_BOOT_RAM_POS'',
   ''CONFIG_BOOT_SP_POS'',
   ''CONFIG_CC_ALIGN_FUNCTIONS'',
   ''CONFIG_CC_ALIGN_JUMPS'',
   ''CONFIG_CC_ALIGN_LABELS'',
   ''CONFIG_CC_ALIGN_LOOPS'',
   ''CONFIG_CMDLINE'',
   ''CONFIG_CON_CHAN'',
   ''CONFIG_CON_ZERO_CHAN'',
   ''CONFIG_CRAMFS_BLKSZ'',
   ''CONFIG_CRAMFS_RAM_ADDR'',
   ''CONFIG_CX8620X_SDRAM_SIZE'',
   ''CONFIG_DEFAULT_IOSCHED'',
   ''CONFIG_EXP_BUS_SHL'',
   ''CONFIG_FAT_DEFAULT_CODEPAGE'',
   ''CONFIG_FILESERVER_KERNEL_CONFIG'',
   ''CONFIG_FLASH_FSTYPE'',
   ''CONFIG_FLASH_POS'',
   ''CONFIG_FORCE_MAX_ZONEORDER'',
   ''CONFIG_FREEPAGES_HIGH'',
   ''CONFIG_FREEPAGES_LOW'',
   ''CONFIG_FREEPAGES_MIN'',
   ''CONFIG_HIGHMEM_START'',
   ''CONFIG_HW_NUMBER_OF_FXS_PORTS'',
   ''CONFIG_HZ'',
   ''CONFIG_IEEE1394'',
   ''CONFIG_IEEE1394_OHCI1394'',
   ''CONFIG_IFX_ASC_DEFAULT_BAUDRATE'',
   ''CONFIG_IMG_PRODUCT'',
   ''CONFIG_INCAIPASC_DEFAULT_BAUDRATE'',
   ''CONFIG_INCAIP_WATCHDOG_TIMEOUT'',
   ''CONFIG_INITRAMFS_ROOT_GID'',
   ''CONFIG_INITRAMFS_ROOT_UID'',
   ''CONFIG_INITRAMFS_SOURCE'',
   ''CONFIG_INITRD_ADDR'',
   ''CONFIG_INIT_ENV_ARG_LIMIT'',
   ''CONFIG_IXDP425_KGDB_UART'',
   ''CONFIG_IXP425_CODELETS'',
   ''CONFIG_IXP425_CODELET_HSS'',
   ''CONFIG_IXP425_ETH'',
   ''CONFIG_IXP425_FLASH_E28F128J3'',
   ''CONFIG_IXP425_FLASH_E28F640J3'',
   ''CONFIG_IXP425_FLASH_USER_PART'',
   ''CONFIG_IXP425_NUMBER_OF_FLASH_CHIPS'',
   ''CONFIG_IXP425_NUMBER_OF_MEM_CHIPS'',
   ''CONFIG_IXP425_SDRAM_SIZE'',
   ''CONFIG_JEEVES_RTC7301'',
   ''CONFIG_JFFS2_FS'',
   ''CONFIG_KERNEL_HALF_GIGS'',
   ''CONFIG_KERNEL_STACK_ORDER'',
   ''CONFIG_KERNEL_START'',
   ''CONFIG_LEGACY_PTY_COUNT'',
   ''CONFIG_LOCALVERSION'',
   ''CONFIG_LOG_BUF_SHIFT'',
   ''CONFIG_LOG_FILES_MAX_SIZE'',
   ''CONFIG_LOG_FILES_MIN_SIZE'',
   ''CONFIG_LOWMEM_SIZE'',
   ''CONFIG_MIPS_L1_CACHE_SHIFT'',
   ''CONFIG_MTD_CFI_AMDSTD_RETRY'',
   ''CONFIG_MTD_PHYSMAP_BANKWIDTH'',
   ''CONFIG_MTD_PHYSMAP_BUSWIDTH'',
   ''CONFIG_MTD_PHYSMAP_LEN'',
   ''CONFIG_MTD_PHYSMAP_START'',
   ''CONFIG_NEST_LEVEL'',
   ''CONFIG_NET_IPGRE'',
   ''CONFIG_NLS_DEFAULT'',
   ''CONFIG_NOMMU_PAGECACHE_THRESHOLD'',
   ''CONFIG_NR_CPUS'',
   ''CONFIG_PCF8594C2'',
   ''CONFIG_PCMCIA'',
   ''CONFIG_PHYS_SDRAM_SIZE'',
   ''CONFIG_PPPOE_MAX_RETRANSMIT_TIMEOUT'',
   ''CONFIG_RALINK_RT2560_TIMECSR'',
   ''CONFIG_RAMDISK_SIZE'',
   ''CONFIG_RAM_LIMIT'',
   ''CONFIG_RG_ADV_SERVICES_LEVEL'',
   ''CONFIG_RG_CODEPAGE'',
   ''CONFIG_RG_CONSOLE_DEVICE'',
   ''CONFIG_RG_CRAMFS_COMP_METHOD'',
   ''CONFIG_RG_DIST'',
   ''CONFIG_RG_DIST_LANG'',
   ''CONFIG_RG_EXTERNAL_TOOLS_PATH'',
   ''CONFIG_RG_FASTPATH_PLAT_PATH'',
   ''CONFIG_RG_FLASH_LAYOUT_SIZE'',
   ''CONFIG_RG_HW'',
   ''CONFIG_RG_HW_DESC_STR'',
   ''CONFIG_RG_JPKG_DIST'',
   ''CONFIG_RG_KERNEL_COMP_METHOD'',
   ''CONFIG_RG_LANGUAGES'',
   ''CONFIG_RG_LOG_DEV_BUF_SIZE'',
   ''CONFIG_RG_MAX_EXT2_CHECK_SIZE'',
   ''CONFIG_RG_MAX_FAT_CHECK_SIZE'',
   ''CONFIG_RG_OS'',
   ''CONFIG_RG_PPP_DEFAULT_BSD_COMPRESSION'',
   ''CONFIG_RG_PPP_DEFAULT_DEFLATE_COMPRESSION'',
   ''CONFIG_RG_PPP_ON_DEMAND_DEFAULT_MAX_IDLE_TIME'',
   ''CONFIG_RG_PPTP_ECHO_FAILURE'',
   ''CONFIG_RG_PPTP_ECHO_INTERVAL'',
   ''CONFIG_RG_PRINT_SERVER_SPOOL'',
   ''CONFIG_RG_SSID_NAME'',
   ''CONFIG_RG_SURFCONTROL_PARTNER_ID'',
   ''CONFIG_RG_SYSLOG_FW_DEF_SIZE'',
   ''CONFIG_RG_TZ_YEARS'',
   ''CONFIG_SDRAM_BASE'',
   ''CONFIG_SDRAM_SIZE'',
   ''CONFIG_SD_EXTRA_DEVS'',
   ''CONFIG_SERIAL_8250_NR_UARTS'',
   ''CONFIG_SERIAL_8250_RUNTIME_UARTS'',
   ''CONFIG_SERIAL_SOLOS_CONSOLE_BAUD'',
   ''CONFIG_SPLIT_PTLOCK_CPUS'',
   ''CONFIG_SSL_CHAN'',
   ''CONFIG_STUB_CODE'',
   ''CONFIG_STUB_DATA'',
   ''CONFIG_STUB_START'',
   ''CONFIG_TASK_SIZE'',
   ''CONFIG_TOP_ADDR'',
   ''CONFIG_UML_RAM_SIZE'',
   ''CONFIG_UNIX98_PTY_COUNT'',
   ''CONFIG_USB_EHCI_HCD'',
   ''CONFIG_USB_OHCI'',
   ''CONFIG_USB_OHCI_HCD'',
   ''CONFIG_USB_OV511'',
   ''CONFIG_USB_PWC'',
   ''CONFIG_USB_SPCA5XX'',
   ''CONFIG_USB_STORAGE'',
   ''CONFIG_USB_UHCI'',
   ''CONFIG_USB_UHCI_HCD'',
   ''CONFIG_VINETIC_LINES_PER_CHIP'',
   ''CONFIG_WSTL_CPLD_REVISION'',
   ''CONFIG_X86_L1_CACHE_SHIFT'',
   ''CONFIG_ZBOOT_ROM_BSS'',
   ''CONFIG_ZBOOT_ROM_TEXT'',
   ''DIST_TYPE'',
   ''ENDIANESS_SUFFIX'',
   ''FIRM'',
   ''IO_SPACE_LIMIT'',
   ''JPKG_ARCH'',
   ''LIBC_ARCH'',
   ''LIBC_IN_TOOLCHAIN'',
   ''LIC_AUTOCONF'',
   ''MAX_DMA_ADDRESS'',
   ''MSP_CODE_LOCATION'',
   ''MSP_NODE_LOCATION'',
   ''OPENRG_CHRDEV_MAJOR'',
   ''OPENRG_CHRDEV_NAME'',
   ''RAM_HIGH_ADRS'',
   ''RAM_LOW_ADRS'',
   ''RG_PROD_STR'',
   ''RMT_UPG_SITE'',
   ''RMT_UPG_URL'',
   ''TARGET_ENDIANESS'',
   ''TARGET_MACHINE'',
   ''UML_CONFIG_STUB_DATA'']"

definition value_tokens :: "string set" where
  "value_tokens = set value_token_list"

lemma value_tokens_all: "list_all (\<lambda>t. t \<in> value_tokens) value_token_list"
  by (simp add: list_all_iff value_tokens_def)

lemmas value_token_facts [simp] = value_tokens_all [unfolded value_token_list_def list.pred_inject]

end
