(* ===== verification/Feature_Base.thy ===== *)
theory Feature_Base
  imports Table_Facts
begin

text \<open>
  The helpers of \<open>feature_config.c\<close>: dependency assertions, the user-interface themes,
  the endianness switches.
\<close>

unbundle bit_operations_syntax

text \<open>\<open>__FILE__\<close>, up to the directory the build prefixes.\<close>

definition FC :: string where
  "FC = ''feature_config.c''"

definition fail :: "conf_error \<Rightarrow> stmt" where
  "fail e s = Inl e"

definition assert_dep :: "string \<Rightarrow> string list \<Rightarrow> stmt" where
  "assert_dep dependent tokens =
     when_c (on dependent)
       (map (\<lambda>t. when_c (neg (on t)) [fail (Failed_dependency dependent t)]) tokens)"

definition is_gui_selected :: "bool rd" where
  "is_gui_selected s =
     Inr (list_ex (\<lambda>p. opt_value p \<noteq> None \<and> opt_type p AND OPT_THEME \<noteq> 0) (cfg_options s))"

text \<open>The loop writes values only, so the tokens and types it reads are those at its start.\<close>

definition select_all_themes :: stmt where
  "select_all_themes s =
     block (map (\<lambda>p. when_c (pure (opt_token p \<noteq> ''CONFIG_GUI_BELKIN'' \<and> opt_type p AND OPT_THEME \<noteq> 0))
                       [token_set_y FC 85 (opt_token p)]) (cfg_options s)) s"

definition is_dsp_configurable :: "bool rd" where
  "is_dsp_configurable =
     disj_c (disj_c (on ''CONFIG_VINETIC'') (on ''CONFIG_IXP425_DSR'')) (on ''CONFIG_COMCERTO_COMMON'')"

definition set_big_endian :: "string \<Rightarrow> nat \<Rightarrow> bool \<Rightarrow> stmt" where
  "set_big_endian file line is_big = block [
     ifc (pure is_big) [token_set_y FC 98 ''CONFIG_CPU_BIG_ENDIAN'']
                       [token_set_y FC 100 ''CONFIG_CPU_LITTLE_ENDIAN''],
     token_set file line ''TARGET_ENDIANESS'' (if is_big then ''BIG'' else ''LITTLE'') []]"

section \<open>The schema of the shipped table\<close>

interpretation shipped: license_schema base_schema value_tokens
  by unfold_locales simp_all

lemma ok_fail [safe_intros]: "script_failure e \<Longrightarrow> ok sch V J (fail e)"
  by (auto simp: ok_def safe_def emits_def fail_def)

lemma ok_assert_dep [safe_intros]:
  assumes "testable sch d" "list_all (testable sch) ts"
  shows "ok sch V J (assert_dep d ts)"
  unfolding assert_dep_def using assms
  by (intro ok_when ok_block_map safe_intros rsafe_on) (auto simp: list_all_iff)

lemma rsafe_is_gui_selected [safe_intros]: "rsafe sch is_gui_selected"
  by (rule rsafe_total) (simp add: is_gui_selected_def)

lemma rsafe_is_dsp_configurable [safe_intros]: "rsafe base_schema is_dsp_configurable"
  unfolding is_dsp_configurable_def
  by (intro safe_intros) simp_all

lemma ok_set_big_endian [safe_intros]: "ok base_schema value_tokens J (set_big_endian f l b)"
  unfolding set_big_endian_def
  by (intro safe_intros shipped.ok_sets) simp_all

text \<open>The loop over the table writes \<open>y\<close> to the themes, and themes are switches.\<close>

lemma ok_select_all_themes [safe_intros]: "ok base_schema value_tokens J select_all_themes"
proof -
  let ?f = "\<lambda>p. when_c (pure (opt_token p \<noteq> ''CONFIG_GUI_BELKIN'' \<and> opt_type p AND OPT_THEME \<noteq> 0))
                       [token_set_y FC 85 (opt_token p)]"
  have theme: "ok base_schema value_tokens J (?f p)"
    if "(opt_token p, opt_type p) \<in> set base_schema" for p
  proof (cases "opt_type p AND OPT_THEME = 0")
    case True
    then show ?thesis
      by (auto simp: ok_def safe_def emits_def when_c_def ifc_def pure_def intro!: exI [of _ "[]"])
  next
    case False
    with that theme_switch show ?thesis by (intro safe_intros shipped.ok_set_y) blast
  qed
  have run: "ok base_schema value_tokens J (block (map ?f (cfg_options s)))" if "has_schema base_schema s" for s
    using that by (intro ok_block_map theme) (rule has_schema_in)
  then have "safe base_schema select_all_themes"
    unfolding safe_def select_all_themes_def by (meson ok_safe safeD)
  moreover from run have "emits base_schema (policy base_schema value_tokens J) select_all_themes"
    unfolding select_all_themes_def by (intro emitsI) (meson ok_emits emitsD)
  ultimately show ?thesis by (simp add: ok_def)
qed

end
