(* ===== verification/Feature_Config_1.thy ===== *)
theory Feature_Config_1
  imports Feature_Base
begin

text \<open>
  \<open>general_features\<close> of \<open>feature_config.c\<close>, lines 166 to 1163: consecutive pieces of its body,
  and that each piece fits the shipped option table.
\<close>

definition general_features_1 :: "stmt" where
  "general_features_1 = block [
   when_c (conj_c (on ''CONFIG_RG_MTD_DEFAULT_PARTITION'') (neg (on ''CONFIG_RG_MTD''))) [token_set_m FC 169 ''CONFIG_RG_MTD''],
   when_c (on ''MODULE_RG_SNMP'') [
       token_set_y FC 174 ''CONFIG_RG_UCD_SNMP'',
       token_set_y FC 175 ''CONFIG_RG_UCD_SNMP_V3''],
   when_c (on ''MODULE_RG_UPNP'') [token_set_y FC 179 ''CONFIG_RG_IGD''],
   when_c (on ''MODULE_RG_ADVANCED_ROUTING'') [
       token_set_y FC 183 ''CONFIG_RG_RIP'',
       token_set_y FC 184 ''CONFIG_RG_DNS_CONCURRENT'',
       when_c (neg (on ''CONFIG_RG_OS_VXWORKS'')) [
         token_set_y FC 187 ''CONFIG_RG_DNS_DOMAIN_ROUTING'',
         token_set_y FC 188 ''CONFIG_RG_TUNNELS'']],
   when_c (on ''CONFIG_RG_TUNNELS'') [
       token_set_y FC 194 ''CONFIG_INET_TUNNEL'',
       token_set_y FC 195 ''CONFIG_NET_IPIP'',
       token_set_y FC 196 ''CONFIG_NET_IPGRE''],
   when_c (on ''CONFIG_RG_DNS_DOMAIN_ROUTING'') [token_set_y FC 200 ''CONFIG_RG_DNS_ROUTE''],
   when_c (on ''MODULE_RG_FIREWALL_AND_SECURITY'') [
       token_set_y FC 204 ''CONFIG_RG_RNAT'',
       token_set_y FC 205 ''CONFIG_RG_FIREWALL'',
       token_set_y FC 208 ''CONFIG_RG_TODC''],
   when_c (on ''MODULE_RG_WLAN_AND_ADVANCED_WLAN'') [
       when_c (neg (on ''CONFIG_RG_VENDOR_WLAN_SEC'')) [
         token_set_y FC 215 ''CONFIG_RG_8021X_MD5'',
         token_set_y FC 216 ''CONFIG_RG_8021X_TLS'',
         token_set_y FC 217 ''CONFIG_RG_8021X_TTLS'',
         token_set_y FC 218 ''CONFIG_RG_8021X_RADIUS'',
         token_set_y FC 219 ''CONFIG_RG_WPA'',
         token_set_y FC 220 ''CONFIG_RG_WEP''],
       when_c (neg (has_str ''CONFIG_RG_SSID_NAME'')) [token_set FC 223 ''CONFIG_RG_SSID_NAME'' ''openrg'' []]],
   when_c (on ''MODULE_RG_CABLEHOME'') [
       token_set_y FC 228 ''CONFIG_RG_CABLEHOME_11'',
       token_set_y FC 229 ''CONFIG_RG_CABLEHOME'',
       token_set_y FC 230 ''CONFIG_RG_CABLEHOME_EMBEDDED''],
   when_c (on ''MODULE_RG_BLUETOOTH'') [token_set_y FC 234 ''CONFIG_RG_BLUETOOTH''],
   token_set_y FC 236 ''CONFIG_RG_LICENSE'',
   when_c (disj_c (on ''MODULE_RG_FOUNDATION'') (on ''CONFIG_RG_RGLOADER'')) [
       when_c (neg (on ''CONFIG_RG_OS_VXWORKS'')) [token_set_y FC 241 ''CONFIG_RG_IPROUTE2'']]]"

definition general_features_2 :: "stmt" where
  "general_features_2 = block [
   when_c (on ''MODULE_RG_FOUNDATION'') [
       token_set_y FC 246 ''CONFIG_RG_FOUNDATION_CORE'',
       token_set_y FC 248 ''CONFIG_RG_CHECK_BAD_REBOOTS'',
       token_set_y FC 251 ''CONFIG_RG_DHCPS'',
       token_set_y FC 252 ''CONFIG_AUTO_LEARN_DNS'',
       token_set_y FC 255 ''CONFIG_RG_DHCPR'',
       token_set_y FC 258 ''CONFIG_RG_TELNETS'',
       token_set_m FC 261 ''CONFIG_RG_BRIDGE'',
       token_set_y FC 264 ''CONFIG_RG_NAT'',
       token_set_y FC 267 ''CONFIG_RG_ALG'',
       token_set_y FC 268 ''CONFIG_RG_ALG_SIP'',
       token_set_y FC 269 ''CONFIG_RG_ALG_MGCP'',
       token_set_y FC 270 ''CONFIG_RG_ALG_H323'',
       token_set_y FC 271 ''CONFIG_RG_ALG_AIM'',
       token_set_y FC 272 ''CONFIG_RG_ALG_MSNMS'',
       token_set_y FC 273 ''CONFIG_RG_ALG_PPTP'',
       token_set_y FC 274 ''CONFIG_RG_ALG_IPSEC'',
       token_set_y FC 275 ''CONFIG_RG_ALG_L2TP'',
       token_set_y FC 276 ''CONFIG_RG_ALG_ICMP'',
       token_set_y FC 277 ''CONFIG_RG_ALG_PORT_TRIGGER'',
       token_set_y FC 278 ''CONFIG_RG_ALG_FTP'',
       token_set_y FC 279 ''CONFIG_RG_ALG_RTSP'',
       token_set_m FC 281 ''CONFIG_RG_PPPOE_RELAY'',
       token_set_m FC 284 ''CONFIG_RG_MSS'',
       token_set_y FC 288 ''CONFIG_RG_RMT_MNG'',
       token_set_y FC 289 ''CONFIG_RG_OSS_RMT'',
       when_c (neg (on ''CONFIG_RG_OS_VXWORKS'')) [
         token_set_y FC 295 ''CONFIG_RG_STATIC_ROUTE'',
         when_c (conj_c (neg (on ''CONFIG_RG_CABLEHOME_11'')) (neg (on ''CONFIG_ATHEROS_ART_TOOLS''))) [token_set_m FC 297 ''CONFIG_RG_IGMP_PROXY'']],
       when_c (conj_c (neg (on ''CONFIG_KS8695_COMMON'')) (neg (on ''CONFIG_BCM963XX_COMMON''))) [token_set_y FC 305 ''CONFIG_RG_KGDB''],
       token_set_y FC 307 ''CONFIG_RG_PING'',
       token_set_y FC 308 ''CONFIG_RG_TRACEROUTE'',
       when_c (neg (on ''CONFIG_RG_ADV_SERVICES_LEVEL'')) [token_set FC 312 ''CONFIG_RG_ADV_SERVICES_LEVEL'' ''2'' []],
       when_c (conj_c (neg (on ''CONFIG_RG_CABLEHOME_11'')) (on ''CONFIG_RG_OS_VXWORKS'')) [token_set_y FC 318 ''CONFIG_RG_MCAST_RELAY''],
       when_c (neg (on ''CONFIG_RG_CABLEHOME_11'')) [
         token_set_y FC 324 ''CONFIG_RG_ALG_DNS'',
         token_set_y FC 325 ''CONFIG_RG_ALG_DHCP''],
       token_set_y FC 329 ''CONFIG_RG_WBM'',
       token_set_y FC 330 ''CONFIG_RG_TZ_COMMON'',
       token_set_y FC 333 ''CONFIG_ZC_IP_AUTO_DETECTION'']]"

definition general_features_3 :: "stmt" where
  "general_features_3 = block [
   when_c (on ''CONFIG_RG_FOUNDATION_CORE'') [
       token_set_y FC 348 ''CONFIG_OPENRG'',
       token_set_y FC 351 ''CONFIG_RG_LANG'',
       token_set_m FC 358 ''CONFIG_RG_KOS'',
       token_set_y FC 359 ''CONFIG_RG_KOS_KNET'',
       token_set_y FC 362 ''CONFIG_RG_CLI'',
       token_set_y FC 363 ''CONFIG_RG_RGLOADER_CLI_CMD'',
       token_set_y FC 364 ''CONFIG_RG_LOGIN'',
       when_c (neg (on ''CONFIG_RG_OS_VXWORKS'')) [token_set_y FC 366 ''CONFIG_RGLOADER_CLI''],
       token_set_y FC 367 ''CONFIG_RG_CONFIG_STRINGS'',
       token_set_y FC 370 ''CONFIG_RG_DNS'',
       token_set_y FC 371 ''CONFIG_RG_ERESOLV'',
       token_set_y FC 374 ''CONFIG_RG_TODC'',
       token_set_y FC 378 ''CONFIG_RG_DDNS'',
       token_set_y FC 382 ''CONFIG_RG_DHCPC'',
       when_c (neg (on ''CONFIG_HW_CABLE_WAN'')) [
         token_set_y FC 387 ''CONFIG_RG_LAN_UPGRADE'',
         token_set_y FC 388 ''CONFIG_RG_WAN_UPGRADE'',
         token_set_y FC 389 ''CONFIG_RG_RMT_UPDATE''],
       when_c (neg (on ''CONFIG_RG_OS_VXWORKS'')) [token_set_y FC 393 ''CONFIG_RG_SYSINIT''],
       when_c (neg (on ''CONFIG_I386_BOCHS'')) [token_set_y FC 396 ''CONFIG_RG_PERM_STORAGE''],
       token_set_y FC 398 ''CONFIG_RG_CHRDEV'',
       when_c (neg (on ''CONFIG_RG_OS_VXWORKS'')) [token_set_y FC 402 ''CONFIG_RG_BUSYBOX''],
       token_set_y FC 405 ''CONFIG_RG_MAC_CLONING'',
       token_set_m FC 408 ''CONFIG_RG_IPV4''],
   when_c (on ''MODULE_RG_ADVANCED_MANAGEMENT'') [
       token_set_y FC 428 ''CONFIG_RG_SSL'',
       token_set_y FC 436 ''CONFIG_RG_EVENT_LOGGING''],
   when_c (on ''MODULE_RG_PPTP'') [
       token_set_y FC 446 ''CONFIG_RG_PPTPC'',
       token_set_y FC 447 ''CONFIG_RG_PPTPS'',
       token_set_y FC 448 ''CONFIG_RG_PPP_MPPE'',
       token_set_m FC 449 ''CONFIG_RG_PPP'']]"

definition general_features_4 :: "stmt" where
  "general_features_4 = block [
   when_c (on ''MODULE_RG_PPP'') [
       token_set_m FC 454 ''CONFIG_RG_PPP'',
       token_set_y FC 455 ''CONFIG_RG_PPPOE'',
       token_set_y FC 456 ''CONFIG_RG_PPPOS'',
       when_c (neg (on ''CONFIG_RG_OS_VXWORKS'')) [
         token_set_y FC 460 ''CONFIG_RG_PPP_DEFLATE'',
         token_set_y FC 461 ''CONFIG_RG_PPP_BSDCOMP''],
       when_c (conj_c (on ''CONFIG_ATM'') (neg (on ''CONFIG_RG_OS_LINUX_26''))) [token_set_m FC 465 ''CONFIG_RG_PPPOA''],
       when_c (neg (has_str ''CONFIG_RG_PPP_ON_DEMAND_DEFAULT_MAX_IDLE_TIME'')) [
         token_set FC 469 ''CONFIG_RG_PPP_ON_DEMAND_DEFAULT_MAX_IDLE_TIME'' ''1200'' []],
       when_c (neg (has_str ''CONFIG_RG_PPP_DEFAULT_BSD_COMPRESSION'')) [
         token_set FC 479 ''CONFIG_RG_PPP_DEFAULT_BSD_COMPRESSION'' ''1'' []],
       when_c (neg (has_str ''CONFIG_RG_PPP_DEFAULT_DEFLATE_COMPRESSION'')) [
         token_set FC 488 ''CONFIG_RG_PPP_DEFAULT_DEFLATE_COMPRESSION'' ''1'' []]],
   when_c (on ''MODULE_RG_DSL'') [
       token_set_y FC 494 ''CONFIG_ATM'',
       token_set_y FC 495 ''CONFIG_ATM_PVC_SCAN'',
       when_c (neg (on ''CONFIG_ARCH_SOLOS'')) [token_set_y FC 498 ''CONFIG_RG_OAM_PING''],
       token_set_y FC 500 ''CONFIG_ATM_SKB'',
       token_set_y FC 501 ''CONFIG_ATM_BR2684'',
       when_c (on ''CONFIG_RG_PPP'') [token_set_m FC 503 ''CONFIG_RG_PPPOA''],
       when_c (neg (on ''CONFIG_RG_OS_LINUX_26'')) [token_set_y FC 505 ''CONFIG_ATM_CLIP'']],
   when_c (on ''MODULE_RG_IPV6'') [token_set_y FC 510 ''CONFIG_RG_IPV6''],
   when_c (on ''MODULE_RG_VLAN'') [
       when_c (conj_c (neg (on ''CONFIG_HW_SWITCH_LAN'')) (neg (on ''CONFIG_HW_SWITCH_WAN''))) [token_set_y FC 517 ''CONFIG_RG_VLAN_BRIDGE''],
       when_c (neg (on ''CONFIG_RG_OS_VXWORKS'')) [token_set_y FC 521 ''CONFIG_RG_8021Q_IF'']],
   when_c (on ''MODULE_RG_PRINTSERVER'') [
       token_set_y FC 526 ''CONFIG_RG_PRINT_SERVER'',
       token_set_y FC 527 ''CONFIG_RG_IPP'',
       token_set_y FC 528 ''CONFIG_RG_LPD''],
   when_c (on ''MODULE_RG_ADVANCED_OFFICE_SERVERS'') [
       enable_module FC 533 ''CONFIG_RG_MAIL_SERVER'',
       enable_module FC 534 ''CONFIG_RG_WEB_SERVER'',
       enable_module FC 535 ''CONFIG_RG_FTP_SERVER'',
       token_set_y FC 536 ''CONFIG_RG_DISK_MNG'']]"

definition general_features_5 :: "stmt" where
  "general_features_5 = block [
   when_c (on ''MODULE_RG_FILESERVER'') [
       enable_module FC 541 ''CONFIG_RG_FS_BACKUP'',
       token_set_y FC 543 ''CONFIG_RG_DISK_MNG'',
       token_set_y FC 544 ''CONFIG_RG_FILESERVER'',
       token_set_y FC 545 ''CONFIG_RG_SAMBA'',
       when_c (on ''MODULE_RG_PRINTSERVER'') [token_set_y FC 548 ''CONFIG_RG_SAMBA_PRINTING''],
       when_c (on ''MODULE_RG_ADVANCED_OFFICE_SERVERS'') [
         token_set_y FC 552 ''CONFIG_RG_WINS_SERVER'',
         token_set_y FC 553 ''CONFIG_RG_FILESERVER_ACLS''],
       when_c (on ''CONFIG_RG_FILESERVER_ACLS'') [
         token_set_y FC 559 ''CONFIG_FS_POSIX_ACL'',
         token_set_y FC 562 ''CONFIG_EXT2_FS_POSIX_ACL'',
         token_set_y FC 563 ''CONFIG_EXT2_FS_XATTR'',
         token_set_y FC 564 ''CONFIG_EXT2_FS_XATTR_SHARING'',
         token_set_y FC 567 ''CONFIG_EXT3_FS_POSIX_ACL'',
         token_set_y FC 568 ''CONFIG_EXT3_FS_XATTR'',
         token_set_y FC 569 ''CONFIG_EXT3_FS_XATTR_SHARING'',
         token_set_y FC 572 ''CONFIG_FS_MBCACHE'']],
   when_c (on ''CONFIG_RG_DISK_MNG'') [
       token_set_y FC 578 ''CONFIG_RG_STORAGE'',
       token_set_y FC 579 ''CONFIG_EXT3_FS'',
       token_set_y FC 580 ''CONFIG_JBD'',
       when_c (disj_c (on ''CONFIG_RG_JPKG'') (conj_c (conj_c (neg (on ''CONFIG_HW_FIREWIRE_STORAGE'')) (neg (on ''CONFIG_HW_USB_STORAGE''))) (neg (on ''CONFIG_RG_UML'')))) [token_set_y FC 586 ''CONFIG_FILESERVER_KERNEL_CONFIG''],
       when_c (on ''CONFIG_RG_RAID'') [
         token_set_y FC 591 ''CONFIG_MD'',
         token_set_y FC 592 ''CONFIG_BLK_DEV_MD'',
         token_set_y FC 593 ''CONFIG_MD_RAID0'',
         token_set_y FC 594 ''CONFIG_MD_RAID1'',
         token_set_y FC 595 ''CONFIG_MD_RAID5'']],
   when_c (on ''MODULE_RG_IPSEC'') [token_set_y FC 600 ''CONFIG_FREESWAN''],
   when_c (on ''MODULE_RG_L2TP'') [
       token_set_y FC 604 ''CONFIG_RG_L2TPC'',
       token_set_y FC 605 ''CONFIG_RG_L2TPS'',
       token_set_y FC 606 ''CONFIG_RG_PPP_MPPE'',
       token_set_m FC 607 ''CONFIG_RG_PPP''],
   when_c (on ''MODULE_RG_ATA'') [token_set_y FC 611 ''CONFIG_RG_ATA''],
   when_c (on ''MODULE_RG_PBX'') [token_set_y FC 614 ''CONFIG_RG_PBX''],
   when_c (on ''MODULE_RG_VOIP_RV_SIP'') [token_set_y FC 617 ''CONFIG_RG_VOIP_RV_SIP''],
   when_c (on ''MODULE_RG_VOIP_RV_H323'') [token_set_y FC 620 ''CONFIG_RG_VOIP_RV_H323''],
   when_c (on ''MODULE_RG_VOIP_RV_MGCP'') [token_set_y FC 623 ''CONFIG_RG_VOIP_RV_MGCP''],
   when_c (on ''MODULE_RG_VOIP_ASTERISK_SIP'') [token_set_y FC 626 ''CONFIG_RG_VOIP_ASTERISK_SIP''],
   when_c (on ''MODULE_RG_VOIP_ASTERISK_H323'') [token_set_y FC 629 ''CONFIG_RG_VOIP_ASTERISK_H323''],
   when_c (on ''MODULE_RG_VOIP_ASTERISK_MGCP_GW'') [token_set_y FC 632 ''CONFIG_RG_VOIP_ASTERISK_MGCP_GW''],
   when_c (on ''MODULE_RG_VOIP_ASTERISK_MGCP_CALL_AGENT'') [
       token_set_y FC 635 ''CONFIG_RG_VOIP_ASTERISK_MGCP_CALL_AGENT''],
   when_c (on ''MODULE_RG_VOIP_OSIP'') [token_set_y FC 638 ''CONFIG_RG_VOIP_OSIP''],
   when_c (on ''MODULE_RG_URL_FILTERING'') [
       token_set_y FC 642 ''CONFIG_RG_SURFCONTROL'',
       token_set_y FC 643 ''CONFIG_RG_URL_KEYWORD_FILTER''],
   when_c (on ''MODULE_RG_QOS'') [token_set_y FC 647 ''CONFIG_RG_QOS''],
   when_c (on ''MODULE_RG_ROUTE_MULTIWAN'') [token_set_y FC 650 ''CONFIG_RG_ROUTE_MULTIWAN'']]"

definition general_features_6 :: "stmt" where
  "general_features_6 = block [
   when_c (on ''MODULE_RG_DSLHOME'') [
       token_set_y FC 654 ''CONFIG_RG_DSLHOME'',
       token_set_y FC 655 ''CONFIG_RG_DSLHOME_VOUCHERS'',
       when_c (disj_c (on ''CONFIG_RG_JPKG'') (token_cmp (\<lambda>v. v > 1) ''CONFIG_RG_ADV_SERVICES_LEVEL'')) [token_set_y FC 661 ''CONFIG_RG_DSLHOME_VOUCHERS'']],
   when_c (on ''MODULE_RG_TR_098'') [
       assert_dep ''MODULE_RG_TR_098'' [''CONFIG_RG_DSLHOME'', ''CONFIG_RG_QOS''],
       token_set_y FC 669 ''CONFIG_RG_TR_098''],
   when_c (on ''CONFIG_RG_DSLHOME_VOUCHERS'') [
       assert_dep ''CONFIG_RG_DSLHOME_VOUCHERS'' [''CONFIG_RG_DSLHOME''],
       token_set_y FC 675 ''CONFIG_RG_OPTION_MANAGER''],
   when_c (on ''CONFIG_RG_OPTION_MANAGER'') [
       token_set_y FC 680 ''CONFIG_RG_XMLSEC'',
       token_set_y FC 681 ''CONFIG_RG_XML2''],
   when_c (on ''MODULE_RG_MAIL_FILTER'') [token_set_y FC 685 ''CONFIG_RG_MAIL_FILTER''],
   when_c (on ''MODULE_RG_ZERO_CONFIGURATION_NETWORKING'') [token_set_y FC 688 ''CONFIG_ZERO_CONFIGURATION''],
   when_c (on ''MODULE_RG_TR_064'') [token_set_y FC 691 ''CONFIG_RG_TR_064''],
   when_c (on ''MODULE_RG_JVM'') [token_set_y FC 694 ''CONFIG_RG_KAFFE''],
   when_c (on ''MODULE_RG_SSL_VPN'') [
       token_set_y FC 698 ''CONFIG_RG_SSL_VPN'',
       token_set_y FC 699 ''CONFIG_RG_XML'',
       when_c (neg (on ''CONFIG_RG_SSL_VPN_SMALL_FLASH'')) [token_set_y FC 704 ''CONFIG_RG_WEB_CIFS'']],
   when_c (on ''CONFIG_NEW_NONE_PRICED_FEATURES'') [
       token_set_y FC 713 ''CONFIG_RG_PROXY_ARP'',
       token_set_y FC 714 ''CONFIG_RG_TFTP_UPGRADE'',
       token_set_y FC 715 ''CONFIG_RG_SSI_PAGES''],
   when_c (on ''CONFIG_RG_GDBSERVER'') [token_set_y FC 719 ''CONFIG_RG_THREADS''],
   when_c (on ''CONFIG_RG_IPROUTE2'') [
       token_set_y FC 724 ''CONFIG_IP_ADVANCED_ROUTER'',
       token_set_y FC 726 ''CONFIG_IP_ROUTE_MULTIPATH'',
       token_set_y FC 728 ''CONFIG_IP_ROUTE_VERBOSE'',
       token_set_y FC 730 ''CONFIG_IP_MULTIPLE_TABLES'',
       token_set_y FC 732 ''CONFIG_IP_ROUTE_TOS'',
       when_c (on ''CONFIG_RG_ROUTE_MULTIWAN'') [
         token_set_y FC 737 ''CONFIG_RG_DSCP_POLICY_ROUTING'',
         token_set_y FC 739 ''CONFIG_RG_LOAD_BALANCING'',
         token_set_y FC 741 ''CONFIG_RG_FAILOVER''],
       token_set_y FC 744 ''CONFIG_ULIBC_DO_C99_MATH'']]"

definition general_features_7 :: "stmt" where
  "general_features_7 = block [
   when_c (conj_c (on ''CONFIG_RG_IPROUTE2'') (on ''CONFIG_RG_QOS'')) [
       token_set_y FC 749 ''CONFIG_TOS_DSCP_RFC2474'',
       token_set_y FC 751 ''CONFIG_NETFILTER'',
       token_set_y FC 753 ''CONFIG_NET_SCHED'',
       token_set_y FC 756 ''CONFIG_NET_SCH_HTB'',
       token_set_y FC 758 ''CONFIG_NET_SCH_INGRESS'',
       token_set_y FC 760 ''CONFIG_NET_SCH_PRIO'',
       token_set_y FC 762 ''CONFIG_NET_SCH_RED'',
       token_set_y FC 764 ''CONFIG_NET_SCH_SFQ'',
       token_set_y FC 766 ''CONFIG_NET_SCH_DSMARK'',
       token_set_y FC 768 ''CONFIG_NET_QOS'',
       token_set_y FC 770 ''CONFIG_NET_ESTIMATOR'',
       token_set_y FC 772 ''CONFIG_NET_CLS'',
       token_set_y FC 774 ''CONFIG_NET_CLS_POLICE'',
       token_set_y FC 776 ''CONFIG_NET_CLS_TCINDEX'',
       token_set_y FC 778 ''CONFIG_NET_CLS_FW'',
       token_set_y FC 780 ''CONFIG_NET_CLS_U32'',
       token_set_y FC 782 ''CONFIG_NET_CLS_RSVP'',
       token_set_y FC 784 ''CONFIG_NET_CLS_RSVP6'',
       when_c (on ''CONFIG_ATM'') [token_set_y FC 788 ''CONFIG_NET_SCH_ATM''],
       token_set_y FC 791 ''CONFIG_IP_ROUTE_FWMARK'',
       token_set_m FC 794 ''CONFIG_RG_QOS_INGRESS'',
       when_c (disj_c (on ''CONFIG_RG_VLAN_BRIDGE'') (on ''CONFIG_RG_VLAN_8021Q'')) [token_set_y FC 799 ''CONFIG_RG_VLAN_DSCP'']],
   when_c (on ''CONFIG_RG_WEB_CIFS'') [token_set_y FC 806 ''CONFIG_RG_SAMBA''],
   when_c (on ''CONFIG_RG_MAIL_SERVER'') [token_set_y FC 809 ''CONFIG_RG_THREADS''],
   when_c (on ''CONFIG_LSP_DIST'') [token_set_y FC 812 ''CONFIG_RG_BUSYBOX''],
   when_c (on ''CONFIG_IPTABLES'') [
       token_set_y FC 816 ''CONFIG_NETFILTER'',
       token_set_y FC 817 ''CONFIG_IP_NF_FILTER'',
       token_set_y FC 818 ''CONFIG_IP_NF_IPTABLES'',
       token_set_y FC 819 ''CONFIG_IP_NF_CONNTRACK'',
       token_set_y FC 820 ''CONFIG_IP_NF_NAT_NEEDED'',
       token_set_y FC 821 ''CONFIG_IP_NF_NAT'',
       token_set_y FC 822 ''CONFIG_IP_NF_NAT_LOCAL'',
       token_set_y FC 823 ''CONFIG_IP_NF_TARGET_MASQUERADE'',
       token_set_y FC 824 ''CONFIG_IP_NF_CT_ACCT'',
       token_set_y FC 825 ''CONFIG_IP_NF_CONNTRACK_MARK'',
       token_set_y FC 826 ''CONFIG_NETFILTER_XTABLES'',
       token_set_y FC 827 ''CONFIG_NETFILTER_XT_TARGET_CLASSIFY'',
       token_set_y FC 828 ''CONFIG_NETFILTER_XT_TARGET_CONNMARK'',
       token_set_y FC 829 ''CONFIG_NETFILTER_XT_TARGET_MARK'',
       token_set_y FC 830 ''CONFIG_NETFILTER_XT_TARGET_NFQUEUE'',
       token_set_y FC 831 ''CONFIG_NETFILTER_XT_TARGET_NOTRACK'',
       token_set_y FC 832 ''CONFIG_NETFILTER_XT_MATCH_COMMENT'',
       token_set_y FC 833 ''CONFIG_NETFILTER_XT_MATCH_CONNBYTES'',
       token_set_y FC 834 ''CONFIG_NETFILTER_XT_MATCH_CONNMARK'',
       token_set_y FC 835 ''CONFIG_NETFILTER_XT_MATCH_CONNTRACK'',
       token_set_y FC 836 ''CONFIG_NETFILTER_XT_MATCH_DCCP'',
       token_set_y FC 837 ''CONFIG_NETFILTER_XT_MATCH_HELPER'',
       token_set_y FC 838 ''CONFIG_NETFILTER_XT_MATCH_LENGTH'',
       token_set_y FC 839 ''CONFIG_NETFILTER_XT_MATCH_LIMIT'',
       token_set_y FC 840 ''CONFIG_NETFILTER_XT_MATCH_MAC'',
       token_set_y FC 841 ''CONFIG_NETFILTER_XT_MATCH_MARK'',
       token_set_y FC 842 ''CONFIG_NETFILTER_XT_MATCH_PKTTYPE'',
       token_set_y FC 843 ''CONFIG_NETFILTER_XT_MATCH_REALM'',
       token_set_y FC 844 ''CONFIG_NETFILTER_XT_MATCH_SCTP'',
       token_set_y FC 845 ''CONFIG_NETFILTER_XT_MATCH_STATE'',
       token_set_y FC 846 ''CONFIG_NETFILTER_XT_MATCH_STRING'',
       token_set_y FC 847 ''CONFIG_NETFILTER_XT_MATCH_TCPMSS'',
       token_set_y FC 848 ''CONFIG_NETFILTER_XT_MATCH_PHYSDEV'',
       token_set_y FC 849 ''CONFIG_NET_CLS_ROUTE'',
       token_set_y FC 850 ''CONFIG_BRIDGE_NETFILTER'',
       token_set_y FC 851 ''CONFIG_TEXTSEARCH''],
   when_c (neg (has_str ''CONFIG_RG_CONSOLE_DEVICE'')) [token_set FC 855 ''CONFIG_RG_CONSOLE_DEVICE'' ''ttyS0'' []],
   when_c (disj_c (on ''CONFIG_RG_RADIUS_LOGIN_AUTH'') (on ''CONFIG_RG_8021X_RADIUS'')) [token_set_y FC 860 ''CONFIG_RG_RADIUS'']]"

definition general_features_8 :: "stmt" where
  "general_features_8 = block [
   when_c (on ''CONFIG_RG_PRINT_SERVER'') [
       ifc (on ''CONFIG_RG_UML'') [token_set_y FC 866 ''CONFIG_RG_PRINT_SERVER_PRINTER_NULL'']
        [token_set_y FC 868 ''CONFIG_USB_PRINTER''],
       when_c (neg (on ''CONFIG_RG_PRINT_SERVER_SPOOL'')) [token_set FC 871 ''CONFIG_RG_PRINT_SERVER_SPOOL'' ''0'' []]],
   when_c (conj_c (neg (on ''CONFIG_RG_DEV'')) (on ''CONFIG_RG_KOS_KNET'')) [token_set_m FC 875 ''CONFIG_RG_ONE_MODULE''],
   when_c (on ''CONFIG_RG_DEV'') [
       when_c (neg (on ''CONFIG_ARMNOMMU'')) [token_set_y FC 880 ''CONFIG_FRAME_POINTER''],
       token_set_y FC 881 ''CONFIG_KALLSYMS'',
       token_set_y FC 882 ''CONFIG_DEBUG_SLAB'',
       when_c (on ''CONFIG_RG_OS_LINUX_26'') [
         token_set_y FC 885 ''CONFIG_DEBUG_SPINLOCK_SLEEP'',
         token_set_y FC 886 ''CONFIG_DEBUG_INFO''],
       token_set_y FC 888 ''CONFIG_RG_IPROUTE2_UTILS'',
       token_set_y FC 889 ''CONFIG_RG_WIRELESS_TOOLS''],
   when_c (is_dist ''JPKG_I386'') [
       token_set FC 894 ''ARCH'' ''i386'' [],
       token_set FC 895 ''CONFIG_X86_L1_CACHE_SHIFT'' ''4'' [],
       token_set FC 896 ''LIBC_ARCH'' ''i386'' [],
       token_set_y FC 897 ''CONFIG_M386'',
       token_set_y FC 898 ''CONFIG_FLASH_IN_FILE'',
       token_set_y FC 899 ''CONFIG_HAS_MMU'',
       token_set_y FC 900 ''CONFIG_DYN_LINK'',
       set_big_endian FC 901 False,
       token_set_y FC 902 ''CONFIG_HW_CLOCK'',
       token_set_y FC 903 ''CONFIG_PROC_FS'',
       token_set_y FC 904 ''CONFIG_EXT2_FS'',
       token_set_y FC 905 ''CONFIG_BINFMT_ELF''],
   when_c (is_dist ''JPKG_UML'') [
       token_set FC 910 ''ARCH'' ''um'' [],
       token_set FC 911 ''CONFIG_X86_L1_CACHE_SHIFT'' ''4'' [],
       token_set_y FC 912 ''CONFIG_RG_GDBSERVER'',
       token_set_m FC 913 ''CONFIG_RG_KRGLDR'',
       token_set FC 914 ''LIBC_ARCH'' ''i386'' [],
       token_set_y FC 915 ''CONFIG_M386'',
       token_set_y FC 916 ''CONFIG_FLASH_IN_FILE'',
       token_set_y FC 917 ''CONFIG_HAS_MMU'',
       token_set_y FC 918 ''CONFIG_DYN_LINK'',
       set_big_endian FC 919 False,
       token_set_y FC 920 ''CONFIG_HW_CLOCK'',
       token_set_y FC 921 ''CONFIG_PROC_FS'',
       token_set_y FC 922 ''CONFIG_EXT2_FS'',
       token_set_y FC 923 ''CONFIG_BINFMT_ELF'',
       token_set FC 927 ''CONFIG_KERNEL_STACK_ORDER'' ''2'' [],
       token_set_y FC 928 ''CONFIG_RAMFS'',
       token_set_y FC 929 ''CONFIG_SIMPLE_RAMDISK'',
       token_set FC 930 ''CONFIG_RAMDISK_SIZE'' ''65536'' [],
       token_set FC 931 ''CONFIG_KERNEL_STACK_ORDER'' ''2'' [],
       token_set_y FC 932 ''CONFIG_MODE_TT'',
       token_set_y FC 933 ''CONFIG_MODE_SKAS'',
       token_set FC 934 ''CONFIG_NEST_LEVEL'' ''0'' [],
       token_set FC 935 ''CONFIG_CON_ZERO_CHAN'' ''fd:0,fd:1'' [],
       token_set FC 936 ''CONFIG_CON_CHAN'' ''xterm'' [],
       token_set FC 937 ''CONFIG_SSL_CHAN'' ''pty'' [],
       token_set FC 938 ''CONFIG_KERNEL_HALF_GIGS'' ''1'' [],
       token_set_y FC 939 ''CONFIG_PT_PROXY'',
       token_set_y FC 940 ''CONFIG_STDIO_CONSOLE'',
       token_set_y FC 941 ''CONFIG_SSL'',
       token_set_y FC 942 ''CONFIG_FD_CHAN'',
       token_set_y FC 943 ''CONFIG_NULL_CHAN'',
       token_set_y FC 944 ''CONFIG_PORT_CHAN'',
       token_set_y FC 945 ''CONFIG_PTY_CHAN'',
       token_set_y FC 946 ''CONFIG_TTY_CHAN'',
       token_set_y FC 947 ''CONFIG_XTERM_CHAN'',
       token_set_y FC 948 ''CONFIG_BLK_DEV_UBD'',
       token_set_y FC 949 ''CONFIG_BLK_DEV_NBD'',
       token_set FC 950 ''CONFIG_BLK_DEV_RAM_SIZE'' ''8192'' [],
       token_set_y FC 951 ''CONFIG_RG_INITFS_RAMDISK'',
       token_set_y FC 952 ''CONFIG_UML_NET'',
       token_set_y FC 953 ''CONFIG_UML_NET_ETHERTAP'',
       token_set_y FC 954 ''CONFIG_UML_NET_TUNTAP'',
       token_set_y FC 955 ''CONFIG_UML_NET_SLIP'',
       token_set_y FC 956 ''CONFIG_UML_NET_SLIRP'',
       token_set_y FC 957 ''CONFIG_UML_NET_DAEMON'',
       token_set_y FC 958 ''CONFIG_UML_NET_MCAST'',
       token_set_y FC 959 ''CONFIG_DUMMY'',
       token_set_y FC 960 ''CONFIG_TUN'',
       token_set_y FC 961 ''CONFIG_USERMODE'',
       token_set_y FC 962 ''CONFIG_UID16'',
       token_set_y FC 963 ''CONFIG_EXPERIMENTAL'',
       token_set_y FC 964 ''CONFIG_BSD_PROCESS_ACCT'',
       token_set_y FC 965 ''CONFIG_HOSTFS'',
       token_set_y FC 966 ''CONFIG_HPPFS'',
       token_set_y FC 967 ''CONFIG_MCONSOLE'',
       token_set_y FC 968 ''CONFIG_MAGIC_SYSRQ'',
       token_set_y FC 969 ''CONFIG_PROC_MM'',
       token_set_y FC 970 ''CONFIG_PACKET_MMAP'',
       token_set_y FC 971 ''CONFIG_QUOTA'',
       token_set_y FC 972 ''CONFIG_AUTOFS_FS'',
       token_set_y FC 973 ''CONFIG_AUTOFS4_FS'',
       token_set_y FC 974 ''CONFIG_REISERFS_FS'',
       token_set_y FC 975 ''CONFIG_MTD_BLKMTD'',
       token_set_y FC 976 ''CONFIG_ZLIB_INFLATE'',
       token_set_y FC 977 ''CONFIG_ZLIB_DEFLATE'',
       token_set_y FC 978 ''CONFIG_PT_PROXY'',
       token_set_y FC 979 ''CONFIG_RG_THREADS'',
       token_set FC 980 ''CONFIG_RG_KERNEL_COMP_METHOD'' ''gzip'' []]]"

definition general_features_9 :: "stmt" where
  "general_features_9 = block [
   when_c (on ''CONFIG_RG_UML'') [
       token_set FC 986 ''BOARD'' ''UML'' [],
       token_set_m FC 987 ''CONFIG_RG_KRGLDR'',
       token_set_y FC 988 ''CONFIG_RG_GDBSERVER'',
       token_set_y FC 989 ''CONFIG_RG_DYN_FLASH_LAYOUT'',
       when_c (on ''CONFIG_VALGRIND'') [token_set_y FC 992 ''CONFIG_UML_BIG_FLASH''],
       when_c (conj_c (pure True) (os_is ''LINUX_26'')) [
         token_set_y FC 996 ''CONFIG_UID16'',
         token_set_y FC 997 ''CONFIG_SYSVIPC'',
         token_set_y FC 998 ''CONFIG_CLEAN_COMPILE'',
         token_set_y FC 999 ''CONFIG_BROKEN_ON_SMP'',
         token_set_y FC 1000 ''CONFIG_BASE_FULL'',
         token_set_y FC 1001 ''CONFIG_FUTEX'',
         token_set_y FC 1002 ''CONFIG_EPOLL'',
         token_set_y FC 1003 ''CONFIG_X86_XADD'',
         token_set_y FC 1004 ''CONFIG_BINFMT_MISC'',
         token_set_y FC 1005 ''CONFIG_STANDALONE'',
         token_set_y FC 1006 ''CONFIG_PREVENT_FIRMWARE_BUILD'',
         token_set FC 1007 ''CONFIG_BLK_DEV_RAM_COUNT'' ''16'' [],
         token_set FC 1008 ''CONFIG_NET_IPGRE'' ''m'' [],
         token_set_y FC 1009 ''CONFIG_NET_IPGRE_BROADCAST'',
         token_set_y FC 1010 ''CONFIG_ARCH_HAS_SC_SIGNALS'',
         token_set FC 1011 ''CONFIG_TOP_ADDR'' ''0xc0000000'' [],
         token_set_y FC 1012 ''CONFIG_ARCH_REUSE_HOST_VSYSCALL_AREA'',
         token_set_y FC 1013 ''CONFIG_LD_SCRIPT_STATIC'',
         token_set_y FC 1014 ''CONFIG_UML_REAL_TIME_CLOCK'',
         token_set_y FC 1015 ''CONFIG_NOCONFIG_CHAN'',
         token_set_y FC 1016 ''CONFIG_BLK_DEV_COW_COMMON'',
         token_set_y FC 1017 ''CONFIG_RWSEM_GENERIC_SPINLOCK'',
         token_set_y FC 1018 ''CONFIG_QUOTA'',
         token_set_y FC 1019 ''CONFIG_QUOTACTL'',
         token_set_y FC 1020 ''CONFIG_RG_TTYP'',
         token_set FC 1021 ''CONFIG_X86_L1_CACHE_SHIFT'' ''4'' [],
         token_set_y FC 1024 ''CONFIG_SWAP'',
         token_set_y FC 1025 ''CONFIG_IRQ_RELEASE_METHOD'',
         token_set FC 1026 ''UML_CONFIG_STUB_DATA'' ''0xbffff000'' [],
         token_set FC 1027 ''CONFIG_STUB_DATA'' ''0xbffff000'' [],
         token_set FC 1028 ''CONFIG_STUB_START'' ''0xbfffe000'' [],
         token_set FC 1029 ''CONFIG_STUB_CODE'' ''0xbfffe000'' [],
         token_set_y FC 1031 ''CONFIG_M386'',
         token_set_y FC 1032 ''CONFIG_RWSEM_GENERIC_SPINLOCK'',
         token_set_y FC 1033 ''CONFIG_X86_PPRO_FENCE'',
         token_set_y FC 1034 ''CONFIG_X86_F00F_BUG'',
         token_set_y FC 1035 ''CONFIG_SEMAPHORE_SLEEPERS'',
         token_set_y FC 1036 ''CONFIG_SELECT_MEMORY_MODEL'',
         token_set_y FC 1037 ''CONFIG_FLATMEM_MANUAL'',
         token_set_y FC 1038 ''CONFIG_FLATMEM'',
         token_set_y FC 1039 ''CONFIG_FLAT_NODE_MEM_MAP'',
         token_set_y FC 1040 ''CONFIG_FORCED_INLINING'',
         token_set_y FC 1041 ''CONFIG_UID16'',
         token_set_y FC 1042 ''CONFIG_CC_OPTIMIZE_FOR_SIZE'',
         token_set_y FC 1043 ''CONFIG_DEBUG_MUTEXES'',
         token_set_y FC 1044 ''CONFIG_DEFAULT_AS'',
         token_set_y FC 1045 ''CONFIG_DETECT_SOFTLOCKUP'',
         token_set_y FC 1046 ''CONFIG_INET_DIAG'',
         token_set_y FC 1047 ''CONFIG_INET_TCP_DIAG'',
         token_set_y FC 1048 ''CONFIG_IP_FIB_HASH'',
         token_set_y FC 1049 ''CONFIG_SLAB'',
         token_set_y FC 1050 ''CONFIG_TCP_CONG_BIC'',
         token_set FC 1052 ''CONFIG_DEFAULT_IOSCHED'' ''\"anticipatory\"'' [],
         token_set FC 1053 ''CONFIG_X86_L1_CACHE_SHIFT'' ''4'' [],
         token_set FC 1054 ''CONFIG_SPLIT_PTLOCK_CPUS'' ''4'' []]],
   when_c (disj_c (on ''CONFIG_PCBOX'') (on ''CONFIG_RG_UML'')) [
       token_set FC 1060 ''LIBC_ARCH'' ''i386'' [],
       token_set_y FC 1061 ''CONFIG_M386'',
       token_set_y FC 1062 ''CONFIG_FLASH_IN_FILE'',
       token_set_y FC 1063 ''CONFIG_SYSCTL'',
       token_set_y FC 1064 ''CONFIG_HAS_MMU'',
       when_c (neg (on ''CONFIG_RG_RGLOADER'')) [token_set_y FC 1066 ''CONFIG_DYN_LINK''],
       set_big_endian FC 1067 False,
       token_set_y FC 1068 ''CONFIG_BINFMT_ELF'',
       token_set_y FC 1069 ''CONFIG_HW_CLOCK'',
       token_set_y FC 1070 ''CONFIG_PROC_FS'',
       token_set_y FC 1071 ''CONFIG_EXT2_FS'']]"

definition general_features_10 :: "stmt" where
  "general_features_10 = block [
   when_c (on ''CONFIG_PCBOX'') [
       token_set FC 1076 ''BOARD'' ''PCBOX'' [],
       token_set_y FC 1077 ''CONFIG_RG_FLASHDISK'',
       token_set FC 1078 ''ARCH'' ''i386'' [],
       token_set_y FC 1079 ''CONFIG_SERIAL'',
       token_set_y FC 1080 ''CONFIG_SERIAL_CONSOLE'',
       token_set FC 1081 ''CONFIG_IMG_PRODUCT'' ''\"elf\"'' [],
       when_c (conj_c (neg (on ''CONFIG_GLIBC'')) (neg (on ''CONFIG_VALGRIND''))) [token_set FC 1083 ''CONFIG_RAM_LIMIT'' ''16'' []],
       token_set_y FC 1084 ''CONFIG_APM'',
       token_set_y FC 1085 ''CONFIG_APM_POWER_OFF'',
       token_set_y FC 1086 ''CONFIG_KEYBOARD'',
       token_set_y FC 1087 ''CONFIG_M386'',
       token_set_y FC 1088 ''CONFIG_BLK_DEV_IDE'',
       token_set_y FC 1089 ''CONFIG_BLK_DEV_IDEDISK'',
       token_set_y FC 1090 ''CONFIG_BLK_DEV_IDEPCI'',
       token_set_y FC 1091 ''CONFIG_BLK_DEV_IDEDMA'',
       token_set_y FC 1092 ''CONFIG_BLK_DEV_VIA82CXXX'',
       token_set_y FC 1093 ''CONFIG_IDEDMA_AUTO'',
       token_set_y FC 1094 ''CONFIG_NET_ISA'',
       token_set_y FC 1095 ''CONFIG_PCI'',
       token_set_y FC 1096 ''CONFIG_PCI_BIOS'',
       token_set_y FC 1097 ''CONFIG_PCI_DIRECT'',
       token_set_y FC 1098 ''CONFIG_PCI_GOANY'',
       token_set_y FC 1099 ''CONFIG_PCI_OLD_PROC'',
       token_set_y FC 1100 ''CONFIG_PCI_QUIRKS'',
       token_set_y FC 1101 ''CONFIG_RTC'',
       token_set FC 1102 ''CONFIG_FLASH_FSTYPE'' ''\"ext2\"'' [],
       token_set FC 1103 ''CONFIG_RAMDISK_SIZE'' ''256'' [],
       token_set FC 1104 ''CONFIG_UNIX98_PTY_COUNT'' ''256'' [],
       token_set_y FC 1105 ''CONFIG_UNIX98_PTYS'',
       token_set_y FC 1106 ''CONFIG_BLK_DEV_LOOP'',
       token_set_y FC 1107 ''CONFIG_RG_KMONTE'',
       token_set_y FC 1108 ''CONFIG_SAVE_REAL_MODE_CONF'',
       token_set_y FC 1109 ''CONFIG_RG_INITFS_RAMDISK'',
       token_set FC 1110 ''CONFIG_RG_KERNEL_COMP_METHOD'' ''gzip'' [],
       token_set_m FC 1111 ''CONFIG_ZAPTEL'',
       token_set FC 1112 ''CONFIG_HW_NUMBER_OF_FXS_PORTS'' ''2'' [],
       when_c (conj_c (pure True) (os_is ''LINUX_24'')) [
         token_set_y FC 1117 ''CONFIG_BLK_DEV_IDEDMA_PCI'',
         token_set_y FC 1120 ''CONFIG_X86'',
         token_set_y FC 1121 ''CONFIG_X86_PPRO_FENCE'',
         token_set FC 1122 ''CONFIG_X86_L1_CACHE_SHIFT'' ''4'' [],
         token_set_y FC 1123 ''CONFIG_IDE'',
         token_set FC 1124 ''CONFIG_INITRD_ADDR'' ''0x400000'' [],
         token_set_y FC 1125 ''CONFIG_PM'',
         token_set_y FC 1126 ''CONFIG_MSDOS_PARTITION'',
         ifc (on ''CONFIG_RGTV'') [
           token_set FC 1129 ''CONFIG_BLK_DEV_RAM_SIZE'' ''52768'' [],
           token_set FC 1130 ''CONFIG_RAMDISK_SIZE'' ''52768'' []]
          [
           ifc (on ''CONFIG_VALGRIND'') [
             token_set FC 1134 ''CONFIG_BLK_DEV_RAM_SIZE'' ''32768'' [],
             token_set FC 1135 ''CONFIG_RAMDISK_SIZE'' ''32768'' []]
            [
             token_set FC 1139 ''CONFIG_BLK_DEV_RAM_SIZE'' ''9216'' [],
             token_set FC 1140 ''CONFIG_RAMDISK_SIZE'' ''9216'' []]],
         token_set_y FC 1142 ''CONFIG_RAMFS'',
         token_set_y FC 1143 ''CONFIG_SIMPLE_RAMDISK'',
         ifc (on ''CONFIG_RG_KGDB'') [
           token_set FC 1146 ''CONFIG_CMDLINE'' ''root=/dev/ram0 rw console=ttyS0,38400n8 gdbttyS=1 gdbbaud=115200'' []]
          [
           token_set FC 1152 ''CONFIG_CMDLINE'' ''root=/dev/ram0 rw console=ttyS0,38400n8'' []],
         token_set_y FC 1156 ''CONFIG_BLK_DEV_CS5530'']],
   when_c (neg (on ''CONFIG_RELEASE'')) [token_set_y FC 1162 ''CONFIG_DEF_KEYS'']]"

lemma ok_general_features_1 [safe_scripts]: "ok base_schema value_tokens J general_features_1"
  unfolding general_features_1_def
  by (intro safe_intros shipped.ok_sets shipped.ok_enable_module safe_scripts; simp)


lemma ok_general_features_2 [safe_scripts]: "ok base_schema value_tokens J general_features_2"
  unfolding general_features_2_def
  by (intro safe_intros shipped.ok_sets shipped.ok_enable_module safe_scripts; simp)


lemma ok_general_features_3 [safe_scripts]: "ok base_schema value_tokens J general_features_3"
  unfolding general_features_3_def
  by (intro safe_intros shipped.ok_sets shipped.ok_enable_module safe_scripts; simp)


lemma ok_general_features_4 [safe_scripts]: "ok base_schema value_tokens J general_features_4"
  unfolding general_features_4_def
  by (intro safe_intros shipped.ok_sets shipped.ok_enable_module safe_scripts; simp)


lemma ok_general_features_5 [safe_scripts]: "ok base_schema value_tokens J general_features_5"
  unfolding general_features_5_def
  by (intro safe_intros shipped.ok_sets shipped.ok_enable_module safe_scripts; simp)


lemma ok_general_features_6 [safe_scripts]: "ok base_schema value_tokens J general_features_6"
  unfolding general_features_6_def
  by (intro safe_intros shipped.ok_sets shipped.ok_enable_module safe_scripts; simp)


lemma ok_general_features_7 [safe_scripts]: "ok base_schema value_tokens J general_features_7"
  unfolding general_features_7_def
  by (intro safe_intros shipped.ok_sets shipped.ok_enable_module safe_scripts; simp)


lemma ok_general_features_8 [safe_scripts]: "ok base_schema value_tokens J general_features_8"
  unfolding general_features_8_def
  by (intro safe_intros shipped.ok_sets shipped.ok_enable_module safe_scripts; simp)


lemma ok_general_features_9 [safe_scripts]: "ok base_schema value_tokens J general_features_9"
  unfolding general_features_9_def
  by (intro safe_intros shipped.ok_sets shipped.ok_enable_module safe_scripts; simp)


lemma ok_general_features_10 [safe_scripts]: "ok base_schema value_tokens J general_features_10"
  unfolding general_features_10_def
  by (intro safe_intros shipped.ok_sets shipped.ok_enable_module safe_scripts; simp)


end
