(* ===== verification/Feature_Config_2.thy ===== *)
theory Feature_Config_2
  imports Feature_Base
begin

text \<open>
  \<open>general_features\<close> of \<open>feature_config.c\<close>, lines 1165 to 2023: consecutive pieces of its body,
  and that each piece fits the shipped option table.
\<close>

definition general_features_11 :: "stmt" where
  "general_features_11 = block [
   when_c (on ''CONFIG_MPC8272ADS'') [
       token_set_y FC 1169 ''CONFIG_PPC'',
       token_set_y FC 1173 ''CONFIG_CPM2'',
       token_set_y FC 1174 ''CONFIG_8272'',
       token_set_y FC 1175 ''CONFIG_8260'',
       token_set_y FC 1176 ''CONFIG_PQ2ADS'',
       token_set_y FC 1177 ''CONFIG_ADS8272'',
       token_set_y FC 1178 ''CONFIG_HIGHMEM'',
       token_set_m FC 1182 ''CONFIG_RG_MTD'',
       token_set_y FC 1183 ''CONFIG_RG_MTD_DEFAULT_PARTITION'',
       token_set_y FC 1184 ''CONFIG_MTD'',
       token_set_y FC 1185 ''CONFIG_MTD_CFI_I4'',
       token_set_y FC 1186 ''CONFIG_MTD_MAP_BANK_WIDTH_4'',
       token_set FC 1187 ''CONFIG_MTD_PHYSMAP_BANKWIDTH'' ''4'' [],
       token_set FC 1188 ''CONFIG_MTD_PHYSMAP_LEN'' ''0x800000'' [],
       token_set FC 1189 ''CONFIG_MTD_PHYSMAP_START'' ''0xFF800000'' [],
       token_set_y FC 1193 ''CONFIG_SERIAL_CORE'',
       token_set_y FC 1194 ''CONFIG_SERIAL_CORE_CONSOLE'',
       token_set_y FC 1195 ''CONFIG_SERIAL_CPM'',
       token_set_y FC 1196 ''CONFIG_SERIAL_CPM_SCC1'',
       token_set_y FC 1197 ''CONFIG_SERIAL_CPM_SCC4'',
       token_set_y FC 1198 ''CONFIG_SERIAL_CPM_CONSOLE'',
       token_set_y FC 1202 ''CONFIG_PCI_8260'',
       token_set_y FC 1206 ''CONFIG_RG_INITFS_RAMFS'',
       token_set_y FC 1207 ''CONFIG_RG_MAINFS_CRAMFS'',
       when_c (neg (on ''CONFIG_LSP_DIST'')) [token_set_y FC 1210 ''CONFIG_RG_MODFS_CRAMFS''],
       token_set FC 1212 ''CONFIG_SPLIT_PTLOCK_CPUS'' ''4'' [],
       token_set_y FC 1214 ''CONFIG_HZ_250'',
       token_set FC 1215 ''CONFIG_HZ'' ''250'' [],
       token_set_y FC 1216 ''CONFIG_FLATMEM'',
       token_set_y FC 1217 ''CONFIG_FLAT_NODE_MEM_MAP'',
       when_c (on ''CONFIG_LSP_DIST'') [token_set_y FC 1220 ''CONFIG_LSP_FLASH_LAYOUT'']]]"

definition general_features_12 :: "stmt" where
  "general_features_12 = block [
   when_c (on ''CONFIG_EP8248'') [
       set_big_endian FC 1229 True,
       token_set FC 1230 ''ARCH'' ''ppc'' [],
       token_set FC 1231 ''LIBC_ARCH'' ''powerpc'' [],
       token_set_y FC 1232 ''CONFIG_CPU_BIG_ENDIAN'',
       token_set_y FC 1233 ''CONFIG_HAS_MMU'',
       token_set_y FC 1234 ''CONFIG_ULIBC_SHARED'',
       token_set_y FC 1235 ''CONFIG_DYN_LINK'',
       token_set_y FC 1236 ''CONFIG_BOOTLDR_UBOOT'',
       local_c (sprintf_buf 255 ''console=%s,115200 root=/dev/ram0 rw'' [(str_arg ''CONFIG_RG_CONSOLE_DEVICE'')]) (\<lambda>cmd_line. [
         token_set_of FC 1242 ''CONFIG_CMDLINE'' (pure (Some cmd_line)),
         token_set FC 1246 ''CONFIG_TASK_SIZE'' ''0x80000000'' [],
         token_set FC 1247 ''CONFIG_KERNEL_START'' ''0xc0000000'' [],
         token_set FC 1248 ''CONFIG_LOWMEM_SIZE'' ''0x30000000'' [],
         token_set FC 1249 ''CONFIG_HIGHMEM_START'' ''0xfe000000'' [],
         token_set_y FC 1253 ''CONFIG_CPM2'',
         token_set_y FC 1254 ''CONFIG_8272'',
         token_set_y FC 1255 ''CONFIG_EP8248'',
         token_set_y FC 1256 ''CONFIG_8260'',
         token_set_y FC 1260 ''CONFIG_PPC_STD_MMU'',
         token_set_y FC 1261 ''CONFIG_6xx'',
         token_set_y FC 1265 ''CONFIG_PPC32'',
         token_set_y FC 1266 ''CONFIG_PPC'',
         token_set_y FC 1267 ''CONFIG_HAVE_DEC_LOCK'',
         token_set_y FC 1268 ''CONFIG_RWSEM_XCHGADD_ALGORITHM'',
         token_set_y FC 1269 ''CONFIG_PPC_FPU'',
         token_set_m FC 1273 ''CONFIG_RG_MTD'',
         token_set_y FC 1274 ''CONFIG_RG_MTD_DEFAULT_PARTITION'',
         token_set_y FC 1275 ''CONFIG_MTD'',
         token_set FC 1276 ''CONFIG_MTD_PHYSMAP_LEN'' ''0x800000'' [],
         token_set FC 1277 ''CONFIG_MTD_PHYSMAP_START'' ''0xFF800000'' [],
         token_set_y FC 1278 ''CONFIG_MTD_CFI_I2'',
         token_set_y FC 1279 ''CONFIG_MTD_MAP_BANK_WIDTH_4'',
         token_set_y FC 1283 ''CONFIG_SERIAL_CORE'',
         token_set_y FC 1284 ''CONFIG_SERIAL_CORE_CONSOLE'',
         token_set_y FC 1285 ''CONFIG_SERIAL_CPM'',
         token_set_y FC 1286 ''CONFIG_SERIAL_CPM_SMC1'',
         token_set_y FC 1287 ''CONFIG_SERIAL_CPM_CONSOLE'',
         token_set FC 1291 ''CONFIG_CC_ALIGN_JUMPS'' ''0'' [],
         token_set FC 1292 ''CONFIG_CC_ALIGN_LOOPS'' ''0'' [],
         token_set FC 1293 ''CONFIG_CC_ALIGN_LABELS'' ''0'' [],
         token_set FC 1294 ''CONFIG_CC_ALIGN_FUNCTIONS'' ''0'' [],
         token_set_y FC 1298 ''CONFIG_RG_INITFS_RAMFS'',
         token_set_y FC 1299 ''CONFIG_RG_MAINFS_CRAMFS'',
         when_c (neg (on ''CONFIG_LSP_DIST'')) [token_set_y FC 1302 ''CONFIG_RG_MODFS_CRAMFS''],
         when_c (on ''CONFIG_LSP_DIST'') [token_set_y FC 1307 ''CONFIG_LSP_FLASH_LAYOUT'']])]]"

definition general_features_13 :: "stmt" where
  "general_features_13 = block [
   when_c (on ''CONFIG_MPC8349_ITX'') [
       token_set_y FC 1313 ''CONFIG_PPC'',
       token_set FC 1314 ''CONFIG_BOOTLDR_UBOOT_COMP'' ''none'' [],
       token_set_y FC 1317 ''CONFIG_GENERIC_NVRAM'',
       token_set_y FC 1318 ''CONFIG_SCHED_NO_NO_OMIT_FRAME_POINTER'',
       token_set_y FC 1321 ''CONFIG_PPC_GEN550'',
       token_set_y FC 1324 ''CONFIG_MPC8349_ITX'',
       token_set_y FC 1325 ''CONFIG_83xx'',
       token_set_y FC 1326 ''CONFIG_PPC_83xx'',
       token_set_y FC 1327 ''CONFIG_MPC834x'',
       token_set_y FC 1329 ''CONFIG_HZ_250'',
       token_set FC 1330 ''CONFIG_HZ'' ''250'' [],
       token_set_y FC 1331 ''CONFIG_FLATMEM'',
       token_set_y FC 1332 ''CONFIG_FLAT_NODE_MEM_MAP'',
       token_set_y FC 1336 ''CONFIG_SECCOMP'',
       token_set_y FC 1338 ''CONFIG_ISA_DMA_API'',
       token_set_y FC 1341 ''CONFIG_MPC83xx_PCI2'',
       token_set_y FC 1345 ''CONFIG_SERIAL_CORE'',
       token_set_y FC 1346 ''CONFIG_SERIAL_CORE_CONSOLE'',
       token_set_y FC 1348 ''CONFIG_SERIAL_8250'',
       token_set_y FC 1349 ''CONFIG_SERIAL_8250_CONSOLE'',
       token_set FC 1350 ''CONFIG_SERIAL_8250_NR_UARTS'' ''4'' [],
       token_set FC 1351 ''CONFIG_SERIAL_8250_RUNTIME_UARTS'' ''4'' [],
       token_set FC 1353 ''CONFIG_SPLIT_PTLOCK_CPUS'' ''4'' [],
       token_set_y FC 1357 ''CONFIG_RG_MTD'',
       token_set_y FC 1358 ''CONFIG_RG_MTD_DEFAULT_PARTITION'',
       token_set_y FC 1359 ''CONFIG_MTD'',
       token_set FC 1360 ''CONFIG_MTD_PHYSMAP_BANKWIDTH'' ''2'' [],
       token_set FC 1361 ''CONFIG_MTD_PHYSMAP_LEN'' ''0x800000'' [],
       token_set FC 1362 ''CONFIG_MTD_PHYSMAP_START'' ''0xFE800000'' [],
       token_set_y FC 1363 ''CONFIG_MTD_CFI_I1'',
       token_set_y FC 1364 ''CONFIG_MTD_MAP_BANK_WIDTH_2'',
       token_set_y FC 1369 ''CONFIG_RG_INITFS_RAMFS'',
       token_set_y FC 1370 ''CONFIG_RG_MAINFS_CRAMFS'',
       ifc (on ''CONFIG_LSP_DIST'') [token_set_y FC 1373 ''CONFIG_LSP_FLASH_LAYOUT'']
        [token_set_y FC 1375 ''CONFIG_RG_MODFS_CRAMFS'']]]"

definition general_features_14 :: "stmt" where
  "general_features_14 = block [
   when_c (on ''CONFIG_PPC'') [
       set_big_endian FC 1390 True,
       token_set FC 1391 ''ARCH'' ''ppc'' [],
       token_set FC 1392 ''LIBC_ARCH'' ''powerpc'' [],
       token_set_y FC 1393 ''CONFIG_HAS_MMU'',
       token_set_y FC 1394 ''CONFIG_ULIBC_SHARED'',
       token_set_y FC 1395 ''CONFIG_DYN_LINK'',
       token_set_y FC 1396 ''CONFIG_BOOTLDR_UBOOT'',
       token_set FC 1400 ''CONFIG_TASK_SIZE'' ''0x80000000'' [],
       token_set FC 1401 ''CONFIG_KERNEL_START'' ''0xc0000000'' [],
       token_set FC 1402 ''CONFIG_LOWMEM_SIZE'' ''0x30000000'' [],
       token_set FC 1403 ''CONFIG_HIGHMEM_START'' ''0xfe000000'' [],
       token_set_y FC 1407 ''CONFIG_RWSEM_XCHGADD_ALGORITHM'',
       token_set_y FC 1408 ''CONFIG_PPC32'',
       token_set_y FC 1412 ''CONFIG_PPC_STD_MMU'',
       token_set_y FC 1413 ''CONFIG_6xx'',
       token_set_y FC 1414 ''CONFIG_PPC_FPU'',
       token_set_y FC 1418 ''CONFIG_PCI'',
       when_c (on ''CONFIG_RG_OS_LINUX_26'') [
         token_set_y FC 1424 ''CONFIG_OBSOLETE_INTERMODULE'',
         token_set_y FC 1428 ''CONFIG_PCI_DOMAINS'',
         token_set_y FC 1429 ''CONFIG_PPC_INDIRECT_PCI'',
         token_set FC 1433 ''CONFIG_CC_ALIGN_JUMPS'' ''0'' [],
         token_set FC 1434 ''CONFIG_CC_ALIGN_LOOPS'' ''0'' [],
         token_set FC 1435 ''CONFIG_CC_ALIGN_LABELS'' ''0'' [],
         token_set FC 1436 ''CONFIG_CC_ALIGN_FUNCTIONS'' ''0'' []],
       local_c (sprintf_buf 255 ''console=%s,115200 root=/dev/ram0 rw'' [(str_arg ''CONFIG_RG_CONSOLE_DEVICE'')]) (\<lambda>cmd_line. [
         token_set_of FC 1444 ''CONFIG_CMDLINE'' (pure (Some cmd_line))])]]"

definition general_features_15 :: "stmt" where
  "general_features_15 = block [
   when_c (on ''CONFIG_BCM947_COMMON'') [
       set_big_endian FC 1449 False,
       token_set FC 1450 ''CONFIG_BLK_DEV_RAM_SIZE'' ''8000'' [],
       token_set_y FC 1451 ''CONFIG_BLK_DEV_LOOP'',
       token_set FC 1452 ''CONFIG_CMDLINE'' ''console=ttyS0,115200 root=/dev/ram0 rw'' [],
       token_set_y FC 1454 ''CONFIG_MIPS'',
       token_set_y FC 1455 ''CONFIG_NONCOHERENT_IO'',
       token_set_y FC 1456 ''CONFIG_EXPERIMENTAL'',
       token_set_y FC 1457 ''CONFIG_MIPS_BRCM'',
       token_set_y FC 1458 ''CONFIG_BCM947XX'',
       token_set_y FC 1459 ''CONFIG_BCM947'',
       token_set_y FC 1460 ''CONFIG_HAS_MMU'',
       token_set_y FC 1461 ''CONFIG_BINFMT_ELF'',
       token_set_y FC 1462 ''CONFIG_SERIAL'',
       token_set_y FC 1463 ''CONFIG_SERIAL_CONSOLE'',
       token_set_y FC 1464 ''CONFIG_SYSCTL'',
       token_set FC 1465 ''CONFIG_UNIX98_PTY_COUNT'' ''256'' [],
       token_set_y FC 1466 ''CONFIG_UNIX98_PTYS'',
       token_set FC 1467 ''ENDIANESS_SUFFIX'' ''el30'' [],
       token_set FC 1468 ''ARCH'' ''mips'' [],
       token_set FC 1469 ''LIBC_ARCH'' ''mips'' [],
       token_set_y FC 1470 ''CONFIG_RWSEM_GENERIC_SPINLOCK'',
       token_set_y FC 1471 ''CONFIG_BCM4310'',
       token_set_y FC 1472 ''CONFIG_PCI'',
       token_set_y FC 1473 ''CONFIG_NEW_TIME_C'',
       token_set_y FC 1474 ''CONFIG_NEW_IRQ'',
       token_set_y FC 1475 ''CONFIG_CPU_MIPS32'',
       token_set_y FC 1476 ''CONFIG_CPU_HAS_PREFETCH'',
       token_set_y FC 1477 ''CONFIG_CPU_HAS_LLSC'',
       token_set_y FC 1478 ''CONFIG_CPU_HAS_SYNC'',
       token_set_y FC 1479 ''CONFIG_KCORE_ELF'',
       token_set_y FC 1480 ''CONFIG_MTD'',
       token_set_y FC 1481 ''CONFIG_MTD_CFI_ADV_OPTIONS'',
       token_set_y FC 1482 ''CONFIG_MTD_CFI_NOSWAP'',
       token_set_y FC 1483 ''CONFIG_MTD_CFI_GEOMETRY'',
       token_set_y FC 1484 ''CONFIG_MTD_CFI_B2'',
       token_set_y FC 1485 ''CONFIG_MTD_CFI_I1'',
       token_set_y FC 1486 ''CONFIG_MTD_CFI_INTELEXT'',
       token_set_y FC 1487 ''CONFIG_MTD_CFI_AMDSTD'',
       token_set_y FC 1488 ''CONFIG_MTD_BCM947XX'',
       token_set_m FC 1489 ''CONFIG_IL'',
       token_set_y FC 1490 ''CONFIG_IL_47XX'',
       token_set_m FC 1491 ''CONFIG_WL'',
       token_set_y FC 1492 ''CONFIG_WL_AP'',
       token_set_y FC 1493 ''CONFIG_NET_PCI'',
       token_set_y FC 1494 ''CONFIG_NET_RADIO'',
       token_set_m FC 1495 ''CONFIG_HERMES'',
       token_set_y FC 1496 ''CONFIG_RAMFS'',
       token_set_y FC 1497 ''CONFIG_PARTITION_ADVANCED'',
       token_set_y FC 1502 ''CONFIG_CROSSCOMPILE'',
       token_set_y FC 1503 ''CONFIG_MAGIC_SYSRQ'',
       token_set_y FC 1504 ''CONFIG_COPY_CRAMFS_TO_RAM'',
       token_set_y FC 1505 ''CONFIG_CRAMFS_FS'',
       token_set_y FC 1506 ''CONFIG_RG_MODFS'',
       token_set FC 1509 ''CONFIG_RG_KERNEL_COMP_METHOD'' ''gzip'' []]]"

definition general_features_16 :: "stmt" where
  "general_features_16 = block [
   when_c (on ''CONFIG_BCM963XX_COMMON'') [
       set_big_endian FC 1517 True,
       token_set FC 1518 ''ARCH'' ''mips'' [],
       token_set FC 1519 ''LIBC_ARCH'' ''mips'' [],
       token_set_y FC 1520 ''CONFIG_HAS_MMU'',
       token_set_y FC 1521 ''CONFIG_MIPS32'',
       when_c (on ''CONFIG_RG_OS_LINUX_26'') [
         token_set_y FC 1525 ''CONFIG_DMA_NONCOHERENT'',
         token_set_y FC 1526 ''CONFIG_TRAD_SIGNALS'',
         token_set FC 1527 ''CONFIG_MIPS_L1_CACHE_SHIFT'' ''5'' [],
         token_set_y FC 1528 ''CONFIG_PAGE_SIZE_4KB'',
         token_set FC 1529 ''CONFIG_LOG_BUF_SHIFT'' ''14'' [],
         token_set_y FC 1530 ''CONFIG_RG_TTYP'',
         token_set_y FC 1531 ''CONFIG_CC_OPTIMIZE_FOR_SIZE'',
         token_set FC 1532 ''CONFIG_SPLIT_PTLOCK_CPUS'' ''4'' [],
         token_set_y FC 1533 ''CONFIG_32BIT'',
         token_set_y FC 1534 ''CONFIG_BUILD_ELF32'',
         token_set_y FC 1535 ''CONFIG_CPU_MIPS32_R1'',
         token_set_y FC 1536 ''CONFIG_FLATMEM'',
         token_set_y FC 1537 ''CONFIG_FLAT_NODE_MEM_MAP'',
         token_set_y FC 1538 ''CONFIG_BOOT_ELF32'',
         token_set_y FC 1539 ''CONFIG_LINUX_SKB_REUSE''],
       when_c (on ''CONFIG_RG_OS_LINUX_24'') [
         token_set_y FC 1544 ''CONFIG_BINFMT_ELF'',
         token_set_y FC 1545 ''CONFIG_SYSCTL'',
         token_set FC 1546 ''CONFIG_UNIX98_PTY_COUNT'' ''256'' [],
         token_set_y FC 1547 ''CONFIG_UNIX98_PTYS'',
         token_set_y FC 1548 ''CONFIG_NONCOHERENT_IO'',
         token_set_y FC 1549 ''CONFIG_NEW_TIME_C'',
         token_set_y FC 1550 ''CONFIG_NEW_IRQ'',
         token_set_y FC 1551 ''CONFIG_SERIAL'',
         token_set_y FC 1552 ''CONFIG_SERIAL_CONSOLE'',
         token_set_y FC 1554 ''CONFIG_RG_FOOTPRINT_REDUCTION'',
         token_set_y FC 1555 ''CONFIG_RG_MODFS'',
         token_set_y FC 1556 ''CONFIG_COPY_CRAMFS_TO_RAM'',
         token_set_y FC 1557 ''CONFIG_CRAMFS_FS'',
         token_set FC 1558 ''CONFIG_BLK_DEV_RAM_SIZE'' ''8000'' [],
         when_c (neg (is_dist ''GTWX5803'')) [token_set FC 1560 ''CONFIG_RAMDISK_SIZE'' ''512'' []],
         token_set_y FC 1561 ''CONFIG_RAMFS'',
         token_set_y FC 1564 ''CONFIG_RG_FOOTPRINT_REDUCTION'',
         token_set_y FC 1565 ''CONFIG_RG_MODFS'',
         token_set_y FC 1566 ''CONFIG_COPY_CRAMFS_TO_RAM'',
         token_set_y FC 1567 ''CONFIG_CRAMFS_FS''],
       token_set_y FC 1570 ''CONFIG_EXPERIMENTAL'',
       token_set_y FC 1571 ''CONFIG_RWSEM_GENERIC_SPINLOCK'',
       token_set_y FC 1572 ''CONFIG_CPU_MIPS32'',
       token_set_y FC 1573 ''CONFIG_CPU_HAS_PREFETCH'',
       token_set_y FC 1574 ''CONFIG_CPU_HAS_LLSC'',
       token_set_y FC 1575 ''CONFIG_CPU_HAS_SYNC'',
       token_set_y FC 1576 ''CONFIG_KCORE_ELF'',
       token_set_y FC 1577 ''CONFIG_CROSSCOMPILE'',
       token_set_y FC 1578 ''CONFIG_MAGIC_SYSRQ'',
       token_set_y FC 1580 ''CONFIG_MIPS'',
       token_set_y FC 1581 ''CONFIG_MIPS_BRCM'',
       token_set_y FC 1582 ''CONFIG_BCM963XX'',
       when_c (neg (on ''CONFIG_RG_RGLOADER'')) [
         token_set_y FC 1586 ''CONFIG_DYN_LINK'',
         token_set_y FC 1588 ''CONFIG_BLK_DEV_LOOP''],
       when_c (neg (has_str ''CONFIG_SDRAM_SIZE'')) [
         token_set_of FC 1593 ''CONFIG_SDRAM_SIZE'' (token_get_str ''CONFIG_BCM963XX_SDRAM_SIZE'')],
       when_c (on ''CONFIG_RG_OS_LINUX_24'') [
         local_c (sprintf_buf 255 ''console=ttyS0,115200 root=/dev/ram0 rw %s'' [(cond_str (on ''CONFIG_RG_RGLOADER'') ''quiet'' '''')]) (\<lambda>cmd_line. [
           token_set_of FC 1603 ''CONFIG_CMDLINE'' (pure (Some cmd_line))])],
       when_c (on ''CONFIG_RG_OS_LINUX_26'') [
         token_set FC 1606 ''CONFIG_CMDLINE'' ''console=ttyS0,115200'' []],
       token_set_y FC 1610 ''CONFIG_MTD'',
       token_set_y FC 1611 ''CONFIG_MTD_CFI_AMDSTD'',
       when_c (on ''CONFIG_RG_OS_LINUX_26'') [
         token_set_y FC 1615 ''CONFIG_MTD_MAP_BANK_WIDTH_1'',
         token_set_y FC 1616 ''CONFIG_MTD_MAP_BANK_WIDTH_2'',
         token_set_y FC 1617 ''CONFIG_MTD_MAP_BANK_WIDTH_4'',
         token_set_y FC 1618 ''CONFIG_MTD_CFI_I1'',
         token_set_y FC 1619 ''CONFIG_MTD_CFI_I2'',
         token_set_y FC 1620 ''CONFIG_MTD_CFI_UTIL'',
         token_set_y FC 1621 ''CONFIG_OBSOLETE_INTERMODULE'']]]"

definition general_features_17 :: "stmt" where
  "general_features_17 = block [
   when_c (on ''CONFIG_MACH_ADI_FUSIV'') [
       token_set_y FC 1630 ''CONFIG_CPU_LX4189'',
       token_set_y FC 1634 ''CONFIG_MAGIC_SYSRQ'',
       when_c (on ''CONFIG_RG_OS_LINUX_26'') [
         token_set FC 1638 ''CONFIG_CMDLINE'' ''console=ttyS0,9600'' [],
         token_set_y FC 1640 ''CONFIG_SERIAL_8250'',
         token_set_y FC 1641 ''CONFIG_SERIAL_8250_CONSOLE'',
         token_set FC 1642 ''CONFIG_SERIAL_8250_NR_UARTS'' ''1'' [],
         token_set_y FC 1643 ''CONFIG_SERIAL_CORE'',
         token_set_y FC 1644 ''CONFIG_SERIAL_CORE_CONSOLE''],
       when_c (on ''CONFIG_RG_OS_LINUX_24'') [
         local_c (sprintf_buf 255 ''console=ttyS0,9600 root=/dev/ram0 rw %s'' [(cond_str (on ''CONFIG_RG_RGLOADER'') ''quiet'' '''')]) (\<lambda>cmd_line. [
           token_set_of FC 1651 ''CONFIG_CMDLINE'' (pure (Some cmd_line)),
           token_set_y FC 1653 ''CONFIG_SERIAL'',
           token_set_y FC 1654 ''CONFIG_SERIAL_CONSOLE''])],
       token_set_y FC 1658 ''CONFIG_MTD'',
       token_set_y FC 1659 ''CONFIG_MTD_CFI_AMDSTD'',
       when_c (on ''CONFIG_RG_OS_LINUX_26'') [
         token_set_y FC 1664 ''CONFIG_MTD_MAP_BANK_WIDTH_1'',
         token_set_y FC 1665 ''CONFIG_MTD_MAP_BANK_WIDTH_2'',
         token_set_y FC 1666 ''CONFIG_MTD_MAP_BANK_WIDTH_4'',
         token_set_y FC 1667 ''CONFIG_MTD_CFI_I1'',
         token_set_y FC 1668 ''CONFIG_MTD_CFI_I2'',
         token_set_y FC 1669 ''CONFIG_MTD_CFI_UTIL''],
       token_set_y FC 1673 ''CONFIG_PCI'',
       token_set_y FC 1674 ''CONFIG_PCI_AUTO'',
       when_c (on ''CONFIG_RG_OS_LINUX_24'') [token_set_y FC 1677 ''CONFIG_NEW_PCI'']]]"

definition general_features_18 :: "stmt" where
  "general_features_18 = block [
   when_c (on ''CONFIG_CPU_LX4189'') [
       token_set_y FC 1682 ''CONFIG_HAS_MMU'',
       token_set FC 1685 ''ARCH'' ''mips'' [],
       token_set FC 1686 ''LIBC_ARCH'' ''mips'' [],
       when_c (on ''CONFIG_RG_OS_LINUX_24'') [
         token_set_y FC 1690 ''CONFIG_BINFMT_ELF'',
         token_set_y FC 1691 ''CONFIG_SYSCTL'',
         token_set_y FC 1692 ''CONFIG_CPU_HAS_PREFETCH'',
         token_set_y FC 1693 ''CONFIG_EXPERIMENTAL'',
         token_set_y FC 1694 ''CONFIG_CPU_HAS_WB'',
         token_set_y FC 1695 ''CONFIG_KCORE_ELF'',
         token_set_y FC 1696 ''CONFIG_CROSSCOMPILE'',
         token_set_y FC 1699 ''CONFIG_RG_FOOTPRINT_REDUCTION'',
         token_set_y FC 1700 ''CONFIG_CRAMFS_FS'',
         token_set_y FC 1701 ''CONFIG_COPY_CRAMFS_TO_RAM'',
         when_c (neg (on ''CONFIG_RG_RGLOADER'')) [token_set_y FC 1706 ''CONFIG_BLK_DEV_LOOP''],
         token_set FC 1708 ''CONFIG_BLK_DEV_RAM_SIZE'' ''8000'' [],
         token_set FC 1709 ''CONFIG_RAMDISK_SIZE'' ''1024'' [],
         token_set_y FC 1710 ''CONFIG_RAMFS'',
         token_set_y FC 1712 ''CONFIG_NONCOHERENT_IO'',
         token_set_y FC 1713 ''CONFIG_NEW_TIME_C'',
         token_set_y FC 1714 ''CONFIG_NEW_IRQ''],
       when_c (on ''CONFIG_RG_OS_LINUX_26'') [
         token_set_y FC 1727 ''CONFIG_DMA_NONCOHERENT'',
         token_set_y FC 1728 ''CONFIG_HAVE_DEC_LOCK'',
         token_set_y FC 1729 ''CONFIG_TRAD_SIGNALS'',
         token_set FC 1730 ''CONFIG_MIPS_L1_CACHE_SHIFT'' ''5'' [],
         token_set_y FC 1731 ''CONFIG_PAGE_SIZE_4KB'',
         token_set FC 1732 ''CONFIG_LOG_BUF_SHIFT'' ''14'' [],
         token_set_y FC 1733 ''CONFIG_RG_TTYP''],
       token_set_y FC 1736 ''CONFIG_CPU_BIG_ENDIAN'',
       token_set FC 1737 ''TARGET_ENDIANESS'' ''BIG'' [],
       token_set_y FC 1740 ''CONFIG_MIPS_PATENTFREE'',
       token_set_y FC 1741 ''CONFIG_MIPS32'',
       token_set_y FC 1742 ''CONFIG_MIPS'',
       token_set_y FC 1743 ''CONFIG_BOOT_ELF32'',
       token_set_y FC 1744 ''CONFIG_RWSEM_GENERIC_SPINLOCK'',
       token_set_y FC 1746 ''CONFIG_CROSSCOMPILE''],
   when_c (on ''CONFIG_KS8695_COMMON'') [token_set_y FC 1760 ''CONFIG_SOFT_FLOAT''],
   when_c (on ''CONFIG_ARMNOMMU'') [
       token_set_y FC 1765 ''CONFIG_DEBUG_USER'',
       token_set FC 1766 ''ARCH'' ''armnommu'' [],
       token_set FC 1767 ''LIBC_ARCH'' ''arm'' [],
       token_set_y FC 1768 ''CONFIG_ARM'',
       token_set FC 1769 ''CONFIG_RAM_LIMIT'' ''16'' [],
       token_set_y FC 1770 ''CONFIG_CPU_32'',
       token_set_y FC 1771 ''CONFIG_NO_UNALIGNED_ACCESS'',
       token_set_y FC 1772 ''CONFIG_BINUTILS_NEW'',
       token_set_y FC 1773 ''CONFIG_SOFT_FLOAT'',
       when_c (on ''CONFIG_RG_OS_LINUX'') [
         token_set_y FC 1776 ''CONFIG_KERNEL_ELF'',
         token_set_y FC 1777 ''CONFIG_BINFMT_FLAT'',
         token_set_y FC 1778 ''CONFIG_MALLOC_CONSERVE_RAM'',
         token_set_y FC 1779 ''CONFIG_SMALL_STACK'',
         token_set_y FC 1780 ''CONFIG_TEXT_SECTIONS'',
         token_set_y FC 1781 ''CONFIG_NO_FRAME_POINTER'',
         when_c (neg (on ''CONFIG_LSP_DIST'')) [token_set_y FC 1783 ''CONFIG_EXTRA_ALLOC'']],
       token_set FC 1785 ''CONFIG_RG_KERNEL_COMP_METHOD'' ''gzip'' []]]"

definition general_features_19 :: "stmt" where
  "general_features_19 = block [
   when_c (on ''CONFIG_CX821XX_COMMON'') [
       set_big_endian FC 1790 False,
       token_set_y FC 1791 ''CONFIG_CONEXANT_COMMON'',
       token_set FC 1792 ''CONFIG_ARCH_MACHINE'' ''cx821xx'' [],
       token_set FC 1793 ''CONFIG_NOMMU_PAGECACHE_THRESHOLD'' ''200'' [],
       token_set FC 1794 ''CONFIG_FLASH_POS'' ''0x00400000'' [],
       token_set_y FC 1795 ''CONFIG_SMALL_FLASH'',
       token_set_y FC 1796 ''CONFIG_RG_FLASH_LINEAR'',
       token_set_y FC 1797 ''CONFIG_RG_RMT_UPD_LOW_MEM'',
       token_set_y FC 1798 ''CONFIG_BLK_DEV_LOOP'',
       token_set FC 1799 ''CONFIG_EXP_BUS_SHL'' ''0'' [],
       token_set FC 1800 ''CONFIG_BOOT_RAM_POS'' ''0xf00000'' [],
       token_set FC 1801 ''CONFIG_BOOT_SP_POS'' ''0xf00000'' [],
       token_set FC 1802 ''CONFIG_SDRAM_BASE'' ''0x800000'' [],
       token_set FC 1803 ''CONFIG_SDRAM_SIZE'' ''0x800000'' [],
       token_set FC 1804 ''CONFIG_PHYS_SDRAM_SIZE'' ''0x800000'' [],
       token_set FC 1805 ''CONFIG_BOOT_FREE_MEM_START'' ''0xc00000'' [],
       token_set FC 1806 ''CONFIG_BOOT_FREE_MEM_END'' ''0xd00000'' [],
       token_set FC 1807 ''CONFIG_RAM_LIMIT'' ''8'' [],
       token_set_y FC 1809 ''MAGIC_ROM_PTR'',
       token_set_y FC 1810 ''CONFIG_ARCH_CNXT'',
       token_set_y FC 1811 ''CONFIG_ARCH_CX821XX'',
       token_set_y FC 1812 ''CONFIG_CPU_ARM940T'',
       token_set_y FC 1813 ''CONFIG_SERIAL_CNXT'',
       token_set_y FC 1814 ''CONFIG_CPU_ARM940_CPU_IDLE'',
       token_set_y FC 1815 ''CONFIG_CPU_ARM940_I_CACHE_ON'',
       token_set_y FC 1816 ''CONFIG_CPU_ARM940_D_CACHE_ON'',
       token_set_y FC 1817 ''CONFIG_CPU_ARM940_WRITETHROUGH'',
       token_set_y FC 1818 ''CONFIG_NO_PGT_CACHE'',
       token_set FC 1819 ''CONFIG_RAMDISK_SIZE'' ''256'' [],
       token_set FC 1820 ''CONFIG_CRAMFS_RAM_ADDR'' ''0xf00000'' [],
       token_set_y FC 1821 ''CONFIG_CRAMFS_FS'',
       token_set_y FC 1822 ''CONFIG_CRAMFS_LINEAR'',
       when_c (on ''CONFIG_KNCX821XX_PCB'') [token_set_y FC 1824 ''CONFIG_CX821XX_MXIC_FLASH'']],
   when_c (on ''CONFIG_KS8695_COMMON'') [
       token_set FC 1831 ''ARCH'' ''arm'' [],
       token_set FC 1832 ''LIBC_ARCH'' ''arm'' [],
       token_set_y FC 1833 ''CONFIG_HAS_MMU'',
       token_set_y FC 1834 ''CONFIG_ARM'',
       token_set_y FC 1835 ''CONFIG_CPU_32'',
       token_set_y FC 1836 ''CONFIG_RWSEM_GENERIC_SPINLOCK'',
       token_set_y FC 1837 ''CONFIG_CPU_LITTLE_ENDIAN'',
       token_set FC 1838 ''TARGET_ENDIANESS'' ''LITTLE'' [],
       token_set_y FC 1839 ''CONFIG_EXPERIMENTAL'',
       token_set_y FC 1840 ''CONFIG_CPU_32v4'',
       token_set_y FC 1841 ''CONFIG_RAMFS'',
       token_set FC 1842 ''CONFIG_BLK_DEV_RAM_SIZE'' ''16384'' [],
       token_set_y FC 1843 ''CONFIG_ARCH_KS8695'',
       token_set_y FC 1844 ''CONFIG_CPU_ARM922T'',
       token_set_y FC 1845 ''CONFIG_CPU_ARM922_CPU_IDLE'',
       token_set_y FC 1846 ''CONFIG_CPU_ARM922_I_CACHE_ON'',
       token_set_y FC 1847 ''CONFIG_CPU_ARM922_D_CACHE_ON'',
       token_set_y FC 1849 ''CONFIG_NO_FRAME_POINTER'',
       token_set_y FC 1850 ''CONFIG_FPE_FASTFPE'',
       token_set_y FC 1851 ''CONFIG_KCORE_ELF'',
       token_set_y FC 1852 ''CONFIG_BINFMT_ELF'',
       token_set_y FC 1853 ''CONFIG_SYSCTL'',
       when_c (neg (on ''CONFIG_RG_RGLOADER'')) [token_set_y FC 1856 ''CONFIG_DYN_LINK''],
       token_set_y FC 1858 ''CONFIG_RG_FOOTPRINT_REDUCTION'',
       token_set_y FC 1859 ''CONFIG_COPY_CRAMFS_TO_RAM'',
       token_set_y FC 1860 ''CONFIG_CRAMFS_FS'',
       token_set_y FC 1861 ''CONFIG_RG_MODFS'',
       token_set_y FC 1863 ''CONFIG_PCI'',
       token_set_y FC 1865 ''CONFIG_PCI_KS8695P'',
       token_set_y FC 1866 ''CONFIG_ARCH_KS8695P'',
       token_set FC 1867 ''CONFIG_RG_CONSOLE_DEVICE'' ''ttyAM0'' [],
       local_c (sprintf_buf 255 ''console=%s,38400 root=/dev/ram0 rw%s'' [(str_arg ''CONFIG_RG_CONSOLE_DEVICE''), (cond_str (on ''CONFIG_RG_KGDB'') '' nohalt'' '''')]) (\<lambda>cmd_line. [
         token_set_of FC 1873 ''CONFIG_CMDLINE'' (pure (Some cmd_line)),
         token_set_y FC 1875 ''CONFIG_SERIAL_CORE'',
         token_set_y FC 1876 ''CONFIG_SERIAL_CORE_CONSOLE'',
         token_set_y FC 1879 ''CONFIG_SERIAL_KS8695'',
         token_set_y FC 1880 ''CONFIG_SERIAL_KS8695_CONSOLE'',
         when_c (neg (on ''CONFIG_LSP_DIST'')) [token_set_m FC 1883 ''CONFIG_RG_KRGLDR''],
         token_set_y FC 1887 ''CONFIG_MTD'',
         token_set_y FC 1888 ''CONFIG_MTD_CFI_AMDSTD'',
         token_set_y FC 1890 ''CONFIG_MTD_PHYSMAP'',
         token_set FC 1891 ''CONFIG_MTD_PHYSMAP_START'' ''0x2800000'' [],
         token_set FC 1892 ''CONFIG_MTD_PHYSMAP_LEN'' ''0x400000'' [],
         token_set FC 1893 ''CONFIG_MTD_PHYSMAP_BUSWIDTH'' ''1'' [],
         token_set_y FC 1896 ''CONFIG_ALIGNMENT_TRAP'',
         token_set FC 1897 ''CONFIG_ALIGNMENT_TRAP_MODE'' ''2'' [],
         token_set_y FC 1898 ''CONFIG_DEBUG_USER''])],
   when_c (on ''CONFIG_TI_404_COMMON'') [
       token_set FC 1903 ''ARCH'' ''mips'' [],
       token_set FC 1904 ''LIBC_ARCH'' ''mips'' []]]"

definition general_features_20 :: "stmt" where
  "general_features_20 = block [
   when_c (disj_c (on ''CONFIG_RG_RMT_MNG'') (conj_c (on ''CONFIG_RG_DSLHOME'') (neg (on ''CONFIG_RG_JNET_SERVER'')))) [token_set_y FC 1910 ''CONFIG_RG_SSI''],
   when_c (on ''CONFIG_RG_OSS_RMT'') [
       token_set_y FC 1915 ''CONFIG_RG_WAN_UPGRADE'',
       token_set_y FC 1916 ''CONFIG_RG_SSI''],
   when_c (on ''CONFIG_RG_PPPOS_CLI'') [token_set_y FC 1920 ''CONFIG_RG_PPPOS''],
   when_c (on ''CONFIG_RG_PPPOS'') [token_set_y FC 1923 ''CONFIG_RG_SERIAL''],
   when_c (on ''CONFIG_RG_SSI_PAGES'') [token_set_y FC 1926 ''CONFIG_RG_SSI''],
   when_c (disj_c (on ''CONFIG_RG_SURFCONTROL'') (on ''CONFIG_RG_URL_KEYWORD_FILTER'')) [token_set_y FC 1931 ''CONFIG_RG_HTTP_PROXY''],
   when_c (on ''CONFIG_RG_TFTP_UPGRADE'') [
       token_set_y FC 1936 ''CONFIG_RG_TFTP_SERVER'',
       token_set_y FC 1937 ''CONFIG_RG_RMT_UPDATE''],
   when_c (on ''OPENRG_DEBUG'') [
       token_set_y FC 1942 ''CONFIG_NFS_FS'',
       when_c (neg (on ''CONFIG_VALGRIND'')) [token_set_y FC 1944 ''OPENRG_DEBUG_EXEC_SH''],
       token_set_y FC 1945 ''OPENRG_DEBUG_MODULES'',
       token_set_y FC 1946 ''CONFIG_RG_NO_OPT''],
   when_c (on ''CONFIG_NFS_FS'') [
       token_set_y FC 1954 ''CONFIG_LOCKD'',
       token_set_y FC 1955 ''CONFIG_SUNRPC''],
   when_c (on ''CONFIG_RG_PERM_STORAGE'') [token_set_y FC 1959 ''CONFIG_GEN_RG_DEFAULT''],
   when_c (on ''CONFIG_FREEPAGES_THRESHOLD'') [
       token_set FC 1968 ''CONFIG_FREEPAGES_MIN'' ''32'' [],
       token_set FC 1969 ''CONFIG_FREEPAGES_LOW'' ''256'' [],
       token_set FC 1970 ''CONFIG_FREEPAGES_HIGH'' ''384'' []],
   when_c (disj_c (on ''CONFIG_RG_VOATM_ELCP'') (on ''CONFIG_RG_VOATM_CAS'')) [token_set_y FC 1974 ''CONFIG_RG_VOATM''],
   when_c (on ''CONFIG_RG_VOATM'') [token_set_y FC 1977 ''CONFIG_RG_TELEPHONY''],
   when_c (on ''CONFIG_FREESWAN'') [
       token_set_y FC 1981 ''CONFIG_GMP'',
       token_set_y FC 1982 ''CONFIG_IPSEC'',
       token_set_y FC 1983 ''CONFIG_IPSEC_DRIVER'',
       token_set_y FC 1984 ''CONFIG_IPSEC_IPIP'',
       token_set_y FC 1985 ''CONFIG_IPSEC_AH'',
       token_set_y FC 1986 ''CONFIG_IPSEC_AUTH_HMAC_MD5'',
       token_set_y FC 1987 ''CONFIG_IPSEC_AUTH_HMAC_SHA1'',
       token_set_y FC 1988 ''CONFIG_IPSEC_ESP'',
       token_set_y FC 1989 ''CONFIG_IPSEC_ENC_1DES'',
       token_set_y FC 1990 ''CONFIG_IPSEC_ENC_3DES'',
       token_set_y FC 1991 ''CONFIG_IPSEC_ENC_NULL'',
       token_set_y FC 1992 ''CONFIG_IPSEC_IPCOMP'',
       token_set_y FC 1993 ''CONFIG_IPSEC_NAT_TRAVERSAL'',
       token_set_y FC 1994 ''CONFIG_VPN'',
       token_set_y FC 1995 ''CONFIG_IPSEC_DEBUG'',
       token_set_y FC 1996 ''CONFIG_PLUTO_DEBUG'',
       token_set_y FC 1997 ''CONFIG_RG_FREESWAN'',
       token_set_m FC 2001 ''CONFIG_RG_NETBIOS_RT'',
       token_set_y FC 2002 ''CONFIG_RG_IPSEC_NO_SECRET_FILE'',
       when_c (disj_c (os_is ''LINUX_24'') (os_is ''LINUX_26'')) [token_set_y FC 2004 ''CONFIG_RG_IPSEC_IKE_ALG''],
       when_c (conj_c (disj_c (os_is ''LINUX_24'') (os_is ''LINUX_26'')) (neg (on ''CONFIG_IPSEC_USE_IXP4XX_CRYPTO''))) [
         token_set_y FC 2008 ''CONFIG_RG_IPSEC_ESP_ALG'',
         token_set_y FC 2009 ''CONFIG_IPSEC_ALG'',
         when_c (on ''CONFIG_IPSEC_ENC_1DES'') [token_set_m FC 2011 ''CONFIG_IPSEC_ALG_1DES''],
         when_c (on ''CONFIG_IPSEC_ENC_3DES'') [token_set_m FC 2013 ''CONFIG_IPSEC_ALG_3DES''],
         when_c (on ''CONFIG_IPSEC_ENC_NULL'') [token_set_m FC 2015 ''CONFIG_IPSEC_ALG_NULL''],
         token_set_y FC 2016 ''CONFIG_IPSEC_ENC_AES'',
         token_set_m FC 2017 ''CONFIG_IPSEC_ALG_AES'',
         when_c (on ''CONFIG_IPSEC_AUTH_HMAC_MD5'') [token_set_m FC 2019 ''CONFIG_IPSEC_ALG_MD5''],
         when_c (on ''CONFIG_IPSEC_AUTH_HMAC_SHA1'') [token_set_m FC 2021 ''CONFIG_IPSEC_ALG_SHA1'']]]]"

lemma ok_general_features_11 [safe_scripts]: "ok base_schema value_tokens J general_features_11"
  unfolding general_features_11_def
  by (intro safe_intros shipped.ok_sets shipped.ok_enable_module safe_scripts; simp)


lemma ok_general_features_12 [safe_scripts]: "ok base_schema value_tokens J general_features_12"
  unfolding general_features_12_def
  by (intro safe_intros shipped.ok_sets shipped.ok_enable_module safe_scripts; simp)


lemma ok_general_features_13 [safe_scripts]: "ok base_schema value_tokens J general_features_13"
  unfolding general_features_13_def
  by (intro safe_intros shipped.ok_sets shipped.ok_enable_module safe_scripts; simp)


lemma ok_general_features_14 [safe_scripts]: "ok base_schema value_tokens J general_features_14"
  unfolding general_features_14_def
  by (intro safe_intros shipped.ok_sets shipped.ok_enable_module safe_scripts; simp)


lemma ok_general_features_15 [safe_scripts]: "ok base_schema value_tokens J general_features_15"
  unfolding general_features_15_def
  by (intro safe_intros shipped.ok_sets shipped.ok_enable_module safe_scripts; simp)


lemma ok_general_features_16 [safe_scripts]: "ok base_schema value_tokens J general_features_16"
  unfolding general_features_16_def
  by (intro safe_intros shipped.ok_sets shipped.ok_enable_module safe_scripts; simp)


lemma ok_general_features_17 [safe_scripts]: "ok base_schema value_tokens J general_features_17"
  unfolding general_features_17_def
  by (intro safe_intros shipped.ok_sets shipped.ok_enable_module safe_scripts; simp)


lemma ok_general_features_18 [safe_scripts]: "ok base_schema value_tokens J general_features_18"
  unfolding general_features_18_def
  by (intro safe_intros shipped.ok_sets shipped.ok_enable_module safe_scripts; simp)


lemma ok_general_features_19 [safe_scripts]: "ok base_schema value_tokens J general_features_19"
  unfolding general_features_19_def
  by (intro safe_intros shipped.ok_sets shipped.ok_enable_module safe_scripts; simp)


lemma ok_general_features_20 [safe_scripts]: "ok base_schema value_tokens J general_features_20"
  unfolding general_features_20_def
  by (intro safe_intros shipped.ok_sets shipped.ok_enable_module safe_scripts; simp)


end
