(* ===== verification/Feature_Config_3.thy ===== *)
theory Feature_Config_3
  imports Feature_Base
begin

text \<open>
  \<open>general_features\<close> of \<open>feature_config.c\<close>, lines 2025 to 2934: consecutive pieces of its body,
  and that each piece fits the shipped option table.
\<close>

definition general_features_21 :: "stmt" where
  "general_features_21 = block [
   when_c (on ''CONFIG_RG_PPTPS'') [
       token_set_y FC 2027 ''CONFIG_RG_PPTP'',
       token_set_y FC 2028 ''CONFIG_LIBDES'',
       token_set_y FC 2029 ''CONFIG_VPN''],
   when_c (on ''CONFIG_RG_PPTPC'') [
       token_set_y FC 2034 ''CONFIG_RG_PPTP'',
       token_set_y FC 2035 ''CONFIG_LIBDES'',
       token_set_y FC 2036 ''CONFIG_VPN''],
   when_c (on ''CONFIG_SL2312_COMMON_RG'') [
       token_set_y FC 2041 ''CONFIG_SL2312_COMMON'',
       token_set FC 2042 ''CONFIG_RAMDISK_SIZE'' ''512'' [],
       token_set_y FC 2044 ''CONFIG_BLK_DEV_IDE'',
       token_set_y FC 2045 ''CONFIG_BLK_DEV_SL2312_IDE'',
       token_set_y FC 2046 ''CONFIG_BLK_DEV_IDEPCI'',
       token_set_y FC 2047 ''CONFIG_BLK_DEV_IDEDMA'',
       token_set_y FC 2048 ''CONFIG_BLK_DEV_IDEDMA_PCI'',
       token_set_y FC 2049 ''CONFIG_BLK_DEV_SL2312_IDE_CHANNEL_1'',
       token_set_y FC 2050 ''CONFIG_BLK_DEV_IDEDISK'',
       token_set_y FC 2051 ''CONFIG_BLK_DEV_IDECD'',
       token_set_y FC 2052 ''CONFIG_BLK_DEV_IDE_MODES'',
       token_set_y FC 2053 ''CONFIG_IDE'',
       token_set_y FC 2055 ''CONFIG_PCI'',
       token_set_y FC 2056 ''CONFIG_PCI_NAMES'',
       token_set_y FC 2057 ''CONFIG_NET_PCI'',
       token_set_y FC 2058 ''CONFIG_PCI_RESET''],
   when_c (on ''CONFIG_RG_HSS'') [token_set_y FC 2062 ''CONFIG_IXP425_CSR_HSS''],
   when_c (on ''CONFIG_IXP425_COMMON_RGLOADER'') [
       token_set FC 2067 ''CONFIG_SDRAM_SIZE'' ''16'' [],
       token_set_y FC 2069 ''CONFIG_RG_NETWORK_BOOT'',
       token_set_y FC 2070 ''CONFIG_IXP425_COMMON'',
       token_set FC 2071 ''CONFIG_FORCE_MAX_ZONEORDER'' ''12'' [],
       token_set_y FC 2072 ''CONFIG_CRAMFS_FS'',
       token_set_y FC 2073 ''CONFIG_COPY_CRAMFS_TO_RAM'',
       token_set_y FC 2074 ''CONFIG_PCI_RESET'']]"

definition general_features_22 :: "stmt" where
  "general_features_22 = block [
   when_c (on ''CONFIG_SIBYTE_SB1250'') [
       token_set FC 2081 ''ARCH'' ''mips'' [],
       token_set_y FC 2082 ''CONFIG_MIPS'',
       token_set_y FC 2083 ''CONFIG_EXPERIMENTAL'',
       token_set_y FC 2084 ''CONFIG_MODULES'',
       token_set_y FC 2085 ''CONFIG_RWSEM_GENERIC_SPINLOCK'',
       token_set_y FC 2086 ''CONFIG_NEW_TIME_C'',
       token_set_y FC 2087 ''CONFIG_BOOT_ELF32'',
       token_set_y FC 2089 ''CONFIG_SMP'',
       token_set FC 2090 ''CONFIG_NR_CPUS'' ''2'' [],
       token_set_y FC 2091 ''CONFIG_CPU_SB1'',
       token_set_y FC 2092 ''CONFIG_CPU_SB1_PASS_1'',
       token_set_y FC 2093 ''CONFIG_CPU_HAS_PREFETCH'',
       token_set_y FC 2094 ''CONFIG_CPU_HAS_LLSC'',
       token_set_y FC 2095 ''CONFIG_CPU_HAS_SYNC'',
       token_set_y FC 2100 ''CONFIG_SIBYTE_SB1xxx_SOC'',
       token_set_y FC 2101 ''CONFIG_SIBYTE_CFE'',
       token_set_y FC 2102 ''CONFIG_NET_SB1250_MAC'',
       token_set_y FC 2103 ''CONFIG_SERIAL_NONSTANDARD'',
       token_set_y FC 2104 ''CONFIG_SIBYTE_SB1250_DUART'',
       token_set_y FC 2105 ''CONFIG_SIBYTE_SB1250_DUART_CONSOLE'',
       token_set_y FC 2106 ''CONFIG_TRAD_SIGNALS'',
       token_set_y FC 2107 ''CONFIG_PCI'',
       token_set_y FC 2108 ''CONFIG_NO_ISA'',
       token_set_y FC 2109 ''CONFIG_SWAP_IO_SPACE'',
       token_set FC 2110 ''CONFIG_MIPS_L1_CACHE_SHIFT'' ''5'' [],
       token_set_y FC 2111 ''CONFIG_PAGE_SIZE_4KB'',
       token_set FC 2112 ''CONFIG_SPLIT_PTLOCK_CPUS'' ''4'' [],
       token_set_y FC 2113 ''CONFIG_DMA_COHERENT'',
       token_set_y FC 2114 ''CONFIG_FLATMEM'',
       token_set_y FC 2115 ''CONFIG_FLAT_NODE_MEM_MAP'',
       token_set_y FC 2116 ''CONFIG_OBSOLETE_INTERMODULE'',
       token_set_y FC 2122 ''CONFIG_32BIT'',
       token_set_y FC 2123 ''CONFIG_BUILD_ELF32'',
       token_set_y FC 2126 ''CONFIG_CROSSCOMPILE'',
       token_set_y FC 2127 ''CONFIG_SYSVIPC'',
       token_set_y FC 2128 ''CONFIG_SYSCTL'',
       token_set_y FC 2129 ''CONFIG_KCORE_ELF'',
       token_set_y FC 2130 ''CONFIG_BINFMT_ELF'',
       token_set_y FC 2131 ''CONFIG_UNIX98_PTYS'',
       token_set FC 2132 ''CONFIG_UNIX98_PTY_COUNT'' ''256'' [],
       token_set_y FC 2133 ''CONFIG_NET'',
       token_set_y FC 2134 ''CONFIG_PACKET'',
       token_set_y FC 2135 ''CONFIG_PACKET_MMAP'',
       token_set_y FC 2137 ''CONFIG_UNIX'',
       token_set_y FC 2138 ''CONFIG_INET'',
       token_set_y FC 2139 ''CONFIG_NETDEVICES'',
       token_set_y FC 2140 ''CONFIG_NET_ETHERNET'',
       token_set FC 2143 ''CONFIG_CMDLINE'' ''console=ttyS0,115200'' [],
       set_big_endian FC 2146 True,
       token_set FC 2147 ''LIBC_ARCH'' ''mips'' [],
       token_set_y FC 2148 ''CONFIG_HAS_MMU''],
   when_c (on ''CONFIG_IXP425_COMMON_RG'') [
       token_set_y FC 2153 ''CONFIG_IXP425_COMMON'',
       token_set FC 2154 ''CONFIG_FORCE_MAX_ZONEORDER'' ''12'' [],
       when_c (neg (on ''CONFIG_SIMPLE_RAMDISK'')) [
         token_set_y FC 2159 ''CONFIG_CRAMFS_FS'',
         token_set_y FC 2160 ''CONFIG_COPY_CRAMFS_TO_RAM'',
         token_set FC 2161 ''CONFIG_RAMDISK_SIZE'' ''512'' []]],
   when_c (on ''CONFIG_IXP425_COMMON_LSP'') [
       token_set_y FC 2167 ''CONFIG_IXP425_COMMON'',
       token_set_y FC 2168 ''CONFIG_IXP425_CSR_FULL'',
       token_set FC 2169 ''CONFIG_FORCE_MAX_ZONEORDER'' ''13'' [],
       ifc (on ''CONFIG_SIMPLE_RAMDISK'') [token_set FC 2172 ''CONFIG_RAMDISK_SIZE'' ''8192'' []]
        [
         token_set_y FC 2176 ''CONFIG_RG_BOOTLDR_REDBOOT'',
         token_set_y FC 2177 ''CONFIG_MTD_REDBOOT_PARTS'',
         token_set_y FC 2178 ''CONFIG_CRAMFS_FS''],
       token_set_m FC 2180 ''CONFIG_JFFS2_FS'']]"

definition general_features_23 :: "stmt" where
  "general_features_23 = block [
   when_c (on ''CONFIG_IXP425_DSR'') [
       token_set_y FC 2189 ''CONFIG_IXP425_CSR_HSS'',
       token_set_y FC 2190 ''CONFIG_DIVDI3'',
       when_c (on ''CONFIG_IXP425_DSR_DEMO'') [
         token_set_y FC 2194 ''CONFIG_IXP425_CODELETS'',
         token_set_y FC 2195 ''CONFIG_IXP425_CODELET_DSP_ENG'']],
   when_c (on ''CONFIG_SL2312_COMMON'') [
       token_set_m FC 2203 ''CONFIG_RG_KRGLDR'',
       set_big_endian FC 2205 False,
       token_set FC 2206 ''ARCH'' ''arm'' [],
       token_set FC 2207 ''LIBC_ARCH'' ''arm'' [],
       token_set_y FC 2208 ''CONFIG_HAS_MMU'',
       token_set_y FC 2209 ''CONFIG_ARM'',
       token_set FC 2210 ''CONFIG_ALIGNMENT_TRAP_MODE'' ''2'' [],
       token_set_y FC 2211 ''CONFIG_UID16'',
       token_set_y FC 2212 ''CONFIG_CPU_32'',
       token_set_y FC 2213 ''CONFIG_RWSEM_GENERIC_SPINLOCK'',
       token_set_y FC 2214 ''CONFIG_EXPERIMENTAL'',
       token_set_y FC 2215 ''CONFIG_CPU_32v4'',
       token_set_y FC 2216 ''CONFIG_BLK_DEV_LOOP'',
       token_set_y FC 2217 ''CONFIG_RAMFS'',
       token_set_y FC 2219 ''CONFIG_FPE_NWFPE'',
       token_set_y FC 2221 ''CONFIG_KCORE_ELF'',
       token_set_y FC 2223 ''CONFIG_BINFMT_AOUT'',
       token_set_y FC 2225 ''CONFIG_ALIGNMENT_TRAP'',
       token_set_y FC 2227 ''CONFIG_DEBUG_USER'',
       when_c (neg (on ''CONFIG_RG_RGLOADER'')) [token_set_y FC 2230 ''CONFIG_RG_NETTOOLS_ARP''],
       local_c (sprintf_buf 255 ''%sconsole=%s,115200 root=/dev/ram0 rw %s'' [(cond_str (on ''CONFIG_SL2312_COMMON_RGLOADER'') ''quiet '' ''''), (str_arg ''CONFIG_RG_CONSOLE_DEVICE''), (cond_str (on ''CONFIG_RG_KGDB'') ''nohalt'' '''')]) (\<lambda>cmd_line. [
         token_set_of FC 2237 ''CONFIG_CMDLINE'' (pure (Some cmd_line)),
         token_set FC 2238 ''CONFIG_ARCH_MACHINE'' ''sl2312'' [],
         token_set_y FC 2239 ''CONFIG_SERIAL_CONSOLE'',
         token_set_y FC 2240 ''CONFIG_SERIAL_CORE'',
         token_set_y FC 2241 ''CONFIG_SERIAL_CORE_CONSOLE'',
         token_set_y FC 2243 ''CONFIG_MTD'',
         token_set_y FC 2245 ''CONFIG_SL2312_SHARE_PIN'',
         token_set_y FC 2247 ''CONFIG_BINFMT_ELF'',
         token_set_y FC 2248 ''CONFIG_DEVPTS_FS'',
         token_set_y FC 2249 ''CONFIG_SYSCTL'',
         token_set_y FC 2250 ''CONFIG_UNIX98_PTYS'',
         token_set FC 2251 ''CONFIG_UNIX98_PTY_COUNT'' ''256'' [],
         token_set FC 2252 ''CONFIG_BLK_DEV_RAM_SIZE'' ''16384'' [],
         when_c (on ''CONFIG_RG_DEV'') [token_set_y FC 2257 ''CONFIG_FRAME_POINTER''],
         token_set_y FC 2259 ''CONFIG_SL2312_LPC'',
         token_set_y FC 2260 ''CONFIG_SL2312_LPC_IT8712'',
         token_set_y FC 2261 ''CONFIG_CPU_FA52X'',
         token_set_y FC 2262 ''CONFIG_CPU_FA52X_I_CACHE_ON'',
         token_set_y FC 2263 ''CONFIG_CPU_FA52X_D_CACHE_ON'',
         token_set_y FC 2264 ''CONFIG_IT8712_GPIO'',
         token_set_y FC 2265 ''CONFIG_SERIAL_IT8712'',
         token_set_y FC 2266 ''CONFIG_SERIAL_IT8712_CONSOLE'',
         token_set FC 2267 ''CONFIG_KERNEL_START'' ''0xc0000000'' [],
         token_set_y FC 2268 ''CONFIG_IDEDMA_AUTO'',
         token_set_y FC 2269 ''CONFIG_CRAMFS_FS'',
         token_set_y FC 2270 ''CONFIG_COPY_CRAMFS_TO_RAM'',
         token_set_y FC 2271 ''CONFIG_RG_FOOTPRINT_REDUCTION'',
         token_set_y FC 2272 ''CONFIG_RG_FACTORY_SETTINGS''])],
   when_c (on ''CONFIG_IXP425_CSR_FULL'') [
       token_set_y FC 2277 ''CONFIG_IXP425_CSR_USB'',
       token_set_y FC 2278 ''CONFIG_IXP425_CSR_UART'',
       token_set_y FC 2279 ''CONFIG_IXP425_CSR_ATM'',
       token_set_y FC 2280 ''CONFIG_IXP425_CSR_HSS'',
       token_set_y FC 2281 ''CONFIG_IXP425_CSR_CRYPTO_ACC'',
       token_set_y FC 2282 ''CONFIG_IXP425_CSR_PERF_PROF_ACC'',
       token_set_m FC 2283 ''CONFIG_IXP425_CODELETS'',
       token_set_m FC 2284 ''CONFIG_IXP425_CODELET_ETH'',
       token_set_m FC 2285 ''CONFIG_IXP425_CODELET_USB'',
       token_set_m FC 2286 ''CONFIG_IXP425_CODELET_ATM'',
       token_set_m FC 2287 ''CONFIG_IXP425_CODELET_HSS'',
       token_set_m FC 2288 ''CONFIG_IXP425_CODELET_DMA'',
       token_set_m FC 2289 ''CONFIG_IXP425_CODELET_CRYPTO'',
       token_set_m FC 2290 ''CONFIG_IXP425_CODELET_TIMERS'',
       token_set_m FC 2291 ''CONFIG_IXP425_CODELET_PERF_PROF'']]"

definition general_features_24 :: "stmt" where
  "general_features_24 = block [
   when_c (on ''CONFIG_IXP425_COMMON'') [
       set_big_endian FC 2298 True,
       token_set FC 2299 ''ARCH'' ''arm'' [],
       token_set FC 2300 ''LIBC_ARCH'' ''arm'' [],
       token_set_y FC 2301 ''CONFIG_HAS_MMU'',
       token_set_y FC 2302 ''CONFIG_ARM'',
       token_set_y FC 2303 ''CONFIG_STRONGARM'',
       token_set_y FC 2304 ''CONFIG_NO_UNALIGNED_ACCESS'',
       token_set FC 2305 ''CONFIG_ALIGNMENT_TRAP_MODE'' ''2'' [],
       token_set_y FC 2306 ''CONFIG_CPU_32'',
       token_set_y FC 2307 ''CONFIG_RWSEM_GENERIC_SPINLOCK'',
       token_set_y FC 2308 ''CONFIG_EXPERIMENTAL'',
       token_set_y FC 2309 ''CONFIG_CPU_32v4'',
       token_set_y FC 2310 ''CONFIG_CPU_XSCALE'',
       token_set_y FC 2311 ''CONFIG_RAMFS'',
       token_set_y FC 2312 ''CONFIG_RG_MODFS'',
       token_set_y FC 2314 ''CONFIG_ARM_THUMB'',
       token_set FC 2315 ''CONFIG_ZBOOT_ROM_TEXT'' ''0'' [],
       token_set FC 2316 ''CONFIG_ZBOOT_ROM_BSS'' ''0'' [],
       token_set_y FC 2318 ''CONFIG_KCORE_ELF'',
       token_set_y FC 2320 ''CONFIG_ALIGNMENT_TRAP'',
       token_set_y FC 2322 ''CONFIG_DEBUG_USER'',
       token_set_y FC 2323 ''CONFIG_IXP425_OS_TIMER1'',
       when_c (neg (on ''CONFIG_RG_RGLOADER'')) [token_set_y FC 2325 ''CONFIG_DYN_LINK''],
       when_c (disj_c (disj_c (neg (is_dist ''BRUCE'')) (neg (on ''CONFIG_RG_RGLOADER''))) (on ''CONFIG_RG_JPKG'')) [token_set_y FC 2331 ''CONFIG_PCI''],
       when_c (disj_c (neg (on ''CONFIG_RG_RGLOADER'')) (on ''CONFIG_RG_JPKG'')) [
         token_set_y FC 2336 ''CONFIG_RG_NETTOOLS_ARP'',
         token_set_y FC 2337 ''CONFIG_PCI_NAMES'',
         token_set_y FC 2338 ''CONFIG_NET_PCI''],
       token_set_y FC 2340 ''CONFIG_RG_FOOTPRINT_REDUCTION'',
       local_c (sprintf_buf 255 ''%sconsole=%s,115200 root=/dev/ram0 rw%s %s'' [(cond_str (on ''CONFIG_IXP425_COMMON_RGLOADER'') ''quiet '' ''''), (str_arg ''CONFIG_RG_CONSOLE_DEVICE''), (cond_str (on ''CONFIG_RG_KGDB'') '' nohalt'' ''''), (cond_str (on ''CONFIG_MD'') ''raid=noautodetect'' '''')]) (\<lambda>cmd_line. [
         token_set_of FC 2348 ''CONFIG_CMDLINE'' (pure (Some cmd_line)),
         token_set_y FC 2349 ''CONFIG_ARCH_IXP425'',
         token_set FC 2350 ''CONFIG_ARCH_MACHINE'' ''ixp425'' [],
         token_set_m FC 2351 ''CONFIG_IXP425_CSR'',
         token_set_y FC 2352 ''CONFIG_IXP425_CSR_ETH_ACC'',
         token_set_y FC 2353 ''CONFIG_IXP425_CSR_ETH_DB'',
         token_set_y FC 2354 ''CONFIG_IXP425_CSR_ETH_MII'',
         token_set_y FC 2355 ''CONFIG_SERIAL_CONSOLE'',
         token_set_y FC 2356 ''CONFIG_MTD'',
         token_set_y FC 2357 ''CONFIG_MTD_CFI_INTELEXT'',
         token_set_y FC 2358 ''CONFIG_BINFMT_ELF'',
         token_set_y FC 2359 ''CONFIG_SERIAL'',
         token_set_y FC 2360 ''CONFIG_SYSCTL'',
         token_set_y FC 2361 ''CONFIG_UNIX98_PTYS'',
         token_set FC 2362 ''CONFIG_UNIX98_PTY_COUNT'' ''256'' [],
         token_set FC 2363 ''CONFIG_BLK_DEV_RAM_SIZE'' ''16384'' [],
         token_set FC 2364 ''ENDIANESS_SUFFIX'' ''saeb'' [],
         when_c (on ''CONFIG_GLIBC'') [token_set_y FC 2366 ''CONFIG_DYN_LINK''],
         token_set_y FC 2367 ''CONFIG_IXP425'',
         when_c (neg (has_str ''CONFIG_SDRAM_SIZE'')) [
           token_set_of FC 2371 ''CONFIG_SDRAM_SIZE'' (token_get_str ''CONFIG_IXP425_SDRAM_SIZE'')],
         token_set_m FC 2374 ''CONFIG_RG_KRGLDR''])],
   when_c (on ''CONFIG_IPSEC_USE_IXP4XX_CRYPTO'') [token_set_y FC 2379 ''CONFIG_IXP425_CSR_CRYPTO_ACC'']]"

definition general_features_25 :: "stmt" where
  "general_features_25 = block [
   when_c (on ''CONFIG_INCAIP_COMMON'') [
       token_set FC 2385 ''BOARD'' ''Infineon'' [],
       token_set FC 2386 ''FIRM'' ''Infineon'' [],
       token_set FC 2388 ''ARCH'' ''mips'' [],
       token_set FC 2389 ''LIBC_ARCH'' ''mips'' [],
       token_set FC 2390 ''ENDIANESS_SUFFIX'' ''eb'' [],
       set_big_endian FC 2391 True,
       token_set_y FC 2392 ''CONFIG_HAS_MMU'',
       token_set_y FC 2393 ''CONFIG_INCAIP_EVALBOARD'',
       token_set_y FC 2394 ''CONFIG_INCAIP'',
       token_set_y FC 2395 ''CONFIG_INCA_IP'',
       token_set_y FC 2396 ''CONFIG_MIPS'',
       token_set_y FC 2397 ''CONFIG_MIPS32'',
       token_set_y FC 2398 ''CONFIG_EXPERIMENTAL'',
       token_set_y FC 2399 ''CONFIG_RWSEM_GENERIC_SPINLOCK'',
       token_set_y FC 2400 ''CONFIG_NEW_IRQ'',
       token_set_y FC 2401 ''CONFIG_NONCOHERENT_IO'',
       token_set_y FC 2402 ''CONFIG_NEW_TIME_C'',
       token_set_y FC 2403 ''CONFIG_RAMFS'',
       token_set_y FC 2409 ''CONFIG_CPU_MIPS32'',
       token_set_y FC 2410 ''CONFIG_CPU_HAS_LLSC'',
       token_set_y FC 2411 ''CONFIG_CPU_HAS_SYNC'',
       token_set_y FC 2414 ''CONFIG_RG_FOOTPRINT_REDUCTION'',
       token_set_y FC 2415 ''CONFIG_COPY_CRAMFS_TO_RAM'',
       token_set_y FC 2416 ''CONFIG_CRAMFS_FS'',
       token_set_y FC 2419 ''CONFIG_SYSCTL'',
       token_set_y FC 2420 ''CONFIG_KCORE_ELF'',
       token_set_y FC 2421 ''CONFIG_BINFMT_ELF'',
       token_set_y FC 2424 ''CONFIG_MTD'',
       token_set_y FC 2425 ''CONFIG_MTD_CFI_AMDSTD'',
       token_set_m FC 2426 ''CONFIG_MTD_INCAIP'',
       token_set_y FC 2427 ''CONFIG_MTD_CONCAT'',
       token_set_m FC 2430 ''CONFIG_INCAIPSSC'',
       token_set_y FC 2432 ''CONFIG_UNIX98_PTYS'',
       token_set FC 2433 ''CONFIG_UNIX98_PTY_COUNT'' ''256'' [],
       token_set_y FC 2436 ''CONFIG_SERIAL_INCAIPASC'',
       token_set_y FC 2437 ''CONFIG_SERIAL_INCAIPASC_CONSOLE'',
       token_set FC 2438 ''CONFIG_INCAIPASC_DEFAULT_BAUDRATE'' ''115200'' [],
       token_set_y FC 2439 ''CONFIG_SERIAL_CORE'',
       token_set_y FC 2440 ''CONFIG_SERIAL_CORE_CONSOLE'',
       token_set FC 2441 ''CONFIG_RG_CONSOLE_DEVICE'' ''ttyS0'' [],
       token_set_m FC 2442 ''CONFIG_RG_KRGLDR'',
       token_set_y FC 2451 ''CONFIG_CROSSCOMPILE'',
       token_set_y FC 2452 ''CONFIG_MAGIC_SYSRQ'',
       token_set FC 2455 ''CONFIG_BLK_DEV_RAM_SIZE'' ''8192'' [],
       local_c (sprintf_buf 255 ''%sconsole=ttyS0,115200 root=/dev/ram0 rw'' [(cond_str (on ''CONFIG_RG_RGLOADER'') ''quiet '' '''')]) (\<lambda>cmd_line. [
         token_set_of FC 2459 ''CONFIG_CMDLINE'' (pure (Some cmd_line)),
         token_set_y FC 2461 ''CONFIG_INCAIP_MUX'',
         token_set_y FC 2462 ''CONFIG_DEBUG_USER'',
         token_set_m FC 2465 ''CONFIG_INCAIP_SWITCH'',
         when_c (neg (on ''CONFIG_RG_RGLOADER'')) [token_set_m FC 2467 ''CONFIG_INCAIP_SWITCH_API''],
         token_set_m FC 2468 ''CONFIG_INCAIP_ETHERNET'',
         when_c (neg (on ''CONFIG_INCAIP_ALLTEK'')) [token_set_m FC 2473 ''CONFIG_INCAIPPWM'']])]]"

definition general_features_26 :: "stmt" where
  "general_features_26 = block [
   when_c (on ''CONFIG_INCAIP_MUX'') [
       token_set_y FC 2480 ''CONFIG_INCAIP_MUX_KEY0'',
       token_set_y FC 2481 ''CONFIG_INCAIP_MUX_KEY1'',
       token_set_y FC 2482 ''CONFIG_INCAIP_MUX_KEY2'',
       token_set_y FC 2483 ''CONFIG_INCAIP_MUX_KEY3'',
       token_set_y FC 2484 ''CONFIG_INCAIP_MUX_KEY4'',
       token_set_y FC 2485 ''CONFIG_INCAIP_MUX_KEY5'',
       token_set_y FC 2486 ''CONFIG_INCAIP_MUX_LED0'',
       token_set_y FC 2487 ''CONFIG_INCAIP_MUX_LED1'',
       token_set_y FC 2488 ''CONFIG_INCAIP_MUX_LED2'',
       token_set_y FC 2489 ''CONFIG_INCAIP_MUX_LED3'',
       token_set_y FC 2490 ''CONFIG_INCAIP_MUX_LED4'',
       token_set_y FC 2491 ''CONFIG_INCAIP_MUX_LED5'',
       token_set_y FC 2492 ''CONFIG_INCAIP_MUX_LED6'',
       token_set_y FC 2493 ''CONFIG_INCAIP_MUX_LED7'',
       token_set_y FC 2494 ''CONFIG_INCAIP_MUX_LED8'',
       token_set_y FC 2495 ''CONFIG_INCAIP_MUX_RXD'',
       token_set_y FC 2496 ''CONFIG_INCAIP_MUX_TXD'',
       token_set_y FC 2497 ''CONFIG_INCAIP_MUX_SSC1'',
       token_set_y FC 2498 ''CONFIG_INCAIP_MUX_FSC'',
       token_set_y FC 2499 ''CONFIG_INCAIP_MUX_DCL'',
       token_set_y FC 2500 ''CONFIG_INCAIP_MUX_DU'',
       token_set_y FC 2501 ''CONFIG_INCAIP_MUX_DD'',
       ifc (on ''CONFIG_INCAIP_ALLTEK'') [
         token_set_y FC 2505 ''CONFIG_INCAIP_MUX_P1_16'',
         token_set_y FC 2506 ''CONFIG_INCAIP_MUX_P1_17'',
         token_set_y FC 2507 ''CONFIG_INCAIP_MUX_P2_9'',
         token_set_y FC 2508 ''CONFIG_INCAIP_MUX_P2_10'',
         token_set_y FC 2509 ''CONFIG_INCAIP_MUX_P2_11'',
         token_set_y FC 2510 ''CONFIG_INCAIP_MUX_P2_12'',
         token_set_y FC 2511 ''CONFIG_INCAIP_MUX_P2_13'',
         token_set_y FC 2512 ''CONFIG_INCAIP_MUX_P2_14'']
        [
         token_set_y FC 2516 ''CONFIG_INCAIP_MUX_KEY6'',
         token_set_y FC 2517 ''CONFIG_INCAIP_MUX_KEY7'',
         token_set_y FC 2518 ''CONFIG_INCAIP_MUX_SSC2'',
         token_set_y FC 2519 ''CONFIG_INCAIP_MUX_PWM1'',
         token_set_y FC 2520 ''CONFIG_INCAIP_MUX_PWM2''],
       token_set_y FC 2523 ''CONFIG_INCAIP_MUX_P2_15''],
   when_c (on ''CONFIG_CX8620X_COMMON_RGLOADER'') [
       token_set FC 2529 ''CONFIG_CX8620X_SDRAM_SIZE'' ''16'' [],
       token_set_y FC 2531 ''CONFIG_RG_NETWORK_BOOT'',
       token_set_y FC 2532 ''CONFIG_CX8620X_COMMON'',
       token_set FC 2533 ''CONFIG_FORCE_MAX_ZONEORDER'' ''12'' []]]"

definition general_features_27 :: "stmt" where
  "general_features_27 = block [
   when_c (on ''CONFIG_CX8620X_COMMON'') [
       set_big_endian FC 2540 False,
       token_set_y FC 2541 ''CONFIG_CONEXANT_COMMON'',
       token_set_y FC 2542 ''CONFIG_CX8620X'',
       token_set_y FC 2543 ''CONFIG_ARCH_CX8620X'',
       token_set FC 2544 ''CONFIG_ARCH_MACHINE'' ''cx8620x'' [],
       token_set FC 2546 ''ARCH'' ''arm'' [],
       token_set FC 2547 ''LIBC_ARCH'' ''arm'' [],
       token_set_y FC 2548 ''CONFIG_HAS_MMU'',
       token_set_y FC 2549 ''CONFIG_ARM'',
       token_set_y FC 2550 ''CONFIG_CPU_32'',
       token_set_y FC 2551 ''CONFIG_CPU_32v5'',
       token_set_y FC 2552 ''CONFIG_CPU_ARM926T'',
       token_set_y FC 2554 ''CONFIG_NO_UNALIGNED_ACCESS'',
       token_set FC 2555 ''CONFIG_ALIGNMENT_TRAP_MODE'' ''2'' [],
       token_set_y FC 2556 ''CONFIG_RWSEM_GENERIC_SPINLOCK'',
       token_set FC 2560 ''CONFIG_BLK_DEV_RAM_SIZE'' ''8192'' [],
       token_set_y FC 2561 ''CONFIG_RAMFS'',
       token_set_y FC 2563 ''CONFIG_CRAMFS_FS'',
       token_set_y FC 2564 ''CONFIG_COPY_CRAMFS_TO_RAM'',
       when_c (neg (on ''CONFIG_LSP_DIST'')) [
         token_set_y FC 2567 ''CONFIG_RG_MODFS'',
         token_set_y FC 2568 ''CONFIG_RG_FOOTPRINT_REDUCTION''],
       token_set_of FC 2571 ''CONFIG_SDRAM_SIZE'' (token_get_str ''CONFIG_CX8620X_SDRAM_SIZE''),
       token_set FC 2574 ''CONFIG_ZBOOT_ROM_TEXT'' ''0'' [],
       token_set FC 2575 ''CONFIG_ZBOOT_ROM_BSS'' ''0'' [],
       token_set_y FC 2577 ''CONFIG_KCORE_ELF'',
       token_set_y FC 2579 ''CONFIG_ALIGNMENT_TRAP'',
       token_set_y FC 2581 ''CONFIG_DEBUG_USER'',
       when_c (neg (on ''CONFIG_RG_RGLOADER'')) [
         token_set_y FC 2586 ''CONFIG_DYN_LINK'',
         token_set_y FC 2587 ''CONFIG_PCI'',
         token_set_y FC 2588 ''CONFIG_PCI_RESET''],
       local_c (sprintf_buf 255 ''console=%s,115200 root=/dev/ram0 rw%s'' [(str_arg ''CONFIG_RG_CONSOLE_DEVICE''), (cond_str (on ''CONFIG_RG_KGDB'') '' nohalt'' '''')]) (\<lambda>cmd_line. [
         token_set_of FC 2605 ''CONFIG_CMDLINE'' (pure (Some cmd_line)),
         token_set_y FC 2606 ''CONFIG_SERIAL_CONSOLE'',
         token_set_y FC 2607 ''CONFIG_MTD'',
         token_set_y FC 2608 ''CONFIG_MTD_CONCAT'',
         token_set_y FC 2609 ''CONFIG_MTD_CFI_INTELEXT'',
         token_set_y FC 2610 ''CONFIG_BINFMT_ELF'',
         token_set_y FC 2611 ''CONFIG_SERIAL'',
         token_set_y FC 2612 ''CONFIG_SYSCTL'',
         token_set_y FC 2613 ''CONFIG_UNIX98_PTYS'',
         token_set FC 2614 ''CONFIG_UNIX98_PTY_COUNT'' ''256'' [],
         when_c (neg (on ''CONFIG_LSP_DIST'')) [token_set_m FC 2616 ''CONFIG_RG_KRGLDR''],
         token_set_y FC 2617 ''CONFIG_MAGIC_SYSRQ'',
         token_set FC 2618 ''CONFIG_RG_CONSOLE_DEVICE'' ''ttyS0'' []])]]"

definition general_features_28 :: "stmt" where
  "general_features_28 = block [
   when_c (on ''CONFIG_COMCERTO_COMMON'') [
       token_set_y FC 2626 ''CONFIG_MINDSPEED_COMMON'',
       token_set_y FC 2629 ''CONFIG_COMCERTO'',
       token_set_y FC 2630 ''CONFIG_COMCERTO_SINGLE_IMAGE'',
       token_set FC 2631 ''CONFIG_ARCH_MACHINE'' ''comcerto'' [],
       set_big_endian FC 2634 False,
       token_set FC 2635 ''ARCH'' ''arm'' [],
       token_set_y FC 2636 ''CONFIG_ARM'',
       token_set_y FC 2637 ''CONFIG_UID16'',
       token_set FC 2638 ''LIBC_ARCH'' ''arm'' [],
       token_set_y FC 2639 ''CONFIG_CPU_ARM920T'',
       token_set_y FC 2640 ''CONFIG_HAS_MMU'',
       token_set_y FC 2641 ''CONFIG_CPU_32'',
       token_set_y FC 2642 ''CONFIG_CPU_32v4'',
       token_set_y FC 2643 ''CONFIG_CPU_ABRT_EV4T'',
       token_set_y FC 2644 ''CONFIG_CPU_CACHE_V4WT'',
       token_set_y FC 2645 ''CONFIG_CPU_CACHE_VIVT'',
       token_set_y FC 2646 ''CONFIG_CPU_COPY_V4WB'',
       token_set_y FC 2647 ''CONFIG_CPU_TLB_V4WBI'',
       token_set FC 2648 ''CONFIG_SPLIT_PTLOCK_CPUS'' ''4096'' [],
       token_set_y FC 2649 ''CONFIG_FLATMEM'',
       token_set_y FC 2650 ''CONFIG_FLAT_NODE_MEM_MAP'',
       token_set_y FC 2652 ''CONFIG_ARCH_COMCERTO'',
       token_set_y FC 2653 ''CONFIG_ARCH_M828XX'',
       token_set_y FC 2654 ''CONFIG_CSP_16M'',
       token_set_y FC 2655 ''CONFIG_M828XX_PROC_FS'',
       token_set FC 2658 ''MSP_CODE_LOCATION'' ''/lib/modules/msp.axf'' [],
       token_set FC 2659 ''MSP_NODE_LOCATION'' ''/dev/msp'' [],
       token_set_y FC 2662 ''CONFIG_MTD'',
       token_set_y FC 2663 ''CONFIG_MTD_COMCERTO'',
       token_set_y FC 2664 ''CONFIG_MTD_MAP_BANK_WIDTH_1'',
       token_set_y FC 2665 ''CONFIG_MTD_MAP_BANK_WIDTH_2'',
       token_set_y FC 2666 ''CONFIG_MTD_MAP_BANK_WIDTH_4'',
       token_set_y FC 2667 ''CONFIG_MTD_CONCAT'',
       token_set_y FC 2668 ''CONFIG_MTD_CFI_INTELEXT'',
       token_set_y FC 2669 ''CONFIG_MTD_CFI_AMDSTD'',
       token_set_y FC 2670 ''CONFIG_MTD_CFI_I1'',
       token_set_y FC 2671 ''CONFIG_MTD_CFI_I2'',
       token_set_y FC 2672 ''CONFIG_MTD_CFI_UTIL'',
       token_set FC 2673 ''CONFIG_MTD_CFI_AMDSTD_RETRY'' ''2'' [],
       token_set_y FC 2674 ''CONFIG_OBSOLETE_INTERMODULE'',
       token_set FC 2677 ''CONFIG_SDRAM_SIZE'' ''112'' [],
       token_set_y FC 2680 ''CONFIG_PCI'',
       token_set_y FC 2681 ''CONFIG_RWSEM_GENERIC_SPINLOCK'',
       token_set_y FC 2684 ''CONFIG_SERIAL_8250'',
       token_set_y FC 2685 ''CONFIG_SERIAL_8250_COMCERTO'',
       token_set FC 2686 ''CONFIG_SERIAL_8250_NR_UARTS'' ''2'' [],
       token_set FC 2687 ''CONFIG_SERIAL_8250_RUNTIME_UARTS'' ''2'' [],
       token_set_y FC 2690 ''CONFIG_SPI'',
       token_set_y FC 2691 ''CONFIG_COMCERTO_SPI'',
       token_set_y FC 2692 ''CONFIG_SPI_SI3220'',
       token_set_y FC 2695 ''CONFIG_SERIAL_CORE'',
       token_set_y FC 2696 ''CONFIG_SERIAL_CORE_CONSOLE'',
       token_set_y FC 2697 ''CONFIG_SERIAL_8250_CONSOLE'',
       token_set FC 2698 ''CONFIG_RG_CONSOLE_DEVICE'' ''ttyS0'' [],
       token_set_y FC 2707 ''CONFIG_RG_INITFS_RAMFS'',
       token_set_y FC 2708 ''CONFIG_RG_MAINFS_CRAMFS'',
       token_set_y FC 2709 ''CONFIG_RG_MODFS_CRAMFS'',
       local_c (sprintf_buf 255 ''console=%s,115200 root=/dev/ram0 rw%s'' [(str_arg ''CONFIG_RG_CONSOLE_DEVICE''), (cond_str (on ''CONFIG_RG_KGDB'') '' nohalt'' '''')]) (\<lambda>cmd_line. [
         token_set_of FC 2715 ''CONFIG_CMDLINE'' (pure (Some cmd_line)),
         token_set FC 2718 ''CONFIG_ZBOOT_ROM_TEXT'' ''0'' [],
         token_set FC 2719 ''CONFIG_ZBOOT_ROM_BSS'' ''0'' [],
         token_set_y FC 2721 ''CONFIG_KCORE_ELF'',
         token_set_y FC 2722 ''CONFIG_SYSCTL'',
         token_set_y FC 2723 ''CONFIG_UNIX98_PTYS'',
         token_set_y FC 2725 ''CONFIG_ALIGNMENT_TRAP'',
         token_set_y FC 2727 ''CONFIG_DEBUG_USER'',
         token_set_y FC 2728 ''CONFIG_BINFMT_ELF'',
         token_set FC 2729 ''CONFIG_UNIX98_PTY_COUNT'' ''256'' [],
         token_set_y FC 2730 ''CONFIG_MAGIC_SYSRQ'',
         when_c (neg (on ''CONFIG_RG_RGLOADER'')) [token_set_y FC 2733 ''CONFIG_DYN_LINK''],
         ifc (on ''CONFIG_COMCERTO_MALINDI'') [
           token_set_y FC 2737 ''CONFIG_EVM_MALINDI'',
           token_set FC 2738 ''CONFIG_LOCALVERSION'' ''malindi'' [],
           token_set FC 2739 ''BOARD'' ''Malindi'' [],
           token_set FC 2740 ''CONFIG_HW_NUMBER_OF_FXS_PORTS'' ''4'' []]
          [
           when_c (on ''CONFIG_COMCERTO_NAIROBI'') [
             token_set_y FC 2745 ''CONFIG_EVM_SUPERMOMBASA'',
             token_set FC 2746 ''CONFIG_LOCALVERSION'' ''nairobi'' [],
             token_set FC 2747 ''BOARD'' ''Nairobi'' [],
             token_set FC 2748 ''CONFIG_HW_NUMBER_OF_FXS_PORTS'' ''2'' []]]])]]"

definition general_features_29 :: "stmt" where
  "general_features_29 = block [
   when_c (disj_c (disj_c (on ''CONFIG_RG_IPPHONE'') (on ''CONFIG_RG_ATA'')) (on ''CONFIG_RG_PBX'')) [
       token_set_y FC 2755 ''CONFIG_RG_VOIP'',
       when_c (conj_c (neg (on ''CONFIG_RG_JPKG'')) (neg (has_str ''CONFIG_HW_NUMBER_OF_FXS_PORTS''))) [
         token_set FC 2760 ''CONFIG_HW_NUMBER_OF_FXS_PORTS'' ''0'' []]],
   when_c (on ''CONFIG_RG_PBX'') [
       token_set_y FC 2766 ''CONFIG_RG_SAMPLES'',
       token_set_y FC 2767 ''CONFIG_RG_LIBMAD'',
       when_c (neg (on ''CONFIG_RG_UML'')) [token_set_y FC 2769 ''CONFIG_RG_DISK_MNG'']],
   when_c (on ''CONFIG_RG_VOIP_RV_SIP'') [
       token_set_y FC 2774 ''CONFIG_RG_VOIP_RV'',
       token_set_y FC 2775 ''CONFIG_RG_VOIP_SIP''],
   when_c (on ''CONFIG_RG_VOIP_RV_H323'') [
       token_set_y FC 2780 ''CONFIG_RG_VOIP_RV'',
       token_set_y FC 2781 ''CONFIG_RG_VOIP_H323''],
   when_c (on ''CONFIG_RG_VOIP_RV_MGCP'') [
       token_set_y FC 2786 ''CONFIG_RG_VOIP_RV'',
       token_set_y FC 2787 ''CONFIG_RG_VOIP_MGCP''],
   when_c (on ''CONFIG_RG_VOIP_OSIP'') [token_set_y FC 2791 ''CONFIG_RG_VOIP_SIP''],
   when_c (on ''CONFIG_RG_VOIP_ASTERISK_SIP'') [
       token_set_y FC 2795 ''CONFIG_RG_VOIP_ASTERISK'',
       token_set_y FC 2796 ''CONFIG_RG_VOIP_SIP''],
   when_c (on ''CONFIG_RG_VOIP_ASTERISK_H323'') [
       token_set_y FC 2801 ''CONFIG_RG_VOIP_ASTERISK'',
       token_set_y FC 2802 ''CONFIG_RG_VOIP_H323'',
       token_set_y FC 2803 ''CONFIG_RG_CXX''],
   when_c (on ''CONFIG_RG_VOIP_ASTERISK_MGCP_GW'') [
       token_set_y FC 2808 ''CONFIG_RG_VOIP_ASTERISK'',
       token_set_y FC 2809 ''CONFIG_RG_VOIP_MGCP''],
   when_c (on ''CONFIG_RG_VOIP_ASTERISK_MGCP_CALL_AGENT'') [
       token_set_y FC 2814 ''CONFIG_RG_VOIP_ASTERISK'',
       token_set_y FC 2815 ''CONFIG_RG_VOIP_MGCP_CALL_AGENT''],
   when_c (on ''CONFIG_RG_VOIP_SIP'') [token_set_y FC 2819 ''CONFIG_RG_VOIP_USE_SIP_ALG''],
   when_c (disj_c (disj_c (on ''CONFIG_RG_VOIP_RV'') (on ''CONFIG_RG_VOIP_OSIP'')) (on ''CONFIG_RG_VOIP_ASTERISK'')) [token_set_y FC 2824 ''CONFIG_RG_VOIP''],
   when_c (on ''CONFIG_RG_VOIP'') [
       token_set_y FC 2829 ''CONFIG_RG_THREADS'',
       token_set_m FC 2830 ''CONFIG_RG_JRTP''],
   when_c (on ''CONFIG_RG_VOIP_ASTERISK'') [
       token_set_y FC 2835 ''CONFIG_RG_THREADS'',
       token_set_y FC 2836 ''CONFIG_RG_TERMCAP'',
       token_set_y FC 2837 ''CONFIG_ULIBC_DO_C99_MATH'',
       token_set_y FC 2838 ''CONFIG_ULIBC_SHARED''],
   when_c (on ''CONFIG_INCAIP_WATCHDOG'') [
       token_set_y FC 2843 ''CONFIG_INCAIP_WATCHDOG_HEARTBEAT'',
       token_set FC 2844 ''CONFIG_INCAIP_WATCHDOG_TIMEOUT'' ''4'' []]]"

definition general_features_30 :: "stmt" where
  "general_features_30 = block [
   when_c (on ''CONFIG_INFINEON_TWINPASS'') [
       token_set FC 2851 ''BOARD'' ''TWINPASS'' [],
       token_set FC 2852 ''FIRM'' ''INFINEON'' [],
       token_set_y FC 2853 ''CONFIG_BOOTLDR_UBOOT'',
       token_set_y FC 2857 ''CONFIG_MODULES'',
       token_set_y FC 2858 ''CONFIG_NEW_IRQ'',
       token_set_y FC 2859 ''CONFIG_NONCOHERENT_IO'',
       token_set_y FC 2860 ''CONFIG_NEW_TIME_C'',
       token_set_y FC 2861 ''CONFIG_PAGE_SIZE_4KB'',
       token_set_y FC 2862 ''CONFIG_RAMFS'',
       when_c (on ''CONFIG_PCI'') [
         token_set_y FC 2866 ''CONFIG_PCI_AUTO'',
         token_set_y FC 2867 ''CONFIG_DANUBE_PCI'',
         token_set_y FC 2868 ''CONFIG_DANUBE_PCI_HW_SWAP''],
       token_set_y FC 2871 ''CONFIG_SYSCTL'',
       token_set_y FC 2872 ''CONFIG_KCORE_ELF'',
       token_set_y FC 2873 ''CONFIG_BINFMT_ELF'',
       token_set_y FC 2876 ''CONFIG_BLK_DEV_LOOP'',
       token_set_y FC 2878 ''CONFIG_UNIX98_PTYS'',
       token_set FC 2879 ''CONFIG_UNIX98_PTY_COUNT'' ''32'' [],
       token_set_y FC 2880 ''CONFIG_NET_HW_FLOWCONTROL'',
       token_set_y FC 2881 ''CONFIG_CROSSCOMPILE'',
       token_set_y FC 2882 ''CONFIG_MAGIC_SYSRQ'',
       token_set FC 2885 ''ARCH'' ''mips'' [],
       token_set_y FC 2886 ''CONFIG_MIPS'',
       token_set_y FC 2887 ''CONFIG_MIPS32'',
       token_set_y FC 2888 ''CONFIG_CPU_MIPS32'',
       token_set_y FC 2889 ''CONFIG_EXPERIMENTAL'',
       token_set_y FC 2890 ''CONFIG_CPU_HAS_PREFETCH'',
       token_set_y FC 2891 ''CONFIG_CPU_HAS_LLSC'',
       token_set_y FC 2892 ''CONFIG_CPU_HAS_SYNC'',
       token_set_y FC 2893 ''CONFIG_DANUBE'',
       token_set_y FC 2894 ''CONFIG_BOARD_TWINPASS_E'',
       token_set_y FC 2895 ''CONFIG_RWSEM_GENERIC_SPINLOCK'',
       token_set_y FC 2901 ''CONFIG_SERIAL_IFX_ASC'',
       token_set_y FC 2902 ''CONFIG_SERIAL_IFX_ASC_CONSOLE'',
       token_set FC 2903 ''CONFIG_IFX_ASC_DEFAULT_BAUDRATE'' ''115200'' [],
       token_set_y FC 2904 ''CONFIG_SERIAL_CORE_CONSOLE'',
       ifc (on ''CONFIG_RG_DANUBE_DUALCORE'') [
         token_set_y FC 2912 ''CONFIG_IFX_ASC_CONSOLE_ASC0'',
         token_set FC 2913 ''CONFIG_RG_CONSOLE_DEVICE'' ''ttyS0'' []]
        [
         token_set_y FC 2917 ''CONFIG_IFX_ASC_CONSOLE_ASC1'',
         token_set FC 2918 ''CONFIG_RG_CONSOLE_DEVICE'' ''ttyS1'' []],
       token_set_y FC 2921 ''CONFIG_RG_FOOTPRINT_REDUCTION'',
       token_set_y FC 2922 ''CONFIG_COPY_CRAMFS_TO_RAM'',
       token_set_y FC 2923 ''CONFIG_CRAMFS_FS'',
       token_set_y FC 2924 ''CONFIG_RG_MODFS'',
       local_c (sprintf_buf 255 ''console=%s,115200'' [(str_arg ''CONFIG_RG_CONSOLE_DEVICE'')]) (\<lambda>cmd_line. [
         token_set_of FC 2928 ''CONFIG_CMDLINE'' (pure (Some cmd_line)),
         set_big_endian FC 2931 True,
         token_set FC 2932 ''LIBC_ARCH'' ''mips'' [],
         token_set_y FC 2933 ''CONFIG_HAS_MMU''])]]"

lemma ok_general_features_21 [safe_scripts]: "ok base_schema value_tokens J general_features_21"
  unfolding general_features_21_def
  by (intro safe_intros shipped.ok_sets shipped.ok_enable_module safe_scripts; simp)


lemma ok_general_features_22 [safe_scripts]: "ok base_schema value_tokens J general_features_22"
  unfolding general_features_22_def
  by (intro safe_intros shipped.ok_sets shipped.ok_enable_module safe_scripts; simp)


lemma ok_general_features_23 [safe_scripts]: "ok base_schema value_tokens J general_features_23"
  unfolding general_features_23_def
  by (intro safe_intros shipped.ok_sets shipped.ok_enable_module safe_scripts; simp)


lemma ok_general_features_24 [safe_scripts]: "ok base_schema value_tokens J general_features_24"
  unfolding general_features_24_def
  by (intro safe_intros shipped.ok_sets shipped.ok_enable_module safe_scripts; simp)


lemma ok_general_features_25 [safe_scripts]: "ok base_schema value_tokens J general_features_25"
  unfolding general_features_25_def
  by (intro safe_intros shipped.ok_sets shipped.ok_enable_module safe_scripts; simp)


lemma ok_general_features_26 [safe_scripts]: "ok base_schema value_tokens J general_features_26"
  unfolding general_features_26_def
  by (intro safe_intros shipped.ok_sets shipped.ok_enable_module safe_scripts; simp)


lemma ok_general_features_27 [safe_scripts]: "ok base_schema value_tokens J general_features_27"
  unfolding general_features_27_def
  by (intro safe_intros shipped.ok_sets shipped.ok_enable_module safe_scripts; simp)


lemma ok_general_features_28 [safe_scripts]: "ok base_schema value_tokens J general_features_28"
  unfolding general_features_28_def
  by (intro safe_intros shipped.ok_sets shipped.ok_enable_module safe_scripts; simp)


lemma ok_general_features_29 [safe_scripts]: "ok base_schema value_tokens J general_features_29"
  unfolding general_features_29_def
  by (intro safe_intros shipped.ok_sets shipped.ok_enable_module safe_scripts; simp)


lemma ok_general_features_30 [safe_scripts]: "ok base_schema value_tokens J general_features_30"
  unfolding general_features_30_def
  by (intro safe_intros shipped.ok_sets shipped.ok_enable_module safe_scripts; simp)


end
