(* ===== verification/Feature_Config_4.thy ===== *)
theory Feature_Config_4
  imports Feature_Base
begin

text \<open>
  \<open>general_features\<close> of \<open>feature_config.c\<close>, lines 2936 to 3918: consecutive pieces of its body,
  and that each piece fits the shipped option table.
\<close>

definition general_features_31 :: "stmt" where
  "general_features_31 = block [
   when_c (on ''CONFIG_ADM5120_COMMON'') [
       token_set FC 2940 ''BOARD'' ''ADM5120'' [],
       token_set FC 2941 ''FIRM'' ''ADMTEK'' [],
       set_big_endian FC 2943 False,
       token_set FC 2944 ''ARCH'' ''mips'' [],
       token_set FC 2945 ''LIBC_ARCH'' ''mips'' [],
       token_set_y FC 2946 ''CONFIG_HAS_MMU'',
       token_set_y FC 2947 ''CONFIG_MIPS_AM5120'',
       token_set_y FC 2948 ''CONFIG_MIPS'',
       token_set_y FC 2949 ''CONFIG_MIPS32'',
       token_set_y FC 2950 ''CONFIG_EXPERIMENTAL'',
       token_set_y FC 2951 ''CONFIG_RWSEM_GENERIC_SPINLOCK'',
       token_set_y FC 2952 ''CONFIG_NEW_IRQ'',
       token_set_y FC 2953 ''CONFIG_NONCOHERENT_IO'',
       token_set_y FC 2954 ''CONFIG_NEW_TIME_C'',
       token_set FC 2955 ''MAX_DMA_ADDRESS'' ''0x1000000'' [],
       token_set FC 2956 ''IO_SPACE_LIMIT'' ''0xffffffff'' [],
       token_set FC 2957 ''CONFIG_SDRAM_SIZE'' ''0xffff00'' [],
       token_set_y FC 2958 ''CONFIG_RAMFS'',
       token_set_y FC 2961 ''CONFIG_CPU_MIPS32'',
       token_set_y FC 2962 ''CONFIG_CPU_HAS_LLSC'',
       token_set_y FC 2963 ''CONFIG_CPU_HAS_SYNC'',
       token_set_y FC 2964 ''CONFIG_CPU_HAS_PREFETCH'',
       token_set_y FC 2965 ''CONFIG_VTAG_ICACHE'',
       token_set_y FC 2967 ''CONFIG_RG_FOOTPRINT_REDUCTION'',
       token_set_y FC 2968 ''CONFIG_COPY_CRAMFS_TO_RAM'',
       token_set_y FC 2969 ''CONFIG_CRAMFS_FS'',
       when_c (neg (on ''CONFIG_RG_RGLOADER'')) [
         when_c (is_dist ''ADM5120_ATA'') [
           token_set_y FC 2973 ''CONFIG_RG_NONCOMPRESSED_USERMODE_IMAGE''],
         token_set_y FC 2974 ''CONFIG_RG_MODFS''],
       token_set_y FC 2978 ''CONFIG_SYSCTL'',
       token_set_y FC 2979 ''CONFIG_KCORE_ELF'',
       token_set_y FC 2980 ''CONFIG_BINFMT_ELF'',
       token_set_y FC 2983 ''CONFIG_MTD'',
       token_set_y FC 2984 ''CONFIG_MTD_CFI_AMDSTD'',
       token_set_m FC 2985 ''CONFIG_ADM5120_MTD'',
       token_set_y FC 2987 ''CONFIG_UNIX98_PTYS'',
       token_set FC 2988 ''CONFIG_UNIX98_PTY_COUNT'' ''256'' [],
       token_set_m FC 2991 ''CONFIG_ADM5120_SWITCH'',
       token_set_y FC 2994 ''CONFIG_ADM5120_SERIAL'',
       token_set_y FC 2995 ''CONFIG_SERIAL_CONSOLE'',
       token_set FC 2996 ''CONFIG_RG_CONSOLE_DEVICE'' ''ttyS0'' [],
       when_c (neg (on ''CONFIG_LSP_DIST'')) [token_set_m FC 2998 ''CONFIG_RG_KRGLDR''],
       token_set_y FC 3001 ''CONFIG_CROSSCOMPILE'',
       token_set_y FC 3002 ''CONFIG_MAGIC_SYSRQ'',
       token_set FC 3005 ''CONFIG_BLK_DEV_RAM_SIZE'' ''16384'' [],
       local_c (sprintf_buf 255 ''%sconsole=ttyS0,115200 root=/dev/ram0 rw'' [(cond_str (on ''CONFIG_RG_RGLOADER'') ''quiet '' '''')]) (\<lambda>cmd_line. [
         token_set_of FC 3009 ''CONFIG_CMDLINE'' (pure (Some cmd_line)),
         token_set_y FC 3011 ''CONFIG_DEBUG_USER''])],
   when_c (disj_c (on ''CONFIG_RG_CABLEHOME'') (on ''CONFIG_RG_DSL_CH'')) [
       token_set_y FC 3016 ''CONFIG_RG_TODC'',
       token_set_y FC 3017 ''CONFIG_RG_PING'',
       token_set_y FC 3018 ''CONFIG_RG_SYSLOG_REMOTE'',
       token_set_y FC 3019 ''CONFIG_RG_SSL'',
       token_set_y FC 3020 ''CONFIG_RG_ALG_H323'',
       token_set_y FC 3021 ''CONFIG_RG_ALG_MSNMS'',
       token_set_y FC 3022 ''CONFIG_RG_ALG_AIM'',
       token_set_y FC 3023 ''CONFIG_RG_ALG_PPTP'',
       token_set_y FC 3024 ''CONFIG_RG_ALG_IPSEC'',
       token_set_y FC 3025 ''CONFIG_RG_ALG_L2TP'',
       token_set_y FC 3026 ''CONFIG_RG_CH_EVT_RPT''],
   when_c (on ''CONFIG_RG_CABLEHOME'') [
       when_c (on ''CONFIG_RG_CABLEHOME_10'') [token_set_y FC 3033 ''CONFIG_RG_RMT_FW_CONF''],
       when_c (neg (on ''CONFIG_RG_CABLEHOME_EMBEDDED'')) [
         token_set_y FC 3036 ''CONFIG_RG_STANDALONE_PS'',
         token_set_y FC 3037 ''CONFIG_RG_RMT_UPDATE''],
       token_set_y FC 3040 ''CONFIG_BIDIR_NAT'',
       token_set_y FC 3041 ''CONFIG_RG_CH_FW'',
       token_set_y FC 3042 ''CONFIG_RG_CONN_SPEED'',
       token_set_y FC 3043 ''CONFIG_RG_KERBEROS'',
       token_set_y FC 3044 ''CONFIG_RG_CERT'',
       token_set_y FC 3045 ''CONFIG_RG_XML'',
       token_set_m FC 3046 ''CONFIG_RG_PKTCBL'',
       token_set_y FC 3047 ''CABLEHOME_TEP_BUG'',
       token_set_m FC 3048 ''CONFIG_RG_BRIDGE'',
       token_set_m FC 3049 ''CONFIG_RG_USFS'',
       token_set_m FC 3050 ''CONFIG_RG_BROUTE'',
       token_set_m FC 3051 ''CONFIG_RG_CHWAN'']]"

definition general_features_32 :: "stmt" where
  "general_features_32 = block [
   when_c (disj_c (disj_c (disj_c (on ''CONFIG_RG_WAN_UPGRADE'') (on ''CONFIG_RG_RMT_FW_CONF'')) (on ''CONFIG_RGLOADER_CLI'')) (on ''CONFIG_RG_DDNS'')) [token_set_y FC 3059 ''CONFIG_RG_WGET''],
   when_c (on ''CONFIG_MTD'') [
       token_set_y FC 3064 ''CONFIG_MTD_PARTITIONS'',
       token_set_y FC 3065 ''CONFIG_MTD_BLOCK'',
       token_set_y FC 3066 ''CONFIG_MTD_CFI'',
       token_set_y FC 3067 ''CONFIG_MTD_GEN_PROBE''],
   when_c (on ''CONFIG_RG_KGDB'') [
       ifc (on ''CONFIG_ARM'') [
         token_set_y FC 3074 ''CONFIG_KGDB'',
         token_set_y FC 3075 ''CONFIG_KGDB_SERIAL'',
         when_c (on ''CONFIG_IXP425_COMMON'') [token_set_y FC 3077 ''CONFIG_DEBUG_LL''],
         token_set_y FC 3078 ''CONFIG_MAGIC_SYSRQ'']
        [
         ifc (conj_c (on ''CONFIG_PCBOX'') (neg (on ''CONFIG_RG_UML''))) [
           ifc (neg (os_is ''LINUX_24'')) [token_set_y FC 3083 ''CONFIG_GDB'']
            [
             token_set_y FC 3086 ''CONFIG_X86_REMOTE_DEBUG'',
             token_set_y FC 3087 ''CONFIG_KGDB_THREAD'',
             token_set_y FC 3088 ''CONFIG_KERNEL_ASSERTS'',
             token_set_y FC 3089 ''CONFIG_MAGIC_SYSRQ'']]
          [
           when_c (on ''CONFIG_MIPS'') [
             token_set_y FC 3095 ''CONFIG_KGDB'',
             token_set_y FC 3100 ''CONFIG_REMOTE_DEBUG'']]]],
   when_c (on ''CONFIG_RG_IPV6'') [
       token_set_y FC 3107 ''CONFIG_IPV6'',
       when_c (on ''CONFIG_RG_OS_LINUX_24'') [
         token_set_y FC 3110 ''CONFIG_IPV6_RESTRICTED_DOUBLE_BIND'',
         token_set_y FC 3111 ''CONFIG_IPV6_6TO4_NEXTHOP''],
       token_set_y FC 3113 ''CONFIG_RG_FLEX'',
       token_set_y FC 3114 ''CONFIG_RG_USAGI''],
   when_c (conj_c (conj_c (conj_c (conj_c (conj_c (on ''CONFIG_RG_PERM_STORAGE'') (neg (on ''CONFIG_RG_FLASHDISK''))) (neg (on ''CONFIG_MTD''))) (neg (on ''CONFIG_RG_UML''))) (neg (is_dist ''JPKG_UML''))) (neg (on ''CONFIG_VX_TFFS''))) [token_set_m FC 3122 ''CONFIG_FLASH''],
   when_c (neg (on ''CONFIG_GCC_CANNOT_OPTIMIZE'')) [token_set_y FC 3127 ''CONFIG_GCC_CAN_INLINE''],
   when_c (disj_c (disj_c (on ''CONFIG_RG_DHCPC'') (on ''CONFIG_RG_DHCPS'')) (on ''CONFIG_RG_DHCPR'')) [token_set_m FC 3132 ''CONFIG_RG_DHCP_PKTFIL''],
   when_c (on ''CONFIG_RG_DHCPS'') [token_set_y FC 3136 ''CONFIG_RG_PING''],
   when_c (disj_c (disj_c (disj_c (on ''CONFIG_RG_8021X_TLS'') (on ''CONFIG_RG_8021X_TTLS'')) (on ''CONFIG_RG_8021X_MD5'')) (on ''CONFIG_RG_8021X_RADIUS'')) [token_set_y FC 3141 ''CONFIG_RG_8021X''],
   when_c (on ''CONFIG_RG_8021X'') [token_set_m FC 3145 ''CONFIG_RG_8021X_PKTFIL''],
   when_c (disj_c (disj_c (on ''CONFIG_FREESWAN'') (on ''CONFIG_RG_8021X_TLS'')) (on ''CONFIG_RG_8021X_TTLS'')) [token_set_y FC 3150 ''CONFIG_RG_X509''],
   when_c (disj_c (on ''CONFIG_RG_SSL'') (on ''CONFIG_RG_X509'')) [token_set_y FC 3154 ''CONFIG_RG_CERT''],
   when_c (disj_c (on ''CONFIG_RG_RMT_FW_CONF'') (on ''CONFIG_RG_UCD_SNMP_V3'')) [token_set_y FC 3158 ''CONFIG_RG_CRYPTO''],
   when_c (disj_c (on ''CONFIG_RG_CERT'') (on ''CONFIG_RG_CRYPTO'')) [token_set_y FC 3162 ''CONFIG_RG_OPENSSL''],
   when_c (on ''CONFIG_RG_OPENSSL'') [token_set_y FC 3165 ''CONFIG_RG_CRYPTO''],
   when_c (disj_c (on ''CONFIG_RG_IGD'') (on ''CONFIG_RG_TR_064'')) [token_set_y FC 3168 ''CONFIG_RG_UPNP'']]"

definition general_features_33 :: "stmt" where
  "general_features_33 = block [
   when_c (disj_c (on ''CONFIG_RG_UPNP'') (on ''CONFIG_RG_DSLHOME'')) [
       token_set_y FC 3172 ''CONFIG_RG_XML'',
       token_set_y FC 3173 ''CONFIG_RG_MGT_IGD''],
   when_c (conj_c (on ''CONFIG_OPENRG'') (on ''CONFIG_RG_WBM'')) [token_set_y FC 3177 ''CONFIG_RG_SESSION_MEMORY''],
   when_c (conj_c (on ''CONFIG_OPENRG'') (disj_c (on ''CONFIG_RG_WBM'') (on ''CONFIG_RG_SSI''))) [
       token_set_y FC 3182 ''CONFIG_RG_HTTPS'',
       token_set_y FC 3183 ''CONFIG_RG_LIBIMAGE_DIM'',
       when_c (neg is_gui_selected) [select_all_themes]],
   when_c (on ''CONFIG_RG_LIBIMAGE_DIM'') [token_set_y FC 3190 ''CONFIG_RG_LIBIMAGE''],
   when_c (on ''CONFIG_RG_SSI'') [token_set_y FC 3193 ''CONFIG_RG_HTTPS''],
   when_c (on ''CONFIG_RG_HTTPS'') [token_set_y FC 3196 ''CONFIG_HTTP_CGI_PROCESS''],
   when_c (on ''CONFIG_RG_ALG_MSNMS'') [token_set_y FC 3199 ''CONFIG_RG_ALG_SIP''],
   when_c (on ''CONFIG_RG_PPP_DEFLATE'') [
       token_set_y FC 3203 ''CONFIG_ZLIB_INFLATE'',
       token_set_y FC 3204 ''CONFIG_ZLIB_DEFLATE''],
   when_c (disj_c (on ''CONFIG_RG_TZ_COMMON'') (on ''CONFIG_RG_TZ_FULL'')) [
       token_set_y FC 3209 ''CONFIG_RG_AUTO_DST'',
       when_c (neg (on ''CONFIG_RG_TZ_YEARS'')) [token_set FC 3211 ''CONFIG_RG_TZ_YEARS'' ''5'' []]],
   when_c (disj_c (disj_c (on ''CONFIG_RG_FIREWALL'') (on ''CONFIG_RG_NAT'')) (on ''CONFIG_RG_RNAT'')) [
       token_set_y FC 3220 ''CONFIG_RG_GENERIC_PROXY'',
       when_c (on ''MODULE_RG_WLAN_AND_ADVANCED_WLAN'') [token_set_y FC 3222 ''CONFIG_RG_HTTP_AUTH''],
       token_set_y FC 3223 ''CONFIG_RG_ALG_USERSPACE'',
       token_set_m FC 3224 ''CONFIG_RG_JFW'',
       token_set_y FC 3225 ''CONFIG_RG_NETOBJ''],
   when_c (on ''CONFIG_ZERO_CONFIGURATION'') [token_set_y FC 3229 ''CONFIG_ZC_AUTO_CONFIG_NON_PNP''],
   when_c (on ''CONFIG_RG_WPA'') [token_set_y FC 3232 ''CONFIG_RG_WPA_WBM''],
   when_c (on ''CONFIG_RG_8021X'') [token_set_y FC 3235 ''CONFIG_RG_8021X_WBM''],
   when_c (on ''CONFIG_RG_8021Q_IF'') [token_set_y FC 3238 ''CONFIG_RG_VLAN_8021Q''],
   when_c (on ''CONFIG_RG_VLAN_8021Q'') [token_set_y FC 3241 ''CONFIG_VLAN_8021Q''],
   when_c (on ''CONFIG_FILESERVER_KERNEL_CONFIG'') [
       ifc (on ''CONFIG_RG_OS_LINUX_24'') [
         token_set_y FC 3248 ''CONFIG_RG_USB'',
         token_set_m FC 3249 ''CONFIG_USB_OHCI'',
         token_set_m FC 3250 ''CONFIG_USB_UHCI'',
         token_set_m FC 3251 ''CONFIG_USB_EHCI_HCD'']
        [
         token_set_y FC 3255 ''CONFIG_USB'',
         token_set_y FC 3256 ''CONFIG_USB_OHCI_HCD'',
         token_set_y FC 3257 ''CONFIG_USB_UHCI_HCD'',
         token_set_y FC 3258 ''CONFIG_USB_EHCI_HCD''],
       token_set_y FC 3261 ''CONFIG_USB_DEVICEFS'',
       when_c (neg (str_is ''CONFIG_FILESERVER_KERNEL_CONFIG'' ''USB'')) [
         token_set_y FC 3266 ''CONFIG_IEEE1394'',
         token_set_y FC 3267 ''CONFIG_IEEE1394_OHCI1394'',
         ifc (on ''CONFIG_RG_OS_LINUX_24'') [token_set_m FC 3272 ''CONFIG_IEEE1394_SBP2'']
          [token_set_y FC 3275 ''CONFIG_IEEE1394_SBP2'']],
       token_set_y FC 3280 ''CONFIG_USB_STORAGE'',
       token_set_y FC 3285 ''CONFIG_HOTPLUG'']]"

definition general_features_34 :: "stmt" where
  "general_features_34 = block [
   when_c (on ''CONFIG_RG_USB_SLAVE'') [
       token_set_m FC 3290 ''CONFIG_RG_RNDIS'',
       token_set_y FC 3291 ''CONFIG_USB_RNDIS'',
       token_set_y FC 3292 ''CONFIG_RG_USB''],
   when_c (on ''CONFIG_IXP425_ATM'') [
       token_set_y FC 3297 ''CONFIG_ATM'',
       token_set_y FC 3298 ''CONFIG_IXP425_CSR_ATM''],
   when_c (on ''CONFIG_PRISM2_PCI'') [
       token_set_y FC 3303 ''CONFIG_INTERSIL_COMMON'',
       token_set_y FC 3304 ''CONFIG_NET_RADIO'',
       token_set_y FC 3305 ''CONFIG_NET_WIRELESS'',
       token_set_y FC 3306 ''CONFIG_PRISM2_LOAD_FIRMWARE''],
   when_c (on ''CONFIG_ISL38XX'') [
       token_set_y FC 3311 ''CONFIG_INTERSIL_COMMON'',
       token_set_y FC 3312 ''CONFIG_NET_RADIO'',
       token_set_y FC 3313 ''CONFIG_NET_WIRELESS'',
       token_set_y FC 3314 ''INTERSIL_EVENTS''],
   when_c (on ''CONFIG_ISL_SOFTMAC'') [
       token_set_y FC 3319 ''CONFIG_INTERSIL_COMMON'',
       token_set_y FC 3320 ''CONFIG_NET_RADIO'',
       token_set_y FC 3321 ''CONFIG_NET_WIRELESS''],
   when_c (disj_c (disj_c (on ''CONFIG_RALINK_RT2560'') (on ''CONFIG_AGN100'')) (on ''CONFIG_RALINK_RT2561'')) [
       token_set_y FC 3327 ''CONFIG_NET_RADIO'',
       token_set_y FC 3328 ''CONFIG_NET_WIRELESS''],
   when_c (on ''CONFIG_HW_80211G_BCM43XX'') [
       token_set_y FC 3333 ''CONFIG_NET_RADIO'',
       token_set_y FC 3334 ''CONFIG_NET_WIRELESS'',
       token_set FC 3335 ''CONFIG_BCM43XX_MODE'' ''AP'' []],
   when_c (on ''CONFIG_RG_RGLOADER'') [token_set_y FC 3339 ''CONFIG_RG_BOOTSTRAP''],
   when_c (on ''CONFIG_RG_FOOTPRINT_REDUCTION'') [
       token_set_y FC 3343 ''CONFIG_RG_KERNEL_NEEDED_SYMBOLS'',
       when_c (on ''CONFIG_RG_RGLOADER'') [
         token_set_y FC 3346 ''CONFIG_SMALL_FLASH'',
         token_set_y FC 3347 ''CONFIG_RG_NONCOMPRESSED_USERMODE_IMAGE'']],
   when_c (on ''CONFIG_RG_OS_LINUX_26'') [
       token_set_y FC 3353 ''CONFIG_RG_LARGE_FILE_SUPPORT'',
       token_set_y FC 3354 ''CONFIG_RG_MAINFS'',
       when_c (on ''CONFIG_RG_INITFS_RAMFS'') [
         token_set FC 3358 ''CONFIG_INITRAMFS_SOURCE'' ''$(RAMDISK_MOUNT_POINT)'' [],
         token_set FC 3359 ''CONFIG_INITRAMFS_ROOT_UID'' ''$(shell id -u)'' [],
         token_set FC 3360 ''CONFIG_INITRAMFS_ROOT_GID'' ''$(shell id -g)'' []],
       when_c (on ''CONFIG_RG_MAINFS_CRAMFS'') [token_set_y FC 3364 ''CONFIG_CRAMFS_FS''],
       when_c (on ''CONFIG_RG_MODFS_CRAMFS'') [
         token_set_y FC 3368 ''CONFIG_CRAMFS_FS'',
         token_set_y FC 3369 ''CONFIG_RG_MODFS''],
       when_c (on ''CONFIG_CRAMFS_FS'') [
         when_c (neg (on ''CONFIG_RG_JPKG_SRC'')) [token_set_y FC 3375 ''CONFIG_CRAMFS_FS_COMMON''],
         token_set_y FC 3377 ''CONFIG_CRAMFS'',
         token_set_y FC 3378 ''CONFIG_ZLIB_INFLATE'',
         token_set_y FC 3381 ''CONFIG_CRAMFS_DYN_BLOCKSIZE'',
         when_c (neg (has_str ''CONFIG_RG_CRAMFS_COMP_METHOD'')) [
           ifc (on ''CONFIG_RG_NONCOMPRESSED_USERMODE_IMAGE'') [
             token_set FC 3386 ''CONFIG_RG_CRAMFS_COMP_METHOD'' ''none'' []]
            [
             token_set FC 3388 ''CONFIG_RG_CRAMFS_COMP_METHOD'' ''lzma'' []]],
         when_c (on ''CONFIG_CRAMFS_DYN_BLOCKSIZE'') [
           ifc (str_is ''CONFIG_RG_CRAMFS_COMP_METHOD'' ''lzma'') [token_set FC 3396 ''CONFIG_CRAMFS_BLKSZ'' ''65536'' []]
            [token_set FC 3399 ''CONFIG_CRAMFS_BLKSZ'' ''32768'' []]]]]]"

definition general_features_35 :: "stmt" where
  "general_features_35 = block [
   when_c (on ''CONFIG_RG_OS_LINUX_24'') [
       when_c (on ''CONFIG_SIMPLE_RAMDISK'') [token_set_y FC 3407 ''CONFIG_RG_INITFS_RAMDISK''],
       when_c (neg (on ''CONFIG_RG_INITFS_RAMDISK'')) [token_set_y FC 3410 ''CONFIG_RG_ROOTFS_TMPFS''],
       when_c (on ''CONFIG_RG_MODFS'') [
         token_set_y FC 3414 ''CONFIG_ROMFS_FS'',
         token_set_y FC 3415 ''CONFIG_RG_MODFS_ROMFS''],
       when_c (on ''CONFIG_RG_ROOTFS_TMPFS'') [
         token_set_y FC 3420 ''CONFIG_TMPFS'',
         token_set_y FC 3421 ''CONFIG_RG_INITFS_CRAMFS''],
       token_set_y FC 3424 ''CONFIG_RG_LARGE_FILE_SUPPORT'',
       when_c (on ''CONFIG_RG_INITFS_RAMDISK'') [
         token_set_y FC 3428 ''CONFIG_BLK_DEV_INITRD'',
         token_set_y FC 3429 ''CONFIG_BLK_DEV_RAM'',
         token_set_y FC 3430 ''CONFIG_RG_ROOTFS_RAMDISK'',
         when_c (neg (on ''CONFIG_RG_UML'')) [token_set_y FC 3432 ''CONFIG_EMBEDDED_RAMDISK''],
         when_c (disj_c (neg (on ''CONFIG_RG_RGLOADER'')) (on ''CONFIG_RG_JPKG'')) [token_set_y FC 3436 ''CONFIG_EXT2_FS'']],
       when_c (on ''CONFIG_CRAMFS_FS'') [
         token_set_y FC 3442 ''CONFIG_CRAMFS_FS_COMMON'',
         token_set_y FC 3444 ''CONFIG_CRAMFS'',
         token_set_y FC 3445 ''CONFIG_ZLIB_INFLATE'',
         when_c (on ''CONFIG_COPY_CRAMFS_TO_RAM'') [token_set_y FC 3450 ''CONFIG_CRAMFS_DYN_BLOCKSIZE''],
         when_c (neg (has_str ''CONFIG_RG_CRAMFS_COMP_METHOD'')) [
           ifc (on ''CONFIG_RG_NONCOMPRESSED_USERMODE_IMAGE'') [
             token_set FC 3456 ''CONFIG_RG_CRAMFS_COMP_METHOD'' ''none'' []]
            [
             token_set FC 3458 ''CONFIG_RG_CRAMFS_COMP_METHOD'' ''lzma'' []]],
         when_c (on ''CONFIG_CRAMFS_DYN_BLOCKSIZE'') [
           ifc (str_is ''CONFIG_RG_CRAMFS_COMP_METHOD'' ''lzma'') [token_set FC 3466 ''CONFIG_CRAMFS_BLKSZ'' ''65536'' []]
            [token_set FC 3469 ''CONFIG_CRAMFS_BLKSZ'' ''32768'' []]]]],
   local_c (token_getz ''CONFIG_RG_KERNEL_COMP_METHOD'') (\<lambda>kernel_comp_method. [
       when_c (pure (kernel_comp_method = ''lzma'')) [token_set_y FC 3482 ''CONFIG_RG_LZMA_COMPRESSED_KERNEL''],
       when_c (pure (kernel_comp_method = ''gzip'')) [token_set_y FC 3484 ''CONFIG_RG_GZIP_COMPRESSED_KERNEL''],
       when_c (pure (kernel_comp_method = ''bzip2'')) [token_set_y FC 3486 ''CONFIG_RG_BZIP2_COMPRESSED_KERNEL''],
       when_c (on ''CONFIG_RG_BZIP2_COMPRESSED_KERNEL'') [token_set_y FC 3489 ''CONFIG_RG_BZIP2'']]),
   when_c (on ''CONFIG_HW_USB_HOST_UHCI'') [
       ifc (neg (on ''CONFIG_RG_OS_LINUX_26'')) [
         token_set_y FC 3496 ''CONFIG_RG_USB'',
         token_set_of FC 3497 ''CONFIG_USB_UHCI'' (token_get_str ''CONFIG_HW_USB_HOST_UHCI'')]
        [
         token_set_y FC 3502 ''CONFIG_USB'',
         token_set_of FC 3503 ''CONFIG_USB_UHCI_HCD'' (token_get_str ''CONFIG_HW_USB_HOST_UHCI'')],
       token_set_y FC 3506 ''CONFIG_USB_DEVICEFS'']]"

definition general_features_36 :: "stmt" where
  "general_features_36 = block [
   when_c (on ''CONFIG_HW_USB_HOST_OHCI'') [
       ifc (neg (on ''CONFIG_RG_OS_LINUX_26'')) [
         token_set_y FC 3513 ''CONFIG_RG_USB'',
         token_set_of FC 3514 ''CONFIG_USB_OHCI'' (token_get_str ''CONFIG_HW_USB_HOST_OHCI'')]
        [
         token_set_y FC 3519 ''CONFIG_USB'',
         token_set_of FC 3520 ''CONFIG_USB_OHCI_HCD'' (token_get_str ''CONFIG_HW_USB_HOST_OHCI'')],
       token_set_y FC 3523 ''CONFIG_USB_DEVICEFS''],
   when_c (on ''CONFIG_HW_USB_HOST_EHCI'') [
       ifc (neg (on ''CONFIG_RG_OS_LINUX_26'')) [token_set_y FC 3529 ''CONFIG_RG_USB'']
        [token_set_y FC 3531 ''CONFIG_USB''],
       token_set_y FC 3532 ''CONFIG_USB_DEVICEFS'',
       token_set_of FC 3533 ''CONFIG_USB_EHCI_HCD'' (token_get_str ''CONFIG_HW_USB_HOST_EHCI'')],
   when_c (on ''CONFIG_RG_WEBCAM'') [
       token_set_y FC 3539 ''CONFIG_RG_LIBJPEG'',
       token_set_y FC 3540 ''CONFIG_HW_CAMERA_USB_PWC'',
       token_set_y FC 3541 ''CONFIG_HW_CAMERA_USB_OV511'',
       token_set_y FC 3542 ''CONFIG_HW_CAMERA_USB_SPCA5XX''],
   when_c (on ''CONFIG_HW_FIREWIRE'') [
       token_set_of FC 3547 ''CONFIG_IEEE1394'' (token_get_str ''CONFIG_HW_FIREWIRE''),
       token_set_of FC 3548 ''CONFIG_IEEE1394_OHCI1394'' (token_get_str ''CONFIG_HW_FIREWIRE'')],
   when_c (on ''CONFIG_HW_USB_STORAGE'') [
       token_set_of FC 3554 ''CONFIG_USB_STORAGE'' (token_get_str ''CONFIG_HW_USB_STORAGE''),
       when_c (neg (on ''CONFIG_LSP_DIST'')) [token_set_y FC 3556 ''CONFIG_HOTPLUG'']],
   when_c (on ''CONFIG_HW_FIREWIRE_STORAGE'') [
       token_set_m FC 3562 ''CONFIG_IEEE1394_SBP2'',
       when_c (neg (on ''CONFIG_LSP_DIST'')) [token_set_y FC 3564 ''CONFIG_HOTPLUG'']],
   when_c (on ''CONFIG_RG_EVENT_LOGGING'') [
       token_set_y FC 3569 ''CONFIG_RG_SYSLOG'',
       token_set_m FC 3570 ''CONFIG_RG_LOG_DEV'',
       token_set FC 3571 ''CONFIG_LOG_FILES_MIN_SIZE'' ''12288'' [],
       token_set FC 3572 ''CONFIG_LOG_FILES_MAX_SIZE'' ''16384'' [],
       when_c (neg (on ''CONFIG_RG_OS_VXWORKS'')) [
         token_set_y FC 3575 ''CONFIG_RG_KERN_LOG'',
         token_set_y FC 3576 ''CONFIG_SYSLOG_UNIXSOCK_SUPPORT''],
       token_set_y FC 3578 ''CONFIG_RG_SYSLOG_REMOTE''],
   ifc (on ''CONFIG_RG_FW_ICSA'') [
       token_set FC 3583 ''CONFIG_RG_LOG_DEV_BUF_SIZE'' ''131072'' [],
       token_set FC 3584 ''CONFIG_RG_SYSLOG_FW_DEF_SIZE'' ''131072'' [],
       token_set_y FC 3586 ''CONFIG_RG_SSL'',
       token_set_y FC 3588 ''CONFIG_RG_PPPOS_CLI'']
      [
       when_c (conj_c (on ''CONFIG_RG_SYSLOG'') (neg (on ''CONFIG_RG_LOG_DEV_BUF_SIZE''))) [
         token_set FC 3594 ''CONFIG_RG_LOG_DEV_BUF_SIZE'' ''102400'' [],
         token_set FC 3595 ''CONFIG_RG_SYSLOG_FW_DEF_SIZE'' ''102400'' []]],
   when_c (conj_c (neg (on ''CONFIG_RG_BUILD_LOCAL_TARGETS_ONLY'')) (disj_c (disj_c (on ''CONFIG_RG_JPKG'') (on ''CONFIG_GLIBC'')) (conj_c (on ''CONFIG_ULIBC'') (on ''ULIBC_IN_TOOLCHAIN'')))) [token_set_y FC 3607 ''CONFIG_RG_SYSLOG_GLIBC''],
   when_c (disj_c (on ''CONFIG_RG_SYSLOG'') (on ''CONFIG_RG_SYSLOG_GLIBC'')) [token_set_y FC 3610 ''CONFIG_RG_SYSLOG_COMMON''],
   when_c (on ''CONFIG_HW_CAMERA_USB_OV511'') [
       token_set_of FC 3615 ''CONFIG_USB_OV511'' (token_get_str ''CONFIG_HW_CAMERA_USB_OV511'')],
   when_c (on ''CONFIG_HW_CAMERA_USB_PWC'') [
       token_set_of FC 3621 ''CONFIG_USB_PWC'' (token_get_str ''CONFIG_HW_CAMERA_USB_PWC'')],
   when_c (on ''CONFIG_HW_CAMERA_USB_SPCA5XX'') [
       token_set_of FC 3626 ''CONFIG_USB_SPCA5XX'' (token_get_str ''CONFIG_HW_CAMERA_USB_SPCA5XX'')]]"

definition general_features_37 :: "stmt" where
  "general_features_37 = block [
   when_c (disj_c (disj_c (on ''CONFIG_HW_CAMERA_USB_OV511'') (on ''CONFIG_HW_CAMERA_USB_PWC'')) (on ''CONFIG_HW_CAMERA_USB_SPCA5XX'')) [
       token_set_y FC 3635 ''CONFIG_VIDEO_DEV'',
       token_set_y FC 3636 ''CONFIG_VIDEO_PROC_FS''],
   when_c (on ''CONFIG_HW_PCMCIA_CARDBUS'') [
       token_set_y FC 3642 ''CONFIG_HOTPLUG'',
       token_set_y FC 3643 ''CONFIG_CARDBUS'',
       token_set_of FC 3644 ''CONFIG_PCMCIA'' (token_get_str ''CONFIG_HW_PCMCIA_CARDBUS'')],
   when_c (disj_c (on ''CONFIG_IEEE1394_SBP2'') (on ''CONFIG_USB_STORAGE'')) [
       token_set_y FC 3650 ''CONFIG_SCSI'',
       token_set_y FC 3651 ''CONFIG_BLK_DEV_SD'',
       token_set FC 3652 ''CONFIG_SD_EXTRA_DEVS'' ''32'' [],
       token_set_y FC 3653 ''CONFIG_RG_STORAGE''],
   when_c (on ''CONFIG_RG_BLUETOOTH'') [
       when_c (on ''CONFIG_RG_OS_LINUX_24'') [
         token_set_y FC 3660 ''CONFIG_BLUEZ'',
         token_set_y FC 3661 ''CONFIG_BLUEZ_L2CAP'',
         token_set_y FC 3662 ''CONFIG_BLUEZ_RFCOMM'',
         token_set_y FC 3663 ''CONFIG_BLUEZ_SCO'',
         token_set_y FC 3664 ''CONFIG_BLUEZ_BNEP'',
         token_set_y FC 3665 ''CONFIG_BLUEZ_BNEP_MC_FILTER'',
         token_set_y FC 3666 ''CONFIG_BLUEZ_BNEP_PROTO_FILTER'',
         when_c (disj_c (on ''CONFIG_HW_USB_HOST_OHCI'') (on ''CONFIG_HW_USB_HOST_UHCI'')) [token_set_m FC 3671 ''CONFIG_BLUEZ_HCIUSB'']],
       when_c (on ''CONFIG_RG_OS_LINUX_26'') [
         token_set_y FC 3677 ''CONFIG_BT'',
         token_set_y FC 3678 ''CONFIG_BT_L2CAP'',
         token_set_y FC 3679 ''CONFIG_BT_RFCOMM'',
         token_set_y FC 3680 ''CONFIG_BT_SCO'',
         token_set_y FC 3681 ''CONFIG_BT_BNEP'',
         token_set_y FC 3682 ''CONFIG_BT_BNEP_MC_FILTER'',
         token_set_y FC 3683 ''CONFIG_BT_BNEP_PROTO_FILTER''],
       token_set_y FC 3686 ''CONFIG_RG_BLUETOOTH_PAN'',
       token_set_y FC 3687 ''CONFIG_HOTPLUG''],
   when_c (on ''CONFIG_RG_STORAGE'') [
       token_set_y FC 3692 ''CONFIG_EXT2_FS'',
       token_set_y FC 3693 ''CONFIG_FAT_FS'',
       token_set_y FC 3694 ''CONFIG_MSDOS_FS'',
       token_set_y FC 3695 ''CONFIG_VFAT_FS'',
       token_set FC 3696 ''CONFIG_FAT_DEFAULT_CODEPAGE'' ''437'' [],
       when_c (neg (has_str ''CONFIG_RG_CODEPAGE'')) [token_set FC 3698 ''CONFIG_RG_CODEPAGE'' ''\"437\"'' []],
       token_set_y FC 3699 ''CONFIG_MSDOS_PARTITION'',
       when_c (neg (on ''CONFIG_LSP_DIST'')) [token_set_y FC 3701 ''CONFIG_RG_STORAGE_UTILS'']],
   ifc (has_str ''CONFIG_RG_CODEPAGE'') [
       token_set_y FC 3706 ''CONFIG_NLS'',
       token_set_y FC 3707 ''CONFIG_NLS_CODEPAGE_437'',
       token_set_y FC 3708 ''CONFIG_NLS_CODEPAGE_850'',
       token_set_y FC 3709 ''CONFIG_NLS_UTF8'',
       token_set_of FC 3710 ''CONFIG_NLS_DEFAULT'' (token_get_str ''CONFIG_RG_CODEPAGE'')]
      [token_set FC 3713 ''CONFIG_RG_CODEPAGE'' ''\"\"'' []],
   when_c (on ''CONFIG_HW_BUTTONS'') [token_set_m FC 3717 ''CONFIG_RG_HW_BUTTONS''],
   when_c (on ''CONFIG_RG_FILESERVER'') [
       token_set FC 3725 ''CONFIG_RG_MAX_FAT_CHECK_SIZE'' ''1'' [],
       when_c (atoi_le ''CONFIG_SDRAM_SIZE'' 32) [
         token_set FC 3727 ''CONFIG_RG_MAX_EXT2_CHECK_SIZE'' ''80'' []]],
   when_c (on ''CONFIG_RG_RGLOADER'') [
       token_set_m FC 3732 ''CONFIG_RG_KOS'',
       token_set_y FC 3735 ''CONFIG_RG_BUSYBOX'',
       token_set_y FC 3738 ''CONFIG_RG_LANG'',
       token_set FC 3739 ''CONFIG_RG_LANGUAGES'' ''DEF'' [],
       token_set FC 3740 ''CONFIG_RG_DIST_LANG'' ''eng'' []]]"

definition general_features_38 :: "stmt" where
  "general_features_38 = block [
   when_c (disj_c (on ''CONFIG_RG_RGLOADER'') (on ''CONFIG_RG_RGLOADER_CLI_CMD'')) [
       token_set_y FC 3746 ''CONFIG_RGLOADER_CLI'',
       token_set_y FC 3747 ''CONFIG_RG_CLI'',
       when_c (neg (on ''CONFIG_I386_BOCHS'')) [token_set_y FC 3749 ''CONFIG_RG_PERM_STORAGE''],
       token_set_y FC 3750 ''CONFIG_RG_PING'',
       ifc (on ''CONFIG_RG_OS_VXWORKS'') [token_set_y FC 3752 ''CONFIG_RG_CLI_SERVER'']
        [token_set_y FC 3754 ''CONFIG_RG_CLI_SERIAL''],
       token_set_y FC 3756 ''CONFIG_RG_WGET''],
   when_c is_dsp_configurable [token_set_y FC 3761 ''CONFIG_RG_AUDIO_MGT''],
   when_c (neg (has_str ''CONFIG_RG_DIST_LANG'')) [token_set FC 3766 ''CONFIG_RG_DIST_LANG'' ''eng'' []],
   when_c (neg (has_str ''RG_PROD_STR'')) [token_set FC 3769 ''RG_PROD_STR'' ''OpenRG'' []],
   when_c (on ''CONFIG_RG_FLASH_ONLY_ON_BOOT'') [token_set_y FC 3772 ''CONFIG_RG_RMT_UPGRADE_IMG_IN_MEM''],
   when_c (conj_c (on ''CONFIG_ULIBC'') (on ''CONFIG_DYN_LINK'')) [token_set_y FC 3775 ''CONFIG_ULIBC_SHARED''],
   when_c (disj_c (on ''CONFIG_RG_JFW'') (on ''CONFIG_RG_PPTPC'')) [token_set_m FC 3778 ''CONFIG_RG_FRAG_CACHE''],
   when_c (on ''CONFIG_ATHEROS_AR531X_MIPS'') [token_set FC 3781 ''LIBC_ARCH'' ''mips'' []],
   when_c (conj_c (on ''CONFIG_I386_BOCHS'') (on ''CONFIG_RG_OS_VXWORKS'')) [
       token_set FC 3785 ''LIBC_ARCH'' ''i386'' [],
       token_set FC 3786 ''ARCH'' ''i386'' []],
   when_c (disj_c (disj_c (on ''CONFIG_RG_PPP'') (on ''CONFIG_RG_8021X'')) (on ''CONFIG_RG_RADIUS'')) [token_set_y FC 3792 ''CONFIG_RG_AUTH''],
   when_c (on ''CONFIG_PCBOX'') [token_set_y FC 3795 ''CONFIG_RG_BOOTLDR''],
   when_c (conj_c (neg (on ''CONFIG_LSP_DIST'')) hw_set) [
       token_set_y FC 3798 ''CONFIG_RG_TZ'',
       token_set_y FC 3799 ''CONFIG_RG_MGT'',
       token_set_y FC 3803 ''CONFIG_RG_OPENSSL_COMMON''],
   when_c (on ''CONFIG_RG_OPENSSL_COMMON'') [
       token_set_y FC 3807 ''CONFIG_RG_OPENSSL_MD5'',
       when_c (neg (on ''CONFIG_RG_RGLOADER'')) [
         token_set_y FC 3810 ''CONFIG_RG_OPENSSL_SHA'',
         token_set_y FC 3811 ''CONFIG_RG_OPENSSL_DES'',
         token_set_y FC 3812 ''CONFIG_RG_OPENSSL_MD4'']],
   when_c (on ''CONFIG_RG_TARGET_LINUX'') [token_set_y FC 3816 ''CONFIG_RG_LZMA''],
   when_c (disj_c (on ''CONFIG_RG_CABLEHOME'') (on ''CONFIG_RG_DSL_CH'')) [token_set_y FC 3818 ''CONFIG_RG_CABLEHOME_COMMON''],
   when_c (on ''CONFIG_RG_TCPDUMP'') [
       token_set_y FC 3821 ''CONFIG_RG_LIBPCAP'',
       token_set_y FC 3822 ''CONFIG_RG_TERMCAP''],
   when_c (disj_c (disj_c (on ''CONFIG_RG_DHCPC'') (on ''CONFIG_RG_DHCPS'')) (on ''CONFIG_RG_DHCPR'')) [token_set_y FC 3827 ''CONFIG_RG_DHCP_COMMON''],
   when_c (disj_c (on ''CONFIG_RG_RGLOADER'') (on ''CONFIG_RG_RGLOADER_CLI_CMD'')) [token_set_y FC 3832 ''CONFIG_RG_RGLOADER_COMMON''],
   when_c (disj_c (on ''CONFIG_FREESWAN'') (on ''CONFIG_LIBDES'')) [token_set_y FC 3835 ''CONFIG_FREESWAN_COMMON''],
   when_c (on ''CONFIG_RG_STORAGE_UTILS'') [
       token_set_y FC 3838 ''CONFIG_RG_E2FSPROGS'',
       token_set_y FC 3839 ''CONFIG_RG_DOSFSTOOLS '',
       token_set_y FC 3840 ''CONFIG_RG_UTIL_LINUX''],
   when_c (disj_c (disj_c (on ''CONFIG_RG_PING'') (on ''CONFIG_RG_CONN_SPEED'')) (on ''CONFIG_RG_TRACEROUTE'')) [token_set_y FC 3845 ''CONFIG_RG_TEST_TOOLS''],
   when_c (on ''CONFIG_RG_FILESERVER_ACLS'') [
       token_set_y FC 3849 ''CONFIG_RG_ATTR'',
       token_set_y FC 3850 ''CONFIG_RG_ACL''],
   when_c (on ''CONFIG_RG_FS_BACKUP'') [
       token_set_y FC 3854 ''CONFIG_RG_STAR'',
       token_set_y FC 3855 ''CONFIG_RG_BACKUP''],
   when_c (disj_c (disj_c (on ''CONFIG_RG_SAMPLES'') (on ''CONFIG_RG_TUTORIAL'')) (on ''CONFIG_RG_TUTORIAL_ADVANCED'')) [token_set_y FC 3860 ''CONFIG_RG_SAMPLES_COMMON'']]"

definition general_features_39 :: "stmt" where
  "general_features_39 = block [
   when_c (on ''CONFIG_RG_IPERF'') [token_set_y FC 3864 ''CONFIG_RG_CXX''],
   when_c (conj_c (on ''CONFIG_RG_CXX'') (on ''CONFIG_ULIBC'')) [token_set_y FC 3867 ''CONFIG_UCLIBCXX''],
   when_c (on ''CONFIG_RG_RGLOADER'') [token_set_y FC 3870 ''CONFIG_RG_TELNETS''],
   when_c (on ''CONFIG_RG_SSH'') [
       token_set_y FC 3874 ''CONFIG_RG_CLI_SERVER'',
       token_set_y FC 3875 ''CONFIG_RG_OPENSSL_BLOWFISH'',
       token_set_y FC 3876 ''CONFIG_RG_OPENSSL_CAST''],
   when_c (conj_c (on ''CONFIG_RG_JPKG_BIN'') (on ''CONFIG_HW_80211N_AIRGO_AGN100'')) [token_set_y FC 3882 ''CONFIG_RG_JPKG_BUILD_LIBC''],
   token_set FC 3885 ''RMT_UPG_SITE'' ''update.jungo.com'' [],
   token_set FC 3887 ''RMT_UPG_URL'' ''http%s://%s/'' [(cond_str (on ''CONFIG_RG_SSL'') ''s'' ''''), (str_arg ''RMT_UPG_SITE'')],
   when_c (on ''CONFIG_RG_JNET_CLIENT'') [
       token_set FC 3893 ''RMT_UPG_URL'' ''http://%s/'' [(str_arg ''RMT_UPG_SITE'')]],
   when_c (neg (on ''CONFIG_RG_BUILD_LOCAL_TARGETS_ONLY'')) [
       token_set_y FC 3898 ''CONFIG_RG_ZLIB'',
       token_set_y FC 3899 ''CONFIG_RG_KERNEL'',
       token_set_y FC 3900 ''CONFIG_RG_MAIN'',
       token_set_y FC 3901 ''CONFIG_RG_VENDOR''],
   when_c (on ''CONFIG_RG_MTD_DEFAULT_PARTITION'') [
       when_c (disj_c (disj_c (neg (on ''CONFIG_RG_MTD'')) (neg (on ''CONFIG_MTD_PHYSMAP_START''))) (neg (on ''CONFIG_MTD_PHYSMAP_LEN''))) [conf_err (''ERROR: Incorrect MTD configuration'' @ [NL])]],
   when_c (conj_c (on ''CONFIG_RG_CERT'') (token_cmp (\<lambda>v. v = 1) ''CONFIG_RG_ADV_SERVICES_LEVEL'')) [token_set_y FC 3917 ''CONFIG_RG_CERT_SHORT_LIST'']]"

lemma ok_general_features_31 [safe_scripts]: "ok base_schema value_tokens J general_features_31"
  unfolding general_features_31_def
  by (intro safe_intros shipped.ok_sets shipped.ok_enable_module safe_scripts; simp)


lemma ok_general_features_32 [safe_scripts]: "ok base_schema value_tokens J general_features_32"
  unfolding general_features_32_def
  by (intro safe_intros shipped.ok_sets shipped.ok_enable_module safe_scripts; simp)


lemma ok_general_features_33 [safe_scripts]: "ok base_schema value_tokens J general_features_33"
  unfolding general_features_33_def
  by (intro safe_intros shipped.ok_sets shipped.ok_enable_module safe_scripts; simp)


lemma ok_general_features_34 [safe_scripts]: "ok base_schema value_tokens J general_features_34"
  unfolding general_features_34_def
  by (intro safe_intros shipped.ok_sets shipped.ok_enable_module safe_scripts; simp)


lemma ok_general_features_35 [safe_scripts]: "ok base_schema value_tokens J general_features_35"
  unfolding general_features_35_def
  by (intro safe_intros shipped.ok_sets shipped.ok_enable_module safe_scripts; simp)


lemma ok_general_features_36 [safe_scripts]: "ok base_schema value_tokens J general_features_36"
  unfolding general_features_36_def
  by (intro safe_intros shipped.ok_sets shipped.ok_enable_module safe_scripts; simp)


lemma ok_general_features_37 [safe_scripts]: "ok base_schema value_tokens J general_features_37"
  unfolding general_features_37_def
  by (intro safe_intros shipped.ok_sets shipped.ok_enable_module safe_scripts; simp)


lemma ok_general_features_38 [safe_scripts]: "ok base_schema value_tokens J general_features_38"
  unfolding general_features_38_def
  by (intro safe_intros shipped.ok_sets shipped.ok_enable_module safe_scripts; simp)


lemma ok_general_features_39 [safe_scripts]: "ok base_schema value_tokens J general_features_39"
  unfolding general_features_39_def
  by (intro safe_intros shipped.ok_sets shipped.ok_enable_module safe_scripts; simp)


end
