(* ===== verification/Feature_Config.thy ===== *)
theory Feature_Config
  imports Feature_Config_1 Feature_Config_2 Feature_Config_3 Feature_Config_4
begin

text \<open>
  The feature scripts of \<open>feature_config.c\<close>: the package bundles, the features that follow
  from other features, and the ones always defined.
\<close>

definition package_features :: "stmt" where
  "package_features = block [
   when_c (on ''PACKAGE_OPENRG_SOHO_GATEWAY'') [
       token_set_y FC 111 ''MODULE_RG_FOUNDATION'',
       token_set_y FC 112 ''MODULE_RG_ADVANCED_MANAGEMENT'',
       token_set_y FC 113 ''MODULE_RG_SNMP'',
       token_set_y FC 114 ''MODULE_RG_UPNP'',
       token_set_y FC 115 ''MODULE_RG_ADVANCED_ROUTING'',
       token_set_y FC 116 ''MODULE_RG_FIREWALL_AND_SECURITY'',
       token_set_y FC 117 ''MODULE_RG_WLAN_AND_ADVANCED_WLAN'',
       token_set_y FC 118 ''MODULE_RG_PPTP'',
       token_set_y FC 119 ''MODULE_RG_IPSEC'',
       token_set_y FC 120 ''MODULE_RG_L2TP'',
       token_set_y FC 121 ''MODULE_RG_FILESERVER'',
       token_set_y FC 122 ''MODULE_RG_PRINTSERVER'',
       token_set_y FC 123 ''CONFIG_RG_SMB''],
   when_c (on ''PACKAGE_OPENRG_VPN_GATEWAY'') [
       token_set_y FC 128 ''MODULE_RG_FOUNDATION'',
       token_set_y FC 129 ''MODULE_RG_ADVANCED_MANAGEMENT'',
       token_set_y FC 130 ''MODULE_RG_SNMP'',
       token_set_y FC 131 ''MODULE_RG_UPNP'',
       token_set_y FC 132 ''MODULE_RG_ADVANCED_ROUTING'',
       token_set_y FC 133 ''MODULE_RG_FIREWALL_AND_SECURITY'',
       token_set_y FC 134 ''MODULE_RG_WLAN_AND_ADVANCED_WLAN'',
       token_set_y FC 135 ''MODULE_RG_PPTP'',
       token_set_y FC 136 ''MODULE_RG_IPSEC'',
       token_set_y FC 137 ''MODULE_RG_L2TP''],
   when_c (on ''PACKAGE_OPENRG_SECURITY_GATEWAY'') [
       token_set_y FC 142 ''MODULE_RG_FOUNDATION'',
       token_set_y FC 143 ''MODULE_RG_ADVANCED_MANAGEMENT'',
       token_set_y FC 144 ''MODULE_RG_SNMP'',
       token_set_y FC 145 ''MODULE_RG_UPNP'',
       token_set_y FC 146 ''MODULE_RG_ADVANCED_ROUTING'',
       token_set_y FC 147 ''MODULE_RG_FIREWALL_AND_SECURITY'',
       token_set_y FC 148 ''MODULE_RG_WLAN_AND_ADVANCED_WLAN''],
   when_c (on ''PACKAGE_OPENRG_BASIC_GATEWAY'') [
       token_set_y FC 159 ''MODULE_RG_FOUNDATION'',
       token_set_y FC 160 ''MODULE_RG_ADVANCED_MANAGEMENT'']]"

definition openrg_features :: "stmt" where
  "openrg_features = block [
   token_set_y FC 3924 ''CONFIG_EXPORT_BINARIES'',
   when_c (on ''CONFIG_INSURE'') [token_set_y FC 3928 ''CONFIG_GLIBC''],
   when_c (on ''CONFIG_VALGRIND'') [
       token_set_y FC 3932 ''CONFIG_GLIBC'',
       token_set_y FC 3933 ''OPENRG_DEBUG''],
   when_c (conj_c (neg (on ''CONFIG_GLIBC'')) (neg (on ''CONFIG_RG_NOT_UNIX''))) [token_set_y FC 3937 ''CONFIG_ULIBC''],
   when_c (neg (on ''CONFIG_RG_NOT_UNIX'')) [token_set_y FC 3940 ''CONFIG_UNIX''],
   token_set_y FC 3945 ''CONFIG_FREEPAGES_THRESHOLD'',
   token_set_y FC 3947 ''CONFIG_RG_FACTORY_SETTINGS'',
   token_set_y FC 3949 ''CONFIG_SYN_COOKIES'',
   token_set FC 3952 ''OPENRG_CHRDEV_NAME'' ''rg_chrdev'' [],
   token_set FC 3953 ''OPENRG_CHRDEV_MAJOR'' ''240'' [],
   when_c (conj_c is_evaluation (neg (on ''CONFIG_RG_BUILD_LOCAL_TARGETS_ONLY''))) [token_set_y FC 3956 ''CONFIG_LICENSE_AGREEMENT'']]"

definition general_features :: stmt where
  "general_features = block [
     general_features_1,
     general_features_2,
     general_features_3,
     general_features_4,
     general_features_5,
     general_features_6,
     general_features_7,
     general_features_8,
     general_features_9,
     general_features_10,
     general_features_11,
     general_features_12,
     general_features_13,
     general_features_14,
     general_features_15,
     general_features_16,
     general_features_17,
     general_features_18,
     general_features_19,
     general_features_20,
     general_features_21,
     general_features_22,
     general_features_23,
     general_features_24,
     general_features_25,
     general_features_26,
     general_features_27,
     general_features_28,
     general_features_29,
     general_features_30,
     general_features_31,
     general_features_32,
     general_features_33,
     general_features_34,
     general_features_35,
     general_features_36,
     general_features_37,
     general_features_38,
     general_features_39]"

lemma ok_package_features [safe_scripts]: "ok base_schema value_tokens J package_features"
  unfolding package_features_def
  by (intro safe_intros shipped.ok_sets shipped.ok_enable_module safe_scripts; simp)


lemma ok_openrg_features [safe_scripts]: "ok base_schema value_tokens J openrg_features"
  unfolding openrg_features_def
  by (intro safe_intros shipped.ok_sets shipped.ok_enable_module safe_scripts; simp)


lemma ok_general_features [safe_scripts]: "ok base_schema value_tokens J general_features"
  unfolding general_features_def by (intro safe_intros safe_scripts)

end
