(* ===== verification/Target_Os.thy ===== *)
theory Target_Os
  imports Feature_Base
begin

text \<open>
  \<open>config_target_os.c\<close>: the options that follow from the operating system. The caller
  passes the global \<open>os\<close>, so the model reads it from the state.
\<close>

definition TC :: string where
  "TC = ''config_target_os.c''"

definition target_primary_os :: "stmt" where
  "target_primary_os = block [
   ifc (on ''CONFIG_RG_OS_LINUX_24'') [token_set TC 40 ''CONFIG_RG_OS'' ''LINUX_24'' []]
      [
       ifc (on ''CONFIG_RG_OS_LINUX_26'') [token_set TC 42 ''CONFIG_RG_OS'' ''LINUX_26'' []]
        [
         ifc (on ''CONFIG_RG_OS_ECOS'') [token_set TC 44 ''CONFIG_RG_OS'' ''ECOS'' []]
          [
           when_c (on ''CONFIG_RG_OS_VXWORKS'') [token_set TC 46 ''CONFIG_RG_OS'' ''VXWORKS'' []]]]]]"

definition target_os_features_1 :: "stmt" where
  "target_os_features_1 = block [
   ifc (os_is ''LINUX_24'') [token_set_y TC 53 ''CONFIG_RG_OS_LINUX_24'']
      [
       ifc (os_is ''LINUX_26'') [token_set_y TC 55 ''CONFIG_RG_OS_LINUX_26'']
        [
         ifc (os_is ''ECOS'') [token_set_y TC 57 ''CONFIG_RG_OS_ECOS'']
          [
           when_c (os_is ''VXWORKS'') [token_set_y TC 59 ''CONFIG_RG_OS_VXWORKS'']]]],
   when_c (on ''CONFIG_RG_OS_VXWORKS'') [
       token_set_y TC 64 ''CONFIG_RG_NOT_UNIX'',
       token_set_y TC 65 ''CONFIG_RG_EFSS'',
       when_c (on ''CONFIG_RG_DEV'') [token_set_y TC 67 ''CONFIG_VX_SYMTBL''],
       token_set_y TC 68 ''CONFIG_RG_VX_TIMERS_TASK''],
   when_c (on ''CONFIG_RG_OS_LINUX_26'') [
       token_set_y TC 74 ''CONFIG_RG_OS_LINUX'',
       token_set TC 78 ''CONFIG_INIT_ENV_ARG_LIMIT'' ''32'' [],
       token_set_y TC 79 ''CONFIG_PRINTK'',
       token_set TC 80 ''CONFIG_LOG_BUF_SHIFT'' ''14'' [],
       token_set_y TC 81 ''CONFIG_BUG'',
       token_set_y TC 82 ''CONFIG_TINY_SHMEM'',
       token_set TC 83 ''CONFIG_BASE_SMALL'' ''0'' [],
       token_set_y TC 84 ''CONFIG_GENERIC_CALIBRATE_DELAY'',
       when_c (conj_c (neg (on ''CONFIG_COMCERTO_COMMON'')) (neg (on ''CONFIG_ARCH_SOLOS''))) [token_set_y TC 88 ''CONFIG_GENERIC_HARDIRQS''],
       token_set_y TC 90 ''CONFIG_SYSCTL'',
       token_set_y TC 91 ''CONFIG_BINFMT_ELF'',
       token_set_y TC 92 ''CONFIG_CRC32'',
       token_set_y TC 93 ''CONFIG_MMU'',
       token_set_y TC 94 ''CONFIG_IOSCHED_NOOP'',
       token_set_y TC 95 ''CONFIG_IOSCHED_AS'',
       token_set_y TC 96 ''CONFIG_IOSCHED_DEADLINE'',
       token_set_y TC 97 ''CONFIG_IOSCHED_CFQ'',
       token_set_y TC 98 ''CONFIG_SYSVIPC'',
       token_set TC 99 ''CONFIG_DEFAULT_IOSCHED'' ''\"anticipatory\"'' [],
       token_set_y TC 100 ''CONFIG_SLAB'',
       token_set_y TC 104 ''CONFIG_RAMFS'',
       when_c (neg (on ''CONFIG_RG_RGLOADER'')) [
         token_set_y TC 108 ''CONFIG_PROC_FS'',
         token_set_y TC 109 ''CONFIG_SYSFS'',
         token_set_m TC 110 ''CONFIG_RG_IPV4''],
       token_set_y TC 115 ''CONFIG_MODULES'',
       when_c (neg (on ''CONFIG_ARCH_SOLOS'')) [token_set_y TC 117 ''CONFIG_MODULE_UNLOAD''],
       token_set_y TC 118 ''CONFIG_OBSOLETE_MODPARM'',
       token_set_y TC 119 ''CONFIG_KMOD'',
       token_set_y TC 123 ''CONFIG_NET'',
       token_set_y TC 124 ''CONFIG_NETDEVICES'',
       token_set_y TC 125 ''CONFIG_PACKET'',
       token_set_y TC 126 ''CONFIG_UNIX'',
       token_set_y TC 127 ''CONFIG_INET'',
       token_set_y TC 128 ''CONFIG_IP_MULTICAST'',
       token_set_y TC 129 ''CONFIG_IP_FIB_HASH'',
       token_set_y TC 130 ''CONFIG_IP_ADVANCED_ROUTER'',
       token_set_y TC 131 ''CONFIG_NET_ETHERNET'',
       token_set_y TC 132 ''CONFIG_IP_MULTIPLE_TABLES'',
       token_set_y TC 133 ''CONFIG_XFRM'',
       token_set_y TC 134 ''CONFIG_NET_SCH_CLK_JIFFIES'',
       token_set_y TC 137 ''CONFIG_LEGACY_PTYS'',
       token_set TC 138 ''CONFIG_LEGACY_PTY_COUNT'' ''256'' [],
       token_set TC 141 ''CONFIG_RG_KERNEL_COMP_METHOD'' ''lzma'' []]]"

definition target_os_features_2 :: "stmt" where
  "target_os_features_2 = block [
   when_c (on ''CONFIG_RG_OS_LINUX_24'') [
       token_set_y TC 146 ''CONFIG_UID16'',
       token_set_y TC 147 ''CONFIG_RWSEM_GENERIC_SPINLOCK'',
       token_set_y TC 148 ''CONFIG_IP_MULTICAST'',
       token_set_y TC 149 ''CONFIG_IP_ADVANCED_ROUTER'',
       token_set_y TC 150 ''CONFIG_UNIX'',
       token_set_y TC 151 ''CONFIG_RG_OS_LINUX'',
       token_set_y TC 152 ''CONFIG_INET'',
       token_set_y TC 153 ''CONFIG_MODULES'',
       token_set_y TC 154 ''CONFIG_NET'',
       token_set_y TC 155 ''CONFIG_NETDEVICES'',
       token_set_y TC 156 ''CONFIG_NETLINK_DEV'',
       token_set_y TC 157 ''CONFIG_FILTER'',
       token_set_y TC 158 ''CONFIG_NET_ETHERNET'',
       token_set_y TC 159 ''CONFIG_PACKET'',
       token_set_y TC 160 ''CONFIG_SYSVIPC'',
       when_c (neg (on ''CONFIG_RG_RGLOADER'')) [
         token_set_y TC 164 ''CONFIG_PROC_FS'',
         token_set_m TC 165 ''CONFIG_RG_IPV4''],
       token_set TC 169 ''CONFIG_RG_KERNEL_COMP_METHOD'' ''lzma'' []],
   when_c (on ''CONFIG_RG_OS_LINUX'') [token_set_y TC 173 ''CONFIG_RG_TTYP''],
   when_c (on ''CONFIG_RG_OS_LINUX'') [token_set_y TC 177 ''CONFIG_RG_TARGET_LINUX''],
   when_c (on ''CONFIG_RG_OS_VXWORKS'') [token_set_y TC 179 ''CONFIG_RG_TARGET_VXWORKS'']]"

definition target_os_features :: stmt where
  "target_os_features = block [target_os_features_1, target_os_features_2]"

lemma ok_target_primary_os [safe_scripts]: "ok base_schema value_tokens J target_primary_os"
  unfolding target_primary_os_def
  by (intro safe_intros shipped.ok_sets shipped.ok_enable_module safe_scripts; simp)


lemma ok_target_os_features_1 [safe_scripts]: "ok base_schema value_tokens J target_os_features_1"
  unfolding target_os_features_1_def
  by (intro safe_intros shipped.ok_sets shipped.ok_enable_module safe_scripts; simp)


lemma ok_target_os_features_2 [safe_scripts]: "ok base_schema value_tokens J target_os_features_2"
  unfolding target_os_features_2_def
  by (intro safe_intros shipped.ok_sets shipped.ok_enable_module safe_scripts; simp)


lemma ok_target_os_features [safe_scripts]: "ok base_schema value_tokens J target_os_features"
  unfolding target_os_features_def by (intro safe_intros safe_scripts)

end
