(* ===== verification/Hw_Base.thy ===== *)
theory Hw_Base
  imports Feature_Base
begin

text \<open>
  The helpers of \<open>hw_config.c\<close> that several boards share. Where device declarations are
  compiled out they take their interface names and leave them unused.
\<close>

definition HC :: string where
  "HC = ''hw_config.c''"

definition ralink_rt256x_add :: "string \<Rightarrow> string \<Rightarrow> stmt" where
  "ralink_rt256x_add wl_name config = block [
     when_c (on ''MODULE_RG_WLAN_AND_ADVANCED_WLAN'') [
       token_set_y HC 46 ''CONFIG_80211G_AP_ADVANCED'',
       token_set_y HC 47 ''CONFIG_RG_VENDOR_WLAN_SEC'',
       token_set_y HC 48 ''CONFIG_RG_RADIUS_WBM_IN_CONN'',
       token_set_y HC 49 ''CONFIG_RG_WPA_WBM'',
       token_set_y HC 50 ''CONFIG_RG_8021X_WBM'',
       when_c (pure (config = ''CONFIG_RALINK_RT2561''))
         [token_set_y HC 52 ''CONFIG_RG_WLAN_AUTO_CHANNEL_SELECT'']],
     token_set_m HC 54 config,
     when_c (on ''CONFIG_RG_JPKG'') []]"

definition ralink_rt2560_add :: "string \<Rightarrow> stmt" where
  "ralink_rt2560_add wl_name = ralink_rt256x_add wl_name ''CONFIG_RALINK_RT2560''"

definition ralink_rt2561_add :: "string \<Rightarrow> stmt" where
  "ralink_rt2561_add wl_name = ralink_rt256x_add wl_name ''CONFIG_RALINK_RT2561''"

definition bcm43xx_add :: "string option \<Rightarrow> stmt" where
  "bcm43xx_add wl_name =
     when_c (on ''MODULE_RG_WLAN_AND_ADVANCED_WLAN'') [
       token_set_y HC 86 ''CONFIG_RG_VENDOR_WLAN_SEC'',
       token_set_y HC 87 ''CONFIG_RG_8021X_MD5'',
       token_set_y HC 88 ''CONFIG_RG_8021X_TLS'',
       token_set_y HC 89 ''CONFIG_RG_8021X_TTLS'',
       token_set_y HC 90 ''CONFIG_RG_8021X_RADIUS'',
       token_set_y HC 91 ''CONFIG_RG_RADIUS_WBM_IN_CONN'',
       token_set_y HC 92 ''CONFIG_RG_WPA_WBM'',
       token_set_y HC 93 ''CONFIG_RG_WPA_BCM'']"

definition atheros_ar521x_add :: "string \<Rightarrow> string list \<Rightarrow> stmt" where
  "atheros_ar521x_add wl_name vap_names = block [
     token_set_y HC 101 ''CONFIG_NET_RADIO'',
     token_set_y HC 102 ''CONFIG_NET_WIRELESS'',
     when_c (on ''MODULE_RG_WLAN_AND_ADVANCED_WLAN'') [
       token_set_y HC 106 ''CONFIG_80211G_AP_ADVANCED'',
       token_set_y HC 107 ''CONFIG_RG_VENDOR_WLAN_SEC'',
       token_set_y HC 108 ''CONFIG_RG_RADIUS_WBM_IN_CONN'',
       token_set_y HC 109 ''CONFIG_RG_WPA_WBM'',
       token_set_y HC 110 ''CONFIG_RG_8021X_WBM'',
       token_set_y HC 111 ''CONFIG_RG_WLAN_AUTO_CHANNEL_SELECT'',
       token_set_y HC 112 ''CONFIG_RG_HOSTAPD'',
       token_set_y HC 113 ''CONFIG_DRIVER_MADWIFI'',
       token_set_y HC 114 ''CONFIG_RSN_PREAUTH''],
     when_c (on ''CONFIG_RG_JPKG'') []]"

definition atheros_ar50wl_add :: "string \<Rightarrow> string list \<Rightarrow> stmt" where
  "atheros_ar50wl_add wl_name vap_names = block [
     token_set_y HC 137 ''CONFIG_NET_RADIO'',
     token_set_y HC 138 ''CONFIG_NET_WIRELESS'',
     when_c (on ''MODULE_RG_WLAN_AND_ADVANCED_WLAN'') [
       token_set_y HC 142 ''CONFIG_80211G_AP_ADVANCED'',
       token_set_y HC 143 ''CONFIG_80211NG_AP_ADVANCED'',
       token_set_y HC 144 ''CONFIG_RG_VENDOR_WLAN_SEC'',
       token_set_y HC 145 ''CONFIG_RG_RADIUS_WBM_IN_CONN'',
       token_set_y HC 146 ''CONFIG_RG_WPA_WBM'',
       token_set_y HC 147 ''CONFIG_RG_8021X_WBM'',
       token_set_y HC 148 ''CONFIG_RG_WLAN_AUTO_CHANNEL_SELECT'',
       token_set_y HC 149 ''CONFIG_RG_HOSTAPD'',
       token_set_y HC 150 ''CONFIG_DRIVER_MADWIFI'',
       token_set_y HC 151 ''CONFIG_RSN_PREAUTH''],
     when_c (on ''CONFIG_RG_JPKG'') []]"

definition isl_softmac_add :: stmt where
  "isl_softmac_add = block [
     token_set_m HC 172 ''CONFIG_ISL_SOFTMAC'',
     when_c (on ''MODULE_RG_WLAN_AND_ADVANCED_WLAN'') [
       token_set_y HC 178 ''CONFIG_RG_VENDOR_WLAN_SEC'',
       token_set_y HC 179 ''CONFIG_RG_8021X_MD5'',
       token_set_y HC 180 ''CONFIG_RG_8021X_TLS'',
       token_set_y HC 181 ''CONFIG_RG_8021X_TTLS'',
       token_set_y HC 182 ''CONFIG_RG_8021X_RADIUS'']]"

lemma ok_ralink_rt256x_add [safe_intros]:
  "modular base_schema config \<Longrightarrow> switch base_schema config \<Longrightarrow> ok base_schema value_tokens J (ralink_rt256x_add wl config)"
  unfolding ralink_rt256x_add_def
  by (intro safe_intros shipped.ok_sets) simp_all

lemma ok_ralink_rt2560_add [safe_intros]: "ok base_schema value_tokens J (ralink_rt2560_add wl)"
  unfolding ralink_rt2560_add_def
  by (intro safe_intros shipped.ok_sets) simp_all

lemma ok_ralink_rt2561_add [safe_intros]: "ok base_schema value_tokens J (ralink_rt2561_add wl)"
  unfolding ralink_rt2561_add_def
  by (intro safe_intros shipped.ok_sets) simp_all

lemma ok_bcm43xx_add [safe_intros]: "ok base_schema value_tokens J (bcm43xx_add wl)"
  unfolding bcm43xx_add_def
  by (intro safe_intros shipped.ok_sets) simp_all

lemma ok_atheros_ar521x_add [safe_intros]: "ok base_schema value_tokens J (atheros_ar521x_add wl vaps)"
  unfolding atheros_ar521x_add_def
  by (intro safe_intros shipped.ok_sets) simp_all

lemma ok_atheros_ar50wl_add [safe_intros]: "ok base_schema value_tokens J (atheros_ar50wl_add wl vaps)"
  unfolding atheros_ar50wl_add_def
  by (intro safe_intros shipped.ok_sets) simp_all

lemma ok_isl_softmac_add [safe_intros]: "ok base_schema value_tokens J isl_softmac_add"
  unfolding isl_softmac_add_def
  by (intro safe_intros shipped.ok_sets) simp_all

end
