(* ===== verification/Hw_Config_1.thy ===== *)
theory Hw_Config_1
  imports Hw_Base
begin

text \<open>
  \<open>hardware_features\<close> of \<open>hw_config.c\<close>, lines 206 to 1347: the options each board brings.
\<close>

definition hardware_features_1 :: "stmt" where
  "hardware_features_1 = block [
   when_c (is_hw ''ALLWELL_RTL_RTL'') [
       when_c (disj_c (on ''CONFIG_HW_ETH_WAN'') (on ''CONFIG_HW_ETH_LAN'')) [token_set_m HC 209 ''CONFIG_8139TOO''],
       when_c (on ''CONFIG_HW_ETH_WAN'') [],
       when_c (on ''CONFIG_HW_ETH_LAN'') [],
       when_c (on ''CONFIG_HW_ETH_LAN2'') [],
       token_set_y HC 220 ''CONFIG_PCBOX''],
   when_c (is_hw ''WADB100G'') [
       token_set_y HC 225 ''CONFIG_BCM963XX_COMMON'',
       token_set_y HC 226 ''CONFIG_BCM96348'',
       token_set_y HC 227 ''CONFIG_BCM963XX_SERIAL'',
       token_set_m HC 228 ''CONFIG_BCM963XX_BOARD'',
       token_set_m HC 230 ''CONFIG_BCM963XX_MTD'',
       token_set_y HC 231 ''CONFIG_MTD_CFI_AMDSTD'',
       token_set HC 233 ''CONFIG_BCM963XX_BOARD_ID'' ''96348GW-10'' [],
       token_set HC 234 ''CONFIG_BCM963XX_CHIP'' ''6348'' [],
       token_set HC 235 ''CONFIG_BCM963XX_SDRAM_SIZE'' ''16'' [],
       token_set_y HC 237 ''CONFIG_PCI'',
       when_c (on ''CONFIG_HW_DSL_WAN'') [
         token_set_y HC 241 ''CONFIG_ATM'',
         token_set_m HC 242 ''CONFIG_BCM963XX_ADSL'',
         token_set_m HC 243 ''CONFIG_BCM963XX_ATM'',
         token_set_y HC 244 ''CONFIG_RG_ATM_QOS''],
       when_c (on ''CONFIG_HW_ETH_LAN'') [
         when_c (neg (on ''CONFIG_HW_SWITCH_LAN'')) [token_set_m HC 254 ''CONFIG_BCM963XX_ETH'']],
       when_c (on ''CONFIG_HW_SWITCH_LAN'') [
         token_set_m HC 261 ''CONFIG_HW_SWITCH_BCM53XX'',
         token_set_m HC 262 ''CONFIG_BCM963XX_ETH''],
       when_c (on ''CONFIG_HW_80211G_BCM43XX'') [
         token_set_y HC 268 ''CONFIG_BCM963XX_WLAN'',
         token_set_y HC 269 ''CONFIG_NET_RADIO'',
         token_set_y HC 270 ''CONFIG_NET_WIRELESS'',
         bcm43xx_add (Some ''wl0''),
         when_c (on ''MODULE_RG_WLAN_AND_ADVANCED_WLAN'') [token_set_y HC 274 ''CONFIG_RG_WPA_BCM'']],
       when_c (on ''CONFIG_HW_USB_RNDIS'') [
         token_set_y HC 279 ''CONFIG_USB_RNDIS'',
         token_set_m HC 280 ''CONFIG_BCM963XX_USB''],
       when_c (on ''CONFIG_HW_LEDS'') [token_set_y HC 285 ''CONFIG_RG_UIEVENTS''],
       token_set HC 287 ''BOARD'' ''WADB100G'' [],
       token_set HC 288 ''FIRM'' ''Broadcom'' []],
   when_c (is_hw ''PUNDIT'') [
       token_set_y HC 293 ''CONFIG_PCBOX'',
       token_set HC 295 ''CONFIG_RG_CONSOLE_DEVICE'' ''console'' []]]"

definition hardware_features_2 :: "stmt" where
  "hardware_features_2 = block [
   when_c (is_hw ''ASUS6020VI'') [
       token_set_y HC 301 ''CONFIG_BCM963XX_COMMON'',
       token_set_y HC 302 ''CONFIG_BCM96348'',
       token_set_y HC 303 ''CONFIG_BCM963XX_SERIAL'',
       token_set_m HC 304 ''CONFIG_BCM963XX_BOARD'',
       token_set_m HC 306 ''CONFIG_BCM963XX_MTD'',
       token_set_y HC 307 ''CONFIG_MTD_CFI_AMDSTD'',
       token_set HC 309 ''CONFIG_BCM963XX_BOARD_ID'' ''AAM6020VI'' [],
       token_set HC 310 ''CONFIG_BCM963XX_CHIP'' ''6348'' [],
       token_set HC 311 ''CONFIG_BCM963XX_SDRAM_SIZE'' ''16'' [],
       token_set_y HC 313 ''CONFIG_PCI'',
       when_c (on ''CONFIG_HW_DSL_WAN'') [
         token_set_y HC 317 ''CONFIG_ATM'',
         token_set_m HC 318 ''CONFIG_BCM963XX_ADSL'',
         token_set_m HC 319 ''CONFIG_BCM963XX_ATM'',
         token_set_y HC 320 ''CONFIG_RG_ATM_QOS''],
       when_c (on ''CONFIG_HW_SWITCH_LAN'') [
         token_set_m HC 326 ''CONFIG_HW_SWITCH_BCM53XX'',
         token_set_m HC 327 ''CONFIG_BCM963XX_ETH''],
       when_c (on ''CONFIG_HW_ETH_LAN'') [token_set_m HC 333 ''CONFIG_BCM963XX_ETH''],
       when_c (on ''CONFIG_HW_80211G_BCM43XX'') [
         token_set_y HC 339 ''CONFIG_NET_RADIO'',
         token_set_y HC 340 ''CONFIG_NET_WIRELESS'',
         token_set_y HC 341 ''CONFIG_BCM963XX_WLAN'',
         token_set_y HC 342 ''CONFIG_BCM963XX_WLAN_4318'',
         bcm43xx_add (Some ''wl0'')],
       when_c (on ''CONFIG_HW_LEDS'') [token_set_y HC 348 ''CONFIG_RG_UIEVENTS''],
       token_set HC 350 ''BOARD'' ''ASUS6020VI'' [],
       token_set HC 351 ''FIRM'' ''Asus'' []],
   when_c (is_hw ''WADB102GB'') [
       token_set_y HC 356 ''CONFIG_BCM963XX_COMMON'',
       token_set_y HC 357 ''CONFIG_BCM96348'',
       token_set_y HC 358 ''CONFIG_BCM963XX_SERIAL'',
       token_set_m HC 359 ''CONFIG_BCM963XX_BOARD'',
       token_set HC 360 ''CONFIG_BCM963XX_BOARD_ID'' ''WADB102GB'' [],
       token_set HC 361 ''CONFIG_BCM963XX_CHIP'' ''6348'' [],
       token_set HC 362 ''CONFIG_BCM963XX_SDRAM_SIZE'' ''16'' [],
       token_set_y HC 363 ''CONFIG_BCM963XX_SIMPLE_FLASH_LAYOUT'',
       token_set_y HC 365 ''CONFIG_RG_MTD_DEFAULT_PARTITION'',
       token_set HC 366 ''CONFIG_MTD_PHYSMAP_LEN'' ''0x00400000'' [],
       token_set HC 367 ''CONFIG_MTD_PHYSMAP_START'' ''0x1FC00000'' [],
       token_set_y HC 369 ''CONFIG_PCI'',
       when_c (on ''CONFIG_HW_DSL_WAN'') [
         token_set_y HC 373 ''CONFIG_ATM'',
         token_set_m HC 374 ''CONFIG_BCM963XX_ADSL'',
         token_set_m HC 375 ''CONFIG_BCM963XX_ATM'',
         token_set_y HC 376 ''CONFIG_RG_ATM_QOS''],
       when_c (on ''CONFIG_HW_ETH_LAN'') [token_set_m HC 382 ''CONFIG_BCM963XX_ETH''],
       when_c (on ''CONFIG_HW_SWITCH_LAN'') [
         token_set_m HC 388 ''CONFIG_HW_SWITCH_BCM53XX'',
         token_set_m HC 389 ''CONFIG_BCM963XX_ETH''],
       when_c (on ''CONFIG_HW_80211G_BCM43XX'') [
         token_set_y HC 395 ''CONFIG_NET_RADIO'',
         token_set_y HC 396 ''CONFIG_NET_WIRELESS'',
         token_set_y HC 397 ''CONFIG_BCM963XX_WLAN'',
         token_set_y HC 398 ''CONFIG_BCM963XX_WLAN_4318'',
         bcm43xx_add (Some ''wl0'')],
       when_c (on ''CONFIG_HW_LEDS'') [token_set_y HC 404 ''CONFIG_RG_UIEVENTS''],
       token_set HC 406 ''BOARD'' ''WADB102GB'' [],
       token_set HC 407 ''FIRM'' ''Belkin'' []]]"

definition hardware_features_3 :: "stmt" where
  "hardware_features_3 = block [
   when_c (is_hw ''MPC8272ADS'') [
       token_set_y HC 412 ''CONFIG_MPC8272ADS'',
       token_set HC 413 ''CONFIG_RG_CONSOLE_DEVICE'' ''ttyS0'' [],
       token_set HC 415 ''FIRM'' ''freescale'' [],
       token_set HC 416 ''BOARD'' ''MPC8272ADS'' [],
       ifc (on ''CONFIG_HW_ETH_FEC'') [
         token_set_y HC 424 ''CONFIG_FEC_ENET'',
         token_set_y HC 425 ''CONFIG_USE_MDIO'',
         token_set_y HC 426 ''CONFIG_FCC_DM9161'',
         token_set_y HC 427 ''CONFIG_FCC1_ENET'',
         token_set_y HC 428 ''CONFIG_FCC2_ENET'']
        [
         when_c (on ''CONFIG_HW_ETH_EEPRO1000'') [token_set_y HC 435 ''CONFIG_E1000'']],
       when_c (disj_c (on ''CONFIG_HW_USB_STORAGE'') (on ''MODULE_RG_BLUETOOTH'')) [
         token_set_y HC 444 ''CONFIG_USB'',
         token_set_y HC 445 ''CONFIG_USB_M82XX_HCD''],
       when_c (on ''CONFIG_HW_USB_STORAGE'') [token_set_y HC 449 ''CONFIG_USB_DEVICEFS''],
       when_c (on ''MODULE_RG_BLUETOOTH'') [token_set_y HC 452 ''CONFIG_BT_HCIUSB''],
       when_c (on ''CONFIG_HW_80211G_ISL38XX'') [token_set_m HC 456 ''CONFIG_ISL38XX''],
       when_c (on ''CONFIG_HW_80211G_RALINK_RT2560'') [
         ralink_rt2560_add ''ra0'',
         token_set HC 464 ''CONFIG_RALINK_RT2560_TIMECSR'' ''0x40'' []],
       when_c (on ''CONFIG_HW_80211G_RALINK_RT2561'') [ralink_rt2561_add ''ra0''],
       when_c (on ''CONFIG_HW_LEDS'') [
         token_set_y HC 472 ''CONFIG_RG_UIEVENTS'',
         token_set_m HC 473 ''CONFIG_RG_KLEDS''],
       when_c (on ''CONFIG_HW_ENCRYPTION'') [token_set_y HC 477 ''CONFIG_IPSEC_USE_MPC_CRYPTO'']],
   when_c (is_hw ''EP8248'') [
       token_set_y HC 482 ''CONFIG_EP8248'',
       token_set HC 483 ''CONFIG_RG_CONSOLE_DEVICE'' ''ttyS0'' [],
       token_set HC 485 ''FIRM'' ''Embedded Planet'' [],
       token_set HC 486 ''BOARD'' ''EP8248'' [],
       when_c (on ''CONFIG_HW_ETH_FEC'') [
         token_set_y HC 494 ''CONFIG_FEC_ENET'',
         token_set_y HC 495 ''CONFIG_USE_MDIO'',
         token_set_y HC 496 ''CONFIG_FCC_LXT971'',
         token_set_y HC 497 ''CONFIG_FCC1_ENET'',
         token_set_y HC 498 ''CONFIG_FCC2_ENET''],
       when_c (on ''CONFIG_HW_USB_STORAGE'') [
         token_set_y HC 506 ''CONFIG_USB'',
         token_set_y HC 507 ''CONFIG_USB_DEVICEFS'',
         token_set_y HC 508 ''CONFIG_USB_M82XX_HCD''],
       when_c (on ''CONFIG_HW_LEDS'') [
         token_set_y HC 513 ''CONFIG_RG_UIEVENTS'',
         token_set_m HC 514 ''CONFIG_RG_KLEDS'']]]"

definition hardware_features_4 :: "stmt" where
  "hardware_features_4 = block [
   when_c (is_hw ''MPC8349ITX'') [
       token_set_y HC 520 ''CONFIG_MPC8349_ITX'',
       token_set HC 521 ''CONFIG_RG_CONSOLE_DEVICE'' ''ttyS0'' [],
       token_set HC 523 ''FIRM'' ''Freescale'' [],
       token_set HC 524 ''BOARD'' ''mpc8349-itx'' [],
       when_c (on ''CONFIG_HW_ETH_WAN'') [
         token_set_y HC 529 ''CONFIG_GIANFAR'',
         token_set_y HC 530 ''CONFIG_CICADA_PHY'',
         token_set_y HC 531 ''CONFIG_PHYLIB''],
       when_c (on ''CONFIG_HW_ETH_LAN'') [
         token_set_y HC 537 ''CONFIG_GIANFAR'',
         token_set_y HC 538 ''CONFIG_CICADA_PHY'',
         token_set_y HC 539 ''CONFIG_PHYLIB''],
       when_c (on ''CONFIG_HW_USB_ETH'') [
         token_set_y HC 546 ''CONFIG_USB_GADGET'',
         token_set_y HC 547 ''CONFIG_USB_ETH'',
         token_set_y HC 548 ''CONFIG_USB_MPC'',
         token_set_y HC 549 ''CONFIG_USB_GADGET_MPC'',
         token_set_y HC 550 ''CONFIG_USB_GADGET_DUALSPEED'',
         token_set_y HC 551 ''CONFIG_USB_ETH_RNDIS''],
       when_c (on ''CONFIG_HW_USB_STORAGE'') [
         token_set_y HC 557 ''CONFIG_USB'',
         token_set_y HC 558 ''CONFIG_USB_EHCI_HCD'',
         token_set_y HC 559 ''CONFIG_USB_EHCI_ROOT_HUB_TT'',
         token_set_y HC 560 ''CONFIG_USB_DEVICEFS'',
         token_set_y HC 561 ''CONFIG_FSL_USB20'',
         token_set_y HC 562 ''CONFIG_MPH_USB_SUPPORT'',
         token_set_y HC 563 ''CONFIG_MPH0_USB_ENABLE'',
         token_set_y HC 564 ''CONFIG_MPH0_ULPI'',
         when_c (neg (on ''CONFIG_USB_MPC'')) [
           token_set_y HC 567 ''CONFIG_MPH1_USB_ENABLE'',
           token_set_y HC 568 ''CONFIG_MPH1_ULPI'']],
       when_c (on ''CONFIG_HW_80211G_RALINK_RT2560'') [
         ralink_rt2560_add ''ra0'',
         token_set HC 575 ''CONFIG_RALINK_RT2560_TIMECSR'' ''0x40'' []],
       when_c (on ''CONFIG_HW_80211G_RALINK_RT2561'') [ralink_rt2561_add ''ra0''],
       when_c (on ''CONFIG_HW_80211G_RALINK_RT2561'') [ralink_rt2561_add ''ra0''],
       when_c (on ''CONFIG_HW_IDE'') [
         token_set_y HC 586 ''CONFIG_SCSI'',
         token_set_y HC 587 ''CONFIG_SCSI_SATA'',
         token_set_y HC 588 ''CONFIG_SCSI_SATA_SIL''],
       when_c (on ''CONFIG_HW_ENCRYPTION'') [token_set_m HC 592 ''CONFIG_MPC8349E_SEC2x'']],
   when_c (is_hw ''ALLWELL_RTL_RTL_ISL38XX'') [
       token_set_m HC 614 ''CONFIG_8139TOO'',
       ifc (on ''CONFIG_RG_RGLOADER'') []
        [token_set_m HC 624 ''CONFIG_ISL38XX''],
       token_set_y HC 627 ''CONFIG_PCBOX'']]"

definition hardware_features_5 :: "stmt" where
  "hardware_features_5 = block [
   when_c (is_hw ''ALLWELL_RTL_EEP'') [
       when_c (on ''CONFIG_HW_ETH_WAN'') [token_set_m HC 634 ''CONFIG_8139TOO''],
       when_c (on ''CONFIG_HW_ETH_LAN'') [token_set_m HC 640 ''CONFIG_EEPRO100''],
       when_c (on ''CONFIG_HW_ETH_LAN2'') [token_set_m HC 646 ''CONFIG_8139TOO''],
       token_set_y HC 650 ''CONFIG_PCBOX''],
   when_c (is_hw ''ALLWELL_ATMNULL_RTL'') [
       token_set_m HC 655 ''CONFIG_8139TOO'',
       token_set_y HC 656 ''CONFIG_ATM'',
       token_set_y HC 657 ''CONFIG_ATM_NULL'',
       token_set_y HC 660 ''CONFIG_PCBOX''],
   when_c (is_hw ''PCBOX_EEP_EEP'') [
       when_c (disj_c (on ''CONFIG_HW_ETH_WAN'') (on ''CONFIG_HW_ETH_LAN'')) [token_set_m HC 666 ''CONFIG_EEPRO100''],
       when_c (on ''CONFIG_HW_ETH_WAN'') [],
       when_c (on ''CONFIG_HW_ETH_LAN'') [],
       when_c (on ''CONFIG_HW_ETH_LAN2'') [],
       token_set_y HC 677 ''CONFIG_PCBOX''],
   when_c (is_hw ''CX82100'') [
       when_c (disj_c (on ''CONFIG_HW_ETH_WAN'') (on ''CONFIG_HW_ETH_LAN'')) [token_set_m HC 683 ''CONFIG_CNXT_EMAC''],
       when_c (on ''CONFIG_HW_ETH_WAN'') [],
       when_c (on ''CONFIG_HW_ETH_LAN'') [],
       when_c (on ''CONFIG_HW_ETH_LAN2'') [],
       when_c (on ''CONFIG_HW_USB_RNDIS'') [token_set_y HC 695 ''CONFIG_USB_RNDIS''],
       token_set_y HC 697 ''CONFIG_ARMNOMMU'',
       token_set_y HC 698 ''CONFIG_CX821XX_COMMON'',
       token_set_y HC 699 ''CONFIG_BD_GOLDENGATE'',
       token_set_y HC 700 ''CONFIG_CHIP_CX82100'',
       token_set_y HC 701 ''CONFIG_PHY_KS8737'',
       token_set HC 703 ''FIRM'' ''Conexant'' [],
       token_set HC 704 ''BOARD'' ''CX82100'' []],
   when_c (is_hw ''ADM5120P'') [
       token_set_y HC 709 ''CONFIG_ADM5120_COMMON'',
       when_c (on ''CONFIG_HW_ETH_LAN'') [],
       when_c (on ''CONFIG_HW_ETH_WAN'') [],
       when_c (on ''CONFIG_HW_DSP'') [
         token_set_m HC 719 ''CONFIG_VINETIC'',
         token_set HC 720 ''CONFIG_VINETIC_LINES_PER_CHIP'' ''2'' [],
         token_set HC 721 ''CONFIG_HW_NUMBER_OF_FXS_PORTS'' ''2'' []]]]"

definition hardware_features_6 :: "stmt" where
  "hardware_features_6 = block [
   when_c (disj_c (is_hw ''BCM91125E'') (is_hw ''COLORADO'')) [
       token_set_y HC 727 ''CONFIG_SIBYTE_SB1250'',
       ifc (is_hw ''BCM91125E'') [token_set_y HC 731 ''CONFIG_SIBYTE_SENTOSA'']
        [
         when_c (is_hw ''COLORADO'') [token_set_y HC 733 ''CONFIG_SIBYTE_COLORADO'']],
       when_c (on ''CONFIG_HW_ETH_LAN'') [],
       ifc (on ''CONFIG_HW_ETH_WAN'') []
        [when_c (on ''CONFIG_HW_ETH_LAN2'') []],
       token_set_y HC 743 ''CONFIG_MTD'',
       token_set_y HC 744 ''CONFIG_MTD_CFI_INTELEXT'',
       token_set_y HC 745 ''CONFIG_MTD_CFI_AMDSTD'',
       token_set_m HC 746 ''CONFIG_BCM91125E_MTD'',
       when_c (on ''CONFIG_RG_OS_LINUX_26'') [
         token_set_y HC 750 ''CONFIG_MTD_MAP_BANK_WIDTH_1'',
         token_set_y HC 751 ''CONFIG_MTD_CFI_I1'',
         token_set_y HC 752 ''CONFIG_MTD_CFI_UTIL'']],
   when_c (is_hw ''INCAIP_LSP'') [
       token_set_y HC 758 ''CONFIG_INCAIP_COMMON'',
       token_set_y HC 760 ''CONFIG_RG_VLAN_8021Q'',
       token_set_m HC 761 ''CONFIG_INCAIP_SWITCH'',
       token_set_m HC 762 ''CONFIG_INCAIP_SWITCH_API'',
       token_set_m HC 763 ''CONFIG_INCAIP_ETHERNET'',
       token_set_m HC 764 ''CONFIG_INCAIP_KEYPAD'',
       token_set_m HC 765 ''CONFIG_INCAIP_DSP'',
       token_set_m HC 766 ''CONFIG_VINETIC'',
       token_set_m HC 767 ''CONFIG_INCAIP_IOM2''],
   when_c (is_hw ''INCAIP'') [
       token_set_y HC 772 ''CONFIG_INCAIP_COMMON'',
       when_c (on ''CONFIG_HW_LEDS'') [token_set_m HC 775 ''CONFIG_INCAIP_LEDMATRIX''],
       when_c (on ''CONFIG_HW_KEYPAD'') [token_set_m HC 778 ''CONFIG_INCAIP_KEYPAD''],
       when_c (on ''CONFIG_HW_DSP'') [
         token_set_m HC 782 ''CONFIG_INCAIP_DSP'',
         token_set_y HC 783 ''CONFIG_RG_IPPHONE'',
         token_set HC 784 ''CONFIG_HW_NUMBER_OF_FXS_PORTS'' ''1'' []],
       when_c (on ''CONFIG_HW_ETH_WAN'') [],
       when_c (on ''CONFIG_HW_ETH_LAN'') [],
       when_c (on ''CONFIG_HW_ENCRYPTION'') [token_set_y HC 794 ''CONFIG_INCA_HW_ENCRYPT'']],
   when_c (is_hw ''FLEXTRONICS'') [
       token_set HC 799 ''CONFIG_RG_FLASH_LAYOUT_SIZE'' ''8'' [],
       token_set_y HC 800 ''CONFIG_INCAIP_COMMON'',
       token_set_y HC 801 ''CONFIG_INCAIP_FLEXTRONICS'',
       token_set_y HC 802 ''CONFIG_RG_DYN_FLASH_LAYOUT'',
       when_c (on ''CONFIG_HW_LEDS'') [token_set_m HC 805 ''CONFIG_INCAIP_LEDMATRIX''],
       when_c (on ''CONFIG_HW_KEYPAD'') [token_set_m HC 808 ''CONFIG_INCAIP_KEYPAD''],
       when_c (on ''CONFIG_HW_DSP'') [
         token_set_m HC 812 ''CONFIG_INCAIP_DSP'',
         token_set_y HC 813 ''CONFIG_RG_IPPHONE'',
         token_set HC 814 ''CONFIG_HW_NUMBER_OF_FXS_PORTS'' ''1'' []],
       when_c (on ''CONFIG_HW_ETH_WAN'') [],
       when_c (on ''CONFIG_HW_ETH_LAN'') [],
       when_c (on ''CONFIG_HW_ENCRYPTION'') [token_set_y HC 824 ''CONFIG_INCA_HW_ENCRYPT'']]]"

definition hardware_features_7 :: "stmt" where
  "hardware_features_7 = block [
   when_c (is_hw ''ALLTEK_VLAN'') [
       token_set_y HC 829 ''CONFIG_INCAIP_COMMON'',
       token_set_y HC 830 ''CONFIG_INCAIP_ALLTEK'',
       when_c (on ''CONFIG_HW_DSP'') [
         token_set_m HC 834 ''CONFIG_VINETIC'',
         token_set HC 835 ''CONFIG_VINETIC_LINES_PER_CHIP'' ''2'' [],
         token_set_m HC 836 ''CONFIG_INCAIP_IOM2'',
         token_set HC 837 ''CONFIG_HW_NUMBER_OF_FXS_PORTS'' ''2'' []],
       when_c (disj_c (on ''CONFIG_HW_ETH_WAN'') (on ''CONFIG_HW_ETH_LAN'')) [token_set_y HC 842 ''CONFIG_RG_VLAN_8021Q''],
       when_c (on ''CONFIG_HW_ETH_WAN'') [],
       when_c (on ''CONFIG_HW_ETH_LAN'') [],
       when_c (on ''CONFIG_HW_ENCRYPTION'') [token_set_y HC 853 ''CONFIG_INCA_HW_ENCRYPT'']],
   when_c (is_hw ''ALLTEK'') [
       token_set_y HC 858 ''CONFIG_INCAIP_COMMON'',
       token_set_y HC 859 ''CONFIG_INCAIP_ALLTEK'',
       when_c (on ''CONFIG_HW_DSP'') [
         token_set_m HC 862 ''CONFIG_VINETIC'',
         token_set HC 863 ''CONFIG_VINETIC_LINES_PER_CHIP'' ''2'' [],
         token_set_m HC 864 ''CONFIG_INCAIP_IOM2'',
         token_set HC 865 ''CONFIG_HW_NUMBER_OF_FXS_PORTS'' ''2'' []],
       when_c (on ''CONFIG_HW_ETH_WAN'') [],
       when_c (on ''CONFIG_HW_ENCRYPTION'') [token_set_y HC 872 ''CONFIG_INCA_HW_ENCRYPT'']]]"

definition hardware_features_8 :: "stmt" where
  "hardware_features_8 = block [
   when_c (disj_c (is_hw ''RTA770W'') (is_hw ''GTWX5803'')) [
       token_set_y HC 877 ''CONFIG_BCM963XX_COMMON'',
       token_set_y HC 878 ''CONFIG_BCM96345'',
       token_set_y HC 879 ''CONFIG_BCM963XX_SERIAL'',
       token_set_m HC 880 ''CONFIG_BCM963XX_BOARD'',
       token_set_y HC 881 ''CONFIG_BCM963XX_RGL_FLASH_LAYOUT'',
       token_set HC 882 ''CONFIG_BCM963XX_CHIP'' ''6345'' [],
       token_set HC 883 ''CONFIG_BCM963XX_SDRAM_SIZE'' ''16'' [],
       ifc (on ''CONFIG_RG_MTD'') [
         token_set_y HC 887 ''CONFIG_RG_MTD_DEFAULT_PARTITION'',
         token_set HC 888 ''CONFIG_MTD_PHYSMAP_LEN'' ''0x00400000'' [],
         token_set HC 889 ''CONFIG_MTD_PHYSMAP_START'' ''0x1FC00000'' []]
        [
         token_set_m HC 893 ''CONFIG_BCM963XX_MTD'',
         token_set_y HC 894 ''CONFIG_MTD_CFI_AMDSTD''],
       when_c (on ''CONFIG_HW_DSL_WAN'') [
         token_set_y HC 899 ''CONFIG_ATM'',
         token_set_m HC 900 ''CONFIG_BCM963XX_ADSL'',
         token_set_m HC 901 ''CONFIG_BCM963XX_ATM'',
         token_set_y HC 902 ''CONFIG_RG_ATM_QOS''],
       when_c (on ''CONFIG_HW_ETH_LAN'') [token_set_m HC 908 ''CONFIG_BCM963XX_ETH''],
       when_c (on ''CONFIG_HW_SWITCH_LAN'') [
         token_set_m HC 914 ''CONFIG_HW_SWITCH_BCM53XX'',
         token_set_m HC 915 ''CONFIG_BCM963XX_ETH''],
       when_c (on ''CONFIG_HW_80211G_BCM43XX'') [
         token_set_y HC 921 ''CONFIG_BCM963XX_WLAN'',
         token_set_y HC 922 ''CONFIG_NET_RADIO'',
         token_set_y HC 923 ''CONFIG_NET_WIRELESS'',
         bcm43xx_add (Some ''wl0'')],
       when_c (on ''CONFIG_HW_USB_RNDIS'') [
         token_set_y HC 929 ''CONFIG_USB_RNDIS'',
         token_set_m HC 930 ''CONFIG_BCM963XX_USB''],
       when_c (on ''CONFIG_HW_LEDS'') [token_set_y HC 935 ''CONFIG_RG_UIEVENTS''],
       ifc (is_hw ''RTA770W'') [
         token_set HC 939 ''CONFIG_BCM963XX_BOARD_ID'' ''RTA770W'' [],
         token_set HC 940 ''BOARD'' ''RTA770W'' [],
         token_set HC 941 ''FIRM'' ''Belkin'' []]
        [
         token_set HC 945 ''CONFIG_BCM963XX_BOARD_ID'' ''GTWX5803'' [],
         token_set HC 946 ''BOARD'' ''GTWX5803'' [],
         token_set HC 947 ''FIRM'' ''Gemtek'' []]],
   when_c (is_hw ''BCM94702'') [
       token_set_y HC 953 ''CONFIG_BCM947_COMMON'',
       token_set_y HC 954 ''CONFIG_BCM4702'',
       when_c (disj_c (on ''CONFIG_HW_ETH_WAN'') (on ''CONFIG_HW_ETH_LAN'')) [
         token_set_m HC 966 ''CONFIG_ET'',
         token_set_y HC 967 ''CONFIG_ET_47XX''],
       when_c (on ''CONFIG_HW_ETH_WAN'') [],
       when_c (on ''CONFIG_HW_ETH_LAN'') [],
       token_set HC 976 ''BOARD'' ''BCM94702'' [],
       token_set HC 977 ''FIRM'' ''Broadcom'' []]]"

definition hardware_features_9 :: "stmt" where
  "hardware_features_9 = block [
   when_c (is_hw ''BCM94704'') [
       token_set_y HC 982 ''CONFIG_BCM947_COMMON'',
       token_set_y HC 983 ''CONFIG_BCM4704'',
       when_c (disj_c (on ''CONFIG_HW_ETH_WAN'') (on ''CONFIG_HW_ETH_LAN'')) [
         token_set_m HC 987 ''CONFIG_ET'',
         token_set_y HC 988 ''CONFIG_ET_47XX''],
       when_c (on ''CONFIG_HW_ETH_WAN'') [],
       when_c (on ''CONFIG_HW_ETH_LAN'') [],
       when_c (on ''CONFIG_HW_80211G_BCM43XX'') [
         token_set_y HC 999 ''CONFIG_NET_RADIO'',
         bcm43xx_add (Some ''eth0'')],
       token_set HC 1003 ''BOARD'' ''BCM94704'' [],
       token_set HC 1004 ''FIRM'' ''Broadcom'' []],
   when_c (is_hw ''BCM94712'') [
       token_set_y HC 1013 ''CONFIG_BCM947_COMMON'',
       token_set_y HC 1014 ''CONFIG_BCM4710'',
       when_c (disj_c (on ''CONFIG_HW_ETH_WAN'') (on ''CONFIG_HW_ETH_LAN'')) [
         token_set_m HC 1018 ''CONFIG_ET'',
         token_set_y HC 1019 ''CONFIG_ET_47XX'',
         token_set_y HC 1020 ''CONFIG_RG_VLAN_8021Q''],
       when_c (on ''CONFIG_HW_ETH_WAN'') [],
       when_c (on ''CONFIG_HW_ETH_LAN'') [],
       when_c (on ''CONFIG_HW_80211G_BCM43XX'') [
         token_set_y HC 1031 ''CONFIG_NET_RADIO'',
         bcm43xx_add (Some ''eth0'')],
       token_set HC 1035 ''BOARD'' ''BCM94712'' [],
       token_set HC 1036 ''FIRM'' ''Broadcom'' []],
   when_c (is_hw ''WRT54G'') [
       token_set_y HC 1041 ''CONFIG_BCM947_COMMON'',
       token_set_y HC 1042 ''CONFIG_BCM947_HW_BUG_HACK'',
       when_c (disj_c (on ''CONFIG_HW_ETH_WAN'') (on ''CONFIG_HW_ETH_LAN'')) [
         token_set_m HC 1046 ''CONFIG_ET'',
         token_set_y HC 1047 ''CONFIG_ET_47XX'',
         token_set_y HC 1048 ''CONFIG_RG_VLAN_8021Q'',
         token_set_y HC 1049 ''CONFIG_VLAN_8021Q_FAST''],
       when_c (on ''CONFIG_HW_ETH_WAN'') [],
       when_c (on ''CONFIG_HW_ETH_LAN'') [],
       when_c (on ''CONFIG_HW_80211G_BCM43XX'') [
         bcm43xx_add (Some ''eth0''),
         token_set_y HC 1062 ''CONFIG_NET_RADIO''],
       token_set HC 1065 ''BOARD'' ''Cybertan'' [],
       token_set HC 1066 ''FIRM'' ''Cybertan'' []]]"

definition hardware_features_10 :: "stmt" where
  "hardware_features_10 = block [
   when_c (is_hw ''CENTROID'') [
       set_big_endian HC 1071 False,
       when_c (on ''CONFIG_HW_ETH_LAN'') [],
       when_c (on ''CONFIG_HW_ETH_WAN'') [],
       when_c (on ''CONFIG_HW_ETH_LAN2'') [],
       when_c (disj_c (on ''CONFIG_HW_ETH_LAN'') (on ''CONFIG_HW_ETH_WAN'')) [token_set_m HC 1087 ''CONFIG_SL2312_ETH''],
       when_c (conj_c (on ''CONFIG_HW_ETH_LAN2'') (on ''CONFIG_HW_ETH_WAN'')) [
         conf_err ''Can't define both CONFIG_HW_ETH2 and CONFIG_HW_ETH_WAN''],
       when_c (on ''CONFIG_HW_80211G_ISL38XX'') [token_set_m HC 1094 ''CONFIG_ISL38XX''],
       when_c (on ''CONFIG_HW_80211G_RALINK_RT2560'') [ralink_rt2560_add ''ra0''],
       when_c (on ''CONFIG_HW_80211G_RALINK_RT2561'') [ralink_rt2561_add ''ra0''],
       when_c (on ''CONFIG_HW_USB_STORAGE'') [
         token_set_y HC 1107 ''CONFIG_RG_USB'',
         token_set_y HC 1108 ''CONFIG_USB_DEVICEFS'',
         token_set_m HC 1109 ''CONFIG_USB_OHCI_SL2312''],
       token_set_y HC 1112 ''CONFIG_ARCH_SL2312'',
       token_set_y HC 1113 ''CONFIG_SL2312_ASIC'',
       token_set HC 1114 ''CONFIG_RG_CONSOLE_DEVICE'' ''ttySI0'' [],
       token_set HC 1115 ''CONFIG_SDRAM_SIZE'' ''64'' [],
       token_set_m HC 1117 ''CONFIG_SL2312_FLASH'',
       when_c (neg (on ''CONFIG_RG_MTD'')) [token_set_y HC 1120 ''CONFIG_MTD_CFI_AMDSTD''],
       token_set HC 1122 ''FIRM'' ''Storlink'' [],
       token_set HC 1123 ''BOARD'' ''SL2312'' []],
   when_c (is_hw ''IXDP425'') [
       token_set_y HC 1131 ''CONFIG_ARCH_IXP425_IXDP425'',
       token_set HC 1132 ''CONFIG_IXP425_SDRAM_SIZE'' ''64'' [],
       token_set HC 1133 ''CONFIG_IXP425_NUMBER_OF_MEM_CHIPS'' ''4'' [],
       token_set HC 1134 ''CONFIG_RG_CONSOLE_DEVICE'' ''ttyS0'' [],
       token_set HC 1136 ''FIRM'' ''Intel'' [],
       token_set HC 1137 ''BOARD'' ''IXDP425'' [],
       token_set_m HC 1138 ''CONFIG_IXP425_ETH'',
       when_c (on ''CONFIG_HW_ETH_LAN'') [],
       when_c (conj_c (on ''CONFIG_HW_ETH_LAN2'') (on ''CONFIG_HW_ETH_WAN'')) [
         conf_err ''Can't define both CONFIG_HW_ETH2 and CONFIG_HW_ETH_WAN''],
       when_c (on ''CONFIG_HW_ETH_LAN2'') [],
       when_c (on ''CONFIG_HW_ETH_WAN'') [],
       when_c (on ''CONFIG_HW_DSL_WAN'') [
         token_set_y HC 1155 ''CONFIG_ADSL_CHIP_ALCATEL_20150'',
         token_set_y HC 1156 ''CONFIG_IXP425_ADSL_USE_MPHY'',
         token_set_m HC 1158 ''CONFIG_IXP425_ATM''],
       when_c (on ''CONFIG_HW_ENCRYPTION'') [
         token_set_y HC 1164 ''CONFIG_IPSEC_USE_IXP4XX_CRYPTO'',
         token_set_y HC 1165 ''CONFIG_IPSEC_ENC_AES''],
       when_c (on ''CONFIG_HW_USB_RNDIS'') [
         token_set_m HC 1170 ''CONFIG_RG_USB_SLAVE'',
         token_set_y HC 1171 ''CONFIG_IXP425_CSR_USB''],
       when_c (on ''CONFIG_HW_80211G_ISL38XX'') [token_set_m HC 1177 ''CONFIG_ISL38XX'']]]"

definition hardware_features_11 :: "stmt" where
  "hardware_features_11 = block [
   when_c (is_hw ''MATECUMBE'') [
       token_set_y HC 1184 ''CONFIG_IXP425_COMMON_RG'',
       token_set HC 1188 ''CONFIG_IXP425_SDRAM_SIZE'' ''64'' [],
       token_set HC 1189 ''CONFIG_IXP425_NUMBER_OF_MEM_CHIPS'' ''4'' [],
       token_set HC 1190 ''CONFIG_RG_CONSOLE_DEVICE'' ''ttyS0'' [],
       token_set HC 1191 ''CONFIG_IXDP425_KGDB_UART'' ''1'' [],
       token_set HC 1192 ''CONFIG_RG_FLASH_LAYOUT_SIZE'' ''16'' [],
       token_set_y HC 1193 ''CONFIG_ARCH_IXP425_MATECUMBE'',
       token_set_y HC 1194 ''CONFIG_IXP425_CSR_USB'',
       when_c (disj_c (on ''CONFIG_HW_ETH_WAN'') (on ''CONFIG_HW_ETH_LAN'')) [token_set_m HC 1197 ''CONFIG_IXP425_ETH''],
       when_c (on ''CONFIG_HW_ETH_WAN'') [],
       when_c (on ''CONFIG_HW_ETH_LAN'') [],
       when_c (on ''CONFIG_HW_ETH_LAN2'') [],
       when_c (on ''CONFIG_HW_USB_RNDIS'') [token_set_m HC 1210 ''CONFIG_RG_USB_SLAVE''],
       token_set HC 1214 ''FIRM'' ''Intel'' [],
       token_set HC 1215 ''BOARD'' ''IXDP425'' [],
       token_set HC 1218 ''CONFIG_IXP425_FLASH_E28F128J3'' ''m'' []],
   when_c (is_hw ''KINGSCANYON'') [
       token_set_y HC 1223 ''CONFIG_IXP425_COMMON_RG'',
       token_set HC 1224 ''CONFIG_IXP425_SDRAM_SIZE'' ''64'' [],
       token_set HC 1225 ''CONFIG_IXP425_NUMBER_OF_MEM_CHIPS'' ''4'' [],
       token_set HC 1226 ''CONFIG_RG_CONSOLE_DEVICE'' ''ttyS0'' [],
       token_set_y HC 1227 ''CONFIG_IXP425_CSR_USB'',
       token_set_y HC 1228 ''CONFIG_ARCH_IXP425_KINGSCANYON'',
       token_set HC 1229 ''CONFIG_RG_FLASH_LAYOUT_SIZE'' ''16'' [],
       when_c (disj_c (on ''CONFIG_HW_ETH_WAN'') (on ''CONFIG_HW_ETH_LAN'')) [token_set_m HC 1232 ''CONFIG_IXP425_ETH''],
       when_c (on ''CONFIG_HW_ETH_WAN'') [],
       when_c (on ''CONFIG_HW_ETH_LAN'') [],
       when_c (on ''CONFIG_HW_ETH_LAN2'') [],
       when_c (on ''CONFIG_HW_USB_RNDIS'') [token_set_m HC 1245 ''CONFIG_RG_USB_SLAVE''],
       when_c (on ''CONFIG_HW_80211G_ISL38XX'') [token_set_m HC 1251 ''CONFIG_ISL38XX''],
       token_set HC 1255 ''FIRM'' ''Interface_Masters'' [],
       token_set HC 1256 ''BOARD'' ''KINGSCANYON'' [],
       token_set HC 1259 ''CONFIG_IXP425_FLASH_E28F128J3'' ''m'' []]]"

definition hardware_features_12 :: "stmt" where
  "hardware_features_12 = block [
   when_c (is_hw ''ROCKAWAYBEACH'') [
       token_set_y HC 1264 ''CONFIG_IXP425_COMMON_RG'',
       token_set HC 1265 ''CONFIG_IXP425_SDRAM_SIZE'' ''32'' [],
       token_set HC 1266 ''CONFIG_IXP425_NUMBER_OF_MEM_CHIPS'' ''2'' [],
       token_set HC 1267 ''CONFIG_RG_CONSOLE_DEVICE'' ''ttyS1'' [],
       token_set HC 1268 ''CONFIG_IXDP425_KGDB_UART'' ''1'' [],
       token_set_y HC 1269 ''CONFIG_ARCH_IXP425_ROCKAWAYBEACH'',
       token_set HC 1270 ''CONFIG_RG_FLASH_LAYOUT_SIZE'' ''16'' [],
       token_set HC 1271 ''CONFIG_FILESERVER_KERNEL_CONFIG'' ''USB'' [],
       when_c (disj_c (on ''CONFIG_HW_ETH_WAN'') (on ''CONFIG_HW_ETH_LAN'')) [token_set_m HC 1274 ''CONFIG_IXP425_ETH''],
       when_c (on ''CONFIG_HW_ETH_WAN'') [],
       when_c (on ''CONFIG_HW_ETH_LAN'') [],
       when_c (on ''CONFIG_HW_ETH_LAN2'') [],
       when_c (on ''CONFIG_HW_USB_RNDIS'') [
         token_set_y HC 1287 ''CONFIG_IXP425_CSR_USB'',
         token_set_m HC 1288 ''CONFIG_RG_USB_SLAVE''],
       when_c (on ''CONFIG_HW_80211G_ISL38XX'') [token_set_m HC 1294 ''CONFIG_ISL38XX''],
       token_set HC 1298 ''FIRM'' ''Intel'' [],
       token_set HC 1299 ''BOARD'' ''ROCKAWAYBEACH'' [],
       token_set HC 1302 ''CONFIG_IXP425_FLASH_E28F128J3'' ''m'' []],
   when_c (is_hw ''WAV54G'') [
       token_set_y HC 1307 ''CONFIG_IXP425_COMMON_RG'',
       token_set_y HC 1308 ''CONFIG_ARCH_IXP425_WAV54G'',
       token_set HC 1309 ''CONFIG_IXP425_SDRAM_SIZE'' ''32'' [],
       token_set HC 1310 ''CONFIG_IXP425_NUMBER_OF_MEM_CHIPS'' ''2'' [],
       token_set HC 1311 ''CONFIG_RG_CONSOLE_DEVICE'' ''ttyS0'' [],
       token_set HC 1312 ''CONFIG_IXDP425_KGDB_UART'' ''1'' [],
       token_set_y HC 1313 ''CONFIG_ADSL_CHIP_ALCATEL_20170'',
       token_set_y HC 1314 ''CONFIG_IXP425_ADSL_USE_SPHY'',
       token_set_y HC 1317 ''CONFIG_RG_VLAN_8021Q'',
       when_c (on ''CONFIG_HW_ETH_LAN'') [token_set_m HC 1320 ''CONFIG_IXP425_ETH''],
       when_c (on ''CONFIG_HW_DSL_WAN'') [token_set_m HC 1324 ''CONFIG_IXP425_ATM''],
       when_c (on ''CONFIG_HW_ETH_LAN'') [],
       when_c (on ''CONFIG_HW_80211G_ISL38XX'') [token_set_m HC 1333 ''CONFIG_ISL38XX''],
       token_set HC 1338 ''FIRM'' ''Cybertan'' [],
       token_set HC 1339 ''BOARD'' ''WAV54G'' [],
       token_set HC 1342 ''CONFIG_IXP425_FLASH_E28F640J3'' ''m'' [],
       token_set_y HC 1346 ''CONFIG_RG_RMT_UPGRADE_IMG_IN_MEM'']]"

lemma ok_hardware_features_1 [safe_scripts]: "ok base_schema value_tokens J hardware_features_1"
  unfolding hardware_features_1_def
  by (intro safe_intros shipped.ok_sets shipped.ok_enable_module safe_scripts; simp)


lemma ok_hardware_features_2 [safe_scripts]: "ok base_schema value_tokens J hardware_features_2"
  unfolding hardware_features_2_def
  by (intro safe_intros shipped.ok_sets shipped.ok_enable_module safe_scripts; simp)


lemma ok_hardware_features_3 [safe_scripts]: "ok base_schema value_tokens J hardware_features_3"
  unfolding hardware_features_3_def
  by (intro safe_intros shipped.ok_sets shipped.ok_enable_module safe_scripts; simp)


lemma ok_hardware_features_4 [safe_scripts]: "ok base_schema value_tokens J hardware_features_4"
  unfolding hardware_features_4_def
  by (intro safe_intros shipped.ok_sets shipped.ok_enable_module safe_scripts; simp)


lemma ok_hardware_features_5 [safe_scripts]: "ok base_schema value_tokens J hardware_features_5"
  unfolding hardware_features_5_def
  by (intro safe_intros shipped.ok_sets shipped.ok_enable_module safe_scripts; simp)


lemma ok_hardware_features_6 [safe_scripts]: "ok base_schema value_tokens J hardware_features_6"
  unfolding hardware_features_6_def
  by (intro safe_intros shipped.ok_sets shipped.ok_enable_module safe_scripts; simp)


lemma ok_hardware_features_7 [safe_scripts]: "ok base_schema value_tokens J hardware_features_7"
  unfolding hardware_features_7_def
  by (intro safe_intros shipped.ok_sets shipped.ok_enable_module safe_scripts; simp)


lemma ok_hardware_features_8 [safe_scripts]: "ok base_schema value_tokens J hardware_features_8"
  unfolding hardware_features_8_def
  by (intro safe_intros shipped.ok_sets shipped.ok_enable_module safe_scripts; simp)


lemma ok_hardware_features_9 [safe_scripts]: "ok base_schema value_tokens J hardware_features_9"
  unfolding hardware_features_9_def
  by (intro safe_intros shipped.ok_sets shipped.ok_enable_module safe_scripts; simp)


lemma ok_hardware_features_10 [safe_scripts]: "ok base_schema value_tokens J hardware_features_10"
  unfolding hardware_features_10_def
  by (intro safe_intros shipped.ok_sets shipped.ok_enable_module safe_scripts; simp)


lemma ok_hardware_features_11 [safe_scripts]: "ok base_schema value_tokens J hardware_features_11"
  unfolding hardware_features_11_def
  by (intro safe_intros shipped.ok_sets shipped.ok_enable_module safe_scripts; simp)


lemma ok_hardware_features_12 [safe_scripts]: "ok base_schema value_tokens J hardware_features_12"
  unfolding hardware_features_12_def
  by (intro safe_intros shipped.ok_sets shipped.ok_enable_module safe_scripts; simp)


end
