(* ===== verification/Hw_Config_2.thy ===== *)
theory Hw_Config_2
  imports Hw_Config_1
begin

text \<open>
  \<open>hardware_features\<close> of \<open>hw_config.c\<close>, lines 1349 to 2263: the options each board brings.
\<close>

definition hardware_features_13 :: "stmt" where
  "hardware_features_13 = block [
   when_c (is_hw ''NAPA'') [
       token_set_y HC 1351 ''CONFIG_IXP425_COMMON_RG'',
       token_set_y HC 1352 ''CONFIG_ARCH_IXP425_NAPA'',
       token_set HC 1353 ''CONFIG_IXP425_SDRAM_SIZE'' ''64'' [],
       token_set HC 1354 ''CONFIG_IXP425_NUMBER_OF_MEM_CHIPS'' ''4'' [],
       token_set HC 1355 ''CONFIG_RG_CONSOLE_DEVICE'' ''ttyS0'' [],
       token_set HC 1356 ''CONFIG_IXDP425_KGDB_UART'' ''0'' [],
       when_c (disj_c (on ''CONFIG_HW_ETH_WAN'') (on ''CONFIG_HW_ETH_LAN'')) [token_set_m HC 1359 ''CONFIG_IXP425_ETH''],
       when_c (on ''CONFIG_HW_ETH_WAN'') [],
       when_c (on ''CONFIG_HW_ETH_LAN'') [],
       when_c (on ''CONFIG_HW_ETH_LAN2'') [],
       when_c (on ''CONFIG_HW_USB_RNDIS'') [
         token_set_y HC 1372 ''CONFIG_IXP425_CSR_USB'',
         token_set_m HC 1373 ''CONFIG_RG_USB_SLAVE''],
       token_set HC 1377 ''FIRM'' ''Sohoware'' [],
       token_set HC 1378 ''BOARD'' ''NAPA'' [],
       token_set HC 1381 ''CONFIG_IXP425_FLASH_E28F128J3'' ''m'' [],
       token_set_y HC 1383 ''CONFIG_RG_UIEVENTS'',
       token_set_m HC 1384 ''CONFIG_RG_KLEDS'']]"

definition hardware_features_14 :: "stmt" where
  "hardware_features_14 = block [
   when_c (is_hw ''COYOTE'') [
       token_set_y HC 1389 ''CONFIG_IXP425_COMMON_RG'',
       token_set_y HC 1390 ''CONFIG_ARCH_IXP425_COYOTE'',
       when_c (neg (on ''CONFIG_RG_FLASH_LAYOUT_SIZE'')) [token_set HC 1392 ''CONFIG_RG_FLASH_LAYOUT_SIZE'' ''16'' []],
       when_c (neg (on ''CONFIG_IXP425_SDRAM_SIZE'')) [token_set HC 1394 ''CONFIG_IXP425_SDRAM_SIZE'' ''32'' []],
       token_set HC 1395 ''CONFIG_IXP425_NUMBER_OF_MEM_CHIPS'' ''2'' [],
       token_set HC 1396 ''CONFIG_RG_CONSOLE_DEVICE'' ''ttyS1'' [],
       token_set HC 1397 ''CONFIG_IXDP425_KGDB_UART'' ''1'' [],
       when_c (on ''CONFIG_HW_ETH_WAN'') [token_set_m HC 1401 ''CONFIG_IXP425_ETH''],
       when_c (on ''CONFIG_HW_LEDS'') [
         token_set_y HC 1407 ''CONFIG_RG_UIEVENTS'',
         token_set_m HC 1408 ''CONFIG_RG_KLEDS''],
       when_c (on ''CONFIG_HW_HSS_WAN'') [token_set_y HC 1412 ''CONFIG_RG_HSS''],
       when_c (on ''CONFIG_HW_DSL_WAN'') [
         token_set_y HC 1417 ''CONFIG_ADSL_CHIP_ALCATEL_20170'',
         token_set_y HC 1418 ''CONFIG_IXP425_ADSL_USE_SPHY'',
         token_set_m HC 1420 ''CONFIG_IXP425_ATM''],
       when_c (on ''CONFIG_HW_ETH_LAN'') [token_set_m HC 1426 ''CONFIG_IXP425_ETH''],
       when_c (conj_c (on ''CONFIG_HW_ETH_LAN2'') (on ''CONFIG_HW_ETH_WAN'')) [
         conf_err ''Can't define both CONFIG_HW_ETH2 and CONFIG_HW_ETH_WAN''],
       when_c (on ''CONFIG_HW_ETH_LAN2'') [token_set_m HC 1435 ''CONFIG_IXP425_ETH''],
       when_c (on ''CONFIG_HW_ETH_EEPRO100_LAN'') [token_set_m HC 1441 ''CONFIG_EEPRO100''],
       when_c (on ''CONFIG_HW_USB_RNDIS'') [
         token_set_m HC 1447 ''CONFIG_RG_USB_SLAVE'',
         token_set_y HC 1448 ''CONFIG_IXP425_CSR_USB''],
       when_c (on ''CONFIG_HW_80211G_ISL38XX'') [token_set_m HC 1454 ''CONFIG_ISL38XX''],
       when_c (on ''CONFIG_HW_80211G_ISL_SOFTMAC'') [isl_softmac_add],
       when_c (on ''CONFIG_HW_80211B_PRISM2'') [token_set_m HC 1464 ''CONFIG_PRISM2_PCI''],
       when_c (on ''CONFIG_HW_80211G_RALINK_RT2560'') [ralink_rt2560_add ''ra0''],
       when_c (on ''CONFIG_HW_80211G_RALINK_RT2561'') [ralink_rt2561_add ''ra0''],
       when_c (on ''CONFIG_HW_DSP'') [
         token_set_y HC 1476 ''CONFIG_IXP425_DSR'',
         token_set HC 1477 ''CONFIG_HW_NUMBER_OF_FXS_PORTS'' ''2'' []],
       when_c (on ''CONFIG_HW_EEPROM'') [token_set HC 1481 ''CONFIG_PCF8594C2'' ''m'' []],
       when_c (on ''CONFIG_HW_ENCRYPTION'') [
         token_set_y HC 1485 ''CONFIG_IPSEC_USE_IXP4XX_CRYPTO'',
         token_set_y HC 1486 ''CONFIG_IPSEC_ENC_AES''],
       when_c (on ''CONFIG_IXP425_CSR_FULL'') [
         token_set_y HC 1492 ''CONFIG_ADSL_CHIP_ALCATEL_20170'',
         token_set_y HC 1493 ''CONFIG_IXP425_ADSL_USE_SPHY''],
       token_set HC 1496 ''FIRM'' ''Intel'' [],
       token_set HC 1497 ''BOARD'' ''COYOTE'' [],
       token_set HC 1500 ''CONFIG_IXP425_FLASH_E28F128J3'' ''m'' [],
       when_c (on ''CONFIG_HW_IDE'') [
         token_set_y HC 1505 ''CONFIG_IDE'',
         token_set_y HC 1506 ''CONFIG_BLK_DEV_IDE'',
         token_set_y HC 1507 ''CONFIG_BLK_DEV_IDEDISK'',
         token_set_y HC 1508 ''CONFIG_IDEDISK_MULTI_MODE'',
         token_set_y HC 1509 ''CONFIG_RG_IDE_NON_BLOCKING'']]]"

definition hardware_features_15 :: "stmt" where
  "hardware_features_15 = block [
   when_c (is_hw ''MONTEJADE'') [
       token_set_y HC 1515 ''CONFIG_IXP425_COMMON_RG'',
       token_set_y HC 1516 ''CONFIG_ARCH_IXP425_MONTEJADE'',
       token_set HC 1517 ''CONFIG_RG_FLASH_LAYOUT_SIZE'' ''16'' [],
       token_set HC 1518 ''CONFIG_IXP425_SDRAM_SIZE'' ''32'' [],
       token_set HC 1519 ''CONFIG_IXP425_NUMBER_OF_MEM_CHIPS'' ''2'' [],
       token_set HC 1520 ''CONFIG_RG_CONSOLE_DEVICE'' ''ttyS0'' [],
       token_set HC 1521 ''CONFIG_IXDP425_KGDB_UART'' ''0'' [],
       when_c (on ''CONFIG_HW_ETH_WAN'') [token_set_m HC 1525 ''CONFIG_IXP425_ETH''],
       when_c (on ''CONFIG_HW_DSL_WAN'') [
         token_set_y HC 1531 ''CONFIG_HW_ST_20190'',
         token_set_y HC 1532 ''CONFIG_IXP425_ADSL_USE_SPHY'',
         token_set_m HC 1534 ''CONFIG_IXP425_ATM''],
       when_c (on ''CONFIG_HW_ETH_LAN'') [token_set_m HC 1540 ''CONFIG_IXP425_ETH''],
       when_c (on ''CONFIG_HW_SWITCH_LAN'') [token_set_m HC 1546 ''CONFIG_IXP425_ETH''],
       when_c (conj_c (on ''CONFIG_HW_ETH_LAN2'') (on ''CONFIG_HW_ETH_WAN'')) [
         conf_err ''Can't define both CONFIG_HW_ETH2 and CONFIG_HW_ETH_WAN''],
       when_c (on ''CONFIG_HW_ETH_LAN2'') [token_set_m HC 1555 ''CONFIG_IXP425_ETH''],
       when_c (on ''CONFIG_HW_USB_RNDIS'') [
         token_set_m HC 1561 ''CONFIG_RG_USB_SLAVE'',
         token_set_y HC 1562 ''CONFIG_IXP425_CSR_USB''],
       when_c (on ''CONFIG_HW_80211G_ISL38XX'') [token_set_m HC 1568 ''CONFIG_ISL38XX''],
       when_c (on ''CONFIG_HW_80211G_RALINK_RT2560'') [ralink_rt2560_add ''ra0''],
       when_c (on ''CONFIG_HW_80211G_RALINK_RT2561'') [ralink_rt2561_add ''ra0''],
       when_c (on ''CONFIG_HW_80211N_AIRGO_AGN100'') [
         token_set_y HC 1581 ''CONFIG_80211G_AP_ADVANCED'',
         token_set_y HC 1582 ''CONFIG_RG_VENDOR_WLAN_SEC'',
         token_set_y HC 1583 ''CONFIG_RG_WPA_WBM'',
         token_set_y HC 1584 ''CONFIG_RG_8021X_WBM'',
         token_set_m HC 1585 ''CONFIG_AGN100'',
         token_set_y HC 1586 ''CONFIG_NETFILTER''],
       when_c (on ''CONFIG_HW_ENCRYPTION'') [
         token_set_y HC 1593 ''CONFIG_IPSEC_USE_IXP4XX_CRYPTO'',
         token_set_y HC 1594 ''CONFIG_IPSEC_ENC_AES''],
       when_c (on ''CONFIG_HW_DSP'') [
         token_set_y HC 1599 ''CONFIG_IXP425_DSR'',
         token_set HC 1600 ''CONFIG_HW_NUMBER_OF_FXS_PORTS'' ''4'' []],
       token_set HC 1603 ''FIRM'' ''Intel'' [],
       token_set HC 1604 ''BOARD'' ''MONTEJADE'' [],
       token_set HC 1607 ''CONFIG_IXP425_FLASH_E28F640J3'' ''m'' []]]"

definition hardware_features_16 :: "stmt" where
  "hardware_features_16 = block [
   when_c (disj_c (disj_c (is_hw ''JIWIS800'') (is_hw ''JIWIS832'')) (is_hw ''JIWIS832FL'')) [
       ifc (is_hw ''JIWIS800'') [
         token_set_y HC 1615 ''CONFIG_ARCH_IXP425_JIWIS800'',
         token_set HC 1616 ''BOARD'' ''JI-WIS 800'' []]
        [
         ifc (is_hw ''JIWIS832'') [
           token_set_y HC 1620 ''CONFIG_ARCH_IXP425_JIWIS832'',
           token_set HC 1621 ''BOARD'' ''JI-WIS 832'' []]
          [
           when_c (is_hw ''JIWIS832FL'') [
             token_set_y HC 1625 ''CONFIG_ARCH_IXP425_JIWIS832'',
             token_set HC 1626 ''BOARD'' ''JI-WIS 832FL'' []]]],
       token_set HC 1629 ''CONFIG_IXP425_SDRAM_SIZE'' ''128'' [],
       token_set HC 1630 ''CONFIG_IXP425_NUMBER_OF_MEM_CHIPS'' ''4'' [],
       token_set HC 1631 ''CONFIG_RG_CONSOLE_DEVICE'' ''ttyS0'' [],
       token_set HC 1632 ''CONFIG_IXDP425_KGDB_UART'' ''1'' [],
       when_c (on ''CONFIG_HW_ETH_WAN'') [token_set_m HC 1636 ''CONFIG_IXP425_ETH''],
       when_c (on ''CONFIG_HW_DSL_WAN'') [
         token_set_y HC 1642 ''CONFIG_HW_ST_20190'',
         token_set_y HC 1643 ''CONFIG_IXP425_ADSL_USE_SPHY'',
         token_set_m HC 1645 ''CONFIG_IXP425_ATM''],
       when_c (on ''CONFIG_HW_ETH_LAN'') [token_set_m HC 1651 ''CONFIG_IXP425_ETH''],
       when_c (on ''CONFIG_HW_SWITCH_LAN'') [token_set_m HC 1657 ''CONFIG_IXP425_ETH''],
       when_c (conj_c (on ''CONFIG_HW_ETH_LAN2'') (on ''CONFIG_HW_ETH_WAN'')) [
         conf_err ''Can't define both CONFIG_HW_ETH2 and CONFIG_HW_ETH_WAN''],
       when_c (on ''CONFIG_HW_ETH_LAN2'') [token_set_m HC 1666 ''CONFIG_IXP425_ETH''],
       when_c (on ''CONFIG_HW_80211G_ISL38XX'') [token_set_m HC 1672 ''CONFIG_ISL38XX''],
       when_c (on ''CONFIG_HW_80211G_RALINK_RT2560'') [ralink_rt2560_add ''ra0''],
       when_c (on ''CONFIG_HW_80211N_AIRGO_AGN100'') [
         token_set_y HC 1682 ''CONFIG_80211G_AP_ADVANCED'',
         token_set_y HC 1683 ''CONFIG_RG_VENDOR_WLAN_SEC'',
         token_set_y HC 1684 ''CONFIG_RG_WPA_WBM'',
         token_set_y HC 1685 ''CONFIG_RG_8021X_WBM'',
         token_set_m HC 1686 ''CONFIG_AGN100'',
         token_set_y HC 1687 ''CONFIG_NETFILTER''],
       when_c (on ''CONFIG_HW_ENCRYPTION'') [
         token_set_y HC 1694 ''CONFIG_IPSEC_USE_IXP4XX_CRYPTO'',
         token_set_y HC 1695 ''CONFIG_IPSEC_ENC_AES''],
       when_c (on ''CONFIG_HW_DSP'') [
         ifc (is_hw ''JIWIS800'') [
           token_set_y HC 1702 ''CONFIG_IXP425_DSR'',
           token_set HC 1703 ''CONFIG_HW_NUMBER_OF_FXS_PORTS'' ''4'' []]
          [
           ifc (is_hw ''JIWIS832'') []
            [when_c (is_hw ''JIWIS832FL'') []]]],
       when_c (on ''CONFIG_HW_LEDS'') [
         token_set_y HC 1721 ''CONFIG_RG_UIEVENTS'',
         token_set_m HC 1722 ''CONFIG_RG_KLEDS''],
       token_set HC 1725 ''FIRM'' ''JStream'' [],
       token_set HC 1728 ''CONFIG_IXP425_FLASH_E28F128J3'' ''m'' []]]"

definition hardware_features_17 :: "stmt" where
  "hardware_features_17 = block [
   when_c (is_hw ''BRUCE'') [
       token_set_y HC 1733 ''CONFIG_IXP425_COMMON_RG'',
       token_set_y HC 1734 ''CONFIG_ARCH_IXP425_BRUCE'',
       when_c (neg (on ''CONFIG_RG_FLASH_LAYOUT_SIZE'')) [token_set HC 1736 ''CONFIG_RG_FLASH_LAYOUT_SIZE'' ''16'' []],
       token_set HC 1737 ''CONFIG_IXP425_SDRAM_SIZE'' ''128'' [],
       token_set HC 1738 ''CONFIG_SDRAM_SIZE'' ''128'' [],
       token_set HC 1739 ''CONFIG_IXP425_NUMBER_OF_MEM_CHIPS'' ''2'' [],
       token_set HC 1741 ''CONFIG_RG_CONSOLE_DEVICE'' ''ttyS0'' [],
       token_set HC 1742 ''CONFIG_IXDP425_KGDB_UART'' ''0'' [],
       when_c (on ''CONFIG_HW_ETH_WAN'') [token_set_m HC 1746 ''CONFIG_IXP425_ETH''],
       when_c (on ''CONFIG_HW_ETH_LAN'') [token_set_m HC 1752 ''CONFIG_IXP425_ETH''],
       when_c (conj_c (on ''CONFIG_HW_ETH_LAN2'') (on ''CONFIG_HW_ETH_WAN'')) [conf_err ''exit 1''],
       when_c (on ''CONFIG_HW_ETH_LAN2'') [token_set_m HC 1765 ''CONFIG_IXP425_ETH''],
       when_c (on ''CONFIG_HW_80211G_ISL38XX'') [token_set_m HC 1771 ''CONFIG_ISL38XX''],
       when_c (on ''CONFIG_HW_EEPROM'') [token_set HC 1777 ''CONFIG_PCF8594C2'' ''m'' []],
       when_c (on ''CONFIG_HW_ENCRYPTION'') [
         token_set_y HC 1781 ''CONFIG_IPSEC_USE_IXP4XX_CRYPTO'',
         token_set_y HC 1782 ''CONFIG_IPSEC_ENC_AES''],
       token_set HC 1785 ''FIRM'' ''Jabil'' [],
       token_set HC 1786 ''BOARD'' ''Bruce'' [],
       token_set HC 1789 ''CONFIG_IXP425_FLASH_E28F128J3'' ''m'' [],
       when_c (on ''CONFIG_HW_IDE'') [
         token_set_y HC 1794 ''CONFIG_IDE'',
         token_set_y HC 1795 ''CONFIG_BLK_DEV_IDE'',
         token_set_y HC 1796 ''CONFIG_BLK_DEV_IDEDISK'',
         token_set_y HC 1797 ''CONFIG_BLK_DEV_IDECD'',
         token_set_y HC 1798 ''CONFIG_BLK_DEV_IDEPCI'',
         token_set_y HC 1799 ''CONFIG_BLK_DEV_IDEDMA'',
         token_set_y HC 1800 ''CONFIG_BLK_DEV_IDEDMA_PCI'',
         token_set_y HC 1801 ''CONFIG_BLK_DEV_OFFBOARD'',
         token_set_y HC 1802 ''CONFIG_BLK_DEV_SIIMAGE''],
       when_c (on ''CONFIG_HW_LEDS'') [
         token_set_y HC 1807 ''CONFIG_RG_UIEVENTS'',
         token_set_m HC 1808 ''CONFIG_RG_KLEDS''],
       when_c (on ''CONFIG_HW_I2C'') [
         token_set_y HC 1814 ''CONFIG_I2C'',
         token_set_y HC 1815 ''CONFIG_I2C_ALGOBIT'',
         token_set_y HC 1816 ''CONFIG_I2C_IXP425''],
       when_c (on ''CONFIG_HW_CLOCK'') [token_set_m HC 1821 ''CONFIG_I2C_DS1374''],
       when_c (on ''CONFIG_HW_ENV_MONITOR'') [token_set_m HC 1825 ''CONFIG_I2C_LM81''],
       token_set_m HC 1828 ''CONFIG_ARCH_IXP425_BRUCE_CPLD'']]"

definition hardware_features_18a_1 :: "stmt" where
  "hardware_features_18a_1 = block [token_set_y HC 1834 ''CONFIG_INFINEON_TWINPASS'']"

definition hardware_features_18a_2a_1 :: "stmt" where
  "hardware_features_18a_2a_1 = block [
   ifc (neg (token_is_y ''CONFIG_INFINEON_PPE_D4'')) [token_set_y HC 1840 ''CONFIG_DANUBE_ETHERNET_D2'']
      [token_set_m HC 1844 ''CONFIG_DANUBE_ETHERNET_D4''],
   token_set_y HC 1846 ''CONFIG_ADM6996_SUPPORT'',
   token_set_y HC 1847 ''CONFIG_SWITCH_ADM6996I'',
   token_set_y HC 1848 ''CONFIG_SWITCH_ADM6996_MDIO'',
   token_set_y HC 1850 ''CONFIG_WESTELL_MGMUT_FTM'',
   when_c (on ''CONFIG_HW_ETH_LAN'') [],
   when_c (on ''CONFIG_HW_ETH_WAN'') []]"

definition hardware_features_18a_2 :: "stmt" where
  "hardware_features_18a_2 = block [
   ifc (is_hw ''TWINPASS'') [hardware_features_18a_2a_1]
      [
       when_c (is_hw ''ULTRALINE3_TWINPASS'') [
         token_set_y HC 1860 ''CONFIG_WESTELL_ULTRALINE3'',
         token_set_y HC 1861 ''CONFIG_WESTELL_MGMUT_FTM'',
         ifc (neg (token_is_y ''CONFIG_INFINEON_PPE_D4'')) [token_set_y HC 1864 ''CONFIG_DANUBE_ETHERNET_D2'']
          [token_set_m HC 1868 ''CONFIG_DANUBE_ETHERNET_D4''],
         ifc (disj_c (on ''CONFIG_HW_TURBO_DUAL_MOCA'') (on ''CONFIG_HW_TURBO_M100'')) [
           token_set_y HC 1873 ''CONFIG_TANTOS_PSB6973'',
           token_set_y HC 1874 ''CONFIG_RG_DEV_IF_PSB6973_HW_SWITCH'',
           token_set_y HC 1875 ''CONFIG_RG_DEV_IF_PSB6973_HW_WAN_SWITCH'',
           token_set_y HC 1876 ''CONFIG_WSTL_WATCHDOG_CPLD'']
          [token_set_y HC 1879 ''CONFIG_MARVELL_88E60XX''],
         when_c (on ''CONFIG_HW_ETH_LAN'') [
           ifc (on ''CONFIG_TANTOS_PSB6973'') []
            []],
         when_c (disj_c (disj_c (disj_c (on ''CONFIG_HW_ETH_WAN'') (on ''CONFIG_HW_VDSL_WAN'')) (on ''CONFIG_HW_MOCA_WAN'')) (on ''CONFIG_HW_WAN_ETHERNET'')) [
           ifc (on ''CONFIG_TANTOS_PSB6973'') []
            []],
         when_c (on ''CONFIG_HW_VDSL_WAN'') [],
         when_c (on ''CONFIG_HW_MOCA_WAN'') [
           ifc (disj_c (on ''CONFIG_HW_WAN_ETHERNET'') (on ''CONFIG_HW_DEF_TO_WAN_ETH'')) []
            []],
         when_c (on ''CONFIG_HW_WAN_ETHERNET'') [],
         ifc (on ''CONFIG_HW_MOCA_WAN'') []
          [],
         token_set_y HC 1938 ''CONFIG_PCI'',
         when_c (on ''CONFIG_HW_80211G_RALINK_RT2560'') [ralink_rt2560_add ''ra0''],
         when_c (on ''CONFIG_HW_MOCA'') [
           ifc (on ''CONFIG_HW_TURBO_DUAL_MOCA'') [
             token_set_y HC 1946 ''MOCA_TURBO_LAN'',
             ifc (on ''MOCA_VERSION_1_1'') [token_set_y HC 1949 ''MOCA_ENTROPIC_TURBO'']
              [token_set_y HC 1953 ''MOCA_ENTROPIC_V_04'']]
            [
             when_c (on ''CONFIG_HW_DUAL_MOCA'') [token_set_y HC 1958 ''MOCA_ENTROPIC_V_04'']],
           token_set_y HC 1963 ''CONFIG_WSTL_MOCA_CHANGE'',
           token_set_y HC 1964 ''CONFIG_ENTROPIC_CLINK'',
           ifc (on ''CONFIG_HW_MOCA_WAN'') []
            []],
         when_c (on ''CONFIG_HW_USB_STORAGE'') [
           token_set_y HC 1982 ''CONFIG_GENERIC_ISA_DMA'',
           token_set_y HC 1983 ''CONFIG_USB'',
           token_set_y HC 1984 ''CONFIG_USB_STORAGE'',
           token_set_y HC 1985 ''CONFIG_USB_DEVICEFS'',
           token_set_y HC 1986 ''CONFIG_USB_EHCI_HCD'',
           token_set_m HC 1988 ''CONFIG_USB_DWC_OTG_HCD'',
           token_set_y HC 1989 ''CONFIG_USB_SERIAL'',
           token_set_y HC 1990 ''CONFIG_USB_SERIAL_PL2303'',
           token_set_y HC 1991 ''CONFIG_USB_SERIAL_SPCP8X5'',
           when_c (on ''CONFIG_HW_TURBO_M100'') [token_set_y HC 1995 ''CONFIG_WSTL_USBHUBOVERCURRENT_CPLD''],
           when_c (on ''CONFIG_HW_DUAL_MOCA'') [token_set_y HC 1999 ''CONFIG_WSTL_USBHOSTOVERCURRENT_GPIO'']]]]]"

definition hardware_features_18a_3 :: "stmt" where
  "hardware_features_18a_3 = block [
   when_c (on ''CONFIG_RG_FASTPATH'') [
       token_set_y HC 2006 ''CONFIG_RG_FASTPATH_PLAT_TWINPASS'',
       token_set HC 2007 ''CONFIG_RG_FASTPATH_PLAT_PATH'' ''vendor/infineon/twinpass/rg_modules'' [],
       token_set_m HC 2009 ''CONFIG_DANUBE_PPA'',
       when_c (token_is_y ''CONFIG_INFINEON_PPE_D4'') [token_set_y HC 2013 ''CONFIG_DANUBE_PPA_D4'']],
   ifc (on ''CONFIG_HW_80211G_ATHEROS_AR521X'') [
       atheros_ar521x_add ''wifi0'' [''ath0''],
       when_c (on ''CONFIG_HW_80211N_ATHEROS_AR50WL'') [atheros_ar50wl_add ''wifi1'' [''ath1'']]]
      [
       when_c (on ''CONFIG_HW_80211N_ATHEROS_AR50WL'') [atheros_ar50wl_add ''wifi0'' [''ath0'']]],
   when_c (on ''CONFIG_HW_VDSL_WAN'') [
       when_c (neg (token_is_y ''CONFIG_RG_INFINEON_VDSL'')) [token_set_y HC 2046 ''CONFIG_RG_IKANOS_VDSL''],
       token_set_y HC 2049 ''CONFIG_RG_THREADS''],
   when_c (on ''CONFIG_HW_MOCA_WAN'') [token_set_y HC 2053 ''CONFIG_RG_MOCA_WAN''],
   when_c (on ''CONFIG_HW_WAN_ETHERNET'') [token_set_y HC 2057 ''CONFIG_RG_WAN_ETHERNET''],
   when_c (on ''CONFIG_HW_LEDS'') [
       token_set_y HC 2062 ''CONFIG_RG_UIEVENTS'',
       token_set_m HC 2063 ''CONFIG_RG_KLEDS''],
   token_set_y HC 2067 ''CONFIG_MTD'',
   token_set_y HC 2068 ''CONFIG_MTD_CFI_ADV_OPTIONS'',
   token_set_y HC 2069 ''CONFIG_MTD_CFI_NOSWAP'',
   token_set_y HC 2070 ''CONFIG_MTD_CFI_GEOMETRY'',
   token_set_y HC 2071 ''CONFIG_MTD_CFI_B2'',
   token_set_y HC 2072 ''CONFIG_MTD_CFI_I1'',
   token_set_y HC 2073 ''CONFIG_MTD_CFI_AMDSTD'',
   token_set HC 2074 ''CONFIG_MTD_CFI_AMDSTD_RETRY'' ''0'' [],
   token_set_y HC 2075 ''CONFIG_MTD_CFI_UTIL'',
   when_c (on ''CONFIG_HW_ENCRYPTION'') [
       token_set_m HC 2079 ''CONFIG_CRYPTO_DANUBE'',
       token_set_y HC 2080 ''CONFIG_CRYPTO_DEV_DANUBE'',
       token_set_y HC 2081 ''CONFIG_CRYPTO_DEV_DANUBE_DES'',
       token_set_y HC 2082 ''CONFIG_CRYPTO_DEV_DANUBE_AES'',
       token_set_y HC 2083 ''CONFIG_CRYPTO_DEV_DANUBE_SHA1'',
       token_set_y HC 2084 ''CONFIG_CRYPTO_DEV_DANUBE_MD5'']]"

definition hardware_features_18 :: "stmt" where
  "hardware_features_18 = block [
   when_c (disj_c (is_hw ''TWINPASS'') (is_hw ''ULTRALINE3_TWINPASS'')) [
       hardware_features_18a_1,
       hardware_features_18a_2,
       hardware_features_18a_3]]"

definition hardware_features_19 :: "stmt" where
  "hardware_features_19 = block [
   when_c (is_hw ''AD6834'') [
       local_c (os_is ''LINUX_26'') (\<lambda>is_linux26. [
         token_set_y HC 2092 ''CONFIG_MACH_ADI_FUSIV'',
         token_set_y HC 2094 ''CONFIG_CPU_LX4189'',
         token_set_y HC 2095 ''CONFIG_ADI_6843'',
         token_set_y HC 2096 ''CONFIG_PCI'',
         token_set_y HC 2097 ''CONFIG_NEW_PCI'',
         token_set_y HC 2098 ''CONFIG_PCI_AUTO'',
         token_set HC 2100 ''CONFIG_SDRAM_SIZE'' ''32'' [],
         token_set HC 2101 ''CONFIG_RG_FLASH_LAYOUT_SIZE'' ''8'' [],
         token_set_y HC 2103 ''CONFIG_ADI_6843_RG1'',
         when_c (on ''CONFIG_HW_ETH_LAN'') [
           ifc (neg (pure is_linux26)) [token_set_y HC 2107 ''CONFIG_ETH_NETPRO_SIERRA'']
            [token_set_y HC 2109 ''CONFIG_ADI_FUSIV_ETHERNET'']],
         when_c (on ''CONFIG_HW_ETH_WAN'') [token_set_y HC 2116 ''CONFIG_ETH_NETPRO_SIERRA''],
         when_c (on ''CONFIG_HW_DSL_WAN'') [
           token_set_y HC 2122 ''CONFIG_ATM'',
           when_c (neg (pure is_linux26)) [token_set_y HC 2124 ''CONFIG_ZLIB_INFLATE''],
           token_set_y HC 2125 ''CONFIG_RG_ATM_QOS''],
         token_set HC 2129 ''BOARD'' ''AD6834'' [],
         token_set HC 2130 ''FIRM'' ''Analog Devices'' [],
         when_c (on ''CONFIG_HW_USB_RNDIS'') [
           token_set_y HC 2134 ''CONFIG_USB_RNDIS'',
           token_set_m HC 2135 ''CONFIG_ADI_6843_USB''],
         when_c (on ''CONFIG_HW_80211G_RALINK_RT2560'') [
           ralink_rt2560_add ''ra0'',
           token_set HC 2142 ''CONFIG_RALINK_RT2560_TIMECSR'' ''0x40'' []],
         when_c (on ''CONFIG_HW_80211G_RALINK_RT2561'') [ralink_rt2561_add ''ra0''],
         when_c (on ''CONFIG_HW_DSP'') [
           token_set_y HC 2150 ''CONFIG_DSPDRIVER_218X'',
           token_set HC 2151 ''CONFIG_HW_NUMBER_OF_FXS_PORTS'' ''2'' []],
         when_c (neg (pure is_linux26)) [token_set_m HC 2155 ''CONFIG_ADI_6843_MTD'']])]]"

definition hardware_features_20 :: "stmt" where
  "hardware_features_20 = block [
   when_c (is_hw ''BCM96358'') [
       token_set_y HC 2160 ''CONFIG_BCM963XX_COMMON'',
       token_set_y HC 2161 ''CONFIG_BCM96358'',
       token_set_y HC 2162 ''CONFIG_BCM963XX_SERIAL'',
       token_set_y HC 2163 ''CONFIG_BCM96358_BOARD'',
       token_set_y HC 2164 ''CONFIG_BCM96358_MTD'',
       token_set HC 2165 ''CONFIG_BCM963XX_BOARD_ID'' ''96358GW'' [],
       token_set HC 2166 ''CONFIG_BCM963XX_SDRAM_SIZE'' ''32'' [],
       token_set HC 2167 ''CONFIG_RG_FLASH_LAYOUT_SIZE'' ''4'' [],
       token_set HC 2168 ''CONFIG_BCM963XX_CHIP'' ''6358'' [],
       when_c (on ''CONFIG_HW_DSL_WAN'') [
         token_set_y HC 2172 ''CONFIG_ATM'',
         token_set_m HC 2173 ''CONFIG_BCM963XX_ADSL'',
         token_set_m HC 2174 ''CONFIG_BCM963XX_ATM'',
         token_set_y HC 2175 ''CONFIG_RG_ATM_QOS''],
       when_c (conj_c (on ''CONFIG_HW_ETH_WAN'') (on ''CONFIG_HW_ETH_LAN'')) [
         conf_err ''Ethernet device 'bcm0' cannot be WAN and LAN device''],
       when_c (on ''CONFIG_HW_ETH_WAN'') [token_set_m HC 2184 ''CONFIG_BCM963XX_ETH''],
       when_c (on ''CONFIG_HW_ETH_LAN'') [
         when_c (neg (on ''CONFIG_HW_SWITCH_LAN'')) [token_set_m HC 2194 ''CONFIG_BCM963XX_ETH'']],
       when_c (on ''CONFIG_HW_SWITCH_LAN'') [
         token_set_m HC 2201 ''CONFIG_HW_SWITCH_BCM53XX'',
         token_set_m HC 2202 ''CONFIG_BCM963XX_ETH''],
       when_c (on ''CONFIG_HW_80211G_BCM43XX'') [
         token_set_y HC 2208 ''CONFIG_BCM4318'',
         bcm43xx_add (Some ''wl0'')],
       token_set_y HC 2212 ''CONFIG_PCI'',
       token_set_y HC 2213 ''CONFIG_NEW_PCI'',
       token_set_y HC 2214 ''CONFIG_PCI_AUTO'',
       token_set HC 2216 ''BOARD'' ''BCM96358'' [],
       token_set HC 2217 ''FIRM'' ''Broadcom'' []],
   when_c (is_hw ''HG21'') [
       token_set_y HC 2222 ''CONFIG_IXP425_COMMON_RG'',
       token_set_y HC 2223 ''CONFIG_ARCH_IXP425_HG21'',
       token_set HC 2224 ''CONFIG_IXP425_SDRAM_SIZE'' ''32'' [],
       token_set HC 2225 ''CONFIG_IXP425_NUMBER_OF_MEM_CHIPS'' ''2'' [],
       token_set HC 2226 ''CONFIG_RG_CONSOLE_DEVICE'' ''ttyS0'' [],
       token_set HC 2227 ''CONFIG_IXDP425_KGDB_UART'' ''0'' [],
       when_c (disj_c (on ''CONFIG_HW_ETH_WAN'') (on ''CONFIG_HW_ETH_LAN'')) [token_set_m HC 2230 ''CONFIG_IXP425_ETH''],
       when_c (on ''CONFIG_HW_ETH_WAN'') [],
       when_c (on ''CONFIG_HW_ETH_LAN'') [],
       when_c (on ''CONFIG_HW_ETH_LAN2'') [],
       when_c (on ''CONFIG_HW_80211G_ISL38XX'') [token_set_m HC 2243 ''CONFIG_ISL38XX''],
       when_c (on ''CONFIG_HW_ENCRYPTION'') [
         token_set_y HC 2249 ''CONFIG_IPSEC_USE_IXP4XX_CRYPTO'',
         token_set_y HC 2250 ''CONFIG_IPSEC_ENC_AES''],
       token_set HC 2253 ''FIRM'' ''Welltech'' [],
       token_set HC 2254 ''BOARD'' ''HG21'' [],
       token_set HC 2257 ''CONFIG_IXP425_FLASH_E28F640J3'' ''m'' [],
       token_set HC 2258 ''CONFIG_IXP425_FLASH_USER_PART'' ''0x00100000'' [],
       token_set_y HC 2262 ''CONFIG_RG_RMT_UPGRADE_IMG_IN_MEM'']]"

lemma ok_hardware_features_13 [safe_scripts]: "ok base_schema value_tokens J hardware_features_13"
  unfolding hardware_features_13_def
  by (intro safe_intros shipped.ok_sets shipped.ok_enable_module safe_scripts; simp)


lemma ok_hardware_features_14 [safe_scripts]: "ok base_schema value_tokens J hardware_features_14"
  unfolding hardware_features_14_def
  by (intro safe_intros shipped.ok_sets shipped.ok_enable_module safe_scripts; simp)


lemma ok_hardware_features_15 [safe_scripts]: "ok base_schema value_tokens J hardware_features_15"
  unfolding hardware_features_15_def
  by (intro safe_intros shipped.ok_sets shipped.ok_enable_module safe_scripts; simp)


lemma ok_hardware_features_16 [safe_scripts]: "ok base_schema value_tokens J hardware_features_16"
  unfolding hardware_features_16_def
  by (intro safe_intros shipped.ok_sets shipped.ok_enable_module safe_scripts; simp)


lemma ok_hardware_features_17 [safe_scripts]: "ok base_schema value_tokens J hardware_features_17"
  unfolding hardware_features_17_def
  by (intro safe_intros shipped.ok_sets shipped.ok_enable_module safe_scripts; simp)


lemma ok_hardware_features_18a_1 [safe_scripts]: "ok base_schema value_tokens J hardware_features_18a_1"
  unfolding hardware_features_18a_1_def
  by (intro safe_intros shipped.ok_sets shipped.ok_enable_module safe_scripts; simp)


lemma ok_hardware_features_18a_2a_1 [safe_scripts]: "ok base_schema value_tokens J hardware_features_18a_2a_1"
  unfolding hardware_features_18a_2a_1_def
  by (intro safe_intros shipped.ok_sets shipped.ok_enable_module safe_scripts; simp)


lemma ok_hardware_features_18a_2 [safe_scripts]: "ok base_schema value_tokens J hardware_features_18a_2"
  unfolding hardware_features_18a_2_def
  by (intro safe_intros shipped.ok_sets shipped.ok_enable_module safe_scripts; simp)


lemma ok_hardware_features_18a_3 [safe_scripts]: "ok base_schema value_tokens J hardware_features_18a_3"
  unfolding hardware_features_18a_3_def
  by (intro safe_intros shipped.ok_sets shipped.ok_enable_module safe_scripts; simp)


lemma ok_hardware_features_18 [safe_scripts]: "ok base_schema value_tokens J hardware_features_18"
  unfolding hardware_features_18_def
  by (intro safe_intros shipped.ok_sets shipped.ok_enable_module safe_scripts; simp)


lemma ok_hardware_features_19 [safe_scripts]: "ok base_schema value_tokens J hardware_features_19"
  unfolding hardware_features_19_def
  by (intro safe_intros shipped.ok_sets shipped.ok_enable_module safe_scripts; simp)


lemma ok_hardware_features_20 [safe_scripts]: "ok base_schema value_tokens J hardware_features_20"
  unfolding hardware_features_20_def
  by (intro safe_intros shipped.ok_sets shipped.ok_enable_module safe_scripts; simp)


end
