(* ===== verification/Hw_Config_3.thy ===== *)
theory Hw_Config_3
  imports Hw_Config_2
begin

text \<open>
  \<open>hardware_features\<close> of \<open>hw_config.c\<close>, lines 2265 to 2854: the options each board brings.
\<close>

definition hardware_features_21 :: "stmt" where
  "hardware_features_21 = block [
   when_c (is_hw ''BAMBOO'') [
       when_c (disj_c (on ''CONFIG_HW_ETH_WAN'') (on ''CONFIG_HW_ETH_LAN'')) [token_set_m HC 2268 ''CONFIG_IXP425_ETH''],
       when_c (on ''CONFIG_HW_ETH_WAN'') [],
       when_c (on ''CONFIG_HW_ETH_LAN'') [],
       when_c (on ''CONFIG_HW_ETH_LAN2'') [],
       when_c (on ''CONFIG_HW_LEDS'') [
         token_set_y HC 2281 ''CONFIG_RG_UIEVENTS'',
         token_set_m HC 2282 ''CONFIG_RG_KLEDS''],
       when_c (on ''CONFIG_HW_ENCRYPTION'') [
         token_set_y HC 2287 ''CONFIG_IPSEC_USE_IXP4XX_CRYPTO'',
         token_set_y HC 2288 ''CONFIG_IPSEC_ENC_AES''],
       token_set_y HC 2291 ''CONFIG_IXP425_COMMON_RG'',
       token_set_y HC 2292 ''CONFIG_ARCH_IXP425_BAMBOO'',
       token_set HC 2293 ''CONFIG_IXP425_SDRAM_SIZE'' ''64'' [],
       token_set HC 2294 ''CONFIG_IXP425_NUMBER_OF_MEM_CHIPS'' ''4'' [],
       token_set HC 2295 ''CONFIG_RG_CONSOLE_DEVICE'' ''ttyS1'' [],
       token_set HC 2296 ''CONFIG_IXDP425_KGDB_UART'' ''1'' [],
       token_set_m HC 2297 ''CONFIG_AT93CXX'',
       token_set_m HC 2298 ''CONFIG_ADM6996'',
       token_set_y HC 2299 ''CONFIG_RG_VLAN_8021Q'',
       token_set_y HC 2302 ''CONFIG_IXP425_CSR_HSS'',
       token_set HC 2303 ''CONFIG_IXP425_CODELETS'' ''m'' [],
       token_set HC 2304 ''CONFIG_IXP425_CODELET_HSS'' ''m'' [],
       token_set HC 2307 ''CONFIG_IXP425_FLASH_E28F128J3'' ''m'' [],
       token_set HC 2309 ''FIRM'' ''Planex'' [],
       token_set HC 2310 ''BOARD'' ''BAMBOO'' []],
   when_c (is_hw ''USR8200'') [
       when_c (disj_c (on ''CONFIG_HW_ETH_WAN'') (on ''CONFIG_HW_ETH_LAN'')) [token_set_m HC 2316 ''CONFIG_IXP425_ETH''],
       when_c (on ''CONFIG_HW_ETH_WAN'') [],
       when_c (on ''CONFIG_HW_ETH_LAN'') [],
       when_c (on ''CONFIG_HW_ETH_LAN2'') [],
       when_c (on ''CONFIG_HW_CLOCK'') [token_set HC 2328 ''CONFIG_JEEVES_RTC7301'' ''m'' []],
       when_c (on ''CONFIG_HW_ENCRYPTION'') [
         token_set_y HC 2332 ''CONFIG_IPSEC_USE_IXP4XX_CRYPTO'',
         token_set_y HC 2333 ''CONFIG_IPSEC_ENC_AES''],
       when_c (on ''CONFIG_HW_LEDS'') [
         token_set_y HC 2338 ''CONFIG_RG_UIEVENTS'',
         token_set_m HC 2339 ''CONFIG_RG_KLEDS''],
       token_set HC 2343 ''CONFIG_IXP425_FLASH_E28F128J3'' ''m'' [],
       token_set HC 2344 ''CONFIG_RG_CONSOLE_DEVICE'' ''ttyS1'' [],
       token_set HC 2345 ''FIRM'' ''USR'' [],
       token_set HC 2346 ''BOARD'' ''USR8200'' [],
       token_set_y HC 2347 ''CONFIG_ARCH_IXP425_JEEVES'',
       token_set HC 2348 ''CONFIG_IXP425_SDRAM_SIZE'' ''64'' [],
       token_set HC 2349 ''CONFIG_IXP425_NUMBER_OF_MEM_CHIPS'' ''2'' []]]"

definition hardware_features_22 :: "stmt" where
  "hardware_features_22 = block [
   when_c (is_hw ''GTWX5715'') [
       when_c (disj_c (on ''CONFIG_HW_ETH_WAN'') (on ''CONFIG_HW_ETH_LAN'')) [token_set_m HC 2355 ''CONFIG_IXP425_ETH''],
       when_c (on ''CONFIG_HW_ETH_WAN'') [],
       when_c (on ''CONFIG_HW_ETH_LAN'') [],
       when_c (on ''CONFIG_HW_ETH_LAN2'') [],
       when_c (on ''CONFIG_HW_80211G_ISL38XX'') [token_set_m HC 2368 ''CONFIG_ISL38XX''],
       when_c (on ''CONFIG_HW_80211G_RALINK_RT2560'') [ralink_rt2560_add ''ra0''],
       when_c (on ''CONFIG_HW_80211G_RALINK_RT2561'') [ralink_rt2561_add ''ra0''],
       when_c (on ''CONFIG_HW_ENCRYPTION'') [
         token_set_y HC 2380 ''CONFIG_IPSEC_USE_IXP4XX_CRYPTO'',
         token_set_y HC 2381 ''CONFIG_IPSEC_ENC_AES''],
       token_set_y HC 2384 ''CONFIG_GEMTEK_COMMON'',
       token_set_y HC 2385 ''CONFIG_GEMTEK_WX5715'',
       token_set_y HC 2386 ''CONFIG_IXP425_COMMON_RG'',
       token_set_y HC 2387 ''CONFIG_ARCH_IXP425_GTWX5715'',
       token_set HC 2388 ''CONFIG_IXP425_SDRAM_SIZE'' ''32'' [],
       token_set HC 2389 ''CONFIG_IXP425_NUMBER_OF_MEM_CHIPS'' ''2'' [],
       token_set HC 2390 ''CONFIG_RG_CONSOLE_DEVICE'' ''ttyS1'' [],
       token_set HC 2391 ''CONFIG_IXDP425_KGDB_UART'' ''1'' [],
       token_set HC 2394 ''CONFIG_IXP425_FLASH_E28F640J3'' ''m'' [],
       token_set HC 2396 ''FIRM'' ''Gemtek'' [],
       token_set HC 2397 ''BOARD'' ''GTWX5715'' []],
   when_c (is_hw ''TI_404'') [
       when_c (on ''CONFIG_HW_CABLE_WAN'') [],
       when_c (on ''CONFIG_HW_ETH_LAN'') [],
       set_big_endian HC 2412 True,
       token_set_y HC 2413 ''CONFIG_TI_404_MIPS'',
       token_set_y HC 2414 ''CONFIG_TI_404_COMMON'',
       token_set HC 2415 ''CONFIG_ARCH_MACHINE'' ''ti404'' [],
       token_set HC 2416 ''RAM_HIGH_ADRS'' ''0x94F00000'' [],
       token_set HC 2417 ''RAM_LOW_ADRS'' ''0x94001000'' []]]"

definition hardware_features_23 :: "stmt" where
  "hardware_features_23 = block [
   when_c (disj_c (disj_c (disj_c (is_hw ''AR531X_G'') (is_hw ''WRT108G'')) (is_hw ''AR531X_WRT55AG'')) (is_hw ''AR531X_AG'')) [
       local_c (disj_c (is_hw ''AR531X_WRT55AG'') (is_hw ''AR531X_AG'')) (\<lambda>is_ag_board. [
         when_c (on ''CONFIG_HW_ETH_WAN'') [],
         when_c (on ''CONFIG_HW_ETH_LAN'') [],
         ifc (is_hw ''AR531X_WRT55AG'') [token_set_y HC 2439 ''CONFIG_PHY_KS8995M'']
          [token_set_y HC 2441 ''CONFIG_PHY_MARVEL''],
         when_c (on ''CONFIG_HW_80211G_AR531X'') [
           token_set_y HC 2445 ''CONFIG_RG_VENDOR_WLAN_SEC'',
           token_set_y HC 2446 ''CONFIG_RG_WPA_WBM'',
           token_set_y HC 2447 ''CONFIG_RG_8021X_WBM'',
           token_set_y HC 2448 ''CONFIG_80211G_AP_ADVANCED'',
           token_set_y HC 2449 ''CONFIG_RG_WLAN_AUTO_CHANNEL_SELECT''],
         when_c (on ''CONFIG_HW_80211A_AR531X'') [],
         token_set HC 2455 ''ARCH'' ''mips'' [],
         set_big_endian HC 2456 True,
         token_set_y HC 2457 ''CONFIG_ATHEROS_AR531X_MIPS'',
         token_set HC 2458 ''RAM_HIGH_ADRS'' ''0x80680000'' [],
         token_set HC 2459 ''RAM_LOW_ADRS'' ''0x80010000'' [],
         token_set_y HC 2460 ''CONFIG_VX_TFFS'',
         token_set_y HC 2461 ''CONFIG_RG_VX_DEFERRED_TX'',
         ifc (is_hw ''WRT108G'') [
           token_set_y HC 2465 ''CONFIG_ARCH_WRT108G'',
           token_set_y HC 2466 ''CONFIG_RG_WLAN_AUTO_CHANNEL_SELECT'']
          [token_set_y HC 2469 ''CONFIG_ARCH_AR531X''],
         when_c (atoi_le ''CONFIG_SDRAM_SIZE'' 8) [token_set_y HC 2472 ''CONFIG_SMALL_SDRAM'']])],
   when_c (disj_c (is_hw ''CX8620XR'') (is_hw ''CX8620XD'')) [
       ifc (is_hw ''CX8620XR'') [
         token_set HC 2479 ''CONFIG_CX8620X_SDRAM_SIZE'' ''8'' [],
         token_set_y HC 2480 ''CONFIG_RG_BOOTSTRAP'',
         token_set_m HC 2483 ''CONFIG_CX8620X_FLASH_TE28F160C3'',
         token_set HC 2484 ''BOARD'' ''CX8620XR'' []]
        [
         token_set HC 2488 ''CONFIG_CX8620X_SDRAM_SIZE'' ''64'' [],
         when_c (on ''CONFIG_LSP_DIST'') [token_set_y HC 2491 ''CONFIG_RG_BOOTSTRAP''],
         when_c (neg (on ''CONFIG_CX8620X_FLASH_TE28F320C3'')) [token_set_m HC 2495 ''CONFIG_CX8620X_FLASH_TE28F640C3''],
         token_set HC 2496 ''BOARD'' ''CX8620XD'' []],
       token_set_m HC 2499 ''CONFIG_CX8620X_SWITCH'',
       when_c (on ''CONFIG_HW_ETH_WAN'') [],
       when_c (on ''CONFIG_HW_ETH_LAN'') [],
       when_c (on ''CONFIG_HW_ETH_LAN2'') [],
       when_c (on ''CONFIG_HW_USB_HOST_EHCI'') [token_set_y HC 2511 ''CONFIG_CX8620X_EHCI''],
       when_c (on ''CONFIG_HW_LEDS'') [
         token_set_y HC 2515 ''CONFIG_RG_UIEVENTS'',
         token_set_m HC 2516 ''CONFIG_RG_KLEDS''],
       when_c (on ''CONFIG_HW_80211G_ISL_SOFTMAC'') [isl_softmac_add],
       when_c (on ''CONFIG_HW_80211G_RALINK_RT2560'') [ralink_rt2560_add ''ra0''],
       when_c (on ''CONFIG_HW_80211G_RALINK_RT2561'') [ralink_rt2561_add ''ra0''],
       token_set HC 2528 ''FIRM'' ''Conexant'' []]]"

definition hardware_features_24 :: "stmt" where
  "hardware_features_24 = block [
   when_c (is_hw ''CX9451X'') [
       set_big_endian HC 2532 False,
       token_set HC 2533 ''ARCH'' ''arm'' [],
       token_set HC 2534 ''CONFIG_ARCH_MACHINE'' ''solos'' [],
       token_set_y HC 2535 ''CONFIG_HAS_MMU'',
       token_set_y HC 2536 ''CONFIG_RG_MAINFS_CRAMFS'',
       token_set HC 2537 ''CONFIG_CMDLINE'' ''console=ttyS0,38400'' [],
       token_set_y HC 2545 ''CONFIG_RG_INITFS_RAMFS'',
       token_set_y HC 2546 ''CONFIG_RG_MODFS_CRAMFS'',
       token_set HC 2547 ''CONFIG_ZBOOT_ROM_TEXT'' ''0'' [],
       token_set_y HC 2548 ''CONFIG_CONEXANT_COMMON'',
       token_set_y HC 2549 ''CONFIG_CX9451X_COMMON'',
       token_set_y HC 2550 ''CONFIG_CPU_32'',
       token_set_y HC 2552 ''CONFIG_LOCK_KERNEL'',
       token_set_y HC 2553 ''CONFIG_FPE_NWFPE'',
       token_set_y HC 2554 ''CONFIG_ALIGNMENT_TRAP'',
       token_set_y HC 2555 ''CONFIG_PREVENT_FIRMWARE_BUILD'',
       token_set_y HC 2556 ''CONFIG_ARCH_SOLOS_GALLUS'',
       token_set_y HC 2557 ''CONFIG_ARCH_SOLOS_376PIN'',
       token_set_y HC 2558 ''CONFIG_MACH_SOLOS_GALLUSBU'',
       token_set_y HC 2559 ''CONFIG_CPU_ARM1026'',
       token_set_y HC 2560 ''CONFIG_CPU_32v5'',
       token_set_y HC 2561 ''CONFIG_CPU_ABRT_EV5T'',
       token_set_y HC 2562 ''CONFIG_CPU_CACHE_VIVT'',
       token_set_y HC 2563 ''CONFIG_CPU_COPY_V4WB'',
       token_set_y HC 2564 ''CONFIG_CPU_TLB_V4WBI'',
       token_set_y HC 2565 ''CONFIG_FW_LOADER'',
       token_set_y HC 2566 ''CONFIG_STANDALONE'',
       token_set_y HC 2567 ''CONFIG_RWSEM_GENERIC_SPINLOCK'',
       token_set_y HC 2568 ''CONFIG_UID16'',
       token_set_y HC 2569 ''CONFIG_UNIX98_PTYS'',
       token_set_y HC 2570 ''CONFIG_SERIAL_CORE'',
       token_set_y HC 2571 ''CONFIG_SERIAL_CORE_CONSOLE'',
       token_set_y HC 2572 ''CONFIG_SERIAL_SOLOS'',
       token_set_y HC 2573 ''CONFIG_SERIAL_SOLOS_CONSOLE'',
       token_set HC 2574 ''CONFIG_SERIAL_SOLOS_CONSOLE_BAUD'' ''38400'' [],
       token_set_y HC 2575 ''CONFIG_KGDB_SOLOS_SERIAL'',
       token_set HC 2576 ''LIBC_ARCH'' ''arm'' [],
       token_set HC 2577 ''CONFIG_SPLIT_PTLOCK_CPUS'' ''4'' [],
       token_set_y HC 2578 ''CONFIG_FLATMEM'',
       token_set_y HC 2579 ''CONFIG_FLAT_NODE_MEM_MAP'',
       token_set_y HC 2582 ''CONFIG_MTD'',
       token_set_y HC 2583 ''CONFIG_MTD_CMDLINE_PARTS'',
       token_set_y HC 2584 ''CONFIG_MTD_CHAR'',
       token_set_y HC 2585 ''CONFIG_MTD_MAP_BANK_WIDTH_1'',
       token_set_y HC 2586 ''CONFIG_MTD_MAP_BANK_WIDTH_2'',
       token_set_y HC 2587 ''CONFIG_MTD_MAP_BANK_WIDTH_4'',
       token_set_y HC 2588 ''CONFIG_MTD_CFI_I1'',
       token_set_y HC 2589 ''CONFIG_MTD_CFI_I2'',
       token_set_y HC 2590 ''CONFIG_MTD_CFI_INTELEXT'',
       token_set_y HC 2591 ''CONFIG_MTD_CFI_UTIL'',
       token_set_y HC 2592 ''CONFIG_MTD_PHYSMAP'',
       token_set HC 2593 ''CONFIG_MTD_PHYSMAP_START'' ''0x38000000'' [],
       token_set HC 2594 ''CONFIG_MTD_PHYSMAP_LEN'' ''0x1000000'' [],
       token_set HC 2595 ''CONFIG_MTD_PHYSMAP_BANKWIDTH'' ''1'' [],
       token_set_y HC 2596 ''CONFIG_OBSOLETE_INTERMODULE'',
       when_c (neg (on ''CONFIG_LSP_DIST'')) [when_c (on ''CONFIG_HW_ETH_WAN'') []],
       when_c (on ''CONFIG_HW_USB_STORAGE'') [
         token_set_y HC 2606 ''CONFIG_USB'',
         token_set_y HC 2607 ''CONFIG_USB_DEVICEFS'',
         token_set_y HC 2608 ''CONFIG_USB_EHCI_HCD'',
         token_set_y HC 2609 ''CONFIG_USB_EHCI_ROOT_HUB_TT'',
         token_set_y HC 2610 ''CONFIG_USB_SOLOS_HCD'',
         token_set_y HC 2611 ''CONFIG_SOLOS_USB_HOST0'',
         token_set_y HC 2612 ''CONFIG_SOLOS_USB_HOST1''],
       when_c (on ''CONFIG_HW_DSP'') [
         token_set_m HC 2617 ''CONFIG_CX9451X_DSP'',
         token_set HC 2618 ''CONFIG_HW_NUMBER_OF_FXS_PORTS'' ''2'' []],
       when_c (on ''CONFIG_HW_DSL_WAN'') [
         token_set_y HC 2623 ''CONFIG_ATM'',
         token_set_y HC 2624 ''CONFIG_RG_ATM_QOS'']]]"

definition hardware_features_25 :: "stmt" where
  "hardware_features_25 = block [
   when_c (is_hw ''COMCERTO'') [
       when_c (on ''CONFIG_COMCERTO_COMMON'') [
         when_c (on ''CONFIG_HW_ETH_LAN'') [],
         when_c (on ''CONFIG_HW_ETH_WAN'') [],
         token_set_y HC 2640 ''CONFIG_COMCERTO_VED'',
         token_set_y HC 2641 ''CONFIG_MII''],
       when_c (on ''CONFIG_HW_80211G_RALINK_RT2560'') [ralink_rt2560_add ''ra0''],
       when_c (on ''CONFIG_HW_80211G_RALINK_RT2561'') [ralink_rt2561_add ''ra0''],
       token_set_y HC 2651 ''CONFIG_NETFILTER'',
       token_set HC 2653 ''FIRM'' ''Mindspeed'' []],
   when_c (is_hw ''TI_TNETWA100'') [
       set_big_endian HC 2658 True,
       token_set_y HC 2659 ''CONFIG_TI_404_MIPS'',
       token_set_y HC 2660 ''CONFIG_TI_404_COMMON'',
       token_set HC 2661 ''RAM_HIGH_ADRS'' ''0x94F00000'' [],
       token_set HC 2662 ''RAM_LOW_ADRS'' ''0x94001000'' []],
   when_c (is_hw ''CENTAUR'') [
       token_set HC 2667 ''CONFIG_RG_FLASH_LAYOUT_SIZE'' ''4'' [],
       token_set HC 2668 ''CONFIG_SDRAM_SIZE'' ''32'' [],
       token_set HC 2669 ''CONFIG_RG_CONSOLE_DEVICE'' ''ttyS0'' [],
       token_set_y HC 2670 ''CONFIG_RG_DYN_FLASH_LAYOUT'',
       when_c (on ''CONFIG_HW_ETH_WAN'') [token_set_y HC 2674 ''CONFIG_KS8695''],
       when_c (on ''CONFIG_HW_ETH_LAN'') [token_set_y HC 2680 ''CONFIG_KS8695''],
       when_c (on ''CONFIG_HW_80211G_ISL38XX'') [token_set_m HC 2686 ''CONFIG_ISL38XX''],
       when_c (on ''CONFIG_HW_80211G_RALINK_RT2560'') [ralink_rt2560_add ''ra0''],
       when_c (on ''CONFIG_HW_80211G_RALINK_RT2561'') [ralink_rt2561_add ''ra0''],
       when_c (on ''CONFIG_HW_DSP'') [
         token_set_y HC 2699 ''CONFIG_ZSP400'',
         token_set HC 2700 ''CONFIG_HW_NUMBER_OF_FXS_PORTS'' ''4'' []],
       token_set HC 2703 ''FIRM'' ''Micrel'' [],
       token_set HC 2704 ''BOARD'' ''CENTAUR'' [],
       token_set_y HC 2707 ''CONFIG_KS8695_FLASH_AM29LV033C''],
   when_c (is_hw ''I386_BOCHS'') [
       set_big_endian HC 2712 False,
       token_set_y HC 2713 ''CONFIG_I386_BOCHS'',
       token_set HC 2714 ''CONFIG_ARCH_MACHINE'' ''i386'' [],
       ifc (on ''CONFIG_RG_OS_VXWORKS'') [
         token_set_y HC 2720 ''CONFIG_VX_KNET_SYMLINK'',
         token_set HC 2721 ''RAM_HIGH_ADRS'' ''0x00008000'' [],
         token_set HC 2722 ''RAM_LOW_ADRS'' ''0x00108000'' []]
        [
         token_set_m HC 2726 ''CONFIG_NE2000'',
         token_set_y HC 2729 ''CONFIG_PCBOX'']]]"

definition hardware_features_26 :: "stmt" where
  "hardware_features_26 = block [
   when_c (is_hw ''UML'') [
       token_set HC 2735 ''ARCH'' ''um'' [],
       token_set HC 2737 ''CONFIG_RG_FLASH_LAYOUT_SIZE'' ''64'' [],
       when_c (on ''CONFIG_HW_ETH_WAN'') [],
       when_c (on ''CONFIG_HW_ETH_WAN2'') [],
       when_c (on ''CONFIG_HW_DSL_WAN'') [token_set_y HC 2745 ''CONFIG_ATM_NULL''],
       when_c (on ''CONFIG_HW_HSS_WAN'') [token_set_y HC 2750 ''CONFIG_RG_HSS''],
       when_c (on ''CONFIG_HW_ETH_LAN'') [],
       when_c (on ''CONFIG_HW_ETH_LAN2'') [],
       token_set_y HC 2758 ''CONFIG_RG_UML'',
       token_set_y HC 2760 ''CONFIG_DEBUGSYM'',
       token_set HC 2762 ''CONFIG_RG_CONSOLE_DEVICE'' ''console'' [],
       token_set_y HC 2764 ''CONFIG_RAMFS'',
       token_set HC 2765 ''CONFIG_KERNEL_STACK_ORDER'' ''2'' [],
       token_set_y HC 2766 ''CONFIG_MODE_TT'',
       token_set_y HC 2767 ''CONFIG_MODE_SKAS'',
       token_set HC 2768 ''CONFIG_NEST_LEVEL'' ''0'' [],
       token_set HC 2769 ''CONFIG_CON_ZERO_CHAN'' ''fd:0,fd:1'' [],
       token_set HC 2770 ''CONFIG_CON_CHAN'' ''xterm'' [],
       token_set HC 2771 ''CONFIG_SSL_CHAN'' ''pty'' [],
       token_set HC 2772 ''CONFIG_KERNEL_HALF_GIGS'' ''1'' [],
       token_set_y HC 2773 ''CONFIG_PT_PROXY'',
       token_set_y HC 2774 ''CONFIG_STDIO_CONSOLE'',
       token_set_y HC 2775 ''CONFIG_SSL'',
       token_set_y HC 2776 ''CONFIG_FD_CHAN'',
       token_set_y HC 2777 ''CONFIG_NULL_CHAN'',
       token_set_y HC 2778 ''CONFIG_PORT_CHAN'',
       token_set_y HC 2779 ''CONFIG_PTY_CHAN'',
       token_set_y HC 2780 ''CONFIG_TTY_CHAN'',
       token_set_y HC 2781 ''CONFIG_XTERM_CHAN'',
       token_set_y HC 2782 ''CONFIG_BLK_DEV_NBD'',
       ifc (on ''CONFIG_RG_OS_LINUX_26'') [
         token_set_y HC 2785 ''CONFIG_RG_INITFS_RAMFS'',
         token_set_y HC 2786 ''CONFIG_RG_MAINFS_CRAMFS'',
         token_set_y HC 2787 ''CONFIG_RG_MODFS_CRAMFS'',
         token_set_y HC 2788 ''CONFIG_UML_X86'',
         token_set_y HC 2790 ''CONFIG_FLATMEM'']
        [
         token_set_y HC 2794 ''CONFIG_BLK_DEV_UBD'',
         token_set_y HC 2795 ''CONFIG_SIMPLE_RAMDISK'',
         token_set HC 2796 ''CONFIG_BLK_DEV_RAM_SIZE'' ''8192'' [],
         token_set_y HC 2797 ''CONFIG_RG_INITFS_RAMDISK''],
       token_set_y HC 2799 ''CONFIG_UML_NET'',
       token_set_y HC 2800 ''CONFIG_UML_NET_ETHERTAP'',
       token_set_y HC 2801 ''CONFIG_UML_NET_TUNTAP'',
       token_set_y HC 2802 ''CONFIG_UML_NET_SLIP'',
       token_set_y HC 2803 ''CONFIG_UML_NET_SLIRP'',
       token_set_y HC 2804 ''CONFIG_UML_NET_DAEMON'',
       token_set_y HC 2805 ''CONFIG_UML_NET_MCAST'',
       token_set_y HC 2806 ''CONFIG_DUMMY'',
       token_set_y HC 2807 ''CONFIG_TUN'',
       token_set_y HC 2808 ''CONFIG_KALLSYMS'',
       ifc (on ''CONFIG_VALGRIND'') [token_set HC 2810 ''CONFIG_UML_RAM_SIZE'' ''128M'' []] [token_set HC 2810 ''CONFIG_UML_RAM_SIZE'' ''64M'' []],
       token_set_y HC 2813 ''CONFIG_USERMODE'',
       token_set_y HC 2814 ''CONFIG_UID16'',
       token_set_y HC 2815 ''CONFIG_EXPERIMENTAL'',
       token_set_y HC 2816 ''CONFIG_BSD_PROCESS_ACCT'',
       token_set_y HC 2817 ''CONFIG_HOSTFS'',
       token_set_y HC 2818 ''CONFIG_HPPFS'',
       token_set_y HC 2819 ''CONFIG_MCONSOLE'',
       token_set_y HC 2820 ''CONFIG_MAGIC_SYSRQ'',
       when_c (neg (on ''CONFIG_RG_OS_LINUX_26'')) [token_set_y HC 2822 ''CONFIG_PROC_MM''],
       token_set_y HC 2824 ''CONFIG_PACKET_MMAP'',
       token_set_y HC 2825 ''CONFIG_QUOTA'',
       token_set_y HC 2826 ''CONFIG_AUTOFS_FS'',
       token_set_y HC 2827 ''CONFIG_AUTOFS4_FS'',
       token_set_y HC 2828 ''CONFIG_REISERFS_FS'',
       token_set_y HC 2830 ''CONFIG_MTD_BLKMTD'',
       token_set_y HC 2831 ''CONFIG_ZLIB_INFLATE'',
       token_set_y HC 2832 ''CONFIG_ZLIB_DEFLATE'',
       token_set_y HC 2834 ''CONFIG_PT_PROXY'',
       token_set_y HC 2835 ''CONFIG_RG_THREADS'',
       token_set HC 2836 ''CONFIG_RG_KERNEL_COMP_METHOD'' ''gzip'' [],
       token_set HC 2837 ''CONFIG_RG_CRAMFS_COMP_METHOD'' ''lzma'' [],
       token_set HC 2838 ''CONFIG_HW_NUMBER_OF_FXS_PORTS'' ''8'' []],
   when_c (is_hw ''JPKG'') [
       when_c (on ''CONFIG_HW_80211G_RALINK_RT2560'') [ralink_rt2560_add ''ra0''],
       when_c (on ''CONFIG_HW_80211G_RALINK_RT2561'') [ralink_rt2561_add ''ra0''],
       when_c (on ''CONFIG_HW_80211G_BCM43XX'') [bcm43xx_add None]]]"

definition hardware_features_27 :: "stmt" where
  "hardware_features_27 = block [when_c (on ''MODULE_RG_IPV6'') []]"

lemma ok_hardware_features_21 [safe_scripts]: "ok base_schema value_tokens J hardware_features_21"
  unfolding hardware_features_21_def
  by (intro safe_intros shipped.ok_sets shipped.ok_enable_module safe_scripts; simp)


lemma ok_hardware_features_22 [safe_scripts]: "ok base_schema value_tokens J hardware_features_22"
  unfolding hardware_features_22_def
  by (intro safe_intros shipped.ok_sets shipped.ok_enable_module safe_scripts; simp)


lemma ok_hardware_features_23 [safe_scripts]: "ok base_schema value_tokens J hardware_features_23"
  unfolding hardware_features_23_def
  by (intro safe_intros shipped.ok_sets shipped.ok_enable_module safe_scripts; simp)


lemma ok_hardware_features_24 [safe_scripts]: "ok base_schema value_tokens J hardware_features_24"
  unfolding hardware_features_24_def
  by (intro safe_intros shipped.ok_sets shipped.ok_enable_module safe_scripts; simp)


lemma ok_hardware_features_25 [safe_scripts]: "ok base_schema value_tokens J hardware_features_25"
  unfolding hardware_features_25_def
  by (intro safe_intros shipped.ok_sets shipped.ok_enable_module safe_scripts; simp)


lemma ok_hardware_features_26 [safe_scripts]: "ok base_schema value_tokens J hardware_features_26"
  unfolding hardware_features_26_def
  by (intro safe_intros shipped.ok_sets shipped.ok_enable_module safe_scripts; simp)


lemma ok_hardware_features_27 [safe_scripts]: "ok base_schema value_tokens J hardware_features_27"
  unfolding hardware_features_27_def
  by (intro safe_intros shipped.ok_sets shipped.ok_enable_module safe_scripts; simp)


end
