(* ===== verification/Hw_Config.thy ===== *)
theory Hw_Config
  imports Hw_Config_3
begin

text \<open>
  \<open>hardware_features\<close>: look the board up in its table, then the options of every board in turn.
\<close>

definition hw_lookup :: "option_t rd" where
  "hw_lookup s = (case cfg_hw s of
       None \<Rightarrow> Inl Undefined
     | Some h \<Rightarrow> bind_res (option_token_get openrg_hw_options h) (\<lambda>i. Inr (openrg_hw_options ! i)))"

definition board_features :: stmt where
  "board_features = block [
     hardware_features_1,
     hardware_features_2,
     hardware_features_3,
     hardware_features_4,
     hardware_features_5,
     hardware_features_6,
     hardware_features_7,
     hardware_features_8,
     hardware_features_9,
     hardware_features_10,
     hardware_features_11,
     hardware_features_12,
     hardware_features_13,
     hardware_features_14,
     hardware_features_15,
     hardware_features_16,
     hardware_features_17,
     hardware_features_18,
     hardware_features_19,
     hardware_features_20,
     hardware_features_21,
     hardware_features_22,
     hardware_features_23,
     hardware_features_24,
     hardware_features_25,
     hardware_features_26,
     hardware_features_27]"

definition hardware_features :: stmt where
  "hardware_features = ifc (neg hw_set) [
       token_set HC 192 ''CONFIG_RG_HW'' ''NO_HW'' [],
       token_set HC 193 ''CONFIG_RG_HW_DESC_STR'' ''No hardware - local targets only'' [],
       token_set_y HC 194 ''CONFIG_RG_BUILD_LOCAL_TARGETS_ONLY'']
     [ local_c hw_lookup (\<lambda>hw_tok. [
         when_c (pure (opt_value hw_tok = None)) [conf_err ''No description available''],
         token_set_of HC 203 ''CONFIG_RG_HW'' hw_str,
         token_set_of HC 204 ''CONFIG_RG_HW_DESC_STR'' (pure (opt_value hw_tok)),
         board_features])]"

lemma ok_board_features [safe_scripts]: "ok base_schema value_tokens J board_features"
  unfolding board_features_def by (intro safe_intros safe_scripts)

end
