(* ===== verification/Options_Init.thy ===== *)
theory Options_Init
  imports Script_Logic
begin

text \<open>
  The setting up of the option arrays in \<open>create_config.c\<close>: the priorities of initial
  values, the check that no option is declared twice, and the copy the program works on.
\<close>

text \<open>\<open>_validate_unique_configs\<close>: the first duplicate in the order of the two loops.\<close>

fun find_duplicate :: "string \<Rightarrow> option_t list \<Rightarrow> string option" where
  "find_duplicate t [] = None"
| "find_duplicate t (o1 # os) = (if opt_token o1 = t then Some (opt_token o1) else find_duplicate t os)"

fun validate_unique :: "option_t list \<Rightarrow> conf_error + unit" where
  "validate_unique [] = Inr ()"
| "validate_unique (o1 # os) = (case find_duplicate (opt_token o1) os of
       Some t \<Rightarrow> Inl (Duplicated t)
     | None \<Rightarrow> validate_unique os)"

definition validate_unique_configs ::
    "option_t list \<Rightarrow> option_t list \<Rightarrow> option_t list \<Rightarrow> option_t list \<Rightarrow> conf_error + unit" where
  "validate_unique_configs hw os dist config =
     bind_res (validate_unique hw) (\<lambda>_. bind_res (validate_unique os) (\<lambda>_.
       bind_res (validate_unique dist) (\<lambda>_. validate_unique config)))"

definition init_configs :: "option_t list \<Rightarrow> option_t list" where
  "init_configs = map (\<lambda>p. if opt_value p \<noteq> None then p\<lparr> opt_prio := SET_PRIO_INIT \<rparr> else p)"

definition options_dup :: "option_t list \<Rightarrow> option_t list" where
  "options_dup os = map (\<lambda>o1.
     \<lparr> opt_token = opt_token o1, opt_value = opt_value o1, opt_type = opt_type o1,
       opt_description = opt_description o1, opt_file = opt_file o1, opt_line = opt_line o1,
       opt_prio = opt_prio o1 \<rparr>) os"

section \<open>What the checks and copies give\<close>

lemma find_duplicate_None: "find_duplicate t os = None \<longleftrightarrow> t \<notin> opt_token ` set os"
  by (induction os) auto

lemma find_duplicate_Some: "find_duplicate t os = Some u \<Longrightarrow> u = t \<and> t \<in> opt_token ` set os"
  by (induction os) (auto split: if_splits)

lemma validate_unique_Inr: "validate_unique os = Inr u \<longleftrightarrow> distinct (map opt_token os)"
  by (induction os) (auto simp: find_duplicate_None split: option.splits dest: find_duplicate_Some)

lemma validate_unique_Inl:
  "validate_unique os = Inl e \<Longrightarrow>
   \<exists>i j. i < j \<and> j < length os \<and> opt_token (os ! i) = opt_token (os ! j) \<and> e = Duplicated (opt_token (os ! j))"
proof (induction os)
  case Nil
  then show ?case by simp
next
  case (Cons x xs)
  show ?case
  proof (cases "find_duplicate (opt_token x) xs")
    case None
    with Cons obtain i j where "i < j \<and> j < length xs \<and> opt_token (xs ! i) = opt_token (xs ! j)
        \<and> e = Duplicated (opt_token (xs ! j))" by auto
    then show ?thesis by (intro exI [of _ "Suc i"] exI [of _ "Suc j"]) simp
  next
    case (Some t)
    with find_duplicate_Some [OF Some] obtain j where "j < length xs" "opt_token (xs ! j) = t" "t = opt_token x"
      by (auto simp: in_set_conv_nth image_iff)
    with Some Cons.prems show ?thesis by (intro exI [of _ 0] exI [of _ "Suc j"]) simp
  qed
qed

lemma options_dup_id [simp]: "options_dup os = os"
  unfolding options_dup_def by (rule map_idI) simp

lemma schema_of_init_configs [simp]: "schema_of (init_configs os) = schema_of os"
  by (simp add: schema_of_def init_configs_def)

lemma tokens_init_configs [simp]: "map opt_token (init_configs os) = map opt_token os"
  by (simp add: init_configs_def)

end
