(* ===== verification/Dist_Base.thy ===== *)
theory Dist_Base
  imports Hw_Base Options_Init
begin

text \<open>
  The helpers of \<open>dist_config.c\<close> and the list of distributions bundled in a package build.
\<close>

definition DC :: string where
  "DC = ''dist_config.c''"

text \<open>\<open>jpkg_dist_add\<close> of \<open>create_config.c\<close>: a copy of the base table, added at the end of the list.\<close>

definition jpkg_dist_add :: "string \<Rightarrow> stmt" where
  "jpkg_dist_add d s = Inr (s\<lparr> cfg_jpkg := cfg_jpkg s @ [(d, options_dup (cfg_base s))] \<rparr>)"

lemma ok_jpkg_dist_add [safe_intros]: "d \<in> J \<Longrightarrow> ok sch V J (jpkg_dist_add d)"
  by (auto simp: ok_def safe_def jpkg_dist_add_def intro!: emits_one cfg_step.add_jpkg)

definition set_jnet_server_configs :: "stmt" where
  "set_jnet_server_configs = block [
   token_set_y DC 48 ''CONFIG_RG_HTTPS'',
   token_set_y DC 49 ''CONFIG_RG_SSL'',
   token_set_y DC 50 ''CONFIG_RG_OPENSSL_MD5'',
   token_set_y DC 51 ''CONFIG_RG_XML'',
   token_set_y DC 52 ''CONFIG_RG_DSLHOME'',
   token_set_y DC 53 ''CONFIG_RG_WGET'',
   token_set_y DC 54 ''CONFIG_LOCAL_WBM_LIB'',
   token_set_y DC 55 ''CONFIG_RG_SESSION_LIBDB'',
   token_set_y DC 56 ''HAVE_MYSQL'',
   token_set_y DC 57 ''CONFIG_RG_JNET_SERVER'',
   token_set DC 58 ''CONFIG_RG_JPKG_DIST'' ''JPKG_LOCAL_I386'' [],
   token_set DC 59 ''TARGET_MACHINE'' ''local_i386'' [],
   token_set_y DC 60 ''CONFIG_RG_LANG'',
   token_set_y DC 61 ''CONFIG_RG_GNUDIP'',
   token_set_y DC 62 ''CONFIG_GLIBC'',
   token_set_y DC 63 ''CONFIG_RG_LIBIMAGE_DIM'']"

definition small_flash_default_dist :: "stmt" where
  "small_flash_default_dist = block [
   enable_module DC 86 ''MODULE_RG_FOUNDATION'',
   enable_module DC 87 ''MODULE_RG_UPNP'',
   enable_module DC 88 ''MODULE_RG_FIREWALL_AND_SECURITY'',
   enable_module DC 89 ''MODULE_RG_ADVANCED_MANAGEMENT'',
   enable_module DC 90 ''MODULE_RG_ADVANCED_ROUTING'',
   enable_module DC 91 ''MODULE_RG_WLAN_AND_ADVANCED_WLAN'',
   enable_module DC 92 ''MODULE_RG_VLAN'',
   enable_module DC 93 ''MODULE_RG_PPP'',
   enable_module DC 94 ''MODULE_RG_PPTP'',
   enable_module DC 95 ''MODULE_RG_L2TP'',
   enable_module DC 96 ''MODULE_RG_QOS'',
   enable_module DC 97 ''MODULE_RG_ROUTE_MULTIWAN'',
   enable_module DC 98 ''MODULE_RG_MAIL_FILTER'',
   enable_module DC 99 ''MODULE_RG_URL_FILTERING'',
   enable_module DC 100 ''MODULE_RG_DSLHOME'',
   enable_module DC 101 ''MODULE_RG_TR_098'',
   enable_module DC 102 ''MODULE_RG_TR_064'',
   enable_module DC 103 ''MODULE_RG_DSL'',
   enable_module DC 104 ''MODULE_RG_SSL_VPN'',
   token_set_y DC 106 ''CONFIG_RG_WPA'',
   token_set_y DC 107 ''CONFIG_RG_WEP'',
   token_set_y DC 109 ''CONFIG_ULIBC_SHARED'',
   token_set DC 110 ''CONFIG_RG_ADV_SERVICES_LEVEL'' ''1'' [],
   token_set_y DC 111 ''CONFIG_RG_SSL_VPN_SMALL_FLASH'']"

definition set_jpkg_dist_configs_1 :: "string \<Rightarrow> bool \<Rightarrow> stmt" where
  "set_jpkg_dist_configs_1 jpkg_dist is_src = block [
   when_c (disj_c (pure is_src) (pure (jpkg_dist = ''JPKG_UML''))) [
       jpkg_dist_add ''UML'',
       jpkg_dist_add ''UML_GLIBC'',
       jpkg_dist_add ''UML_26'',
       jpkg_dist_add ''RGLOADER_UML'',
       enable_module DC 125 ''MODULE_RG_VOIP_ASTERISK_SIP'',
       enable_module DC 126 ''MODULE_RG_PBX'',
       token_set_y DC 127 ''CONFIG_HW_DSP'',
       token_set_y DC 128 ''CONFIG_RG_VOIP_HW_EMULATION''],
   when_c (disj_c (pure is_src) (pure (jpkg_dist = ''JPKG_ARMV5B''))) [
       jpkg_dist_add ''MONTEJADE'',
       jpkg_dist_add ''MONTEJADE_ATM'',
       jpkg_dist_add ''IXDP425'',
       jpkg_dist_add ''COYOTE'',
       jpkg_dist_add ''JIWIS8XX'',
       jpkg_dist_add ''RGLOADER_MONTEJADE'',
       jpkg_dist_add ''RGLOADER_COYOTE'',
       enable_module DC 140 ''CONFIG_AGN100'',
       enable_module DC 141 ''MODULE_RG_VOIP_OSIP'',
       enable_module DC 142 ''MODULE_RG_VOIP_RV_H323'',
       enable_module DC 143 ''MODULE_RG_VOIP_RV_MGCP'',
       enable_module DC 144 ''MODULE_RG_VOIP_RV_SIP'',
       enable_module DC 145 ''MODULE_RG_VOIP_ASTERISK_H323'',
       enable_module DC 146 ''MODULE_RG_ATA'',
       enable_module DC 147 ''CONFIG_HW_80211G_RALINK_RT2561'',
       token_set_y DC 149 ''CONFIG_UCLIBCXX''],
   when_c (disj_c (pure is_src) (pure (jpkg_dist = ''JPKG_LX4189''))) [
       jpkg_dist_add ''AD6834'',
       enable_module DC 154 ''CONFIG_HW_80211G_RALINK_RT2561'',
       enable_module DC 156 ''MODULE_RG_VOIP_OSIP'',
       enable_module DC 157 ''MODULE_RG_VOIP_RV_H323'',
       enable_module DC 158 ''MODULE_RG_VOIP_RV_SIP'',
       enable_module DC 159 ''MODULE_RG_VOIP_RV_MGCP''],
   when_c (disj_c (pure is_src) (pure (jpkg_dist = ''JPKG_ARM_920T_LE''))) [
       jpkg_dist_add ''CENTROID'',
       enable_module DC 164 ''MODULE_RG_ADVANCED_ROUTING'',
       enable_module DC 165 ''CONFIG_HW_80211G_RALINK_RT2561'',
       enable_module DC 170 ''MODULE_RG_ADVANCED_MANAGEMENT''],
   when_c (disj_c (pure is_src) (pure (jpkg_dist = ''JPKG_ARMV5L''))) [
       jpkg_dist_add ''CX8620XR'',
       jpkg_dist_add ''CX8620XD_SOHO'',
       jpkg_dist_add ''RGLOADER_CX8620XD'',
       jpkg_dist_add ''SOLOS_LSP'',
       jpkg_dist_add ''SOLOS'',
       enable_module DC 187 ''MODULE_RG_VOIP_ASTERISK_SIP'',
       token_set DC 189 ''CONFIG_HW_NUMBER_OF_FXS_PORTS'' ''2'' [],
       enable_module DC 191 ''CONFIG_HW_80211G_RALINK_RT2561''],
   when_c (disj_c (pure is_src) (pure (jpkg_dist = ''JPKG_ARMV4L''))) [
       jpkg_dist_add ''MALINDI'',
       jpkg_dist_add ''MALINDI2'',
       enable_module DC 198 ''MODULE_RG_VLAN'',
       enable_module DC 199 ''MODULE_RG_URL_FILTERING'',
       enable_module DC 200 ''MODULE_RG_PPTP'',
       enable_module DC 201 ''MODULE_RG_L2TP'',
       enable_module DC 202 ''CONFIG_HW_80211G_RALINK_RT2560'']]"

definition set_jpkg_dist_configs_2 :: "string \<Rightarrow> bool \<Rightarrow> stmt" where
  "set_jpkg_dist_configs_2 jpkg_dist is_src = block [
   when_c (disj_c (pure is_src) (pure (jpkg_dist = ''JPKG_PPC''))) [
       jpkg_dist_add ''MPC8272ADS'',
       jpkg_dist_add ''MPC8349ITX'',
       enable_module DC 213 ''CONFIG_HW_80211G_RALINK_RT2561'',
       enable_module DC 214 ''CONFIG_HW_80211G_RALINK_RT2560'',
       enable_module DC 215 ''MODULE_RG_FILESERVER'',
       enable_module DC 216 ''MODULE_RG_ADVANCED_OFFICE_SERVERS'',
       enable_module DC 217 ''MODULE_RG_VOIP_ASTERISK_SIP'',
       enable_module DC 218 ''MODULE_RG_ATA'',
       enable_module DC 219 ''MODULE_RG_PBX''],
   when_c (disj_c (pure is_src) (pure (jpkg_dist = ''JPKG_SB1250''))) [
       jpkg_dist_add ''BCM91125E'',
       jpkg_dist_add ''BCM_SB1125''],
   when_c (disj_c (pure is_src) (pure (jpkg_dist = ''JPKG_TWINPASS''))) [
       jpkg_dist_add ''TWINPASS'',
       jpkg_dist_add ''ULTRALINE3_TWINPASS''],
   when_c (disj_c (pure is_src) (pure (jpkg_dist = ''JPKG_MIPSEB''))) [
       jpkg_dist_add ''BCM96358'',
       enable_module DC 234 ''MODULE_RG_VLAN'',
       enable_module DC 235 ''MODULE_RG_IPSEC''],
   when_c (disj_c (pure is_src) (pure (jpkg_dist = ''JPKG_BCM9634X''))) [
       jpkg_dist_add ''ASUS6020VI'',
       jpkg_dist_add ''GTWX5803'',
       jpkg_dist_add ''WADB100G'',
       jpkg_dist_add ''WADB102GB'',
       jpkg_dist_add ''RGLOADER_GTWX5803'',
       enable_module DC 244 ''MODULE_RG_VLAN'',
       enable_module DC 245 ''MODULE_RG_IPSEC''],
   when_c (disj_c (pure is_src) (pure (jpkg_dist = ''JPKG_LOCAL_I386''))) [
       ifc (pure is_src) [set_jnet_server_configs]
        [jpkg_dist_add ''JNET_SERVER'']],
   ifc (pure is_src) [
       token_set_y DC 260 ''CONFIG_RG_TCPDUMP'',
       token_set_y DC 261 ''CONFIG_RG_LIBPCAP'',
       token_set_y DC 262 ''CONFIG_RG_IPROUTE2_UTILS'',
       token_set_y DC 263 ''CONFIG_RG_JAVA'',
       token_set_y DC 264 ''CONFIG_RG_JTA'',
       token_set_y DC 265 ''CONFIG_RG_PROPER_JAVA_RDP'',
       token_set_y DC 266 ''CONFIG_RG_JVFTP'',
       token_set_y DC 267 ''CONFIG_RG_JCIFS'',
       token_set_y DC 268 ''CONFIG_RG_SMB_EXPLORER'',
       token_set_y DC 269 ''CONFIG_RG_TIGHT_VNC'',
       token_set_y DC 270 ''GLIBC_IN_TOOLCHAIN'',
       token_set_y DC 271 ''CONFIG_RG_GDBSERVER'']
      [token_set_y DC 275 ''CONFIG_RG_JPKG_BIN''],
   token_set_y DC 279 ''CONFIG_RG_JPKG'',
   when_c (neg (pure (jpkg_dist = ''JPKG_LOCAL_I386''))) [
       token_set_y DC 283 ''CONFIG_RG_DOC_ENABLED'',
       token_set_y DC 284 ''CONFIG_RG_NETTOOLS_ARP'',
       token_set_y DC 285 ''CONFIG_RG_TOOLS'',
       enable_module DC 286 ''MODULE_RG_ZERO_CONFIGURATION_NETWORKING''],
   enable_module DC 288 ''MODULE_RG_DSLHOME'']"

definition set_jpkg_dist_configs :: "string \<Rightarrow> stmt" where
  "set_jpkg_dist_configs jpkg_dist = (let is_src = jpkg_dist = ''JPKG_SRC'' in
     block [set_jpkg_dist_configs_1 jpkg_dist is_src, set_jpkg_dist_configs_2 jpkg_dist is_src])"

text \<open>The distributions that package builds bundle.\<close>

definition bundled_list :: "string list" where
  "bundled_list = [
   ''UML'',
   ''UML_GLIBC'',
   ''UML_26'',
   ''RGLOADER_UML'',
   ''MONTEJADE'',
   ''MONTEJADE_ATM'',
   ''IXDP425'',
   ''COYOTE'',
   ''JIWIS8XX'',
   ''RGLOADER_MONTEJADE'',
   ''RGLOADER_COYOTE'',
   ''AD6834'',
   ''CENTROID'',
   ''CX8620XR'',
   ''CX8620XD_SOHO'',
   ''RGLOADER_CX8620XD'',
   ''SOLOS_LSP'',
   ''SOLOS'',
   ''MALINDI'',
   ''MALINDI2'',
   ''MPC8272ADS'',
   ''MPC8349ITX'',
   ''BCM91125E'',
   ''BCM_SB1125'',
   ''TWINPASS'',
   ''ULTRALINE3_TWINPASS'',
   ''BCM96358'',
   ''ASUS6020VI'',
   ''GTWX5803'',
   ''WADB100G'',
   ''WADB102GB'',
   ''RGLOADER_GTWX5803'',
   ''JNET_SERVER'']"

definition bundled :: "string set" where
  "bundled = set bundled_list"

lemma bundled_all: "list_all (\<lambda>d. d \<in> bundled) bundled_list"
  by (simp add: list_all_iff bundled_def)

lemmas bundled_facts [simp] = bundled_all [unfolded bundled_list_def list.pred_inject]

lemma ok_set_jnet_server_configs [safe_intros]: "ok base_schema value_tokens J set_jnet_server_configs"
  unfolding set_jnet_server_configs_def
  by (intro safe_intros shipped.ok_sets shipped.ok_enable_module safe_scripts; simp)


lemma ok_small_flash_default_dist [safe_intros]: "ok base_schema value_tokens J small_flash_default_dist"
  unfolding small_flash_default_dist_def
  by (intro safe_intros shipped.ok_sets shipped.ok_enable_module safe_scripts; simp)


lemma ok_set_jpkg_dist_configs_1 [safe_intros]: "ok base_schema value_tokens bundled (set_jpkg_dist_configs_1 d b)"
  unfolding set_jpkg_dist_configs_1_def
  by (intro safe_intros shipped.ok_sets shipped.ok_enable_module safe_scripts; simp)


lemma ok_set_jpkg_dist_configs_2 [safe_intros]: "ok base_schema value_tokens bundled (set_jpkg_dist_configs_2 d b)"
  unfolding set_jpkg_dist_configs_2_def
  by (intro safe_intros shipped.ok_sets shipped.ok_enable_module safe_scripts; simp)


lemma ok_set_jpkg_dist_configs [safe_intros]: "ok base_schema value_tokens bundled (set_jpkg_dist_configs d)"
  unfolding set_jpkg_dist_configs_def Let_def by (intro safe_intros)

end
