(* ===== verification/Dist_Config_1.thy ===== *)
theory Dist_Config_1
  imports Dist_Base
begin

text \<open>
  \<open>distribution_features\<close> of \<open>dist_config.c\<close>, lines 297 to 935: one definition per
  branch of the chain over the distribution's name.
\<close>

definition dist_ADM5120_LSP :: "stmt" where
  "dist_ADM5120_LSP = block [
   set_hw ''ADM5120P'',
   token_set_y DC 300 ''CONFIG_LSP_DIST'',
   token_set_y DC 301 ''CONFIG_FRAME_POINTER'']"

definition dist_BCM91125E :: "stmt" where
  "dist_BCM91125E = block [
   ifc (is_dist ''BCM91125E'') [set_hw ''BCM91125E'']
      [when_c (is_dist ''BCM_SB1125'') [set_hw ''COLORADO'']],
   set_os ''LINUX_26'',
   token_set DC 311 ''CONFIG_RG_JPKG_DIST'' ''JPKG_SB1250'' [],
   token_set_y DC 313 ''MODULE_RG_FOUNDATION'',
   token_set_y DC 314 ''MODULE_RG_ADVANCED_MANAGEMENT'',
   token_set_y DC 315 ''MODULE_RG_ADVANCED_ROUTING'',
   token_set_y DC 316 ''MODULE_RG_FIREWALL_AND_SECURITY'',
   token_set_y DC 317 ''MODULE_RG_SNMP'',
   token_set_y DC 318 ''MODULE_RG_UPNP'',
   token_set_y DC 319 ''MODULE_RG_IPSEC'',
   token_set_y DC 320 ''MODULE_RG_URL_FILTERING'',
   token_set_y DC 321 ''MODULE_RG_QOS'',
   token_set_y DC 322 ''MODULE_RG_MAIL_FILTER'',
   enable_module DC 323 ''MODULE_RG_SSL_VPN'',
   token_set_y DC 324 ''MODULE_RG_ADVANCED_OFFICE_SERVERS'',
   token_set_y DC 325 ''MODULE_RG_VLAN'',
   token_set_y DC 326 ''MODULE_RG_PPP'',
   token_set_y DC 327 ''MODULE_RG_PPTP'',
   token_set_y DC 328 ''MODULE_RG_L2TP'',
   token_set_y DC 329 ''CONFIG_RG_FOOTPRINT_REDUCTION'',
   token_set_y DC 330 ''CONFIG_RG_SMB'',
   token_set_y DC 331 ''MODULE_RG_IPV6'',
   token_set_y DC 332 ''CONFIG_RG_NETTOOLS_ARP'',
   enable_module DC 334 ''MODULE_RG_VOIP_ASTERISK_SIP'',
   enable_module DC 335 ''MODULE_RG_PBX'',
   token_set_y DC 337 ''CONFIG_DYN_LINK'',
   token_set_y DC 340 ''CONFIG_HW_ETH_WAN'',
   token_set_y DC 341 ''CONFIG_HW_ETH_LAN'',
   when_c (is_dist ''BCM_SB1125'') [
       enable_module DC 345 ''MODULE_RG_BLUETOOTH'',
       token_set_y DC 346 ''MODULE_RG_FILESERVER'',
       token_set_y DC 347 ''MODULE_RG_PRINTSERVER''],
   token_set_y DC 350 ''CONFIG_RG_INITFS_RAMFS'',
   token_set_y DC 351 ''CONFIG_RG_MAINFS_CRAMFS'',
   token_set_y DC 352 ''CONFIG_RG_MODFS_CRAMFS'']"

definition dist_RGLOADER_ADM5120 :: "stmt" where
  "dist_RGLOADER_ADM5120 = block [
   set_hw ''ADM5120P'',
   set_os ''LINUX_24'',
   token_set_y DC 359 ''CONFIG_RG_RGLOADER'',
   token_set_y DC 360 ''CONFIG_FRAME_POINTER'',
   token_set_y DC 361 ''CONFIG_HW_ETH_LAN'']"

definition dist_ADM5120_ATA :: "stmt" where
  "dist_ADM5120_ATA = block [
   set_hw ''ADM5120P'',
   set_os ''LINUX_24'',
   token_set_y DC 369 ''CONFIG_RG_FOUNDATION_CORE'',
   token_set_y DC 370 ''CONFIG_RG_CHECK_BAD_REBOOTS'',
   token_set_y DC 372 ''CONFIG_AUTO_LEARN_DNS'',
   enable_module DC 373 ''MODULE_RG_PPP'',
   enable_module DC 374 ''MODULE_RG_VOIP_RV_SIP'',
   token_set_y DC 375 ''CONFIG_RG_EVENT_LOGGING'',
   token_set_y DC 376 ''CONFIG_RG_STATIC_ROUTE'',
   token_set_y DC 377 ''CONFIG_RG_UCD_SNMP'',
   enable_module DC 378 ''MODULE_RG_ATA'',
   enable_module DC 381 ''CONFIG_HW_DSP'',
   token_set_y DC 382 ''CONFIG_HW_ETH_WAN'',
   token_set_y DC 384 ''CONFIG_DEF_WAN_ALIAS_IP'']"

definition dist_ADM5120_VGW :: "stmt" where
  "dist_ADM5120_VGW = block [
   set_hw ''ADM5120P'',
   set_os ''LINUX_24'',
   enable_module DC 392 ''MODULE_RG_FOUNDATION'',
   enable_module DC 397 ''MODULE_RG_ADVANCED_ROUTING'',
   enable_module DC 398 ''MODULE_RG_PPP'',
   enable_module DC 399 ''MODULE_RG_FIREWALL_AND_SECURITY'',
   enable_module DC 400 ''MODULE_RG_PPTP'',
   enable_module DC 401 ''MODULE_RG_UPNP'',
   enable_module DC 402 ''MODULE_RG_VLAN'',
   token_set_y DC 405 ''CONFIG_HW_ETH_WAN'',
   token_set_y DC 406 ''CONFIG_HW_ETH_LAN'',
   enable_module DC 407 ''CONFIG_HW_DSP'',
   token_set_y DC 409 ''CONFIG_DYN_LINK'',
   enable_module DC 412 ''MODULE_RG_ATA'',
   ifc (is_dist ''ADM5120_VGW_OSIP'') [enable_module DC 414 ''MODULE_RG_VOIP_OSIP'']
      [enable_module DC 416 ''MODULE_RG_VOIP_ASTERISK_SIP'']]"

definition dist_INCAIP_LSP :: "stmt" where
  "dist_INCAIP_LSP = block [
   set_hw ''INCAIP_LSP'',
   token_set_y DC 421 ''CONFIG_LSP_DIST'',
   token_set_y DC 422 ''CONFIG_FRAME_POINTER'',
   token_set_y DC 423 ''CONFIG_VINETIC_TAPIDEMO'']"

definition dist_RGLOADER_INCAIP :: "stmt" where
  "dist_RGLOADER_INCAIP = block [
   set_hw ''INCAIP'',
   token_set_y DC 428 ''CONFIG_RG_RGLOADER'',
   token_set_y DC 431 ''CONFIG_HW_ETH_LAN'']"

definition dist_INCAIP_IPPHONE :: "stmt" where
  "dist_INCAIP_IPPHONE = block [
   set_hw ''INCAIP'',
   enable_module DC 438 ''MODULE_RG_FOUNDATION'',
   enable_module DC 439 ''MODULE_RG_VOIP_RV_SIP'',
   enable_module DC 440 ''MODULE_RG_VOIP_RV_H323'',
   enable_module DC 441 ''MODULE_RG_VOIP_RV_MGCP'',
   enable_module DC 442 ''MODULE_RG_UPNP'',
   enable_module DC 443 ''MODULE_RG_PPP'',
   token_set_y DC 444 ''CONFIG_RG_EVENT_LOGGING'',
   token_set_y DC 447 ''CONFIG_HW_ETH_WAN'',
   enable_module DC 448 ''CONFIG_HW_DSP'',
   token_set_y DC 449 ''CONFIG_HW_KEYPAD'',
   token_set_y DC 450 ''CONFIG_HW_LEDS'',
   token_set_y DC 452 ''CONFIG_DYN_LINK'',
   token_set_y DC 453 ''CONFIG_DEF_WAN_ALIAS_IP'']"

definition dist_RGLOADER_FLEXTRONICS :: "stmt" where
  "dist_RGLOADER_FLEXTRONICS = block [
   set_hw ''FLEXTRONICS'',
   token_set_y DC 458 ''CONFIG_RG_RGLOADER'',
   token_set_y DC 461 ''CONFIG_HW_ETH_LAN'']"

definition dist_FLEXTRONICS_IPPHONE :: "stmt" where
  "dist_FLEXTRONICS_IPPHONE = block [
   set_hw ''FLEXTRONICS'',
   enable_module DC 468 ''MODULE_RG_FOUNDATION'',
   enable_module DC 469 ''MODULE_RG_VOIP_RV_SIP'',
   enable_module DC 470 ''MODULE_RG_VOIP_RV_H323'',
   enable_module DC 471 ''MODULE_RG_VOIP_RV_MGCP'',
   enable_module DC 472 ''MODULE_RG_UPNP'',
   enable_module DC 473 ''MODULE_RG_PPP'',
   token_set_y DC 474 ''CONFIG_RG_EVENT_LOGGING'',
   token_set_y DC 477 ''CONFIG_HW_ETH_WAN'',
   enable_module DC 478 ''CONFIG_HW_DSP'',
   token_set_y DC 479 ''CONFIG_HW_KEYPAD'',
   token_set_y DC 480 ''CONFIG_HW_LEDS'',
   token_set_y DC 482 ''CONFIG_DYN_LINK'',
   token_set_y DC 483 ''CONFIG_DEF_WAN_ALIAS_IP'']"

definition dist_INCAIP_ATA :: "stmt" where
  "dist_INCAIP_ATA = block [
   set_hw ''ALLTEK'',
   enable_module DC 490 ''MODULE_RG_FOUNDATION'',
   enable_module DC 491 ''MODULE_RG_UPNP'',
   enable_module DC 492 ''MODULE_RG_PPP'',
   token_set_y DC 493 ''CONFIG_RG_EVENT_LOGGING'',
   enable_module DC 496 ''CONFIG_HW_DSP'',
   token_set_y DC 497 ''CONFIG_HW_ETH_WAN'',
   token_set_y DC 499 ''CONFIG_DYN_LINK'',
   token_set_y DC 500 ''CONFIG_DEF_WAN_ALIAS_IP'',
   enable_module DC 503 ''MODULE_RG_ATA'',
   ifc (is_dist ''INCAIP_ATA_OSIP'') [enable_module DC 505 ''MODULE_RG_VOIP_OSIP'']
      [
       enable_module DC 508 ''MODULE_RG_VOIP_RV_SIP'',
       enable_module DC 509 ''MODULE_RG_VOIP_RV_MGCP'',
       enable_module DC 510 ''MODULE_RG_VOIP_RV_H323'']]"

definition dist_RGLOADER_ALLTEK :: "stmt" where
  "dist_RGLOADER_ALLTEK = block [
   set_hw ''ALLTEK'',
   token_set_y DC 518 ''CONFIG_RG_RGLOADER'',
   token_set_y DC 521 ''CONFIG_HW_ETH_LAN'']"

definition dist_INCAIP_VGW :: "stmt" where
  "dist_INCAIP_VGW = block [
   set_hw ''ALLTEK_VLAN'',
   token_set_y DC 528 ''CONFIG_RG_SMB'',
   enable_module DC 531 ''MODULE_RG_FOUNDATION'',
   enable_module DC 532 ''MODULE_RG_ADVANCED_MANAGEMENT'',
   enable_module DC 533 ''MODULE_RG_SNMP'',
   enable_module DC 534 ''MODULE_RG_UPNP'',
   enable_module DC 535 ''MODULE_RG_ADVANCED_ROUTING'',
   enable_module DC 536 ''MODULE_RG_FIREWALL_AND_SECURITY'',
   enable_module DC 537 ''MODULE_RG_PPTP'',
   enable_module DC 538 ''MODULE_RG_PPP'',
   enable_module DC 541 ''MODULE_RG_IPSEC'',
   enable_module DC 542 ''MODULE_RG_L2TP'',
   enable_module DC 546 ''MODULE_RG_IPV6'',
   enable_module DC 547 ''MODULE_RG_URL_FILTERING'',
   token_set_y DC 550 ''CONFIG_HW_ETH_WAN'',
   token_set_y DC 551 ''CONFIG_HW_ETH_LAN'',
   enable_module DC 552 ''CONFIG_HW_DSP'',
   enable_module DC 553 ''CONFIG_HW_ENCRYPTION'',
   token_set_y DC 555 ''CONFIG_DYN_LINK'',
   enable_module DC 558 ''MODULE_RG_ATA'',
   ifc (is_dist ''INCAIP_VGW_OSIP'') [enable_module DC 560 ''MODULE_RG_VOIP_OSIP'']
      [
       enable_module DC 563 ''MODULE_RG_VOIP_RV_SIP'',
       enable_module DC 564 ''MODULE_RG_VOIP_RV_H323'',
       enable_module DC 565 ''MODULE_RG_VOIP_RV_MGCP'']]"

definition dist_INCAIP_FULLSOURCE :: "stmt" where
  "dist_INCAIP_FULLSOURCE = block [
   set_hw ''ALLTEK_VLAN'',
   token_set_y DC 572 ''CONFIG_RG_SMB'',
   enable_module DC 575 ''MODULE_RG_FOUNDATION'',
   enable_module DC 576 ''MODULE_RG_ADVANCED_MANAGEMENT'',
   enable_module DC 577 ''MODULE_RG_SNMP'',
   enable_module DC 578 ''MODULE_RG_UPNP'',
   enable_module DC 579 ''MODULE_RG_ADVANCED_ROUTING'',
   enable_module DC 580 ''MODULE_RG_FIREWALL_AND_SECURITY'',
   enable_module DC 581 ''MODULE_RG_PPTP'',
   enable_module DC 582 ''MODULE_RG_PPP'',
   enable_module DC 585 ''MODULE_RG_IPSEC'',
   enable_module DC 586 ''MODULE_RG_L2TP'',
   enable_module DC 590 ''MODULE_RG_IPV6'',
   enable_module DC 591 ''MODULE_RG_URL_FILTERING'',
   token_set_y DC 594 ''CONFIG_HW_ETH_WAN'',
   token_set_y DC 595 ''CONFIG_HW_ETH_LAN'',
   enable_module DC 596 ''CONFIG_HW_ENCRYPTION'',
   token_set_y DC 598 ''CONFIG_DYN_LINK'']"

definition dist_BCM94702 :: "stmt" where
  "dist_BCM94702 = block [
   set_hw ''BCM94702'',
   enable_module DC 604 ''MODULE_RG_FOUNDATION'',
   enable_module DC 605 ''MODULE_RG_FIREWALL_AND_SECURITY'',
   token_set_y DC 608 ''CONFIG_HW_ETH_WAN'',
   token_set_y DC 609 ''CONFIG_HW_ETH_LAN'']"

definition dist_BCM94704 :: "stmt" where
  "dist_BCM94704 = block [
   set_hw ''BCM94704'',
   enable_module DC 615 ''MODULE_RG_FOUNDATION'',
   enable_module DC 616 ''MODULE_RG_FIREWALL_AND_SECURITY'',
   enable_module DC 617 ''MODULE_RG_SNMP'',
   token_set_y DC 618 ''CONFIG_RG_EVENT_LOGGING'',
   token_set_y DC 619 ''CONFIG_RG_ENTFY'',
   token_set_y DC 622 ''CONFIG_HW_ETH_WAN'',
   token_set_y DC 623 ''CONFIG_HW_ETH_LAN'',
   enable_module DC 624 ''CONFIG_HW_80211G_BCM43XX'']"

definition dist_USI_BCM94712 :: "stmt" where
  "dist_USI_BCM94712 = block [
   set_hw ''BCM94712'',
   enable_module DC 632 ''MODULE_RG_FOUNDATION'',
   enable_module DC 633 ''MODULE_RG_FIREWALL_AND_SECURITY'',
   enable_module DC 634 ''MODULE_RG_ADVANCED_MANAGEMENT'',
   enable_module DC 635 ''MODULE_RG_ADVANCED_ROUTING'',
   enable_module DC 636 ''MODULE_RG_WLAN_AND_ADVANCED_WLAN'',
   enable_module DC 637 ''MODULE_RG_SNMP'',
   enable_module DC 638 ''MODULE_RG_PPTP'',
   enable_module DC 639 ''MODULE_RG_L2TP'',
   token_set_y DC 642 ''CONFIG_HW_ETH_WAN'',
   token_set_y DC 643 ''CONFIG_HW_ETH_LAN'',
   enable_module DC 644 ''CONFIG_HW_80211G_BCM43XX'',
   token_set_y DC 648 ''CONFIG_DYN_LINK'']"

definition dist_SRI_USI_BCM94712 :: "stmt" where
  "dist_SRI_USI_BCM94712 = block [
   set_hw ''BCM94712'',
   token_set_y DC 654 ''CONFIG_RG_SMB'',
   enable_module DC 656 ''MODULE_RG_FOUNDATION'',
   enable_module DC 657 ''MODULE_RG_ADVANCED_MANAGEMENT'',
   enable_module DC 658 ''MODULE_RG_ADVANCED_ROUTING'',
   enable_module DC 659 ''MODULE_RG_PPP'',
   enable_module DC 660 ''MODULE_RG_FIREWALL_AND_SECURITY'',
   enable_module DC 662 ''MODULE_RG_WLAN_AND_ADVANCED_WLAN'',
   enable_module DC 663 ''MODULE_RG_URL_FILTERING'',
   token_set DC 664 ''CONFIG_RG_SURFCONTROL_PARTNER_ID'' ''6003'' [],
   enable_module DC 665 ''MODULE_RG_IPSEC'',
   enable_module DC 666 ''MODULE_RG_PPTP'',
   enable_module DC 667 ''MODULE_RG_L2TP'',
   enable_module DC 668 ''MODULE_RG_SNMP'',
   token_set_y DC 671 ''CONFIG_HW_ETH_WAN'',
   token_set_y DC 672 ''CONFIG_HW_ETH_LAN'',
   token_set_y DC 673 ''CONFIG_HW_80211G_BCM43XX'',
   token_set_y DC 678 ''CONFIG_DYN_LINK'',
   token_set_y DC 682 ''CONFIG_RG_RADIUS_WBM_IN_CONN'']"

definition dist_RTA770W :: "stmt" where
  "dist_RTA770W = block [
   set_hw ''RTA770W'',
   enable_module DC 688 ''MODULE_RG_FOUNDATION'',
   enable_module DC 689 ''MODULE_RG_ADVANCED_MANAGEMENT'',
   enable_module DC 690 ''MODULE_RG_FIREWALL_AND_SECURITY'',
   enable_module DC 691 ''MODULE_RG_ADVANCED_MANAGEMENT'',
   enable_module DC 692 ''MODULE_RG_WLAN_AND_ADVANCED_WLAN'',
   token_set_y DC 695 ''CONFIG_DYN_LINK'',
   enable_module DC 696 ''MODULE_RG_SNMP'',
   enable_module DC 697 ''MODULE_RG_PPP'',
   enable_module DC 698 ''MODULE_RG_UPNP'',
   token_set_y DC 699 ''CONFIG_RG_IGD_XBOX'',
   enable_module DC 700 ''MODULE_RG_DSL'',
   token_set_y DC 703 ''CONFIG_HW_DSL_WAN'',
   token_set_y DC 704 ''CONFIG_HW_ETH_LAN'',
   enable_module DC 705 ''CONFIG_HW_80211G_BCM43XX'',
   enable_module DC 706 ''CONFIG_HW_USB_RNDIS'',
   token_set_m DC 707 ''CONFIG_HW_BUTTONS'',
   token_set_y DC 708 ''CONFIG_HW_LEDS'',
   token_set_y DC 712 ''CONFIG_GUI_BELKIN'',
   token_set DC 713 ''RG_PROD_STR'' ''Prodigy infinitum'' [],
   token_set_y DC 714 ''CONFIG_RG_DSL_CH'',
   token_set_y DC 715 ''CONFIG_RG_PPP_ON_DEMAND_AS_DEFAULT'',
   token_set DC 717 ''CONFIG_RG_PPP_ON_DEMAND_DEFAULT_MAX_IDLE_TIME'' ''10800'' [],
   token_set DC 719 ''CONFIG_RG_PPP_DEFAULT_BSD_COMPRESSION'' ''1'' [],
   token_set DC 721 ''CONFIG_RG_PPP_DEFAULT_DEFLATE_COMPRESSION'' ''1'' [],
   token_set_y DC 724 ''CONFIG_RG_RMT_UPGRADE_IMG_IN_MEM'',
   when_c (neg (has_str ''CONFIG_RG_DIST_LANG'')) [
       token_set DC 728 ''CONFIG_RG_DIST_LANG'' ''spanish_belkin'' []],
   token_set_y DC 729 ''CONFIG_RG_CFG_SERVER'',
   token_set_y DC 730 ''CONFIG_RG_OSS_RMT'',
   token_set_y DC 731 ''CONFIG_RG_RMT_MNG'',
   token_set_y DC 732 ''CONFIG_RG_NON_ROUTABLE_LAN_DEVICE_IP'']"

definition dist_RTA770W_EVAL :: "stmt" where
  "dist_RTA770W_EVAL = block [
   set_hw ''RTA770W'',
   enable_module DC 738 ''MODULE_RG_FOUNDATION'',
   enable_module DC 739 ''MODULE_RG_ADVANCED_MANAGEMENT'',
   enable_module DC 740 ''MODULE_RG_FIREWALL_AND_SECURITY'',
   enable_module DC 741 ''MODULE_RG_ADVANCED_MANAGEMENT'',
   enable_module DC 742 ''MODULE_RG_WLAN_AND_ADVANCED_WLAN'',
   enable_module DC 743 ''MODULE_RG_SNMP'',
   enable_module DC 744 ''MODULE_RG_PPP'',
   enable_module DC 745 ''MODULE_RG_UPNP'',
   enable_module DC 746 ''MODULE_RG_DSL'',
   token_set_y DC 749 ''CONFIG_HW_DSL_WAN'',
   token_set_y DC 750 ''CONFIG_HW_ETH_LAN'',
   enable_module DC 751 ''CONFIG_HW_80211G_BCM43XX'',
   enable_module DC 752 ''CONFIG_HW_USB_RNDIS'',
   token_set_m DC 753 ''CONFIG_HW_BUTTONS'',
   token_set_y DC 754 ''CONFIG_HW_LEDS'',
   token_set_y DC 760 ''CONFIG_RG_RMT_UPGRADE_IMG_IN_MEM'',
   token_set_y DC 763 ''CONFIG_DYN_LINK'']"

definition dist_RGLOADER_RTA770W :: "stmt" where
  "dist_RGLOADER_RTA770W = block [
   set_hw ''RTA770W'',
   token_set_y DC 769 ''CONFIG_RG_RGLOADER'',
   token_set_y DC 770 ''CONFIG_BCM963XX_BOOTSTRAP'',
   token_set_m DC 771 ''CONFIG_RG_KRGLDR'',
   token_set_y DC 774 ''CONFIG_HW_ETH_LAN2'',
   token_set_y DC 775 ''CONFIG_HW_ETH_LAN'']"

definition dist_GTWX5803 :: "stmt" where
  "dist_GTWX5803 = block [
   set_hw ''GTWX5803'',
   token_set DC 781 ''CONFIG_RG_JPKG_DIST'' ''JPKG_BCM9634X'' [],
   small_flash_default_dist,
   token_set_m DC 785 ''CONFIG_RG_MTD'',
   token_set_y DC 788 ''CONFIG_HW_DSL_WAN'',
   token_set_y DC 789 ''CONFIG_HW_SWITCH_LAN'',
   enable_module DC 790 ''CONFIG_HW_80211G_BCM43XX'',
   enable_module DC 791 ''CONFIG_HW_USB_RNDIS'',
   token_set_m DC 792 ''CONFIG_HW_BUTTONS'',
   token_set_y DC 793 ''CONFIG_HW_LEDS'']"

definition dist_RGLOADER_GTWX5803 :: "stmt" where
  "dist_RGLOADER_GTWX5803 = block [
   set_hw ''GTWX5803'',
   token_set_y DC 803 ''CONFIG_RG_RGLOADER'',
   token_set_y DC 804 ''CONFIG_RG_TELNETS'',
   token_set_y DC 805 ''CONFIG_BCM963XX_BOOTSTRAP'',
   token_set_m DC 806 ''CONFIG_RG_KRGLDR'',
   token_set_y DC 807 ''CONFIG_RG_DYN_FLASH_LAYOUT'',
   token_set_m DC 808 ''CONFIG_RG_MTD'',
   token_set_y DC 811 ''CONFIG_HW_ETH_LAN'']"

definition dist_WRT54G :: "stmt" where
  "dist_WRT54G = block [
   set_hw ''WRT54G'',
   enable_module DC 817 ''MODULE_RG_FOUNDATION'',
   enable_module DC 818 ''MODULE_RG_ADVANCED_MANAGEMENT'',
   enable_module DC 819 ''MODULE_RG_FIREWALL_AND_SECURITY'',
   enable_module DC 820 ''MODULE_RG_ADVANCED_ROUTING'',
   enable_module DC 821 ''MODULE_RG_WLAN_AND_ADVANCED_WLAN'',
   enable_module DC 822 ''MODULE_RG_SNMP'',
   token_set_y DC 825 ''CONFIG_HW_ETH_WAN'',
   token_set_y DC 826 ''CONFIG_HW_ETH_LAN'',
   enable_module DC 827 ''CONFIG_HW_80211G_BCM43XX'',
   token_set_m DC 828 ''CONFIG_HW_BUTTONS'',
   token_set_y DC 832 ''CONFIG_ARCH_BCM947_CYBERTAN'',
   token_set_y DC 833 ''CONFIG_RG_BCM947_NVRAM_CONVERT'',
   token_set_y DC 834 ''CONFIG_DYN_LINK'',
   token_set_y DC 835 ''CONFIG_GUI_LINKSYS'']"

definition dist_SOLOS_LSP :: "stmt" where
  "dist_SOLOS_LSP = block [
   set_hw ''CX9451X'',
   set_os ''LINUX_26'',
   token_set_y DC 841 ''CONFIG_ARCH_SOLOS'',
   token_set_y DC 842 ''CONFIG_DEBUG_USER'',
   token_set_y DC 843 ''CONFIG_KALLSYMS'',
   token_set_y DC 844 ''CONFIG_SERIAL_CORE'',
   token_set_y DC 845 ''CONFIG_SERIAL_CORE_CONSOLE'',
   token_set_y DC 846 ''CONFIG_SERIAL_SOLOS_CONSOLE'',
   token_set_y DC 847 ''CONFIG_UNIX98_PTYS'',
   ifc (is_dist ''SOLOS_LSP'') [
       token_set_y DC 851 ''CONFIG_RG_KGDB'',
       token_set_y DC 852 ''CONFIG_LSP_DIST'']
      [
       enable_module DC 856 ''MODULE_RG_FOUNDATION'',
       enable_module DC 857 ''MODULE_RG_ADVANCED_ROUTING'',
       enable_module DC 858 ''MODULE_RG_VLAN'',
       enable_module DC 859 ''MODULE_RG_ADVANCED_MANAGEMENT'',
       enable_module DC 860 ''MODULE_RG_DSL'',
       enable_module DC 861 ''MODULE_RG_PPP'',
       enable_module DC 862 ''MODULE_RG_FIREWALL_AND_SECURITY'',
       enable_module DC 863 ''MODULE_RG_URL_FILTERING'',
       enable_module DC 864 ''MODULE_RG_IPSEC'',
       token_set_y DC 865 ''CONFIG_IPSEC_USE_SOLOS_CRYPTO'',
       enable_module DC 866 ''MODULE_RG_PPTP'',
       enable_module DC 867 ''MODULE_RG_L2TP'',
       enable_module DC 868 ''MODULE_RG_FILESERVER'',
       enable_module DC 869 ''MODULE_RG_PRINTSERVER'',
       enable_module DC 870 ''MODULE_RG_UPNP'',
       enable_module DC 873 ''MODULE_RG_VOIP_ASTERISK_SIP'',
       enable_module DC 874 ''MODULE_RG_PBX'',
       enable_module DC 876 ''MODULE_RG_SNMP'',
       enable_module DC 877 ''MODULE_RG_IPV6'',
       enable_module DC 878 ''MODULE_RG_DSLHOME'',
       enable_module DC 879 ''MODULE_RG_TR_064'',
       enable_module DC 880 ''MODULE_RG_QOS'',
       enable_module DC 883 ''CONFIG_HW_DSP'',
       token_set_y DC 884 ''CONFIG_HW_USB_STORAGE'',
       token_set_y DC 885 ''CONFIG_HW_DSL_WAN'',
       token_set_y DC 886 ''CONFIG_HW_ETH_WAN'',
       token_set_y DC 887 ''CONFIG_HW_ETH_LAN''],
   token_set_y DC 892 ''CONFIG_DYN_LINK'',
   token_set DC 893 ''CONFIG_RG_JPKG_DIST'' ''JPKG_ARMV5L'' [],
   token_set DC 895 ''CONFIG_RG_EXTERNAL_TOOLS_PATH'' ''/usr/local/virata/tools_v10.1c/redhat-9-x86/bin/'' []]"

definition dist_CX82100_SCHMID :: "stmt" where
  "dist_CX82100_SCHMID = block [
   set_hw ''CX82100'',
   set_os ''LINUX_22'',
   enable_module DC 902 ''MODULE_RG_FOUNDATION'',
   enable_module DC 903 ''MODULE_RG_FIREWALL_AND_SECURITY'',
   token_set_y DC 906 ''CONFIG_HW_ETH_WAN'',
   token_set_y DC 907 ''CONFIG_HW_ETH_LAN'',
   enable_module DC 908 ''CONFIG_HW_USB_RNDIS'',
   token_set_y DC 910 ''CONFIG_RG_TODC'']"

definition dist_X86_FRG_TMT :: "stmt" where
  "dist_X86_FRG_TMT = block [
   set_hw ''PCBOX_EEP_EEP'',
   enable_module DC 916 ''MODULE_RG_FOUNDATION'',
   enable_module DC 917 ''MODULE_RG_SNMP'',
   enable_module DC 918 ''MODULE_RG_VLAN'',
   token_set_y DC 921 ''CONFIG_HW_ETH_WAN'',
   token_set_y DC 922 ''CONFIG_HW_ETH_LAN'',
   token_set_y DC 924 ''CONFIG_GLIBC'']"

definition dist_RGLOADER_X86_TMT :: "stmt" where
  "dist_RGLOADER_X86_TMT = block [
   set_hw ''PCBOX_EEP_EEP'',
   token_set_y DC 930 ''CONFIG_RG_RGLOADER'',
   token_set_y DC 933 ''CONFIG_HW_ETH_LAN2'',
   token_set_y DC 934 ''CONFIG_HW_ETH_LAN'']"

lemma ok_dist_ADM5120_LSP [safe_scripts]: "ok base_schema value_tokens J dist_ADM5120_LSP"
  unfolding dist_ADM5120_LSP_def
  by (intro safe_intros shipped.ok_sets shipped.ok_enable_module safe_scripts; simp)


lemma ok_dist_BCM91125E [safe_scripts]: "ok base_schema value_tokens J dist_BCM91125E"
  unfolding dist_BCM91125E_def
  by (intro safe_intros shipped.ok_sets shipped.ok_enable_module safe_scripts; simp)


lemma ok_dist_RGLOADER_ADM5120 [safe_scripts]: "ok base_schema value_tokens J dist_RGLOADER_ADM5120"
  unfolding dist_RGLOADER_ADM5120_def
  by (intro safe_intros shipped.ok_sets shipped.ok_enable_module safe_scripts; simp)


lemma ok_dist_ADM5120_ATA [safe_scripts]: "ok base_schema value_tokens J dist_ADM5120_ATA"
  unfolding dist_ADM5120_ATA_def
  by (intro safe_intros shipped.ok_sets shipped.ok_enable_module safe_scripts; simp)


lemma ok_dist_ADM5120_VGW [safe_scripts]: "ok base_schema value_tokens J dist_ADM5120_VGW"
  unfolding dist_ADM5120_VGW_def
  by (intro safe_intros shipped.ok_sets shipped.ok_enable_module safe_scripts; simp)


lemma ok_dist_INCAIP_LSP [safe_scripts]: "ok base_schema value_tokens J dist_INCAIP_LSP"
  unfolding dist_INCAIP_LSP_def
  by (intro safe_intros shipped.ok_sets shipped.ok_enable_module safe_scripts; simp)


lemma ok_dist_RGLOADER_INCAIP [safe_scripts]: "ok base_schema value_tokens J dist_RGLOADER_INCAIP"
  unfolding dist_RGLOADER_INCAIP_def
  by (intro safe_intros shipped.ok_sets shipped.ok_enable_module safe_scripts; simp)


lemma ok_dist_INCAIP_IPPHONE [safe_scripts]: "ok base_schema value_tokens J dist_INCAIP_IPPHONE"
  unfolding dist_INCAIP_IPPHONE_def
  by (intro safe_intros shipped.ok_sets shipped.ok_enable_module safe_scripts; simp)


lemma ok_dist_RGLOADER_FLEXTRONICS [safe_scripts]: "ok base_schema value_tokens J dist_RGLOADER_FLEXTRONICS"
  unfolding dist_RGLOADER_FLEXTRONICS_def
  by (intro safe_intros shipped.ok_sets shipped.ok_enable_module safe_scripts; simp)


lemma ok_dist_FLEXTRONICS_IPPHONE [safe_scripts]: "ok base_schema value_tokens J dist_FLEXTRONICS_IPPHONE"
  unfolding dist_FLEXTRONICS_IPPHONE_def
  by (intro safe_intros shipped.ok_sets shipped.ok_enable_module safe_scripts; simp)


lemma ok_dist_INCAIP_ATA [safe_scripts]: "ok base_schema value_tokens J dist_INCAIP_ATA"
  unfolding dist_INCAIP_ATA_def
  by (intro safe_intros shipped.ok_sets shipped.ok_enable_module safe_scripts; simp)


lemma ok_dist_RGLOADER_ALLTEK [safe_scripts]: "ok base_schema value_tokens J dist_RGLOADER_ALLTEK"
  unfolding dist_RGLOADER_ALLTEK_def
  by (intro safe_intros shipped.ok_sets shipped.ok_enable_module safe_scripts; simp)


lemma ok_dist_INCAIP_VGW [safe_scripts]: "ok base_schema value_tokens J dist_INCAIP_VGW"
  unfolding dist_INCAIP_VGW_def
  by (intro safe_intros shipped.ok_sets shipped.ok_enable_module safe_scripts; simp)


lemma ok_dist_INCAIP_FULLSOURCE [safe_scripts]: "ok base_schema value_tokens J dist_INCAIP_FULLSOURCE"
  unfolding dist_INCAIP_FULLSOURCE_def
  by (intro safe_intros shipped.ok_sets shipped.ok_enable_module safe_scripts; simp)


lemma ok_dist_BCM94702 [safe_scripts]: "ok base_schema value_tokens J dist_BCM94702"
  unfolding dist_BCM94702_def
  by (intro safe_intros shipped.ok_sets shipped.ok_enable_module safe_scripts; simp)


lemma ok_dist_BCM94704 [safe_scripts]: "ok base_schema value_tokens J dist_BCM94704"
  unfolding dist_BCM94704_def
  by (intro safe_intros shipped.ok_sets shipped.ok_enable_module safe_scripts; simp)


lemma ok_dist_USI_BCM94712 [safe_scripts]: "ok base_schema value_tokens J dist_USI_BCM94712"
  unfolding dist_USI_BCM94712_def
  by (intro safe_intros shipped.ok_sets shipped.ok_enable_module safe_scripts; simp)


lemma ok_dist_SRI_USI_BCM94712 [safe_scripts]: "ok base_schema value_tokens J dist_SRI_USI_BCM94712"
  unfolding dist_SRI_USI_BCM94712_def
  by (intro safe_intros shipped.ok_sets shipped.ok_enable_module safe_scripts; simp)


lemma ok_dist_RTA770W [safe_scripts]: "ok base_schema value_tokens J dist_RTA770W"
  unfolding dist_RTA770W_def
  by (intro safe_intros shipped.ok_sets shipped.ok_enable_module safe_scripts; simp)


lemma ok_dist_RTA770W_EVAL [safe_scripts]: "ok base_schema value_tokens J dist_RTA770W_EVAL"
  unfolding dist_RTA770W_EVAL_def
  by (intro safe_intros shipped.ok_sets shipped.ok_enable_module safe_scripts; simp)


lemma ok_dist_RGLOADER_RTA770W [safe_scripts]: "ok base_schema value_tokens J dist_RGLOADER_RTA770W"
  unfolding dist_RGLOADER_RTA770W_def
  by (intro safe_intros shipped.ok_sets shipped.ok_enable_module safe_scripts; simp)


lemma ok_dist_GTWX5803 [safe_scripts]: "ok base_schema value_tokens J dist_GTWX5803"
  unfolding dist_GTWX5803_def
  by (intro safe_intros shipped.ok_sets shipped.ok_enable_module safe_scripts; simp)


lemma ok_dist_RGLOADER_GTWX5803 [safe_scripts]: "ok base_schema value_tokens J dist_RGLOADER_GTWX5803"
  unfolding dist_RGLOADER_GTWX5803_def
  by (intro safe_intros shipped.ok_sets shipped.ok_enable_module safe_scripts; simp)


lemma ok_dist_WRT54G [safe_scripts]: "ok base_schema value_tokens J dist_WRT54G"
  unfolding dist_WRT54G_def
  by (intro safe_intros shipped.ok_sets shipped.ok_enable_module safe_scripts; simp)


lemma ok_dist_SOLOS_LSP [safe_scripts]: "ok base_schema value_tokens J dist_SOLOS_LSP"
  unfolding dist_SOLOS_LSP_def
  by (intro safe_intros shipped.ok_sets shipped.ok_enable_module safe_scripts; simp)


lemma ok_dist_CX82100_SCHMID [safe_scripts]: "ok base_schema value_tokens J dist_CX82100_SCHMID"
  unfolding dist_CX82100_SCHMID_def
  by (intro safe_intros shipped.ok_sets shipped.ok_enable_module safe_scripts; simp)


lemma ok_dist_X86_FRG_TMT [safe_scripts]: "ok base_schema value_tokens J dist_X86_FRG_TMT"
  unfolding dist_X86_FRG_TMT_def
  by (intro safe_intros shipped.ok_sets shipped.ok_enable_module safe_scripts; simp)


lemma ok_dist_RGLOADER_X86_TMT [safe_scripts]: "ok base_schema value_tokens J dist_RGLOADER_X86_TMT"
  unfolding dist_RGLOADER_X86_TMT_def
  by (intro safe_intros shipped.ok_sets shipped.ok_enable_module safe_scripts; simp)


end
