(* ===== verification/Dist_Config_2.thy ===== *)
theory Dist_Config_2
  imports Dist_Config_1
begin

text \<open>
  \<open>distribution_features\<close> of \<open>dist_config.c\<close>, lines 936 to 1822: one definition per
  branch of the chain over the distribution's name.
\<close>

definition dist_ALLWELL_RTL_RTL :: "stmt" where
  "dist_ALLWELL_RTL_RTL = block [
   set_hw ''ALLWELL_RTL_RTL'',
   token_set_y DC 940 ''PACKAGE_OPENRG_VPN_GATEWAY'',
   token_set_y DC 941 ''MODULE_RG_VOIP_ASTERISK_SIP'',
   token_set_y DC 942 ''MODULE_RG_VOIP_ASTERISK_H323'',
   token_set_y DC 945 ''CONFIG_HW_ETH_WAN'',
   token_set_y DC 946 ''CONFIG_HW_ETH_LAN'',
   token_set DC 948 ''CONFIG_RG_JPKG_DIST'' ''JPKG_I386'' [],
   token_set_y DC 951 ''CONFIG_RG_DEV'']"

definition dist_ALLWELL_RTL_RTL_SSI :: "stmt" where
  "dist_ALLWELL_RTL_RTL_SSI = block [
   set_hw ''ALLWELL_RTL_RTL'',
   token_set_y DC 956 ''PACKAGE_OPENRG_VPN_GATEWAY'',
   token_set_y DC 959 ''CONFIG_HW_ETH_WAN'',
   token_set_y DC 960 ''CONFIG_HW_ETH_LAN'',
   token_set_y DC 962 ''CONFIG_RG_SSI_PAGES'']"

definition dist_ALLWELL_RTL_EEP :: "stmt" where
  "dist_ALLWELL_RTL_EEP = block [
   set_hw ''ALLWELL_RTL_EEP'',
   token_set_y DC 968 ''CONFIG_RG_SMB'',
   enable_module DC 971 ''MODULE_RG_FOUNDATION'',
   enable_module DC 972 ''MODULE_RG_ADVANCED_MANAGEMENT'',
   enable_module DC 973 ''MODULE_RG_SNMP'',
   enable_module DC 974 ''MODULE_RG_PPP'',
   enable_module DC 978 ''MODULE_RG_IPV6'',
   enable_module DC 979 ''MODULE_RG_VLAN'',
   enable_module DC 980 ''MODULE_RG_UPNP'',
   enable_module DC 981 ''MODULE_RG_ADVANCED_ROUTING'',
   enable_module DC 982 ''MODULE_RG_FIREWALL_AND_SECURITY'',
   enable_module DC 983 ''MODULE_RG_L2TP'',
   enable_module DC 984 ''MODULE_RG_IPSEC'',
   enable_module DC 985 ''MODULE_RG_PPTP'',
   enable_module DC 986 ''MODULE_RG_URL_FILTERING'',
   token_set_y DC 989 ''CONFIG_HW_ETH_WAN'',
   token_set_y DC 990 ''CONFIG_HW_ETH_LAN'']"

definition dist_ALLWELL_RTL_RTL_ALADDIN :: "stmt" where
  "dist_ALLWELL_RTL_RTL_ALADDIN = block [
   set_hw ''ALLWELL_RTL_RTL'',
   token_set_y DC 997 ''PACKAGE_OPENRG_VPN_GATEWAY'',
   enable_module DC 998 ''MODULE_RG_MAIL_FILTER'',
   token_set_y DC 1001 ''CONFIG_HW_ETH_WAN'',
   token_set_y DC 1002 ''CONFIG_HW_ETH_LAN'']"

definition dist_ALLWELL_RTL_RTL_WELLTECH :: "stmt" where
  "dist_ALLWELL_RTL_RTL_WELLTECH = block [
   set_hw ''ALLWELL_RTL_RTL'',
   enable_module DC 1008 ''MODULE_RG_FOUNDATION'',
   enable_module DC 1009 ''MODULE_RG_ADVANCED_MANAGEMENT'',
   enable_module DC 1010 ''MODULE_RG_SNMP'',
   enable_module DC 1011 ''MODULE_RG_PPP'',
   enable_module DC 1012 ''MODULE_RG_L2TP'',
   enable_module DC 1013 ''MODULE_RG_IPSEC'',
   enable_module DC 1014 ''MODULE_RG_PPTP'',
   enable_module DC 1015 ''MODULE_RG_SNMP'',
   token_set_y DC 1018 ''CONFIG_HW_ETH_WAN'',
   token_set_y DC 1019 ''CONFIG_HW_ETH_LAN'',
   token_set_y DC 1021 ''CONFIG_GUI_WELLTECH'']"

definition dist_COYOTE_WIRELESS_80211B :: "stmt" where
  "dist_COYOTE_WIRELESS_80211B = block [
   set_hw ''COYOTE'',
   token_set_y DC 1028 ''CONFIG_RG_SMB'',
   enable_module DC 1031 ''MODULE_RG_FOUNDATION'',
   enable_module DC 1032 ''MODULE_RG_ADVANCED_MANAGEMENT'',
   enable_module DC 1033 ''MODULE_RG_SNMP'',
   enable_module DC 1034 ''MODULE_RG_PPP'',
   enable_module DC 1038 ''MODULE_RG_IPV6'',
   enable_module DC 1039 ''MODULE_RG_VLAN'',
   enable_module DC 1040 ''MODULE_RG_UPNP'',
   enable_module DC 1041 ''MODULE_RG_ADVANCED_ROUTING'',
   enable_module DC 1042 ''MODULE_RG_FIREWALL_AND_SECURITY'',
   enable_module DC 1043 ''MODULE_RG_L2TP'',
   enable_module DC 1046 ''MODULE_RG_IPSEC'',
   enable_module DC 1047 ''MODULE_RG_PPTP'',
   enable_module DC 1048 ''MODULE_RG_URL_FILTERING'',
   enable_module DC 1049 ''MODULE_RG_VOIP_RV_SIP'',
   enable_module DC 1050 ''MODULE_RG_VOIP_RV_MGCP'',
   enable_module DC 1051 ''MODULE_RG_VOIP_RV_H323'',
   enable_module DC 1052 ''MODULE_RG_FILESERVER'',
   enable_module DC 1053 ''MODULE_RG_PRINTSERVER'',
   token_set_y DC 1056 ''CONFIG_HW_ETH_WAN'',
   token_set_y DC 1057 ''CONFIG_HW_ETH_LAN'',
   enable_module DC 1058 ''CONFIG_HW_USB_RNDIS'',
   enable_module DC 1059 ''CONFIG_HW_80211B_PRISM2'',
   enable_module DC 1060 ''CONFIG_HW_DSP'',
   enable_module DC 1061 ''CONFIG_HW_ENCRYPTION'',
   token_set_y DC 1062 ''CONFIG_HW_IDE'',
   enable_module DC 1064 ''MODULE_RG_ATA'',
   token_set_y DC 1068 ''CONFIG_IXP425_COMMON_RG'']"

definition dist_COYOTE_WIRELESS_ISL :: "stmt" where
  "dist_COYOTE_WIRELESS_ISL = block [
   set_hw ''COYOTE'',
   token_set_y DC 1078 ''CONFIG_RG_SMB'',
   enable_module DC 1081 ''MODULE_RG_FOUNDATION'',
   enable_module DC 1082 ''MODULE_RG_ADVANCED_MANAGEMENT'',
   enable_module DC 1083 ''MODULE_RG_SNMP'',
   enable_module DC 1084 ''MODULE_RG_PPP'',
   enable_module DC 1088 ''MODULE_RG_IPV6'',
   enable_module DC 1089 ''MODULE_RG_VLAN'',
   enable_module DC 1090 ''MODULE_RG_UPNP'',
   enable_module DC 1091 ''MODULE_RG_ADVANCED_ROUTING'',
   enable_module DC 1092 ''MODULE_RG_FIREWALL_AND_SECURITY'',
   enable_module DC 1093 ''MODULE_RG_L2TP'',
   enable_module DC 1096 ''MODULE_RG_IPSEC'',
   enable_module DC 1097 ''MODULE_RG_PPTP'',
   enable_module DC 1098 ''MODULE_RG_URL_FILTERING'',
   enable_module DC 1099 ''MODULE_RG_VOIP_RV_SIP'',
   enable_module DC 1100 ''MODULE_RG_VOIP_RV_MGCP'',
   enable_module DC 1101 ''MODULE_RG_VOIP_RV_H323'',
   enable_module DC 1102 ''MODULE_RG_FILESERVER'',
   enable_module DC 1103 ''MODULE_RG_WLAN_AND_ADVANCED_WLAN'',
   token_set_y DC 1104 ''CONFIG_RG_PRINT_SERVER'',
   enable_module DC 1105 ''CONFIG_RG_LPD'',
   token_set_y DC 1106 ''CONFIG_RG_IPP'',
   enable_module DC 1107 ''MODULE_RG_ATA'',
   token_set_y DC 1110 ''CONFIG_HW_ETH_WAN'',
   token_set_y DC 1111 ''CONFIG_HW_ETH_LAN'',
   enable_module DC 1112 ''CONFIG_HW_USB_RNDIS'',
   when_c (is_dist ''COYOTE_WIRELESS_ISL'') [enable_module DC 1115 ''CONFIG_HW_80211G_ISL38XX''],
   when_c (is_dist ''COYOTE_WIRELESS_SOFTMAC'') [enable_module DC 1120 ''CONFIG_HW_80211G_ISL_SOFTMAC''],
   when_c (is_dist ''COYOTE_WIRELESS_RALINK'') [enable_module DC 1125 ''CONFIG_HW_80211G_RALINK_RT2560''],
   enable_module DC 1128 ''CONFIG_HW_DSP'',
   enable_module DC 1129 ''CONFIG_HW_ENCRYPTION'',
   token_set_y DC 1130 ''CONFIG_HW_IDE'',
   token_set_y DC 1135 ''CONFIG_IXP425_COMMON_RG'']"

definition dist_RGLOADER_USR8200 :: "stmt" where
  "dist_RGLOADER_USR8200 = block [
   set_hw ''USR8200'',
   token_set_y DC 1141 ''CONFIG_RG_RGLOADER'',
   token_set_y DC 1142 ''CONFIG_IXP425_COMMON_RGLOADER'',
   token_set_y DC 1145 ''CONFIG_HW_ETH_LAN'']"

definition dist_USR8200_EVAL :: "stmt" where
  "dist_USR8200_EVAL = block [
   set_hw ''USR8200'',
   token_set_y DC 1151 ''CONFIG_RG_SMB'',
   enable_module DC 1154 ''MODULE_RG_FOUNDATION'',
   enable_module DC 1155 ''MODULE_RG_ADVANCED_MANAGEMENT'',
   enable_module DC 1156 ''MODULE_RG_SNMP'',
   enable_module DC 1157 ''MODULE_RG_PPP'',
   enable_module DC 1161 ''MODULE_RG_IPV6'',
   enable_module DC 1162 ''MODULE_RG_VLAN'',
   enable_module DC 1163 ''MODULE_RG_UPNP'',
   enable_module DC 1164 ''MODULE_RG_ADVANCED_ROUTING'',
   enable_module DC 1165 ''MODULE_RG_FIREWALL_AND_SECURITY'',
   enable_module DC 1166 ''MODULE_RG_L2TP'',
   enable_module DC 1169 ''MODULE_RG_IPSEC'',
   enable_module DC 1170 ''MODULE_RG_PPTP'',
   enable_module DC 1171 ''MODULE_RG_URL_FILTERING'',
   enable_module DC 1172 ''MODULE_RG_FILESERVER'',
   enable_module DC 1173 ''MODULE_RG_PRINTSERVER'',
   token_set_y DC 1176 ''CONFIG_HW_ETH_WAN'',
   token_set_y DC 1177 ''CONFIG_HW_ETH_LAN'',
   token_set_y DC 1178 ''CONFIG_HW_USB_HOST_EHCI'',
   token_set_y DC 1179 ''CONFIG_HW_USB_HOST_UHCI'',
   token_set_y DC 1180 ''CONFIG_HW_FIREWIRE'',
   token_set_y DC 1181 ''CONFIG_HW_FIREWIRE_STORAGE'',
   token_set_y DC 1182 ''CONFIG_HW_USB_STORAGE'',
   enable_module DC 1183 ''CONFIG_HW_ENCRYPTION'',
   token_set DC 1185 ''CONFIG_RG_PRINT_SERVER_SPOOL'' ''16777216'' [],
   token_set_y DC 1186 ''CONFIG_IXP425_COMMON_RG'',
   token_set DC 1187 ''CONFIG_RG_CONSOLE_DEVICE'' ''ttyS1'' [],
   token_set DC 1188 ''CONFIG_IXDP425_KGDB_UART'' ''1'' [],
   token_set_y DC 1189 ''CONFIG_RG_DATE'']"

definition dist_USR8200 :: "stmt" where
  "dist_USR8200 = block [
   set_hw ''USR8200'',
   token_set_y DC 1195 ''CONFIG_RG_SMB'',
   enable_module DC 1197 ''MODULE_RG_FOUNDATION'',
   enable_module DC 1198 ''MODULE_RG_FIREWALL_AND_SECURITY'',
   enable_module DC 1199 ''MODULE_RG_ADVANCED_ROUTING'',
   enable_module DC 1200 ''MODULE_RG_SNMP'',
   enable_module DC 1201 ''MODULE_RG_PPP'',
   enable_module DC 1202 ''MODULE_RG_UPNP'',
   enable_module DC 1205 ''MODULE_RG_IPSEC'',
   enable_module DC 1206 ''MODULE_RG_PPTP'',
   enable_module DC 1207 ''MODULE_RG_FILESERVER'',
   enable_module DC 1208 ''MODULE_RG_ADVANCED_OFFICE_SERVERS'',
   enable_module DC 1209 ''MODULE_RG_PRINTSERVER'',
   token_set_y DC 1210 ''CONFIG_RG_SURFCONTROL'',
   enable_module DC 1211 ''MODULE_RG_L2TP'',
   enable_module DC 1212 ''MODULE_RG_ADVANCED_MANAGEMENT'',
   token_set_y DC 1215 ''CONFIG_HW_ETH_WAN'',
   token_set_y DC 1216 ''CONFIG_HW_ETH_LAN'',
   token_set_y DC 1217 ''CONFIG_HW_USB_HOST_EHCI'',
   token_set_y DC 1218 ''CONFIG_HW_USB_HOST_UHCI'',
   token_set_y DC 1219 ''CONFIG_HW_FIREWIRE'',
   token_set_y DC 1220 ''CONFIG_HW_FIREWIRE_STORAGE'',
   token_set_y DC 1221 ''CONFIG_HW_USB_STORAGE'',
   enable_module DC 1222 ''CONFIG_HW_ENCRYPTION'',
   token_set_y DC 1223 ''CONFIG_HW_LEDS'',
   token_set_y DC 1224 ''CONFIG_HW_CLOCK'',
   token_set_y DC 1226 ''CONFIG_RG_FW_ICSA'',
   token_set_y DC 1227 ''CONFIG_IXP425_COMMON_RG'',
   token_set DC 1228 ''CONFIG_IXDP425_KGDB_UART'' ''1'' [],
   token_set_y DC 1229 ''CONFIG_RG_DATE'',
   token_set DC 1230 ''CONFIG_RG_PRINT_SERVER_SPOOL'' ''16777216'' [],
   token_set_y DC 1231 ''CONFIG_STOP_ON_INIT_FAIL'',
   token_set DC 1232 ''CONFIG_RG_SURFCONTROL_PARTNER_ID'' ''6002'' [],
   token_set_y DC 1233 ''CONFIG_RG_DHCPR'',
   enable_module DC 1235 ''MODULE_RG_QOS'',
   enable_module DC 1236 ''MODULE_RG_ROUTE_MULTIWAN'',
   enable_module DC 1237 ''MODULE_RG_SSL_VPN'',
   token_set_y DC 1240 ''CONFIG_RG_TZ_FULL'',
   token_set DC 1241 ''CONFIG_RG_TZ_YEARS'' ''5'' [],
   enable_module DC 1243 ''MODULE_RG_URL_FILTERING'',
   enable_module DC 1244 ''MODULE_RG_MAIL_FILTER'']"

definition dist_USR8200_TUTORIAL :: "stmt" where
  "dist_USR8200_TUTORIAL = block [
   set_hw ''USR8200'',
   token_set_y DC 1250 ''CONFIG_RG_SMB'',
   enable_module DC 1253 ''MODULE_RG_FOUNDATION'',
   enable_module DC 1254 ''MODULE_RG_ADVANCED_MANAGEMENT'',
   enable_module DC 1255 ''MODULE_RG_SNMP'',
   enable_module DC 1256 ''MODULE_RG_PPP'',
   enable_module DC 1260 ''MODULE_RG_IPV6'',
   enable_module DC 1261 ''MODULE_RG_VLAN'',
   enable_module DC 1262 ''MODULE_RG_UPNP'',
   enable_module DC 1263 ''MODULE_RG_ADVANCED_ROUTING'',
   enable_module DC 1264 ''MODULE_RG_FIREWALL_AND_SECURITY'',
   enable_module DC 1265 ''MODULE_RG_L2TP'',
   enable_module DC 1268 ''MODULE_RG_IPSEC'',
   enable_module DC 1269 ''MODULE_RG_PPTP'',
   enable_module DC 1270 ''MODULE_RG_URL_FILTERING'',
   enable_module DC 1271 ''MODULE_RG_FILESERVER'',
   enable_module DC 1272 ''MODULE_RG_PRINTSERVER'',
   token_set_y DC 1275 ''CONFIG_HW_ETH_WAN'',
   token_set_y DC 1276 ''CONFIG_HW_ETH_LAN'',
   token_set_y DC 1277 ''CONFIG_HW_USB_HOST_EHCI'',
   token_set_y DC 1278 ''CONFIG_HW_USB_HOST_UHCI'',
   token_set_y DC 1279 ''CONFIG_HW_FIREWIRE'',
   token_set_y DC 1280 ''CONFIG_HW_FIREWIRE_STORAGE'',
   token_set_y DC 1281 ''CONFIG_HW_USB_STORAGE'',
   enable_module DC 1282 ''CONFIG_HW_ENCRYPTION'',
   token_set_y DC 1283 ''CONFIG_HW_LEDS'',
   token_set_y DC 1284 ''CONFIG_HW_CLOCK'',
   token_set_y DC 1286 ''CONFIG_RG_DATE'',
   token_set_y DC 1287 ''CONFIG_RG_TUTORIAL'',
   token_set_y DC 1288 ''CONFIG_STOP_ON_INIT_FAIL'',
   token_set_y DC 1289 ''CONFIG_IXP425_COMMON_RG'',
   token_set_y DC 1292 ''CONFIG_RG_TZ_FULL'',
   token_set DC 1293 ''CONFIG_RG_TZ_YEARS'' ''5'' []]"

definition dist_BAMBOO :: "stmt" where
  "dist_BAMBOO = block [
   set_hw ''BAMBOO'',
   enable_module DC 1299 ''MODULE_RG_FOUNDATION'',
   enable_module DC 1300 ''MODULE_RG_ADVANCED_ROUTING'',
   enable_module DC 1301 ''MODULE_RG_FIREWALL_AND_SECURITY'',
   enable_module DC 1304 ''MODULE_RG_IPSEC'',
   enable_module DC 1305 ''MODULE_RG_PPTP'',
   enable_module DC 1306 ''MODULE_RG_PPP'',
   enable_module DC 1307 ''MODULE_RG_VLAN'',
   enable_module DC 1308 ''MODULE_RG_UPNP'',
   enable_module DC 1309 ''MODULE_RG_FILESERVER'',
   enable_module DC 1310 ''MODULE_RG_ADVANCED_MANAGEMENT'',
   token_set_y DC 1311 ''CONFIG_RG_PROXY_ARP'',
   token_set_y DC 1312 ''CONFIG_RG_ENTFY'',
   token_set_y DC 1313 ''CONFIG_RG_UCD_SNMP'',
   token_set_y DC 1314 ''CONFIG_RG_8021X_TLS'',
   token_set_y DC 1315 ''CONFIG_RG_8021X_RADIUS'',
   enable_module DC 1316 ''MODULE_RG_ATA'',
   token_set_y DC 1319 ''CONFIG_HW_ETH_WAN'',
   token_set_y DC 1320 ''CONFIG_HW_ETH_LAN'',
   enable_module DC 1321 ''CONFIG_HW_USB_RNDIS'',
   enable_module DC 1322 ''CONFIG_HW_80211B_PRISM2'',
   enable_module DC 1323 ''CONFIG_HW_DSP'',
   token_set_m DC 1324 ''CONFIG_HW_USB_HOST_EHCI'',
   token_set_m DC 1325 ''CONFIG_HW_USB_HOST_UHCI'',
   token_set_y DC 1326 ''CONFIG_HW_USB_STORAGE'',
   enable_module DC 1327 ''CONFIG_HW_ENCRYPTION'',
   token_set_y DC 1328 ''CONFIG_HW_CAMERA_USB_OV511'',
   token_set_m DC 1329 ''CONFIG_HW_PCMCIA_CARDBUS'',
   token_set_m DC 1330 ''CONFIG_HW_BUTTONS'',
   token_set_m DC 1331 ''CONFIG_HW_LEDS'',
   token_set_y DC 1333 ''CONFIG_GLIBC'',
   token_set_y DC 1334 ''CONFIG_IXP425_COMMON_RG'',
   token_set DC 1337 ''CONFIG_RG_PPTP_ECHO_INTERVAL'' ''20'' [],
   token_set DC 1338 ''CONFIG_RG_PPTP_ECHO_FAILURE'' ''3'' [],
   token_set DC 1339 ''CONFIG_PPPOE_MAX_RETRANSMIT_TIMEOUT'' ''64'' [],
   token_set_y DC 1342 ''CONFIG_IXP425_DSR'',
   token_set_y DC 1343 ''CONFIG_RG_OLD_XSCALE_TOOLCHAIN'',
   when_c (is_dist ''BAMBOO_ALADDIN'') [
       enable_module DC 1347 ''MODULE_RG_MAIL_FILTER'',
       enable_module DC 1348 ''MODULE_RG_PRINTSERVER'',
       token_set DC 1349 ''CONFIG_RG_PRINT_SERVER_SPOOL'' ''16777216'' []]]"

definition dist_RGLOADER_CENTROID :: "stmt" where
  "dist_RGLOADER_CENTROID = block [
   set_hw ''CENTROID'',
   token_set_y DC 1356 ''CONFIG_RG_RGLOADER'',
   token_set_y DC 1357 ''CONFIG_SL2312_COMMON'',
   token_set_y DC 1360 ''CONFIG_HW_ETH_LAN'',
   token_set_y DC 1361 ''CONFIG_HW_ETH_LAN2'']"

definition dist_CENTROID :: "stmt" where
  "dist_CENTROID = block [
   set_hw ''CENTROID'',
   token_set_y DC 1367 ''CONFIG_RG_SMB'',
   enable_module DC 1369 ''MODULE_RG_FOUNDATION'',
   enable_module DC 1370 ''MODULE_RG_UPNP'',
   enable_module DC 1371 ''MODULE_RG_FIREWALL_AND_SECURITY'',
   enable_module DC 1372 ''MODULE_RG_FILESERVER'',
   enable_module DC 1373 ''MODULE_RG_WLAN_AND_ADVANCED_WLAN'',
   enable_module DC 1374 ''MODULE_RG_ADVANCED_MANAGEMENT'',
   enable_module DC 1375 ''MODULE_RG_VLAN'',
   enable_module DC 1376 ''MODULE_RG_QOS'',
   enable_module DC 1377 ''MODULE_RG_ROUTE_MULTIWAN'',
   enable_module DC 1378 ''MODULE_RG_SSL_VPN'',
   enable_module DC 1380 ''MODULE_RG_IPSEC'',
   token_set_y DC 1383 ''CONFIG_RG_THREADS'',
   token_set_m DC 1385 ''CONFIG_RG_MTD'',
   token_set_y DC 1388 ''CONFIG_HW_ETH_WAN'',
   token_set_y DC 1389 ''CONFIG_HW_ETH_LAN'',
   token_set_y DC 1390 ''CONFIG_HW_80211G_RALINK_RT2560'',
   token_set_y DC 1391 ''CONFIG_HW_USB_STORAGE'',
   token_set_y DC 1393 ''CONFIG_SL2312_COMMON_RG'',
   token_set DC 1394 ''CONFIG_RG_FLASH_LAYOUT_SIZE'' ''8'' []]"

definition dist_MATECUMBE :: "stmt" where
  "dist_MATECUMBE = block [
   local_c dist_name (\<lambda>d. [set_hw d]),
   token_set_y DC 1406 ''CONFIG_RG_SMB'',
   enable_module DC 1409 ''MODULE_RG_FOUNDATION'',
   enable_module DC 1410 ''MODULE_RG_ADVANCED_MANAGEMENT'',
   enable_module DC 1411 ''MODULE_RG_SNMP'',
   enable_module DC 1412 ''MODULE_RG_PPP'',
   enable_module DC 1416 ''MODULE_RG_IPV6'',
   enable_module DC 1417 ''MODULE_RG_VLAN'',
   enable_module DC 1418 ''MODULE_RG_UPNP'',
   enable_module DC 1419 ''MODULE_RG_ADVANCED_ROUTING'',
   enable_module DC 1420 ''MODULE_RG_FIREWALL_AND_SECURITY'',
   enable_module DC 1421 ''MODULE_RG_L2TP'',
   enable_module DC 1424 ''MODULE_RG_IPSEC'',
   enable_module DC 1425 ''MODULE_RG_PPTP'',
   enable_module DC 1426 ''MODULE_RG_URL_FILTERING'',
   token_set_y DC 1429 ''CONFIG_HW_ETH_WAN'',
   token_set_y DC 1430 ''CONFIG_HW_ETH_LAN'',
   enable_module DC 1431 ''CONFIG_HW_USB_RNDIS'',
   enable_module DC 1432 ''CONFIG_HW_ENCRYPTION'',
   token_set_y DC 1433 ''CONFIG_RG_INITFS_RAMDISK'']"

definition dist_IXDP425 :: "stmt" where
  "dist_IXDP425 = block [
   set_hw ''IXDP425'',
   token_set DC 1441 ''CONFIG_RG_JPKG_DIST'' ''JPKG_ARMV5B'' [],
   token_set_y DC 1442 ''CONFIG_RG_SMB'',
   token_set_y DC 1443 ''CONFIG_ARM_24_FAST_MODULES'',
   enable_module DC 1446 ''MODULE_RG_FOUNDATION'',
   enable_module DC 1447 ''MODULE_RG_ADVANCED_MANAGEMENT'',
   enable_module DC 1448 ''MODULE_RG_SNMP'',
   enable_module DC 1449 ''MODULE_RG_PPP'',
   enable_module DC 1453 ''MODULE_RG_QOS'',
   enable_module DC 1454 ''MODULE_RG_ROUTE_MULTIWAN'',
   enable_module DC 1455 ''MODULE_RG_IPV6'',
   enable_module DC 1456 ''MODULE_RG_VLAN'',
   enable_module DC 1457 ''MODULE_RG_UPNP'',
   enable_module DC 1458 ''MODULE_RG_ADVANCED_ROUTING'',
   enable_module DC 1459 ''MODULE_RG_FIREWALL_AND_SECURITY'',
   enable_module DC 1460 ''MODULE_RG_L2TP'',
   enable_module DC 1463 ''MODULE_RG_IPSEC'',
   enable_module DC 1464 ''MODULE_RG_PPTP'',
   enable_module DC 1465 ''MODULE_RG_URL_FILTERING'',
   enable_module DC 1466 ''MODULE_RG_FILESERVER'',
   enable_module DC 1467 ''MODULE_RG_PRINTSERVER'',
   enable_module DC 1468 ''MODULE_RG_SSL_VPN'',
   token_set_y DC 1471 ''CONFIG_HW_ETH_WAN'',
   token_set_y DC 1472 ''CONFIG_HW_ETH_LAN'',
   enable_module DC 1473 ''CONFIG_HW_USB_RNDIS'',
   enable_module DC 1474 ''CONFIG_HW_ENCRYPTION'',
   token_set_y DC 1476 ''CONFIG_IXP425_COMMON_RG'',
   token_set DC 1477 ''CONFIG_IXDP425_KGDB_UART'' ''1'' [],
   token_set DC 1478 ''CONFIG_RG_FLASH_LAYOUT_SIZE'' ''16'' [],
   token_set_y DC 1479 ''CONFIG_ADSL_CHIP_ALCATEL_20150'',
   token_set_y DC 1480 ''CONFIG_IXP425_ADSL_USE_MPHY'',
   token_set DC 1481 ''CONFIG_RG_PRINT_SERVER_SPOOL'' ''16777216'' [],
   token_set DC 1484 ''CONFIG_IXP425_FLASH_E28F128J3'' ''m'' []]"

definition dist_IXDP425_WIRELESS :: "stmt" where
  "dist_IXDP425_WIRELESS = block [
   set_hw ''IXDP425'',
   token_set DC 1493 ''CONFIG_RG_JPKG_DIST'' ''JPKG_ARMV5B'' [],
   token_set_y DC 1494 ''CONFIG_RG_SMB'',
   enable_module DC 1497 ''MODULE_RG_FOUNDATION'',
   enable_module DC 1498 ''MODULE_RG_ADVANCED_MANAGEMENT'',
   enable_module DC 1499 ''MODULE_RG_SNMP'',
   enable_module DC 1500 ''MODULE_RG_PPP'',
   enable_module DC 1504 ''MODULE_RG_IPV6'',
   enable_module DC 1505 ''MODULE_RG_VLAN'',
   enable_module DC 1506 ''MODULE_RG_UPNP'',
   enable_module DC 1507 ''MODULE_RG_ADVANCED_ROUTING'',
   enable_module DC 1508 ''MODULE_RG_FIREWALL_AND_SECURITY'',
   enable_module DC 1509 ''MODULE_RG_L2TP'',
   enable_module DC 1512 ''MODULE_RG_IPSEC'',
   enable_module DC 1513 ''MODULE_RG_PPTP'',
   enable_module DC 1514 ''MODULE_RG_URL_FILTERING'',
   enable_module DC 1515 ''MODULE_RG_FILESERVER'',
   enable_module DC 1516 ''MODULE_RG_PRINTSERVER'',
   enable_module DC 1517 ''MODULE_RG_WLAN_AND_ADVANCED_WLAN'',
   token_set_y DC 1520 ''CONFIG_HW_ETH_WAN'',
   token_set_y DC 1521 ''CONFIG_HW_ETH_LAN'',
   enable_module DC 1522 ''CONFIG_HW_USB_RNDIS'',
   enable_module DC 1523 ''CONFIG_HW_80211G_ISL38XX'',
   enable_module DC 1524 ''CONFIG_HW_ENCRYPTION'',
   token_set_y DC 1528 ''CONFIG_IXP425_COMMON_RG'',
   token_set DC 1529 ''CONFIG_IXDP425_KGDB_UART'' ''1'' [],
   token_set DC 1530 ''CONFIG_RG_FLASH_LAYOUT_SIZE'' ''16'' [],
   token_set_y DC 1531 ''CONFIG_ADSL_CHIP_ALCATEL_20150'',
   token_set_y DC 1532 ''CONFIG_IXP425_ADSL_USE_MPHY'',
   token_set DC 1533 ''CONFIG_RG_PRINT_SERVER_SPOOL'' ''16777216'' [],
   token_set DC 1536 ''CONFIG_IXP425_FLASH_E28F128J3'' ''m'' []]"

definition dist_RGLOADER_KINGSCANYON :: "stmt" where
  "dist_RGLOADER_KINGSCANYON = block [
   set_hw ''KINGSCANYON'',
   token_set_y DC 1542 ''CONFIG_RG_RGLOADER'',
   token_set_y DC 1543 ''CONFIG_IXP425_COMMON_RGLOADER'',
   token_set_y DC 1546 ''CONFIG_HW_ETH_LAN2'',
   token_set_y DC 1547 ''CONFIG_HW_ETH_LAN'']"

definition dist_RGLOADER_KINGSCANYON_LSP :: "stmt" where
  "dist_RGLOADER_KINGSCANYON_LSP = block [
   set_hw ''KINGSCANYON'',
   token_set_y DC 1553 ''CONFIG_RG_RGLOADER'',
   token_set_y DC 1554 ''CONFIG_LSP_FLASH_LAYOUT'',
   token_set_y DC 1557 ''CONFIG_HW_ETH_LAN2'',
   token_set_y DC 1558 ''CONFIG_HW_ETH_LAN'']"

definition dist_KINGSCANYON_WIRELESS :: "stmt" where
  "dist_KINGSCANYON_WIRELESS = block [
   set_hw ''KINGSCANYON'',
   token_set_y DC 1564 ''CONFIG_RG_SMB'',
   enable_module DC 1567 ''MODULE_RG_FOUNDATION'',
   enable_module DC 1568 ''MODULE_RG_ADVANCED_MANAGEMENT'',
   enable_module DC 1569 ''MODULE_RG_SNMP'',
   enable_module DC 1570 ''MODULE_RG_PPP'',
   enable_module DC 1574 ''MODULE_RG_IPV6'',
   enable_module DC 1575 ''MODULE_RG_VLAN'',
   enable_module DC 1576 ''MODULE_RG_UPNP'',
   enable_module DC 1577 ''MODULE_RG_ADVANCED_ROUTING'',
   enable_module DC 1578 ''MODULE_RG_FIREWALL_AND_SECURITY'',
   enable_module DC 1579 ''MODULE_RG_L2TP'',
   enable_module DC 1582 ''MODULE_RG_IPSEC'',
   enable_module DC 1583 ''MODULE_RG_PPTP'',
   enable_module DC 1584 ''MODULE_RG_URL_FILTERING'',
   enable_module DC 1585 ''MODULE_RG_FILESERVER'',
   token_set_y DC 1586 ''CONFIG_RG_PRINT_SERVER'',
   enable_module DC 1587 ''CONFIG_RG_LPD'',
   token_set_y DC 1588 ''CONFIG_RG_IPP'',
   when_c (is_dist ''KINGSCANYON_WIRELESS'') [enable_module DC 1590 ''MODULE_RG_WLAN_AND_ADVANCED_WLAN''],
   token_set_y DC 1593 ''CONFIG_HW_ETH_WAN'',
   token_set_y DC 1594 ''CONFIG_HW_ETH_LAN'',
   enable_module DC 1595 ''CONFIG_HW_USB_RNDIS'',
   enable_module DC 1596 ''CONFIG_HW_ENCRYPTION'',
   when_c (is_dist ''KINGSCANYON_WIRELESS'') [enable_module DC 1598 ''CONFIG_HW_80211G_ISL38XX''],
   ifc (is_dist ''KINGSCANYON_WIRELESS'') []
      []]"

definition dist_KINGSCANYON_LSP :: "stmt" where
  "dist_KINGSCANYON_LSP = block [
   set_hw ''KINGSCANYON'',
   token_set_y DC 1609 ''CONFIG_LSP_DIST'',
   token_set_y DC 1610 ''CONFIG_GLIBC'',
   token_set_y DC 1611 ''CONFIG_SIMPLE_RAMDISK'',
   token_set_y DC 1612 ''CONFIG_LSP_FLASH_LAYOUT'']"

definition dist_RGLOADER_ROCKAWAYBEACH :: "stmt" where
  "dist_RGLOADER_ROCKAWAYBEACH = block [
   set_hw ''ROCKAWAYBEACH'',
   token_set_y DC 1618 ''CONFIG_RG_RGLOADER'',
   token_set_y DC 1619 ''CONFIG_IXP425_COMMON_RGLOADER'',
   token_set_y DC 1622 ''CONFIG_HW_ETH_LAN2'',
   token_set_y DC 1623 ''CONFIG_HW_ETH_LAN'']"

definition dist_ROCKAWAYBEACH :: "stmt" where
  "dist_ROCKAWAYBEACH = block [
   set_hw ''ROCKAWAYBEACH'',
   token_set_y DC 1629 ''CONFIG_RG_SMB'',
   enable_module DC 1632 ''MODULE_RG_FOUNDATION'',
   enable_module DC 1633 ''MODULE_RG_ADVANCED_MANAGEMENT'',
   enable_module DC 1634 ''MODULE_RG_SNMP'',
   enable_module DC 1635 ''MODULE_RG_PPP'',
   enable_module DC 1639 ''MODULE_RG_IPV6'',
   enable_module DC 1640 ''MODULE_RG_VLAN'',
   enable_module DC 1641 ''MODULE_RG_UPNP'',
   enable_module DC 1642 ''MODULE_RG_ADVANCED_ROUTING'',
   enable_module DC 1643 ''MODULE_RG_FIREWALL_AND_SECURITY'',
   enable_module DC 1644 ''MODULE_RG_L2TP'',
   enable_module DC 1647 ''MODULE_RG_IPSEC'',
   enable_module DC 1648 ''MODULE_RG_PPTP'',
   enable_module DC 1649 ''MODULE_RG_URL_FILTERING'',
   enable_module DC 1650 ''MODULE_RG_FILESERVER'',
   token_set_y DC 1651 ''CONFIG_RG_PRINT_SERVER'',
   enable_module DC 1652 ''CONFIG_RG_LPD'',
   token_set_y DC 1653 ''CONFIG_RG_IPP'',
   when_c (is_dist ''ROCKAWAYBEACH_WIRELESS'') [enable_module DC 1655 ''MODULE_RG_WLAN_AND_ADVANCED_WLAN''],
   token_set_y DC 1658 ''CONFIG_HW_ETH_WAN'',
   token_set_y DC 1659 ''CONFIG_HW_ETH_LAN'',
   enable_module DC 1660 ''CONFIG_HW_USB_RNDIS'',
   enable_module DC 1661 ''CONFIG_HW_ENCRYPTION'',
   when_c (is_dist ''ROCKAWAYBEACH_WIRELESS'') [enable_module DC 1663 ''CONFIG_HW_80211G_ISL38XX''],
   ifc (is_dist ''ROCKAWAYBEACH_WIRELESS'') []
      []]"

definition dist_IXDP425_NETKLASS :: "stmt" where
  "dist_IXDP425_NETKLASS = block [
   set_hw ''IXDP425'',
   enable_module DC 1674 ''MODULE_RG_FOUNDATION'',
   enable_module DC 1677 ''MODULE_RG_IPSEC'',
   enable_module DC 1678 ''MODULE_RG_PPTP'',
   enable_module DC 1679 ''MODULE_RG_FIREWALL_AND_SECURITY'',
   enable_module DC 1680 ''MODULE_RG_ADVANCED_ROUTING'',
   enable_module DC 1681 ''MODULE_RG_SNMP'',
   enable_module DC 1682 ''MODULE_RG_PPP'',
   enable_module DC 1683 ''MODULE_RG_UPNP'',
   token_set_y DC 1684 ''CONFIG_RG_ENTFY'',
   token_set_y DC 1685 ''CONFIG_RG_EVENT_LOGGING'',
   token_set_y DC 1686 ''CONFIG_RG_8021X'',
   token_set_y DC 1687 ''CONFIG_RG_8021X_MD5'',
   token_set_y DC 1688 ''CONFIG_RG_PROXY_ARP'',
   token_set_y DC 1691 ''CONFIG_HW_ETH_WAN'',
   token_set_y DC 1692 ''CONFIG_HW_ETH_LAN'',
   enable_module DC 1693 ''CONFIG_HW_ENCRYPTION'',
   token_set_y DC 1695 ''CONFIG_IXP425_COMMON_RG'',
   token_set_y DC 1696 ''CONFIG_IXP425_CSR_USB'',
   token_set_y DC 1697 ''CONFIG_SIMPLE_RAMDISK'',
   token_set DC 1698 ''CONFIG_RAMDISK_SIZE'' ''8192'' [],
   token_set_y DC 1699 ''CONFIG_GLIBC'',
   token_set DC 1700 ''CONFIG_RG_FLASH_LAYOUT_SIZE'' ''16'' [],
   token_set DC 1703 ''CONFIG_IXP425_FLASH_E28F128J3'' ''m'' [],
   token_set DC 1704 ''CONFIG_RG_FLASH_LAYOUT_SIZE'' ''16'' [],
   token_set_y DC 1707 ''CONFIG_IPSEC_USE_IXP4XX_CRYPTO'']"

definition dist_WAV54G :: "stmt" where
  "dist_WAV54G = block [
   set_hw ''WAV54G'',
   token_set_y DC 1714 ''CONFIG_RG_SMB'',
   enable_module DC 1716 ''MODULE_RG_FOUNDATION'',
   enable_module DC 1719 ''MODULE_RG_IPSEC'',
   enable_module DC 1720 ''MODULE_RG_PPTP'',
   enable_module DC 1721 ''MODULE_RG_PPP'',
   enable_module DC 1722 ''MODULE_RG_FIREWALL_AND_SECURITY'',
   enable_module DC 1723 ''MODULE_RG_ADVANCED_ROUTING'',
   enable_module DC 1724 ''MODULE_RG_DSL'',
   enable_module DC 1725 ''MODULE_RG_WLAN_AND_ADVANCED_WLAN'',
   enable_module DC 1726 ''MODULE_RG_ADVANCED_MANAGEMENT'',
   enable_module DC 1730 ''MODULE_RG_IPV6'',
   enable_module DC 1731 ''MODULE_RG_SNMP'',
   enable_module DC 1732 ''MODULE_RG_UPNP'',
   enable_module DC 1733 ''MODULE_RG_VLAN'',
   enable_module DC 1734 ''MODULE_RG_L2TP'',
   token_set_y DC 1737 ''CONFIG_HW_DSL_WAN'',
   token_set_y DC 1738 ''CONFIG_HW_ETH_LAN'',
   enable_module DC 1739 ''CONFIG_HW_80211G_ISL38XX'',
   enable_module DC 1740 ''CONFIG_HW_ENCRYPTION'',
   token_set_m DC 1741 ''CONFIG_HW_BUTTONS'',
   token_set_y DC 1743 ''CONFIG_GLIBC'']"

definition dist_CX8620XR_LSP :: "stmt" where
  "dist_CX8620XR_LSP = block [
   ifc (is_dist ''CX8620XR_LSP'') [set_hw ''CX8620XR'']
      [set_hw ''CX8620XD''],
   token_set_y DC 1754 ''CONFIG_LSP_DIST'',
   token_set_y DC 1755 ''CONFIG_IPTABLES'',
   token_set_m DC 1756 ''CONFIG_BRIDGE'',
   token_set_y DC 1757 ''CONFIG_BRIDGE_UTILS'',
   token_set_y DC 1758 ''CONFIG_RG_NETTOOLS_ARP'',
   token_set_m DC 1759 ''CONFIG_ISL_SOFTMAC'',
   token_set_y DC 1760 ''CONFIG_RG_NETKIT'',
   token_set_y DC 1762 ''CONFIG_CX8620X_COMMON'',
   token_set_y DC 1764 ''CONFIG_HW_USB_HOST_EHCI'',
   token_set_y DC 1765 ''CONFIG_HW_USB_STORAGE'']"

definition dist_CX8620XR :: "stmt" where
  "dist_CX8620XR = block [
   set_hw ''CX8620XR'',
   token_set_y DC 1771 ''CONFIG_CX8620X_COMMON'',
   token_set_y DC 1772 ''CONFIG_RG_NETTOOLS_ARP'',
   enable_module DC 1774 ''MODULE_RG_FOUNDATION'',
   enable_module DC 1775 ''MODULE_RG_ADVANCED_MANAGEMENT'',
   enable_module DC 1776 ''MODULE_RG_PPP'',
   enable_module DC 1777 ''MODULE_RG_FIREWALL_AND_SECURITY'',
   enable_module DC 1778 ''MODULE_RG_WLAN_AND_ADVANCED_WLAN'',
   enable_module DC 1779 ''MODULE_RG_SSL_VPN'',
   token_set_y DC 1782 ''CONFIG_HW_ETH_WAN'',
   token_set_y DC 1783 ''CONFIG_HW_ETH_LAN'',
   token_set_y DC 1784 ''CONFIG_HW_80211G_RALINK_RT2560'',
   token_set DC 1785 ''CONFIG_RG_ADV_SERVICES_LEVEL'' ''1'' [],
   token_set DC 1792 ''CONFIG_RG_JPKG_DIST'' ''JPKG_ARMV5L'' []]"

definition dist_CX8620XD_FILESERVER :: "stmt" where
  "dist_CX8620XD_FILESERVER = block [
   set_hw ''CX8620XD'',
   token_set_y DC 1798 ''CONFIG_CX8620X_COMMON'',
   token_set_y DC 1799 ''CONFIG_RG_NETTOOLS_ARP'',
   enable_module DC 1801 ''MODULE_RG_FOUNDATION'',
   enable_module DC 1802 ''MODULE_RG_ADVANCED_MANAGEMENT'',
   enable_module DC 1803 ''MODULE_RG_FILESERVER'',
   enable_module DC 1804 ''MODULE_RG_PRINTSERVER'',
   enable_module DC 1805 ''MODULE_RG_FIREWALL_AND_SECURITY'',
   enable_module DC 1806 ''MODULE_RG_WLAN_AND_ADVANCED_WLAN'',
   enable_module DC 1807 ''MODULE_RG_QOS'',
   enable_module DC 1808 ''MODULE_RG_ROUTE_MULTIWAN'',
   token_set_y DC 1811 ''CONFIG_HW_USB_HOST_EHCI'',
   token_set_y DC 1812 ''CONFIG_HW_USB_STORAGE'',
   token_set_y DC 1813 ''CONFIG_HW_ETH_WAN'',
   token_set_y DC 1814 ''CONFIG_HW_ETH_LAN'',
   token_set_y DC 1815 ''CONFIG_HW_80211G_RALINK_RT2560'']"

lemma ok_dist_ALLWELL_RTL_RTL [safe_scripts]: "ok base_schema value_tokens J dist_ALLWELL_RTL_RTL"
  unfolding dist_ALLWELL_RTL_RTL_def
  by (intro safe_intros shipped.ok_sets shipped.ok_enable_module safe_scripts; simp)


lemma ok_dist_ALLWELL_RTL_RTL_SSI [safe_scripts]: "ok base_schema value_tokens J dist_ALLWELL_RTL_RTL_SSI"
  unfolding dist_ALLWELL_RTL_RTL_SSI_def
  by (intro safe_intros shipped.ok_sets shipped.ok_enable_module safe_scripts; simp)


lemma ok_dist_ALLWELL_RTL_EEP [safe_scripts]: "ok base_schema value_tokens J dist_ALLWELL_RTL_EEP"
  unfolding dist_ALLWELL_RTL_EEP_def
  by (intro safe_intros shipped.ok_sets shipped.ok_enable_module safe_scripts; simp)


lemma ok_dist_ALLWELL_RTL_RTL_ALADDIN [safe_scripts]: "ok base_schema value_tokens J dist_ALLWELL_RTL_RTL_ALADDIN"
  unfolding dist_ALLWELL_RTL_RTL_ALADDIN_def
  by (intro safe_intros shipped.ok_sets shipped.ok_enable_module safe_scripts; simp)


lemma ok_dist_ALLWELL_RTL_RTL_WELLTECH [safe_scripts]: "ok base_schema value_tokens J dist_ALLWELL_RTL_RTL_WELLTECH"
  unfolding dist_ALLWELL_RTL_RTL_WELLTECH_def
  by (intro safe_intros shipped.ok_sets shipped.ok_enable_module safe_scripts; simp)


lemma ok_dist_COYOTE_WIRELESS_80211B [safe_scripts]: "ok base_schema value_tokens J dist_COYOTE_WIRELESS_80211B"
  unfolding dist_COYOTE_WIRELESS_80211B_def
  by (intro safe_intros shipped.ok_sets shipped.ok_enable_module safe_scripts; simp)


lemma ok_dist_COYOTE_WIRELESS_ISL [safe_scripts]: "ok base_schema value_tokens J dist_COYOTE_WIRELESS_ISL"
  unfolding dist_COYOTE_WIRELESS_ISL_def
  by (intro safe_intros shipped.ok_sets shipped.ok_enable_module safe_scripts; simp)


lemma ok_dist_RGLOADER_USR8200 [safe_scripts]: "ok base_schema value_tokens J dist_RGLOADER_USR8200"
  unfolding dist_RGLOADER_USR8200_def
  by (intro safe_intros shipped.ok_sets shipped.ok_enable_module safe_scripts; simp)


lemma ok_dist_USR8200_EVAL [safe_scripts]: "ok base_schema value_tokens J dist_USR8200_EVAL"
  unfolding dist_USR8200_EVAL_def
  by (intro safe_intros shipped.ok_sets shipped.ok_enable_module safe_scripts; simp)


lemma ok_dist_USR8200 [safe_scripts]: "ok base_schema value_tokens J dist_USR8200"
  unfolding dist_USR8200_def
  by (intro safe_intros shipped.ok_sets shipped.ok_enable_module safe_scripts; simp)


lemma ok_dist_USR8200_TUTORIAL [safe_scripts]: "ok base_schema value_tokens J dist_USR8200_TUTORIAL"
  unfolding dist_USR8200_TUTORIAL_def
  by (intro safe_intros shipped.ok_sets shipped.ok_enable_module safe_scripts; simp)


lemma ok_dist_BAMBOO [safe_scripts]: "ok base_schema value_tokens J dist_BAMBOO"
  unfolding dist_BAMBOO_def
  by (intro safe_intros shipped.ok_sets shipped.ok_enable_module safe_scripts; simp)


lemma ok_dist_RGLOADER_CENTROID [safe_scripts]: "ok base_schema value_tokens J dist_RGLOADER_CENTROID"
  unfolding dist_RGLOADER_CENTROID_def
  by (intro safe_intros shipped.ok_sets shipped.ok_enable_module safe_scripts; simp)


lemma ok_dist_CENTROID [safe_scripts]: "ok base_schema value_tokens J dist_CENTROID"
  unfolding dist_CENTROID_def
  by (intro safe_intros shipped.ok_sets shipped.ok_enable_module safe_scripts; simp)


lemma ok_dist_MATECUMBE [safe_scripts]: "ok base_schema value_tokens J dist_MATECUMBE"
  unfolding dist_MATECUMBE_def
  by (intro safe_intros shipped.ok_sets shipped.ok_enable_module safe_scripts; simp)


lemma ok_dist_IXDP425 [safe_scripts]: "ok base_schema value_tokens J dist_IXDP425"
  unfolding dist_IXDP425_def
  by (intro safe_intros shipped.ok_sets shipped.ok_enable_module safe_scripts; simp)


lemma ok_dist_IXDP425_WIRELESS [safe_scripts]: "ok base_schema value_tokens J dist_IXDP425_WIRELESS"
  unfolding dist_IXDP425_WIRELESS_def
  by (intro safe_intros shipped.ok_sets shipped.ok_enable_module safe_scripts; simp)


lemma ok_dist_RGLOADER_KINGSCANYON [safe_scripts]: "ok base_schema value_tokens J dist_RGLOADER_KINGSCANYON"
  unfolding dist_RGLOADER_KINGSCANYON_def
  by (intro safe_intros shipped.ok_sets shipped.ok_enable_module safe_scripts; simp)


lemma ok_dist_RGLOADER_KINGSCANYON_LSP [safe_scripts]: "ok base_schema value_tokens J dist_RGLOADER_KINGSCANYON_LSP"
  unfolding dist_RGLOADER_KINGSCANYON_LSP_def
  by (intro safe_intros shipped.ok_sets shipped.ok_enable_module safe_scripts; simp)


lemma ok_dist_KINGSCANYON_WIRELESS [safe_scripts]: "ok base_schema value_tokens J dist_KINGSCANYON_WIRELESS"
  unfolding dist_KINGSCANYON_WIRELESS_def
  by (intro safe_intros shipped.ok_sets shipped.ok_enable_module safe_scripts; simp)


lemma ok_dist_KINGSCANYON_LSP [safe_scripts]: "ok base_schema value_tokens J dist_KINGSCANYON_LSP"
  unfolding dist_KINGSCANYON_LSP_def
  by (intro safe_intros shipped.ok_sets shipped.ok_enable_module safe_scripts; simp)


lemma ok_dist_RGLOADER_ROCKAWAYBEACH [safe_scripts]: "ok base_schema value_tokens J dist_RGLOADER_ROCKAWAYBEACH"
  unfolding dist_RGLOADER_ROCKAWAYBEACH_def
  by (intro safe_intros shipped.ok_sets shipped.ok_enable_module safe_scripts; simp)


lemma ok_dist_ROCKAWAYBEACH [safe_scripts]: "ok base_schema value_tokens J dist_ROCKAWAYBEACH"
  unfolding dist_ROCKAWAYBEACH_def
  by (intro safe_intros shipped.ok_sets shipped.ok_enable_module safe_scripts; simp)


lemma ok_dist_IXDP425_NETKLASS [safe_scripts]: "ok base_schema value_tokens J dist_IXDP425_NETKLASS"
  unfolding dist_IXDP425_NETKLASS_def
  by (intro safe_intros shipped.ok_sets shipped.ok_enable_module safe_scripts; simp)


lemma ok_dist_WAV54G [safe_scripts]: "ok base_schema value_tokens J dist_WAV54G"
  unfolding dist_WAV54G_def
  by (intro safe_intros shipped.ok_sets shipped.ok_enable_module safe_scripts; simp)


lemma ok_dist_CX8620XR_LSP [safe_scripts]: "ok base_schema value_tokens J dist_CX8620XR_LSP"
  unfolding dist_CX8620XR_LSP_def
  by (intro safe_intros shipped.ok_sets shipped.ok_enable_module safe_scripts; simp)


lemma ok_dist_CX8620XR [safe_scripts]: "ok base_schema value_tokens J dist_CX8620XR"
  unfolding dist_CX8620XR_def
  by (intro safe_intros shipped.ok_sets shipped.ok_enable_module safe_scripts; simp)


lemma ok_dist_CX8620XD_FILESERVER [safe_scripts]: "ok base_schema value_tokens J dist_CX8620XD_FILESERVER"
  unfolding dist_CX8620XD_FILESERVER_def
  by (intro safe_intros shipped.ok_sets shipped.ok_enable_module safe_scripts; simp)


end
