(* ===== verification/Dist_Config_3.thy ===== *)
theory Dist_Config_3
  imports Dist_Config_2
begin

text \<open>
  \<open>distribution_features\<close> of \<open>dist_config.c\<close>, lines 1823 to 2791: one definition per
  branch of the chain over the distribution's name.
\<close>

definition dist_CX8620XD_SOHO :: "stmt" where
  "dist_CX8620XD_SOHO = block [
   set_hw ''CX8620XD'',
   token_set_y DC 1827 ''CONFIG_CX8620X_COMMON'',
   token_set_y DC 1828 ''CONFIG_RG_NETTOOLS_ARP'',
   token_set_y DC 1830 ''PACKAGE_OPENRG_SOHO_GATEWAY'',
   enable_module DC 1831 ''MODULE_RG_PPP'',
   enable_module DC 1832 ''MODULE_RG_VLAN'',
   enable_module DC 1833 ''MODULE_RG_URL_FILTERING'',
   enable_module DC 1834 ''MODULE_RG_QOS'',
   enable_module DC 1835 ''MODULE_RG_ROUTE_MULTIWAN'',
   enable_module DC 1836 ''MODULE_RG_IPV6'',
   enable_module DC 1837 ''MODULE_RG_DSLHOME'',
   enable_module DC 1838 ''MODULE_RG_TR_098'',
   enable_module DC 1839 ''MODULE_RG_TR_064'',
   enable_module DC 1840 ''MODULE_RG_MAIL_FILTER'',
   enable_module DC 1841 ''MODULE_RG_JVM'',
   enable_module DC 1842 ''MODULE_RG_SSL_VPN'',
   token_set DC 1844 ''CONFIG_RG_SURFCONTROL_PARTNER_ID'' ''6002'' [],
   token_set_y DC 1847 ''CONFIG_HW_USB_HOST_EHCI'',
   token_set_y DC 1848 ''CONFIG_HW_USB_STORAGE'',
   token_set_y DC 1849 ''CONFIG_HW_ETH_WAN'',
   token_set_y DC 1850 ''CONFIG_HW_ETH_LAN'',
   token_set_y DC 1851 ''CONFIG_HW_80211G_RALINK_RT2560'',
   token_set DC 1852 ''CONFIG_RG_JPKG_DIST'' ''JPKG_ARMV5L'' [],
   token_set DC 1853 ''CONFIG_RG_ADV_SERVICES_LEVEL'' ''1'' []]"

definition dist_MALINDI :: "stmt" where
  "dist_MALINDI = block [
   set_hw ''COMCERTO'',
   set_os ''LINUX_26'',
   token_set DC 1866 ''CONFIG_RG_JPKG_DIST'' ''JPKG_ARMV4L'' [],
   token_set_y DC 1869 ''CONFIG_COMCERTO_COMMON'',
   ifc (is_dist ''MALINDI'') [token_set_y DC 1873 ''CONFIG_COMCERTO_MALINDI'']
      [
       when_c (is_dist ''MALINDI2'') [token_set_y DC 1875 ''CONFIG_COMCERTO_NAIROBI'']],
   token_set_y DC 1877 ''CONFIG_RG_SMB'',
   token_set_y DC 1878 ''CONFIG_RG_NETTOOLS_ARP'',
   enable_module DC 1880 ''MODULE_RG_FOUNDATION'',
   enable_module DC 1881 ''MODULE_RG_UPNP'',
   enable_module DC 1882 ''MODULE_RG_PPP'',
   enable_module DC 1883 ''MODULE_RG_FIREWALL_AND_SECURITY'',
   enable_module DC 1884 ''MODULE_RG_ADVANCED_MANAGEMENT'',
   enable_module DC 1885 ''MODULE_RG_ZERO_CONFIGURATION_NETWORKING'',
   enable_module DC 1888 ''MODULE_RG_IPSEC'',
   token_set_y DC 1890 ''CONFIG_CADENCE_IPSEC2'',
   enable_module DC 1891 ''MODULE_RG_SNMP'',
   enable_module DC 1892 ''MODULE_RG_ADVANCED_ROUTING'',
   enable_module DC 1893 ''MODULE_RG_FILESERVER'',
   enable_module DC 1894 ''MODULE_RG_QOS'',
   enable_module DC 1895 ''MODULE_RG_WLAN_AND_ADVANCED_WLAN'',
   token_set_y DC 1898 ''CONFIG_HW_USB_HOST_OHCI'',
   token_set_y DC 1899 ''CONFIG_HW_USB_STORAGE'',
   token_set_y DC 1900 ''CONFIG_HW_ETH_LAN'',
   token_set_y DC 1901 ''CONFIG_HW_ETH_WAN'',
   enable_module DC 1902 ''CONFIG_HW_ENCRYPTION'',
   enable_module DC 1905 ''MODULE_RG_VOIP_ASTERISK_SIP'',
   enable_module DC 1906 ''MODULE_RG_PBX'',
   token_set_y DC 1907 ''CONFIG_COMCERTO_MATISSE'',
   token_set_y DC 1908 ''CONFIG_COMCERTO_CAL'',
   token_set_y DC 1911 ''CONFIG_HW_80211G_RALINK_RT2561'']"

definition dist_RGLOADER_CX8620XD :: "stmt" where
  "dist_RGLOADER_CX8620XD = block [
   set_hw ''CX8620XD'',
   token_set_y DC 1926 ''CONFIG_RG_RGLOADER'',
   token_set_y DC 1927 ''CONFIG_CX8620X_COMMON_RGLOADER'',
   token_set_y DC 1930 ''CONFIG_HW_ETH_LAN'',
   token_set DC 1931 ''CONFIG_RG_JPKG_DIST'' ''JPKG_ARMV5L'' []]"

definition dist_IXDP425_CYBERTAN :: "stmt" where
  "dist_IXDP425_CYBERTAN = block [
   set_hw ''IXDP425'',
   token_set DC 1937 ''CONFIG_RG_JPKG_DIST'' ''JPKG_ARMV5B'' [],
   token_set_y DC 1938 ''CONFIG_RG_SMB'',
   enable_module DC 1940 ''MODULE_RG_FOUNDATION'',
   enable_module DC 1941 ''MODULE_RG_PPP'',
   enable_module DC 1942 ''MODULE_RG_UPNP'',
   enable_module DC 1943 ''MODULE_RG_FIREWALL_AND_SECURITY'',
   enable_module DC 1944 ''MODULE_RG_ADVANCED_ROUTING'',
   enable_module DC 1945 ''MODULE_RG_ADVANCED_MANAGEMENT'',
   enable_module DC 1949 ''MODULE_RG_IPV6'',
   enable_module DC 1950 ''MODULE_RG_SNMP'',
   token_set_y DC 1953 ''CONFIG_HW_ETH_WAN'',
   token_set_y DC 1954 ''CONFIG_HW_ETH_LAN'',
   enable_module DC 1955 ''CONFIG_HW_USB_RNDIS'',
   enable_module DC 1956 ''CONFIG_HW_ENCRYPTION'',
   token_set_y DC 1958 ''CONFIG_IXP425_COMMON_RG'',
   token_set DC 1959 ''CONFIG_IXDP425_KGDB_UART'' ''1'' [],
   token_set DC 1960 ''CONFIG_RG_FLASH_LAYOUT_SIZE'' ''16'' [],
   token_set DC 1963 ''CONFIG_IXP425_FLASH_E28F128J3'' ''m'' []]"

definition dist_IXDP425_ATM :: "stmt" where
  "dist_IXDP425_ATM = block [
   set_hw ''IXDP425'',
   token_set_y DC 1971 ''CONFIG_RG_SMB'',
   enable_module DC 1974 ''MODULE_RG_FOUNDATION'',
   enable_module DC 1975 ''MODULE_RG_UPNP'',
   enable_module DC 1976 ''MODULE_RG_PPP'',
   enable_module DC 1977 ''MODULE_RG_FIREWALL_AND_SECURITY'',
   enable_module DC 1978 ''MODULE_RG_ADVANCED_MANAGEMENT'',
   enable_module DC 1981 ''MODULE_RG_IPSEC'',
   enable_module DC 1982 ''MODULE_RG_PPTP'',
   enable_module DC 1983 ''MODULE_RG_SNMP'',
   enable_module DC 1987 ''MODULE_RG_IPV6'',
   enable_module DC 1988 ''MODULE_RG_VLAN'',
   enable_module DC 1989 ''MODULE_RG_ADVANCED_ROUTING'',
   enable_module DC 1990 ''MODULE_RG_L2TP'',
   enable_module DC 1991 ''MODULE_RG_URL_FILTERING'',
   enable_module DC 1992 ''MODULE_RG_FILESERVER'',
   enable_module DC 1993 ''MODULE_RG_PRINTSERVER'',
   enable_module DC 1994 ''MODULE_RG_DSL'',
   when_c (is_dist ''IXDP425_ATM_WIRELESS'') [enable_module DC 1996 ''MODULE_RG_WLAN_AND_ADVANCED_WLAN''],
   token_set_y DC 1999 ''CONFIG_HW_DSL_WAN'',
   token_set_y DC 2000 ''CONFIG_HW_ETH_LAN'',
   enable_module DC 2001 ''CONFIG_HW_ENCRYPTION'',
   when_c (is_dist ''IXDP425_ATM_WIRELESS'') [enable_module DC 2004 ''CONFIG_HW_80211G_ISL38XX''],
   token_set_y DC 2008 ''CONFIG_IXP425_COMMON_RG'',
   token_set DC 2009 ''CONFIG_IXDP425_KGDB_UART'' ''1'' [],
   token_set_y DC 2010 ''CONFIG_ADSL_CHIP_ALCATEL_20150'',
   token_set_y DC 2011 ''CONFIG_IXP425_ADSL_USE_MPHY'',
   token_set DC 2012 ''CONFIG_RG_FLASH_LAYOUT_SIZE'' ''16'' [],
   token_set DC 2013 ''CONFIG_RG_PRINT_SERVER_SPOOL'' ''16777216'' [],
   token_set DC 2016 ''CONFIG_IXP425_FLASH_E28F128J3'' ''m'' []]"

definition dist_NAPA :: "stmt" where
  "dist_NAPA = block [
   local_c dist_name (\<lambda>d. [set_hw d]),
   token_set_y DC 2022 ''CONFIG_RG_SMB'',
   enable_module DC 2025 ''MODULE_RG_FOUNDATION'',
   enable_module DC 2026 ''MODULE_RG_UPNP'',
   enable_module DC 2027 ''MODULE_RG_PPP'',
   enable_module DC 2028 ''MODULE_RG_FIREWALL_AND_SECURITY'',
   enable_module DC 2029 ''MODULE_RG_ADVANCED_MANAGEMENT'',
   enable_module DC 2032 ''MODULE_RG_IPSEC'',
   enable_module DC 2033 ''MODULE_RG_PPTP'',
   enable_module DC 2034 ''MODULE_RG_SNMP'',
   enable_module DC 2038 ''MODULE_RG_IPV6'',
   enable_module DC 2039 ''MODULE_RG_VLAN'',
   enable_module DC 2040 ''MODULE_RG_ADVANCED_ROUTING'',
   enable_module DC 2041 ''MODULE_RG_L2TP'',
   enable_module DC 2042 ''MODULE_RG_URL_FILTERING'',
   enable_module DC 2043 ''MODULE_RG_FILESERVER'',
   enable_module DC 2044 ''MODULE_RG_PRINTSERVER'',
   token_set_y DC 2047 ''CONFIG_HW_ETH_WAN'',
   token_set_y DC 2048 ''CONFIG_HW_ETH_LAN'',
   enable_module DC 2049 ''CONFIG_HW_USB_RNDIS'',
   token_set_y DC 2050 ''CONFIG_HW_USB_HOST_OHCI'',
   token_set_y DC 2051 ''CONFIG_HW_FIREWIRE'',
   token_set_y DC 2052 ''CONFIG_HW_FIREWIRE_STORAGE'',
   token_set_y DC 2053 ''CONFIG_HW_USB_STORAGE'',
   enable_module DC 2054 ''CONFIG_HW_ENCRYPTION'']"

definition dist_GTWX5715 :: "stmt" where
  "dist_GTWX5715 = block [
   set_hw ''GTWX5715'',
   token_set_y DC 2063 ''CONFIG_RG_SMB'',
   enable_module DC 2065 ''MODULE_RG_FOUNDATION'',
   enable_module DC 2066 ''MODULE_RG_UPNP'',
   enable_module DC 2067 ''MODULE_RG_PPP'',
   enable_module DC 2068 ''MODULE_RG_FIREWALL_AND_SECURITY'',
   enable_module DC 2069 ''MODULE_RG_ADVANCED_MANAGEMENT'',
   enable_module DC 2070 ''MODULE_RG_ADVANCED_ROUTING'',
   enable_module DC 2071 ''MODULE_RG_WLAN_AND_ADVANCED_WLAN'',
   enable_module DC 2072 ''MODULE_RG_QOS'',
   enable_module DC 2073 ''MODULE_RG_SNMP'',
   enable_module DC 2077 ''MODULE_RG_IPV6'',
   enable_module DC 2080 ''MODULE_RG_IPSEC'',
   enable_module DC 2081 ''MODULE_RG_PPTP'',
   enable_module DC 2082 ''MODULE_RG_VLAN'',
   enable_module DC 2083 ''MODULE_RG_L2TP'',
   enable_module DC 2084 ''MODULE_RG_URL_FILTERING'',
   enable_module DC 2085 ''MODULE_RG_SSL_VPN'',
   token_set_y DC 2088 ''CONFIG_HW_ETH_WAN'',
   token_set_y DC 2089 ''CONFIG_HW_ETH_LAN'',
   enable_module DC 2090 ''CONFIG_HW_ENCRYPTION'',
   token_set_m DC 2091 ''CONFIG_HW_BUTTONS'',
   enable_module DC 2095 ''CONFIG_HW_80211G_ISL38XX'',
   when_c (on ''CONFIG_HW_80211G_ISL38XX'') [token_set_y DC 2099 ''CONFIG_RG_WPA''],
   token_set_y DC 2106 ''CONFIG_GLIBC'',
   token_set_y DC 2110 ''CONFIG_RG_RMT_UPGRADE_IMG_IN_MEM'']"

definition dist_HG21 :: "stmt" where
  "dist_HG21 = block [
   set_hw ''HG21'',
   enable_module DC 2116 ''MODULE_RG_FOUNDATION'',
   enable_module DC 2117 ''MODULE_RG_UPNP'',
   enable_module DC 2118 ''MODULE_RG_PPP'',
   enable_module DC 2121 ''MODULE_RG_IPSEC'',
   enable_module DC 2122 ''MODULE_RG_PPTP'',
   enable_module DC 2123 ''MODULE_RG_ADVANCED_ROUTING'',
   enable_module DC 2124 ''MODULE_RG_SNMP'',
   enable_module DC 2125 ''MODULE_RG_FIREWALL_AND_SECURITY'',
   enable_module DC 2126 ''MODULE_RG_WLAN_AND_ADVANCED_WLAN'',
   token_set_y DC 2129 ''CONFIG_HW_ETH_WAN'',
   token_set_y DC 2130 ''CONFIG_HW_ETH_LAN'',
   enable_module DC 2131 ''CONFIG_HW_80211G_ISL38XX'',
   enable_module DC 2132 ''CONFIG_HW_ENCRYPTION'',
   token_set_y DC 2134 ''CONFIG_GLIBC'',
   token_set_y DC 2135 ''CONFIG_RG_INSMOD_SILENT'',
   token_set DC 2136 ''CONFIG_JFFS2_FS'' ''m'' [],
   token_set_y DC 2137 ''CONFIG_IXP425_JFFS2_WORKAROUND'',
   token_set_y DC 2138 ''CONFIG_IXP425_CSR_HSS'',
   token_set DC 2139 ''CONFIG_IXP425_CODELETS'' ''m'' [],
   token_set DC 2140 ''CONFIG_IXP425_CODELET_HSS'' ''m'' [],
   token_set_y DC 2141 ''CONFIG_GUI_WELLTECH'',
   token_set_y DC 2142 ''CONFIG_GUI_RG'',
   token_set_y DC 2143 ''CONFIG_RG_SYSLOG_REMOTE'']"

definition dist_IXDP425_FRG :: "stmt" where
  "dist_IXDP425_FRG = block [
   set_hw ''IXDP425'',
   token_set_y DC 2151 ''CONFIG_RG_SMB'',
   enable_module DC 2154 ''MODULE_RG_FOUNDATION'',
   enable_module DC 2155 ''MODULE_RG_UPNP'',
   enable_module DC 2156 ''MODULE_RG_PPP'',
   enable_module DC 2157 ''MODULE_RG_ADVANCED_ROUTING'',
   enable_module DC 2158 ''MODULE_RG_ADVANCED_MANAGEMENT'',
   enable_module DC 2159 ''MODULE_RG_SNMP'',
   enable_module DC 2163 ''MODULE_RG_IPV6'',
   enable_module DC 2164 ''MODULE_RG_VLAN'',
   enable_module DC 2165 ''MODULE_RG_L2TP'',
   enable_module DC 2166 ''MODULE_RG_URL_FILTERING'',
   token_set_y DC 2169 ''CONFIG_HW_ETH_WAN'',
   token_set_y DC 2170 ''CONFIG_HW_ETH_LAN'',
   enable_module DC 2171 ''CONFIG_HW_USB_RNDIS'',
   enable_module DC 2172 ''CONFIG_HW_ENCRYPTION'',
   token_set_y DC 2174 ''CONFIG_IXP425_COMMON_RG'',
   token_set DC 2175 ''CONFIG_IXDP425_KGDB_UART'' ''1'' [],
   token_set DC 2176 ''CONFIG_RG_FLASH_LAYOUT_SIZE'' ''16'' [],
   token_set_y DC 2177 ''CONFIG_ADSL_CHIP_ALCATEL_20150'',
   token_set_y DC 2178 ''CONFIG_IXP425_ADSL_USE_MPHY'',
   token_set DC 2181 ''CONFIG_IXP425_FLASH_E28F128J3'' ''m'' []]"

definition dist_IXDP425_TMT :: "stmt" where
  "dist_IXDP425_TMT = block [
   set_hw ''IXDP425_TMT'',
   enable_module DC 2189 ''MODULE_RG_FOUNDATION'',
   enable_module DC 2190 ''MODULE_RG_UPNP'',
   enable_module DC 2191 ''MODULE_RG_PPP'',
   enable_module DC 2192 ''MODULE_RG_SNMP'',
   enable_module DC 2193 ''MODULE_RG_FIREWALL_AND_SECURITY'',
   enable_module DC 2194 ''MODULE_RG_VLAN'',
   enable_module DC 2195 ''MODULE_RG_ADVANCED_MANAGEMENT'',
   enable_module DC 2196 ''MODULE_RG_ADVANCED_ROUTING'',
   token_set_y DC 2199 ''CONFIG_HW_ETH_WAN'',
   token_set_y DC 2200 ''CONFIG_HW_ETH_LAN'',
   enable_module DC 2201 ''CONFIG_HW_ENCRYPTION'',
   token_set_m DC 2202 ''CONFIG_HW_BUTTONS'',
   token_set_y DC 2204 ''CONFIG_IXP425_COMMON_RG'',
   token_set DC 2205 ''CONFIG_RG_FLASH_LAYOUT_SIZE'' ''16'' [],
   token_set_y DC 2206 ''CONFIG_GLIBC'',
   token_set DC 2209 ''CONFIG_IXP425_FLASH_E28F128J3'' ''m'' []]"

definition dist_RGLOADER_WADB100G :: "stmt" where
  "dist_RGLOADER_WADB100G = block [
   set_hw ''WADB100G'',
   token_set DC 2215 ''CONFIG_RG_JPKG_DIST'' ''JPKG_BCM9634X'' [],
   token_set_y DC 2216 ''CONFIG_RG_RGLOADER'',
   token_set_y DC 2217 ''CONFIG_BCM963XX_BOOTSTRAP'',
   token_set_m DC 2218 ''CONFIG_RG_KRGLDR'',
   token_set_y DC 2221 ''CONFIG_HW_ETH_LAN2'',
   token_set_y DC 2222 ''CONFIG_HW_ETH_LAN'']"

definition dist_WADB100G :: "stmt" where
  "dist_WADB100G = block [
   set_hw ''WADB100G'',
   set_os ''LINUX_24'',
   token_set DC 2229 ''CONFIG_RG_JPKG_DIST'' ''JPKG_BCM9634X'' [],
   small_flash_default_dist,
   token_set_y DC 2235 ''CONFIG_HW_DSL_WAN'',
   token_set_y DC 2236 ''CONFIG_HW_ETH_LAN'',
   token_set_y DC 2237 ''CONFIG_HW_SWITCH_LAN'',
   enable_module DC 2238 ''CONFIG_HW_80211G_BCM43XX'',
   token_set_y DC 2239 ''CONFIG_HW_USB_RNDIS'',
   token_set_m DC 2240 ''CONFIG_HW_BUTTONS'',
   token_set_y DC 2241 ''CONFIG_HW_LEDS'']"

definition dist_ASUS6020VI :: "stmt" where
  "dist_ASUS6020VI = block [
   set_hw ''ASUS6020VI'',
   set_os ''LINUX_24'',
   token_set DC 2252 ''CONFIG_RG_JPKG_DIST'' ''JPKG_BCM9634X'' [],
   small_flash_default_dist,
   token_set_y DC 2258 ''CONFIG_HW_DSL_WAN'',
   token_set_y DC 2259 ''CONFIG_HW_SWITCH_LAN'',
   enable_module DC 2260 ''CONFIG_HW_80211G_BCM43XX'',
   token_set_m DC 2261 ''CONFIG_HW_BUTTONS'',
   token_set_y DC 2262 ''CONFIG_HW_LEDS'']"

definition dist_RGLOADER_WADB102GB :: "stmt" where
  "dist_RGLOADER_WADB102GB = block [
   set_hw ''WADB102GB'',
   token_set DC 2271 ''CONFIG_RG_JPKG_DIST'' ''JPKG_BCM9634X'' [],
   token_set_y DC 2272 ''CONFIG_RG_RGLOADER'',
   token_set_m DC 2273 ''CONFIG_RG_KRGLDR'',
   token_set_y DC 2274 ''CONFIG_RG_TELNETS'',
   token_set_y DC 2276 ''CONFIG_RG_MTD'',
   token_set DC 2278 ''CONFIG_SDRAM_SIZE'' ''16'' [],
   token_set_y DC 2279 ''CONFIG_BCM963XX_BOOTSTRAP'',
   token_set_y DC 2283 ''CONFIG_HW_ETH_LAN'']"

definition dist_WADB102GB :: "stmt" where
  "dist_WADB102GB = block [
   set_hw ''WADB102GB'',
   set_os ''LINUX_24'',
   token_set DC 2290 ''CONFIG_RG_JPKG_DIST'' ''JPKG_BCM9634X'' [],
   small_flash_default_dist,
   token_set_y DC 2296 ''CONFIG_HW_DSL_WAN'',
   token_set_y DC 2297 ''CONFIG_HW_SWITCH_LAN'',
   enable_module DC 2298 ''CONFIG_HW_80211G_BCM43XX'',
   token_set_m DC 2299 ''CONFIG_HW_BUTTONS'',
   token_set_y DC 2300 ''CONFIG_HW_LEDS'']"

definition dist_MPC8272ADS_LSP :: "stmt" where
  "dist_MPC8272ADS_LSP = block [
   token_set DC 2307 ''CONFIG_RG_JPKG_DIST'' ''JPKG_PPC'' [],
   set_hw ''MPC8272ADS'',
   token_set_y DC 2312 ''CONFIG_HW_ETH_FEC'',
   ifc (is_dist ''MPC8272ADS_LSP_26'') [set_os ''LINUX_26'']
      [set_os ''LINUX_24''],
   token_set_y DC 2321 ''CONFIG_LSP_DIST'']"

definition dist_MPC8272ADS :: "stmt" where
  "dist_MPC8272ADS = block [
   token_set DC 2325 ''CONFIG_RG_JPKG_DIST'' ''JPKG_PPC'' [],
   set_hw ''MPC8272ADS'',
   set_os ''LINUX_26'',
   enable_module DC 2330 ''MODULE_RG_FOUNDATION'',
   enable_module DC 2331 ''MODULE_RG_ADVANCED_MANAGEMENT'',
   enable_module DC 2332 ''MODULE_RG_ADVANCED_ROUTING'',
   enable_module DC 2333 ''MODULE_RG_FIREWALL_AND_SECURITY'',
   enable_module DC 2334 ''MODULE_RG_UPNP'',
   enable_module DC 2335 ''MODULE_RG_VLAN'',
   enable_module DC 2336 ''MODULE_RG_IPV6'',
   enable_module DC 2337 ''MODULE_RG_SNMP'',
   enable_module DC 2338 ''MODULE_RG_PPP'',
   enable_module DC 2339 ''MODULE_RG_PPTP'',
   enable_module DC 2340 ''MODULE_RG_L2TP'',
   enable_module DC 2341 ''MODULE_RG_IPSEC'',
   enable_module DC 2342 ''MODULE_RG_QOS'',
   enable_module DC 2343 ''MODULE_RG_ROUTE_MULTIWAN'',
   enable_module DC 2344 ''MODULE_RG_DSLHOME'',
   enable_module DC 2345 ''MODULE_RG_TR_098'',
   enable_module DC 2346 ''MODULE_RG_TR_064'',
   enable_module DC 2347 ''MODULE_RG_MAIL_FILTER'',
   enable_module DC 2348 ''MODULE_RG_SSL_VPN'',
   token_set_y DC 2349 ''CONFIG_RG_SMB'',
   enable_module DC 2350 ''MODULE_RG_URL_FILTERING'',
   enable_module DC 2352 ''MODULE_RG_VOIP_ASTERISK_SIP'',
   enable_module DC 2353 ''MODULE_RG_PBX'',
   enable_module DC 2355 ''MODULE_RG_PRINTSERVER'',
   token_set DC 2356 ''CONFIG_RG_PRINT_SERVER_SPOOL'' ''16777216'' [],
   enable_module DC 2358 ''MODULE_RG_FILESERVER'',
   enable_module DC 2360 ''MODULE_RG_BLUETOOTH'',
   token_set_y DC 2362 ''CONFIG_RG_NETTOOLS_ARP'',
   token_set_y DC 2366 ''CONFIG_RG_DATE'',
   token_set_y DC 2367 ''CONFIG_RG_TZ_FULL'',
   token_set DC 2368 ''CONFIG_RG_TZ_YEARS'' ''5'' [],
   token_set_y DC 2372 ''CONFIG_HW_ETH_WAN'',
   token_set_y DC 2373 ''CONFIG_HW_ETH_LAN'',
   token_set_y DC 2375 ''CONFIG_HW_ETH_FEC'',
   token_set_y DC 2377 ''CONFIG_HW_USB_STORAGE'',
   token_set_y DC 2381 ''CONFIG_HW_80211G_RALINK_RT2560'',
   enable_module DC 2382 ''MODULE_RG_WLAN_AND_ADVANCED_WLAN'',
   token_set_y DC 2384 ''CONFIG_HW_ENCRYPTION'',
   token_set_y DC 2392 ''CONFIG_RG_FOOTPRINT_REDUCTION'']"

definition dist_EP8248_LSP_26 :: "stmt" where
  "dist_EP8248_LSP_26 = block [
   token_set DC 2396 ''CONFIG_RG_JPKG_DIST'' ''JPKG_PPC'' [],
   set_hw ''EP8248'',
   set_os ''LINUX_26'',
   token_set_y DC 2403 ''CONFIG_HW_ETH_FEC'',
   token_set_y DC 2407 ''CONFIG_LSP_DIST'']"

definition dist_EP8248_26 :: "stmt" where
  "dist_EP8248_26 = block [
   token_set DC 2411 ''CONFIG_RG_JPKG_DIST'' ''JPKG_PPC'' [],
   set_hw ''EP8248'',
   set_os ''LINUX_26'',
   enable_module DC 2416 ''MODULE_RG_FOUNDATION'',
   enable_module DC 2417 ''MODULE_RG_ADVANCED_MANAGEMENT'',
   enable_module DC 2418 ''MODULE_RG_ADVANCED_ROUTING'',
   enable_module DC 2419 ''MODULE_RG_FIREWALL_AND_SECURITY'',
   enable_module DC 2420 ''MODULE_RG_UPNP'',
   enable_module DC 2421 ''MODULE_RG_VLAN'',
   enable_module DC 2422 ''MODULE_RG_IPV6'',
   enable_module DC 2423 ''MODULE_RG_SNMP'',
   enable_module DC 2424 ''MODULE_RG_PPP'',
   enable_module DC 2425 ''MODULE_RG_PPTP'',
   enable_module DC 2426 ''MODULE_RG_L2TP'',
   enable_module DC 2427 ''MODULE_RG_IPSEC'',
   enable_module DC 2428 ''MODULE_RG_QOS'',
   enable_module DC 2429 ''MODULE_RG_ROUTE_MULTIWAN'',
   enable_module DC 2430 ''MODULE_RG_DSLHOME'',
   enable_module DC 2431 ''MODULE_RG_TR_098'',
   enable_module DC 2432 ''MODULE_RG_TR_064'',
   enable_module DC 2433 ''MODULE_RG_MAIL_FILTER'',
   enable_module DC 2434 ''MODULE_RG_SSL_VPN'',
   enable_module DC 2435 ''MODULE_RG_URL_FILTERING'',
   token_set_y DC 2447 ''CONFIG_RG_NETTOOLS_ARP'',
   token_set_y DC 2451 ''CONFIG_RG_DATE'',
   token_set_y DC 2452 ''CONFIG_RG_TZ_FULL'',
   token_set DC 2453 ''CONFIG_RG_TZ_YEARS'' ''5'' [],
   token_set_y DC 2457 ''CONFIG_HW_ETH_WAN'',
   token_set_y DC 2458 ''CONFIG_HW_ETH_LAN'',
   token_set_y DC 2460 ''CONFIG_HW_ETH_FEC'']"

definition dist_MPC8349ITX_LSP :: "stmt" where
  "dist_MPC8349ITX_LSP = block [
   token_set DC 2468 ''CONFIG_RG_JPKG_DIST'' ''JPKG_PPC'' [],
   set_os ''LINUX_26'',
   set_hw ''MPC8349ITX'',
   token_set_y DC 2476 ''CONFIG_GIANFAR'',
   token_set_y DC 2477 ''CONFIG_CICADA_PHY'',
   token_set_y DC 2478 ''CONFIG_PHYLIB'',
   token_set_y DC 2479 ''CONFIG_LSP_DIST'',
   token_set_y DC 2481 ''CONFIG_USB_GADGET'',
   token_set_y DC 2482 ''CONFIG_USB_ETH'',
   token_set_y DC 2483 ''CONFIG_USB_MPC'',
   token_set_y DC 2484 ''CONFIG_USB_GADGET_MPC'',
   token_set_y DC 2485 ''CONFIG_USB_GADGET_DUALSPEED'',
   token_set_y DC 2486 ''CONFIG_USB_ETH_RNDIS'',
   token_set_y DC 2488 ''CONFIG_SCSI'',
   token_set_y DC 2489 ''CONFIG_SCSI_SATA'',
   token_set_y DC 2490 ''CONFIG_SCSI_SATA_SIL'',
   token_set_y DC 2492 ''CONFIG_USB'',
   token_set_y DC 2493 ''CONFIG_USB_EHCI_HCD'',
   token_set_y DC 2494 ''CONFIG_USB_EHCI_ROOT_HUB_TT'',
   token_set_y DC 2495 ''CONFIG_USB_DEVICEFS'',
   token_set_y DC 2496 ''CONFIG_FSL_USB20'',
   token_set_y DC 2497 ''CONFIG_MPH_USB_SUPPORT'',
   token_set_y DC 2498 ''CONFIG_MPH0_USB_ENABLE'',
   token_set_y DC 2499 ''CONFIG_MPH0_ULPI'']"

definition dist_MPC8349ITX :: "stmt" where
  "dist_MPC8349ITX = block [
   token_set DC 2503 ''CONFIG_RG_JPKG_DIST'' ''JPKG_PPC'' [],
   set_os ''LINUX_26'',
   set_hw ''MPC8349ITX'',
   token_set_y DC 2507 ''CONFIG_HW_USB_ETH'',
   token_set_y DC 2508 ''CONFIG_HW_IDE'',
   token_set_y DC 2510 ''CONFIG_RG_NETTOOLS_ARP'',
   enable_module DC 2511 ''MODULE_RG_FOUNDATION'',
   enable_module DC 2512 ''MODULE_RG_ADVANCED_MANAGEMENT'',
   enable_module DC 2513 ''MODULE_RG_ADVANCED_ROUTING'',
   enable_module DC 2514 ''MODULE_RG_FIREWALL_AND_SECURITY'',
   enable_module DC 2515 ''MODULE_RG_UPNP'',
   enable_module DC 2516 ''MODULE_RG_VLAN'',
   enable_module DC 2517 ''MODULE_RG_IPV6'',
   enable_module DC 2518 ''MODULE_RG_SNMP'',
   enable_module DC 2519 ''MODULE_RG_PPP'',
   enable_module DC 2520 ''MODULE_RG_PPTP'',
   enable_module DC 2521 ''MODULE_RG_L2TP'',
   enable_module DC 2522 ''MODULE_RG_IPSEC'',
   enable_module DC 2523 ''MODULE_RG_QOS'',
   enable_module DC 2524 ''MODULE_RG_ROUTE_MULTIWAN'',
   enable_module DC 2525 ''MODULE_RG_DSLHOME'',
   enable_module DC 2526 ''MODULE_RG_TR_098'',
   enable_module DC 2527 ''MODULE_RG_TR_064'',
   enable_module DC 2528 ''MODULE_RG_MAIL_FILTER'',
   enable_module DC 2529 ''MODULE_RG_SSL_VPN'',
   token_set_y DC 2530 ''CONFIG_RG_SMB'',
   enable_module DC 2532 ''MODULE_RG_URL_FILTERING'',
   enable_module DC 2540 ''MODULE_RG_PRINTSERVER'',
   token_set DC 2541 ''CONFIG_RG_PRINT_SERVER_SPOOL'' ''16777216'' [],
   enable_module DC 2543 ''MODULE_RG_FILESERVER'',
   enable_module DC 2545 ''MODULE_RG_BLUETOOTH'',
   token_set_y DC 2547 ''CONFIG_RG_NETTOOLS_ARP'',
   token_set_y DC 2551 ''CONFIG_RG_DATE'',
   token_set_y DC 2552 ''CONFIG_RG_TZ_FULL'',
   token_set DC 2553 ''CONFIG_RG_TZ_YEARS'' ''5'' [],
   token_set_y DC 2557 ''CONFIG_HW_ETH_WAN'',
   token_set_y DC 2558 ''CONFIG_HW_ETH_LAN'',
   token_set_y DC 2560 ''CONFIG_HW_USB_STORAGE'',
   token_set_y DC 2563 ''CONFIG_HW_80211G_RALINK_RT2560'',
   enable_module DC 2564 ''MODULE_RG_WLAN_AND_ADVANCED_WLAN'',
   token_set_y DC 2566 ''CONFIG_HW_ENCRYPTION'',
   token_set_y DC 2574 ''CONFIG_RG_FOOTPRINT_REDUCTION'']"

definition dist_CENTAUR_LSP :: "stmt" where
  "dist_CENTAUR_LSP = block [
   set_hw ''CENTAUR'',
   set_os ''LINUX_24'',
   token_set_y DC 2581 ''CONFIG_KS8695_COMMON'',
   token_set_y DC 2584 ''CONFIG_LSP_DIST'',
   token_set_y DC 2585 ''CONFIG_SIMPLE_RAMDISK'',
   token_set_y DC 2586 ''CONFIG_LSP_FLASH_LAYOUT'',
   token_set DC 2587 ''CONFIG_RAMDISK_SIZE'' ''1024'' [],
   token_set_y DC 2588 ''CONFIG_HW_ETH_WAN'',
   token_set_y DC 2589 ''CONFIG_HW_ETH_LAN'']"

definition dist_CENTAUR :: "stmt" where
  "dist_CENTAUR = block [
   set_hw ''CENTAUR'',
   set_os ''LINUX_24'',
   enable_module DC 2596 ''MODULE_RG_FOUNDATION'',
   enable_module DC 2597 ''MODULE_RG_ADVANCED_ROUTING'',
   enable_module DC 2598 ''MODULE_RG_VLAN'',
   enable_module DC 2599 ''MODULE_RG_ADVANCED_MANAGEMENT'',
   enable_module DC 2600 ''MODULE_RG_PPP'',
   enable_module DC 2601 ''MODULE_RG_FIREWALL_AND_SECURITY'',
   enable_module DC 2602 ''MODULE_RG_URL_FILTERING'',
   enable_module DC 2603 ''MODULE_RG_IPSEC'',
   enable_module DC 2604 ''MODULE_RG_PPTP'',
   enable_module DC 2605 ''MODULE_RG_L2TP'',
   enable_module DC 2606 ''MODULE_RG_UPNP'',
   enable_module DC 2607 ''MODULE_RG_SNMP'',
   enable_module DC 2608 ''MODULE_RG_IPV6'',
   enable_module DC 2609 ''MODULE_RG_QOS'',
   enable_module DC 2610 ''MODULE_RG_ROUTE_MULTIWAN'',
   enable_module DC 2611 ''MODULE_RG_MAIL_FILTER'',
   enable_module DC 2612 ''MODULE_RG_SSL_VPN'',
   token_set_y DC 2615 ''CONFIG_HW_ETH_WAN'',
   token_set_y DC 2616 ''CONFIG_HW_ETH_LAN'',
   token_set_y DC 2617 ''CONFIG_HW_80211G_RALINK_RT2560'',
   enable_module DC 2618 ''MODULE_RG_WLAN_AND_ADVANCED_WLAN'',
   token_set DC 2620 ''CONFIG_RG_SSID_NAME'' ''Centaur'' [],
   when_c (is_dist ''CENTAUR_VGW'') [
       enable_module DC 2625 ''MODULE_RG_VOIP_OSIP'',
       enable_module DC 2626 ''MODULE_RG_ATA'',
       token_set_y DC 2627 ''CONFIG_HW_DSP''],
   token_set_y DC 2631 ''CONFIG_KS8695_COMMON'']"

definition dist_RGLOADER_CENTAUR :: "stmt" where
  "dist_RGLOADER_CENTAUR = block [
   set_hw ''CENTAUR'',
   set_os ''LINUX_24'',
   token_set_y DC 2638 ''CONFIG_RG_RGLOADER'',
   token_set_y DC 2640 ''CONFIG_KS8695_COMMON'',
   token_set_y DC 2641 ''CONFIG_SIMPLE_RAMDISK'',
   token_set DC 2642 ''CONFIG_RAMDISK_SIZE'' ''4096'' [],
   token_set_y DC 2643 ''CONFIG_PROC_FS'',
   token_set_y DC 2644 ''CONFIG_EXT2_FS'',
   token_set_y DC 2645 ''CONFIG_HW_ETH_WAN'',
   token_set_y DC 2646 ''CONFIG_HW_ETH_LAN'']"

definition dist_IXDP425_LSP :: "stmt" where
  "dist_IXDP425_LSP = block [
   set_hw ''IXDP425'',
   token_set_y DC 2653 ''CONFIG_IXP425_COMMON_LSP'',
   token_set DC 2654 ''CONFIG_IXDP425_KGDB_UART'' ''1'' [],
   token_set_y DC 2657 ''CONFIG_ADSL_CHIP_ALCATEL_20150'',
   token_set_y DC 2658 ''CONFIG_IXP425_ADSL_USE_MPHY'',
   token_set DC 2661 ''CONFIG_PCF8594C2'' ''m'' [],
   token_set DC 2664 ''CONFIG_IXP425_ETH'' ''m'' [],
   token_set_y DC 2667 ''CONFIG_IXP425_FLASH_E28F128J3'',
   token_set_y DC 2670 ''CONFIG_LSP_DIST'',
   token_set_y DC 2671 ''CONFIG_GLIBC'',
   token_set_y DC 2672 ''CONFIG_SIMPLE_RAMDISK'',
   token_set_y DC 2673 ''CONFIG_LSP_FLASH_LAYOUT'']"

definition dist_COYOTE_CAVIUM :: "stmt" where
  "dist_COYOTE_CAVIUM = block [
   set_hw ''COYOTE'',
   token_set_y DC 2679 ''CONFIG_RG_SMB'',
   enable_module DC 2681 ''MODULE_RG_FOUNDATION'',
   enable_module DC 2682 ''MODULE_RG_UPNP'',
   enable_module DC 2683 ''MODULE_RG_PPP'',
   enable_module DC 2684 ''MODULE_RG_FIREWALL_AND_SECURITY'',
   enable_module DC 2685 ''MODULE_RG_ADVANCED_MANAGEMENT'',
   enable_module DC 2686 ''MODULE_RG_IPSEC'',
   enable_module DC 2687 ''MODULE_RG_PPTP'',
   enable_module DC 2688 ''MODULE_RG_SNMP'',
   enable_module DC 2692 ''MODULE_RG_IPV6'',
   enable_module DC 2693 ''MODULE_RG_VLAN'',
   enable_module DC 2694 ''MODULE_RG_ADVANCED_ROUTING'',
   enable_module DC 2695 ''MODULE_RG_L2TP'',
   enable_module DC 2696 ''MODULE_RG_URL_FILTERING'',
   token_set_y DC 2699 ''CONFIG_HW_ETH_WAN'',
   token_set_y DC 2700 ''CONFIG_HW_ETH_LAN'',
   enable_module DC 2701 ''CONFIG_HW_USB_RNDIS'']"

definition dist_COYOTE_ACTIONTEC_OSIP :: "stmt" where
  "dist_COYOTE_ACTIONTEC_OSIP = block [
   set_hw ''COYOTE'',
   enable_module DC 2709 ''MODULE_RG_FOUNDATION'',
   enable_module DC 2710 ''MODULE_RG_WLAN_AND_ADVANCED_WLAN'',
   enable_module DC 2711 ''MODULE_RG_ADVANCED_ROUTING'',
   enable_module DC 2712 ''MODULE_RG_ADVANCED_MANAGEMENT'',
   enable_module DC 2713 ''MODULE_RG_VLAN'',
   enable_module DC 2714 ''MODULE_RG_FIREWALL_AND_SECURITY'',
   enable_module DC 2715 ''MODULE_RG_URL_FILTERING'',
   enable_module DC 2716 ''MODULE_RG_UPNP'',
   enable_module DC 2717 ''MODULE_RG_VOIP_OSIP'',
   enable_module DC 2718 ''MODULE_RG_PPP'',
   token_set_y DC 2721 ''CONFIG_HW_ETH_WAN'',
   token_set_y DC 2722 ''CONFIG_HW_ETH_LAN'',
   enable_module DC 2723 ''CONFIG_HW_80211G_ISL38XX'',
   enable_module DC 2724 ''CONFIG_HW_DSP'',
   enable_module DC 2726 ''MODULE_RG_ATA'']"

definition dist_COYOTE :: "stmt" where
  "dist_COYOTE = block [
   set_hw ''COYOTE'',
   token_set_y DC 2734 ''CONFIG_ARM_24_FAST_MODULES'',
   enable_module DC 2737 ''MODULE_RG_FOUNDATION'',
   enable_module DC 2738 ''MODULE_RG_UPNP'',
   enable_module DC 2739 ''MODULE_RG_PPP'',
   enable_module DC 2740 ''MODULE_RG_FIREWALL_AND_SECURITY'',
   enable_module DC 2741 ''MODULE_RG_ADVANCED_MANAGEMENT'',
   enable_module DC 2744 ''MODULE_RG_IPSEC'',
   enable_module DC 2745 ''MODULE_RG_PPTP'',
   enable_module DC 2746 ''MODULE_RG_VLAN'',
   enable_module DC 2747 ''MODULE_RG_L2TP'',
   enable_module DC 2748 ''MODULE_RG_URL_FILTERING'',
   enable_module DC 2749 ''MODULE_RG_FILESERVER'',
   enable_module DC 2750 ''MODULE_RG_QOS'',
   enable_module DC 2751 ''MODULE_RG_DSLHOME'',
   enable_module DC 2752 ''MODULE_RG_TR_098'',
   enable_module DC 2753 ''MODULE_RG_TR_064'',
   enable_module DC 2754 ''MODULE_RG_WLAN_AND_ADVANCED_WLAN'',
   enable_module DC 2755 ''MODULE_RG_PRINTSERVER'',
   enable_module DC 2756 ''MODULE_RG_SSL_VPN'',
   token_set DC 2758 ''CONFIG_RG_JPKG_DIST'' ''JPKG_ARMV5B'' [],
   enable_module DC 2760 ''MODULE_RG_VOIP_ASTERISK_SIP'',
   enable_module DC 2762 ''MODULE_RG_MAIL_FILTER'',
   enable_module DC 2764 ''MODULE_RG_DSL'',
   token_set_y DC 2765 ''CONFIG_HW_DSL_WAN'',
   token_set_y DC 2766 ''CONFIG_HW_ETH_WAN'',
   token_set_y DC 2768 ''CONFIG_HW_ETH_LAN'',
   token_set_y DC 2769 ''CONFIG_HW_USB_HOST_EHCI'',
   token_set_y DC 2770 ''CONFIG_HW_USB_HOST_OHCI'',
   token_set_y DC 2771 ''CONFIG_HW_USB_STORAGE'',
   enable_module DC 2772 ''CONFIG_HW_USB_RNDIS'',
   enable_module DC 2773 ''CONFIG_HW_DSP'',
   enable_module DC 2774 ''CONFIG_HW_ENCRYPTION'',
   token_set_y DC 2775 ''CONFIG_HW_IDE'',
   enable_module DC 2776 ''CONFIG_HW_80211G_RALINK_RT2560'',
   enable_module DC 2778 ''MODULE_RG_ATA'',
   token_set DC 2787 ''CONFIG_IXP425_SDRAM_SIZE'' ''64'' [],
   token_set DC 2788 ''CONFIG_RG_PRINT_SERVER_SPOOL'' ''16777216'' [],
   enable_module DC 2789 ''MODULE_RG_ADVANCED_OFFICE_SERVERS'',
   enable_module DC 2790 ''MODULE_RG_BLUETOOTH'']"

lemma ok_dist_CX8620XD_SOHO [safe_scripts]: "ok base_schema value_tokens J dist_CX8620XD_SOHO"
  unfolding dist_CX8620XD_SOHO_def
  by (intro safe_intros shipped.ok_sets shipped.ok_enable_module safe_scripts; simp)


lemma ok_dist_MALINDI [safe_scripts]: "ok base_schema value_tokens J dist_MALINDI"
  unfolding dist_MALINDI_def
  by (intro safe_intros shipped.ok_sets shipped.ok_enable_module safe_scripts; simp)


lemma ok_dist_RGLOADER_CX8620XD [safe_scripts]: "ok base_schema value_tokens J dist_RGLOADER_CX8620XD"
  unfolding dist_RGLOADER_CX8620XD_def
  by (intro safe_intros shipped.ok_sets shipped.ok_enable_module safe_scripts; simp)


lemma ok_dist_IXDP425_CYBERTAN [safe_scripts]: "ok base_schema value_tokens J dist_IXDP425_CYBERTAN"
  unfolding dist_IXDP425_CYBERTAN_def
  by (intro safe_intros shipped.ok_sets shipped.ok_enable_module safe_scripts; simp)


lemma ok_dist_IXDP425_ATM [safe_scripts]: "ok base_schema value_tokens J dist_IXDP425_ATM"
  unfolding dist_IXDP425_ATM_def
  by (intro safe_intros shipped.ok_sets shipped.ok_enable_module safe_scripts; simp)


lemma ok_dist_NAPA [safe_scripts]: "ok base_schema value_tokens J dist_NAPA"
  unfolding dist_NAPA_def
  by (intro safe_intros shipped.ok_sets shipped.ok_enable_module safe_scripts; simp)


lemma ok_dist_GTWX5715 [safe_scripts]: "ok base_schema value_tokens J dist_GTWX5715"
  unfolding dist_GTWX5715_def
  by (intro safe_intros shipped.ok_sets shipped.ok_enable_module safe_scripts; simp)


lemma ok_dist_HG21 [safe_scripts]: "ok base_schema value_tokens J dist_HG21"
  unfolding dist_HG21_def
  by (intro safe_intros shipped.ok_sets shipped.ok_enable_module safe_scripts; simp)


lemma ok_dist_IXDP425_FRG [safe_scripts]: "ok base_schema value_tokens J dist_IXDP425_FRG"
  unfolding dist_IXDP425_FRG_def
  by (intro safe_intros shipped.ok_sets shipped.ok_enable_module safe_scripts; simp)


lemma ok_dist_IXDP425_TMT [safe_scripts]: "ok base_schema value_tokens J dist_IXDP425_TMT"
  unfolding dist_IXDP425_TMT_def
  by (intro safe_intros shipped.ok_sets shipped.ok_enable_module safe_scripts; simp)


lemma ok_dist_RGLOADER_WADB100G [safe_scripts]: "ok base_schema value_tokens J dist_RGLOADER_WADB100G"
  unfolding dist_RGLOADER_WADB100G_def
  by (intro safe_intros shipped.ok_sets shipped.ok_enable_module safe_scripts; simp)


lemma ok_dist_WADB100G [safe_scripts]: "ok base_schema value_tokens J dist_WADB100G"
  unfolding dist_WADB100G_def
  by (intro safe_intros shipped.ok_sets shipped.ok_enable_module safe_scripts; simp)


lemma ok_dist_ASUS6020VI [safe_scripts]: "ok base_schema value_tokens J dist_ASUS6020VI"
  unfolding dist_ASUS6020VI_def
  by (intro safe_intros shipped.ok_sets shipped.ok_enable_module safe_scripts; simp)


lemma ok_dist_RGLOADER_WADB102GB [safe_scripts]: "ok base_schema value_tokens J dist_RGLOADER_WADB102GB"
  unfolding dist_RGLOADER_WADB102GB_def
  by (intro safe_intros shipped.ok_sets shipped.ok_enable_module safe_scripts; simp)


lemma ok_dist_WADB102GB [safe_scripts]: "ok base_schema value_tokens J dist_WADB102GB"
  unfolding dist_WADB102GB_def
  by (intro safe_intros shipped.ok_sets shipped.ok_enable_module safe_scripts; simp)


lemma ok_dist_MPC8272ADS_LSP [safe_scripts]: "ok base_schema value_tokens J dist_MPC8272ADS_LSP"
  unfolding dist_MPC8272ADS_LSP_def
  by (intro safe_intros shipped.ok_sets shipped.ok_enable_module safe_scripts; simp)


lemma ok_dist_MPC8272ADS [safe_scripts]: "ok base_schema value_tokens J dist_MPC8272ADS"
  unfolding dist_MPC8272ADS_def
  by (intro safe_intros shipped.ok_sets shipped.ok_enable_module safe_scripts; simp)


lemma ok_dist_EP8248_LSP_26 [safe_scripts]: "ok base_schema value_tokens J dist_EP8248_LSP_26"
  unfolding dist_EP8248_LSP_26_def
  by (intro safe_intros shipped.ok_sets shipped.ok_enable_module safe_scripts; simp)


lemma ok_dist_EP8248_26 [safe_scripts]: "ok base_schema value_tokens J dist_EP8248_26"
  unfolding dist_EP8248_26_def
  by (intro safe_intros shipped.ok_sets shipped.ok_enable_module safe_scripts; simp)


lemma ok_dist_MPC8349ITX_LSP [safe_scripts]: "ok base_schema value_tokens J dist_MPC8349ITX_LSP"
  unfolding dist_MPC8349ITX_LSP_def
  by (intro safe_intros shipped.ok_sets shipped.ok_enable_module safe_scripts; simp)


lemma ok_dist_MPC8349ITX [safe_scripts]: "ok base_schema value_tokens J dist_MPC8349ITX"
  unfolding dist_MPC8349ITX_def
  by (intro safe_intros shipped.ok_sets shipped.ok_enable_module safe_scripts; simp)


lemma ok_dist_CENTAUR_LSP [safe_scripts]: "ok base_schema value_tokens J dist_CENTAUR_LSP"
  unfolding dist_CENTAUR_LSP_def
  by (intro safe_intros shipped.ok_sets shipped.ok_enable_module safe_scripts; simp)


lemma ok_dist_CENTAUR [safe_scripts]: "ok base_schema value_tokens J dist_CENTAUR"
  unfolding dist_CENTAUR_def
  by (intro safe_intros shipped.ok_sets shipped.ok_enable_module safe_scripts; simp)


lemma ok_dist_RGLOADER_CENTAUR [safe_scripts]: "ok base_schema value_tokens J dist_RGLOADER_CENTAUR"
  unfolding dist_RGLOADER_CENTAUR_def
  by (intro safe_intros shipped.ok_sets shipped.ok_enable_module safe_scripts; simp)


lemma ok_dist_IXDP425_LSP [safe_scripts]: "ok base_schema value_tokens J dist_IXDP425_LSP"
  unfolding dist_IXDP425_LSP_def
  by (intro safe_intros shipped.ok_sets shipped.ok_enable_module safe_scripts; simp)


lemma ok_dist_COYOTE_CAVIUM [safe_scripts]: "ok base_schema value_tokens J dist_COYOTE_CAVIUM"
  unfolding dist_COYOTE_CAVIUM_def
  by (intro safe_intros shipped.ok_sets shipped.ok_enable_module safe_scripts; simp)


lemma ok_dist_COYOTE_ACTIONTEC_OSIP [safe_scripts]: "ok base_schema value_tokens J dist_COYOTE_ACTIONTEC_OSIP"
  unfolding dist_COYOTE_ACTIONTEC_OSIP_def
  by (intro safe_intros shipped.ok_sets shipped.ok_enable_module safe_scripts; simp)


lemma ok_dist_COYOTE [safe_scripts]: "ok base_schema value_tokens J dist_COYOTE"
  unfolding dist_COYOTE_def
  by (intro safe_intros shipped.ok_sets shipped.ok_enable_module safe_scripts; simp)


end
