(* ===== verification/Dist_Config_4.thy ===== *)
theory Dist_Config_4
  imports Dist_Config_3
begin

text \<open>
  \<open>distribution_features\<close> of \<open>dist_config.c\<close>, lines 2792 to 3931: one definition per
  branch of the chain over the distribution's name.
\<close>

definition dist_MONTEJADE :: "stmt" where
  "dist_MONTEJADE = block [
   ifc (is_dist ''JIWIS8XX'') [
       set_hw ''JIWIS800'',
       token_set_m DC 2798 ''CONFIG_HW_LEDS'',
       token_set_y DC 2799 ''CONFIG_IXP425_COMMON_RG'']
      [
       set_hw ''MONTEJADE'',
       enable_module DC 2804 ''CONFIG_HW_USB_RNDIS''],
   token_set DC 2807 ''CONFIG_RG_JPKG_DIST'' ''JPKG_ARMV5B'' [],
   token_set_y DC 2808 ''CONFIG_RG_SMB'',
   token_set_y DC 2812 ''CONFIG_ARM_24_FAST_MODULES'',
   enable_module DC 2814 ''MODULE_RG_FOUNDATION'',
   enable_module DC 2815 ''MODULE_RG_UPNP'',
   enable_module DC 2816 ''MODULE_RG_PPP'',
   enable_module DC 2817 ''MODULE_RG_FIREWALL_AND_SECURITY'',
   enable_module DC 2818 ''MODULE_RG_ADVANCED_MANAGEMENT'',
   enable_module DC 2821 ''MODULE_RG_IPSEC'',
   enable_module DC 2822 ''MODULE_RG_PPTP'',
   enable_module DC 2823 ''MODULE_RG_SNMP'',
   enable_module DC 2824 ''MODULE_RG_VLAN'',
   enable_module DC 2825 ''MODULE_RG_ADVANCED_ROUTING'',
   enable_module DC 2826 ''MODULE_RG_L2TP'',
   enable_module DC 2827 ''MODULE_RG_URL_FILTERING'',
   enable_module DC 2828 ''MODULE_RG_FILESERVER'',
   enable_module DC 2829 ''MODULE_RG_PRINTSERVER'',
   enable_module DC 2830 ''MODULE_RG_VOIP_ASTERISK_SIP'',
   enable_module DC 2831 ''MODULE_RG_VOIP_ASTERISK_MGCP_CALL_AGENT'',
   enable_module DC 2832 ''MODULE_RG_QOS'',
   enable_module DC 2833 ''MODULE_RG_ROUTE_MULTIWAN'',
   enable_module DC 2834 ''MODULE_RG_WLAN_AND_ADVANCED_WLAN'',
   enable_module DC 2835 ''MODULE_RG_DSLHOME'',
   enable_module DC 2836 ''MODULE_RG_TR_098'',
   enable_module DC 2837 ''MODULE_RG_TR_064'',
   enable_module DC 2838 ''MODULE_RG_MAIL_FILTER'',
   enable_module DC 2839 ''MODULE_RG_JVM'',
   enable_module DC 2840 ''MODULE_RG_SSL_VPN'',
   enable_module DC 2841 ''MODULE_RG_PBX'',
   enable_module DC 2843 ''MODULE_RG_BLUETOOTH'',
   token_set_m DC 2846 ''CONFIG_HW_BUTTONS'',
   ifc (is_dist ''MONTEJADE_ATM'') [
       enable_module DC 2849 ''MODULE_RG_DSL'',
       token_set_y DC 2850 ''CONFIG_HW_DSL_WAN'']
      [token_set_y DC 2854 ''CONFIG_HW_ETH_WAN''],
   token_set_y DC 2857 ''CONFIG_HW_SWITCH_LAN'',
   token_set DC 2859 ''CONFIG_HW_USB_HOST_EHCI'' ''y'' [],
   token_set DC 2860 ''CONFIG_HW_USB_HOST_OHCI'' ''y'' [],
   token_set DC 2861 ''CONFIG_HW_USB_STORAGE'' ''y'' [],
   enable_module DC 2862 ''CONFIG_HW_ENCRYPTION'',
   enable_module DC 2865 ''CONFIG_HW_DSP'',
   token_set_y DC 2874 ''CONFIG_HW_80211G_RALINK_RT2560'',
   enable_module DC 2880 ''MODULE_RG_ADVANCED_OFFICE_SERVERS'',
   token_set DC 2881 ''CONFIG_RG_PRINT_SERVER_SPOOL'' ''4194304'' [],
   when_c (neg (on ''CONFIG_HW_80211N_AIRGO_AGN100'')) [enable_module DC 2885 ''MODULE_RG_IPV6'']]"

definition dist_PCBOX_EEP_EEP_EICON :: "stmt" where
  "dist_PCBOX_EEP_EEP_EICON = block [
   ifc (is_dist ''PCBOX_EEP_EEP_EICON'') [set_hw ''PCBOX_EEP_EEP'']
      [set_hw ''ALLWELL_RTL_RTL''],
   enable_module DC 2894 ''MODULE_RG_FOUNDATION'',
   enable_module DC 2895 ''MODULE_RG_UPNP'',
   enable_module DC 2896 ''MODULE_RG_PPP'',
   enable_module DC 2897 ''MODULE_RG_FIREWALL_AND_SECURITY'',
   enable_module DC 2898 ''MODULE_RG_ADVANCED_MANAGEMENT'',
   enable_module DC 2899 ''MODULE_RG_ADVANCED_ROUTING'',
   enable_module DC 2900 ''MODULE_RG_SNMP'',
   enable_module DC 2901 ''MODULE_RG_PPTP'',
   enable_module DC 2902 ''MODULE_RG_L2TP'',
   enable_module DC 2903 ''MODULE_RG_IPSEC'',
   token_set_y DC 2906 ''CONFIG_HW_ETH_WAN'',
   token_set_y DC 2907 ''CONFIG_HW_ETH_LAN'',
   token_set_y DC 2909 ''CONFIG_GLIBC'']"

definition dist_COYOTE_LSP :: "stmt" where
  "dist_COYOTE_LSP = block [
   set_hw ''COYOTE'',
   token_set_y DC 2915 ''CONFIG_LSP_DIST'',
   token_set_y DC 2916 ''CONFIG_GLIBC'',
   token_set_y DC 2917 ''CONFIG_SIMPLE_RAMDISK'',
   token_set_y DC 2918 ''CONFIG_LSP_FLASH_LAYOUT'',
   token_set_y DC 2919 ''CONFIG_IXP425_COMMON_LSP'']"

definition dist_COYOTE_EEP :: "stmt" where
  "dist_COYOTE_EEP = block [
   set_hw ''COYOTE'',
   token_set_y DC 2925 ''CONFIG_RG_SMB'',
   enable_module DC 2928 ''MODULE_RG_FOUNDATION'',
   enable_module DC 2929 ''MODULE_RG_UPNP'',
   enable_module DC 2930 ''MODULE_RG_PPP'',
   enable_module DC 2931 ''MODULE_RG_FIREWALL_AND_SECURITY'',
   enable_module DC 2932 ''MODULE_RG_ADVANCED_MANAGEMENT'',
   enable_module DC 2935 ''MODULE_RG_IPSEC'',
   enable_module DC 2936 ''MODULE_RG_PPTP'',
   enable_module DC 2937 ''MODULE_RG_SNMP'',
   enable_module DC 2941 ''MODULE_RG_IPV6'',
   enable_module DC 2942 ''MODULE_RG_VLAN'',
   enable_module DC 2943 ''MODULE_RG_ADVANCED_ROUTING'',
   enable_module DC 2944 ''MODULE_RG_L2TP'',
   enable_module DC 2945 ''MODULE_RG_URL_FILTERING'',
   enable_module DC 2946 ''MODULE_RG_FILESERVER'',
   enable_module DC 2947 ''MODULE_RG_PRINTSERVER'',
   token_set_y DC 2950 ''CONFIG_HW_ETH_WAN'',
   token_set_y DC 2951 ''CONFIG_HW_ETH_LAN'',
   token_set_y DC 2952 ''CONFIG_HW_ETH_EEPRO100_LAN'',
   enable_module DC 2953 ''CONFIG_HW_USB_RNDIS'',
   enable_module DC 2954 ''CONFIG_HW_ENCRYPTION'',
   token_set_y DC 2955 ''CONFIG_HW_IDE'']"

definition dist_RGLOADER_JIWIS8XX :: "stmt" where
  "dist_RGLOADER_JIWIS8XX = block [
   when_c (neg hw_set) [set_hw ''JIWIS800''],
   token_set_y DC 2970 ''CONFIG_RG_RGLOADER'',
   token_set_m DC 2971 ''CONFIG_HW_BUTTONS'',
   token_set_y DC 2972 ''CONFIG_HW_ETH_LAN'',
   token_set_y DC 2973 ''CONFIG_HW_ETH_LAN2'',
   token_set_y DC 2974 ''CONFIG_IXP425_COMMON_RGLOADER'']"

definition dist_COYOTE_ALL :: "stmt" where
  "dist_COYOTE_ALL = block [
   set_hw ''COYOTE'',
   token_set_y DC 2980 ''CONFIG_RG_SMB'',
   enable_module DC 2983 ''MODULE_RG_FOUNDATION'',
   enable_module DC 2984 ''MODULE_RG_UPNP'',
   enable_module DC 2985 ''MODULE_RG_PPP'',
   enable_module DC 2986 ''MODULE_RG_FIREWALL_AND_SECURITY'',
   enable_module DC 2987 ''MODULE_RG_ADVANCED_MANAGEMENT'',
   enable_module DC 2990 ''MODULE_RG_IPSEC'',
   enable_module DC 2991 ''MODULE_RG_PPTP'',
   enable_module DC 2992 ''MODULE_RG_SNMP'',
   enable_module DC 2996 ''MODULE_RG_IPV6'',
   enable_module DC 2997 ''MODULE_RG_VLAN'',
   enable_module DC 2998 ''MODULE_RG_ADVANCED_ROUTING'',
   enable_module DC 2999 ''MODULE_RG_L2TP'',
   enable_module DC 3000 ''MODULE_RG_URL_FILTERING'',
   enable_module DC 3001 ''MODULE_RG_FILESERVER'',
   token_set_y DC 3002 ''CONFIG_RG_PRINT_SERVER'',
   enable_module DC 3003 ''CONFIG_RG_LPD'',
   token_set_y DC 3004 ''CONFIG_RG_IPP'',
   enable_module DC 3005 ''MODULE_RG_WLAN_AND_ADVANCED_WLAN'',
   enable_module DC 3006 ''MODULE_RG_VOIP_RV_SIP'',
   enable_module DC 3007 ''MODULE_RG_VOIP_RV_MGCP'',
   enable_module DC 3008 ''MODULE_RG_VOIP_RV_H323'',
   enable_module DC 3009 ''MODULE_RG_DSL'',
   token_set_y DC 3012 ''CONFIG_HW_DSL_WAN'',
   token_set_y DC 3013 ''CONFIG_HW_ETH_WAN'',
   token_set_y DC 3014 ''CONFIG_HW_ETH_LAN'',
   enable_module DC 3015 ''CONFIG_HW_USB_RNDIS'',
   enable_module DC 3016 ''CONFIG_HW_80211G_ISL38XX'',
   enable_module DC 3017 ''CONFIG_HW_DSP'',
   enable_module DC 3018 ''CONFIG_HW_ENCRYPTION'',
   token_set_y DC 3019 ''CONFIG_HW_IDE'',
   enable_module DC 3021 ''MODULE_RG_ATA'']"

definition dist_COYOTE_ATM_WIRELESS_ISL :: "stmt" where
  "dist_COYOTE_ATM_WIRELESS_ISL = block [
   set_hw ''COYOTE'',
   token_set_y DC 3029 ''CONFIG_RG_SMB'',
   enable_module DC 3032 ''MODULE_RG_FOUNDATION'',
   enable_module DC 3033 ''MODULE_RG_UPNP'',
   enable_module DC 3034 ''MODULE_RG_PPP'',
   enable_module DC 3035 ''MODULE_RG_FIREWALL_AND_SECURITY'',
   enable_module DC 3036 ''MODULE_RG_ADVANCED_MANAGEMENT'',
   enable_module DC 3039 ''MODULE_RG_IPSEC'',
   enable_module DC 3040 ''MODULE_RG_PPTP'',
   enable_module DC 3041 ''MODULE_RG_SNMP'',
   enable_module DC 3045 ''MODULE_RG_IPV6'',
   enable_module DC 3046 ''MODULE_RG_VLAN'',
   enable_module DC 3047 ''MODULE_RG_ADVANCED_ROUTING'',
   enable_module DC 3048 ''MODULE_RG_L2TP'',
   enable_module DC 3049 ''MODULE_RG_URL_FILTERING'',
   enable_module DC 3050 ''MODULE_RG_FILESERVER'',
   token_set_y DC 3051 ''CONFIG_RG_PRINT_SERVER'',
   enable_module DC 3052 ''CONFIG_RG_LPD'',
   token_set_y DC 3053 ''CONFIG_RG_IPP'',
   enable_module DC 3054 ''MODULE_RG_WLAN_AND_ADVANCED_WLAN'',
   enable_module DC 3055 ''MODULE_RG_VOIP_RV_SIP'',
   enable_module DC 3056 ''MODULE_RG_VOIP_RV_MGCP'',
   enable_module DC 3057 ''MODULE_RG_VOIP_RV_H323'',
   enable_module DC 3058 ''MODULE_RG_DSL'',
   token_set_y DC 3061 ''CONFIG_HW_DSL_WAN'',
   token_set_y DC 3062 ''CONFIG_HW_ETH_LAN'',
   enable_module DC 3063 ''CONFIG_HW_USB_RNDIS'',
   enable_module DC 3064 ''CONFIG_HW_80211G_ISL38XX'',
   enable_module DC 3065 ''CONFIG_HW_DSP'',
   enable_module DC 3066 ''CONFIG_HW_ENCRYPTION'',
   token_set_y DC 3067 ''CONFIG_HW_IDE'',
   enable_module DC 3069 ''MODULE_RG_ATA'']"

definition dist_RGLOADER_BRUCE :: "stmt" where
  "dist_RGLOADER_BRUCE = block [
   set_hw ''BRUCE'',
   token_set_y DC 3077 ''CONFIG_RG_RGLOADER'',
   token_set_y DC 3078 ''CONFIG_IXP425_COMMON_RGLOADER'',
   token_set_y DC 3081 ''CONFIG_HW_ETH_LAN'']"

definition dist_BRUCE :: "stmt" where
  "dist_BRUCE = block [
   set_hw ''BRUCE'',
   enable_module DC 3088 ''MODULE_RG_FOUNDATION'',
   enable_module DC 3089 ''MODULE_RG_ADVANCED_MANAGEMENT'',
   enable_module DC 3090 ''MODULE_RG_PPP'',
   enable_module DC 3091 ''MODULE_RG_UPNP'',
   enable_module DC 3092 ''MODULE_RG_FIREWALL_AND_SECURITY'',
   enable_module DC 3093 ''MODULE_RG_IPSEC'',
   enable_module DC 3094 ''MODULE_RG_PPTP'',
   enable_module DC 3095 ''MODULE_RG_FILESERVER'',
   enable_module DC 3096 ''MODULE_RG_PRINTSERVER'',
   enable_module DC 3097 ''MODULE_RG_WLAN_AND_ADVANCED_WLAN'',
   enable_module DC 3098 ''MODULE_RG_ADVANCED_OFFICE_SERVERS'',
   token_set_y DC 3101 ''CONFIG_HW_ETH_WAN'',
   token_set_y DC 3102 ''CONFIG_HW_ETH_LAN'',
   enable_module DC 3103 ''CONFIG_HW_80211G_ISL38XX'',
   enable_module DC 3104 ''CONFIG_HW_ENCRYPTION'',
   token_set_y DC 3105 ''CONFIG_HW_USB_HOST_EHCI'',
   token_set_y DC 3106 ''CONFIG_HW_USB_HOST_OHCI'',
   token_set_y DC 3107 ''CONFIG_HW_USB_STORAGE'',
   token_set_y DC 3108 ''CONFIG_HW_IDE'',
   token_set_m DC 3109 ''CONFIG_HW_BUTTONS'',
   token_set_m DC 3110 ''CONFIG_HW_LEDS'',
   token_set_y DC 3111 ''CONFIG_HW_CLOCK'',
   token_set_y DC 3112 ''CONFIG_HW_I2C'',
   token_set_y DC 3113 ''CONFIG_HW_ENV_MONITOR'',
   token_set DC 3115 ''CONFIG_RG_PRINT_SERVER_SPOOL'' ''16777216'' []]"

definition dist_TWINPASS_1 :: "stmt" where
  "dist_TWINPASS_1 = block [
   ifc (disj_c (disj_c (disj_c (disj_c (disj_c (disj_c (disj_c (disj_c (disj_c (disj_c (disj_c (disj_c (disj_c (disj_c (is_dist ''WSTL_ULS3_VDSL_IKANOS_64'') (is_dist ''WSTL_ULS3_DUAL_MOCA_64'')) (is_dist ''WSTL_ULS3_DUAL_MOCA_USB_64'')) (is_dist ''WSTL_ULS3_DUAL_MOCA_USB_11N_64'')) (is_dist ''WSTL_ULS3_VDSL_INFINEON_64'')) (is_dist ''WSTL_ULS3_WAN_ETHERNET_64'')) (is_dist ''WSTL_ULS3_WAN_ETHERNET_CO_64'')) (is_dist ''WSTL_ULS3_DMOCA_GENERIC_64'')) (is_dist ''WSTL_ULS3_VDSL_INFINEON_GENERIC_64'')) (is_dist ''WSTL_ULS3_TURBO_DUAL_MOCA_64'')) (is_dist ''WSTL_ULS3_VDSL_INFINEON_GENERIC_USB_64'')) (is_dist ''WSTL_ULS3_VDSL_IKANOS_GENERIC_64'')) (is_dist ''WSTL_ULS3_TURBO_M100_64'')) (is_dist ''WSTL_ULS3_TURBO_DUAL_MOCA_11N_64'')) (is_dist ''WSTL_ULS3_TURBO_COMMON_ART_64'')) [set_hw ''ULTRALINE3_TWINPASS'']
      [local_c dist_name (\<lambda>d. [set_hw d])],
   set_os ''LINUX_24'',
   token_set DC 3159 ''CONFIG_RG_JPKG_DIST'' ''JPKG_TWINPASS'' [],
   token_set DC 3160 ''LIC_AUTOCONF'' ''n'' [],
   enable_module DC 3163 ''MODULE_RG_FOUNDATION'',
   enable_module DC 3164 ''MODULE_RG_ADVANCED_MANAGEMENT'',
   enable_module DC 3165 ''MODULE_RG_ADVANCED_ROUTING'',
   enable_module DC 3166 ''MODULE_RG_PPP'',
   enable_module DC 3167 ''MODULE_RG_FIREWALL_AND_SECURITY'',
   enable_module DC 3168 ''MODULE_RG_VLAN'',
   enable_module DC 3169 ''MODULE_RG_URL_FILTERING'',
   enable_module DC 3170 ''MODULE_RG_IPSEC'',
   enable_module DC 3171 ''MODULE_RG_WLAN_AND_ADVANCED_WLAN'',
   enable_module DC 3173 ''MODULE_RG_UPNP'',
   when_c (conj_c (neg (is_dist ''WSTL_ULS3_TURBO_M100_64'')) (neg (is_dist ''WSTL_ULS3_TURBO_COMMON_ART_64''))) [
       enable_module DC 3179 ''MODULE_RG_DSLHOME'',
       enable_module DC 3180 ''MODULE_RG_TR_098''],
   enable_module DC 3184 ''MODULE_RG_TR_064'',
   enable_module DC 3185 ''MODULE_RG_QOS'',
   enable_module DC 3186 ''MODULE_RG_VLAN'',
   enable_module DC 3187 ''MODULE_RG_ROUTE_MULTIWAN'',
   token_set_y DC 3188 ''CONFIG_RG_FOOTPRINT_REDUCTION'',
   token_set DC 3189 ''CONFIG_RG_ADV_SERVICES_LEVEL'' ''1'' [],
   when_c (neg (is_dist ''WSTL_ULS3_TURBO_COMMON_ART_64'')) [
       token_set_m DC 3192 ''CONFIG_RG_DANUBE_DUALCORE'',
       token_set_m DC 3193 ''CONFIG_TWINPASS_DUALCORE_WLAN'',
       ifc (disj_c (is_dist ''WSTL_ULS3_TURBO_DUAL_MOCA_11N_64'') (is_dist ''WSTL_ULS3_DUAL_MOCA_USB_11N_64'')) [
         token_set_y DC 3196 ''CONFIG_HW_80211N_ATHEROS_AR50WL'',
         token_set_y DC 3197 ''CONFIG_INFINEON_PPE_D4_11N'']
        [token_set_y DC 3201 ''CONFIG_HW_80211G_ATHEROS_AR521X'']],
   when_c (is_dist ''WSTL_ULS3_TURBO_DUAL_MOCA_64'') [
       token_set_y DC 3206 ''CONFIG_WESTELL_WIRELESS_ONBOARD'',
       token_set_y DC 3207 ''CONFIG_DEBUG_PAGES''],
   when_c (is_dist ''WSTL_ULS3_VDSL_IKANOS_GENERIC_64'') [token_set_y DC 3211 ''CONFIG_GENERIC_IKANOS''],
   token_set_m DC 3214 ''CONFIG_RG_FASTPATH'',
   token_set DC 3216 ''LIBC_IN_TOOLCHAIN'' ''n'' [],
   token_set_y DC 3217 ''CONFIG_ULIBC'',
   token_set_y DC 3218 ''CONFIG_DYN_LINK'',
   token_set_y DC 3219 ''CONFIG_RG_THREADS'',
   token_set_y DC 3222 ''CONFIG_HW_ETH_LAN'',
   token_set_y DC 3223 ''CONFIG_HW_ETH_WAN'',
   token_set_y DC 3225 ''CONFIG_HW_ENCRYPTION'',
   token_set_y DC 3231 ''CONFIG_RG_PROD_IMG'',
   token_set_y DC 3232 ''CONFIG_WSTL_BOOTLOADER_IMG'',
   when_c (neg (is_dist ''TWINPASS'')) [
       token_set_m DC 3238 ''CONFIG_HW_BUTTONS'',
       token_set_y DC 3239 ''CONFIG_HW_LEDS'',
       token_set_m DC 3240 ''CONFIG_RG_HW_SWITCH_QOS'',
       when_c (conj_c (neg (is_dist ''WSTL_ULS3_TURBO_M100_64'')) (neg (is_dist ''WSTL_ULS3_TURBO_COMMON_ART_64''))) [token_set_y DC 3245 ''CONFIG_HW_MOCA'']]]"

definition dist_TWINPASS_2 :: "stmt" where
  "dist_TWINPASS_2 = block [
   when_c (disj_c (disj_c (disj_c (disj_c (disj_c (is_dist ''ULTRALINE3_TWINPASS'') (is_dist ''WSTL_ULS3_VDSL_IKANOS_64'')) (is_dist ''WSTL_ULS3_VDSL_INFINEON_64'')) (is_dist ''WSTL_ULS3_VDSL_INFINEON_GENERIC_64'')) (is_dist ''WSTL_ULS3_VDSL_INFINEON_GENERIC_USB_64'')) (is_dist ''WSTL_ULS3_VDSL_IKANOS_GENERIC_64'')) [
       when_c (disj_c (disj_c (is_dist ''WSTL_ULS3_VDSL_INFINEON_64'') (is_dist ''WSTL_ULS3_VDSL_INFINEON_GENERIC_64'')) (is_dist ''WSTL_ULS3_VDSL_INFINEON_GENERIC_USB_64'')) [token_set_y DC 3275 ''CONFIG_RG_INFINEON_VDSL''],
       token_set_y DC 3278 ''CONFIG_HW_VDSL_WAN''],
   when_c (disj_c (is_dist ''WSTL_ULS3_TURBO_DUAL_MOCA_64'') (is_dist ''WSTL_ULS3_TURBO_DUAL_MOCA_11N_64'')) [
       token_set_y DC 3286 ''CONFIG_HW_MOCA_WAN'',
       token_set_y DC 3287 ''MOCA_VERSION_1_1''],
   when_c (disj_c (disj_c (is_dist ''WSTL_ULS3_DUAL_MOCA_64'') (is_dist ''WSTL_ULS3_DUAL_MOCA_USB_11N_64'')) (is_dist ''WSTL_ULS3_DUAL_MOCA_USB_64'')) [
       token_set_y DC 3294 ''CONFIG_HW_MOCA_WAN'',
       token_set_y DC 3296 ''CONFIG_BASIC_LOG''],
   when_c (is_dist ''WSTL_ULS3_TURBO_M100_64'') [
       token_set_y DC 3302 ''CONFIG_HW_WAN_ETHERNET'',
       token_set_y DC 3303 ''CONFIG_WSTL_RETAIL''],
   when_c (is_dist ''WSTL_ULS3_DMOCA_GENERIC_64'') [
       token_set_y DC 3309 ''CONFIG_HW_MOCA_WAN'',
       token_set_y DC 3310 ''CONFIG_HW_DEF_TO_WAN_ETH'',
       token_set_y DC 3311 ''CONFIG_WSTL_GENERIC''],
   when_c (disj_c (disj_c (is_dist ''WSTL_ULS3_VDSL_INFINEON_GENERIC_64'') (is_dist ''WSTL_ULS3_VDSL_INFINEON_GENERIC_USB_64'')) (is_dist ''WSTL_ULS3_VDSL_IKANOS_GENERIC_64'')) [token_set_y DC 3319 ''CONFIG_WSTL_GENERIC''],
   when_c (disj_c (is_dist ''WSTL_ULS3_WAN_ETHERNET_64'') (is_dist ''WSTL_ULS3_WAN_ETHERNET_CO_64'')) [
       token_set_y DC 3325 ''CONFIG_HW_WAN_ETHERNET'',
       when_c (is_dist ''WSTL_ULS3_WAN_ETHERNET_CO_64'') [token_set_y DC 3327 ''CONFIG_WSTL_DUAL_SPI_MDIO''],
       token_set_y DC 3330 ''CONFIG_WSTL_COMCAST''],
   when_c (disj_c (is_dist ''WSTL_ULS3_DUAL_MOCA_USB_64'') (is_dist ''WSTL_ULS3_DUAL_MOCA_USB_11N_64'')) [token_set_y DC 3341 ''CONFIG_WSTL_USBHOSTOVERCURRENT_GPIO''],
   when_c (is_dist ''WSTL_ULS3_DUAL_MOCA_USB_11N_64'') [token_set_y DC 3352 ''CONFIG_INFINEON_PPE_D4'']]"

definition dist_TWINPASS_3 :: "stmt" where
  "dist_TWINPASS_3 = block [
   when_c (disj_c (is_dist ''WSTL_ULS3_TURBO_DUAL_MOCA_64'') (is_dist ''WSTL_ULS3_TURBO_DUAL_MOCA_11N_64'')) [
       token_set_y DC 3360 ''CONFIG_HW_TURBO_DUAL_MOCA'',
       token_set_y DC 3362 ''CONFIG_RG_TURBO_SWITCH_IGMP'',
       token_set_m DC 3363 ''CONFIG_RG_TURBO_SWITCH_IGMP_MODULE'',
       token_set_y DC 3364 ''CONFIG_INFINEON_PPE_D4'',
       token_set_y DC 3365 ''CONFIG_HW_USB_STORAGE'',
       enable_module DC 3366 ''MODULE_RG_FILESERVER''],
   when_c (disj_c (disj_c (is_dist ''WSTL_ULS3_DUAL_MOCA_64'') (is_dist ''WSTL_ULS3_DUAL_MOCA_USB_64'')) (is_dist ''WSTL_ULS3_DUAL_MOCA_USB_11N_64'')) [
       token_set_y DC 3380 ''CONFIG_HW_DUAL_MOCA'',
       token_set_y DC 3381 ''CONFIG_WSTL_CPLD_CONFIG'',
       token_set DC 3382 ''CONFIG_WSTL_CPLD_REVISION'' ''0'' []],
   when_c (is_dist ''WSTL_ULS3_TURBO_M100_64'') [
       token_set_y DC 3388 ''CONFIG_HW_TURBO_M100'',
       token_set_y DC 3390 ''CONFIG_RG_TURBO_SWITCH_IGMP'',
       token_set_m DC 3391 ''CONFIG_RG_TURBO_SWITCH_IGMP_MODULE'',
       token_set_y DC 3392 ''CONFIG_INFINEON_PPE_D4'',
       token_set_y DC 3393 ''CONFIG_HW_USB_STORAGE'',
       enable_module DC 3394 ''MODULE_RG_FILESERVER'',
       token_set_y DC 3395 ''CONFIG_WSTL_MEDIASERVER''],
   when_c (is_dist ''WSTL_ULS3_TURBO_COMMON_ART_64'') [
       token_set_y DC 3405 ''CONFIG_WESTELL_WIRELESS_ONBOARD'',
       token_set_y DC 3406 ''CONFIG_ATHEROS_ART_TOOLS'',
       token_set_y DC 3407 ''CONFIG_HW_TURBO_M100'',
       token_set_y DC 3408 ''CONFIG_INFINEON_PPE_D4'',
       token_set_y DC 3409 ''CONFIG_HW_WAN_ETHERNET'',
       token_set_y DC 3410 ''CONFIG_WSTL_GENERIC''],
   when_c (is_dist ''WSTL_ULS3_VDSL_INFINEON_GENERIC_USB_64'') [
       token_set_y DC 3416 ''CONFIG_HW_USB_STORAGE'',
       enable_module DC 3417 ''MODULE_RG_FILESERVER''],
   when_c (disj_c (disj_c (disj_c (disj_c (disj_c (disj_c (disj_c (disj_c (disj_c (disj_c (disj_c (disj_c (disj_c (disj_c (is_dist ''WSTL_ULS3_VDSL_IKANOS_64'') (is_dist ''WSTL_ULS3_DUAL_MOCA_64'')) (is_dist ''WSTL_ULS3_DUAL_MOCA_USB_64'')) (is_dist ''WSTL_ULS3_VDSL_INFINEON_64'')) (is_dist ''WSTL_ULS3_WAN_ETHERNET_64'')) (is_dist ''WSTL_ULS3_WAN_ETHERNET_CO_64'')) (is_dist ''WSTL_ULS3_DMOCA_GENERIC_64'')) (is_dist ''WSTL_ULS3_VDSL_INFINEON_GENERIC_64'')) (is_dist ''WSTL_ULS3_TURBO_DUAL_MOCA_64'')) (is_dist ''WSTL_ULS3_VDSL_INFINEON_GENERIC_USB_64'')) (is_dist ''WSTL_ULS3_VDSL_IKANOS_GENERIC_64'')) (is_dist ''WSTL_ULS3_TURBO_M100_64'')) (is_dist ''WSTL_ULS3_TURBO_DUAL_MOCA_11N_64'')) (is_dist ''WSTL_ULS3_TURBO_COMMON_ART_64'')) (is_dist ''WSTL_ULS3_DUAL_MOCA_USB_11N_64'')) [
       token_set_y DC 3437 ''CONFIG_RG_RMT_UPGRADE_IMG_IN_MEM'',
       token_set_y DC 3438 ''CONFIG_TWINPASS_64_MEG'']]"

definition dist_TWINPASS_4 :: "stmt" where
  "dist_TWINPASS_4 = block [
   ifc (is_dist ''WSTL_ULS3_VDSL_IKANOS_64'') [token_set_y DC 3444 ''CONFIG_BOOT_WSTL_VDSL_64'']
      [
       ifc (is_dist ''WSTL_ULS3_VDSL_IKANOS_GENERIC_64'') [token_set_y DC 3448 ''CONFIG_BOOT_WSTL_VDSL_64'']
        [
         ifc (disj_c (disj_c (is_dist ''WSTL_ULS3_VDSL_INFINEON_64'') (is_dist ''WSTL_ULS3_VDSL_INFINEON_GENERIC_64'')) (is_dist ''WSTL_ULS3_VDSL_INFINEON_GENERIC_USB_64'')) [token_set_y DC 3454 ''CONFIG_BOOT_WSTL_VDSL_64'']
          [
           ifc (disj_c (disj_c (disj_c (disj_c (disj_c (is_dist ''WSTL_ULS3_DUAL_MOCA_64'') (is_dist ''WSTL_ULS3_DUAL_MOCA_USB_64'')) (is_dist ''WSTL_ULS3_WAN_ETHERNET_64'')) (is_dist ''WSTL_ULS3_WAN_ETHERNET_CO_64'')) (is_dist ''WSTL_ULS3_DMOCA_GENERIC_64'')) (is_dist ''WSTL_ULS3_DUAL_MOCA_USB_11N_64'')) [token_set_y DC 3464 ''CONFIG_BOOT_WSTL_DUAL_MOCA_64'']
            [
             ifc (disj_c (is_dist ''WSTL_ULS3_TURBO_DUAL_MOCA_64'') (is_dist ''WSTL_ULS3_TURBO_DUAL_MOCA_11N_64'')) [token_set_y DC 3469 ''CONFIG_BOOT_WSTL_TURBO_64'']
              [
               ifc (disj_c (is_dist ''WSTL_ULS3_TURBO_M100_64'') (is_dist ''WSTL_ULS3_TURBO_COMMON_ART_64'')) [token_set_y DC 3474 ''CONFIG_BOOT_WSTL_M100_64'']
                [token_set_y DC 3481 ''CONFIG_BOOT_UBOOT_VDSL'']]]]]],
   ifc (disj_c (disj_c (disj_c (disj_c (is_dist ''WSTL_ULS3_VDSL_IKANOS_64'') (is_dist ''WSTL_ULS3_VDSL_INFINEON_64'')) (is_dist ''WSTL_ULS3_VDSL_INFINEON_GENERIC_64'')) (is_dist ''WSTL_ULS3_VDSL_IKANOS_GENERIC_64'')) (is_dist ''WSTL_ULS3_DUAL_MOCA_64'')) [
       token_set DC 3492 ''CONFIG_RG_FLASH_LAYOUT_SIZE'' ''8'' [],
       token_set_y DC 3493 ''CONFIG_WSTL_FLASH_LAYOUT_8FLASH_7APP'',
       token_set_y DC 3494 ''CONFIG_RG_DYN_FLASH_LAYOUT'']
      [
       ifc (disj_c (disj_c (disj_c (disj_c (disj_c (disj_c (is_dist ''WSTL_ULS3_TURBO_DUAL_MOCA_64'') (is_dist ''WSTL_ULS3_TURBO_M100_64'')) (is_dist ''WSTL_ULS3_WAN_ETHERNET_CO_64'')) (is_dist ''WSTL_ULS3_TURBO_DUAL_MOCA_11N_64'')) (is_dist ''WSTL_ULS3_VDSL_INFINEON_GENERIC_USB_64'')) (is_dist ''WSTL_ULS3_DUAL_MOCA_USB_64'')) (is_dist ''WSTL_ULS3_DUAL_MOCA_USB_11N_64'')) [
         token_set DC 3506 ''CONFIG_RG_FLASH_LAYOUT_SIZE'' ''16'' [],
         token_set_y DC 3507 ''CONFIG_WSTL_FLASH_LAYOUT_16FLASH'',
         token_set_y DC 3508 ''CONFIG_RG_DYN_FLASH_LAYOUT'']
        [
         ifc (is_dist ''WSTL_ULS3_TURBO_COMMON_ART_64'') [
           token_set DC 3513 ''CONFIG_RG_FLASH_LAYOUT_SIZE'' ''16'' [],
           token_set_y DC 3514 ''CONFIG_WSTL_FLASH_LAYOUT_16FLASH_ART'']
          [token_set DC 3520 ''CONFIG_RG_FLASH_LAYOUT_SIZE'' ''8'' []]]],
   token_set_y DC 3527 ''CONFIG_GUI_RG2'',
   token_set_y DC 3528 ''CONFIG_GUI_SMB2'',
   token_set_y DC 3531 ''CONFIG_GUI_RG'']"

definition dist_TWINPASS_5 :: "stmt" where
  "dist_TWINPASS_5 = block [
   when_c (disj_c (disj_c (disj_c (disj_c (disj_c (disj_c (disj_c (disj_c (disj_c (disj_c (disj_c (disj_c (disj_c (disj_c (is_dist ''WSTL_ULS3_VDSL_IKANOS_64'') (is_dist ''WSTL_ULS3_DUAL_MOCA_64'')) (is_dist ''WSTL_ULS3_DUAL_MOCA_USB_64'')) (is_dist ''WSTL_ULS3_VDSL_INFINEON_64'')) (is_dist ''WSTL_ULS3_WAN_ETHERNET_64'')) (is_dist ''WSTL_ULS3_WAN_ETHERNET_CO_64'')) (is_dist ''WSTL_ULS3_DMOCA_GENERIC_64'')) (is_dist ''WSTL_ULS3_VDSL_INFINEON_GENERIC_64'')) (is_dist ''WSTL_ULS3_TURBO_DUAL_MOCA_64'')) (is_dist ''WSTL_ULS3_VDSL_INFINEON_GENERIC_USB_64'')) (is_dist ''WSTL_ULS3_VDSL_IKANOS_GENERIC_64'')) (is_dist ''WSTL_ULS3_TURBO_M100_64'')) (is_dist ''WSTL_ULS3_TURBO_DUAL_MOCA_11N_64'')) (is_dist ''WSTL_ULS3_TURBO_COMMON_ART_64'')) (is_dist ''WSTL_ULS3_DUAL_MOCA_USB_11N_64'')) [
       token_set DC 3555 ''CONFIG_RG_SSID_NAME'' ''UltralineS3'' [],
       token_set_y DC 3556 ''CONFIG_WSTL_CONFIG_DEFAULTS'',
       token_set_y DC 3557 ''CONFIG_REDUCED_DNS_TRAFFIC'',
       token_set_y DC 3560 ''CONFIG_WESTELL_GUI'',
       when_c (is_dist ''WSTL_ULS3_VDSL_IKANOS_GENERIC_64'') [token_set_y DC 3564 ''CONFIG_WSTL_TR_HIDDEN_PAGE''],
       when_c (neg (disj_c (on ''CONFIG_HW_TURBO_M100'') (on ''CONFIG_HW_TURBO_DUAL_MOCA''))) [token_set_y DC 3568 ''CONFIG_BASIC_LOG''],
       ifc (is_dist ''WSTL_ULS3_TURBO_M100_64'') [
         token_set DC 3572 ''RG_PROD_STR'' ''UltraLine Media Server'' [],
         token_set_y DC 3573 ''CONFIG_GUI_WSTL_RETAIL'',
         token_set_y DC 3574 ''CONFIG_WSTL_4HOMEMEDIA_GUI'']
        [
         token_set_y DC 3579 ''CONFIG_GUI_WSTL'',
         token_set_y DC 3580 ''CONFIG_GUI_WSTL_VZ'',
         ifc (on ''CONFIG_WSTL_COMCAST'') [token_set DC 3582 ''RG_PROD_STR'' ''UltraLine Series3'' []]
          [
           token_set_y DC 3585 ''CONFIG_GUI_VZ_NO_ICONS'',
           token_set DC 3586 ''RG_PROD_STR'' ''Wireless Broadband Router'' []]],
       token_set_y DC 3610 ''CONFIG_WSTL_SAVE_RXDEV'',
       token_set_y DC 3611 ''CONFIG_WSTL_ARPMON'',
       token_set_y DC 3613 ''CONFIG_WSTL_FIREBALL'',
       token_set_y DC 3624 ''CONFIG_WSTL_GUI_HIDE'',
       token_set_y DC 3625 ''CONFIG_WSTL_GUI_NO_HELP'',
       token_set_y DC 3629 ''CONFIG_WSTL_LOG_DIAGNOSTICS'',
       token_set_y DC 3631 ''CONFIG_WSTL_DEV_STATS'',
       when_c (conj_c (conj_c (neg (on ''CONFIG_WSTL_COMCAST'')) (neg (on ''CONFIG_WSTL_RETAIL''))) (neg (on ''CONFIG_ATHEROS_ART_TOOLS''))) [
         when_c (neg (on ''CONFIG_WSTL_GENERIC'')) [
           token_set_y DC 3641 ''CONFIG_WSTL_WBA'',
           token_set_y DC 3642 ''CONFIG_VERIZON_ONLY'',
           token_set_y DC 3644 ''CONFIG_WSTL_VERIZON_DNS_RESOLUTION''],
         when_c (neg (on ''CONFIG_RG_WSTL_WAN_CABLE'')) [
           token_set_y DC 3649 ''CONFIG_WSTL_WAN_PROTOCOL_DETECT'',
           token_set_y DC 3652 ''CONFIG_WSTL_VERIZON_DHCP_OPT_60'']],
       when_c (on ''CONFIG_VERIZON_ONLY'') [token_set_y DC 3659 ''CONFIG_PPPSTUB''],
       when_c (conj_c (neg (on ''CONFIG_WSTL_RETAIL'')) (neg (on ''CONFIG_ATHEROS_ART_TOOLS''))) [token_set_y DC 3666 ''CONFIG_WSTL_TR_HIDDEN_PAGE''],
       when_c (neg (on ''CONFIG_ATHEROS_ART_TOOLS'')) [
         token_set_y DC 3672 ''CONFIG_WSTL_IGMP_CHANGE'',
         token_set_y DC 3673 ''CONFIG_WSTL_LOOP_DETECT''],
       token_set_y DC 3677 ''WSTL_QND_PARENTAL'',
       token_set_y DC 3681 ''CONFIG_WSTL_CR_FIX'']]"

definition dist_TWINPASS :: "stmt" where
  "dist_TWINPASS = block [
   dist_TWINPASS_1,
   dist_TWINPASS_2,
   dist_TWINPASS_3,
   dist_TWINPASS_4,
   dist_TWINPASS_5]"

definition dist_AD6834 :: "stmt" where
  "dist_AD6834 = block [
   set_hw ''AD6834'',
   enable_module DC 3691 ''MODULE_RG_FOUNDATION'',
   enable_module DC 3692 ''MODULE_RG_ADVANCED_MANAGEMENT'',
   enable_module DC 3693 ''MODULE_RG_UPNP'',
   enable_module DC 3694 ''MODULE_RG_FIREWALL_AND_SECURITY'',
   enable_module DC 3695 ''MODULE_RG_DSL'',
   enable_module DC 3696 ''MODULE_RG_PPP'',
   enable_module DC 3697 ''MODULE_RG_WLAN_AND_ADVANCED_WLAN'',
   enable_module DC 3698 ''MODULE_RG_IPSEC'',
   enable_module DC 3699 ''MODULE_RG_PPTP'',
   enable_module DC 3700 ''MODULE_RG_L2TP'',
   enable_module DC 3701 ''MODULE_RG_VLAN'',
   enable_module DC 3702 ''MODULE_RG_ADVANCED_ROUTING'',
   enable_module DC 3703 ''MODULE_RG_SNMP'',
   enable_module DC 3704 ''MODULE_RG_IPV6'',
   enable_module DC 3705 ''MODULE_RG_URL_FILTERING'',
   enable_module DC 3706 ''MODULE_RG_QOS'',
   enable_module DC 3707 ''MODULE_RG_ROUTE_MULTIWAN'',
   enable_module DC 3708 ''MODULE_RG_SSL_VPN'',
   token_set_y DC 3710 ''CONFIG_RG_PERM_STORAGE_VENDOR_HEADER'',
   token_set_y DC 3711 ''CONFIG_RG_NETTOOLS_ARP'',
   token_set DC 3713 ''LIBC_IN_TOOLCHAIN'' ''n'' [],
   token_set_y DC 3714 ''CONFIG_DYN_LINK'',
   enable_module DC 3716 ''MODULE_RG_VOIP_ASTERISK_SIP'',
   enable_module DC 3717 ''CONFIG_HW_DSP'',
   enable_module DC 3718 ''MODULE_RG_ATA'',
   enable_module DC 3720 ''MODULE_RG_BLUETOOTH'',
   enable_module DC 3723 ''CONFIG_HW_80211G_RALINK_RT2560'',
   token_set_y DC 3724 ''CONFIG_HW_ETH_LAN'',
   token_set_y DC 3725 ''CONFIG_HW_ETH_WAN'',
   token_set_y DC 3726 ''CONFIG_HW_DSL_WAN'',
   enable_module DC 3727 ''CONFIG_HW_USB_RNDIS'',
   enable_module DC 3728 ''CONFIG_HW_ENCRYPTION'',
   token_set DC 3736 ''CONFIG_RG_JPKG_DIST'' ''JPKG_LX4189'' []]"

definition dist_AD6834_26 :: "stmt" where
  "dist_AD6834_26 = block [
   set_hw ''AD6834'',
   set_os ''LINUX_26'',
   enable_module DC 3744 ''MODULE_RG_FOUNDATION'',
   enable_module DC 3745 ''MODULE_RG_ADVANCED_MANAGEMENT'',
   enable_module DC 3746 ''MODULE_RG_UPNP'',
   enable_module DC 3747 ''MODULE_RG_FIREWALL_AND_SECURITY'',
   enable_module DC 3748 ''MODULE_RG_DSL'',
   enable_module DC 3749 ''MODULE_RG_PPP'',
   enable_module DC 3750 ''MODULE_RG_WLAN_AND_ADVANCED_WLAN'',
   enable_module DC 3751 ''MODULE_RG_IPSEC'',
   enable_module DC 3752 ''MODULE_RG_PPTP'',
   enable_module DC 3753 ''MODULE_RG_L2TP'',
   enable_module DC 3754 ''MODULE_RG_VLAN'',
   enable_module DC 3755 ''MODULE_RG_ADVANCED_ROUTING'',
   enable_module DC 3756 ''MODULE_RG_SNMP'',
   enable_module DC 3757 ''MODULE_RG_IPV6'',
   enable_module DC 3758 ''MODULE_RG_URL_FILTERING'',
   enable_module DC 3759 ''MODULE_RG_QOS'',
   enable_module DC 3760 ''MODULE_RG_ROUTE_MULTIWAN'',
   enable_module DC 3761 ''MODULE_RG_SSL_VPN'',
   token_set_y DC 3763 ''CONFIG_RG_PERM_STORAGE_VENDOR_HEADER'',
   token_set_y DC 3764 ''CONFIG_RG_NETTOOLS_ARP'',
   token_set_y DC 3766 ''CONFIG_DYN_LINK'',
   enable_module DC 3768 ''MODULE_RG_BLUETOOTH'',
   token_set_y DC 3771 ''CONFIG_HW_ETH_LAN'',
   token_set_y DC 3772 ''CONFIG_HW_ETH_WAN'',
   token_set_y DC 3773 ''CONFIG_HW_DSL_WAN'',
   enable_module DC 3774 ''CONFIG_HW_ENCRYPTION'',
   token_set DC 3777 ''CONFIG_RG_JPKG_DIST'' ''JPKG_LX4189'' [],
   token_set_y DC 3780 ''CONFIG_RG_INITFS_RAMFS'',
   token_set_y DC 3781 ''CONFIG_RG_MAINFS_CRAMFS'',
   token_set_y DC 3782 ''CONFIG_RG_MODFS_CRAMFS'']"

definition dist_AD6834_26_LSP :: "stmt" where
  "dist_AD6834_26_LSP = block [
   set_hw ''AD6834'',
   set_os ''LINUX_26'',
   token_set_y DC 3788 ''CONFIG_DYN_LINK'',
   token_set_y DC 3790 ''CONFIG_LSP_DIST'',
   token_set_y DC 3791 ''CONFIG_RG_PERM_STORAGE'',
   token_set_y DC 3794 ''CONFIG_HW_ETH_LAN'',
   token_set_y DC 3798 ''CONFIG_LSP_FLASH_LAYOUT'',
   token_set_y DC 3799 ''CONFIG_RG_INITFS_RAMFS'',
   token_set_y DC 3800 ''CONFIG_RG_MAINFS_CRAMFS'',
   token_set_y DC 3802 ''CONFIG_SIMPLE_RAMDISK'']"

definition dist_JNET_SERVER :: "stmt" where
  "dist_JNET_SERVER = block [
   set_jnet_server_configs,
   token_set_y DC 3808 ''CONFIG_RG_USE_LOCAL_TOOLCHAIN'',
   token_set_y DC 3809 ''CONFIG_RG_BUILD_LOCAL_TARGETS_ONLY'']"

definition dist_BCM96358_LSP :: "stmt" where
  "dist_BCM96358_LSP = block [
   set_hw ''BCM96358'',
   set_os ''LINUX_26'',
   token_set_y DC 3816 ''CONFIG_LSP_DIST'',
   token_set_y DC 3821 ''CONFIG_HW_ETH_LAN'',
   token_set DC 3823 ''LIBC_IN_TOOLCHAIN'' ''n'' [],
   token_set_y DC 3825 ''CONFIG_RG_INITFS_RAMFS'',
   token_set_y DC 3826 ''CONFIG_RG_MAINFS_CRAMFS'',
   token_set_y DC 3827 ''CONFIG_RG_MODFS_CRAMFS'']"

definition dist_BCM96358 :: "stmt" where
  "dist_BCM96358 = block [
   set_hw ''BCM96358'',
   set_os ''LINUX_26'',
   token_set DC 3837 ''CONFIG_RG_JPKG_DIST'' ''JPKG_MIPSEB'' [],
   small_flash_default_dist,
   token_set_y DC 3841 ''CONFIG_HW_ETH_WAN'',
   token_set_y DC 3842 ''CONFIG_HW_SWITCH_LAN'',
   token_set_y DC 3843 ''CONFIG_HW_DSL_WAN'',
   token_set_y DC 3844 ''CONFIG_RG_NETTOOLS_ARP'',
   enable_module DC 3846 ''CONFIG_HW_80211G_BCM43XX'',
   enable_module DC 3847 ''MODULE_RG_WLAN_AND_ADVANCED_WLAN'',
   enable_module DC 3849 ''MODULE_RG_ROUTE_MULTIWAN'',
   token_set DC 3853 ''LIBC_IN_TOOLCHAIN'' ''y'' [],
   token_set_y DC 3855 ''CONFIG_RG_INITFS_RAMFS'',
   token_set_y DC 3856 ''CONFIG_RG_MAINFS_CRAMFS'',
   token_set_y DC 3857 ''CONFIG_RG_MODFS_CRAMFS'']"

definition dist_REDBOOT_RICHFIELD :: "stmt" where
  "dist_REDBOOT_RICHFIELD = block [
   set_hw ''RICHFIELD'',
   set_os ''ECOS'',
   token_set DC 3865 ''DIST_TYPE'' ''BOOTLDR'' []]"

definition dist_REDBOOT_MATECUMBE :: "stmt" where
  "dist_REDBOOT_MATECUMBE = block [
   set_hw ''MATECUMBE'',
   set_os ''ECOS'',
   token_set DC 3871 ''DIST_TYPE'' ''BOOTLDR'' []]"

definition dist_REDBOOT_COYOTE :: "stmt" where
  "dist_REDBOOT_COYOTE = block [
   set_hw ''COYOTE'',
   set_os ''ECOS'',
   token_set DC 3877 ''DIST_TYPE'' ''BOOTLDR'' []]"

definition dist_REDBOOT_NAPA :: "stmt" where
  "dist_REDBOOT_NAPA = block [
   set_hw ''NAPA'',
   set_os ''ECOS'',
   token_set DC 3883 ''DIST_TYPE'' ''BOOTLDR'' []]"

definition dist_RGLOADER_IXDP425 :: "stmt" where
  "dist_RGLOADER_IXDP425 = block [
   set_hw ''IXDP425'',
   token_set_y DC 3891 ''CONFIG_RG_RGLOADER'',
   token_set_y DC 3892 ''CONFIG_IXP425_COMMON_RGLOADER'',
   token_set_y DC 3895 ''CONFIG_HW_ETH_WAN'',
   token_set_y DC 3896 ''CONFIG_HW_ETH_LAN'',
   token_set DC 3898 ''CONFIG_IXDP425_KGDB_UART'' ''1'' [],
   token_set DC 3901 ''CONFIG_IXP425_FLASH_E28F128J3'' ''m'' [],
   when_c (is_dist ''RGLOADER_IXDP425_16MB'') [token_set DC 3904 ''CONFIG_RG_FLASH_LAYOUT_SIZE'' ''16'' []],
   when_c (is_dist ''RGLOADER_IXDP425_LSP'') [token_set_y DC 3907 ''CONFIG_LSP_FLASH_LAYOUT'']]"

definition dist_RGLOADER_MATECUMBE :: "stmt" where
  "dist_RGLOADER_MATECUMBE = block [
   set_hw ''MATECUMBE'',
   token_set_y DC 3913 ''CONFIG_RG_RGLOADER'',
   token_set_y DC 3914 ''CONFIG_IXP425_COMMON_RGLOADER'',
   token_set_y DC 3917 ''CONFIG_HW_ETH_WAN'',
   token_set_y DC 3918 ''CONFIG_HW_ETH_LAN'']"

definition dist_RGLOADER_NAPA :: "stmt" where
  "dist_RGLOADER_NAPA = block [
   set_hw ''NAPA'',
   token_set_y DC 3924 ''CONFIG_RG_RGLOADER'',
   token_set_y DC 3925 ''CONFIG_IXP425_COMMON_RGLOADER'',
   token_set_y DC 3926 ''CONFIG_IXP425_POST'',
   token_set_y DC 3929 ''CONFIG_HW_ETH_LAN2'',
   token_set_y DC 3930 ''CONFIG_HW_ETH_LAN'']"

lemma ok_dist_MONTEJADE [safe_scripts]: "ok base_schema value_tokens J dist_MONTEJADE"
  unfolding dist_MONTEJADE_def
  by (intro safe_intros shipped.ok_sets shipped.ok_enable_module safe_scripts; simp)


lemma ok_dist_PCBOX_EEP_EEP_EICON [safe_scripts]: "ok base_schema value_tokens J dist_PCBOX_EEP_EEP_EICON"
  unfolding dist_PCBOX_EEP_EEP_EICON_def
  by (intro safe_intros shipped.ok_sets shipped.ok_enable_module safe_scripts; simp)


lemma ok_dist_COYOTE_LSP [safe_scripts]: "ok base_schema value_tokens J dist_COYOTE_LSP"
  unfolding dist_COYOTE_LSP_def
  by (intro safe_intros shipped.ok_sets shipped.ok_enable_module safe_scripts; simp)


lemma ok_dist_COYOTE_EEP [safe_scripts]: "ok base_schema value_tokens J dist_COYOTE_EEP"
  unfolding dist_COYOTE_EEP_def
  by (intro safe_intros shipped.ok_sets shipped.ok_enable_module safe_scripts; simp)


lemma ok_dist_RGLOADER_JIWIS8XX [safe_scripts]: "ok base_schema value_tokens J dist_RGLOADER_JIWIS8XX"
  unfolding dist_RGLOADER_JIWIS8XX_def
  by (intro safe_intros shipped.ok_sets shipped.ok_enable_module safe_scripts; simp)


lemma ok_dist_COYOTE_ALL [safe_scripts]: "ok base_schema value_tokens J dist_COYOTE_ALL"
  unfolding dist_COYOTE_ALL_def
  by (intro safe_intros shipped.ok_sets shipped.ok_enable_module safe_scripts; simp)


lemma ok_dist_COYOTE_ATM_WIRELESS_ISL [safe_scripts]: "ok base_schema value_tokens J dist_COYOTE_ATM_WIRELESS_ISL"
  unfolding dist_COYOTE_ATM_WIRELESS_ISL_def
  by (intro safe_intros shipped.ok_sets shipped.ok_enable_module safe_scripts; simp)


lemma ok_dist_RGLOADER_BRUCE [safe_scripts]: "ok base_schema value_tokens J dist_RGLOADER_BRUCE"
  unfolding dist_RGLOADER_BRUCE_def
  by (intro safe_intros shipped.ok_sets shipped.ok_enable_module safe_scripts; simp)


lemma ok_dist_BRUCE [safe_scripts]: "ok base_schema value_tokens J dist_BRUCE"
  unfolding dist_BRUCE_def
  by (intro safe_intros shipped.ok_sets shipped.ok_enable_module safe_scripts; simp)


lemma ok_dist_TWINPASS_1 [safe_scripts]: "ok base_schema value_tokens J dist_TWINPASS_1"
  unfolding dist_TWINPASS_1_def
  by (intro safe_intros shipped.ok_sets shipped.ok_enable_module safe_scripts; simp)


lemma ok_dist_TWINPASS_2 [safe_scripts]: "ok base_schema value_tokens J dist_TWINPASS_2"
  unfolding dist_TWINPASS_2_def
  by (intro safe_intros shipped.ok_sets shipped.ok_enable_module safe_scripts; simp)


lemma ok_dist_TWINPASS_3 [safe_scripts]: "ok base_schema value_tokens J dist_TWINPASS_3"
  unfolding dist_TWINPASS_3_def
  by (intro safe_intros shipped.ok_sets shipped.ok_enable_module safe_scripts; simp)


lemma ok_dist_TWINPASS_4 [safe_scripts]: "ok base_schema value_tokens J dist_TWINPASS_4"
  unfolding dist_TWINPASS_4_def
  by (intro safe_intros shipped.ok_sets shipped.ok_enable_module safe_scripts; simp)


lemma ok_dist_TWINPASS_5 [safe_scripts]: "ok base_schema value_tokens J dist_TWINPASS_5"
  unfolding dist_TWINPASS_5_def
  by (intro safe_intros shipped.ok_sets shipped.ok_enable_module safe_scripts; simp)


lemma ok_dist_TWINPASS [safe_scripts]: "ok base_schema value_tokens J dist_TWINPASS"
  unfolding dist_TWINPASS_def
  by (intro safe_intros shipped.ok_sets shipped.ok_enable_module safe_scripts; simp)


lemma ok_dist_AD6834 [safe_scripts]: "ok base_schema value_tokens J dist_AD6834"
  unfolding dist_AD6834_def
  by (intro safe_intros shipped.ok_sets shipped.ok_enable_module safe_scripts; simp)


lemma ok_dist_AD6834_26 [safe_scripts]: "ok base_schema value_tokens J dist_AD6834_26"
  unfolding dist_AD6834_26_def
  by (intro safe_intros shipped.ok_sets shipped.ok_enable_module safe_scripts; simp)


lemma ok_dist_AD6834_26_LSP [safe_scripts]: "ok base_schema value_tokens J dist_AD6834_26_LSP"
  unfolding dist_AD6834_26_LSP_def
  by (intro safe_intros shipped.ok_sets shipped.ok_enable_module safe_scripts; simp)


lemma ok_dist_JNET_SERVER [safe_scripts]: "ok base_schema value_tokens J dist_JNET_SERVER"
  unfolding dist_JNET_SERVER_def
  by (intro safe_intros shipped.ok_sets shipped.ok_enable_module safe_scripts; simp)


lemma ok_dist_BCM96358_LSP [safe_scripts]: "ok base_schema value_tokens J dist_BCM96358_LSP"
  unfolding dist_BCM96358_LSP_def
  by (intro safe_intros shipped.ok_sets shipped.ok_enable_module safe_scripts; simp)


lemma ok_dist_BCM96358 [safe_scripts]: "ok base_schema value_tokens J dist_BCM96358"
  unfolding dist_BCM96358_def
  by (intro safe_intros shipped.ok_sets shipped.ok_enable_module safe_scripts; simp)


lemma ok_dist_REDBOOT_RICHFIELD [safe_scripts]: "ok base_schema value_tokens J dist_REDBOOT_RICHFIELD"
  unfolding dist_REDBOOT_RICHFIELD_def
  by (intro safe_intros shipped.ok_sets shipped.ok_enable_module safe_scripts; simp)


lemma ok_dist_REDBOOT_MATECUMBE [safe_scripts]: "ok base_schema value_tokens J dist_REDBOOT_MATECUMBE"
  unfolding dist_REDBOOT_MATECUMBE_def
  by (intro safe_intros shipped.ok_sets shipped.ok_enable_module safe_scripts; simp)


lemma ok_dist_REDBOOT_COYOTE [safe_scripts]: "ok base_schema value_tokens J dist_REDBOOT_COYOTE"
  unfolding dist_REDBOOT_COYOTE_def
  by (intro safe_intros shipped.ok_sets shipped.ok_enable_module safe_scripts; simp)


lemma ok_dist_REDBOOT_NAPA [safe_scripts]: "ok base_schema value_tokens J dist_REDBOOT_NAPA"
  unfolding dist_REDBOOT_NAPA_def
  by (intro safe_intros shipped.ok_sets shipped.ok_enable_module safe_scripts; simp)


lemma ok_dist_RGLOADER_IXDP425 [safe_scripts]: "ok base_schema value_tokens J dist_RGLOADER_IXDP425"
  unfolding dist_RGLOADER_IXDP425_def
  by (intro safe_intros shipped.ok_sets shipped.ok_enable_module safe_scripts; simp)


lemma ok_dist_RGLOADER_MATECUMBE [safe_scripts]: "ok base_schema value_tokens J dist_RGLOADER_MATECUMBE"
  unfolding dist_RGLOADER_MATECUMBE_def
  by (intro safe_intros shipped.ok_sets shipped.ok_enable_module safe_scripts; simp)


lemma ok_dist_RGLOADER_NAPA [safe_scripts]: "ok base_schema value_tokens J dist_RGLOADER_NAPA"
  unfolding dist_RGLOADER_NAPA_def
  by (intro safe_intros shipped.ok_sets shipped.ok_enable_module safe_scripts; simp)


end
