(* ===== verification/Dist_Config_5.thy ===== *)
theory Dist_Config_5
  imports Dist_Config_4
begin

text \<open>
  \<open>distribution_features\<close> of \<open>dist_config.c\<close>, lines 3932 to 4529: one definition per
  branch of the chain over the distribution's name.
\<close>

definition dist_RGLOADER_COYOTE :: "stmt" where
  "dist_RGLOADER_COYOTE = block [
   set_hw ''COYOTE'',
   token_set_y DC 3936 ''CONFIG_RG_RGLOADER'',
   token_set_y DC 3937 ''CONFIG_IXP425_COMMON_RGLOADER'',
   token_set_y DC 3940 ''CONFIG_HW_ETH_LAN'']"

definition dist_RGLOADER_COYOTE_64MB_RAM :: "stmt" where
  "dist_RGLOADER_COYOTE_64MB_RAM = block [
   set_hw ''COYOTE'',
   token_set_y DC 3945 ''CONFIG_RG_RGLOADER'',
   token_set_y DC 3946 ''CONFIG_IXP425_COMMON_RGLOADER'',
   token_set DC 3949 ''CONFIG_IXP425_SDRAM_SIZE'' ''64'' [],
   token_set_y DC 3950 ''CONFIG_HW_ETH_LAN'',
   token_set DC 3951 ''CONFIG_RG_JPKG_DIST'' ''JPKG_ARMV5B'' []]"

definition dist_RGLOADER_COYOTE_64MB_RAM_32MB_FLASH :: "stmt" where
  "dist_RGLOADER_COYOTE_64MB_RAM_32MB_FLASH = block [
   set_hw ''COYOTE'',
   token_set_y DC 3956 ''CONFIG_RG_RGLOADER'',
   token_set_y DC 3957 ''CONFIG_IXP425_COMMON_RGLOADER'',
   token_set_y DC 3958 ''CONFIG_MTD_CONCAT'',
   token_set DC 3961 ''CONFIG_RG_FLASH_LAYOUT_SIZE'' ''32'' [],
   token_set DC 3962 ''CONFIG_IXP425_SDRAM_SIZE'' ''64'' [],
   token_set DC 3963 ''CONFIG_IXP425_NUMBER_OF_FLASH_CHIPS'' ''2'' [],
   token_set_y DC 3964 ''CONFIG_HW_ETH_LAN'']"

definition dist_RGLOADER_COYOTE_LSP :: "stmt" where
  "dist_RGLOADER_COYOTE_LSP = block [
   set_hw ''COYOTE'',
   token_set_y DC 3970 ''CONFIG_RG_RGLOADER'',
   token_set_y DC 3971 ''CONFIG_IXP425_COMMON_RGLOADER'',
   token_set_y DC 3972 ''CONFIG_LSP_FLASH_LAYOUT'',
   token_set_y DC 3975 ''CONFIG_HW_ETH_LAN'']"

definition dist_RGLOADER_MONTEJADE :: "stmt" where
  "dist_RGLOADER_MONTEJADE = block [
   set_hw ''MONTEJADE'',
   token_set_y DC 3981 ''CONFIG_RG_RGLOADER'',
   token_set_y DC 3982 ''CONFIG_IXP425_COMMON_RGLOADER'',
   token_set_y DC 3983 ''CONFIG_RG_DYN_FLASH_LAYOUT'',
   token_set_y DC 3986 ''CONFIG_HW_ETH_LAN'',
   token_set_y DC 3987 ''CONFIG_HW_ETH_LAN2'',
   token_set DC 3988 ''CONFIG_RG_JPKG_DIST'' ''JPKG_ARMV5B'' []]"

definition dist_RGLOADER_HG21 :: "stmt" where
  "dist_RGLOADER_HG21 = block [
   set_hw ''HG21'',
   token_set_y DC 3994 ''CONFIG_RG_RGLOADER'',
   token_set_y DC 3995 ''CONFIG_IXP425_COMMON_RGLOADER'',
   token_set_y DC 3998 ''CONFIG_HW_ETH_LAN'',
   token_set_y DC 3999 ''CONFIG_HW_ETH_LAN2'']"

definition dist_RGLOADER_BAMBOO :: "stmt" where
  "dist_RGLOADER_BAMBOO = block [
   set_hw ''BAMBOO'',
   token_set_y DC 4005 ''CONFIG_RG_RGLOADER'',
   token_set_y DC 4006 ''CONFIG_IXP425_COMMON_RGLOADER'',
   token_set_y DC 4009 ''CONFIG_HW_ETH_LAN'',
   token_set_y DC 4010 ''CONFIG_HW_ETH_LAN2'']"

definition dist_RGLOADER_GTWX5715 :: "stmt" where
  "dist_RGLOADER_GTWX5715 = block [
   set_hw ''GTWX5715'',
   token_set_y DC 4016 ''CONFIG_RG_RGLOADER'',
   token_set_y DC 4017 ''CONFIG_IXP425_COMMON_RGLOADER'',
   token_set_y DC 4020 ''CONFIG_HW_ETH_LAN'',
   token_set_y DC 4021 ''CONFIG_HW_ETH_LAN2'',
   token_set_y DC 4024 ''CONFIG_WX5715_VLAN_SWITCH_DISABLE'']"

definition dist_RGLOADER_ALLWELL_RTL_RTL :: "stmt" where
  "dist_RGLOADER_ALLWELL_RTL_RTL = block [
   set_hw ''ALLWELL_RTL_RTL'',
   token_set_y DC 4030 ''CONFIG_RG_RGLOADER'',
   token_set_y DC 4033 ''CONFIG_HW_ETH_LAN'',
   token_set_y DC 4034 ''CONFIG_HW_ETH_LAN2'']"

definition dist_RGLOADER_ALLWELL_RTL_EEP :: "stmt" where
  "dist_RGLOADER_ALLWELL_RTL_EEP = block [
   set_hw ''ALLWELL_RTL_EEP'',
   token_set_y DC 4040 ''CONFIG_RG_RGLOADER'',
   token_set_y DC 4043 ''CONFIG_HW_ETH_LAN'',
   token_set_y DC 4044 ''CONFIG_HW_ETH_LAN2'']"

definition dist_RGLOADER_ALLWELL_EEP_EEP :: "stmt" where
  "dist_RGLOADER_ALLWELL_EEP_EEP = block [
   set_hw ''PCBOX_EEP_EEP'',
   token_set_y DC 4050 ''CONFIG_RG_RGLOADER'',
   token_set_y DC 4053 ''CONFIG_HW_ETH_LAN'',
   token_set_y DC 4054 ''CONFIG_HW_ETH_LAN2'']"

definition dist_RGLOADER_WAV54G :: "stmt" where
  "dist_RGLOADER_WAV54G = block [
   set_hw ''WAV54G'',
   token_set_y DC 4060 ''CONFIG_RG_RGLOADER'',
   token_set_y DC 4061 ''CONFIG_IXP425_COMMON_RGLOADER'',
   token_set_y DC 4064 ''CONFIG_HW_ETH_LAN'',
   token_set_y DC 4065 ''CONFIG_HW_ETH_LAN2'',
   token_set_m DC 4066 ''CONFIG_HW_BUTTONS'']"

definition dist_WRT55AG :: "stmt" where
  "dist_WRT55AG = block [
   set_os ''VXWORKS'',
   ifc (is_dist ''WRT55AG'') [set_hw ''AR531X_WRT55AG'']
      [
       ifc (is_dist ''ATHEROS_AR531X_AG_VX'') [set_hw ''AR531X_AG'']
        [set_hw ''AR531X_G'']],
   enable_module DC 4080 ''MODULE_RG_FOUNDATION'',
   enable_module DC 4081 ''MODULE_RG_ADVANCED_MANAGEMENT'',
   enable_module DC 4082 ''MODULE_RG_SNMP'',
   enable_module DC 4083 ''MODULE_RG_PPP'',
   enable_module DC 4084 ''MODULE_RG_VLAN'',
   enable_module DC 4085 ''MODULE_RG_UPNP'',
   enable_module DC 4086 ''MODULE_RG_ADVANCED_ROUTING'',
   enable_module DC 4087 ''MODULE_RG_FIREWALL_AND_SECURITY'',
   enable_module DC 4088 ''MODULE_RG_URL_FILTERING'',
   token_set_y DC 4091 ''CONFIG_HW_ETH_WAN'',
   token_set_y DC 4092 ''CONFIG_HW_ETH_LAN'',
   enable_module DC 4093 ''CONFIG_HW_80211G_AR531X'',
   when_c (disj_c (is_dist ''WRT55AG'') (is_dist ''ATHEROS_AR531X_AG_VX'')) [enable_module DC 4095 ''CONFIG_HW_80211A_AR531X''],
   token_set_m DC 4096 ''CONFIG_HW_BUTTONS'',
   token_set_y DC 4098 ''CONFIG_RG_SSI_PAGES'',
   token_set_y DC 4099 ''CONFIG_RG_LAN_BRIDGE_CONST'',
   token_set_y DC 4100 ''CONFIG_RG_RMT_MNG'',
   token_set_y DC 4101 ''CONFIG_RG_STATIC_ROUTE'',
   token_set_y DC 4102 ''CONFIG_RG_ENTFY'',
   token_set DC 4103 ''CONFIG_SDRAM_SIZE'' ''16'' [],
   token_set_y DC 4105 ''CONFIG_RG_WLAN_STA_STATISTICS_WBM'',
   token_set_y DC 4108 ''CONFIG_80211G_AP_ADVANCED'',
   token_set_y DC 4109 ''CONFIG_RG_WPA_WBM'',
   token_set_y DC 4110 ''CONFIG_RG_RADIUS_WBM_IN_CONN'',
   token_set_y DC 4111 ''CONFIG_RG_8021X_WBM'',
   ifc (neg (is_dist ''WRT55AG_INT'')) []
      []]"

definition dist_AR2313_LIZZY :: "stmt" where
  "dist_AR2313_LIZZY = block [
   set_os ''VXWORKS'',
   token_set_y DC 4123 ''CONFIG_RG_FOUNDATION_CORE'',
   token_set_y DC 4126 ''CONFIG_RG_DHCPS'',
   token_set_y DC 4129 ''CONFIG_RG_TELNETS'',
   token_set_y DC 4132 ''CONFIG_RG_BRIDGE'',
   token_set_y DC 4135 ''CONFIG_RG_NAT'',
   token_set_y DC 4138 ''CONFIG_RG_ALG'',
   token_set_y DC 4139 ''CONFIG_RG_ALG_SIP'',
   token_set_y DC 4140 ''CONFIG_RG_ALG_H323'',
   token_set_y DC 4141 ''CONFIG_RG_ALG_AIM'',
   token_set_y DC 4142 ''CONFIG_RG_ALG_MSNMS'',
   token_set_y DC 4143 ''CONFIG_RG_ALG_PPTP'',
   token_set_y DC 4144 ''CONFIG_RG_ALG_IPSEC'',
   token_set_y DC 4145 ''CONFIG_RG_ALG_L2TP'',
   token_set_y DC 4146 ''CONFIG_RG_ALG_ICMP'',
   token_set_y DC 4147 ''CONFIG_RG_ALG_PORT_TRIGGER'',
   token_set_y DC 4148 ''CONFIG_RG_ALG_FTP'',
   token_set_y DC 4149 ''CONFIG_RG_ALG_RTSP'',
   token_set_y DC 4152 ''CONFIG_RG_MSS'',
   enable_module DC 4154 ''MODULE_RG_PPP'',
   enable_module DC 4155 ''MODULE_RG_UPNP'',
   enable_module DC 4156 ''MODULE_RG_ADVANCED_ROUTING'',
   enable_module DC 4157 ''MODULE_RG_FIREWALL_AND_SECURITY'',
   enable_module DC 4160 ''MODULE_RG_VLAN'',
   token_set_y DC 4163 ''CONFIG_RG_DHCPR'',
   token_set_y DC 4164 ''CONFIG_RG_URL_KEYWORD_FILTER'',
   when_c (is_dist ''AR2313_LIZZY'') [
       enable_module DC 4169 ''MODULE_RG_WLAN_AND_ADVANCED_WLAN'',
       token_set_y DC 4170 ''CONFIG_RG_RADIUS_WBM_IN_CONN'',
       token_set_y DC 4171 ''CONFIG_RG_WLAN_REPEATING'',
       token_set_y DC 4172 ''CONFIG_RG_WDS_CONN_NOTIFIER'',
       token_set DC 4173 ''CONFIG_RG_SSID_NAME'' ''wireless'' []],
   token_set_y DC 4177 ''CONFIG_HW_ETH_WAN'',
   token_set_y DC 4178 ''CONFIG_HW_ETH_LAN'',
   when_c (is_dist ''AR2313_LIZZY'') [
       enable_module DC 4181 ''CONFIG_HW_80211G_AR531X'',
       token_set_y DC 4182 ''CONFIG_HW_BUTTONS''],
   token_set_y DC 4185 ''CONFIG_RG_SSI_PAGES'',
   token_set_y DC 4186 ''CONFIG_RG_LAN_BRIDGE_CONST'',
   token_set_y DC 4187 ''CONFIG_RG_RMT_MNG'',
   token_set_y DC 4188 ''CONFIG_RG_STATIC_ROUTE'',
   token_set_y DC 4191 ''CONFIG_RG_ENTFY'',
   token_set_y DC 4194 ''CONFIG_RG_EVENT_LOGGING'',
   token_set DC 4196 ''CONFIG_SDRAM_SIZE'' ''8'' [],
   token_set_y DC 4199 ''CONFIG_RG_STATISTICS_CTRL_WBM'',
   token_set_y DC 4200 ''CONFIG_RG_WLAN_STA_STATISTICS_WBM'',
   ifc (is_dist ''AR2313_LIZZY'') [set_hw ''AR531X_G'']
      [set_hw ''I386_BOCHS'']]"

definition dist_AR2313_ZIPPY :: "stmt" where
  "dist_AR2313_ZIPPY = block [
   set_os ''VXWORKS'',
   enable_module DC 4219 ''MODULE_RG_FOUNDATION'',
   enable_module DC 4220 ''MODULE_RG_ADVANCED_MANAGEMENT'',
   enable_module DC 4221 ''MODULE_RG_SNMP'',
   enable_module DC 4222 ''MODULE_RG_PPP'',
   enable_module DC 4223 ''MODULE_RG_UPNP'',
   enable_module DC 4224 ''MODULE_RG_ADVANCED_ROUTING'',
   enable_module DC 4225 ''MODULE_RG_FIREWALL_AND_SECURITY'',
   token_set_y DC 4228 ''CONFIG_RG_DHCPR'',
   token_set_y DC 4229 ''CONFIG_RG_URL_KEYWORD_FILTER'',
   token_set_y DC 4232 ''CONFIG_HW_ETH_WAN'',
   token_set_y DC 4233 ''CONFIG_HW_ETH_LAN'',
   when_c (is_dist ''AR2313_ZIPPY'') [
       enable_module DC 4237 ''CONFIG_HW_80211G_AR531X'',
       token_set_y DC 4238 ''CONFIG_HW_BUTTONS''],
   token_set_y DC 4241 ''CONFIG_RG_SSI_PAGES'',
   token_set_y DC 4242 ''CONFIG_RG_LAN_BRIDGE_CONST'',
   when_c (is_dist ''AR2313_ZIPPY'') [
       enable_module DC 4246 ''MODULE_RG_WLAN_AND_ADVANCED_WLAN'',
       token_set_y DC 4247 ''CONFIG_RG_RADIUS_WBM_IN_CONN'',
       token_set_y DC 4248 ''CONFIG_AR531X_DEBUG''],
   token_set DC 4251 ''CONFIG_SDRAM_SIZE'' ''16'' [],
   token_set_y DC 4254 ''CONFIG_RG_STATISTICS_CTRL_WBM'',
   token_set_y DC 4255 ''CONFIG_RG_WLAN_STA_STATISTICS_WBM'',
   ifc (is_dist ''AR2313_ZIPPY'') [set_hw ''AR531X_G'']
      [set_hw ''I386_BOCHS'']]"

definition dist_ATHEROS_AR531X_VX :: "stmt" where
  "dist_ATHEROS_AR531X_VX = block [
   set_os ''VXWORKS'',
   set_hw ''AR531X_G'',
   token_set_y DC 4273 ''CONFIG_RG_SMB'',
   enable_module DC 4275 ''MODULE_RG_FOUNDATION'',
   enable_module DC 4276 ''MODULE_RG_UPNP'',
   enable_module DC 4277 ''MODULE_RG_PPP'',
   enable_module DC 4278 ''MODULE_RG_FIREWALL_AND_SECURITY'',
   enable_module DC 4279 ''MODULE_RG_ADVANCED_ROUTING'',
   enable_module DC 4280 ''MODULE_RG_WLAN_AND_ADVANCED_WLAN'',
   token_set_y DC 4281 ''CONFIG_RG_TFTP_UPGRADE'',
   token_set_y DC 4282 ''CONFIG_RG_TFTP_SERVER_PASSWORD'',
   token_set_y DC 4283 ''CONFIG_RG_ENTFY'',
   token_set_y DC 4284 ''CONFIG_RG_EVENT_LOGGING'',
   token_set_y DC 4285 ''CONFIG_RG_URL_KEYWORD_FILTER'',
   token_set_y DC 4288 ''CONFIG_HW_ETH_WAN'',
   token_set_y DC 4289 ''CONFIG_HW_ETH_LAN'',
   enable_module DC 4290 ''CONFIG_HW_80211G_AR531X'',
   token_set_y DC 4291 ''CONFIG_HW_BUTTONS'',
   token_set_y DC 4293 ''CONFIG_RG_RADIUS_WBM_IN_CONN'',
   token_set_y DC 4294 ''CONFIG_RG_SSI_PAGES'',
   token_set_y DC 4295 ''CONFIG_AR531X_DEBUG'',
   token_set_y DC 4296 ''CONFIG_RG_LAN_BRIDGE_CONST'',
   token_set DC 4297 ''CONFIG_SDRAM_SIZE'' ''16'' []]"

definition dist_WRT108G_VX :: "stmt" where
  "dist_WRT108G_VX = block [
   set_os ''VXWORKS'',
   set_hw ''WRT108G'',
   token_set_y DC 4306 ''CONFIG_RG_SMB'',
   enable_module DC 4308 ''MODULE_RG_FOUNDATION'',
   enable_module DC 4309 ''MODULE_RG_UPNP'',
   enable_module DC 4310 ''MODULE_RG_PPP'',
   enable_module DC 4311 ''MODULE_RG_FIREWALL_AND_SECURITY'',
   enable_module DC 4312 ''MODULE_RG_ADVANCED_MANAGEMENT'',
   enable_module DC 4313 ''MODULE_RG_SNMP'',
   enable_module DC 4314 ''MODULE_RG_ADVANCED_ROUTING'',
   enable_module DC 4315 ''MODULE_RG_WLAN_AND_ADVANCED_WLAN'',
   token_set_y DC 4317 ''CONFIG_RG_TFTP_UPGRADE'',
   token_set_y DC 4318 ''CONFIG_RG_TFTP_SERVER_PASSWORD'',
   token_set_y DC 4321 ''CONFIG_HW_ETH_WAN'',
   token_set_y DC 4322 ''CONFIG_HW_ETH_LAN'',
   enable_module DC 4323 ''CONFIG_HW_80211G_AR531X'',
   token_set_y DC 4324 ''CONFIG_HW_BUTTONS'',
   token_set_y DC 4326 ''CONFIG_RG_RADIUS_WBM_IN_CONN'',
   token_set_y DC 4327 ''CONFIG_GUI_LINKSYS'',
   token_set_y DC 4328 ''CONFIG_RG_LAN_BRIDGE_CONST'',
   token_set_y DC 4330 ''CONFIG_RG_RGLOADER_CLI_CMD'',
   token_set DC 4333 ''CONFIG_SDRAM_SIZE'' ''16'' []]"

definition dist_TI_404_VX_EVAL :: "stmt" where
  "dist_TI_404_VX_EVAL = block [
   set_os ''VXWORKS'',
   set_hw ''TI_404'',
   enable_module DC 4349 ''MODULE_RG_FOUNDATION'',
   enable_module DC 4350 ''MODULE_RG_FIREWALL_AND_SECURITY'',
   enable_module DC 4351 ''MODULE_RG_UPNP'',
   enable_module DC 4352 ''MODULE_RG_ADVANCED_ROUTING'',
   enable_module DC 4353 ''MODULE_RG_SNMP'',
   token_set_y DC 4356 ''CONFIG_HW_CABLE_WAN'',
   token_set_y DC 4357 ''CONFIG_HW_ETH_LAN'']"

definition dist_T_TI_404_VX_CH :: "stmt" where
  "dist_T_TI_404_VX_CH = block [
   set_os ''VXWORKS'',
   set_hw ''TI_404'',
   enable_module DC 4365 ''MODULE_RG_FOUNDATION'',
   enable_module DC 4366 ''MODULE_RG_CABLEHOME'',
   enable_module DC 4367 ''MODULE_RG_SNMP'',
   enable_module DC 4368 ''MODULE_RG_FIREWALL_AND_SECURITY'',
   token_set_y DC 4369 ''CONFIG_RG_EVENT_LOGGING'',
   token_set_y DC 4372 ''CONFIG_HW_CABLE_WAN'',
   token_set_y DC 4373 ''CONFIG_HW_ETH_LAN'',
   when_c (is_dist ''SMC_TI_404_VX_CH'') [
       enable_module DC 4377 ''MODULE_RG_UPNP'',
       enable_module DC 4378 ''MODULE_RG_ADVANCED_ROUTING'']]"

definition dist_TI_TNETC440_VX_CH :: "stmt" where
  "dist_TI_TNETC440_VX_CH = block [
   set_os ''VXWORKS'',
   set_hw ''TI_404'',
   enable_module DC 4389 ''MODULE_RG_FOUNDATION'',
   enable_module DC 4390 ''MODULE_RG_SNMP'',
   enable_module DC 4391 ''MODULE_RG_UPNP'',
   enable_module DC 4392 ''MODULE_RG_FIREWALL_AND_SECURITY'',
   enable_module DC 4393 ''MODULE_RG_ADVANCED_ROUTING'',
   token_set_y DC 4394 ''CONFIG_RG_EVENT_LOGGING'',
   when_c (neg (is_dist ''HITRON_TNETC440_VX'')) [enable_module DC 4396 ''MODULE_RG_CABLEHOME''],
   token_set_y DC 4399 ''CONFIG_HW_CABLE_WAN'',
   token_set_y DC 4400 ''CONFIG_HW_ETH_LAN'',
   when_c (disj_c (is_dist ''HITRON_TNETC440_VX_CH'') (is_dist ''HITRON_TNETC440_VX'')) [token_set_y DC 4405 ''CONFIG_HITRON_BSP'']]"

definition dist_TI_404_VX_CH_EVAL :: "stmt" where
  "dist_TI_404_VX_CH_EVAL = block [
   set_os ''VXWORKS'',
   set_hw ''TI_404'',
   token_set_y DC 4412 ''CONFIG_RG_SMB'',
   enable_module DC 4415 ''MODULE_RG_CABLEHOME'',
   enable_module DC 4416 ''MODULE_RG_FOUNDATION'',
   enable_module DC 4417 ''MODULE_RG_UPNP'',
   enable_module DC 4418 ''MODULE_RG_ADVANCED_ROUTING'',
   enable_module DC 4419 ''MODULE_RG_URL_FILTERING'',
   enable_module DC 4420 ''MODULE_RG_PPP'',
   enable_module DC 4421 ''MODULE_RG_FIREWALL_AND_SECURITY'',
   enable_module DC 4422 ''MODULE_RG_ADVANCED_MANAGEMENT'',
   token_set_y DC 4425 ''CONFIG_HW_CABLE_WAN'',
   token_set_y DC 4426 ''CONFIG_HW_ETH_LAN'']"

definition dist_TI_WPA_VX :: "stmt" where
  "dist_TI_WPA_VX = block [
   set_os ''VXWORKS'',
   set_hw ''TI_TNETWA100'',
   token_set_y DC 4434 ''CONFIG_RG_WPA'',
   token_set_y DC 4435 ''CONFIG_RG_8021X_RADIUS'',
   token_set_y DC 4436 ''CONFIG_RG_OPENSSL'']"

definition dist_I386_BOCHS_VX :: "stmt" where
  "dist_I386_BOCHS_VX = block [
   set_os ''VXWORKS'',
   set_hw ''I386_BOCHS'',
   token_set_y DC 4443 ''CONFIG_RG_SMB'',
   enable_module DC 4445 ''MODULE_RG_FOUNDATION'',
   enable_module DC 4446 ''MODULE_RG_UPNP'',
   enable_module DC 4447 ''MODULE_RG_ADVANCED_ROUTING'',
   enable_module DC 4448 ''MODULE_RG_URL_FILTERING'',
   enable_module DC 4449 ''MODULE_RG_PPP'',
   enable_module DC 4450 ''MODULE_RG_FIREWALL_AND_SECURITY'',
   enable_module DC 4451 ''MODULE_RG_ADVANCED_MANAGEMENT'',
   token_set_y DC 4454 ''CONFIG_HW_ETH_WAN'',
   token_set_y DC 4455 ''CONFIG_HW_ETH_LAN'']"

definition dist_ALLWELL_RTL_RTL_VALGRIND :: "stmt" where
  "dist_ALLWELL_RTL_RTL_VALGRIND = block [
   set_hw ''ALLWELL_RTL_RTL'',
   token_set_y DC 4463 ''CONFIG_RG_SMB'',
   enable_module DC 4466 ''MODULE_RG_FOUNDATION'',
   enable_module DC 4467 ''MODULE_RG_UPNP'',
   enable_module DC 4468 ''MODULE_RG_PPP'',
   enable_module DC 4469 ''MODULE_RG_FIREWALL_AND_SECURITY'',
   enable_module DC 4470 ''MODULE_RG_ADVANCED_MANAGEMENT'',
   enable_module DC 4471 ''MODULE_RG_SNMP'',
   enable_module DC 4472 ''MODULE_RG_ADVANCED_ROUTING'',
   token_set_y DC 4475 ''CONFIG_HW_ETH_WAN'',
   token_set_y DC 4476 ''CONFIG_HW_ETH_LAN'',
   token_set_y DC 4478 ''CONFIG_VALGRIND'']"

definition dist_ALLWELL_RTL_RTL_ISL38XX :: "stmt" where
  "dist_ALLWELL_RTL_RTL_ISL38XX = block [
   set_hw ''ALLWELL_RTL_RTL_ISL38XX'',
   enable_module DC 4485 ''MODULE_RG_FOUNDATION'',
   enable_module DC 4486 ''MODULE_RG_UPNP'',
   enable_module DC 4487 ''MODULE_RG_PPP'',
   enable_module DC 4488 ''MODULE_RG_FIREWALL_AND_SECURITY'',
   enable_module DC 4489 ''MODULE_RG_ADVANCED_MANAGEMENT'',
   enable_module DC 4490 ''MODULE_RG_SNMP'',
   enable_module DC 4491 ''MODULE_RG_WLAN_AND_ADVANCED_WLAN'',
   enable_module DC 4492 ''MODULE_RG_ADVANCED_ROUTING'',
   token_set_y DC 4495 ''CONFIG_HW_ETH_WAN'',
   token_set_y DC 4496 ''CONFIG_HW_ETH_LAN'',
   enable_module DC 4497 ''CONFIG_HW_80211G_ISL38XX'']"

definition dist_RGLOADER_UML :: "stmt" where
  "dist_RGLOADER_UML = block [
   set_hw ''UML'',
   set_os ''LINUX_24'',
   token_set_y DC 4506 ''CONFIG_RG_RGLOADER'',
   token_set_y DC 4509 ''CONFIG_HW_ETH_LAN'',
   token_set_y DC 4510 ''CONFIG_HW_ETH_LAN2'',
   token_set_y DC 4511 ''CONFIG_RG_TELNETS'',
   token_set_y DC 4512 ''CONFIG_RG_DYN_FLASH_LAYOUT'']"

definition dist_JPKG_SRC :: "stmt" where
  "dist_JPKG_SRC = block [
   set_hw ''JPKG'',
   token_set DC 4517 ''JPKG_ARCH'' ''\"src\"'' [],
   token_set_y DC 4518 ''CONFIG_RG_JPKG_SRC'',
   set_jpkg_dist_configs ''JPKG_SRC'']"

definition dist_JPKG_UML :: "stmt" where
  "dist_JPKG_UML = block [
   set_hw ''JPKG'',
   token_set DC 4525 ''JPKG_ARCH'' ''\"uml\"'' [],
   token_set_y DC 4526 ''CONFIG_RG_JPKG_UML'',
   set_jpkg_dist_configs ''JPKG_UML'']"

lemma ok_dist_RGLOADER_COYOTE [safe_scripts]: "ok base_schema value_tokens J dist_RGLOADER_COYOTE"
  unfolding dist_RGLOADER_COYOTE_def
  by (intro safe_intros shipped.ok_sets shipped.ok_enable_module safe_scripts; simp)


lemma ok_dist_RGLOADER_COYOTE_64MB_RAM [safe_scripts]: "ok base_schema value_tokens J dist_RGLOADER_COYOTE_64MB_RAM"
  unfolding dist_RGLOADER_COYOTE_64MB_RAM_def
  by (intro safe_intros shipped.ok_sets shipped.ok_enable_module safe_scripts; simp)


lemma ok_dist_RGLOADER_COYOTE_64MB_RAM_32MB_FLASH [safe_scripts]: "ok base_schema value_tokens J dist_RGLOADER_COYOTE_64MB_RAM_32MB_FLASH"
  unfolding dist_RGLOADER_COYOTE_64MB_RAM_32MB_FLASH_def
  by (intro safe_intros shipped.ok_sets shipped.ok_enable_module safe_scripts; simp)


lemma ok_dist_RGLOADER_COYOTE_LSP [safe_scripts]: "ok base_schema value_tokens J dist_RGLOADER_COYOTE_LSP"
  unfolding dist_RGLOADER_COYOTE_LSP_def
  by (intro safe_intros shipped.ok_sets shipped.ok_enable_module safe_scripts; simp)


lemma ok_dist_RGLOADER_MONTEJADE [safe_scripts]: "ok base_schema value_tokens J dist_RGLOADER_MONTEJADE"
  unfolding dist_RGLOADER_MONTEJADE_def
  by (intro safe_intros shipped.ok_sets shipped.ok_enable_module safe_scripts; simp)


lemma ok_dist_RGLOADER_HG21 [safe_scripts]: "ok base_schema value_tokens J dist_RGLOADER_HG21"
  unfolding dist_RGLOADER_HG21_def
  by (intro safe_intros shipped.ok_sets shipped.ok_enable_module safe_scripts; simp)


lemma ok_dist_RGLOADER_BAMBOO [safe_scripts]: "ok base_schema value_tokens J dist_RGLOADER_BAMBOO"
  unfolding dist_RGLOADER_BAMBOO_def
  by (intro safe_intros shipped.ok_sets shipped.ok_enable_module safe_scripts; simp)


lemma ok_dist_RGLOADER_GTWX5715 [safe_scripts]: "ok base_schema value_tokens J dist_RGLOADER_GTWX5715"
  unfolding dist_RGLOADER_GTWX5715_def
  by (intro safe_intros shipped.ok_sets shipped.ok_enable_module safe_scripts; simp)


lemma ok_dist_RGLOADER_ALLWELL_RTL_RTL [safe_scripts]: "ok base_schema value_tokens J dist_RGLOADER_ALLWELL_RTL_RTL"
  unfolding dist_RGLOADER_ALLWELL_RTL_RTL_def
  by (intro safe_intros shipped.ok_sets shipped.ok_enable_module safe_scripts; simp)


lemma ok_dist_RGLOADER_ALLWELL_RTL_EEP [safe_scripts]: "ok base_schema value_tokens J dist_RGLOADER_ALLWELL_RTL_EEP"
  unfolding dist_RGLOADER_ALLWELL_RTL_EEP_def
  by (intro safe_intros shipped.ok_sets shipped.ok_enable_module safe_scripts; simp)


lemma ok_dist_RGLOADER_ALLWELL_EEP_EEP [safe_scripts]: "ok base_schema value_tokens J dist_RGLOADER_ALLWELL_EEP_EEP"
  unfolding dist_RGLOADER_ALLWELL_EEP_EEP_def
  by (intro safe_intros shipped.ok_sets shipped.ok_enable_module safe_scripts; simp)


lemma ok_dist_RGLOADER_WAV54G [safe_scripts]: "ok base_schema value_tokens J dist_RGLOADER_WAV54G"
  unfolding dist_RGLOADER_WAV54G_def
  by (intro safe_intros shipped.ok_sets shipped.ok_enable_module safe_scripts; simp)


lemma ok_dist_WRT55AG [safe_scripts]: "ok base_schema value_tokens J dist_WRT55AG"
  unfolding dist_WRT55AG_def
  by (intro safe_intros shipped.ok_sets shipped.ok_enable_module safe_scripts; simp)


lemma ok_dist_AR2313_LIZZY [safe_scripts]: "ok base_schema value_tokens J dist_AR2313_LIZZY"
  unfolding dist_AR2313_LIZZY_def
  by (intro safe_intros shipped.ok_sets shipped.ok_enable_module safe_scripts; simp)


lemma ok_dist_AR2313_ZIPPY [safe_scripts]: "ok base_schema value_tokens J dist_AR2313_ZIPPY"
  unfolding dist_AR2313_ZIPPY_def
  by (intro safe_intros shipped.ok_sets shipped.ok_enable_module safe_scripts; simp)


lemma ok_dist_ATHEROS_AR531X_VX [safe_scripts]: "ok base_schema value_tokens J dist_ATHEROS_AR531X_VX"
  unfolding dist_ATHEROS_AR531X_VX_def
  by (intro safe_intros shipped.ok_sets shipped.ok_enable_module safe_scripts; simp)


lemma ok_dist_WRT108G_VX [safe_scripts]: "ok base_schema value_tokens J dist_WRT108G_VX"
  unfolding dist_WRT108G_VX_def
  by (intro safe_intros shipped.ok_sets shipped.ok_enable_module safe_scripts; simp)


lemma ok_dist_TI_404_VX_EVAL [safe_scripts]: "ok base_schema value_tokens J dist_TI_404_VX_EVAL"
  unfolding dist_TI_404_VX_EVAL_def
  by (intro safe_intros shipped.ok_sets shipped.ok_enable_module safe_scripts; simp)


lemma ok_dist_T_TI_404_VX_CH [safe_scripts]: "ok base_schema value_tokens J dist_T_TI_404_VX_CH"
  unfolding dist_T_TI_404_VX_CH_def
  by (intro safe_intros shipped.ok_sets shipped.ok_enable_module safe_scripts; simp)


lemma ok_dist_TI_TNETC440_VX_CH [safe_scripts]: "ok base_schema value_tokens J dist_TI_TNETC440_VX_CH"
  unfolding dist_TI_TNETC440_VX_CH_def
  by (intro safe_intros shipped.ok_sets shipped.ok_enable_module safe_scripts; simp)


lemma ok_dist_TI_404_VX_CH_EVAL [safe_scripts]: "ok base_schema value_tokens J dist_TI_404_VX_CH_EVAL"
  unfolding dist_TI_404_VX_CH_EVAL_def
  by (intro safe_intros shipped.ok_sets shipped.ok_enable_module safe_scripts; simp)


lemma ok_dist_TI_WPA_VX [safe_scripts]: "ok base_schema value_tokens J dist_TI_WPA_VX"
  unfolding dist_TI_WPA_VX_def
  by (intro safe_intros shipped.ok_sets shipped.ok_enable_module safe_scripts; simp)


lemma ok_dist_I386_BOCHS_VX [safe_scripts]: "ok base_schema value_tokens J dist_I386_BOCHS_VX"
  unfolding dist_I386_BOCHS_VX_def
  by (intro safe_intros shipped.ok_sets shipped.ok_enable_module safe_scripts; simp)


lemma ok_dist_ALLWELL_RTL_RTL_VALGRIND [safe_scripts]: "ok base_schema value_tokens J dist_ALLWELL_RTL_RTL_VALGRIND"
  unfolding dist_ALLWELL_RTL_RTL_VALGRIND_def
  by (intro safe_intros shipped.ok_sets shipped.ok_enable_module safe_scripts; simp)


lemma ok_dist_ALLWELL_RTL_RTL_ISL38XX [safe_scripts]: "ok base_schema value_tokens J dist_ALLWELL_RTL_RTL_ISL38XX"
  unfolding dist_ALLWELL_RTL_RTL_ISL38XX_def
  by (intro safe_intros shipped.ok_sets shipped.ok_enable_module safe_scripts; simp)


lemma ok_dist_RGLOADER_UML [safe_scripts]: "ok base_schema value_tokens J dist_RGLOADER_UML"
  unfolding dist_RGLOADER_UML_def
  by (intro safe_intros shipped.ok_sets shipped.ok_enable_module safe_scripts; simp)


lemma ok_dist_JPKG_SRC [safe_scripts]: "ok base_schema value_tokens bundled dist_JPKG_SRC"
  unfolding dist_JPKG_SRC_def
  by (intro safe_intros shipped.ok_sets shipped.ok_enable_module safe_scripts; simp)


lemma ok_dist_JPKG_UML [safe_scripts]: "ok base_schema value_tokens bundled dist_JPKG_UML"
  unfolding dist_JPKG_UML_def
  by (intro safe_intros shipped.ok_sets shipped.ok_enable_module safe_scripts; simp)


end
