(* ===== verification/Dist_Config_6.thy ===== *)
theory Dist_Config_6
  imports Dist_Config_5
begin

text \<open>
  \<open>distribution_features\<close> of \<open>dist_config.c\<close>, lines 4530 to 4909: one definition per
  branch of the chain over the distribution's name.
\<close>

definition dist_JPKG_ARMV5B :: "stmt" where
  "dist_JPKG_ARMV5B = block [
   set_hw ''JPKG'',
   token_set DC 4533 ''JPKG_ARCH'' ''\"armv5b\"'' [],
   token_set_y DC 4534 ''CONFIG_RG_JPKG_ARMV5B'',
   token_set_y DC 4536 ''CONFIG_GLIBC'',
   token_set_y DC 4537 ''GLIBC_IN_TOOLCHAIN'',
   set_jpkg_dist_configs ''JPKG_ARMV5B'']"

definition dist_JPKG_ARMV5L :: "stmt" where
  "dist_JPKG_ARMV5L = block [
   set_hw ''JPKG'',
   token_set DC 4544 ''JPKG_ARCH'' ''\"armv5l\"'' [],
   token_set_y DC 4545 ''CONFIG_RG_JPKG_ARMV5L'',
   set_jpkg_dist_configs ''JPKG_ARMV5L'']"

definition dist_JPKG_ARMV4L :: "stmt" where
  "dist_JPKG_ARMV4L = block [
   set_hw ''JPKG'',
   token_set DC 4552 ''JPKG_ARCH'' ''\"armv4l\"'' [],
   token_set_y DC 4553 ''CONFIG_RG_JPKG_ARMV4L'',
   set_jpkg_dist_configs ''JPKG_ARMV4L'']"

definition dist_JPKG_PPC :: "stmt" where
  "dist_JPKG_PPC = block [
   set_hw ''JPKG'',
   token_set DC 4560 ''JPKG_ARCH'' ''\"ppc\"'' [],
   token_set_y DC 4561 ''CONFIG_RG_JPKG_PPC'',
   set_jpkg_dist_configs ''JPKG_PPC'']"

definition dist_JPKG_MIPSEB :: "stmt" where
  "dist_JPKG_MIPSEB = block [
   set_hw ''JPKG'',
   token_set DC 4568 ''JPKG_ARCH'' ''\"mipseb\"'' [],
   token_set_y DC 4569 ''CONFIG_RG_JPKG_MIPSEB'',
   set_jpkg_dist_configs ''JPKG_MIPSEB'']"

definition dist_JPKG_BCM9634X :: "stmt" where
  "dist_JPKG_BCM9634X = block [
   set_hw ''JPKG'',
   token_set DC 4576 ''JPKG_ARCH'' ''\"bcm9634x\"'' [],
   token_set_y DC 4577 ''CONFIG_RG_JPKG_BCM9634X'',
   set_jpkg_dist_configs ''JPKG_BCM9634X'']"

definition dist_JPKG_SB1250 :: "stmt" where
  "dist_JPKG_SB1250 = block [
   set_hw ''JPKG'',
   token_set DC 4584 ''JPKG_ARCH'' ''\"sb1250\"'' [],
   token_set_y DC 4586 ''CONFIG_RG_JPKG_SB1250'',
   set_jpkg_dist_configs ''JPKG_SB1250'']"

definition dist_JPKG_TWINPASS :: "stmt" where
  "dist_JPKG_TWINPASS = block [
   set_hw ''JPKG'',
   token_set DC 4593 ''JPKG_ARCH'' ''\"twinpass\"'' [],
   token_set_y DC 4595 ''CONFIG_RG_JPKG_TWINPASS'',
   set_jpkg_dist_configs ''JPKG_TWINPASS'']"

definition dist_JPKG_ARM_920T_LE :: "stmt" where
  "dist_JPKG_ARM_920T_LE = block [
   set_hw ''JPKG'',
   token_set DC 4602 ''JPKG_ARCH'' ''\"arm-920t-le\"'' [],
   token_set_y DC 4603 ''CONFIG_RG_JPKG_ARM_920T_LE'',
   set_jpkg_dist_configs ''JPKG_ARM_920T_LE'']"

definition dist_JPKG_LX4189 :: "stmt" where
  "dist_JPKG_LX4189 = block [
   set_hw ''JPKG'',
   token_set DC 4610 ''JPKG_ARCH'' ''\"lx4189\"'' [],
   token_set_y DC 4611 ''CONFIG_RG_JPKG_LX4189'',
   set_jpkg_dist_configs ''JPKG_LX4189'']"

definition dist_JPKG_LOCAL_I386 :: "stmt" where
  "dist_JPKG_LOCAL_I386 = block [
   clear_hw,
   token_set DC 4618 ''JPKG_ARCH'' ''\"local-i386\"'' [],
   token_set_y DC 4619 ''CONFIG_RG_JPKG_LOCAL_I386'',
   set_jpkg_dist_configs ''JPKG_LOCAL_I386'']"

definition dist_UML_LSP :: "stmt" where
  "dist_UML_LSP = block [
   set_hw ''UML'',
   set_os ''LINUX_24'',
   token_set_y DC 4628 ''CONFIG_RG_UML'',
   token_set_y DC 4630 ''CONFIG_LSP_DIST'']"

definition dist_UML_LSP_26 :: "stmt" where
  "dist_UML_LSP_26 = block [
   set_hw ''UML'',
   set_os ''LINUX_26'',
   token_set_y DC 4637 ''CONFIG_RG_UML'',
   token_set_y DC 4639 ''CONFIG_GLIBC'',
   token_set_y DC 4641 ''CONFIG_LSP_DIST'']"

definition dist_UML :: "stmt" where
  "dist_UML = block [
   set_hw ''UML'',
   when_c (is_dist ''UML_26'') [set_os ''LINUX_26''],
   when_c (is_dist ''UML_GLIBC'') [
       token_set_y DC 4653 ''CONFIG_GLIBC'',
       token_set_y DC 4654 ''GLIBC_IN_TOOLCHAIN''],
   token_set_y DC 4657 ''CONFIG_RG_SMB'',
   enable_module DC 4660 ''MODULE_RG_FOUNDATION'',
   enable_module DC 4661 ''MODULE_RG_UPNP'',
   enable_module DC 4662 ''MODULE_RG_PPP'',
   enable_module DC 4663 ''MODULE_RG_FIREWALL_AND_SECURITY'',
   enable_module DC 4664 ''MODULE_RG_ADVANCED_MANAGEMENT'',
   enable_module DC 4665 ''MODULE_RG_IPSEC'',
   enable_module DC 4666 ''MODULE_RG_PPTP'',
   enable_module DC 4667 ''MODULE_RG_SNMP'',
   enable_module DC 4668 ''MODULE_RG_IPV6'',
   enable_module DC 4669 ''MODULE_RG_VLAN'',
   enable_module DC 4670 ''MODULE_RG_ADVANCED_ROUTING'',
   enable_module DC 4671 ''MODULE_RG_L2TP'',
   enable_module DC 4672 ''MODULE_RG_URL_FILTERING'',
   enable_module DC 4673 ''MODULE_RG_QOS'',
   enable_module DC 4674 ''MODULE_RG_ROUTE_MULTIWAN'',
   enable_module DC 4675 ''MODULE_RG_DSLHOME'',
   enable_module DC 4676 ''MODULE_RG_TR_098'',
   enable_module DC 4677 ''MODULE_RG_TR_064'',
   enable_module DC 4678 ''MODULE_RG_JVM'',
   enable_module DC 4679 ''MODULE_RG_SSL_VPN'',
   enable_module DC 4681 ''MODULE_RG_MAIL_FILTER'',
   token_set_y DC 4683 ''CONFIG_HW_ETH_WAN'',
   when_c (is_dist ''UML_DUAL_WAN'') [token_set_y DC 4685 ''CONFIG_HW_ETH_WAN2''],
   when_c (is_dist ''UML_ATM'') [
       enable_module DC 4688 ''MODULE_RG_DSL'',
       token_set_y DC 4689 ''CONFIG_HW_DSL_WAN''],
   token_set_y DC 4691 ''CONFIG_HW_ETH_LAN'',
   token_set_y DC 4692 ''CONFIG_HW_ETH_LAN2'',
   token_set DC 4693 ''CONFIG_RG_JPKG_DIST'' ''JPKG_UML'' [],
   token_set_y DC 4694 ''CONFIG_RG_DYN_FLASH_LAYOUT'']"

definition dist_UML_VALGRIND :: "stmt" where
  "dist_UML_VALGRIND = block [
   set_hw ''UML'',
   token_set_y DC 4702 ''CONFIG_RG_SMB'',
   enable_module DC 4705 ''MODULE_RG_FOUNDATION'',
   enable_module DC 4706 ''MODULE_RG_UPNP'',
   enable_module DC 4707 ''MODULE_RG_PPP'',
   enable_module DC 4708 ''MODULE_RG_FIREWALL_AND_SECURITY'',
   enable_module DC 4709 ''MODULE_RG_ADVANCED_MANAGEMENT'',
   enable_module DC 4710 ''MODULE_RG_IPSEC'',
   enable_module DC 4711 ''MODULE_RG_PPTP'',
   enable_module DC 4712 ''MODULE_RG_L2TP'',
   enable_module DC 4713 ''MODULE_RG_SNMP'',
   enable_module DC 4717 ''MODULE_RG_IPV6'',
   enable_module DC 4718 ''MODULE_RG_VLAN'',
   enable_module DC 4719 ''MODULE_RG_ADVANCED_ROUTING'',
   enable_module DC 4720 ''MODULE_RG_URL_FILTERING'',
   enable_module DC 4721 ''MODULE_RG_QOS'',
   enable_module DC 4722 ''MODULE_RG_ROUTE_MULTIWAN'',
   enable_module DC 4723 ''MODULE_RG_SSL_VPN'',
   enable_module DC 4724 ''MODULE_RG_DSLHOME'',
   enable_module DC 4725 ''MODULE_RG_TR_098'',
   enable_module DC 4726 ''MODULE_RG_MAIL_FILTER'',
   token_set_y DC 4729 ''CONFIG_HW_ETH_WAN'',
   when_c (is_dist ''UML_ATM_VALGRIND'') [
       enable_module DC 4732 ''MODULE_RG_DSL'',
       token_set_y DC 4733 ''CONFIG_HW_DSL_WAN''],
   token_set_y DC 4736 ''CONFIG_HW_ETH_LAN'',
   token_set_y DC 4738 ''CONFIG_VALGRIND'',
   token_set DC 4739 ''CONFIG_RG_JPKG_DIST'' ''JPKG_UML'' []]"

definition dist_UML_IPPHONE :: "stmt" where
  "dist_UML_IPPHONE = block [
   set_hw ''UML'',
   enable_module DC 4746 ''MODULE_RG_FOUNDATION'',
   enable_module DC 4747 ''MODULE_RG_UPNP'',
   enable_module DC 4748 ''MODULE_RG_PPP'',
   enable_module DC 4749 ''MODULE_RG_FIREWALL_AND_SECURITY'',
   enable_module DC 4750 ''MODULE_RG_ADVANCED_MANAGEMENT'',
   enable_module DC 4751 ''MODULE_RG_IPSEC'',
   enable_module DC 4752 ''MODULE_RG_PPTP'',
   enable_module DC 4753 ''MODULE_RG_SNMP'',
   enable_module DC 4757 ''MODULE_RG_IPV6'',
   enable_module DC 4758 ''MODULE_RG_VLAN'',
   enable_module DC 4759 ''MODULE_RG_ADVANCED_ROUTING'',
   enable_module DC 4760 ''MODULE_RG_L2TP'',
   enable_module DC 4761 ''MODULE_RG_URL_FILTERING'',
   enable_module DC 4762 ''MODULE_RG_VOIP_RV_SIP'',
   enable_module DC 4763 ''MODULE_RG_VOIP_RV_MGCP'',
   enable_module DC 4764 ''MODULE_RG_VOIP_RV_H323'',
   token_set_y DC 4767 ''CONFIG_HW_ETH_WAN'',
   token_set_y DC 4768 ''CONFIG_HW_ETH_LAN'',
   enable_module DC 4769 ''CONFIG_HW_DSP'',
   token_set_y DC 4772 ''CONFIG_RG_IPPHONE'',
   token_set_y DC 4773 ''CONFIG_RG_VOIP_HW_EMULATION'']"

definition dist_UML_IPPHONE_VALGRIND :: "stmt" where
  "dist_UML_IPPHONE_VALGRIND = block [
   set_hw ''UML'',
   token_set_y DC 4779 ''CONFIG_RG_SMB'',
   enable_module DC 4782 ''MODULE_RG_FOUNDATION'',
   enable_module DC 4783 ''MODULE_RG_UPNP'',
   enable_module DC 4784 ''MODULE_RG_PPP'',
   enable_module DC 4785 ''MODULE_RG_FIREWALL_AND_SECURITY'',
   enable_module DC 4786 ''MODULE_RG_ADVANCED_MANAGEMENT'',
   enable_module DC 4787 ''MODULE_RG_IPSEC'',
   enable_module DC 4788 ''MODULE_RG_PPTP'',
   enable_module DC 4789 ''MODULE_RG_SNMP'',
   enable_module DC 4793 ''MODULE_RG_IPV6'',
   enable_module DC 4794 ''MODULE_RG_VLAN'',
   enable_module DC 4795 ''MODULE_RG_ADVANCED_ROUTING'',
   enable_module DC 4796 ''MODULE_RG_L2TP'',
   enable_module DC 4797 ''MODULE_RG_URL_FILTERING'',
   enable_module DC 4798 ''MODULE_RG_VOIP_RV_SIP'',
   enable_module DC 4799 ''MODULE_RG_VOIP_RV_MGCP'',
   enable_module DC 4800 ''MODULE_RG_VOIP_RV_H323'',
   token_set_y DC 4803 ''CONFIG_HW_ETH_WAN'',
   token_set_y DC 4804 ''CONFIG_HW_ETH_LAN'',
   enable_module DC 4805 ''CONFIG_HW_DSP'',
   token_set_y DC 4807 ''CONFIG_VALGRIND'',
   token_set_y DC 4810 ''CONFIG_RG_IPPHONE'',
   token_set_y DC 4811 ''CONFIG_RG_VOIP_HW_EMULATION'',
   token_set_y DC 4812 ''CONFIG_RG_DYN_FLASH_LAYOUT'']"

definition dist_UML_ATA :: "stmt" where
  "dist_UML_ATA = block [
   set_hw ''UML'',
   token_set_y DC 4819 ''CONFIG_RG_SMB'',
   enable_module DC 4822 ''MODULE_RG_FOUNDATION'',
   enable_module DC 4823 ''MODULE_RG_UPNP'',
   enable_module DC 4824 ''MODULE_RG_PPP'',
   enable_module DC 4825 ''MODULE_RG_FIREWALL_AND_SECURITY'',
   enable_module DC 4826 ''MODULE_RG_ADVANCED_MANAGEMENT'',
   enable_module DC 4827 ''MODULE_RG_IPSEC'',
   enable_module DC 4828 ''MODULE_RG_PPTP'',
   enable_module DC 4829 ''MODULE_RG_SNMP'',
   enable_module DC 4833 ''MODULE_RG_IPV6'',
   enable_module DC 4834 ''MODULE_RG_VLAN'',
   enable_module DC 4835 ''MODULE_RG_ADVANCED_ROUTING'',
   enable_module DC 4836 ''MODULE_RG_L2TP'',
   enable_module DC 4837 ''MODULE_RG_URL_FILTERING'',
   ifc (disj_c (is_dist ''UML_ATA_OSIP'') (is_dist ''UML_ATA_OSIP_VALGRIND'')) [enable_module DC 4841 ''MODULE_RG_VOIP_OSIP'']
      [
       enable_module DC 4845 ''MODULE_RG_VOIP_ASTERISK_SIP'',
       enable_module DC 4846 ''MODULE_RG_VOIP_ASTERISK_H323'',
       token_set_y DC 4847 ''CONFIG_UCLIBCXX'',
       token_set_y DC 4848 ''CONFIG_UML_BIG_FLASH''],
   token_set_y DC 4852 ''CONFIG_HW_ETH_WAN'',
   token_set_y DC 4853 ''CONFIG_HW_ETH_LAN'',
   enable_module DC 4854 ''CONFIG_HW_DSP'',
   when_c (disj_c (is_dist ''UML_ATA_VALGRIND'') (is_dist ''UML_ATA_OSIP_VALGRIND'')) [token_set_y DC 4857 ''CONFIG_VALGRIND''],
   enable_module DC 4860 ''MODULE_RG_ATA'',
   token_set_y DC 4861 ''CONFIG_RG_VOIP_HW_EMULATION'',
   token_set_y DC 4862 ''CONFIG_RG_DYN_FLASH_LAYOUT'']"

definition dist_RGTV :: "stmt" where
  "dist_RGTV = block [
   set_hw ''PUNDIT'',
   token_set_y DC 4869 ''CONFIG_LSP_DIST'',
   token_set_y DC 4871 ''CONFIG_GLIBC'',
   token_set_y DC 4872 ''CONFIG_RGTV'',
   token_set_m DC 4874 ''CONFIG_SOUND_ICH'',
   token_set_y DC 4875 ''CONFIG_VIDEO_DEV'',
   token_set_m DC 4876 ''CONFIG_SMB_FS'',
   token_set_y DC 4877 ''CONFIG_NLS'',
   token_set_y DC 4878 ''CONFIG_NLS_DEFAULT'',
   token_set_y DC 4879 ''CONFIG_BLK_DEV_SIS5513'',
   token_set_m DC 4880 ''CONFIG_B44'']"

definition dist_FULL :: "stmt" where
  "dist_FULL = block [
   token_set_y DC 4884 ''CONFIG_RG_SMB'',
   enable_module DC 4887 ''MODULE_RG_FOUNDATION'',
   enable_module DC 4888 ''MODULE_RG_UPNP'',
   enable_module DC 4889 ''MODULE_RG_PPP'',
   enable_module DC 4890 ''MODULE_RG_FIREWALL_AND_SECURITY'',
   enable_module DC 4891 ''MODULE_RG_ADVANCED_MANAGEMENT'',
   enable_module DC 4892 ''MODULE_RG_IPSEC'',
   enable_module DC 4893 ''MODULE_RG_PPTP'',
   enable_module DC 4894 ''MODULE_RG_SNMP'',
   enable_module DC 4895 ''MODULE_RG_IPV6'',
   enable_module DC 4896 ''MODULE_RG_VLAN'',
   enable_module DC 4897 ''MODULE_RG_ADVANCED_ROUTING'',
   enable_module DC 4898 ''MODULE_RG_L2TP'',
   enable_module DC 4899 ''MODULE_RG_URL_FILTERING'',
   enable_module DC 4900 ''MODULE_RG_VOIP_RV_SIP'',
   enable_module DC 4901 ''MODULE_RG_VOIP_RV_MGCP'',
   enable_module DC 4902 ''MODULE_RG_VOIP_RV_H323'',
   enable_module DC 4903 ''MODULE_RG_DSL'',
   enable_module DC 4904 ''MODULE_RG_FILESERVER'',
   enable_module DC 4905 ''MODULE_RG_PRINTSERVER'',
   enable_module DC 4906 ''MODULE_RG_WLAN_AND_ADVANCED_WLAN'',
   enable_module DC 4907 ''MODULE_RG_CABLEHOME'',
   enable_module DC 4908 ''MODULE_RG_VODSL'']"

lemma ok_dist_JPKG_ARMV5B [safe_scripts]: "ok base_schema value_tokens bundled dist_JPKG_ARMV5B"
  unfolding dist_JPKG_ARMV5B_def
  by (intro safe_intros shipped.ok_sets shipped.ok_enable_module safe_scripts; simp)


lemma ok_dist_JPKG_ARMV5L [safe_scripts]: "ok base_schema value_tokens bundled dist_JPKG_ARMV5L"
  unfolding dist_JPKG_ARMV5L_def
  by (intro safe_intros shipped.ok_sets shipped.ok_enable_module safe_scripts; simp)


lemma ok_dist_JPKG_ARMV4L [safe_scripts]: "ok base_schema value_tokens bundled dist_JPKG_ARMV4L"
  unfolding dist_JPKG_ARMV4L_def
  by (intro safe_intros shipped.ok_sets shipped.ok_enable_module safe_scripts; simp)


lemma ok_dist_JPKG_PPC [safe_scripts]: "ok base_schema value_tokens bundled dist_JPKG_PPC"
  unfolding dist_JPKG_PPC_def
  by (intro safe_intros shipped.ok_sets shipped.ok_enable_module safe_scripts; simp)


lemma ok_dist_JPKG_MIPSEB [safe_scripts]: "ok base_schema value_tokens bundled dist_JPKG_MIPSEB"
  unfolding dist_JPKG_MIPSEB_def
  by (intro safe_intros shipped.ok_sets shipped.ok_enable_module safe_scripts; simp)


lemma ok_dist_JPKG_BCM9634X [safe_scripts]: "ok base_schema value_tokens bundled dist_JPKG_BCM9634X"
  unfolding dist_JPKG_BCM9634X_def
  by (intro safe_intros shipped.ok_sets shipped.ok_enable_module safe_scripts; simp)


lemma ok_dist_JPKG_SB1250 [safe_scripts]: "ok base_schema value_tokens bundled dist_JPKG_SB1250"
  unfolding dist_JPKG_SB1250_def
  by (intro safe_intros shipped.ok_sets shipped.ok_enable_module safe_scripts; simp)


lemma ok_dist_JPKG_TWINPASS [safe_scripts]: "ok base_schema value_tokens bundled dist_JPKG_TWINPASS"
  unfolding dist_JPKG_TWINPASS_def
  by (intro safe_intros shipped.ok_sets shipped.ok_enable_module safe_scripts; simp)


lemma ok_dist_JPKG_ARM_920T_LE [safe_scripts]: "ok base_schema value_tokens bundled dist_JPKG_ARM_920T_LE"
  unfolding dist_JPKG_ARM_920T_LE_def
  by (intro safe_intros shipped.ok_sets shipped.ok_enable_module safe_scripts; simp)


lemma ok_dist_JPKG_LX4189 [safe_scripts]: "ok base_schema value_tokens bundled dist_JPKG_LX4189"
  unfolding dist_JPKG_LX4189_def
  by (intro safe_intros shipped.ok_sets shipped.ok_enable_module safe_scripts; simp)


lemma ok_dist_JPKG_LOCAL_I386 [safe_scripts]: "ok base_schema value_tokens bundled dist_JPKG_LOCAL_I386"
  unfolding dist_JPKG_LOCAL_I386_def
  by (intro safe_intros shipped.ok_sets shipped.ok_enable_module safe_scripts; simp)


lemma ok_dist_UML_LSP [safe_scripts]: "ok base_schema value_tokens J dist_UML_LSP"
  unfolding dist_UML_LSP_def
  by (intro safe_intros shipped.ok_sets shipped.ok_enable_module safe_scripts; simp)


lemma ok_dist_UML_LSP_26 [safe_scripts]: "ok base_schema value_tokens J dist_UML_LSP_26"
  unfolding dist_UML_LSP_26_def
  by (intro safe_intros shipped.ok_sets shipped.ok_enable_module safe_scripts; simp)


lemma ok_dist_UML [safe_scripts]: "ok base_schema value_tokens J dist_UML"
  unfolding dist_UML_def
  by (intro safe_intros shipped.ok_sets shipped.ok_enable_module safe_scripts; simp)


lemma ok_dist_UML_VALGRIND [safe_scripts]: "ok base_schema value_tokens J dist_UML_VALGRIND"
  unfolding dist_UML_VALGRIND_def
  by (intro safe_intros shipped.ok_sets shipped.ok_enable_module safe_scripts; simp)


lemma ok_dist_UML_IPPHONE [safe_scripts]: "ok base_schema value_tokens J dist_UML_IPPHONE"
  unfolding dist_UML_IPPHONE_def
  by (intro safe_intros shipped.ok_sets shipped.ok_enable_module safe_scripts; simp)


lemma ok_dist_UML_IPPHONE_VALGRIND [safe_scripts]: "ok base_schema value_tokens J dist_UML_IPPHONE_VALGRIND"
  unfolding dist_UML_IPPHONE_VALGRIND_def
  by (intro safe_intros shipped.ok_sets shipped.ok_enable_module safe_scripts; simp)


lemma ok_dist_UML_ATA [safe_scripts]: "ok base_schema value_tokens J dist_UML_ATA"
  unfolding dist_UML_ATA_def
  by (intro safe_intros shipped.ok_sets shipped.ok_enable_module safe_scripts; simp)


lemma ok_dist_RGTV [safe_scripts]: "ok base_schema value_tokens J dist_RGTV"
  unfolding dist_RGTV_def
  by (intro safe_intros shipped.ok_sets shipped.ok_enable_module safe_scripts; simp)


lemma ok_dist_FULL [safe_scripts]: "ok base_schema value_tokens J dist_FULL"
  unfolding dist_FULL_def
  by (intro safe_intros shipped.ok_sets shipped.ok_enable_module safe_scripts; simp)


end
