(* ===== verification/Dist_Config.thy ===== *)
theory Dist_Config
  imports Dist_Config_6
begin

text \<open>
  \<open>distribution_features\<close>: the chain over the name of the distribution.
\<close>

definition dist_branches_1 :: "(bool rd \<times> stmt list) list" where
  "dist_branches_1 = [
     ((is_dist ''ADM5120_LSP''), [dist_ADM5120_LSP]),
     ((disj_c (is_dist ''BCM91125E'') (is_dist ''BCM_SB1125'')), [dist_BCM91125E]),
     ((is_dist ''RGLOADER_ADM5120''), [dist_RGLOADER_ADM5120]),
     ((is_dist ''ADM5120_ATA''), [dist_ADM5120_ATA]),
     ((disj_c (is_dist ''ADM5120_VGW'') (is_dist ''ADM5120_VGW_OSIP'')), [dist_ADM5120_VGW]),
     ((is_dist ''INCAIP_LSP''), [dist_INCAIP_LSP]),
     ((is_dist ''RGLOADER_INCAIP''), [dist_RGLOADER_INCAIP]),
     ((is_dist ''INCAIP_IPPHONE''), [dist_INCAIP_IPPHONE]),
     ((is_dist ''RGLOADER_FLEXTRONICS''), [dist_RGLOADER_FLEXTRONICS]),
     ((is_dist ''FLEXTRONICS_IPPHONE''), [dist_FLEXTRONICS_IPPHONE]),
     ((disj_c (is_dist ''INCAIP_ATA'') (is_dist ''INCAIP_ATA_OSIP'')), [dist_INCAIP_ATA]),
     ((disj_c (is_dist ''RGLOADER_ALLTEK'') (is_dist ''RGLOADER_ALLTEK_FULLSOURCE'')), [dist_RGLOADER_ALLTEK]),
     ((disj_c (is_dist ''INCAIP_VGW'') (is_dist ''INCAIP_VGW_OSIP'')), [dist_INCAIP_VGW]),
     ((is_dist ''INCAIP_FULLSOURCE''), [dist_INCAIP_FULLSOURCE]),
     ((is_dist ''BCM94702''), [dist_BCM94702]),
     ((is_dist ''BCM94704''), [dist_BCM94704]),
     ((is_dist ''USI_BCM94712''), [dist_USI_BCM94712]),
     ((is_dist ''SRI_USI_BCM94712''), [dist_SRI_USI_BCM94712]),
     ((is_dist ''RTA770W''), [dist_RTA770W]),
     ((is_dist ''RTA770W_EVAL''), [dist_RTA770W_EVAL]),
     ((is_dist ''RGLOADER_RTA770W''), [dist_RGLOADER_RTA770W]),
     ((is_dist ''GTWX5803''), [dist_GTWX5803]),
     ((is_dist ''RGLOADER_GTWX5803''), [dist_RGLOADER_GTWX5803]),
     ((is_dist ''WRT54G''), [dist_WRT54G]),
     ((disj_c (is_dist ''SOLOS_LSP'') (is_dist ''SOLOS'')), [dist_SOLOS_LSP]),
     ((is_dist ''CX82100_SCHMID''), [dist_CX82100_SCHMID]),
     ((is_dist ''X86_FRG_TMT''), [dist_X86_FRG_TMT]),
     ((is_dist ''RGLOADER_X86_TMT''), [dist_RGLOADER_X86_TMT]),
     ((is_dist ''ALLWELL_RTL_RTL''), [dist_ALLWELL_RTL_RTL]),
     ((is_dist ''ALLWELL_RTL_RTL_SSI''), [dist_ALLWELL_RTL_RTL_SSI]),
     ((is_dist ''ALLWELL_RTL_EEP''), [dist_ALLWELL_RTL_EEP]),
     ((is_dist ''ALLWELL_RTL_RTL_ALADDIN''), [dist_ALLWELL_RTL_RTL_ALADDIN]),
     ((is_dist ''ALLWELL_RTL_RTL_WELLTECH''), [dist_ALLWELL_RTL_RTL_WELLTECH]),
     ((is_dist ''COYOTE_WIRELESS_80211B''), [dist_COYOTE_WIRELESS_80211B]),
     ((disj_c (disj_c (is_dist ''COYOTE_WIRELESS_ISL'') (is_dist ''COYOTE_WIRELESS_SOFTMAC'')) (is_dist ''COYOTE_WIRELESS_RALINK'')), [dist_COYOTE_WIRELESS_ISL]),
     ((is_dist ''RGLOADER_USR8200''), [dist_RGLOADER_USR8200]),
     ((is_dist ''USR8200_EVAL''), [dist_USR8200_EVAL]),
     ((disj_c (is_dist ''USR8200'') (is_dist ''USR8200_ALADDIN'')), [dist_USR8200]),
     ((is_dist ''USR8200_TUTORIAL''), [dist_USR8200_TUTORIAL]),
     ((disj_c (is_dist ''BAMBOO'') (is_dist ''BAMBOO_ALADDIN'')), [dist_BAMBOO]),
     ((is_dist ''RGLOADER_CENTROID''), [dist_RGLOADER_CENTROID]),
     ((is_dist ''CENTROID''), [dist_CENTROID]),
     ((is_dist ''MATECUMBE''), [dist_MATECUMBE]),
     ((is_dist ''IXDP425''), [dist_IXDP425]),
     ((is_dist ''IXDP425_WIRELESS''), [dist_IXDP425_WIRELESS]),
     ((is_dist ''RGLOADER_KINGSCANYON''), [dist_RGLOADER_KINGSCANYON]),
     ((is_dist ''RGLOADER_KINGSCANYON_LSP''), [dist_RGLOADER_KINGSCANYON_LSP]),
     ((disj_c (is_dist ''KINGSCANYON_WIRELESS'') (is_dist ''KINGSCANYON'')), [dist_KINGSCANYON_WIRELESS]),
     ((is_dist ''KINGSCANYON_LSP''), [dist_KINGSCANYON_LSP]),
     ((is_dist ''RGLOADER_ROCKAWAYBEACH''), [dist_RGLOADER_ROCKAWAYBEACH]),
     ((disj_c (is_dist ''ROCKAWAYBEACH'') (is_dist ''ROCKAWAYBEACH_WIRELESS'')), [dist_ROCKAWAYBEACH]),
     ((is_dist ''IXDP425_NETKLASS''), [dist_IXDP425_NETKLASS]),
     ((is_dist ''WAV54G''), [dist_WAV54G]),
     ((disj_c (is_dist ''CX8620XR_LSP'') (is_dist ''CX8620XD_LSP'')), [dist_CX8620XR_LSP]),
     ((is_dist ''CX8620XR''), [dist_CX8620XR]),
     ((is_dist ''CX8620XD_FILESERVER''), [dist_CX8620XD_FILESERVER]),
     ((is_dist ''CX8620XD_SOHO''), [dist_CX8620XD_SOHO]),
     ((disj_c (is_dist ''MALINDI'') (is_dist ''MALINDI2'')), [dist_MALINDI]),
     ((is_dist ''RGLOADER_CX8620XD''), [dist_RGLOADER_CX8620XD]),
     ((is_dist ''IXDP425_CYBERTAN''), [dist_IXDP425_CYBERTAN]),
     ((disj_c (is_dist ''IXDP425_ATM'') (is_dist ''IXDP425_ATM_WIRELESS'')), [dist_IXDP425_ATM]),
     ((is_dist ''NAPA''), [dist_NAPA]),
     ((is_dist ''GTWX5715''), [dist_GTWX5715]),
     ((is_dist ''HG21''), [dist_HG21]),
     ((is_dist ''IXDP425_FRG''), [dist_IXDP425_FRG]),
     ((is_dist ''IXDP425_TMT''), [dist_IXDP425_TMT]),
     ((is_dist ''RGLOADER_WADB100G''), [dist_RGLOADER_WADB100G]),
     ((is_dist ''WADB100G''), [dist_WADB100G]),
     ((is_dist ''ASUS6020VI''), [dist_ASUS6020VI]),
     ((is_dist ''RGLOADER_WADB102GB''), [dist_RGLOADER_WADB102GB]),
     ((is_dist ''WADB102GB''), [dist_WADB102GB]),
     ((disj_c (is_dist ''MPC8272ADS_LSP'') (is_dist ''MPC8272ADS_LSP_26'')), [dist_MPC8272ADS_LSP]),
     ((is_dist ''MPC8272ADS''), [dist_MPC8272ADS]),
     ((is_dist ''EP8248_LSP_26''), [dist_EP8248_LSP_26]),
     ((is_dist ''EP8248_26''), [dist_EP8248_26]),
     ((is_dist ''MPC8349ITX_LSP''), [dist_MPC8349ITX_LSP]),
     ((is_dist ''MPC8349ITX''), [dist_MPC8349ITX]),
     ((is_dist ''CENTAUR_LSP''), [dist_CENTAUR_LSP]),
     ((disj_c (is_dist ''CENTAUR'') (is_dist ''CENTAUR_VGW'')), [dist_CENTAUR]),
     ((is_dist ''RGLOADER_CENTAUR''), [dist_RGLOADER_CENTAUR]),
     ((is_dist ''IXDP425_LSP''), [dist_IXDP425_LSP]),
     ((is_dist ''COYOTE_CAVIUM''), [dist_COYOTE_CAVIUM]),
     ((is_dist ''COYOTE_ACTIONTEC_OSIP''), [dist_COYOTE_ACTIONTEC_OSIP]),
     ((is_dist ''COYOTE''), [dist_COYOTE]),
     ((disj_c (disj_c (is_dist ''MONTEJADE'') (is_dist ''MONTEJADE_ATM'')) (is_dist ''JIWIS8XX'')), [dist_MONTEJADE]),
     ((disj_c (is_dist ''PCBOX_EEP_EEP_EICON'') (is_dist ''PCBOX_RTL_RTL_EICON'')), [dist_PCBOX_EEP_EEP_EICON]),
     ((is_dist ''COYOTE_LSP''), [dist_COYOTE_LSP]),
     ((is_dist ''COYOTE_EEP''), [dist_COYOTE_EEP]),
     ((is_dist ''RGLOADER_JIWIS8XX''), [dist_RGLOADER_JIWIS8XX]),
     ((is_dist ''COYOTE_ALL''), [dist_COYOTE_ALL]),
     ((is_dist ''COYOTE_ATM_WIRELESS_ISL''), [dist_COYOTE_ATM_WIRELESS_ISL]),
     ((is_dist ''RGLOADER_BRUCE''), [dist_RGLOADER_BRUCE]),
     ((is_dist ''BRUCE''), [dist_BRUCE]),
     ((disj_c (disj_c (disj_c (disj_c (disj_c (disj_c (disj_c (disj_c (disj_c (disj_c (disj_c (disj_c (disj_c (disj_c (disj_c (disj_c (is_dist ''TWINPASS'') (is_dist ''ULTRALINE3_TWINPASS'')) (is_dist ''WSTL_ULS3_VDSL_IKANOS_64'')) (is_dist ''WSTL_ULS3_DUAL_MOCA_64'')) (is_dist ''WSTL_ULS3_DUAL_MOCA_USB_64'')) (is_dist ''WSTL_ULS3_DUAL_MOCA_USB_11N_64'')) (is_dist ''WSTL_ULS3_VDSL_INFINEON_64'')) (is_dist ''WSTL_ULS3_WAN_ETHERNET_64'')) (is_dist ''WSTL_ULS3_WAN_ETHERNET_CO_64'')) (is_dist ''WSTL_ULS3_DMOCA_GENERIC_64'')) (is_dist ''WSTL_ULS3_VDSL_INFINEON_GENERIC_64'')) (is_dist ''WSTL_ULS3_TURBO_DUAL_MOCA_64'')) (is_dist ''WSTL_ULS3_VDSL_INFINEON_GENERIC_USB_64'')) (is_dist ''WSTL_ULS3_VDSL_IKANOS_GENERIC_64'')) (is_dist ''WSTL_ULS3_TURBO_M100_64'')) (is_dist ''WSTL_ULS3_TURBO_DUAL_MOCA_11N_64'')) (is_dist ''WSTL_ULS3_TURBO_COMMON_ART_64'')), [dist_TWINPASS]),
     ((is_dist ''AD6834''), [dist_AD6834]),
     ((disj_c (is_dist ''AD6834_26'') (is_dist ''AD6834_26_FULL'')), [dist_AD6834_26]),
     ((is_dist ''AD6834_26_LSP''), [dist_AD6834_26_LSP]),
     ((is_dist ''JNET_SERVER''), [dist_JNET_SERVER]),
     ((is_dist ''BCM96358_LSP''), [dist_BCM96358_LSP]),
     ((is_dist ''BCM96358''), [dist_BCM96358]),
     ((is_dist ''REDBOOT_RICHFIELD''), [dist_REDBOOT_RICHFIELD]),
     ((is_dist ''REDBOOT_MATECUMBE''), [dist_REDBOOT_MATECUMBE]),
     ((is_dist ''REDBOOT_COYOTE''), [dist_REDBOOT_COYOTE]),
     ((is_dist ''REDBOOT_NAPA''), [dist_REDBOOT_NAPA]),
     ((disj_c (disj_c (disj_c (is_dist ''RGLOADER_IXDP425'') (is_dist ''RGLOADER_IXDP425_FULLSOURCE'')) (is_dist ''RGLOADER_IXDP425_16MB'')) (is_dist ''RGLOADER_IXDP425_LSP'')), [dist_RGLOADER_IXDP425]),
     ((is_dist ''RGLOADER_MATECUMBE''), [dist_RGLOADER_MATECUMBE]),
     ((is_dist ''RGLOADER_NAPA''), [dist_RGLOADER_NAPA]),
     ((is_dist ''RGLOADER_COYOTE''), [dist_RGLOADER_COYOTE]),
     ((is_dist ''RGLOADER_COYOTE_64MB_RAM''), [dist_RGLOADER_COYOTE_64MB_RAM]),
     ((is_dist ''RGLOADER_COYOTE_64MB_RAM_32MB_FLASH''), [dist_RGLOADER_COYOTE_64MB_RAM_32MB_FLASH]),
     ((is_dist ''RGLOADER_COYOTE_LSP''), [dist_RGLOADER_COYOTE_LSP]),
     ((is_dist ''RGLOADER_MONTEJADE''), [dist_RGLOADER_MONTEJADE]),
     ((is_dist ''RGLOADER_HG21''), [dist_RGLOADER_HG21]),
     ((is_dist ''RGLOADER_BAMBOO''), [dist_RGLOADER_BAMBOO]),
     ((is_dist ''RGLOADER_GTWX5715''), [dist_RGLOADER_GTWX5715]),
     ((is_dist ''RGLOADER_ALLWELL_RTL_RTL''), [dist_RGLOADER_ALLWELL_RTL_RTL]),
     ((is_dist ''RGLOADER_ALLWELL_RTL_EEP''), [dist_RGLOADER_ALLWELL_RTL_EEP]),
     ((is_dist ''RGLOADER_ALLWELL_EEP_EEP''), [dist_RGLOADER_ALLWELL_EEP_EEP]),
     ((is_dist ''RGLOADER_WAV54G''), [dist_RGLOADER_WAV54G]),
     ((disj_c (disj_c (is_dist ''WRT55AG'') (is_dist ''ATHEROS_AR531X_AG_VX'')) (is_dist ''WRT55AG_INT'')), [dist_WRT55AG]),
     ((disj_c (is_dist ''AR2313_LIZZY'') (is_dist ''BOCHS_LIZZY'')), [dist_AR2313_LIZZY]),
     ((disj_c (is_dist ''AR2313_ZIPPY'') (is_dist ''BOCHS_ZIPPY'')), [dist_AR2313_ZIPPY]),
     ((is_dist ''ATHEROS_AR531X_VX''), [dist_ATHEROS_AR531X_VX]),
     ((is_dist ''WRT108G_VX''), [dist_WRT108G_VX]),
     ((disj_c (disj_c (is_dist ''TI_404_VX_EVAL'') (is_dist ''T_TI_404_VX'')) (is_dist ''ARRIS_TI_404_VX'')), [dist_TI_404_VX_EVAL]),
     ((disj_c (is_dist ''T_TI_404_VX_CH'') (is_dist ''ARRIS_TI_404_VX_CH'')), [dist_T_TI_404_VX_CH]),
     ((disj_c (disj_c (is_dist ''TI_TNETC440_VX_CH'') (is_dist ''HITRON_TNETC440_VX_CH'')) (is_dist ''HITRON_TNETC440_VX'')), [dist_TI_TNETC440_VX_CH]),
     ((is_dist ''TI_404_VX_CH_EVAL''), [dist_TI_404_VX_CH_EVAL]),
     ((is_dist ''TI_WPA_VX''), [dist_TI_WPA_VX]),
     ((is_dist ''I386_BOCHS_VX''), [dist_I386_BOCHS_VX]),
     ((is_dist ''ALLWELL_RTL_RTL_VALGRIND''), [dist_ALLWELL_RTL_RTL_VALGRIND]),
     ((is_dist ''ALLWELL_RTL_RTL_ISL38XX''), [dist_ALLWELL_RTL_RTL_ISL38XX]),
     ((is_dist ''RGLOADER_UML''), [dist_RGLOADER_UML])]"

definition jpkg_branches :: "(bool rd \<times> stmt list) list" where
  "jpkg_branches = [
     ((is_dist ''JPKG_SRC''), [dist_JPKG_SRC]),
     ((is_dist ''JPKG_UML''), [dist_JPKG_UML]),
     ((is_dist ''JPKG_ARMV5B''), [dist_JPKG_ARMV5B]),
     ((is_dist ''JPKG_ARMV5L''), [dist_JPKG_ARMV5L]),
     ((is_dist ''JPKG_ARMV4L''), [dist_JPKG_ARMV4L]),
     ((is_dist ''JPKG_PPC''), [dist_JPKG_PPC]),
     ((is_dist ''JPKG_MIPSEB''), [dist_JPKG_MIPSEB]),
     ((is_dist ''JPKG_BCM9634X''), [dist_JPKG_BCM9634X]),
     ((is_dist ''JPKG_SB1250''), [dist_JPKG_SB1250]),
     ((is_dist ''JPKG_TWINPASS''), [dist_JPKG_TWINPASS]),
     ((is_dist ''JPKG_ARM_920T_LE''), [dist_JPKG_ARM_920T_LE]),
     ((is_dist ''JPKG_LX4189''), [dist_JPKG_LX4189]),
     ((is_dist ''JPKG_LOCAL_I386''), [dist_JPKG_LOCAL_I386])]"

definition dist_branches_2 :: "(bool rd \<times> stmt list) list" where
  "dist_branches_2 = [
     ((is_dist ''UML_LSP''), [dist_UML_LSP]),
     ((is_dist ''UML_LSP_26''), [dist_UML_LSP_26]),
     ((disj_c (disj_c (disj_c (disj_c (is_dist ''UML'') (is_dist ''UML_GLIBC'')) (is_dist ''UML_DUAL_WAN'')) (is_dist ''UML_ATM'')) (is_dist ''UML_26'')), [dist_UML]),
     ((disj_c (is_dist ''UML_VALGRIND'') (is_dist ''UML_ATM_VALGRIND'')), [dist_UML_VALGRIND]),
     ((is_dist ''UML_IPPHONE''), [dist_UML_IPPHONE]),
     ((is_dist ''UML_IPPHONE_VALGRIND''), [dist_UML_IPPHONE_VALGRIND]),
     ((disj_c (disj_c (disj_c (is_dist ''UML_ATA'') (is_dist ''UML_ATA_OSIP'')) (is_dist ''UML_ATA_VALGRIND'')) (is_dist ''UML_ATA_OSIP_VALGRIND'')), [dist_UML_ATA]),
     ((is_dist ''RGTV''), [dist_RGTV]),
     ((is_dist ''FULL''), [dist_FULL])]"

definition distribution_features :: stmt where
  "distribution_features = block [
     when_c (neg dist_set) [conf_err (''ERROR: DIST is not defined'' @ [NL])],
     cases_c (dist_branches_1 @ jpkg_branches @ dist_branches_2) [conf_err (''invalid DIST=%s'' @ [NL])],
     when_c (conj_c (conj_c hw_set (neg (hw_is ''JPKG''))) (neg (neg (os_is '''')))) [set_os ''LINUX_24''],
     token_set_of DC 4916 ''CONFIG_RG_DIST'' dist_str]"

text \<open>The same without the branches of package builds, for the proofs.\<close>

definition single_distribution_features :: stmt where
  "single_distribution_features = block [
     when_c (neg dist_set) [conf_err (''ERROR: DIST is not defined'' @ [NL])],
     cases_c (dist_branches_1 @ dist_branches_2) [conf_err (''invalid DIST=%s'' @ [NL])],
     when_c (conj_c (conj_c hw_set (neg (hw_is ''JPKG''))) (neg (neg (os_is '''')))) [set_os ''LINUX_24''],
     token_set_of DC 4916 ''CONFIG_RG_DIST'' dist_str]"

lemma block_one: "block [c] = c"
  by (rule ext) (simp add: bind_res_def split: sum.split)

lemma cases_c_append: "cases_c (xs @ ys) ds = cases_c xs [cases_c ys ds]"
  by (induction xs) (simp_all add: block_one)

lemma ok_dist_branches_1: "ok base_schema value_tokens J (block ds) \<Longrightarrow>
    ok base_schema value_tokens J (cases_c dist_branches_1 ds)"
  unfolding dist_branches_1_def by (intro safe_intros safe_scripts)

lemma ok_jpkg_branches: "ok base_schema value_tokens bundled (block ds) \<Longrightarrow>
    ok base_schema value_tokens bundled (cases_c jpkg_branches ds)"
  unfolding jpkg_branches_def by (intro safe_intros safe_scripts)

lemma ok_dist_branches_2: "ok base_schema value_tokens J (block ds) \<Longrightarrow>
    ok base_schema value_tokens J (cases_c dist_branches_2 ds)"
  unfolding dist_branches_2_def by (intro safe_intros safe_scripts)

lemma ok_distribution_features [safe_scripts]: "ok base_schema value_tokens bundled distribution_features"
  unfolding distribution_features_def cases_c_append
  by (intro safe_intros ok_dist_branches_1 ok_jpkg_branches ok_dist_branches_2 shipped.ok_sets; simp)

lemma ok_single_distribution_features [safe_scripts]:
  "ok base_schema value_tokens J single_distribution_features"
  unfolding single_distribution_features_def cases_c_append
  by (intro safe_intros ok_dist_branches_1 ok_dist_branches_2 shipped.ok_sets; simp)

text \<open>A distribution that is no package build takes none of the branches of package builds.\<close>

definition jpkg_names :: "string list" where
  "jpkg_names = [''JPKG_SRC'', ''JPKG_UML'', ''JPKG_ARMV5B'', ''JPKG_ARMV5L'', ''JPKG_ARMV4L'', ''JPKG_PPC'', ''JPKG_MIPSEB'', ''JPKG_BCM9634X'', ''JPKG_SB1250'', ''JPKG_TWINPASS'', ''JPKG_ARM_920T_LE'', ''JPKG_LX4189'', ''JPKG_LOCAL_I386'']"

lemma skip_jpkg_branches:
  assumes "cfg_dist s = Some d" "d \<notin> set jpkg_names"
  shows "cases_c jpkg_branches ds s = block ds s"
  using assms by (simp add: jpkg_branches_def jpkg_names_def ifc_def is_dist_def bind_res_def split: sum.split)

lemma bundled_single: "list_all (\<lambda>d. d \<notin> set jpkg_names) bundled_list"
  by code_simp

end
