(* ===== verification/Option_Store.thy ===== *)
theory Option_Store
  imports Options_Init
begin

text \<open>
  What the option array promises its clients, apart from how it is searched: a finite map
  from option names to a value and the priority it was set with, where a write takes
  effect unless a higher priority is already there. The array with \<open>_token_set\<close>
  refines it, and what a series of writes leaves is the last write of the highest
  priority.
\<close>

type_synonym astore = "string \<Rightarrow> (string option \<times> set_prio_t) option"

definition abs_store :: "option_t list \<Rightarrow> astore" where
  "abs_store os = map_of (map (\<lambda>o1. (opt_token o1, opt_value o1, opt_prio o1)) os)"

fun prio_put :: "set_prio_t \<Rightarrow> 'v \<Rightarrow> 'v option \<times> set_prio_t \<Rightarrow> 'v option \<times> set_prio_t" where
  "prio_put p v (old, q) = (if p < q then (old, q) else (Some v, p))"

definition set_spec :: "set_prio_t \<Rightarrow> string \<Rightarrow> string \<Rightarrow> astore \<Rightarrow> astore" where
  "set_spec p t v m = (case m t of None \<Rightarrow> m | Some x \<Rightarrow> m(t \<mapsto> prio_put p v x))"

text \<open>The reference reading of a series of writes to one option.\<close>

definition top_prio :: "(set_prio_t \<times> 'v) list \<Rightarrow> set_prio_t \<Rightarrow> set_prio_t" where
  "top_prio ws q = fold max (map fst ws) q"

definition winner :: "(set_prio_t \<times> 'v) list \<Rightarrow> 'v option \<times> set_prio_t \<Rightarrow> 'v option \<times> set_prio_t" where
  "winner ws x = (case rev (filter (\<lambda>w. fst w = top_prio ws (snd x)) ws) of
       [] \<Rightarrow> x
     | w # _ \<Rightarrow> (Some (snd w), fst w))"

lemma top_prio_snoc [simp]: "top_prio (ws @ [w]) q = max (fst w) (top_prio ws q)"
  by (simp add: top_prio_def)

lemma top_prio_ge: "q \<le> top_prio ws q" "w \<in> set ws \<Longrightarrow> fst w \<le> top_prio ws q"
proof -
  show "q \<le> top_prio ws q"
    by (induction ws rule: rev_induct) (auto simp: top_prio_def max_def)
  show "w \<in> set ws \<Longrightarrow> fst w \<le> top_prio ws q"
    by (induction ws rule: rev_induct) (auto simp: le_max_iff_disj)
qed

lemma winner_Nil [simp]: "winner [] x = x"
  by (simp add: winner_def)

lemma winner_prio: "snd (winner ws x) = top_prio ws (snd x)"
proof (cases "rev (filter (\<lambda>w. fst w = top_prio ws (snd x)) ws)")
  case Nil
  have "top_prio ws q = q \<or> top_prio ws q \<in> fst ` set ws" for q
    by (induction ws rule: rev_induct) (auto simp: top_prio_def max_def)
  from this [of "snd x"] Nil show ?thesis by (auto simp: winner_def filter_empty_conv)
next
  case (Cons w r)
  then have "w \<in> set (rev (filter (\<lambda>w. fst w = top_prio ws (snd x)) ws))" by simp
  then have "fst w = top_prio ws (snd x)" by simp
  with Cons show ?thesis by (simp add: winner_def)
qed

lemma winner_snoc: "winner (ws @ [w]) x = prio_put (fst w) (snd w) (winner ws x)"
proof (cases "fst w < top_prio ws (snd x)")
  case True
  then have "max (fst w) (top_prio ws (snd x)) = top_prio ws (snd x)" by (intro max_absorb2) simp
  with True winner_prio [of ws x] show ?thesis
    by (cases "winner ws x") (auto simp: winner_def)
next
  case False
  then have "max (fst w) (top_prio ws (snd x)) = fst w" by (intro max_absorb1) simp
  with False winner_prio [of ws x] show ?thesis
    by (cases "winner ws x") (auto simp: winner_def)
qed

lemma fold_prio_put: "fold (\<lambda>w. prio_put (fst w) (snd w)) ws x = winner ws x"
proof (induction ws rule: rev_induct)
  case Nil
  then show ?case by simp
next
  case (snoc w ws)
  then show ?case by (simp add: winner_snoc)
qed

section \<open>The interface\<close>

text \<open>
  A store whose writes may change the value they are given, or refuse it; the writes that do
  not, the faithful ones, are the same whatever has been written before.
\<close>

locale prio_store =
  fixes get :: "'s \<Rightarrow> string \<Rightarrow> (string option \<times> set_prio_t) option"
    and put :: "set_prio_t \<Rightarrow> string \<Rightarrow> string \<Rightarrow> 's \<Rightarrow> 's"
    and faithful :: "string \<Rightarrow> string \<Rightarrow> 's \<Rightarrow> bool"
  assumes get_put: "faithful t v s \<Longrightarrow> get (put p t v s) = set_spec p t v (get s)"
    and faithful_put: "faithful t v (put p u w s) \<longleftrightarrow> faithful t v s"
begin

lemma get_put_same: "faithful t v s \<Longrightarrow> get (put p t v s) t = map_option (prio_put p v) (get s t)"
  by (simp add: get_put set_spec_def split: option.split)

lemma get_put_other: "faithful t v s \<Longrightarrow> t \<noteq> u \<Longrightarrow> get (put p t v s) u = get s u"
  by (simp add: get_put set_spec_def split: option.split)

lemma dom_put: "faithful t v s \<Longrightarrow> dom (get (put p t v s)) = dom (get s)"
  by (auto simp: get_put set_spec_def split: option.splits if_splits)

text \<open>Writes in sequence, and the ones to a given option.\<close>

definition puts :: "(set_prio_t \<times> string \<times> string) list \<Rightarrow> 's \<Rightarrow> 's" where
  "puts = fold (\<lambda>(p, t, v). put p t v)"

definition writes_to :: "string \<Rightarrow> (set_prio_t \<times> string \<times> string) list \<Rightarrow> (set_prio_t \<times> string) list" where
  "writes_to t ws = map (\<lambda>(p, u, v). (p, v)) (filter (\<lambda>(p, u, v). u = t) ws)"

lemma faithful_puts: "faithful t v (puts ws s) \<longleftrightarrow> faithful t v s"
proof (induction ws rule: rev_induct)
  case (snoc w ws)
  then show ?case by (cases w) (simp add: puts_def faithful_put)
qed (simp add: puts_def)

lemma get_puts:
  assumes "list_all (\<lambda>(p, t, v). faithful t v s) ws"
  shows "get (puts ws s) t = map_option (winner (writes_to t ws)) (get s t)"
  using assms
proof (induction ws rule: rev_induct)
  case Nil
  then show ?case by (cases "get s t") (simp_all add: puts_def writes_to_def)
next
  case (snoc w ws)
  obtain p u v where w: "w = (p, u, v)" by (cases w)
  from snoc w have "faithful u v s" and IH: "get (puts ws s) t = map_option (winner (writes_to t ws)) (get s t)"
    by auto
  then have f: "faithful u v (puts ws s)" by (simp add: faithful_puts)
  from w have "puts (ws @ [w]) s = put p u v (puts ws s)" by (simp add: puts_def)
  with w IH get_put_same [OF f] get_put_other [OF f] show ?case
    by (cases "u = t")
      (simp_all add: writes_to_def option.map_comp comp_def winner_snoc [of _ "(p, v)" for p v, simplified])
qed

text \<open>Writes to one option with different priorities may come in either order.\<close>

lemma put_commute:
  assumes "faithful t v s" "faithful t w s" "p \<noteq> q"
  shows "get (put p t v (put q t w s)) = get (put q t w (put p t v s))"
  using assms by (cases "get s t") (auto simp: get_put faithful_put set_spec_def)

end

section \<open>The array is such a store\<close>

lemma abs_store_eq:
  "abs_store os t = map_option (\<lambda>i. (opt_value (os ! i), opt_prio (os ! i))) (option_token_get_nofail os t)"
  by (induction os) (auto simp: abs_store_def option.map_comp comp_def)

lemma abs_store_update:
  "option_token_get_nofail os t = Some i \<Longrightarrow>
   abs_store (os[i := store_option f l p v (os ! i)]) = (abs_store os)(t \<mapsto> (Some v, p))"
proof (induction os arbitrary: i)
  case Nil
  then show ?case by simp
next
  case (Cons x xs)
  then show ?case by (cases i) (auto simp: abs_store_def split: if_splits)
qed

text \<open>
  A value that \<open>_token_set\<close> stores as given in any option, and the values it stores as given
  in the option of a name: \<open>m\<close> where the option has a type, but not
  \<open>OPT_STATIC_ON_DEVELOP\<close>.
\<close>

definition plain_value :: "string \<Rightarrow> bool" where
  "plain_value v \<longleftrightarrow> CHR ''%'' \<notin> set v \<and> v \<noteq> ''m'' \<and> length v \<le> 4094"

definition takes_m :: "opt_type_t \<Rightarrow> bool" where
  "takes_m ty \<longleftrightarrow> ty \<noteq> 0 \<and> ty AND OPT_STATIC_ON_DEVELOP = 0"

definition stored_as_given :: "string \<Rightarrow> string \<Rightarrow> conf \<Rightarrow> bool" where
  "stored_as_given t v s \<longleftrightarrow> CHR ''%'' \<notin> set v \<and> length v \<le> 4094 \<and>
     (v = ''m'' \<longrightarrow> (case option_token_get_nofail (cfg_options s) t of
        None \<Rightarrow> True | Some i \<Rightarrow> takes_m (opt_type (cfg_options s ! i))))"

lemma plain_stored: "plain_value v \<Longrightarrow> stored_as_given t v s"
  by (simp add: plain_value_def stored_as_given_def)

definition put_option :: "string \<Rightarrow> nat \<Rightarrow> set_prio_t \<Rightarrow> string \<Rightarrow> string \<Rightarrow> conf \<Rightarrow> conf" where
  "put_option f l p t v s = (case raw_token_set f l p t (Some v) [] s of Inl e \<Rightarrow> s | Inr s' \<Rightarrow> s')"

lemma raw_token_set_stored:
  assumes "stored_as_given t v s"
  shows "raw_token_set f l p t (Some v) [] s =
    bind_res (option_token_get (cfg_options s) t) (\<lambda>i.
      let o1 = cfg_options s ! i in
      if p < opt_prio o1 then Inr s
      else Inr (s\<lparr> cfg_options := (cfg_options s)[i := store_option f l p v o1],
                   cfg_log := cfg_log s @ replace_log f l p t v o1 \<rparr>))"
  using assms
  by (cases "option_token_get_nofail (cfg_options s) t")
    (auto simp: stored_as_given_def raw_token_set_def vsnprintf_plain module_value_def Let_def
      option_token_get_def takes_m_def)

lemmas raw_token_set_plain = raw_token_set_stored [OF plain_stored]

lemma put_option_stored:
  assumes "stored_as_given t v s"
  shows "abs_store (cfg_options (put_option f l p t v s)) = set_spec p t v (abs_store (cfg_options s))"
proof (cases "option_token_get_nofail (cfg_options s) t")
  case None
  with assms show ?thesis
    by (simp add: put_option_def raw_token_set_stored option_token_get_def set_spec_def abs_store_eq)
next
  case (Some i)
  then have "abs_store (cfg_options s) t = Some (opt_value (cfg_options s ! i), opt_prio (cfg_options s ! i))"
    by (simp add: abs_store_eq)
  with Some assms show ?thesis
    by (auto simp: put_option_def raw_token_set_stored option_token_get_def set_spec_def Let_def
        abs_store_update fun_upd_idem)
qed

lemmas put_option_spec = put_option_stored [OF plain_stored]

text \<open>No write changes a name or a type.\<close>

lemma put_option_schema: "schema_of (cfg_options (put_option f l p t v s)) = schema_of (cfg_options s)"
proof -
  have "schema_of (os[i := store_option f l p w (os ! i)]) = schema_of os" for os i w
    by (cases "i < length os")
      (simp_all add: schema_of_def store_option_def map_update list_update_same_conv list_update_beyond)
  then show ?thesis
    by (auto simp: put_option_def raw_token_set_def bind_res_def Let_def split: option.splits sum.splits)
qed

lemma nofail_schema:
  "(case option_token_get_nofail os t of None \<Rightarrow> x | Some i \<Rightarrow> f (opt_type (os ! i)))
   = (case map_of (schema_of os) t of None \<Rightarrow> x | Some ty \<Rightarrow> f ty)"
  by (induction os) (auto simp: schema_of_def split: option.split)

interpretation array: prio_store "\<lambda>s. abs_store (cfg_options s)" "put_option f l" stored_as_given for f l
  by unfold_locales (auto simp: put_option_stored stored_as_given_def nofail_schema put_option_schema)

section \<open>The store with its types\<close>

text \<open>
  The store as \<open>_token_set\<close> sees it: the type of an option decides about \<open>m\<close>, and an option
  with \<open>OPT_STATIC_ON_DEVELOP\<close> gets \<open>y\<close> in its place under \<open>CONFIG_RG_DEV\<close>.
\<close>

type_synonym typed_store = "string \<Rightarrow> (string option \<times> set_prio_t \<times> opt_type_t) option"

definition store_of :: "option_t list \<Rightarrow> typed_store" where
  "store_of os = map_of (map (\<lambda>o1. (opt_token o1, opt_value o1, opt_prio o1, opt_type o1)) os)"

definition switch_spec :: "string \<Rightarrow> typed_store \<Rightarrow> conf_error + bool" where
  "switch_spec t m = (case m t of
       None \<Rightarrow> Inl (No_such_option t)
     | Some (v, q, ty) \<Rightarrow>
         if ty AND (OPT_STR OR OPT_C_STR) \<noteq> 0 then Inl (String_token t)
         else Inr (case v of
             None \<Rightarrow> False
           | Some x \<Rightarrow> if ty AND OPT_NUMBER \<noteq> 0 then str_to_number x \<noteq> 0 else x \<in> {''y'', ''m''}))"

definition write_spec :: "set_prio_t \<Rightarrow> string \<Rightarrow> string \<Rightarrow> typed_store \<Rightarrow> conf_error + typed_store" where
  "write_spec p t v m = (case m t of
       None \<Rightarrow> Inl (No_such_option t)
     | Some (old, q, ty) \<Rightarrow>
         if p < q then Inr m
         else if v \<noteq> ''m'' \<or> takes_m ty then Inr (m(t \<mapsto> (Some v, p, ty)))
         else if ty = 0 then Inl (Not_module_expand t)
         else bind_res (switch_spec ''CONFIG_RG_DEV'' m)
           (\<lambda>dev. Inr (m(t \<mapsto> (Some (if dev then ''y'' else ''m''), p, ty)))))"

lemma store_of_eq:
  "store_of os t = map_option (\<lambda>i. (opt_value (os ! i), opt_prio (os ! i), opt_type (os ! i)))
     (option_token_get_nofail os t)"
  by (induction os) (auto simp: store_of_def option.map_comp comp_def)

lemma abs_store_of: "abs_store os t = map_option (\<lambda>(v, p, ty). (v, p)) (store_of os t)"
  by (simp add: abs_store_eq store_of_eq option.map_comp comp_def)

lemma store_of_update:
  "option_token_get_nofail os t = Some i \<Longrightarrow>
   store_of (os[i := store_option f l p v (os ! i)]) = (store_of os)(t \<mapsto> (Some v, p, opt_type (os ! i)))"
proof (induction os arbitrary: i)
  case Nil
  then show ?case by simp
next
  case (Cons x xs)
  then show ?case by (cases i) (auto simp: store_of_def store_option_def split: if_splits)
qed

lemma on_switch_spec: "on t s = switch_spec t (store_of (cfg_options s))"
  by (auto simp: on_def token_get_def switch_spec_def store_of_eq option_token_get_def Let_def
      split: option.splits)

lemma module_value_spec:
  "module_value t o1 v s =
    (if v \<noteq> ''m'' \<or> takes_m (opt_type o1) then Inr v
     else if opt_type o1 = 0 then Inl (Not_module_expand t)
     else bind_res (on ''CONFIG_RG_DEV'' s) (\<lambda>dev. Inr (if dev then ''y'' else ''m'')))"
  by (auto simp: module_value_def takes_m_def opt_type_defs)

text \<open>
  The arguments of a call, formatted; more than 4094 characters are refused before the option
  is looked up.
\<close>

lemma raw_token_set_spec:
  "map_sum id (\<lambda>s'. store_of (cfg_options s')) (raw_token_set f l p t fmt args s) =
    (case Option.bind fmt (\<lambda>x. vsnprintf 4096 x args) of
       None \<Rightarrow> Inl Undefined
     | Some v \<Rightarrow> if 4094 < length v then Inl (Value_too_long f l t)
                 else write_spec p t v (store_of (cfg_options s)))"
proof (cases "Option.bind fmt (\<lambda>x. vsnprintf 4096 x args)")
  case None
  then show ?thesis by (simp add: raw_token_set_def)
next
  case (Some v)
  show ?thesis
  proof (cases "option_token_get_nofail (cfg_options s) t")
    case None
    with Some show ?thesis
      by (simp add: raw_token_set_def option_token_get_def write_spec_def store_of_eq)
  next
    case (Some i)
    then have m: "store_of (cfg_options s) t = Some (opt_value (cfg_options s ! i), opt_prio (cfg_options s ! i), opt_type (cfg_options s ! i))"
      by (simp add: store_of_eq)
    with Some \<open>Option.bind _ _ = _\<close> show ?thesis
      by (cases "on ''CONFIG_RG_DEV'' s")
        (simp_all add: raw_token_set_def option_token_get_def write_spec_def Let_def module_value_spec
          on_switch_spec [symmetric] store_of_update)
  qed
qed

end
