(* ===== verification/Command_Line.thy ===== *)
theory Command_Line
  imports Option_Store
begin

text \<open>
  The command line of \<open>create_config.c\<close>: \<open>getopt\<close> over its option string, and
  \<open>-f NAME=VALUE\<close>, which sets an option and pins it.
\<close>

unbundle bit_operations_syntax

section \<open>Operations\<close>

definition CC :: string where
  "CC = ''create_config.c''"

text \<open>
  One call of \<open>strtok\<close> with a single delimiter on what is left of the string: the token
  and the rest after its delimiter.
\<close>

definition strtok :: "char \<Rightarrow> string \<Rightarrow> (string \<times> string) option" where
  "strtok d s = (let r = dropWhile (\<lambda>c. c = d) s in
     if r = [] then None else Some (takeWhile (\<lambda>c. c \<noteq> d) r, drop 1 (dropWhile (\<lambda>c. c \<noteq> d) r)))"

text \<open>With no token at all, the null pointer goes to \<open>strcmp\<close>, which is undefined.\<close>

definition add_feature_parse :: "string \<Rightarrow> stmt" where
  "add_feature_parse arg s = (case strtok (CHR ''='') arg of
       None \<Rightarrow> Inl Undefined
     | Some (t, rest) \<Rightarrow>
         bind_res (option_token_get (cfg_options s) t) (\<lambda>i.
           if opt_type (cfg_options s ! i) AND OPT_INT \<noteq> 0
           then Inl (Conf_err ''Internal. Cannot be added to command line'')
           else bind_res (case strtok (CHR ''='') rest of
                    None \<Rightarrow> Inr s
                  | Some (v, _) \<Rightarrow> raw_token_set CC 100 SET_PRIO_TOKEN_SET t (Some v) [] s)
             (\<lambda>s'. Inr (s'\<lparr> cfg_options := (cfg_options s')[i :=
                (cfg_options s' ! i)\<lparr> opt_prio := SET_PRIO_CMD_LINE \<rparr>] \<rparr>))))"

record file_names =
  mk_file_name :: "string option"
  h_file_name :: "string option"
  c_file_name :: "string option"
  major_features_file :: "string option"
  major_features_cfile :: "string option"

definition no_files :: file_names where
  "no_files = \<lparr> mk_file_name = None, h_file_name = None, c_file_name = None,
                major_features_file = None, major_features_cfile = None \<rparr>"

text \<open>One turn of the loop in \<open>handle_opt\<close>; \<open>-e\<close> is accepted and has no case.\<close>

definition handle_one :: "char \<Rightarrow> string \<Rightarrow> file_names \<times> conf \<Rightarrow> conf_error + file_names \<times> conf" where
  "handle_one c optarg x = (case x of (n, s) \<Rightarrow>
     if c = CHR ''d'' then Inr (n, s\<lparr> cfg_dist := Some optarg \<rparr>)
     else if c = CHR ''c'' then Inr (n\<lparr> c_file_name := Some optarg \<rparr>, s)
     else if c = CHR ''m'' then Inr (n\<lparr> mk_file_name := Some optarg \<rparr>, s)
     else if c = CHR ''i'' then Inr (n\<lparr> h_file_name := Some optarg \<rparr>, s)
     else if c = CHR ''f'' then
       bind_res (add_feature_parse optarg (s\<lparr> cfg_features := Some optarg \<rparr>)) (\<lambda>s'. Inr (n, s'))
     else if c = CHR ''h'' then Inr (n, s\<lparr> cfg_hw := Some optarg \<rparr>)
     else if c = CHR ''o'' then Inr (n, s\<lparr> cfg_os := optarg \<rparr>)
     else if c = CHR ''M'' then Inr (n\<lparr> major_features_file := Some optarg \<rparr>, s)
     else if c = CHR ''F'' then Inr (n\<lparr> major_features_cfile := Some optarg \<rparr>, s)
     else Inr (n, s))"

text \<open>
  \<open>getopt\<close> with \<open>d:f:h:o:c:i:m:e:M:F:\<close>: every option takes an argument, in the same word
  or the next. Words that are no options are passed over; that there was one is returned,
  for \<open>main\<close> compares \<open>optind\<close> with \<open>argc\<close>.
\<close>

fun handle_opt :: "string list \<Rightarrow> bool \<Rightarrow> file_names \<times> conf \<Rightarrow> conf_error + bool \<times> file_names \<times> conf" where
  "handle_opt [] extra x = Inr (extra, x)"
| "handle_opt (w # ws) extra x =
     (if w = ''--'' then Inr (extra \<or> ws \<noteq> [], x)
      else if length w \<ge> 2 \<and> w ! 0 = CHR ''-'' then
        if w ! 1 \<notin> set ''dfhocimeMF'' then Inl Usage
        else if drop 2 w \<noteq> [] then
          bind_res (handle_one (w ! 1) (drop 2 w) x) (handle_opt ws extra)
        else (case ws of
            [] \<Rightarrow> Inl Usage
          | a # ws' \<Rightarrow> bind_res (handle_one (w ! 1) a x) (handle_opt ws' extra))
      else handle_opt ws True x)"

section \<open>Parsing\<close>

lemma strtok_token:
  "t \<noteq> [] \<Longrightarrow> d \<notin> set t \<Longrightarrow> strtok d (t @ d # rest) = Some (t, rest)"
  by (cases t) (auto simp: strtok_def Let_def delim_simps)

lemma strtok_last: "t \<noteq> [] \<Longrightarrow> d \<notin> set t \<Longrightarrow> strtok d t = Some (t, [])"
  by (cases t) (auto simp: strtok_def Let_def delim_simps)

lemma strtok_Nil [simp]: "strtok d [] = None"
  by (simp add: strtok_def)

section \<open>Pinning\<close>

text \<open>What a successful \<open>-f\<close> does to the array: the named option, and only it, is pinned.\<close>

lemma add_feature_Inr:
  assumes "add_feature_parse arg s = Inr s'"
  obtains t rest i x where "strtok (CHR ''='') arg = Some (t, rest)"
    and "option_token_get_nofail (cfg_options s) t = Some i"
    and "opt_type (cfg_options s ! i) AND OPT_INT = 0"
    and "cfg_options s' = (cfg_options s)[i := x]"
    and "opt_token x = t" "opt_type x = opt_type (cfg_options s ! i)"
    and "opt_prio x = SET_PRIO_CMD_LINE"
proof -
  from assms obtain t rest i s1 where t: "strtok (CHR ''='') arg = Some (t, rest)"
    and i: "option_token_get_nofail (cfg_options s) t = Some i"
    and int: "opt_type (cfg_options s ! i) AND OPT_INT = 0"
    and s1: "(case strtok (CHR ''='') rest of None \<Rightarrow> Inr s
        | Some (v, _) \<Rightarrow> raw_token_set CC 100 SET_PRIO_TOKEN_SET t (Some v) [] s) = Inr s1"
    and s': "cfg_options s' = (cfg_options s1)[i := (cfg_options s1 ! i)\<lparr> opt_prio := SET_PRIO_CMD_LINE \<rparr>]"
    by (auto simp: add_feature_parse_def bind_res_eq_Inr split: option.splits if_splits prod.splits)
  note i_in = nofail_Some [OF i]
  have "\<exists>y. cfg_options s1 = (cfg_options s)[i := y] \<and> opt_token y = t \<and> opt_type y = opt_type (cfg_options s ! i)"
  proof (cases "strtok (CHR ''='') rest")
    case None
    with s1 i_in show ?thesis by (intro exI [of _ "cfg_options s ! i"]) simp
  next
    case (Some vr)
    with s1 obtain v where "raw_token_set CC 100 SET_PRIO_TOKEN_SET t (Some v) [] s = Inr s1"
      by (cases vr) auto
    then show ?thesis
    proof (cases rule: raw_token_set_Inr)
      case 1
      with i_in show ?thesis by (intro exI [of _ "cfg_options s ! i"]) simp
    next
      case (2 u w)
      from 2(3) i i_in show ?thesis by (auto elim!: set_token_stepE)
    qed
  qed
  then obtain y where "cfg_options s1 = (cfg_options s)[i := y]" "opt_token y = t"
    "opt_type y = opt_type (cfg_options s ! i)" by blast
  with s' i_in that [OF t i int] show thesis by simp
qed

text \<open>What the command line leaves alone: the schema, the base table and the bundled list.\<close>

definition arguments_keep :: "conf \<Rightarrow> conf \<Rightarrow> bool" where
  "arguments_keep s t \<longleftrightarrow> same_schema s t \<and> cfg_base t = cfg_base s \<and> cfg_jpkg t = cfg_jpkg s"

lemma arguments_keep_refl [simp]: "arguments_keep s s"
  by (simp add: arguments_keep_def same_schema_def)

lemma arguments_keep_trans: "arguments_keep s t \<Longrightarrow> arguments_keep t u \<Longrightarrow> arguments_keep s u"
  by (simp add: arguments_keep_def same_schema_def)

lemma raw_token_set_globals:
  "raw_token_set f l p t fmt args s = Inr s' \<Longrightarrow> cfg_base s' = cfg_base s \<and> cfg_jpkg s' = cfg_jpkg s"
  by (auto elim!: raw_token_set_Inr set_token_stepE)

lemma add_feature_schema: "add_feature_parse arg s = Inr s' \<Longrightarrow> same_schema s s'"
proof (elim add_feature_Inr)
  fix t rest i x
  assume "option_token_get_nofail (cfg_options s) t = Some i" "cfg_options s' = (cfg_options s)[i := x]"
    "opt_token x = t" "opt_type x = opt_type (cfg_options s ! i)"
  with nofail_Some show "same_schema s s'"
    by (fastforce simp: same_schema_def schema_of_def map_update intro!: list_update_same_conv [THEN iffD2])
qed

lemma add_feature_keep: "add_feature_parse arg s = Inr s' \<Longrightarrow> arguments_keep s s'"
  using add_feature_schema [of arg s s'] raw_token_set_globals
  by (fastforce simp: arguments_keep_def add_feature_parse_def bind_res_eq_Inr
      split: option.splits if_splits prod.splits)

lemma handle_one_keep: "handle_one c a x = Inr y \<Longrightarrow> arguments_keep (snd x) (snd y)"
  by (cases x) (auto simp: handle_one_def bind_res_eq_Inr arguments_keep_def same_schema_def
      split: if_splits dest!: add_feature_keep)

lemma handle_opt_keep:
  "handle_opt ws extra x = Inr (extra', y) \<Longrightarrow> arguments_keep (snd x) (snd y)"
proof (induction ws extra x rule: handle_opt.induct)
  case (1 extra x)
  then show ?case by simp
next
  case (2 w ws extra x)
  have then_rest: "arguments_keep (snd x) (snd y)"
    if "bind_res (handle_one c a x) (handle_opt ws' extra) = Inr (extra', y)"
      "\<And>z. handle_opt ws' extra z = Inr (extra', y) \<Longrightarrow> arguments_keep (snd z) (snd y)" for c a ws'
  proof -
    from that(1) obtain z where "handle_one c a x = Inr z" "handle_opt ws' extra z = Inr (extra', y)"
      by (auto simp: bind_res_eq_Inr)
    with that(2) handle_one_keep arguments_keep_trans show ?thesis by blast
  qed
  consider "w = ''--''" | "w \<noteq> ''--''" "\<not> (length w \<ge> 2 \<and> w ! 0 = CHR ''-'')"
    | "w \<noteq> ''--''" "length w \<ge> 2 \<and> w ! 0 = CHR ''-''" "drop 2 w \<noteq> []"
    | "w \<noteq> ''--''" "length w \<ge> 2 \<and> w ! 0 = CHR ''-''" "drop 2 w = []" by blast
  then show ?case
  proof cases
    case 1
    with "2.prems" show ?thesis by simp
  next
    case 2
    with "2.IH"(3) "2.prems" show ?thesis by simp
  next
    case 3
    with "2.IH"(1) "2.prems" show ?thesis by (auto split: if_splits intro!: then_rest)
  next
    case 4
    with "2.IH"(2) "2.prems" show ?thesis by (auto split: if_splits list.splits intro!: then_rest)
  qed
qed

text \<open>A pinned option ignores a second \<open>-f\<close>: what the program goes on with is unchanged.\<close>

lemma add_feature_again:
  assumes "strtok (CHR ''='') arg = Some (t, rest)"
    and i: "option_token_get_nofail (cfg_options s) t = Some i"
    and p: "opt_prio (cfg_options s ! i) = SET_PRIO_CMD_LINE"
    and r: "add_feature_parse arg s = Inr s'"
  shows "s' = s"
proof -
  have set: "raw_token_set CC 100 SET_PRIO_TOKEN_SET t (Some v) [] s = Inr s1 \<Longrightarrow> s1 = s" for v s1
    using i p
    by (auto simp: raw_token_set_def bind_res_eq_Inr Let_def prio_order_defs split: option.splits if_splits)
  have pin: "(cfg_options s ! i)\<lparr> opt_prio := SET_PRIO_CMD_LINE \<rparr> = cfg_options s ! i"
    using p by simp
  from assms(1) i r obtain s1 where
    "(case strtok (CHR ''='') rest of None \<Rightarrow> Inr s
      | Some (v, _) \<Rightarrow> raw_token_set CC 100 SET_PRIO_TOKEN_SET t (Some v) [] s) = Inr s1"
    and s': "s' = s1\<lparr> cfg_options := (cfg_options s1)[i := (cfg_options s1 ! i)\<lparr> opt_prio := SET_PRIO_CMD_LINE \<rparr>] \<rparr>"
    by (auto simp: add_feature_parse_def bind_res_eq_Inr split: if_splits)
  then have "s1 = s" by (auto split: option.splits prod.splits dest: set)
  with s' pin show ?thesis by simp
qed

end
