(* ===== verification/Output.thy ===== *)
theory Output
  imports Command_Line
begin

text \<open>
  The files \<open>create_config\<close> writes: the make file, the C header and the C file with one
  group of lines per option, and the list of major features. A file under construction is
  the list of its lines. Where a pointer printed by \<open>%s\<close> may be null, the text is the
  \<open>(null)\<close> of the C library.
\<close>

unbundle bit_operations_syntax

section \<open>Operations\<close>

definition has_type :: "opt_type_t \<Rightarrow> option_t \<Rightarrow> bool" where
  "has_type m o1 \<longleftrightarrow> opt_type o1 AND m \<noteq> 0"

definition file_of :: "option_t \<Rightarrow> string" where
  "file_of o1 = (case opt_file o1 of None \<Rightarrow> ''(null)'' | Some f \<Rightarrow> f)"

definition file_line :: "option_t \<Rightarrow> string" where
  "file_line o1 = file_of o1 @ '':'' @ show_nat (opt_line o1)"

definition yes_or_m :: "string option \<Rightarrow> bool" where
  "yes_or_m v \<longleftrightarrow> v = Some ''y'' \<or> v = Some ''m''"

definition print_ref :: "option_t \<Rightarrow> string list" where
  "print_ref o1 =
     (if opt_prio o1 = SET_PRIO_CMD_LINE then [''/* Set by command line */'']
      else if opt_line o1 \<noteq> 0 then [''/* '' @ file_line o1 @ '' */'']
      else [''''])"

text \<open>The switch-like options: modules, and whatever is neither a number nor a string.\<close>

definition is_y_m :: "option_t \<Rightarrow> bool" where
  "is_y_m o1 \<longleftrightarrow> has_type (OPT_MODULE OR OPT_MODULE_EXPAND) o1
     \<or> \<not> has_type (OPT_NUMBER OR OPT_STR OR OPT_C_STR) o1"

definition quote_of :: "option_t \<Rightarrow> string" where
  "quote_of o1 = (if has_type OPT_C_STR o1 then ''\"'' else '''')"

text \<open>The value in the \<open>cCONFIG_XXX\<close> macro and the \<open>vcCONFIG_XXX\<close> variable.\<close>

definition hc_value :: "option_t \<Rightarrow> string" where
  "hc_value o1 =
     (if has_type (OPT_STR OR OPT_C_STR) o1 then
        (case opt_value o1 of None \<Rightarrow> ''NULL'' | Some v \<Rightarrow> quote_of o1 @ v @ quote_of o1)
      else if has_type OPT_NUMBER o1 then
        (case opt_value o1 of None \<Rightarrow> ''0'' | Some v \<Rightarrow> v)
      else if is_y_m o1 then (if yes_or_m (opt_value o1) then ''1'' else ''0'')
      else (if opt_value o1 \<noteq> None then ''1'' else ''0''))"

definition hc_type :: "option_t \<Rightarrow> string" where
  "hc_type o1 = (if has_type (OPT_STR OR OPT_C_STR) o1 then ''char *'' else ''int '')"

text \<open>What follows \<open>#define CONFIG_XXX\<close> when the option is not module expanded.\<close>

definition plain_define :: "option_t \<Rightarrow> string option" where
  "plain_define o1 = (case opt_value o1 of
       None \<Rightarrow> None
     | Some v \<Rightarrow> if is_y_m o1 then (if v = ''y'' \<or> v = ''m'' then Some ''1'' else None) else Some v)"

text \<open>Lines for the header and lines for the C file.\<close>

definition print_h_option :: "option_t \<Rightarrow> string list \<times> string list" where
  "print_h_option o1 = (let
       v = opt_value o1; t = opt_token o1; hc = has_type OPT_HC o1;
       hc_h = (if hc then print_ref o1 @
                 [''#define c'' @ t @ '' '' @ hc_value o1, ''extern '' @ hc_type o1 @ ''vc'' @ t @ '';'']
               else []);
       hc_c = (if hc then [hc_type o1 @ ''vc'' @ t @ '' = '' @ hc_value o1 @ '';''] else []);
       ref = (if hc then [] else print_ref o1);
       feature = (if v \<noteq> None \<and> v \<noteq> Some ''n'' then ''1'' else ''0'')
     in
     if \<not> has_type OPT_MODULE_EXPAND o1 then
       (hc_h @ (case plain_define o1 of
            None \<Rightarrow> []
          | Some x \<Rightarrow> ref @ [''#define '' @ t @ '' '' @ quote_of o1 @ x @ quote_of o1]), hc_c)
     else
       (hc_h @ ref @ [''#define c'' @ t @ ''_FEATURE '' @ feature, ''extern int vc'' @ t @ ''_FEATURE;'']
          @ (case v of
               None \<Rightarrow> []
             | Some x \<Rightarrow> if x = ''n'' then [] else
                 [''#define '' @ t @ ''_FEATURE 1'',
                  ''#define '' @ t @ (if take 1 x = ''m'' then ''_MODULE'' else '''') @ '' 1'']),
        hc_c @ [''int vc'' @ t @ ''_FEATURE = '' @ feature @ '';'']))"

definition check_option_validity :: "option_t \<Rightarrow> conf_error + unit" where
  "check_option_validity o1 = (case opt_value o1 of
       None \<Rightarrow> Inr ()
     | Some v \<Rightarrow> (let
         s = opt_token o1 @ ''='' @ v @ '' ('' @
               (if opt_prio o1 = SET_PRIO_CMD_LINE then ''Set by command line''
                else if opt_file o1 \<noteq> None then file_line o1
                else ''config_opt.c'') @ '')'';
         y_m = has_type (OPT_MODULE OR OPT_MODULE_EXPAND) o1;
         y = (\<not> has_type (OPT_NUMBER OR OPT_STR OR OPT_C_STR OR OPT_MODULE OR OPT_MODULE_EXPAND) o1)
       in
       if has_type OPT_NUMBER o1 \<and> \<not> str_is_number_value v then Inl (Conf_err (s @ '' must be numeric''))
       else if y \<and> v \<notin> {'''', ''n'', ''y''} then Inl (Conf_err (s @ '' must be 'y' or 'n'' @ [CHR 0x27]))
       else if y_m \<and> v \<notin> {'''', ''n'', ''y'', ''m''} then Inl (Conf_err (s @ '' must be 'y' 'm' or 'n'' @ [CHR 0x27]))
       else Inr ()))"

definition print_mk_option :: "option_t \<Rightarrow> string list" where
  "print_mk_option o1 = (let t = opt_token o1 in
     if \<not> yes_or_m (opt_value o1) \<and> \<not> has_type (OPT_STR OR OPT_C_STR OR OPT_NUMBER) o1 then
       (if opt_prio o1 = SET_PRIO_CMD_LINE then
          [''# Disabled by command line'', ''override '' @ t @ ''='']
            @ (if has_type OPT_EXPORT o1 then [''export '' @ t] else [])
        else [])
     else (case opt_value o1 of
         None \<Rightarrow> []
       | Some v \<Rightarrow>
           [if opt_prio o1 = SET_PRIO_CMD_LINE then ''# Set by command line:''
            else if opt_file o1 \<noteq> None then ''# '' @ file_line o1
            else ''# config_opt.c (default):'',
            (if has_type OPT_EXPORT o1 then ''export '' else '''') @ t @ ''='' @ v]))"

record outputs =
  out_mk :: "string list"
  out_h :: "string list"
  out_c :: "string list"

text \<open>Which files an option is printed to, and its lines in each of them.\<close>

definition prints_mk :: "option_t \<Rightarrow> bool" where
  "prints_mk o1 \<longleftrightarrow> has_type OPT_MK o1 \<or> \<not> has_type (OPT_H OR OPT_MK) o1"

definition prints_h :: "option_t \<Rightarrow> bool" where
  "prints_h o1 \<longleftrightarrow> has_type OPT_H o1 \<or> has_type OPT_HC o1 \<or> \<not> has_type (OPT_H OR OPT_MK) o1"

definition mk_lines :: "option_t \<Rightarrow> string list" where
  "mk_lines o1 = (if prints_mk o1 then print_mk_option o1 else [])"

definition h_lines :: "option_t \<Rightarrow> string list" where
  "h_lines o1 = (if prints_h o1 then fst (print_h_option o1) else [])"

definition c_lines :: "option_t \<Rightarrow> string list" where
  "c_lines o1 = (if prints_h o1 then snd (print_h_option o1) else [])"

text \<open>
  The validity of an option is checked before its lines are written. An error ends the
  program with the lines written so far in the files, so that printing gives the lines and
  the error, if there is one.
\<close>

definition print_option :: "option_t \<Rightarrow> outputs \<Rightarrow> outputs \<times> conf_error option" where
  "print_option o1 out = (case check_option_validity o1 of
       Inl e \<Rightarrow> (out, Some e)
     | Inr _ \<Rightarrow>
         (\<lparr> out_mk = out_mk out @ mk_lines o1, out_h = out_h out @ h_lines o1, out_c = out_c out @ c_lines o1 \<rparr>, None))"

fun print_all_options :: "option_t list \<Rightarrow> outputs \<Rightarrow> outputs \<times> conf_error option" where
  "print_all_options [] out = (out, None)"
| "print_all_options (o1 # os) out = (case print_option o1 out of
       (out', Some e) \<Rightarrow> (out', Some e)
     | (out', None) \<Rightarrow> print_all_options os out')"

definition mk_header :: "string \<Rightarrow> string list" where
  "mk_header log = [''#OpenRG: This file was automatically generated by pkg/build/create_config'',
     ''#See '' @ log @ '' for configuration log.'', '''']"

definition c_header :: "string \<Rightarrow> string list" where
  "c_header log = [''/* OpenRG: This file was automatically generated by pkg/build/create_config '',
     '' * See '' @ log @ '' for configuration log.'', '' */'', '''', ''#include <stdlib.h>'']"

definition h_header :: "string \<Rightarrow> string list" where
  "h_header log = [''/* OpenRG: This file was automatically generated by pkg/build/create_config '',
     '' * See '' @ log @ '' for configuration log.'', '' */'',
     ''#ifndef _RG_CONFIG_H_'', ''#define _RG_CONFIG_H_'', '''', ''#define AUTOCONF_INCLUDED'']"

text \<open>What has become of the three files: untouched, or opened and holding these lines.\<close>

record files_made =
  made_c :: "string list option"
  made_mk :: "string list option"
  made_h :: "string list option"

definition no_files_made :: files_made where
  "no_files_made = \<lparr> made_c = None, made_mk = None, made_h = None \<rparr>"

definition all_made :: "outputs \<Rightarrow> files_made" where
  "all_made out = \<lparr> made_c = Some (out_c out), made_mk = Some (out_mk out), made_h = Some (out_h out) \<rparr>"

definition strings_start :: "bool \<Rightarrow> string list" where
  "strings_start strings = (if strings then [''#include <build/config_strings.h>''] else []) @ ['''']"

definition strings_table :: "bool \<Rightarrow> string list" where
  "strings_table strings = (if strings then
     ['''', ''config_value_t config_strings[] = {'', ''    {NULL, NULL}'', ''};'', ''''] else [])"

text \<open>
  \<open>configure_print\<close>. The three names are those of different files; which of them can be
  opened for writing and the value of the environment variable \<open>CONFIG_LOG\<close> are
  arguments.
\<close>

definition configure_print ::
    "(string \<Rightarrow> bool) \<Rightarrow> string \<Rightarrow> file_names \<Rightarrow> conf \<Rightarrow> files_made \<times> conf_error option" where
  "configure_print can_open log n s =
     (case (h_file_name n, mk_file_name n, c_file_name n) of
        (Some h, Some mk, Some c) \<Rightarrow>
          if \<not> can_open c then (no_files_made, Some (Conf_err (''Can't open c_file: '' @ c)))
          else if \<not> can_open mk then
            (no_files_made\<lparr> made_c := Some [] \<rparr>, Some (Conf_err (''Can't open mk_file: '' @ mk)))
          else if \<not> can_open h then
            (no_files_made\<lparr> made_c := Some [], made_mk := Some [] \<rparr>,
             Some (Conf_err (''Can't open h_file: '' @ h)))
          else (case on ''CONFIG_RG_CONFIG_STRINGS'' s of
              Inl e \<Rightarrow> (all_made \<lparr> out_mk = mk_header log, out_h = [], out_c = c_header log \<rparr>, Some e)
            | Inr strings \<Rightarrow>
                (case print_all_options (cfg_options s)
                    \<lparr> out_mk = mk_header log, out_h = h_header log,
                      out_c = c_header log @ strings_start strings \<rparr> of
                   (out, Some e) \<Rightarrow> (all_made out, Some e)
                 | (out, None) \<Rightarrow>
                     (all_made (out\<lparr> out_c := out_c out @ strings_table strings,
                                     out_h := out_h out @ [''#endif''] \<rparr>), None)))
      | _ \<Rightarrow> (no_files_made, Some (Conf_err ''MUST define mk_file, h_file and c_file'')))"

section \<open>Validity\<close>

lemma has_type_or: "has_type (a OR b) o1 \<longleftrightarrow> has_type a o1 \<or> has_type b o1"
  by (auto simp: has_type_def bit_eq_iff bit_simps)

text \<open>The values the last check lets through, by kind of option.\<close>

definition valid_value :: "option_t \<Rightarrow> string \<Rightarrow> bool" where
  "valid_value o1 v \<longleftrightarrow>
     (has_type OPT_NUMBER o1 \<longrightarrow> str_is_number_value v) \<and>
     (has_type OPT_MODULE o1 \<or> has_type OPT_MODULE_EXPAND o1 \<longrightarrow> v \<in> {'''', ''n'', ''y'', ''m''}) \<and>
     (\<not> has_type OPT_NUMBER o1 \<and> \<not> has_type OPT_STR o1 \<and> \<not> has_type OPT_C_STR o1 \<and>
      \<not> has_type OPT_MODULE o1 \<and> \<not> has_type OPT_MODULE_EXPAND o1 \<longrightarrow> v \<in> {'''', ''n'', ''y''})"

lemma check_option_validity_iff:
  "check_option_validity o1 = Inr () \<longleftrightarrow> (case opt_value o1 of None \<Rightarrow> True | Some v \<Rightarrow> valid_value o1 v)"
  by (auto simp: check_option_validity_def valid_value_def Let_def has_type_or split: option.splits)

lemma check_option_validity_cong:
  "opt_value x = opt_value y \<Longrightarrow> opt_type x = opt_type y \<Longrightarrow>
   check_option_validity x = Inr () \<longleftrightarrow> check_option_validity y = Inr ()"
  by (simp add: check_option_validity_iff valid_value_def has_type_def split: option.split)

text \<open>An option without a value is always valid.\<close>

definition option_valid :: "option_t \<Rightarrow> bool" where
  "option_valid o1 \<longleftrightarrow> (case opt_value o1 of None \<Rightarrow> True | Some v \<Rightarrow> valid_value o1 v)"

lemma check_valid: "check_option_validity o1 = Inr () \<longleftrightarrow> option_valid o1"
  by (simp add: check_option_validity_iff option_valid_def)

lemma print_option_cases:
  "print_option o1 out = (if option_valid o1
     then (\<lparr> out_mk = out_mk out @ mk_lines o1, out_h = out_h out @ h_lines o1, out_c = out_c out @ c_lines o1 \<rparr>, None)
     else (out, Some (projl (check_option_validity o1))))"
  using check_valid [of o1] by (auto simp: print_option_def split: sum.split)

definition lines_of :: "(option_t \<Rightarrow> string list) \<Rightarrow> option_t list \<Rightarrow> string list" where
  "lines_of f os = concat (map f os)"

definition first_invalid :: "option_t list \<Rightarrow> conf_error option" where
  "first_invalid os = map_option (\<lambda>o1. projl (check_option_validity o1)) (List.find (\<lambda>o1. \<not> option_valid o1) os)"

lemma first_invalid_None: "first_invalid os = None \<longleftrightarrow> list_all option_valid os"
  by (auto simp: first_invalid_def find_None_iff list_all_iff)

text \<open>Printing writes the options before the first invalid one, and fails for it.\<close>

lemma print_all_options_eq:
  "print_all_options os out =
    (let good = takeWhile option_valid os in
     (\<lparr> out_mk = out_mk out @ lines_of mk_lines good, out_h = out_h out @ lines_of h_lines good,
        out_c = out_c out @ lines_of c_lines good \<rparr>, first_invalid os))"
  by (induction os arbitrary: out) (simp_all add: print_option_cases lines_of_def first_invalid_def Let_def)

end
