(* ===== verification/Script_Invariants.thy ===== *)
theory Script_Invariants
  imports Script_Logic
begin

text \<open>
  What every script keeps of every option: an option the command line pinned is left
  alone, no priority falls, a switch that is on stays on, and an option that only takes
  \<open>y\<close> or \<open>m\<close> from the scripts changes to nothing else. Each is a relation between an
  option before and after, proved for one write and lifted to whole scripts.
\<close>

lemma list_all2_updateI:
  assumes "\<And>x. Q x x" "i < length xs \<Longrightarrow> Q (xs ! i) y"
  shows "list_all2 Q xs (xs[i := y])"
  unfolding list_all2_conv_all_nth
proof (intro conjI allI impI)
  fix j
  assume "j < length xs"
  with assms show "Q (xs ! j) (xs[i := y] ! j)" by (cases "i = j") simp_all
qed simp

locale option_invariant =
  fixes P :: "event \<Rightarrow> bool" and Q :: "option_t \<Rightarrow> option_t \<Rightarrow> bool"
  assumes opt_refl: "Q x x"
    and opt_trans: "Q x y \<Longrightarrow> Q y z \<Longrightarrow> Q x z"
    and opt_store: "opt_prio x \<le> p \<Longrightarrow> P (Set_Token p (opt_token x) v) \<Longrightarrow> Q x (store_option f l p v x)"
begin

definition R :: "conf \<Rightarrow> conf \<Rightarrow> bool" where
  "R s t \<longleftrightarrow> list_all2 Q (cfg_options s) (cfg_options t)"

lemma R_step: "cfg_step s e t \<Longrightarrow> P e \<Longrightarrow> R s t"
proof (induction rule: cfg_step.induct)
  case (set_token s t i p v f l ms)
  then show ?case using nofail_Some opt_refl opt_store
    by (fastforce simp: R_def intro!: list_all2_updateI)
qed (simp_all add: R_def list.rel_refl opt_refl)

end

sublocale option_invariant \<subseteq> step_invariant P R
proof unfold_locales
  show "R s s" for s by (simp add: R_def list.rel_refl opt_refl)
  show "R s t \<Longrightarrow> R t u \<Longrightarrow> R s u" for s t u
    unfolding R_def by (rule list_all2_trans [OF opt_trans])
  show "cfg_step s e t \<Longrightarrow> P e \<Longrightarrow> R s t" for s e t by (rule R_step)
qed

context option_invariant
begin

lemma script:
  assumes "emits sch P c" "has_schema sch s" "c s = Inr s'"
  shows "list_all2 Q (cfg_options s) (cfg_options s')"
  using emitsD [OF assms] run unfolding R_def by blast

end

section \<open>The invariants\<close>

primrec below_cmd_line :: "event \<Rightarrow> bool" where
  "below_cmd_line (Set_Token p t v) \<longleftrightarrow> p < SET_PRIO_CMD_LINE"
| "below_cmd_line (Set_Hw x) \<longleftrightarrow> True"
| "below_cmd_line (Set_Os x) \<longleftrightarrow> True"
| "below_cmd_line (Add_Jpkg d) \<longleftrightarrow> True"
| "below_cmd_line (Log m) \<longleftrightarrow> True"

definition keeps_pinned :: "option_t \<Rightarrow> option_t \<Rightarrow> bool" where
  "keeps_pinned x y \<longleftrightarrow> (opt_prio x = SET_PRIO_CMD_LINE \<longrightarrow> y = x)"

definition prio_rises :: "option_t \<Rightarrow> option_t \<Rightarrow> bool" where
  "prio_rises x y \<longleftrightarrow> opt_prio x \<le> opt_prio y"

definition switched_on :: "option_t \<Rightarrow> bool" where
  "switched_on x \<longleftrightarrow> opt_value x = Some ''y'' \<or> opt_value x = Some ''m''"

definition stays_on :: "string set \<Rightarrow> option_t \<Rightarrow> option_t \<Rightarrow> bool" where
  "stays_on V x y \<longleftrightarrow> opt_token y = opt_token x \<and>
     (opt_token x \<notin> V \<longrightarrow> switched_on x \<longrightarrow> switched_on y)"

definition tame :: "(string \<times> opt_type_t) list \<Rightarrow> string set \<Rightarrow> option_t \<Rightarrow> option_t \<Rightarrow> bool" where
  "tame sch V x y \<longleftrightarrow> opt_token y = opt_token x \<and> opt_type y = opt_type x \<and>
     (opt_token x \<notin> V \<longrightarrow> opt_value y = opt_value x
       \<or> switch sch (opt_token x) \<and> (opt_value y = Some ''y''
           \<or> opt_value y = Some ''m'' \<and> modular sch (opt_token x)))"

interpretation pinned: option_invariant below_cmd_line keeps_pinned
  by unfold_locales (auto simp: keeps_pinned_def prio_order_defs)

interpretation rising: option_invariant "\<lambda>_. True" prio_rises
  by unfold_locales (auto simp: prio_rises_def)

interpretation onset: option_invariant "policy sch V J" "stays_on V" for sch V J
  by unfold_locales (auto simp: stays_on_def switched_on_def)

interpretation tame: option_invariant "policy sch V J" "tame sch V" for sch V J
  by unfold_locales (auto simp: tame_def)

lemma policy_below: "policy sch V J e \<Longrightarrow> below_cmd_line e"
  by (cases e) (auto simp: prio_order_defs)

lemma emits_below: "emits sch (policy sch V J) c \<Longrightarrow> emits sch below_cmd_line c"
  by (erule emits_mono) (rule policy_below)

lemma emits_any: "emits sch P c \<Longrightarrow> emits sch (\<lambda>_. True) c"
  by (rule emits_mono) simp_all

section \<open>The other globals\<close>

text \<open>
  What scripts leave of the globals outside the option array: the base table and the name of
  the distribution stay, and the list of bundled distributions only grows.
\<close>

definition frame :: "string set \<Rightarrow> conf \<Rightarrow> conf \<Rightarrow> bool" where
  "frame J s t \<longleftrightarrow> cfg_base t = cfg_base s \<and> cfg_dist t = cfg_dist s \<and>
     (\<exists>ds. cfg_jpkg t = cfg_jpkg s @ map (\<lambda>d. (d, cfg_base s)) ds \<and> set ds \<subseteq> J)"

interpretation frame: step_invariant "policy sch V J" "frame J" for sch V J
proof unfold_locales
  show "frame J s s" for s by (simp add: frame_def)
  show "frame J s u" if "frame J s t" "frame J t u" for s t u
  proof -
    from that obtain ds es where "cfg_jpkg t = cfg_jpkg s @ map (\<lambda>d. (d, cfg_base s)) ds" "set ds \<subseteq> J"
      "cfg_jpkg u = cfg_jpkg t @ map (\<lambda>d. (d, cfg_base t)) es" "set es \<subseteq> J" by (auto simp: frame_def)
    with that show ?thesis by (auto simp: frame_def intro!: exI [of _ "ds @ es"])
  qed
  show "cfg_step s e t \<Longrightarrow> policy sch V J e \<Longrightarrow> frame J s t" for s e t
    by (induction rule: cfg_step.induct) (auto simp: frame_def intro: exI [of _ "[d]" for d])
qed

lemma frame_script:
  "emits sch (policy sch V J) c \<Longrightarrow> has_schema sch s \<Longrightarrow> c s = Inr s' \<Longrightarrow> frame J s s'"
  using frame.run emitsD by blast

lemma frame_empty: "frame {} s t \<Longrightarrow> cfg_jpkg t = cfg_jpkg s"
  by (auto simp: frame_def)

end
