(* ===== verification/Name_Order.thy ===== *)
theory Name_Order
  imports Options_Init
begin

text \<open>
  How a long table is shown to have no duplicate: its names in ascending order, one
  comparison per neighbouring pair.
\<close>

section \<open>Ascending lists of names\<close>

definition str_less :: "string \<Rightarrow> string \<Rightarrow> bool" where
  "str_less s t \<longleftrightarrow> (s, t) \<in> lexord {(c, d). (of_char c :: nat) < of_char d}"

lemma str_less_Nil: "str_less [] (d # ds)"
  by (simp add: str_less_def)

lemma str_less_same: "str_less cs ds \<Longrightarrow> str_less (c # cs) (c # ds)"
  by (simp add: str_less_def)

lemma str_less_char: "(of_char c :: nat) < of_char d \<Longrightarrow> str_less (c # cs) (d # ds)"
  by (simp add: str_less_def)

lemma str_less_trans:
  assumes "str_less s t" "str_less t u"
  shows "str_less s u"
proof -
  have "trans (lexord {(c, d). (of_char c :: nat) < of_char d})"
    by (intro lexord_transI transI) auto
  from transD [OF this assms [unfolded str_less_def]] show ?thesis by (simp add: str_less_def)
qed

lemma str_less_irrefl: "\<not> str_less s s"
  unfolding str_less_def by (rule lexord_irreflexive) simp

fun ascends :: "string \<Rightarrow> string list \<Rightarrow> bool" where
  "ascends x [] = True"
| "ascends x (y # ys) \<longleftrightarrow> str_less x y \<and> ascends y ys"

lemma ascends_Nil: "ascends x []"
  by simp

lemma ascends_Cons: "str_less x y \<Longrightarrow> ascends y ys \<Longrightarrow> ascends x (y # ys)"
  by simp

lemmas ascends_intros = ascends_Nil ascends_Cons str_less_Nil str_less_same str_less_char

lemma ascends_less: "ascends x ys \<Longrightarrow> y \<in> set ys \<Longrightarrow> str_less x y"
  by (induction ys arbitrary: x) (auto dest: str_less_trans)

lemma ascends_distinct: "ascends x ys \<Longrightarrow> distinct (x # ys)"
proof (induction ys arbitrary: x)
  case (Cons y ys)
  have "x \<notin> set (y # ys)" using ascends_less [OF Cons.prems, of x] str_less_irrefl by blast
  with Cons.IH [of y] Cons.prems show ?case by simp
qed simp

lemma ascends_join: "ascends x (ys @ [y]) \<Longrightarrow> ascends y zs \<Longrightarrow> ascends x (ys @ y # zs)"
  by (induction ys arbitrary: x) auto

text \<open>A list of distinct names from a table, as long as the table.\<close>

lemma distinct_by_names:
  assumes "ascends x ys" "list_all (\<lambda>t. t \<in> opt_token ` set os) (x # ys)" "length os = length (x # ys)"
  shows "distinct (map opt_token os)"
proof -
  have "length (x # ys) = card (set (x # ys))"
    using ascends_distinct [OF assms(1)] by (metis distinct_card)
  also have "\<dots> \<le> card (set (map opt_token os))"
    using assms(2) by (intro card_mono) (auto simp: list_all_iff)
  finally have "card (set (map opt_token os)) = length (map opt_token os)"
    using assms(3) card_length [of "map opt_token os"] by simp
  then show ?thesis by (rule card_distinct)
qed

end
