(* ===== verification/Table_Unique.thy ===== *)
theory Table_Unique
  imports Table_Facts Name_Order
begin

text \<open>
  No table declares a name twice: the names of each table in ascending order, as many as
  the table has entries.
\<close>

section \<open>The boards\<close>

definition hw_tokens :: "string set" where
  "hw_tokens = opt_token ` set openrg_hw_options"

definition hw_names :: "string list" where
  "hw_names = [
   ''ADM5120P'',
   ''ALLTEK'',
   ''ALLTEK_RGLOADER'',
   ''ALLTEK_VLAN'',
   ''ALLWELL_ATMNULL_RTL'',
   ''ALLWELL_RTL_EEP'',
   ''ALLWELL_RTL_RTL'',
   ''ALLWELL_RTL_RTL_ISL38XX'',
   ''AR531X_AG'',
   ''AR531X_G'',
   ''AR531X_WRT55AG'',
   ''ASUS6020VI'',
   ''BAMBOO'',
   ''BCM91125E'',
   ''BCM94702'',
   ''BCM94704'',
   ''BCM94712'',
   ''BCM96358'',
   ''BRUCE'',
   ''CENTAUR'',
   ''CENTROID'',
   ''COLORADO'',
   ''COMCERTO'',
   ''COYOTE'',
   ''CX82100'',
   ''CX8620XD'',
   ''CX8620XR'',
   ''CX9451X'',
   ''EP8248'',
   ''FLEXTRONICS'',
   ''GTWX5715'',
   ''GTWX5803'',
   ''HG21'',
   ''I386_BOCHS'',
   ''INCAIP'',
   ''INCAIP_LSP'',
   ''INCAIP_RGLOADER'',
   ''IXDP425'',
   ''IXDP425_TMT'',
   ''JIWIS800'',
   ''JIWIS832'',
   ''JIWIS832FL'',
   ''JPKG'',
   ''KINGSCANYON'',
   ''MATECUMBE'',
   ''MONTEJADE'',
   ''MPC8272ADS'',
   ''MPC8349ITX'',
   ''NAPA'',
   ''PCBOX_EEP_EEP'',
   ''PUNDIT'',
   ''ROCKAWAYBEACH'',
   ''RTA770W'',
   ''RTA770W_RGLOADER'',
   ''TI_404'',
   ''TI_TNETWA100'',
   ''TWINPASS'',
   ''ULTRALINE3_TWINPASS'',
   ''ULTRALINE3_TWINPASS_TURBO'',
   ''UML'',
   ''USR8200'',
   ''WADB100G'',
   ''WADB102GB'',
   ''WAV54G'',
   ''WRT108G'',
   ''WRT54G'']"

lemma hw_tokens_all: "list_all (\<lambda>o1. opt_token o1 \<in> hw_tokens) openrg_hw_options"
  by (simp add: list_all_iff hw_tokens_def)

lemmas hw_token_facts = hw_tokens_all [unfolded openrg_hw_options_def list.pred_inject opt_sel]

lemma distinct_openrg_hw_options: "distinct (map opt_token openrg_hw_options)"
proof (rule distinct_by_names [of "''AD6834''" hw_names])
  show "ascends ''AD6834'' hw_names"
    unfolding hw_names_def by (intro ascends_intros; simp)
  show "list_all (\<lambda>t. t \<in> opt_token ` set openrg_hw_options) (''AD6834'' # hw_names)"
    unfolding hw_tokens_def [symmetric] hw_names_def by (simp only: list.pred_inject hw_token_facts simp_thms)
  show "length openrg_hw_options = length (''AD6834'' # hw_names)"
    unfolding openrg_hw_options_def hw_names_def by simp
qed

section \<open>The operating systems\<close>

definition os_tokens :: "string set" where
  "os_tokens = opt_token ` set openrg_os_options"

definition os_names :: "string list" where
  "os_names = [
   ''LINUX_22'',
   ''LINUX_24'',
   ''LINUX_26'',
   ''VXWORKS'']"

lemma os_tokens_all: "list_all (\<lambda>o1. opt_token o1 \<in> os_tokens) openrg_os_options"
  by (simp add: list_all_iff os_tokens_def)

lemmas os_token_facts = os_tokens_all [unfolded openrg_os_options_def list.pred_inject opt_sel]

lemma distinct_openrg_os_options: "distinct (map opt_token openrg_os_options)"
proof (rule distinct_by_names [of "''ECOS''" os_names])
  show "ascends ''ECOS'' os_names"
    unfolding os_names_def by (intro ascends_intros; simp)
  show "list_all (\<lambda>t. t \<in> opt_token ` set openrg_os_options) (''ECOS'' # os_names)"
    unfolding os_tokens_def [symmetric] os_names_def by (simp only: list.pred_inject os_token_facts simp_thms)
  show "length openrg_os_options = length (''ECOS'' # os_names)"
    unfolding openrg_os_options_def os_names_def by simp
qed

section \<open>The distributions\<close>

definition dist_tokens :: "string set" where
  "dist_tokens = opt_token ` set openrg_distribution_options"

definition dist_names :: "string list" where
  "dist_names = [
   ''AD6834_26'',
   ''AD6834_26_LSP'',
   ''ADM5120_ATA'',
   ''ADM5120_LSP'',
   ''ADM5120_VGW'',
   ''ADM5120_VGW_OSIP'',
   ''ALLWELL_ATMNULL_RTL'',
   ''ALLWELL_RTL_EEP'',
   ''ALLWELL_RTL_RTL'',
   ''ALLWELL_RTL_RTL_ALADDIN'',
   ''ALLWELL_RTL_RTL_ISL38XX'',
   ''ALLWELL_RTL_RTL_SSI'',
   ''ALLWELL_RTL_RTL_VALGRIND'',
   ''ALLWELL_RTL_RTL_WELLTECH'',
   ''AR2313_LIZZY'',
   ''AR2313_ZIPPY'',
   ''ARRIS_TI_404_VX'',
   ''ARRIS_TI_404_VX_CH'',
   ''ASUS6020VI'',
   ''ATHEROS_AR531X_AG_VX'',
   ''ATHEROS_AR531X_VX'',
   ''BAMBOO'',
   ''BAMBOO_ALADDIN'',
   ''BCM91125E'',
   ''BCM94702'',
   ''BCM94704'',
   ''BCM96358'',
   ''BCM96358_LSP'',
   ''BCM_SB1125'',
   ''BOCHS_LIZZY'',
   ''BOCHS_ZIPPY'',
   ''BRUCE'',
   ''CENTAUR'',
   ''CENTAUR_LSP'',
   ''CENTAUR_VGW'',
   ''CENTROID'',
   ''COYOTE'',
   ''COYOTE_ACTIONTEC_OSIP'',
   ''COYOTE_ALL'',
   ''COYOTE_ATM_WIRELESS_ISL'',
   ''COYOTE_CAVIUM'',
   ''COYOTE_EEP'',
   ''COYOTE_LSP'',
   ''COYOTE_WIRELESS_80211B'',
   ''COYOTE_WIRELESS_ISL'',
   ''COYOTE_WIRELESS_RALINK'',
   ''COYOTE_WIRELESS_SOFTMAC'',
   ''CX82100_SCHMID'',
   ''CX8620XD_FILESERVER'',
   ''CX8620XD_LSP'',
   ''CX8620XD_SOHO'',
   ''CX8620XR'',
   ''CX8620XR_LSP'',
   ''EP8248_26'',
   ''EP8248_LSP_26'',
   ''FLEXTRONICS_IPPHONE'',
   ''FULL'',
   ''GTWX5715'',
   ''GTWX5803'',
   ''HG21'',
   ''HITRON_TNETC440_VX'',
   ''HITRON_TNETC440_VX_CH'',
   ''I386_BOCHS_VX'',
   ''INCAIP'',
   ''INCAIP_ATA'',
   ''INCAIP_ATA_OSIP'',
   ''INCAIP_FULLSOURCE'',
   ''INCAIP_IPPHONE'',
   ''INCAIP_LSP'',
   ''INCAIP_VGW'',
   ''INCAIP_VGW_OSIP'',
   ''IXDP425'',
   ''IXDP425_ATM'',
   ''IXDP425_ATM_WIRELESS'',
   ''IXDP425_CYBERTAN'',
   ''IXDP425_FRG'',
   ''IXDP425_FULLSOURCE'',
   ''IXDP425_LSP'',
   ''IXDP425_NETKLASS'',
   ''IXDP425_TMT'',
   ''IXDP425_VPN'',
   ''IXDP425_WIRELESS'',
   ''JIWIS8XX'',
   ''JNET_SERVER'',
   ''JPKG_ARMV4L'',
   ''JPKG_ARMV5B'',
   ''JPKG_ARMV5L'',
   ''JPKG_ARM_920T_LE'',
   ''JPKG_ARM_LINUX_UCLIBC'',
   ''JPKG_BCM9634X'',
   ''JPKG_I386'',
   ''JPKG_LOCAL_I386'',
   ''JPKG_LX4189'',
   ''JPKG_MIPSEB'',
   ''JPKG_PPC'',
   ''JPKG_SB1250'',
   ''JPKG_SRC'',
   ''JPKG_TWINPASS'',
   ''JPKG_UML'',
   ''JPKG_XSCALE'',
   ''KINGSCANYON'',
   ''KINGSCANYON_LSP'',
   ''KINGSCANYON_WIRELESS'',
   ''MALINDI'',
   ''MALINDI2'',
   ''MATECUMBE'',
   ''MONTEJADE'',
   ''MONTEJADE_ATM'',
   ''MPC8272ADS'',
   ''MPC8272ADS_LSP'',
   ''MPC8349ITX'',
   ''MPC8349ITX_LSP'',
   ''NAPA'',
   ''PCBOX_EEP_EEP'',
   ''PCBOX_EEP_EEP_EICON'',
   ''PCBOX_RTL_RTL_EICON'',
   ''REDBOOT_COYOTE'',
   ''REDBOOT_MATECUMBE'',
   ''REDBOOT_NAPA'',
   ''REDBOOT_RICHFIELD'',
   ''RGLOADER_ADM5120'',
   ''RGLOADER_ALLTEK'',
   ''RGLOADER_ALLTEK_FULLSOURCE'',
   ''RGLOADER_ALLWELL_EEP_EEP'',
   ''RGLOADER_ALLWELL_RTL_EEP'',
   ''RGLOADER_ALLWELL_RTL_RTL'',
   ''RGLOADER_BAMBOO'',
   ''RGLOADER_BRUCE'',
   ''RGLOADER_CENTAUR'',
   ''RGLOADER_CENTROID'',
   ''RGLOADER_COYOTE'',
   ''RGLOADER_COYOTE_64MB_RAM'',
   ''RGLOADER_COYOTE_64MB_RAM_32MB_FLASH'',
   ''RGLOADER_COYOTE_LSP'',
   ''RGLOADER_CX8620XD'',
   ''RGLOADER_FLEXTRONICS'',
   ''RGLOADER_GTWX5715'',
   ''RGLOADER_GTWX5803'',
   ''RGLOADER_HG21'',
   ''RGLOADER_INCAIP'',
   ''RGLOADER_IXDP425'',
   ''RGLOADER_IXDP425_16MB'',
   ''RGLOADER_IXDP425_LSP'',
   ''RGLOADER_JIWIS8XX'',
   ''RGLOADER_KINGSCANYON'',
   ''RGLOADER_KINGSCANYON_LSP'',
   ''RGLOADER_MATECUMBE'',
   ''RGLOADER_MONTEJADE'',
   ''RGLOADER_NAPA'',
   ''RGLOADER_ROCKAWAYBEACH'',
   ''RGLOADER_RTA770W'',
   ''RGLOADER_UML'',
   ''RGLOADER_USR8200'',
   ''RGLOADER_WADB100G'',
   ''RGLOADER_WADB102GB'',
   ''RGLOADER_WAV54G'',
   ''RGLOADER_X86_TMT'',
   ''RGTV'',
   ''ROCKAWAYBEACH'',
   ''ROCKAWAYBEACH_WIRELESS'',
   ''RTA770W'',
   ''RTA770W_EVAL'',
   ''SOLOS'',
   ''SOLOS_LSP'',
   ''SRI_USI_BCM94712'',
   ''TI_404_VX_CH_ESCROW_FULL'',
   ''TI_404_VX_CH_ESCROW_PARTIAL'',
   ''TI_404_VX_CH_EVAL'',
   ''TI_404_VX_EVAL'',
   ''TI_TNETC440_VX_CH'',
   ''TI_WPA_VX'',
   ''TWINPASS'',
   ''T_TI_404_VX'',
   ''T_TI_404_VX_CH'',
   ''ULTRALINE3_TWINPASS'',
   ''UML'',
   ''UML_26'',
   ''UML_ATA'',
   ''UML_ATA_OSIP'',
   ''UML_ATA_OSIP_VALGRIND'',
   ''UML_ATA_VALGRIND'',
   ''UML_ATM'',
   ''UML_ATM_VALGRIND'',
   ''UML_DUAL_WAN'',
   ''UML_GLIBC'',
   ''UML_IPPHONE'',
   ''UML_IPPHONE_VALGRIND'',
   ''UML_LSP'',
   ''UML_LSP_26'',
   ''UML_VALGRIND'',
   ''USI_BCM94712'',
   ''USR8200'',
   ''USR8200_ALADDIN'',
   ''USR8200_EVAL'',
   ''USR8200_TUTORIAL'',
   ''WADB100G'',
   ''WADB102GB'',
   ''WAV54G'',
   ''WRT108G_VX'',
   ''WRT54G'',
   ''WRT55AG'',
   ''WRT55AG_INT'',
   ''WSTL_ULS3_DMOCA_GENERIC_64'',
   ''WSTL_ULS3_DUAL_MOCA_64'',
   ''WSTL_ULS3_DUAL_MOCA_USB_11N_64'',
   ''WSTL_ULS3_DUAL_MOCA_USB_64'',
   ''WSTL_ULS3_TURBO_COMMON_ART_64'',
   ''WSTL_ULS3_TURBO_DUAL_MOCA_11N_64'',
   ''WSTL_ULS3_TURBO_DUAL_MOCA_64'',
   ''WSTL_ULS3_TURBO_M100_64'',
   ''WSTL_ULS3_VDSL_IKANOS_64'',
   ''WSTL_ULS3_VDSL_IKANOS_GENERIC_64'',
   ''WSTL_ULS3_VDSL_INFINEON_64'',
   ''WSTL_ULS3_VDSL_INFINEON_GENERIC_64'',
   ''WSTL_ULS3_VDSL_INFINEON_GENERIC_USB_64'',
   ''WSTL_ULS3_WAN_ETHERNET_64'',
   ''WSTL_ULS3_WAN_ETHERNET_CO_64'',
   ''X86_FRG_TMT'']"

lemma dist_tokens_all: "list_all (\<lambda>o1. opt_token o1 \<in> dist_tokens) openrg_distribution_options"
  by (simp add: list_all_iff dist_tokens_def)

lemmas dist_token_facts = dist_tokens_all [unfolded openrg_distribution_options_def openrg_distribution_options_1_def openrg_distribution_options_2_def append.simps list.pred_inject opt_sel]

lemma distinct_openrg_distribution_options: "distinct (map opt_token openrg_distribution_options)"
proof (rule distinct_by_names [of "''AD6834''" dist_names])
  show "ascends ''AD6834'' dist_names"
    unfolding dist_names_def by (intro ascends_intros; simp)
  show "list_all (\<lambda>t. t \<in> opt_token ` set openrg_distribution_options) (''AD6834'' # dist_names)"
    unfolding dist_tokens_def [symmetric] dist_names_def by (simp only: list.pred_inject dist_token_facts simp_thms)
  show "length openrg_distribution_options = length (''AD6834'' # dist_names)"
    unfolding openrg_distribution_options_def openrg_distribution_options_1_def openrg_distribution_options_2_def append.simps dist_names_def by simp
qed

section \<open>The configuration options\<close>

definition base_names_1 :: "string list" where
  "base_names_1 = [
   ''ARCH'',
   ''ARCH_CFLAGS'',
   ''ARCH_LINUX_FLAGS'',
   ''AS'',
   ''AUTOCONF_H'',
   ''BASH_ENV'',
   ''BINFRMT_FILE'',
   ''BOARD'',
   ''BOOTLDR_COMPRESSED_DISK'',
   ''BOOTLDR_IMG'',
   ''BOOTSTRAP'',
   ''CABLEHOME_TEP_BUG'',
   ''CC'',
   ''CC_FOR_BUILD'',
   ''CFLAGS_ENVIR'',
   ''COMPRESSED_DISK'',
   ''COMPRESSED_INIT_DISK'',
   ''COMPRESSED_RAMDISK'',
   ''CONFIG_32BIT'',
   ''CONFIG_64BIT'',
   ''CONFIG_6xx'',
   ''CONFIG_80211G_AP_ADVANCED'',
   ''CONFIG_80211NG_AP_ADVANCED'',
   ''CONFIG_80211_WDS'',
   ''CONFIG_8139TOO'',
   ''CONFIG_8260'',
   ''CONFIG_8272'',
   ''CONFIG_83xx'',
   ''CONFIG_ADI_6843'',
   ''CONFIG_ADI_6843_MTD'',
   ''CONFIG_ADI_6843_RG1'',
   ''CONFIG_ADI_6843_UART2'',
   ''CONFIG_ADI_6843_USB'',
   ''CONFIG_ADI_FUSIV_ETHERNET'',
   ''CONFIG_ADM5120_COMMON'',
   ''CONFIG_ADM5120_IPTOS'',
   ''CONFIG_ADM5120_MTD'',
   ''CONFIG_ADM5120_SERIAL'',
   ''CONFIG_ADM5120_SWITCH'',
   ''CONFIG_ADM6996'',
   ''CONFIG_ADM6996_SUPPORT'',
   ''CONFIG_ADS8272'',
   ''CONFIG_ADSL_CHIP_ALCATEL_20150'',
   ''CONFIG_ADSL_CHIP_ALCATEL_20170'',
   ''CONFIG_ADSL_LOOPBACK_TEST'',
   ''CONFIG_AGN100'',
   ''CONFIG_ALIGNMENT_TRAP'',
   ''CONFIG_ALIGNMENT_TRAP_MODE'',
   ''CONFIG_APM'',
   ''CONFIG_APM_POWER_OFF'',
   ''CONFIG_APP_IPR'',
   ''CONFIG_AR531X_DEBUG'',
   ''CONFIG_ARCH_AR531X'',
   ''CONFIG_ARCH_BCM947_CYBERTAN'',
   ''CONFIG_ARCH_CNXT'',
   ''CONFIG_ARCH_COMCERTO'',
   ''CONFIG_ARCH_CX821XX'',
   ''CONFIG_ARCH_CX8620X'',
   ''CONFIG_ARCH_HAS_SC_SIGNALS'',
   ''CONFIG_ARCH_IXP22X'',
   ''CONFIG_ARCH_IXP425'',
   ''CONFIG_ARCH_IXP425_BAMBOO'',
   ''CONFIG_ARCH_IXP425_BRUCE'',
   ''CONFIG_ARCH_IXP425_BRUCE_CPLD'',
   ''CONFIG_ARCH_IXP425_COYOTE'',
   ''CONFIG_ARCH_IXP425_GTWX5715'',
   ''CONFIG_ARCH_IXP425_HG21'',
   ''CONFIG_ARCH_IXP425_IXDP425'',
   ''CONFIG_ARCH_IXP425_JEEVES'',
   ''CONFIG_ARCH_IXP425_JIWIS800'',
   ''CONFIG_ARCH_IXP425_JIWIS832'',
   ''CONFIG_ARCH_IXP425_KINGSCANYON'',
   ''CONFIG_ARCH_IXP425_MATECUMBE'',
   ''CONFIG_ARCH_IXP425_MONTEJADE'',
   ''CONFIG_ARCH_IXP425_NAPA'',
   ''CONFIG_ARCH_IXP425_ROCKAWAYBEACH'',
   ''CONFIG_ARCH_IXP425_WAV54G'',
   ''CONFIG_ARCH_KS8695'',
   ''CONFIG_ARCH_KS8695P'',
   ''CONFIG_ARCH_M828XX'',
   ''CONFIG_ARCH_MACHINE'',
   ''CONFIG_ARCH_REUSE_HOST_VSYSCALL_AREA'',
   ''CONFIG_ARCH_SL2312'',
   ''CONFIG_ARCH_SOLOS'',
   ''CONFIG_ARCH_SOLOS_376PIN'',
   ''CONFIG_ARCH_SOLOS_GALLUS'',
   ''CONFIG_ARCH_WRT108G'',
   ''CONFIG_ARM'',
   ''CONFIG_ARMNOMMU'',
   ''CONFIG_ARM_24_FAST_MODULES'',
   ''CONFIG_ARM_SOLOS_ETHER'',
   ''CONFIG_ARM_THUMB'',
   ''CONFIG_AT93CXX'',
   ''CONFIG_ATALK'',
   ''CONFIG_ATHEROS_AR531X_MIPS'',
   ''CONFIG_ATHEROS_ART_TOOLS'',
   ''CONFIG_ATM'',
   ''CONFIG_ATM_BR2684'',
   ''CONFIG_ATM_CLIP'',
   ''CONFIG_ATM_CONEXANT_DSL'',
   ''CONFIG_ATM_NICSTAR'',
   ''CONFIG_ATM_NICSTAR_USE_IDT77105'',
   ''CONFIG_ATM_NULL'',
   ''CONFIG_ATM_PVC_SCAN'',
   ''CONFIG_ATM_SKB'',
   ''CONFIG_AUTOFS4_FS'',
   ''CONFIG_AUTOFS_FS'',
   ''CONFIG_AUTO_LEARN_DNS'',
   ''CONFIG_B44'',
   ''CONFIG_BASE_FULL'',
   ''CONFIG_BASE_SMALL'',
   ''CONFIG_BASIC_LOG'',
   ''CONFIG_BCM4310'',
   ''CONFIG_BCM4318'',
   ''CONFIG_BCM43XX_MODE'',
   ''CONFIG_BCM43XX_WLCTL_TOOL'',
   ''CONFIG_BCM4702'',
   ''CONFIG_BCM4704'',
   ''CONFIG_BCM4710'']"

lemma ascends_base_1: "ascends ''AR'' (base_names_1 @ [''CONFIG_BCM91125E_MTD''])"
  unfolding base_names_1_def append.simps by (intro ascends_intros; simp)

lemma settable_base_1: "list_all (settable base_schema) base_names_1"
  unfolding base_names_1_def by simp

lemma length_base_1: "length base_names_1 = 119"
  unfolding base_names_1_def by simp

definition base_names_2 :: "string list" where
  "base_names_2 = [
   ''CONFIG_BCM947'',
   ''CONFIG_BCM947XX'',
   ''CONFIG_BCM947_COMMON'',
   ''CONFIG_BCM947_HW_BUG_HACK'',
   ''CONFIG_BCM96345'',
   ''CONFIG_BCM96348'',
   ''CONFIG_BCM96358'',
   ''CONFIG_BCM96358_BOARD'',
   ''CONFIG_BCM96358_MTD'',
   ''CONFIG_BCM963XX'',
   ''CONFIG_BCM963XX_ADSL'',
   ''CONFIG_BCM963XX_ATM'',
   ''CONFIG_BCM963XX_BOARD'',
   ''CONFIG_BCM963XX_BOARD_ID'',
   ''CONFIG_BCM963XX_BOOTSTRAP'',
   ''CONFIG_BCM963XX_CHIP'',
   ''CONFIG_BCM963XX_COMMON'',
   ''CONFIG_BCM963XX_ENDPOINT'',
   ''CONFIG_BCM963XX_ETH'',
   ''CONFIG_BCM963XX_ETH_VPORTS'',
   ''CONFIG_BCM963XX_MTD'',
   ''CONFIG_BCM963XX_PROCFS'',
   ''CONFIG_BCM963XX_RGL_FLASH_LAYOUT'',
   ''CONFIG_BCM963XX_SDRAM_SIZE'',
   ''CONFIG_BCM963XX_SERIAL'',
   ''CONFIG_BCM963XX_SIMPLE_FLASH_LAYOUT'',
   ''CONFIG_BCM963XX_USB'',
   ''CONFIG_BCM963XX_WLAN'',
   ''CONFIG_BCM963XX_WLAN_4318'',
   ''CONFIG_BD_GOLDENGATE'',
   ''CONFIG_BD_MACKINAC'',
   ''CONFIG_BD_RUSHMORE'',
   ''CONFIG_BIDIR_NAT'',
   ''CONFIG_BINFMT_AOUT'',
   ''CONFIG_BINFMT_ELF'',
   ''CONFIG_BINFMT_FLAT'',
   ''CONFIG_BINFMT_MISC'',
   ''CONFIG_BINUTILS_NEW'',
   ''CONFIG_BLK_DEV_COW_COMMON'',
   ''CONFIG_BLK_DEV_CS5530'',
   ''CONFIG_BLK_DEV_IDE'',
   ''CONFIG_BLK_DEV_IDECD'',
   ''CONFIG_BLK_DEV_IDEDISK'',
   ''CONFIG_BLK_DEV_IDEDMA'',
   ''CONFIG_BLK_DEV_IDEDMA_PCI'',
   ''CONFIG_BLK_DEV_IDEPCI'',
   ''CONFIG_BLK_DEV_IDE_MODES'',
   ''CONFIG_BLK_DEV_INITRD'',
   ''CONFIG_BLK_DEV_LOOP'',
   ''CONFIG_BLK_DEV_MD'',
   ''CONFIG_BLK_DEV_NBD'',
   ''CONFIG_BLK_DEV_OFFBOARD'',
   ''CONFIG_BLK_DEV_RAM'',
   ''CONFIG_BLK_DEV_RAM_COUNT'',
   ''CONFIG_BLK_DEV_RAM_SIZE'',
   ''CONFIG_BLK_DEV_SD'',
   ''CONFIG_BLK_DEV_SIIMAGE'',
   ''CONFIG_BLK_DEV_SIS5513'',
   ''CONFIG_BLK_DEV_SL2312_IDE'',
   ''CONFIG_BLK_DEV_SL2312_IDE_CHANNEL_0'',
   ''CONFIG_BLK_DEV_SL2312_IDE_CHANNEL_1'',
   ''CONFIG_BLK_DEV_UBD'',
   ''CONFIG_BLK_DEV_VIA82CXXX'',
   ''CONFIG_BLUEZ'',
   ''CONFIG_BLUEZ_BNEP'',
   ''CONFIG_BLUEZ_BNEP_MC_FILTER'',
   ''CONFIG_BLUEZ_BNEP_PROTO_FILTER'',
   ''CONFIG_BLUEZ_HCIBTUART'',
   ''CONFIG_BLUEZ_HCIUART'',
   ''CONFIG_BLUEZ_HCIUART_BCSP'',
   ''CONFIG_BLUEZ_HCIUART_H4'',
   ''CONFIG_BLUEZ_HCIUSB'',
   ''CONFIG_BLUEZ_HCIVHCI'',
   ''CONFIG_BLUEZ_L2CAP'',
   ''CONFIG_BLUEZ_RFCOMM'',
   ''CONFIG_BLUEZ_RFCOMM_TTY'',
   ''CONFIG_BLUEZ_SCO'',
   ''CONFIG_BOARD_TWINPASS_E'',
   ''CONFIG_BOOTLDR_UBOOT'',
   ''CONFIG_BOOTLDR_UBOOT_COMP'',
   ''CONFIG_BOOT_ELF32'',
   ''CONFIG_BOOT_FREE_MEM_END'',
   ''CONFIG_BOOT_FREE_MEM_START'',
   ''CONFIG_BOOT_RAM_POS'',
   ''CONFIG_BOOT_SP_POS'',
   ''CONFIG_BOOT_UBOOT_VDSL'',
   ''CONFIG_BOOT_UBOOT_VDSL_64'',
   ''CONFIG_BOOT_WSTL_DUAL_MOCA'',
   ''CONFIG_BOOT_WSTL_DUAL_MOCA_64'',
   ''CONFIG_BOOT_WSTL_M100_64'',
   ''CONFIG_BOOT_WSTL_TURBO_64'',
   ''CONFIG_BOOT_WSTL_VDSL'',
   ''CONFIG_BOOT_WSTL_VDSL_64'',
   ''CONFIG_BOOT_WSTL_VDSL_64_16'',
   ''CONFIG_BRIDGE'',
   ''CONFIG_BRIDGE_NETFILTER'',
   ''CONFIG_BRIDGE_UTILS'',
   ''CONFIG_BROKEN_ON_SMP'',
   ''CONFIG_BSD_PROCESS_ACCT'',
   ''CONFIG_BT'',
   ''CONFIG_BT_BNEP'',
   ''CONFIG_BT_BNEP_MC_FILTER'',
   ''CONFIG_BT_BNEP_PROTO_FILTER'',
   ''CONFIG_BT_HCIBTUART'',
   ''CONFIG_BT_HCIUART'',
   ''CONFIG_BT_HCIUART_BCSP'',
   ''CONFIG_BT_HCIUART_H4'',
   ''CONFIG_BT_HCIUSB'',
   ''CONFIG_BT_HCIVHCI'',
   ''CONFIG_BT_L2CAP'',
   ''CONFIG_BT_RFCOMM'',
   ''CONFIG_BT_RFCOMM_TTY'',
   ''CONFIG_BT_SCO'',
   ''CONFIG_BUG'',
   ''CONFIG_BUILD_ARCHCONFIG'',
   ''CONFIG_BUILD_ELF32'',
   ''CONFIG_BUILD_ELF64'',
   ''CONFIG_BURNER_POS'',
   ''CONFIG_CADENCE_IPSEC2'']"

lemma ascends_base_2: "ascends ''CONFIG_BCM91125E_MTD'' (base_names_2 @ [''CONFIG_CARDBUS''])"
  unfolding base_names_2_def append.simps by (intro ascends_intros; simp)

lemma settable_base_2: "list_all (settable base_schema) base_names_2"
  unfolding base_names_2_def by simp

lemma length_base_2: "length base_names_2 = 119"
  unfolding base_names_2_def by simp

definition base_names_3 :: "string list" where
  "base_names_3 = [
   ''CONFIG_CC_ALIGN_FUNCTIONS'',
   ''CONFIG_CC_ALIGN_JUMPS'',
   ''CONFIG_CC_ALIGN_LABELS'',
   ''CONFIG_CC_ALIGN_LOOPS'',
   ''CONFIG_CC_HAVE_VA_COPY'',
   ''CONFIG_CC_OPTIMIZE_FOR_SIZE'',
   ''CONFIG_CD_NOPKG'',
   ''CONFIG_CHIP_CX82100'',
   ''CONFIG_CHIP_CX82110'',
   ''CONFIG_CICADA_PHY'',
   ''CONFIG_CLEAN_COMPILE'',
   ''CONFIG_CMDLINE'',
   ''CONFIG_CMDLINE_BOOL'',
   ''CONFIG_CNXT_ADSL'',
   ''CONFIG_CNXT_ATM'',
   ''CONFIG_CNXT_EMAC'',
   ''CONFIG_CNXT_SOFTSAR'',
   ''CONFIG_CNXT_TERMINAL'',
   ''CONFIG_COMCERTO'',
   ''CONFIG_COMCERTO_CAL'',
   ''CONFIG_COMCERTO_COMMON'',
   ''CONFIG_COMCERTO_MALINDI'',
   ''CONFIG_COMCERTO_MATISSE'',
   ''CONFIG_COMCERTO_NAIROBI'',
   ''CONFIG_COMCERTO_OHCI'',
   ''CONFIG_COMCERTO_SINGLE_IMAGE'',
   ''CONFIG_COMCERTO_SPI'',
   ''CONFIG_COMCERTO_VED'',
   ''CONFIG_CONEXANT_COMMON'',
   ''CONFIG_CONEXANT_DSL_TIGRIS'',
   ''CONFIG_CONEXANT_DSL_YUKON'',
   ''CONFIG_CON_CHAN'',
   ''CONFIG_CON_ZERO_CHAN'',
   ''CONFIG_COPY_CRAMFS_TO_RAM'',
   ''CONFIG_CPLUSPLUS'',
   ''CONFIG_CPM2'',
   ''CONFIG_CPU_32'',
   ''CONFIG_CPU_32v4'',
   ''CONFIG_CPU_32v5'',
   ''CONFIG_CPU_ABRT_EV4T'',
   ''CONFIG_CPU_ABRT_EV5T'',
   ''CONFIG_CPU_ADVANCED'',
   ''CONFIG_CPU_ARM1026'',
   ''CONFIG_CPU_ARM7'',
   ''CONFIG_CPU_ARM920T'',
   ''CONFIG_CPU_ARM922T'',
   ''CONFIG_CPU_ARM922_CPU_IDLE'',
   ''CONFIG_CPU_ARM922_D_CACHE_ON'',
   ''CONFIG_CPU_ARM922_I_CACHE_ON'',
   ''CONFIG_CPU_ARM926T'',
   ''CONFIG_CPU_ARM940T'',
   ''CONFIG_CPU_ARM940_CPU_IDLE'',
   ''CONFIG_CPU_ARM940_D_CACHE_ON'',
   ''CONFIG_CPU_ARM940_I_CACHE_ON'',
   ''CONFIG_CPU_ARM940_WRITETHROUGH'',
   ''CONFIG_CPU_BIG_ENDIAN'',
   ''CONFIG_CPU_CACHE_V4WT'',
   ''CONFIG_CPU_CACHE_VIVT'',
   ''CONFIG_CPU_COPY_V4WB'',
   ''CONFIG_CPU_FA52X'',
   ''CONFIG_CPU_FA52X_D_CACHE_ON'',
   ''CONFIG_CPU_FA52X_I_CACHE_ON'',
   ''CONFIG_CPU_FA52X_WRITETHROUGH'',
   ''CONFIG_CPU_HAS_LLDSCD'',
   ''CONFIG_CPU_HAS_LLSC'',
   ''CONFIG_CPU_HAS_PREFETCH'',
   ''CONFIG_CPU_HAS_SYNC'',
   ''CONFIG_CPU_HAS_WB'',
   ''CONFIG_CPU_LITTLE_ENDIAN'',
   ''CONFIG_CPU_LX4189'',
   ''CONFIG_CPU_MIPS32'',
   ''CONFIG_CPU_MIPS32_R1'',
   ''CONFIG_CPU_R3000'',
   ''CONFIG_CPU_SB1'',
   ''CONFIG_CPU_SB1_PASS_1'',
   ''CONFIG_CPU_TLB_V4WBI'',
   ''CONFIG_CPU_XSCALE'',
   ''CONFIG_CRAMFS'',
   ''CONFIG_CRAMFS_BLKSZ'',
   ''CONFIG_CRAMFS_DYN_BLOCKSIZE'',
   ''CONFIG_CRAMFS_FS'',
   ''CONFIG_CRAMFS_FS_COMMON'',
   ''CONFIG_CRAMFS_IN_RAM'',
   ''CONFIG_CRAMFS_IN_RAM_OFFSET'',
   ''CONFIG_CRAMFS_LINEAR'',
   ''CONFIG_CRAMFS_RAM_ADDR'',
   ''CONFIG_CRC32'',
   ''CONFIG_CROSSCOMPILE'',
   ''CONFIG_CRYPTO_DANUBE'',
   ''CONFIG_CRYPTO_DEV_DANUBE'',
   ''CONFIG_CRYPTO_DEV_DANUBE_AES'',
   ''CONFIG_CRYPTO_DEV_DANUBE_DES'',
   ''CONFIG_CRYPTO_DEV_DANUBE_DMA'',
   ''CONFIG_CRYPTO_DEV_DANUBE_MD5'',
   ''CONFIG_CRYPTO_DEV_DANUBE_SHA1'',
   ''CONFIG_CRYPTO_DEV_DEU'',
   ''CONFIG_CSP_16M'',
   ''CONFIG_CX821XX_COMMON'',
   ''CONFIG_CX821XX_MXIC_FLASH'',
   ''CONFIG_CX8620X'',
   ''CONFIG_CX8620X_COMMON'',
   ''CONFIG_CX8620X_COMMON_RGLOADER'',
   ''CONFIG_CX8620X_EHCI'',
   ''CONFIG_CX8620X_FLASH_TE28F160C3'',
   ''CONFIG_CX8620X_FLASH_TE28F320C3'',
   ''CONFIG_CX8620X_FLASH_TE28F640C3'',
   ''CONFIG_CX8620X_SDRAM_SIZE'',
   ''CONFIG_CX8620X_SWITCH'',
   ''CONFIG_CX9451X_COMMON'',
   ''CONFIG_CX9451X_DSP'',
   ''CONFIG_DANUBE'',
   ''CONFIG_DANUBE_ETHERNET'',
   ''CONFIG_DANUBE_ETHERNET_D2'',
   ''CONFIG_DANUBE_ETHERNET_D4'',
   ''CONFIG_DANUBE_MPS'',
   ''CONFIG_DANUBE_MPS_PROC_DEBUG'',
   ''CONFIG_DANUBE_PCI'',
   ''CONFIG_DANUBE_PCI_HW_SWAP'',
   ''CONFIG_DANUBE_PPA'']"

lemma ascends_base_3: "ascends ''CONFIG_CARDBUS'' (base_names_3 @ [''CONFIG_DANUBE_PPA_D4''])"
  unfolding base_names_3_def append.simps by (intro ascends_intros; simp)

lemma settable_base_3: "list_all (settable base_schema) base_names_3"
  unfolding base_names_3_def by simp

lemma length_base_3: "length base_names_3 = 119"
  unfolding base_names_3_def by simp

definition base_names_4 :: "string list" where
  "base_names_4 = [
   ''CONFIG_DE4X5'',
   ''CONFIG_DEBUGSYM'',
   ''CONFIG_DEBUG_INFO'',
   ''CONFIG_DEBUG_KERNEL'',
   ''CONFIG_DEBUG_KMALLOC'',
   ''CONFIG_DEBUG_LL'',
   ''CONFIG_DEBUG_MUTEXES'',
   ''CONFIG_DEBUG_PAGES'',
   ''CONFIG_DEBUG_PREEMPT'',
   ''CONFIG_DEBUG_SLAB'',
   ''CONFIG_DEBUG_SPINLOCK_SLEEP'',
   ''CONFIG_DEBUG_USER'',
   ''CONFIG_DEFAULT_AS'',
   ''CONFIG_DEFAULT_IOSCHED'',
   ''CONFIG_DEF_BRIDGE_ALTERNATE_IP'',
   ''CONFIG_DEF_BRIDGE_LANS'',
   ''CONFIG_DEF_BRIDGE_WAN'',
   ''CONFIG_DEF_KEYS'',
   ''CONFIG_DEF_WAN_ALIAS_IP'',
   ''CONFIG_DEF_WAN_BRIDGE_FALLBACK_IP'',
   ''CONFIG_DELIVER_GDBSERVER'',
   ''CONFIG_DETECT_SOFTLOCKUP'',
   ''CONFIG_DEVFS_FS'',
   ''CONFIG_DEVFS_MOUNT'',
   ''CONFIG_DEVPTS_FS'',
   ''CONFIG_DHCP_TIMEOUT'',
   ''CONFIG_DISABLE_NETDEV_MODIFYING'',
   ''CONFIG_DIST_'',
   ''CONFIG_DIVDI3'',
   ''CONFIG_DMA_COHERENT'',
   ''CONFIG_DMA_NONCOHERENT'',
   ''CONFIG_DRIVER_MADWIFI'',
   ''CONFIG_DSL'',
   ''CONFIG_DSL_SYNCD'',
   ''CONFIG_DSPDRIVER_218X'',
   ''CONFIG_DUETTE'',
   ''CONFIG_DUMMY'',
   ''CONFIG_DUMMY_CONSOLE'',
   ''CONFIG_DYN_LINK'',
   ''CONFIG_E1000'',
   ''CONFIG_EEPRO100'',
   ''CONFIG_EEXPRESS_PRO100'',
   ''CONFIG_EMBEDDED_RAMDISK'',
   ''CONFIG_ENTROPIC_CLINK'',
   ''CONFIG_EP8248'',
   ''CONFIG_EPOLL'',
   ''CONFIG_ESP_NULL_MD5_96'',
   ''CONFIG_ESP_NULL_SHA1_96'',
   ''CONFIG_EST8xx'',
   ''CONFIG_ET'',
   ''CONFIG_ETHOA_STANDALONE'',
   ''CONFIG_ETH_NETPRO_SIERRA'',
   ''CONFIG_ET_47XX'',
   ''CONFIG_EVEREX'',
   ''CONFIG_EVM_MALINDI'',
   ''CONFIG_EVM_SUPERMOMBASA'',
   ''CONFIG_EXACT_EVENT_LOOP'',
   ''CONFIG_EXPERIMENTAL'',
   ''CONFIG_EXPORT_BINARIES'',
   ''CONFIG_EXP_BUS_SHL'',
   ''CONFIG_EXT2_FS'',
   ''CONFIG_EXT2_FS_POSIX_ACL'',
   ''CONFIG_EXT2_FS_XATTR'',
   ''CONFIG_EXT2_FS_XATTR_SHARING'',
   ''CONFIG_EXT2_FS_XATTR_USER'',
   ''CONFIG_EXT3_FS'',
   ''CONFIG_EXT3_FS_POSIX_ACL'',
   ''CONFIG_EXT3_FS_XATTR'',
   ''CONFIG_EXT3_FS_XATTR_SHARING'',
   ''CONFIG_EXT3_FS_XATTR_USER'',
   ''CONFIG_EXTRA_ALLOC'',
   ''CONFIG_FAST_RAM'',
   ''CONFIG_FAT_DEFAULT_CODEPAGE'',
   ''CONFIG_FAT_FS'',
   ''CONFIG_FCC1_ENET'',
   ''CONFIG_FCC2_ENET'',
   ''CONFIG_FCC_DM9161'',
   ''CONFIG_FCC_LXT971'',
   ''CONFIG_FD_CHAN'',
   ''CONFIG_FEC_ENET'',
   ''CONFIG_FILESERVER_KERNEL_CONFIG'',
   ''CONFIG_FILTER'',
   ''CONFIG_FLASH'',
   ''CONFIG_FLASH_FSTYPE'',
   ''CONFIG_FLASH_IMAGE_OFFSET'',
   ''CONFIG_FLASH_IN_FILE'',
   ''CONFIG_FLASH_POS'',
   ''CONFIG_FLASH_START_ADDR'',
   ''CONFIG_FLATMEM'',
   ''CONFIG_FLATMEM_MANUAL'',
   ''CONFIG_FLAT_NODE_MEM_MAP'',
   ''CONFIG_FORCED_INLINING'',
   ''CONFIG_FORCE_MAX_ZONEORDER'',
   ''CONFIG_FPE_FASTFPE'',
   ''CONFIG_FPE_NWFPE'',
   ''CONFIG_FPE_NWFPE_XP'',
   ''CONFIG_FRAME_POINTER'',
   ''CONFIG_FREEPAGES_HIGH'',
   ''CONFIG_FREEPAGES_LOW'',
   ''CONFIG_FREEPAGES_MIN'',
   ''CONFIG_FREEPAGES_THRESHOLD'',
   ''CONFIG_FREESWAN'',
   ''CONFIG_FREESWAN_COMMON'',
   ''CONFIG_FSL_USB20'',
   ''CONFIG_FS_MBCACHE'',
   ''CONFIG_FS_POSIX_ACL'',
   ''CONFIG_FUTEX'',
   ''CONFIG_FW_LOADER'',
   ''CONFIG_GCC_CANNOT_OPTIMIZE'',
   ''CONFIG_GCC_CAN_INLINE'',
   ''CONFIG_GDB'',
   ''CONFIG_GDB_CONSOLE'',
   ''CONFIG_GEMTEK_COMMON'',
   ''CONFIG_GEMTEK_WX5715'',
   ''CONFIG_GENERIC_CALIBRATE_DELAY'',
   ''CONFIG_GENERIC_HARDIRQS'',
   ''CONFIG_GENERIC_IKANOS'',
   ''CONFIG_GENERIC_IRQ_PROBE'',
   ''CONFIG_GENERIC_ISA_DMA'']"

lemma ascends_base_4: "ascends ''CONFIG_DANUBE_PPA_D4'' (base_names_4 @ [''CONFIG_GENERIC_NVRAM''])"
  unfolding base_names_4_def append.simps by (intro ascends_intros; simp)

lemma settable_base_4: "list_all (settable base_schema) base_names_4"
  unfolding base_names_4_def by simp

lemma length_base_4: "length base_names_4 = 119"
  unfolding base_names_4_def by simp

definition base_names_5 :: "string list" where
  "base_names_5 = [
   ''CONFIG_GEN_RG_DEFAULT'',
   ''CONFIG_GIANFAR'',
   ''CONFIG_GLIBC'',
   ''CONFIG_GMP'',
   ''CONFIG_GUI_BELKIN'',
   ''CONFIG_GUI_CUST_RG2'',
   ''CONFIG_GUI_CUST_SMB2'',
   ''CONFIG_GUI_LINKSYS'',
   ''CONFIG_GUI_NETGEAR'',
   ''CONFIG_GUI_RG'',
   ''CONFIG_GUI_RG2'',
   ''CONFIG_GUI_SMB'',
   ''CONFIG_GUI_SMB2'',
   ''CONFIG_GUI_VZ_NO_ICONS'',
   ''CONFIG_GUI_WELLTECH'',
   ''CONFIG_GUI_WSTL'',
   ''CONFIG_GUI_WSTL_RETAIL'',
   ''CONFIG_GUI_WSTL_VZ'',
   ''CONFIG_HAS_MMU'',
   ''CONFIG_HAVE_DEC_LOCK'',
   ''CONFIG_HAVE_STD_PC_SERIAL_PORT'',
   ''CONFIG_HERMES'',
   ''CONFIG_HIGHMEM'',
   ''CONFIG_HIGHMEM_START'',
   ''CONFIG_HITRON_BSP'',
   ''CONFIG_HNAP'',
   ''CONFIG_HOSTFS'',
   ''CONFIG_HOTPLUG'',
   ''CONFIG_HPNA'',
   ''CONFIG_HPPFS'',
   ''CONFIG_HTTP_CGI_PROCESS'',
   ''CONFIG_HW_80211A_AR531X'',
   ''CONFIG_HW_80211B_PRISM2'',
   ''CONFIG_HW_80211G_AR531X'',
   ''CONFIG_HW_80211G_ATHEROS_AR521X'',
   ''CONFIG_HW_80211G_BCM43XX'',
   ''CONFIG_HW_80211G_ISL38XX'',
   ''CONFIG_HW_80211G_ISL_SOFTMAC'',
   ''CONFIG_HW_80211G_RALINK_RT2560'',
   ''CONFIG_HW_80211G_RALINK_RT2561'',
   ''CONFIG_HW_80211N_AIRGO_AGN100'',
   ''CONFIG_HW_80211N_ATHEROS_AR50WL'',
   ''CONFIG_HW_BLUETOOTH'',
   ''CONFIG_HW_BUTTONS'',
   ''CONFIG_HW_CABLE_WAN'',
   ''CONFIG_HW_CAMERA_USB_OV511'',
   ''CONFIG_HW_CAMERA_USB_PWC'',
   ''CONFIG_HW_CAMERA_USB_SPCA5XX'',
   ''CONFIG_HW_CLOCK'',
   ''CONFIG_HW_DEF_TO_WAN_ETH'',
   ''CONFIG_HW_DSL_WAN'',
   ''CONFIG_HW_DSP'',
   ''CONFIG_HW_DUAL_MOCA'',
   ''CONFIG_HW_EEPROM'',
   ''CONFIG_HW_ENCRYPTION'',
   ''CONFIG_HW_ENV_MONITOR'',
   ''CONFIG_HW_ETH_EEPRO1000'',
   ''CONFIG_HW_ETH_EEPRO100_LAN'',
   ''CONFIG_HW_ETH_FEC'',
   ''CONFIG_HW_ETH_GIANFAR'',
   ''CONFIG_HW_ETH_LAN'',
   ''CONFIG_HW_ETH_LAN2'',
   ''CONFIG_HW_ETH_MSPCTRL'',
   ''CONFIG_HW_ETH_WAN'',
   ''CONFIG_HW_ETH_WAN2'',
   ''CONFIG_HW_FIREWIRE'',
   ''CONFIG_HW_FIREWIRE_STORAGE'',
   ''CONFIG_HW_HSS_WAN'',
   ''CONFIG_HW_I2C'',
   ''CONFIG_HW_IDE'',
   ''CONFIG_HW_KEYPAD'',
   ''CONFIG_HW_LEDS'',
   ''CONFIG_HW_MOCA'',
   ''CONFIG_HW_MOCA_WAN'',
   ''CONFIG_HW_NUMBER_OF_FXS_PORTS'',
   ''CONFIG_HW_PCMCIA_CARDBUS'',
   ''CONFIG_HW_ST_20190'',
   ''CONFIG_HW_SWITCH_BCM53XX'',
   ''CONFIG_HW_SWITCH_LAN'',
   ''CONFIG_HW_SWITCH_WAN'',
   ''CONFIG_HW_TURBO_DUAL_MOCA'',
   ''CONFIG_HW_TURBO_M100'',
   ''CONFIG_HW_USB_ETH'',
   ''CONFIG_HW_USB_HOST_EHCI'',
   ''CONFIG_HW_USB_HOST_OHCI'',
   ''CONFIG_HW_USB_HOST_UHCI'',
   ''CONFIG_HW_USB_RNDIS'',
   ''CONFIG_HW_USB_STORAGE'',
   ''CONFIG_HW_VDSL_WAN'',
   ''CONFIG_HW_WAN_ETHERNET'',
   ''CONFIG_HZ'',
   ''CONFIG_HZ_250'',
   ''CONFIG_I2C'',
   ''CONFIG_I2C_ALGOBIT'',
   ''CONFIG_I2C_DS1374'',
   ''CONFIG_I2C_IXP425'',
   ''CONFIG_I2C_LM81'',
   ''CONFIG_I386'',
   ''CONFIG_I386_BOCHS'',
   ''CONFIG_ICONV_CONST_CAST'',
   ''CONFIG_IDE'',
   ''CONFIG_IDEDISK_MULTI_MODE'',
   ''CONFIG_IDEDMA_AUTO'',
   ''CONFIG_IDT_COMMON'',
   ''CONFIG_IEEE1394'',
   ''CONFIG_IEEE1394_ETH1394'',
   ''CONFIG_IEEE1394_OHCI1394'',
   ''CONFIG_IEEE1394_SBP2'',
   ''CONFIG_IFX_ASC_CONSOLE_ASC0'',
   ''CONFIG_IFX_ASC_CONSOLE_ASC1'',
   ''CONFIG_IFX_ASC_DEFAULT_BAUDRATE'',
   ''CONFIG_IL'',
   ''CONFIG_IL_47XX'',
   ''CONFIG_IMG_PRODUCT'',
   ''CONFIG_IMG_SREC_SLICES'',
   ''CONFIG_INCAIP'',
   ''CONFIG_INCAIPASC_DEFAULT_BAUDRATE'',
   ''CONFIG_INCAIPPWM'',
   ''CONFIG_INCAIPSSC'']"

lemma ascends_base_5: "ascends ''CONFIG_GENERIC_NVRAM'' (base_names_5 @ [''CONFIG_INCAIP_ALLTEK''])"
  unfolding base_names_5_def append.simps by (intro ascends_intros; simp)

lemma settable_base_5: "list_all (settable base_schema) base_names_5"
  unfolding base_names_5_def by simp

lemma length_base_5: "length base_names_5 = 119"
  unfolding base_names_5_def by simp

definition base_names_6 :: "string list" where
  "base_names_6 = [
   ''CONFIG_INCAIP_COMMON'',
   ''CONFIG_INCAIP_DSP'',
   ''CONFIG_INCAIP_ETHERNET'',
   ''CONFIG_INCAIP_EVALBOARD'',
   ''CONFIG_INCAIP_FLEXTRONICS'',
   ''CONFIG_INCAIP_IOM2'',
   ''CONFIG_INCAIP_KEYPAD'',
   ''CONFIG_INCAIP_LEDMATRIX'',
   ''CONFIG_INCAIP_MUX'',
   ''CONFIG_INCAIP_MUX_DCL'',
   ''CONFIG_INCAIP_MUX_DD'',
   ''CONFIG_INCAIP_MUX_DU'',
   ''CONFIG_INCAIP_MUX_FSC'',
   ''CONFIG_INCAIP_MUX_KEY0'',
   ''CONFIG_INCAIP_MUX_KEY1'',
   ''CONFIG_INCAIP_MUX_KEY2'',
   ''CONFIG_INCAIP_MUX_KEY3'',
   ''CONFIG_INCAIP_MUX_KEY4'',
   ''CONFIG_INCAIP_MUX_KEY5'',
   ''CONFIG_INCAIP_MUX_KEY6'',
   ''CONFIG_INCAIP_MUX_KEY7'',
   ''CONFIG_INCAIP_MUX_LED0'',
   ''CONFIG_INCAIP_MUX_LED1'',
   ''CONFIG_INCAIP_MUX_LED2'',
   ''CONFIG_INCAIP_MUX_LED3'',
   ''CONFIG_INCAIP_MUX_LED4'',
   ''CONFIG_INCAIP_MUX_LED5'',
   ''CONFIG_INCAIP_MUX_LED6'',
   ''CONFIG_INCAIP_MUX_LED7'',
   ''CONFIG_INCAIP_MUX_LED8'',
   ''CONFIG_INCAIP_MUX_P1_16'',
   ''CONFIG_INCAIP_MUX_P1_17'',
   ''CONFIG_INCAIP_MUX_P2_10'',
   ''CONFIG_INCAIP_MUX_P2_11'',
   ''CONFIG_INCAIP_MUX_P2_12'',
   ''CONFIG_INCAIP_MUX_P2_13'',
   ''CONFIG_INCAIP_MUX_P2_14'',
   ''CONFIG_INCAIP_MUX_P2_15'',
   ''CONFIG_INCAIP_MUX_P2_9'',
   ''CONFIG_INCAIP_MUX_PWM1'',
   ''CONFIG_INCAIP_MUX_PWM2'',
   ''CONFIG_INCAIP_MUX_RXD'',
   ''CONFIG_INCAIP_MUX_SSC1'',
   ''CONFIG_INCAIP_MUX_SSC2'',
   ''CONFIG_INCAIP_MUX_TXD'',
   ''CONFIG_INCAIP_PSEUDO_LAN'',
   ''CONFIG_INCAIP_SWITCH'',
   ''CONFIG_INCAIP_SWITCH_API'',
   ''CONFIG_INCAIP_WATCHDOG'',
   ''CONFIG_INCAIP_WATCHDOG_HEARTBEAT'',
   ''CONFIG_INCAIP_WATCHDOG_TIMEOUT'',
   ''CONFIG_INCA_HW_ENCRYPT'',
   ''CONFIG_INCA_IP'',
   ''CONFIG_INET'',
   ''CONFIG_INET_DIAG'',
   ''CONFIG_INET_TCP_DIAG'',
   ''CONFIG_INET_TUNNEL'',
   ''CONFIG_INFINEON_PPE_D4'',
   ''CONFIG_INFINEON_PPE_D4_11N'',
   ''CONFIG_INFINEON_TWINPASS'',
   ''CONFIG_INITRAMFS_ROOT_GID'',
   ''CONFIG_INITRAMFS_ROOT_UID'',
   ''CONFIG_INITRAMFS_SOURCE'',
   ''CONFIG_INITRD_ADDR'',
   ''CONFIG_INITRD_IN_IMAGE'',
   ''CONFIG_INIT_BASIC_RUNLEVELS'',
   ''CONFIG_INIT_ENV_ARG_LIMIT'',
   ''CONFIG_INSURE'',
   ''CONFIG_INTERSIL_COMMON'',
   ''CONFIG_IOSCHED_AS'',
   ''CONFIG_IOSCHED_CFQ'',
   ''CONFIG_IOSCHED_DEADLINE'',
   ''CONFIG_IOSCHED_NOOP'',
   ''CONFIG_IPSEC'',
   ''CONFIG_IPSEC_AH'',
   ''CONFIG_IPSEC_ALG'',
   ''CONFIG_IPSEC_ALG_1DES'',
   ''CONFIG_IPSEC_ALG_3DES'',
   ''CONFIG_IPSEC_ALG_AES'',
   ''CONFIG_IPSEC_ALG_MD5'',
   ''CONFIG_IPSEC_ALG_NULL'',
   ''CONFIG_IPSEC_ALG_SHA1'',
   ''CONFIG_IPSEC_AUTH_HMAC_MD5'',
   ''CONFIG_IPSEC_AUTH_HMAC_SHA1'',
   ''CONFIG_IPSEC_CON_PASSTHRU_TRANSFER'',
   ''CONFIG_IPSEC_DEBUG'',
   ''CONFIG_IPSEC_DRIVER'',
   ''CONFIG_IPSEC_ENC_1DES'',
   ''CONFIG_IPSEC_ENC_3DES'',
   ''CONFIG_IPSEC_ENC_AES'',
   ''CONFIG_IPSEC_ENC_NULL'',
   ''CONFIG_IPSEC_ESP'',
   ''CONFIG_IPSEC_IPCOMP'',
   ''CONFIG_IPSEC_IPIP'',
   ''CONFIG_IPSEC_NAT_TRAVERSAL'',
   ''CONFIG_IPSEC_USE_IXP4XX_CRYPTO'',
   ''CONFIG_IPSEC_USE_MPC_CRYPTO'',
   ''CONFIG_IPSEC_USE_SOLOS_CRYPTO'',
   ''CONFIG_IPTABLES'',
   ''CONFIG_IPV6'',
   ''CONFIG_IPV6_6TO4_NEXTHOP'',
   ''CONFIG_IPV6_RESTRICTED_DOUBLE_BIND'',
   ''CONFIG_IP_ADVANCED_ROUTER'',
   ''CONFIG_IP_FIB_HASH'',
   ''CONFIG_IP_MULTICAST'',
   ''CONFIG_IP_MULTIPLE_TABLES'',
   ''CONFIG_IP_NF_CONNTRACK'',
   ''CONFIG_IP_NF_CONNTRACK_MARK'',
   ''CONFIG_IP_NF_CT_ACCT'',
   ''CONFIG_IP_NF_FILTER'',
   ''CONFIG_IP_NF_IPTABLES'',
   ''CONFIG_IP_NF_NAT'',
   ''CONFIG_IP_NF_NAT_LOCAL'',
   ''CONFIG_IP_NF_NAT_NEEDED'',
   ''CONFIG_IP_NF_TARGET_MASQUERADE'',
   ''CONFIG_IP_ROUTE_FWMARK'',
   ''CONFIG_IP_ROUTE_MULTIPATH'',
   ''CONFIG_IP_ROUTE_TOS'',
   ''CONFIG_IP_ROUTE_VERBOSE'']"

lemma ascends_base_6: "ascends ''CONFIG_INCAIP_ALLTEK'' (base_names_6 @ [''CONFIG_IRQ_CPU''])"
  unfolding base_names_6_def append.simps by (intro ascends_intros; simp)

lemma settable_base_6: "list_all (settable base_schema) base_names_6"
  unfolding base_names_6_def by simp

lemma length_base_6: "length base_names_6 = 119"
  unfolding base_names_6_def by simp

definition base_names_7 :: "string list" where
  "base_names_7 = [
   ''CONFIG_IRQ_RELEASE_METHOD'',
   ''CONFIG_ISA_DMA_API'',
   ''CONFIG_ISL38XX'',
   ''CONFIG_ISL_SOFTMAC'',
   ''CONFIG_IT8712_GPIO'',
   ''CONFIG_IXDP425_KGDB_UART'',
   ''CONFIG_IXJ'',
   ''CONFIG_IXP425'',
   ''CONFIG_IXP425_ADSL_USE_MPHY'',
   ''CONFIG_IXP425_ADSL_USE_SPHY'',
   ''CONFIG_IXP425_ATM'',
   ''CONFIG_IXP425_CODELETS'',
   ''CONFIG_IXP425_CODELET_ATM'',
   ''CONFIG_IXP425_CODELET_CRYPTO'',
   ''CONFIG_IXP425_CODELET_DMA'',
   ''CONFIG_IXP425_CODELET_DSP_ENG'',
   ''CONFIG_IXP425_CODELET_ETH'',
   ''CONFIG_IXP425_CODELET_HSS'',
   ''CONFIG_IXP425_CODELET_PERF_PROF'',
   ''CONFIG_IXP425_CODELET_TIMERS'',
   ''CONFIG_IXP425_CODELET_USB'',
   ''CONFIG_IXP425_COMMON'',
   ''CONFIG_IXP425_COMMON_LSP'',
   ''CONFIG_IXP425_COMMON_RG'',
   ''CONFIG_IXP425_COMMON_RGLOADER'',
   ''CONFIG_IXP425_CSR'',
   ''CONFIG_IXP425_CSR_ATM'',
   ''CONFIG_IXP425_CSR_CRYPTO_ACC'',
   ''CONFIG_IXP425_CSR_DMA_ACC'',
   ''CONFIG_IXP425_CSR_ETHDB'',
   ''CONFIG_IXP425_CSR_ETH_ACC'',
   ''CONFIG_IXP425_CSR_ETH_DB'',
   ''CONFIG_IXP425_CSR_ETH_MII'',
   ''CONFIG_IXP425_CSR_FULL'',
   ''CONFIG_IXP425_CSR_HSS'',
   ''CONFIG_IXP425_CSR_PERF_PROF_ACC'',
   ''CONFIG_IXP425_CSR_UART'',
   ''CONFIG_IXP425_CSR_USB'',
   ''CONFIG_IXP425_DSR'',
   ''CONFIG_IXP425_DSR_DEMO'',
   ''CONFIG_IXP425_ETH'',
   ''CONFIG_IXP425_FLASH_E28F128J3'',
   ''CONFIG_IXP425_FLASH_E28F320J3'',
   ''CONFIG_IXP425_FLASH_E28F640J3'',
   ''CONFIG_IXP425_FLASH_USER_PART'',
   ''CONFIG_IXP425_JFFS2_WORKAROUND'',
   ''CONFIG_IXP425_NUMBER_OF_FLASH_CHIPS'',
   ''CONFIG_IXP425_NUMBER_OF_MEM_CHIPS'',
   ''CONFIG_IXP425_OS_TIMER1'',
   ''CONFIG_IXP425_PCI_NP_WORKAROUND'',
   ''CONFIG_IXP425_POST'',
   ''CONFIG_IXP425_SDRAM_SIZE'',
   ''CONFIG_IXP_CS8900'',
   ''CONFIG_JBD'',
   ''CONFIG_JEEVES_RTC7301'',
   ''CONFIG_JFFS2_FS'',
   ''CONFIG_JFFS2_SIZE'',
   ''CONFIG_KALLSYMS'',
   ''CONFIG_KCORE_ELF'',
   ''CONFIG_KERNEL_ASSERTS'',
   ''CONFIG_KERNEL_ELF'',
   ''CONFIG_KERNEL_FLASH_POS'',
   ''CONFIG_KERNEL_HALF_GIGS'',
   ''CONFIG_KERNEL_MATH_EMULATION'',
   ''CONFIG_KERNEL_RAM_POS'',
   ''CONFIG_KERNEL_RAM_SIZE'',
   ''CONFIG_KERNEL_STACK_ORDER'',
   ''CONFIG_KERNEL_START'',
   ''CONFIG_KEYBOARD'',
   ''CONFIG_KGDB'',
   ''CONFIG_KGDB_CONSOLE'',
   ''CONFIG_KGDB_SERIAL'',
   ''CONFIG_KGDB_SOLOS_SERIAL'',
   ''CONFIG_KGDB_THREAD'',
   ''CONFIG_KMOD'',
   ''CONFIG_KNSN_SDRAM_16BIT'',
   ''CONFIG_KS8695'',
   ''CONFIG_KS8695_COMMON'',
   ''CONFIG_KS8695_FLASH_AM29LV033C'',
   ''CONFIG_KSFLASH'',
   ''CONFIG_LAN_SAA9730'',
   ''CONFIG_LD_SCRIPT_STATIC'',
   ''CONFIG_LEGACY_PTYS'',
   ''CONFIG_LEGACY_PTY_COUNT'',
   ''CONFIG_LIBDES'',
   ''CONFIG_LICENSE_AGREEMENT'',
   ''CONFIG_LINUX_BSP'',
   ''CONFIG_LINUX_OAM'',
   ''CONFIG_LINUX_SKB_REUSE'',
   ''CONFIG_LOCALVERSION'',
   ''CONFIG_LOCAL_WBM_LIB'',
   ''CONFIG_LOCKD'',
   ''CONFIG_LOCKD_V4'',
   ''CONFIG_LOCK_KERNEL'',
   ''CONFIG_LOG_BUF_SHIFT'',
   ''CONFIG_LOG_FILES_MAX_SIZE'',
   ''CONFIG_LOG_FILES_MIN_SIZE'',
   ''CONFIG_LOWMEM_SIZE'',
   ''CONFIG_LSP_DIST'',
   ''CONFIG_LSP_FLASH_LAYOUT'',
   ''CONFIG_M386'',
   ''CONFIG_M828XX_PROC_FS'',
   ''CONFIG_MACH_ADI_FUSIV'',
   ''CONFIG_MACH_SOLOS_GALLUSBU'',
   ''CONFIG_MACH_SPECIFIC'',
   ''CONFIG_MAGIC_SYSRQ'',
   ''CONFIG_MALLOC_CONSERVE_RAM'',
   ''CONFIG_MARVELL_88E60XX'',
   ''CONFIG_MATH_EMULATION'',
   ''CONFIG_MAX_DMA_SIZE'',
   ''CONFIG_MBX'',
   ''CONFIG_MCONSOLE'',
   ''CONFIG_MD'',
   ''CONFIG_MD_RAID0'',
   ''CONFIG_MD_RAID1'',
   ''CONFIG_MD_RAID5'',
   ''CONFIG_MII'',
   ''CONFIG_MINDSPEED_COMMON'',
   ''CONFIG_MINIX_FS'']"

lemma ascends_base_7: "ascends ''CONFIG_IRQ_CPU'' (base_names_7 @ [''CONFIG_MIPS''])"
  unfolding base_names_7_def append.simps by (intro ascends_intros; simp)

lemma settable_base_7: "list_all (settable base_schema) base_names_7"
  unfolding base_names_7_def by simp

lemma length_base_7: "length base_names_7 = 119"
  unfolding base_names_7_def by simp

definition base_names_8 :: "string list" where
  "base_names_8 = [
   ''CONFIG_MIPS32'',
   ''CONFIG_MIPS64'',
   ''CONFIG_MIPS_AM5120'',
   ''CONFIG_MIPS_ATLAS'',
   ''CONFIG_MIPS_BRCM'',
   ''CONFIG_MIPS_FPU_EMULATOR'',
   ''CONFIG_MIPS_IDT'',
   ''CONFIG_MIPS_L1_CACHE_SHIFT'',
   ''CONFIG_MIPS_MALTA'',
   ''CONFIG_MIPS_PATENTFREE'',
   ''CONFIG_MMU'',
   ''CONFIG_MNG_SHOW'',
   ''CONFIG_MODE_SKAS'',
   ''CONFIG_MODE_TT'',
   ''CONFIG_MODULES'',
   ''CONFIG_MODULE_UNLOAD'',
   ''CONFIG_MPC8272ADS'',
   ''CONFIG_MPC8349E_SEC2x'',
   ''CONFIG_MPC8349E_SEC2xTEST'',
   ''CONFIG_MPC8349_ITX'',
   ''CONFIG_MPC834x'',
   ''CONFIG_MPC83xx_PCI2'',
   ''CONFIG_MPC850'',
   ''CONFIG_MPH0_ULPI'',
   ''CONFIG_MPH0_USB_ENABLE'',
   ''CONFIG_MPH1_ULPI'',
   ''CONFIG_MPH1_USB_ENABLE'',
   ''CONFIG_MPH_USB_SUPPORT'',
   ''CONFIG_MSDOS_FS'',
   ''CONFIG_MSDOS_PARTITION'',
   ''CONFIG_MTD'',
   ''CONFIG_MTD_BCM947XX'',
   ''CONFIG_MTD_BLKMTD'',
   ''CONFIG_MTD_BLOCK'',
   ''CONFIG_MTD_CFI'',
   ''CONFIG_MTD_CFI_ADV_OPTIONS'',
   ''CONFIG_MTD_CFI_AMDSTD'',
   ''CONFIG_MTD_CFI_AMDSTD_RETRY'',
   ''CONFIG_MTD_CFI_B2'',
   ''CONFIG_MTD_CFI_GEOMETRY'',
   ''CONFIG_MTD_CFI_I1'',
   ''CONFIG_MTD_CFI_I2'',
   ''CONFIG_MTD_CFI_I4'',
   ''CONFIG_MTD_CFI_INTELEXT'',
   ''CONFIG_MTD_CFI_LE_BYTE_SWAP'',
   ''CONFIG_MTD_CFI_NOSWAP'',
   ''CONFIG_MTD_CFI_UTIL'',
   ''CONFIG_MTD_CHAR'',
   ''CONFIG_MTD_CMDLINE_PARTS'',
   ''CONFIG_MTD_COMCERTO'',
   ''CONFIG_MTD_COMPLEX_MAPPINGS'',
   ''CONFIG_MTD_CONCAT'',
   ''CONFIG_MTD_EP8248'',
   ''CONFIG_MTD_GEN_PROBE'',
   ''CONFIG_MTD_INCAIP'',
   ''CONFIG_MTD_IXP425'',
   ''CONFIG_MTD_JEDEC'',
   ''CONFIG_MTD_JEDECPROBE'',
   ''CONFIG_MTD_MAP_BANK_WIDTH_1'',
   ''CONFIG_MTD_MAP_BANK_WIDTH_2'',
   ''CONFIG_MTD_MAP_BANK_WIDTH_4'',
   ''CONFIG_MTD_NAND'',
   ''CONFIG_MTD_NAND_COMCERTO'',
   ''CONFIG_MTD_PARTITIONS'',
   ''CONFIG_MTD_PHYSMAP'',
   ''CONFIG_MTD_PHYSMAP_BANKWIDTH'',
   ''CONFIG_MTD_PHYSMAP_BUSWIDTH'',
   ''CONFIG_MTD_PHYSMAP_LEN'',
   ''CONFIG_MTD_PHYSMAP_START'',
   ''CONFIG_MTD_REDBOOT_PARTS'',
   ''CONFIG_MTD_ROM'',
   ''CONFIG_MTD_XG1000'',
   ''CONFIG_NATSEMI'',
   ''CONFIG_NE2000'',
   ''CONFIG_NE2000_DEV'',
   ''CONFIG_NE2K_PCI'',
   ''CONFIG_NEST_LEVEL'',
   ''CONFIG_NET'',
   ''CONFIG_NETDEVICES'',
   ''CONFIG_NETFILTER'',
   ''CONFIG_NETFILTER_XTABLES'',
   ''CONFIG_NETFILTER_XT_MATCH_COMMENT'',
   ''CONFIG_NETFILTER_XT_MATCH_CONNBYTES'',
   ''CONFIG_NETFILTER_XT_MATCH_CONNMARK'',
   ''CONFIG_NETFILTER_XT_MATCH_CONNTRACK'',
   ''CONFIG_NETFILTER_XT_MATCH_DCCP'',
   ''CONFIG_NETFILTER_XT_MATCH_HELPER'',
   ''CONFIG_NETFILTER_XT_MATCH_LENGTH'',
   ''CONFIG_NETFILTER_XT_MATCH_LIMIT'',
   ''CONFIG_NETFILTER_XT_MATCH_MAC'',
   ''CONFIG_NETFILTER_XT_MATCH_MARK'',
   ''CONFIG_NETFILTER_XT_MATCH_PHYSDEV'',
   ''CONFIG_NETFILTER_XT_MATCH_PKTTYPE'',
   ''CONFIG_NETFILTER_XT_MATCH_REALM'',
   ''CONFIG_NETFILTER_XT_MATCH_SCTP'',
   ''CONFIG_NETFILTER_XT_MATCH_STATE'',
   ''CONFIG_NETFILTER_XT_MATCH_STRING'',
   ''CONFIG_NETFILTER_XT_MATCH_TCPMSS'',
   ''CONFIG_NETFILTER_XT_TARGET_CLASSIFY'',
   ''CONFIG_NETFILTER_XT_TARGET_CONNMARK'',
   ''CONFIG_NETFILTER_XT_TARGET_MARK'',
   ''CONFIG_NETFILTER_XT_TARGET_NFQUEUE'',
   ''CONFIG_NETFILTER_XT_TARGET_NOTRACK'',
   ''CONFIG_NETIF_EXT'',
   ''CONFIG_NETIF_INT'',
   ''CONFIG_NETLINK_DEV'',
   ''CONFIG_NET_CLS'',
   ''CONFIG_NET_CLS_FW'',
   ''CONFIG_NET_CLS_POLICE'',
   ''CONFIG_NET_CLS_ROUTE'',
   ''CONFIG_NET_CLS_RSVP'',
   ''CONFIG_NET_CLS_RSVP6'',
   ''CONFIG_NET_CLS_TCINDEX'',
   ''CONFIG_NET_CLS_U32'',
   ''CONFIG_NET_EISA'',
   ''CONFIG_NET_ESTIMATOR'',
   ''CONFIG_NET_ETHERNET'',
   ''CONFIG_NET_HW_FLOWCONTROL'',
   ''CONFIG_NET_IPGRE'']"

lemma ascends_base_8: "ascends ''CONFIG_MIPS'' (base_names_8 @ [''CONFIG_NET_IPGRE_BROADCAST''])"
  unfolding base_names_8_def append.simps by (intro ascends_intros; simp)

lemma settable_base_8: "list_all (settable base_schema) base_names_8"
  unfolding base_names_8_def by simp

lemma length_base_8: "length base_names_8 = 119"
  unfolding base_names_8_def by simp

definition base_names_9 :: "string list" where
  "base_names_9 = [
   ''CONFIG_NET_IPIP'',
   ''CONFIG_NET_ISA'',
   ''CONFIG_NET_PCI'',
   ''CONFIG_NET_QOS'',
   ''CONFIG_NET_RADIO'',
   ''CONFIG_NET_SB1250_MAC'',
   ''CONFIG_NET_SB1250_MAC_TASKLET'',
   ''CONFIG_NET_SCHED'',
   ''CONFIG_NET_SCH_ATM'',
   ''CONFIG_NET_SCH_CLK_JIFFIES'',
   ''CONFIG_NET_SCH_DSMARK'',
   ''CONFIG_NET_SCH_HTB'',
   ''CONFIG_NET_SCH_INGRESS'',
   ''CONFIG_NET_SCH_PRIO'',
   ''CONFIG_NET_SCH_RED'',
   ''CONFIG_NET_SCH_SFQ'',
   ''CONFIG_NET_WIRELESS'',
   ''CONFIG_NEW_IRQ'',
   ''CONFIG_NEW_NONE_PRICED_FEATURES'',
   ''CONFIG_NEW_PCI'',
   ''CONFIG_NEW_TIME_C'',
   ''CONFIG_NFS_FS'',
   ''CONFIG_NFS_V3'',
   ''CONFIG_NLS'',
   ''CONFIG_NLS_CODEPAGE_437'',
   ''CONFIG_NLS_CODEPAGE_850'',
   ''CONFIG_NLS_DEFAULT'',
   ''CONFIG_NLS_UTF8'',
   ''CONFIG_NOCONFIG_CHAN'',
   ''CONFIG_NOMMU_PAGECACHE_THRESHOLD'',
   ''CONFIG_NONCOHERENT_IO'',
   ''CONFIG_NO_FRAME_POINTER'',
   ''CONFIG_NO_ISA'',
   ''CONFIG_NO_NAT'',
   ''CONFIG_NO_PGT_CACHE'',
   ''CONFIG_NO_REMOVABLE_IDE'',
   ''CONFIG_NO_UART2'',
   ''CONFIG_NO_UNALIGNED_ACCESS'',
   ''CONFIG_NR_CPUS'',
   ''CONFIG_NULL_CHAN'',
   ''CONFIG_OBSOLETE_INTERMODULE'',
   ''CONFIG_OBSOLETE_MODPARM'',
   ''CONFIG_OPENRG'',
   ''CONFIG_OPENSOURCE_HTTPTINY'',
   ''CONFIG_PACKET'',
   ''CONFIG_PACKET_MMAP'',
   ''CONFIG_PAGE_SIZE_4KB'',
   ''CONFIG_PARIDE_PARPORT'',
   ''CONFIG_PARTITION_ADVANCED'',
   ''CONFIG_PCBOX'',
   ''CONFIG_PCF8594C2'',
   ''CONFIG_PCI'',
   ''CONFIG_PCI_8260'',
   ''CONFIG_PCI_AUTO'',
   ''CONFIG_PCI_BIOS'',
   ''CONFIG_PCI_DIRECT'',
   ''CONFIG_PCI_DOMAINS'',
   ''CONFIG_PCI_GOANY'',
   ''CONFIG_PCI_KS8695P'',
   ''CONFIG_PCI_NAMES'',
   ''CONFIG_PCI_OLD_PROC'',
   ''CONFIG_PCI_QUIRKS'',
   ''CONFIG_PCI_RESET'',
   ''CONFIG_PCMCIA'',
   ''CONFIG_PCMCIA_80211B'',
   ''CONFIG_PCMCIA_BCM4710'',
   ''CONFIG_PCMCIA_DEVELOPMENT'',
   ''CONFIG_PCMCIA_HERMES'',
   ''CONFIG_PCNET32'',
   ''CONFIG_PHYLIB'',
   ''CONFIG_PHYS_SDRAM_SIZE'',
   ''CONFIG_PHY_CX11656'',
   ''CONFIG_PHY_KS8721'',
   ''CONFIG_PHY_KS8737'',
   ''CONFIG_PHY_KS8995E'',
   ''CONFIG_PHY_KS8995M'',
   ''CONFIG_PHY_LSI_LOGIC'',
   ''CONFIG_PHY_MARVEL'',
   ''CONFIG_PHY_RTL8201'',
   ''CONFIG_PLUTO_DEBUG'',
   ''CONFIG_PM'',
   ''CONFIG_PORT_CHAN'',
   ''CONFIG_PPC'',
   ''CONFIG_PPC32'',
   ''CONFIG_PPC_83xx'',
   ''CONFIG_PPC_FPU'',
   ''CONFIG_PPC_GEN550'',
   ''CONFIG_PPC_INDIRECT_PCI'',
   ''CONFIG_PPC_STD_MMU'',
   ''CONFIG_PPPOE_MAX_RETRANSMIT_TIMEOUT'',
   ''CONFIG_PPPOE_RETRANSMIT'',
   ''CONFIG_PPPSTUB'',
   ''CONFIG_PQ2ADS'',
   ''CONFIG_PREEMPT'',
   ''CONFIG_PREEMPT_BKL'',
   ''CONFIG_PREVENT_FIRMWARE_BUILD'',
   ''CONFIG_PRINTK'',
   ''CONFIG_PRISM2_LOAD_FIRMWARE'',
   ''CONFIG_PRISM2_PCI'',
   ''CONFIG_PROC_FS'',
   ''CONFIG_PROC_MM'',
   ''CONFIG_PTY_CHAN'',
   ''CONFIG_PT_PROXY'',
   ''CONFIG_QUOTA'',
   ''CONFIG_QUOTACTL'',
   ''CONFIG_RALINK_RT2560'',
   ''CONFIG_RALINK_RT2560_TIMECSR'',
   ''CONFIG_RALINK_RT2561'',
   ''CONFIG_RAMDISK_SIZE'',
   ''CONFIG_RAMFS'',
   ''CONFIG_RAM_LIMIT'',
   ''CONFIG_REDUCED_DNS_TRAFFIC'',
   ''CONFIG_REISERFS_FS'',
   ''CONFIG_RELEASE'',
   ''CONFIG_RELEASE_COMMON'',
   ''CONFIG_REMOTE_DEBUG'',
   ''CONFIG_RGLOADER_CLI'',
   ''CONFIG_RGTV'',
   ''CONFIG_RG_8021Q_IF'']"

lemma ascends_base_9: "ascends ''CONFIG_NET_IPGRE_BROADCAST'' (base_names_9 @ [''CONFIG_RG_8021X''])"
  unfolding base_names_9_def append.simps by (intro ascends_intros; simp)

lemma settable_base_9: "list_all (settable base_schema) base_names_9"
  unfolding base_names_9_def by simp

lemma length_base_9: "length base_names_9 = 119"
  unfolding base_names_9_def by simp

definition base_names_10 :: "string list" where
  "base_names_10 = [
   ''CONFIG_RG_8021X_MD5'',
   ''CONFIG_RG_8021X_PKTFIL'',
   ''CONFIG_RG_8021X_RADIUS'',
   ''CONFIG_RG_8021X_TLS'',
   ''CONFIG_RG_8021X_TTLS'',
   ''CONFIG_RG_8021X_WBM'',
   ''CONFIG_RG_ACL'',
   ''CONFIG_RG_ADV_SERVICES_LEVEL'',
   ''CONFIG_RG_ALG'',
   ''CONFIG_RG_ALG_AIM'',
   ''CONFIG_RG_ALG_DHCP'',
   ''CONFIG_RG_ALG_DNS'',
   ''CONFIG_RG_ALG_FTP'',
   ''CONFIG_RG_ALG_H323'',
   ''CONFIG_RG_ALG_ICMP'',
   ''CONFIG_RG_ALG_IPSEC'',
   ''CONFIG_RG_ALG_L2TP'',
   ''CONFIG_RG_ALG_MGCP'',
   ''CONFIG_RG_ALG_MSNMS'',
   ''CONFIG_RG_ALG_PORT_TRIGGER'',
   ''CONFIG_RG_ALG_PPTP'',
   ''CONFIG_RG_ALG_RTSP'',
   ''CONFIG_RG_ALG_SIP'',
   ''CONFIG_RG_ALG_USERSPACE'',
   ''CONFIG_RG_ATA'',
   ''CONFIG_RG_ATHEROS_WIRELESS_TOOLS'',
   ''CONFIG_RG_ATM_QOS'',
   ''CONFIG_RG_ATTR'',
   ''CONFIG_RG_AUDIO_MGT'',
   ''CONFIG_RG_AUTH'',
   ''CONFIG_RG_AUTOTEST'',
   ''CONFIG_RG_AUTO_DST'',
   ''CONFIG_RG_BACKUP'',
   ''CONFIG_RG_BCM53XX_STORM_SUPPRESSION'',
   ''CONFIG_RG_BCM947_NVRAM_CONVERT'',
   ''CONFIG_RG_BLUETOOTH'',
   ''CONFIG_RG_BLUETOOTH_NAME'',
   ''CONFIG_RG_BLUETOOTH_PAN'',
   ''CONFIG_RG_BLUETOOTH_REQUIRES_MAC'',
   ''CONFIG_RG_BOOTLDR'',
   ''CONFIG_RG_BOOTLDR_REDBOOT'',
   ''CONFIG_RG_BOOTSTRAP'',
   ''CONFIG_RG_BRIDGE'',
   ''CONFIG_RG_BROUTE'',
   ''CONFIG_RG_BUILD_LOCAL_TARGETS_ONLY'',
   ''CONFIG_RG_BUSYBOX'',
   ''CONFIG_RG_BZIP2'',
   ''CONFIG_RG_BZIP2_COMPRESSED_KERNEL'',
   ''CONFIG_RG_CABLEHOME'',
   ''CONFIG_RG_CABLEHOME_10'',
   ''CONFIG_RG_CABLEHOME_11'',
   ''CONFIG_RG_CABLEHOME_COMMON'',
   ''CONFIG_RG_CABLEHOME_EMBEDDED'',
   ''CONFIG_RG_CABLEHOME_FULL_WBM'',
   ''CONFIG_RG_CCACHE'',
   ''CONFIG_RG_CERT'',
   ''CONFIG_RG_CERT_SHORT_LIST'',
   ''CONFIG_RG_CFG_SERVER'',
   ''CONFIG_RG_CHECK_BAD_REBOOTS'',
   ''CONFIG_RG_CHRDEV'',
   ''CONFIG_RG_CHWAN'',
   ''CONFIG_RG_CH_EVT_RPT'',
   ''CONFIG_RG_CH_FW'',
   ''CONFIG_RG_CLI'',
   ''CONFIG_RG_CLI_SERIAL'',
   ''CONFIG_RG_CLI_SERVER'',
   ''CONFIG_RG_CODEPAGE'',
   ''CONFIG_RG_CONFIG_STRINGS'',
   ''CONFIG_RG_CONN_SPEED'',
   ''CONFIG_RG_CONSOLE_DEVICE'',
   ''CONFIG_RG_CRAMFS_COMP_METHOD'',
   ''CONFIG_RG_CRYPTO'',
   ''CONFIG_RG_CTP'',
   ''CONFIG_RG_CTP_VOIP_EMULATOR'',
   ''CONFIG_RG_CXX'',
   ''CONFIG_RG_DANUBE_DUALCORE'',
   ''CONFIG_RG_DATE'',
   ''CONFIG_RG_DDNS'',
   ''CONFIG_RG_DEV'',
   ''CONFIG_RG_DEV_IF_AD6834_ETH'',
   ''CONFIG_RG_DEV_IF_AD68XX_ADSL'',
   ''CONFIG_RG_DEV_IF_ADM5120_ETH'',
   ''CONFIG_RG_DEV_IF_AGN100'',
   ''CONFIG_RG_DEV_IF_AR50WL'',
   ''CONFIG_RG_DEV_IF_AR50WL_VAP'',
   ''CONFIG_RG_DEV_IF_AR521X'',
   ''CONFIG_RG_DEV_IF_AR521X_VAP'',
   ''CONFIG_RG_DEV_IF_AR531X_ETH'',
   ''CONFIG_RG_DEV_IF_AR531X_WLAN_A'',
   ''CONFIG_RG_DEV_IF_AR531X_WLAN_G'',
   ''CONFIG_RG_DEV_IF_ATM_NULL'',
   ''CONFIG_RG_DEV_IF_BCM43XX'',
   ''CONFIG_RG_DEV_IF_BCM4710_ETH'',
   ''CONFIG_RG_DEV_IF_BCM5325A_HW_SWITCH'',
   ''CONFIG_RG_DEV_IF_BCM5325E_HW_SWITCH'',
   ''CONFIG_RG_DEV_IF_BCM963XX_ADSL'',
   ''CONFIG_RG_DEV_IF_BCM963XX_ETH'',
   ''CONFIG_RG_DEV_IF_BRCM91125E_ETH'',
   ''CONFIG_RG_DEV_IF_BRIDGE'',
   ''CONFIG_RG_DEV_IF_CAS'',
   ''CONFIG_RG_DEV_IF_CHWAN_MASTER'',
   ''CONFIG_RG_DEV_IF_CLIP'',
   ''CONFIG_RG_DEV_IF_COMCERTO_ETH'',
   ''CONFIG_RG_DEV_IF_CX821XX_ETH'',
   ''CONFIG_RG_DEV_IF_CX8620X_SWITCH'',
   ''CONFIG_RG_DEV_IF_DOCSIS'',
   ''CONFIG_RG_DEV_IF_EEPRO100'',
   ''CONFIG_RG_DEV_IF_EEPRO1000'',
   ''CONFIG_RG_DEV_IF_ELCP'',
   ''CONFIG_RG_DEV_IF_ETH1394'',
   ''CONFIG_RG_DEV_IF_ETHOA'',
   ''CONFIG_RG_DEV_IF_ETH_SHADOW'',
   ''CONFIG_RG_DEV_IF_IKANOS_VDSL'',
   ''CONFIG_RG_DEV_IF_INCAIP_ETH'',
   ''CONFIG_RG_DEV_IF_INCAIP_VLAN'',
   ''CONFIG_RG_DEV_IF_INFINEON_VDSL'',
   ''CONFIG_RG_DEV_IF_IPOA'',
   ''CONFIG_RG_DEV_IF_IPSEC_CONN'',
   ''CONFIG_RG_DEV_IF_IPSEC_DEV'']"

lemma ascends_base_10: "ascends ''CONFIG_RG_8021X'' (base_names_10 @ [''CONFIG_RG_DEV_IF_IPSEC_TEMPL''])"
  unfolding base_names_10_def append.simps by (intro ascends_intros; simp)

lemma settable_base_10: "list_all (settable base_schema) base_names_10"
  unfolding base_names_10_def by simp

lemma length_base_10: "length base_names_10 = 119"
  unfolding base_names_10_def by simp

definition base_names_11 :: "string list" where
  "base_names_11 = [
   ''CONFIG_RG_DEV_IF_IPSEC_TEMPL_CONN'',
   ''CONFIG_RG_DEV_IF_IPSEC_TEMPL_TRANSIENT'',
   ''CONFIG_RG_DEV_IF_IPV6_OVER_IPV4_TUN'',
   ''CONFIG_RG_DEV_IF_ISL38XX'',
   ''CONFIG_RG_DEV_IF_ISL_SOFTMAC'',
   ''CONFIG_RG_DEV_IF_IXP425_DSL'',
   ''CONFIG_RG_DEV_IF_IXP425_ETH'',
   ''CONFIG_RG_DEV_IF_KS8695_ETH'',
   ''CONFIG_RG_DEV_IF_L2TPC'',
   ''CONFIG_RG_DEV_IF_L2TPS_CONN'',
   ''CONFIG_RG_DEV_IF_MOCA_EN2210_MII'',
   ''CONFIG_RG_DEV_IF_MPC82XX_ETH'',
   ''CONFIG_RG_DEV_IF_MV88E60XX_HW_SWITCH'',
   ''CONFIG_RG_DEV_IF_MV88E60XX_HW_WAN_SWITCH'',
   ''CONFIG_RG_DEV_IF_NATSEMI'',
   ''CONFIG_RG_DEV_IF_NE2000'',
   ''CONFIG_RG_DEV_IF_NE2K_VX'',
   ''CONFIG_RG_DEV_IF_PPPOA'',
   ''CONFIG_RG_DEV_IF_PPPOE'',
   ''CONFIG_RG_DEV_IF_PPPOES_CONN'',
   ''CONFIG_RG_DEV_IF_PPPOH'',
   ''CONFIG_RG_DEV_IF_PPPSTUB'',
   ''CONFIG_RG_DEV_IF_PPTPC'',
   ''CONFIG_RG_DEV_IF_PPTPS_CONN'',
   ''CONFIG_RG_DEV_IF_PRISM2'',
   ''CONFIG_RG_DEV_IF_PSB6973_HW_SWITCH'',
   ''CONFIG_RG_DEV_IF_PSB6973_HW_WAN_SWITCH'',
   ''CONFIG_RG_DEV_IF_RT2560'',
   ''CONFIG_RG_DEV_IF_RT2561'',
   ''CONFIG_RG_DEV_IF_RTL8139'',
   ''CONFIG_RG_DEV_IF_RTL8305SB_HW_SWITCH'',
   ''CONFIG_RG_DEV_IF_RTL8305SC_HW_SWITCH'',
   ''CONFIG_RG_DEV_IF_SL2312_ETH'',
   ''CONFIG_RG_DEV_IF_SOLOS_DMZ'',
   ''CONFIG_RG_DEV_IF_SOLOS_DSL'',
   ''CONFIG_RG_DEV_IF_SOLOS_LAN'',
   ''CONFIG_RG_DEV_IF_SOLOS_WLAN'',
   ''CONFIG_RG_DEV_IF_TI404_CBL'',
   ''CONFIG_RG_DEV_IF_TI404_LAN'',
   ''CONFIG_RG_DEV_IF_TICPE'',
   ''CONFIG_RG_DEV_IF_TI_CABLE'',
   ''CONFIG_RG_DEV_IF_TWINPASS_ETH'',
   ''CONFIG_RG_DEV_IF_UML'',
   ''CONFIG_RG_DEV_IF_UML_HW_SWITCH'',
   ''CONFIG_RG_DEV_IF_USB_RNDIS'',
   ''CONFIG_RG_DEV_IF_USER_VLAN'',
   ''CONFIG_RG_DEV_IF_VLAN'',
   ''CONFIG_RG_DHCPC'',
   ''CONFIG_RG_DHCPR'',
   ''CONFIG_RG_DHCPS'',
   ''CONFIG_RG_DHCP_COMMON'',
   ''CONFIG_RG_DHCP_PKTFIL'',
   ''CONFIG_RG_DISK_MNG'',
   ''CONFIG_RG_DISPLAY_MSG'',
   ''CONFIG_RG_DIST'',
   ''CONFIG_RG_DIST_LANG'',
   ''CONFIG_RG_DNS'',
   ''CONFIG_RG_DNS_CONCURRENT'',
   ''CONFIG_RG_DNS_DOMAIN_ROUTING'',
   ''CONFIG_RG_DNS_ROUTE'',
   ''CONFIG_RG_DNS_USE_ISP_DOMAIN'',
   ''CONFIG_RG_DOC_ENABLED'',
   ''CONFIG_RG_DOSFSTOOLS '',
   ''CONFIG_RG_DO_DEVICES'',
   ''CONFIG_RG_DSCP_POLICY_ROUTING'',
   ''CONFIG_RG_DSLHOME'',
   ''CONFIG_RG_DSLHOME_VOUCHERS'',
   ''CONFIG_RG_DSL_CH'',
   ''CONFIG_RG_DYN_FLASH_LAYOUT'',
   ''CONFIG_RG_E2FSPROGS'',
   ''CONFIG_RG_EFSS'',
   ''CONFIG_RG_ELVIS'',
   ''CONFIG_RG_EMI'',
   ''CONFIG_RG_EMI_IRDA'',
   ''CONFIG_RG_EMI_USB'',
   ''CONFIG_RG_ENTFY'',
   ''CONFIG_RG_ERESOLV'',
   ''CONFIG_RG_EVENT_LOGGING'',
   ''CONFIG_RG_EXTERNAL_TOOLS_PATH'',
   ''CONFIG_RG_FACTORY_SETTINGS'',
   ''CONFIG_RG_FAILOVER'',
   ''CONFIG_RG_FASTPATH'',
   ''CONFIG_RG_FASTPATH_PLAT_AD6834'',
   ''CONFIG_RG_FASTPATH_PLAT_PATH'',
   ''CONFIG_RG_FASTPATH_PLAT_TEST'',
   ''CONFIG_RG_FASTPATH_PLAT_TWINPASS'',
   ''CONFIG_RG_FILESERVER'',
   ''CONFIG_RG_FILESERVER_ACLS'',
   ''CONFIG_RG_FILESERVER_ACLS_DEBUG'',
   ''CONFIG_RG_FIREWALL'',
   ''CONFIG_RG_FLASHDISK'',
   ''CONFIG_RG_FLASH_LAYOUT_SIZE'',
   ''CONFIG_RG_FLASH_LINEAR'',
   ''CONFIG_RG_FLASH_ONLY_ON_BOOT'',
   ''CONFIG_RG_FLEX'',
   ''CONFIG_RG_FOOTPRINT_REDUCTION'',
   ''CONFIG_RG_FOUNDATION_CORE'',
   ''CONFIG_RG_FRAG_CACHE'',
   ''CONFIG_RG_FREESWAN'',
   ''CONFIG_RG_FS_BACKUP'',
   ''CONFIG_RG_FTP_CLIENT'',
   ''CONFIG_RG_FTP_SERVER'',
   ''CONFIG_RG_FULL_FEATURES'',
   ''CONFIG_RG_FW_ICSA'',
   ''CONFIG_RG_GDBSERVER'',
   ''CONFIG_RG_GENERIC_PROXY'',
   ''CONFIG_RG_GNUDIP'',
   ''CONFIG_RG_GPL'',
   ''CONFIG_RG_GZIP_COMPRESSED_KERNEL'',
   ''CONFIG_RG_HAVE_VENDOR_SRC'',
   ''CONFIG_RG_HOSTAPD'',
   ''CONFIG_RG_HOST_CYGWIN'',
   ''CONFIG_RG_HOST_LINUX'',
   ''CONFIG_RG_HSS'',
   ''CONFIG_RG_HTTPS'',
   ''CONFIG_RG_HTTP_AUTH'',
   ''CONFIG_RG_HTTP_PROXY'',
   ''CONFIG_RG_HW'',
   ''CONFIG_RG_HW_BUTTONS'']"

lemma ascends_base_11: "ascends ''CONFIG_RG_DEV_IF_IPSEC_TEMPL'' (base_names_11 @ [''CONFIG_RG_HW_DESC_STR''])"
  unfolding base_names_11_def append.simps by (intro ascends_intros; simp)

lemma settable_base_11: "list_all (settable base_schema) base_names_11"
  unfolding base_names_11_def by simp

lemma length_base_11: "length base_names_11 = 119"
  unfolding base_names_11_def by simp

definition base_names_12 :: "string list" where
  "base_names_12 = [
   ''CONFIG_RG_HW_SWITCH_QOS'',
   ''CONFIG_RG_IDE_NON_BLOCKING'',
   ''CONFIG_RG_IGD'',
   ''CONFIG_RG_IGD_XBOX'',
   ''CONFIG_RG_IGMP_PROXY'',
   ''CONFIG_RG_IKANOS_VDSL'',
   ''CONFIG_RG_INFINEON_VDSL'',
   ''CONFIG_RG_INITFS_CRAMFS'',
   ''CONFIG_RG_INITFS_RAMDISK'',
   ''CONFIG_RG_INITFS_RAMFS'',
   ''CONFIG_RG_INSMOD_SILENT'',
   ''CONFIG_RG_IPERF'',
   ''CONFIG_RG_IPOA'',
   ''CONFIG_RG_IPP'',
   ''CONFIG_RG_IPPHONE'',
   ''CONFIG_RG_IPROUTE2'',
   ''CONFIG_RG_IPROUTE2_UTILS'',
   ''CONFIG_RG_IPSEC_ESP_ALG'',
   ''CONFIG_RG_IPSEC_IKE_ALG'',
   ''CONFIG_RG_IPSEC_NO_SECRET_FILE'',
   ''CONFIG_RG_IPV4'',
   ''CONFIG_RG_IPV6'',
   ''CONFIG_RG_IR_TEST'',
   ''CONFIG_RG_JAVA'',
   ''CONFIG_RG_JCIFS'',
   ''CONFIG_RG_JFW'',
   ''CONFIG_RG_JNET_CLIENT'',
   ''CONFIG_RG_JNET_SERVER'',
   ''CONFIG_RG_JPKG'',
   ''CONFIG_RG_JPKG_ARMV4L'',
   ''CONFIG_RG_JPKG_ARMV5B'',
   ''CONFIG_RG_JPKG_ARMV5L'',
   ''CONFIG_RG_JPKG_ARM_920T_LE'',
   ''CONFIG_RG_JPKG_ARM_LINUX_UCLIBC'',
   ''CONFIG_RG_JPKG_BCM9634X'',
   ''CONFIG_RG_JPKG_BIN'',
   ''CONFIG_RG_JPKG_BUILD_LIBC'',
   ''CONFIG_RG_JPKG_DEBUG'',
   ''CONFIG_RG_JPKG_DIST'',
   ''CONFIG_RG_JPKG_I386'',
   ''CONFIG_RG_JPKG_LOCAL_I386'',
   ''CONFIG_RG_JPKG_LX4189'',
   ''CONFIG_RG_JPKG_MIPSEB'',
   ''CONFIG_RG_JPKG_PPC'',
   ''CONFIG_RG_JPKG_SB1250'',
   ''CONFIG_RG_JPKG_SRC'',
   ''CONFIG_RG_JPKG_TWINPASS'',
   ''CONFIG_RG_JPKG_UML'',
   ''CONFIG_RG_JPKG_XSCALE'',
   ''CONFIG_RG_JRTP'',
   ''CONFIG_RG_JTA'',
   ''CONFIG_RG_JVFTP'',
   ''CONFIG_RG_KAFFE'',
   ''CONFIG_RG_KAFFE_JAVALIB_RT'',
   ''CONFIG_RG_KAFFE_JAVALIB_TOOLS'',
   ''CONFIG_RG_KCALL'',
   ''CONFIG_RG_KERBEROS'',
   ''CONFIG_RG_KERNEL'',
   ''CONFIG_RG_KERNEL_COMP_METHOD'',
   ''CONFIG_RG_KERNEL_NEEDED_SYMBOLS'',
   ''CONFIG_RG_KERN_LOG'',
   ''CONFIG_RG_KGDB'',
   ''CONFIG_RG_KLEDS'',
   ''CONFIG_RG_KMONTE'',
   ''CONFIG_RG_KOS'',
   ''CONFIG_RG_KOS_KNET'',
   ''CONFIG_RG_KRGLDR'',
   ''CONFIG_RG_L2TPC'',
   ''CONFIG_RG_L2TPS'',
   ''CONFIG_RG_LANG'',
   ''CONFIG_RG_LANGUAGES'',
   ''CONFIG_RG_LANG_TEST'',
   ''CONFIG_RG_LAN_BRIDGE_CONST'',
   ''CONFIG_RG_LAN_UPGRADE'',
   ''CONFIG_RG_LARGE_FILE_SUPPORT'',
   ''CONFIG_RG_LIBIMAGE'',
   ''CONFIG_RG_LIBIMAGE_DIM'',
   ''CONFIG_RG_LIBJPEG'',
   ''CONFIG_RG_LIBMAD'',
   ''CONFIG_RG_LIBPCAP'',
   ''CONFIG_RG_LICENSE'',
   ''CONFIG_RG_LOAD_BALANCING'',
   ''CONFIG_RG_LOGIN'',
   ''CONFIG_RG_LOG_DEV'',
   ''CONFIG_RG_LOG_DEV_BUF_SIZE'',
   ''CONFIG_RG_LPD'',
   ''CONFIG_RG_LZMA'',
   ''CONFIG_RG_LZMA_COMPRESSED_KERNEL'',
   ''CONFIG_RG_MAC_CLONING'',
   ''CONFIG_RG_MAC_COMPANY_ID'',
   ''CONFIG_RG_MAIL_FILTER'',
   ''CONFIG_RG_MAIL_SERVER'',
   ''CONFIG_RG_MAIN'',
   ''CONFIG_RG_MAINFS'',
   ''CONFIG_RG_MAINFS_CRAMFS'',
   ''CONFIG_RG_MAX_EXT2_CHECK_SIZE'',
   ''CONFIG_RG_MAX_FAT_CHECK_SIZE'',
   ''CONFIG_RG_MCAST_RELAY'',
   ''CONFIG_RG_MGT'',
   ''CONFIG_RG_MGT_IGD'',
   ''CONFIG_RG_MOCA_WAN'',
   ''CONFIG_RG_MODFS'',
   ''CONFIG_RG_MODFS_CRAMFS'',
   ''CONFIG_RG_MODFS_ROMFS'',
   ''CONFIG_RG_MSS'',
   ''CONFIG_RG_MTD'',
   ''CONFIG_RG_MTD_DEFAULT_PARTITION'',
   ''CONFIG_RG_MYSQL_LIB_PREFIX'',
   ''CONFIG_RG_MYSQL_PREFIX'',
   ''CONFIG_RG_NAT'',
   ''CONFIG_RG_NETBIOS_RT'',
   ''CONFIG_RG_NETKIT'',
   ''CONFIG_RG_NETOBJ'',
   ''CONFIG_RG_NETTOOLS_ARP'',
   ''CONFIG_RG_NETWORK_BOOT'',
   ''CONFIG_RG_NET_NO_THROTTLE'',
   ''CONFIG_RG_NONCOMPRESSED_USERMODE_IMAGE'',
   ''CONFIG_RG_NON_ROUTABLE_LAN_DEVICE_IP'',
   ''CONFIG_RG_NOT_UNIX'']"

lemma ascends_base_12: "ascends ''CONFIG_RG_HW_DESC_STR'' (base_names_12 @ [''CONFIG_RG_NO_OPT''])"
  unfolding base_names_12_def append.simps by (intro ascends_intros; simp)

lemma settable_base_12: "list_all (settable base_schema) base_names_12"
  unfolding base_names_12_def by simp

lemma length_base_12: "length base_names_12 = 119"
  unfolding base_names_12_def by simp

definition base_names_13 :: "string list" where
  "base_names_13 = [
   ''CONFIG_RG_OAM_PING'',
   ''CONFIG_RG_OBEX'',
   ''CONFIG_RG_OLD_XSCALE_TOOLCHAIN'',
   ''CONFIG_RG_ONE_MODULE'',
   ''CONFIG_RG_OPENSSL'',
   ''CONFIG_RG_OPENSSL_BLOWFISH'',
   ''CONFIG_RG_OPENSSL_CAST'',
   ''CONFIG_RG_OPENSSL_COMMON'',
   ''CONFIG_RG_OPENSSL_DES'',
   ''CONFIG_RG_OPENSSL_LOCAL'',
   ''CONFIG_RG_OPENSSL_LOCAL_PREFIX'',
   ''CONFIG_RG_OPENSSL_MD4'',
   ''CONFIG_RG_OPENSSL_MD5'',
   ''CONFIG_RG_OPENSSL_SHA'',
   ''CONFIG_RG_OPTION_MANAGER'',
   ''CONFIG_RG_OS'',
   ''CONFIG_RG_OSS_RMT'',
   ''CONFIG_RG_OS_ECOS'',
   ''CONFIG_RG_OS_LINUX'',
   ''CONFIG_RG_OS_LINUX_22'',
   ''CONFIG_RG_OS_LINUX_24'',
   ''CONFIG_RG_OS_LINUX_26'',
   ''CONFIG_RG_OS_VXWORKS'',
   ''CONFIG_RG_PBX'',
   ''CONFIG_RG_PERM_STORAGE'',
   ''CONFIG_RG_PERM_STORAGE_VENDOR_HEADER'',
   ''CONFIG_RG_PING'',
   ''CONFIG_RG_PKTCBL'',
   ''CONFIG_RG_PPP'',
   ''CONFIG_RG_PPPOA'',
   ''CONFIG_RG_PPPOE'',
   ''CONFIG_RG_PPPOES'',
   ''CONFIG_RG_PPPOE_RELAY'',
   ''CONFIG_RG_PPPOS'',
   ''CONFIG_RG_PPPOS_CLI'',
   ''CONFIG_RG_PPP_BSDCOMP'',
   ''CONFIG_RG_PPP_DEFAULT_BSD_COMPRESSION'',
   ''CONFIG_RG_PPP_DEFAULT_DEFLATE_COMPRESSION'',
   ''CONFIG_RG_PPP_DEFLATE'',
   ''CONFIG_RG_PPP_MPPE'',
   ''CONFIG_RG_PPP_ON_DEMAND_AS_DEFAULT'',
   ''CONFIG_RG_PPP_ON_DEMAND_DEFAULT_MAX_IDLE_TIME'',
   ''CONFIG_RG_PPTP'',
   ''CONFIG_RG_PPTPC'',
   ''CONFIG_RG_PPTPS'',
   ''CONFIG_RG_PPTP_ECHO_FAILURE'',
   ''CONFIG_RG_PPTP_ECHO_INTERVAL'',
   ''CONFIG_RG_PRINT_SERVER'',
   ''CONFIG_RG_PRINT_SERVER_PRINTER_NULL'',
   ''CONFIG_RG_PRINT_SERVER_SPOOL'',
   ''CONFIG_RG_PROD_IMG'',
   ''CONFIG_RG_PROPER_JAVA_RDP'',
   ''CONFIG_RG_PROXY_ARP'',
   ''CONFIG_RG_QOS'',
   ''CONFIG_RG_QOS_INGRESS'',
   ''CONFIG_RG_RADIUS'',
   ''CONFIG_RG_RADIUS_LOGIN_AUTH'',
   ''CONFIG_RG_RADIUS_WBM_IN_CONN'',
   ''CONFIG_RG_RAID'',
   ''CONFIG_RG_RAID_IDE_ONLY'',
   ''CONFIG_RG_READLINE'',
   ''CONFIG_RG_RGLOADER'',
   ''CONFIG_RG_RGLOADER_CLI_CMD'',
   ''CONFIG_RG_RGLOADER_COMMON'',
   ''CONFIG_RG_RIP'',
   ''CONFIG_RG_RMT_FW_CONF'',
   ''CONFIG_RG_RMT_MNG'',
   ''CONFIG_RG_RMT_UPDATE'',
   ''CONFIG_RG_RMT_UPD_LOW_MEM'',
   ''CONFIG_RG_RMT_UPGRADE_IMG_IN_MEM'',
   ''CONFIG_RG_RNAT'',
   ''CONFIG_RG_RNDIS'',
   ''CONFIG_RG_ROOTFS_RAMDISK'',
   ''CONFIG_RG_ROOTFS_TMPFS'',
   ''CONFIG_RG_ROUTE_MULTIWAN'',
   ''CONFIG_RG_SAMBA'',
   ''CONFIG_RG_SAMBA_PRINTING'',
   ''CONFIG_RG_SAMPLES'',
   ''CONFIG_RG_SAMPLES_COMMON'',
   ''CONFIG_RG_SERIAL'',
   ''CONFIG_RG_SESSION_LIBDB'',
   ''CONFIG_RG_SESSION_MEMORY'',
   ''CONFIG_RG_SMB'',
   ''CONFIG_RG_SMB_EXPLORER'',
   ''CONFIG_RG_SSH'',
   ''CONFIG_RG_SSI'',
   ''CONFIG_RG_SSID_NAME'',
   ''CONFIG_RG_SSI_PAGES'',
   ''CONFIG_RG_SSL'',
   ''CONFIG_RG_SSL_VPN'',
   ''CONFIG_RG_SSL_VPN_SMALL_FLASH'',
   ''CONFIG_RG_STANDALONE_PS'',
   ''CONFIG_RG_STAR'',
   ''CONFIG_RG_STATIC_ROUTE'',
   ''CONFIG_RG_STATISTICS_CTRL_WBM'',
   ''CONFIG_RG_STORAGE'',
   ''CONFIG_RG_STORAGE_UTILS'',
   ''CONFIG_RG_SURFCONTROL'',
   ''CONFIG_RG_SURFCONTROL_PARTNER_ID'',
   ''CONFIG_RG_SYSINIT'',
   ''CONFIG_RG_SYSLOG'',
   ''CONFIG_RG_SYSLOG_COMMON'',
   ''CONFIG_RG_SYSLOG_FW_DEF_SIZE'',
   ''CONFIG_RG_SYSLOG_GLIBC'',
   ''CONFIG_RG_SYSLOG_REMOTE'',
   ''CONFIG_RG_TARGET_LINUX'',
   ''CONFIG_RG_TARGET_VXWORKS'',
   ''CONFIG_RG_TCPDUMP'',
   ''CONFIG_RG_TELEPHONY'',
   ''CONFIG_RG_TELNETS'',
   ''CONFIG_RG_TERMCAP'',
   ''CONFIG_RG_TEST_TOOLS'',
   ''CONFIG_RG_TFTP_SERVER'',
   ''CONFIG_RG_TFTP_SERVER_PASSWORD'',
   ''CONFIG_RG_TFTP_UPGRADE'',
   ''CONFIG_RG_THREADS'',
   ''CONFIG_RG_TIGHT_VNC'',
   ''CONFIG_RG_TODC'',
   ''CONFIG_RG_TOOLS'']"

lemma ascends_base_13: "ascends ''CONFIG_RG_NO_OPT'' (base_names_13 @ [''CONFIG_RG_TRACEROUTE''])"
  unfolding base_names_13_def append.simps by (intro ascends_intros; simp)

lemma settable_base_13: "list_all (settable base_schema) base_names_13"
  unfolding base_names_13_def by simp

lemma length_base_13: "length base_names_13 = 119"
  unfolding base_names_13_def by simp

definition base_names_14 :: "string list" where
  "base_names_14 = [
   ''CONFIG_RG_TR_064'',
   ''CONFIG_RG_TR_098'',
   ''CONFIG_RG_TTYP'',
   ''CONFIG_RG_TUNNELS'',
   ''CONFIG_RG_TURBO_SWITCH_IGMP'',
   ''CONFIG_RG_TURBO_SWITCH_IGMP_MODULE'',
   ''CONFIG_RG_TUTORIAL'',
   ''CONFIG_RG_TUTORIAL_ADVANCED'',
   ''CONFIG_RG_TZ'',
   ''CONFIG_RG_TZ_COMMON'',
   ''CONFIG_RG_TZ_FULL'',
   ''CONFIG_RG_TZ_YEARS'',
   ''CONFIG_RG_UCD_SNMP'',
   ''CONFIG_RG_UCD_SNMP_V3'',
   ''CONFIG_RG_UIEVENTS'',
   ''CONFIG_RG_UML'',
   ''CONFIG_RG_UNCONFIGURED_WAN_INTERCEPTION'',
   ''CONFIG_RG_UPNP'',
   ''CONFIG_RG_URL_KEYWORD_FILTER'',
   ''CONFIG_RG_USAGI'',
   ''CONFIG_RG_USB'',
   ''CONFIG_RG_USB_SLAVE'',
   ''CONFIG_RG_USE_LOCAL_TOOLCHAIN'',
   ''CONFIG_RG_USFS'',
   ''CONFIG_RG_UTIL_LINUX'',
   ''CONFIG_RG_VALGRIND_LOCAL_TARGET'',
   ''CONFIG_RG_VENDOR'',
   ''CONFIG_RG_VENDOR_WLAN_SEC'',
   ''CONFIG_RG_VLAN_8021Q'',
   ''CONFIG_RG_VLAN_BRIDGE'',
   ''CONFIG_RG_VLAN_DSCP'',
   ''CONFIG_RG_VOATM'',
   ''CONFIG_RG_VOATM_CAS'',
   ''CONFIG_RG_VOATM_ELCP'',
   ''CONFIG_RG_VOIP'',
   ''CONFIG_RG_VOIP_ASTERISK'',
   ''CONFIG_RG_VOIP_ASTERISK_H323'',
   ''CONFIG_RG_VOIP_ASTERISK_MGCP_CALL_AGENT'',
   ''CONFIG_RG_VOIP_ASTERISK_MGCP_GW'',
   ''CONFIG_RG_VOIP_ASTERISK_SIP'',
   ''CONFIG_RG_VOIP_H323'',
   ''CONFIG_RG_VOIP_HW_EMULATION'',
   ''CONFIG_RG_VOIP_MGCP'',
   ''CONFIG_RG_VOIP_MGCP_CALL_AGENT'',
   ''CONFIG_RG_VOIP_OSIP'',
   ''CONFIG_RG_VOIP_RV'',
   ''CONFIG_RG_VOIP_RV_H323'',
   ''CONFIG_RG_VOIP_RV_MGCP'',
   ''CONFIG_RG_VOIP_RV_SIP'',
   ''CONFIG_RG_VOIP_SIP'',
   ''CONFIG_RG_VOIP_USE_SIP_ALG'',
   ''CONFIG_RG_VX_DEFERRED_TX'',
   ''CONFIG_RG_VX_TIMERS_TASK'',
   ''CONFIG_RG_WAN_ETHERNET'',
   ''CONFIG_RG_WAN_UPGRADE'',
   ''CONFIG_RG_WBM'',
   ''CONFIG_RG_WDS_CONN_NOTIFIER'',
   ''CONFIG_RG_WEBCAM'',
   ''CONFIG_RG_WEB_CIFS'',
   ''CONFIG_RG_WEB_SERVER'',
   ''CONFIG_RG_WEP'',
   ''CONFIG_RG_WGET'',
   ''CONFIG_RG_WINDOWS_HOST'',
   ''CONFIG_RG_WINS_SERVER'',
   ''CONFIG_RG_WIRELESS_COUNTRY_CODE'',
   ''CONFIG_RG_WIRELESS_COUNTRY_REGION'',
   ''CONFIG_RG_WIRELESS_TOOLS'',
   ''CONFIG_RG_WLAN_AUTO_CHANNEL_SELECT'',
   ''CONFIG_RG_WLAN_REPEATING'',
   ''CONFIG_RG_WLAN_STA_STATISTICS_WBM'',
   ''CONFIG_RG_WPA'',
   ''CONFIG_RG_WPA_BCM'',
   ''CONFIG_RG_WPA_WBM'',
   ''CONFIG_RG_WSTL_WAN_CABLE'',
   ''CONFIG_RG_X509'',
   ''CONFIG_RG_XML'',
   ''CONFIG_RG_XML2'',
   ''CONFIG_RG_XMLSEC'',
   ''CONFIG_RG_ZLIB'',
   ''CONFIG_ROMFS_FS'',
   ''CONFIG_ROOT_ON_FLASH'',
   ''CONFIG_RSN_PREAUTH'',
   ''CONFIG_RTC'',
   ''CONFIG_RTL8139'',
   ''CONFIG_RWSEM_GENERIC_SPINLOCK'',
   ''CONFIG_RWSEM_XCHGADD_ALGORITHM'',
   ''CONFIG_SAVE_REAL_MODE_CONF'',
   ''CONFIG_SB1_PASS_1_WORKAROUNDS'',
   ''CONFIG_SCC2_ENET'',
   ''CONFIG_SCC_CONSOLE'',
   ''CONFIG_SCC_ENET'',
   ''CONFIG_SCHED_NO_NO_OMIT_FRAME_POINTER'',
   ''CONFIG_SCSI'',
   ''CONFIG_SCSI_SATA'',
   ''CONFIG_SCSI_SATA_SIL'',
   ''CONFIG_SDRAM_BASE'',
   ''CONFIG_SDRAM_END'',
   ''CONFIG_SDRAM_SIZE'',
   ''CONFIG_SD_EXTRA_DEVS'',
   ''CONFIG_SECCOMP'',
   ''CONFIG_SELECT_MEMORY_MODEL'',
   ''CONFIG_SEMAPHORE_SLEEPERS'',
   ''CONFIG_SERIAL'',
   ''CONFIG_SERIAL_8250'',
   ''CONFIG_SERIAL_8250_COMCERTO'',
   ''CONFIG_SERIAL_8250_CONSOLE'',
   ''CONFIG_SERIAL_8250_NR_UARTS'',
   ''CONFIG_SERIAL_8250_RUNTIME_UARTS'',
   ''CONFIG_SERIAL_CNXT'',
   ''CONFIG_SERIAL_CONSOLE'',
   ''CONFIG_SERIAL_CORE'',
   ''CONFIG_SERIAL_CORE_CONSOLE'',
   ''CONFIG_SERIAL_CPM'',
   ''CONFIG_SERIAL_CPM_CONSOLE'',
   ''CONFIG_SERIAL_CPM_SCC1'',
   ''CONFIG_SERIAL_CPM_SCC4'',
   ''CONFIG_SERIAL_CPM_SMC1'',
   ''CONFIG_SERIAL_CPM_SMC2'',
   ''CONFIG_SERIAL_ECHO'']"

lemma ascends_base_14: "ascends ''CONFIG_RG_TRACEROUTE'' (base_names_14 @ [''CONFIG_SERIAL_IFX_ASC''])"
  unfolding base_names_14_def append.simps by (intro ascends_intros; simp)

lemma settable_base_14: "list_all (settable base_schema) base_names_14"
  unfolding base_names_14_def by simp

lemma length_base_14: "length base_names_14 = 119"
  unfolding base_names_14_def by simp

definition base_names_15 :: "string list" where
  "base_names_15 = [
   ''CONFIG_SERIAL_IFX_ASC_CONSOLE'',
   ''CONFIG_SERIAL_INCAIPASC'',
   ''CONFIG_SERIAL_INCAIPASC_CONSOLE'',
   ''CONFIG_SERIAL_IT8712'',
   ''CONFIG_SERIAL_IT8712_CONSOLE'',
   ''CONFIG_SERIAL_IXP'',
   ''CONFIG_SERIAL_KS8695'',
   ''CONFIG_SERIAL_KS8695_CONSOLE'',
   ''CONFIG_SERIAL_NONSTANDARD'',
   ''CONFIG_SERIAL_SOLOS'',
   ''CONFIG_SERIAL_SOLOS_CONSOLE'',
   ''CONFIG_SERIAL_SOLOS_CONSOLE_BAUD'',
   ''CONFIG_SIBYTE_BOARD'',
   ''CONFIG_SIBYTE_CFE'',
   ''CONFIG_SIBYTE_COLORADO'',
   ''CONFIG_SIBYTE_HAS_LDT'',
   ''CONFIG_SIBYTE_SB1250'',
   ''CONFIG_SIBYTE_SB1250_DUART'',
   ''CONFIG_SIBYTE_SB1250_DUART_CONSOLE'',
   ''CONFIG_SIBYTE_SB1xxx_SOC'',
   ''CONFIG_SIBYTE_SENTOSA'',
   ''CONFIG_SIBYTE_SWARM'',
   ''CONFIG_SIMPLE_CRAMDISK'',
   ''CONFIG_SIMPLE_RAMDISK'',
   ''CONFIG_SKB_LARGE'',
   ''CONFIG_SL2312'',
   ''CONFIG_SL2312_ASIC'',
   ''CONFIG_SL2312_COMMON'',
   ''CONFIG_SL2312_COMMON_RG'',
   ''CONFIG_SL2312_COMMON_RGLOADER'',
   ''CONFIG_SL2312_ETH'',
   ''CONFIG_SL2312_FLASH'',
   ''CONFIG_SL2312_LPC'',
   ''CONFIG_SL2312_LPC_IT8712'',
   ''CONFIG_SL2312_SHARE_PIN'',
   ''CONFIG_SLAB'',
   ''CONFIG_SMALL_FLASH'',
   ''CONFIG_SMALL_SDRAM'',
   ''CONFIG_SMALL_STACK'',
   ''CONFIG_SMB_FS'',
   ''CONFIG_SMP'',
   ''CONFIG_SOFTSAR_SMALL_BUFFERS'',
   ''CONFIG_SOFT_FLOAT'',
   ''CONFIG_SOLOS_USB_HOST0'',
   ''CONFIG_SOLOS_USB_HOST1'',
   ''CONFIG_SOUND_ICH'',
   ''CONFIG_SPI'',
   ''CONFIG_SPI_SI3220'',
   ''CONFIG_SPLIT_PTLOCK_CPUS'',
   ''CONFIG_SP_RAM_POS'',
   ''CONFIG_SP_RAM_SIZE'',
   ''CONFIG_SSL'',
   ''CONFIG_SSL_CHAN'',
   ''CONFIG_STANDALONE'',
   ''CONFIG_START_KERNEL_POS'',
   ''CONFIG_STDIO_CONSOLE'',
   ''CONFIG_STOP_ON_INIT_FAIL'',
   ''CONFIG_STRONGARM'',
   ''CONFIG_STUB_CODE'',
   ''CONFIG_STUB_DATA'',
   ''CONFIG_STUB_START'',
   ''CONFIG_SUNRPC'',
   ''CONFIG_SWAP'',
   ''CONFIG_SWAP_IO_SPACE'',
   ''CONFIG_SWAP_IO_SPACE_L'',
   ''CONFIG_SWAP_IO_SPACE_W'',
   ''CONFIG_SWITCH_ADM6996I'',
   ''CONFIG_SWITCH_ADM6996_MDIO'',
   ''CONFIG_SYN_COOKIES'',
   ''CONFIG_SYSCTL'',
   ''CONFIG_SYSFS'',
   ''CONFIG_SYSLOG_UNIXSOCK_SUPPORT'',
   ''CONFIG_SYSVIPC'',
   ''CONFIG_TANTOS_PSB6973'',
   ''CONFIG_TASK_SIZE'',
   ''CONFIG_TCP_CONG_BIC'',
   ''CONFIG_TEXTSEARCH'',
   ''CONFIG_TEXT_SECTIONS'',
   ''CONFIG_TINY_SHMEM'',
   ''CONFIG_TI_404_COMMON'',
   ''CONFIG_TI_404_HAS_QOS_API'',
   ''CONFIG_TI_404_MIPS'',
   ''CONFIG_TMPFS'',
   ''CONFIG_TOP_ADDR'',
   ''CONFIG_TOS_DSCP_RFC2474'',
   ''CONFIG_TRAD_SIGNALS'',
   ''CONFIG_TTY_CHAN'',
   ''CONFIG_TUN'',
   ''CONFIG_TWINPASS_64_MEG'',
   ''CONFIG_TWINPASS_DUALCORE_WLAN'',
   ''CONFIG_TWINPASS_ULTRALINE_FLASH'',
   ''CONFIG_UCD_SNMP_AGENT_LIB'',
   ''CONFIG_UCD_SNMP_NO_DEF_MIBS'',
   ''CONFIG_UCLIBCXX'',
   ''CONFIG_UID16'',
   ''CONFIG_ULIBC'',
   ''CONFIG_ULIBC_DO_C99_MATH'',
   ''CONFIG_ULIBC_SHARED'',
   ''CONFIG_UM'',
   ''CONFIG_UML_BIG_FLASH'',
   ''CONFIG_UML_NET'',
   ''CONFIG_UML_NET_DAEMON'',
   ''CONFIG_UML_NET_ETHERTAP'',
   ''CONFIG_UML_NET_MCAST'',
   ''CONFIG_UML_NET_SLIP'',
   ''CONFIG_UML_NET_SLIRP'',
   ''CONFIG_UML_NET_TUNTAP'',
   ''CONFIG_UML_RAM_SIZE'',
   ''CONFIG_UML_REAL_TIME_CLOCK'',
   ''CONFIG_UML_X86'',
   ''CONFIG_UNIX'',
   ''CONFIG_UNIX98_PTYS'',
   ''CONFIG_UNIX98_PTY_COUNT'',
   ''CONFIG_USB'',
   ''CONFIG_USB_CONN_MONITOR'',
   ''CONFIG_USB_DEVICEFS'',
   ''CONFIG_USB_DWC3884_HCD'',
   ''CONFIG_USB_DWC_OTG_HCD'',
   ''CONFIG_USB_EHCI_HCD'']"

lemma ascends_base_15: "ascends ''CONFIG_SERIAL_IFX_ASC'' (base_names_15 @ [''CONFIG_USB_EHCI_ROOT_HUB_TT''])"
  unfolding base_names_15_def append.simps by (intro ascends_intros; simp)

lemma settable_base_15: "list_all (settable base_schema) base_names_15"
  unfolding base_names_15_def by simp

lemma length_base_15: "length base_names_15 = 119"
  unfolding base_names_15_def by simp

definition base_names_16 :: "string list" where
  "base_names_16 = [
   ''CONFIG_USB_ETH'',
   ''CONFIG_USB_ETH_RNDIS'',
   ''CONFIG_USB_GADGET'',
   ''CONFIG_USB_GADGET_DUALSPEED'',
   ''CONFIG_USB_GADGET_MPC'',
   ''CONFIG_USB_M82XX_HCD'',
   ''CONFIG_USB_MPC'',
   ''CONFIG_USB_OHCI'',
   ''CONFIG_USB_OHCI_HCD'',
   ''CONFIG_USB_OHCI_SL2312'',
   ''CONFIG_USB_OV511'',
   ''CONFIG_USB_PRINTER'',
   ''CONFIG_USB_PWC'',
   ''CONFIG_USB_RNDIS'',
   ''CONFIG_USB_SERIAL'',
   ''CONFIG_USB_SERIAL_PL2303'',
   ''CONFIG_USB_SERIAL_SPCP8X5'',
   ''CONFIG_USB_SIMPLE_DMA'',
   ''CONFIG_USB_SOLOS_HCD'',
   ''CONFIG_USB_SPCA5XX'',
   ''CONFIG_USB_STORAGE'',
   ''CONFIG_USB_UHCI'',
   ''CONFIG_USB_UHCI_HCD'',
   ''CONFIG_USERMODE'',
   ''CONFIG_USE_MDIO'',
   ''CONFIG_VALGRIND'',
   ''CONFIG_VERIZON_ONLY'',
   ''CONFIG_VFAT_FS'',
   ''CONFIG_VIA_RHINE'',
   ''CONFIG_VIDEO_DEV'',
   ''CONFIG_VIDEO_PROC_FS'',
   ''CONFIG_VINETIC'',
   ''CONFIG_VINETIC_LINES_PER_CHIP'',
   ''CONFIG_VINETIC_TAPIDEMO'',
   ''CONFIG_VLAN_8021Q'',
   ''CONFIG_VLAN_8021Q_FAST'',
   ''CONFIG_VPN'',
   ''CONFIG_VT'',
   ''CONFIG_VTAG_ICACHE'',
   ''CONFIG_VT_CONSOLE'',
   ''CONFIG_VX_KNET_SYMLINK'',
   ''CONFIG_VX_SYMTBL'',
   ''CONFIG_VX_TFFS'',
   ''CONFIG_WESTELL_GUI'',
   ''CONFIG_WESTELL_MGMUT_FTM'',
   ''CONFIG_WESTELL_ULTRALINE3'',
   ''CONFIG_WESTELL_ULTRALINE3_TURBO'',
   ''CONFIG_WESTELL_WIRELESS_ONBOARD'',
   ''CONFIG_WINDOWS_HOST'',
   ''CONFIG_WL'',
   ''CONFIG_WL_AP'',
   ''CONFIG_WSTL_4HOMEMEDIA_GUI'',
   ''CONFIG_WSTL_4HOMEMEDIA_HOMECONTROL'',
   ''CONFIG_WSTL_4HOMEMEDIA_MEDIACONTROL'',
   ''CONFIG_WSTL_ARPMON'',
   ''CONFIG_WSTL_BOOTLOADER_IMG'',
   ''CONFIG_WSTL_COMCAST'',
   ''CONFIG_WSTL_CONFIG_DEFAULTS'',
   ''CONFIG_WSTL_CPLD_CONFIG'',
   ''CONFIG_WSTL_CPLD_REVISION'',
   ''CONFIG_WSTL_CR_FIX'',
   ''CONFIG_WSTL_DEV_STATS'',
   ''CONFIG_WSTL_DUAL_SPI_MDIO'',
   ''CONFIG_WSTL_FIREBALL'',
   ''CONFIG_WSTL_FLASH_LAYOUT_16FLASH'',
   ''CONFIG_WSTL_FLASH_LAYOUT_16FLASH_ART'',
   ''CONFIG_WSTL_FLASH_LAYOUT_8FLASH_7APP'',
   ''CONFIG_WSTL_GENERIC'',
   ''CONFIG_WSTL_GUI_HIDE'',
   ''CONFIG_WSTL_GUI_NO_HELP'',
   ''CONFIG_WSTL_IGMP_CHANGE'',
   ''CONFIG_WSTL_INTERNAL_STORAGE_SUPPORT'',
   ''CONFIG_WSTL_LOG_DIAGNOSTICS'',
   ''CONFIG_WSTL_LOOP_DETECT'',
   ''CONFIG_WSTL_MEDIASERVER'',
   ''CONFIG_WSTL_MOCA_CHANGE'',
   ''CONFIG_WSTL_RETAIL'',
   ''CONFIG_WSTL_SAVE_RXDEV'',
   ''CONFIG_WSTL_TR_HIDDEN_PAGE'',
   ''CONFIG_WSTL_USBHOSTOVERCURRENT_GPIO'',
   ''CONFIG_WSTL_USBHUBOVERCURRENT_CPLD'',
   ''CONFIG_WSTL_VERIZON_DHCP_OPT_60'',
   ''CONFIG_WSTL_VERIZON_DNS_RESOLUTION'',
   ''CONFIG_WSTL_WAN_PROTOCOL_DETECT'',
   ''CONFIG_WSTL_WATCHDOG_CPLD'',
   ''CONFIG_WSTL_WBA'',
   ''CONFIG_WX5715_VLAN_SWITCH_DISABLE'',
   ''CONFIG_X86'',
   ''CONFIG_X86_F00F_BUG'',
   ''CONFIG_X86_L1_CACHE_SHIFT'',
   ''CONFIG_X86_PPRO_FENCE'',
   ''CONFIG_X86_REMOTE_DEBUG'',
   ''CONFIG_X86_XADD'',
   ''CONFIG_XFRM'',
   ''CONFIG_XTERM_CHAN'',
   ''CONFIG_ZAPTEL'',
   ''CONFIG_ZBOOT_ROM_BSS'',
   ''CONFIG_ZBOOT_ROM_TEXT'',
   ''CONFIG_ZCOM_XG1000'',
   ''CONFIG_ZC_AUTO_CONFIG_NON_PNP'',
   ''CONFIG_ZC_IP_AUTO_DETECTION'',
   ''CONFIG_ZERO_CONFIGURATION'',
   ''CONFIG_ZKERNEL_RAM_POS'',
   ''CONFIG_ZLIB_DEFLATE'',
   ''CONFIG_ZLIB_INFLATE'',
   ''CONFIG_ZOOM_CM'',
   ''CONFIG_ZRAMDISK_POS'',
   ''CONFIG_ZSP400'',
   ''CPP'',
   ''CPP_FOR_BUILD'',
   ''CROSS_COMPILE'',
   ''CXX'',
   ''CXX_FOR_BUILD'',
   ''DIST_TYPE'',
   ''DYNAMIC_LINKER'',
   ''ENDIANESS_SUFFIX'',
   ''ENDIAN_CFLAGS'',
   ''ENDIAN_LDFLAGS'',
   ''ENV'']"

lemma ascends_base_16: "ascends ''CONFIG_USB_EHCI_ROOT_HUB_TT'' (base_names_16 @ [''FIRM''])"
  unfolding base_names_16_def append.simps by (intro ascends_intros; simp)

lemma settable_base_16: "list_all (settable base_schema) base_names_16"
  unfolding base_names_16_def by simp

lemma length_base_16: "length base_names_16 = 119"
  unfolding base_names_16_def by simp

definition base_names_17 :: "string list" where
  "base_names_17 = [
   ''FLASH_IMG'',
   ''FLASH_IMG_OFFSET'',
   ''FLASH_IMG_REAL_OFFSET'',
   ''FLTHDR'',
   ''GCC_HAS_SIZE_OPTIMIZE'',
   ''GCC_VERSION'',
   ''GENROMFS'',
   ''GLIBC_IN_TOOLCHAIN'',
   ''HAVE_ATTRIBUTE_NONNULL'',
   ''HAVE_GC_SECTIONS'',
   ''HAVE_MYSQL'',
   ''HNAP_WBM'',
   ''HOSTCC'',
   ''HOSTCPP'',
   ''HOST_AR'',
   ''HOST_AS'',
   ''HOST_LD'',
   ''HOST_NM'',
   ''HOST_OBJCOPY'',
   ''HOST_OBJDUMP'',
   ''HOST_RANLIB'',
   ''HOST_SIZE'',
   ''HOST_STRIP'',
   ''I386_TARGET_MACHINE'',
   ''I386_TOOLS_PREFIX'',
   ''INTERSIL_EVENTS'',
   ''IO_SPACE_LIMIT'',
   ''JPKG_ARCH'',
   ''JPKG_DISTS'',
   ''LANG_COMPILER'',
   ''LANG_COMPILER_OPT'',
   ''LD'',
   ''LDFLAGS_ENVIR'',
   ''LDFLAT'',
   ''LEX'',
   ''LIBC_ARCH'',
   ''LIBC_IN_TOOLCHAIN'',
   ''LIB_GCC_DIR_PREFIX'',
   ''LIC'',
   ''LICSTR'',
   ''LIC_AUTOCONF'',
   ''LIC_FORCE'',
   ''LINUX_ARCH_PATH'',
   ''LINUX_CFLAGS'',
   ''LOCAL_ADD_RG_KERNEL_FOR_TARGET'',
   ''LOCAL_CFLAGS'',
   ''LOCAL_LDFLAGS'',
   ''LZMAMK'',
   ''MAGIC_ROM_PTR'',
   ''MAX_DMA_ADDRESS'',
   ''MGT_LDLIBS'',
   ''MGT_LOCAL_LDLIBS'',
   ''MOCA_ENTROPIC_TURBO'',
   ''MOCA_ENTROPIC_V_04'',
   ''MOCA_TURBO_LAN'',
   ''MOCA_VERSION_1_1'',
   ''MODFS_DISK'',
   ''MODULE_RG_ADVANCED_MANAGEMENT'',
   ''MODULE_RG_ADVANCED_OFFICE_SERVERS'',
   ''MODULE_RG_ADVANCED_ROUTING'',
   ''MODULE_RG_ATA'',
   ''MODULE_RG_BLUETOOTH'',
   ''MODULE_RG_CABLEHOME'',
   ''MODULE_RG_DSL'',
   ''MODULE_RG_DSLHOME'',
   ''MODULE_RG_FILESERVER'',
   ''MODULE_RG_FIREWALL_AND_SECURITY'',
   ''MODULE_RG_FOUNDATION'',
   ''MODULE_RG_IPSEC'',
   ''MODULE_RG_IPV6'',
   ''MODULE_RG_JVM'',
   ''MODULE_RG_L2TP'',
   ''MODULE_RG_MAIL_FILTER'',
   ''MODULE_RG_PBX'',
   ''MODULE_RG_PPP'',
   ''MODULE_RG_PPTP'',
   ''MODULE_RG_PRINTSERVER'',
   ''MODULE_RG_QOS'',
   ''MODULE_RG_ROUTE_MULTIWAN'',
   ''MODULE_RG_SNMP'',
   ''MODULE_RG_SSL_VPN'',
   ''MODULE_RG_TR_064'',
   ''MODULE_RG_TR_098'',
   ''MODULE_RG_UPNP'',
   ''MODULE_RG_URL_FILTERING'',
   ''MODULE_RG_VLAN'',
   ''MODULE_RG_VODSL'',
   ''MODULE_RG_VOIP_ASTERISK_H323'',
   ''MODULE_RG_VOIP_ASTERISK_MGCP_CALL_AGENT'',
   ''MODULE_RG_VOIP_ASTERISK_MGCP_GW'',
   ''MODULE_RG_VOIP_ASTERISK_SIP'',
   ''MODULE_RG_VOIP_OSIP'',
   ''MODULE_RG_VOIP_RV_H323'',
   ''MODULE_RG_VOIP_RV_MGCP'',
   ''MODULE_RG_VOIP_RV_SIP'',
   ''MODULE_RG_WLAN_AND_ADVANCED_WLAN'',
   ''MODULE_RG_ZERO_CONFIGURATION_NETWORKING'',
   ''MOD_24_CFLAGS'',
   ''MOD_26_CFLAGS'',
   ''MSP_CODE_LOCATION'',
   ''MSP_NODE_LOCATION'',
   ''NEEDED_SYMBOLS'',
   ''NET_TOOLS_MAKE_FILE'',
   ''NM'',
   ''OBJCOPY'',
   ''OBJDUMP'',
   ''OPENRG_CHRDEV_MAJOR'',
   ''OPENRG_CHRDEV_NAME'',
   ''OPENRG_DEBUG'',
   ''OPENRG_DEBUG_EXEC_SH'',
   ''OPENRG_DEBUG_FILE_OPEN'',
   ''OPENRG_DEBUG_MODULES'',
   ''OPENRG_DEBUG_OPENRG'',
   ''OPENRG_GPL_LDLIBS'',
   ''OPENRG_GPL_LIB'',
   ''OPENRG_IMG'',
   ''OPENRG_LDLIBS'',
   ''OPENRG_LIB'',
   ''OPENRG_LOCAL_LDLIBS'']"

lemma ascends_base_17: "ascends ''FIRM'' (base_names_17 @ [''OPENRG_PROD''])"
  unfolding base_names_17_def append.simps by (intro ascends_intros; simp)

lemma settable_base_17: "list_all (settable base_schema) base_names_17"
  unfolding base_names_17_def by simp

lemma length_base_17: "length base_names_17 = 119"
  unfolding base_names_17_def by simp

definition base_names_18 :: "string list" where
  "base_names_18 = [
   ''OPENRG_RMT_UPDATE_IMG'',
   ''OS_PATH'',
   ''OS_TARGET'',
   ''PACKAGE_OPENRG_BASIC_GATEWAY'',
   ''PACKAGE_OPENRG_SECURITY_GATEWAY'',
   ''PACKAGE_OPENRG_SOHO_GATEWAY'',
   ''PACKAGE_OPENRG_VPN_GATEWAY'',
   ''PATH'',
   ''PERM_STORAGE_FILES_DIR'',
   ''PROD_KERNEL_IMAGE'',
   ''PROD_LINUX_TARGET'',
   ''RAM_HIGH_ADRS'',
   ''RAM_LOW_ADRS'',
   ''RANLIB'',
   ''REAL_GCC'',
   ''RG_BIN'',
   ''RG_BLOCK_SIZE_BITS'',
   ''RG_BUILD'',
   ''RG_CFLAGS'',
   ''RG_CPU'',
   ''RG_INCLUDE_DIR'',
   ''RG_LIB'',
   ''RG_LIBPTHREAD_VERSION'',
   ''RG_LINUX_24_CFLAGS'',
   ''RG_LINUX_26_CFLAGS'',
   ''RG_LINUX_CFLAGS'',
   ''RG_PROD_STR'',
   ''RMT_UPG_SITE'',
   ''RMT_UPG_URL'',
   ''SIZE'',
   ''SPCC'',
   ''STATIC_MOD_DIR'',
   ''STRIP'',
   ''TARGET_CC'',
   ''TARGET_CPP'',
   ''TARGET_CXX'',
   ''TARGET_ENDIANESS'',
   ''TARGET_MACHINE'',
   ''TARGET_PREFIX'',
   ''TEXMF'',
   ''TEXMFCNF'',
   ''TOOLCHAIN_ROOT'',
   ''TOOLS_PREFIX'',
   ''TRX'',
   ''ULIBC_IN_TOOLCHAIN'',
   ''UML_CONFIG_STUB_DATA'',
   ''UNITTEST_SPAWNER'',
   ''VALGRIND_CMD'',
   ''VX_INCLUDE_DIR'',
   ''WSTL_QND_PARENTAL'',
   ''YACC'',
   ''YFLAGS'']"

lemma ascends_base_18: "ascends ''OPENRG_PROD'' base_names_18"
  unfolding base_names_18_def append.simps by (intro ascends_intros; simp)

lemma settable_base_18: "list_all (settable base_schema) base_names_18"
  unfolding base_names_18_def by simp

lemma length_base_18: "length base_names_18 = 52"
  unfolding base_names_18_def by simp

lemma length_options_1: "length config_options_base_1 = 136"
  unfolding config_options_base_1_def by simp

lemma length_options_2: "length config_options_base_2 = 125"
  unfolding config_options_base_2_def by simp

lemma length_options_3: "length config_options_base_3 = 140"
  unfolding config_options_base_3_def by simp

lemma length_options_4: "length config_options_base_4 = 127"
  unfolding config_options_base_4_def by simp

lemma length_options_5: "length config_options_base_5 = 138"
  unfolding config_options_base_5_def by simp

lemma length_options_6: "length config_options_base_6 = 127"
  unfolding config_options_base_6_def by simp

lemma length_options_7: "length config_options_base_7 = 135"
  unfolding config_options_base_7_def by simp

lemma length_options_8: "length config_options_base_8 = 103"
  unfolding config_options_base_8_def by simp

lemma length_options_9: "length config_options_base_9 = 88"
  unfolding config_options_base_9_def by simp

lemma length_options_10: "length config_options_base_10 = 134"
  unfolding config_options_base_10_def by simp

lemma length_options_11: "length config_options_base_11 = 118"
  unfolding config_options_base_11_def by simp

lemma length_options_12: "length config_options_base_12 = 119"
  unfolding config_options_base_12_def by simp

lemma length_options_13: "length config_options_base_13 = 101"
  unfolding config_options_base_13_def by simp

lemma length_options_14: "length config_options_base_14 = 99"
  unfolding config_options_base_14_def by simp

lemma length_options_15: "length config_options_base_15 = 104"
  unfolding config_options_base_15_def by simp

lemma length_options_16: "length config_options_base_16 = 121"
  unfolding config_options_base_16_def by simp

lemma length_options_17: "length config_options_base_17 = 135"
  unfolding config_options_base_17_def by simp

lemma length_options_18: "length config_options_base_18 = 43"
  unfolding config_options_base_18_def by simp

definition base_names :: "string list" where
  "base_names = base_names_1 @ ''CONFIG_BCM91125E_MTD'' #
      base_names_2 @ ''CONFIG_CARDBUS'' #
      base_names_3 @ ''CONFIG_DANUBE_PPA_D4'' #
      base_names_4 @ ''CONFIG_GENERIC_NVRAM'' #
      base_names_5 @ ''CONFIG_INCAIP_ALLTEK'' #
      base_names_6 @ ''CONFIG_IRQ_CPU'' #
      base_names_7 @ ''CONFIG_MIPS'' #
      base_names_8 @ ''CONFIG_NET_IPGRE_BROADCAST'' #
      base_names_9 @ ''CONFIG_RG_8021X'' #
      base_names_10 @ ''CONFIG_RG_DEV_IF_IPSEC_TEMPL'' #
      base_names_11 @ ''CONFIG_RG_HW_DESC_STR'' #
      base_names_12 @ ''CONFIG_RG_NO_OPT'' #
      base_names_13 @ ''CONFIG_RG_TRACEROUTE'' #
      base_names_14 @ ''CONFIG_SERIAL_IFX_ASC'' #
      base_names_15 @ ''CONFIG_USB_EHCI_ROOT_HUB_TT'' #
      base_names_16 @ ''FIRM'' #
      base_names_17 @ ''OPENRG_PROD'' #
      base_names_18"

lemma ascends_base: "ascends ''AR'' base_names"
  unfolding base_names_def
  by (rule ascends_join [OF ascends_base_1 ascends_join [OF ascends_base_2 ascends_join [OF ascends_base_3 ascends_join [OF ascends_base_4 ascends_join [OF ascends_base_5 ascends_join [OF ascends_base_6 ascends_join [OF ascends_base_7 ascends_join [OF ascends_base_8 ascends_join [OF ascends_base_9 ascends_join [OF ascends_base_10 ascends_join [OF ascends_base_11 ascends_join [OF ascends_base_12 ascends_join [OF ascends_base_13 ascends_join [OF ascends_base_14 ascends_join [OF ascends_base_15 ascends_join [OF ascends_base_16 ascends_join [OF ascends_base_17 ascends_base_18]]]]]]]]]]]]]]]]])

lemma settable_base: "list_all (settable base_schema) (''AR'' # base_names)"
  unfolding base_names_def
  by (simp add: settable_base_1 settable_base_2 settable_base_3 settable_base_4 settable_base_5 settable_base_6 settable_base_7 settable_base_8 settable_base_9 settable_base_10 settable_base_11 settable_base_12 settable_base_13 settable_base_14 settable_base_15 settable_base_16 settable_base_17 settable_base_18)

lemma distinct_config_options_base: "distinct (map opt_token config_options_base)"
proof (rule distinct_by_names [OF ascends_base])
  have "settable base_schema t \<longleftrightarrow> t \<in> opt_token ` set config_options_base" for t
    by (simp add: settable_def base_schema_def schema_of_def image_image)
  then show "list_all (\<lambda>t. t \<in> opt_token ` set config_options_base) (''AR'' # base_names)"
    using settable_base by (simp add: list_all_iff)
  show "length config_options_base = length (''AR'' # base_names)"
    by (simp add: config_options_base_def base_names_def length_base_1 length_base_2 length_base_3 length_base_4 length_base_5 length_base_6 length_base_7 length_base_8 length_base_9 length_base_10 length_base_11 length_base_12 length_base_13 length_base_14 length_base_15 length_base_16 length_base_17 length_base_18 length_options_1 length_options_2 length_options_3 length_options_4 length_options_5 length_options_6 length_options_7 length_options_8 length_options_9 length_options_10 length_options_11 length_options_12 length_options_13 length_options_14 length_options_15 length_options_16 length_options_17 length_options_18)
qed

end
