(* ===== verification/Create_Config.thy ===== *)
theory Create_Config
  imports Feature_Config Target_Os Hw_Config Dist_Config Output Script_Invariants Table_Unique
begin

text \<open>
  \<open>main\<close> of \<open>create_config.c\<close> up to the host configuration: the tables are set up and
  checked, the command line is read, then the scripts run in order: distribution, checks
  of the target, operating system, packages, board, features; a package build runs them
  again for each bundled distribution and merges the results.
\<close>

section \<open>Operations\<close>

definition configure_features :: stmt where
  "configure_features = block [package_features, hardware_features, openrg_features, general_features]"

text \<open>
  One turn of the first loop of \<open>jpkg_configuration\<close>. The scripts write to the entry's own
  array, which the program's pointer designates meanwhile.
\<close>

definition jpkg_one :: "nat \<Rightarrow> stmt" where
  "jpkg_one i s = (case cfg_jpkg s ! i of (d, os) \<Rightarrow>
     bind_res (block [distribution_features, target_os_features, configure_features]
                 (s\<lparr> cfg_options := os, cfg_dist := Some d \<rparr>))
       (\<lambda>s'. Inr (s'\<lparr> cfg_jpkg := (cfg_jpkg s')[i := (d, cfg_options s')] \<rparr>)))"

text \<open>
  The loop goes on to the end of a list that its own turns may extend: \<open>fuel\<close> bounds the
  number of turns, and \<open>None\<close> is not having come to the end.
\<close>

fun jpkg_loop :: "nat \<Rightarrow> nat \<Rightarrow> conf \<Rightarrow> (conf_error + conf) option" where
  "jpkg_loop fuel i s =
     (if i < length (cfg_jpkg s) then
        (case fuel of
           0 \<Rightarrow> None
         | Suc n \<Rightarrow> (case jpkg_one i s of Inl e \<Rightarrow> Some (Inl e) | Inr s' \<Rightarrow> jpkg_loop n (Suc i) s'))
      else Some (Inr s))"

declare jpkg_loop.simps [simp del]

text \<open>The second loop: an option without a value takes it from the last entry that has one.\<close>

definition jpkg_merge_one :: "option_t list \<Rightarrow> option_t \<Rightarrow> option_t" where
  "jpkg_merge_one xs o1 = (if opt_value o1 \<noteq> None then o1
     else fold (\<lambda>x acc. if opt_value x \<noteq> None then x else acc) xs o1)"

definition jpkg_merge :: "(string \<times> option_t list) list \<Rightarrow> option_t list \<Rightarrow> option_t list" where
  "jpkg_merge jp os = map (\<lambda>i. jpkg_merge_one (map (\<lambda>p. snd p ! i) jp) (os ! i)) [0..<length os]"

definition jpkg_configuration :: "nat \<Rightarrow> conf \<Rightarrow> (conf_error + conf) option" where
  "jpkg_configuration fuel s = (case jpkg_loop fuel 0 s of
       None \<Rightarrow> None
     | Some r \<Rightarrow> Some (bind_res r (\<lambda>s'.
         Inr (s'\<lparr> cfg_dist := cfg_dist s, cfg_options := jpkg_merge (cfg_jpkg s') (cfg_options s) \<rparr>))))"

text \<open>The checks of \<open>main\<close> between the distribution and the operating system.\<close>

definition check_targets :: stmt where
  "check_targets s =
     (if cfg_os s \<noteq> [] \<and> option_token_get_nofail openrg_os_options (cfg_os s) = None
      then Inl (Illegal (cfg_os s))
      else if cfg_hw s = None \<and> cfg_os s \<noteq> [] then Inl (Conf_err ''Can't determine hw'')
      else (case cfg_dist s of
          Some d \<Rightarrow> if option_token_get_nofail openrg_distribution_options d = None
                    then Inl (Illegal d) else
              (case cfg_hw s of
                 Some h \<Rightarrow> if option_token_get_nofail openrg_hw_options h = None
                           then Inl (Illegal h) else Inr s
               | None \<Rightarrow> Inr s)
        | None \<Rightarrow>
              (case cfg_hw s of
                 Some h \<Rightarrow> if option_token_get_nofail openrg_hw_options h = None
                           then Inl (Illegal h) else Inr s
               | None \<Rightarrow> Inr s)))"

definition configure_target :: stmt where
  "configure_target = block [distribution_features, check_targets,
     when_c (neg (os_is '''')) [target_os_features], configure_features]"

definition configure :: "nat \<Rightarrow> conf \<Rightarrow> (conf_error + conf) option" where
  "configure fuel s = (case configure_target s of
       Inl e \<Rightarrow> Some (Inl e)
     | Inr s1 \<Rightarrow> (case jpkg_configuration fuel s1 of
           None \<Rightarrow> None
         | Some r \<Rightarrow> Some (bind_res r target_primary_os)))"

text \<open>The globals when \<open>main\<close> reads its command line, for a given table.\<close>

definition initial_conf :: "option_t list \<Rightarrow> conf" where
  "initial_conf base = (let b = init_configs base in
     \<lparr> cfg_options = options_dup b, cfg_base = b, cfg_hw = None, cfg_os = '''',
       cfg_dist = None, cfg_features = None, cfg_jpkg = [], cfg_eval = False, cfg_log = [] \<rparr>)"

definition read_arguments :: "string list \<Rightarrow> conf_error + file_names \<times> conf" where
  "read_arguments argv = (let s = initial_conf config_options_base in
     bind_res (validate_unique_configs openrg_hw_options openrg_os_options
                 openrg_distribution_options (cfg_options s)) (\<lambda>_.
     bind_res (handle_opt argv False (no_files, s)) (\<lambda>(extra, n, s').
       if extra then Inl Usage else Inr (n, s'))))"

definition main_configure :: "nat \<Rightarrow> string list \<Rightarrow> (conf_error + file_names \<times> conf) option" where
  "main_configure fuel argv = (case read_arguments argv of
       Inl e \<Rightarrow> Some (Inl e)
     | Inr (n, s) \<Rightarrow> map_option (\<lambda>r. bind_res r (\<lambda>s'. Inr (n, s'))) (configure fuel s))"

section \<open>What the stages write\<close>

lemma policy_J_mono: "policy sch V {} e \<Longrightarrow> policy sch V J e"
  by (cases e) auto

lemma emits_set_of:
  "t \<in> V \<Longrightarrow> emits sch (policy sch V J) (token_set_of f l t r)"
  using emits_raw_token_set [of _ "[]" "policy sch V J" SET_PRIO_TOKEN_SET t sch f l]
  by (fastforce simp: token_set_of_def emits_def bind_res_eq_Inr)

lemma emits_hardware_features:
  "emits base_schema (policy base_schema value_tokens J) hardware_features"
  unfolding hardware_features_def
  by (intro emits_ifc emits_local emits_Cons emits_Nil emits_when emits_set_of
      ok_emits ok_conf_err ok_board_features shipped.ok_sets; simp)

lemma emits_configure_features:
  "emits base_schema (policy base_schema value_tokens J) configure_features"
  unfolding configure_features_def
  by (intro emits_Cons emits_Nil emits_hardware_features; rule ok_emits; rule safe_scripts)

lemma emits_check_targets: "emits sch P check_targets"
  by (rule emits_unchanged) (auto simp: check_targets_def split: if_splits option.splits)

lemma emits_configure_target:
  "emits base_schema (policy base_schema value_tokens bundled) configure_target"
  unfolding configure_target_def
  by (intro emits_Cons emits_Nil emits_when emits_check_targets emits_configure_features;
      rule ok_emits; rule safe_scripts)

lemma emits_target_primary_os:
  "emits base_schema (policy base_schema value_tokens J) target_primary_os"
  by (rule ok_emits) (rule safe_scripts)

section \<open>Package builds\<close>

text \<open>The entries of the list: known distributions, each with a copy of the table.\<close>

definition base_like :: "option_t list \<Rightarrow> bool" where
  "base_like os \<longleftrightarrow> schema_of os = base_schema \<and> distinct (map opt_token os)"

definition jpkg_ok :: "conf \<Rightarrow> bool" where
  "jpkg_ok s \<longleftrightarrow> list_all (\<lambda>(d, os). d \<in> bundled \<and> base_like os) (cfg_jpkg s)"

lemma has_schema_base_like: "has_schema base_schema s \<longleftrightarrow> base_like (cfg_options s)"
  by (simp add: has_schema_def base_like_def)

lemma single_distribution:
  assumes "cfg_dist s = Some d" "d \<in> bundled"
  shows "distribution_features s = single_distribution_features s"
proof -
  have "d \<notin> set jpkg_names"
    using assms(2) bundled_single by (auto simp: bundled_def list_all_iff)
  then have "cases_c (xs @ jpkg_branches @ ys) ds s = cases_c (xs @ ys) ds s" for xs ys ds
    using assms(1) skip_jpkg_branches [of s d]
    by (induction xs) (auto simp: cases_c_append ifc_def bind_res_def fun_eq_iff split: sum.splits)
  then show ?thesis using assms(1)
    by (simp add: distribution_features_def single_distribution_features_def when_c_def ifc_def
        dist_set_def neg_def del: cases_c.simps)
qed

definition jpkg_script :: stmt where
  "jpkg_script = block [single_distribution_features, target_os_features, configure_features]"

lemma emits_jpkg_script:
  "emits base_schema (policy base_schema value_tokens {}) jpkg_script"
  unfolding jpkg_script_def
  by (intro emits_Cons emits_Nil emits_configure_features; rule ok_emits; rule safe_scripts)

lemma jpkg_one_keeps:
  assumes ok: "jpkg_ok s" and i: "i < length (cfg_jpkg s)" and r: "jpkg_one i s = Inr s'"
  shows "jpkg_ok s' \<and> length (cfg_jpkg s') = length (cfg_jpkg s)"
proof -
  obtain d os where e: "cfg_jpkg s ! i = (d, os)" by (cases "cfg_jpkg s ! i")
  with ok i have d: "d \<in> bundled" and os: "base_like os"
    by (auto simp: jpkg_ok_def list_all_length)
  let ?x = "s\<lparr> cfg_options := os, cfg_dist := Some d \<rparr>"
  from r e d obtain t where t: "jpkg_script ?x = Inr t"
    and s': "s' = t\<lparr> cfg_jpkg := (cfg_jpkg t)[i := (d, cfg_options t)] \<rparr>"
    by (auto simp: jpkg_one_def jpkg_script_def single_distribution bind_res_eq_Inr)
  have h: "has_schema base_schema ?x" using os by (simp add: has_schema_base_like)
  from frame_script [OF emits_jpkg_script h t] have j: "cfg_jpkg t = cfg_jpkg s"
    by (auto dest: frame_empty)
  from emits_schema [OF emits_jpkg_script h t] have "base_like (cfg_options t)"
    by (simp add: has_schema_base_like)
  with ok d j s' show ?thesis
    by (auto simp: jpkg_ok_def list_all_iff dest!: subsetD [OF set_update_subset_insert])
qed

lemma jpkg_loop_total:
  "jpkg_ok s \<Longrightarrow> length (cfg_jpkg s) \<le> i + fuel \<Longrightarrow> \<exists>r. jpkg_loop fuel i s = Some r"
proof (induction fuel arbitrary: i s)
  case 0
  then show ?case by (simp add: jpkg_loop.simps)
next
  case (Suc n)
  show ?case
  proof (cases "i < length (cfg_jpkg s)")
    case False
    then show ?thesis by (simp add: jpkg_loop.simps)
  next
    case True
    with Suc jpkg_one_keeps [of s i] show ?thesis
      by (cases "jpkg_one i s") (auto simp: jpkg_loop.simps [of "Suc n"])
  qed
qed

lemma jpkg_loop_keeps:
  "jpkg_ok s \<Longrightarrow> jpkg_loop fuel i s = Some (Inr s') \<Longrightarrow> jpkg_ok s' \<and> length (cfg_jpkg s') = length (cfg_jpkg s)"
proof (induction fuel arbitrary: i s)
  case 0
  then show ?case by (simp add: jpkg_loop.simps split: if_splits)
next
  case (Suc n)
  then show ?case using jpkg_one_keeps [of s i]
    by (auto simp: jpkg_loop.simps [of "Suc n"] split: if_splits sum.splits)
qed

text \<open>Merging keeps the schema, and every option that has a value.\<close>

lemma fold_last_value:
  "(\<forall>x \<in> set xs. f x = f o1) \<Longrightarrow> f (fold (\<lambda>x acc. if opt_value x \<noteq> None then x else acc) xs o1) = f o1"
  by (induction xs arbitrary: o1) auto

lemma length_base_like: "base_like os \<Longrightarrow> length os = length base_schema"
  by (metis base_like_def length_map schema_of_def)

lemma nth_schema:
  "schema_of os = sch \<Longrightarrow> i < length os \<Longrightarrow> (opt_token (os ! i), opt_type (os ! i)) = sch ! i"
  by (auto simp: schema_of_def)

lemma length_jpkg_merge [simp]: "length (jpkg_merge jp os) = length os"
  by (simp add: jpkg_merge_def)

lemma jpkg_merge_valued:
  "i < length os \<Longrightarrow> opt_value (os ! i) \<noteq> None \<Longrightarrow> jpkg_merge jp os ! i = os ! i"
  by (simp add: jpkg_merge_def jpkg_merge_one_def)

lemma jpkg_merge_base_like:
  assumes "base_like os" "list_all (\<lambda>(d, xs). base_like xs) jp"
  shows "base_like (jpkg_merge jp os)"
proof -
  have "schema_of (jpkg_merge jp os) = schema_of os"
  proof (rule nth_equalityI)
    fix i assume "i < length (schema_of (jpkg_merge jp os))"
    then have i: "i < length os" by (simp add: schema_of_def)
    have "(opt_token (snd p ! i), opt_type (snd p ! i)) = (opt_token (os ! i), opt_type (os ! i))"
      if "p \<in> set jp" for p
    proof -
      from that assms have "base_like (snd p)" by (auto simp: list_all_iff)
      with i assms show ?thesis
        by (metis base_like_def length_base_like nth_schema)
    qed
    then have "(opt_token (jpkg_merge jp os ! i), opt_type (jpkg_merge jp os ! i))
        = (opt_token (os ! i), opt_type (os ! i))"
      using i fold_last_value [of "map (\<lambda>p. snd p ! i) jp" "\<lambda>o1. (opt_token o1, opt_type o1)" "os ! i"]
      by (simp add: jpkg_merge_def jpkg_merge_one_def)
    with i show "schema_of (jpkg_merge jp os) ! i = schema_of os ! i"
      by (simp add: schema_of_def)
  qed (simp add: schema_of_def)
  with assms(1) show ?thesis by (metis base_like_def map_fst_schema)
qed

section \<open>The whole configuration\<close>

text \<open>The state in which the scripts start.\<close>

definition started :: "conf \<Rightarrow> bool" where
  "started s \<longleftrightarrow> has_schema base_schema s \<and> base_like (cfg_base s) \<and> cfg_jpkg s = []"

lemma started_initial: "started (initial_conf config_options_base)"
  using distinct_config_options_base
  by (simp add: started_def initial_conf_def Let_def has_schema_def base_like_def base_schema_def)

lemma started_arguments:
  assumes "read_arguments argv = Inr (n, s)"
  shows "started s"
proof -
  from assms obtain extra where
    "handle_opt argv False (no_files, initial_conf config_options_base) = Inr (extra, n, s)"
    by (auto simp: read_arguments_def Let_def bind_res_eq_Inr split: if_splits)
  from handle_opt_keep [OF this] started_initial same_schema_has show ?thesis
    by (auto simp: started_def arguments_keep_def)
qed

lemma configure_target_jpkg:
  assumes "started s" "configure_target s = Inr s1"
  shows "has_schema base_schema s1" "jpkg_ok s1"
proof -
  from assms have h: "has_schema base_schema s" by (simp add: started_def)
  from emits_schema [OF emits_configure_target h assms(2)] show "has_schema base_schema s1" .
  from frame_script [OF emits_configure_target h assms(2)] assms(1) show "jpkg_ok s1"
    by (auto simp: frame_def started_def jpkg_ok_def list_all_iff)
qed

lemma jpkg_configuration_Inr:
  assumes "jpkg_configuration fuel s = Some (Inr s')"
  obtains s2 where "jpkg_loop fuel 0 s = Some (Inr s2)"
    and "s' = s2\<lparr> cfg_dist := cfg_dist s, cfg_options := jpkg_merge (cfg_jpkg s2) (cfg_options s) \<rparr>"
  using assms that
  by (auto simp: jpkg_configuration_def bind_res_eq_Inr split: option.splits)

lemma jpkg_configuration_schema:
  assumes "has_schema base_schema s" "jpkg_ok s" "jpkg_configuration fuel s = Some (Inr s')"
  shows "has_schema base_schema s'"
  using assms(3)
proof (rule jpkg_configuration_Inr)
  fix s2
  assume "jpkg_loop fuel 0 s = Some (Inr s2)"
    and s': "s' = s2\<lparr> cfg_dist := cfg_dist s, cfg_options := jpkg_merge (cfg_jpkg s2) (cfg_options s) \<rparr>"
  with jpkg_loop_keeps assms(2) have "jpkg_ok s2" by blast
  then have "list_all (\<lambda>(d, xs). base_like xs) (cfg_jpkg s2)"
    by (auto simp: jpkg_ok_def list_all_iff)
  with assms(1) s' jpkg_merge_base_like show ?thesis by (simp add: has_schema_base_like)
qed

lemma configure_Inr:
  assumes "configure fuel s = Some (Inr s')"
  obtains s1 s2 where "configure_target s = Inr s1" "jpkg_configuration fuel s1 = Some (Inr s2)"
    "target_primary_os s2 = Inr s'"
  using assms that
  by (auto simp: configure_def bind_res_eq_Inr split: sum.splits option.splits)

text \<open>Pinned options with a value come through the scripts, the merge and the last script.\<close>

definition pinned_value_kept :: "option_t \<Rightarrow> option_t \<Rightarrow> bool" where
  "pinned_value_kept x y \<longleftrightarrow> (opt_prio x = SET_PRIO_CMD_LINE \<and> opt_value x \<noteq> None \<longrightarrow> y = x)"

lemma pinned_value_kept_trans:
  "pinned_value_kept x y \<Longrightarrow> pinned_value_kept y z \<Longrightarrow> pinned_value_kept x z"
  by (auto simp: pinned_value_kept_def)

lemma script_keeps_pinned:
  assumes "emits sch (policy sch V J) c" "has_schema sch s" "c s = Inr s'"
  shows "list_all2 pinned_value_kept (cfg_options s) (cfg_options s')"
  using pinned.script [OF emits_below [OF assms(1)] assms(2,3)]
  by (rule list_all2_mono) (simp add: keeps_pinned_def pinned_value_kept_def)

lemma configure_keeps_pinned:
  assumes "started s" "configure fuel s = Some (Inr s')"
  shows "list_all2 pinned_value_kept (cfg_options s) (cfg_options s')"
  using assms(2)
proof (rule configure_Inr)
  fix s1 s2
  assume t: "configure_target s = Inr s1" and j: "jpkg_configuration fuel s1 = Some (Inr s2)"
    and p: "target_primary_os s2 = Inr s'"
  from assms(1) have h: "has_schema base_schema s" by (simp add: started_def)
  note h1 = configure_target_jpkg [OF assms(1) t]
  have 1: "list_all2 pinned_value_kept (cfg_options s) (cfg_options s1)"
    by (rule script_keeps_pinned [OF emits_configure_target h t])
  have 2: "list_all2 pinned_value_kept (cfg_options s1) (cfg_options s2)"
    using j by (rule jpkg_configuration_Inr)
      (auto simp: list_all2_conv_all_nth pinned_value_kept_def jpkg_merge_valued)
  have 3: "list_all2 pinned_value_kept (cfg_options s2) (cfg_options s')"
    by (rule script_keeps_pinned [OF emits_target_primary_os jpkg_configuration_schema [OF h1 j] p])
  from list_all2_trans [OF pinned_value_kept_trans list_all2_trans [OF pinned_value_kept_trans 1 2] 3]
  show ?thesis .
qed

lemma configure_total:
  assumes "started s"
  shows "\<exists>n. \<forall>m. \<exists>r. configure (n + m) s = Some r"
proof (cases "configure_target s")
  case (Inl e)
  then show ?thesis by (simp add: configure_def)
next
  case (Inr s1)
  have "\<exists>r. configure (length (cfg_jpkg s1) + m) s = Some r" for m
    using jpkg_loop_total [OF configure_target_jpkg(2) [OF assms Inr], of 0 "length (cfg_jpkg s1) + m"] Inr
    by (auto simp: configure_def jpkg_configuration_def)
  then show ?thesis by blast
qed

lemma configure_schema:
  assumes "started s" "configure fuel s = Some (Inr s')"
  shows "has_schema base_schema s'"
  using assms(2)
proof (rule configure_Inr)
  fix s1 s2
  assume t: "configure_target s = Inr s1" and j: "jpkg_configuration fuel s1 = Some (Inr s2)"
    and p: "target_primary_os s2 = Inr s'"
  from emits_schema [OF emits_target_primary_os jpkg_configuration_schema [OF configure_target_jpkg [OF assms(1) t] j] p]
  show ?thesis .
qed

text \<open>Failures: the scripts' own, an unknown board, and the checks of the target.\<close>

definition board_failure :: "conf_error \<Rightarrow> bool" where
  "board_failure e \<longleftrightarrow> (\<exists>h. e = No_such_option h \<and> h \<notin> opt_token ` set openrg_hw_options)"

lemma ok_hw_known:
  "ok base_schema value_tokens J (block [
     when_c (pure (opt_value hw_tok = None)) [conf_err m],
     token_set_of HC 203 ''CONFIG_RG_HW'' hw_str,
     token_set_of HC 204 ''CONFIG_RG_HW_DESC_STR'' (pure (opt_value hw_tok)),
     board_features])"
  by (intro safe_intros ok_board_features shipped.ok_sets; simp)

lemma ok_no_hw:
  "ok base_schema value_tokens J (block [
     token_set HC 192 ''CONFIG_RG_HW'' ''NO_HW'' [],
     token_set HC 193 ''CONFIG_RG_HW_DESC_STR'' ''No hardware - local targets only'' [],
     token_set_y HC 194 ''CONFIG_RG_BUILD_LOCAL_TARGETS_ONLY''])"
  by (intro safe_intros shipped.ok_sets; simp)

lemma hardware_failure:
  assumes "has_schema base_schema s" "hardware_features s = Inl e"
  shows "script_failure e \<or> board_failure e"
proof (cases "cfg_hw s")
  case None
  with assms ok_safe [OF ok_no_hw] show ?thesis
    by (auto simp: hardware_features_def ifc_def neg_def hw_set_def simp del: block.simps dest: safeD)
next
  case (Some h)
  show ?thesis
  proof (cases "option_token_get_nofail openrg_hw_options h")
    case None
    with Some assms show ?thesis
      by (auto simp: hardware_features_def ifc_def neg_def hw_set_def local_c_def hw_lookup_def
          option_token_get_def board_failure_def nofail_None_iff)
  next
    case (Some i)
    with \<open>cfg_hw s = Some h\<close> assms ok_safe [OF ok_hw_known] show ?thesis
      by (auto simp: hardware_features_def ifc_def neg_def hw_set_def local_c_def hw_lookup_def
          option_token_get_def block_one simp del: block.simps dest: safeD)
  qed
qed

section \<open>Validity when printing\<close>

text \<open>
  An option the scripts treat as a switch, valid before, is valid when the files are
  printed.
\<close>

definition validity_kept :: "option_t \<Rightarrow> option_t \<Rightarrow> bool" where
  "validity_kept x y \<longleftrightarrow> (opt_token x \<notin> value_tokens \<longrightarrow>
     check_option_validity x = Inr () \<longrightarrow> check_option_validity y = Inr ())"

lemma schema_type:
  assumes "has_schema sch s" "x \<in> set (cfg_options s)" "(opt_token x, ty) \<in> set sch"
  shows "opt_type x = ty"
proof -
  from assms(1) have "distinct (map fst sch)" by (auto simp: has_schema_def)
  from eq_key_imp_eq_value [OF this has_schema_in [OF assms(1,2)] assms(3)] show ?thesis .
qed

lemma switch_type:
  assumes "has_schema sch s" "x \<in> set (cfg_options s)" "switch sch (opt_token x)"
  shows "\<not> has_type (OPT_NUMBER OR OPT_STR OR OPT_C_STR) x"
proof -
  from assms(3) obtain ty where ty: "(opt_token x, ty) \<in> set sch" "ty AND (OPT_NUMBER OR OPT_STR OR OPT_C_STR) = 0"
    by (auto simp: switch_def)
  with schema_type [OF assms(1,2)] show ?thesis by (simp add: has_type_def)
qed

lemma modular_type:
  assumes "has_schema sch s" "x \<in> set (cfg_options s)" "modular sch (opt_token x)"
  shows "has_type (OPT_MODULE OR OPT_MODULE_EXPAND) x"
proof -
  from assms(3) obtain ty where ty: "(opt_token x, ty) \<in> set sch" "ty AND (OPT_MODULE OR OPT_MODULE_EXPAND) \<noteq> 0"
    by (auto simp: modular_def)
  with schema_type [OF assms(1,2)] show ?thesis by (simp add: has_type_def)
qed

lemma tame_validity:
  assumes h: "has_schema base_schema s" "x \<in> set (cfg_options s)" and t: "tame base_schema value_tokens x y"
  shows "validity_kept x y"
  unfolding validity_kept_def
proof (intro impI)
  assume v: "opt_token x \<notin> value_tokens" and ok: "check_option_validity x = Inr ()"
  from t have "opt_type y = opt_type x" by (simp add: tame_def)
  then have ty: "has_type m y \<longleftrightarrow> has_type m x" for m by (simp add: has_type_def)
  from t v consider "opt_value y = opt_value x"
    | "switch base_schema (opt_token x)" "opt_value y = Some ''y''"
    | "switch base_schema (opt_token x)" "opt_value y = Some ''m''" "modular base_schema (opt_token x)"
    by (auto simp: tame_def)
  then show "check_option_validity y = Inr ()"
  proof cases
    case 1
    with t ok check_option_validity_cong show ?thesis by (metis tame_def)
  next
    case 2
    with switch_type [OF h] show ?thesis
      by (simp add: check_option_validity_iff valid_value_def ty has_type_or)
  next
    case 3
    with switch_type [OF h] modular_type [OF h] show ?thesis
      by (auto simp: check_option_validity_iff valid_value_def ty has_type_or)
  qed
qed

lemma script_keeps_validity:
  assumes "emits base_schema (policy base_schema value_tokens J) c" "has_schema base_schema s" "c s = Inr s'"
  shows "list_all2 validity_kept (cfg_options s) (cfg_options s')"
proof -
  have "list_all2 (tame base_schema value_tokens) (cfg_options s) (cfg_options s')"
    by (rule tame.script [OF assms])
  then show ?thesis
    by (rule list.rel_mono_strong) (rule tame_validity [OF assms(2)])
qed

end
