(* ===== verification/Script_Effects.thy ===== *)
theory Script_Effects
  imports Script_Invariants License Option_Store
begin

text \<open>
  What scripts achieve. \<open>live\<close>: the script does not fail on a store with the schema.
  \<open>given\<close>: if one switch is on before, another is on after, or was pinned by the command
  line. Both are closed under the statement forms, as the judgements of \<open>Script_Logic\<close> are.
\<close>

section \<open>Scripts that do not fail\<close>

definition rlive :: "(string \<times> opt_type_t) list \<Rightarrow> 'a rd \<Rightarrow> bool" where
  "rlive sch r \<longleftrightarrow> (\<forall>s. has_schema sch s \<longrightarrow> (\<exists>v. r s = Inr v))"

definition live :: "(string \<times> opt_type_t) list \<Rightarrow> stmt \<Rightarrow> bool" where
  "live sch c \<longleftrightarrow> (\<forall>s. has_schema sch s \<longrightarrow> (\<exists>s'. c s = Inr s' \<and> has_schema sch s'))"

named_theorems live_intros \<open>rules that walk a script and show that it does not fail\<close>

lemma liveD: "live sch c \<Longrightarrow> has_schema sch s \<Longrightarrow> \<exists>s'. c s = Inr s' \<and> has_schema sch s'"
  by (simp add: live_def)

lemma rliveD: "rlive sch r \<Longrightarrow> has_schema sch s \<Longrightarrow> \<exists>v. r s = Inr v"
  by (simp add: rlive_def)

lemma live_Nil [live_intros]: "live sch (block [])"
  by (simp add: live_def)

lemma live_Cons [live_intros]: "live sch c \<Longrightarrow> live sch (block cs) \<Longrightarrow> live sch (block (c # cs))"
  by (fastforce simp: live_def)

lemma live_ifc [live_intros]:
  "rlive sch b \<Longrightarrow> live sch (block cs) \<Longrightarrow> live sch (block ds) \<Longrightarrow> live sch (ifc b cs ds)"
  by (fastforce simp: live_def rlive_def ifc_def)

lemma live_when [live_intros]: "rlive sch b \<Longrightarrow> live sch (block cs) \<Longrightarrow> live sch (when_c b cs)"
  unfolding when_c_def by (intro live_intros)

lemma rlive_on [live_intros]: "testable sch t \<Longrightarrow> rlive sch (on t)"
  unfolding rlive_def
proof (intro allI impI)
  fix s
  assume "testable sch t" and h: "has_schema sch s"
  then obtain ty where ty: "(t, ty) \<in> set sch" "ty AND (OPT_STR OR OPT_C_STR) = 0" by (auto simp: testable_def)
  from nofail_type [OF h ty(1)] obtain i where
    "option_token_get_nofail (cfg_options s) t = Some i" "opt_type (cfg_options s ! i) = ty" by blast
  with ty(2) show "\<exists>v. on t s = Inr v"
    by (cases "opt_value (cfg_options s ! i)")
      (simp_all add: on_def token_get_def option_token_get_def Let_def exI [of "\<lambda>v. \<not> v" False])
qed

lemma rlive_pure [live_intros]: "rlive sch (pure x)"
  by (simp add: rlive_def pure_def)

lemma rlive_os_is [live_intros]: "rlive sch (os_is x)"
  by (simp add: rlive_def os_is_def)

lemma rlive_is_hw [live_intros]: "rlive sch (is_hw x)"
  by (simp add: rlive_def is_hw_def)

lemma rlive_hw_set [live_intros]: "rlive sch hw_set"
  by (simp add: rlive_def hw_set_def)

lemma rlive_is_evaluation [live_intros]: "rlive sch is_evaluation"
  by (simp add: rlive_def is_evaluation_def)

lemma rlive_neg [live_intros]: "rlive sch b \<Longrightarrow> rlive sch (neg b)"
  by (fastforce simp: rlive_def neg_def)

lemma rlive_conj [live_intros]: "rlive sch a \<Longrightarrow> rlive sch b \<Longrightarrow> rlive sch (conj_c a b)"
  by (fastforce simp: rlive_def conj_c_def)

lemma rlive_disj [live_intros]: "rlive sch a \<Longrightarrow> rlive sch b \<Longrightarrow> rlive sch (disj_c a b)"
  by (fastforce simp: rlive_def disj_c_def)

text \<open>A write succeeds when the option is declared, the value short, and \<open>m\<close> goes to a typed option.\<close>

lemma raw_token_set_schema:
  "raw_token_set f l p t fmt args s = Inr s' \<Longrightarrow> has_schema sch s \<Longrightarrow> has_schema sch s'"
  by (rule emits_schema [OF emits_raw_token_set [where P = "\<lambda>_. True"]]) simp_all

lemma raw_token_set_live:
  assumes h: "has_schema sch s" and t: "settable sch t"
    and v: "CHR ''%'' \<notin> set v" "length v \<le> 4094"
    and m: "v = ''m'' \<Longrightarrow> typed sch t \<and> testable sch ''CONFIG_RG_DEV''"
  shows "\<exists>s'. raw_token_set f l p t (Some v) [] s = Inr s' \<and> has_schema sch s'"
proof -
  from has_schema_settable [OF h t] obtain i where i: "option_token_get_nofail (cfg_options s) t = Some i" ..
  have "\<exists>w. module_value t (cfg_options s ! i) v s = Inr w"
  proof (cases "v = ''m''")
    case True
    with m obtain ty where "(t, ty) \<in> set sch" "ty \<noteq> 0" by (auto simp: typed_def)
    with nofail_type [OF h] i have "opt_type (cfg_options s ! i) \<noteq> 0" by fastforce
    moreover from m True rliveD [OF rlive_on h] obtain d where "on ''CONFIG_RG_DEV'' s = Inr d" by blast
    ultimately show ?thesis by (auto simp: module_value_def)
  qed (simp add: module_value_def)
  with i v have "\<exists>s'. raw_token_set f l p t (Some v) [] s = Inr s'"
    by (auto simp: raw_token_set_def vsnprintf_plain option_token_get_def Let_def)
  with raw_token_set_schema h show ?thesis by blast
qed

lemma live_set_y [live_intros]: "settable sch t \<Longrightarrow> live sch (token_set_y f l t)"
  unfolding live_def token_set_y_def by (auto intro!: raw_token_set_live)

lemma live_set_plain [live_intros]:
  assumes "settable sch t" "CHR ''%'' \<notin> set v" "length v \<le> 4094" "v \<noteq> ''m''"
  shows "live sch (token_set f l t v [])"
  using assms by (auto simp: live_def token_set_def intro!: raw_token_set_live)

context script_schema
begin

lemma live_set_m: "typed sch t \<Longrightarrow> settable sch t \<Longrightarrow> live sch (token_set_m f l t)"
  unfolding live_def token_set_m_def
proof (intro allI impI)
  fix s
  assume t: "typed sch t" "settable sch t" and h: "has_schema sch s"
  from rliveD [OF rlive_on [OF vx] h] obtain v where "on ''CONFIG_RG_OS_VXWORKS'' s = Inr v" ..
  with raw_token_set_live [OF h t(2)] t(1) dev
  show "\<exists>s'. bind_res (on ''CONFIG_RG_OS_VXWORKS'' s)
      (\<lambda>vx. raw_token_set f l SET_PRIO_TOKEN_SET t (Some (if vx then ''y'' else ''m'')) [] s) = Inr s'
      \<and> has_schema sch s'"
    by (cases v) auto
qed

end

section \<open>What follows from a switch\<close>

definition on_in :: "string \<Rightarrow> conf \<Rightarrow> bool" where
  "on_in t s \<longleftrightarrow> (\<exists>i. option_token_get_nofail (cfg_options s) t = Some i \<and> switched_on (cfg_options s ! i))"

definition on_or_pinned :: "string \<Rightarrow> conf \<Rightarrow> bool" where
  "on_or_pinned t s \<longleftrightarrow> (\<exists>i. option_token_get_nofail (cfg_options s) t = Some i \<and>
     (switched_on (cfg_options s ! i) \<or> opt_prio (cfg_options s ! i) = SET_PRIO_CMD_LINE))"

lemma on_on_in: "switch sch t \<Longrightarrow> has_schema sch s \<Longrightarrow> on t s = Inr True \<longleftrightarrow> on_in t s"
proof -
  assume "switch sch t" and h: "has_schema sch s"
  then obtain ty where ty: "(t, ty) \<in> set sch" "ty AND (OPT_NUMBER OR OPT_STR OR OPT_C_STR) = 0"
    by (auto simp: switch_def)
  then have bits: "ty AND OPT_NUMBER = 0" "ty AND (OPT_STR OR OPT_C_STR) = 0"
    by (auto simp: bit_eq_iff bit_simps)
  from nofail_type [OF h ty(1)] obtain i where
    "option_token_get_nofail (cfg_options s) t = Some i" "opt_type (cfg_options s ! i) = ty" by blast
  with bits show ?thesis
    by (cases "opt_value (cfg_options s ! i)")
      (simp_all add: on_def token_get_def option_token_get_def Let_def on_in_def switched_on_def)
qed

text \<open>A script that makes such writes only keeps what is on, and what is on or pinned.\<close>

lemma script_same_index:
  assumes "emits sch P c" "has_schema sch s" "c s = Inr s'"
  shows "option_token_get_nofail (cfg_options s') t = option_token_get_nofail (cfg_options s) t"
proof -
  from emits_schema [OF assms(1,2,3)] have "has_schema sch s'" .
  with assms(2) have "map opt_token (cfg_options s') = map opt_token (cfg_options s)"
    by (metis has_schema_def map_fst_schema)
  then show ?thesis by (rule nofail_cong)
qed

lemma script_keeps_on:
  assumes e: "emits sch (policy sch V J) c" and h: "has_schema sch s" and r: "c s = Inr s'" and t: "t \<notin> V"
  shows "on_in t s \<Longrightarrow> on_in t s'" "on_or_pinned t s \<Longrightarrow> on_or_pinned t s'"
proof -
  note i = script_same_index [OF e h r, of t]
  have on: "list_all2 (stays_on V) (cfg_options s) (cfg_options s')"
    by (rule onset.script [OF e h r])
  have pin: "list_all2 keeps_pinned (cfg_options s) (cfg_options s')"
    by (rule pinned.script [OF emits_below [OF e] h r])
  show "on_in t s \<Longrightarrow> on_in t s'"
    using on i t nofail_Some unfolding on_in_def by (fastforce dest: list_all2_nthD simp: stays_on_def)
  show "on_or_pinned t s \<Longrightarrow> on_or_pinned t s'"
    using on pin i t nofail_Some unfolding on_or_pinned_def
    by (fastforce dest: list_all2_nthD simp: stays_on_def keeps_pinned_def)
qed

lemma script_keeps_switch:
  assumes "emits sch (policy sch V J) c" "has_schema sch s" "c s = Inr s'" "t \<notin> V" "switch sch t"
    and "on t s = Inr True"
  shows "on t s' = Inr True"
  using assms script_keeps_on(1) [OF assms(1-4)] emits_schema [OF assms(1-3)] on_on_in by blast

text \<open>
  Conditions on the state that no script falsifies: a switch outside \<open>V\<close> is on, or on or
  pinned; the distribution has a name.
\<close>

definition lasting :: "(string \<times> opt_type_t) list \<Rightarrow> string set \<Rightarrow> (conf \<Rightarrow> bool) \<Rightarrow> bool" where
  "lasting sch V Q \<longleftrightarrow> (\<forall>c J s s'. ok sch V J c \<longrightarrow> has_schema sch s \<longrightarrow> c s = Inr s' \<longrightarrow> Q s \<longrightarrow> Q s')"

lemma lastingD: "lasting sch V Q \<Longrightarrow> ok sch V J c \<Longrightarrow> has_schema sch s \<Longrightarrow> c s = Inr s' \<Longrightarrow> Q s \<Longrightarrow> Q s'"
  unfolding lasting_def by blast

lemma lasting_on: "switch sch t \<Longrightarrow> t \<notin> V \<Longrightarrow> lasting sch V (\<lambda>s. on t s = Inr True)"
  unfolding lasting_def by (meson ok_emits script_keeps_switch)

lemma lasting_on_or_pinned: "t \<notin> V \<Longrightarrow> lasting sch V (on_or_pinned t)"
  unfolding lasting_def by (meson ok_emits script_keeps_on(2))

lemma lasting_False: "lasting sch V (\<lambda>s. False)"
  by (simp add: lasting_def)

lemma lasting_dist: "lasting sch V (\<lambda>s. cfg_dist s = Some d)"
  unfolding lasting_def
proof (intro allI impI)
  fix c J s s'
  assume "ok sch V J c" "has_schema sch s" "c s = Inr s'" "cfg_dist s = Some d"
  then show "cfg_dist s' = Some d" using frame_script ok_emits by (fastforce simp: frame_def)
qed

text \<open>From a state where \<open>B\<close> holds, the script ends, if it does not fail, in one where \<open>Q\<close> holds.\<close>

definition given :: "(string \<times> opt_type_t) list \<Rightarrow> (conf \<Rightarrow> bool) \<Rightarrow> (conf \<Rightarrow> bool) \<Rightarrow> stmt \<Rightarrow> bool" where
  "given sch B Q c \<longleftrightarrow> (\<forall>s s'. has_schema sch s \<longrightarrow> B s \<longrightarrow> c s = Inr s' \<longrightarrow> Q s')"

lemma givenD: "given sch B Q c \<Longrightarrow> has_schema sch s \<Longrightarrow> B s \<Longrightarrow> c s = Inr s' \<Longrightarrow> Q s'"
  by (simp add: given_def)

lemma raw_token_set_stores:
  assumes "raw_token_set f l p t (Some v) [] s = Inr s'" "plain_value v"
  obtains i where "option_token_get_nofail (cfg_options s') t = Some i"
    and "opt_value (cfg_options s' ! i) = Some v \<or> p < opt_prio (cfg_options s' ! i)"
proof -
  from assms obtain i where i: "option_token_get_nofail (cfg_options s) t = Some i"
    and "(if p < opt_prio (cfg_options s ! i) then s
          else s\<lparr> cfg_options := (cfg_options s)[i := store_option f l p v (cfg_options s ! i)],
                 cfg_log := cfg_log s @ replace_log f l p t v (cfg_options s ! i) \<rparr>) = s'"
    by (auto simp: raw_token_set_plain bind_res_eq_Inr Let_def split: if_splits)
  moreover have "option_token_get_nofail ((cfg_options s)[i := store_option f l p v (cfg_options s ! i)]) t = Some i"
    using i by (subst nofail_cong [of _ "cfg_options s"]) (auto intro: nth_list_update_map)
  ultimately show thesis
    using nofail_Some [OF i] by (intro that [of i]) (auto split: if_splits)
qed

lemma above_token_set: "SET_PRIO_TOKEN_SET < p \<longleftrightarrow> p = SET_PRIO_CMD_LINE"
  by (cases p) (simp_all add: prio_order_defs)

lemma plain_y: "plain_value ''y''"
  by (simp add: plain_value_def)

lemma given_set_y: "given sch B (on_or_pinned t) (token_set_y f l t)"
  unfolding given_def token_set_y_def
proof (intro allI impI)
  fix s s'
  assume "raw_token_set f l SET_PRIO_TOKEN_SET t (Some ''y'') [] s = Inr s'"
  from this plain_y show "on_or_pinned t s'"
    by (rule raw_token_set_stores) (auto simp: on_or_pinned_def switched_on_def above_token_set)
qed

definition value_or_pinned :: "string \<Rightarrow> string \<Rightarrow> conf \<Rightarrow> bool" where
  "value_or_pinned t v s \<longleftrightarrow> (\<exists>i. option_token_get_nofail (cfg_options s) t = Some i \<and>
     (opt_value (cfg_options s ! i) = Some v \<or> opt_prio (cfg_options s ! i) = SET_PRIO_CMD_LINE))"

lemma given_set_of:
  assumes "\<And>s. B s \<Longrightarrow> r s = Inr (Some v)" "plain_value v"
  shows "given sch B (value_or_pinned t v) (token_set_of f l t r)"
  unfolding given_def
proof (intro allI impI)
  fix s s'
  assume "B s" "token_set_of f l t r s = Inr s'"
  with assms(1) have "raw_token_set f l SET_PRIO_TOKEN_SET t (Some v) [] s = Inr s'"
    by (simp add: token_set_of_def)
  from this assms(2) show "value_or_pinned t v s'"
    by (rule raw_token_set_stores) (auto simp: value_or_pinned_def above_token_set)
qed

lemma given_Cons_here:
  assumes "given sch B Q c" "ok sch V J c" "ok sch V J (block cs)" "lasting sch V Q"
  shows "given sch B Q (block (c # cs))"
  unfolding given_def
proof (intro allI impI)
  fix s s'
  assume h: "has_schema sch s" and b: "B s" and "block (c # cs) s = Inr s'"
  then obtain s1 where s1: "c s = Inr s1" "block cs s1 = Inr s'" by (auto simp: bind_res_eq_Inr)
  from lastingD [OF assms(4,3) ok_schema [OF assms(2) s1(1) h] s1(2)] givenD [OF assms(1) h b s1(1)]
  show "Q s'" .
qed

lemma given_Cons_later:
  assumes "lasting sch V B" "ok sch V J c" "given sch B Q (block cs)"
  shows "given sch B Q (block (c # cs))"
  unfolding given_def
proof (intro allI impI)
  fix s s'
  assume h: "has_schema sch s" and b: "B s" and "block (c # cs) s = Inr s'"
  then obtain s1 where s1: "c s = Inr s1" "block cs s1 = Inr s'" by (auto simp: bind_res_eq_Inr)
  from givenD [OF assms(3) ok_schema [OF assms(2) s1(1) h] lastingD [OF assms(1,2) h s1(1) b] s1(2)]
  show "Q s'" .
qed

lemma ok_block: "list_all (ok sch V J) cs \<Longrightarrow> ok sch V J (block cs)"
  by (induction cs) (auto intro: ok_Nil ok_Cons simp del: block.simps)

text \<open>The statement at one place of a sequence does it, if the others fit the schema.\<close>

lemma given_nth:
  assumes "lasting sch V B" "lasting sch V Q" "list_all (ok sch V J) cs"
    and "k < length cs" "given sch B Q (cs ! k)"
  shows "given sch B Q (block cs)"
  using assms(3-5)
proof (induction cs arbitrary: k)
  case Nil
  then show ?case by simp
next
  case (Cons c cs)
  show ?case
  proof (cases k)
    case 0
    with Cons.prems show ?thesis
      by (intro given_Cons_here [OF _ _ _ assms(2)]) (auto intro: ok_block simp del: block.simps)
  next
    case (Suc m)
    with Cons show ?thesis
      by (intro given_Cons_later [OF assms(1)]) (auto simp del: block.simps)
  qed
qed

lemma given_when: "given sch B Q (block cs) \<Longrightarrow> (\<And>s. B s \<Longrightarrow> b s = Inr True) \<Longrightarrow> given sch B Q (when_c b cs)"
  by (auto simp: given_def when_c_def ifc_def)

lemma given_if: "given sch B Q (block cs) \<Longrightarrow> (\<And>s. B s \<Longrightarrow> b s = Inr True) \<Longrightarrow> given sch B Q (ifc b cs ds)"
  by (auto simp: given_def ifc_def)

lemma given_when_on: "given sch (\<lambda>s. on t s = Inr True) Q (block cs) \<Longrightarrow>
    given sch (\<lambda>s. on t s = Inr True) Q (when_c (on t) cs)"
  by (rule given_when)

lemma given_fails: "(\<And>s. has_schema sch s \<Longrightarrow> \<exists>e. b s = Inl e) \<Longrightarrow> given sch B Q (when_c b cs)"
  by (fastforce simp: given_def when_c_def ifc_def)

lemma given_Cons_False: "given sch B (\<lambda>s. False) c \<Longrightarrow> given sch B (\<lambda>s. False) (block (c # cs))"
  by (auto simp: given_def bind_res_eq_Inr)

lemma raw_set_on_or_pinned:
  assumes "raw_token_set f l SET_PRIO_TOKEN_SET t (Some v) [] s = Inr s'" "v = ''y'' \<or> v = ''m''"
  shows "on_or_pinned t s'"
proof -
  have v: "vsnprintf 4096 v [] = Some v" "length v \<le> 4094" using assms(2) by (auto simp: vsnprintf_plain)
  with assms(1) obtain i where i: "option_token_get_nofail (cfg_options s) t = Some i"
    and r: "(if SET_PRIO_TOKEN_SET < opt_prio (cfg_options s ! i) then Inr s
             else bind_res (module_value t (cfg_options s ! i) v s) (\<lambda>w.
               Inr (s\<lparr> cfg_options := (cfg_options s)[i := store_option f l SET_PRIO_TOKEN_SET w (cfg_options s ! i)],
                       cfg_log := cfg_log s @ replace_log f l SET_PRIO_TOKEN_SET t w (cfg_options s ! i) \<rparr>))) = Inr s'"
    by (auto simp: raw_token_set_def bind_res_eq_Inr Let_def split: if_splits)
  show ?thesis
  proof (cases "SET_PRIO_TOKEN_SET < opt_prio (cfg_options s ! i)")
    case True
    with r i show ?thesis by (auto simp: on_or_pinned_def above_token_set)
  next
    case False
    with r obtain w where w: "module_value t (cfg_options s ! i) v s = Inr w"
      and s': "cfg_options s' = (cfg_options s)[i := store_option f l SET_PRIO_TOKEN_SET w (cfg_options s ! i)]"
      by (auto simp: bind_res_eq_Inr)
    from module_value_Inr [OF w] assms(2) have "w = ''y'' \<or> w = ''m''" by auto
    moreover from nofail_cong [of "cfg_options s'" "cfg_options s" t] s' i
    have "option_token_get_nofail (cfg_options s') t = Some i"
      by (simp add: nth_list_update_map)
    ultimately show ?thesis
      using s' nofail_Some [OF i] by (auto simp: on_or_pinned_def switched_on_def)
  qed
qed

lemma given_set_m: "given sch B (on_or_pinned t) (token_set_m f l t)"
  by (auto simp: given_def token_set_m_def bind_res_eq_Inr split: if_splits dest!: raw_set_on_or_pinned)

end
