(* ===== verification/Feature_Effects.thy ===== *)
theory Feature_Effects
  imports Create_Config Script_Effects
begin

text \<open>
  What the scripts of the shipped configuration achieve: which options a module brings, which
  operating system and distribution the result names, and conditions under which a script
  can only fail.
\<close>

unbundle bit_operations_syntax

section \<open>Switches apart from the options that carry values\<close>

text \<open>
  The names used below, merged in ascending order with the options that carry values: no name
  is both.
\<close>

definition marked_names :: "(string \<times> bool) list" where
  "marked_names = [
   (''BOARD'', False),
   (''CONFIG_ALIGNMENT_TRAP_MODE'', False),
   (''CONFIG_ARCH_MACHINE'', False),
   (''CONFIG_ATM'', True),
   (''CONFIG_ATM_BR2684'', True),
   (''CONFIG_ATM_PVC_SCAN'', True),
   (''CONFIG_ATM_SKB'', True),
   (''CONFIG_AUTO_LEARN_DNS'', True),
   (''CONFIG_BASE_SMALL'', False),
   (''CONFIG_BCM43XX_MODE'', False),
   (''CONFIG_BCM963XX_BOARD_ID'', False),
   (''CONFIG_BCM963XX_CHIP'', False),
   (''CONFIG_BCM963XX_SDRAM_SIZE'', False),
   (''CONFIG_BLK_DEV_RAM_COUNT'', False),
   (''CONFIG_BLK_DEV_RAM_SIZE'', False),
   (''CONFIG_BOOTLDR_UBOOT_COMP'', False),
   (''CONFIG_BOOT_FREE_MEM_END'', False),
   (''CONFIG_BOOT_FREE_MEM_START'', False),
   (''CONFIG_BOOT_RAM_POS'', False),
   (''CONFIG_BOOT_SP_POS'', False),
   (''CONFIG_CC_ALIGN_FUNCTIONS'', False),
   (''CONFIG_CC_ALIGN_JUMPS'', False),
   (''CONFIG_CC_ALIGN_LABELS'', False),
   (''CONFIG_CC_ALIGN_LOOPS'', False),
   (''CONFIG_CMDLINE'', False),
   (''CONFIG_CON_CHAN'', False),
   (''CONFIG_CON_ZERO_CHAN'', False),
   (''CONFIG_CRAMFS_BLKSZ'', False),
   (''CONFIG_CRAMFS_RAM_ADDR'', False),
   (''CONFIG_CX821XX_COMMON'', True),
   (''CONFIG_CX8620X_SDRAM_SIZE'', False),
   (''CONFIG_DEFAULT_IOSCHED'', False),
   (''CONFIG_EXP_BUS_SHL'', False),
   (''CONFIG_FAT_DEFAULT_CODEPAGE'', False),
   (''CONFIG_FILESERVER_KERNEL_CONFIG'', False),
   (''CONFIG_FLASH_FSTYPE'', False),
   (''CONFIG_FLASH_POS'', False),
   (''CONFIG_FORCE_MAX_ZONEORDER'', False),
   (''CONFIG_FREEPAGES_HIGH'', False),
   (''CONFIG_FREEPAGES_LOW'', False),
   (''CONFIG_FREEPAGES_MIN'', False),
   (''CONFIG_FREESWAN'', True),
   (''CONFIG_HIGHMEM_START'', False),
   (''CONFIG_HW_NUMBER_OF_FXS_PORTS'', False),
   (''CONFIG_HZ'', False),
   (''CONFIG_IEEE1394'', False),
   (''CONFIG_IEEE1394_OHCI1394'', False),
   (''CONFIG_IFX_ASC_DEFAULT_BAUDRATE'', False),
   (''CONFIG_IMG_PRODUCT'', False),
   (''CONFIG_INCAIPASC_DEFAULT_BAUDRATE'', False),
   (''CONFIG_INCAIP_WATCHDOG_TIMEOUT'', False),
   (''CONFIG_INITRAMFS_ROOT_GID'', False),
   (''CONFIG_INITRAMFS_ROOT_UID'', False),
   (''CONFIG_INITRAMFS_SOURCE'', False),
   (''CONFIG_INITRD_ADDR'', False),
   (''CONFIG_INIT_ENV_ARG_LIMIT'', False),
   (''CONFIG_IXDP425_KGDB_UART'', False),
   (''CONFIG_IXP425_CODELETS'', False),
   (''CONFIG_IXP425_CODELET_HSS'', False),
   (''CONFIG_IXP425_ETH'', False),
   (''CONFIG_IXP425_FLASH_E28F128J3'', False),
   (''CONFIG_IXP425_FLASH_E28F640J3'', False),
   (''CONFIG_IXP425_FLASH_USER_PART'', False),
   (''CONFIG_IXP425_NUMBER_OF_FLASH_CHIPS'', False),
   (''CONFIG_IXP425_NUMBER_OF_MEM_CHIPS'', False),
   (''CONFIG_IXP425_SDRAM_SIZE'', False),
   (''CONFIG_JEEVES_RTC7301'', False),
   (''CONFIG_JFFS2_FS'', False),
   (''CONFIG_KERNEL_HALF_GIGS'', False),
   (''CONFIG_KERNEL_STACK_ORDER'', False),
   (''CONFIG_KERNEL_START'', False),
   (''CONFIG_LEGACY_PTY_COUNT'', False),
   (''CONFIG_LOCALVERSION'', False),
   (''CONFIG_LOG_BUF_SHIFT'', False),
   (''CONFIG_LOG_FILES_MAX_SIZE'', False),
   (''CONFIG_LOG_FILES_MIN_SIZE'', False),
   (''CONFIG_LOWMEM_SIZE'', False),
   (''CONFIG_MIPS_L1_CACHE_SHIFT'', False),
   (''CONFIG_MTD_CFI_AMDSTD_RETRY'', False),
   (''CONFIG_MTD_PHYSMAP_BANKWIDTH'', False),
   (''CONFIG_MTD_PHYSMAP_BUSWIDTH'', False),
   (''CONFIG_MTD_PHYSMAP_LEN'', False),
   (''CONFIG_MTD_PHYSMAP_START'', False),
   (''CONFIG_NEST_LEVEL'', False),
   (''CONFIG_NET_IPGRE'', False),
   (''CONFIG_NLS_DEFAULT'', False),
   (''CONFIG_NOMMU_PAGECACHE_THRESHOLD'', False),
   (''CONFIG_NR_CPUS'', False),
   (''CONFIG_PCF8594C2'', False),
   (''CONFIG_PCMCIA'', False),
   (''CONFIG_PHYS_SDRAM_SIZE'', False),
   (''CONFIG_PPPOE_MAX_RETRANSMIT_TIMEOUT'', False),
   (''CONFIG_RALINK_RT2560_TIMECSR'', False),
   (''CONFIG_RAMDISK_SIZE'', False),
   (''CONFIG_RAM_LIMIT'', False),
   (''CONFIG_RG_ADV_SERVICES_LEVEL'', False),
   (''CONFIG_RG_ALG'', True),
   (''CONFIG_RG_ALG_AIM'', True),
   (''CONFIG_RG_ALG_FTP'', True),
   (''CONFIG_RG_ALG_H323'', True),
   (''CONFIG_RG_ALG_ICMP'', True),
   (''CONFIG_RG_ALG_IPSEC'', True),
   (''CONFIG_RG_ALG_L2TP'', True),
   (''CONFIG_RG_ALG_MGCP'', True),
   (''CONFIG_RG_ALG_MSNMS'', True),
   (''CONFIG_RG_ALG_PORT_TRIGGER'', True),
   (''CONFIG_RG_ALG_PPTP'', True),
   (''CONFIG_RG_ALG_RTSP'', True),
   (''CONFIG_RG_ALG_SIP'', True),
   (''CONFIG_RG_ATA'', True),
   (''CONFIG_RG_BLUETOOTH'', True),
   (''CONFIG_RG_BRIDGE'', True),
   (''CONFIG_RG_CABLEHOME'', True),
   (''CONFIG_RG_CABLEHOME_11'', True),
   (''CONFIG_RG_CABLEHOME_EMBEDDED'', True),
   (''CONFIG_RG_CHECK_BAD_REBOOTS'', True),
   (''CONFIG_RG_CODEPAGE'', False),
   (''CONFIG_RG_CONSOLE_DEVICE'', False),
   (''CONFIG_RG_CRAMFS_COMP_METHOD'', False),
   (''CONFIG_RG_DHCPR'', True),
   (''CONFIG_RG_DHCPS'', True),
   (''CONFIG_RG_DISK_MNG'', True),
   (''CONFIG_RG_DIST'', False),
   (''CONFIG_RG_DIST_LANG'', False),
   (''CONFIG_RG_DNS_CONCURRENT'', True),
   (''CONFIG_RG_DSLHOME'', True),
   (''CONFIG_RG_DSLHOME_VOUCHERS'', True),
   (''CONFIG_RG_EVENT_LOGGING'', True),
   (''CONFIG_RG_EXTERNAL_TOOLS_PATH'', False),
   (''CONFIG_RG_FASTPATH_PLAT_PATH'', False),
   (''CONFIG_RG_FILESERVER'', True),
   (''CONFIG_RG_FIREWALL'', True),
   (''CONFIG_RG_FLASH_LAYOUT_SIZE'', False),
   (''CONFIG_RG_FOUNDATION_CORE'', True),
   (''CONFIG_RG_HW'', False),
   (''CONFIG_RG_HW_DESC_STR'', False),
   (''CONFIG_RG_IGD'', True),
   (''CONFIG_RG_IPP'', True),
   (''CONFIG_RG_IPV6'', True),
   (''CONFIG_RG_JPKG_DIST'', False),
   (''CONFIG_RG_KAFFE'', True),
   (''CONFIG_RG_KERNEL_COMP_METHOD'', False),
   (''CONFIG_RG_L2TPC'', True),
   (''CONFIG_RG_L2TPS'', True),
   (''CONFIG_RG_LANGUAGES'', False),
   (''CONFIG_RG_LOG_DEV_BUF_SIZE'', False),
   (''CONFIG_RG_LPD'', True),
   (''CONFIG_RG_MAIL_FILTER'', True),
   (''CONFIG_RG_MAX_EXT2_CHECK_SIZE'', False),
   (''CONFIG_RG_MAX_FAT_CHECK_SIZE'', False),
   (''CONFIG_RG_MSS'', True),
   (''CONFIG_RG_NAT'', True),
   (''CONFIG_RG_OS'', False),
   (''CONFIG_RG_OSS_RMT'', True),
   (''CONFIG_RG_OS_ECOS'', True),
   (''CONFIG_RG_OS_LINUX_24'', True),
   (''CONFIG_RG_OS_LINUX_26'', True),
   (''CONFIG_RG_OS_VXWORKS'', True),
   (''CONFIG_RG_PBX'', True),
   (''CONFIG_RG_PING'', True),
   (''CONFIG_RG_PPP'', True),
   (''CONFIG_RG_PPPOE'', True),
   (''CONFIG_RG_PPPOE_RELAY'', True),
   (''CONFIG_RG_PPPOS'', True),
   (''CONFIG_RG_PPP_DEFAULT_BSD_COMPRESSION'', False),
   (''CONFIG_RG_PPP_DEFAULT_DEFLATE_COMPRESSION'', False),
   (''CONFIG_RG_PPP_MPPE'', True),
   (''CONFIG_RG_PPP_ON_DEMAND_DEFAULT_MAX_IDLE_TIME'', False),
   (''CONFIG_RG_PPTPC'', True),
   (''CONFIG_RG_PPTPS'', True),
   (''CONFIG_RG_PPTP_ECHO_FAILURE'', False),
   (''CONFIG_RG_PPTP_ECHO_INTERVAL'', False),
   (''CONFIG_RG_PRINT_SERVER'', True),
   (''CONFIG_RG_PRINT_SERVER_SPOOL'', False),
   (''CONFIG_RG_QOS'', True),
   (''CONFIG_RG_RIP'', True),
   (''CONFIG_RG_RMT_MNG'', True),
   (''CONFIG_RG_RNAT'', True),
   (''CONFIG_RG_ROUTE_MULTIWAN'', True),
   (''CONFIG_RG_SAMBA'', True),
   (''CONFIG_RG_SMB'', True),
   (''CONFIG_RG_SSID_NAME'', False),
   (''CONFIG_RG_SSL'', True),
   (''CONFIG_RG_SSL_VPN'', True),
   (''CONFIG_RG_SURFCONTROL'', True),
   (''CONFIG_RG_SURFCONTROL_PARTNER_ID'', False),
   (''CONFIG_RG_SYSLOG_FW_DEF_SIZE'', False),
   (''CONFIG_RG_TELNETS'', True),
   (''CONFIG_RG_TODC'', True),
   (''CONFIG_RG_TRACEROUTE'', True),
   (''CONFIG_RG_TR_064'', True),
   (''CONFIG_RG_TR_098'', True),
   (''CONFIG_RG_TZ_COMMON'', True),
   (''CONFIG_RG_TZ_YEARS'', False),
   (''CONFIG_RG_UCD_SNMP'', True),
   (''CONFIG_RG_UCD_SNMP_V3'', True),
   (''CONFIG_RG_URL_KEYWORD_FILTER'', True),
   (''CONFIG_RG_VOIP_ASTERISK_H323'', True),
   (''CONFIG_RG_VOIP_ASTERISK_MGCP_CALL_AGENT'', True),
   (''CONFIG_RG_VOIP_ASTERISK_MGCP_GW'', True),
   (''CONFIG_RG_VOIP_ASTERISK_SIP'', True),
   (''CONFIG_RG_VOIP_OSIP'', True),
   (''CONFIG_RG_VOIP_RV_H323'', True),
   (''CONFIG_RG_VOIP_RV_MGCP'', True),
   (''CONFIG_RG_VOIP_RV_SIP'', True),
   (''CONFIG_RG_WBM'', True),
   (''CONFIG_RG_XML'', True),
   (''CONFIG_SDRAM_BASE'', False),
   (''CONFIG_SDRAM_SIZE'', False),
   (''CONFIG_SD_EXTRA_DEVS'', False),
   (''CONFIG_SERIAL_8250_NR_UARTS'', False),
   (''CONFIG_SERIAL_8250_RUNTIME_UARTS'', False),
   (''CONFIG_SERIAL_SOLOS_CONSOLE_BAUD'', False),
   (''CONFIG_SPLIT_PTLOCK_CPUS'', False),
   (''CONFIG_SSL_CHAN'', False),
   (''CONFIG_STUB_CODE'', False),
   (''CONFIG_STUB_DATA'', False),
   (''CONFIG_STUB_START'', False),
   (''CONFIG_TASK_SIZE'', False),
   (''CONFIG_TOP_ADDR'', False),
   (''CONFIG_UML_RAM_SIZE'', False),
   (''CONFIG_UNIX98_PTY_COUNT'', False),
   (''CONFIG_USB_EHCI_HCD'', False),
   (''CONFIG_USB_OHCI'', False),
   (''CONFIG_USB_OHCI_HCD'', False),
   (''CONFIG_USB_OV511'', False),
   (''CONFIG_USB_PWC'', False),
   (''CONFIG_USB_SPCA5XX'', False),
   (''CONFIG_USB_STORAGE'', False),
   (''CONFIG_USB_UHCI'', False),
   (''CONFIG_USB_UHCI_HCD'', False),
   (''CONFIG_VINETIC_LINES_PER_CHIP'', False),
   (''CONFIG_WSTL_CPLD_REVISION'', False),
   (''CONFIG_X86_L1_CACHE_SHIFT'', False),
   (''CONFIG_ZBOOT_ROM_BSS'', False),
   (''CONFIG_ZBOOT_ROM_TEXT'', False),
   (''CONFIG_ZC_IP_AUTO_DETECTION'', True),
   (''CONFIG_ZERO_CONFIGURATION'', True),
   (''DIST_TYPE'', False),
   (''ENDIANESS_SUFFIX'', False),
   (''FIRM'', False),
   (''IO_SPACE_LIMIT'', False),
   (''JPKG_ARCH'', False),
   (''LIBC_ARCH'', False),
   (''LIBC_IN_TOOLCHAIN'', False),
   (''LIC_AUTOCONF'', False),
   (''MAX_DMA_ADDRESS'', False),
   (''MODULE_RG_ADVANCED_MANAGEMENT'', True),
   (''MODULE_RG_ADVANCED_OFFICE_SERVERS'', True),
   (''MODULE_RG_ADVANCED_ROUTING'', True),
   (''MODULE_RG_ATA'', True),
   (''MODULE_RG_BLUETOOTH'', True),
   (''MODULE_RG_CABLEHOME'', True),
   (''MODULE_RG_DSL'', True),
   (''MODULE_RG_DSLHOME'', True),
   (''MODULE_RG_FILESERVER'', True),
   (''MODULE_RG_FIREWALL_AND_SECURITY'', True),
   (''MODULE_RG_FOUNDATION'', True),
   (''MODULE_RG_IPSEC'', True),
   (''MODULE_RG_IPV6'', True),
   (''MODULE_RG_JVM'', True),
   (''MODULE_RG_L2TP'', True),
   (''MODULE_RG_MAIL_FILTER'', True),
   (''MODULE_RG_PBX'', True),
   (''MODULE_RG_PPP'', True),
   (''MODULE_RG_PPTP'', True),
   (''MODULE_RG_PRINTSERVER'', True),
   (''MODULE_RG_QOS'', True),
   (''MODULE_RG_ROUTE_MULTIWAN'', True),
   (''MODULE_RG_SNMP'', True),
   (''MODULE_RG_SSL_VPN'', True),
   (''MODULE_RG_TR_064'', True),
   (''MODULE_RG_TR_098'', True),
   (''MODULE_RG_UPNP'', True),
   (''MODULE_RG_URL_FILTERING'', True),
   (''MODULE_RG_VOIP_ASTERISK_H323'', True),
   (''MODULE_RG_VOIP_ASTERISK_MGCP_CALL_AGENT'', True),
   (''MODULE_RG_VOIP_ASTERISK_MGCP_GW'', True),
   (''MODULE_RG_VOIP_ASTERISK_SIP'', True),
   (''MODULE_RG_VOIP_OSIP'', True),
   (''MODULE_RG_VOIP_RV_H323'', True),
   (''MODULE_RG_VOIP_RV_MGCP'', True),
   (''MODULE_RG_VOIP_RV_SIP'', True),
   (''MODULE_RG_WLAN_AND_ADVANCED_WLAN'', True),
   (''MODULE_RG_ZERO_CONFIGURATION_NETWORKING'', True),
   (''MSP_CODE_LOCATION'', False),
   (''MSP_NODE_LOCATION'', False),
   (''OPENRG_CHRDEV_MAJOR'', False),
   (''OPENRG_CHRDEV_NAME'', False),
   (''PACKAGE_OPENRG_BASIC_GATEWAY'', True),
   (''PACKAGE_OPENRG_SECURITY_GATEWAY'', True),
   (''PACKAGE_OPENRG_SOHO_GATEWAY'', True),
   (''PACKAGE_OPENRG_VPN_GATEWAY'', True),
   (''RAM_HIGH_ADRS'', False),
   (''RAM_LOW_ADRS'', False),
   (''RG_PROD_STR'', False),
   (''RMT_UPG_SITE'', False),
   (''RMT_UPG_URL'', False),
   (''TARGET_ENDIANESS'', False),
   (''TARGET_MACHINE'', False),
   (''UML_CONFIG_STUB_DATA'', False)]"

fun unmarked :: "string list \<Rightarrow> (string \<times> bool) list \<Rightarrow> bool" where
  "unmarked vs [] \<longleftrightarrow> vs = []"
| "unmarked vs ((t, b) # ys) \<longleftrightarrow> (if b then unmarked vs ys else vs \<noteq> [] \<and> hd vs = t \<and> unmarked (tl vs) ys)"

lemma unmarked_Nil: "unmarked [] []"
  and unmarked_True: "unmarked vs ys \<Longrightarrow> unmarked vs ((t, True) # ys)"
  and unmarked_False: "unmarked vs ys \<Longrightarrow> unmarked (v # vs) ((v, False) # ys)"
  by simp_all

lemmas unmarked_intros = unmarked_Nil unmarked_True unmarked_False

lemma unmarked_in: "unmarked vs ys \<Longrightarrow> v \<in> set vs \<Longrightarrow> (v, False) \<in> set ys"
proof (induction vs ys rule: unmarked.induct)
  case (2 vs t b ys)
  then show ?case by (cases vs) (auto split: if_splits)
qed simp

lemma ascends_marked: "ascends ''ARCH'' (map fst marked_names)"
  unfolding marked_names_def list.map prod.sel by (intro ascends_intros; simp)

lemma marked_value_tokens: "unmarked value_token_list ((''ARCH'', False) # marked_names)"
  unfolding value_token_list_def marked_names_def by (intro unmarked_intros)

lemma marked_no_value:
  assumes "(t, True) \<in> set ((''ARCH'', False) # marked_names)"
  shows "t \<notin> value_tokens"
proof
  assume "t \<in> value_tokens"
  then have "(t, False) \<in> set ((''ARCH'', False) # marked_names)"
    using unmarked_in [OF marked_value_tokens] by (auto simp: value_tokens_def)
  moreover have "distinct (map fst ((''ARCH'', False) # marked_names))"
    using ascends_distinct [OF ascends_marked] by simp
  ultimately have "False = True" using assms eq_key_imp_eq_value [of "(''ARCH'', False) # marked_names"] by blast
  then show False by simp
qed

lemma marked_switches:
  "list_all (\<lambda>x. if snd x then fst x \<notin> value_tokens else True) ((''ARCH'', False) # marked_names)"
proof -
  have "if b then t \<notin> value_tokens else True" if "(t, b) \<in> set ((''ARCH'', False) # marked_names)" for t b
    using that marked_no_value [of t] by (cases b) simp_all
  then show ?thesis unfolding list_all_iff by (metis prod.collapse)
qed

lemmas switch_facts [simp] = marked_switches [unfolded marked_names_def list.pred_inject prod.sel if_True if_False simp_thms]

section \<open>What switches bring\<close>

text \<open>
  \<open>brings m ts c\<close>: with \<open>m\<close> on before the script \<open>c\<close>, each option of \<open>ts\<close> is on
  after it, or was pinned by the command line. \<open>achieves\<close> says so of several switches.
\<close>

definition brings :: "string \<Rightarrow> string list \<Rightarrow> stmt \<Rightarrow> bool" where
  "brings m ts c \<longleftrightarrow> ok base_schema value_tokens {} c \<and>
     (\<forall>t \<in> set ts. t \<notin> value_tokens \<and> given base_schema (\<lambda>s. on m s = Inr True) (on_or_pinned t) c)"

definition achieves :: "(string \<times> string list) list \<Rightarrow> stmt \<Rightarrow> bool" where
  "achieves ps c \<longleftrightarrow> ok base_schema value_tokens {} c \<and>
     (\<forall>(m, ts) \<in> set ps. switch base_schema m \<and> m \<notin> value_tokens \<and> brings m ts c)"

lemma brings_Nil: "ok base_schema value_tokens {} c \<Longrightarrow> brings m [] c"
  by (simp add: brings_def)

lemma brings_later:
  assumes "switch base_schema m" "m \<notin> value_tokens" "ok base_schema value_tokens {} c" "brings m ts (block cs)"
  shows "brings m ts (block (c # cs))"
  using assms given_Cons_later [OF lasting_on [OF assms(1,2)] assms(3)] by (auto simp: brings_def intro: ok_Cons simp del: block.simps)

lemma brings_first:
  assumes "brings m ts c" "ok base_schema value_tokens {} (block cs)"
  shows "brings m ts (block (c # cs))"
  using assms given_Cons_here [OF _ _ assms(2) lasting_on_or_pinned]
  by (auto simp: brings_def intro: ok_Cons simp del: block.simps)

lemma brings_set:
  assumes "switch base_schema m" "m \<notin> value_tokens" "t \<notin> value_tokens"
    and "given base_schema (\<lambda>s. on m s = Inr True) (on_or_pinned t) c" "ok base_schema value_tokens {} c"
    and "brings m ts (block cs)"
  shows "brings m (t # ts) (block (c # cs))"
proof -
  from assms(6) have "ok base_schema value_tokens {} (block cs)" by (simp add: brings_def)
  with assms brings_first [of m "[t]" c cs] brings_later [of m c ts cs]
  show ?thesis by (auto simp: brings_def simp del: block.simps)
qed

lemma brings_set_y:
  "switch base_schema m \<Longrightarrow> m \<notin> value_tokens \<Longrightarrow> switch base_schema t \<Longrightarrow> t \<notin> value_tokens \<Longrightarrow>
   brings m ts (block cs) \<Longrightarrow> brings m (t # ts) (block (token_set_y f l t # cs))"
  by (rule brings_set) (auto intro: given_set_y shipped.ok_set_y simp del: block.simps)

lemma brings_set_m:
  "switch base_schema m \<Longrightarrow> m \<notin> value_tokens \<Longrightarrow> switch base_schema t \<Longrightarrow> modular base_schema t \<Longrightarrow> t \<notin> value_tokens \<Longrightarrow>
   brings m ts (block cs) \<Longrightarrow> brings m (t # ts) (block (token_set_m f l t # cs))"
  by (rule brings_set) (auto intro: given_set_m shipped.ok_set_m simp del: block.simps)

lemma brings_when: "testable base_schema m \<Longrightarrow> brings m ts (block cs) \<Longrightarrow> brings m ts (when_c (on m) cs)"
  unfolding brings_def by (auto intro: ok_when given_when_on rsafe_on simp del: block.simps)

lemma achieves_Nil: "ok base_schema value_tokens {} c \<Longrightarrow> achieves [] c"
  by (simp add: achieves_def)

lemma achieves_later:
  "ok base_schema value_tokens {} c \<Longrightarrow> achieves ps (block cs) \<Longrightarrow> achieves ps (block (c # cs))"
  by (auto simp: achieves_def intro: ok_Cons brings_later simp del: block.simps)

lemma achieves_Cons:
  assumes "achieves ps c" "achieves qs (block cs)"
  shows "achieves (ps @ qs) (block (c # cs))"
proof -
  from assms have oks: "ok base_schema value_tokens {} c" "ok base_schema value_tokens {} (block cs)"
    by (simp_all add: achieves_def)
  have "switch base_schema m \<and> m \<notin> value_tokens \<and> brings m ts (block (c # cs))"
    if "(m, ts) \<in> set (ps @ qs)" for m ts
  proof -
    from that consider "(m, ts) \<in> set ps" | "(m, ts) \<in> set qs" by auto
    then show ?thesis
      by cases (insert assms oks, auto simp: achieves_def simp del: block.simps
          dest!: bspec intro: brings_first brings_later)
  qed
  with oks show ?thesis by (auto simp: achieves_def intro: ok_Cons simp del: block.simps)
qed

lemma achieves_when:
  assumes "switch base_schema m" "m \<notin> value_tokens" "testable base_schema m" "brings m ts (block cs)" "achieves ps (block ds)"
  shows "achieves ((m, ts) # ps) (block (when_c (on m) cs # ds))"
proof -
  from brings_when [OF assms(3,4)] assms(1,2) have "achieves [(m, ts)] (when_c (on m) cs)"
    by (simp add: achieves_def brings_def)
  from achieves_Cons [OF this assms(5)] show ?thesis by simp
qed

lemmas achieves_walk =
  achieves_Nil brings_Nil achieves_when brings_set_y brings_set_m achieves_later brings_later

text \<open>The modules and the options each brings without further condition.\<close>

definition module_options_1 :: "(string \<times> string list) list" where
  "module_options_1 = [
     (''MODULE_RG_SNMP'', [''CONFIG_RG_UCD_SNMP'', ''CONFIG_RG_UCD_SNMP_V3'']),
     (''MODULE_RG_UPNP'', [''CONFIG_RG_IGD'']),
     (''MODULE_RG_ADVANCED_ROUTING'', [''CONFIG_RG_RIP'', ''CONFIG_RG_DNS_CONCURRENT'']),
     (''MODULE_RG_FIREWALL_AND_SECURITY'', [''CONFIG_RG_RNAT'', ''CONFIG_RG_FIREWALL'', ''CONFIG_RG_TODC'']),
     (''MODULE_RG_CABLEHOME'', [''CONFIG_RG_CABLEHOME_11'', ''CONFIG_RG_CABLEHOME'', ''CONFIG_RG_CABLEHOME_EMBEDDED'']),
     (''MODULE_RG_BLUETOOTH'', [''CONFIG_RG_BLUETOOTH''])]"

definition module_options_2 :: "(string \<times> string list) list" where
  "module_options_2 = [
     (''MODULE_RG_FOUNDATION'', [''CONFIG_RG_FOUNDATION_CORE'', ''CONFIG_RG_CHECK_BAD_REBOOTS'', ''CONFIG_RG_DHCPS'',
       ''CONFIG_AUTO_LEARN_DNS'', ''CONFIG_RG_DHCPR'', ''CONFIG_RG_TELNETS'',
       ''CONFIG_RG_BRIDGE'', ''CONFIG_RG_NAT'', ''CONFIG_RG_ALG'', ''CONFIG_RG_ALG_SIP'',
       ''CONFIG_RG_ALG_MGCP'', ''CONFIG_RG_ALG_H323'', ''CONFIG_RG_ALG_AIM'',
       ''CONFIG_RG_ALG_MSNMS'', ''CONFIG_RG_ALG_PPTP'', ''CONFIG_RG_ALG_IPSEC'',
       ''CONFIG_RG_ALG_L2TP'', ''CONFIG_RG_ALG_ICMP'', ''CONFIG_RG_ALG_PORT_TRIGGER'',
       ''CONFIG_RG_ALG_FTP'', ''CONFIG_RG_ALG_RTSP'', ''CONFIG_RG_PPPOE_RELAY'',
       ''CONFIG_RG_MSS'', ''CONFIG_RG_RMT_MNG'', ''CONFIG_RG_OSS_RMT'', ''CONFIG_RG_PING'',
       ''CONFIG_RG_TRACEROUTE'', ''CONFIG_RG_WBM'', ''CONFIG_RG_TZ_COMMON'',
       ''CONFIG_ZC_IP_AUTO_DETECTION''])]"

definition module_options_3 :: "(string \<times> string list) list" where
  "module_options_3 = [
     (''MODULE_RG_ADVANCED_MANAGEMENT'', [''CONFIG_RG_SSL'', ''CONFIG_RG_EVENT_LOGGING'']),
     (''MODULE_RG_PPTP'', [''CONFIG_RG_PPTPC'', ''CONFIG_RG_PPTPS'', ''CONFIG_RG_PPP_MPPE'', ''CONFIG_RG_PPP''])]"

definition module_options_4 :: "(string \<times> string list) list" where
  "module_options_4 = [
     (''MODULE_RG_PPP'', [''CONFIG_RG_PPP'', ''CONFIG_RG_PPPOE'', ''CONFIG_RG_PPPOS'']),
     (''MODULE_RG_DSL'', [''CONFIG_ATM'', ''CONFIG_ATM_PVC_SCAN'', ''CONFIG_ATM_SKB'', ''CONFIG_ATM_BR2684'']),
     (''MODULE_RG_IPV6'', [''CONFIG_RG_IPV6'']),
     (''MODULE_RG_PRINTSERVER'', [''CONFIG_RG_PRINT_SERVER'', ''CONFIG_RG_IPP'', ''CONFIG_RG_LPD'']),
     (''MODULE_RG_ADVANCED_OFFICE_SERVERS'', [''CONFIG_RG_DISK_MNG''])]"

definition module_options_5 :: "(string \<times> string list) list" where
  "module_options_5 = [
     (''MODULE_RG_FILESERVER'', [''CONFIG_RG_DISK_MNG'', ''CONFIG_RG_FILESERVER'', ''CONFIG_RG_SAMBA'']),
     (''MODULE_RG_IPSEC'', [''CONFIG_FREESWAN'']),
     (''MODULE_RG_L2TP'', [''CONFIG_RG_L2TPC'', ''CONFIG_RG_L2TPS'', ''CONFIG_RG_PPP_MPPE'', ''CONFIG_RG_PPP'']),
     (''MODULE_RG_ATA'', [''CONFIG_RG_ATA'']),
     (''MODULE_RG_PBX'', [''CONFIG_RG_PBX'']),
     (''MODULE_RG_VOIP_RV_SIP'', [''CONFIG_RG_VOIP_RV_SIP'']),
     (''MODULE_RG_VOIP_RV_H323'', [''CONFIG_RG_VOIP_RV_H323'']),
     (''MODULE_RG_VOIP_RV_MGCP'', [''CONFIG_RG_VOIP_RV_MGCP'']),
     (''MODULE_RG_VOIP_ASTERISK_SIP'', [''CONFIG_RG_VOIP_ASTERISK_SIP'']),
     (''MODULE_RG_VOIP_ASTERISK_H323'', [''CONFIG_RG_VOIP_ASTERISK_H323'']),
     (''MODULE_RG_VOIP_ASTERISK_MGCP_GW'', [''CONFIG_RG_VOIP_ASTERISK_MGCP_GW'']),
     (''MODULE_RG_VOIP_ASTERISK_MGCP_CALL_AGENT'', [''CONFIG_RG_VOIP_ASTERISK_MGCP_CALL_AGENT'']),
     (''MODULE_RG_VOIP_OSIP'', [''CONFIG_RG_VOIP_OSIP'']),
     (''MODULE_RG_URL_FILTERING'', [''CONFIG_RG_SURFCONTROL'', ''CONFIG_RG_URL_KEYWORD_FILTER'']),
     (''MODULE_RG_QOS'', [''CONFIG_RG_QOS'']),
     (''MODULE_RG_ROUTE_MULTIWAN'', [''CONFIG_RG_ROUTE_MULTIWAN''])]"

definition module_options_6 :: "(string \<times> string list) list" where
  "module_options_6 = [
     (''MODULE_RG_DSLHOME'', [''CONFIG_RG_DSLHOME'', ''CONFIG_RG_DSLHOME_VOUCHERS'']),
     (''MODULE_RG_TR_098'', [''CONFIG_RG_TR_098'']),
     (''MODULE_RG_MAIL_FILTER'', [''CONFIG_RG_MAIL_FILTER'']),
     (''MODULE_RG_ZERO_CONFIGURATION_NETWORKING'', [''CONFIG_ZERO_CONFIGURATION'']),
     (''MODULE_RG_TR_064'', [''CONFIG_RG_TR_064'']),
     (''MODULE_RG_JVM'', [''CONFIG_RG_KAFFE'']),
     (''MODULE_RG_SSL_VPN'', [''CONFIG_RG_SSL_VPN'', ''CONFIG_RG_XML''])]"

definition module_options :: "(string \<times> string list) list" where
  "module_options = module_options_1 @ module_options_2 @ module_options_3 @ module_options_4 @ module_options_5 @ module_options_6"

definition package_modules :: "(string \<times> string list) list" where
  "package_modules = [
     (''PACKAGE_OPENRG_SOHO_GATEWAY'', [''MODULE_RG_FOUNDATION'', ''MODULE_RG_ADVANCED_MANAGEMENT'', ''MODULE_RG_SNMP'',
       ''MODULE_RG_UPNP'', ''MODULE_RG_ADVANCED_ROUTING'',
       ''MODULE_RG_FIREWALL_AND_SECURITY'', ''MODULE_RG_WLAN_AND_ADVANCED_WLAN'',
       ''MODULE_RG_PPTP'', ''MODULE_RG_IPSEC'', ''MODULE_RG_L2TP'', ''MODULE_RG_FILESERVER'',
       ''MODULE_RG_PRINTSERVER'', ''CONFIG_RG_SMB'']),
     (''PACKAGE_OPENRG_VPN_GATEWAY'', [''MODULE_RG_FOUNDATION'', ''MODULE_RG_ADVANCED_MANAGEMENT'', ''MODULE_RG_SNMP'',
       ''MODULE_RG_UPNP'', ''MODULE_RG_ADVANCED_ROUTING'',
       ''MODULE_RG_FIREWALL_AND_SECURITY'', ''MODULE_RG_WLAN_AND_ADVANCED_WLAN'',
       ''MODULE_RG_PPTP'', ''MODULE_RG_IPSEC'', ''MODULE_RG_L2TP'']),
     (''PACKAGE_OPENRG_SECURITY_GATEWAY'', [''MODULE_RG_FOUNDATION'', ''MODULE_RG_ADVANCED_MANAGEMENT'', ''MODULE_RG_SNMP'',
       ''MODULE_RG_UPNP'', ''MODULE_RG_ADVANCED_ROUTING'',
       ''MODULE_RG_FIREWALL_AND_SECURITY'', ''MODULE_RG_WLAN_AND_ADVANCED_WLAN'']),
     (''PACKAGE_OPENRG_BASIC_GATEWAY'', [''MODULE_RG_FOUNDATION'', ''MODULE_RG_ADVANCED_MANAGEMENT''])]"

lemma achieves_1: "achieves module_options_1 general_features_1"
  unfolding module_options_1_def general_features_1_def
  by (rule achieves_walk | (intro safe_intros shipped.ok_sets shipped.ok_enable_module; simp)[1] | simp)+

lemma achieves_2: "achieves module_options_2 general_features_2"
  unfolding module_options_2_def general_features_2_def
  by (rule achieves_walk | (intro safe_intros shipped.ok_sets shipped.ok_enable_module; simp)[1] | simp)+

lemma achieves_3: "achieves module_options_3 general_features_3"
  unfolding module_options_3_def general_features_3_def
  by (rule achieves_walk | (intro safe_intros shipped.ok_sets shipped.ok_enable_module; simp)[1] | simp)+

lemma achieves_4: "achieves module_options_4 general_features_4"
  unfolding module_options_4_def general_features_4_def
  by (rule achieves_walk | (intro safe_intros shipped.ok_sets shipped.ok_enable_module; simp)[1] | simp)+

lemma achieves_5: "achieves module_options_5 general_features_5"
  unfolding module_options_5_def general_features_5_def
  by (rule achieves_walk | (intro safe_intros shipped.ok_sets shipped.ok_enable_module; simp)[1] | simp)+

lemma achieves_6: "achieves module_options_6 general_features_6"
  unfolding module_options_6_def general_features_6_def
  by (rule achieves_walk | (intro safe_intros shipped.ok_sets shipped.ok_enable_module; simp)[1] | simp)+

section \<open>Modules and packages\<close>

text \<open>The first six pieces of \<open>general_features\<close> expand the modules.\<close>

lemma achieves_general: "achieves module_options general_features"
proof -
  note a = achieves_Cons [OF achieves_1] achieves_Cons [OF achieves_2] achieves_Cons [OF achieves_3]
    achieves_Cons [OF achieves_4] achieves_Cons [OF achieves_5] achieves_Cons [OF achieves_6]
  have "achieves (module_options_1 @ module_options_2 @ module_options_3 @ module_options_4 @ module_options_5
      @ module_options_6 @ []) general_features"
    unfolding general_features_def
    by (intro a achieves_Nil) (intro safe_intros safe_scripts)
  then show ?thesis by (simp add: module_options_def)
qed

lemma achieves_packages: "achieves package_modules package_features"
  unfolding package_modules_def package_features_def
  by (rule achieves_walk | (intro safe_intros shipped.ok_sets shipped.ok_enable_module; simp)[1] | simp)+

interpretation any_values: script_schema base_schema V for V
  by unfold_locales simp_all

lemma live_packages: "live base_schema package_features"
  unfolding package_features_def by (intro live_intros any_values.live_set_m; simp)

lemma live_openrg: "live base_schema openrg_features"
  unfolding openrg_features_def by (intro live_intros any_values.live_set_m; simp)

lemma live_os_features: "live base_schema target_os_features"
  unfolding target_os_features_def target_os_features_1_def target_os_features_2_def
  by (intro live_intros any_values.live_set_m; simp)

lemma live_primary_os: "live base_schema target_primary_os"
  unfolding target_primary_os_def by (intro live_intros any_values.live_set_m; simp)

section \<open>An option no table declares\<close>

lemma on_undeclared: "has_schema base_schema s \<Longrightarrow> \<exists>e. on ''CONFIG_KNCX821XX_PCB'' s = Inl e"
proof -
  assume h: "has_schema base_schema s"
  have "option_token_get_nofail (cfg_options s) ''CONFIG_KNCX821XX_PCB'' = None"
    using h undeclared_option nofail_settable [of "cfg_options s" "''CONFIG_KNCX821XX_PCB''"]
    by (cases "option_token_get_nofail (cfg_options s) ''CONFIG_KNCX821XX_PCB''")
      (simp_all add: has_schema_def)
  then show ?thesis by (simp add: on_def token_get_def option_token_get_def)
qed

lemma last_cx821xx: "lasting base_schema value_tokens (\<lambda>s. on ''CONFIG_CX821XX_COMMON'' s = Inr True)"
  by (rule lasting_on) simp_all

lemmas later_cx821xx = given_Cons_later [OF last_cx821xx, where J = "{}"]

lemma given_cx821xx:
  "given base_schema (\<lambda>s. on ''CONFIG_CX821XX_COMMON'' s = Inr True) (\<lambda>s. False) general_features_19"
  unfolding general_features_19_def
  by (rule given_Cons_False, rule given_when_on)
    ((rule given_Cons_False, rule given_fails, erule on_undeclared) |
     (rule later_cx821xx, (intro safe_intros shipped.ok_sets; simp)[1]))+



lemma never_cx821xx:
  "given base_schema (\<lambda>s. on ''CONFIG_CX821XX_COMMON'' s = Inr True) (\<lambda>s. False) general_features"
proof -
  note later = given_Cons_later [OF last_cx821xx, where J = "{}"]
  show ?thesis unfolding general_features_def
    by ((rule given_Cons_False, rule given_cx821xx) | (rule later, (intro safe_scripts)[1]))+
qed

section \<open>States to start from\<close>

text \<open>The initial state with some switches on.\<close>

definition switched :: "string list \<Rightarrow> conf" where
  "switched ts = initial_conf (map (\<lambda>o1. if opt_token o1 \<in> set ts then o1\<lparr> opt_value := Some ''y'' \<rparr> else o1)
     config_options_base)"

lemma switched_schema: "has_schema base_schema (switched ts)"
proof -
  let ?f = "\<lambda>o1. if opt_token o1 \<in> set ts then o1\<lparr> opt_value := Some ''y'' \<rparr> else o1"
  have "map opt_token (map ?f os) = map opt_token os" "schema_of (map ?f os) = schema_of os" for os
    by (simp_all add: schema_of_def)
  with distinct_config_options_base show ?thesis
    by (simp add: switched_def initial_conf_def Let_def has_schema_def base_schema_def del: map_map)
qed

lemma switched_value:
  assumes "switch base_schema t" "t \<in> set ts"
  shows "on t (switched ts) = Inr True"
proof -
  from assms(1) switch_settable have "settable base_schema t" by blast
  from has_schema_settable [OF switched_schema this] obtain i where
    i: "option_token_get_nofail (cfg_options (switched ts)) t = Some i" ..
  have "opt_value o1 = Some ''y''" if "o1 \<in> set (cfg_options (switched ts))" "opt_token o1 = t" for o1
    using that assms(2) by (auto simp: switched_def initial_conf_def Let_def init_configs_def split: if_splits)
  with nofail_Some [OF i] i have "on_in t (switched ts)"
    by (auto simp: on_in_def switched_on_def)
  with on_on_in [OF assms(1) switched_schema] show ?thesis by simp
qed

section \<open>Properties\<close>

text \<open>
  With \<open>CONFIG_CX821XX_COMMON\<close> on, \<open>general_features\<close> always fails: it tests
  \<open>CONFIG_KNCX821XX_PCB\<close>, an option that no table declares.
\<close>

theorem cx821xx_never_configured:
  assumes "has_schema base_schema s" "on ''CONFIG_CX821XX_COMMON'' s = Inr True"
  shows "\<exists>e. general_features s = Inl e \<and> script_failure e"
proof (cases "general_features s")
  case (Inl e)
  moreover have "ok base_schema value_tokens {} general_features" using achieves_general by (simp add: achieves_def)
  ultimately show ?thesis using assms(1) by (auto dest: ok_safe safeD)
next
  case (Inr s')
  with givenD [OF never_cx821xx assms] show ?thesis by simp
qed

theorem cx821xx_never_configured_witness:
  "\<exists>e. general_features (switched [''CONFIG_CX821XX_COMMON'']) = Inl e \<and> script_failure e"
  by (rule cx821xx_never_configured [OF switched_schema switched_value]) simp_all

text \<open>
  C14: A package switch never makes \<open>package_features\<close> fail, and leaves every module
  of the package on, or as the command line pinned it.
\<close>

theorem packages_select_modules:
  assumes "has_schema base_schema s" "(p, ms) \<in> set package_modules" "on p s = Inr True"
  shows "\<exists>s'. package_features s = Inr s' \<and> list_all (\<lambda>m. on_or_pinned m s') ms"
proof -
  from liveD [OF live_packages assms(1)] obtain s' where s': "package_features s = Inr s'" by blast
  from achieves_packages assms(2) have "brings p ms package_features" by (auto simp: achieves_def)
  with assms s' have "list_all (\<lambda>m. on_or_pinned m s') ms"
    by (auto simp: brings_def list_all_iff dest: givenD)
  with s' show ?thesis by blast
qed

theorem packages_select_modules_witness:
  "\<exists>s'. package_features (switched [''PACKAGE_OPENRG_BASIC_GATEWAY'']) = Inr s' \<and>
     on_or_pinned ''MODULE_RG_FOUNDATION'' s' \<and> on_or_pinned ''MODULE_RG_ADVANCED_MANAGEMENT'' s'"
proof -
  have "(''PACKAGE_OPENRG_BASIC_GATEWAY'', [''MODULE_RG_FOUNDATION'', ''MODULE_RG_ADVANCED_MANAGEMENT'']) \<in> set package_modules"
    by (simp add: package_modules_def)
  moreover have "on ''PACKAGE_OPENRG_BASIC_GATEWAY'' (switched [''PACKAGE_OPENRG_BASIC_GATEWAY'']) = Inr True"
    by (rule switched_value) simp_all
  ultimately show ?thesis using packages_select_modules [OF switched_schema] by fastforce
qed

text \<open>
  A module that is on when the target is configured, from the command line or by default,
  brings the options \<open>module_options\<close> names for it, those its script sets without a further
  condition: if the target is configured, then whatever the distribution, the board and the
  packages did in between, each is on in the end, or was pinned by the command line.
\<close>

theorem modules_bring_options:
  assumes "has_schema base_schema s" "(m, ts) \<in> set module_options" "on m s = Inr True"
  shows "case configure_target s of Inl e \<Rightarrow> True | Inr s' \<Rightarrow> list_all (\<lambda>t. on_or_pinned t s') ts"
proof (cases "configure_target s")
  case (Inr s')
  let ?before = "block [distribution_features, check_targets, when_c (neg (os_is '''')) [target_os_features],
      package_features, hardware_features, openrg_features]"
  from Inr obtain s1 where s1: "?before s = Inr s1" "general_features s1 = Inr s'"
    by (auto simp: configure_target_def configure_features_def bind_res_eq_Inr)
  have e: "emits base_schema (policy base_schema value_tokens bundled) ?before"
    by (intro emits_Cons emits_Nil emits_when emits_check_targets emits_hardware_features;
        rule ok_emits; rule safe_scripts)
  from achieves_general assms(2) have m: "switch base_schema m" "m \<notin> value_tokens" "brings m ts general_features"
    by (auto simp: achieves_def)
  from script_keeps_switch [OF e assms(1) s1(1) m(2,1) assms(3)] emits_schema [OF e assms(1) s1(1)] m(3) s1(2) Inr
  show ?thesis by (auto simp: brings_def list_all_iff dest: givenD)
qed simp

section \<open>Operating systems\<close>

definition os_names :: "string list" where
  "os_names = [''LINUX_24'', ''LINUX_26'', ''ECOS'', ''VXWORKS'']"

lemma given_os:
  assumes "n \<in> set os_names"
  shows "given base_schema (\<lambda>s. cfg_os s = n) (on_or_pinned (''CONFIG_RG_OS_'' @ n)) target_os_features"
proof -
  note first = given_Cons_here [where V = value_tokens and J = "{}"]
  have opt: "''CONFIG_RG_OS_'' @ n \<notin> value_tokens" using assms by (auto simp: os_names_def)
  have "given base_schema (\<lambda>s. cfg_os s = n) (on_or_pinned (''CONFIG_RG_OS_'' @ n)) target_os_features_1"
    unfolding target_os_features_1_def
  proof (rule first)
    show "given base_schema (\<lambda>s. cfg_os s = n) (on_or_pinned (''CONFIG_RG_OS_'' @ n))
       (ifc (os_is ''LINUX_24'') [token_set_y TC 53 ''CONFIG_RG_OS_LINUX_24'']
        [ifc (os_is ''LINUX_26'') [token_set_y TC 55 ''CONFIG_RG_OS_LINUX_26'']
          [ifc (os_is ''ECOS'') [token_set_y TC 57 ''CONFIG_RG_OS_ECOS'']
            [when_c (os_is ''VXWORKS'') [token_set_y TC 59 ''CONFIG_RG_OS_VXWORKS'']]]])"
      using assms by (auto simp: os_names_def given_def ifc_def when_c_def os_is_def token_set_y_def
          bind_res_eq_Inr dest: raw_set_on_or_pinned)
  qed (insert opt, (intro safe_intros shipped.ok_sets lasting_on_or_pinned; simp)+)
  then show ?thesis unfolding target_os_features_def
    by (rule first) (use opt in \<open>intro safe_intros safe_scripts lasting_on_or_pinned; simp\<close>)+
qed

text \<open>
  For each operating system \<open>main\<close> knows, its script succeeds and switches the
  option of that system on, unless the command line pinned it.
\<close>

theorem os_selects_its_option:
  assumes "has_schema base_schema s" "cfg_os s \<in> set os_names"
  shows "\<exists>s'. target_os_features s = Inr s' \<and> on_or_pinned (''CONFIG_RG_OS_'' @ cfg_os s) s'"
proof -
  from liveD [OF live_os_features assms(1)] obtain s' where "target_os_features s = Inr s'" by blast
  with givenD [OF given_os [OF assms(2)] assms(1) refl] show ?thesis by blast
qed

theorem os_selects_its_option_witness:
  "\<exists>s'. target_os_features ((switched [])\<lparr> cfg_os := ''LINUX_26'' \<rparr>) = Inr s' \<and>
     on_or_pinned ''CONFIG_RG_OS_LINUX_26'' s'"
proof -
  have "has_schema base_schema ((switched [])\<lparr> cfg_os := ''LINUX_26'' \<rparr>)"
    using switched_schema [of "[]"] by (simp add: has_schema_def)
  from os_selects_its_option [OF this] show ?thesis by (simp add: os_names_def)
qed

section \<open>Themes\<close>

lemma theme_step:
  assumes "has_schema base_schema t" "(opt_token p, opt_type p) \<in> set base_schema"
  shows "\<exists>t'. when_c (pure (opt_token p \<noteq> ''CONFIG_GUI_BELKIN'' \<and> opt_type p AND OPT_THEME \<noteq> 0))
           [token_set_y FC 85 (opt_token p)] t = Inr t' \<and> has_schema base_schema t' \<and>
         (opt_token p \<noteq> ''CONFIG_GUI_BELKIN'' \<and> opt_type p AND OPT_THEME \<noteq> 0 \<longrightarrow> on_or_pinned (opt_token p) t')"
proof -
  from assms(2) have s: "settable base_schema (opt_token p)" by (force simp: settable_def)
  from liveD [OF live_set_y [OF this] assms(1)] obtain t' where
    "token_set_y FC 85 (opt_token p) t = Inr t'" "has_schema base_schema t'" by blast
  with assms(1) givenD [OF given_set_y assms(1) TrueI this(1)] show ?thesis
    by (auto simp: when_c_def ifc_def pure_def)
qed

lemma themes_run:
  assumes "\<forall>p \<in> set ps. (opt_token p, opt_type p) \<in> set base_schema" "has_schema base_schema t"
  shows "\<exists>t'. block (map (\<lambda>p. when_c (pure (opt_token p \<noteq> ''CONFIG_GUI_BELKIN'' \<and> opt_type p AND OPT_THEME \<noteq> 0))
           [token_set_y FC 85 (opt_token p)]) ps) t = Inr t' \<and>
         list_all (\<lambda>p. opt_token p \<noteq> ''CONFIG_GUI_BELKIN'' \<and> opt_type p AND OPT_THEME \<noteq> 0 \<longrightarrow>
           on_or_pinned (opt_token p) t') ps"
  using assms
proof (induction ps arbitrary: t)
  case Nil
  then show ?case by simp
next
  case (Cons p ps)
  let ?f = "\<lambda>p. when_c (pure (opt_token p \<noteq> ''CONFIG_GUI_BELKIN'' \<and> opt_type p AND OPT_THEME \<noteq> 0))
    [token_set_y FC 85 (opt_token p)]"
  from Cons.prems theme_step [of t p] obtain t1 where t1: "?f p t = Inr t1" "has_schema base_schema t1"
    and p: "opt_token p \<noteq> ''CONFIG_GUI_BELKIN'' \<and> opt_type p AND OPT_THEME \<noteq> 0 \<longrightarrow> on_or_pinned (opt_token p) t1"
    by auto
  from Cons.IH [OF _ t1(2)] Cons.prems(1) obtain t' where t': "block (map ?f ps) t1 = Inr t'"
    "list_all (\<lambda>p. opt_token p \<noteq> ''CONFIG_GUI_BELKIN'' \<and> opt_type p AND OPT_THEME \<noteq> 0 \<longrightarrow> on_or_pinned (opt_token p) t') ps"
    by auto
  have "ok base_schema {} {} (?f q)" if "q \<in> set ps" for q
  proof (cases "opt_type q AND OPT_THEME = 0")
    case True
    then show ?thesis
      by (auto simp: ok_def safe_def emits_def when_c_def ifc_def pure_def intro!: exI [of _ "[]"])
  next
    case False
    with that Cons.prems(1) theme_switch show ?thesis by (intro safe_intros any_values.ok_set_y) fastforce
  qed
  then have "ok base_schema {} {} (block (map ?f ps))" by (rule ok_block_map)
  from script_keeps_on(2) [OF ok_emits [OF this] t1(2) t'(1)] p t1 t' show ?case by auto
qed

text \<open>
  \<open>select_all_themes\<close> succeeds and switches every theme on but one, unless the
  command line pinned it.
\<close>

theorem all_themes_selected:
  assumes "has_schema base_schema s"
  shows "\<exists>s'. select_all_themes s = Inr s' \<and>
     list_all (\<lambda>p. opt_token p \<noteq> ''CONFIG_GUI_BELKIN'' \<and> opt_type p AND OPT_THEME \<noteq> 0 \<longrightarrow>
       on_or_pinned (opt_token p) s') (cfg_options s)"
  unfolding select_all_themes_def
  by (rule themes_run) (use assms has_schema_in in \<open>auto\<close>)

theorem all_themes_selected_witness:
  "\<exists>s'. select_all_themes (switched []) = Inr s' \<and>
     list_all (\<lambda>p. opt_token p \<noteq> ''CONFIG_GUI_BELKIN'' \<and> opt_type p AND OPT_THEME \<noteq> 0 \<longrightarrow>
       on_or_pinned (opt_token p) s') (cfg_options (switched []))"
  by (rule all_themes_selected [OF switched_schema])

end
