(* ===== verification/Board_Effects.thy ===== *)
theory Board_Effects
  imports Feature_Effects
begin

text \<open>
  What the board scripts do for one board: the branches of the others are idle, and its own
  writes the options it names and leaves every other one alone.
\<close>

section \<open>Idle branches\<close>

definition idle :: "string \<Rightarrow> stmt \<Rightarrow> bool" where
  "idle h c \<longleftrightarrow> (\<forall>s. has_schema base_schema s \<longrightarrow> cfg_hw s = Some h \<longrightarrow> c s = Inr s)"

definition other_board :: "string \<Rightarrow> bool rd \<Rightarrow> bool" where
  "other_board h b \<longleftrightarrow> (\<forall>s. cfg_hw s = Some h \<longrightarrow> b s = Inr False)"

named_theorems idle_intros \<open>rules that walk the branches of other boards\<close>

lemma other_is_hw [idle_intros]: "h \<noteq> x \<Longrightarrow> other_board h (is_hw x)"
  by (simp add: other_board_def is_hw_def)

lemma other_disj [idle_intros]: "other_board h a \<Longrightarrow> other_board h b \<Longrightarrow> other_board h (disj_c a b)"
  by (simp add: other_board_def disj_c_def)

lemma idle_when [idle_intros]: "other_board h b \<Longrightarrow> idle h (when_c b cs)"
  by (simp add: other_board_def idle_def when_c_def ifc_def)

lemma idle_when_nothing [idle_intros]: "testable base_schema t \<Longrightarrow> idle h (when_c (on t) [])"
  using rlive_on by (fastforce simp: rlive_def idle_def when_c_def ifc_def)

lemma idle_Nil [idle_intros]: "idle h (block [])"
  by (simp add: idle_def)

lemma idle_Cons [idle_intros]: "idle h c \<Longrightarrow> idle h (block cs) \<Longrightarrow> idle h (block (c # cs))"
  by (simp add: idle_def)

lemma idle_all_Cons [idle_intros]: "idle h c \<Longrightarrow> list_all (idle h) cs \<Longrightarrow> list_all (idle h) (c # cs)"
  by simp

lemma idle_all_Nil [idle_intros]: "list_all (idle h) []"
  by simp

lemma idle_boards_1:
  "list_all (idle ''ALLWELL_RTL_RTL'') [hardware_features_2, hardware_features_3, hardware_features_4, hardware_features_5, hardware_features_6, hardware_features_7, hardware_features_8]"
  unfolding hardware_features_2_def hardware_features_3_def hardware_features_4_def hardware_features_5_def hardware_features_6_def hardware_features_7_def hardware_features_8_def
  by (intro idle_intros; simp)

lemma idle_boards_2:
  "list_all (idle ''ALLWELL_RTL_RTL'') [hardware_features_9, hardware_features_10, hardware_features_11, hardware_features_12, hardware_features_13, hardware_features_14, hardware_features_15]"
  unfolding hardware_features_9_def hardware_features_10_def hardware_features_11_def hardware_features_12_def hardware_features_13_def hardware_features_14_def hardware_features_15_def
  by (intro idle_intros; simp)

lemma idle_boards_3:
  "list_all (idle ''ALLWELL_RTL_RTL'') [hardware_features_16, hardware_features_17, hardware_features_18, hardware_features_19, hardware_features_20, hardware_features_21, hardware_features_22]"
  unfolding hardware_features_16_def hardware_features_17_def hardware_features_18_def hardware_features_19_def hardware_features_20_def hardware_features_21_def hardware_features_22_def
  by (intro idle_intros; simp)

lemma idle_boards_4:
  "list_all (idle ''ALLWELL_RTL_RTL'') [hardware_features_23, hardware_features_24, hardware_features_25, hardware_features_26, hardware_features_27]"
  unfolding hardware_features_23_def hardware_features_24_def hardware_features_25_def hardware_features_26_def hardware_features_27_def
  by (intro idle_intros; simp)

lemma block_idle:
  "list_all (idle h) cs \<Longrightarrow> has_schema base_schema s \<Longrightarrow> cfg_hw s = Some h \<Longrightarrow> block cs s = Inr s"
  by (induction cs) (simp_all add: idle_def)

text \<open>The branch of the board, as \<open>hardware_features_1\<close> has it.\<close>

definition allwell_branch :: "stmt list" where
  "allwell_branch = [
     when_c (disj_c (on ''CONFIG_HW_ETH_WAN'') (on ''CONFIG_HW_ETH_LAN'')) [token_set_m HC 209 ''CONFIG_8139TOO''],
     when_c (on ''CONFIG_HW_ETH_WAN'') [],
     when_c (on ''CONFIG_HW_ETH_LAN'') [],
     when_c (on ''CONFIG_HW_ETH_LAN2'') [],
     token_set_y HC 220 ''CONFIG_PCBOX'']"

lemma allwell_first:
  "\<exists>rest. hardware_features_1 = block (when_c (is_hw ''ALLWELL_RTL_RTL'') allwell_branch # rest) \<and>
     list_all (idle ''ALLWELL_RTL_RTL'') rest"
  unfolding hardware_features_1_def allwell_branch_def
  by (intro exI conjI, rule refl) (intro idle_intros; simp)

lemma allwell_board:
  assumes "block allwell_branch s = Inr s'" "has_schema base_schema s'"
    and hw: "cfg_hw s = Some ''ALLWELL_RTL_RTL''" "cfg_hw s' = Some ''ALLWELL_RTL_RTL''"
  shows "board_features s = Inr s'"
proof -
  from allwell_first obtain rest where
    r: "hardware_features_1 = block (when_c (is_hw ''ALLWELL_RTL_RTL'') allwell_branch # rest)"
    "list_all (idle ''ALLWELL_RTL_RTL'') rest" by blast
  from assms block_idle [OF r(2) assms(2) hw(2)] have "hardware_features_1 s = Inr s'"
    unfolding r(1) by (simp add: when_c_def ifc_def is_hw_def)
  moreover have "list_all (idle ''ALLWELL_RTL_RTL'') [hardware_features_2, hardware_features_3,
     hardware_features_4, hardware_features_5, hardware_features_6, hardware_features_7, hardware_features_8,
     hardware_features_9, hardware_features_10, hardware_features_11, hardware_features_12,
     hardware_features_13, hardware_features_14, hardware_features_15, hardware_features_16,
     hardware_features_17, hardware_features_18, hardware_features_19, hardware_features_20,
     hardware_features_21, hardware_features_22, hardware_features_23, hardware_features_24,
     hardware_features_25, hardware_features_26, hardware_features_27]"
    using idle_boards_1 idle_boards_2 idle_boards_3 idle_boards_4 by simp
  from block_idle [OF this assms(2) hw(2)] have "block [hardware_features_2, hardware_features_3,
     hardware_features_4, hardware_features_5, hardware_features_6, hardware_features_7, hardware_features_8,
     hardware_features_9, hardware_features_10, hardware_features_11, hardware_features_12,
     hardware_features_13, hardware_features_14, hardware_features_15, hardware_features_16,
     hardware_features_17, hardware_features_18, hardware_features_19, hardware_features_20,
     hardware_features_21, hardware_features_22, hardware_features_23, hardware_features_24,
     hardware_features_25, hardware_features_26, hardware_features_27] s' = Inr s'" .
  ultimately show ?thesis
    unfolding board_features_def by (subst block.simps(2)) simp
qed

section \<open>What a script leaves alone\<close>

text \<open>A script that writes no option outside \<open>T\<close>, and keeps the board.\<close>

definition writes_only :: "string set \<Rightarrow> conf \<Rightarrow> conf \<Rightarrow> bool" where
  "writes_only T s s' \<longleftrightarrow> cfg_hw s' = cfg_hw s \<and>
     list_all2 (\<lambda>x y. opt_token y = opt_token x \<and> (opt_token x \<notin> T \<longrightarrow> y = x)) (cfg_options s) (cfg_options s')"

lemma writes_only_refl: "writes_only T s s"
  by (simp add: writes_only_def list_all2_refl)

lemma writes_only_trans: "writes_only T s s1 \<Longrightarrow> writes_only T s1 s2 \<Longrightarrow> writes_only T s s2"
  by (auto simp: writes_only_def list_all2_conv_all_nth)

lemma writes_only_set:
  assumes "raw_token_set f l p t fmt args s = Inr s'"
  shows "writes_only {t} s s'"
proof -
  have "list_all2 (\<lambda>x y. opt_token y = opt_token x \<and> (opt_token x \<notin> {t} \<longrightarrow> y = x)) os (os[i := store_option f l p w (os ! i)])"
    if "option_token_get_nofail os t = Some i" for os i w
    using nofail_Some [OF that] by (auto simp: list_all2_conv_all_nth nth_list_update store_option_def)
  with assms show ?thesis
    by (auto simp: writes_only_def raw_token_set_def option_token_get_def bind_res_eq_Inr Let_def list_all2_refl
        split: option.splits if_splits)
qed

text \<open>What such a script keeps: a value, a switch that is on, what a test of a switch answers.\<close>

lemma writes_only_keeps:
  assumes "writes_only T s s'" "t \<notin> T"
  shows "value_or_pinned t v s \<Longrightarrow> value_or_pinned t v s'" "on_or_pinned t s \<Longrightarrow> on_or_pinned t s'"
    and "on t s' = on t s"
proof -
  have tokens: "map opt_token (cfg_options s') = map opt_token (cfg_options s)"
    using assms(1) by (auto simp: writes_only_def list_all2_conv_all_nth intro!: nth_equalityI)
  note same = nofail_cong [OF tokens, of t]
  have el: "cfg_options s' ! i = cfg_options s ! i" if "option_token_get_nofail (cfg_options s) t = Some i" for i
    using nofail_Some [OF that] assms by (auto simp: writes_only_def list_all2_conv_all_nth)
  show "value_or_pinned t v s \<Longrightarrow> value_or_pinned t v s'" "on_or_pinned t s \<Longrightarrow> on_or_pinned t s'"
    using same el by (fastforce simp: value_or_pinned_def on_or_pinned_def)+
  show "on t s' = on t s"
    using el unfolding on_def token_get_def option_token_get_def same
    by (cases "option_token_get_nofail (cfg_options s) t") (simp_all add: Let_def split: option.split)
qed

lemma writes_only_mono: "writes_only T s s' \<Longrightarrow> T \<subseteq> U \<Longrightarrow> writes_only U s s'"
  by (auto simp: writes_only_def elim!: list_all2_mono)

section \<open>The board\<close>

lemma plain_write:
  assumes "has_schema base_schema s" "settable base_schema t" "plain_value v"
  obtains s' where "raw_token_set f l SET_PRIO_TOKEN_SET t (Some v) [] s = Inr s'" "has_schema base_schema s'"
    and "writes_only {t} s s'" "value_or_pinned t v s'"
proof -
  from raw_token_set_live [OF assms(1,2)] assms(3) obtain s' where
    s': "raw_token_set f l SET_PRIO_TOKEN_SET t (Some v) [] s = Inr s'" "has_schema base_schema s'"
    by (force simp: plain_value_def)
  moreover from s'(1) assms(3) have "value_or_pinned t v s'"
    by (rule raw_token_set_stores) (auto simp: value_or_pinned_def above_token_set)
  ultimately show thesis using that writes_only_set by blast
qed

definition lan_or_wan :: "conf \<Rightarrow> bool" where
  "lan_or_wan s \<longleftrightarrow> on ''CONFIG_HW_ETH_WAN'' s = Inr True \<or> on ''CONFIG_HW_ETH_LAN'' s = Inr True"

lemma switch_tested:
  assumes "has_schema base_schema s" "testable base_schema t"
  obtains v where "on t s = Inr v"
  using assms by (meson rlive_def rlive_on)

lemma cards_set:
  assumes h: "has_schema base_schema s"
  obtains s1 where
    "when_c (disj_c (on ''CONFIG_HW_ETH_WAN'') (on ''CONFIG_HW_ETH_LAN'')) [token_set_m HC 209 ''CONFIG_8139TOO''] s = Inr s1"
    "has_schema base_schema s1" "writes_only (if lan_or_wan s then {''CONFIG_8139TOO''} else {}) s s1"
    "lan_or_wan s \<longrightarrow> on_or_pinned ''CONFIG_8139TOO'' s1"
proof -
  obtain w where w: "on ''CONFIG_HW_ETH_WAN'' s = Inr w" by (rule switch_tested [OF h, of "''CONFIG_HW_ETH_WAN''"]) (simp, blast)
  obtain l where l: "on ''CONFIG_HW_ETH_LAN'' s = Inr l" by (rule switch_tested [OF h, of "''CONFIG_HW_ETH_LAN''"]) (simp, blast)
  have "live base_schema (token_set_m HC 209 ''CONFIG_8139TOO'')" by (rule any_values.live_set_m) simp_all
  from liveD [OF this h] obtain t where t: "token_set_m HC 209 ''CONFIG_8139TOO'' s = Inr t" "has_schema base_schema t"
    by blast
  from t(1) have "writes_only {''CONFIG_8139TOO''} s t" by (auto simp: token_set_m_def bind_res_eq_Inr dest: writes_only_set)
  moreover have "on_or_pinned ''CONFIG_8139TOO'' t" using givenD [OF given_set_m h _ t(1), of "\<lambda>_. True"] by simp
  ultimately show thesis
    using that [of "if w \<or> l then t else s"] w l t h
    by (cases w; cases l) (simp_all add: when_c_def ifc_def disj_c_def lan_or_wan_def writes_only_refl)
qed

lemma allwell_branch_runs:
  assumes h: "has_schema base_schema s"
  obtains s' where "block allwell_branch s = Inr s'" "has_schema base_schema s'"
    and "writes_only (insert ''CONFIG_PCBOX'' (if lan_or_wan s then {''CONFIG_8139TOO''} else {})) s s'"
    and "on_or_pinned ''CONFIG_PCBOX'' s'" "lan_or_wan s \<longrightarrow> on_or_pinned ''CONFIG_8139TOO'' s'"
proof -
  let ?T = "if lan_or_wan s then {''CONFIG_8139TOO''} else {}"
  obtain s1 where s1:
    "when_c (disj_c (on ''CONFIG_HW_ETH_WAN'') (on ''CONFIG_HW_ETH_LAN'')) [token_set_m HC 209 ''CONFIG_8139TOO''] s = Inr s1"
    "has_schema base_schema s1" "writes_only ?T s s1" "lan_or_wan s \<longrightarrow> on_or_pinned ''CONFIG_8139TOO'' s1"
    by (rule cards_set [OF h])
  have skip: "when_c (on t) [] s1 = Inr s1" if "testable base_schema t" for t
    by (rule switch_tested [OF s1(2) that]) (simp add: when_c_def ifc_def)
  obtain s2 where s2: "token_set_y HC 220 ''CONFIG_PCBOX'' s1 = Inr s2" "has_schema base_schema s2"
    "writes_only {''CONFIG_PCBOX''} s1 s2"
    by (rule plain_write [OF s1(2) _ plain_y, of "''CONFIG_PCBOX''" HC 220]) (simp_all add: token_set_y_def)
  show thesis
  proof (rule that)
    show "block allwell_branch s = Inr s2"
      using s1(1) s2(1) skip by (simp add: allwell_branch_def)
    show "writes_only (insert ''CONFIG_PCBOX'' ?T) s s2"
      by (rule writes_only_trans [OF writes_only_mono [OF s1(3)] writes_only_mono [OF s2(3)]]) auto
    show "on_or_pinned ''CONFIG_PCBOX'' s2" using givenD [OF given_set_y s1(2) _ s2(1), of "\<lambda>_. True"] by simp
    show "lan_or_wan s \<longrightarrow> on_or_pinned ''CONFIG_8139TOO'' s2"
      using s1(4) writes_only_keeps(2) [OF s2(3)] by simp
  qed (rule s2(2))
qed

lemma allwell_known:
  "\<exists>i. option_token_get_nofail openrg_hw_options ''ALLWELL_RTL_RTL'' = Some i \<and> opt_value (openrg_hw_options ! i) = Some ''Allwell''"
  by (simp add: openrg_hw_options_def)

lemma allwell_steps:
  assumes h: "has_schema base_schema s" and hw: "cfg_hw s = Some ''ALLWELL_RTL_RTL''"
  obtains s1 s2 s3 where "has_schema base_schema s2"
    "writes_only {''CONFIG_RG_HW''} s s1" "value_or_pinned ''CONFIG_RG_HW'' ''ALLWELL_RTL_RTL'' s1"
    "writes_only {''CONFIG_RG_HW_DESC_STR''} s1 s2" "value_or_pinned ''CONFIG_RG_HW_DESC_STR'' ''Allwell'' s2"
    "writes_only (insert ''CONFIG_PCBOX'' (if lan_or_wan s2 then {''CONFIG_8139TOO''} else {})) s2 s3"
    "on_or_pinned ''CONFIG_PCBOX'' s3" "lan_or_wan s2 \<longrightarrow> on_or_pinned ''CONFIG_8139TOO'' s3"
    "hardware_features s = Inr s3"
proof -
  obtain s1 where s1: "raw_token_set HC 203 SET_PRIO_TOKEN_SET ''CONFIG_RG_HW'' (Some ''ALLWELL_RTL_RTL'') [] s = Inr s1"
    "has_schema base_schema s1" "writes_only {''CONFIG_RG_HW''} s s1" "value_or_pinned ''CONFIG_RG_HW'' ''ALLWELL_RTL_RTL'' s1"
    by (rule plain_write [OF h, of "''CONFIG_RG_HW''" "''ALLWELL_RTL_RTL''" HC 203]) (simp_all add: plain_value_def)
  obtain s2 where s2: "raw_token_set HC 204 SET_PRIO_TOKEN_SET ''CONFIG_RG_HW_DESC_STR'' (Some ''Allwell'') [] s1 = Inr s2"
    "has_schema base_schema s2" "writes_only {''CONFIG_RG_HW_DESC_STR''} s1 s2" "value_or_pinned ''CONFIG_RG_HW_DESC_STR'' ''Allwell'' s2"
    by (rule plain_write [OF s1(2), of "''CONFIG_RG_HW_DESC_STR''" "''Allwell''" HC 204]) (simp_all add: plain_value_def)
  obtain s3 where s3: "block allwell_branch s2 = Inr s3" "has_schema base_schema s3"
    "writes_only (insert ''CONFIG_PCBOX'' (if lan_or_wan s2 then {''CONFIG_8139TOO''} else {})) s2 s3"
    "on_or_pinned ''CONFIG_PCBOX'' s3" "lan_or_wan s2 \<longrightarrow> on_or_pinned ''CONFIG_8139TOO'' s3"
    by (rule allwell_branch_runs [OF s2(2)])
  have hw3: "cfg_hw s2 = Some ''ALLWELL_RTL_RTL''" "cfg_hw s3 = Some ''ALLWELL_RTL_RTL''"
    using s1(3) s2(3) s3(3) hw by (simp_all add: writes_only_def)
  from allwell_known obtain i where i: "option_token_get_nofail openrg_hw_options ''ALLWELL_RTL_RTL'' = Some i"
    "opt_value (openrg_hw_options ! i) = Some ''Allwell''" by blast
  have "hardware_features s = Inr s3"
    using i s1(1) s2(1) allwell_board [OF s3(1,2) hw3] hw
    by (simp add: hardware_features_def ifc_def neg_def hw_set_def local_c_def hw_lookup_def token_set_of_def hw_str_def
        pure_def when_c_def option_token_get_def)
  with that s1 s2 s3 show thesis by blast
qed

text \<open>
  C13: For the board \<open>ALLWELL_RTL_RTL\<close> the board scripts never fail: they record the board and
  its description and switch \<open>CONFIG_PCBOX\<close> on, and the driver \<open>CONFIG_8139TOO\<close> where the
  board has an Ethernet port on the inside or on the outside, each unless the command line
  pinned it. No other option changes: the branches of all other boards are idle.
\<close>

theorem allwell_board_configured:
  assumes "has_schema base_schema s" "cfg_hw s = Some ''ALLWELL_RTL_RTL''"
  shows "\<exists>s'. hardware_features s = Inr s' \<and>
     value_or_pinned ''CONFIG_RG_HW'' ''ALLWELL_RTL_RTL'' s' \<and> value_or_pinned ''CONFIG_RG_HW_DESC_STR'' ''Allwell'' s' \<and>
     on_or_pinned ''CONFIG_PCBOX'' s' \<and> (lan_or_wan s \<longrightarrow> on_or_pinned ''CONFIG_8139TOO'' s') \<and>
     writes_only ({''CONFIG_RG_HW'', ''CONFIG_RG_HW_DESC_STR'', ''CONFIG_PCBOX''} \<union>
       (if lan_or_wan s then {''CONFIG_8139TOO''} else {})) s s'"
  using assms
proof (rule allwell_steps)
  fix s1 s2 s3
  assume s1: "writes_only {''CONFIG_RG_HW''} s s1" "value_or_pinned ''CONFIG_RG_HW'' ''ALLWELL_RTL_RTL'' s1"
    and s2: "writes_only {''CONFIG_RG_HW_DESC_STR''} s1 s2" "value_or_pinned ''CONFIG_RG_HW_DESC_STR'' ''Allwell'' s2"
    and s3: "writes_only (insert ''CONFIG_PCBOX'' (if lan_or_wan s2 then {''CONFIG_8139TOO''} else {})) s2 s3"
      "on_or_pinned ''CONFIG_PCBOX'' s3" "lan_or_wan s2 \<longrightarrow> on_or_pinned ''CONFIG_8139TOO'' s3"
    and r: "hardware_features s = Inr s3"
  have same: "lan_or_wan s2 = lan_or_wan s"
    using writes_only_keeps(3) [OF s1(1)] writes_only_keeps(3) [OF s2(1)] by (simp add: lan_or_wan_def)
  have "writes_only ({''CONFIG_RG_HW'', ''CONFIG_RG_HW_DESC_STR'', ''CONFIG_PCBOX''} \<union>
      (if lan_or_wan s then {''CONFIG_8139TOO''} else {})) s s3"
    by (rule writes_only_trans [OF writes_only_mono [OF s1(1)]
          writes_only_trans [OF writes_only_mono [OF s2(1)] writes_only_mono [OF s3(1) [unfolded same]]]]) auto
  moreover have "value_or_pinned ''CONFIG_RG_HW'' ''ALLWELL_RTL_RTL'' s3" "value_or_pinned ''CONFIG_RG_HW_DESC_STR'' ''Allwell'' s3"
    using writes_only_keeps(1) [OF s3(1)] writes_only_keeps(1) [OF s2(1)] s1(2) s2(2) by (simp_all split: if_splits)
  ultimately show ?thesis using r s3(2,3) same by auto
qed

theorem allwell_board_configured_witness:
  "\<exists>s'. hardware_features ((switched [''CONFIG_HW_ETH_LAN''])\<lparr> cfg_hw := Some ''ALLWELL_RTL_RTL'' \<rparr>) = Inr s' \<and>
     on_or_pinned ''CONFIG_PCBOX'' s' \<and> on_or_pinned ''CONFIG_8139TOO'' s'"
proof -
  let ?s = "(switched [''CONFIG_HW_ETH_LAN''])\<lparr> cfg_hw := Some ''ALLWELL_RTL_RTL'' \<rparr>"
  have h: "has_schema base_schema ?s" using switched_schema by (simp add: has_schema_def)
  have "on ''CONFIG_HW_ETH_LAN'' (switched [''CONFIG_HW_ETH_LAN'']) = Inr True" by (rule switched_value) simp_all
  then have "lan_or_wan ?s" by (simp add: lan_or_wan_def on_def token_get_def)
  with allwell_board_configured [OF h] show ?thesis by auto
qed

end
