(* ===== verification/Distributions.thy ===== *)
theory Distributions
  imports Create_Config Script_Effects
begin

text \<open>
  The names of distributions: those the chain of \<open>distribution_features\<close> knows against those
  \<open>main\<close> looks up in the table afterwards.
\<close>

section \<open>The names the chain knows\<close>

definition chain_names_1 :: "string list" where
  "chain_names_1 = [
     ''ADM5120_LSP'', ''BCM91125E'', ''BCM_SB1125'', ''RGLOADER_ADM5120'', ''ADM5120_ATA'',
     ''ADM5120_VGW'', ''ADM5120_VGW_OSIP'', ''INCAIP_LSP'', ''RGLOADER_INCAIP'',
     ''INCAIP_IPPHONE'', ''RGLOADER_FLEXTRONICS'', ''FLEXTRONICS_IPPHONE'', ''INCAIP_ATA'',
     ''INCAIP_ATA_OSIP'', ''RGLOADER_ALLTEK'', ''RGLOADER_ALLTEK_FULLSOURCE'', ''INCAIP_VGW'',
     ''INCAIP_VGW_OSIP'', ''INCAIP_FULLSOURCE'', ''BCM94702'', ''BCM94704'', ''USI_BCM94712'',
     ''SRI_USI_BCM94712'', ''RTA770W'', ''RTA770W_EVAL'', ''RGLOADER_RTA770W'', ''GTWX5803'',
     ''RGLOADER_GTWX5803'', ''WRT54G'', ''SOLOS_LSP'', ''SOLOS'', ''CX82100_SCHMID'',
     ''X86_FRG_TMT'', ''RGLOADER_X86_TMT'', ''ALLWELL_RTL_RTL'', ''ALLWELL_RTL_RTL_SSI'',
     ''ALLWELL_RTL_EEP'', ''ALLWELL_RTL_RTL_ALADDIN'', ''ALLWELL_RTL_RTL_WELLTECH'',
     ''COYOTE_WIRELESS_80211B'', ''COYOTE_WIRELESS_ISL'', ''COYOTE_WIRELESS_SOFTMAC'',
     ''COYOTE_WIRELESS_RALINK'', ''RGLOADER_USR8200'', ''USR8200_EVAL'', ''USR8200'',
     ''USR8200_ALADDIN'', ''USR8200_TUTORIAL'', ''BAMBOO'', ''BAMBOO_ALADDIN'',
     ''RGLOADER_CENTROID'', ''CENTROID'', ''MATECUMBE'', ''IXDP425'', ''IXDP425_WIRELESS'',
     ''RGLOADER_KINGSCANYON'', ''RGLOADER_KINGSCANYON_LSP'', ''KINGSCANYON_WIRELESS'',
     ''KINGSCANYON'', ''KINGSCANYON_LSP'', ''RGLOADER_ROCKAWAYBEACH'', ''ROCKAWAYBEACH'',
     ''ROCKAWAYBEACH_WIRELESS'', ''IXDP425_NETKLASS'', ''WAV54G'', ''CX8620XR_LSP'',
     ''CX8620XD_LSP'', ''CX8620XR'', ''CX8620XD_FILESERVER'', ''CX8620XD_SOHO'', ''MALINDI'',
     ''MALINDI2'', ''RGLOADER_CX8620XD'', ''IXDP425_CYBERTAN'', ''IXDP425_ATM'',
     ''IXDP425_ATM_WIRELESS'', ''NAPA'', ''GTWX5715'', ''HG21'', ''IXDP425_FRG'',
     ''IXDP425_TMT'', ''RGLOADER_WADB100G'', ''WADB100G'', ''ASUS6020VI'',
     ''RGLOADER_WADB102GB'', ''WADB102GB'', ''MPC8272ADS_LSP'', ''MPC8272ADS_LSP_26'',
     ''MPC8272ADS'', ''EP8248_LSP_26'', ''EP8248_26'', ''MPC8349ITX_LSP'', ''MPC8349ITX'',
     ''CENTAUR_LSP'', ''CENTAUR'', ''CENTAUR_VGW'', ''RGLOADER_CENTAUR'', ''IXDP425_LSP'',
     ''COYOTE_CAVIUM'', ''COYOTE_ACTIONTEC_OSIP'', ''COYOTE'', ''MONTEJADE'', ''MONTEJADE_ATM'',
     ''JIWIS8XX'', ''PCBOX_EEP_EEP_EICON'', ''PCBOX_RTL_RTL_EICON'', ''COYOTE_LSP'',
     ''COYOTE_EEP'', ''RGLOADER_JIWIS8XX'', ''COYOTE_ALL'', ''COYOTE_ATM_WIRELESS_ISL'',
     ''RGLOADER_BRUCE'', ''BRUCE'', ''TWINPASS'', ''ULTRALINE3_TWINPASS'',
     ''WSTL_ULS3_VDSL_IKANOS_64'', ''WSTL_ULS3_DUAL_MOCA_64'', ''WSTL_ULS3_DUAL_MOCA_USB_64'',
     ''WSTL_ULS3_DUAL_MOCA_USB_11N_64'', ''WSTL_ULS3_VDSL_INFINEON_64'',
     ''WSTL_ULS3_WAN_ETHERNET_64'', ''WSTL_ULS3_WAN_ETHERNET_CO_64'',
     ''WSTL_ULS3_DMOCA_GENERIC_64'', ''WSTL_ULS3_VDSL_INFINEON_GENERIC_64'',
     ''WSTL_ULS3_TURBO_DUAL_MOCA_64'', ''WSTL_ULS3_VDSL_INFINEON_GENERIC_USB_64'',
     ''WSTL_ULS3_VDSL_IKANOS_GENERIC_64'', ''WSTL_ULS3_TURBO_M100_64'',
     ''WSTL_ULS3_TURBO_DUAL_MOCA_11N_64'', ''WSTL_ULS3_TURBO_COMMON_ART_64'', ''AD6834'',
     ''AD6834_26'', ''AD6834_26_FULL'', ''AD6834_26_LSP'', ''JNET_SERVER'', ''BCM96358_LSP'',
     ''BCM96358'', ''REDBOOT_RICHFIELD'', ''REDBOOT_MATECUMBE'', ''REDBOOT_COYOTE'',
     ''REDBOOT_NAPA'', ''RGLOADER_IXDP425'', ''RGLOADER_IXDP425_FULLSOURCE'',
     ''RGLOADER_IXDP425_16MB'', ''RGLOADER_IXDP425_LSP'', ''RGLOADER_MATECUMBE'',
     ''RGLOADER_NAPA'', ''RGLOADER_COYOTE'', ''RGLOADER_COYOTE_64MB_RAM'',
     ''RGLOADER_COYOTE_64MB_RAM_32MB_FLASH'', ''RGLOADER_COYOTE_LSP'', ''RGLOADER_MONTEJADE'',
     ''RGLOADER_HG21'', ''RGLOADER_BAMBOO'', ''RGLOADER_GTWX5715'',
     ''RGLOADER_ALLWELL_RTL_RTL'', ''RGLOADER_ALLWELL_RTL_EEP'', ''RGLOADER_ALLWELL_EEP_EEP'',
     ''RGLOADER_WAV54G'', ''WRT55AG'', ''ATHEROS_AR531X_AG_VX'', ''WRT55AG_INT'',
     ''AR2313_LIZZY'', ''BOCHS_LIZZY'', ''AR2313_ZIPPY'', ''BOCHS_ZIPPY'',
     ''ATHEROS_AR531X_VX'', ''WRT108G_VX'', ''TI_404_VX_EVAL'', ''T_TI_404_VX'',
     ''ARRIS_TI_404_VX'', ''T_TI_404_VX_CH'', ''ARRIS_TI_404_VX_CH'', ''TI_TNETC440_VX_CH'',
     ''HITRON_TNETC440_VX_CH'', ''HITRON_TNETC440_VX'', ''TI_404_VX_CH_EVAL'', ''TI_WPA_VX'',
     ''I386_BOCHS_VX'', ''ALLWELL_RTL_RTL_VALGRIND'', ''ALLWELL_RTL_RTL_ISL38XX'',
     ''RGLOADER_UML'']"

definition chain_names_2 :: "string list" where
  "chain_names_2 = [
     ''UML_LSP'', ''UML_LSP_26'', ''UML'', ''UML_GLIBC'', ''UML_DUAL_WAN'', ''UML_ATM'',
     ''UML_26'', ''UML_VALGRIND'', ''UML_ATM_VALGRIND'', ''UML_IPPHONE'',
     ''UML_IPPHONE_VALGRIND'', ''UML_ATA'', ''UML_ATA_OSIP'', ''UML_ATA_VALGRIND'',
     ''UML_ATA_OSIP_VALGRIND'', ''RGTV'', ''FULL'']"

definition chain_names :: "string list" where
  "chain_names = chain_names_1 @ jpkg_names @ chain_names_2"

text \<open>A branch taken or passed over, when the distribution has a name.\<close>

lemma is_dist_name: "cfg_dist s = Some d \<Longrightarrow> is_dist x s = Inr (d = x)"
  by (simp add: is_dist_def)

lemma disj_c_names: "a s = Inr p \<Longrightarrow> b s = Inr q \<Longrightarrow> disj_c a b s = Inr (p \<or> q)"
  by (simp add: disj_c_def)

lemma pass_branch: "b s = Inr False \<Longrightarrow> cases_c ((b, cs) # xs) ds s = cases_c xs ds s"
  by (simp add: ifc_def bind_res_def split: sum.split)

lemma take_branch: "b s = Inr True \<Longrightarrow> cases_c ((b, [c]) # xs) ds s = c s"
  by (simp add: ifc_def bind_res_def split: sum.split)

lemma pass_chain_1:
  assumes "cfg_dist s = Some d" "d \<notin> set chain_names_1"
  shows "cases_c dist_branches_1 ds s = block ds s"
  using assms unfolding dist_branches_1_def chain_names_1_def
  by (simp add: pass_branch is_dist_name disj_c_def del: cases_c.simps(2) block.simps)

lemma pass_chain_2:
  assumes "cfg_dist s = Some d" "d \<notin> set chain_names_2"
  shows "cases_c dist_branches_2 ds s = block ds s"
  using assms unfolding dist_branches_2_def chain_names_2_def
  by (simp add: pass_branch is_dist_name disj_c_def del: cases_c.simps(2) block.simps)

lemma unknown_distribution:
  assumes "cfg_dist s = Some d" "d \<notin> set chain_names"
  shows "distribution_features s = Inl (Conf_err (''invalid DIST=%s'' @ [NL]))"
  using assms
  by (simp add: distribution_features_def chain_names_def cases_c_append pass_chain_1 pass_chain_2
      skip_jpkg_branches when_c_def ifc_def neg_def dist_set_def conf_err_def)

lemma chain_names_plain: "list_all plain_value chain_names"
  unfolding chain_names_def chain_names_1_def chain_names_2_def jpkg_names_def append.simps
  by (simp add: plain_value_def)

section \<open>What distribution_features leaves\<close>

lemma distribution_known:
  assumes "distribution_features s = Inr s'"
  obtains d where "cfg_dist s = Some d" "d \<in> set chain_names"
proof (cases "cfg_dist s")
  case None
  with assms show ?thesis
    by (simp add: distribution_features_def when_c_def ifc_def neg_def dist_set_def conf_err_def)
next
  case (Some d)
  with assms unknown_distribution that show ?thesis by (cases "d \<in> set chain_names") auto
qed

lemma ok_chain:
  "ok base_schema value_tokens bundled
     (cases_c (dist_branches_1 @ jpkg_branches @ dist_branches_2) [conf_err m])"
  unfolding cases_c_append
  by (intro safe_intros ok_dist_branches_1 ok_jpkg_branches ok_dist_branches_2)

lemma given_dist:
  assumes "plain_value d"
  shows "given base_schema (\<lambda>s. cfg_dist s = Some d) (value_or_pinned ''CONFIG_RG_DIST'' d) distribution_features"
proof -
  note later = given_Cons_later [OF lasting_dist, where V = value_tokens and J = bundled]
  have last: "given base_schema (\<lambda>s. cfg_dist s = Some d) (value_or_pinned ''CONFIG_RG_DIST'' d)
      (token_set_of DC 4916 ''CONFIG_RG_DIST'' dist_str)"
    by (rule given_set_of) (simp_all add: dist_str_def assms)
  show ?thesis unfolding distribution_features_def
    by (rule later, (intro safe_intros)[1], rule later, rule ok_chain, rule later, (intro safe_intros)[1],
        simp only: block_one, rule last)
qed

lemma live_set_names: "live sch (set_hw x)" "live sch (set_os x)"
  by (simp_all add: live_def set_hw_def set_os_def has_schema_def)

lemma live_os_default:
  "live sch (when_c (conj_c (conj_c hw_set (neg (hw_is ''JPKG''))) (neg (neg (os_is '''')))) [set_os x])"
  by (auto simp: live_def when_c_def ifc_def conj_c_def hw_set_def neg_def hw_is_def os_is_def set_os_def
      has_schema_def split: option.split)

lemma uml_lsp_chain:
  "cfg_dist s = Some ''UML_LSP'' \<Longrightarrow>
   cases_c (dist_branches_1 @ jpkg_branches @ dist_branches_2) ds s = dist_UML_LSP s"
  using pass_chain_1 [of s "''UML_LSP''"] skip_jpkg_branches [of s "''UML_LSP''"]
  by (cases "dist_UML_LSP s")
    (simp_all add: cases_c_append chain_names_1_def jpkg_names_def dist_branches_2_def take_branch is_dist_name
      del: cases_c.simps(2))

lemma uml_lsp_succeeds:
  assumes h: "has_schema base_schema s" and d: "cfg_dist s = Some ''UML_LSP''"
  shows "\<exists>s'. distribution_features s = Inr s'"
proof -
  have "live base_schema dist_UML_LSP"
    unfolding dist_UML_LSP_def by (intro live_intros live_set_names; simp)
  from liveD [OF this h] obtain s1 where s1: "dist_UML_LSP s = Inr s1" "has_schema base_schema s1" by blast
  from liveD [OF live_os_default s1(2), of "''LINUX_24''"] obtain s2 where
    s2: "when_c (conj_c (conj_c hw_set (neg (hw_is ''JPKG''))) (neg (neg (os_is '''')))) [set_os ''LINUX_24''] s1 = Inr s2"
      "has_schema base_schema s2" by blast
  have ok: "ok base_schema value_tokens {} dist_UML_LSP" by (intro safe_scripts)
  from frame_script [OF ok_emits [OF ok] h s1(1)] d have "cfg_dist s1 = Some ''UML_LSP''" by (simp add: frame_def)
  with s2(1) have d2: "cfg_dist s2 = Some ''UML_LSP''"
    by (auto simp: when_c_def ifc_def bind_res_eq_Inr set_os_def split: if_splits)
  have "live base_schema (token_set DC 4916 ''CONFIG_RG_DIST'' ''UML_LSP'' [])"
    by (rule live_set_plain) simp_all
  from liveD [OF this s2(2)] obtain s3 where "raw_token_set DC 4916 SET_PRIO_TOKEN_SET ''CONFIG_RG_DIST'' (Some ''UML_LSP'') [] s2 = Inr s3"
    by (auto simp: token_set_def)
  with d d2 s1(1) s2(1) show ?thesis
    by (simp add: distribution_features_def uml_lsp_chain token_set_of_def dist_str_def
        when_c_def [of "neg dist_set"] ifc_def [of "neg dist_set"] neg_def [of dist_set] dist_set_def del: cases_c.simps)
qed

text \<open>
  C15: The distribution scripts fail only as \<open>script_failure\<close> lists it; when they succeed, the
  distribution named on the command line is one of the chain's, and \<open>CONFIG_RG_DIST\<close> records
  it unless the command line pinned that option.
\<close>

theorem distribution_recorded:
  assumes "has_schema base_schema s"
  shows "case distribution_features s of
      Inl e \<Rightarrow> script_failure e
    | Inr s' \<Rightarrow> \<exists>d \<in> set chain_names. cfg_dist s = Some d \<and> value_or_pinned ''CONFIG_RG_DIST'' d s'"
proof (cases "distribution_features s")
  case (Inl e)
  with safeD [OF ok_safe [OF ok_distribution_features] assms Inl] show ?thesis by simp
next
  case (Inr s')
  then obtain d where d: "cfg_dist s = Some d" "d \<in> set chain_names" by (rule distribution_known)
  with chain_names_plain have "plain_value d" by (simp add: list_all_iff)
  from givenD [OF given_dist [OF this] assms d(1) Inr] Inr d show ?thesis by auto
qed

theorem distribution_recorded_witness:
  "\<exists>s'. distribution_features ((initial_conf config_options_base)\<lparr> cfg_dist := Some ''UML_LSP'' \<rparr>) = Inr s' \<and>
     value_or_pinned ''CONFIG_RG_DIST'' ''UML_LSP'' s'"
proof -
  let ?s = "(initial_conf config_options_base)\<lparr> cfg_dist := Some ''UML_LSP'' \<rparr>"
  have h: "has_schema base_schema ?s" using started_initial by (simp add: started_def has_schema_def)
  from uml_lsp_succeeds [OF h] obtain s' where "distribution_features ?s = Inr s'" by auto
  with distribution_recorded [OF h] show ?thesis by auto
qed

section \<open>Names on one side only\<close>

lemma configured_distribution:
  assumes "has_schema base_schema s" "configure_target s = Inr s'"
  obtains d where "cfg_dist s = Some d" "d \<in> set chain_names" "d \<in> dist_tokens"
proof -
  from assms(2) obtain s1 where s1: "distribution_features s = Inr s1" "check_targets s1 = Inr s1"
    by (auto simp: configure_target_def bind_res_eq_Inr check_targets_def split: if_splits option.splits)
  from s1(1) obtain d where d: "cfg_dist s = Some d" "d \<in> set chain_names" by (rule distribution_known)
  from frame_script [OF ok_emits [OF ok_distribution_features] assms(1) s1(1)] d
  have "cfg_dist s1 = Some d" by (simp add: frame_def)
  with s1(2) have "d \<in> dist_tokens" using nofail_None_iff [of openrg_distribution_options d]
    by (auto simp: check_targets_def dist_tokens_def split: if_splits option.splits)
  with d that show thesis by blast
qed

definition untabled_distributions :: "string list" where
  "untabled_distributions = [
     ''MPC8272ADS_LSP_26'', ''AD6834_26_FULL'', ''RGLOADER_IXDP425_FULLSOURCE'']"

definition unscripted_distributions :: "string list" where
  "unscripted_distributions = [
     ''INCAIP'', ''ALLWELL_ATMNULL_RTL'', ''PCBOX_EEP_EEP'', ''IXDP425_FULLSOURCE'',
     ''IXDP425_VPN'', ''TI_404_VX_CH_ESCROW_FULL'', ''TI_404_VX_CH_ESCROW_PARTIAL'',
     ''JPKG_I386'', ''JPKG_XSCALE'', ''JPKG_ARM_LINUX_UCLIBC'']"

lemma untabled: "list_all (\<lambda>d. d \<in> set chain_names \<and> d \<notin> dist_tokens) untabled_distributions"
proof -
  have "list_all (\<lambda>o1. opt_token o1 \<notin> set untabled_distributions) openrg_distribution_options"
    unfolding untabled_distributions_def openrg_distribution_options_def openrg_distribution_options_1_def
      openrg_distribution_options_2_def append.simps by simp
  moreover have "list_all (\<lambda>d. d \<in> set chain_names) untabled_distributions"
    by (simp add: untabled_distributions_def chain_names_def chain_names_1_def)
  ultimately show ?thesis by (auto simp: list_all_iff dist_tokens_def)
qed

lemma unscripted: "list_all (\<lambda>d. d \<notin> set chain_names \<and> d \<in> dist_tokens) unscripted_distributions"
proof -
  have "list_all (\<lambda>d. d \<notin> set unscripted_distributions) chain_names"
    unfolding unscripted_distributions_def chain_names_def chain_names_1_def chain_names_2_def
      jpkg_names_def append.simps by simp
  moreover have "list_all (\<lambda>d. d \<in> dist_tokens) unscripted_distributions"
    unfolding unscripted_distributions_def by (simp add: dist_token_facts)
  ultimately show ?thesis by (auto simp: list_all_iff)
qed

text \<open>
  The distributions that the chain of branches and the table of distributions do not
  share cannot be configured: those only in the chain stop \<open>main\<close> at its look-up, those
  only in the table stop the chain.
\<close>

theorem one_sided_distributions:
  assumes "has_schema base_schema s"
  shows "list_all (\<lambda>d. d \<in> set chain_names \<and> d \<notin> dist_tokens \<and> isl (configure_target (s\<lparr> cfg_dist := Some d \<rparr>)))
       untabled_distributions \<and>
     list_all (\<lambda>d. d \<notin> set chain_names \<and> d \<in> dist_tokens \<and> isl (configure_target (s\<lparr> cfg_dist := Some d \<rparr>)))
       unscripted_distributions"
proof -
  have h: "has_schema base_schema (s\<lparr> cfg_dist := Some d \<rparr>)" for d using assms by (simp add: has_schema_def)
  have "isl (configure_target (s\<lparr> cfg_dist := Some d \<rparr>))" if "d \<notin> set chain_names \<or> d \<notin> dist_tokens" for d
  proof (cases "configure_target (s\<lparr> cfg_dist := Some d \<rparr>)")
    case (Inr s')
    from configured_distribution [OF h Inr] that show ?thesis by auto
  qed simp
  with untabled unscripted show ?thesis by (simp add: list_all_iff)
qed

theorem one_sided_distributions_witness:
  "isl (configure_target ((initial_conf config_options_base)\<lparr> cfg_dist := Some ''IXDP425_VPN'' \<rparr>))"
proof -
  have "has_schema base_schema (initial_conf config_options_base)" using started_initial by (simp add: started_def)
  from one_sided_distributions [OF this] show ?thesis by (simp add: list_all_iff unscripted_distributions_def)
qed

section \<open>A board no table declares\<close>

lemma richfield_chain:
  "cfg_dist s = Some ''REDBOOT_RICHFIELD'' \<Longrightarrow>
   cases_c (dist_branches_1 @ jpkg_branches @ dist_branches_2) ds s = dist_REDBOOT_RICHFIELD s"
  unfolding dist_branches_1_def append.simps
  by (simp add: pass_branch take_branch is_dist_name disj_c_def del: cases_c.simps(2) block.simps)

lemma richfield_untabled: "option_token_get_nofail openrg_hw_options ''RICHFIELD'' = None"
  by code_simp

lemma raw_token_set_hw: "raw_token_set f l p t fmt args s = Inr s' \<Longrightarrow> cfg_hw s' = cfg_hw s"
  by (auto elim!: raw_token_set_Inr set_token_stepE)

lemma richfield_hw: "dist_REDBOOT_RICHFIELD s = Inr s' \<Longrightarrow> cfg_hw s' = Some ''RICHFIELD''"
  by (auto simp: dist_REDBOOT_RICHFIELD_def bind_res_eq_Inr set_hw_def set_os_def token_set_def
      dest!: raw_token_set_hw)

text \<open>
  \<open>REDBOOT_RICHFIELD\<close> can never be configured: its branch names a board no table
  declares.
\<close>

theorem richfield_never_configured:
  assumes "cfg_dist s = Some ''REDBOOT_RICHFIELD''"
  shows "isl (configure_target s)"
proof (cases "distribution_features s")
  case (Inr s3)
  with assms obtain s1 s2 where "dist_REDBOOT_RICHFIELD s = Inr s1"
    and "s2 = s1 \<or> (\<exists>x. s2 = s1\<lparr> cfg_os := x \<rparr>)"
    and "token_set_of DC 4916 ''CONFIG_RG_DIST'' dist_str s2 = Inr s3"
    by (auto simp: distribution_features_def bind_res_eq_Inr richfield_chain when_c_def ifc_def set_os_def
        neg_def dist_set_def split: if_splits simp del: cases_c.simps)
  then have "cfg_hw s3 = Some ''RICHFIELD''"
    by (auto simp: token_set_of_def bind_res_eq_Inr dest!: raw_token_set_hw richfield_hw)
  with richfield_untabled have "isl (check_targets s3)"
    by (auto simp: check_targets_def split: option.split)
  with Inr show ?thesis by (cases "check_targets s3") (simp_all add: configure_target_def)
qed (simp add: configure_target_def)

theorem richfield_never_configured_witness:
  "isl (configure_target ((initial_conf config_options_base)\<lparr> cfg_dist := Some ''REDBOOT_RICHFIELD'' \<rparr>))"
  by (rule richfield_never_configured) simp

end
