(* ===== verification/Store_Properties.thy ===== *)
theory Store_Properties
  imports License Output
begin

text \<open>
  What the option store, the command line and licensing promise, on any option table, with
  small tables as witnesses.
\<close>

unbundle bit_operations_syntax

definition sample_conf :: "option_t list \<Rightarrow> conf" where
  "sample_conf os = \<lparr> cfg_options = os, cfg_base = os, cfg_hw = None, cfg_os = '''', cfg_dist = None,
     cfg_features = None, cfg_jpkg = [], cfg_eval = False, cfg_log = [] \<rparr>"

definition sample_options :: "option_t list" where
  "sample_options = [opt ''A'' None 0 None, opt ''B'' (Some ''1'') OPT_NUMBER None,
     opt ''I'' None OPT_INT None, opt ''LIC_FORCE'' None 0 None, opt ''LIC_AUTOCONF'' (Some ''y'') 0 None,
     opt ''M'' None OPT_MODULE None]"

definition sample_writes :: "(set_prio_t \<times> string \<times> string) list" where
  "sample_writes = [(SET_PRIO_TOKEN_SET, ''A'', ''y''), (SET_PRIO_TOKEN_SET, ''M'', ''m''), (SET_PRIO_TOKEN_SET, ''B'', ''2''),
     (SET_PRIO_TOKEN_SET_DEFAULT, ''A'', ''n''), (SET_PRIO_TOKEN_SET_DEFAULT, ''M'', ''y'')]"

section \<open>Lemmas\<close>

lemma not_isl_Inr: "\<not> isl r \<Longrightarrow> \<exists>x. r = Inr x"
  by (cases r) auto

lemma put_option_Inr: "raw_token_set f l p t (Some v) [] s = Inr s' \<Longrightarrow> put_option f l p t v s = s'"
  by (simp add: put_option_def)

lemma block_puts:
  "block (map (\<lambda>(p, t, v). raw_token_set f l p t (Some v) []) ws) s = Inr s' \<Longrightarrow> array.puts f l ws s = s'"
proof (induction ws arbitrary: s)
  case Nil
  then show ?case by (simp add: array.puts_def)
next
  case (Cons w ws)
  obtain p t v where "w = (p, t, v)" by (cases w)
  with Cons show ?case by (auto simp: array.puts_def put_option_Inr bind_res_eq_Inr)
qed

text \<open>A write changes the option array, no name or type in it, and the log.\<close>

lemma raw_token_set_frame:
  assumes "raw_token_set f l p t fmt args s = Inr s'"
  shows "s' = s\<lparr> cfg_options := cfg_options s', cfg_log := cfg_log s' \<rparr>"
    and "schema_of (cfg_options s') = schema_of (cfg_options s)"
proof -
  show "s' = s\<lparr> cfg_options := cfg_options s', cfg_log := cfg_log s' \<rparr>"
    using assms by (auto simp: raw_token_set_def bind_res_eq_Inr Let_def split: option.splits if_splits)
  have "schema_of (os[i := store_option f l p w (os ! i)]) = schema_of os" for os i w
    by (cases "i < length os")
      (simp_all add: schema_of_def store_option_def map_update list_update_same_conv list_update_beyond)
  with assms show "schema_of (cfg_options s') = schema_of (cfg_options s)"
    by (auto simp: raw_token_set_def bind_res_eq_Inr Let_def split: option.splits if_splits)
qed

lemma token_get_errors: "token_get t s = Inl e \<Longrightarrow> e = No_such_option t \<or> e = String_token t"
  by (auto simp: token_get_def bind_res_eq_Inl Let_def split: if_splits option.splits)

section \<open>Setting options\<close>

text \<open>
  C11: Every call of \<open>_token_set\<close> acts on the option array as the abstract write acts on the
  store of values, priorities and types: the formatted value goes to the named option unless
  a higher priority is there, \<open>m\<close> is refused by an option without a type and becomes \<open>y\<close>
  under \<open>CONFIG_RG_DEV\<close> where the option asks for it, and the call fails with the same
  error, on an undeclared name, a value of more than 4094 characters or a bad format. It
  touches nothing but the array, whose names and types stay, and the log.
\<close>

theorem token_set_refines_store:
  "map_sum id (\<lambda>s'. store_of (cfg_options s')) (raw_token_set f l p t fmt args s) =
    (case Option.bind fmt (\<lambda>x. vsnprintf 4096 x args) of
       None \<Rightarrow> Inl Undefined
     | Some v \<Rightarrow> if 4094 < length v then Inl (Value_too_long f l t)
                 else write_spec p t v (store_of (cfg_options s))) \<and>
   (case raw_token_set f l p t fmt args s of
       Inl e \<Rightarrow> True
     | Inr s' \<Rightarrow> s' = s\<lparr> cfg_options := cfg_options s', cfg_log := cfg_log s' \<rparr> \<and>
         schema_of (cfg_options s') = schema_of (cfg_options s))"
  using raw_token_set_spec [of f l p t fmt args s] raw_token_set_frame [of f l p t fmt args s]
  by (simp split: sum.split)

text \<open>
  C12: After a series of writes, of values an option stores as given, the value of every
  option is that of the last write with the highest priority among all writes to it, the one
  it started with included. Such values are those without a format directive, of at most
  4094 characters; \<open>m\<close> is one for an option whose type admits it and is not
  \<open>OPT_STATIC_ON_DEVELOP\<close>.
\<close>

theorem last_of_highest_priority_wins:
  assumes "list_all (\<lambda>(p, u, v). stored_as_given u v s) ws"
    and "block (map (\<lambda>(p, u, v). raw_token_set f l p u (Some v) []) ws) s = Inr s'"
  shows "abs_store (cfg_options s') t =
    map_option (winner (map (\<lambda>(p, u, v). (p, v)) (filter (\<lambda>(p, u, v). u = t) ws))) (abs_store (cfg_options s) t)"
  using array.get_puts [OF assms(1), of f l t] block_puts [OF assms(2)] by (simp add: array.writes_to_def)

theorem last_of_highest_priority_wins_witness:
  "\<exists>s'. block (map (\<lambda>(p, u, v). raw_token_set ''f'' 1 p u (Some v) []) sample_writes)
      (sample_conf sample_options) = Inr s' \<and>
     abs_store (cfg_options s') ''A'' = Some (Some ''y'', SET_PRIO_TOKEN_SET) \<and>
     abs_store (cfg_options s') ''M'' = Some (Some ''m'', SET_PRIO_TOKEN_SET)"
proof -
  have plain: "list_all (\<lambda>(p, u, v). stored_as_given u v (sample_conf sample_options)) sample_writes" by code_simp
  have "\<not> isl (block (map (\<lambda>(p, u, v). raw_token_set ''f'' 1 p u (Some v) []) sample_writes)
      (sample_conf sample_options))" by code_simp
  then obtain s' where s': "block (map (\<lambda>(p, u, v). raw_token_set ''f'' 1 p u (Some v) []) sample_writes)
      (sample_conf sample_options) = Inr s'" using not_isl_Inr by blast
  have "map_option (winner (map (\<lambda>(p, u, v). (p, v)) (filter (\<lambda>(p, u, v). u = ''A'') sample_writes)))
      (abs_store (cfg_options (sample_conf sample_options)) ''A'') = Some (Some ''y'', SET_PRIO_TOKEN_SET)"
    "map_option (winner (map (\<lambda>(p, u, v). (p, v)) (filter (\<lambda>(p, u, v). u = ''M'') sample_writes)))
      (abs_store (cfg_options (sample_conf sample_options)) ''M'') = Some (Some ''m'', SET_PRIO_TOKEN_SET)"
    by code_simp+
  with last_of_highest_priority_wins [OF plain s', of "''A''"]
    last_of_highest_priority_wins [OF plain s', of "''M''"] s' show ?thesis by auto
qed

text \<open>
  Which options refuse the value \<open>m\<close>. The test in \<open>_token_set\<close> reads
  \<open>!opt->type & OPT_MODULE_EXPAND\<close>, so it refuses exactly the options without any type,
  and lets through typed options that no module can be made of.
\<close>

theorem module_refused_iff_untyped:
  "module_value t o1 ''m'' s = Inl (Not_module_expand t) \<longleftrightarrow> opt_type o1 = 0"
  by (auto simp: module_value_def opt_type_defs on_def bind_res_eq_Inl dest: token_get_errors)

end
