(* ===== verification/Command_Properties.thy ===== *)
theory Command_Properties
  imports Create_Config Store_Properties
begin

text \<open>
  What the command line, the license check, the set-up checks, the merge of package builds and
  the printing of the files promise, on any option table.
\<close>

unbundle bit_operations_syntax

section \<open>The command line\<close>

lemma pin_pinned: "opt_prio x = SET_PRIO_CMD_LINE \<Longrightarrow> (x :: option_t)\<lparr> opt_prio := SET_PRIO_CMD_LINE \<rparr> = x"
  by (cases x) simp

lemma add_feature_stored:
  assumes t: "t \<noteq> []" "CHR ''='' \<notin> set t" and v: "v \<noteq> []" "CHR ''='' \<notin> set v" "stored_as_given t v s"
    and i: "option_token_get_nofail (cfg_options s) t = Some i"
    and int: "opt_type (cfg_options s ! i) AND OPT_INT = 0"
  shows "\<exists>s'. add_feature_parse (t @ ''='' @ v) s = Inr s' \<and>
    cfg_options s' = (if opt_prio (cfg_options s ! i) = SET_PRIO_CMD_LINE then cfg_options s
      else (cfg_options s)[i := store_option CC 100 SET_PRIO_CMD_LINE v (cfg_options s ! i)])"
proof -
  have "SET_PRIO_TOKEN_SET < opt_prio (cfg_options s ! i) \<longleftrightarrow> opt_prio (cfg_options s ! i) = SET_PRIO_CMD_LINE"
    by (cases "opt_prio (cfg_options s ! i)") (simp_all add: prio_order_defs)
  with assms nofail_Some [OF i] show ?thesis
    by (cases "opt_prio (cfg_options s ! i) = SET_PRIO_CMD_LINE")
      (simp_all add: add_feature_parse_def strtok_token strtok_last option_token_get_def
        raw_token_set_stored Let_def store_option_def pin_pinned)
qed

text \<open>
  C16: \<open>-f NAME=VALUE\<close> gives an option that the command line has not set before exactly that
  value, pinned, and changes no other; on one it has set before it changes nothing. The
  value must be one the option stores as given, without a \<open>=\<close>, and the option not internal.
\<close>

theorem feature_argument_round_trip:
  assumes "t \<noteq> []" "CHR ''='' \<notin> set t" "v \<noteq> []" "CHR ''='' \<notin> set v" "stored_as_given t v s"
    and "option_token_get_nofail (cfg_options s) t = Some i"
    and "opt_type (cfg_options s ! i) AND OPT_INT = 0"
  shows "\<exists>s'. add_feature_parse (t @ ''='' @ v) s = Inr s' \<and>
     abs_store (cfg_options s') = (if opt_prio (cfg_options s ! i) = SET_PRIO_CMD_LINE
       then abs_store (cfg_options s)
       else (abs_store (cfg_options s))(t \<mapsto> (Some v, SET_PRIO_CMD_LINE)))"
proof -
  from add_feature_stored [OF assms] obtain s' where "add_feature_parse (t @ ''='' @ v) s = Inr s'"
    "cfg_options s' = (if opt_prio (cfg_options s ! i) = SET_PRIO_CMD_LINE then cfg_options s
      else (cfg_options s)[i := store_option CC 100 SET_PRIO_CMD_LINE v (cfg_options s ! i)])" by blast
  with abs_store_update [OF assms(6)] show ?thesis by auto
qed

theorem feature_argument_round_trip_witness:
  "\<exists>s' s''. add_feature_parse ''M=m'' (sample_conf sample_options) = Inr s' \<and>
     abs_store (cfg_options s') = (abs_store sample_options)(''M'' \<mapsto> (Some ''m'', SET_PRIO_CMD_LINE)) \<and>
     add_feature_parse ''M=n'' s' = Inr s'' \<and> abs_store (cfg_options s'') = abs_store (cfg_options s')"
proof -
  have "stored_as_given ''M'' ''m'' (sample_conf sample_options)"
    "option_token_get_nofail (cfg_options (sample_conf sample_options)) ''M'' = Some 5" by code_simp+
  with feature_argument_round_trip [of "''M''" "''m''" "sample_conf sample_options" 5] obtain s' where
    s': "add_feature_parse ''M=m'' (sample_conf sample_options) = Inr s'"
      "abs_store (cfg_options s') = (abs_store sample_options)(''M'' \<mapsto> (Some ''m'', SET_PRIO_CMD_LINE))"
    by (auto simp: sample_conf_def sample_options_def opt_type_defs)
  have "case add_feature_parse ''M=m'' (sample_conf sample_options) of Inl e \<Rightarrow> False
     | Inr x \<Rightarrow> stored_as_given ''M'' ''n'' x \<and> option_token_get_nofail (cfg_options x) ''M'' = Some 5 \<and>
         opt_type (cfg_options x ! 5) AND OPT_INT = 0 \<and> opt_prio (cfg_options x ! 5) = SET_PRIO_CMD_LINE"
    by code_simp
  with s' feature_argument_round_trip [of "''M''" "''n''" s' 5] show ?thesis by auto
qed

text \<open>
  The first \<open>-f\<close> for an option wins: a later one, if it succeeds at all, changes
  nothing.
\<close>

theorem first_feature_argument_wins:
  assumes "t \<noteq> []" "CHR ''='' \<notin> set t" "add_feature_parse (t @ ''='' @ v) s = Inr s'"
  shows "case add_feature_parse (t @ ''='' @ w) s' of Inl e \<Rightarrow> True | Inr s'' \<Rightarrow> s'' = s'"
proof (cases "add_feature_parse (t @ ''='' @ w) s'")
  case (Inr s'')
  from assms(3) obtain i x where i: "option_token_get_nofail (cfg_options s) t = Some i"
    and s': "cfg_options s' = (cfg_options s)[i := x]" and x: "opt_token x = t" "opt_prio x = SET_PRIO_CMD_LINE"
    by (rule add_feature_Inr) (use assms(1,2) in \<open>auto simp: strtok_token\<close>)
  from s' x nofail_Some [OF i] have "map opt_token (cfg_options s') = map opt_token (cfg_options s)"
    by (simp add: map_update list_update_same_conv)
  with i have i': "option_token_get_nofail (cfg_options s') t = Some i" by (metis nofail_cong)
  have "opt_prio (cfg_options s' ! i) = SET_PRIO_CMD_LINE" using s' x nofail_Some [OF i] by simp
  from add_feature_again [OF _ i' this Inr, of w] Inr assms(1,2) show ?thesis by (simp add: strtok_token)
qed simp

theorem first_feature_argument_wins_witness:
  "case add_feature_parse ''A=y'' (sample_conf sample_options) of
     Inl e \<Rightarrow> False
   | Inr s' \<Rightarrow> add_feature_parse ''A=n'' s' = Inr s'"
proof -
  have "case add_feature_parse ''A=y'' (sample_conf sample_options) of
      Inl e \<Rightarrow> False | Inr s' \<Rightarrow> \<not> isl (add_feature_parse ''A=n'' s')" by code_simp
  then obtain s' s'' where s': "add_feature_parse ''A=y'' (sample_conf sample_options) = Inr s'"
    and s'': "add_feature_parse ''A=n'' s' = Inr s''"
    by (auto split: sum.splits dest!: not_isl_Inr)
  from first_feature_argument_wins [of "''A''" "''y''" "sample_conf sample_options" s' "''n''"] s' s''
  show ?thesis by simp
qed

text \<open>An internal option is refused on the command line, whatever value it is given.\<close>

theorem internal_option_refused:
  assumes "t \<noteq> []" "CHR ''='' \<notin> set t" "option_token_get_nofail (cfg_options s) t = Some i"
    and "opt_type (cfg_options s ! i) AND OPT_INT \<noteq> 0"
  shows "add_feature_parse (t @ ''='' @ v) s = Inl (Conf_err ''Internal. Cannot be added to command line'')"
  using assms by (simp add: add_feature_parse_def strtok_token option_token_get_def)

theorem internal_option_refused_witness:
  "add_feature_parse ''I=y'' (sample_conf sample_options) = Inl (Conf_err ''Internal. Cannot be added to command line'')"
  using internal_option_refused [of "''I''" "sample_conf sample_options" 2 "''y''"]
  by (simp add: sample_conf_def sample_options_def opt_type_defs)

section \<open>Licensing\<close>

text \<open>
  C17: A module without a license that the command line did not set is never enabled unless
  \<open>LIC_FORCE\<close> is on: either the program stops, or the options stay as they are.
\<close>

theorem unlicensed_module_left_alone:
  assumes "\<not> licensed name" "token_set_by_cmdline name s = Inr False" "on ''LIC_FORCE'' s = Inr False"
  shows "case enable_module_with licensed f l name s of
      Inl e \<Rightarrow> token_is_y ''LIC_AUTOCONF'' s \<noteq> Inr True
    | Inr s' \<Rightarrow> token_is_y ''LIC_AUTOCONF'' s = Inr True \<and> cfg_options s' = cfg_options s"
  using assms
  by (cases "token_is_y ''LIC_AUTOCONF'' s")
    (auto simp: enable_module_with_def ifc_def pure_def conf_err_def log_message_def)

theorem unlicensed_module_left_alone_witness:
  "case enable_module_with (\<lambda>name. False) ''f'' 1 ''A'' (sample_conf sample_options) of
     Inl e \<Rightarrow> token_is_y ''LIC_AUTOCONF'' (sample_conf sample_options) \<noteq> Inr True
   | Inr s' \<Rightarrow> token_is_y ''LIC_AUTOCONF'' (sample_conf sample_options) = Inr True \<and> cfg_options s' = sample_options"
proof -
  have "token_set_by_cmdline ''A'' (sample_conf sample_options) = Inr False"
    "on ''LIC_FORCE'' (sample_conf sample_options) = Inr False" by code_simp+
  moreover have "cfg_options (sample_conf sample_options) = sample_options" by (simp add: sample_conf_def)
  ultimately show ?thesis
    using unlicensed_module_left_alone [of "\<lambda>name. False" "''A''" "sample_conf sample_options" "''f''" 1]
    by (auto split: sum.splits)
qed

section \<open>The check for duplicates\<close>

text \<open>
  \<open>_validate_unique_configs\<close> accepts exactly the tables that declare no name twice,
  and otherwise names one that is declared at two places.
\<close>

theorem duplicates_found:
  "case validate_unique os of
     Inr _ \<Rightarrow> distinct (map opt_token os)
   | Inl e \<Rightarrow> \<exists>i j. i < j \<and> j < length os \<and> opt_token (os ! i) = opt_token (os ! j) \<and>
       e = Duplicated (opt_token (os ! j))"
proof (cases "validate_unique os")
  case (Inl e)
  with validate_unique_Inl [OF Inl] show ?thesis by simp
next
  case (Inr u)
  with validate_unique_Inr [of os u] show ?thesis by simp
qed

section \<open>Merging package builds\<close>

text \<open>
  After a package build an option has the value it had; without one, the value of the
  last bundled distribution that gives it one.
\<close>

theorem merge_takes_last_value:
  assumes "i < length os"
  shows "opt_value (jpkg_merge jp os ! i) =
    (case map opt_value (os ! i # filter (\<lambda>x. opt_value x \<noteq> None) (rev (map (\<lambda>p. snd p ! i) jp))) of
       Some v # _ \<Rightarrow> Some v
     | [None] \<Rightarrow> None
     | None # v # _ \<Rightarrow> v)"
proof -
  have fold: "opt_value x = None \<Longrightarrow> opt_value (fold (\<lambda>x acc. if opt_value x \<noteq> None then x else acc) xs x) =
      (case map opt_value (filter (\<lambda>x. opt_value x \<noteq> None) (rev xs)) of [] \<Rightarrow> None | v # _ \<Rightarrow> v)" for x xs
    by (induction xs rule: rev_induct) auto
  show ?thesis
    using assms fold [of "os ! i" "map (\<lambda>p. snd p ! i) jp"]
    by (cases "opt_value (os ! i)") (auto simp: jpkg_merge_def jpkg_merge_one_def split: list.splits)
qed

theorem merge_takes_last_value_witness:
  "opt_value (jpkg_merge [(''D'', [opt ''A'' (Some ''y'') 0 None]), (''E'', [opt ''A'' (Some ''m'') 0 None])]
     [opt ''A'' None 0 None] ! 0) = Some ''m''"
  using merge_takes_last_value [of 0 "[opt ''A'' None 0 None]"
      "[(''D'', [opt ''A'' (Some ''y'') 0 None]), (''E'', [opt ''A'' (Some ''m'') 0 None])]"]
  by simp

text \<open>
  An option the command line switched off with \<open>-f NAME=\<close>, which the make file reports as
  disabled by the command line, comes out of the merge with the value of a bundled
  distribution.
\<close>

theorem merge_revives_disabled_option:
  "case add_feature_parse ''A='' (sample_conf [opt ''A'' None 0 None]) of
     Inl e \<Rightarrow> False
   | Inr s \<Rightarrow> concat (map print_mk_option (cfg_options s)) = [''# Disabled by command line'', ''override A=''] \<and>
       map opt_value (jpkg_merge [(''D'', [opt ''A'' (Some ''y'') 0 None])] (cfg_options s)) = [Some ''y'']"
  by code_simp

section \<open>The files written\<close>

text \<open>
  What stops printing before the first option: a file that has no name or cannot be opened,
  after the files opened before it were emptied.
\<close>

theorem files_not_opened:
  "h_file_name n = None \<or> mk_file_name n = None \<or> c_file_name n = None \<Longrightarrow>
     configure_print can_open log n s =
       (no_files_made, Some (Conf_err ''MUST define mk_file, h_file and c_file''))"
  "h_file_name n = Some h \<Longrightarrow> mk_file_name n = Some mk \<Longrightarrow> c_file_name n = Some c \<Longrightarrow>
     \<not> (can_open c \<and> can_open mk \<and> can_open h) \<Longrightarrow>
     \<exists>e. configure_print can_open log n s =
       (\<lparr> made_c = (if can_open c then Some [] else None),
          made_mk = (if can_open c \<and> can_open mk then Some [] else None), made_h = None \<rparr>, Some e)"
  by (auto simp: configure_print_def no_files_made_def split: option.split)

text \<open>
  C18: Once its three files are open, printing succeeds exactly when every option that has a
  value has one its type allows. Each file then holds its header, the lines of all options in
  the order of the table and its end; otherwise it holds the header and the lines of the
  options before the first invalid one, and the error is that of this option.
\<close>

theorem files_written_iff_valid:
  assumes "h_file_name n = Some h" "mk_file_name n = Some mk" "c_file_name n = Some c"
    and "can_open c" "can_open mk" "can_open h" "on ''CONFIG_RG_CONFIG_STRINGS'' s = Inr strings"
  shows "configure_print can_open log n s = (let
      all_valid = list_all (\<lambda>o1. case opt_value o1 of None \<Rightarrow> True | Some v \<Rightarrow> valid_value o1 v) (cfg_options s);
      good = takeWhile option_valid (cfg_options s)
    in (\<lparr> made_c = Some (c_header log @ strings_start strings @ lines_of c_lines good @
             (if all_valid then strings_table strings else [])),
          made_mk = Some (mk_header log @ lines_of mk_lines good),
          made_h = Some (h_header log @ lines_of h_lines good @ (if all_valid then [''#endif''] else [])) \<rparr>,
        if all_valid then None
        else Some (projl (check_option_validity (cfg_options s ! length good)))))"
proof -
  have find: "\<not> list_all P xs \<Longrightarrow> List.find (\<lambda>x. \<not> P x) xs = Some (xs ! length (takeWhile P xs))"
    for P and xs :: "option_t list"
    by (induction xs) auto
  have v: "list_all (\<lambda>o1. case opt_value o1 of None \<Rightarrow> True | Some v \<Rightarrow> valid_value o1 v) (cfg_options s)
      \<longleftrightarrow> list_all option_valid (cfg_options s)"
    by (simp add: option_valid_def [abs_def])
  show ?thesis
  proof (cases "list_all option_valid (cfg_options s)")
    case True
    with assms v show ?thesis
      by (simp add: configure_print_def print_all_options_eq Let_def first_invalid_None [THEN iffD2] all_made_def)
  next
    case False
    with assms v find [OF False] show ?thesis
      by (simp add: configure_print_def print_all_options_eq Let_def first_invalid_def all_made_def)
  qed
qed

definition sample_files :: file_names where
  "sample_files = no_files\<lparr> mk_file_name := Some ''c.mk'', h_file_name := Some ''c.h'', c_file_name := Some ''c.c'' \<rparr>"

definition sample_invalid :: conf where
  "sample_invalid = sample_conf [opt ''CONFIG_RG_CONFIG_STRINGS'' None 0 None, opt ''A'' (Some ''y'') 0 None,
     opt ''B'' (Some ''x'') 0 None, opt ''D'' (Some ''y'') 0 None]"

theorem files_written_iff_valid_witness:
  "configure_print (\<lambda>f. True) ''log'' sample_files sample_invalid =
    (\<lparr> made_c = Some (c_header ''log'' @ ['''']),
       made_mk = Some (mk_header ''log'' @ [''# config_opt.c (default):'', ''A=y'']),
       made_h = Some (h_header ''log'' @ ['''', ''#define A 1'']) \<rparr>,
     Some (Conf_err (''B=x (config_opt.c) must be 'y' or 'n'' @ [CHR 0x27])))"
proof -
  have "on ''CONFIG_RG_CONFIG_STRINGS'' sample_invalid = Inr False" by code_simp
  note * = files_written_iff_valid [OF _ _ _ _ _ _ this, where n = sample_files and can_open = "\<lambda>f. True"
      and log = "''log''" and h = "''c.h''" and mk = "''c.mk''" and c = "''c.c''"]
  have "takeWhile option_valid (cfg_options sample_invalid) = take 2 (cfg_options sample_invalid)"
    "\<not> list_all (\<lambda>o1. case opt_value o1 of None \<Rightarrow> True | Some v \<Rightarrow> valid_value o1 v) (cfg_options sample_invalid)"
    "lines_of mk_lines (take 2 (cfg_options sample_invalid)) = [''# config_opt.c (default):'', ''A=y'']"
    "lines_of h_lines (take 2 (cfg_options sample_invalid)) = ['''', ''#define A 1'']"
    "lines_of c_lines (take 2 (cfg_options sample_invalid)) = []"
    "projl (check_option_validity (cfg_options sample_invalid ! length (take 2 (cfg_options sample_invalid)))) =
       Conf_err (''B=x (config_opt.c) must be 'y' or 'n'' @ [CHR 0x27])"
    "strings_start False = ['''']"
    by code_simp+
  with * show ?thesis by (simp add: Let_def sample_files_def)
qed

lemma plain_switch:
  assumes "\<not> has_type (OPT_NUMBER OR OPT_STR OR OPT_C_STR OR OPT_MODULE_EXPAND OR OPT_HC) o1"
  shows "\<not> has_type OPT_NUMBER o1" "\<not> has_type OPT_STR o1" "\<not> has_type OPT_C_STR o1"
    "\<not> has_type OPT_MODULE_EXPAND o1" "\<not> has_type OPT_HC o1"
  using assms by (simp_all add: has_type_or)

text \<open>
  For a plain switch the make file and the header agree: the make file sets it to
  \<open>y\<close> or \<open>m\<close> exactly when the header defines it as 1, and that is when the option is on.
\<close>

theorem make_file_and_header_agree:
  assumes "\<not> has_type (OPT_NUMBER OR OPT_STR OR OPT_C_STR OR OPT_MODULE_EXPAND OR OPT_HC) o1"
  shows "(''#define '' @ opt_token o1 @ '' 1'' \<in> set (fst (print_h_option o1)) \<longleftrightarrow> switched_on o1) \<and>
    ((\<exists>v \<in> {''y'', ''m''}.
        (if has_type OPT_EXPORT o1 then ''export '' else '''') @ opt_token o1 @ ''='' @ v \<in> set (print_mk_option o1))
      \<longleftrightarrow> switched_on o1)"
proof
  note ty = plain_switch [OF assms]
  then have sw: "is_y_m o1" "quote_of o1 = ''''" by (simp_all add: is_y_m_def quote_of_def has_type_or)
  with ty show "''#define '' @ opt_token o1 @ '' 1'' \<in> set (fst (print_h_option o1)) \<longleftrightarrow> switched_on o1"
    by (auto simp: print_h_option_def Let_def plain_define_def switched_on_def split: option.split)
  show "(\<exists>v \<in> {''y'', ''m''}.
        (if has_type OPT_EXPORT o1 then ''export '' else '''') @ opt_token o1 @ ''='' @ v \<in> set (print_mk_option o1))
      \<longleftrightarrow> switched_on o1" (is "?in \<longleftrightarrow> _")
  proof
    assume on: "switched_on o1"
    then obtain v where "opt_value o1 = Some v" "v \<in> {''y'', ''m''}" by (auto simp: switched_on_def)
    with ty show ?in by (auto simp: print_mk_option_def Let_def has_type_or yes_or_m_def)
  next
    assume ?in
    then obtain v where v: "v \<in> {''y'', ''m''}" and line:
      "(if has_type OPT_EXPORT o1 then ''export '' else '''') @ opt_token o1 @ ''='' @ v \<in> set (print_mk_option o1)"
      (is "?line \<in> _") by blast
    show "switched_on o1"
    proof (rule ccontr)
      assume "\<not> switched_on o1"
      then have "\<not> yes_or_m (opt_value o1)" by (simp add: yes_or_m_def switched_on_def)
      with ty line have "?line \<in> {''# Disabled by command line'', ''override '' @ opt_token o1 @ ''='', ''export '' @ opt_token o1}"
        by (auto simp: print_mk_option_def Let_def has_type_or split: if_splits)
      moreover have "CHR ''='' \<in> set ?line" "CHR ''='' \<notin> set ''# Disabled by command line''" by simp_all
      ultimately have "length ?line \<in> {length (''override '' @ opt_token o1 @ ''=''), length (''export '' @ opt_token o1)}"
        by (metis insert_iff singletonD)
      with v show False by (auto split: if_splits)
    qed
  qed
qed

theorem make_file_and_header_agree_witness:
  "''#define A 1'' \<in> set (fst (print_h_option (opt ''A'' (Some ''y'') 0 None)))"
proof -
  have "switched_on (opt ''A'' (Some ''y'') 0 None)" by (simp add: switched_on_def)
  with make_file_and_header_agree [of "opt ''A'' (Some ''y'') 0 None"] show ?thesis by (simp add: has_type_def)
qed

lemma length_differs: "length x \<noteq> length y \<Longrightarrow> x \<noteq> y"
  by blast

lemma print_ref_no_define: "l \<in> set (print_ref o1) \<Longrightarrow> l \<noteq> ''#define '' @ x"
  by (auto simp: print_ref_def split: if_splits)

text \<open>
  A module-expanded option with a valid value that is not empty is defined in the header
  under one name at most: its own for \<open>y\<close>, its own with \<open>_MODULE\<close> for \<open>m\<close>, neither
  for \<open>n\<close> or no value.
\<close>

theorem module_expansion_defines_one:
  assumes "has_type OPT_MODULE_EXPAND o1" "\<not> has_type OPT_HC o1" "check_option_validity o1 = Inr ()"
    and "opt_value o1 \<noteq> Some ''''"
  shows "filter (\<lambda>l. l = ''#define '' @ opt_token o1 @ '' 1'' \<or> l = ''#define '' @ opt_token o1 @ ''_MODULE 1'')
      (fst (print_h_option o1)) =
    (case opt_value o1 of
       Some v \<Rightarrow> if v = ''y'' then [''#define '' @ opt_token o1 @ '' 1'']
                 else if v = ''m'' then [''#define '' @ opt_token o1 @ ''_MODULE 1''] else []
     | None \<Rightarrow> [])"
proof -
  let ?t = "opt_token o1"
  let ?P = "\<lambda>l. l = ''#define '' @ ?t @ '' 1'' \<or> l = ''#define '' @ ?t @ ''_MODULE 1''"
  have ref: "filter ?P (print_ref o1) = []"
    using print_ref_no_define [of _ o1] by (auto simp: filter_empty_conv)
  have feature: "\<not> ?P (''#define c'' @ ?t @ ''_FEATURE '' @ x)" if "length x = 1" for x
    using that by (auto dest!: arg_cong [where f = length])
  have one: "\<not> ?P (''#define '' @ ?t @ ''_FEATURE 1'')" by (auto dest!: arg_cong [where f = length])
  have ext: "\<not> ?P (''extern int vc'' @ ?t @ ''_FEATURE;'')" by simp
  have v: "opt_value o1 = None \<or> opt_value o1 = Some ''n'' \<or> opt_value o1 = Some ''y'' \<or> opt_value o1 = Some ''m''"
    using assms by (cases "opt_value o1") (auto simp: check_option_validity_iff valid_value_def)
  have one_feature: "length (if b then ''1'' else ''0'') = 1" for b by simp
  from assms(1,2) v show ?thesis
    by (elim disjE) (simp_all add: print_h_option_def Let_def ref feature one ext del: append_Cons append.simps(2))
qed

theorem module_expansion_defines_one_witness:
  "filter (\<lambda>l. l = ''#define A 1'' \<or> l = ''#define A_MODULE 1'')
     (fst (print_h_option (opt ''A'' (Some ''m'') OPT_MODULE_EXPAND None))) = [''#define A_MODULE 1'']"
proof -
  have "has_type OPT_MODULE_EXPAND (opt ''A'' (Some ''m'') OPT_MODULE_EXPAND None)"
    "\<not> has_type OPT_HC (opt ''A'' (Some ''m'') OPT_MODULE_EXPAND None)"
    "check_option_validity (opt ''A'' (Some ''m'') OPT_MODULE_EXPAND None) = Inr ()" by code_simp+
  from module_expansion_defines_one [OF this] show ?thesis by simp
qed

end
