(* ===== verification/Numbers.thy ===== *)
theory Numbers
  imports Config_Opt
begin

text \<open>
  Numeric option values: what \<open>str_is_number_value\<close> accepts and what \<open>str_to_number\<close> makes of
  it, against the numbers that were printed.
\<close>

lemma of_char_dec_digit: "n < 10 \<Longrightarrow> (of_char (dec_digit n) :: nat) = 48 + n"
  by (simp add: dec_digit_def)

lemma isdigit_dec_digit [simp]: "n < 10 \<Longrightarrow> isdigit (dec_digit n)"
  by (simp add: isdigit_def of_char_dec_digit)

lemma digit_val_dec_digit [simp]: "n < 10 \<Longrightarrow> digit_val (dec_digit n) = int n"
  by (simp add: digit_val_def of_char_dec_digit Let_def)

lemma show_nat_step: "10 \<le> n \<Longrightarrow> show_nat n = show_nat (n div 10) @ [dec_digit (n mod 10)]"
  by (simp add: show_nat.simps [of n])

lemma show_nat_digit: "n < 10 \<Longrightarrow> show_nat n = [dec_digit n]"
  by (simp add: show_nat.simps [of n])

lemma show_nat_induct [case_names digit step]:
  assumes "\<And>n. n < 10 \<Longrightarrow> P n" "\<And>n. 10 \<le> n \<Longrightarrow> P (n div 10) \<Longrightarrow> P n"
  shows "P (n :: nat)"
  by (induction n rule: less_induct) (metis assms div_less_dividend linorder_not_less one_less_numeral_iff
      order_less_le_trans semiring_norm(76) zero_less_numeral)

lemma show_nat_digits: "list_all isdigit (show_nat n)"
  by (induction n rule: show_nat_induct) (simp_all add: show_nat_step show_nat_digit)

lemma show_nat_nonempty: "show_nat n \<noteq> []"
  by (cases "n < 10") (simp_all add: show_nat_step show_nat_digit)

lemma scan_digits_append:
  "list_all P xs \<Longrightarrow> scan_digits P b acc (xs @ ys) = scan_digits P b (scan_digits P b acc xs) ys"
  by (induction xs arbitrary: acc) auto

lemma scan_show_nat: "scan_digits isdigit 10 0 (show_nat n) = int n"
proof (induction n rule: show_nat_induct)
  case (step n)
  have "10 * int (n div 10) + int (n mod 10) = int n"
    by (metis mult_div_mod_eq of_nat_add of_nat_mult of_nat_numeral)
  with step show ?case by (simp add: show_nat_step scan_digits_append show_nat_digits)
qed (simp add: show_nat_digit)

lemma isdigit_not_space: "isdigit c \<Longrightarrow> \<not> isspace c \<and> c \<noteq> CHR ''-'' \<and> c \<noteq> CHR ''+'' \<and> c \<noteq> CHR ''x''"
  by (auto simp: isdigit_def isspace_def)

lemma isdigit_xdigit: "isdigit c \<Longrightarrow> isxdigit c"
  by (simp add: isxdigit_def)

lemma digits_Cons:
  assumes "list_all isdigit s" "s \<noteq> []"
  shows "dropWhile isspace s = s" "scan_sign f s = f s" "take 2 s \<noteq> ''0x''"
    "takeWhile isxdigit s = s" "dropWhile isxdigit s = []"
proof -
  obtain c cs where s: "s = c # cs" using assms(2) by (cases s) auto
  with assms(1) isdigit_not_space show "dropWhile isspace s = s" "scan_sign f s = f s"
    by (auto simp: scan_sign_def)
  from assms(1) s isdigit_not_space show "take 2 s \<noteq> ''0x''"
    by (cases cs) auto
  from assms(1) isdigit_xdigit show "takeWhile isxdigit s = s" "dropWhile isxdigit s = []"
    by (auto simp: list_all_iff takeWhile_eq_all_conv)
qed

lemma to_int32_small: "0 \<le> n \<Longrightarrow> n < 2 ^ 31 \<Longrightarrow> to_int32 n = n"
  by (simp add: to_int32_def signed_take_bit_int_eq_self sint_sbintrunc')

text \<open>
  Every number below \<open>2 ^ 31\<close>, printed in decimal, passes the check for numeric values and
  is read back as itself.
\<close>

theorem number_round_trip:
  assumes "n < 2 ^ 31"
  shows "str_is_number_value (show_nat n) \<and> str_to_number (show_nat n) = int n"
proof -
  note d = digits_Cons [OF show_nat_digits [of n] show_nat_nonempty]
  have "int n < 2 ^ 31" using assms by (metis of_nat_less_iff of_nat_numeral of_nat_power)
  then show ?thesis
    by (simp add: d show_nat_nonempty str_is_number_value_def str_to_number_def scan_dec_def scan_show_nat to_int32_small)
qed

theorem number_round_trip_witness:
  "str_is_number_value (show_nat 4194304) \<and> str_to_number (show_nat 4194304) = 4194304"
  using number_round_trip [of 4194304] by simp

text \<open>
  The check lets through decimal values with hexadecimal digits in them, and they are
  then read up to the first such digit: \<open>ab\<close> is accepted and means 0, \<open>10ff\<close> means 10.
\<close>

theorem number_check_accepts_bare_hex:
  "str_is_number_value ''ab'' \<and> str_to_number ''ab'' = 0 \<and>
   str_is_number_value ''10ff'' \<and> str_to_number ''10ff'' = 10"
  by (simp add: str_is_number_value_def str_to_number_def scan_dec_def scan_sign_def isxdigit_def
      isdigit_def isspace_def digit_val_def to_int32_def)

end
