(* ===== verification/Mkconfig.thy ===== *)
theory Mkconfig
  imports Output Script_Invariants
begin

text \<open>
  \<open>mkconfig\<close> of \<open>pkg/util/mkconfig.c\<close>: turns the assignments of a make file into
  \<open>#define\<close> lines, following \<open>include\<close> lines and skipping C comments, which may extend over
  several lines. Reading or writing outside a buffer, and reading from a file that was never
  opened, are \<open>Mk_Undefined\<close>.
\<close>

lemma NL_char: "NL = CHR 0x0A"
  by code_simp

section \<open>Tokens\<close>

datatype comment_end = Comment_Undefined | Comment_Line_End | Comment_Closed string

text \<open>The loop that skips a comment, from the character after the slash that opens it.\<close>

fun skip_comment :: "string \<Rightarrow> comment_end" where
  "skip_comment [] = Comment_Undefined"
| "skip_comment (c # cs) =
     (if c = NL then Comment_Line_End
      else if c = CHR ''*'' \<and> take 1 cs = ''/'' then Comment_Closed (drop 1 cs)
      else skip_comment cs)"

lemma skip_comment_shorter: "skip_comment s = Comment_Closed r \<Longrightarrow> length r < length s"
  by (induction s) (auto split: if_splits)

text \<open>
  What \<open>get_token\<close> returns: the token, the rest of the line and the state; or a null pointer,
  with the state set to -1.
\<close>

datatype mk_token = Token string string int | Token_Null | Token_Undefined

function get_token_loop :: "nat \<Rightarrow> string \<Rightarrow> string \<Rightarrow> string \<Rightarrow> int \<Rightarrow> mk_token" where
  "get_token_loop tok_num pline [] buf state = Token buf [] state"
| "get_token_loop tok_num pline (c # cs) buf state =
     (if c = CHR ''#'' then Token buf (c # cs) state
      else if c = CHR ''/'' \<and> take 1 cs = ''*'' then
        (case skip_comment cs of
           Comment_Undefined \<Rightarrow> Token_Undefined
         | Comment_Line_End \<Rightarrow> Token buf pline 1
         | Comment_Closed rest \<Rightarrow> get_token_loop tok_num pline rest buf 0)
      else if tok_num = 1 \<and> (c = CHR '' '' \<or> c = CHR 0x09 \<or> c = NL) then
        (let rest = dropWhile isspace (c # cs) in
         if take 1 rest = ''='' then Token buf rest state else Token_Null)
      else if tok_num = 2 \<and> c = NL then Token buf (c # cs) state
      else if tok_num = 1 \<and> c = CHR ''='' then
        (let rest = dropWhile isspace cs in
         if rest = [] then Token_Null else Token buf rest state)
      else get_token_loop tok_num pline cs (buf @ [c]) state)"
  by pat_completeness auto

termination
  by (relation "measure (\<lambda>(n, p, line, b, st). length line)") (auto dest: skip_comment_shorter)

definition get_token :: "string \<Rightarrow> int \<Rightarrow> nat \<Rightarrow> mk_token" where
  "get_token line state tok_num = get_token_loop tok_num line line [] state"

section \<open>Lines\<close>

datatype mk_out = Mk_Nothing | Mk_Print string | Mk_Exit nat | Mk_Undefined

text \<open>The loop over the rest of a comment that an earlier line opened.\<close>

fun resume_comment :: "string \<Rightarrow> (string \<times> int) option" where
  "resume_comment [] = None"
| "resume_comment (c # cs) =
     (if c = NL then Some (c # cs, 1)
      else if c = CHR ''*'' \<and> take 1 cs = ''/'' then Some (drop 1 cs, 0)
      else resume_comment cs)"

definition LINE_SIZE :: nat where
  "LINE_SIZE = 256"

definition define_line :: "string \<Rightarrow> string \<Rightarrow> mk_out" where
  "define_line t v =
     (if v = ''y'' \<or> v = ''yes'' then Mk_Print (''#define '' @ t @ '' 1'')
      else if v = ''m'' then
        (if length t + length ''_MODULE'' \<ge> LINE_SIZE then Mk_Undefined
         else Mk_Print (''#define '' @ t @ ''_MODULE 1''))
      else if v = ''no'' then Mk_Print (''#undef '' @ t @ '' '')
      else Mk_Print (''#define '' @ t @ '' '' @ v))"

definition process_line :: "string \<Rightarrow> int \<Rightarrow> mk_out \<times> int" where
  "process_line line0 state0 = (case (if state0 \<noteq> 0 then resume_comment line0 else Some (line0, 0)) of
       None \<Rightarrow> (Mk_Undefined, state0)
     | Some (line, state) \<Rightarrow>
         if line = [] \<or> hd line = CHR ''#'' \<or> hd line = NL \<or> state \<noteq> 0 then (Mk_Nothing, state)
         else (case get_token line state 1 of
             Token_Undefined \<Rightarrow> (Mk_Undefined, state)
           | Token_Null \<Rightarrow> (Mk_Exit 3, -1)
           | Token t rest state1 \<Rightarrow>
               if t = [] then (Mk_Nothing, state1)
               else if state1 \<noteq> 0 then (Mk_Exit 3, state1)
               else (case get_token rest state1 2 of
                   Token_Undefined \<Rightarrow> (Mk_Undefined, state1)
                 | Token_Null \<Rightarrow> (Mk_Exit 3, -1)
                 | Token v rest2 state2 \<Rightarrow>
                     if v = [] then (Mk_Exit 3, state2) else (define_line t v, state2))))"

section \<open>Files\<close>

text \<open>\<open>fgets(line, n, f)\<close> on what is left of a text file.\<close>

definition fgets :: "nat \<Rightarrow> string \<Rightarrow> (string \<times> string) option" where
  "fgets n s = (if s = [] then None else
     let w = take (n - 1) s; k = length (takeWhile (\<lambda>c. c \<noteq> NL) w) in
     if k < length w then Some (take (Suc k) s, drop (Suc k) s) else Some (w, drop (n - 1) s))"

definition MAX_N_FILES :: nat where
  "MAX_N_FILES = 256"

definition INCLUDE_COMMAND :: string where
  "INCLUDE_COMMAND = ''include ''"

text \<open>The file name of an \<open>include\<close> line: at least one character, up to the next space.\<close>

definition include_name :: "string \<Rightarrow> string option" where
  "include_name line = (case dropWhile isspace (drop 7 line) of
       [] \<Rightarrow> None
     | c # cs \<Rightarrow> Some (c # takeWhile (\<lambda>d. \<not> isspace d) cs))"

text \<open>
  One turn of the loop of \<open>main\<close>. The open files are a stack, the current one first; a
  file is \<open>None\<close> when the array entry holds no open file. \<open>fs\<close> gives the text of each
  file that can be opened. Lines of only spaces after \<open>include\<close> are scanned past their end.
\<close>

datatype mk_step = Mk_Done | Mk_Stop nat | Mk_Bad | Mk_Next "string option list" int "string list"

definition mk_step :: "(string \<Rightarrow> string option) \<Rightarrow> string option list \<Rightarrow> int \<Rightarrow> mk_step" where
  "mk_step fs stack state = (case stack of
       [] \<Rightarrow> Mk_Done
     | None # below \<Rightarrow> Mk_Bad
     | Some s # below \<Rightarrow> (case fgets LINE_SIZE s of
           None \<Rightarrow> Mk_Next below state []
         | Some (line, rest) \<Rightarrow>
             if take 8 line = INCLUDE_COMMAND then
               if length stack \<ge> MAX_N_FILES then Mk_Next (Some rest # below) state []
               else (case include_name line of
                   None \<Rightarrow> Mk_Bad
                 | Some name \<Rightarrow>
                     if length name = 1 then Mk_Next (None # Some rest # below) state []
                     else (case fs name of
                         None \<Rightarrow> Mk_Stop 2
                       | Some text \<Rightarrow> Mk_Next (Some text # Some rest # below) state []))
             else (case process_line line state of
                 (Mk_Nothing, state') \<Rightarrow> Mk_Next (Some rest # below) state' []
               | (Mk_Print l, state') \<Rightarrow> Mk_Next (Some rest # below) state' [l]
               | (Mk_Exit n, state') \<Rightarrow> Mk_Stop n
               | (Mk_Undefined, state') \<Rightarrow> Mk_Bad)))"

datatype mk_result = Mk_Exited nat "string list" | Mk_Crashed "string list"

fun mk_loop :: "(string \<Rightarrow> string option) \<Rightarrow> nat \<Rightarrow> string option list \<Rightarrow> int \<Rightarrow> string list \<Rightarrow> mk_result option" where
  "mk_loop fs 0 stack state out = None"
| "mk_loop fs (Suc n) stack state out = (case mk_step fs stack state of
       Mk_Done \<Rightarrow> Some (Mk_Exited 0 out)
     | Mk_Stop k \<Rightarrow> Some (Mk_Exited k out)
     | Mk_Bad \<Rightarrow> Some (Mk_Crashed out)
     | Mk_Next stack' state' ls \<Rightarrow> mk_loop fs n stack' state' (out @ ls))"

definition mkconfig_main :: "(string \<Rightarrow> string option) \<Rightarrow> nat \<Rightarrow> string list \<Rightarrow> mk_result option" where
  "mkconfig_main fs fuel args = (case args of
       [] \<Rightarrow> Some (Mk_Exited 1 [])
     | file # rest \<Rightarrow> (case fs file of
           None \<Rightarrow> Some (Mk_Exited 2 [])
         | Some text \<Rightarrow> mk_loop fs fuel [Some text] 0 []))"


section \<open>Reading what create_config wrote\<close>

text \<open>Names and values without characters that mean something to \<open>mkconfig\<close>.\<close>

definition mk_name :: "string \<Rightarrow> bool" where
  "mk_name t \<longleftrightarrow> t \<noteq> [] \<and> list_all (\<lambda>c. c \<notin> {CHR ''#'', CHR ''/'', CHR ''='', CHR '' '', CHR 0x09, NL}) t"

lemma name_loop:
  "list_all (\<lambda>c. c \<notin> {CHR ''#'', CHR ''/'', CHR ''='', CHR '' '', CHR 0x09, NL}) t \<Longrightarrow>
   get_token_loop (Suc 0) p (t @ CHR ''='' # v) buf st =
     (if dropWhile isspace v = [] then Token_Null else Token (buf @ t) (dropWhile isspace v) st)"
  by (induction t arbitrary: buf) (auto simp: Let_def NL_char isspace_def)

lemma value_loop:
  "list_all (\<lambda>c. c \<notin> {CHR ''#'', CHR ''/'', NL}) v \<Longrightarrow>
   get_token_loop 2 p (v @ [NL]) buf st = Token (buf @ v) [NL] st"
  by (induction v arbitrary: buf) (auto simp: NL_char)

lemma process_assignment:
  assumes "mk_name t" "v \<noteq> []" "\<not> isspace (hd v)" "list_all (\<lambda>c. c \<notin> {CHR ''#'', CHR ''/'', NL}) v"
  shows "process_line (t @ ''='' @ v @ [NL]) 0 = (define_line t v, 0)"
proof -
  from assms(2,3) have "dropWhile isspace (v @ [NL]) = v @ [NL]" by (cases v) auto
  with assms(1) have "get_token (t @ ''='' @ v @ [NL]) 0 1 = Token t (v @ [NL]) 0"
    by (simp add: get_token_def name_loop mk_name_def)
  moreover from assms(4) have "get_token (v @ [NL]) 0 2 = Token v [NL] 0"
    by (simp add: get_token_def value_loop)
  moreover from assms(1) have "t \<noteq> []" "hd (t @ ''='' @ v @ [NL]) \<noteq> CHR ''#''" "hd (t @ ''='' @ v @ [NL]) \<noteq> NL"
    by (cases t; simp add: mk_name_def)+
  ultimately show ?thesis using assms(2) by (simp add: process_line_def)
qed

lemma process_comment: "process_line (CHR ''#'' # l) 0 = (Mk_Nothing, 0)"
  by (simp add: process_line_def)

text \<open>The two lines the make file has for a switch that is on, as \<open>mkconfig\<close> reads them.\<close>

lemma process_mk_option:
  assumes "\<not> has_type OPT_EXPORT o1" "opt_value o1 = Some v" "v = ''y'' \<or> v = ''m''"
    and "mk_name (opt_token o1)" "length (opt_token o1) < 249"
  shows "map (\<lambda>x. process_line (x @ [NL]) 0) (print_mk_option o1) =
    [(Mk_Nothing, 0), (Mk_Print (''#define '' @ opt_token o1 @ (if v = ''m'' then ''_MODULE'' else []) @ '' 1''), 0)]"
proof -
  let ?l = "''#define '' @ opt_token o1 @ (if v = ''m'' then ''_MODULE'' else []) @ '' 1''"
  have "process_line (opt_token o1 @ ''='' @ v @ [NL]) 0 = (define_line (opt_token o1) v, 0)"
    by (rule process_assignment) (use assms(3,4) in \<open>auto simp: isspace_def NL_char\<close>)
  moreover have "define_line (opt_token o1) v = Mk_Print ?l"
    using assms(3,5) by (auto simp: define_line_def LINE_SIZE_def)
  ultimately show ?thesis
    using assms(1-3) by (auto simp: print_mk_option_def Let_def yes_or_m_def process_comment)
qed


text \<open>
  Where the two do not agree: a switch that is not module-expanded and has the value \<open>m\<close> is
  defined under its own name in the header, and by \<open>mkconfig\<close> under the name of a module.
\<close>

lemma mkconfig_plain_m:
  assumes "\<not> has_type (OPT_NUMBER OR OPT_STR OR OPT_C_STR) o1" "\<not> has_type OPT_MODULE_EXPAND o1"
    and "\<not> has_type OPT_EXPORT o1" "opt_value o1 = Some ''m''" "mk_name (opt_token o1)" "length (opt_token o1) < 249"
  shows "''#define '' @ opt_token o1 @ '' 1'' \<in> set (fst (print_h_option o1))"
    and "map (\<lambda>x. process_line (x @ [NL]) 0) (print_mk_option o1) =
      [(Mk_Nothing, 0), (Mk_Print (''#define '' @ opt_token o1 @ ''_MODULE 1''), 0)]"
  using assms(1,2,4) process_mk_option [OF assms(3,4) _ assms(5,6)]
  by (auto simp: print_h_option_def Let_def plain_define_def is_y_m_def quote_of_def has_type_or)


section \<open>Termination\<close>

text \<open>
  The include depth is bounded, so the loop ends even on files that include themselves: with
  files of at most \<open>M\<close> characters, a turn lowers the sum over the open files of the
  characters left, weighted by how many files may still be opened above.
\<close>

fun mk_weight :: "nat \<Rightarrow> string option list \<Rightarrow> nat" where
  "mk_weight M [] = 0"
| "mk_weight M (f # below) =
     (case f of None \<Rightarrow> 1 | Some s \<Rightarrow> Suc (length s) * (M + 3) ^ (MAX_N_FILES - Suc (length below))) + mk_weight M below"

lemma fgets_shorter: "fgets LINE_SIZE s = Some (l, r) \<Longrightarrow> length r < length s"
  by (cases s) (auto simp: fgets_def Let_def LINE_SIZE_def split: if_splits)

lemma mk_step_weight:
  assumes bound: "\<forall>f body. fs f = Some body \<longrightarrow> length body \<le> M"
    and depth: "length stack \<le> MAX_N_FILES" and step: "mk_step fs stack state = Mk_Next stack' state' out"
  shows "mk_weight M stack' < mk_weight M stack \<and> length stack' \<le> MAX_N_FILES"
proof -
  from step obtain s below where stack: "stack = Some s # below"
    by (auto simp: mk_step_def split: list.splits option.splits)
  let ?w = "(M + 3) ^ (MAX_N_FILES - Suc (length below))"
  have w: "0 < ?w" by simp
  show ?thesis
  proof (cases "fgets LINE_SIZE s")
    case None
    with step stack depth w show ?thesis by (auto simp: mk_step_def)
  next
    case (Some lr)
    obtain line rest where lr: "lr = (line, rest)" by (cases lr)
    with Some fgets_shorter have shorter: "length rest < length s" by blast
    have less: "Suc (length rest) * ?w + x < Suc (length s) * ?w" if "x < ?w" for x
    proof -
      have "Suc (length rest) * ?w + ?w \<le> Suc (length s) * ?w"
        using mult_le_mono1 [of "Suc (Suc (length rest))" "Suc (length s)" ?w] shorter by simp
      with that show ?thesis by linarith
    qed
    have keep: ?thesis if "stack' = Some rest # below"
      using that less [OF w] stack depth by simp
    have push: "x < ?w" if "length stack < MAX_N_FILES" "x \<le> Suc M * (M + 3) ^ (MAX_N_FILES - Suc (Suc (length below)))" for x
    proof -
      let ?k = "MAX_N_FILES - Suc (Suc (length below))"
      from that(1) stack have k: "MAX_N_FILES - Suc (length below) = Suc ?k" by simp
      have "Suc M * (M + 3) ^ ?k < (M + 3) * (M + 3) ^ ?k" by (intro mult_less_mono1) simp_all
      with that(2) have "x < (M + 3) ^ Suc ?k" by simp
      with k show ?thesis by simp
    qed
    have none: ?thesis if "length stack < MAX_N_FILES" "stack' = None # Some rest # below"
    proof -
      have "1 \<le> Suc M * (M + 3) ^ (MAX_N_FILES - Suc (Suc (length below)))"
        by (simp add: Suc_le_eq del: mult_Suc)
      from less [OF push [OF that(1) this]] that stack show ?thesis by simp
    qed
    have some: ?thesis if "length stack < MAX_N_FILES" "stack' = Some body # Some rest # below" "fs name = Some body" for body name
    proof -
      have "Suc (length body) * (M + 3) ^ (MAX_N_FILES - Suc (Suc (length below)))
          \<le> Suc M * (M + 3) ^ (MAX_N_FILES - Suc (Suc (length below)))"
        using bound that(3) by (intro mult_le_mono1) simp
      from less [OF push [OF that(1) this]] that stack show ?thesis by simp
    qed
    from step stack Some lr consider "stack' = Some rest # below"
      | "length stack < MAX_N_FILES" "stack' = None # Some rest # below"
      | name body where "length stack < MAX_N_FILES" "stack' = Some body # Some rest # below" "fs name = Some body"
      by (auto simp: mk_step_def not_le split: if_splits option.splits prod.splits mk_out.splits)
    then show ?thesis by cases (fact keep none some)+
  qed
qed

lemma mk_loop_total:
  assumes bound: "\<forall>f body. fs f = Some body \<longrightarrow> length body \<le> M"
  shows "length stack \<le> MAX_N_FILES \<Longrightarrow> mk_weight M stack < n \<Longrightarrow> \<exists>r. mk_loop fs n stack state out = Some r"
proof (induction n arbitrary: stack state out)
  case 0
  then show ?case by simp
next
  case (Suc n)
  show ?case
  proof (cases "mk_step fs stack state")
    case (Mk_Next stack' state' ls)
    from mk_step_weight [OF bound Suc.prems(1) Mk_Next] Suc.prems(2)
    have "length stack' \<le> MAX_N_FILES" "mk_weight M stack' < n" by auto
    from Suc.IH [OF this] Mk_Next show ?thesis by simp
  qed simp_all
qed

text \<open>
  \<open>mkconfig\<close> ends on every file system whose files have bounded length, even when files
  include each other in a circle.
\<close>

theorem mkconfig_terminates:
  assumes "\<And>f text. fs f = Some text \<Longrightarrow> length text \<le> M"
  shows "\<exists>n. \<forall>m. \<exists>r. mkconfig_main fs (n + m) args = Some r"
proof (cases "\<exists>fname rest body. args = fname # rest \<and> fs fname = Some body")
  case True
  then obtain fname rest body where "args = fname # rest" "fs fname = Some body" by blast
  moreover have "\<exists>r. mk_loop fs (Suc (mk_weight M [Some body]) + m) [Some body] 0 [] = Some r" for m
    by (rule mk_loop_total [where M = M]) (use assms in \<open>simp_all add: MAX_N_FILES_def\<close>)
  ultimately show ?thesis by (simp only: mkconfig_main_def list.case option.case) blast
next
  case False
  then show ?thesis by (auto simp: mkconfig_main_def split: list.splits option.splits)
qed

theorem mkconfig_terminates_witness:
  "\<exists>n. \<forall>m. \<exists>r. mkconfig_main (\<lambda>f. Some (''include self'' @ [NL])) (n + m) [''self''] = Some r"
  by (rule mkconfig_terminates [where M = 13]) auto

text \<open>
  A file name of one letter is taken for a malformed directive, and the program goes on
  reading from a file it has not opened.
\<close>

lemma one_letter_include_crashes:
  "mkconfig_main (\<lambda>f. if f = ''main'' then Some (''include a'' @ [NL]) else if f = ''a'' then Some ''A=y'' else None)
     3 [''main''] = Some (Mk_Crashed [])"
  by code_simp

lemma longer_include_read:
  "mkconfig_main (\<lambda>f. if f = ''main'' then Some (''include ab'' @ [NL]) else if f = ''ab'' then Some (''A=y'' @ [NL]) else None)
     9 [''main''] = Some (Mk_Exited 0 [''#define A 1''])"
  by code_simp

end
