(* ===== verification/Str_Util.thy ===== *)
theory Str_Util
  imports C_Lib
begin

text \<open>
  The string utilities of \<open>str.c\<close>. A \<open>char *\<close> that may be null is a \<open>string option\<close>; the
  functions that update a \<open>char **\<close> in place and return it are functions from the old string
  to the new one, which is never null. Loops that need not end for every argument return
  \<open>None\<close> when they do not.
\<close>

section \<open>Comparing\<close>

definition strz :: "string option \<Rightarrow> string" where
  "strz s = (case s of None \<Rightarrow> '''' | Some x \<Rightarrow> x)"

definition strncmp :: "string \<Rightarrow> string \<Rightarrow> nat \<Rightarrow> int" where
  "strncmp s t n = strcmp (take n s) (take n t)"

definition str_cmpsub :: "string option \<Rightarrow> string option \<Rightarrow> int" where
  "str_cmpsub s sub = strncmp (strz s) (strz sub) (length (strz sub))"

definition str_cmp :: "string option \<Rightarrow> string option \<Rightarrow> int" where
  "str_cmp s1 s2 = strcmp (strz s1) (strz s2)"

definition str_cmpdelim :: "string \<Rightarrow> string \<Rightarrow> string \<Rightarrow> int" where
  "str_cmpdelim s sub delim = (let i = length (takeWhile (\<lambda>c. c \<notin> set delim) s) in
     if i = length s then strcmp s sub
     else if i \<noteq> length sub then 1
     else strncmp s sub i)"

definition str_casecmpdelim :: "string \<Rightarrow> string \<Rightarrow> string \<Rightarrow> int" where
  "str_casecmpdelim s sub delim = (let i = length (takeWhile (\<lambda>c. c \<notin> set delim) s) in
     if i = length s then strcmp (map tolower s) (map tolower sub)
     else if i \<noteq> length sub then 1
     else strncmp (map tolower s) (map tolower sub) i)"

abbreviation ws_skip :: "string \<Rightarrow> string" where
  "ws_skip \<equiv> dropWhile isspace"

text \<open>The loop of \<open>str_wscmp\<close>: both pointers move on, over spaces, while they see the same.\<close>

function wscmp_loop :: "string \<Rightarrow> string \<Rightarrow> int" where
  "wscmp_loop p q = (case (p, q) of
       (c # cs, d # ds) \<Rightarrow> if c = d then wscmp_loop (ws_skip cs) (ws_skip ds) else int (of_char d) - int (of_char c)
     | (c # cs, []) \<Rightarrow> - int (of_char c)
     | ([], d # ds) \<Rightarrow> int (of_char d)
     | ([], []) \<Rightarrow> 0)"
  by auto
termination
  by (relation "measure (\<lambda>(p, q). length p)") (auto simp: le_imp_less_Suc length_dropWhile_le)

declare wscmp_loop.simps [simp del]

definition str_wscmp :: "string \<Rightarrow> string \<Rightarrow> int" where
  "str_wscmp p q = wscmp_loop (ws_skip p) (ws_skip q)"

section \<open>Testing\<close>

definition str_isempty :: "string option \<Rightarrow> bool" where
  "str_isempty s \<longleftrightarrow> s = None \<or> s = Some ''''"

definition str_isspace :: "string option \<Rightarrow> bool" where
  "str_isspace s = (case s of None \<Rightarrow> True | Some x \<Rightarrow> ws_skip x = [])"

definition str_isnumber :: "string \<Rightarrow> bool \<Rightarrow> bool" where
  "str_isnumber s allow_ws = (let
       s1 = (if allow_ws then ws_skip s else s);
       i = length (takeWhile isdigit s1);
       s2 = dropWhile isdigit s1
     in if i = 0 \<or> i > 10 then False
        else (if allow_ws then ws_skip s2 else s2) = [])"

definition str_isxdigit :: "string option \<Rightarrow> bool" where
  "str_isxdigit s = (case s of None \<Rightarrow> False | Some x \<Rightarrow> dropWhile isxdigit x = [])"

definition char_is_valid :: "char \<Rightarrow> bool" where
  "char_is_valid c \<longleftrightarrow> 32 \<le> (of_char c :: nat) \<and> (of_char c :: nat) \<le> 126"

definition charset_is_valid :: "string option \<Rightarrow> bool" where
  "charset_is_valid s = (case s of None \<Rightarrow> True | Some x \<Rightarrow> dropWhile char_is_valid x = [])"

definition username_charset_is_valid :: "string option \<Rightarrow> bool" where
  "username_charset_is_valid s = (case s of None \<Rightarrow> True | Some x \<Rightarrow>
     charset_is_valid s \<and>
       length (takeWhile (\<lambda>c. c \<notin> set ('' :@\"|'' @ [CHR 0x5C] @ ''/=+<>[]*?,;'')) x) = length x)"

definition sip_username_charset_is_valid :: "string option \<Rightarrow> bool" where
  "sip_username_charset_is_valid s = (case s of None \<Rightarrow> True | Some x \<Rightarrow>
     charset_is_valid s \<and>
       length (takeWhile (\<lambda>c. c \<notin> set ('' :@\"|'' @ [CHR 0x5C] @ ''=+<>[]?,;'')) x) = length x)"

section \<open>Copying and cutting\<close>

definition str_alloc :: string where
  "str_alloc = ''''"

definition strdup_null :: "string option \<Rightarrow> string" where
  "strdup_null s = strz s"

definition strndup_null :: "string option \<Rightarrow> nat \<Rightarrow> string" where
  "strndup_null s n = (case s of None \<Rightarrow> '''' | Some x \<Rightarrow> take n x)"

definition str_cpy :: "string option \<Rightarrow> string" where
  "str_cpy str = strdup_null str"

definition str_ncpy :: "string option \<Rightarrow> nat \<Rightarrow> string" where
  "str_ncpy str len = strndup_null str len"

definition str_use :: "string option \<Rightarrow> string" where
  "str_use str = (case str of None \<Rightarrow> '''' | Some x \<Rightarrow> x)"

definition strncpyz :: "string \<Rightarrow> nat \<Rightarrow> string" where
  "strncpyz src n = take n src"

definition str_cat :: "string option \<Rightarrow> string \<Rightarrow> string" where
  "str_cat s str = (case s of None \<Rightarrow> str | Some x \<Rightarrow> x @ str)"

definition str_left :: "string option \<Rightarrow> nat \<Rightarrow> string" where
  "str_left s len = (case s of None \<Rightarrow> str_alloc | Some x \<Rightarrow>
     if length x \<le> len then x else take len x)"

definition str_right :: "string option \<Rightarrow> nat \<Rightarrow> string" where
  "str_right s len = (case s of None \<Rightarrow> str_alloc | Some x \<Rightarrow>
     if length x \<le> len then x else drop (length x - len) x)"

text \<open>
  \<open>str_mid\<close> tests \<open>s\<close> where its siblings test \<open>*s\<close>, so a null string reaches \<open>strlen\<close>; and
  it moves \<open>n + 1\<close> bytes from position \<open>from\<close> of an array of \<open>n + 1\<close>. \<open>None\<close> is a read of
  memory that is not the string's.
\<close>

definition str_mid :: "string option \<Rightarrow> nat \<Rightarrow> nat \<Rightarrow> string option" where
  "str_mid s from len = (case s of None \<Rightarrow> None | Some x \<Rightarrow> (let
       n = length x
     in if from > n then Some ''''
        else (let n' = (if from + len > n then from + len else n) in
          if from + (n' + 1) > n + 1 then None else Some (drop from x))))"

definition strrtrim :: "string \<Rightarrow> string" where
  "strrtrim s = rev (dropWhile isspace (rev s))"

definition strltrim :: "string \<Rightarrow> string" where
  "strltrim s = ws_skip s"

definition str_rtrim :: "string option \<Rightarrow> string" where
  "str_rtrim s = (case s of None \<Rightarrow> str_alloc | Some x \<Rightarrow> strrtrim x)"

definition str_chomp :: "string option \<Rightarrow> string" where
  "str_chomp s = str_rtrim s"

definition str_ltrim :: "string option \<Rightarrow> string" where
  "str_ltrim s = (case s of None \<Rightarrow> str_alloc | Some x \<Rightarrow> strltrim x)"

definition str_trim :: "string option \<Rightarrow> string" where
  "str_trim s = str_rtrim (Some (str_ltrim s))"

definition strtrim :: "string \<Rightarrow> string" where
  "strtrim s = strrtrim (strltrim s)"

definition str_tolower :: "string option \<Rightarrow> string" where
  "str_tolower s = (case s of None \<Rightarrow> str_alloc | Some x \<Rightarrow> map tolower x)"

definition str_toupper :: "string option \<Rightarrow> string" where
  "str_toupper s = (case s of None \<Rightarrow> str_alloc | Some x \<Rightarrow> map toupper x)"

text \<open>\<open>strtok\<close> leaves leading delimiters in the copy and ends it at the first one after them.\<close>

definition str_cpytok :: "string option \<Rightarrow> string \<Rightarrow> string" where
  "str_cpytok str delim = (let x = str_cpy str; lead = takeWhile (\<lambda>c. c \<in> set delim) x in
     lead @ takeWhile (\<lambda>c. c \<notin> set delim) (drop (length lead) x))"

definition str_valid_terminate_nl :: "string option \<Rightarrow> string" where
  "str_valid_terminate_nl s = (case s of None \<Rightarrow> str_alloc | Some x \<Rightarrow>
     if x = [] \<or> last x = NL then x else str_cat s '' '')"

text \<open>\<open>str_vprintf_full\<close>: the old string is kept in front of the new text, or replaced by it.\<close>

definition str_printf :: "string \<Rightarrow> fmt_arg list \<Rightarrow> string option" where
  "str_printf fmt args = c_format fmt args"

definition str_catprintf :: "string option \<Rightarrow> string \<Rightarrow> fmt_arg list \<Rightarrow> string option" where
  "str_catprintf s fmt args = map_option (\<lambda>x. strz s @ x) (c_format fmt args)"

section \<open>Searching and replacing\<close>

fun strstr :: "string \<Rightarrow> string \<Rightarrow> nat option" where
  "strstr [] needle = (if needle = [] then Some 0 else None)"
| "strstr (c # cs) needle =
     (if take (length needle) (c # cs) = needle then Some 0 else map_option Suc (strstr cs needle))"

text \<open>\<open>strnstr\<close> searches a buffer, not a string, and an empty needle matches only a zero byte.\<close>

fun strnstr_loop :: "string \<Rightarrow> string \<Rightarrow> nat \<Rightarrow> nat option" where
  "strnstr_loop haystack needle n =
     (if length needle \<le> n then
        (case haystack of
           [] \<Rightarrow> None
         | c # cs \<Rightarrow>
             if c = (case needle of [] \<Rightarrow> NUL | d # ds \<Rightarrow> d) \<and> take (length needle) haystack = needle then Some 0
             else (case n of 0 \<Rightarrow> None | Suc k \<Rightarrow> map_option Suc (strnstr_loop cs needle k)))
      else None)"

declare strnstr_loop.simps [simp del]

definition strnstr :: "string \<Rightarrow> string \<Rightarrow> nat \<Rightarrow> nat option" where
  "strnstr haystack needle n = strnstr_loop haystack needle n"

definition strchrs :: "string \<Rightarrow> string \<Rightarrow> nat option" where
  "strchrs s chrs = (let i = length (takeWhile (\<lambda>c. c \<notin> set chrs) s) in if i < length s then Some i else None)"

partial_function (option) count_str_loop :: "string \<Rightarrow> string \<Rightarrow> nat \<Rightarrow> nat option" where
  "count_str_loop needle haystack count = (case strstr haystack needle of
       None \<Rightarrow> Some count
     | Some p \<Rightarrow> count_str_loop needle (drop (p + length needle) haystack) (Suc count))"

definition str_count_str :: "string \<Rightarrow> string \<Rightarrow> nat option" where
  "str_count_str haystack needle = count_str_loop needle haystack 0"

definition str_count_chrs :: "string \<Rightarrow> string \<Rightarrow> nat" where
  "str_count_chrs s chrs = length (filter (\<lambda>c. c \<in> set chrs) s)"

definition str_insert :: "string option \<Rightarrow> nat \<Rightarrow> nat \<Rightarrow> string \<Rightarrow> string" where
  "str_insert s from nremove replace = (let
       x = strz s; src_len = length x; from' = min src_len from; nremove' = min (src_len - from') nremove
     in take from' x @ replace @ take (src_len - nremove' - from') (drop (from' + nremove') x))"

partial_function (option) replace_loop :: "string \<Rightarrow> string \<Rightarrow> nat \<Rightarrow> string \<Rightarrow> string option" where
  "replace_loop search replace i s = (case strstr (drop i s) search of
       None \<Rightarrow> Some s
     | Some p \<Rightarrow> replace_loop search replace (i + p + length replace)
                   (str_insert (Some s) (i + p) (length search) replace))"

definition str_replace :: "string option \<Rightarrow> string \<Rightarrow> string \<Rightarrow> string option" where
  "str_replace s search replace = (case s of None \<Rightarrow> Some str_alloc | Some x \<Rightarrow> replace_loop search replace 0 x)"

text \<open>\<open>strrevchr\<close> with the end given as a position: the last occurrence up to it.\<close>

definition strrevchr :: "string \<Rightarrow> char \<Rightarrow> nat \<Rightarrow> nat option" where
  "strrevchr str ch endpos = (let r = dropWhile (\<lambda>c. c \<noteq> ch) (rev (take (Suc endpos) str)) in
     if r = [] then None else Some (length r - 1))"

text \<open>
  \<open>str_catfast\<close> works with a length the caller keeps; beyond the end of the string it writes
  where no reader comes.
\<close>

definition str_catfast :: "string option \<Rightarrow> string option \<Rightarrow> nat \<Rightarrow> string \<times> nat" where
  "str_catfast s str slen = (case str of
       None \<Rightarrow> (strz s, slen)
     | Some y \<Rightarrow> (let x = strz s in (if slen \<le> length x then take slen x @ y else x, slen + length y)))"

section \<open>Trimming\<close>

lemma dropWhile_rev_split: "\<exists>b. s = rev (dropWhile P (rev s)) @ b \<and> list_all P b"
proof (intro exI conjI)
  show "s = rev (dropWhile P (rev s)) @ rev (takeWhile P (rev s))"
    by (metis rev_append rev_rev_ident takeWhile_dropWhile_id)
  show "list_all P (rev (takeWhile P (rev s)))" by (auto simp: list_all_iff dest: set_takeWhileD)
qed

lemma last_strrtrim: "strrtrim s \<noteq> [] \<Longrightarrow> \<not> isspace (last (strrtrim s))"
  using hd_dropWhile [of isspace "rev s"] by (simp add: strrtrim_def last_rev)

lemma hd_strrtrim: "strrtrim s \<noteq> [] \<Longrightarrow> hd (strrtrim s) = hd s"
proof -
  from dropWhile_rev_split [of s isspace] obtain b where "s = strrtrim s @ b" by (auto simp: strrtrim_def)
  then show "strrtrim s \<noteq> [] \<Longrightarrow> hd (strrtrim s) = hd s" by (metis hd_append2)
qed

text \<open>The trimmed string is what is left between leading and trailing white space.\<close>

lemma str_trim_middle:
  "\<exists>a b. x = a @ str_trim (Some x) @ b \<and> list_all isspace a \<and> list_all isspace b \<and>
     (str_trim (Some x) = [] \<or> \<not> isspace (hd (str_trim (Some x))) \<and> \<not> isspace (last (str_trim (Some x))))"
proof -
  let ?y = "ws_skip x"
  from dropWhile_rev_split [of ?y isspace] obtain b where b: "?y = strrtrim ?y @ b" "list_all isspace b"
    by (auto simp: strrtrim_def)
  have a: "x = takeWhile isspace x @ ?y" "list_all isspace (takeWhile isspace x)"
    by (auto simp: list_all_iff dest: set_takeWhileD)
  have t: "str_trim (Some x) = strrtrim ?y" by (simp add: str_trim_def str_rtrim_def str_ltrim_def strltrim_def)
  have "\<not> isspace (hd (strrtrim ?y))" if "strrtrim ?y \<noteq> []"
  proof -
    from that b(1) have "?y \<noteq> []" by (metis append_is_Nil_conv)
    with hd_strrtrim [OF that] hd_dropWhile [of isspace x] show ?thesis by simp
  qed
  moreover have "x = takeWhile isspace x @ strrtrim ?y @ b" using a(1) b(1) by metis
  ultimately show ?thesis unfolding t using a(2) b(2) last_strrtrim by blast
qed

lemma strtrim_between:
  assumes "list_all isspace a" "list_all isspace b" "m \<noteq> [] \<Longrightarrow> \<not> isspace (hd m) \<and> \<not> isspace (last m)"
  shows "strtrim (a @ m @ b) = m"
proof (cases "m = []")
  case True
  with assms have "list_all isspace (a @ m @ b)" by simp
  then have "ws_skip (a @ m @ b) = []" by (simp only: dropWhile_eq_Nil_conv list_all_iff)
  then show ?thesis unfolding strtrim_def strltrim_def strrtrim_def using True by (simp only: rev.simps dropWhile.simps)
next
  case False
  with assms have "ws_skip (a @ m @ b) = m @ b" by (cases m) (auto simp: list_all_iff dropWhile_append)
  moreover from False assms have "dropWhile isspace (rev b @ rev m) = rev m"
    by (cases m rule: rev_cases) (auto simp: list_all_iff dropWhile_append)
  ultimately show ?thesis by (simp add: strtrim_def strltrim_def strrtrim_def)
qed

section \<open>Comparing without spaces\<close>

abbreviation no_space :: "string \<Rightarrow> string" where
  "no_space \<equiv> filter (\<lambda>c. \<not> isspace c)"

lemma filter_ws_skip: "no_space (ws_skip s) = no_space s"
  by (induction s) auto

lemma ws_skip_Cons: "ws_skip s = c # cs \<Longrightarrow> \<not> isspace c"
  using hd_dropWhile [of isspace s] by simp

text \<open>The strings the loop sees do not begin with a space.\<close>

definition skipped :: "string \<Rightarrow> bool" where
  "skipped s \<longleftrightarrow> s = [] \<or> \<not> isspace (hd s)"

lemma skipped_ws_skip: "skipped (ws_skip s)"
  using hd_dropWhile [of isspace s] by (auto simp: skipped_def)

lemma c_string_ws_skip: "c_string s \<Longrightarrow> c_string (ws_skip s)"
  by (auto simp: c_string_def dest: set_dropWhileD)

lemma wscmp_loop_eq_0:
  "c_string p \<Longrightarrow> c_string q \<Longrightarrow> skipped p \<Longrightarrow> skipped q \<Longrightarrow> wscmp_loop p q = 0 \<longleftrightarrow> no_space p = no_space q"
proof (induction p q rule: wscmp_loop.induct)
  case (1 p q)
  consider (nil) "p = []" | (nil2) c cs where "p = c # cs" "q = []"
    | (eq) c cs ds where "p = c # cs" "q = c # ds" | (neq) c cs d ds where "p = c # cs" "q = d # ds" "c \<noteq> d"
    by (cases p; cases q) auto
  then show ?case
  proof cases
    case nil
    with "1.prems" show ?thesis
      by (cases q) (auto simp: of_char_0_iff skipped_def wscmp_loop.simps [of "[]"])
  next
    case nil2
    with "1.prems" show ?thesis by (auto simp: of_char_0_iff skipped_def wscmp_loop.simps [of "c # cs"])
  next
    case eq
    from "1.IH" [OF _ eq refl] "1.prems" eq
    have "wscmp_loop (ws_skip cs) (ws_skip ds) = 0 \<longleftrightarrow> no_space cs = no_space ds"
      by (simp add: skipped_ws_skip c_string_ws_skip filter_ws_skip)
    with eq show ?thesis by (simp add: wscmp_loop.simps [of "c # cs"])
  next
    case neq
    with "1.prems" show ?thesis by (auto simp: of_char_eq_nat skipped_def wscmp_loop.simps [of "c # cs"])
  qed
qed

section \<open>Cutting\<close>

lemma left_right: "str_left (Some x) n @ str_right (Some x) (length x - n) = x"
  by (cases "length x \<le> n") (auto simp: str_left_def str_right_def)

text \<open>\<open>str_mid\<close> either reads beyond the end of the string or cuts nothing out of it.\<close>

lemma str_mid_never_cuts: "str_mid (Some x) from len \<in> {None, Some x} \<or> from > length x"
  by (auto simp: str_mid_def Let_def split: if_splits)

lemma str_valid_terminate_nl_appends_blank:
  "x \<noteq> [] \<Longrightarrow> last x \<noteq> NL \<Longrightarrow> str_valid_terminate_nl (Some x) = x @ '' ''"
  by (simp add: str_valid_terminate_nl_def str_cat_def)

lemma insert_removes: "str_insert (Some (str_insert (Some x) p 0 r)) (min (length x) p) (length r) [] = x"
  by (simp add: str_insert_def strz_def Let_def)

section \<open>Replacing\<close>

lemma strstr_Some:
  "strstr s needle = Some p \<Longrightarrow> p + length needle \<le> length s \<and> s = take p s @ needle @ drop (p + length needle) s"
proof (induction s needle arbitrary: p rule: strstr.induct)
  case (2 c cs needle)
  show ?case
  proof (cases "take (length needle) (c # cs) = needle")
    case True
    with "2.prems" have "p = 0" by simp
    moreover have "length needle \<le> length (c # cs)" by (metis True length_take min.cobounded1)
    moreover have "c # cs = needle @ drop (length needle) (c # cs)" by (metis True append_take_drop_id)
    ultimately show ?thesis by simp
  next
    case False
    with "2.prems" obtain k where "strstr cs needle = Some k" "p = Suc k" by auto
    with "2.IH" [OF False, of k] show ?thesis by simp
  qed
qed (simp split: if_splits)

lemma strstr_least: "strstr s needle = Some p \<Longrightarrow> k < p \<Longrightarrow> take (length needle) (drop k s) \<noteq> needle"
proof (induction s needle arbitrary: p k rule: strstr.induct)
  case (2 c cs needle)
  from "2.prems" obtain q where q: "take (length needle) (c # cs) \<noteq> needle" "strstr cs needle = Some q" "p = Suc q"
    by (auto split: if_splits)
  with "2.IH" [of q] "2.prems"(2) show ?case by (cases k) simp_all
qed (simp split: if_splits)

lemma strstr_None: "strstr s needle = None \<Longrightarrow> k \<le> length s \<Longrightarrow> take (length needle) (drop k s) \<noteq> needle"
proof (induction s needle arbitrary: k rule: strstr.induct)
  case (2 c cs needle)
  then show ?case by (cases k) (auto split: if_splits)
qed (simp split: if_splits)

text \<open>What replacing means: cut at the first occurrence, go on behind it.\<close>

function replace_ref :: "string \<Rightarrow> string \<Rightarrow> string \<Rightarrow> string" where
  "replace_ref search replace s = (case strstr s search of
       None \<Rightarrow> s
     | Some p \<Rightarrow> if search = [] then s
                 else take p s @ replace @ replace_ref search replace (drop (p + length search) s))"
  by auto
termination
proof (relation "measure (\<lambda>(search, replace, s). length s)")
  show "((search, replace, drop (p + length search) s), search, replace, s) \<in> measure (\<lambda>(search, replace, s). length s)"
    if "strstr s search = Some p" "search \<noteq> []" for search replace s p
  proof -
    from strstr_Some [OF that(1)] that(2) show ?thesis by (cases search) auto
  qed
qed simp

declare replace_ref.simps [simp del]

lemma replace_loop_ref:
  assumes "search \<noteq> []" "i \<le> length s"
  shows "replace_loop search replace i s = Some (take i s @ replace_ref search replace (drop i s))"
  using assms
proof (induction "length s - i" arbitrary: i s rule: less_induct)
  case less
  show ?case
  proof (cases "strstr (drop i s) search")
    case None
    then show ?thesis using replace_loop.simps [of search replace i s] replace_ref.simps [of search replace "drop i s"] by simp
  next
    case (Some p)
    let ?s = "str_insert (Some s) (i + p) (length search) replace" and ?i = "i + p + length replace"
    let ?rest = "drop (i + p + length search) s"
    from strstr_Some [OF Some] less.prems have le: "i + p + length search \<le> length s" by auto
    then have s: "?s = take (i + p) s @ replace @ ?rest" by (simp add: str_insert_def strz_def Let_def)
    with le have i: "take ?i ?s = take (i + p) s @ replace" "drop ?i ?s = ?rest" "?i \<le> length ?s" by simp_all
    moreover have "length ?s - ?i < length s - i" using s le less.prems(1) by (cases search) auto
    ultimately have "replace_loop search replace ?i ?s = Some (take (i + p) s @ replace @ replace_ref search replace ?rest)"
      using less.hyps [of ?s ?i] less.prems by simp
    moreover have "take (i + p) s = take i s @ take p (drop i s)" by (rule take_add)
    moreover have "drop (p + length search) (drop i s) = ?rest" by (simp add: add_ac)
    ultimately show ?thesis using Some less.prems(1) replace_loop.simps [of search replace i s]
        replace_ref.simps [of search replace "drop i s"] by simp
  qed
qed

lemma strstr_empty [simp]: "strstr x [] = Some 0"
  by (cases x) simp_all

lemma replace_loop_diverges: "replace_loop search replace i s = Some r \<Longrightarrow> search \<noteq> []"
proof (rule replace_loop.raw_induct [where P = "\<lambda>search replace i s r. search \<noteq> []"])
  fix loop :: "string \<Rightarrow> string \<Rightarrow> nat \<Rightarrow> string \<Rightarrow> string option" and search replace i s r
  assume IH: "\<And>search replace i s r. loop search replace i s = Some r \<Longrightarrow> search \<noteq> []"
    and r: "(case strstr (drop i s) search of None \<Rightarrow> Some s
      | Some p \<Rightarrow> loop search replace (i + p + length replace)
          (str_insert (Some s) (i + p) (length search) replace)) = Some r"
  show "search \<noteq> []"
  proof
    assume "search = []"
    with r have "loop [] replace (i + length replace) (str_insert (Some s) i 0 replace) = Some r" by simp
    from IH [OF this] show False by simp
  qed
qed

lemma count_loop_total:
  assumes "needle \<noteq> []"
  shows "\<exists>n. count_str_loop needle haystack count = Some (count + n) \<and> n * length needle \<le> length haystack"
proof (induction "length haystack" arbitrary: haystack count rule: less_induct)
  case less
  show ?case
  proof (cases "strstr haystack needle")
    case None
    then show ?thesis using count_str_loop.simps [of needle haystack count] by (auto intro: exI [of _ 0])
  next
    case (Some p)
    from strstr_Some [OF Some] assms have le: "p + length needle \<le> length haystack" "0 < length needle" by auto
    with assms have "length (drop (p + length needle) haystack) < length haystack" by (cases needle) auto
    from less.hyps [OF this] obtain n where
      "count_str_loop needle (drop (p + length needle) haystack) (Suc count) = Some (Suc count + n)"
      "n * length needle \<le> length (drop (p + length needle) haystack)" by blast
    with Some le show ?thesis using count_str_loop.simps [of needle haystack count]
      by (intro exI [of _ "Suc n"]) simp
  qed
qed

section \<open>What the string functions do\<close>

text \<open>
  C38: \<open>str_replace\<close> cuts the string at the first occurrence, puts the replacement there and
  goes on behind it; for an empty search string it never returns.
\<close>

theorem str_replace_behaviour:
  "str_replace s search replace =
     (if s = None then Some '''' else if search = [] then None else Some (replace_ref search replace (strz s)))"
proof (cases s)
  case (Some x)
  show ?thesis
  proof (cases "search = []")
    case True
    with Some replace_loop_diverges [of search replace 0 x] show ?thesis
      by (cases "replace_loop search replace 0 x") (auto simp: str_replace_def)
  next
    case False
    with Some replace_loop_ref [OF False, of 0 x replace] show ?thesis by (simp add: str_replace_def strz_def)
  qed
qed (simp add: str_replace_def str_alloc_def)

text \<open>
  \<open>str_trim\<close> returns the one string that is left of its argument when white space is
  taken off at both ends and that neither begins nor ends with white space.
\<close>

theorem str_trim_spec:
  "str_trim (Some x) = m \<longleftrightarrow>
     (\<exists>a b. x = a @ m @ b \<and> list_all isspace a \<and> list_all isspace b \<and>
       (m = [] \<or> \<not> isspace (hd m) \<and> \<not> isspace (last m)))"
proof
  assume "str_trim (Some x) = m"
  with str_trim_middle [of x] show "\<exists>a b. x = a @ m @ b \<and> list_all isspace a \<and> list_all isspace b \<and>
    (m = [] \<or> \<not> isspace (hd m) \<and> \<not> isspace (last m))" by simp
next
  assume "\<exists>a b. x = a @ m @ b \<and> list_all isspace a \<and> list_all isspace b \<and>
    (m = [] \<or> \<not> isspace (hd m) \<and> \<not> isspace (last m))"
  then obtain a b where ab: "x = a @ m @ b" "list_all isspace a" "list_all isspace b"
    "m = [] \<or> \<not> isspace (hd m) \<and> \<not> isspace (last m)" by blast
  from strtrim_between [OF ab(2,3)] ab show "str_trim (Some x) = m"
    by (auto simp: str_trim_def str_rtrim_def str_ltrim_def strtrim_def)
qed

theorem str_trim_spec_witness: "\<exists>a b. '' x y '' = a @ ''x y'' @ b \<and> list_all isspace a \<and> list_all isspace b \<and>
    (''x y'' = [] \<or> \<not> isspace (hd ''x y'') \<and> \<not> isspace (last ''x y''))"
proof -
  have "str_trim (Some '' x y '') = ''x y''" by code_simp
  then show ?thesis by (simp only: str_trim_spec)
qed

text \<open>
  \<open>str_wscmp\<close> returns 0 exactly for strings that are the same without their white space.\<close>

theorem str_wscmp_spec:
  assumes "c_string p" "c_string q"
  shows "str_wscmp p q = 0 \<longleftrightarrow> filter (\<lambda>c. \<not> isspace c) p = filter (\<lambda>c. \<not> isspace c) q"
  using wscmp_loop_eq_0 [of "ws_skip p" "ws_skip q"] assms
  by (simp add: str_wscmp_def skipped_ws_skip c_string_ws_skip filter_ws_skip)

theorem str_wscmp_spec_witness:
  "str_wscmp ''a b '' '' ab'' = 0 \<longleftrightarrow> filter (\<lambda>c. \<not> isspace c) ''a b '' = filter (\<lambda>c. \<not> isspace c) '' ab''"
  by (rule str_wscmp_spec) code_simp+

end
