(* ===== verification/Host_Base.thy ===== *)
theory Host_Base
  imports Feature_Base Str_Util
begin

text \<open>
  What the host configuration (\<open>config_host.c\<close>) needs beyond the scripts: the system it runs
  on, commands that return a value, and strings built step by step. The host system is a
  parameter. Its answer to a command may depend on the commands run before it, which the
  program's log records.
\<close>

section \<open>The host system\<close>

record host =
  host_getenv :: "string \<Rightarrow> string option"
  host_run :: "string list \<Rightarrow> string \<Rightarrow> (string \<times> int) option"
  host_stat :: "string list \<Rightarrow> string \<Rightarrow> bool"
  host_lstat :: "string list \<Rightarrow> string \<Rightarrow> bool"

definition commands :: "conf \<Rightarrow> string list" where
  "commands s = concat (map (\<lambda>m. case m of Command c \<Rightarrow> [c] | _ \<Rightarrow> []) (cfg_log s))"

section \<open>Commands\<close>

type_synonym 'a cmd = "conf \<Rightarrow> conf_error + 'a \<times> conf"

definition ret_c :: "'a \<Rightarrow> 'a cmd" where
  "ret_c x s = Inr (x, s)"

definition bind_c :: "'a cmd \<Rightarrow> ('a \<Rightarrow> 'b cmd) \<Rightarrow> 'b cmd" where
  "bind_c m f s = bind_res (m s) (\<lambda>(x, t). f x t)"

definition read_c :: "'a rd \<Rightarrow> ('a \<Rightarrow> 'b cmd) \<Rightarrow> 'b cmd" where
  "read_c r f s = bind_res (r s) (\<lambda>x. f x s)"

definition do_c :: "stmt \<Rightarrow> 'a cmd \<Rightarrow> 'a cmd" where
  "do_c c m s = bind_res (c s) m"

definition if_m :: "bool rd \<Rightarrow> 'a cmd \<Rightarrow> 'a cmd \<Rightarrow> 'a cmd" where
  "if_m b m n s = bind_res (b s) (\<lambda>v. if v then m s else n s)"

text \<open>A command whose value the statements that follow use.\<close>

definition run_c :: "'a cmd \<Rightarrow> ('a \<Rightarrow> stmt list) \<Rightarrow> stmt" where
  "run_c m f s = bind_res (m s) (\<lambda>(x, t). block (f x) t)"

text \<open>
  \<open>sys_get(&ret, fmt, ...)\<close>: the output of a command and its exit status. The command is
  itself a format. A failing \<open>popen\<close> leaves a null stream that is closed: undefined.
\<close>

definition str_format :: "string \<Rightarrow> fmt_arg rd list \<Rightarrow> string rd" where
  "str_format f args s = bind_res (eval_args args s)
     (\<lambda>xs. case c_format f xs of None \<Rightarrow> Inl Undefined | Some x \<Rightarrow> Inr x)"

definition sys_get :: "host \<Rightarrow> string rd \<Rightarrow> fmt_arg rd list \<Rightarrow> (string \<times> int) cmd" where
  "sys_get h r args s = bind_res (r s) (\<lambda>f. bind_res (str_format f args s) (\<lambda>c.
     case host_run h (commands s) c of
       None \<Rightarrow> Inl Undefined
     | Some a \<Rightarrow> Inr (a, s\<lparr> cfg_log := cfg_log s @ [Command c] \<rparr>)))"

definition sys_exec :: "host \<Rightarrow> string rd \<Rightarrow> int cmd" where
  "sys_exec h r = bind_c (sys_get h r []) (\<lambda>(output, code). ret_c code)"

definition stat_ok :: "host \<Rightarrow> string rd \<Rightarrow> bool rd" where
  "stat_ok h r s = bind_res (r s) (\<lambda>p. Inr (host_stat h (commands s) p))"

text \<open>\<open>printf\<close>, \<open>fprintf(stderr, ...)\<close> and \<open>rg_error\<close> at a level that returns; and \<open>rg_error(LEXIT, ...)\<close>.\<close>

definition say :: "string \<Rightarrow> fmt_arg rd list \<Rightarrow> stmt" where
  "say f args s = bind_res (str_format f args s) (\<lambda>x. Inr (s\<lparr> cfg_log := cfg_log s @ [Printed x] \<rparr>))"

definition rg_exit :: "string \<Rightarrow> stmt" where
  "rg_exit msg s = Inl (Conf_err msg)"

section \<open>Strings\<close>

abbreviation sarg :: "string \<Rightarrow> fmt_arg rd" where
  "sarg x \<equiv> pure (Str_arg (Some x))"

abbreviation parg :: "string option \<Rightarrow> fmt_arg rd" where
  "parg p \<equiv> pure (Str_arg p)"

definition getz_arg :: "string \<Rightarrow> fmt_arg rd" where
  "getz_arg t s = bind_res (token_getz t s) (\<lambda>x. Inr (Str_arg (Some x)))"

definition getz_str :: "string \<Rightarrow> string option rd" where
  "getz_str t s = bind_res (token_getz t s) (\<lambda>x. Inr (Some x))"

definition getz_is :: "string \<Rightarrow> string \<Rightarrow> bool rd" where
  "getz_is t x s = bind_res (token_getz t s) (\<lambda>y. Inr (y = x))"

text \<open>\<open>!strcmp(p, x)\<close> for a local pointer; a pointer the program dereferences.\<close>

definition opt_is :: "string option \<Rightarrow> string \<Rightarrow> bool rd" where
  "opt_is p x s = (case p of None \<Rightarrow> Inl Undefined | Some y \<Rightarrow> Inr (y = x))"

definition nonnull :: "string option rd \<Rightarrow> string rd" where
  "nonnull r s = bind_res (r s) (\<lambda>p. case p of None \<Rightarrow> Inl Undefined | Some x \<Rightarrow> Inr x)"

definition if_rd :: "bool rd \<Rightarrow> 'a rd \<Rightarrow> 'a rd \<Rightarrow> 'a rd" where
  "if_rd b r q s = bind_res (b s) (\<lambda>v. if v then r s else q s)"

text \<open>
  The steps that build a local string: \<open>str_catprintf\<close>, \<open>str_printf\<close>, an assignment, and
  conditionals of such steps. The string starts as a null pointer.
\<close>

type_synonym buf_op = "string option \<Rightarrow> string option rd"

primrec assemble :: "buf_op list \<Rightarrow> buf_op" where
  "assemble [] b s = Inr b"
| "assemble (f # fs) b s = bind_res (f b s) (\<lambda>b'. assemble fs b' s)"

definition cat :: "string \<Rightarrow> fmt_arg rd list \<Rightarrow> buf_op" where
  "cat f args b s = bind_res (eval_args args s)
     (\<lambda>xs. case str_catprintf b f xs of None \<Rightarrow> Inl Undefined | Some x \<Rightarrow> Inr (Some x))"

definition str_print :: "string \<Rightarrow> fmt_arg rd list \<Rightarrow> buf_op" where
  "str_print f args b s = bind_res (eval_args args s)
     (\<lambda>xs. case str_printf f xs of None \<Rightarrow> Inl Undefined | Some x \<Rightarrow> Inr (Some x))"

definition put :: "string \<Rightarrow> buf_op" where
  "put x b s = Inr (Some x)"

definition cat_if :: "bool rd \<Rightarrow> buf_op list \<Rightarrow> buf_op list \<Rightarrow> buf_op" where
  "cat_if c fs gs b s = bind_res (c s) (\<lambda>v. if v then assemble fs b s else assemble gs b s)"

definition if_null :: "buf_op list \<Rightarrow> buf_op" where
  "if_null fs b s = (if b = None then assemble fs b s else Inr b)"

section \<open>Reading is safe\<close>

lemma rsafe_str_format [safe_intros]: "rsafe sch (eval_args args) \<Longrightarrow> rsafe sch (str_format f args)"
  unfolding str_format_def by (erule rsafe_bind) (auto split: option.splits)

lemma rsafe_stat_ok [safe_intros]: "rsafe sch r \<Longrightarrow> rsafe sch (stat_ok h r)"
  unfolding stat_ok_def by (erule rsafe_bind) simp

lemma rsafe_getz_arg [safe_intros]: "settable sch t \<Longrightarrow> rsafe sch (getz_arg t)"
  unfolding getz_arg_def by (rule rsafe_bind) (auto intro: rsafe_token_getz)

lemma rsafe_getz_str [safe_intros]: "settable sch t \<Longrightarrow> rsafe sch (getz_str t)"
  unfolding getz_str_def by (rule rsafe_bind) (auto intro: rsafe_token_getz)

lemma rsafe_getz_is [safe_intros]: "settable sch t \<Longrightarrow> rsafe sch (getz_is t x)"
  unfolding getz_is_def by (rule rsafe_bind) (auto intro: rsafe_token_getz)

lemma rsafe_opt_is [safe_intros]: "rsafe sch (opt_is p x)"
  by (auto simp: rsafe_def opt_is_def split: option.splits)

lemma rsafe_nonnull [safe_intros]: "rsafe sch r \<Longrightarrow> rsafe sch (nonnull r)"
  unfolding nonnull_def by (erule rsafe_bind) (auto split: option.splits)

lemma rsafe_if_rd [safe_intros]: "rsafe sch b \<Longrightarrow> rsafe sch r \<Longrightarrow> rsafe sch q \<Longrightarrow> rsafe sch (if_rd b r q)"
  unfolding if_rd_def by (erule rsafe_bind) (auto split: if_splits dest: rsafeD)

lemma rsafe_assemble_Nil [safe_intros]: "rsafe sch (assemble [] b)"
  by (rule rsafe_total) simp

lemma rsafe_assemble_Cons [safe_intros]:
  "(\<And>b. rsafe sch (f b)) \<Longrightarrow> (\<And>b. rsafe sch (assemble fs b)) \<Longrightarrow> rsafe sch (assemble (f # fs) b)"
  by (auto simp: rsafe_def bind_res_eq_Inl)

lemma rsafe_cat [safe_intros]: "rsafe sch (eval_args args) \<Longrightarrow> rsafe sch (cat f args b)"
  unfolding cat_def by (erule rsafe_bind) (auto split: option.splits)

lemma rsafe_str_print [safe_intros]: "rsafe sch (eval_args args) \<Longrightarrow> rsafe sch (str_print f args b)"
  unfolding str_print_def by (erule rsafe_bind) (auto split: option.splits)

lemma rsafe_put [safe_intros]: "rsafe sch (put x b)"
  by (rule rsafe_total) (simp add: put_def)

lemma rsafe_cat_if [safe_intros]:
  "rsafe sch c \<Longrightarrow> (\<And>b. rsafe sch (assemble fs b)) \<Longrightarrow> (\<And>b. rsafe sch (assemble gs b)) \<Longrightarrow> rsafe sch (cat_if c fs gs b)"
  unfolding cat_if_def by (erule rsafe_bind) (auto split: if_splits dest: rsafeD)

lemma rsafe_if_null [safe_intros]: "(\<And>b. rsafe sch (assemble fs b)) \<Longrightarrow> rsafe sch (if_null fs b)"
  by (auto simp: rsafe_def if_null_def split: if_splits)

section \<open>What commands write, and how they fail\<close>

text \<open>The judgement on scripts, for a command: its value put aside.\<close>

definition okm :: "(string \<times> opt_type_t) list \<Rightarrow> string set \<Rightarrow> string set \<Rightarrow> 'a cmd \<Rightarrow> bool" where
  "okm sch V J m \<longleftrightarrow> ok sch V J (\<lambda>s. map_sum id snd (m s))"

lemma ok_bind_state:
  assumes "okm sch V J m" "\<And>x. ok sch V J (f x)"
  shows "ok sch V J (\<lambda>s. bind_res (m s) (\<lambda>(x, t). f x t))"
proof -
  have seq: "ok sch V J (\<lambda>s. map_sum id snd (m s))" using assms(1) by (simp add: okm_def)
  have "emits sch (policy sch V J) (\<lambda>s. bind_res (m s) (\<lambda>(x, t). f x t))"
  proof (rule emitsI)
    fix s s' assume h: "has_schema sch s" and r: "bind_res (m s) (\<lambda>(x, t). f x t) = Inr s'"
    then obtain x t where x: "m s = Inr (x, t)" "f x t = Inr s'" by (auto simp: bind_res_eq_Inr)
    have mt: "map_sum id snd (m s) = Inr t" using x(1) by simp
    from emitsD [OF ok_emits [OF seq] h mt] obtain es where "cfg_run s es t" "list_all (policy sch V J) es" by blast
    moreover from emitsD [OF ok_emits [OF assms(2)] emits_schema [OF ok_emits [OF seq] h mt] x(2)]
    obtain es' where "cfg_run t es' s'" "list_all (policy sch V J) es'" by blast
    ultimately show "\<exists>es. cfg_run s es s' \<and> list_all (policy sch V J) es"
      by (intro exI [of _ "es @ es'"]) (auto simp: cfg_run_append)
  qed
  moreover have "script_failure e" if h: "has_schema sch s" and e: "bind_res (m s) (\<lambda>(x, t). f x t) = Inl e" for s e
  proof (cases "m s")
    case (Inl e')
    with e safeD [OF ok_safe [OF seq] h, of e'] show ?thesis by simp
  next
    case (Inr xt)
    obtain x t where xt: "xt = (x, t)" by (cases xt)
    with Inr have "map_sum id snd (m s) = Inr t" by simp
    from emits_schema [OF ok_emits [OF seq] h this] have "has_schema sch t" .
    with e Inr xt safeD [OF ok_safe [OF assms(2) [of x]]] show ?thesis by simp
  qed
  ultimately show ?thesis by (auto simp: ok_def safe_def)
qed

lemma ok_run [safe_intros]: "okm sch V J m \<Longrightarrow> (\<And>x. ok sch V J (block (f x))) \<Longrightarrow> ok sch V J (run_c m f)"
  unfolding run_c_def by (rule ok_bind_state)

lemma okm_bind [safe_intros]: "okm sch V J m \<Longrightarrow> (\<And>x. okm sch V J (f x)) \<Longrightarrow> okm sch V J (bind_c m f)"
proof -
  assume m: "okm sch V J m" and f: "\<And>x. okm sch V J (f x)"
  have "(\<lambda>s. map_sum id snd (bind_c m f s)) = (\<lambda>s. bind_res (m s) (\<lambda>(x, t). map_sum id snd (f x t)))"
    by (auto simp: bind_c_def bind_res_def fun_eq_iff split: sum.split)
  with ok_bind_state [OF m, of "\<lambda>x t. map_sum id snd (f x t)"] f show "okm sch V J (bind_c m f)"
    by (simp add: okm_def)
qed

lemma okm_ret [safe_intros]: "okm sch V J (ret_c x)"
  by (auto simp: okm_def ok_def safe_def ret_c_def intro!: emits_unchanged)

lemma okm_of_ok:
  assumes "ok sch V J c" "\<And>s. map_sum id snd (m s) = c s"
  shows "okm sch V J m"
  using assms by (simp add: okm_def)

lemma okm_read [safe_intros]:
  assumes "rsafe sch r" "\<And>x. okm sch V J (f x)"
  shows "okm sch V J (read_c r f)"
proof -
  have "(\<lambda>s. map_sum id snd (read_c r f s)) = local_c r (\<lambda>x. [\<lambda>s. map_sum id snd (f x s)])"
    by (auto simp: read_c_def local_c_def bind_res_def fun_eq_iff split: sum.split)
  moreover have "ok sch V J (local_c r (\<lambda>x. [\<lambda>s. map_sum id snd (f x s)]))"
    using assms by (intro safe_intros) (auto simp: okm_def)
  ultimately show ?thesis by (simp add: okm_def)
qed

lemma okm_do [safe_intros]:
  assumes "ok sch V J c" "okm sch V J m"
  shows "okm sch V J (do_c c m)"
proof -
  have "(\<lambda>s. map_sum id snd (do_c c m s)) = block [c, \<lambda>s. map_sum id snd (m s)]"
    by (auto simp: do_c_def bind_res_def fun_eq_iff split: sum.split)
  moreover have "ok sch V J (block [c, \<lambda>s. map_sum id snd (m s)])"
    using assms by (intro safe_intros) (auto simp: okm_def)
  ultimately show ?thesis by (simp add: okm_def)
qed

lemma okm_if [safe_intros]:
  assumes "rsafe sch b" "okm sch V J m" "okm sch V J n"
  shows "okm sch V J (if_m b m n)"
proof -
  have "(\<lambda>s. map_sum id snd (if_m b m n s)) =
      ifc b [\<lambda>s. map_sum id snd (m s)] [\<lambda>s. map_sum id snd (n s)]"
    by (auto simp: if_m_def ifc_def bind_res_def fun_eq_iff split: sum.split)
  moreover have "ok sch V J (ifc b [\<lambda>s. map_sum id snd (m s)] [\<lambda>s. map_sum id snd (n s)])"
    using assms by (intro safe_intros) (auto simp: okm_def)
  ultimately show ?thesis by (simp add: okm_def)
qed

lemma ok_say [safe_intros]: "rsafe sch (eval_args args) \<Longrightarrow> ok sch V J (say f args)"
proof -
  assume a: "rsafe sch (eval_args args)"
  have "say f args = local_c (str_format f args) (\<lambda>x. [log_message (Printed x)])"
    by (auto simp: say_def local_c_def log_message_def bind_res_def fun_eq_iff split: sum.split)
  moreover have "ok sch V J (local_c (str_format f args) (\<lambda>x. [log_message (Printed x)]))"
    using a by (intro safe_intros)
  ultimately show ?thesis by simp
qed

lemma ok_rg_exit [safe_intros]: "ok sch V J (rg_exit m)"
  by (auto simp: ok_def safe_def emits_def rg_exit_def)

lemma okm_sys_get [safe_intros]:
  assumes "rsafe sch r" "rsafe sch (eval_args args)"
  shows "okm sch V J (sys_get h r args)"
proof (rule okm_of_ok)
  let ?c = "\<lambda>s. map_sum id snd (sys_get h r args s)"
  have "emits sch (policy sch V J) ?c"
  proof (rule emits_one)
    fix s s' assume "?c s = Inr s'"
    then obtain c where "s' = s\<lparr> cfg_log := cfg_log s @ [Command c] \<rparr>"
      by (cases "sys_get h r args s") (auto simp: sys_get_def bind_res_eq_Inr split: option.splits)
    then show "\<exists>e. cfg_step s e s' \<and> policy sch V J e" by (auto intro!: exI [of _ "Log (Command c)"] cfg_step.log)
  qed
  moreover have "safe sch ?c"
    unfolding safe_def
  proof (intro allI impI)
    fix s e assume h: "has_schema sch s" and "?c s = Inl e"
    then have "sys_get h r args s = Inl e" by (cases "sys_get h r args s") auto
    with h rsafeD [OF assms(1)] rsafeD [OF rsafe_str_format [OF assms(2)]] show "script_failure e"
      by (auto simp: sys_get_def bind_res_eq_Inl split: option.splits)
  qed
  ultimately show "ok sch V J ?c" by (simp add: ok_def)
qed simp

lemma okm_sys_exec [safe_intros]: "rsafe sch r \<Longrightarrow> okm sch V J (sys_exec h r)"
  unfolding sys_exec_def by (intro safe_intros) (auto intro: okm_ret split: prod.split)

lemma ok_case_prod [safe_intros]:
  "(\<And>x y. ok sch V J (block (f x y))) \<Longrightarrow> ok sch V J (block (case p of (x, y) \<Rightarrow> f x y))"
  by (simp split: prod.split)

lemma okm_case_prod [safe_intros]:
  "(\<And>x y. okm sch V J (f x y)) \<Longrightarrow> okm sch V J (case p of (x, y) \<Rightarrow> f x y)"
  by (simp split: prod.split)

lemma ok_case_option [safe_intros]:
  "ok sch V J c \<Longrightarrow> (\<And>x. ok sch V J (f x)) \<Longrightarrow> ok sch V J (case p of None \<Rightarrow> c | Some x \<Rightarrow> f x)"
  by (simp split: option.split)

lemma okm_case_option [safe_intros]:
  "okm sch V J m \<Longrightarrow> (\<And>x. okm sch V J (f x)) \<Longrightarrow> okm sch V J (case p of None \<Rightarrow> m | Some x \<Rightarrow> f x)"
  by (simp split: option.split)

lemma okm_let [safe_intros]: "okm sch V J (f x) \<Longrightarrow> okm sch V J (let y = x in f y)"
  by simp

section \<open>The options the host configuration gives a value\<close>

definition host_token_list :: "string list" where
  "host_token_list = [
   ''AR'',
   ''ARCH_CFLAGS'',
   ''ARCH_LINUX_FLAGS'',
   ''AS'',
   ''AUTOCONF_H'',
   ''BINFRMT_FILE'',
   ''BOOTLDR_COMPRESSED_DISK'',
   ''BOOTLDR_IMG'',
   ''BOOTSTRAP'',
   ''CC'',
   ''CC_FOR_BUILD'',
   ''CFLAGS_ENVIR'',
   ''COMPRESSED_DISK'',
   ''COMPRESSED_INIT_DISK'',
   ''COMPRESSED_RAMDISK'',
   ''CONFIG_ICONV_CONST_CAST'',
   ''CONFIG_RG_MYSQL_LIB_PREFIX'',
   ''CONFIG_RG_MYSQL_PREFIX'',
   ''CONFIG_RG_OPENSSL_LOCAL_PREFIX'',
   ''CPP'',
   ''CPP_FOR_BUILD'',
   ''CROSS_COMPILE'',
   ''CXX'',
   ''CXX_FOR_BUILD'',
   ''DYNAMIC_LINKER'',
   ''ENDIAN_CFLAGS'',
   ''ENDIAN_LDFLAGS'',
   ''FLASH_IMG'',
   ''FLASH_IMG_OFFSET'',
   ''FLASH_IMG_REAL_OFFSET'',
   ''FLTHDR'',
   ''GCC_VERSION'',
   ''GENROMFS'',
   ''HOSTCC'',
   ''HOSTCPP'',
   ''HOST_AR'',
   ''HOST_AS'',
   ''HOST_LD'',
   ''HOST_NM'',
   ''HOST_OBJCOPY'',
   ''HOST_OBJDUMP'',
   ''HOST_RANLIB'',
   ''HOST_SIZE'',
   ''HOST_STRIP'',
   ''I386_TARGET_MACHINE'',
   ''I386_TOOLS_PREFIX'',
   ''LANG_COMPILER'',
   ''LANG_COMPILER_OPT'',
   ''LD'',
   ''LDFLAGS_ENVIR'',
   ''LDFLAT'',
   ''LEX'',
   ''LIB_GCC_DIR_PREFIX'',
   ''LINUX_ARCH_PATH'',
   ''LINUX_CFLAGS'',
   ''LOCAL_ADD_RG_KERNEL_FOR_TARGET'',
   ''LOCAL_CFLAGS'',
   ''LOCAL_LDFLAGS'',
   ''LZMAMK'',
   ''MGT_LDLIBS'',
   ''MGT_LOCAL_LDLIBS'',
   ''MODFS_DISK'',
   ''MOD_24_CFLAGS'',
   ''NEEDED_SYMBOLS'',
   ''NET_TOOLS_MAKE_FILE'',
   ''NM'',
   ''OBJCOPY'',
   ''OBJDUMP'',
   ''OPENRG_GPL_LDLIBS'',
   ''OPENRG_GPL_LIB'',
   ''OPENRG_IMG'',
   ''OPENRG_LDLIBS'',
   ''OPENRG_LIB'',
   ''OPENRG_LOCAL_LDLIBS'',
   ''OPENRG_PROD'',
   ''OPENRG_RMT_UPDATE_IMG'',
   ''OS_PATH'',
   ''OS_TARGET'',
   ''PATH'',
   ''PERM_STORAGE_FILES_DIR'',
   ''PROD_KERNEL_IMAGE'',
   ''PROD_LINUX_TARGET'',
   ''RANLIB'',
   ''REAL_GCC'',
   ''RG_BIN'',
   ''RG_BUILD'',
   ''RG_CFLAGS'',
   ''RG_CPU'',
   ''RG_INCLUDE_DIR'',
   ''RG_LIB'',
   ''RG_LIBPTHREAD_VERSION'',
   ''RG_LINUX_24_CFLAGS'',
   ''RG_LINUX_26_CFLAGS'',
   ''RG_LINUX_CFLAGS'',
   ''SIZE'',
   ''SPCC'',
   ''STATIC_MOD_DIR'',
   ''STRIP'',
   ''TARGET_CC'',
   ''TARGET_CPP'',
   ''TARGET_CXX'',
   ''TARGET_MACHINE'',
   ''TARGET_PREFIX'',
   ''TEXMF'',
   ''TEXMFCNF'',
   ''TOOLCHAIN_ROOT'',
   ''TOOLS_PREFIX'',
   ''TRX'',
   ''UNITTEST_SPAWNER'',
   ''VALGRIND_CMD'',
   ''VX_INCLUDE_DIR'',
   ''YACC'',
   ''YFLAGS'']"

definition host_tokens :: "string set" where
  "host_tokens = set host_token_list"

lemma host_tokens_all: "list_all (\<lambda>t. t \<in> host_tokens) host_token_list"
  by (simp add: list_all_iff host_tokens_def)

lemmas host_token_facts [simp] = host_tokens_all [unfolded host_token_list_def list.pred_inject]

interpretation host: script_schema base_schema host_tokens
  by unfold_locales simp_all

end
