(* ===== verification/Config_Host_1.thy ===== *)
theory Config_Host_1
  imports Host_Base
begin

text \<open>
  \<open>config_host.c\<close>, the functions that configure the tools of the machine the build runs on.
  \<open>BUILDDIR\<close> and \<open>RGSRC\<close> come from the environment and may be null; \<open>CCACHE\<close>
      and
  \<open>TOOLCHAIN_ROOT\<close> are set before the functions that take them as arguments run.
\<close>

definition CH :: string where
  "CH = ''config_host.c''"

definition TOOLCHAIN_ROOT :: string where
  "TOOLCHAIN_ROOT = ''/usr/local/openrg''"

section \<open>Operations\<close>

definition install_linux_package :: "string \<Rightarrow> string \<Rightarrow> stmt" where
  "install_linux_package pkg dscr = block [
     say (''Package %s: %s'' @ [NL]) [sarg pkg, sarg dscr],
     say (''To install %s, open a command prompt as root and:'' @ [NL]) [sarg pkg],
     say (''Debian/Knoppix:'' @ [NL] @ ''   Type:'' @ [NL] @ ''   apt-get install %s'' @ [NL]) [sarg pkg],
     say (''RedHat/Mandrake/Fedora/Suse:'' @ [NL]
        @ ''   Download/locate %s-x.y.z-arch.rpm package.'' @ [NL]
        @ ''   To find this package you can google '%s rpm'.'' @ [NL]
        @ ''   After downloading, type:'' @ [NL]
        @ ''   rpm -Uvh %s-x.y.z-arch.rpm'' @ [NL]) [sarg pkg, sarg pkg, sarg pkg]]"

definition conf_ostype :: "host \<Rightarrow> stmt" where
  "conf_ostype h = run_c (sys_get h (pure ''echo $OSTYPE'') []) (\<lambda>(ostype, ret). [
     when_c (pure (ret \<noteq> 0)) [conf_err ''$OSTYPE not defined''],
     ifc (pure (ostype = ''cygwin'')) [
       token_set_y CH 88 ''CONFIG_RG_HOST_CYGWIN'',
       token_set_y CH 89 ''CONFIG_RG_WINDOWS_HOST''] [
       ifc (pure (strncmp ostype ''linux'' 5 = 0)) [
         token_set_y CH 92 ''CONFIG_RG_HOST_LINUX''] [
         conf_err ''OS '%s' not supported ($OSTYPE)'']]])"

definition conf_os_path :: "stmt" where
  "conf_os_path = block [
   ifc (on ''CONFIG_WINDOWS_HOST'') [
       token_set CH 102 ''OS_PATH'' ''\"$(shell cygpath -w $(1))\"'' []]
      [token_set CH 104 ''OS_PATH'' ''$(1)'' []]]"

definition conf_ccache :: "host \<Rightarrow> string cmd" where
  "conf_ccache h = read_c (token_getz ''CONFIG_RG_CCACHE'') (\<lambda>ccache.
     do_c (say ''Detecting ccache: '' []) (
     if_m (pure (ccache = ''n'')) (do_c (say (''disabled'' @ [NL]) []) (ret_c '''')) (
     bind_c (if_m (pure (ccache = '''' \<or> ccache = ''y''))
         (bind_c (sys_get h (pure ''which ccache'') []) (\<lambda>(output, ret).
            (let x = str_trim (Some output) in
             ret_c (if ret \<noteq> 0 \<or> str_isempty (Some x) then None else Some x))))
         (ret_c (Some ccache)))
       (\<lambda>found. case found of
          None \<Rightarrow> do_c (say (''not found'' @ [NL]) []) (ret_c '''')
        | Some x \<Rightarrow> bind_c (sys_get h (pure x) []) (\<lambda>(output, ret).
            do_c (when_c (pure (strstr output ''ccache'' = None)) [
                conf_err ''failed executing ccache (%s)''])
            (do_c (say (''found %s (use CONFIG_RG_CCACHE=n to disable)'' @ [NL]) [sarg (x @ '' '')])
            (ret_c (x @ '' ''))))))))"

definition conf_toolchain :: "stmt" where
  "conf_toolchain = block [
     token_set CH 158 ''TOOLCHAIN_ROOT'' ''%s'' [sarg TOOLCHAIN_ROOT],
     token_set CH 159 ''I386_TARGET_MACHINE'' ''i386-jungo-linux-gnu'' [],
     token_set CH 160 ''I386_TOOLS_PREFIX'' ''%s/%s'' [sarg TOOLCHAIN_ROOT, str_arg ''I386_TARGET_MACHINE'']]"

definition which :: "host \<Rightarrow> string \<Rightarrow> string cmd" where
  "which h cmd = bind_c (sys_get h (pure cmd) []) (\<lambda>(output, ret). ret_c output)"

definition conf_cc_for_build :: "host \<Rightarrow> string option \<Rightarrow> string \<Rightarrow> stmt" where
  "conf_cc_for_build h BUILDDIR CCACHE = run_c
     (if_m (on ''CONFIG_RG_USE_LOCAL_TOOLCHAIN'')
       (bind_c (which h ''which cc'') (\<lambda>gcc1.
        bind_c (if_m (pure (str_isempty (Some gcc1)))
            (bind_c (which h ''which gcc'') (\<lambda>gcc2.
              do_c (when_c (pure (str_isempty (Some gcc2))) [
                 rg_exit ''internal error - failed locating cc or gcc''])
              (ret_c gcc2)))
            (ret_c gcc1)) (\<lambda>local_gcc.
        bind_c (which h ''which g++'') (\<lambda>local_cxx.
          do_c (when_c (pure (str_isempty (Some local_cxx))) [
             rg_exit ''internal error - failed locating g++''])
          (ret_c (str_trim (Some local_gcc), str_trim (Some local_cxx)))))))
       (read_c (str_format ''%s/bin/i386-jungo-linux-gnu-gcc'' [str_arg ''I386_TOOLS_PREFIX'']) (\<lambda>local_gcc.
        read_c (str_format ''%s/bin/i386-jungo-linux-gnu-g++'' [str_arg ''I386_TOOLS_PREFIX'']) (\<lambda>local_cxx.
          ret_c (local_gcc, local_cxx)))))
     (\<lambda>(local_gcc, local_cxx). [
       token_set CH 600 ''CC_FOR_BUILD'' ''%s%s -DCC_FOR_BUILD -I%s/pkg/include -DCONFIG_HAS_MMU''
         [sarg CCACHE, sarg local_gcc, parg BUILDDIR],
       token_set CH 604 ''CXX_FOR_BUILD'' ''%s%s -DCC_FOR_BUILD -I%s/pkg/include -DCONFIG_HAS_MMU''
         [sarg CCACHE, sarg local_cxx, parg BUILDDIR]])"

text \<open>
  \<open>TOOLS_PREFIX\<close> is still a null pointer when \<open>config_host\<close> calls this function.
\<close>

definition conf_host_tools :: "string option \<Rightarrow> stmt" where
  "conf_host_tools TOOLS_PREFIX =
     local_c (if_rd (on ''CONFIG_WINDOWS_HOST'')
         (sprintf_buf 256 ''i386'' []) (pure '''')) (\<lambda>postfix. [
     local_c (if_rd (on ''CONFIG_WINDOWS_HOST'')
         (sprintf_buf 256 ''%s/bin/'' [parg TOOLS_PREFIX])
         (if_rd (neg (on ''CONFIG_RG_USE_LOCAL_TOOLCHAIN''))
            (sprintf_buf 256 ''%s/bin/i386-jungo-linux-gnu-'' [str_arg ''I386_TOOLS_PREFIX''])
            (pure ''''))) (\<lambda>prefix. [
     token_set CH 684 ''HOST_AR'' ''%sar%s'' [sarg prefix, sarg postfix],
     token_set CH 685 ''HOST_LD'' ''%sld%s'' [sarg prefix, sarg postfix],
     token_set CH 686 ''HOST_AS'' ''%sas%s'' [sarg prefix, sarg postfix],
     token_set CH 687 ''HOST_NM'' ''%snm%s'' [sarg prefix, sarg postfix],
     token_set CH 688 ''HOST_RANLIB'' ''%sranlib%s'' [sarg prefix, sarg postfix],
     token_set CH 689 ''HOST_STRIP'' ''%sstrip%s'' [sarg prefix, sarg postfix],
     token_set CH 690 ''HOST_SIZE'' ''%ssize%s'' [sarg prefix, sarg postfix],
     token_set CH 691 ''HOST_OBJCOPY'' ''%sobjcopy%s'' [sarg prefix, sarg postfix],
     token_set CH 692 ''HOST_OBJDUMP'' ''%sobjdump%s'' [sarg prefix, sarg postfix]])])"

definition conf_lex_and_yacc :: "host \<Rightarrow> stmt" where
  "conf_lex_and_yacc h =
     run_c (sys_get h (pure ''bison --version 2>/dev/null | head -n 1'') []) (\<lambda>(bison_ver, _). [
     run_c (sys_get h (pure ''flex --version 2>/dev/null | head -n 1'') []) (\<lambda>(lex_ver, _). [
       say ''Detecting bison: '' [],
       when_c (pure (bison_ver = '''')) [
         say (''Not found.'' @ [NL]) [],
         when_c (disj_c (disj_c (disj_c (disj_c (disj_c (disj_c (disj_c (disj_c (disj_c (disj_c (disj_c (disj_c
             (disj_c (on ''CONFIG_ATM'') (on ''CONFIG_RG_BLUETOOTH'')) (on ''CONFIG_RG_E2FSPROGS'')) (on
                 ''CONFIG_RG_FLEX'')) (on ''CONFIG_RG_FTP_SERVER'')) (on ''CONFIG_RG_GDBSERVER'')) (on
                     ''CONFIG_RG_KERBEROS'')) (on ''CONFIG_RG_IPROUTE2'')) (on ''CONFIG_RG_MAIL_SERVER'')) (on
                         ''CONFIG_RG_NETKIT'')) (on ''CONFIG_PCMCIA'')) (on ''CONFIG_RG_FILESERVER'')) (on
                             ''CONFIG_RG_STAR'')) (on ''CONFIG_RG_USAGI'')) [
           install_linux_package ''bison'' ''a general-purpose parser generator'',
           rg_exit ''Please install bison.'']],
       say (''found %s.'' @ [NL]) [sarg (str_chomp (Some bison_ver))],
       token_set CH 796 ''YACC'' ''bison'' [],
       token_set CH 797 ''YFLAGS'' ''-y'' [],
       say ''Detecting flex: '' [],
       local_c (nonnull (pure (Option.bind (str_replace (Some lex_ver) ''flex'' '''')
           (\<lambda>x. str_replace (Some x) ''version'' '''')))) (\<lambda>x. [
       local_c (pure (str_trim (Some x))) (\<lambda>lex_ver. [
       ifc (pure (CHR ''.'' \<notin> set (drop 1 (dropWhile (\<lambda>c. c \<noteq> CHR ''.'') lex_ver)))) [
         say (''Not installed / Unknown version'' @ [NL]) [],
         when_c (on ''CONFIG_RG_USAGI'') [
           install_linux_package ''flex'' ''a tool for generating scanners'',
           rg_exit ''Please install flex, or exclude IPv6 by adding\"MODULE_RG_IPV6=n\" to your make config command'']] [
         say (''found %s'' @ [NL]) [sarg lex_ver],
         run_c (which h ''which flex'') (\<lambda>flex_exe. [
           when_c (pure (str_isempty (Some flex_exe))) [
             rg_exit (''internal error - failed 'which flex'' @ [CHR 0x27])],
           token_set_of CH 823 ''LEX'' (pure (Some (str_trim (Some flex_exe))))])]])])])])"

definition valgrind_paths :: "string list" where
  "valgrind_paths = [
     ''/usr/local/openrg/i386-jungo-linux-gnu/bin/valgrind'',
     ''/usr/local/openrg/bin/valgrind'']"

text \<open>The first of some paths that is there.\<close>

definition first_existing :: "host \<Rightarrow> string list \<Rightarrow> string option rd" where
  "first_existing h paths s = Inr (List.find (host_stat h (commands s)) paths)"

definition conf_host_general :: "host \<Rightarrow> string option \<Rightarrow> string option \<Rightarrow> stmt"
    where
  "conf_host_general h BUILDDIR RGSRC = block [
     token_set CH 834 ''RG_BIN'' ''%s/pkg/build/bin/'' [parg BUILDDIR],
     token_set CH 835 ''RG_BUILD'' ''%s/pkg/build/'' [parg BUILDDIR],
     token_set CH 836 ''RG_LIB'' ''%s/pkg/build/lib/'' [parg BUILDDIR],
     token_set CH 837 ''RG_INCLUDE_DIR'' ''%s/pkg/include'' [parg BUILDDIR],
     token_set CH 839 ''SPCC'' ''echo'' [],
     token_set CH 840 ''HOSTCC'' ''gcc -DCONFIG_HAS_MMU'' [],
     token_set CH 841 ''HOSTCPP'' ''%s -E'' [str_arg ''HOSTCC''],
     token_set CH 842 ''CPP_FOR_BUILD'' ''%s -E'' [str_arg ''CC_FOR_BUILD''],
     token_set CH 844 ''GENROMFS'' ''%s/pkg/genromfs/genromfs'' [parg BUILDDIR],
     when_c (on ''CONFIG_RG_OS_LINUX'') [
        token_set CH 847 ''AUTOCONF_H'' ''include/linux/autoconf.h'' []],
     token_set CH 850 ''NET_TOOLS_MAKE_FILE'' ''%s/pkg/include/net-tools-config.make'' [parg RGSRC],
     token_set CH 853 ''DYNAMIC_LINKER'' ''/lib/ld-linux.so.1'' [],
     token_set CH 854 ''LZMAMK'' ''%s/pkg/lzma/SRC/lzma.mak'' [parg RGSRC],
     token_set CH 857 ''UNITTEST_SPAWNER'' ''%s/pkg/util/jspawn -s 20'' [parg BUILDDIR],
   when_c (on ''CONFIG_RG_VALGRIND_LOCAL_TARGET'') [
     local_c (first_existing h valgrind_paths) (\<lambda>path. [
       ifc (pure (path \<noteq> None)) [
         say ''using valgrind: %s'' [parg path]] [
         say ''Could not find valgrind executable. Unittests will run without valgrind'' []],
       local_c (if_rd (pure (path \<noteq> None))
           (str_format ''%s --num-callers=10 --leak-check=yes --show-reachable=yes --demangle=no'' [parg path])
           (pure '''')) (\<lambda>valgrind_cmd. [
         token_set_of CH 884 ''VALGRIND_CMD'' (pure (Some valgrind_cmd))])])],
   token_set CH 890 ''CONFIG_ICONV_CONST_CAST'' ''%s'' [sarg '''']]"

definition conf_host_cflags :: "string option \<Rightarrow> stmt" where
  "conf_host_cflags RGSRC = block [
   local_c (assemble [
        cat_if (on ''CONFIG_RG_JPKG_SRC'') [cat ''-I%s/pkg '' [parg RGSRC]] [],
        cat ''-I%s -D__HOST__ -O0 -Wall -Wstrict-prototypes --no-strict-aliasing '' [str_arg ''RG_INCLUDE_DIR''],
        cat_if (neg (on ''CONFIG_RG_JPKG'')) [cat ''-g'' []] []] None) (\<lambda>f. [token_set CH 1707
            ''LOCAL_CFLAGS'' ''%s'' [parg f]])]"

definition conf_arch :: "stmt" where
  "conf_arch = block [
   local_c (token_getz ''ARCH'') (\<lambda>arch. [
       local_c (token_get_str ''CONFIG_RG_JPKG_SRC'') (\<lambda>jpkg_src. [
         when_c (disj_c (pure (arch = ''arm'')) (pure (jpkg_src \<noteq> None))) [token_set_y CH 1852 ''CONFIG_ARM''],
         when_c (disj_c (pure (arch = ''armnommu'')) (pure (jpkg_src \<noteq> None))) [token_set_y CH 1854
             ''CONFIG_ARMNOMMU''],
         when_c (disj_c (pure (arch = ''i386'')) (pure (jpkg_src \<noteq> None))) [token_set_y CH 1856
             ''CONFIG_I386''],
         when_c (disj_c (pure (arch = ''mips'')) (pure (jpkg_src \<noteq> None))) [token_set_y CH 1858
             ''CONFIG_MIPS''],
         when_c (disj_c (pure (arch = ''ppc'')) (pure (jpkg_src \<noteq> None))) [token_set_y CH 1860 ''CONFIG_PPC''],
         when_c (disj_c (pure (arch = ''um'')) (pure (jpkg_src \<noteq> None))) [token_set_y CH 1862
             ''CONFIG_UM'']])])]"

definition conf_doctools :: "host \<Rightarrow> string option \<Rightarrow> stmt" where
  "conf_doctools h RGSRC =
     run_c (which h ''latex --version 2>/dev/null | head -n 1 | cut -f 1 -d\" \"'') (\<lambda>output. [
       say ''Detecting latex executable: '' [],
       ifc (pure (output = '''')) [say (''Not found.'' @ [NL]) []] [
         local_c (pure (str_chomp (Some output))) (\<lambda>latex_exe. [
           ifc (pure (latex_exe = ''e-TeX'')) [
             say (''found e-Tex'' @ [NL]) [],
             token_set CH 1827 ''TEXMFCNF'' ''%s/pkg/doc/texmf'' [parg RGSRC]] [
             ifc (pure (latex_exe = ''TeX'')) [
               say (''found Tex'' @ [NL]) [],
               token_set CH 1833 ''TEXMF'' ''{/usr/local/openrg/share/texmf,!!/usr/share/texmf}'' []] [
               say (''Unknown version (%s)'' @ [NL]) [sarg latex_exe]]],
           local_c (str_format ''%s/pkg/doc/Makefile'' [parg RGSRC]) (\<lambda>doc_makefile. [
             when_c (conj_c (pure (latex_exe = ''e-TeX'' \<or> latex_exe = ''TeX'')) (stat_ok h (pure doc_makefile)))
                 [
               token_set_y CH 1841 ''CONFIG_RG_DOC_ENABLED'']])])]])"

section \<open>Looking for libraries\<close>

text \<open>The loop of \<open>locate_file\<close>: it goes on after a find, to warn of a second one.\<close>

primrec locate_loop :: "host \<Rightarrow> string \<Rightarrow> string list \<Rightarrow> string option \<Rightarrow>
    string option cmd" where
  "locate_loop h filename [] first_loc = ret_c first_loc"
| "locate_loop h filename (loc # locs) first_loc =
     bind_c (sys_exec h (str_format ''test -f %s/%s'' [sarg loc, sarg filename])) (\<lambda>ret.
       if ret = 0 then
         (case first_loc of
            Some first \<Rightarrow> do_c (say (''warning: %s found in both %s and in %s. using %s'' @ [NL])
                [sarg filename, sarg first, sarg loc, sarg first]) (ret_c first_loc)
          | None \<Rightarrow> locate_loop h filename locs (Some loc))
       else locate_loop h filename locs first_loc)"

definition locate_file :: "host \<Rightarrow> string list \<Rightarrow> string \<Rightarrow> string option cmd" where
  "locate_file h search_locations filename = locate_loop h filename search_locations None"

definition conf_mysql :: "host \<Rightarrow> stmt" where
  "conf_mysql h = run_c (locate_file h [''/usr/local'', ''/usr''] ''include/mysql/mysql.h'') (\<lambda>found. [
     say (''Detecting mysql: %sfound'' @ [NL]) [sarg (if found = None then ''Not '' else '''')],
     (case found of
        None \<Rightarrow> when_c (on ''HAVE_MYSQL'') [
            say (''Compilation for this distribution requires installation of 'mysql'' @ [CHR 0x27, NL]) [],
            install_linux_package ''mysql'' ''a SQL-based relational database'',
            rg_exit ''Please install mysql.'']
      | Some mysql_location \<Rightarrow> block [
          token_set_of CH 1943 ''CONFIG_RG_MYSQL_PREFIX'' (pure (Some mysql_location)),
          run_c (sys_exec h (str_format ''test -f %s/lib/mysql/libmysqlclient.a'' [sarg mysql_location]))
              (\<lambda>ret. [
            ifc (pure (ret = 0)) [
              token_set CH 1948 ''CONFIG_RG_MYSQL_LIB_PREFIX'' ''%s/lib/mysql'' [sarg mysql_location]] [
              run_c (sys_exec h (str_format ''test -f %s/lib/libmysqlclient.a'' [sarg mysql_location]))
                  (\<lambda>ret. [
                ifc (pure (ret = 0)) [
                  token_set CH 1953 ''CONFIG_RG_MYSQL_LIB_PREFIX'' ''%s/lib/mysql'' [sarg mysql_location]] [
                  rg_exit ''found mysql.h, but failed to find libmysqlclient.a'']])]])])])"

definition conf_openssl :: "host \<Rightarrow> stmt" where
  "conf_openssl h =
     ifc (disj_c (neg (on ''CONFIG_RG_OPENSSL'')) (neg (on ''CONFIG_RG_USE_LOCAL_TOOLCHAIN''))) [] [
     run_c (locate_file h [''/usr/local'', ''/usr''] ''include/openssl/ssl.h'') (\<lambda>found. [
       say (''Detecting openssl: %sfound'' @ [NL]) [sarg (if found = None then ''Not '' else '''')],
       (case found of
          None \<Rightarrow> token_set_y CH 1990 ''CONFIG_RG_OPENSSL_COMMON''
        | Some openssl_location \<Rightarrow> block [
            token_set_y CH 1987 ''CONFIG_RG_OPENSSL_LOCAL'',
            token_set_of CH 1994 ''CONFIG_RG_OPENSSL_LOCAL_PREFIX'' (pure (Some openssl_location)),
            run_c (sys_exec h (str_format ''test -f %s/lib/libssl.so'' [sarg openssl_location])) (\<lambda>ret. [
              when_c (pure (ret \<noteq> 0)) [
                rg_exit ''found ssl.h, but failed to find libssl.so'']])])])]"

definition conf_openrg_local_lflags :: "stmt" where
  "conf_openrg_local_lflags = block [
   local_c (assemble [
        cat_if (disj_c (on ''CONFIG_OPENRG'') (on ''CONFIG_RG_RGLOADER'')) [
          cat ''-llocal_openrg -llocal_jutil -llocal_rg_config '' []] [
          cat ''-llocal_jutil '' []],
        cat_if (on ''CONFIG_RG_OPENSSL_COMMON'') [
          cat_if (on ''CONFIG_RG_OPENSSL'') [cat ''-llocal_ssl '' []] [],
          cat_if (on ''CONFIG_RG_CRYPTO'') [
            cat ''-llocal_crypto '' []] [
            cat ''-llocal_crypto -llocal_openrg -llocal_jutil -llocal_rg_config '' []]] [
          cat_if (on ''CONFIG_RG_OPENSSL_LOCAL'') [cat ''-lssl -lcrypto '' []] []],
        cat_if (on ''HAVE_MYSQL'') [cat ''-lmysqlclient '' []] [],
        cat_if (on ''CONFIG_RG_SESSION_LIBDB'') [cat ''-ldb '' []] []] None) (\<lambda>liblocal_rg. [
       token_set CH 1805 ''OPENRG_LOCAL_LDLIBS'' ''%s'' [parg liblocal_rg],
       token_set CH 1806 ''MGT_LOCAL_LDLIBS'' ''-llocal_mgt '' []])]"

definition conf_host_ldflags :: "string option \<Rightarrow> stmt" where
  "conf_host_ldflags RGSRC = block [
   local_c (assemble [
        str_print ''-L%s/pkg/lib '' [parg RGSRC],
        cat_if (neg (on ''CONFIG_RG_USE_LOCAL_TOOLCHAIN'')) [
          cat ''-Wl,--dynamic-linker,%s/i386-jungo-linux-gnu/lib/ld-2.3.2.so -Wl,-rpath,%s/i386-jungo-linux-gnu/lib '' [str_arg ''I386_TOOLS_PREFIX'', str_arg ''I386_TOOLS_PREFIX'']] [],
        cat_if (neg (on ''CONFIG_RG_VALGRIND_LOCAL_TARGET'')) [cat ''--static '' []] [],
        cat_if (on ''HAVE_MYSQL'') [cat ''-L%s '' [str_arg ''CONFIG_RG_MYSQL_LIB_PREFIX'']] [],
        cat_if (on ''CONFIG_RG_OPENSSL_LOCAL'') [
          cat ''-L%s/lib '' [str_arg ''CONFIG_RG_OPENSSL_LOCAL_PREFIX'']] []] None) (\<lambda>f. [token_set CH 1649
              ''LOCAL_LDFLAGS'' ''%s'' [parg f]])]"

definition conf_lang_compiler :: "string option \<Rightarrow> stmt" where
  "conf_lang_compiler BUILDDIR = block [
   token_set CH 1869 ''LANG_COMPILER'' ''%s/pkg/util/lang_compiler'' [parg BUILDDIR],
   local_c (assemble [
        cat_if (on ''CONFIG_RG_LANG_TEST'') [str_print ''--static '' []] [],
        cat_if (has_str ''CONFIG_RG_LANGUAGES'') [cat ''--select \"%s\"'' [str_arg ''CONFIG_RG_LANGUAGES'']] []]
            None) (\<lambda>str. [
       when_c (pure (str \<noteq> None)) [token_set CH 1881 ''LANG_COMPILER_OPT'' ''%s'' [parg str]]])]"

section \<open>What they write, and how they fail\<close>

lemma ok_install_linux_package [safe_scripts]: "ok base_schema host_tokens J (install_linux_package pkg dscr)"
  unfolding install_linux_package_def
  by (intro safe_intros host.ok_sets safe_scripts; simp)

lemma ok_conf_ostype [safe_scripts]: "ok base_schema host_tokens J (conf_ostype h)"
  unfolding conf_ostype_def
  by (intro safe_intros host.ok_sets safe_scripts; simp)

lemma ok_conf_os_path [safe_scripts]: "ok base_schema host_tokens J conf_os_path"
  unfolding conf_os_path_def
  by (intro safe_intros host.ok_sets safe_scripts; simp)

lemma okm_conf_ccache [safe_scripts]: "okm base_schema host_tokens J (conf_ccache h)"
  unfolding conf_ccache_def
  by (intro safe_intros host.ok_sets safe_scripts; simp)

lemma ok_conf_toolchain [safe_scripts]: "ok base_schema host_tokens J conf_toolchain"
  unfolding conf_toolchain_def
  by (intro safe_intros host.ok_sets safe_scripts; simp)

lemma okm_which [safe_scripts]: "okm base_schema host_tokens J (which h cmd)"
  unfolding which_def
  by (intro safe_intros host.ok_sets safe_scripts; simp)

lemma ok_conf_cc_for_build [safe_scripts]: "ok base_schema host_tokens J (conf_cc_for_build h BUILDDIR CCACHE)"
  unfolding conf_cc_for_build_def
  by (intro safe_intros host.ok_sets safe_scripts; simp)

lemma ok_conf_host_tools [safe_scripts]: "ok base_schema host_tokens J (conf_host_tools TOOLS_PREFIX)"
  unfolding conf_host_tools_def
  by (intro safe_intros host.ok_sets safe_scripts; simp)

lemma ok_conf_lex_and_yacc [safe_scripts]: "ok base_schema host_tokens J (conf_lex_and_yacc h)"
  unfolding conf_lex_and_yacc_def
  by (intro safe_intros host.ok_sets safe_scripts; simp)

lemma rsafe_first_existing [safe_intros]: "rsafe base_schema (first_existing h paths)"
  by (rule rsafe_total) (simp add: first_existing_def)

lemma ok_conf_host_general [safe_scripts]: "ok base_schema host_tokens J (conf_host_general h BUILDDIR RGSRC)"
  unfolding conf_host_general_def
  by (intro safe_intros host.ok_sets safe_scripts; simp)

lemma ok_conf_host_cflags [safe_scripts]: "ok base_schema host_tokens J (conf_host_cflags RGSRC)"
  unfolding conf_host_cflags_def
  by (intro safe_intros host.ok_sets safe_scripts; simp)

lemma ok_conf_arch [safe_scripts]: "ok base_schema host_tokens J conf_arch"
  unfolding conf_arch_def
  by (intro safe_intros host.ok_sets safe_scripts; simp)

lemma ok_conf_doctools [safe_scripts]: "ok base_schema host_tokens J (conf_doctools h RGSRC)"
  unfolding conf_doctools_def
  by (intro safe_intros host.ok_sets safe_scripts; simp)

lemma okm_locate_loop [safe_scripts]: "okm base_schema host_tokens J (locate_loop h filename locs first_loc)"
  by (induction locs arbitrary: first_loc)
    (auto intro!: safe_intros split: option.split)

lemma okm_locate_file [safe_scripts]: "okm base_schema host_tokens J (locate_file h search_locations filename)"
  unfolding locate_file_def
  by (intro safe_intros host.ok_sets safe_scripts; simp)

lemma ok_conf_mysql [safe_scripts]: "ok base_schema host_tokens J (conf_mysql h)"
  unfolding conf_mysql_def
  by (intro safe_intros host.ok_sets safe_scripts; simp)

lemma ok_conf_openssl [safe_scripts]: "ok base_schema host_tokens J (conf_openssl h)"
  unfolding conf_openssl_def
  by (intro safe_intros host.ok_sets safe_scripts; simp)

lemma ok_conf_openrg_local_lflags [safe_scripts]: "ok base_schema host_tokens J conf_openrg_local_lflags"
  unfolding conf_openrg_local_lflags_def
  by (intro safe_intros host.ok_sets safe_scripts; simp)

lemma ok_conf_host_ldflags [safe_scripts]: "ok base_schema host_tokens J (conf_host_ldflags RGSRC)"
  unfolding conf_host_ldflags_def
  by (intro safe_intros host.ok_sets safe_scripts; simp)

lemma ok_conf_lang_compiler [safe_scripts]: "ok base_schema host_tokens J (conf_lang_compiler BUILDDIR)"
  unfolding conf_lang_compiler_def
  by (intro safe_intros host.ok_sets safe_scripts; simp)

end
