(* ===== verification/Config_Host_2.thy ===== *)
theory Config_Host_2
  imports Config_Host_1
begin

text \<open>
  \<open>config_host.c\<close>, the functions that configure the tool chain of the target.
\<close>

section \<open>Machine and tool chain\<close>

definition conf_gawk :: "host \<Rightarrow> stmt" where
  "conf_gawk h = run_c (sys_exec h (pure ''gawk --version 2>/dev/null'')) (\<lambda>r. [
     say (''Detecting gwak: %sfound'' @ [NL]) [sarg (if r \<noteq> 0 then ''Not '' else '''')],
     when_c (conj_c (pure (r \<noteq> 0)) (on ''CONFIG_RG_OS_LINUX_26'')) [
       say (''Linux 2.6 compilaition requires installation of 'gawk'' @ [CHR 0x27, NL]) [],
       install_linux_package ''gawk'' ''pattern scanning and processing language'',
       rg_exit ''Please install gawk.'']])"

definition conf_endian_flags :: "stmt" where
  "conf_endian_flags = block [
   local_c (token_get_str ''TARGET_ENDIANESS'') (\<lambda>t. [
       when_c (pure (t = None)) [conf_err ''Can't find TARGET_ENDIANESS''],
       ifc (opt_is t ''BIG'') [
         token_set CH 116 ''ENDIAN_LDFLAGS'' ''-EB'' [],
         ifc (disj_c (on ''CONFIG_CPU_XSCALE'') (on ''CONFIG_CPU_ARM926T'')) [token_set CH 118 ''ENDIAN_CFLAGS''
             ''-mbig-endian'' []]
          [
           ifc (disj_c (on ''CONFIG_CPU_MIPS32'') (on ''CONFIG_CPU_LX4189'')) [
             ifc (on ''CONFIG_RG_OS_VXWORKS'') [token_set CH 122 ''ENDIAN_CFLAGS'' ''-EB'' []]
              [token_set CH 124 ''ENDIAN_CFLAGS'' ''-meb'' []]]
            [
             ifc (on ''CONFIG_SIBYTE_SB1250'') [token_set CH 127 ''ENDIAN_CFLAGS'' ''-meb'' []]
              [token_set CH 129 ''ENDIAN_CFLAGS'' ''-mbig-endian'' []]]]]
        [
         ifc (opt_is t ''LITTLE'') [
           when_c (conj_c (neg (on ''CONFIG_M386'')) (on ''CONFIG_RG_OS_LINUX_24'')) [token_set CH 134
               ''ENDIAN_LDFLAGS'' ''-EL'' []],
           ifc (disj_c (on ''CONFIG_CPU_XSCALE'') (on ''CONFIG_CPU_ARM926T'')) [token_set CH 136 ''ENDIAN_CFLAGS''
               ''-mlittle-endian'' []]
            [
             ifc (on ''CONFIG_CPU_MIPS32'') [
               ifc (on ''CONFIG_RG_OS_VXWORKS'') [token_set CH 140 ''ENDIAN_CFLAGS'' ''-EL'' []]
                [token_set CH 142 ''ENDIAN_CFLAGS'' ''-mel'' []]]
              [
               when_c (conj_c (neg (on ''CONFIG_M386'')) (on ''CONFIG_RG_OS_LINUX_24'')) [token_set CH 147
                   ''ENDIAN_CFLAGS'' ''-mlittle-endian'' []]]]]
          [conf_err ''Illegal TARGET_ENDIANESS: %s'']]])]"

definition conf_target_machine :: "stmt" where
  "conf_target_machine = block [
   when_c (neg (has_str ''ARCH'')) [
       say (''conf_target_machine: Error: ARCH not defined.'' @ [NL]) [],
       conf_err ''exit 1''],
   when_c (disj_c (str_is ''ARCH'' ''i386'') (str_is ''ARCH'' ''um'')) [
       token_set_of CH 175 ''TARGET_MACHINE'' (token_get_str ''I386_TARGET_MACHINE'')],
   when_c (disj_c (on ''CONFIG_BCM963XX'') (on ''CONFIG_INCAIP'')) [
       ifc (on ''CONFIG_RG_OS_LINUX_26'') [
         token_set CH 180 ''TARGET_MACHINE'' ''mipseb-broadcom-linux-uclibc'' []]
        [
         token_set CH 182 ''TARGET_MACHINE'' ''mipseb-jungo-linux-gnu'' []]],
   when_c (disj_c (on ''CONFIG_BCM947XX'') (on ''CONFIG_ADM5120_COMMON'')) [
       token_set CH 185 ''TARGET_MACHINE'' ''mipsel-jungo-linux-gnu'' []],
   when_c (on ''CONFIG_ARMNOMMU'') [
       when_c (on ''CONFIG_RG_OS_LINUX'') [
         token_set CH 189 ''TARGET_MACHINE'' ''arm-jungo-linux-gnu'' []],
       when_c (on ''CONFIG_RG_OS_VXWORKS'') [token_set CH 191 ''TARGET_MACHINE'' ''arm-little-coff'' []]],
   when_c (on ''CONFIG_SL2312_COMMON'') [token_set CH 196 ''TARGET_MACHINE'' ''arm_920t_le'' []],
   when_c (on ''CONFIG_STRONGARM'') [
       ifc (neg (on ''CONFIG_RG_OLD_XSCALE_TOOLCHAIN'')) [
         token_set CH 201 ''TARGET_MACHINE'' ''armv5b-jungo-linux-gnu'' []]
        [
         ifc (getz_is ''TARGET_ENDIANESS'' ''LITTLE'') [conf_err ''No little endian strong arm support yet'']
          [
           token_set CH 207 ''TARGET_MACHINE'' ''armv4b-hardhat-linux'' []]]],
   when_c (disj_c (disj_c (on ''CONFIG_CX8620X'') (on ''CONFIG_KS8695'')) (on ''CONFIG_ARCH_SOLOS'')) [
       token_set CH 213 ''TARGET_MACHINE'' ''armv5l-jungo-linux-gnu'' []],
   when_c (on ''CONFIG_COMCERTO'') [
       token_set CH 218 ''TARGET_MACHINE'' ''armv4l-jungo-linux-gnu'' [],
       token_set CH 219 ''TARGET_PREFIX'' ''armv5l-jungo-linux-gnu'' []],
   when_c (on ''CONFIG_RG_OS_VXWORKS'') [
       when_c (on ''CONFIG_I386_BOCHS'') [token_set CH 225 ''TARGET_MACHINE'' ''i386-aout'' []],
       when_c (on ''CONFIG_ATHEROS_AR531X_MIPS'') [token_set CH 227 ''TARGET_MACHINE'' ''mips-elf'' []],
       when_c (on ''CONFIG_TI_404_MIPS'') [token_set CH 229 ''TARGET_MACHINE'' ''mips-elf'' []]],
   when_c (on ''CONFIG_PPC'') [
       token_set CH 232 ''TARGET_MACHINE'' ''powerpc-jungo-linux-gnu'' []],
   when_c (on ''CONFIG_INFINEON_TWINPASS'') [
       token_set CH 235 ''TARGET_MACHINE'' ''mips-linux-uclibc'' []],
   when_c (on ''CONFIG_CPU_LX4189'') [
       ifc (on ''CONFIG_RG_OS_LINUX_26'') [
         token_set CH 240 ''TARGET_MACHINE'' ''mips-linux-uclibc'' []]
        [
         token_set CH 243 ''TARGET_MACHINE'' ''lx4189-kenati-linux'' [],
         token_set CH 244 ''TARGET_PREFIX'' ''lx4189-uclibc'' []]],
   when_c (on ''CONFIG_SIBYTE_SB1250'') [
       ifc (on ''CONFIG_RG_OS_LINUX_26'') [
         token_set CH 251 ''TARGET_MACHINE'' ''mips-jungo_sb1_soft-linux-gnu'' []]
        [
         when_c (on ''CONFIG_RG_OS_LINUX_24'') [
           token_set CH 253 ''TARGET_MACHINE'' ''mipseb-jungo-linux-gnu'' []]]],
   when_c (neg (has_str ''TARGET_PREFIX'')) [
       token_set_of CH 257 ''TARGET_PREFIX'' (token_get_str ''TARGET_MACHINE'')]]"

definition NEEDED_PPC_TOOLCHAIN_VER :: int where
  "NEEDED_PPC_TOOLCHAIN_VER = 20060801"

text \<open>
  \<open>conf_tools_prefix\<close> returns the global \<open>TOOLS_PREFIX\<close>, which is the option's value when it
  has one, and the string put together here otherwise.
\<close>

definition tools_prefix_of :: "string option rd" where
  "tools_prefix_of = assemble [
     cat_if (conj_c (on ''CONFIG_ARMNOMMU'') (on ''CONFIG_RG_OS_VXWORKS'')) [
       cat ''%s/vx_%s'' [sarg TOOLCHAIN_ROOT, str_arg ''ARCH'']] [],
     cat_if (conj_c (on ''CONFIG_STRONGARM'') (on ''CONFIG_RG_OLD_XSCALE_TOOLCHAIN'')) [
       cat ''%s/%s%s/'' [sarg TOOLCHAIN_ROOT, str_arg ''ARCH'', str_arg ''ENDIANESS_SUFFIX'']] [],
     cat_if (conj_c (on ''CONFIG_TI_404_MIPS'') (on ''CONFIG_RG_OS_VXWORKS'')) [
       cat ''%s/vx_%s_323'' [sarg TOOLCHAIN_ROOT, str_arg ''ARCH'']] [],
     cat_if (conj_c (on ''CONFIG_ATHEROS_AR531X_MIPS'') (on ''CONFIG_RG_OS_VXWORKS'')) [
       cat ''%s/vx_%s_323'' [sarg TOOLCHAIN_ROOT, str_arg ''ARCH'']] [],
     cat_if (conj_c (on ''CONFIG_I386_BOCHS'') (on ''CONFIG_RG_OS_VXWORKS'')) [
       cat ''%s/vx_%s'' [sarg TOOLCHAIN_ROOT, str_arg ''ARCH'']] [],
     cat_if (disj_c (disj_c (disj_c (on ''CONFIG_CX8620X'') (on ''CONFIG_COMCERTO'')) (on ''CONFIG_KS8695'')) (on
         ''CONFIG_ARCH_SOLOS'')) [
       cat ''%s/%s-2'' [sarg TOOLCHAIN_ROOT, str_arg ''TARGET_PREFIX'']] [],
     cat_if (on ''CONFIG_INFINEON_TWINPASS'') [
       cat ''%s/%s-eb'' [sarg TOOLCHAIN_ROOT, str_arg ''TARGET_PREFIX'']] [],
     if_null [cat ''%s/%s'' [sarg TOOLCHAIN_ROOT, str_arg ''TARGET_PREFIX'']]] None"

definition conf_tools_prefix :: "host \<Rightarrow> string cmd" where
  "conf_tools_prefix h = read_c (token_get_str ''TOOLS_PREFIX'') (\<lambda>given.
     bind_c (case given of
         Some x \<Rightarrow> ret_c x
       | None \<Rightarrow> read_c (nonnull tools_prefix_of) (\<lambda>x.
           do_c (token_set CH 316 ''TOOLS_PREFIX'' ''%s'' [sarg x]) (ret_c x))) (\<lambda>TOOLS_PREFIX.
     do_c (block [
       when_c (neg (stat_ok h (nonnull (token_get_str ''TOOLS_PREFIX'')))) [
         conf_err ''Cannot find toolchain %s''],
       when_c (on ''CONFIG_PPC'') [
         run_c (sys_get h (str_format ''cat %s/version'' [str_arg ''TOOLS_PREFIX'']) []) (\<lambda>(output, _). [
           when_c (pure (atoi output < NEEDED_PPC_TOOLCHAIN_VER)) [
             conf_err ''Installed powerpc toolchain version is %d, needed %d'']])],
       token_set CH 337 ''CROSS_COMPILE'' ''%s/bin/%s-'' [str_arg ''TOOLS_PREFIX'', str_arg ''TARGET_PREFIX'']])
     (ret_c TOOLS_PREFIX)))"

text \<open>
  \<open>libc_detect\<close>: the files to look for, in the order of its four loops, each with the option
  it stands for; the first that is there decides.
\<close>

definition libcs :: "(string \<times> int list \<times> int list \<times> int list \<times> string) list" where
  "libcs = [(''libc-'', [2..2], [1..3], [0..9], ''CONFIG_GLIBC''),
            (''libuClibc-'', [0..0], [9..9], [20..40], ''CONFIG_ULIBC'')]"

definition libc_candidates :: "(string \<times> int \<times> int \<times> int \<times> string) list" where
  "libc_candidates = concat (map (\<lambda>(prefix, majors, minors, builds, token).
     concat (map (\<lambda>major. concat (map (\<lambda>minor. map (\<lambda>build. (prefix, major, minor, build,
         token)) builds)
       minors)) majors)) libcs)"

primrec find_libc :: "host \<Rightarrow> string \<Rightarrow> (string \<times> int \<times> int \<times> int \<times>
    string) list \<Rightarrow> (string \<times> string) option rd" where
  "find_libc h TOOLS_PREFIX [] s = Inr None"
| "find_libc h TOOLS_PREFIX (c # cs) s = (case c of (prefix, major, minor, build, token) \<Rightarrow>
     bind_res (str_format ''%s/%s/lib/%s%d.%d.%d.so''
         [sarg TOOLS_PREFIX, str_arg ''TARGET_MACHINE'', sarg prefix,
          pure (Int_arg major), pure (Int_arg minor), pure (Int_arg build)] s) (\<lambda>path.
       if host_lstat h (commands s) path then Inr (Some (token, path))
       else find_libc h TOOLS_PREFIX cs s))"

definition libc_detect :: "host \<Rightarrow> string \<Rightarrow> (string \<times> string) option rd" where
  "libc_detect h TOOLS_PREFIX = find_libc h TOOLS_PREFIX libc_candidates"

text \<open>The last part of \<open>conf_libc\<close>, once it is known what was asked for and what is there.\<close>

definition libc_found :: "string \<Rightarrow> nat \<Rightarrow> nat \<Rightarrow> stmt" where
  "libc_found libc glibc_line ulibc_line =
     ifc (pure (libc = ''CONFIG_GLIBC'')) [
       token_set_y CH glibc_line ''GLIBC_IN_TOOLCHAIN''] [
       token_set_y CH ulibc_line ''ULIBC_IN_TOOLCHAIN'']"

definition choose_libc :: "string option \<Rightarrow> string \<Rightarrow> (string \<times> string) option
    \<Rightarrow> stmt" where
  "choose_libc libc_config libc_default detected = (case (libc_config, detected) of
       (Some config, None) \<Rightarrow>
         say (''Using specified LIBC: '%s' (failed to detect precompiled LIBC version)'' @ [NL]) [sarg config]
     | (Some config, Some (libc_detected, libc_path)) \<Rightarrow>
         ifc (pure (config \<noteq> libc_detected)) [
           ifc (getz_is ''LIBC_IN_TOOLCHAIN'' ''y'') [
             conf_err ''Autodetected precompiled LIBC version is '%s', but specified version is '%s'. Please remove '%s'=y to use autodetected LIBC version''] [
             say (''Using specified LIBC: '%s' (instead of detected precompiled LIBC version:%s (%s))'' @ [NL])
               [sarg config, sarg libc_detected, sarg libc_path]]] [
           token_set_y CH 457 ''LIBC_IN_TOOLCHAIN'',
           say (''Using specified and autodetected precompiled LIBC: '%s' (%s)'' @ [NL]) [sarg config, sarg
               libc_path],
           libc_found config 462 464]
     | (None, None) \<Rightarrow>
         ifc (getz_is ''LIBC_IN_TOOLCHAIN'' ''y'') [
           conf_err ''Failed to detect precompiled LIBC version in toolchain. Please install correct toolchain or remove LIBC_IN_TOOLCHAIN=y to autodetect LIBC version''] [
           token_set_y CH 481 libc_default,
           say (''Using default LIBC: '%s' (failed to detect precompiled LIBC version)'' @ [NL]) [sarg libc_default]]
     | (None, Some (libc_detected, libc_path)) \<Rightarrow> block [
         token_set_y CH 489 libc_detected,
         token_set_y CH 490 ''LIBC_IN_TOOLCHAIN'',
         say (''Using autodetected precompiled LIBC: '%s' (%s)'' @ [NL]) [sarg libc_detected, sarg libc_path],
         libc_found libc_detected 495 497])"

definition conf_libc :: "host \<Rightarrow> string \<Rightarrow> stmt" where
  "conf_libc h TOOLS_PREFIX = ifc (on ''CONFIG_RG_NOT_UNIX'') [] [
     ifc (conj_c (on ''CONFIG_ULIBC'') (on ''CONFIG_GLIBC'')) [
       when_c (neg (on ''CONFIG_RG_JPKG_BIN'')) [
         conf_err ''Both 'CONFIG_ULIBC' and 'CONFIG_GLIBC', please remove one to define LIBC'']] [
     local_c (assemble [
         cat_if (disj_c (on ''CONFIG_ULIBC'') (on ''CONFIG_GLIBC'')) [
           cat_if (on ''CONFIG_ULIBC'') [put ''CONFIG_ULIBC''] [put ''CONFIG_GLIBC'']] []] None)
               (\<lambda>libc_config. [
       ifc (getz_is ''LIBC_IN_TOOLCHAIN'' ''n'') [
         ifc (pure (libc_config = None)) [
           token_set_y CH 414 ''CONFIG_ULIBC'',
           say (''Forcing LIBC to default: '%s' (remove LIBC_IN_TOOLCHAIN=n to autodetect LIBC version)'' @ [NL])
             [sarg ''CONFIG_ULIBC'']] [
           say (''Forcing use of specified LIBC: '%s' (remove LIBC_IN_TOOLCHAIN=n to autodetect LIBC version)'' @
               [NL])
             [parg libc_config]]] [
         local_c (libc_detect h TOOLS_PREFIX) (\<lambda>detected. [
           choose_libc libc_config ''CONFIG_ULIBC'' detected])]])]]"

section \<open>Compilers and tools\<close>

definition conf_cc :: "string option \<Rightarrow> string \<Rightarrow> string \<Rightarrow> stmt" where
  "conf_cc BUILDDIR CCACHE TOOLS_PREFIX = block [
   token_set CH 544 ''CC'' ''%s/pkg/build/rg_gcc'' [parg BUILDDIR],
   when_c (on ''CONFIG_RG_OS_VXWORKS'') [
       ifc (on ''CONFIG_WINDOWS_HOST'') [
         token_set CH 550 ''CC'' ''%s%s/bin/cc%s'' [sarg CCACHE, sarg TOOLS_PREFIX, str_arg ''ARCH'']]
        [
         token_set CH 555 ''CC'' ''%s%s/bin/%s-gcc'' [sarg CCACHE, sarg TOOLS_PREFIX, str_arg ''TARGET_PREFIX'']]],
   token_set CH 561 ''CPP'' ''%s -E'' [str_arg ''CC''],
   ifc (on ''CONFIG_UCLIBCXX'') [
       token_set CH 563 ''CXX'' ''%s/pkg/uclibc++/bin/g++-uc'' [parg BUILDDIR]]
      [
       token_set CH 566 ''CXX'' ''%s%s/bin/%s-g++'' [sarg CCACHE, sarg TOOLS_PREFIX, str_arg ''TARGET_PREFIX'']]]"

definition conf_target_cc :: "host \<Rightarrow> string \<Rightarrow> string \<Rightarrow> stmt" where
  "conf_target_cc h CCACHE TOOLS_PREFIX = block [
     token_set CH 616 ''TARGET_CC'' ''%s%s/bin/%s-gcc'' [sarg CCACHE, sarg TOOLS_PREFIX, str_arg ''TARGET_PREFIX''],
     token_set CH 619 ''TARGET_CPP'' ''%s%s/bin/%s-gcc -E'' [sarg CCACHE, sarg TOOLS_PREFIX, str_arg
         ''TARGET_PREFIX''],
     token_set CH 622 ''TARGET_CXX'' ''%s%s/bin/%s-g++'' [sarg CCACHE, sarg TOOLS_PREFIX, str_arg ''TARGET_PREFIX''],
     token_set CH 625 ''REAL_GCC'' ''%s'' [str_arg ''TARGET_CC''],
   run_c (sys_exec h (str_format ''%s --version'' [str_arg ''TARGET_CC''])) (\<lambda>ret. [
     when_c (pure (ret \<noteq> 0)) [conf_err ''Cannot find cross-compiler for target (%s)'']])]"

text \<open>What is before a final \<open>/libgcc.a\<close>, when the last slash begins it.\<close>

definition lib_gcc_dir :: "string \<Rightarrow> string option" where
  "lib_gcc_dir libgcc = (case strrevchr libgcc (CHR ''/'') (length libgcc) of
       None \<Rightarrow> None
     | Some i \<Rightarrow> if drop i libgcc = ''/libgcc.a'' then Some (take i libgcc) else None)"

definition conf_gcc_version :: "host \<Rightarrow> stmt" where
  "conf_gcc_version h = local_c (token_get_str ''TARGET_CC'') (\<lambda>gcc. [
     run_c (sys_get h (pure ''%s -dumpversion'') [parg gcc]) (\<lambda>(ver1, _). [
     run_c (sys_get h (pure ''%s -print-libgcc-file-name'') [parg gcc]) (\<lambda>(libgcc1, _). [
       local_c (pure (takeWhile (\<lambda>c. c \<noteq> NL) ver1)) (\<lambda>ver. [
         token_set_of CH 648 ''GCC_VERSION'' (pure (Some ver)),
         (case lib_gcc_dir (takeWhile (\<lambda>c. c \<noteq> NL) libgcc1) of
            None \<Rightarrow> conf_err ''Cannot configure LIB_GCC_DIR_PREFIX''
          | Some libgcc \<Rightarrow> block [
              token_set_of CH 660 ''LIB_GCC_DIR_PREFIX'' (pure (Some libgcc)),
              say (''Detecting target GCC: found %s (version: %s)'' @ [NL]) [parg gcc, sarg ver],
              say (''Detecting target libgcc: found at %s'' @ [NL]) [sarg libgcc]])])])])])"

definition conf_tools :: "string \<Rightarrow> stmt" where
  "conf_tools TOOLS_PREFIX =
     local_c (if_rd (on ''CONFIG_WINDOWS_HOST'')
         (sprintf_buf 256 ''%s'' [str_arg ''ARCH'']) (pure '''')) (\<lambda>postfix. [
     local_c (if_rd (on ''CONFIG_WINDOWS_HOST'')
         (sprintf_buf 256 ''%s/bin/'' [sarg TOOLS_PREFIX])
         (sprintf_buf 256 ''%s/bin/%s-'' [sarg TOOLS_PREFIX, str_arg ''TARGET_PREFIX''])) (\<lambda>prefix. [
     token_set CH 710 ''AR'' ''%sar%s'' [sarg prefix, sarg postfix],
     token_set CH 711 ''LD'' ''%sld%s'' [sarg prefix, sarg postfix],
     token_set CH 712 ''AS'' ''%sas%s'' [sarg prefix, sarg postfix],
     token_set CH 713 ''NM'' ''%snm%s'' [sarg prefix, sarg postfix],
     token_set CH 714 ''RANLIB'' ''%sranlib%s'' [sarg prefix, sarg postfix],
     token_set CH 715 ''STRIP'' ''%sstrip%s'' [sarg prefix, sarg postfix],
     token_set CH 716 ''SIZE'' ''%ssize%s'' [sarg prefix, sarg postfix],
     token_set CH 717 ''OBJCOPY'' ''%sobjcopy%s'' [sarg prefix, sarg postfix],
     token_set CH 718 ''OBJDUMP'' ''%sobjdump%s'' [sarg prefix, sarg postfix]])])"

text \<open>The code is sent to a file with a shell command, compiled, and removed again.\<close>

definition detect_cc_feature :: "host \<Rightarrow> string option \<Rightarrow> string \<Rightarrow> string
    \<Rightarrow> string \<Rightarrow> stmt" where
  "detect_cc_feature h cc config code_h code_c =
     run_c (sys_exec h (str_format (''cat > detect_cc_features_tmp.c << DDDD'' @ [NL]
         @ ''%s'' @ [NL] @ [NL]
         @ ''int main(int argc, char *argv[])'' @ [NL] @ ''{'' @ [NL]
         @ ''    %s'' @ [NL] @ ''    return 0;'' @ [NL] @ ''}'' @ [NL] @ ''DDDD'') [sarg code_h, sarg code_c]))
             (\<lambda>_. [
     run_c (sys_exec h (str_format
         ''%s -Wall -Werror detect_cc_features_tmp.c -o detect_cc_features_tmp.o >/dev/null 2>&1''
         [parg cc])) (\<lambda>ret. [
       when_c (pure (ret = 0)) [token_set_y CH 1189 config],
       run_c (sys_exec h (pure ''rm -f detect_cc_features_tmp.[co]'')) (\<lambda>_. [])])])"

definition conf_gcc_attribute_support :: "host \<Rightarrow> stmt" where
  "conf_gcc_attribute_support h = local_c (token_get_str ''TARGET_CC'') (\<lambda>cc. [
     detect_cc_feature h cc ''HAVE_ATTRIBUTE_NONNULL''
       ''void f(char *) __attribute__((__nonnull__(1)));'' ''''])"

section \<open>Images and paths\<close>

definition conf_openrg_img :: "string option \<Rightarrow> stmt" where
  "conf_openrg_img BUILDDIR = local_c dist_name (\<lambda>ldist. [
     local_c (assemble [cat_if (on ''CONFIG_RG_RGLOADER'') [put ''rgloader.img'']
         [cat_if (on ''CONFIG_LSP_DIST'') [put ''lsp.img''] [put ''openrg.img'']]] None) (\<lambda>img. [
       token_set CH 966 ''OPENRG_IMG'' ''%s/os/%s'' [parg BUILDDIR, parg img],
       ifc (neg (on ''CONFIG_LSP_DIST'')) [
         token_set CH 970 ''OPENRG_RMT_UPDATE_IMG'' ''%s/openrg.rmt'' [parg BUILDDIR]] [
         token_set CH 973 ''OPENRG_RMT_UPDATE_IMG'' ''%s/%s.rmt''
           [sarg (str_tolower (Some ldist)), parg BUILDDIR]],
     token_set CH 977 ''OPENRG_PROD'' ''%s/os/flash.bin'' [parg BUILDDIR],
     token_set CH 978 ''BOOTLDR_IMG'' ''%s/pkg/bootldr/arch/boot.img'' [parg BUILDDIR],
     token_set CH 979 ''FLASH_IMG'' ''%s/flash.img'' [parg BUILDDIR],
     token_set CH 980 ''BOOTSTRAP'' ''%s/os/boot.bin'' [parg BUILDDIR]])])"

definition conf_prod_kernel_image :: "string option \<Rightarrow> stmt" where
  "conf_prod_kernel_image BUILDDIR = block [
   ifc (neg (on ''CONFIG_RG_OS_LINUX'')) []
      [
       local_c (assemble [
          cat_if (on ''CONFIG_RG_UML'') [put ''openrg.uml''] []] (Some ''vmlinux'')) (\<lambda>filename. [
         token_set CH 993 ''PROD_KERNEL_IMAGE'' ''%s/os/linux/%s'' [parg BUILDDIR, parg filename]])]]"

definition conf_linux_arch_path :: "string option \<Rightarrow> stmt" where
  "conf_linux_arch_path BUILDDIR = block [
   local_c (assemble [
        cat_if (on ''CONFIG_BCM947XX'') [put ''mips''] [],
        cat_if (on ''CONFIG_BCM963XX'') [put ''mips''] [],
        cat_if (on ''CONFIG_INCAIP'') [put ''mips''] [],
        cat_if (on ''CONFIG_ADM5120_COMMON'') [put ''mips''] [],
        cat_if (on ''CONFIG_CPU_LX4189'') [put ''mips''] [],
        cat_if (on ''CONFIG_SIBYTE_SB1250'') [put ''mips''] [],
        cat_if (on ''CONFIG_SL2312_COMMON'') [put ''arm''] [],
        cat_if (on ''CONFIG_STRONGARM'') [put ''arm''] [],
        cat_if (on ''CONFIG_CX8620X'') [put ''arm''] [],
        cat_if (on ''CONFIG_COMCERTO'') [put ''arm''] [],
        cat_if (on ''CONFIG_KS8695'') [put ''arm''] [],
        cat_if (on ''CONFIG_PPC'') [put ''ppc''] [],
        cat_if (on ''CONFIG_RG_UML'') [put ''um''] [],
        cat_if (on ''CONFIG_ARCH_SOLOS'') [put ''arm''] [],
        cat_if (on ''CONFIG_INFINEON_TWINPASS'') [put ''mips''] []] None) (\<lambda>arch. [
       when_c (pure (arch = None)) [conf_err ''ARCH must be set''],
       token_set CH 1124 ''LINUX_ARCH_PATH'' ''%s/os/linux/arch/%s'' [parg BUILDDIR, parg arch]])]"

definition conf_compressed_disk :: "string option \<Rightarrow> stmt" where
  "conf_compressed_disk BUILDDIR = block [
   token_set CH 1131 ''BOOTLDR_COMPRESSED_DISK'' ''%s/os/linux/arch/%s/boot/bootldr_ramdisk.gz'' [parg BUILDDIR,
       str_arg ''ARCH''],
   ifc (conj_c (on ''CONFIG_RG_OS_LINUX_24'') (on ''CONFIG_RG_UML'')) [
       token_set CH 1137 ''COMPRESSED_DISK'' ''%s/pkg/build/ramdisk.gz'' [parg BUILDDIR]]
      [
       ifc (on ''CONFIG_RG_OS_LINUX_26'') [
         token_set CH 1143 ''COMPRESSED_DISK'' ''%s/os/linux/usr/mainfs.img'' [parg BUILDDIR]]
        [
         local_c (assemble [
            cat_if (on ''CONFIG_CRAMFS_FS'') [put ''cramdisk/cramfs.img''] [put ''ramdisk/ramdisk.gz'']] None)
                (\<lambda>img. [
           token_set CH 1150 ''COMPRESSED_DISK'' ''%s/%s'' [str_arg ''LINUX_ARCH_PATH'', parg img]])]]]"

definition conf_os_target :: "stmt" where
  "conf_os_target = block [
   token_set CH 723 ''PROD_LINUX_TARGET'' ''bzImage.initrd'' [],
   when_c (on ''CONFIG_RG_OS_LINUX'') [
       token_set CH 726 ''OS_TARGET'' ''%s'' [str_arg ''PROD_LINUX_TARGET'']],
   ifc (neg (on ''CONFIG_RG_OS_VXWORKS'')) []
      [
       ifc (on ''CONFIG_TI_404_MIPS'') [token_set CH 732 ''OS_TARGET'' ''rgcm.img'' []]
        [
         ifc (on ''CONFIG_ATHEROS_AR531X_MIPS'') [token_set CH 734 ''OS_TARGET'' ''vxWorksCompressed'' []]
          [token_set CH 736 ''OS_TARGET'' ''vxWorks.st'' []]]]]"

text \<open>\<open>conf_target_general\<close> returns the global \<open>PATH\<close> it extends.\<close>

definition conf_target_general :: "string option \<Rightarrow> string option \<Rightarrow> string \<Rightarrow>
    string \<Rightarrow> string cmd" where
  "conf_target_general BUILDDIR RGSRC TOOLS_PREFIX PATH = do_c (block [
     token_set CH 896 ''STATIC_MOD_DIR'' ''%s/os/kernel/modules_static/'' [parg BUILDDIR],
     token_set CH 898 ''RG_LIBPTHREAD_VERSION'' ''0.8'' [],
     token_set CH 899 ''NEEDED_SYMBOLS'' ''%s/os/linux/needed_symbols.lst'' [parg BUILDDIR],
     when_c (on ''CONFIG_RG_OS_VXWORKS'') [
        token_set CH 903 ''VX_INCLUDE_DIR'' ''%s/os/vx/target/h'' [parg BUILDDIR]],
     when_c (conj_c (on ''CONFIG_ARMNOMMU'') (on ''CONFIG_RG_OS_LINUX'')) [
        token_set CH 907 ''FLTHDR'' ''%s/bin/%s/-flthdr'' [sarg TOOLS_PREFIX, str_arg ''TARGET_MACHINE'']],
     when_c (conj_c (has_str ''LINUX_ARCH_PATH'') (on ''CONFIG_CRAMFS_FS'')) [
        token_set CH 913 ''COMPRESSED_RAMDISK'' ''%s/ramdisk/ramdisk.gz'' [str_arg ''LINUX_ARCH_PATH''],
        when_c (has_str ''CONFIG_RG_INITFS_CRAMFS'') [
          token_set CH 918 ''COMPRESSED_INIT_DISK'' ''%s/cramdisk/cramfs_init.img'' [str_arg ''LINUX_ARCH_PATH'']]],
     ifc (on ''CONFIG_RG_OS_LINUX_26'') [
        token_set CH 924 ''MODFS_DISK'' ''%s/os/linux/usr/modfs.img'' [parg BUILDDIR]]
       [
        when_c (has_str ''LINUX_ARCH_PATH'') [
          token_set CH 927 ''MODFS_DISK'' ''%s/ramdisk/mod.img'' [str_arg ''LINUX_ARCH_PATH'']]],
     token_set CH 936 ''LOCAL_ADD_RG_KERNEL_FOR_TARGET'' ''-idirafter %s/os/linux/include'' [parg BUILDDIR],
     ifc (on ''CONFIG_BINFMT_FLAT'') [
        token_set CH 941 ''LDFLAT'' ''%s/bin/ldelf2flt'' [sarg TOOLS_PREFIX],
        token_set CH 942 ''BINFRMT_FILE'' ''target_binfmt_flat.mak'' []]
       [
        token_set CH 945 ''BINFRMT_FILE'' ''target_binfmt_elf.mak'' []],
     token_set CH 947 ''PERM_STORAGE_FILES_DIR'' ''%s/pkg/flash/'' [parg RGSRC]])
   (read_c (token_getz ''CONFIG_RG_EXTERNAL_TOOLS_PATH'') (\<lambda>tools.
    read_c (nonnull (cat '':%s:%s/bin'' [sarg tools, sarg TOOLS_PREFIX] (Some PATH))) (\<lambda>path. ret_c path)))"

definition conf_trx :: "string \<Rightarrow> stmt" where
  "conf_trx TOOLS_PREFIX = block [
   ifc (on ''CONFIG_RG_OS_LINUX_26'') []
      [
       ifc (conj_c (neg (on ''CONFIG_BCM947XX'')) (neg (on ''CONFIG_BCM963XX''))) []
        [
         token_set CH 1002 ''TRX'' ''%s/tools/trx'' [sarg TOOLS_PREFIX]]]]"

definition conf_rg_cpu :: "stmt" where
  "conf_rg_cpu = block [
   when_c (on ''CONFIG_SL2312_COMMON'') [token_set CH 1008 ''RG_CPU'' ''arm'' []],
   when_c (conj_c (on ''CONFIG_STRONGARM'') (on ''CONFIG_RG_OLD_XSCALE_TOOLCHAIN'')) [token_set CH 1013 ''RG_CPU''
       ''armv4b'' []],
   when_c (on ''CONFIG_TI_404_MIPS'') [token_set CH 1017 ''RG_CPU'' ''mips'' []],
   when_c (on ''CONFIG_ATHEROS_AR531X_MIPS'') [token_set CH 1020 ''RG_CPU'' ''mips'' []],
   when_c (conj_c (on ''CONFIG_I386_BOCHS'') (on ''CONFIG_RG_OS_VXWORKS'')) [token_set CH 1023 ''RG_CPU'' ''i386''
       []],
   when_c (on ''CONFIG_PPC'') [token_set CH 1026 ''RG_CPU'' ''powerpc'' []],
   when_c (on ''CONFIG_KS8695_COMMON'') [token_set CH 1030 ''RG_CPU'' ''arm'' []]]"

definition conf_flash_img_offset :: "stmt" where
  "conf_flash_img_offset =
     local_c (assemble [
       cat_if (disj_c (on ''CONFIG_SL2312_COMMON'') (on ''CONFIG_KS8695_COMMON'')) [put ''0xc0000''] [],
       cat_if (on ''CONFIG_STRONGARM'') [
         cat_if (on ''CONFIG_RG_BOOTLDR_REDBOOT'') [put ''0x40000''] [put ''0x100000'']] [],
       cat_if (on ''CONFIG_CX8620X'') [put ''0x4000000''] [],
       cat_if (on ''CONFIG_COMCERTO'') [put ''0x10000''] [],
       if_null [put ''0x0'']] None) (\<lambda>offset. [
     local_c (assemble [
       cat_if (disj_c (on ''CONFIG_SL2312_COMMON'') (on ''CONFIG_KS8695_COMMON'')) [put ''0x0''] [],
       cat_if (on ''CONFIG_STRONGARM'') [put ''0x0''] [],
       cat_if (on ''CONFIG_CX8620X'') [put ''0x0''] [],
       cat_if (on ''CONFIG_COMCERTO'') [put ''0x0''] [],
       if_null [cat ''%s'' [parg offset]]] None) (\<lambda>real_offset. [
       token_set CH 1066 ''FLASH_IMG_OFFSET'' ''%s'' [parg offset],
       token_set CH 1067 ''FLASH_IMG_REAL_OFFSET'' ''%s'' [parg real_offset]])])"

definition conf_have_gc_sections :: "stmt" where
  "conf_have_gc_sections = block [
   ifc (conj_c (conj_c (conj_c (conj_c (conj_c (conj_c (neg (on ''CONFIG_PPC'')) (neg (on ''CONFIG_BCM963XX''))) (neg
       (on ''CONFIG_INCAIP''))) (neg (on ''CONFIG_ADM5120_COMMON''))) (neg (on ''CONFIG_CX8620X''))) (neg (on
           ''CONFIG_COMCERTO''))) (disj_c (neg (on ''CONFIG_STRONGARM'')) (on ''CONFIG_RG_OLD_XSCALE_TOOLCHAIN''))) []
      [token_set_y CH 1083 ''HAVE_GC_SECTIONS'']]"

definition conf_gcc_has_size_optimize :: "stmt" where
  "conf_gcc_has_size_optimize = block [
   when_c (conj_c (on ''CONFIG_RG_OS_LINUX'') (neg (on ''CONFIG_IDT_COMMON''))) [token_set_y CH 1157
       ''GCC_HAS_SIZE_OPTIMIZE''],
   when_c (conj_c (on ''CONFIG_RG_OS_VXWORKS'') (on ''CONFIG_TI_404_MIPS'')) [token_set_y CH 1160
       ''GCC_HAS_SIZE_OPTIMIZE''],
   when_c (conj_c (on ''CONFIG_RG_OS_VXWORKS'') (on ''GCC_HAS_SIZE_OPTIMIZE'')) [token_set_y CH 1163
       ''GCC_HAS_SIZE_OPTIMIZE'']]"

section \<open>What they write, and how they fail\<close>

lemma ok_conf_gawk [safe_scripts]: "ok base_schema host_tokens J (conf_gawk h)"
  unfolding conf_gawk_def
  by (intro safe_intros host.ok_sets safe_scripts; simp)

lemma ok_conf_endian_flags [safe_scripts]: "ok base_schema host_tokens J conf_endian_flags"
  unfolding conf_endian_flags_def
  by (intro safe_intros host.ok_sets safe_scripts; simp)

lemma ok_conf_target_machine [safe_scripts]: "ok base_schema host_tokens J conf_target_machine"
  unfolding conf_target_machine_def
  by (intro safe_intros host.ok_sets safe_scripts; simp)

lemma rsafe_tools_prefix_of [safe_intros]: "rsafe base_schema tools_prefix_of"
  unfolding tools_prefix_of_def by (intro safe_intros; simp)

lemma okm_conf_tools_prefix [safe_scripts]: "okm base_schema host_tokens J (conf_tools_prefix h)"
  unfolding conf_tools_prefix_def
  by (intro safe_intros host.ok_sets safe_scripts; simp)

lemma rsafe_find_libc [safe_intros]: "rsafe base_schema (find_libc h TOOLS_PREFIX cs)"
proof (induction cs)
  case (Cons c cs)
  obtain prefix major minor build token where c: "c = (prefix, major, minor, build, token)" by (cases c)
  have "find_libc h TOOLS_PREFIX (c # cs) = (\<lambda>s. bind_res (str_format ''%s/%s/lib/%s%d.%d.%d.so''
      [sarg TOOLS_PREFIX, str_arg ''TARGET_MACHINE'', sarg prefix,
       pure (Int_arg major), pure (Int_arg minor), pure (Int_arg build)] s) (\<lambda>path.
      if host_lstat h (commands s) path then Inr (Some (token, path)) else find_libc h TOOLS_PREFIX cs s))"
    by (simp add: c fun_eq_iff)
  moreover have "rsafe base_schema (\<lambda>s. bind_res (str_format ''%s/%s/lib/%s%d.%d.%d.so''
      [sarg TOOLS_PREFIX, str_arg ''TARGET_MACHINE'', sarg prefix,
       pure (Int_arg major), pure (Int_arg minor), pure (Int_arg build)] s) (\<lambda>path.
      if host_lstat h (commands s) path then Inr (Some (token, path)) else find_libc h TOOLS_PREFIX cs s))"
    by (rule rsafe_bind, (intro safe_intros; simp)) (auto split: if_splits dest: rsafeD [OF Cons.IH])
  ultimately show ?case by simp
qed (rule rsafe_total, simp)

lemma rsafe_libc_detect [safe_intros]: "rsafe base_schema (libc_detect h TOOLS_PREFIX)"
  unfolding libc_detect_def by (intro safe_intros; simp)

lemma ok_libc_found [safe_scripts]: "ok base_schema host_tokens J (libc_found libc glibc_line ulibc_line)"
  unfolding libc_found_def
  by (intro safe_intros host.ok_sets safe_scripts; simp)

lemma find_libc_token:
  "find_libc h tp cs s = Inr (Some (token, path)) \<Longrightarrow> \<exists>a b c d. (a, b, c, d, token) \<in> set cs"
  by (induction cs) (auto simp: bind_res_eq_Inr split: prod.splits if_splits)

lemma libc_detect_token:
  "libc_detect h tp s = Inr (Some (token, path)) \<Longrightarrow> token = ''CONFIG_GLIBC'' \<or> token = ''CONFIG_ULIBC''"
  by (auto simp: libc_detect_def libc_candidates_def libcs_def dest!: find_libc_token)

lemma ok_choose_libc:
  assumes "\<And>token path. detected = Some (token, path) \<Longrightarrow> switch base_schema token"
  shows "ok base_schema host_tokens J (choose_libc libc_config ''CONFIG_ULIBC'' detected)"
proof (cases detected)
  case None
  then show ?thesis
    by (cases libc_config) (simp_all add: choose_libc_def, (intro safe_intros host.ok_sets; simp)+)
next
  case (Some tp)
  obtain token path where "tp = (token, path)" by (cases tp)
  with Some assms have sw: "detected = Some (token, path)" "switch base_schema token" by auto
  show ?thesis
  proof (cases libc_config)
    case None
    show ?thesis unfolding choose_libc_def sw(1) None option.case prod.case
      by (intro safe_intros host.ok_sets safe_scripts; (simp add: sw(2))?)
  next
    case Some
    then show ?thesis unfolding choose_libc_def sw(1) Some option.case prod.case
      by (intro safe_intros host.ok_sets safe_scripts; simp)
  qed
qed

text \<open>What was read decides what is written: the value of a read is one it can have.\<close>

lemma ok_local_value:
  assumes "rsafe sch r" "\<And>s v. r s = Inr v \<Longrightarrow> ok sch V J (block (f v))"
  shows "ok sch V J (local_c r f)"
proof -
  have "emits sch (policy sch V J) (local_c r f)"
  proof (rule emitsI)
    fix s s' assume h: "has_schema sch s" and "local_c r f s = Inr s'"
    then obtain v where v: "r s = Inr v" "block (f v) s = Inr s'" by (auto simp: local_c_def bind_res_eq_Inr)
    from emitsD [OF ok_emits [OF assms(2) [OF v(1)]] h v(2)]
    show "\<exists>es. cfg_run s es s' \<and> list_all (policy sch V J) es" .
  qed
  moreover have "safe sch (local_c r f)"
    unfolding safe_def
  proof (intro allI impI)
    fix s e assume h: "has_schema sch s" and "local_c r f s = Inl e"
    then consider "r s = Inl e" | v where "r s = Inr v" "block (f v) s = Inl e"
      by (auto simp: local_c_def bind_res_eq_Inl)
    then show "script_failure e"
    proof cases
      case 1
      with rsafeD [OF assms(1) h] show ?thesis by simp
    next
      case 2
      with safeD [OF ok_safe [OF assms(2)] h] show ?thesis by blast
    qed
  qed
  ultimately show ?thesis by (simp add: ok_def)
qed

lemma ok_conf_libc [safe_scripts]: "ok base_schema host_tokens J (conf_libc h TOOLS_PREFIX)"
proof -
  have detect: "ok base_schema host_tokens J (local_c (libc_detect h TOOLS_PREFIX)
      (\<lambda>detected. [choose_libc libc_config ''CONFIG_ULIBC'' detected]))" for libc_config
  proof (rule ok_local_value)
    fix s v assume "libc_detect h TOOLS_PREFIX s = Inr v"
    then show "ok base_schema host_tokens J (block [choose_libc libc_config ''CONFIG_ULIBC'' v])"
      by (intro safe_intros ok_choose_libc) (auto dest: libc_detect_token)
  qed (intro safe_intros)
  show ?thesis unfolding conf_libc_def
    by (intro safe_intros host.ok_sets detect; simp)
qed

lemma ok_conf_cc [safe_scripts]: "ok base_schema host_tokens J (conf_cc BUILDDIR CCACHE TOOLS_PREFIX)"
  unfolding conf_cc_def
  by (intro safe_intros host.ok_sets safe_scripts; simp)

lemma ok_conf_target_cc [safe_scripts]: "ok base_schema host_tokens J (conf_target_cc h CCACHE TOOLS_PREFIX)"
  unfolding conf_target_cc_def
  by (intro safe_intros host.ok_sets safe_scripts; simp)

lemma ok_conf_gcc_version [safe_scripts]: "ok base_schema host_tokens J (conf_gcc_version h)"
  unfolding conf_gcc_version_def
  by (intro safe_intros host.ok_sets safe_scripts; simp)

lemma ok_conf_tools [safe_scripts]: "ok base_schema host_tokens J (conf_tools TOOLS_PREFIX)"
  unfolding conf_tools_def
  by (intro safe_intros host.ok_sets safe_scripts; simp)

lemma ok_detect_cc_feature:
  "switch base_schema config \<Longrightarrow> ok base_schema host_tokens J (detect_cc_feature h cc config code_h code_c)"
  unfolding detect_cc_feature_def
  by (intro safe_intros host.ok_sets safe_scripts; simp)

lemma ok_conf_gcc_attribute_support [safe_scripts]:
  "ok base_schema host_tokens J (conf_gcc_attribute_support h)"
  unfolding conf_gcc_attribute_support_def
  by (intro safe_intros ok_detect_cc_feature; simp)

lemma ok_conf_openrg_img [safe_scripts]: "ok base_schema host_tokens J (conf_openrg_img BUILDDIR)"
  unfolding conf_openrg_img_def
  by (intro safe_intros host.ok_sets safe_scripts; simp)

lemma ok_conf_prod_kernel_image [safe_scripts]: "ok base_schema host_tokens J (conf_prod_kernel_image BUILDDIR)"
  unfolding conf_prod_kernel_image_def
  by (intro safe_intros host.ok_sets safe_scripts; simp)

lemma ok_conf_linux_arch_path [safe_scripts]: "ok base_schema host_tokens J (conf_linux_arch_path BUILDDIR)"
  unfolding conf_linux_arch_path_def
  by (intro safe_intros host.ok_sets safe_scripts; simp)

lemma ok_conf_compressed_disk [safe_scripts]: "ok base_schema host_tokens J (conf_compressed_disk BUILDDIR)"
  unfolding conf_compressed_disk_def
  by (intro safe_intros host.ok_sets safe_scripts; simp)

lemma ok_conf_os_target [safe_scripts]: "ok base_schema host_tokens J conf_os_target"
  unfolding conf_os_target_def
  by (intro safe_intros host.ok_sets safe_scripts; simp)

lemma okm_conf_target_general [safe_scripts]: "okm base_schema host_tokens J (conf_target_general BUILDDIR RGSRC TOOLS_PREFIX PATH)"
  unfolding conf_target_general_def
  by (intro safe_intros host.ok_sets safe_scripts; simp)

lemma ok_conf_trx [safe_scripts]: "ok base_schema host_tokens J (conf_trx TOOLS_PREFIX)"
  unfolding conf_trx_def
  by (intro safe_intros host.ok_sets safe_scripts; simp)

lemma ok_conf_rg_cpu [safe_scripts]: "ok base_schema host_tokens J conf_rg_cpu"
  unfolding conf_rg_cpu_def
  by (intro safe_intros host.ok_sets safe_scripts; simp)

lemma ok_conf_flash_img_offset [safe_scripts]: "ok base_schema host_tokens J conf_flash_img_offset"
  unfolding conf_flash_img_offset_def
  by (intro safe_intros host.ok_sets safe_scripts; simp)

lemma ok_conf_have_gc_sections [safe_scripts]: "ok base_schema host_tokens J conf_have_gc_sections"
  unfolding conf_have_gc_sections_def
  by (intro safe_intros host.ok_sets safe_scripts; simp)

lemma ok_conf_gcc_has_size_optimize [safe_scripts]: "ok base_schema host_tokens J conf_gcc_has_size_optimize"
  unfolding conf_gcc_has_size_optimize_def
  by (intro safe_intros host.ok_sets safe_scripts; simp)

end
