(* ===== verification/Config_Host_3.thy ===== *)
theory Config_Host_3
  imports Config_Host_2
begin

text \<open>
  \<open>config_host.c\<close>, the flags of compiler and linker for the target.
\<close>

section \<open>Operations\<close>

definition conf_rg_cflags :: "stmt" where
  "conf_rg_cflags = block [
   local_c (assemble [
        cat ''-D_LIBC_REENTRANT -Wall '' [],
        cat_if (neg (on ''CONFIG_RG_JPKG'')) [cat ''-g '' []] [],
        cat_if (on ''CONFIG_RG_NO_OPT'') [
          cat ''-O0 '' []] [
          cat_if (on ''GCC_HAS_SIZE_OPTIMIZE'') [
            cat ''-Os '' []] [
            cat_if (neg (on ''CONFIG_TI_404_MIPS'')) [cat ''-O2 '' []] []]],
        cat_if (conj_c (on ''CONFIG_RG_OS_VXWORKS'') (neg (on ''CONFIG_I386_BOCHS''))) [cat ''-G 0 '' []] []] None)
            (\<lambda>f. [token_set CH 1230 ''RG_CFLAGS'' ''%s'' [parg f]])]"

definition conf_arch_cflags :: "stmt" where
  "conf_arch_cflags = block [
   local_c (assemble [
        str_print ''%s '' [getz_arg ''ENDIAN_CFLAGS''],
        cat_if (on ''CONFIG_BCM947XX'') [cat ''-mgp32 -mlong32 -march=4kc -mtune=4kc '' []] [],
        cat_if (on ''CONFIG_BCM963XX'') [
          cat_if (on ''CONFIG_RG_OS_LINUX_26'') [
            cat ''-march=mips32 -mabi=32 -Wa,-32 -Wa,-march=mips32 '' []] [
            cat ''-mgp32 -mlong32 -march=4kp -mtune=4kp '' []]] [],
        cat_if (on ''CONFIG_SIBYTE_SB1250'') [
          cat_if (on ''CONFIG_RG_OS_LINUX_26'') [
            cat ''-march=sb1 -msoft-float '' []] [
            cat_if (on ''CONFIG_RG_OS_LINUX_24'') [cat ''-mtune=r4600 -mips2 '' []] []]] [],
        cat_if (on ''CONFIG_INCAIP'') [cat ''-mgp32 -mlong32 -march=4kc -mtune=4kc '' []] [],
        cat_if (on ''CONFIG_ADM5120_COMMON'') [cat ''-mgp32 -mlong32 -march=4kc -mtune=4kc '' []] [],
        cat_if (on ''CONFIG_ARMNOMMU'') [
          cat_if (on ''CONFIG_RG_OS_LINUX'') [
            cat ''-fomit-frame-pointer -fno-builtin '' [],
            cat_if (on ''CONFIG_CPU_ARM7'') [cat ''-mcpu=arm7tdmi '' []] [],
            cat_if (on ''CONFIG_CPU_ARM940T'') [cat ''-mcpu=arm9tdmi '' []] []] [
            cat_if (on ''CONFIG_RG_OS_VXWORKS'') [
              cat ''-mno-thumb-interwork -mno-sched-prolog -fno-builtin '' [],
              cat_if (on ''CONFIG_ARCH_IXP22X'') [cat ''-DCPU=ARM7TDMI '' []] []] []]] [],
        cat_if (on ''CONFIG_SL2312_COMMON'') [cat ''-mapcs-32 -march=armv4 -mshort-load-bytes '' []] [],
        cat_if (on ''CONFIG_STRONGARM'') [
          cat_if (on ''CONFIG_RG_OLD_XSCALE_TOOLCHAIN'') [
            cat ''-mapcs-32 -march=armv4 -mtune=strongarm -mshort-load-bytes '' []] [
            cat ''-mcpu=xscale -mtune=xscale -Wa,-mcpu=xscale '' []]] [],
        cat_if (on ''CONFIG_SOFT_FLOAT'') [cat ''-msoft-float '' []] [],
        cat_if (conj_c (on ''CONFIG_TI_404_MIPS'') (on ''CONFIG_RG_OS_VXWORKS'')) [
          cat ''-mgp32 -mips2 -non_shared -DRW_MULTI_THREAD -D_REENTRANT -DMIPSEB -msoft-float -DCPU=RC32364 -fno-common '' []] [],
        cat_if (conj_c (on ''CONFIG_ATHEROS_AR531X_MIPS'') (on ''CONFIG_RG_OS_VXWORKS'')) [
          cat ''-mgp32 -mips32 -mips2 -G 0 -Wall -Wno-char-subscripts -funsigned-char -DRW_MULTI_THREAD -D_REENTRANT -fno-builtin -DMIPSEB -msoft-float -DPRJ_BUILD -DAR5312 -DAR531X -DBUILD_AR5212 -DCPU=MIPS32 -DSOFT_FLOAT -DBIG_ENDIAN=_BIG_ENDIAN -DVXWORKS -DBUILD_AP -DATHEROS -ffunction-sections -fdata-sections '' []] [],
        cat_if (on ''CONFIG_CX8620X'') [cat ''-mapcs-32 -march=armv5te -Wa,-march=armv5te '' []] [],
        cat_if (on ''CONFIG_COMCERTO'') [cat ''-mapcs-32 -march=armv4 -Wa,-march=armv4 '' []] []] None) (\<lambda>f. [
       when_c (on ''CONFIG_PPC'') [token_set_y CH 1330 ''CONFIG_CC_HAVE_VA_COPY''],
       local_c (assemble [
          cat_if (conj_c (on ''CONFIG_I386_BOCHS'') (on ''CONFIG_RG_OS_VXWORKS'')) [
            cat ''-mpentium -DCPU=PENTIUM -DCPU_VARIANT=PENTIUM -fno-builtin -fno-defer-pop '' []] [],
          cat_if (on ''CONFIG_KS8695'') [
            cat ''-Wall -Wstrict-prototypes -Wno-trigraphs -O2 -fno-strict-aliasing -fno-common -fno-common -pipe -mapcs-32 -march=armv4 -mtune=arm9tdmi -mshort-load-bytes'' []] [],
          cat_if (on ''CONFIG_RG_OS_VXWORKS'') [cat ''%s '' [str_arg ''VX_INCLUDE_DIR'']] [],
          cat_if (on ''CONFIG_CPU_LX4189'') [
            cat ''-msoft-float -march=lx4189 -fno-builtin '' [],
            cat_if (on ''CONFIG_RG_OS_LINUX_26'') [
              cat ''-mabi=32 -Wa,-32 -Wa,-march=lx4189 -Wa,-mips1 '' []] [
              cat ''-mgp32 -mips1 '' []]] [],
          cat_if (on ''CONFIG_INFINEON_TWINPASS'') [
            cat ''-mabi=32 -march=mips32 -Wa,-32 -Wa,-march=mips32 '' []] []] f) (\<lambda>f. [token_set CH 1361
                ''ARCH_CFLAGS'' ''%s'' [parg f]])])]"

definition conf_arch_linux_cflags :: "string option \<Rightarrow> stmt" where
  "conf_arch_linux_cflags BUILDDIR = block [
   when_c (on ''CONFIG_BCM947XX'') [
       token_set CH 1368 ''ARCH_LINUX_FLAGS'' ''%s  -Wa,--trap'' [getz_arg ''ARCH_CFLAGS'']],
   when_c (on ''CONFIG_BCM963XX'') [
       token_set CH 1374 ''ARCH_LINUX_FLAGS'' ''%s  -Wa,--trap'' [getz_arg ''ARCH_CFLAGS'']],
   when_c (on ''CONFIG_INCAIP'') [
       token_set CH 1380 ''ARCH_LINUX_FLAGS'' ''%s  -Wa,--trap'' [getz_arg ''ARCH_CFLAGS'']],
   when_c (on ''CONFIG_ADM5120_COMMON'') [
       token_set CH 1386 ''ARCH_LINUX_FLAGS'' ''%s  -Wa,--trap'' [getz_arg ''ARCH_CFLAGS'']],
   when_c (on ''CONFIG_CPU_LX4189'') [
       token_set_of CH 1391 ''ARCH_LINUX_FLAGS'' (getz_str ''ARCH_CFLAGS'')],
   when_c (on ''CONFIG_SIBYTE_SB1250'') [
       ifc (on ''CONFIG_RG_OS_LINUX_26'') [
         token_set CH 1397 ''ARCH_LINUX_FLAGS''
             ''%s -Wa,--trap -I%s/os/linux-2.6/include/asm/mach-sibyte -I%s/os/linux-2.6/include2/asm/mach-generic ''
                 [getz_arg ''ARCH_CFLAGS'', parg BUILDDIR, parg BUILDDIR]]
        [
         when_c (on ''CONFIG_RG_OS_LINUX_24'') [
           token_set CH 1404 ''ARCH_LINUX_FLAGS'' ''%s  -Wa,--trap'' [getz_arg ''ARCH_CFLAGS'']]]],
   when_c (on ''CONFIG_INFINEON_TWINPASS'') [
       token_set CH 1411 ''ARCH_LINUX_FLAGS'' ''%s -Wa,--trap '' [getz_arg ''ARCH_CFLAGS'']]]"

definition conf_rg_linux_cflags :: "string option \<Rightarrow> string option \<Rightarrow> stmt" where
  "conf_rg_linux_cflags BUILDDIR RGSRC = block [
   local_c (assemble [
        cat_if (conj_c (on ''CONFIG_RG_OS_VXWORKS'') (on ''CONFIG_CNXT_ADSL'')) [
          cat ''-mstructure-size-boundary=8 '' []] []] None) (\<lambda>f. [
       ifc (on ''CONFIG_RG_OS_VXWORKS'') []
        [
         local_c (assemble [
            cat ''-Wall -Wstrict-prototypes -Wno-trigraphs -fno-strict-aliasing -fno-common -pipe '' [],
            cat_if (conj_c (on ''CONFIG_RG_DEV'') (neg (on ''CONFIG_RG_JPKG''))) [cat ''-g '' []] [],
            cat_if (neg (on ''CONFIG_FRAME_POINTER'')) [cat ''-fomit-frame-pointer '' []] [],
            cat_if (on ''CONFIG_SL2312_COMMON'') [
              cat ''-Os -Uarm -mapcs-32 -D__LINUX_ARM_ARCH__=4 -march=armv4 -Wa, -mshort-load-bytes -msoft-float %s '' [str_arg ''ARCH_CFLAGS'']] [],
            cat_if (disj_c (disj_c (on ''CONFIG_MPC8272ADS'') (on ''CONFIG_MPC8349_ITX'')) (on ''CONFIG_EP8248'')) [
              cat ''-Os -msoft-float %s -I%s '' [str_arg ''ARCH_CFLAGS'', str_arg ''LINUX_ARCH_PATH'']] [],
            cat_if (on ''CONFIG_IXP425_COMMON'') [
              cat ''-mbig-endian -Os -Uarm -mapcs-32 -D__LINUX_ARM_ARCH__=4 -mshort-load-bytes %s '' [str_arg
                  ''ARCH_CFLAGS''],
              cat_if (on ''CONFIG_RG_OLD_XSCALE_TOOLCHAIN'') [
                cat ''-march=armv4 -Wa,-mxscale -mtune=strongarm -msoft-float '' []] []] [],
            cat_if (on ''CONFIG_CX8620X_COMMON'') [
              cat ''-Os -Uarm -mapcs-32 -D__LINUX_ARM_ARCH__=5 -march=armv5te %s '' [getz_arg ''ARCH_CFLAGS'']] [],
            cat_if (on ''CONFIG_COMCERTO_COMMON'') [
              cat ''-Os -Uarm -mapcs-32 -D__LINUX_ARM_ARCH__=4 -march=armv4 -Wa, -malignment-traps -msoft-float %s ''
                  [str_arg ''ARCH_CFLAGS'']] [],
            cat_if (disj_c (on ''CONFIG_PCBOX'') (on ''CONFIG_RG_UML'')) [
              cat ''-O2 -mpreferred-stack-boundary=2 -march=i386 -DUTS_MACHINE=\"i386\" %s '' [getz_arg
                  ''ARCH_CFLAGS'']] [],
            cat_if (on ''CONFIG_BCM947'') [
              cat ''-O2 -mno-split-addresses -G 0 -mno-abicalls -fno-pic -mlong-calls -DBCM47XX_CHOPS -DDMA %s ''
                  [getz_arg ''ARCH_CFLAGS'']] [],
            cat_if (on ''CONFIG_BCM963XX'') [
              cat ''-O2 -mno-split-addresses -G 0 -mno-abicalls -fno-pic -mlong-calls %s '' [getz_arg
                  ''ARCH_LINUX_FLAGS'']] [],
            cat_if (on ''CONFIG_INCAIP'') [
              cat ''-O2 -G 0 -mno-abicalls -fno-pic -mlong-calls %s '' [getz_arg ''ARCH_LINUX_FLAGS'']] [],
            cat_if (on ''CONFIG_ADM5120_COMMON'') [
              cat ''-O2 -G 0 -mno-abicalls -fno-pic -mlong-calls %s '' [getz_arg ''ARCH_LINUX_FLAGS'']] [],
            cat_if (on ''CONFIG_KS8695_COMMON'') [
              cat ''-Wall -Wstrict-prototypes -Wno-trigraphs -Os -fno-strict-aliasing -fno-common -Uarm -fno-common -pipe -D__LINUX_ARM_ARCH__=5 -Wa, %s '' [getz_arg ''ARCH_LINUX_FLAGS'']] [],
            cat_if (on ''CONFIG_CPU_LX4189'') [
              cat ''-Os -G 0 -mno-abicalls -fno-pic -mlong-calls %s '' [getz_arg ''ARCH_LINUX_FLAGS''],
              cat_if (on ''CONFIG_RG_OS_LINUX_26'') [
                cat ''-I%s/os/linux-2.6/include/asm/mach-adi_fusiv '' [parg BUILDDIR],
                cat ''-I%s/os/linux-2.6/include2/asm/mach-generic '' [parg BUILDDIR]] []] [],
            cat_if (on ''CONFIG_INFINEON_TWINPASS'') [
              cat ''-Os -G 0 -mno-abicalls -fno-pic -mlong-calls %s '' [getz_arg ''ARCH_LINUX_FLAGS'']] [],
            cat_if (on ''CONFIG_SIBYTE_SB1250'') [
              cat ''-O2 -mno-split-addresses -G 0 -mno-abicalls -fno-pic -mlong-calls %s '' [getz_arg
                  ''ARCH_LINUX_FLAGS'']] [],
            cat_if (on ''CONFIG_ARCH_SOLOS'') [
              cat ''-mlittle-endian -fno-strict-aliasing -fno-common -ffreestanding -O2 -mapcs-32 -D__LINUX_ARM_ARCH__=5 -march=armv5te -malignment-traps -msoft-float -Uarm '' []] [],
            cat ''-D__KERNEL__ -D__TARGET__ '' []] f) (\<lambda>f. [
           run_c (if_m (on ''CONFIG_RG_OS_LINUX_24'') (read_c (assemble [
                 cat ''-I%s/os/linux-2.4/include '' [parg BUILDDIR],
                 cat_if (on ''CONFIG_RG_UML'') [
                   cat ''-I%s/os/linux-2.4/arch/um/include -I%s/os/linux-2.4/arch/um/kernel/tt/include -I%s/os/linux-2.4/arch/um/kernel/skas/include '' [parg BUILDDIR, parg BUILDDIR, parg BUILDDIR]] []] None) (\<lambda>flags_24.
              read_c (assemble [
                 cat '' %s'' [parg flags_24]] f) (\<lambda>f.
              do_c (token_set CH 1560 ''RG_LINUX_24_CFLAGS'' ''%s'' [parg flags_24])
              (ret_c f))))
              (ret_c f)) (\<lambda>f. [
             run_c (if_m (on ''CONFIG_RG_OS_LINUX_26'') (read_c (token_get_str ''ARCH'') (\<lambda>arch.
                do_c (when_c (pure (arch = None)) [
                   say (''config_host: ARCH is not set.'' @ [NL]) [],
                   conf_err ''exit 1''])
                (read_c (assemble [
                   cat ''-I%s/os/linux-2.6/include '' [parg BUILDDIR],
                   cat ''-I%s/os/linux-2.6/include2 '' [parg BUILDDIR],
                   cat ''-I%s/os/linux-2.6/include2 '' [parg RGSRC],
                   cat ''-I%s/os/linux-2.6/include '' [parg RGSRC],
                   cat ''-I%s/os/linux-2.6/arch/%s '' [parg BUILDDIR, parg arch],
                   cat ''-I%s/os/linux-2.6/arch/%s/include '' [parg BUILDDIR, parg arch],
                   cat ''-I%s/os/linux-2.6/arch/%s '' [parg RGSRC, parg arch],
                   cat_if (on ''CONFIG_RG_UML'') [
                     cat ''-I%s/os/linux-2.6/arch/um/include -I%s/os/linux-2.6/arch/um/include2 -I%s/os/linux-2.6/arch/um/include -I%s/os/linux-2.6/arch/um/include/tt -I%s/os/linux-2.6/arch/um/include/skas '' [parg BUILDDIR, parg BUILDDIR, parg RGSRC, parg RGSRC, parg RGSRC]] [],
                   cat_if (on ''CONFIG_BCM963XX'') [
                     cat ''-I%s/os/linux-2.6/include/asm/mach-bcm963xx '' [parg BUILDDIR],
                     cat ''-I%s/os/linux-2.6/include2/asm/mach-generic '' [parg BUILDDIR]] []] None)
                         (\<lambda>flags_26.
                read_c (assemble [
                   cat '' %s'' [parg flags_26]] f) (\<lambda>f.
                do_c (token_set CH 1602 ''RG_LINUX_26_CFLAGS'' ''%s'' [parg flags_26])
                (ret_c f))))))
                (ret_c f)) (\<lambda>f. [
               token_set CH 1605 ''RG_LINUX_CFLAGS'' ''%s'' [parg f],
               when_c (on ''CONFIG_BCM963XX_WLAN'') [
                 token_set CH 1613 ''MOD_24_CFLAGS'' ''-DCONFIG_DISABLE_NETDEV_MODIFYING'' []]])])])]])]"

definition conf_linux_cflags :: "stmt" where
  "conf_linux_cflags = block [
   token_set CH 1619 ''LINUX_CFLAGS'' ''%s'' [getz_arg ''ENDIAN_CFLAGS'']]"

definition conf_ldflags :: "string option \<Rightarrow> stmt" where
  "conf_ldflags BUILDDIR = block [
   local_c (assemble [
        cat ''%s '' [getz_arg ''ENDIAN_CFLAGS''],
        cat_if (on ''CONFIG_ARMNOMMU'') [
          cat_if (on ''CONFIG_RG_OS_LINUX'') [
            cat ''-static Wl,-elf2flt '' []] [
            cat_if (on ''CONFIG_RG_OS_VXWORKS'') [cat ''-X -N -Tldscript '' []] []]] [],
        cat_if (on ''CONFIG_RG_OS_VXWORKS'') [
          cat_if (disj_c (disj_c (on ''CONFIG_TI_404_MIPS'') (on ''CONFIG_I386_BOCHS'')) (on
              ''CONFIG_ATHEROS_AR531X_MIPS'')) [
            cat ''-X -N '' []] []] [],
        cat_if (conj_c (on ''HAVE_GC_SECTIONS'') (on ''CONFIG_RG_FOOTPRINT_REDUCTION'')) [
          cat ''-Wl,--gc-sections '' []] [],
        cat_if (conj_c (on ''CONFIG_ULIBC'') (neg (on ''CONFIG_DYN_LINK''))) [cat ''-static '' []] [],
        cat ''-L%s/pkg/lib '' [parg BUILDDIR]] None) (\<lambda>f. [token_set CH 1688 ''LDFLAGS_ENVIR'' ''%s'' [parg
            f]])]"

definition conf_cflags :: "stmt" where
  "conf_cflags = block [
   local_c (assemble [
        cat_if (conj_c (on ''CONFIG_ARMNOMMU'') (on ''CONFIG_RG_OS_LINUX'')) [
          cat ''-fpic -msingle-pic-base -D__PIC__ '' []] [],
        cat_if (conj_c (on ''HAVE_GC_SECTIONS'') (on ''CONFIG_RG_FOOTPRINT_REDUCTION'')) [
          cat ''-ffunction-sections -fdata-sections '' []] [],
        cat_if (neg (on ''CONFIG_RG_OS_VXWORKS'')) [cat ''-Wstrict-prototypes '' []] [],
        cat_if (neg (on ''CONFIG_I386_BOCHS'')) [cat ''--no-strict-aliasing '' []] [],
        cat ''%s %s -D__TARGET__ '' [getz_arg ''RG_CFLAGS'', getz_arg ''ARCH_CFLAGS'']] None) (\<lambda>f. [token_set
            CH 1734 ''CFLAGS_ENVIR'' ''%s'' [parg f]])]"

definition conf_openrg_lflags :: "string option \<Rightarrow> stmt" where
  "conf_openrg_lflags BUILDDIR = block [
   local_c (assemble [cat_if (on ''CONFIG_DYN_LINK'') [put ''so''] [put ''a'']] None) (\<lambda>suffix. [
       token_set CH 1743 ''OPENRG_LIB'' ''%s/pkg/util/libopenrg.%s'' [parg BUILDDIR, parg suffix],
       token_set CH 1745 ''OPENRG_GPL_LIB'' ''%s/pkg/util/libopenrg_gpl.%s '' [parg BUILDDIR, parg suffix],
       local_c (assemble [
          cat ''-lopenrg_gpl '' [],
          cat_if (on ''CONFIG_GLIBC'') [cat ''-lulibc_syslog '' []] []] None) (\<lambda>rg_gpl_ldlibs. [
         token_set CH 1752 ''OPENRG_GPL_LDLIBS'' ''%s '' [parg rg_gpl_ldlibs],
         local_c (assemble [
            cat ''-lopenrg -ljutil '' [],
            cat_if (on ''CONFIG_RG_OPENSSL'') [cat ''-lssl '' []] [],
            cat ''-lcrypto '' [],
            cat_if (on ''CONFIG_DYN_LINK'') [cat ''-ldl '' []] [],
            cat ''-lopenrg -ljutil -lrg_config'' []] None) (\<lambda>librg. [
           token_set CH 1767 ''OPENRG_LDLIBS'' ''%s'' [parg librg],
           token_set CH 1769 ''MGT_LDLIBS'' ''-lmgt '' []])])])]"

section \<open>What they write, and how they fail\<close>

lemma ok_conf_rg_cflags [safe_scripts]: "ok base_schema host_tokens J conf_rg_cflags"
  unfolding conf_rg_cflags_def
  by (intro safe_intros host.ok_sets safe_scripts; simp)

lemma ok_conf_arch_cflags [safe_scripts]: "ok base_schema host_tokens J conf_arch_cflags"
  unfolding conf_arch_cflags_def
  by (intro safe_intros host.ok_sets safe_scripts; simp)

lemma ok_conf_arch_linux_cflags [safe_scripts]: "ok base_schema host_tokens J (conf_arch_linux_cflags BUILDDIR)"
  unfolding conf_arch_linux_cflags_def
  by (intro safe_intros host.ok_sets safe_scripts; simp)

lemma ok_conf_rg_linux_cflags [safe_scripts]: "ok base_schema host_tokens J (conf_rg_linux_cflags BUILDDIR RGSRC)"
  unfolding conf_rg_linux_cflags_def
  by (intro safe_intros host.ok_sets safe_scripts; simp)

lemma ok_conf_linux_cflags [safe_scripts]: "ok base_schema host_tokens J conf_linux_cflags"
  unfolding conf_linux_cflags_def
  by (intro safe_intros host.ok_sets safe_scripts; simp)

lemma ok_conf_ldflags [safe_scripts]: "ok base_schema host_tokens J (conf_ldflags BUILDDIR)"
  unfolding conf_ldflags_def
  by (intro safe_intros host.ok_sets safe_scripts; simp)

lemma ok_conf_cflags [safe_scripts]: "ok base_schema host_tokens J conf_cflags"
  unfolding conf_cflags_def
  by (intro safe_intros host.ok_sets safe_scripts; simp)

lemma ok_conf_openrg_lflags [safe_scripts]: "ok base_schema host_tokens J (conf_openrg_lflags BUILDDIR)"
  unfolding conf_openrg_lflags_def
  by (intro safe_intros host.ok_sets safe_scripts; simp)

end
