(* ===== verification/Config_Host.thy ===== *)
theory Config_Host
  imports Config_Host_3 Create_Config
begin

text \<open>
  \<open>config_host\<close>: the order in which the machine the build runs on and the tool chain of
  the target are configured, and what this keeps and establishes. It runs after the scripts,
  on what the system answers.
\<close>

section \<open>Operations\<close>

text \<open>
  The branch for builds of a target; the value is the global \<open>PATH\<close>, which
  \<open>conf_target_general\<close> extends.
\<close>

definition config_host_target ::
    "host \<Rightarrow> string option \<Rightarrow> string option \<Rightarrow> string \<Rightarrow> string \<Rightarrow> string cmd" where
  "config_host_target h BUILDDIR RGSRC CCACHE PATH =
     do_c (block [conf_gawk h, conf_endian_flags, conf_target_machine])
     (bind_c (conf_tools_prefix h) (\<lambda>TOOLS_PREFIX.
        do_c (block [
          conf_libc h TOOLS_PREFIX,
          conf_cc BUILDDIR CCACHE TOOLS_PREFIX,
          conf_target_cc h CCACHE TOOLS_PREFIX,
          conf_gcc_version h,
          conf_tools TOOLS_PREFIX,
          conf_openrg_img BUILDDIR,
          conf_prod_kernel_image BUILDDIR,
          conf_linux_arch_path BUILDDIR,
          conf_compressed_disk BUILDDIR,
          conf_os_target])
        (bind_c (conf_target_general BUILDDIR RGSRC TOOLS_PREFIX PATH) (\<lambda>PATH.
           do_c (block [
             conf_trx TOOLS_PREFIX,
             conf_rg_cpu,
             conf_flash_img_offset,
             conf_have_gc_sections,
             conf_gcc_has_size_optimize,
             conf_gcc_attribute_support h,
             conf_rg_cflags,
             conf_arch_cflags,
             conf_arch_linux_cflags BUILDDIR,
             conf_rg_linux_cflags BUILDDIR RGSRC,
             conf_linux_cflags,
             conf_ldflags BUILDDIR,
             conf_cflags,
             conf_openrg_lflags BUILDDIR])
           (ret_c PATH)))))"

definition config_host :: "host \<Rightarrow> stmt" where
  "config_host h = (let BUILDDIR = host_getenv h ''BUILDDIR''; RGSRC = host_getenv h ''RGSRC'' in
     local_c (nonnull (pure (host_getenv h ''PATH''))) (\<lambda>PATH. [
       conf_ostype h,
       conf_os_path,
       run_c (conf_ccache h) (\<lambda>CCACHE. [
         conf_toolchain,
         conf_cc_for_build h BUILDDIR CCACHE,
         conf_host_tools None,
         conf_lex_and_yacc h,
         conf_host_general h BUILDDIR RGSRC,
         conf_host_cflags RGSRC,
         conf_arch,
         conf_doctools h RGSRC,
         conf_mysql h,
         conf_openssl h,
         conf_openrg_local_lflags,
         conf_host_ldflags RGSRC,
         run_c (if_m (conj_c (neg (on ''CONFIG_RG_JPKG_SRC'')) hw_set)
             (config_host_target h BUILDDIR RGSRC CCACHE PATH) (ret_c PATH)) (\<lambda>PATH. [
           conf_lang_compiler BUILDDIR,
           token_set CH 2061 ''PATH'' ''.:%s'' [sarg PATH]])])]))"

section \<open>What it writes, and how it fails\<close>

lemma okm_config_host_target [safe_scripts]:
  "okm base_schema host_tokens J (config_host_target h BUILDDIR RGSRC CCACHE PATH)"
  unfolding config_host_target_def
  by (intro safe_intros safe_scripts; simp)

lemma ok_config_host [safe_scripts]: "ok base_schema host_tokens J (config_host h)"
  unfolding config_host_def Let_def
  by (intro safe_intros safe_scripts host.ok_sets rsafe_hw_set; simp)

end
