(* ===== verification/Major_Features.thy ===== *)
theory Major_Features
  imports Create_Config
begin

text \<open>
  \<open>major_features.c\<close>: the list of the features of a distribution, as a text and as a C
  array. Both files are lists of lines; the warnings that go to the error stream are kept
  beside them.
\<close>

unbundle bit_operations_syntax

section \<open>Operations\<close>

record features =
  ff_list :: "string list"
  ff_cfile :: "string list"
  ff_warnings :: "string list"

definition license_before :: "string \<Rightarrow> string list" where
  "license_before file_name = [
     ''/****************************************************************************'',
     '' *'',
     '' * '' @ file_name]"

definition license_after :: "string list" where
  "license_after = [
     '' * '',
     '' * Copyright (C) Jungo LTD 2004'',
     '' * '',
     '' * This program is free software; you can redistribute it'',
     '' * and/or modify it under the terms of the GNU General '',
     '' * Public License as published by the Free Software'',
     '' * Foundation; either version 2 of the License, or (at'',
     '' * your option) any later version.'',
     '' * '',
     '' * This program is distributed in the hope that it will be'',
     '' * useful, but WITHOUT ANY WARRANTY; without even the implied'',
     '' * warranty of MERCHANTABILITY or FITNESS FOR A PARTICULAR PURPOSE.'',
     '' * See the GNU General Public License for more details.'',
     '' * '',
     '' * You should have received a copy of the GNU General Public'',
     '' * License along with this program; if not, write to the Free'',
     '' * Software Foundation, Inc., 51 Franklin St, Fifth Floor, Boston,'',
     '' * MA 02111-1307, USA.'',
     '' *'',
     '' * Developed by Jungo LTD.'',
     '' * Residential Gateway Software Division'',
     '' * www.jungo.com'',
     '' * info@jungo.com'',
     '' */'']"

definition cfile_feature_list_open :: "string \<Rightarrow> features \<Rightarrow> features" where
  "cfile_feature_list_open file_name x = x\<lparr> ff_cfile := ff_cfile x @ license_before file_name @ license_after @
     [''/* This file was automatically generated. Do not modify it. */'', '''',
      ''#include <stdio.h>'', '''', ''char *major_features[] = {''] \<rparr>"

definition cfile_feature_print :: "string \<Rightarrow> features \<Rightarrow> features" where
  "cfile_feature_print description x = x\<lparr> ff_cfile := ff_cfile x @ [''    \"'' @ description @ ''\",''] \<rparr>"

definition cfile_feature_list_close :: "features \<Rightarrow> features" where
  "cfile_feature_list_close x = x\<lparr> ff_cfile := ff_cfile x @ [''    NULL'', ''};'', ''''] \<rparr>"

text \<open>\<open>%-40s %s\<close>, with the token where there is no description.\<close>

definition description_of :: "option_t \<Rightarrow> string" where
  "description_of o1 = (case opt_description o1 of None \<Rightarrow> opt_token o1 | Some d \<Rightarrow> d)"

definition feature_line :: "option_t \<Rightarrow> string" where
  "feature_line o1 = description_of o1 @ replicate (40 - length (description_of o1)) (CHR '' '') @ '' '' @ opt_token o1"

definition feature_warning :: "option_t \<Rightarrow> string list" where
  "feature_warning o1 = (case opt_description o1 of
       None \<Rightarrow> [''Warning: no description for major feature '' @ [CHR 0x27] @ opt_token o1 @ [CHR 0x27]]
     | Some d \<Rightarrow> [])"

definition major_types :: opt_type_t where
  "major_types = OPT_MAJOR_FEATURE OR OPT_MODULE OR OPT_HARDWARE"

text \<open>
  One turn of the loop: the options that are on and of the type asked for, or those that
  are off when the type is 0. The array is the program's, so \<open>token_get\<close> finds its entries.
\<close>

definition print_one_feature ::
    "bool \<Rightarrow> opt_type_t \<Rightarrow> conf \<Rightarrow> option_t \<Rightarrow> features \<Rightarrow> conf_error + features" where
  "print_one_feature with_cfile selected s o1 x =
     (if \<not> has_type OPT_MAJOR_FEATURE o1 \<and> \<not> has_type OPT_MODULE o1 \<and> \<not> has_type OPT_HARDWARE o1 then Inr x
      else bind_res (on (opt_token o1) s) (\<lambda>opt_selected.
        if opt_selected \<noteq> (selected \<noteq> 0) then Inr x
        else if selected \<noteq> 0 \<and> \<not> has_type selected o1 then Inr x
        else let y = x\<lparr> ff_warnings := ff_warnings x @ feature_warning o1,
                        ff_list := ff_list x @ [feature_line o1] \<rparr> in
          Inr (if with_cfile \<and> has_type OPT_MAJOR_FEATURE o1
               then cfile_feature_print (description_of o1) y else y)))"

fun print_features_loop ::
    "bool \<Rightarrow> opt_type_t \<Rightarrow> conf \<Rightarrow> option_t list \<Rightarrow> features \<Rightarrow> conf_error + features" where
  "print_features_loop with_cfile selected s [] x = Inr x"
| "print_features_loop with_cfile selected s (o1 # os) x =
     bind_res (print_one_feature with_cfile selected s o1 x) (print_features_loop with_cfile selected s os)"

definition print_major_features_by_selection ::
    "bool \<Rightarrow> opt_type_t \<Rightarrow> conf \<Rightarrow> features \<Rightarrow> conf_error + features" where
  "print_major_features_by_selection with_cfile selected s =
     print_features_loop with_cfile selected s (cfg_options s)"

definition list_lines :: "string list \<Rightarrow> features \<Rightarrow> features" where
  "list_lines ls x = x\<lparr> ff_list := ff_list x @ ls \<rparr>"

definition print_major_features ::
    "(string \<Rightarrow> bool) \<Rightarrow> file_names \<Rightarrow> conf \<Rightarrow> conf_error + features" where
  "print_major_features can_open n s = (case (major_features_cfile n, major_features_file n) of
       (None, _) \<Rightarrow> Inl (Conf_err ''MAJOR_FEATURES_CFILE is not defined'')
     | (Some _, None) \<Rightarrow> Inl (Conf_err ''MAJOR_FEATURES_FILE is not defined'')
     | (Some cfile, Some file) \<Rightarrow>
         if \<not> can_open cfile then Inl (Conf_err (''Failed to open '' @ cfile))
         else if \<not> can_open file then Inl (Conf_err (''Failed to open '' @ file))
         else let
           x0 = \<lparr> ff_list = [''-------------------'', ''Major features list'', ''-------------------'']
                    @ (case cfg_dist s of Some (c # d) \<Rightarrow> [''Distribution: '' @ c # d] | _ \<Rightarrow> [])
                    @ (case cfg_hw s of Some (c # h) \<Rightarrow> [''Hardware: '' @ c # h] | _ \<Rightarrow> [])
                    @ (if cfg_os s \<noteq> [] then [''Os: '' @ cfg_os s] else [])
                    @ ['''', ''Hardware configured in the distribution'', ''-------------------------------------''],
                  ff_cfile = [], ff_warnings = [] \<rparr> in
           bind_res (print_major_features_by_selection True OPT_HARDWARE s (cfile_feature_list_open cfile x0)) (\<lambda>x1.
           bind_res (print_major_features_by_selection True OPT_MODULE s (list_lines
               ['''', ''Modules INCLUDED in the distribution'', ''-------------------------------------''] x1)) (\<lambda>x2.
           bind_res (print_major_features_by_selection True OPT_MAJOR_FEATURE s (list_lines
               ['''', ''Features INCLUDED in the distribution'', ''-------------------------------------''] x2)) (\<lambda>x3.
           print_major_features_by_selection False 0 s (list_lines
               ['''', ''Features NOT INCLUDED in the distribution'', ''-----------------------------------------'']
               (cfile_feature_list_close x3))))))"

section \<open>Every feature can be tested\<close>

definition major_testable :: "option_t list \<Rightarrow> bool" where
  "major_testable os \<longleftrightarrow> list_all (\<lambda>o1. opt_type o1 AND major_types = 0 \<or> opt_type o1 AND (OPT_STR OR OPT_C_STR) = 0) os"

lemma major_bits:
  "(OPT_NONE AND major_types = 0) = True"
  "(OPT_MODULE_EXPAND AND major_types = 0) = True"
  "(OPT_STATIC_ON_DEVELOP AND major_types = 0) = True"
  "(OPT_NOSTRIP AND major_types = 0) = True"
  "(OPT_MAJOR_FEATURE AND major_types = 0) = False"
  "(OPT_STRIP_ON_Y AND major_types = 0) = True"
  "(OPT_THEME AND major_types = 0) = True"
  "(OPT_MODULE AND major_types = 0) = False"
  "(OPT_HARDWARE AND major_types = 0) = False"
  "(OPT_H AND major_types = 0) = True"
  "(OPT_HC AND major_types = 0) = True"
  "(OPT_MK AND major_types = 0) = True"
  "(OPT_INT AND major_types = 0) = True"
  "(OPT_STR AND major_types = 0) = True"
  "(OPT_C_STR AND major_types = 0) = True"
  "(OPT_NUMBER AND major_types = 0) = True"
  "(OPT_EXPORT AND major_types = 0) = True"
  "(0 AND major_types = 0) = True"
  by (simp_all add: major_types_def opt_type_defs)

lemma major_testable_1: "major_testable config_options_base_1"
  unfolding major_testable_def config_options_base_1_def by (simp only: declared_unfolds major_bits)

lemma major_testable_2: "major_testable config_options_base_2"
  unfolding major_testable_def config_options_base_2_def by (simp only: declared_unfolds major_bits)

lemma major_testable_3: "major_testable config_options_base_3"
  unfolding major_testable_def config_options_base_3_def by (simp only: declared_unfolds major_bits)

lemma major_testable_4: "major_testable config_options_base_4"
  unfolding major_testable_def config_options_base_4_def by (simp only: declared_unfolds major_bits)

lemma major_testable_5: "major_testable config_options_base_5"
  unfolding major_testable_def config_options_base_5_def by (simp only: declared_unfolds major_bits)

lemma major_testable_6: "major_testable config_options_base_6"
  unfolding major_testable_def config_options_base_6_def by (simp only: declared_unfolds major_bits)

lemma major_testable_7: "major_testable config_options_base_7"
  unfolding major_testable_def config_options_base_7_def by (simp only: declared_unfolds major_bits)

lemma major_testable_8: "major_testable config_options_base_8"
  unfolding major_testable_def config_options_base_8_def by (simp only: declared_unfolds major_bits)

lemma major_testable_9: "major_testable config_options_base_9"
  unfolding major_testable_def config_options_base_9_def by (simp only: declared_unfolds major_bits)

lemma major_testable_10: "major_testable config_options_base_10"
  unfolding major_testable_def config_options_base_10_def by (simp only: declared_unfolds major_bits)

lemma major_testable_11: "major_testable config_options_base_11"
  unfolding major_testable_def config_options_base_11_def by (simp only: declared_unfolds major_bits)

lemma major_testable_12: "major_testable config_options_base_12"
  unfolding major_testable_def config_options_base_12_def by (simp only: declared_unfolds major_bits)

lemma major_testable_13: "major_testable config_options_base_13"
  unfolding major_testable_def config_options_base_13_def by (simp only: declared_unfolds major_bits)

lemma major_testable_14: "major_testable config_options_base_14"
  unfolding major_testable_def config_options_base_14_def by (simp only: declared_unfolds major_bits)

lemma major_testable_15: "major_testable config_options_base_15"
  unfolding major_testable_def config_options_base_15_def by (simp only: declared_unfolds major_bits)

lemma major_testable_16: "major_testable config_options_base_16"
  unfolding major_testable_def config_options_base_16_def by (simp only: declared_unfolds major_bits)

lemma major_testable_17: "major_testable config_options_base_17"
  unfolding major_testable_def config_options_base_17_def by (simp only: declared_unfolds major_bits)

lemma major_testable_18: "major_testable config_options_base_18"
  unfolding major_testable_def config_options_base_18_def by (simp only: declared_unfolds major_bits)

lemma major_testable_base:
  assumes "(t, ty) \<in> set base_schema" "ty AND major_types \<noteq> 0"
  shows "testable base_schema t"
proof -
  have "major_testable config_options_base"
    using major_testable_1 major_testable_2 major_testable_3 major_testable_4 major_testable_5 major_testable_6 major_testable_7 major_testable_8 major_testable_9 major_testable_10 major_testable_11 major_testable_12 major_testable_13 major_testable_14 major_testable_15 major_testable_16 major_testable_17 major_testable_18
    by (simp add: major_testable_def config_options_base_def)
  with assms show ?thesis
    by (auto simp: major_testable_def testable_def base_schema_def schema_of_def list_all_iff)
qed

section \<open>What the lists contain\<close>

text \<open>The state of an option, read off its record.\<close>

definition option_on :: "option_t \<Rightarrow> bool" where
  "option_on o1 = (case opt_value o1 of
       None \<Rightarrow> False
     | Some v \<Rightarrow> if has_type OPT_NUMBER o1 then str_to_number v \<noteq> 0 else v = ''y'' \<or> v = ''m'')"

definition major :: "option_t \<Rightarrow> bool" where
  "major o1 \<longleftrightarrow> has_type OPT_MAJOR_FEATURE o1 \<or> has_type OPT_MODULE o1 \<or> has_type OPT_HARDWARE o1"

definition listed :: "opt_type_t \<Rightarrow> option_t \<Rightarrow> bool" where
  "listed selected o1 \<longleftrightarrow> major o1 \<and>
     (if selected = 0 then \<not> option_on o1 else option_on o1 \<and> has_type selected o1)"

definition c_entry :: "option_t \<Rightarrow> string" where
  "c_entry o1 = ''    \"'' @ description_of o1 @ ''\",''"

definition features_of :: "opt_type_t \<Rightarrow> conf \<Rightarrow> string list" where
  "features_of selected s = map feature_line (filter (listed selected) (cfg_options s))"

definition c_features_of :: "opt_type_t \<Rightarrow> conf \<Rightarrow> string list" where
  "c_features_of selected s =
     map c_entry (filter (\<lambda>o1. listed selected o1 \<and> has_type OPT_MAJOR_FEATURE o1) (cfg_options s))"

lemma major_types_has_type: "opt_type o1 AND major_types \<noteq> 0 \<longleftrightarrow> major o1"
  by (simp add: major_def major_types_def has_type_or [unfolded has_type_def] has_type_def)

lemma on_option_on:
  assumes h: "has_schema base_schema s" and o1: "o1 \<in> set (cfg_options s)" and m: "major o1"
  shows "on (opt_token o1) s = Inr (option_on o1)"
proof -
  from has_schema_in [OF h o1] have ty: "(opt_token o1, opt_type o1) \<in> set base_schema" .
  from major_testable_base [OF ty] m have "testable base_schema (opt_token o1)"
    by (simp add: major_types_has_type)
  then obtain ty' where ty': "(opt_token o1, ty') \<in> set base_schema" "ty' AND (OPT_STR OR OPT_C_STR) = 0"
    by (auto simp: testable_def)
  from h have d: "distinct (map fst base_schema)" by (metis has_schema_def map_fst_schema)
  have str: "opt_type o1 AND (OPT_STR OR OPT_C_STR) = 0"
    using eq_key_imp_eq_value [OF d ty ty'(1)] ty'(2) by simp
  from nofail_type [OF h ty] obtain i where i: "option_token_get_nofail (cfg_options s) (opt_token o1) = Some i" by blast
  with nofail_Some [OF i] o1 h have "cfg_options s ! i = o1"
    unfolding has_schema_def distinct_map inj_on_def by (metis nth_mem)
  with i str show ?thesis
    by (simp add: on_def token_get_def option_token_get_def Let_def option_on_def has_type_def split: option.split)
qed

lemma print_one_feature_eq:
  assumes "has_schema base_schema s" "o1 \<in> set (cfg_options s)"
  shows "print_one_feature w selected s o1 x = Inr \<lparr>
     ff_list = ff_list x @ (if listed selected o1 then [feature_line o1] else []),
     ff_cfile = ff_cfile x @ (if w \<and> listed selected o1 \<and> has_type OPT_MAJOR_FEATURE o1 then [c_entry o1] else []),
     ff_warnings = ff_warnings x @ (if listed selected o1 then feature_warning o1 else []) \<rparr>"
proof (cases "major o1")
  case True
  with on_option_on [OF assms] show ?thesis
    by (cases x) (auto simp: print_one_feature_def Let_def listed_def cfile_feature_print_def c_entry_def major_def)
next
  case False
  then show ?thesis by (cases x) (simp add: print_one_feature_def listed_def major_def)
qed

lemma print_features_loop_eq:
  assumes "has_schema base_schema s" "set os \<subseteq> set (cfg_options s)"
  shows "print_features_loop w selected s os x = Inr \<lparr>
     ff_list = ff_list x @ map feature_line (filter (listed selected) os),
     ff_cfile = ff_cfile x @ (if w then map c_entry (filter (\<lambda>o1. listed selected o1 \<and> has_type OPT_MAJOR_FEATURE o1) os) else []),
     ff_warnings = ff_warnings x @ concat (map feature_warning (filter (listed selected) os)) \<rparr>"
  using assms(2)
proof (induction os arbitrary: x)
  case Nil
  then show ?case by (cases x) simp
next
  case (Cons o1 os)
  then show ?case by (simp add: print_one_feature_eq [OF assms(1)])
qed

definition feature_header :: "conf \<Rightarrow> string list" where
  "feature_header s = [''-------------------'', ''Major features list'', ''-------------------'']
     @ (case cfg_dist s of Some (c # d) \<Rightarrow> [''Distribution: '' @ c # d] | _ \<Rightarrow> [])
     @ (case cfg_hw s of Some (c # h) \<Rightarrow> [''Hardware: '' @ c # h] | _ \<Rightarrow> [])
     @ (if cfg_os s \<noteq> [] then [''Os: '' @ cfg_os s] else [])
     @ ['''', ''Hardware configured in the distribution'', ''-------------------------------------'']"

text \<open>
  C28: The list of major features is complete and right. On the shipped table it is printed
  without a failure; a feature, module or hardware option that is off stands in the last
  list, one that is on in the list of each of its kinds, in the order of the table, and the C
  array holds the major features that are on.
\<close>

theorem major_features_listed:
  assumes "has_schema base_schema s" "major_features_cfile n = Some cf" "major_features_file n = Some f"
    and "can_open cf" "can_open f"
  shows "\<exists>x. print_major_features can_open n s = Inr x \<and>
     ff_list x = feature_header s @ features_of OPT_HARDWARE s
       @ ['''', ''Modules INCLUDED in the distribution'', ''-------------------------------------'']
       @ features_of OPT_MODULE s
       @ ['''', ''Features INCLUDED in the distribution'', ''-------------------------------------'']
       @ features_of OPT_MAJOR_FEATURE s
       @ ['''', ''Features NOT INCLUDED in the distribution'', ''-----------------------------------------'']
       @ features_of 0 s \<and>
     ff_cfile x = ff_cfile (cfile_feature_list_open cf \<lparr> ff_list = [], ff_cfile = [], ff_warnings = [] \<rparr>)
       @ c_features_of OPT_HARDWARE s @ c_features_of OPT_MODULE s @ c_features_of OPT_MAJOR_FEATURE s
       @ [''    NULL'', ''};'', '''']"
  using assms(2-)
  by (simp add: print_major_features_def Let_def print_major_features_by_selection_def
      print_features_loop_eq [OF assms(1) subset_refl] list_lines_def cfile_feature_list_open_def
      cfile_feature_list_close_def features_of_def c_features_of_def feature_header_def)

theorem major_features_listed_witness:
  "\<exists>x. print_major_features (\<lambda>f. True)
      (no_files\<lparr> major_features_file := Some ''list'', major_features_cfile := Some ''list.c'' \<rparr>)
      (initial_conf config_options_base) = Inr x"
  using major_features_listed [of "initial_conf config_options_base"
      "no_files\<lparr> major_features_file := Some ''list'', major_features_cfile := Some ''list.c'' \<rparr>"
      "''list.c''" "''list''" "\<lambda>f. True"] started_initial
  by (auto simp: started_def)

end
