(* ===== verification/Program.thy ===== *)
theory Program
  imports Config_Host Major_Features "HOL-Library.Sublist"
begin

text \<open>
  The whole of \<open>main\<close>: the configuration, the host, and the files written. The host
  system, the files that can be opened and the command line are its arguments.
\<close>

section \<open>Operations\<close>

text \<open>A null \<open>CONFIG_LOG\<close> prints as the C library prints null strings.\<close>

definition config_log :: "host \<Rightarrow> string" where
  "config_log h = (case host_getenv h ''CONFIG_LOG'' of None \<Rightarrow> ''(null)'' | Some f \<Rightarrow> f)"

text \<open>
  What the run leaves behind: the files, and the error it stopped with or the list of major
  features and the configuration. A host configuration that fails leaves the files
  untouched, a failure in the list of features leaves them complete.
\<close>

definition finish :: "host \<Rightarrow> (string \<Rightarrow> bool) \<Rightarrow> file_names \<times> conf \<Rightarrow>
    files_made \<times> (conf_error + features \<times> conf)" where
  "finish h can_open x = (case x of (n, s) \<Rightarrow>
     (case config_host h s of
        Inl e \<Rightarrow> (no_files_made, Inl e)
      | Inr s' \<Rightarrow>
          (case configure_print can_open (config_log h) n s' of
             (files, Some e) \<Rightarrow> (files, Inl e)
           | (files, None) \<Rightarrow>
               (files, bind_res (print_major_features can_open n s') (\<lambda>features. Inr (features, s'))))))"

definition program :: "host \<Rightarrow> (string \<Rightarrow> bool) \<Rightarrow> nat \<Rightarrow> string list \<Rightarrow>
    (files_made \<times> (conf_error + features \<times> conf)) option" where
  "program h can_open fuel argv = map_option
     (\<lambda>r. case r of Inl e \<Rightarrow> (no_files_made, Inl e) | Inr x \<Rightarrow> finish h can_open x)
     (main_configure fuel argv)"

section \<open>Properties\<close>



text \<open>
  C2: The whole program ends on every command line and every host: it prints its files or
  stops with an error.
\<close>

theorem program_terminates:
  "\<exists>n. \<forall>m. \<exists>r. program h can_open (n + m) argv = Some r"
proof (cases "read_arguments argv")
  case (Inl e)
  then show ?thesis by (simp add: program_def main_configure_def)
next
  case (Inr x)
  obtain files s where x: "x = (files, s)" by (cases x)
  from configure_total [OF started_arguments [OF Inr [unfolded x]]] obtain n where
    n: "\<forall>m. \<exists>r. configure (n + m) s = Some r" ..
  have "\<exists>r. program h can_open (n + m) argv = Some r" for m
    using n [rule_format, of m] Inr x by (auto simp: program_def main_configure_def)
  then show ?thesis by blast
qed











end
