(* ===== verification/Host_Properties.thy ===== *)
theory Host_Properties
  imports Config_Host Script_Effects
begin

text \<open>
  What the host configuration finds out: the host it accepts, the search for libraries and
  for the C library of the tool chain, the directory of the compiler's library, the path.
\<close>

unbundle bit_operations_syntax

section \<open>The host\<close>

lemma NL_eq: "NL = CHR 0x0A"
  by code_simp

lemma NL_NUL: "NL \<noteq> NUL"
  by code_simp

lemma strncmp_prefix:
  assumes "c_string x" "c_string p" "length p = n"
  shows "strncmp x p n = 0 \<longleftrightarrow> take n x = p"
proof -
  from assms(1) have "c_string (take n x)" by (auto simp: c_string_def dest: in_set_takeD)
  with assms(2,3) show ?thesis by (simp add: strncmp_def strcmp_eq_0)
qed

lemma commands_unchanged: "cfg_log s' = cfg_log s \<Longrightarrow> commands s' = commands s"
  by (simp add: commands_def)

lemma sys_get_plain:
  assumes "host_run h (commands s) c = Some a" "CHR ''%'' \<notin> set c"
  shows "sys_get h (pure c) [] s = Inr (a, s\<lparr> cfg_log := cfg_log s @ [Command c] \<rparr>)"
  using assms by (simp add: sys_get_def pure_def str_format_def c_format_plain)

lemma block_end: "bind_res r (block []) = r"
  by (cases r) simp_all

lemma has_schema_log [simp]: "has_schema sch (s\<lparr> cfg_log := l \<rparr>) \<longleftrightarrow> has_schema sch s"
  by (simp add: has_schema_def)

text \<open>
  Only hosts whose shell names an operating system that begins with \<open>linux\<close> are
  accepted. The shell ends its answer with a newline, so the comparison with \<open>cygwin\<close> never
  succeeds: such a host is refused like any other.
\<close>

theorem only_linux_hosts:
  assumes "has_schema base_schema s" "host_run h (commands s) ''echo $OSTYPE'' = Some (ostype @ [NL], 0)"
    and "c_string ostype"
  shows "case conf_ostype h s of
     Inl e \<Rightarrow> take 5 ostype \<noteq> ''linux'' \<and> e = Conf_err ''OS '%s' not supported ($OSTYPE)''
   | Inr s' \<Rightarrow> take 5 ostype = ''linux'' \<and> on_or_pinned ''CONFIG_RG_HOST_LINUX'' s'"
proof -
  let ?s = "s\<lparr> cfg_log := cfg_log s @ [Command ''echo $OSTYPE''] \<rparr>"
  have run: "sys_get h (pure ''echo $OSTYPE'') [] s = Inr ((ostype @ [NL], 0), ?s)"
    by (rule sys_get_plain [OF assms(2)]) simp
  have "c_string (ostype @ [NL])" using assms(3) by (simp add: NL_NUL)
  then have "strncmp (ostype @ [NL]) ''linux'' 5 = 0 \<longleftrightarrow> take 5 (ostype @ [NL]) = ''linux''"
    by (rule strncmp_prefix) (code_simp, simp)
  also have "\<dots> \<longleftrightarrow> take 5 ostype = ''linux''"
  proof (cases "5 \<le> length ostype")
    case False
    have "ostype @ [NL] \<noteq> ''linux''"
      by (rule notI) (drule arg_cong [where f = last], simp add: NL_eq)
    moreover have "length (take 5 ostype) \<noteq> length ''linux''" using False by simp
    ultimately show ?thesis using False by (auto simp del: length_take)
  qed simp
  finally have linux: "strncmp (ostype @ [NL]) ''linux'' 5 = 0 \<longleftrightarrow> take 5 ostype = ''linux''" .
  have eq: "conf_ostype h s = (if take 5 ostype = ''linux'' then token_set_y CH 92 ''CONFIG_RG_HOST_LINUX'' ?s
      else Inl (Conf_err ''OS '%s' not supported ($OSTYPE)''))"
    using run linux by (simp add: conf_ostype_def run_c_def when_c_def ifc_def pure_def conf_err_def block_end NL_eq)
  have h: "has_schema base_schema ?s" using assms(1) by simp
  have "settable base_schema ''CONFIG_RG_HOST_LINUX''" by simp
  from liveD [OF live_set_y [OF this] h] obtain s' where
    "token_set_y CH 92 ''CONFIG_RG_HOST_LINUX'' ?s = Inr s'" by blast
  with givenD [OF given_set_y h, where B = "\<lambda>s. True"] eq show ?thesis by auto
qed

text \<open>A host that answers every command alike, for the witnesses.\<close>

definition sample_host :: "string \<Rightarrow> int \<Rightarrow> host" where
  "sample_host x n = \<lparr> host_getenv = (\<lambda>v. None), host_run = (\<lambda>cs c. Some (x, n)),
     host_stat = (\<lambda>cs f. True), host_lstat = (\<lambda>cs f. True) \<rparr>"

theorem only_linux_hosts_witness:
  "case conf_ostype (sample_host (''linux-gnu'' @ [NL]) 0) (initial_conf config_options_base) of
     Inl e \<Rightarrow> False | Inr s' \<Rightarrow> on_or_pinned ''CONFIG_RG_HOST_LINUX'' s'"
proof -
  have "c_string ''linux-gnu''" by code_simp
  with only_linux_hosts [of "initial_conf config_options_base" "sample_host (''linux-gnu'' @ [NL]) 0" "''linux-gnu''"]
    started_initial
  show ?thesis by (auto simp: started_def sample_host_def split: sum.splits)
qed

section \<open>Searches\<close>

lemma say_plain_log: "\<lbrakk> eval_args args s = Inr xs; c_format f xs = Some x \<rbrakk> \<Longrightarrow>
    say f args s = Inr (s\<lparr> cfg_log := cfg_log s @ [Printed x] \<rparr>)"
  by (simp add: say_def str_format_def)

lemma locate_warning:
  "\<exists>l. say (''warning: %s found in both %s and in %s. using %s'' @ [NL])
      [sarg f, sarg a, sarg b, sarg a] s = Inr (s\<lparr> cfg_log := l \<rparr>)"
  by (simp add: say_def str_format_def pure_def NL_eq) (rule exI, rule refl)

definition test_of :: "string \<Rightarrow> string \<Rightarrow> string" where
  "test_of loc filename = ''test -f '' @ loc @ ''/'' @ filename"

lemma run_test:
  assumes "\<forall>cs. host_run h cs (test_of l f) = Some ([], if there l then 0 else 1)"
    and "CHR ''%'' \<notin> set f" "CHR ''%'' \<notin> set l"
  shows "sys_exec h (str_format ''test -f %s/%s'' [sarg l, sarg f]) s =
     Inr (if there l then 0 else 1, s\<lparr> cfg_log := cfg_log s @ [Command (test_of l f)] \<rparr>)"
proof -
  have f: "str_format ''test -f %s/%s'' [sarg l, sarg f] s = Inr (test_of l f)" for s
    by (simp add: str_format_def pure_def test_of_def)
  moreover have "c_format (test_of l f) [] = Some (test_of l f)"
    using assms(2,3) by (intro c_format_plain) (simp add: test_of_def)
  ultimately show ?thesis
    using assms(1) by (simp add: sys_exec_def bind_c_def sys_get_def ret_c_def str_format_def [of "test_of l f"])
qed

lemma locate_loop_find:
  assumes "\<forall>l\<in>set locs. CHR ''%'' \<notin> set l \<and> (\<forall>cs. host_run h cs (test_of l f) = Some ([], if there l then 0 else 1))"
    and f: "CHR ''%'' \<notin> set f"
  shows "\<exists>l. locate_loop h f locs first s =
     Inr (case first of None \<Rightarrow> List.find there locs | Some x \<Rightarrow> Some x, s\<lparr> cfg_log := l \<rparr>)"
  using assms(1)
proof (induction locs arbitrary: first s)
  case Nil
  then show ?case by (cases first) (auto simp: ret_c_def intro!: exI [of _ "cfg_log s"])
next
  case (Cons loc locs)
  let ?s = "s\<lparr> cfg_log := cfg_log s @ [Command (test_of loc f)] \<rparr>"
  from Cons.prems f have run: "sys_exec h (str_format ''test -f %s/%s'' [sarg loc, sarg f]) s =
      Inr (if there loc then 0 else 1, ?s)"
    by (intro run_test) auto
  from Cons.prems have rest: "\<exists>l. locate_loop h f locs g t =
      Inr (case g of None \<Rightarrow> List.find there locs | Some x \<Rightarrow> Some x, t\<lparr> cfg_log := l \<rparr>)" for g t
    by (intro Cons.IH) simp
  show ?case
  proof (cases "there loc")
    case there: True
    show ?thesis
    proof (cases first)
      case None
      with there run rest [of "Some loc" ?s] show ?thesis by (simp add: bind_c_def)
    next
      case (Some x)
      with there run locate_warning [of f x loc ?s] show ?thesis
        by (auto simp: bind_c_def do_c_def ret_c_def)
    qed
  next
    case False
    with run rest [of first ?s] show ?thesis by (cases first) (simp_all add: bind_c_def)
  qed
qed

text \<open>
  \<open>locate_file\<close> finds the first of the places that has the file, whatever the host's
  answers to anything else, and sets no option on the way.
\<close>

theorem locate_file_finds_first:
  assumes "\<forall>l\<in>set locs. CHR ''%'' \<notin> set l \<and> (\<forall>cs. host_run h cs (test_of l f) = Some ([], if there l then 0 else 1))"
    and "CHR ''%'' \<notin> set f"
  shows "case locate_file h locs f s of
     Inl e \<Rightarrow> False
   | Inr (r, s') \<Rightarrow> r = List.find there locs \<and> cfg_options s' = cfg_options s"
  using locate_loop_find [OF assms, of None s] by (auto simp: locate_file_def)

theorem locate_file_finds_first_witness:
  "case locate_file (sample_host [] 0) [''/usr/local'', ''/usr''] ''include/openssl/ssl.h'' (initial_conf []) of
     Inl e \<Rightarrow> False | Inr (r, s') \<Rightarrow> r = Some ''/usr/local''"
  using locate_file_finds_first [of "[''/usr/local'', ''/usr'']" "sample_host [] 0" "''include/openssl/ssl.h''"
      "\<lambda>l. True" "initial_conf []"]
  by (auto simp: sample_host_def split: sum.splits)

text \<open>
  \<open>find_libc\<close> answers with the first candidate whose library is there; looking changes
  nothing.
\<close>

definition libc_path :: "string \<Rightarrow> string \<Rightarrow> string \<times> int \<times> int \<times> int \<times> string \<Rightarrow> string" where
  "libc_path tp machine c = (case c of (prefix, major, minor, build, token) \<Rightarrow>
     tp @ ''/'' @ machine @ ''/lib/'' @ prefix @ show_int major @ ''.'' @ show_int minor @ ''.'' @ show_int build @ ''.so'')"

definition libc_token :: "string \<times> int \<times> int \<times> int \<times> string \<Rightarrow> string" where
  "libc_token c = snd (snd (snd (snd c)))"

lemma find_libc_find:
  assumes "token_get_str ''TARGET_MACHINE'' s = Inr (Some machine)"
  shows "find_libc h tp cs s = Inr (map_option (\<lambda>c. (libc_token c, libc_path tp machine c))
     (List.find (\<lambda>c. host_lstat h (commands s) (libc_path tp machine c)) cs))"
proof (induction cs)
  case Nil
  then show ?case by simp
next
  case (Cons c cs)
  obtain prefix major minor build token where c: "c = (prefix, major, minor, build, token)" by (cases c) auto
  have "str_format ''%s/%s/lib/%s%d.%d.%d.so''
         [sarg tp, str_arg ''TARGET_MACHINE'', sarg prefix,
          pure (Int_arg major), pure (Int_arg minor), pure (Int_arg build)] s = Inr (libc_path tp machine c)"
    using assms by (simp add: str_format_def pure_def str_arg_def libc_path_def c)
  with Cons c show ?case by (simp add: libc_token_def)
qed

lemma find_hd: "xs \<noteq> [] \<Longrightarrow> List.find (\<lambda>c. True) xs = Some (hd xs)"
  by (cases xs) simp_all

text \<open>
  The C library of the tool chain is found as the code says: the candidates are tried
  with glibc before uClibc and small version numbers first, and the first one there decides
  which of the two options is named.
\<close>

theorem libc_detect_first:
  assumes "token_get_str ''TARGET_MACHINE'' s = Inr (Some machine)"
  shows "libc_detect h tp s = Inr (map_option (\<lambda>c. (libc_token c, libc_path tp machine c))
     (List.find (\<lambda>c. host_lstat h (commands s) (libc_path tp machine c)) libc_candidates)) \<and>
   libc_candidates =
     map (\<lambda>(i, b). (''libc-'', 2, i, b, ''CONFIG_GLIBC'')) (List.product [1..3] [0..9]) @
     map (\<lambda>b. (''libuClibc-'', 0, 9, b, ''CONFIG_ULIBC'')) [20..40]"
  using find_libc_find [OF assms] unfolding libc_detect_def by (intro conjI) (simp, code_simp)

theorem libc_detect_first_witness:
  "token_get_str ''TARGET_MACHINE'' (initial_conf [opt ''TARGET_MACHINE'' (Some ''mips'') OPT_STR None]) = Inr (Some ''mips'') \<and>
   map_sum id (map_option fst) (libc_detect (sample_host [] 0) ''/opt'' (initial_conf [opt ''TARGET_MACHINE'' (Some ''mips'') OPT_STR None]))
     = Inr (Some ''CONFIG_GLIBC'')"
proof -
  have t: "token_get_str ''TARGET_MACHINE'' (initial_conf [opt ''TARGET_MACHINE'' (Some ''mips'') OPT_STR None]) = Inr (Some ''mips'')"
    by code_simp
  have "libc_candidates \<noteq> []" "libc_token (hd libc_candidates) = ''CONFIG_GLIBC''" by code_simp+
  with find_hd have "List.find (\<lambda>c. True) libc_candidates = Some (hd libc_candidates)" by blast
  with libc_detect_first [OF t, of "sample_host [] 0" "''/opt''"] t \<open>libc_token (hd libc_candidates) = _\<close>
  show ?thesis by (simp add: sample_host_def)
qed

section \<open>The C library\<close>

text \<open>Statements seen through the abstract store.\<close>

abbreviation store :: "conf \<Rightarrow> string \<Rightarrow> (string option \<times> set_prio_t) option" where
  "store s \<equiv> abs_store (cfg_options s)"

definition pinned_token :: "string \<Rightarrow> conf \<Rightarrow> bool" where
  "pinned_token t s \<longleftrightarrow> (\<exists>v. store s t = Some (v, SET_PRIO_CMD_LINE))"

lemma on_in_store: "on_in t s \<longleftrightarrow> (\<exists>v p. store s t = Some (Some v, p) \<and> (v = ''y'' \<or> v = ''m''))"
  by (auto simp: on_in_def abs_store_eq switched_on_def split: option.splits)

lemma set_y_store: "token_set_y f l t s = Inr s' \<Longrightarrow> store s' = set_spec SET_PRIO_TOKEN_SET t ''y'' (store s)"
  using put_option_spec [OF plain_y, of f l SET_PRIO_TOKEN_SET t s] by (simp add: put_option_def token_set_y_def)

lemma say_store: "say f args s = Inr s' \<Longrightarrow> store s' = store s"
  by (auto simp: say_def bind_res_eq_Inr)

lemma switch_testable_any: "switch sch t \<Longrightarrow> testable sch t"
  by (auto simp: testable_def switch_def bit_eq_iff bit_simps)

lemma testable_settable_any: "testable sch t \<Longrightarrow> settable sch t"
  by (force simp: testable_def settable_def)

lemma settable_store:
  assumes "has_schema sch s" "settable sch t"
  shows "\<exists>x. store s t = Some x"
  using has_schema_settable [OF assms] by (auto simp: abs_store_eq)

lemma on_false:
  "switch sch t \<Longrightarrow> has_schema sch s \<Longrightarrow> on t s = Inr False \<Longrightarrow> \<not> on_in t s"
  using on_on_in by fastforce

lemma set_spec_other [simp]: "t \<noteq> t' \<Longrightarrow> set_spec p t' v m t = m t"
  by (auto simp: set_spec_def split: option.splits)

lemma set_spec_same: "\<lbrakk> m t = Some (w, q); q \<noteq> SET_PRIO_CMD_LINE \<rbrakk> \<Longrightarrow>
    set_spec SET_PRIO_TOKEN_SET t v m t = Some (Some v, SET_PRIO_TOKEN_SET)"
  by (auto simp: set_spec_def above_token_set)

abbreviation ULIBC :: string where "ULIBC \<equiv> ''CONFIG_ULIBC''"
abbreviation GLIBC :: string where "GLIBC \<equiv> ''CONFIG_GLIBC''"

lemma libc_found_store:
  "libc_found x a b s = Inr s' \<Longrightarrow> t = ULIBC \<or> t = GLIBC \<Longrightarrow> store s' t = store s t"
  by (auto simp: libc_found_def ifc_def pure_def block_end split: if_splits dest!: set_y_store)

lemma choose_libc_store:
  assumes "choose_libc cfg ULIBC det s = Inr s'" "t = ULIBC \<or> t = GLIBC"
  shows "store s' t = (case cfg of Some c \<Rightarrow> store s t
     | None \<Rightarrow> set_spec SET_PRIO_TOKEN_SET (case det of None \<Rightarrow> ULIBC | Some x \<Rightarrow> fst x) ''y'' (store s) t)"
proof (cases det)
  case None
  with assms show ?thesis
    by (auto simp: choose_libc_def ifc_def bind_res_eq_Inr block_end conf_err_def
        split: option.splits if_splits dest!: set_y_store say_store)
next
  case (Some x)
  obtain tok path where x: "x = (tok, path)" by (cases x)
  show ?thesis
  proof (cases cfg)
    case None
    with Some x assms(1) obtain s1 s2 s3 where s: "token_set_y CH 489 tok s = Inr s1"
      "token_set_y CH 490 ''LIBC_IN_TOOLCHAIN'' s1 = Inr s2"
      "say (''Using autodetected precompiled LIBC: '%s' (%s)'' @ [NL]) [sarg tok, sarg path] s2 = Inr s3"
      "libc_found tok 495 497 s3 = Inr s'"
      by (auto simp: choose_libc_def bind_res_eq_Inr)
    from libc_found_store [OF s(4) assms(2)] say_store [OF s(3)] set_y_store [OF s(2)] set_y_store [OF s(1)] assms(2)
    have "store s' t = set_spec SET_PRIO_TOKEN_SET tok ''y'' (store s) t" by auto
    with None Some x show ?thesis by simp
  next
    case (Some c)
    with \<open>det = _\<close> x assms show ?thesis
      by (auto simp: choose_libc_def ifc_def pure_def bind_res_eq_Inr block_end conf_err_def
          split: if_splits dest!: set_y_store say_store libc_found_store)
  qed
qed

lemma libc_tokens: "list_all (\<lambda>c. libc_token c = ULIBC \<or> libc_token c = GLIBC) libc_candidates"
  by code_simp

lemma find_libc_names:
  assumes "find_libc h tp cs s = Inr (Some x)" "list_all (\<lambda>c. libc_token c = ULIBC \<or> libc_token c = GLIBC) cs"
  shows "fst x = ULIBC \<or> fst x = GLIBC"
  using assms
  by (induction cs) (auto simp: bind_res_eq_Inr libc_token_def split: prod.splits if_splits)

text \<open>What \<open>conf_libc\<close> makes of the two options, by what was asked for.\<close>

lemma conf_libc_store:
  assumes "conf_libc h tp s = Inr s'" "on ''CONFIG_RG_NOT_UNIX'' s = Inr False"
    and u: "on ULIBC s = Inr u" and g: "on GLIBC s = Inr g" and "\<not> (u \<and> g)"
  shows "\<exists>tok. (tok = ULIBC \<or> tok = GLIBC) \<and> (\<forall>t. t = ULIBC \<or> t = GLIBC \<longrightarrow>
     store s' t = (if u \<or> g then store s t else set_spec SET_PRIO_TOKEN_SET tok ''y'' (store s) t))"
proof -
  define cfg where "cfg = (if u then Some ULIBC else if g then Some GLIBC else None)"
  from assms have r: "ifc (getz_is ''LIBC_IN_TOOLCHAIN'' ''n'') [
         ifc (pure (cfg = None)) [
           token_set_y CH 414 ULIBC,
           say (''Forcing LIBC to default: '%s' (remove LIBC_IN_TOOLCHAIN=n to autodetect LIBC version)'' @ [NL])
             [sarg ULIBC]] [
           say (''Forcing use of specified LIBC: '%s' (remove LIBC_IN_TOOLCHAIN=n to autodetect LIBC version)'' @ [NL])
             [parg cfg]]] [
         local_c (libc_detect h tp) (\<lambda>detected. [choose_libc cfg ULIBC detected])] s = Inr s'"
    by (cases u; cases g) (simp_all add: conf_libc_def cfg_def local_c_def cat_if_def put_def conj_c_def disj_c_def
        ifc_def [of "on ''CONFIG_RG_NOT_UNIX''"] ifc_def [of "conj_c b c" for b c] block_end)
  then obtain lit where "getz_is ''LIBC_IN_TOOLCHAIN'' ''n'' s = Inr lit" by (auto simp: ifc_def bind_res_eq_Inr)
  show ?thesis
  proof (cases lit)
    case True
    show ?thesis
    proof (cases "cfg = None")
      case None: True
      then have "\<not> (u \<or> g)" by (auto simp: cfg_def split: if_splits)
      moreover from r True None \<open>getz_is _ _ s = Inr lit\<close> have "store s' = set_spec SET_PRIO_TOKEN_SET ULIBC ''y'' (store s)"
        by (auto simp: ifc_def pure_def bind_res_eq_Inr block_end dest!: set_y_store say_store)
      ultimately show ?thesis by (intro exI [of _ ULIBC]) simp
    next
      case False
      then have "u \<or> g" by (auto simp: cfg_def split: if_splits)
      moreover from r True False \<open>getz_is _ _ s = Inr lit\<close> have "store s' = store s"
        by (auto simp: ifc_def pure_def bind_res_eq_Inr block_end dest!: say_store)
      ultimately show ?thesis by (intro exI [of _ ULIBC]) simp
    qed
  next
    case False
    with r \<open>getz_is _ _ s = Inr lit\<close> obtain det where det: "libc_detect h tp s = Inr det"
      and c: "choose_libc cfg ULIBC det s = Inr s'"
      by (auto simp: ifc_def local_c_def bind_res_eq_Inr block_end)
    define tok where "tok = (case det of None \<Rightarrow> ULIBC | Some x \<Rightarrow> fst x)"
    have "tok = ULIBC \<or> tok = GLIBC"
      using det find_libc_names [OF _ libc_tokens] by (cases det) (auto simp: tok_def libc_detect_def)
    moreover have "store s' t = (if u \<or> g then store s t else set_spec SET_PRIO_TOKEN_SET tok ''y'' (store s) t)"
      if "t = ULIBC \<or> t = GLIBC" for t
      using choose_libc_store [OF c that] by (simp add: cfg_def tok_def)
    ultimately show ?thesis by blast
  qed
qed

text \<open>
  A target gets exactly one C library. When at most one is asked for, and the command
  line pins neither, the configuration ends with exactly one of the two options on, and the
  one asked for if there was one.
\<close>

theorem exactly_one_libc:
  assumes h: "has_schema sch s" and sw: "switch sch ULIBC" "switch sch GLIBC"
    and r: "conf_libc hst tp s = Inr s'"
    and unix: "on ''CONFIG_RG_NOT_UNIX'' s = Inr False"
    and both: "\<not> (on_in ULIBC s \<and> on_in GLIBC s)"
    and free: "\<not> pinned_token ULIBC s" "\<not> pinned_token GLIBC s"
  shows "on_in ULIBC s' \<noteq> on_in GLIBC s' \<and>
     (on_in ULIBC s \<longrightarrow> on_in ULIBC s') \<and> (on_in GLIBC s \<longrightarrow> on_in GLIBC s')"
proof -
  have t: "testable sch ULIBC" "testable sch GLIBC" using sw switch_testable_any by blast+
  then have st: "settable sch ULIBC" "settable sch GLIBC" using testable_settable_any by blast+
  obtain u g where ug: "on ULIBC s = Inr u" "on GLIBC s = Inr g"
    using rliveD [OF rlive_on [OF t(1)] h] rliveD [OF rlive_on [OF t(2)] h] by blast
  then have iff: "u \<longleftrightarrow> on_in ULIBC s" "g \<longleftrightarrow> on_in GLIBC s"
    using on_on_in [OF sw(1) h] on_on_in [OF sw(2) h] by auto
  with both have "\<not> (u \<and> g)" by blast
  from conf_libc_store [OF r unix ug this] obtain tok where tok: "tok = ULIBC \<or> tok = GLIBC"
    and new: "\<And>t. t = ULIBC \<or> t = GLIBC \<Longrightarrow>
      store s' t = (if u \<or> g then store s t else set_spec SET_PRIO_TOKEN_SET tok ''y'' (store s) t)" by blast
  obtain wu pu where "store s ULIBC = Some (wu, pu)" using settable_store [OF h st(1)] by auto
  moreover obtain wg pg where "store s GLIBC = Some (wg, pg)" using settable_store [OF h st(2)] by auto
  moreover note free
  ultimately have "set_spec SET_PRIO_TOKEN_SET ULIBC ''y'' (store s) ULIBC = Some (Some ''y'', SET_PRIO_TOKEN_SET)"
    "set_spec SET_PRIO_TOKEN_SET GLIBC ''y'' (store s) GLIBC = Some (Some ''y'', SET_PRIO_TOKEN_SET)"
    by (auto intro!: set_spec_same simp: pinned_token_def)
  note put = this
  show ?thesis
  proof (cases "u \<or> g")
    case True
    with new have "store s' ULIBC = store s ULIBC" "store s' GLIBC = store s GLIBC" by simp_all
    then have "on_in ULIBC s' = u" "on_in GLIBC s' = g" by (simp_all only: on_in_store iff)
    with True iff both show ?thesis by blast
  next
    case False
    then have off: "\<not> on_in ULIBC s" "\<not> on_in GLIBC s" using iff by simp_all
    from tok show ?thesis
    proof
      assume t: "tok = ULIBC"
      with new [of ULIBC] new [of GLIBC] put(1) False
      have "store s' ULIBC = Some (Some ''y'', SET_PRIO_TOKEN_SET)" "store s' GLIBC = store s GLIBC" by simp_all
      then have "on_in ULIBC s'" "on_in GLIBC s' = on_in GLIBC s" by (simp_all only: on_in_store) simp
      with off show ?thesis by blast
    next
      assume t: "tok = GLIBC"
      with new [of ULIBC] new [of GLIBC] put(2) False
      have "store s' GLIBC = Some (Some ''y'', SET_PRIO_TOKEN_SET)" "store s' ULIBC = store s ULIBC" by simp_all
      then have "on_in GLIBC s'" "on_in ULIBC s' = on_in ULIBC s" by (simp_all only: on_in_store) simp
      with off show ?thesis by blast
    qed
  qed
qed

definition libc_table :: "option_t list" where
  "libc_table = [opt ''CONFIG_RG_NOT_UNIX'' None OPT_NONE None, opt ULIBC None OPT_NONE None,
     opt GLIBC None OPT_NONE None, opt ''LIBC_IN_TOOLCHAIN'' None OPT_STR None,
     opt ''GLIBC_IN_TOOLCHAIN'' None OPT_NONE None, opt ''ULIBC_IN_TOOLCHAIN'' None OPT_NONE None,
     opt ''TARGET_MACHINE'' (Some ''mips'') OPT_STR None]"

theorem exactly_one_libc_witness:
  "\<exists>s'. conf_libc (sample_host [] 0) ''/opt'' (initial_conf libc_table) = Inr s' \<and> on_in ULIBC s' \<noteq> on_in GLIBC s'"
proof -
  let ?s = "initial_conf libc_table" and ?sch = "schema_of libc_table"
  have "has_schema ?sch ?s"
    by (simp add: has_schema_def libc_table_def initial_conf_def init_configs_def options_dup_def schema_of_def opt_def Let_def)
  moreover have "switch ?sch ULIBC" "switch ?sch GLIBC"
    by (simp_all add: switch_def schema_of_def libc_table_def opt_def OPT_NONE_def)
  moreover have "case conf_libc (sample_host [] 0) ''/opt'' ?s of Inl e \<Rightarrow> False | Inr s' \<Rightarrow> True" by code_simp
  then obtain s' where "conf_libc (sample_host [] 0) ''/opt'' ?s = Inr s'" by (auto split: sum.splits)
  moreover have "on ''CONFIG_RG_NOT_UNIX'' ?s = Inr False" by code_simp
  moreover have "store ?s ULIBC = Some (None, SET_PRIO_NONE)" "store ?s GLIBC = Some (None, SET_PRIO_NONE)" by code_simp+
  ultimately show ?thesis
    using exactly_one_libc [of ?sch ?s] by (auto simp: on_in_store pinned_token_def)
qed

section \<open>The compiler's library and the path\<close>

text \<open>
  \<open>LIB_GCC_DIR_PREFIX\<close> is exactly what stands before \<open>/libgcc.a\<close> in the compiler's
  answer; any other answer is an error.
\<close>

theorem lib_gcc_dir_spec:
  "lib_gcc_dir x = Some d \<longleftrightarrow> x = d @ ''/libgcc.a''"
proof
  assume "lib_gcc_dir x = Some d"
  then obtain i where "drop i x = ''/libgcc.a''" "take i x = d"
    by (auto simp: lib_gcc_dir_def split: option.splits if_splits)
  then show "x = d @ ''/libgcc.a''" by (metis append_take_drop_id)
next
  assume "x = d @ ''/libgcc.a''"
  then show "lib_gcc_dir x = Some d" by (simp add: lib_gcc_dir_def strrevchr_def)
qed

lemma target_path:
  "conf_target_general B R T P s = Inr (p, s') \<Longrightarrow> \<exists>q. p = P @ q"
  by (auto simp: conf_target_general_def do_c_def read_c_def ret_c_def nonnull_def cat_def bind_res_eq_Inr
      str_catprintf_def strz_def split: option.splits simp del: block.simps)

lemma config_host_target_path:
  "config_host_target h B R C P s = Inr (p, s') \<Longrightarrow> \<exists>q. p = P @ q"
  by (auto simp: config_host_target_def do_c_def bind_c_def ret_c_def bind_res_eq_Inr dest: target_path simp del: block.simps)

lemma raw_token_set_formatted:
  assumes "raw_token_set f l SET_PRIO_TOKEN_SET t (Some fmt) xs s = Inr s'" "vsnprintf 4096 fmt xs = Some v" "v \<noteq> ''m''"
  shows "value_or_pinned t v s'"
proof -
  from assms obtain i where i: "option_token_get_nofail (cfg_options s) t = Some i"
    and s': "(if SET_PRIO_TOKEN_SET < opt_prio (cfg_options s ! i) then s
          else s\<lparr> cfg_options := (cfg_options s)[i := store_option f l SET_PRIO_TOKEN_SET v (cfg_options s ! i)],
                 cfg_log := cfg_log s @ replace_log f l SET_PRIO_TOKEN_SET t v (cfg_options s ! i) \<rparr>) = s'"
    by (auto simp: raw_token_set_def bind_res_eq_Inr Let_def module_value_def split: if_splits)
  have "option_token_get_nofail ((cfg_options s)[i := store_option f l SET_PRIO_TOKEN_SET v (cfg_options s ! i)]) t = Some i"
    using i by (subst nofail_cong [of _ "cfg_options s"]) (auto intro: nth_list_update_map)
  with i s' nofail_Some [OF i] show ?thesis
    by (auto simp: value_or_pinned_def above_token_set split: if_splits)
qed

lemma set_not_cut:
  assumes "raw_token_set f l p t (Some fmt) xs s = Inr s'" "c_format fmt xs = Some x"
  shows "vsnprintf 4096 fmt xs = Some x"
proof -
  from assms have "length (take 4095 x) \<le> 4094" by (auto simp: raw_token_set_def vsnprintf_def split: if_splits)
  then have "take 4095 x = x" by simp
  with assms(2) show ?thesis by (simp add: vsnprintf_def)
qed

lemma set_path:
  assumes "token_set f l t ''.:%s'' [sarg P] s = Inr s'"
  shows "value_or_pinned t (''.:'' @ P) s'"
proof -
  from assms have r: "raw_token_set f l SET_PRIO_TOKEN_SET t (Some ''.:%s'') [Str_arg (Some P)] s = Inr s'"
    by (simp add: token_set_def pure_def)
  from raw_token_set_formatted [OF r set_not_cut [OF r]] show ?thesis by simp
qed

lemma config_host_path:
  assumes "config_host h s = Inr s'"
  shows "\<exists>P q. host_getenv h ''PATH'' = Some P \<and> value_or_pinned ''PATH'' (''.:'' @ P @ q) s'"
proof -
  let ?B = "host_getenv h ''BUILDDIR''" and ?R = "host_getenv h ''RGSRC''"
  from assms obtain P where P: "host_getenv h ''PATH'' = Some P"
    by (auto simp: config_host_def Let_def local_c_def nonnull_def pure_def [of "host_getenv h ''PATH''"] bind_res_eq_Inr
        split: option.splits)
  with assms obtain C p t t1 t2 where
    p: "if_m (conj_c (neg (on ''CONFIG_RG_JPKG_SRC'')) hw_set) (config_host_target h ?B ?R C P) (ret_c P) t = Inr (p, t1)"
    and set: "token_set CH 2061 ''PATH'' ''.:%s'' [sarg p] t2 = Inr s'"
    by (auto simp: config_host_def Let_def local_c_def nonnull_def run_c_def pure_def [of "Some P"] bind_res_eq_Inr)
  from p have "\<exists>q. p = P @ q"
    by (auto simp: if_m_def ret_c_def bind_res_eq_Inr split: if_splits dest: config_host_target_path)
  with set_path [OF set] P show ?thesis by auto
qed

text \<open>
  When the host is configured, the path of the build is the caller's with the current
  directory before it and, for a target, the directories of the tools behind it; unless the
  command line gave a path. Without a path in the environment the configuration does not
  succeed.
\<close>

theorem path_extends_callers:
  "case config_host h s of
     Inl e \<Rightarrow> True
   | Inr s' \<Rightarrow> \<exists>P q. host_getenv h ''PATH'' = Some P \<and> value_or_pinned ''PATH'' (''.:'' @ P @ q) s'"
  using config_host_path by (cases "config_host h s") auto

text \<open>
  Wherever the library of the database was found, below \<open>lib\<close> or below \<open>lib/mysql\<close>, the
  directory written is \<open>lib/mysql\<close>.
\<close>

lemma set_lib_mysql:
  assumes "token_set f l t ''%s/lib/mysql'' [sarg P] s = Inr s'"
  shows "value_or_pinned t (P @ ''/lib/mysql'') s'"
proof -
  from assms have r: "raw_token_set f l SET_PRIO_TOKEN_SET t (Some ''%s/lib/mysql'') [Str_arg (Some P)] s = Inr s'"
    by (simp add: token_set_def pure_def)
  from raw_token_set_formatted [OF r set_not_cut [OF r]] show ?thesis by auto
qed

lemma mysql_directory_fixed:
  assumes "conf_mysql h s = Inr s'" "locate_file h [''/usr/local'', ''/usr''] ''include/mysql/mysql.h'' s = Inr (Some loc, t)"
  shows "value_or_pinned ''CONFIG_RG_MYSQL_LIB_PREFIX'' (loc @ ''/lib/mysql'') s'"
  using assms
  by (auto simp: conf_mysql_def run_c_def ifc_def pure_def [of "x = 0" for x] bind_res_eq_Inr block_end rg_exit_def
      split: if_splits dest: set_lib_mysql)

end
