(* ===== verification/Bio_Socket.thy ===== *)
theory Bio_Socket
  imports C_Lib
begin

text \<open>
  \<open>bio_socket.c\<close>: blocking reads and writes of exact size over system calls that may move
  fewer bytes than asked for, be interrupted, or fail. What the system will answer is a
  list; a call that finds it empty waits for ever, which is the value \<open>None\<close>.
\<close>

section \<open>Operations\<close>

text \<open>
  One call of \<open>read\<close>: interrupted (\<open>EINTR\<close>, \<open>EAGAIN\<close>), failed, or data that is there; an
  empty piece is the end of the stream. The system hands out no more than was asked for and
  keeps the rest of a piece. One call of \<open>write\<close>: interrupted, failed, or the number of bytes
  it is willing to take.
\<close>

datatype rd_answer = Rd_again | Rd_error | Rd_data string
datatype wr_answer = Wr_again | Wr_error | Wr_took nat

text \<open>
  One turn of a loop, the body of its \<open>while\<close>: what is left to do and the bytes moved, or
  the result of the function.
\<close>

datatype 'a turn = Goes_on 'a string | Returns int string

definition read_over :: "nat \<Rightarrow> bool" where
  "read_over need \<longleftrightarrow> need = 0"

definition read_turn :: "nat \<Rightarrow> rd_answer \<Rightarrow> nat turn" where
  "read_turn need a = (case a of
       Rd_again \<Rightarrow> Goes_on need []
     | Rd_error \<Rightarrow> Returns (-1) []
     | Rd_data piece \<Rightarrow>
         (let got = take need piece in
          if got = [] then Returns (-1) [] else Goes_on (need - length got) got))"

text \<open>What the system keeps of a piece that is longer than asked for.\<close>

definition left_over :: "nat \<Rightarrow> rd_answer \<Rightarrow> rd_answer list \<Rightarrow> rd_answer list" where
  "left_over need a ans = (case a of
       Rd_data piece \<Rightarrow> if length piece \<le> need then ans else Rd_data (drop need piece) # ans
     | _ \<Rightarrow> ans)"

text \<open>The first argument is \<open>count - total\<close>.\<close>

function read_loop :: "nat \<Rightarrow> rd_answer list \<Rightarrow> string \<Rightarrow> (int \<times> string \<times> rd_answer list) option" where
  "read_loop need ans buf =
     (if read_over need then Some (0, buf, ans)
      else case ans of
          [] \<Rightarrow> None
        | a # ans' \<Rightarrow> (case read_turn need a of
            Goes_on need' got \<Rightarrow> read_loop need' (left_over need a ans') (buf @ got)
          | Returns rc got \<Rightarrow> Some (rc, buf @ got, left_over need a ans')))"
  by pat_completeness auto
termination
  by (relation "measure (\<lambda>(need, ans, _). length ans + need)")
    (auto simp: read_over_def read_turn_def left_over_def Let_def split: rd_answer.splits if_splits)

declare read_loop.simps [simp del]

definition bio_read :: "nat \<Rightarrow> rd_answer list \<Rightarrow> (int \<times> string \<times> rd_answer list) option" where
  "bio_read count ans = read_loop count ans []"

text \<open>The last component collects what the system has taken.\<close>

definition write_over :: "string \<Rightarrow> bool" where
  "write_over data \<longleftrightarrow> data = []"

definition write_turn :: "string \<Rightarrow> wr_answer \<Rightarrow> string turn" where
  "write_turn data a = (case a of
       Wr_again \<Rightarrow> Goes_on data []
     | Wr_error \<Rightarrow> Returns (-1) []
     | Wr_took n \<Rightarrow> if n = 0 then Returns (-1) [] else Goes_on (drop n data) (take n data))"

fun write_loop :: "string \<Rightarrow> wr_answer list \<Rightarrow> string \<Rightarrow> (int \<times> wr_answer list \<times> string) option" where
  "write_loop data ans out =
     (if write_over data then Some (0, ans, out)
      else case ans of
          [] \<Rightarrow> None
        | a # ans' \<Rightarrow> (case write_turn data a of
            Goes_on rest sent \<Rightarrow> write_loop rest ans' (out @ sent)
          | Returns rc sent \<Rightarrow> Some (rc, ans', out @ sent)))"

declare write_loop.simps [simp del]

definition bio_write :: "string \<Rightarrow> wr_answer list \<Rightarrow> string \<Rightarrow> (int \<times> wr_answer list \<times> string) option" where
  "bio_write data ans out = write_loop data ans out"

text \<open>\<open>bio_accept\<close>: interrupted calls are repeated.\<close>

datatype accept_answer = Acc_again | Acc_error | Acc_fd int

fun bio_accept :: "accept_answer list \<Rightarrow> (int \<times> accept_answer list) option" where
  "bio_accept [] = None"
| "bio_accept (Acc_again # ans) = bio_accept ans"
| "bio_accept (Acc_error # ans) = Some (-1, ans)"
| "bio_accept (Acc_fd fd # ans) = Some (fd, ans)"

section \<open>The turns\<close>

lemma read_turn_simps [simp]:
  "read_turn need Rd_again = Goes_on need []"
  "read_turn need Rd_error = Returns (-1) []"
  "read_turn need (Rd_data []) = Returns (-1) []"
  "xs \<noteq> [] \<Longrightarrow> length xs \<le> need \<Longrightarrow> read_turn need (Rd_data xs) = Goes_on (need - length xs) xs"
  by (auto simp: read_turn_def Let_def)

lemma write_turn_simps [simp]:
  "write_turn data Wr_again = Goes_on data []"
  "write_turn data Wr_error = Returns (-1) []"
  "write_turn data (Wr_took 0) = Returns (-1) []"
  "0 < n \<Longrightarrow> write_turn data (Wr_took n) = Goes_on (drop n data) (take n data)"
  by (simp_all add: write_turn_def)

lemma over_simps [simp]: "read_over need \<longleftrightarrow> need = 0" "write_over data \<longleftrightarrow> data = []"
  by (simp_all add: read_over_def write_over_def)

text \<open>The two loops, turn by turn.\<close>

lemma read_loop_simps:
  "read_loop 0 ans buf = Some (0, buf, ans)"
  "read_loop (Suc n) [] buf = None"
  "read_loop (Suc n) (Rd_again # ans) buf = read_loop (Suc n) ans buf"
  "read_loop (Suc n) (Rd_error # ans) buf = Some (-1, buf, ans)"
  "read_loop (Suc n) (Rd_data piece # ans) buf =
     (if piece = [] then Some (-1, buf, ans)
      else if length piece \<le> Suc n then read_loop (Suc n - length piece) ans (buf @ piece)
      else Some (0, buf @ take (Suc n) piece, Rd_data (drop (Suc n) piece) # ans))"
proof -
  show zero: "read_loop 0 ans buf = Some (0, buf, ans)" for ans buf by (simp add: read_loop.simps)
  show "read_loop (Suc n) (Rd_data piece # ans) buf =
     (if piece = [] then Some (-1, buf, ans)
      else if length piece \<le> Suc n then read_loop (Suc n - length piece) ans (buf @ piece)
      else Some (0, buf @ take (Suc n) piece, Rd_data (drop (Suc n) piece) # ans))"
    by (subst read_loop.simps) (auto simp: read_turn_def left_over_def Let_def zero)
qed (subst read_loop.simps, simp add: left_over_def)+

lemma write_loop_simps [simp]:
  "write_loop [] ans out = Some (0, ans, out)"
  "write_loop (c # cs) [] out = None"
  "write_loop (c # cs) (Wr_again # ans) out = write_loop (c # cs) ans out"
  "write_loop (c # cs) (Wr_error # ans) out = Some (-1, ans, out)"
  "write_loop (c # cs) (Wr_took n # ans) out =
     (if n = 0 then Some (-1, ans, out) else write_loop (drop n (c # cs)) ans (out @ take n (c # cs)))"
  by (subst write_loop.simps, simp add: write_turn_def)+

section \<open>Reading\<close>

text \<open>The bytes a list of answers will bring before it fails or ends.\<close>

fun stream_of :: "rd_answer list \<Rightarrow> string" where
  "stream_of [] = []"
| "stream_of (Rd_again # ans) = stream_of ans"
| "stream_of (Rd_error # ans) = []"
| "stream_of (Rd_data piece # ans) = (if piece = [] then [] else piece @ stream_of ans)"

lemma read_loop_stream:
  assumes "need \<le> length (stream_of ans)"
  shows "\<exists>ans'. read_loop need ans buf = Some (0, buf @ take need (stream_of ans), ans') \<and>
     stream_of ans' = drop need (stream_of ans)"
  using assms
proof (induction ans arbitrary: need buf)
  case Nil
  then show ?case by (simp add: read_loop_simps)
next
  case (Cons a ans)
  show ?case
  proof (cases need)
    case 0
    then show ?thesis by (simp add: read_loop_simps)
  next
    case (Suc n)
    show ?thesis
    proof (cases a)
      case (Rd_data piece)
      with Suc Cons.prems Cons.IH [of "Suc n - length piece" "buf @ piece"] show ?thesis
        by (auto simp: read_loop_simps split: if_splits)
    qed (use Suc Cons in \<open>simp_all add: read_loop_simps\<close>)
  qed
qed

lemma read_loop_short:
  assumes "length (stream_of ans) < need" "read_loop need ans buf = Some (rc, b, ans')"
  shows "rc = -1 \<and> b = buf @ stream_of ans"
  using assms
proof (induction ans arbitrary: need buf)
  case Nil
  then show ?case by (cases need) (simp_all add: read_loop_simps)
next
  case (Cons a ans)
  then obtain n where need: "need = Suc n" by (cases need) simp_all
  show ?case
  proof (cases a)
    case (Rd_data piece)
    with Cons.prems Cons.IH [of "Suc n - length piece" "buf @ piece"] need show ?thesis
      by (auto simp: read_loop_simps split: if_splits)
  qed (use need Cons in \<open>auto simp: read_loop_simps\<close>)
qed

text \<open>
  C34: However the system cuts the stream and however often it interrupts, \<open>bio_read\<close>
  returns exactly the next \<open>count\<close> bytes when so many come, and leaves the rest; when they do
  not, it does not succeed.
\<close>

theorem bio_read_reassembles:
  "case bio_read count ans of
     None \<Rightarrow> length (stream_of ans) < count
   | Some (rc, buf, ans') \<Rightarrow>
       if count \<le> length (stream_of ans)
       then rc = 0 \<and> buf = take count (stream_of ans) \<and> stream_of ans' = drop count (stream_of ans)
       else rc = -1 \<and> buf = stream_of ans"
proof (cases "count \<le> length (stream_of ans)")
  case True
  with read_loop_stream [OF this, of "[]"] show ?thesis by (auto simp: bio_read_def)
next
  case False
  then show ?thesis using read_loop_short [of ans count "[]"]
    by (cases "read_loop count ans []") (auto simp: bio_read_def)
qed

section \<open>Writing\<close>

lemma write_loop_prefix:
  "write_loop data ans out = Some (rc, ans', out') \<Longrightarrow>
     \<exists>n. out' = out @ take n data \<and> (rc = 0 \<and> length data \<le> n \<or> rc = -1 \<and> n < length data)"
proof (induction ans arbitrary: data out)
  case Nil
  then show ?case by (cases data) auto
next
  case (Cons a ans)
  show ?case
  proof (cases data)
    case Nil
    with Cons.prems show ?thesis by auto
  next
    case (Cons c cs)
    show ?thesis
    proof (cases a)
      case (Wr_took n)
      show ?thesis
      proof (cases "n = 0")
        case True
        with Wr_took Cons Cons.prems show ?thesis by (auto intro!: exI [of _ 0])
      next
        case False
        with Wr_took Cons Cons.prems have "write_loop (drop n data) ans (out @ take n data) = Some (rc, ans', out')"
          by (simp del: drop_Suc_Cons take_Suc_Cons)
        from Cons.IH [OF this] obtain m where "out' = (out @ take n data) @ take m (drop n data)"
          and "rc = 0 \<and> length (drop n data) \<le> m \<or> rc = -1 \<and> m < length (drop n data)" by blast
        then show ?thesis by (intro exI [of _ "n + m"]) (auto simp: take_add)
      qed
    next
      case Wr_again
      with Cons Cons.prems Cons.IH [of data out] show ?thesis by simp
    next
      case Wr_error
      with Cons Cons.prems show ?thesis by (auto intro!: exI [of _ 0])
    qed
  qed
qed

text \<open>How much the system is ready to take before it fails.\<close>

fun room_of :: "wr_answer list \<Rightarrow> nat" where
  "room_of [] = 0"
| "room_of (Wr_again # ans) = room_of ans"
| "room_of (Wr_error # ans) = 0"
| "room_of (Wr_took n # ans) = (if n = 0 then 0 else n + room_of ans)"

lemma write_loop_room:
  "length data \<le> room_of ans \<Longrightarrow> \<exists>ans'. write_loop data ans out = Some (0, ans', out @ data)"
proof (induction ans arbitrary: data out)
  case (Cons a ans)
  show ?case
  proof (cases data)
    case (Cons c cs)
    with Cons.prems Cons.IH show ?thesis
    proof (cases a)
      case (Wr_took n)
      with Cons Cons.prems Cons.IH [of "drop n data" "out @ take n data"] show ?thesis
        by (auto split: if_splits simp del: drop_Suc_Cons take_Suc_Cons)
    qed auto
  qed simp
qed simp

text \<open>
  C35: \<open>bio_write\<close> sends its bytes once, in order: all of them when it reports success, a
  proper prefix when it reports an error. It succeeds whenever the system will take so many
  bytes, however small the pieces.
\<close>

theorem bio_write_sends_once:
  "case bio_write data ans out of
     None \<Rightarrow> room_of ans < length data
   | Some (rc, ans', out') \<Rightarrow> \<exists>n. out' = out @ take n data \<and>
       (if length data \<le> room_of ans then rc = 0 \<and> n = length data else rc = 0 \<and> n = length data \<or> rc = -1 \<and> n < length data)"
proof (cases "length data \<le> room_of ans")
  case True
  with write_loop_room [OF this, of out] show ?thesis
    by (auto simp: bio_write_def intro!: exI [of _ "length data"])
next
  case False
  show ?thesis
  proof (cases "bio_write data ans out")
    case None
    with False show ?thesis by simp
  next
    case (Some x)
    then obtain rc ans' out' where x: "bio_write data ans out = Some (rc, ans', out')" by (cases x) auto
    from write_loop_prefix [OF this [unfolded bio_write_def]] obtain n where
      "out' = out @ take n data" "rc = 0 \<and> length data \<le> n \<or> rc = -1 \<and> n < length data" by blast
    with x False show ?thesis by (auto intro!: exI [of _ "min n (length data)"] simp: min_def)
  qed
qed

end
