(* ===== verification/Ipc.thy ===== *)
theory Ipc
  imports Bio_Socket "HOL-Library.Word"
begin

text \<open>
  \<open>ipc.c\<close>: messages over a stream socket. A conversation is a value of the type \<open>io\<close>: the
  blocking reads and writes of exact size the code performs, in order, and what it does with
  their outcome. It is run in two ways: alone, against the answers of the system
  (\<open>run_io\<close>), and, in \<open>Ipc_Protocol\<close>, against a peer. Every conversation ends with the
  socket closed. The log messages are left out.
\<close>

section \<open>Conversations\<close>

datatype 'a io =
    Done 'a
  | Wr string "bool \<Rightarrow> 'a io"
  | Rd nat "string option \<Rightarrow> 'a io"

record sock =
  rd_ans :: "rd_answer list"
  wr_ans :: "wr_answer list"
  sent :: string

primrec run_io :: "'a io \<Rightarrow> sock \<Rightarrow> ('a \<times> sock) option" where
  "run_io (Done x) s = Some (x, s)"
| "run_io (Wr data k) s = (case bio_write data (wr_ans s) (sent s) of
       None \<Rightarrow> None
     | Some (rc, ans, out) \<Rightarrow> run_io (k (rc = 0)) (s\<lparr> wr_ans := ans, sent := out \<rparr>))"
| "run_io (Rd count k) s = (case bio_read count (rd_ans s) of
       None \<Rightarrow> None
     | Some (rc, buf, ans) \<Rightarrow> run_io (k (if rc = 0 then Some buf else None)) (s\<lparr> rd_ans := ans \<rparr>))"

section \<open>Operations\<close>

text \<open>\<open>htonl\<close> and \<open>ntohl\<close> with the bytes they put on the wire and take from it.\<close>

definition u32_bytes :: "32 word \<Rightarrow> string" where
  "u32_bytes n = map (\<lambda>k. char_of (unat n div 256 ^ k)) [3, 2, 1, 0]"

definition bytes_u32 :: "string \<Rightarrow> 32 word" where
  "bytes_u32 bs = of_nat (foldl (\<lambda>n b. 256 * n + of_char b) 0 bs)"

definition ipc_write :: "string \<Rightarrow> (bool \<Rightarrow> 'a io) \<Rightarrow> 'a io" where
  "ipc_write buf k = Wr buf k"

definition ipc_read :: "nat \<Rightarrow> (string option \<Rightarrow> 'a io) \<Rightarrow> 'a io" where
  "ipc_read count k = Rd count k"

definition ipc_u32_read :: "(32 word option \<Rightarrow> 'a io) \<Rightarrow> 'a io" where
  "ipc_u32_read k = ipc_read 4 (\<lambda>r. k (map_option bytes_u32 r))"

definition ipc_u32_write :: "32 word \<Rightarrow> (bool \<Rightarrow> 'a io) \<Rightarrow> 'a io" where
  "ipc_u32_write n k = ipc_write (u32_bytes n) k"

text \<open>\<open>malloc_l\<close> asks for four bytes where it is to give none; \<open>alloc\<close> tells what can be had.\<close>

definition malloc_l :: "(nat \<Rightarrow> bool) \<Rightarrow> nat \<Rightarrow> bool" where
  "malloc_l alloc sz = alloc (if sz = 0 then 4 else sz)"

definition ipc_varbuf_read :: "(nat \<Rightarrow> bool) \<Rightarrow> (string option \<Rightarrow> 'a io) \<Rightarrow> 'a io" where
  "ipc_varbuf_read alloc k = ipc_u32_read (\<lambda>r. case r of
       None \<Rightarrow> k None
     | Some len \<Rightarrow> if \<not> malloc_l alloc (unat len) then k None else ipc_read (unat len) k)"

definition ipc_string_read :: "(nat \<Rightarrow> bool) \<Rightarrow> (string option \<Rightarrow> 'a io) \<Rightarrow> 'a io" where
  "ipc_string_read alloc k = ipc_varbuf_read alloc (\<lambda>r. case r of
       None \<Rightarrow> k None
     | Some data \<Rightarrow> if data = [] then k None else k (Some (data[length data - 1 := NUL])))"

definition ipc_string_write :: "string \<Rightarrow> (bool \<Rightarrow> 'a io) \<Rightarrow> 'a io" where
  "ipc_string_write str k = ipc_u32_write (of_nat (length str + 1)) (\<lambda>ok.
     if \<not> ok then k False else ipc_write (str @ [NUL]) k)"

text \<open>What a C reader sees of a buffer.\<close>

definition c_str :: "string \<Rightarrow> string" where
  "c_str buf = takeWhile (\<lambda>c. c \<noteq> NUL) buf"

definition SYNC_STR :: string where
  "SYNC_STR = ''sync''"

definition is_sync :: "string option \<Rightarrow> bool" where
  "is_sync r = (case r of None \<Rightarrow> False | Some buf \<Rightarrow> strcmp (c_str buf) SYNC_STR = 0)"

definition ipc_client_sync :: "(nat \<Rightarrow> bool) \<Rightarrow> (int \<Rightarrow> 'a io) \<Rightarrow> 'a io" where
  "ipc_client_sync alloc k = ipc_string_write SYNC_STR (\<lambda>ok.
     if \<not> ok then k (-1)
     else ipc_string_read alloc (\<lambda>r. if is_sync r then k 0 else k (-1)))"

definition ipc_server_sync :: "(nat \<Rightarrow> bool) \<Rightarrow> (int \<Rightarrow> 'a io) \<Rightarrow> 'a io" where
  "ipc_server_sync alloc k = ipc_string_read alloc (\<lambda>r.
     if \<not> is_sync r then k (-1)
     else ipc_string_write SYNC_STR (\<lambda>ok. if ok then k 0 else k (-1)))"

definition ipc_client_close :: "(nat \<Rightarrow> bool) \<Rightarrow> int \<Rightarrow> (int \<Rightarrow> 'a io) \<Rightarrow> 'a io" where
  "ipc_client_close alloc last_error k = (if last_error = 0 then ipc_client_sync alloc k else k 0)"

definition ipc_server_close :: "(nat \<Rightarrow> bool) \<Rightarrow> int \<Rightarrow> (int \<Rightarrow> 'a io) \<Rightarrow> 'a io" where
  "ipc_server_close alloc last_error k = (if last_error = 0 then ipc_server_sync alloc k else k 0)"

text \<open>
  The two ends of a transfer, once the connection is there. A client whose first
  synchronisation fails gives the connection up (\<open>ipc_connect_ip\<close> then tries another one).
\<close>

definition ipc_accept_buf_read :: "(nat \<Rightarrow> bool) \<Rightarrow> nat \<Rightarrow> (int \<times> string) io" where
  "ipc_accept_buf_read alloc data_len = ipc_server_sync alloc (\<lambda>sync.
     if sync \<noteq> 0 then Done (-1, [])
     else ipc_read data_len (\<lambda>r. let rc = (if r = None then -1 else 0) in
       ipc_server_close alloc rc (\<lambda>_. Done (rc, case r of None \<Rightarrow> [] | Some data \<Rightarrow> data))))"

definition ipc_connect_buf_write :: "(nat \<Rightarrow> bool) \<Rightarrow> string \<Rightarrow> int io" where
  "ipc_connect_buf_write alloc data = ipc_client_sync alloc (\<lambda>sync.
     if sync \<noteq> 0 then Done (-1)
     else ipc_write data (\<lambda>ok. let rc = (if ok then 0 else -1) in
       ipc_client_close alloc rc (\<lambda>_. Done rc)))"

text \<open>
  The loop of \<open>ipc_connect_ip\<close>: attempts until the synchronisation succeeds or a system call
  fails; \<open>None\<close> is trying for ever. The value is the connection in use.
\<close>

datatype attempt = No_socket | Refused | Connected sock

fun ipc_connect_ip :: "(nat \<Rightarrow> bool) \<Rightarrow> attempt list \<Rightarrow> sock option option" where
  "ipc_connect_ip alloc [] = None"
| "ipc_connect_ip alloc (No_socket # as) = Some None"
| "ipc_connect_ip alloc (Refused # as) = Some None"
| "ipc_connect_ip alloc (Connected s # as) = (case run_io (ipc_client_sync alloc Done) s of
       None \<Rightarrow> None
     | Some (rc, s') \<Rightarrow> if rc = 0 then Some (Some s') else ipc_connect_ip alloc as)"

text \<open>\<open>ipc_accept\<close> on the connection the system gives.\<close>

definition ipc_accept :: "(nat \<Rightarrow> bool) \<Rightarrow> accept_answer list \<Rightarrow> sock \<Rightarrow> (int \<times> sock) option" where
  "ipc_accept alloc ans s = (case bio_accept ans of
       None \<Rightarrow> None
     | Some (fd, _) \<Rightarrow> if fd < 0 then Some (-1, s)
         else (case run_io (ipc_server_sync alloc Done) s of
             None \<Rightarrow> None
           | Some (rc, s') \<Rightarrow> Some (if rc \<noteq> 0 then -1 else fd, s')))"

section \<open>Encoding\<close>

lemma u32_bytes_length [simp]: "length (u32_bytes n) = 4"
  by (simp add: u32_bytes_def)

lemma digits_256: "(n :: nat) = 256 * (n div 256) + n mod 256"
  by simp

lemma bytes_u32_bytes [simp]: "bytes_u32 (u32_bytes n) = n"
proof -
  let ?m = "unat n"
  have "?m < 16777216 * 256" using unsigned_less [of n, where ?'a = nat] by simp
  then have "?m div 16777216 < 256" by (metis less_mult_imp_div_less mult.commute)
  then have t3: "?m div 16777216 mod 256 = ?m div 16777216" by (rule mod_less)
  have s2: "256 * (?m div 16777216) + ?m div 65536 mod 256 = ?m div 65536"
    using digits_256 [of "?m div 65536"] by (simp add: div_mult2_eq [symmetric])
  have s1: "256 * (?m div 65536) + ?m div 256 mod 256 = ?m div 256"
    using digits_256 [of "?m div 256"] by (simp add: div_mult2_eq [symmetric])
  have "foldl (\<lambda>n b. 256 * n + of_char b) 0 (u32_bytes n) =
      256 * (256 * (256 * (?m div 16777216 mod 256) + ?m div 65536 mod 256) + ?m div 256 mod 256) + ?m mod 256"
    by (simp add: u32_bytes_def)
  also have "\<dots> = ?m" using digits_256 [of ?m] by (simp only: t3 s2 s1)
  finally show ?thesis by (simp add: bytes_u32_def)
qed

text \<open>
  A 32-bit number goes over the wire unchanged: four bytes, whatever it is, and the
  receiver's reading of them is the number.
\<close>

theorem u32_round_trip:
  "case run_io (ipc_u32_write n Done) s of
     None \<Rightarrow> room_of (wr_ans s) < 4
   | Some (ok, s') \<Rightarrow> if ok then \<exists>bs. sent s' = sent s @ bs \<and> length bs = 4 \<and> bytes_u32 bs = n
       else room_of (wr_ans s) < 4"
proof (cases "write_loop (u32_bytes n) (wr_ans s) (sent s)")
  case None
  then have "\<not> 4 \<le> room_of (wr_ans s)" using write_loop_room [of "u32_bytes n" "wr_ans s" "sent s"] by auto
  with None show ?thesis by (simp add: ipc_u32_write_def ipc_write_def bio_write_def)
next
  case (Some x)
  then obtain rc ans out where x: "write_loop (u32_bytes n) (wr_ans s) (sent s) = Some (rc, ans, out)" by (cases x) auto
  from write_loop_prefix [OF x] write_loop_room [of "u32_bytes n" "wr_ans s" "sent s"] x show ?thesis
    by (auto simp: ipc_u32_write_def ipc_write_def bio_write_def simp flip: not_le)
qed

section \<open>Strings\<close>

text \<open>What \<open>ipc_string_write\<close> sends.\<close>

definition wire_string :: "string \<Rightarrow> string" where
  "wire_string str = u32_bytes (of_nat (length str + 1)) @ str @ [NUL]"

lemma write_all:
  assumes "bio_write data ans out = Some (0, ans', out')"
  shows "out' = out @ data"
  using write_loop_prefix [OF assms [unfolded bio_write_def]] by auto

lemma bio_write_rc: "bio_write data ans out = Some (rc, ans', out') \<Longrightarrow> rc = 0 \<or> rc = -1"
  using write_loop_prefix unfolding bio_write_def by blast

lemma string_write_sends:
  assumes "run_io (ipc_string_write str Done) s = Some (True, s')"
  shows "sent s' = sent s @ wire_string str"
  using assms
  by (auto simp: ipc_string_write_def ipc_u32_write_def ipc_write_def wire_string_def
      split: option.splits if_splits dest!: write_all)

text \<open>Reading from a stream that is long enough.\<close>

lemma run_read:
  assumes "count \<le> length (stream_of (rd_ans s))"
  obtains ans where "run_io (ipc_read count k) s = run_io (k (Some (take count (stream_of (rd_ans s))))) (s\<lparr> rd_ans := ans \<rparr>)"
    and "stream_of ans = drop count (stream_of (rd_ans s))"
  using read_loop_stream [of count "rd_ans s" "[]"] assms by (auto simp: ipc_read_def bio_read_def)

lemma run_string_read:
  assumes st: "stream_of (rd_ans s) = wire_string str @ rest" and len: "length str + 1 < 2 ^ 32"
    and alloc: "malloc_l alloc (length str + 1)"
  obtains ans where "run_io (ipc_string_read alloc k) s = run_io (k (Some (str @ [NUL]))) (s\<lparr> rd_ans := ans \<rparr>)"
    and "stream_of ans = rest"
proof -
  let ?n = "of_nat (length str + 1) :: 32 word"
  have n: "unat ?n = length str + 1" using len by (simp add: unsigned_of_nat take_bit_nat_eq_self del: of_nat_add of_nat_Suc)
  define k2 where "k2 = (\<lambda>r. case r of None \<Rightarrow> k None
     | Some data \<Rightarrow> if data = [] then k None else k (Some (data[length data - 1 := NUL])))"
  define k1 where "k1 = (\<lambda>r. case map_option bytes_u32 r of
       None \<Rightarrow> k2 None
     | Some len \<Rightarrow> if \<not> malloc_l alloc (unat len) then k2 None else ipc_read (unat len) k2)"
  have k1: "ipc_string_read alloc k = ipc_read 4 k1"
    unfolding ipc_string_read_def ipc_varbuf_read_def ipc_u32_read_def k1_def k2_def ..
  from st have "4 \<le> length (stream_of (rd_ans s))" by (simp add: wire_string_def)
  from run_read [OF this] obtain a1 where a1: "run_io (ipc_read 4 k1) s =
      run_io (k1 (Some (take 4 (stream_of (rd_ans s))))) (s\<lparr> rd_ans := a1 \<rparr>)"
    and d1: "stream_of a1 = drop 4 (stream_of (rd_ans s))" by blast
  from st have "take 4 (stream_of (rd_ans s)) = u32_bytes ?n" by (simp add: wire_string_def)
  with a1 k1 have r1: "run_io (ipc_string_read alloc k) s = run_io (ipc_read (length str + 1) k2) (s\<lparr> rd_ans := a1 \<rparr>)"
    by (simp only: k1_def option.map option.case bytes_u32_bytes n alloc not_True_eq_False if_False)
  from d1 st have s1: "stream_of a1 = str @ NUL # rest" by (simp add: wire_string_def)
  have "length str + 1 \<le> length (stream_of (rd_ans (s\<lparr> rd_ans := a1 \<rparr>)))" using s1 by simp
  from run_read [OF this] obtain a2 where r2: "run_io (ipc_read (length str + 1) k2) (s\<lparr> rd_ans := a1 \<rparr>) =
      run_io (k2 (Some (str @ [NUL]))) (s\<lparr> rd_ans := a2 \<rparr>)" and s2: "stream_of a2 = rest"
    using s1 by auto
  from r1 r2 s2 that show thesis by (simp add: k2_def list_update_append)
qed

lemma c_str_terminated: "c_string str \<Longrightarrow> c_str (str @ [NUL]) = str"
  by (simp add: c_str_def c_string_def takeWhile_delim)

text \<open>
  C30: A string goes over the socket unchanged. What \<open>ipc_string_write\<close> has sent,
  \<open>ipc_string_read\<close> reads back as the same string, however the stream is cut into pieces,
  and it leaves what follows for the next reader.
\<close>

theorem string_round_trip:
  assumes "run_io (ipc_string_write str Done) s = Some (True, s')" "sent s = []"
    and "stream_of (rd_ans t) = sent s' @ rest" "c_string str"
    and "length str + 1 < 2 ^ 32" "malloc_l alloc (length str + 1)"
  shows "\<exists>buf t'. run_io (ipc_string_read alloc Done) t = Some (Some buf, t') \<and> c_str buf = str \<and>
     stream_of (rd_ans t') = rest"
proof -
  from assms(3) string_write_sends [OF assms(1)] assms(2) have "stream_of (rd_ans t) = wire_string str @ rest" by simp
  from run_string_read [OF this assms(5,6), of Done] obtain ans where
    "run_io (ipc_string_read alloc Done) t = Some (Some (str @ [NUL]), t\<lparr> rd_ans := ans \<rparr>)" "stream_of ans = rest"
    by auto
  with c_str_terminated [OF assms(4)] show ?thesis by simp
qed

theorem string_round_trip_witness:
  "\<exists>buf t'. run_io (ipc_string_read (\<lambda>n. True) Done)
      \<lparr> rd_ans = [Rd_data (take 3 (wire_string ''sync'')), Rd_again, Rd_data (drop 3 (wire_string ''sync'') @ ''!'')],
        wr_ans = [], sent = [] \<rparr> = Some (Some buf, t') \<and> c_str buf = ''sync'' \<and> stream_of (rd_ans t') = ''!''"
proof -
  let ?s = "\<lparr> rd_ans = [], wr_ans = [Wr_took 100, Wr_took 2, Wr_again, Wr_took 3], sent = [] \<rparr>"
  have w: "case run_io (ipc_string_write ''sync'' Done) ?s of
      None \<Rightarrow> False | Some (ok, s') \<Rightarrow> ok \<and> sent s' = wire_string ''sync''"
    by (simp add: ipc_string_write_def ipc_u32_write_def ipc_write_def bio_write_def wire_string_def u32_bytes_def)
  then obtain s' where s': "run_io (ipc_string_write ''sync'' Done) ?s = Some (True, s')" "sent s' = wire_string ''sync''"
    by (cases "run_io (ipc_string_write ''sync'' Done) ?s") auto
  have c: "c_string ''sync''" by code_simp
  let ?t = "\<lparr> rd_ans = [Rd_data (take 3 (wire_string ''sync'')), Rd_again, Rd_data (drop 3 (wire_string ''sync'') @ ''!'')],
    wr_ans = [], sent = [] \<rparr>"
  have t: "stream_of (rd_ans ?t) = sent s' @ ''!''" unfolding s'(2) by (simp add: wire_string_def u32_bytes_def)
  have "length ''sync'' + 1 = 5" by simp
  then have n: "length ''sync'' + 1 < 2 ^ 32" by (simp only:) simp
  have m: "malloc_l (\<lambda>n. True) (length ''sync'' + 1)" "sent ?s = []" by (simp_all add: malloc_l_def)
  show ?thesis using string_round_trip [OF s'(1) m(2) t c n m(1)] .
qed

end
