(* ===== verification/Ipc_Protocol.thy ===== *)
theory Ipc_Protocol
  imports Ipc
begin

text \<open>
  Two ends of \<open>ipc.c\<close> talking to each other. The socket is two channels that deliver bytes
  in order, as many at a time as they please; the ends take turns in any way. A conversation
  in which one end reads whenever the other writes comes to its end under every schedule, and
  both ends find the outcome they would find alone.
\<close>

section \<open>The system\<close>

type_synonym ('a, 'b) net = "'a io \<times> 'b io \<times> string \<times> string"

text \<open>What an end does next: an empty write or read is over at once.\<close>

primrec norm :: "'a io \<Rightarrow> 'a io" where
  "norm (Done x) = Done x"
| "norm (Wr data k) = (if write_over data then norm (k True) else Wr data k)"
| "norm (Rd count k) = (if read_over count then norm (k (Some [])) else Rd count k)"

text \<open>
  What a turn of \<open>bio_write\<close> or \<open>bio_read\<close> makes of the end that takes it: it goes on with the
  rest, or its program goes on with the result; the bytes read so far are kept for it.
\<close>

definition after_write :: "(bool \<Rightarrow> 'a io) \<Rightarrow> string turn \<Rightarrow> 'b io \<Rightarrow> string \<Rightarrow> string \<Rightarrow> ('a, 'b) net" where
  "after_write k t q u d = (case t of
       Goes_on rest xs \<Rightarrow> (norm (Wr rest k), q, u @ xs, d)
     | Returns rc xs \<Rightarrow> (norm (k (rc = 0)), q, u @ xs, d))"

definition after_read :: "(string option \<Rightarrow> 'a io) \<Rightarrow> nat turn \<Rightarrow> 'b io \<Rightarrow> string \<Rightarrow> string \<Rightarrow> ('a, 'b) net" where
  "after_read k t q u d = (case t of
       Goes_on need got \<Rightarrow> (norm (Rd need (\<lambda>r. k (map_option ((@) got) r))), q, u, d)
     | Returns rc got \<Rightarrow> (norm (k (if rc = 0 then Some got else None)), q, u, d))"

text \<open>
  A step of the first end is one turn of the loop it is in, with an answer of its socket:
  \<open>write\<close> takes some of the bytes, \<open>read\<close> hands out some of those that have come; if the
  other end is done, and so has closed, a read from the empty channel meets the end of the
  stream and a write may fail.
\<close>

inductive client_step :: "('a, 'b) net \<Rightarrow> ('a, 'b) net \<Rightarrow> bool" where
  sends: "0 < i \<Longrightarrow> i \<le> length data \<Longrightarrow>
    client_step (Wr data k, q, u, d) (after_write k (write_turn data (Wr_took i)) q u d)"
| takes: "xs \<noteq> [] \<Longrightarrow> length xs \<le> n \<Longrightarrow>
    client_step (Rd n k, q, u, xs @ d) (after_read k (read_turn n (Rd_data xs)) q u d)"
| ends: "0 < n \<Longrightarrow> client_step (Rd n k, Done y, u, []) (after_read k (read_turn n (Rd_data [])) (Done y) u [])"
| breaks: "data \<noteq> [] \<Longrightarrow>
    client_step (Wr data k, Done y, u, d) (after_write k (write_turn data Wr_error) (Done y) u d)"

text \<open>Turns whose call is interrupted change nothing, so that no step is needed for them.\<close>

lemma interrupted_turn:
  "data \<noteq> [] \<Longrightarrow> after_write k (write_turn data Wr_again) q u d = (Wr data k, q, u, d)"
  "0 < n \<Longrightarrow> after_read f (read_turn n Rd_again) q u d = (Rd n (\<lambda>r. f (map_option ((@) []) r)), q, u, d)"
  "f (map_option ((@) []) r) = f r"
  by (simp_all add: after_write_def after_read_def) (cases r; simp)

lemma client_step_cases:
  assumes "client_step n n'"
  obtains (sends) xs ys k q u d where "n = (Wr (xs @ ys) k, q, u, d)" "n' = (norm (Wr ys k), q, u @ xs, d)" "xs \<noteq> []"
  | (takes) xs i k q u d where "n = (Rd i k, q, u, xs @ d)"
      "n' = (norm (Rd (i - length xs) (\<lambda>r. k (map_option ((@) xs) r))), q, u, d)" "xs \<noteq> []" "length xs \<le> i"
  | (ends) i k y u where "n = (Rd i k, Done y, u, [])"
  | (breaks) bs k y u d where "n = (Wr bs k, Done y, u, d)"
  using assms
proof (cases rule: client_step.cases)
  case (sends i data k q u d)
  then show thesis
    by (intro that(1) [of "take i data" "drop i data"]) (auto simp: after_write_def)
qed (use that in \<open>auto simp: after_read_def\<close>)

definition swap :: "('a, 'b) net \<Rightarrow> ('b, 'a) net" where
  "swap n = (case n of (p, q, u, d) \<Rightarrow> (q, p, d, u))"

inductive step :: "('a, 'b) net \<Rightarrow> ('a, 'b) net \<Rightarrow> bool" where
  client: "client_step n n' \<Longrightarrow> step n n'"
| server: "client_step (swap n) (swap n') \<Longrightarrow> step n n'"

lemma swap_swap [simp]: "swap (swap n) = n"
  by (simp add: swap_def split: prod.split)

lemma swap_eq [simp]: "swap (p, q, u, d) = (q, p, d, u)"
  by (simp add: swap_def)

section \<open>What an end does on its own\<close>

datatype act = Put char | Get

primrec acts :: "'a io \<Rightarrow> string \<Rightarrow> act list" where
  "acts (Done x) inp = []"
| "acts (Wr data k) inp = map Put data @ acts (k True) inp"
| "acts (Rd n k) inp = replicate n Get @ acts (k (Some (take n inp))) (drop n inp)"

primrec outcome :: "'a io \<Rightarrow> string \<Rightarrow> 'a" where
  "outcome (Done x) inp = x"
| "outcome (Wr data k) inp = outcome (k True) inp"
| "outcome (Rd n k) inp = outcome (k (Some (take n inp))) (drop n inp)"

fun written :: "act list \<Rightarrow> string" where
  "written [] = []"
| "written (Put b # as) = b # written as"
| "written (Get # as) = written as"

text \<open>The shape of a conversation: \<open>True\<close> for a byte out, \<open>False\<close> for a byte in.\<close>

definition shape :: "act list \<Rightarrow> bool list" where
  "shape as = map (\<lambda>a. a \<noteq> Get) as"

lemma norm_norm [simp]: "norm (norm p) = norm p"
  by (induction p) auto

lemma acts_norm [simp]: "acts (norm p) inp = acts p inp" "outcome (norm p) inp = outcome p inp"
  by (induction p arbitrary: inp) auto

lemma written_simps [simp]:
  "written (as @ bs) = written as @ written bs" "written (map Put xs) = xs" "written (replicate n Get) = []"
proof -
  show "written (as @ bs) = written as @ written bs" by (induction as rule: written.induct) auto
  show "written (map Put xs) = xs" by (induction xs) auto
  show "written (replicate n Get) = []" by (induction n) auto
qed

lemma shape_simps [simp]:
  "shape [] = []" "shape (as @ bs) = shape as @ shape bs" "shape (map Put xs) = replicate (length xs) True"
  "shape (replicate n Get) = replicate n False" "length (shape as) = length as" "shape (Put b # as) = True # shape as"
  "shape (Get # as) = False # shape as"
  by (simp_all add: shape_def comp_def map_replicate_const)

lemma partial_read:
  assumes "length xs \<le> n"
  shows "acts (Rd n k) (xs @ inp) = replicate (length xs) Get @ acts (Rd (n - length xs) (\<lambda>r. k (map_option ((@) xs) r))) inp"
    and "outcome (Rd n k) (xs @ inp) = outcome (Rd (n - length xs) (\<lambda>r. k (map_option ((@) xs) r))) inp"
  using assms by (simp_all add: replicate_add [symmetric])

lemma norm_head [simp]: "norm p \<noteq> Wr [] k" "norm p \<noteq> Rd 0 f"
  by (induction p) auto

lemma acts_Nil: "norm p = p \<Longrightarrow> acts p inp = [] \<longleftrightarrow> (\<exists>x. p = Done x)"
  by (cases p) (auto split: if_splits)

section \<open>Conversations that match\<close>

text \<open>
  What is left to do on both sides: the bytes under way are those one side has still to take
  in; without them the two shapes mirror each other.
\<close>

definition matches :: "'a \<Rightarrow> 'b \<Rightarrow> nat \<Rightarrow> ('a, 'b) net \<Rightarrow> bool" where
  "matches x y m n \<longleftrightarrow> (case n of (p, q, u, d) \<Rightarrow> \<exists>a b. norm p = p \<and> norm q = q \<and>
     acts p (d @ written b) = a \<and> acts q (u @ written a) = b \<and>
     outcome p (d @ written b) = x \<and> outcome q (u @ written a) = y \<and> length a + length b = m \<and>
     (d = [] \<and> shape b = replicate (length u) False @ map Not (shape a) \<or>
      u = [] \<and> shape a = replicate (length d) False @ map Not (shape b)))"

lemma matchesI:
  assumes "norm p = p" "norm q = q" "acts p (d @ written b) = a" "acts q (u @ written a) = b"
    and "outcome p (d @ written b) = x" "outcome q (u @ written a) = y" "length a + length b = m"
    and "d = [] \<and> shape b = replicate (length u) False @ map Not (shape a) \<or>
      u = [] \<and> shape a = replicate (length d) False @ map Not (shape b)"
  shows "matches x y m (p, q, u, d)"
  unfolding matches_def prod.case by (rule exI [of _ a], rule exI [of _ b]) (use assms in simp)

lemma matchesE:
  assumes "matches x y m (p, q, u, d)"
  obtains a b where "norm p = p" "norm q = q" "acts p (d @ written b) = a" "acts q (u @ written a) = b"
    and "outcome p (d @ written b) = x" "outcome q (u @ written a) = y" "length a + length b = m"
    and "d = [] \<and> shape b = replicate (length u) False @ map Not (shape a) \<or>
      u = [] \<and> shape a = replicate (length d) False @ map Not (shape b)"
  using assms unfolding matches_def prod.case by blast

lemma matches_swap: "matches x y m n \<Longrightarrow> matches y x m (swap n)"
  by (cases n) (auto elim!: matchesE intro!: matchesI)

lemma head_shape:
  "norm (Wr bs k) = Wr bs k \<Longrightarrow> \<exists>t. shape (acts (Wr bs k) inp) = True # t"
  "norm (Rd n f) = Rd n f \<Longrightarrow> \<exists>t. shape (acts (Rd n f) inp) = False # t"
  by (cases bs; auto) (cases n; auto)

text \<open>Either both ends are done or one of them can move, and neither meets a closed socket.\<close>

lemma client_heads:
  assumes "matches x y m (p, q, u, d)"
  shows "p = Rd n f \<Longrightarrow> d = [] \<Longrightarrow> \<nexists>z. q = Done z" "p = Wr bs k \<Longrightarrow> \<nexists>z. q = Done z"
proof -
  from assms obtain a b where ab: "norm p = p" "acts p (d @ written b) = a" "acts q (u @ written a) = b"
    and sh: "d = [] \<and> shape b = replicate (length u) False @ map Not (shape a) \<or>
      u = [] \<and> shape a = replicate (length d) False @ map Not (shape b)"
    by (rule matchesE)
  show "\<nexists>z. q = Done z" if "p = Rd n f" "d = []"
    using ab sh that head_shape(2) [of n f "d @ written b"] by auto
  show "\<nexists>z. q = Done z" if "p = Wr bs k"
    using ab sh that head_shape(1) [of bs k "d @ written b"] by (cases d) auto
qed

lemma matches_client_step:
  assumes "client_step n n'" "matches x y m n"
  shows "\<exists>m' < m. matches x y m' n'"
  using assms
proof (cases rule: client_step_cases)
  case (sends xs ys k q u d)
  from assms(2) [unfolded sends(1)] obtain a b where q: "norm q = q" "acts q (u @ written a) = b"
    "outcome q (u @ written a) = y"
    and p: "acts (Wr (xs @ ys) k) (d @ written b) = a" "outcome (Wr (xs @ ys) k) (d @ written b) = x"
    and m: "length a + length b = m"
    and sh: "d = [] \<and> shape b = replicate (length u) False @ map Not (shape a) \<or>
      u = [] \<and> shape a = replicate (length d) False @ map Not (shape b)"
    by (rule matchesE)
  define a' where "a' = acts (Wr ys k) (d @ written b)"
  have a: "a = map Put xs @ a'" using p by (simp add: a'_def)
  have d: "d = []" using sh a sends(3) by (cases d; cases xs) auto
  have "shape b = replicate (length u) False @ map Not (shape a)"
    using sh d by (auto simp: comp_def)
  then have "shape b = replicate (length (u @ xs)) False @ map Not (shape a')"
    by (simp add: a replicate_add)
  moreover have "outcome (Wr ys k) (d @ written b) = x" using p(2) by simp
  moreover have "acts (Wr ys k) (d @ written b) = a'" by (simp only: a'_def)
  ultimately have "matches x y (length a' + length b) (norm (Wr ys k), q, u @ xs, d)"
    using d q a by (intro matchesI [where a = a' and b = b]) (simp_all del: norm.simps acts.simps outcome.simps)
  moreover have "length a' + length b < m" using m a sends(3) by (cases xs) auto
  ultimately show ?thesis using sends(2) by blast
next
  case (takes xs n k q u d)
  from assms(2) [unfolded takes(1)] obtain a b where q: "norm q = q" "acts q (u @ written a) = b"
    "outcome q (u @ written a) = y"
    and p: "acts (Rd n k) ((xs @ d) @ written b) = a" "outcome (Rd n k) ((xs @ d) @ written b) = x"
    and m: "length a + length b = m"
    and sh: "xs @ d = [] \<and> shape b = replicate (length u) False @ map Not (shape a) \<or>
      u = [] \<and> shape a = replicate (length (xs @ d)) False @ map Not (shape b)"
    by (rule matchesE)
  define k' where "k' = (\<lambda>r. k (map_option ((@) xs) r))"
  define a' where "a' = acts (Rd (n - length xs) k') (d @ written b)"
  have a: "a = replicate (length xs) Get @ a'"
    using p(1) partial_read(1) [OF takes(4), of k "d @ written b"] by (simp only: append_assoc a'_def k'_def)
  have o: "outcome (Rd (n - length xs) k') (d @ written b) = x"
    using p(2) partial_read(2) [OF takes(4), of k "d @ written b"] by (simp only: append_assoc k'_def)
  have a2: "acts (Rd (n - length xs) k') (d @ written b) = a'" by (simp only: a'_def)
  from sh takes(3) a have "u = []" "shape a' = replicate (length d) False @ map Not (shape b)"
    by (auto simp: replicate_add)
  with q o a a2 have "matches x y (length a' + length b) (norm (Rd (n - length xs) k'), q, u, d)"
    by (intro matchesI [where a = a' and b = b]) (simp_all del: norm.simps acts.simps outcome.simps)
  moreover have "length a' + length b < m" using m a takes(3) by (cases xs) auto
  ultimately show ?thesis using takes(2) by (auto simp: k'_def)
next
  case (ends i k y' u)
  with client_heads(1) [OF assms(2) [unfolded ends(1)]] show ?thesis by blast
next
  case (breaks bs k y' u d)
  with client_heads(2) [OF assms(2) [unfolded breaks(1)]] show ?thesis by blast
qed

lemma matches_step: "step n n' \<Longrightarrow> matches x y m n \<Longrightarrow> \<exists>m' < m. matches x y m' n'"
  by (induction rule: step.induct) (metis matches_client_step matches_swap swap_swap)+

lemma client_moves:
  assumes "norm p = p" "\<nexists>n'. client_step (p, q, u, d) n'"
  shows "(\<exists>z. p = Done z) \<or> (\<exists>n f. p = Rd n f) \<and> d = []"
proof (cases p)
  case (Wr bs k)
  with assms(1) have "bs \<noteq> []" by auto
  with sends [of 1 bs k q u d] assms(2) Wr show ?thesis by (cases bs) (auto simp: after_write_def)
next
  case (Rd n f)
  with assms(1) have "1 \<le> n" by (cases n) auto
  show ?thesis
  proof (cases d)
    case Nil
    with Rd show ?thesis by simp
  next
    case (Cons c d')
    from takes [of "[c]" n f q u d'] \<open>1 \<le> n\<close> assms(2) Rd Cons show ?thesis by (auto simp: after_read_def)
  qed
qed simp

lemma matches_stuck:
  assumes m: "matches x y m (p, q, u, d)" and no: "\<nexists>n'. step (p, q, u, d) n'"
  shows "p = Done x \<and> q = Done y \<and> u = [] \<and> d = []"
proof -
  from matches_swap [OF m] have m': "matches y x m (q, p, d, u)" by simp
  from m obtain a b where n: "norm p = p" "norm q = q" and ab: "acts p (d @ written b) = a" "acts q (u @ written a) = b"
    and xy: "outcome p (d @ written b) = x" "outcome q (u @ written a) = y"
    and sh: "d = [] \<and> shape b = replicate (length u) False @ map Not (shape a) \<or>
      u = [] \<and> shape a = replicate (length d) False @ map Not (shape b)"
    by (rule matchesE)
  from no have "\<nexists>n'. client_step (p, q, u, d) n'" by (blast intro: step.client)
  with client_moves n have p: "(\<exists>z. p = Done z) \<or> (\<exists>n f. p = Rd n f) \<and> d = []" by blast
  have "\<nexists>n'. client_step (q, p, d, u) n'"
  proof
    assume "\<exists>n'. client_step (q, p, d, u) n'"
    then obtain n' where "client_step (swap (p, q, u, d)) (swap (swap n'))" by auto
    from step.server [OF this] no show False by blast
  qed
  with client_moves n have q: "(\<exists>z. q = Done z) \<or> (\<exists>n f. q = Rd n f) \<and> u = []" by blast
  have fin: "\<exists>z. p = Done z" "\<exists>z. q = Done z"
  proof -
    have "False" if "p = Rd k f" "q = Rd l g" "d = []" "u = []" for k f l g
      using that sh ab n head_shape(2) [of k f "d @ written b"] head_shape(2) [of l g "u @ written a"] by auto
    with p q client_heads(1) [OF m] client_heads(1) [OF m'] show "\<exists>z. p = Done z" "\<exists>z. q = Done z" by blast+
  qed
  then have "a = []" "b = []" using ab by auto
  with sh fin xy show ?thesis by auto
qed

section \<open>Mirrored conversations\<close>

text \<open>
  Two ends whose conversations, each fed what the other says, mirror each other: one writes
  where the other reads.
\<close>

locale conversation =
  fixes p :: "'a io" and q :: "'b io" and a b :: "act list" and x :: 'a and y :: 'b
  assumes client_side: "acts p (written b) = a" "outcome p (written b) = x"
    and server_side: "acts q (written a) = b" "outcome q (written a) = y"
    and mirror: "shape b = map Not (shape a)"
begin

lemma matches_start: "matches x y (length a + length b) (norm p, norm q, [], [])"
  using client_side server_side mirror by (intro matchesI [where a = a and b = b]) simp_all

lemma matches_later: "(step ^^ k) (norm p, norm q, [], []) n \<Longrightarrow> \<exists>m. m + k \<le> length a + length b \<and> matches x y m n"
proof (induction k arbitrary: n)
  case 0
  then show ?case using matches_start by auto
next
  case (Suc k)
  then obtain n0 where n0: "(step ^^ k) (norm p, norm q, [], []) n0" "step n0 n" by auto
  with Suc.IH obtain m where "m + k \<le> length a + length b" "matches x y m n0" by blast
  with matches_step [OF n0(2)] obtain m' where "m' < m" "matches x y m' n" by blast
  with \<open>m + k \<le> _\<close> show ?case by (intro exI [of _ m']) simp
qed

lemma short: "(step ^^ k) (norm p, norm q, [], []) n \<Longrightarrow> k \<le> length a + length b"
  using matches_later by fastforce

lemma completes:
  assumes "(step ^^ k) (norm p, norm q, [], []) n" "\<nexists>n'. step n n'"
  shows "n = (Done x, Done y, [], [])"
proof -
  obtain p' q' u d where n: "n = (p', q', u, d)" by (cases n) auto
  from matches_later [OF assms(1)] obtain m where "matches x y m (p', q', u, d)" using n by blast
  from matches_stuck [OF this] assms(2) n show ?thesis by simp
qed

lemma ends_happily: "\<exists>k. (step ^^ k) (norm p, norm q, [], []) (Done x, Done y, [], [])"
proof (rule ccontr)
  assume no: "\<not> ?thesis"
  have "\<exists>n. (step ^^ k) (norm p, norm q, [], []) n" for k
  proof (induction k)
    case (Suc k)
    then obtain n where n: "(step ^^ k) (norm p, norm q, [], []) n" ..
    with completes no obtain n' where "step n n'" by blast
    with n have "(step ^^ Suc k) (norm p, norm q, [], []) n'" by auto
    then show ?case ..
  qed auto
  from this [of "Suc (length a + length b)"] short show False by fastforce
qed

end

section \<open>The transfer\<close>

lemma string_write_acts:
  "acts (ipc_string_write str k) inp = map Put (wire_string str) @ acts (k True) inp"
  "outcome (ipc_string_write str k) inp = outcome (k True) inp"
  by (simp_all add: ipc_string_write_def ipc_u32_write_def ipc_write_def wire_string_def)

lemma string_read_acts:
  assumes "length str + 1 < 2 ^ 32" "malloc_l alloc (length str + 1)"
  shows "acts (ipc_string_read alloc k) (wire_string str @ inp) = replicate (length (wire_string str)) Get @ acts (k (Some (str @ [NUL]))) inp"
    "outcome (ipc_string_read alloc k) (wire_string str @ inp) = outcome (k (Some (str @ [NUL]))) inp"
proof -
  let ?n = "of_nat (length str + 1) :: 32 word"
  have n: "unat ?n = length str + 1" using assms(1)
    by (simp add: unsigned_of_nat take_bit_nat_eq_self del: of_nat_add of_nat_Suc)
  have five: "replicate (5 + i) Get = replicate 4 Get @ Get # replicate i Get" for i by (simp add: numeral_eq_Suc)
  have four: "take 4 (u32_bytes ?n @ z) = u32_bytes ?n" "drop 4 (u32_bytes ?n @ z) = z" for z by simp_all
  show "acts (ipc_string_read alloc k) (wire_string str @ inp) = replicate (length (wire_string str)) Get @ acts (k (Some (str @ [NUL]))) inp"
    "outcome (ipc_string_read alloc k) (wire_string str @ inp) = outcome (k (Some (str @ [NUL]))) inp"
    unfolding ipc_string_read_def ipc_varbuf_read_def ipc_u32_read_def ipc_read_def wire_string_def
    by (simp_all only: acts.simps outcome.simps append_assoc four option.map option.case bytes_u32_bytes n assms(2)
        not_True_eq_False if_False) (simp_all add: list_update_append five)
qed

lemma sync_length: "length SYNC_STR + 1 = 5"
  by (simp add: SYNC_STR_def)

lemma sync_short: "length SYNC_STR + 1 < 2 ^ 32"
  by (simp only: sync_length) simp

lemma is_sync_wire [simp]: "is_sync (Some (SYNC_STR @ [NUL]))"
proof -
  have "c_string SYNC_STR" by code_simp
  from c_str_terminated [OF this] strcmp_eq_0 [OF this this] show ?thesis by (simp add: is_sync_def)
qed

lemma sync_acts:
  assumes "malloc_l alloc (length SYNC_STR + 1)"
  shows "acts (ipc_client_sync alloc k) (wire_string SYNC_STR @ inp) =
      map Put (wire_string SYNC_STR) @ replicate (length (wire_string SYNC_STR)) Get @ acts (k 0) inp"
    "outcome (ipc_client_sync alloc k) (wire_string SYNC_STR @ inp) = outcome (k 0) inp"
    "acts (ipc_server_sync alloc l) (wire_string SYNC_STR @ inp) =
      replicate (length (wire_string SYNC_STR)) Get @ map Put (wire_string SYNC_STR) @ acts (l 0) inp"
    "outcome (ipc_server_sync alloc l) (wire_string SYNC_STR @ inp) = outcome (l 0) inp"
  by (simp_all add: ipc_client_sync_def ipc_server_sync_def string_write_acts
      string_read_acts [OF sync_short assms])

definition put_sync :: "act list" where "put_sync = map Put (wire_string SYNC_STR)"
definition get_sync :: "act list" where "get_sync = replicate (length (wire_string SYNC_STR)) Get"

lemma transfer:
  assumes "malloc_l alloc (length SYNC_STR + 1)"
  shows "conversation (ipc_connect_buf_write alloc data) (ipc_accept_buf_read alloc (length data))
     (put_sync @ get_sync @ map Put data @ put_sync @ get_sync)
     (get_sync @ put_sync @ replicate (length data) Get @ get_sync @ put_sync) 0 (0, data)"
  by unfold_locales
    (simp_all add: put_sync_def get_sync_def ipc_connect_buf_write_def ipc_accept_buf_read_def ipc_write_def ipc_read_def
      ipc_client_close_def ipc_server_close_def sync_acts [OF assms] sync_acts [OF assms, where inp = "[]", simplified])

interpretation rich: conversation "ipc_connect_buf_write (\<lambda>n. True) data" "ipc_accept_buf_read (\<lambda>n. True) (length data)"
    "put_sync @ get_sync @ map Put data @ put_sync @ get_sync"
    "get_sync @ put_sync @ replicate (length data) Get @ get_sync @ put_sync" 0 "(0, data)" for data
  by (rule transfer) (simp add: malloc_l_def)

text \<open>Both ends at the start, with the connection made and nothing said.\<close>

definition transfer_start :: "(nat \<Rightarrow> bool) \<Rightarrow> string \<Rightarrow> (int, int \<times> string) net" where
  "transfer_start alloc data =
     (norm (ipc_connect_buf_write alloc data), norm (ipc_accept_buf_read alloc (length data)), [], [])"

lemma wire_sync_length: "length (wire_string SYNC_STR) = 9"
  by (simp add: wire_string_def SYNC_STR_def)

text \<open>
  C29: A transfer always completes. Whatever the schedule and however the channels cut the
  bytes, no conversation of the two ends takes more than 72 steps and two for every byte of
  data; and one that cannot go on has ended well: both ends report success, the server holds
  exactly the client's data, and nothing is left in the channels.
\<close>

theorem transfer_completes:
  assumes "malloc_l alloc 5" "(step ^^ k) (transfer_start alloc data) n"
  shows "k \<le> 72 + 2 * length data \<and> ((\<exists>n'. step n n') \<or> n = (Done 0, Done (0, data), [], []))"
proof -
  from assms(1) have "malloc_l alloc (length SYNC_STR + 1)" by (simp only: sync_length)
  note c = transfer [OF this, of data]
  from conversation.short [OF c assms(2) [unfolded transfer_start_def]]
  have "k \<le> 72 + 2 * length data" by (simp add: put_sync_def get_sync_def wire_sync_length)
  with conversation.completes [OF c assms(2) [unfolded transfer_start_def]] show ?thesis by blast
qed

theorem transfer_completes_witness:
  "\<exists>k n. (step ^^ k) (transfer_start (\<lambda>n. True) ''abc'') n \<and> k \<le> 78 \<and>
     ((\<exists>n'. step n n') \<or> n = (Done 0, Done (0, ''abc''), [], []))"
proof -
  have "malloc_l (\<lambda>n. True) 5" by (simp add: malloc_l_def)
  moreover obtain k where "(step ^^ k) (transfer_start (\<lambda>n. True) ''abc'') (Done 0, Done (0, ''abc''), [], [])"
    using rich.ends_happily [of "''abc''"] by (auto simp: transfer_start_def)
  ultimately show ?thesis using transfer_completes [of "\<lambda>n. True" k "''abc''"] by fastforce
qed

end
