(* ===== verification/Rg_Error.thy ===== *)
theory Rg_Error
  imports Str_Util "HOL-Library.Multiset" "HOL-Library.Word"
begin

text \<open>
  \<open>rg_error.c\<close>, the error reports of the tree's own programs, as a user process runs it: the
  list of registered callbacks in the order of their sequence numbers, the format with its
  \<open>%m\<close>, the delivery by severity and by flag, and what a fatal severity brings about. Also
  the other \<open>rg_error\<close>, of \<open>openrg_gpl.c\<close>.
\<close>

unbundle bit_operations_syntax

type_synonym rg_error_level_t = "32 word"

section \<open>Severities\<close>

definition LLEVEL_MASK :: rg_error_level_t where "LLEVEL_MASK = 0xf"
definition LEMERG :: rg_error_level_t where "LEMERG = 0"
definition LALERT :: rg_error_level_t where "LALERT = 1"
definition LCRIT :: rg_error_level_t where "LCRIT = 2"
definition LERR :: rg_error_level_t where "LERR = 3"
definition LWARNING :: rg_error_level_t where "LWARNING = 4"
definition LNOTICE :: rg_error_level_t where "LNOTICE = 5"
definition LINFO :: rg_error_level_t where "LINFO = 6"
definition LDEBUG :: rg_error_level_t where "LDEBUG = 7"
definition LFLAGS_MASK :: rg_error_level_t where "LFLAGS_MASK = 0xf00"
definition LCONSOLE :: rg_error_level_t where "LCONSOLE = 0x100"
definition LDOEXIT :: rg_error_level_t where "LDOEXIT = 0x200"
definition LDOREBOOT :: rg_error_level_t where "LDOREBOOT = 0x400"
definition LSYSLOGBASIC :: rg_error_level_t where "LSYSLOGBASIC = 0x800"
definition LEXIT :: rg_error_level_t where "LEXIT = LCRIT OR LDOEXIT"
definition LPANIC :: rg_error_level_t where "LPANIC = LEMERG OR LDOEXIT"

lemmas level_defs = LLEVEL_MASK_def LEMERG_def LALERT_def LCRIT_def LERR_def LWARNING_def LNOTICE_def
  LINFO_def LDEBUG_def LFLAGS_MASK_def LCONSOLE_def LDOEXIT_def LDOREBOOT_def LSYSLOGBASIC_def
  LEXIT_def LPANIC_def

section \<open>State\<close>

datatype callback = Default_error_cb | Callback nat

record rg_error_notify_t =
  n_func :: callback
  n_data :: "nat option"
  n_level :: rg_error_level_t
  n_sequence :: int

record rg_error_state =
  inited :: bool
  reboot_on_exit :: bool
  reboot_on_panic :: bool
  rg_error_console_level :: rg_error_level_t
  rg_error_notify :: "rg_error_notify_t list"

definition unstarted :: rg_error_state where
  "unstarted = \<lparr> inited = False, reboot_on_exit = False, reboot_on_panic = False,
     rg_error_console_level = 0, rg_error_notify = [] \<rparr>"

section \<open>Operations\<close>

text \<open>
  \<open>rg_error_init\<close>, without the process name and the addresses kept for stack traces; a second
  call is a fatal error, which is the value \<open>None\<close>.
\<close>

definition rg_error_init :: "bool \<Rightarrow> bool \<Rightarrow> rg_error_level_t \<Rightarrow> rg_error_state \<Rightarrow> rg_error_state option" where
  "rg_error_init on_exit on_panic console_level s =
     (if inited s then None
      else Some (s\<lparr> inited := True, rg_error_console_level := console_level,
                     reboot_on_exit := on_exit, reboot_on_panic := on_panic \<rparr>))"

definition rg_error_init_nodefault :: "rg_error_state \<Rightarrow> rg_error_state option" where
  "rg_error_init_nodefault = rg_error_init False False LERR"

text \<open>The callbacks a message goes to, in order, and whether it goes to the console.\<close>

definition wants :: "rg_error_level_t \<Rightarrow> rg_error_notify_t \<Rightarrow> bool" where
  "wants level n \<longleftrightarrow> level AND LLEVEL_MASK \<le> n_level n AND LLEVEL_MASK
     \<or> level AND n_level n AND LFLAGS_MASK \<noteq> 0"

definition log_msg_deliver ::
    "rg_error_level_t \<Rightarrow> rg_error_state \<Rightarrow> (callback \<times> nat option) list \<times> bool" where
  "log_msg_deliver level s =
     (map (\<lambda>n. (n_func n, n_data n)) (filter (wants level) (rg_error_notify s)),
      level AND LCONSOLE \<noteq> 0 \<or> level AND LLEVEL_MASK \<le> rg_error_console_level s)"

text \<open>
  The loop that replaces \<open>%m\<close> by the text of the error number, in a buffer that takes 1023
  characters: \<open>memcpy\<close> and \<open>strncpy\<close> copy what fits.
\<close>

definition MAX_ERR_SIZE :: nat where
  "MAX_ERR_SIZE = 1024"

definition copy_in :: "string \<Rightarrow> string \<Rightarrow> string" where
  "copy_in buf x = buf @ take (MAX_ERR_SIZE - 1 - length buf) x"

function expand_loop :: "string \<Rightarrow> string \<Rightarrow> string \<Rightarrow> string" where
  "expand_loop err format_last buf = (case strstr format_last ''%m'' of
       None \<Rightarrow> copy_in buf format_last
     | Some i \<Rightarrow> expand_loop err (drop (i + 2) format_last) (copy_in (copy_in buf (take i format_last)) err))"
  by pat_completeness auto
termination
  by (relation "measure (\<lambda>(_, f, _). length f)") (auto dest!: strstr_Some)

declare expand_loop.simps [simp del]

definition format_after_m :: "string \<Rightarrow> string option \<Rightarrow> string \<Rightarrow> string" where
  "format_after_m err str_error format = (let buf = expand_loop err format [] in
     case str_error of
       None \<Rightarrow> buf
     | Some e \<Rightarrow> if length buf < MAX_ERR_SIZE - 1 then copy_in (copy_in buf '': '') e else buf)"

text \<open>What a severity brings about once the message is delivered.\<close>

datatype aftermath = Goes_on | Exits | Reboots

definition aftermath_of :: "rg_error_level_t \<Rightarrow> rg_error_state \<Rightarrow> aftermath" where
  "aftermath_of level s =
     (if level AND LDOEXIT \<noteq> 0 then (if reboot_on_exit s then Reboots else Exits)
      else if level AND LDOREBOOT \<noteq> 0 then (if reboot_on_panic s then Reboots else Exits)
      else Goes_on)"

record report =
  r_message :: string
  r_calls :: "(callback \<times> nat option) list"
  r_console :: bool
  r_aftermath :: aftermath

text \<open>
  \<open>_rg_vperror\<close> once the reports are initialised. \<open>None\<close> is a format that does not fit its
  arguments.
\<close>

definition report_of ::
    "string \<Rightarrow> rg_error_level_t \<Rightarrow> string option \<Rightarrow> string option \<Rightarrow> fmt_arg list \<Rightarrow> rg_error_state \<Rightarrow> report option" where
  "report_of err level str_error format ap t =
     map_option (\<lambda>msg. \<lparr> r_message = msg, r_calls = fst (log_msg_deliver level t),
         r_console = snd (log_msg_deliver level t), r_aftermath = aftermath_of level t \<rparr>)
       (case format of
          None \<Rightarrow> Some ''error in `rg_error': no message specified''
        | Some f \<Rightarrow> vsnprintf MAX_ERR_SIZE (format_after_m err str_error f) ap)"

text \<open>
  The loop of \<open>rg_error_register\<close>: behind every entry whose number is not greater. The link
  found there is overwritten by the result of \<open>malloc\<close> before it is tested, so that a failed
  one cuts the list off; it is then reported with \<open>LEXIT\<close> to those before. The first argument
  is whether \<open>malloc\<close> succeeds.
\<close>

fun insert_notify :: "rg_error_notify_t \<Rightarrow> rg_error_notify_t list \<Rightarrow> rg_error_notify_t list" where
  "insert_notify x [] = [x]"
| "insert_notify x (n # ns) = (if n_sequence n \<le> n_sequence x then n # insert_notify x ns else x # n # ns)"

definition register_inited ::
    "bool \<Rightarrow> int \<Rightarrow> rg_error_level_t \<Rightarrow> callback \<Rightarrow> nat option \<Rightarrow> rg_error_state \<Rightarrow> rg_error_state \<times> report option" where
  "register_inited mem sequence level func data s =
     (if mem
      then (s\<lparr> rg_error_notify := insert_notify
              \<lparr> n_func = func, n_data = data, n_level = level, n_sequence = sequence \<rparr> (rg_error_notify s) \<rparr>, None)
      else let t = s\<lparr> rg_error_notify := takeWhile (\<lambda>n. n_sequence n \<le> sequence) (rg_error_notify s) \<rparr> in
        (t, report_of [] LEXIT None (Some ''%s:%d: failed malloc'')
              [Str_arg (Some ''rg_error_register''), Int_arg 315] t))"

definition rg_error_init_default ::
    "bool \<Rightarrow> rg_error_level_t \<Rightarrow> rg_error_state \<Rightarrow> (rg_error_state \<times> report option) option" where
  "rg_error_init_default mem level s =
     map_option (register_inited mem 0 (level OR LCONSOLE) Default_error_cb None) (rg_error_init_nodefault s)"

text \<open>A report made here has ended the process: nothing asks for a reboot yet.\<close>

definition check_inited :: "bool \<Rightarrow> rg_error_state \<Rightarrow> rg_error_state \<times> report option" where
  "check_inited mem s = (if inited s then (s, None)
     else case rg_error_init_default mem LNOTICE s of None \<Rightarrow> (s, None) | Some x \<Rightarrow> x)"

text \<open>The two calls of \<open>malloc\<close> are for the default callback, if it is not there, and for the new one.\<close>

definition rg_error_register ::
    "bool \<Rightarrow> bool \<Rightarrow> int \<Rightarrow> rg_error_level_t \<Rightarrow> callback \<Rightarrow> nat option \<Rightarrow> rg_error_state \<Rightarrow> rg_error_state \<times> report option" where
  "rg_error_register mem0 mem sequence level func data s = (case check_inited mem0 s of
       (t, Some r) \<Rightarrow> (t, Some r)
     | (t, None) \<Rightarrow> register_inited mem sequence level func data t)"

text \<open>The loop of \<open>rg_error_unregister\<close>, with the number of entries freed.\<close>

fun unregister_loop :: "callback \<Rightarrow> nat option \<Rightarrow> rg_error_notify_t list \<Rightarrow> nat \<Rightarrow> rg_error_notify_t list \<times> nat" where
  "unregister_loop func data [] freed = ([], freed)"
| "unregister_loop func data (n # ns) freed =
     (if data = n_data n \<and> func = n_func n then unregister_loop func data ns (freed + 1)
      else case unregister_loop func data ns freed of (ms, k) \<Rightarrow> (n # ms, k))"

definition rg_error_unregister :: "callback \<Rightarrow> nat option \<Rightarrow> rg_error_state \<Rightarrow> nat \<times> rg_error_state" where
  "rg_error_unregister func data s = (case unregister_loop func data (rg_error_notify s) 0 of
     (ns, freed) \<Rightarrow> (freed, s\<lparr> rg_error_notify := ns \<rparr>))"

definition rg_vperror ::
    "bool \<Rightarrow> string \<Rightarrow> rg_error_level_t \<Rightarrow> string option \<Rightarrow> string option \<Rightarrow> fmt_arg list \<Rightarrow> rg_error_state \<Rightarrow>
     (report \<times> rg_error_state) option" where
  "rg_vperror mem0 err level str_error format ap s = (case check_inited mem0 s of
       (t, Some r) \<Rightarrow> Some (r, t)
     | (t, None) \<Rightarrow> map_option (\<lambda>r. (r, t)) (report_of err level str_error format ap t))"

definition rg_error :: "bool \<Rightarrow> string \<Rightarrow> rg_error_level_t \<Rightarrow> string option \<Rightarrow> fmt_arg list \<Rightarrow> rg_error_state \<Rightarrow>
    (report \<times> rg_error_state) option" where
  "rg_error mem0 err level format ap = rg_vperror mem0 err level None format ap"

definition rg_perror :: "bool \<Rightarrow> string \<Rightarrow> rg_error_level_t \<Rightarrow> string option \<Rightarrow> fmt_arg list \<Rightarrow> rg_error_state \<Rightarrow>
    (report \<times> rg_error_state) option" where
  "rg_perror mem0 err level format ap = rg_vperror mem0 err level (Some err) format ap"

section \<open>The text of a message\<close>

text \<open>The reference: the format with every \<open>%m\<close>, from the left, replaced.\<close>

fun expand_m :: "string \<Rightarrow> string \<Rightarrow> string" where
  "expand_m err [] = []"
| "expand_m err [c] = [c]"
| "expand_m err (c # d # cs) =
     (if c = CHR ''%'' \<and> d = CHR ''m'' then err @ expand_m err cs else c # expand_m err (d # cs))"

lemma expand_m_strstr:
  "expand_m err f = (case strstr f ''%m'' of
     None \<Rightarrow> f | Some i \<Rightarrow> take i f @ err @ expand_m err (drop (i + 2) f))"
  by (induction err f rule: expand_m.induct) (auto split: option.split)

lemma copy_in_take: "length buf \<le> 1023 \<Longrightarrow> copy_in buf x = take 1023 (buf @ x)"
  by (simp add: copy_in_def MAX_ERR_SIZE_def)

lemma copy_in_more: "copy_in (take 1023 buf) x = take 1023 (buf @ x)"
  by (simp add: copy_in_def MAX_ERR_SIZE_def) (metis diff_diff_cancel diff_is_0_eq min.absorb2 min.commute min_def nat_le_linear)

lemma expand_loop_take:
  "expand_loop err f (take 1023 buf) = take 1023 (buf @ expand_m err f)"
proof (induction f arbitrary: buf rule: length_induct)
  case (1 f)
  show ?case
  proof (cases "strstr f ''%m''")
    case None
    then show ?thesis by (simp add: expand_loop.simps [of err f] expand_m_strstr [of err f] copy_in_more)
  next
    case (Some i)
    then have "length (drop (i + 2) f) < length f" by (auto dest!: strstr_Some)
    with 1 have "expand_loop err (drop (i + 2) f) (take 1023 (buf @ take i f @ err)) =
        take 1023 ((buf @ take i f @ err) @ expand_m err (drop (i + 2) f))" by blast
    moreover have "copy_in (copy_in (take 1023 buf) (take i f)) err = take 1023 (buf @ take i f @ err)"
      by (simp only: copy_in_more append_assoc)
    ultimately show ?thesis
      by (simp only: expand_loop.simps [of err f] expand_m_strstr [of err f] Some option.case append_assoc)
  qed
qed

text \<open>
  C37: The text handed to \<open>vsnprintf\<close> is the format with every \<open>%m\<close> replaced and, for
  \<open>rg_perror\<close>, the text of the error number behind it, cut at the end of its buffer: it never
  has more than 1023 characters, whatever the format and the texts are.
\<close>

theorem format_after_m_bounded:
  "format_after_m err str_error f =
     take 1023 (expand_m err f @ (case str_error of None \<Rightarrow> [] | Some e \<Rightarrow> '': '' @ e)) \<and>
   length (format_after_m err str_error f) < MAX_ERR_SIZE"
proof -
  have loop: "expand_loop err f [] = take 1023 (expand_m err f)"
    using expand_loop_take [of err f "[]"] by simp
  have eq: "format_after_m err str_error f =
     take 1023 (expand_m err f @ (case str_error of None \<Rightarrow> [] | Some e \<Rightarrow> '': '' @ e))"
  proof (cases str_error)
    case None
    then show ?thesis by (simp add: format_after_m_def loop)
  next
    case (Some e)
    show ?thesis
    proof (cases "length (expand_m err f) < 1023")
      case True
      with Some show ?thesis
        using copy_in_more [of "expand_m err f" "'': ''"] copy_in_more [of "expand_m err f @ '': ''" e]
        by (simp add: format_after_m_def loop MAX_ERR_SIZE_def Let_def)
    next
      case False
      with Some show ?thesis by (simp add: format_after_m_def loop MAX_ERR_SIZE_def)
    qed
  qed
  have "length (take 1023 x) < MAX_ERR_SIZE" for x :: string by (simp add: MAX_ERR_SIZE_def)
  then show ?thesis unfolding eq by blast
qed

text \<open>
  A per cent sign that the caller doubled is not seen as such: before an \<open>m\<close> its second half is
  taken for \<open>%m\<close>, and the first half is left before the text of the error number.
\<close>

lemma doubled_percent_lost:
  "format_after_m ''Success'' None ''at 5%%max'' = ''at 5%Successax''"
  by code_simp

section \<open>The list of callbacks\<close>

text \<open>A registration comes with the answer of its \<open>malloc\<close>.\<close>

datatype operation =
    Register bool int rg_error_level_t callback "nat option"
  | Unregister callback "nat option"

primrec perform :: "operation \<Rightarrow> rg_error_state \<Rightarrow> rg_error_state" where
  "perform (Register mem sequence level func data) s = fst (rg_error_register True mem sequence level func data s)"
| "perform (Unregister func data) s = snd (rg_error_unregister func data s)"

text \<open>
  The specification: the registrations in force, in the order they were made. One that finds
  no memory withdraws those with a greater number.
\<close>

primrec in_force :: "operation \<Rightarrow> rg_error_notify_t list \<Rightarrow> rg_error_notify_t list" where
  "in_force (Register mem sequence level func data) ns =
     (if mem then ns @ [\<lparr> n_func = func, n_data = data, n_level = level, n_sequence = sequence \<rparr>]
      else filter (\<lambda>n. n_sequence n \<le> sequence) ns)"
| "in_force (Unregister func data) ns = filter (\<lambda>n. \<not> (n_data n = data \<and> n_func n = func)) ns"

lemma insert_notify_mset: "mset (insert_notify x ns) = add_mset x (mset ns)"
  by (induction ns) auto

lemma insert_notify_set: "set (insert_notify x ns) = insert x (set ns)"
  by (induction ns) auto

lemma insert_notify_sorted: "sorted (map n_sequence ns) \<Longrightarrow> sorted (map n_sequence (insert_notify x ns))"
  by (induction ns) (auto simp: insert_notify_set)

lemma insert_notify_filter:
  "sorted (map n_sequence ns) \<Longrightarrow>
   filter (\<lambda>n. n_sequence n = k) (insert_notify x ns) = filter (\<lambda>n. n_sequence n = k) (ns @ [x])"
proof (induction ns)
  case (Cons n ns)
  show ?case
  proof (cases "n_sequence n \<le> n_sequence x")
    case True
    with Cons show ?thesis by simp
  next
    case False
    with Cons.prems have "\<forall>m\<in>set (n # ns). n_sequence x < n_sequence m" by fastforce
    then have "filter (\<lambda>m. n_sequence m = n_sequence x) (n # ns) = []" by (auto simp: filter_empty_conv)
    with False show ?thesis by (cases "n_sequence x = k") auto
  qed
qed simp

lemma insert_notify_sort: "insert_notify x (sort_key n_sequence xs) = sort_key n_sequence (xs @ [x])"
proof (rule sym, rule properties_for_sort_key)
  show "mset (insert_notify x (sort_key n_sequence xs)) = mset (xs @ [x])"
    by (simp add: insert_notify_mset)
  show "filter (\<lambda>y. n_sequence k = n_sequence y) (insert_notify x (sort_key n_sequence xs)) =
      filter (\<lambda>y. n_sequence k = n_sequence y) (xs @ [x])" for k
    using insert_notify_filter [of "sort_key n_sequence xs" "n_sequence k" x] sort_key_stable [where k = "n_sequence k" and f = n_sequence and xs = xs]
    by (simp add: eq_commute)
  show "sorted (map n_sequence (insert_notify x (sort_key n_sequence xs)))"
    by (simp add: insert_notify_sorted)
qed

lemma unregister_loop_filter:
  "unregister_loop func data ns freed =
     (filter (\<lambda>n. \<not> (n_data n = data \<and> n_func n = func)) ns,
      freed + length (filter (\<lambda>n. n_data n = data \<and> n_func n = func) ns))"
  by (induction ns arbitrary: freed) auto

lemma failed_malloc_text:
  "vsnprintf MAX_ERR_SIZE (format_after_m [] None ''%s:%d: failed malloc'')
     [Str_arg (Some ''rg_error_register''), Int_arg 315] = Some ''rg_error_register:315: failed malloc''"
  by code_simp

lemma register_failed:
  assumes "register_inited False sequence level func data s = (t, r)"
  shows "t = s\<lparr> rg_error_notify := takeWhile (\<lambda>n. n_sequence n \<le> sequence) (rg_error_notify s) \<rparr>"
    "r = Some \<lparr> r_message = ''rg_error_register:315: failed malloc'', r_calls = fst (log_msg_deliver LEXIT t),
       r_console = snd (log_msg_deliver LEXIT t), r_aftermath = (if reboot_on_exit s then Reboots else Exits) \<rparr>"
proof -
  have "LEXIT AND LDOEXIT \<noteq> 0" by (simp add: level_defs)
  with assms show "t = s\<lparr> rg_error_notify := takeWhile (\<lambda>n. n_sequence n \<le> sequence) (rg_error_notify s) \<rparr>"
    "r = Some \<lparr> r_message = ''rg_error_register:315: failed malloc'', r_calls = fst (log_msg_deliver LEXIT t),
       r_console = snd (log_msg_deliver LEXIT t), r_aftermath = (if reboot_on_exit s then Reboots else Exits) \<rparr>"
    by (auto simp: register_inited_def Let_def report_of_def failed_malloc_text aftermath_of_def)
qed

lemma takeWhile_sorted:
  "sorted (map f xs) \<Longrightarrow> takeWhile (\<lambda>x. f x \<le> k) xs = filter (\<lambda>x. f x \<le> (k :: int)) xs"
proof (induction xs)
  case (Cons x xs)
  from Cons.prems have "\<forall>y\<in>set xs. f x \<le> f y" by simp
  then have "\<not> f x \<le> k \<Longrightarrow> \<forall>y\<in>set xs. \<not> f y \<le> k" by (meson order_trans)
  then show ?case using Cons by (cases "f x \<le> k") (simp_all add: filter_empty_conv)
qed simp

lemma check_inited_inited [simp]: "inited s \<Longrightarrow> check_inited mem s = (s, None)"
  by (simp add: check_inited_def)

lemma perform_in_force:
  assumes "inited s" "rg_error_notify s = sort_key n_sequence ns"
  shows "inited (perform op s) \<and> rg_error_notify (perform op s) = sort_key n_sequence (in_force op ns)"
proof (cases op)
  case (Register mem sequence level func data)
  with assms show ?thesis
    by (simp add: rg_error_register_def register_inited_def insert_notify_sort Let_def takeWhile_sorted filter_sort)
next
  case (Unregister func data)
  with assms show ?thesis
    by (simp add: rg_error_unregister_def unregister_loop_filter filter_sort)
qed

lemma performs_in_force:
  "inited s \<Longrightarrow> rg_error_notify s = sort_key n_sequence ns \<Longrightarrow>
   inited (fold perform ops s) \<and> rg_error_notify (fold perform ops s) = sort_key n_sequence (fold in_force ops ns)"
  by (induction ops arbitrary: s ns) (auto dest: perform_in_force)

text \<open>The state after the first use, when the default callback found its memory.\<close>

lemma check_inited_unstarted: "check_inited True unstarted =
    (\<lparr> inited = True, reboot_on_exit = False, reboot_on_panic = False, rg_error_console_level = LERR,
       rg_error_notify = [\<lparr> n_func = Default_error_cb, n_data = None, n_level = LNOTICE OR LCONSOLE, n_sequence = 0 \<rparr>] \<rparr>, None)"
  by (simp add: check_inited_def unstarted_def rg_error_init_default_def rg_error_init_nodefault_def
      rg_error_init_def register_inited_def)

text \<open>
  C36: The list of callbacks implements its specification. After any sequence of
  registrations and withdrawals it is the stable sort, by sequence number, of the
  registrations in force, the default callback first among its equals. A registration whose
  \<open>malloc\<close> fails is not made and takes those with a greater sequence number with it; it is
  reported with \<open>LEXIT\<close> to the callbacks left, and ends the process or reboots.
\<close>

theorem notify_list_refines_registrations:
  "rg_error_notify (fold perform ops (fst (check_inited True unstarted))) = sort_key n_sequence (fold in_force ops
     [\<lparr> n_func = Default_error_cb, n_data = None, n_level = LNOTICE OR LCONSOLE, n_sequence = 0 \<rparr>]) \<and>
   (let s = fold perform ops (fst (check_inited True unstarted)) in
    case rg_error_register True False sequence level func data s of (t, r) \<Rightarrow>
      rg_error_notify t = filter (\<lambda>n. n_sequence n \<le> sequence) (rg_error_notify s) \<and>
      r = Some \<lparr> r_message = ''rg_error_register:315: failed malloc'', r_calls = fst (log_msg_deliver LEXIT t),
            r_console = snd (log_msg_deliver LEXIT t), r_aftermath = (if reboot_on_exit s then Reboots else Exits) \<rparr>)"
proof -
  let ?s = "fold perform ops (fst (check_inited True unstarted))"
  have s: "inited ?s \<and> rg_error_notify ?s = sort_key n_sequence (fold in_force ops
     [\<lparr> n_func = Default_error_cb, n_data = None, n_level = LNOTICE OR LCONSOLE, n_sequence = 0 \<rparr>])"
    by (rule performs_in_force) (simp_all add: check_inited_unstarted)
  then have "sorted (map n_sequence (rg_error_notify ?s))" by simp
  note tw = takeWhile_sorted [OF this, of sequence]
  obtain t r where r: "register_inited False sequence level func data ?s = (t, r)"
    by (cases "register_inited False sequence level func data ?s")
  from register_failed [OF r] have "rg_error_notify t = filter (\<lambda>n. n_sequence n \<le> sequence) (rg_error_notify ?s)"
    using tw by simp
  with s r register_failed(2) [OF r] show ?thesis by (simp add: Let_def rg_error_register_def)
qed

section \<open>Delivery\<close>

text \<open>
  A withdrawn callback is silent and the others do not notice: after
  \<open>rg_error_unregister\<close>, which returns the number of entries it removed, a message of any
  severity goes to exactly those it went to before, without the one withdrawn, in the same
  order.
\<close>

theorem unregister_silences:
  "case rg_error_unregister func data s of
     (freed, t) \<Rightarrow>
       freed = length (filter (\<lambda>n. (n_func n, n_data n) = (func, data)) (rg_error_notify s)) \<and>
       fst (log_msg_deliver level t) = filter (\<lambda>c. c \<noteq> (func, data)) (fst (log_msg_deliver level s))"
  by (simp add: rg_error_unregister_def unregister_loop_filter log_msg_deliver_def filter_map comp_def conj_commute)

text \<open>
  No severity the header names sets the flag the second branch tests: a panic exits or
  reboots as the first flag of \<open>rg_error_init\<close> says, not the second.
\<close>

lemma panic_ignores_reboot_on_panic:
  "list_all (\<lambda>level. level AND LDOREBOOT = 0)
     [LEMERG, LALERT, LCRIT, LERR, LWARNING, LNOTICE, LINFO, LDEBUG, LEXIT, LPANIC]"
  "aftermath_of LPANIC s = (if reboot_on_exit s then Reboots else Exits)"
  by (simp_all add: level_defs aftermath_of_def)

section \<open>The error reports of \<open>openrg_gpl.c\<close>\<close>

text \<open>
  The priority given to \<open>syslog\<close> and whether the board is rebooted; \<open>None\<close> is an index beyond
  the array.
\<close>

definition gpl_priorities :: "int list" where
  "gpl_priorities = [0, 7, 6, 4, 3, 2, 0]"

definition LOG_DAEMON :: int where
  "LOG_DAEMON = 24"

definition gpl_rg_error :: "rg_error_level_t \<Rightarrow> (int \<times> bool) option" where
  "gpl_rg_error severity = (let severity_level = severity AND LLEVEL_MASK in
     if unat severity_level < length gpl_priorities
     then Some (LOG_DAEMON OR gpl_priorities ! unat severity_level,
                severity_level = LEXIT \<or> severity_level = LPANIC)
     else None)"

lemma masked_level_small: "unat (level AND LLEVEL_MASK) < 16"
proof -
  have "level AND LLEVEL_MASK \<le> 15" by (simp add: LLEVEL_MASK_def word_and_le1)
  then show ?thesis by (simp add: word_le_nat_alt)
qed

lemma gpl_length: "length gpl_priorities = 7"
  by (simp add: gpl_priorities_def)

text \<open>
  The error reports of \<open>openrg_gpl.c\<close> never reboot: the severity is masked before it is
  compared with severities that carry a flag. A severity of \<open>LDEBUG\<close> or more reads beyond the
  array of priorities; up to \<open>LINFO\<close> one of them is used.
\<close>

theorem gpl_rg_error_never_reboots:
  "gpl_rg_error severity = (if severity AND LLEVEL_MASK < LDEBUG
     then Some (LOG_DAEMON OR gpl_priorities ! unat (severity AND LLEVEL_MASK), False) else None)"
proof -
  have "unat (severity AND LLEVEL_MASK) < length gpl_priorities \<longleftrightarrow> severity AND LLEVEL_MASK < LDEBUG"
    by (simp add: gpl_length word_less_nat_alt LDEBUG_def)
  moreover have "severity AND LLEVEL_MASK \<noteq> LEXIT" "severity AND LLEVEL_MASK \<noteq> LPANIC"
    using masked_level_small [of severity] by (auto simp: LEXIT_def LPANIC_def level_defs)
  ultimately show ?thesis by (simp add: gpl_rg_error_def Let_def)
qed

end
