(* ===== verification/Build_Tools.thy ===== *)
theory Build_Tools
  imports Str_Util "HOL-Library.Word" "HOL-Library.Monad_Syntax"
begin

text \<open>
  Small programs of \<open>pkg/build\<close> the generated make files call: \<open>rg_gcc\<close>, which puts the
  include paths and the start files of the chosen C library around a compiler's arguments,
  and \<open>checksum\<close>.
\<close>

unbundle bit_operations_syntax

section \<open>The compiler wrapper\<close>

text \<open>What the build defines when it compiles \<open>rg_gcc.c\<close>.\<close>

record gcc_build =
  CONFIG_ULIBC :: bool
  CONFIG_GLIBC :: bool
  LIBC_IN_TOOLCHAIN :: bool
  CONFIG_UCLIBCXX :: bool
  RG_GCC :: string
  GCC_PREFIX :: string
  RGSRC :: string
  BUILDDIR :: string

record gcc_flags =
  debug :: bool
  linking :: bool
  use_static_linking :: bool
  use_stdinc :: bool
  use_start :: bool
  use_stdlib :: bool
  remove_includes :: bool
  shared :: bool
  explicit_libc :: bool
  use_ulibc :: bool
  source_count :: nat

definition initial_flags :: "gcc_build \<Rightarrow> gcc_flags" where
  "initial_flags b = \<lparr> debug = False, linking = True, use_static_linking = False, use_stdinc = True,
     use_start = True, use_stdlib = True, remove_includes = False, shared = False,
     explicit_libc = False, use_ulibc = CONFIG_ULIBC b, source_count = 0 \<rparr>"

definition add_libc_includes :: "gcc_build \<Rightarrow> bool \<Rightarrow> bool \<Rightarrow> string list" where
  "add_libc_includes b ulibc stdinc =
     (if CONFIG_ULIBC b \<and> ulibc then
        (if stdinc then [''-I'' @ BUILDDIR b @ ''/pkg/build/ulibc/include'', ''-I'' @ BUILDDIR b @ ''/pkg/ulibc/include'']
         else [''-I'' @ BUILDDIR b @ ''/pkg/build/ulibc/include/libc_rg''])
      else [])
     @ (if CONFIG_GLIBC b \<and> \<not> ulibc then
          (if stdinc then [''-I'' @ BUILDDIR b @ ''/pkg/build/glibc/include'']
           else [''-I'' @ BUILDDIR b @ ''/pkg/build/glibc/include/libc_rg''])
        else [])"

text \<open>The words of the compiler's name, cut by \<open>strtok\<close>: \<open>ccache\<close> may stand before it.\<close>

function words :: "string \<Rightarrow> string list" where
  "words s = (let r = dropWhile (\<lambda>c. c = CHR '' '') s in
     if r = [] then [] else takeWhile (\<lambda>c. c \<noteq> CHR '' '') r # words (dropWhile (\<lambda>c. c \<noteq> CHR '' '') r))"
  by pat_completeness auto
termination
proof (relation "measure length", simp)
  fix s r :: string
  assume r: "r = dropWhile (\<lambda>c. c = CHR '' '') s" "r \<noteq> []"
  then have "hd r \<noteq> CHR '' ''" using hd_dropWhile [of "\<lambda>c. c = CHR '' ''" s] by simp
  with r(2) have "length (dropWhile (\<lambda>c. c \<noteq> CHR '' '') r) < length r"
    by (cases r) (auto simp: less_Suc_eq_le length_dropWhile_le)
  also have "\<dots> \<le> length s" using r(1) by (simp add: length_dropWhile_le)
  finally show "(dropWhile (\<lambda>c. c \<noteq> CHR '' '') r, s) \<in> measure length" by simp
qed

declare words.simps [simp del]

definition starts :: "string \<Rightarrow> string \<Rightarrow> bool" where
  "starts a p \<longleftrightarrow> strncmp a p (length p) = 0"

text \<open>The loop over the arguments that finds out what is to be done.\<close>

definition scan_arg :: "string \<Rightarrow> gcc_flags \<Rightarrow> gcc_flags" where
  "scan_arg a f =
     (if take 1 a = ''-'' then
        if a \<in> {''-c'', ''-S'', ''-E'', ''-M'', ''-r''} \<or> starts a ''-print'' then f\<lparr> linking := False \<rparr>
        else if a = ''-nostdinc'' then f\<lparr> use_stdinc := False \<rparr>
        else if a = ''-nostartfiles'' then f\<lparr> use_start := False \<rparr>
        else if a = ''-nodefaultlibs'' then f\<lparr> use_stdlib := False \<rparr>
        else if a = ''-nostdlib'' then f\<lparr> use_start := False, use_stdlib := False \<rparr>
        else if a = ''-static'' then f\<lparr> use_static_linking := True \<rparr>
        else if a = ''-shared'' then f\<lparr> shared := True \<rparr>
        else if starts a ''-Wl,'' then
          (if strstr (drop 4 a) ''static'' = None then f\<lparr> use_static_linking := True \<rparr> else f)
        else if a = ''-I-'' then f\<lparr> remove_includes := True \<rparr>
        else if a = ''-v'' then f\<lparr> debug := True \<rparr>
        else if a = ''--rg-use-ulibc'' then f\<lparr> use_ulibc := True, explicit_libc := True \<rparr>
        else if a = ''--rg-use-glibc'' then f\<lparr> use_ulibc := False, explicit_libc := True \<rparr>
        else f
      else f\<lparr> source_count := source_count f + 1 \<rparr>)"

text \<open>
  The array the arguments are built in: entries not yet written, the null pointer, a string. A
  write outside the array is \<open>None\<close>.
\<close>

datatype slot = Unset | Null | Arg string

type_synonym gcc_array = "slot list \<times> nat"

definition gcc_array_size :: "nat \<Rightarrow> nat" where
  "gcc_array_size argc = argc + 100"

definition set_slot :: "slot \<Rightarrow> gcc_array \<Rightarrow> gcc_array option" where
  "set_slot x = (\<lambda>(gcc_argv, i). if i < length gcc_argv then Some (gcc_argv[i := x], i) else None)"

definition push :: "slot \<Rightarrow> gcc_array \<Rightarrow> gcc_array option" where
  "push x st = map_option (\<lambda>(gcc_argv, i). (gcc_argv, Suc i)) (set_slot x st)"

primrec push_all :: "slot list \<Rightarrow> gcc_array \<Rightarrow> gcc_array option" where
  "push_all [] st = Some st"
| "push_all (x # xs) st = Option.bind (push x st) (push_all xs)"

text \<open>
  The loop with \<open>strtok\<close>: the first result is stored whatever it is, the null one at the end
  without moving on.
\<close>

definition push_words :: "string list \<Rightarrow> gcc_array \<Rightarrow> gcc_array option" where
  "push_words ws st = do {
     st \<leftarrow> push_all (if ws = [] then [Null] else map Arg ws) st;
     set_slot Null st }"

text \<open>What \<open>execvp\<close> is given: the strings up to the null pointer.\<close>

fun exec_args :: "slot list \<Rightarrow> string list" where
  "exec_args (Arg a # xs) = a # exec_args xs"
| "exec_args xs = []"

text \<open>\<open>Bad_write\<close> is a write outside the array, or through the null pointer of a failed \<open>malloc\<close>.\<close>

datatype gcc_result = Exit int | Exec "string list" | Bad_write

definition needs_crt :: "gcc_build \<Rightarrow> bool" where
  "needs_crt b \<longleftrightarrow> CONFIG_GLIBC b \<or> LIBC_IN_TOOLCHAIN b \<or> CONFIG_UCLIBCXX b"

definition link_head :: "gcc_build \<Rightarrow> gcc_flags \<Rightarrow> string list" where
  "link_head b f =
     (if use_stdlib f then [''-nostdlib''] else [])
     @ (if CONFIG_ULIBC b \<and> \<not> LIBC_IN_TOOLCHAIN b then
          [''-Wl,--dynamic-linker,/lib/ld-uClibc.so.0'', ''-Wl,-rpath-link,'' @ BUILDDIR b @ ''/pkg/build/lib''] else [])
     @ (if use_start f then
          (if \<not> shared f then [BUILDDIR b @ ''/pkg/build/lib/crt1.o''] else [])
          @ (if needs_crt b then [BUILDDIR b @ ''/pkg/build/lib/crti.o'', GCC_PREFIX b @ ''/crtbegin.o''] else [])
        else [])"

definition link_tail :: "gcc_build \<Rightarrow> gcc_flags \<Rightarrow> string list" where
  "link_tail b f =
     (if use_stdlib f then [''-L'' @ BUILDDIR b @ ''/pkg/build/lib/'', ''-lgcc'', ''-lc'', ''-lgcc''] else [])
     @ (if use_start f \<and> needs_crt b then [GCC_PREFIX b @ ''/crtend.o'', BUILDDIR b @ ''/pkg/build/lib/crtn.o''] else [])"

definition std_includes :: "gcc_build \<Rightarrow> string list" where
  "std_includes b = [''-nostdinc'', ''-I'' @ GCC_PREFIX b @ ''/include/'', ''-I'' @ RGSRC b @ ''/pkg/include/'',
     ''-I'' @ BUILDDIR b @ ''/pkg/include/'']"

text \<open>
  \<open>main\<close>, on the arguments behind the program's name, up to \<open>execvp\<close>; the first argument is
  whether \<open>malloc\<close> succeeds.
\<close>

definition build_argv :: "gcc_build \<Rightarrow> gcc_flags \<Rightarrow> string list \<Rightarrow> gcc_array \<Rightarrow> gcc_array option" where
  "build_argv b f args st = (let
       link = linking f \<and> source_count f \<noteq> 0;
       libc = map Arg (add_libc_includes b (use_ulibc f) (use_stdinc f))
     in do {
       st \<leftarrow> push_all (if link then map Arg (link_head b f) else []) st;
       st \<leftarrow> push_all (if explicit_libc f then libc else []) st;
       st \<leftarrow> push_all (map Arg (filter (\<lambda>a. \<not> starts a ''--rg-'') args)) st;
       st \<leftarrow> push_all (if link then map Arg (link_tail b f) else []) st;
       st \<leftarrow> push_all (if use_stdinc f then map Arg (std_includes b) else []) st;
       st \<leftarrow> push_all (if \<not> explicit_libc f then libc else []) st;
       set_slot Null st })"

definition rg_gcc :: "bool \<Rightarrow> gcc_build \<Rightarrow> string list \<Rightarrow> gcc_result" where
  "rg_gcc mem b args =
     (if args = [] then Exit 0
      else if \<not> mem then Bad_write
      else (case push_words (words (RG_GCC b)) (replicate (gcc_array_size (Suc (length args))) Unset, 0) of
          None \<Rightarrow> Bad_write
        | Some st \<Rightarrow>
            let f = fold scan_arg args (initial_flags b) in
            if remove_includes f then Exit (-1)
            else if linking f \<and> explicit_libc f then Exit (-1)
            else (case build_argv b f args st of
                None \<Rightarrow> Bad_write
              | Some (gcc_argv, _) \<Rightarrow> Exec (exec_args gcc_argv))))"

section \<open>Writing the array\<close>

text \<open>An array filled with the given entries up to the place of the next one.\<close>

definition filled :: "slot list \<Rightarrow> nat \<Rightarrow> gcc_array \<Rightarrow> bool" where
  "filled xs n = (\<lambda>(g, i). length g = n \<and> i = length xs \<and> length xs \<le> n \<and> take (length xs) g = xs)"

lemma push_filled:
  "filled xs n st \<Longrightarrow> length xs < n \<Longrightarrow> \<exists>st'. push x st = Some st' \<and> filled (xs @ [x]) n st'"
  by (auto simp: push_def set_slot_def filled_def take_Suc_conv_app_nth split: prod.splits)

lemma push_full: "filled xs n st \<Longrightarrow> \<not> length xs < n \<Longrightarrow> push x st = None"
  by (auto simp: push_def set_slot_def filled_def split: prod.splits)

lemma push_all_filled:
  assumes "filled xs n st"
  shows "(if length (xs @ ys) \<le> n then \<exists>st'. push_all ys st = Some st' \<and> filled (xs @ ys) n st'
          else push_all ys st = None)"
  using assms
proof (induction ys arbitrary: xs st)
  case Nil
  then show ?case by (auto simp: filled_def)
next
  case (Cons y ys)
  show ?case
  proof (cases "length xs < n")
    case True
    from push_filled [OF Cons.prems True] obtain st' where "push y st = Some st'" "filled (xs @ [y]) n st'" by blast
    with Cons.IH [of "xs @ [y]" st'] show ?thesis by (simp split: if_splits)
  next
    case False
    with push_full [OF Cons.prems] show ?thesis by simp
  qed
qed

lemma push_all_append: "push_all (xs @ ys) st = Option.bind (push_all xs st) (push_all ys)"
proof (induction xs arbitrary: st)
  case (Cons x xs)
  then show ?case by (cases "push x st") simp_all
qed simp

lemma set_Null_filled:
  assumes "filled xs n st"
  shows "set_slot Null st = None \<longleftrightarrow> length xs = n"
    and "set_slot Null st = Some st' \<Longrightarrow> filled xs n st' \<and> length xs < n \<and> fst st' ! length xs = Null"
proof -
  obtain g i where st: "st = (g, i)" by (cases st)
  with assms have f: "length g = n" "i = length xs" "length xs \<le> n" "take (length xs) g = xs" by (simp_all add: filled_def)
  with st show "set_slot Null st = None \<longleftrightarrow> length xs = n" by (auto simp: set_slot_def)
  assume "set_slot Null st = Some st'"
  with st f have "i < n" "st' = (g[i := Null], i)" by (simp_all add: set_slot_def split: if_splits)
  with f show "filled xs n st' \<and> length xs < n \<and> fst st' ! length xs = Null" by (simp add: filled_def)
qed

lemma exec_args_filled:
  assumes "filled (map Arg xs) n (g, i)" "g ! length xs = Null" "length xs < n"
  shows "exec_args g = xs"
proof -
  from assms have f: "length g = n" "take (length xs) g = map Arg xs" by (simp_all add: filled_def)
  have "g = take (length xs) g @ g ! length xs # drop (Suc (length xs)) g"
    using assms(3) f(1) by (intro id_take_nth_drop) simp
  then have g: "g = map Arg xs @ Null # drop (Suc (length xs)) g" by (simp only: f(2) assms(2))
  have "exec_args (map Arg xs @ Null # r) = xs" for r by (induction xs) auto
  then show ?thesis by (subst g)
qed

lemma exec_args_Null: "gcc_argv \<noteq> [] \<Longrightarrow> gcc_argv ! 0 = Null \<Longrightarrow> exec_args gcc_argv = []"
  by (cases gcc_argv) auto

section \<open>What the compiler is given\<close>

definition gcc_before :: "gcc_build \<Rightarrow> gcc_flags \<Rightarrow> string list" where
  "gcc_before b f = (if linking f \<and> source_count f \<noteq> 0 then link_head b f else [])
     @ (if explicit_libc f then add_libc_includes b (use_ulibc f) (use_stdinc f) else [])"

definition gcc_after :: "gcc_build \<Rightarrow> gcc_flags \<Rightarrow> string list" where
  "gcc_after b f = (if linking f \<and> source_count f \<noteq> 0 then link_tail b f else [])
     @ (if use_stdinc f then std_includes b else [])
     @ (if \<not> explicit_libc f then add_libc_includes b (use_ulibc f) (use_stdinc f) else [])"

lemma build_argv_eq: "build_argv b f args st = Option.bind
    (push_all (map Arg (gcc_before b f @ filter (\<lambda>a. \<not> starts a ''--rg-'') args @ gcc_after b f)) st) (set_slot Null)"
  by (simp add: build_argv_def Let_def gcc_before_def gcc_after_def push_all_append Option.bind_assoc if_distrib [of "map Arg"]
      cong: if_cong split del: if_split)

lemma gcc_added: "length (gcc_before b f) + length (gcc_after b f) \<le> 18"
proof -
  have "length (link_head b f) \<le> 6" "length (link_tail b f) \<le> 6" "length (std_includes b) = 4"
    "length (add_libc_includes b (use_ulibc f) (use_stdinc f)) \<le> 2"
    by (simp_all add: link_head_def link_tail_def std_includes_def add_libc_includes_def)
  then show ?thesis by (auto simp: gcc_before_def gcc_after_def)
qed

text \<open>The flags that decide about going on, read off the arguments.\<close>

definition stops_linking :: "string \<Rightarrow> bool" where
  "stops_linking a \<longleftrightarrow> a \<in> {''-c'', ''-S'', ''-E'', ''-M'', ''-r''} \<or> starts a ''-print''"

lemma strcmp_longer: "length x \<le> length y \<Longrightarrow> c_string y \<Longrightarrow> strcmp x y = 0 \<longleftrightarrow> x = y"
  by (induction x y rule: strcmp.induct) (auto simp: of_char_0_iff of_char_eq_nat)

lemma starts_eq: "c_string p \<Longrightarrow> starts a p \<longleftrightarrow> take (length p) a = p"
  by (simp add: starts_def strncmp_def strcmp_longer)

lemma starts_options:
  "starts a ''-print'' \<longleftrightarrow> take 6 a = ''-print''" "starts a ''-Wl,'' \<longleftrightarrow> take 4 a = ''-Wl,''"
proof -
  have p: "c_string ''-print''" "c_string ''-Wl,''" "length ''-print'' = 6" "length ''-Wl,'' = 4" by code_simp+
  show "starts a ''-print'' \<longleftrightarrow> take 6 a = ''-print''" "starts a ''-Wl,'' \<longleftrightarrow> take 4 a = ''-Wl,''"
    using starts_eq [OF p(1), of a] starts_eq [OF p(2), of a] by (simp_all only: p)
qed

lemma print_minus: "take 6 a = ''-print'' \<Longrightarrow> take (Suc 0) a = ''-''"
  by (cases a) auto

lemma scan_arg_flags:
  "remove_includes (scan_arg a f) \<longleftrightarrow> remove_includes f \<or> a = ''-I-''"
  "explicit_libc (scan_arg a f) \<longleftrightarrow> explicit_libc f \<or> a = ''--rg-use-ulibc'' \<or> a = ''--rg-use-glibc''"
  "linking (scan_arg a f) \<longleftrightarrow> linking f \<and> \<not> stops_linking a"
  by (auto simp: scan_arg_def starts_options stops_linking_def dest: print_minus)

lemma scan_flags:
  "remove_includes (fold scan_arg args f) \<longleftrightarrow> remove_includes f \<or> ''-I-'' \<in> set args"
  "explicit_libc (fold scan_arg args f) \<longleftrightarrow> explicit_libc f \<or> ''--rg-use-ulibc'' \<in> set args \<or> ''--rg-use-glibc'' \<in> set args"
  "linking (fold scan_arg args f) \<longleftrightarrow> linking f \<and> list_all (\<lambda>a. \<not> stops_linking a) args"
  by (induction args arbitrary: f) (auto simp: scan_arg_flags)

text \<open>The arguments after which the wrapper gives up.\<close>

definition refused :: "string list \<Rightarrow> bool" where
  "refused args \<longleftrightarrow> ''-I-'' \<in> set args \<or>
     (''--rg-use-ulibc'' \<in> set args \<or> ''--rg-use-glibc'' \<in> set args) \<and> list_all (\<lambda>a. \<not> stops_linking a) args"

lemma refused_flags:
  "refused args \<longleftrightarrow> (let f = fold scan_arg args (initial_flags b) in remove_includes f \<or> linking f \<and> explicit_libc f)"
  by (auto simp: refused_def scan_flags initial_flags_def Let_def)

lemma push_words_filled:
  assumes "ws \<noteq> []" "length ws < n"
  shows "\<exists>st. push_words ws (replicate n Unset, 0) = Some st \<and> filled (map Arg ws) n st"
proof -
  have "filled [] n (replicate n Unset, 0)" by (simp add: filled_def)
  from push_all_filled [OF this, of "map Arg ws"] assms obtain st where
    st: "push_all (map Arg ws) (replicate n Unset, 0) = Some st" "filled (map Arg ws) n st" by auto
  from set_Null_filled(1) [OF st(2)] assms(2) obtain st' where "set_slot Null st = Some st'" by (cases "set_slot Null st") auto
  with set_Null_filled(2) [OF st(2)] st(1) assms(1) show ?thesis by (auto simp: push_words_def)
qed

text \<open>
  C40: The wrapper builds the compiler's arguments within its array of \<open>argc + 100\<close> entries,
  the null one at the end included, if the compiler is named in at most 82 words: it never
  writes outside it. What the compiler then gets is its own words and all the caller's
  arguments, in their order and without a gap, but for the internal ones, with at most 18
  added around them. The wrapper gives up without starting it exactly on no arguments, on
  \<open>-I-\<close>, and on a C library asked for when linking.
\<close>

theorem rg_gcc_arguments_fit:
  assumes "words (RG_GCC b) \<noteq> []" "length (words (RG_GCC b)) \<le> 82"
  shows "case rg_gcc True b args of
     Bad_write \<Rightarrow> False
   | Exit c \<Rightarrow> args = [] \<and> c = 0 \<or> args \<noteq> [] \<and> refused args \<and> c = -1
   | Exec argv \<Rightarrow> args \<noteq> [] \<and> \<not> refused args \<and>
       (\<exists>before after. argv = words (RG_GCC b) @ before @ filter (\<lambda>a. \<not> starts a ''--rg-'') args @ after \<and>
         length before + length after \<le> 18)"
proof (cases "args = []")
  case True
  then show ?thesis by (simp add: rg_gcc_def)
next
  case False
  define ws where "ws = words (RG_GCC b)"
  define n where "n = gcc_array_size (Suc (length args))"
  define f where "f = fold scan_arg args (initial_flags b)"
  define xs where "xs = gcc_before b f @ filter (\<lambda>a. \<not> starts a ''--rg-'') args @ gcc_after b f"
  have n: "length (ws @ xs) < n"
    using assms(2) gcc_added [of b f] length_filter_le [of "\<lambda>a. \<not> starts a ''--rg-''" args]
    unfolding n_def gcc_array_size_def ws_def xs_def length_append by linarith
  from assms(1) n push_words_filled [of ws n] obtain st where
    st: "push_words ws (replicate n Unset, 0) = Some st" "filled (map Arg ws) n st" by (auto simp: ws_def)
  from push_all_filled [OF st(2), of "map Arg xs"] n obtain st1 where
    st1: "push_all (map Arg xs) st = Some st1" "filled (map Arg (ws @ xs)) n st1" by auto
  from set_Null_filled(1) [OF st1(2)] n obtain g i where gi: "set_slot Null st1 = Some (g, i)"
    by (cases "set_slot Null st1") auto
  with set_Null_filled(2) [OF st1(2)] n have "exec_args g = ws @ xs"
    by (intro exec_args_filled [where n = n and i = i]) auto
  moreover have "build_argv b f args st = Some (g, i)"
    using st1(1) gi by (simp add: build_argv_eq xs_def)
  ultimately have "rg_gcc True b args = (if refused args then Exit (-1) else Exec (ws @ xs))"
    using False st(1) refused_flags [of args b]
    by (simp add: rg_gcc_def ws_def [symmetric] n_def [symmetric] f_def [symmetric] Let_def)
  with False gcc_added [of b f] show ?thesis by (auto simp: ws_def xs_def)
qed

definition sample_build :: gcc_build where
  "sample_build = \<lparr> CONFIG_ULIBC = True, CONFIG_GLIBC = False, LIBC_IN_TOOLCHAIN = False, CONFIG_UCLIBCXX = False,
     RG_GCC = ''ccache gcc'', GCC_PREFIX = ''/g'', RGSRC = ''/s'', BUILDDIR = ''/b'' \<rparr>"

theorem rg_gcc_arguments_fit_witness:
  "\<exists>before after. rg_gcc True sample_build [''a.c'', ''--rg-x'', ''-O''] =
       Exec ([''ccache'', ''gcc''] @ before @ [''a.c'', ''-O''] @ after) \<and> length before + length after \<le> 18"
proof -
  have w: "words (RG_GCC sample_build) = [''ccache'', ''gcc'']"
    and f: "filter (\<lambda>a. \<not> starts a ''--rg-'') [''a.c'', ''--rg-x'', ''-O''] = [''a.c'', ''-O'']"
    by code_simp+
  have "\<not> refused [''a.c'', ''--rg-x'', ''-O'']" by code_simp
  with rg_gcc_arguments_fit [of sample_build "[''a.c'', ''--rg-x'', ''-O'']", unfolded w f] show ?thesis
    by (auto split: gcc_result.splits)
qed

section \<open>The checksum of an image\<close>

definition htocl :: "bool \<Rightarrow> 32 word \<Rightarrow> 32 word" where
  "htocl big_endian x = (if big_endian then
       (push_bit 24 x AND 0xff000000) OR (push_bit 8 x AND 0x00ff0000)
       OR (drop_bit 8 x AND 0x0000ff00) OR (drop_bit 24 x AND 0x000000ff)
     else x)"

fun checksum_loop :: "string \<Rightarrow> 32 word \<Rightarrow> 32 word" where
  "checksum_loop [] val = val"
| "checksum_loop (c # cs) val = checksum_loop cs (val + of_nat (of_char c))"

text \<open>
  The value written for a file's contents, \<open>None\<close> for a wrong second argument (an empty one
  has the null character first).
\<close>

definition checksum :: "string \<Rightarrow> string \<Rightarrow> 32 word option" where
  "checksum endian contents =
     (if take 1 endian = ''b'' then Some (htocl True (checksum_loop contents 0))
      else if take 1 endian = ''l'' then Some (htocl False (checksum_loop contents 0))
      else None)"

lemma checksum_loop_sum: "checksum_loop cs val = val + of_nat (sum_list (map of_char cs))"
  by (induction cs arbitrary: val) (simp_all add: algebra_simps)

end
