(* ===== verification/Jftw.thy ===== *)
theory Jftw
  imports Prelude
begin

text \<open>
  \<open>jftw.c\<close>, the walk over a file tree: \<open>jftw\<close> and \<open>jnftw\<close> report every object below a
  directory to a function of the caller, with at most a given number of directory streams
  open at a time. The file system is a parameter and does not change during a walk; memory is
  taken to be available.
\<close>

section \<open>Data\<close>

datatype errno = EACCES | ENOENT | ENOSYS | Other_errno

datatype st_kind = S_ISDIR | S_ISLNK | S_OTHER

record stat =
  st_mode :: st_kind
  st_dev :: nat

text \<open>
  The system calls. \<open>'d\<close> stands for a directory as the system knows it: a working directory,
  or what a directory stream refers to. A stream is that and the names still to be read.
\<close>

record 'd file_system =
  fs_lstat :: "'d \<Rightarrow> string \<Rightarrow> errno + stat"
  fs_stat :: "'d \<Rightarrow> string \<Rightarrow> errno + stat"
  fs_opendir :: "'d \<Rightarrow> string \<Rightarrow> errno + 'd \<times> string list"
  fs_chdir :: "'d \<Rightarrow> string \<Rightarrow> errno + 'd"
  fs_fchdir :: "'d \<Rightarrow> errno option"
  fs_getcwd :: "'d \<Rightarrow> string option"

datatype ftw_flag = FTW_F | FTW_D | FTW_DNR | FTW_NS | FTW_SL | FTW_DP | FTW_SLN

record ftw_flags =
  FTW_PHYS :: bool
  FTW_MOUNT :: bool
  FTW_CHDIR :: bool
  FTW_DEPTH :: bool

text \<open>
  What the caller's function gets: the path, the attributes (none where no call of \<open>stat\<close>
  succeeded), the flag, and where the name begins and how deep it lies. Its answer may depend
  on all it was told before. The streams opened and closed in between are recorded too.
\<close>

record ftw_call =
  c_path :: string
  c_stat :: "stat option"
  c_flag :: ftw_flag
  c_base :: nat
  c_level :: nat

datatype walk_event = Opened | Closed | Called ftw_call

fun calls :: "walk_event list \<Rightarrow> ftw_call list" where
  "calls [] = []"
| "calls (Called c # es) = c # calls es"
| "calls (e # es) = calls es"

record 'd dir_data =
  dir_stream :: "('d \<times> string list) option"
  dir_content :: "string list"

text \<open>
  \<open>struct ftw_data\<close>: first the members a walk does not change, then the others. The local
  variables \<open>dir\<close> of the active calls of \<open>ftw_dir\<close> are a stack, a pointer to one of them its
  position. \<open>dirbuf\<close> is the string up to its null character; the list in a \<open>content\<close> member
  is without the empty name that ends it.
\<close>

record 'd ftw_data =
  fs :: "'d file_system"
  flags :: ftw_flags
  cvt_arr :: "ftw_flag \<Rightarrow> ftw_flag"
  func :: "ftw_call list \<Rightarrow> ftw_call \<Rightarrow> int"
  start_dev :: nat

record 'd walk =
  dirstreams :: "nat option list"
  actdir :: nat
  dirbuf :: string
  dirbufsize :: nat
  ftw_base :: nat
  ftw_level :: nat
  dirs :: "'d dir_data list"
  cwd :: 'd
  trace :: "walk_event list"

definition nftw_arr :: "ftw_flag \<Rightarrow> ftw_flag" where
  "nftw_arr f = f"

definition ftw_arr :: "ftw_flag \<Rightarrow> ftw_flag" where
  "ftw_arr f = (case f of FTW_SL \<Rightarrow> FTW_F | FTW_DP \<Rightarrow> FTW_D | FTW_SLN \<Rightarrow> FTW_NS | _ \<Rightarrow> f)"

text \<open>
  How a step ends: with a result, or where C leaves the behaviour undefined or aborts. A walk
  is followed down to a given depth; \<open>Cut\<close> is the state in which it would go deeper.
\<close>

datatype 'd run = Ran int "'d walk" | Broken | Cut "'d walk"

section \<open>Directory streams\<close>

text \<open>The two functions that were to remember the directories seen.\<close>

definition add_object :: int where "add_object = 0"

definition find_object :: int where "find_object = 0"

text \<open>
  The stream in the slot to be used next is read to its end, its names kept, and closed. A
  slot that refers to a call that has returned, or to a closed stream, is undefined.
\<close>

definition make_room :: "'d walk \<Rightarrow> 'd walk option" where
  "make_room s = (case dirstreams s ! actdir s of
       None \<Rightarrow> Some s
     | Some i \<Rightarrow>
         if i < length (dirs s) then
           (case dir_stream (dirs s ! i) of
              None \<Rightarrow> None
            | Some (d, es) \<Rightarrow> Some (s\<lparr>
                dirs := (dirs s)[i := \<lparr> dir_stream = None, dir_content = es \<rparr>],
                dirstreams := (dirstreams s)[actdir s := None], trace := trace s @ [Closed] \<rparr>))
         else None)"

text \<open>\<open>None\<close> is undefined; else the error of \<open>opendir\<close>, if any.\<close>

definition open_dir_stream :: "'d ftw_data \<Rightarrow> 'd walk \<Rightarrow> (errno option \<times> 'd walk) option" where
  "open_dir_stream w s = (case make_room s of
       None \<Rightarrow> None
     | Some t \<Rightarrow>
         (case fs_opendir (fs w) (cwd t) (if FTW_CHDIR (flags w) then drop (ftw_base t) (dirbuf t) else dirbuf t) of
            Inl e \<Rightarrow> Some (Some e, t)
          | Inr x \<Rightarrow> Some (None, t\<lparr>
              dirs := dirs t @ [\<lparr> dir_stream = Some x, dir_content = [] \<rparr>],
              dirstreams := (dirstreams t)[actdir t := Some (length (dirs t))],
              actdir := (if Suc (actdir t) = length (dirstreams t) then 0 else Suc (actdir t)),
              trace := trace t @ [Opened] \<rparr>)))"

definition close_dir_stream :: "'d walk \<Rightarrow> 'd walk" where
  "close_dir_stream s = (let a = (if actdir s = 0 then length (dirstreams s) - 1 else actdir s - 1) in
     s\<lparr> actdir := a, dirstreams := (dirstreams s)[a := None], trace := trace s @ [Closed] \<rparr>)"

section \<open>One entry\<close>

definition call_func :: "'d ftw_data \<Rightarrow> ftw_flag \<Rightarrow> stat option \<Rightarrow> 'd walk \<Rightarrow> int \<times> 'd walk" where
  "call_func w flag st s = (let c = \<lparr> c_path = dirbuf s, c_stat = st, c_flag = flag,
       c_base = ftw_base s, c_level = ftw_level s \<rparr>
     in (func w (calls (trace s)) c, s\<lparr> trace := trace s @ [Called c] \<rparr>))"

text \<open>The flag and the attributes of a name, \<open>None\<close> for an error that ends the walk.\<close>

definition inspect :: "'d ftw_data \<Rightarrow> 'd \<Rightarrow> string \<Rightarrow> (ftw_flag \<times> stat option) option" where
  "inspect w d name =
     (case (if FTW_PHYS (flags w) then fs_lstat (fs w) d name else fs_stat (fs w) d name) of
        Inl e \<Rightarrow>
          if e \<noteq> EACCES \<and> e \<noteq> ENOENT then None
          else if FTW_PHYS (flags w) then Some (FTW_NS, None)
          else (case fs_lstat (fs w) d name of
              Inl _ \<Rightarrow> Some (FTW_NS, None)
            | Inr st \<Rightarrow> Some (if st_mode st = S_ISLNK then FTW_SLN else FTW_NS, Some st))
      | Inr st \<Rightarrow> Some (case st_mode st of S_ISDIR \<Rightarrow> FTW_D | S_ISLNK \<Rightarrow> FTW_SL | S_OTHER \<Rightarrow> FTW_F, Some st))"

text \<open>Back to the parent directory, the \<open>dir\<close> at position \<open>k\<close>.\<close>

definition chdir_back :: "'d ftw_data \<Rightarrow> nat \<Rightarrow> 'd walk \<Rightarrow> 'd run" where
  "chdir_back w k s =
     (case (case dir_stream (dirs s ! k) of
              None \<Rightarrow> None
            | Some (d, es) \<Rightarrow> if fs_fchdir (fs w) d = None then Some d else None) of
        Some d \<Rightarrow> Ran 0 (s\<lparr> cwd := d \<rparr>)
      | None \<Rightarrow>
          (case fs_chdir (fs w) (cwd s) (if ftw_base s = 1 then ''/'' else ''..'') of
             Inl _ \<Rightarrow> Ran (-1) s
           | Inr d \<Rightarrow> Ran 0 (s\<lparr> cwd := d \<rparr>)))"

text \<open>Any step that follows a step that may be undefined.\<close>

definition and_then :: "'d run \<Rightarrow> (int \<Rightarrow> 'd walk \<Rightarrow> 'd run) \<Rightarrow> 'd run" where
  "and_then x f = (case x of Ran r t \<Rightarrow> f r t | _ \<Rightarrow> x)"

definition enter_name :: "string \<Rightarrow> 'd walk \<Rightarrow> 'd walk" where
  "enter_name name s = (let new_buflen = ftw_base s + length name + 2 in
     s\<lparr> dirbuf := take (ftw_base s) (dirbuf s) @ name,
        dirbufsize := (if dirbufsize s < new_buflen then 2 * new_buflen else dirbufsize s) \<rparr>)"

definition process_entry ::
    "'d ftw_data \<Rightarrow> (stat \<Rightarrow> 'd walk \<Rightarrow> 'd run) \<Rightarrow> nat \<Rightarrow> string \<Rightarrow> 'd walk \<Rightarrow> 'd run" where
  "process_entry w ftw_dir k name s =
     (if name = ''.'' \<or> name = ''..'' then Ran 0 s
      else let t = enter_name name s in
        (case inspect w (cwd t) (if FTW_CHDIR (flags w) then name else dirbuf t) of
           None \<Rightarrow> Ran (-1) t
         | Some (flag, st) \<Rightarrow>
             if flag = FTW_NS \<or> \<not> FTW_MOUNT (flags w) \<or> map_option st_dev st = Some (start_dev w) then
               if flag = FTW_D then
                 if FTW_PHYS (flags w) \<or> find_object = 0 \<and> add_object = 0 then
                   and_then (ftw_dir (the st) t) (\<lambda>r u.
                     if r = 0 \<and> FTW_CHDIR (flags w) then chdir_back w k u else Ran r u)
                 else Ran (if find_object = 0 then add_object else 0) t
               else (case call_func w (cvt_arr w flag) st t of (r, u) \<Rightarrow> Ran r u)
             else Ran 0 t))"

section \<open>A directory\<close>

text \<open>
  The loop over the open stream of the \<open>dir\<close> at position \<open>k\<close>: it ends with the names, or when
  a call below has closed the stream. The first argument bounds its turns.
\<close>

primrec stream_loop ::
    "'d ftw_data \<Rightarrow> (stat \<Rightarrow> 'd walk \<Rightarrow> 'd run) \<Rightarrow> nat \<Rightarrow> nat \<Rightarrow> 'd walk \<Rightarrow> 'd run" where
  "stream_loop w ftw_dir 0 k s = Cut s"
| "stream_loop w ftw_dir (Suc m) k s = (case dir_stream (dirs s ! k) of
       Some (d, e # es) \<Rightarrow>
         and_then (process_entry w ftw_dir k e (s\<lparr> dirs := (dirs s)[k := (dirs s ! k)\<lparr> dir_stream := Some (d, es) \<rparr>] \<rparr>))
           (\<lambda>r t. if r \<noteq> 0 then Ran r t else stream_loop w ftw_dir m k t)
     | _ \<Rightarrow> Ran 0 s)"

text \<open>The loop over the names kept when the stream was closed.\<close>

primrec content_loop ::
    "'d ftw_data \<Rightarrow> (stat \<Rightarrow> 'd walk \<Rightarrow> 'd run) \<Rightarrow> nat \<Rightarrow> string list \<Rightarrow> 'd walk \<Rightarrow> 'd run" where
  "content_loop w ftw_dir k [] s = Ran 0 s"
| "content_loop w ftw_dir k (e # es) s =
     and_then (process_entry w ftw_dir k e s)
       (\<lambda>r t. if r \<noteq> 0 then Ran r t else content_loop w ftw_dir k es t)"

definition chdir_into :: "'d ftw_data \<Rightarrow> nat \<Rightarrow> 'd walk \<Rightarrow> int \<times> 'd walk" where
  "chdir_into w k s =
     (if FTW_CHDIR (flags w) then
        (case dir_stream (dirs s ! k) of
           None \<Rightarrow> (-1, s)
         | Some (d, es) \<Rightarrow>
             (case fs_fchdir (fs w) d of
                None \<Rightarrow> (0, s\<lparr> cwd := d \<rparr>)
              | Some e \<Rightarrow>
                  if e = ENOSYS then
                    (case fs_chdir (fs w) (cwd s) (dirbuf s) of
                       Inl _ \<Rightarrow> (-1, s)
                     | Inr d' \<Rightarrow> (0, s\<lparr> cwd := d' \<rparr>))
                  else (-1, s)))
      else (0, s))"

definition slashed :: "string \<Rightarrow> string" where
  "slashed p = (if last p = CHR ''/'' then p else p @ ''/'')"

definition descend :: "'d walk \<Rightarrow> 'd walk" where
  "descend s = s\<lparr> ftw_level := Suc (ftw_level s), dirbuf := slashed (dirbuf s),
     ftw_base := length (slashed (dirbuf s)) \<rparr>"

text \<open>Both loops, and the end of the stream if it is still open.\<close>

definition all_entries ::
    "'d ftw_data \<Rightarrow> (stat \<Rightarrow> 'd walk \<Rightarrow> 'd run) \<Rightarrow> nat \<Rightarrow> 'd walk \<Rightarrow> 'd run" where
  "all_entries w ftw_dir k s =
     and_then (stream_loop w ftw_dir (case dir_stream (dirs s ! k) of None \<Rightarrow> 1 | Some (d, es) \<Rightarrow> Suc (length es)) k s)
       (\<lambda>r t. if dir_stream (dirs t ! k) \<noteq> None then Ran r (close_dir_stream t)
              else if r = 0 then content_loop w ftw_dir k (dir_content (dirs t ! k)) t
              else Ran r t)"

text \<open>The call returns: its \<open>dir\<close> is gone, and the name in the buffer is the directory's again.\<close>

definition pop_dir :: "nat \<Rightarrow> 'd walk \<Rightarrow> 'd walk" where
  "pop_dir k s = s\<lparr> dirs := take k (dirs s) \<rparr>"

definition ascend :: "nat \<Rightarrow> 'd walk \<Rightarrow> 'd walk" where
  "ascend previous_base s = s\<lparr> dirbuf := take (ftw_base s - 1) (dirbuf s),
     ftw_level := ftw_level s - 1, ftw_base := previous_base \<rparr>"

primrec ftw_dir :: "'d ftw_data \<Rightarrow> nat \<Rightarrow> stat \<Rightarrow> 'd walk \<Rightarrow> 'd run" where
  "ftw_dir w 0 st s = Cut s"
| "ftw_dir w (Suc n) st s = (case open_dir_stream w s of
       None \<Rightarrow> Broken
     | Some (Some e, t) \<Rightarrow>
         if e = EACCES then (case call_func w FTW_DNR (Some st) t of (r, u) \<Rightarrow> Ran r u)
         else Ran (-1) t
     | Some (None, t) \<Rightarrow>
         (case (if FTW_DEPTH (flags w) then (0, t) else call_func w FTW_D (Some st) t) of (r, u) \<Rightarrow>
            if r \<noteq> 0 then Ran r (pop_dir (length (dirs s)) u)
            else (case chdir_into w (length (dirs s)) u of (r', v) \<Rightarrow>
              if r' \<noteq> 0 then Ran r' (pop_dir (length (dirs s)) (close_dir_stream v))
              else if dirbuf v = [] then Broken
              else and_then (all_entries w (ftw_dir w n) (length (dirs s)) (descend v)) (\<lambda>r x.
                let y = ascend (ftw_base s) (pop_dir (length (dirs s)) x) in
                if r = 0 \<and> FTW_DEPTH (flags w)
                then (case call_func w FTW_DP (Some st) y of (r', z) \<Rightarrow> Ran r' z)
                else Ran r y))))"

section \<open>A walk\<close>

definition PATH_MAX :: nat where "PATH_MAX = 4096"

text \<open>The path without the slashes at its end, but for its first character; where its last name begins.\<close>

definition strip_slashes :: "string \<Rightarrow> string" where
  "strip_slashes dir = take 1 dir @ rev (dropWhile (\<lambda>c. c = CHR ''/'') (rev (drop 1 dir)))"

definition basename_at :: "string \<Rightarrow> nat" where
  "basename_at buf = length (dropWhile (\<lambda>c. c \<noteq> CHR ''/'') (rev buf))"

definition start_walk :: "string \<Rightarrow> int \<Rightarrow> 'd \<Rightarrow> 'd walk" where
  "start_walk dir descriptors here = \<lparr>
     dirstreams = replicate (if descriptors < 1 then 1 else nat descriptors) None, actdir = 0,
     dirbuf = strip_slashes dir, dirbufsize = max (2 * length dir) PATH_MAX,
     ftw_base = basename_at (strip_slashes dir), ftw_level = 0, dirs = [], cwd = here, trace = [] \<rparr>"

definition chdir_start :: "'d ftw_data \<Rightarrow> 'd walk \<Rightarrow> 'd run" where
  "chdir_start w s =
     (if FTW_CHDIR (flags w) then
        if fs_getcwd (fs w) (cwd s) = None then Ran (-1) s
        else if ftw_base s > 0 then
          (case fs_chdir (fs w) (cwd s) (if ftw_base s = 1 then ''/'' else take (ftw_base s - 1) (dirbuf s)) of
             Inl _ \<Rightarrow> Ran (-1) s
           | Inr d \<Rightarrow> Ran 0 (s\<lparr> cwd := d \<rparr>))
        else Ran 0 s
      else Ran 0 s)"

definition walk_from :: "'d ftw_data \<Rightarrow> nat \<Rightarrow> 'd walk \<Rightarrow> 'd run" where
  "walk_from w fuel s = (let name = (if FTW_CHDIR (flags w) then drop (ftw_base s) (dirbuf s) else dirbuf s) in
     case (if FTW_PHYS (flags w) then fs_lstat (fs w) (cwd s) name else fs_stat (fs w) (cwd s) name) of
       Inl e \<Rightarrow>
         (case fs_lstat (fs w) (cwd s) name of
            Inr st \<Rightarrow>
              if \<not> FTW_PHYS (flags w) \<and> e = ENOENT \<and> st_mode st = S_ISLNK
              then (case call_func w (cvt_arr w FTW_SLN) (Some st) s of (r, t) \<Rightarrow> Ran r t)
              else Ran (-1) s
          | Inl _ \<Rightarrow> Ran (-1) s)
     | Inr st \<Rightarrow>
         if st_mode st = S_ISDIR then
           if FTW_PHYS (flags w) \<or> add_object = 0
           then ftw_dir (w\<lparr> start_dev := st_dev st \<rparr>) fuel st s
           else Ran add_object s
         else (case call_func w (cvt_arr w (if st_mode st = S_ISLNK then FTW_SL else FTW_F)) (Some st) s of
            (r, t) \<Rightarrow> Ran r t))"

text \<open>Back to the directory the walk began in; a failure is ignored.\<close>

definition chdir_home :: "'d ftw_data \<Rightarrow> 'd \<Rightarrow> 'd walk \<Rightarrow> 'd walk" where
  "chdir_home w here s =
     (case (if FTW_CHDIR (flags w) then fs_getcwd (fs w) here else None) of
        None \<Rightarrow> s
      | Some p \<Rightarrow> (case fs_chdir (fs w) (cwd s) p of Inl _ \<Rightarrow> s | Inr d \<Rightarrow> s\<lparr> cwd := d \<rparr>))"

definition ftw_startup ::
    "'d file_system \<Rightarrow> nat \<Rightarrow> string \<Rightarrow> bool \<Rightarrow> (ftw_call list \<Rightarrow> ftw_call \<Rightarrow> int) \<Rightarrow> int \<Rightarrow> ftw_flags \<Rightarrow> 'd \<Rightarrow> 'd run" where
  "ftw_startup f fuel dir is_nftw fn descriptors fl here = (let
       s = start_walk dir descriptors here;
       w = \<lparr> fs = f, flags = fl, cvt_arr = (if is_nftw then nftw_arr else ftw_arr), func = fn, start_dev = 0 \<rparr>
     in if dir = [] then Ran (-1) s
     else and_then (chdir_start w s) (\<lambda>r t.
       and_then (if r = 0 then walk_from w fuel t else Ran r t) (\<lambda>r u.
         (Ran r (chdir_home w here u)))))"

definition no_flags :: ftw_flags where
  "no_flags = \<lparr> FTW_PHYS = False, FTW_MOUNT = False, FTW_CHDIR = False, FTW_DEPTH = False \<rparr>"

definition jftw ::
    "'d file_system \<Rightarrow> nat \<Rightarrow> string \<Rightarrow> (ftw_call list \<Rightarrow> ftw_call \<Rightarrow> int) \<Rightarrow> int \<Rightarrow> 'd \<Rightarrow> 'd run" where
  "jftw f fuel path fn descriptors here = ftw_startup f fuel path False fn descriptors no_flags here"

text \<open>Without \<open>FTW_PHYS\<close> the program exits with 1.\<close>

definition jnftw ::
    "'d file_system \<Rightarrow> nat \<Rightarrow> string \<Rightarrow> (ftw_call list \<Rightarrow> ftw_call \<Rightarrow> int) \<Rightarrow> int \<Rightarrow> ftw_flags \<Rightarrow> 'd \<Rightarrow> int + 'd run" where
  "jnftw f fuel path fn descriptors fl here =
     (if \<not> FTW_PHYS fl then Inl 1 else Inr (ftw_startup f fuel path True fn descriptors fl here))"

end
