(* ===== verification/Jftw_Walk.thy ===== *)
theory Jftw_Walk
  imports Jftw
begin

text \<open>
  What a walk reports. The specification is a plain recursion over the file system that opens
  every directory when it comes to it and reads it at once; the program, which may close the
  streams of outer directories to open those of inner ones, reports the same, and never has
  more streams open than it was allowed.
\<close>

section \<open>Specification\<close>

definition ref_call :: "'d ftw_data \<Rightarrow> ftw_flag \<Rightarrow> stat option \<Rightarrow> string \<Rightarrow> nat \<Rightarrow> nat \<Rightarrow> ftw_call list \<Rightarrow>
    int \<times> ftw_call list" where
  "ref_call w flag st path b l cs = (let c = \<lparr> c_path = path, c_stat = st, c_flag = flag, c_base = b, c_level = l \<rparr>
     in (func w cs c, cs @ [c]))"

type_synonym 'd ref_walk = "'d \<Rightarrow> string \<Rightarrow> nat \<Rightarrow> nat \<Rightarrow> stat \<Rightarrow> ftw_call list \<Rightarrow> (int \<times> ftw_call list) option"

definition ref_entry :: "'d ftw_data \<Rightarrow> 'd ref_walk \<Rightarrow> 'd \<Rightarrow> string \<Rightarrow> nat \<Rightarrow> string \<Rightarrow> ftw_call list \<Rightarrow>
    (int \<times> ftw_call list) option" where
  "ref_entry w ref d prefix l name cs =
     (if name = ''.'' \<or> name = ''..'' then Some (0, cs)
      else case inspect w d (prefix @ name) of
          None \<Rightarrow> Some (-1, cs)
        | Some (flag, st) \<Rightarrow>
            if flag = FTW_NS \<or> \<not> FTW_MOUNT (flags w) \<or> map_option st_dev st = Some (start_dev w) then
              if flag = FTW_D then ref d (prefix @ name) (length prefix) l (the st) cs
              else Some (ref_call w (cvt_arr w flag) st (prefix @ name) (length prefix) l cs)
            else Some (0, cs))"

primrec ref_entries :: "'d ftw_data \<Rightarrow> 'd ref_walk \<Rightarrow> 'd \<Rightarrow> string \<Rightarrow> nat \<Rightarrow> string list \<Rightarrow> ftw_call list \<Rightarrow>
    (int \<times> ftw_call list) option" where
  "ref_entries w ref d prefix l [] cs = Some (0, cs)"
| "ref_entries w ref d prefix l (e # es) cs = (case ref_entry w ref d prefix l e cs of
       None \<Rightarrow> None
     | Some (r, cs') \<Rightarrow> if r \<noteq> 0 then Some (r, cs') else ref_entries w ref d prefix l es cs')"

primrec ref_dir :: "'d ftw_data \<Rightarrow> nat \<Rightarrow> 'd ref_walk" where
  "ref_dir w 0 d path b l st cs = None"
| "ref_dir w (Suc n) d path b l st cs = (case fs_opendir (fs w) d path of
       Inl e \<Rightarrow> Some (if e = EACCES then ref_call w FTW_DNR (Some st) path b l cs else (-1, cs))
     | Inr (d', es) \<Rightarrow>
         (case (if FTW_DEPTH (flags w) then (0, cs) else ref_call w FTW_D (Some st) path b l cs) of (r, cs1) \<Rightarrow>
            if r \<noteq> 0 then Some (r, cs1)
            else (case ref_entries w (ref_dir w n) d (slashed path) (Suc l) es cs1 of
                None \<Rightarrow> None
              | Some (r, cs2) \<Rightarrow> Some (if r = 0 \<and> FTW_DEPTH (flags w)
                  then ref_call w FTW_DP (Some st) path b l cs2 else (r, cs2)))))"

section \<open>The streams in use\<close>

fun in_use :: "walk_event list \<Rightarrow> int" where
  "in_use [] = 0"
| "in_use (Opened # es) = in_use es + 1"
| "in_use (Closed # es) = in_use es - 1"
| "in_use (Called c # es) = in_use es"

definition bounded :: "nat \<Rightarrow> walk_event list \<Rightarrow> bool" where
  "bounded m tr \<longleftrightarrow> (\<forall>j. in_use (take j tr) \<le> int m)"

lemma in_use_append [simp]: "in_use (xs @ ys) = in_use xs + in_use ys"
  by (induction xs rule: in_use.induct) simp_all

lemma calls_append [simp]: "calls (xs @ ys) = calls xs @ calls ys"
  by (induction xs rule: calls.induct) simp_all

lemma bounded_snoc [simp]: "bounded m (tr @ [e]) \<longleftrightarrow> bounded m tr \<and> in_use (tr @ [e]) \<le> int m"
proof
  assume b: "bounded m (tr @ [e])"
  have "in_use (take j tr) \<le> int m" for j
    using b [unfolded bounded_def, rule_format, of "min j (length tr)"] by (simp add: min_def split: if_splits)
  then show "bounded m tr \<and> in_use (tr @ [e]) \<le> int m"
    using b [unfolded bounded_def, rule_format, of "Suc (length tr)"] by (simp add: bounded_def)
next
  assume b: "bounded m tr \<and> in_use (tr @ [e]) \<le> int m"
  have "in_use (take j (tr @ [e])) \<le> int m" for j
    using b by (cases "j \<le> length tr") (auto simp: bounded_def)
  then show "bounded m (tr @ [e])" by (simp add: bounded_def)
qed

lemma bounded_in_use: "bounded m tr \<Longrightarrow> in_use tr \<le> int m"
  unfolding bounded_def by (metis take_all_iff order_refl)

text \<open>
  The ring of slots: counted from the one used last, the first \<open>k\<close> refer to the \<open>k\<close> innermost
  of \<open>n\<close> directories, the others are empty.
\<close>

definition age :: "nat \<Rightarrow> nat \<Rightarrow> nat \<Rightarrow> nat" where
  "age m act j = (if j < act then act - 1 - j else act + m - 1 - j)"

definition ring :: "nat \<Rightarrow> nat \<Rightarrow> nat \<Rightarrow> nat \<Rightarrow> nat option list" where
  "ring m act n k = map (\<lambda>j. if age m act j < k then Some (n - 1 - age m act j) else None) [0..<m]"

lemma length_ring [simp]: "length (ring m act n k) = m"
  by (simp add: ring_def)

lemma ring_nth: "j < m \<Longrightarrow> ring m act n k ! j = (if age m act j < k then Some (n - 1 - age m act j) else None)"
  by (simp add: ring_def)

lemma ring_act: "act < m \<Longrightarrow> k \<le> m \<Longrightarrow> ring m act n k ! act = (if k = m then Some (n - m) else None)"
  by (auto simp: ring_nth age_def)

lemma age_step: "act < m \<Longrightarrow> j < m \<Longrightarrow> j \<noteq> act \<Longrightarrow> age m (if Suc act = m then 0 else Suc act) j = Suc (age m act j)"
  by (cases "Suc act = m"; cases "j < act") (simp_all add: age_def)

lemma age_new: "act < m \<Longrightarrow> age m (if Suc act = m then 0 else Suc act) act = 0"
  by (cases "Suc act = m") (simp_all add: age_def)

lemma age_old: "act < m \<Longrightarrow> j < m \<Longrightarrow> age m act j < m - 1 \<longleftrightarrow> j \<noteq> act"
  by (cases "j < act") (auto simp: age_def)

lemma ring_evict:
  assumes "act < m"
  shows "(ring m act n m)[act := None] = ring m act n (m - 1)"
proof (rule nth_equalityI, simp)
  fix i assume "i < length ((ring m act n m)[act := None])"
  then have i: "i < m" by simp
  then have "age m act i < m" using age_old [OF assms i] assms by (cases "i = act") (auto simp: age_def)
  with i assms age_old [OF assms i] show "(ring m act n m)[act := None] ! i = ring m act n (m - 1) ! i"
    by (cases "i = act") (simp_all add: ring_nth)
qed

lemma ring_push:
  assumes "act < m" "k < m"
  shows "(ring m act n k)[act := Some n] = ring m (if Suc act = m then 0 else Suc act) (Suc n) (Suc k)"
proof (rule nth_equalityI, simp)
  fix i assume "i < length ((ring m act n k)[act := Some n])"
  then have i: "i < m" by simp
  show "(ring m act n k)[act := Some n] ! i = ring m (if Suc act = m then 0 else Suc act) (Suc n) (Suc k) ! i"
    using i assms age_step [OF assms(1) i] age_new [OF assms(1)]
    by (cases "i = act") (simp_all add: ring_nth)
qed

text \<open>A slot back undoes a slot forward.\<close>

lemma ring_pop:
  assumes a: "a < m" "(if Suc a = m then 0 else Suc a) = act" and k: "0 < k" "k \<le> m"
  shows "(ring m act n k)[a := None] = ring m a (n - 1) (k - 1)"
proof (rule nth_equalityI, simp)
  fix i assume "i < length ((ring m act n k)[a := None])"
  then have i: "i < m" by simp
  show "(ring m act n k)[a := None] ! i = ring m a (n - 1) (k - 1) ! i"
  proof (cases "i = a")
    case True
    moreover have "age m a a = m - 1" by (simp add: age_def)
    ultimately show ?thesis using i k by (simp add: ring_nth not_less diff_le_mono)
  next
    case False
    then have age: "age m act i = Suc (age m a i)" using age_step [OF a(1) i] a(2) by simp
    then have "age m act i < k \<longleftrightarrow> age m a i < k - 1" using k by auto
    with False i age show ?thesis by (simp add: ring_nth)
  qed
qed

lemma slot_before:
  assumes "act < m"
  shows "(if act = 0 then m - 1 else act - 1) < m"
    "(if Suc (if act = 0 then m - 1 else act - 1) = m then 0 else Suc (if act = 0 then m - 1 else act - 1)) = act"
  using assms by (cases "act = 0"; simp)+

lemma ring_empty: "ring m act n 0 = replicate m None"
  by (simp add: ring_def map_replicate_const)

definition good :: "nat \<Rightarrow> 'd walk \<Rightarrow> bool" where
  "good m s \<longleftrightarrow> actdir s < m \<and> bounded m (trace s) \<and>
     (\<exists>k\<le>m. k \<le> length (dirs s) \<and> dirstreams s = ring m (actdir s) (length (dirs s)) k \<and>
        (\<forall>i<length (dirs s). dir_stream (dirs s ! i) \<noteq> None \<longleftrightarrow> length (dirs s) - k \<le> i) \<and>
        in_use (trace s) = int k)"

text \<open>What a call leaves of the calls around it: streams may have been closed, their names kept.\<close>

definition kept :: "'d dir_data \<Rightarrow> 'd dir_data \<Rightarrow> bool" where
  "kept a b \<longleftrightarrow> b = a \<or> (\<exists>d es. dir_stream a = Some (d, es) \<and> b = \<lparr> dir_stream = None, dir_content = es \<rparr>)"

lemma kept_refl [simp]: "kept a a"
  by (simp add: kept_def)

lemma kept_trans: "kept a b \<Longrightarrow> kept b c \<Longrightarrow> kept a c"
  by (auto simp: kept_def)

lemma kept_closed: "kept a b \<Longrightarrow> dir_stream a = None \<Longrightarrow> b = a"
  by (auto simp: kept_def)

definition restored :: "'d ftw_data \<Rightarrow> nat \<Rightarrow> 'd walk \<Rightarrow> 'd walk \<Rightarrow> bool" where
  "restored w k s t \<longleftrightarrow> length (dirs t) = length (dirs s) \<and> (\<forall>i<k. kept (dirs s ! i) (dirs t ! i)) \<and>
     ftw_base t = ftw_base s \<and> ftw_level t = ftw_level s \<and> ftw_base s \<le> length (dirbuf t) \<and>
     take (ftw_base s) (dirbuf t) = take (ftw_base s) (dirbuf s) \<and> (\<not> FTW_CHDIR (flags w) \<longrightarrow> cwd t = cwd s)"

lemma restored_refl: "ftw_base s \<le> length (dirbuf s) \<Longrightarrow> restored w k s s"
  by (simp add: restored_def)

lemma restored_trans: "restored w k s t \<Longrightarrow> restored w k t u \<Longrightarrow> restored w k s u"
  unfolding restored_def by (metis kept_trans)

lemma restored_le: "restored w k s t \<Longrightarrow> j \<le> k \<Longrightarrow> restored w j s t"
  by (auto simp: restored_def)

section \<open>Streams\<close>

lemma make_room_good:
  assumes "good m s"
  obtains t where "make_room s = Some t" "good m t" "dirstreams t ! actdir t = None"
    "restored w (length (dirs s)) s t \<or> length (dirbuf s) < ftw_base s" "t = s\<lparr> dirs := dirs t, dirstreams := dirstreams t, trace := trace t \<rparr>"
    "calls (trace t) = calls (trace s)"
proof -
  from assms obtain k where k: "actdir s < m" "bounded m (trace s)" "k \<le> m" "k \<le> length (dirs s)"
    "dirstreams s = ring m (actdir s) (length (dirs s)) k" "in_use (trace s) = int k"
    "\<And>i. i < length (dirs s) \<Longrightarrow> dir_stream (dirs s ! i) \<noteq> None \<longleftrightarrow> length (dirs s) - k \<le> i"
    by (auto simp: good_def)
  show thesis
  proof (cases "k = m")
    case False
    then have "dirstreams s ! actdir s = None" using k ring_act [OF k(1,3)] by simp
    then show thesis using assms by (intro that [of s]) (auto simp: make_room_def restored_def)
  next
    case True
    let ?i = "length (dirs s) - m"
    have slot: "dirstreams s ! actdir s = Some ?i" using k(5) ring_act [OF k(1,3)] True by simp
    have i: "?i < length (dirs s)" using k(1,4) True by auto
    then obtain d es where des: "dir_stream (dirs s ! ?i) = Some (d, es)" using k(7) [of ?i] True by auto
    let ?t = "s\<lparr> dirs := (dirs s)[?i := \<lparr> dir_stream = None, dir_content = es \<rparr>],
       dirstreams := (dirstreams s)[actdir s := None], trace := trace s @ [Closed] \<rparr>"
    have "make_room s = Some ?t" using slot i des by (simp add: make_room_def)
    moreover have "good m ?t"
      unfolding good_def
    proof (intro conjI exI [of _ "m - 1"])
      show "\<forall>i<length (dirs ?t). (dir_stream (dirs ?t ! i) \<noteq> None) = (length (dirs ?t) - (m - 1) \<le> i)"
        using k(1,4,7) True i by (auto simp: nth_list_update)
    qed (use k True ring_evict [OF k(1)] in \<open>auto simp: of_nat_diff\<close>)
    moreover have "dirstreams ?t ! actdir ?t = None" using k(1,5) by simp
    moreover have "restored w (length (dirs s)) s ?t \<or> length (dirbuf s) < ftw_base s"
      using des i by (auto simp: restored_def kept_def nth_list_update)
    ultimately show thesis by (intro that [of ?t]) auto
  qed
qed

lemma open_good:
  assumes g: "good m s" and b: "ftw_base s \<le> length (dirbuf s)"
  obtains e t where "open_dir_stream w s = Some (Some e, t)" "good m t" "restored w (length (dirs s)) s t"
      "dirbuf t = dirbuf s" "calls (trace t) = calls (trace s)"
      "\<not> FTW_CHDIR (flags w) \<Longrightarrow> fs_opendir (fs w) (cwd s) (dirbuf s) = Inl e"
  | d es t where "open_dir_stream w s = Some (None, t)" "good m t"
      "length (dirs t) = Suc (length (dirs s))" "\<And>i. i < length (dirs s) \<Longrightarrow> kept (dirs s ! i) (dirs t ! i)"
      "dirs t ! length (dirs s) = \<lparr> dir_stream = Some (d, es), dir_content = [] \<rparr>"
      "dirbuf t = dirbuf s" "ftw_base t = ftw_base s" "ftw_level t = ftw_level s" "cwd t = cwd s"
      "calls (trace t) = calls (trace s)"
      "\<exists>p. fs_opendir (fs w) (cwd s) p = Inr (d, es)"
      "\<not> FTW_CHDIR (flags w) \<Longrightarrow> fs_opendir (fs w) (cwd s) (dirbuf s) = Inr (d, es)"
proof -
  from make_room_good [OF g, of w] b obtain t where t: "make_room s = Some t" "good m t"
    "dirstreams t ! actdir t = None" "restored w (length (dirs s)) s t"
    "t = s\<lparr> dirs := dirs t, dirstreams := dirstreams t, trace := trace t \<rparr>" "calls (trace t) = calls (trace s)"
    by (metis not_less)
  from t(5) have same: "dirbuf t = dirbuf s" "ftw_base t = ftw_base s" "ftw_level t = ftw_level s" "cwd t = cwd s"
      "actdir t = actdir s"
    by (metis walk.select_convs walk.surjective walk.update_convs)+
  let ?p = "if FTW_CHDIR (flags w) then drop (ftw_base t) (dirbuf t) else dirbuf t"
  show thesis
  proof (cases "fs_opendir (fs w) (cwd t) ?p")
    case (Inl e)
    with t(1) have "open_dir_stream w s = Some (Some e, t)" by (simp add: open_dir_stream_def)
    from that(1) [OF this t(2,4) same(1) t(6)] Inl same show thesis by (auto split: if_splits)
  next
    case (Inr x)
    obtain d es where x: "x = (d, es)" by (cases x)
    define u where "u = t\<lparr>
              dirs := dirs t @ [\<lparr> dir_stream = Some x, dir_content = [] \<rparr>],
              dirstreams := (dirstreams t)[actdir t := Some (length (dirs t))],
              actdir := (if Suc (actdir t) = length (dirstreams t) then 0 else Suc (actdir t)),
              trace := trace t @ [Opened] \<rparr>"
    have o: "open_dir_stream w s = Some (None, u)" using t(1) Inr by (simp add: open_dir_stream_def u_def)
    from t(2) obtain k where k: "actdir t < m" "bounded m (trace t)" "k \<le> m" "k \<le> length (dirs t)"
      "dirstreams t = ring m (actdir t) (length (dirs t)) k" "in_use (trace t) = int k"
      "\<And>i. i < length (dirs t) \<Longrightarrow> dir_stream (dirs t ! i) \<noteq> None \<longleftrightarrow> length (dirs t) - k \<le> i"
      by (auto simp: good_def)
    have km: "k < m" using t(3) k(3,5) ring_act [OF k(1,3)] by (auto split: if_splits)
    have "good m u"
      unfolding good_def
    proof (intro conjI exI [of _ "Suc k"])
      show "dirstreams u = ring m (actdir u) (length (dirs u)) (Suc k)"
        using ring_push [OF k(1) km, of "length (dirs t)"] k(5) by (simp add: u_def)
      show "\<forall>i<length (dirs u). (dir_stream (dirs u ! i) \<noteq> None) = (length (dirs u) - Suc k \<le> i)"
        using k(7) by (auto simp: u_def nth_append less_Suc_eq)
    qed (use k km in \<open>auto simp: u_def\<close>)
    moreover have "length (dirs t) = length (dirs s)" "\<And>i. i < length (dirs s) \<Longrightarrow> kept (dirs s ! i) (dirs t ! i)"
      using t(4) by (auto simp: restored_def)
    ultimately show thesis
      by (intro that(2) [OF o, of d es])
        (use same t(6) Inr x in \<open>auto simp: u_def nth_append split: if_splits\<close>)
  qed
qed

lemma close_trace:
  "bounded m (trace s) \<Longrightarrow> bounded m (trace (close_dir_stream s))"
  "calls (trace (close_dir_stream s)) = calls (trace s)"
  using bounded_in_use [of m "trace s"] by (simp_all add: close_dir_stream_def Let_def)

lemma close_good:
  assumes g: "good m s" and n: "length (dirs s) = Suc k" and o: "dir_stream (dirs s ! k) \<noteq> None"
  shows "good m (pop_dir k (close_dir_stream s))"
proof -
  from g obtain j where j: "actdir s < m" "bounded m (trace s)" "j \<le> m" "j \<le> length (dirs s)"
    "dirstreams s = ring m (actdir s) (length (dirs s)) j" "in_use (trace s) = int j"
    "\<And>i. i < length (dirs s) \<Longrightarrow> dir_stream (dirs s ! i) \<noteq> None \<longleftrightarrow> length (dirs s) - j \<le> i"
    by (auto simp: good_def)
  have "0 < j" using o j(7) [of k] n by auto
  note p = ring_pop [OF slot_before [OF j(1)] this j(3), of "length (dirs s)"]
  show ?thesis
    unfolding good_def
  proof (intro conjI exI [of _ "j - 1"])
    show "dirstreams (pop_dir k (close_dir_stream s)) =
        ring m (actdir (pop_dir k (close_dir_stream s))) (length (dirs (pop_dir k (close_dir_stream s)))) (j - 1)"
      using p j(5) n by (cases "actdir s = 0") (simp_all add: pop_dir_def close_dir_stream_def Let_def min_def)
    show "\<forall>i<length (dirs (pop_dir k (close_dir_stream s))). (dir_stream (dirs (pop_dir k (close_dir_stream s)) ! i) \<noteq> None) =
        (length (dirs (pop_dir k (close_dir_stream s))) - (j - 1) \<le> i)"
      using j(7) n \<open>0 < j\<close> by (auto simp: pop_dir_def close_dir_stream_def Let_def min_def)
  qed (use j n \<open>0 < j\<close> in \<open>auto simp: pop_dir_def close_dir_stream_def Let_def of_nat_diff min_def\<close>)
qed

lemma pop_good:
  assumes g: "good m s" and n: "length (dirs s) = Suc k" and o: "dir_stream (dirs s ! k) = None"
  shows "good m (pop_dir k s)"
proof -
  from g obtain j where j: "actdir s < m" "bounded m (trace s)" "j \<le> m" "j \<le> length (dirs s)"
    "dirstreams s = ring m (actdir s) (length (dirs s)) j" "in_use (trace s) = int j"
    "\<And>i. i < length (dirs s) \<Longrightarrow> dir_stream (dirs s ! i) \<noteq> None \<longleftrightarrow> length (dirs s) - j \<le> i"
    by (auto simp: good_def)
  have "j = 0" using o j(4) j(7) [of k] n by auto
  with j n show ?thesis
    unfolding good_def by (intro conjI exI [of _ 0]) (auto simp: pop_dir_def ring_empty min_def)
qed

section \<open>Agreement\<close>

fun view :: "'d run \<Rightarrow> (int \<times> ftw_call list) option" where
  "view (Ran r t) = Some (r, calls (trace t))"
| "view Broken = Some (0, [])"
| "view (Cut t) = None"

text \<open>
  What is shown of every step: it is defined, keeps to its number of streams, puts everything
  back if it goes on, and reports what the specification reports. The last is claimed for
  walks that do not change the working directory.
\<close>

definition step_ok :: "'d ftw_data \<Rightarrow> nat \<Rightarrow> ('d walk \<Rightarrow> bool) \<Rightarrow> 'd run \<Rightarrow> bool" where
  "step_ok w m P x \<longleftrightarrow> (case x of
       Ran r t \<Rightarrow> bounded m (trace t) \<and> (r = 0 \<longrightarrow> good m t \<and> P t)
     | Broken \<Rightarrow> False
     | Cut t \<Rightarrow> bounded m (trace t))"

definition agrees :: "'d ftw_data \<Rightarrow> 'd run \<Rightarrow> (int \<times> ftw_call list) option \<Rightarrow> bool" where
  "agrees w x y \<longleftrightarrow> FTW_CHDIR (flags w) \<or> y = view x"

definition ends_well :: "string \<Rightarrow> bool" where
  "ends_well p \<longleftrightarrow> p \<noteq> [] \<and> last p \<noteq> CHR ''/''"

definition names_ok :: "'d file_system \<Rightarrow> bool" where
  "names_ok f \<longleftrightarrow> (\<forall>d p d' es. fs_opendir f d p = Inr (d', es) \<longrightarrow> list_all ends_well es)"

definition sub_walk :: "'d ftw_data \<Rightarrow> nat \<Rightarrow> (stat \<Rightarrow> 'd walk \<Rightarrow> 'd run) \<Rightarrow> 'd ref_walk \<Rightarrow> bool" where
  "sub_walk w m walk ref \<longleftrightarrow> (\<forall>s st. good m s \<longrightarrow> ends_well (dirbuf s) \<longrightarrow> ftw_base s \<le> length (dirbuf s) \<longrightarrow>
     step_ok w m (restored w (length (dirs s)) s) (walk st s) \<and>
     agrees w (walk st s) (ref (cwd s) (dirbuf s) (ftw_base s) (ftw_level s) st (calls (trace s))))"

lemma sub_walkD:
  assumes "sub_walk w m walk ref" "good m s" "ends_well (dirbuf s)" "ftw_base s \<le> length (dirbuf s)"
  shows "step_ok w m (restored w (length (dirs s)) s) (walk st s)"
    "agrees w (walk st s) (ref (cwd s) (dirbuf s) (ftw_base s) (ftw_level s) st (calls (trace s)))"
  using assms unfolding sub_walk_def by blast+

lemma step_ok_simps [simp]:
  "step_ok w m P (Cut t) \<longleftrightarrow> bounded m (trace t)"
  "\<not> step_ok w m P Broken"
  "step_ok w m P (Ran r t) \<longleftrightarrow> bounded m (trace t) \<and> (r = 0 \<longrightarrow> good m t \<and> P t)"
  by (simp_all add: step_ok_def)

lemma step_okE:
  assumes "step_ok w m P x"
  obtains t where "x = Cut t" "bounded m (trace t)" | r t where "x = Ran r t" "bounded m (trace t)" "r = 0 \<Longrightarrow> good m t" "r = 0 \<Longrightarrow> P t"
  using assms by (cases x) auto

lemma step_ok_mono:
  assumes "step_ok w m P x" "\<And>t. P t \<Longrightarrow> Q t"
  shows "step_ok w m Q x"
  using assms by (cases x) auto

lemma and_then_simps [simp]:
  "and_then (Cut t) f = Cut t"
  "and_then Broken f = Broken"
  "and_then (Ran r t) f = f r t"
  by (simp_all add: and_then_def)

lemma good_update [simp]:
  "good m (s\<lparr> cwd := d \<rparr>) = good m s"
  "good m (s\<lparr> dirbuf := b \<rparr>) = good m s"
  "good m (s\<lparr> dirbufsize := z \<rparr>) = good m s"
  "good m (s\<lparr> ftw_base := n \<rparr>) = good m s"
  "good m (s\<lparr> ftw_level := n \<rparr>) = good m s"
  "good m (s\<lparr> trace := trace s @ [Called c] \<rparr>) = good m s"
  by (auto simp: good_def dest: bounded_in_use)

lemma good_bounded: "good m s \<Longrightarrow> bounded m (trace s)"
  by (simp add: good_def)

lemma good_enter [simp]: "good m (enter_name name s) = good m s"
  by (simp add: enter_name_def Let_def)

lemma enter_name_simps [simp]:
  "dirbuf (enter_name name s) = take (ftw_base s) (dirbuf s) @ name"
  "ftw_base (enter_name name s) = ftw_base s" "ftw_level (enter_name name s) = ftw_level s"
  "cwd (enter_name name s) = cwd s" "dirs (enter_name name s) = dirs s" "trace (enter_name name s) = trace s"
  by (simp_all add: enter_name_def Let_def)

lemma restored_enter:
  "ftw_base s \<le> length (dirbuf s) \<Longrightarrow> restored w k s (enter_name name s)"
  by (simp add: restored_def)

lemma restored_from_enter:
  "restored w k (enter_name name s) t \<Longrightarrow> ftw_base s \<le> length (dirbuf s) \<Longrightarrow> restored w k s t"
  by (simp add: restored_def)

lemma call_func_view:
  assumes "call_func w flag st s = (r, t)" "good m s"
  shows "bounded m (trace t)" "good m t" "restored w k s t \<longleftrightarrow> restored w k s s"
    "(r, calls (trace t)) = ref_call w flag st (dirbuf s) (ftw_base s) (ftw_level s) (calls (trace s))"
    "t = s\<lparr> trace := trace t \<rparr>"
  using assms good_bounded bounded_in_use [OF good_bounded [OF assms(2)]]
  by (auto simp: call_func_def ref_call_def Let_def restored_def)

lemma chdir_back_ok:
  assumes "good m s" "restored w k u s" "FTW_CHDIR (flags w)"
  shows "step_ok w m (restored w k u) (chdir_back w i s)"
  using assms by (auto simp: chdir_back_def restored_def good_bounded split: option.splits sum.splits prod.splits)

lemma process_entry_ok:
  assumes sub: "sub_walk w m walk ref" and g: "good m s" and b: "ftw_base s \<le> length (dirbuf s)"
    and n: "ends_well name"
  shows "step_ok w m (restored w (length (dirs s)) s) (process_entry w walk k name s)"
    "agrees w (process_entry w walk k name s)
       (ref_entry w ref (cwd s) (take (ftw_base s) (dirbuf s)) (ftw_level s) name (calls (trace s)))"
proof -
  let ?t = "enter_name name s"
  let ?P = "restored w (length (dirs s)) s"
  let ?x = "process_entry w walk k name s"
  let ?y = "ref_entry w ref (cwd s) (take (ftw_base s) (dirbuf s)) (ftw_level s) name (calls (trace s))"
  let ?q = "if FTW_CHDIR (flags w) then name else dirbuf ?t"
  have "step_ok w m ?P ?x \<and> agrees w ?x ?y"
  proof (cases "name = ''.'' \<or> name = ''..''")
    case True
    then show ?thesis
      using g b by (auto simp: process_entry_def ref_entry_def agrees_def good_bounded restored_refl)
  next
    case name: False
    show ?thesis
    proof (cases "inspect w (cwd ?t) ?q")
      case None
      with name show ?thesis
        using good_bounded [OF g]
        by (cases "FTW_CHDIR (flags w)") (auto simp: process_entry_def ref_entry_def agrees_def Let_def)
    next
      case (Some i)
      obtain flag st where i: "i = (flag, st)" by (cases i)
      have m: "min (length (dirbuf s)) (ftw_base s) = ftw_base s" using b by simp
      show ?thesis
      proof (cases "(flag = FTW_NS \<or> \<not> FTW_MOUNT (flags w) \<or> map_option st_dev st = Some (start_dev w)) \<and> flag = FTW_D")
        case True
        have e: "ends_well (dirbuf ?t)" using n by (simp add: ends_well_def)
        have s: "step_ok w m (restored w (length (dirs ?t)) ?t) (walk (the st) ?t)"
          "agrees w (walk (the st) ?t) (ref (cwd ?t) (dirbuf ?t) (ftw_base ?t) (ftw_level ?t) (the st) (calls (trace ?t)))"
          by (rule sub_walkD [OF sub]; use g e b in simp)+
        have x: "?x = and_then (walk (the st) ?t) (\<lambda>r u.
            if r = 0 \<and> FTW_CHDIR (flags w) then chdir_back w k u else Ran r u)"
          using name Some True i by (auto simp: process_entry_def Let_def find_object_def add_object_def)
        have y: "\<not> FTW_CHDIR (flags w) \<Longrightarrow>
            ?y = ref (cwd ?t) (dirbuf ?t) (ftw_base ?t) (ftw_level ?t) (the st) (calls (trace ?t))"
          using name Some True i b by (auto simp: ref_entry_def min_absorb2)
        from s(1) show ?thesis
        proof (cases rule: step_okE)
          case 1
          then show ?thesis using x y s(2) by (cases "FTW_CHDIR (flags w)") (auto simp: agrees_def)
        next
          case (2 r u)
          show ?thesis
          proof (cases "r = 0 \<and> FTW_CHDIR (flags w)")
            case True
            then show ?thesis
              using x 2 chdir_back_ok [OF _ restored_from_enter [OF _ b], of m u w "length (dirs s)" name k] by (auto simp: agrees_def)
          next
            case False
            then show ?thesis
              using x y s(2) 2 restored_from_enter [OF _ b] by (cases "FTW_CHDIR (flags w)") (auto simp: agrees_def)
          qed
        qed
      next
        case False
        then consider (call) "flag \<noteq> FTW_D"
            "flag = FTW_NS \<or> \<not> FTW_MOUNT (flags w) \<or> map_option st_dev st = Some (start_dev w)"
          | (skip) "\<not> (flag = FTW_NS \<or> \<not> FTW_MOUNT (flags w) \<or> map_option st_dev st = Some (start_dev w))"
          by blast
        then show ?thesis
        proof cases
          case call
          obtain r u where u: "call_func w (cvt_arr w flag) st ?t = (r, u)" by (cases "call_func w (cvt_arr w flag) st ?t")
          have x: "?x = Ran r u" using name Some i call u by (auto simp: process_entry_def Let_def)
          have y: "\<not> FTW_CHDIR (flags w) \<Longrightarrow>
              ?y = Some (ref_call w (cvt_arr w flag) st (dirbuf ?t) (ftw_base ?t) (ftw_level ?t) (calls (trace ?t)))"
            using name Some i call b by (auto simp: ref_entry_def min_absorb2)
          have "restored w (length (dirs s)) ?t u"
            using call_func_view(3) [OF u] g b by (auto simp: restored_def)
          then show ?thesis
            using x y call_func_view(1,2,4) [OF u] g restored_from_enter [OF _ b] by (auto simp: agrees_def)
        next
          case skip
          then have x: "?x = Ran 0 ?t" using name Some i by (auto simp: process_entry_def Let_def)
          from skip have y: "\<not> FTW_CHDIR (flags w) \<Longrightarrow> ?y = Some (0, calls (trace s))"
            using name Some i b by (auto simp: ref_entry_def)
          show ?thesis using x y g restored_enter [OF b] good_bounded [OF g] by (auto simp: agrees_def)
        qed
      qed
    qed
  qed
  then show "step_ok w m ?P ?x" "agrees w ?x ?y" by simp_all
qed

section \<open>The loops\<close>

lemma content_loop_ok:
  assumes sub: "sub_walk w m walk ref"
  shows "good m s \<Longrightarrow> ftw_base s \<le> length (dirbuf s) \<Longrightarrow> list_all ends_well es \<Longrightarrow>
    step_ok w m (restored w (length (dirs s)) s) (content_loop w walk k es s) \<and>
    agrees w (content_loop w walk k es s)
      (ref_entries w ref (cwd s) (take (ftw_base s) (dirbuf s)) (ftw_level s) es (calls (trace s)))"
proof (induction es arbitrary: s)
  case Nil
  then show ?case by (auto simp: agrees_def good_bounded restored_refl)
next
  case (Cons e es)
  from Cons.prems have e: "ends_well e" "list_all ends_well es" by simp_all
  note p = process_entry_ok [OF sub Cons.prems(1,2) e(1), of k]
  from p(1) show ?case
  proof (cases rule: step_okE)
    case 1
    then show ?thesis using p(2) by (auto simp: agrees_def)
  next
    case (2 r t)
    show ?thesis
    proof (cases "r = 0")
      case False
      then show ?thesis using p(2) 2(1,2) by (auto simp: agrees_def)
    next
      case True
      with 2 have t: "good m t" "restored w (length (dirs s)) s t" by simp_all
      then have b: "ftw_base t \<le> length (dirbuf t)" "length (dirs t) = length (dirs s)" by (auto simp: restored_def)
      from Cons.IH [OF t(1) b(1) e(2)] have ih:
        "step_ok w m (restored w (length (dirs s)) t) (content_loop w walk k es t)"
        "agrees w (content_loop w walk k es t)
           (ref_entries w ref (cwd t) (take (ftw_base t) (dirbuf t)) (ftw_level t) es (calls (trace t)))"
        by (simp_all add: b)
      have "step_ok w m (restored w (length (dirs s)) s) (content_loop w walk k es t)"
        by (rule step_ok_mono [OF ih(1) restored_trans [OF t(2)]])
      moreover have "ftw_base t = ftw_base s" "take (ftw_base t) (dirbuf t) = take (ftw_base s) (dirbuf s)"
        "ftw_level t = ftw_level s" "FTW_CHDIR (flags w) \<or> cwd t = cwd s"
        using t(2) by (auto simp: restored_def)
      ultimately show ?thesis
        using ih(2) p(2) 2(1) True by (cases "FTW_CHDIR (flags w)") (auto simp: agrees_def)
    qed
  qed
qed

text \<open>How the first loop ends: with all names read, or with the rest of them kept.\<close>

definition stream_end :: "'d ftw_data \<Rightarrow> 'd ref_walk \<Rightarrow> nat \<Rightarrow> string list \<Rightarrow> 'd walk \<Rightarrow> 'd walk \<Rightarrow> bool" where
  "stream_end w ref k es s t \<longleftrightarrow> restored w k s t \<and>
     ((\<exists>d. dir_stream (dirs t ! k) = Some (d, [])) \<and>
        (FTW_CHDIR (flags w) \<or>
          ref_entries w ref (cwd s) (take (ftw_base s) (dirbuf s)) (ftw_level s) es (calls (trace s)) = Some (0, calls (trace t)))
      \<or> dir_stream (dirs t ! k) = None \<and> list_all ends_well (dir_content (dirs t ! k)) \<and>
        (FTW_CHDIR (flags w) \<or>
          ref_entries w ref (cwd s) (take (ftw_base s) (dirbuf s)) (ftw_level s) es (calls (trace s)) =
          ref_entries w ref (cwd s) (take (ftw_base s) (dirbuf s)) (ftw_level s) (dir_content (dirs t ! k)) (calls (trace t))))"

lemma good_read:
  assumes "good m s" "dir_stream (dirs s ! k) = Some x"
  shows "good m (s\<lparr> dirs := (dirs s)[k := (dirs s ! k)\<lparr> dir_stream := Some y \<rparr>] \<rparr>)"
proof -
  have "(dir_stream ((dirs s)[k := (dirs s ! k)\<lparr> dir_stream := Some y \<rparr>] ! i) \<noteq> None) = (dir_stream (dirs s ! i) \<noteq> None)"
    if "i < length (dirs s)" for i
    using assms(2) that by (cases "i = k") auto
  with assms(1) show ?thesis by (auto simp: good_def)
qed

lemma stream_loop_ok:
  assumes sub: "sub_walk w m walk ref"
  shows "good m s \<Longrightarrow> ftw_base s \<le> length (dirbuf s) \<Longrightarrow> length (dirs s) = Suc k \<Longrightarrow>
    dir_stream (dirs s ! k) = Some (d, es) \<Longrightarrow> list_all ends_well es \<Longrightarrow>
    step_ok w m (stream_end w ref k es s) (stream_loop w walk (Suc (length es)) k s) \<and>
    (FTW_CHDIR (flags w) \<or> (case stream_loop w walk (Suc (length es)) k s of
       Ran r t \<Rightarrow> r \<noteq> 0 \<longrightarrow>
         ref_entries w ref (cwd s) (take (ftw_base s) (dirbuf s)) (ftw_level s) es (calls (trace s)) = Some (r, calls (trace t))
     | _ \<Rightarrow> ref_entries w ref (cwd s) (take (ftw_base s) (dirbuf s)) (ftw_level s) es (calls (trace s)) = None))"
proof (induction es arbitrary: s d)
  case Nil
  then show ?case by (auto simp: good_bounded stream_end_def restored_refl)
next
  case (Cons e es)
  from Cons.prems have e: "ends_well e" "list_all ends_well es" by simp_all
  let ?s = "s\<lparr> dirs := (dirs s)[k := (dirs s ! k)\<lparr> dir_stream := Some (d, es) \<rparr>] \<rparr>"
  have g: "good m ?s" by (rule good_read [OF Cons.prems(1,4)])
  have b: "ftw_base ?s \<le> length (dirbuf ?s)" using Cons.prems(2) by simp
  note p = process_entry_ok [OF sub g b e(1), of k, simplified]
  let ?x = "process_entry w walk k e ?s"
  have x: "stream_loop w walk (Suc (length (e # es))) k s =
      and_then ?x (\<lambda>r t. if r \<noteq> 0 then Ran r t else stream_loop w walk (Suc (length es)) k t)"
    using Cons.prems(4) by simp
  from p(1) show ?case
  proof (cases rule: step_okE)
    case 1
    then show ?thesis using p(2) x by (auto simp: agrees_def)
  next
    case (2 r t)
    show ?thesis
    proof (cases "r = 0")
      case False
      then show ?thesis using p(2) 2(1,2) x by (auto simp: agrees_def)
    next
      case True
      with 2 have t: "good m t" "restored w (Suc k) ?s t" using Cons.prems(3) by simp_all
      then have t': "ftw_base t \<le> length (dirbuf t)" "length (dirs t) = Suc k" "restored w k s t"
        "kept ((dirs s ! k)\<lparr> dir_stream := Some (d, es) \<rparr>) (dirs t ! k)"
      proof -
        have kept: "kept (dirs ?s ! i) (dirs t ! i)" if "i < Suc k" for i
          using t(2) that by (simp add: restored_def)
        show "kept ((dirs s ! k)\<lparr> dir_stream := Some (d, es) \<rparr>) (dirs t ! k)"
          using kept [of k] Cons.prems(3) by simp
        have "kept (dirs s ! i) (dirs t ! i)" if "i < k" for i
          using kept [of i] that by simp
        then show "restored w k s t" "length (dirs t) = Suc k" "ftw_base t \<le> length (dirbuf t)"
          using t(2) Cons.prems(3) by (simp_all add: restored_def)
      qed
      have ref: "FTW_CHDIR (flags w) \<or>
          ref_entries w ref (cwd s) (take (ftw_base s) (dirbuf s)) (ftw_level s) (e # es) (calls (trace s)) =
          ref_entries w ref (cwd s) (take (ftw_base s) (dirbuf s)) (ftw_level s) es (calls (trace t))"
        using p(2) 2(1) True by (auto simp: agrees_def)
      have y: "stream_loop w walk (Suc (length (e # es))) k s = stream_loop w walk (Suc (length es)) k t"
        using x 2(1) True by simp
      from t'(4) consider "dirs t ! k = (dirs s ! k)\<lparr> dir_stream := Some (d, es) \<rparr>"
        | "dirs t ! k = \<lparr> dir_stream = None, dir_content = es \<rparr>"
        by (auto simp: kept_def)
      then show ?thesis
      proof cases
        case 1
        then have ih: "step_ok w m (stream_end w ref k es t) (stream_loop w walk (Suc (length es)) k t)"
          "FTW_CHDIR (flags w) \<or> (case stream_loop w walk (Suc (length es)) k t of
             Ran r u \<Rightarrow> r \<noteq> 0 \<longrightarrow>
               ref_entries w ref (cwd t) (take (ftw_base t) (dirbuf t)) (ftw_level t) es (calls (trace t)) = Some (r, calls (trace u))
           | _ \<Rightarrow> ref_entries w ref (cwd t) (take (ftw_base t) (dirbuf t)) (ftw_level t) es (calls (trace t)) = None)"
          using Cons.IH [OF t(1) t'(1,2) _ e(2), of d] by simp_all
        have eq: "ftw_base t = ftw_base s" "take (ftw_base t) (dirbuf t) = take (ftw_base s) (dirbuf s)" "ftw_level t = ftw_level s"
          "FTW_CHDIR (flags w) \<or> cwd t = cwd s"
          using t'(3) by (auto simp: restored_def)
        have "stream_end w ref k (e # es) s u" if "stream_end w ref k es t u" for u
          using that ref restored_trans [OF t'(3)] eq unfolding stream_end_def by metis
        then have "step_ok w m (stream_end w ref k (e # es) s) (stream_loop w walk (Suc (length es)) k t)"
          by (rule step_ok_mono [OF ih(1)])
        then show ?thesis unfolding y using ih(2) ref eq by (cases "FTW_CHDIR (flags w)") (auto split: option.splits run.splits)
      next
        case 2
        then show ?thesis unfolding y using t ref t'(3) e(2) by (auto simp: good_bounded stream_end_def)
      qed
    qed
  qed
qed

section \<open>A directory\<close>

lemma all_entries_ok:
  assumes sub: "sub_walk w m walk ref" and g: "good m s" and b: "ftw_base s \<le> length (dirbuf s)"
    and n: "length (dirs s) = Suc k" and d: "dir_stream (dirs s ! k) = Some (d, es)" and e: "list_all ends_well es"
  shows "(case all_entries w walk k s of
       Ran r t \<Rightarrow> bounded m (trace t) \<and> (r = 0 \<longrightarrow> good m (pop_dir k t) \<and> restored w k s t)
     | Broken \<Rightarrow> False
     | Cut t \<Rightarrow> bounded m (trace t)) \<and>
    agrees w (all_entries w walk k s)
      (ref_entries w ref (cwd s) (take (ftw_base s) (dirbuf s)) (ftw_level s) es (calls (trace s)))"
proof -
  let ?y = "ref_entries w ref (cwd s) (take (ftw_base s) (dirbuf s)) (ftw_level s)"
  let ?x = "stream_loop w walk (Suc (length es)) k s"
  note l = stream_loop_ok [OF sub g b n d e]
  have x: "all_entries w walk k s = and_then ?x
      (\<lambda>r t. if dir_stream (dirs t ! k) \<noteq> None then Ran r (close_dir_stream t)
             else if r = 0 then content_loop w walk k (dir_content (dirs t ! k)) t else Ran r t)"
    using d by (simp add: all_entries_def)
  from l have "step_ok w m (stream_end w ref k es s) ?x" ..
  then show ?thesis
  proof (cases rule: step_okE)
    case 1
    then show ?thesis using x l by (auto simp: agrees_def)
  next
    case (2 r t)
    note close = close_trace(1) [OF 2(2)] close_trace(2) [of t]
    show ?thesis
    proof (cases "r = 0")
      case False
      then show ?thesis using x l 2(1,2) close by (auto simp: agrees_def)
    next
      case True
      with 2 have t: "good m t" "stream_end w ref k es s t" by simp_all
      then have r: "restored w k s t" by (simp add: stream_end_def)
      then have tn: "length (dirs t) = Suc k" "ftw_base t \<le> length (dirbuf t)" "ftw_base t = ftw_base s"
        "take (ftw_base t) (dirbuf t) = take (ftw_base s) (dirbuf s)" "ftw_level t = ftw_level s"
        "FTW_CHDIR (flags w) \<or> cwd t = cwd s"
        using n by (auto simp: restored_def)
      show ?thesis
      proof (cases "dir_stream (dirs t ! k) = None")
        case False
        then have "good m (pop_dir k (close_dir_stream t))" by (rule close_good [OF t(1) tn(1)])
        moreover have "restored w k s (close_dir_stream t)"
          using r by (simp add: restored_def close_dir_stream_def Let_def)
        moreover have "all_entries w walk k s = (Ran 0 (close_dir_stream t))"
          using x 2(1) True False by simp
        moreover have "FTW_CHDIR (flags w) \<or> ?y es (calls (trace s)) = Some (0, calls (trace t))"
          using t(2) False by (auto simp: stream_end_def)
        ultimately show ?thesis using close by (auto simp: agrees_def)
      next
        case None: True
        let ?es = "dir_content (dirs t ! k)"
        have c: "list_all ends_well ?es"
          "FTW_CHDIR (flags w) \<or> ?y es (calls (trace s)) = ?y ?es (calls (trace t))"
          using t(2) None by (auto simp: stream_end_def)
        note ok = content_loop_ok [OF sub t(1) tn(2) c(1), of k]
        have y: "all_entries w walk k s = content_loop w walk k ?es t" using x 2(1) True None by simp
        have ag: "agrees w (content_loop w walk k ?es t) (?y es (calls (trace s)))"
          using ok c(2) tn by (cases "FTW_CHDIR (flags w)") (auto simp: agrees_def)
        from ok have "step_ok w m (restored w (length (dirs t)) t) (content_loop w walk k ?es t)" ..
        then show ?thesis
        proof (cases rule: step_okE)
          case 1
          then show ?thesis using y ag by simp
        next
          case u: (2 r' u)
          have "good m (pop_dir k u) \<and> restored w k s u" if "r' = 0"
          proof -
            from u that tn(1) have full: "good m u" "restored w (Suc k) t u" by simp_all
            then have "kept (dirs t ! k) (dirs u ! k)" "length (dirs u) = Suc k"
              using tn(1) by (simp_all add: restored_def)
            with None full show ?thesis
              using pop_good [of m u k] kept_closed restored_trans [OF r restored_le [OF full(2)]] by force
          qed
          then show ?thesis using y ag u by auto
        qed
      qed
    qed
  qed
qed

text \<open>The whole call: on the way down, over the entries, on the way up.\<close>

lemma slashed_take: "ends_well p \<Longrightarrow> take (length (slashed p) - 1) (slashed p) = p"
  by (simp add: slashed_def ends_well_def)

lemma ascend_good [simp]: "good m (ascend b s) = good m s"
  by (simp add: ascend_def)

lemma ascend_simps [simp]: "trace (ascend b s) = trace s" "trace (pop_dir k s) = trace s"
  by (simp_all add: ascend_def pop_dir_def)

lemma ascend_restored:
  assumes "restored w k (descend v) x" "ends_well (dirbuf s)"
    and "dirbuf v = dirbuf s" "ftw_level v = ftw_level s" "ftw_base s \<le> length (dirbuf s)"
    and "length (dirs v) = Suc k" "length (dirs s) = k" "\<And>i. i < k \<Longrightarrow> kept (dirs s ! i) (dirs v ! i)"
    and "FTW_CHDIR (flags w) \<or> cwd v = cwd s"
  shows "restored w k s (ascend (ftw_base s) (pop_dir k x))" "dirbuf (ascend (ftw_base s) (pop_dir k x)) = dirbuf s"
proof -
  let ?l = "length (slashed (dirbuf s))"
  have x: "ftw_base x = ?l" "take ?l (dirbuf x) = slashed (dirbuf s)" "ftw_level x = Suc (ftw_level s)"
    "length (dirs x) = Suc k" "\<And>i. i < k \<Longrightarrow> kept (dirs v ! i) (dirs x ! i)" "FTW_CHDIR (flags w) \<or> cwd x = cwd v"
    using assms(1,3,4,6) by (auto simp: restored_def descend_def)
  have "take (?l - 1) (dirbuf x) = take (?l - 1) (take ?l (dirbuf x))" by (simp add: min_def)
  then have d: "take (?l - 1) (dirbuf x) = dirbuf s" using x(2) slashed_take [OF assms(2)] by simp
  then show "dirbuf (ascend (ftw_base s) (pop_dir k x)) = dirbuf s"
    using x(1) by (simp add: ascend_def pop_dir_def)
  have "kept (dirs s ! i) (dirs x ! i)" if "i < k" for i
    using kept_trans assms(8) x(5) that by blast
  then show "restored w k s (ascend (ftw_base s) (pop_dir k x))"
    using x d assms(5,7,9) by (auto simp: restored_def ascend_def pop_dir_def)
qed

lemma chdir_into_ok:
  assumes "chdir_into w k s = (r, t)"
  shows "t = s\<lparr> cwd := cwd t \<rparr>" "r \<noteq> 0 \<Longrightarrow> FTW_CHDIR (flags w)" "FTW_CHDIR (flags w) \<or> t = s"
  using assms by (auto simp: chdir_into_def split: if_splits option.splits sum.splits)

lemma ftw_dir_ok:
  fixes w :: "'d ftw_data"
  assumes names: "names_ok (fs w)"
  shows "good m s \<Longrightarrow> dirbuf s \<noteq> [] \<Longrightarrow> ftw_base s \<le> length (dirbuf s) \<Longrightarrow>
    step_ok w m (\<lambda>t. length (dirs t) = length (dirs s) \<and> (ends_well (dirbuf s) \<longrightarrow> restored w (length (dirs s)) s t))
      (ftw_dir w n st s) \<and>
    (ends_well (dirbuf s) \<or> \<not> FTW_DEPTH (flags w) \<longrightarrow>
      agrees w (ftw_dir w n st s) (ref_dir w n (cwd s) (dirbuf s) (ftw_base s) (ftw_level s) st (calls (trace s))))"
proof (induction n arbitrary: s st)
  case 0
  then show ?case by (simp add: agrees_def good_bounded)
next
  case (Suc n)
  have sub: "sub_walk w m (ftw_dir w n) (ref_dir w n)"
    unfolding sub_walk_def
  proof (intro allI impI)
    fix s :: "'d walk" and st assume "good m s" "ends_well (dirbuf s)" "ftw_base s \<le> length (dirbuf s)"
    with Suc.IH [of s st] step_ok_mono show "step_ok w m (restored w (length (dirs s)) s) (ftw_dir w n st s) \<and>
        agrees w (ftw_dir w n st s) (ref_dir w n (cwd s) (dirbuf s) (ftw_base s) (ftw_level s) st (calls (trace s)))"
      by (fastforce simp: ends_well_def)
  qed
  let ?k = "length (dirs s)"
  let ?x = "ftw_dir w (Suc n) st s"
  let ?y = "ref_dir w (Suc n) (cwd s) (dirbuf s) (ftw_base s) (ftw_level s) st (calls (trace s))"
  from Suc.prems(1,3) show ?case
  proof (cases rule: open_good [where w = w])
    case (1 e t)
    obtain r u where u: "call_func w FTW_DNR (Some st) t = (r, u)" by (cases "call_func w FTW_DNR (Some st) t")
    have eq: "ftw_base t = ftw_base s" "ftw_level t = ftw_level s" using 1(3) by (auto simp: restored_def)
    have "restored w ?k s (t\<lparr> trace := trace u \<rparr>)" using 1(3) by (simp add: restored_def)
    then have "restored w ?k s u" using call_func_view(5) [OF u 1(2)] by simp
    moreover from this have "length (dirs u) = ?k" "length (dirs t) = ?k" using 1(3) by (simp_all add: restored_def)
    ultimately show ?thesis
      using 1 u call_func_view(1,2,4) [OF u 1(2)] eq good_bounded [OF 1(2)]
      by (cases "FTW_CHDIR (flags w)") (auto simp: agrees_def)
  next
    case (2 d es t)
    obtain r u where u: "(if FTW_DEPTH (flags w) then (0, t) else call_func w FTW_D (Some st) t) = (r, u)"
      by (cases "if FTW_DEPTH (flags w) then (0, t) else call_func w FTW_D (Some st) t")
    have gu: "good m u" "u = t\<lparr> trace := trace u \<rparr>"
      "(if FTW_DEPTH (flags w) then (0, calls (trace s))
        else ref_call w FTW_D (Some st) (dirbuf s) (ftw_base s) (ftw_level s) (calls (trace s))) = (r, calls (trace u))"
      using u 2 call_func_view(2,4,5) [of w FTW_D "Some st" t r u m] by (auto split: if_splits)
    have fu: "dirs u = dirs t" "dirbuf u = dirbuf s" "ftw_base u = ftw_base s" "ftw_level u = ftw_level s" "cwd u = cwd s"
      by (subst gu(2); simp add: 2)+
    have x1: "?x = (if r \<noteq> 0 then Ran r (pop_dir ?k u)
        else (case chdir_into w ?k u of (r', v) \<Rightarrow>
          if r' \<noteq> 0 then Ran r' (pop_dir ?k (close_dir_stream v))
          else if dirbuf v = [] then Broken
          else and_then (all_entries w (ftw_dir w n) ?k (descend v)) (\<lambda>r x.
            let y = ascend (ftw_base s) (pop_dir ?k x) in
            if r = 0 \<and> FTW_DEPTH (flags w)
            then (case call_func w FTW_DP (Some st) y of (r', z) \<Rightarrow> Ran r' z)
            else Ran r y)))"
      using 2(1) u by simp
    have y1: "\<not> FTW_CHDIR (flags w) \<Longrightarrow> ?y = (if r \<noteq> 0 then Some (r, calls (trace u))
            else (case ref_entries w (ref_dir w n) (cwd s) (slashed (dirbuf s)) (Suc (ftw_level s)) es (calls (trace u)) of
                None \<Rightarrow> None
              | Some (r, cs2) \<Rightarrow> Some (if r = 0 \<and> FTW_DEPTH (flags w)
                  then ref_call w FTW_DP (Some st) (dirbuf s) (ftw_base s) (ftw_level s) cs2 else (r, cs2))))"
      using 2(12) gu(3) by simp
    show ?thesis
    proof (cases "r = 0")
      case False
      then show ?thesis
        using x1 y1 good_bounded [OF gu(1)] by (cases "FTW_CHDIR (flags w)") (auto simp: agrees_def)
    next
      case True
      obtain r' v where v: "chdir_into w ?k u = (r', v)" by (cases "chdir_into w ?k u")
      note cv = chdir_into_ok [OF v]
      have gv: "good m v" by (subst cv(1)) (simp add: gu(1))
      have fv: "dirs v = dirs t" "dirbuf v = dirbuf s" "ftw_level v = ftw_level s" "trace v = trace u"
        by (subst cv(1); simp add: fu)+
      have cwd: "FTW_CHDIR (flags w) \<or> cwd v = cwd s" using cv(3) fu(5) by auto
      show ?thesis
      proof (cases "r' = 0")
        case False
        have "bounded m (trace (pop_dir ?k (close_dir_stream v)))"
          using close_trace(1) [OF good_bounded [OF gv]] by simp
        then show ?thesis using x1 True v False cv(2) by (auto simp: agrees_def)
      next
        case r': True
        let ?a = "all_entries w (ftw_dir w n) ?k (descend v)"
        have dv: "good m (descend v)" "ftw_base (descend v) \<le> length (dirbuf (descend v))" "length (dirs (descend v)) = Suc ?k"
          "dir_stream (dirs (descend v) ! ?k) = Some (d, es)" "list_all ends_well es"
          using gv fv(1) 2(3,5,11) names by (auto simp: descend_def names_ok_def)
        note ok = all_entries_ok [OF sub dv]
        have ag: "FTW_CHDIR (flags w) \<or>
            ref_entries w (ref_dir w n) (cwd s) (slashed (dirbuf s)) (Suc (ftw_level s)) es (calls (trace u)) = view ?a"
          using ok fv cwd by (auto simp: agrees_def descend_def)
        have x2: "?x = and_then ?a (\<lambda>r x.
            let y = ascend (ftw_base s) (pop_dir ?k x) in
            if r = 0 \<and> FTW_DEPTH (flags w)
            then (case call_func w FTW_DP (Some st) y of (r', z) \<Rightarrow> Ran r' z)
            else Ran r y)"
          using x1 True v r' fv(2) Suc.prems(2) by simp
        show ?thesis
        proof (cases ?a)
          case (Cut z)
          then show ?thesis using x2 y1 True ag ok by (cases "FTW_CHDIR (flags w)") (auto simp: agrees_def)
        next
          case Broken
          with ok show ?thesis by simp
        next
          case a: (Ran q z)
          with ok have z: "bounded m (trace z)" "q = 0 \<Longrightarrow> good m (pop_dir ?k z)" "q = 0 \<Longrightarrow> restored w ?k (descend v) z"
            by auto
          let ?z = "ascend (ftw_base s) (pop_dir ?k z)"
          have lz: "length (dirs ?z) = ?k" if "q = 0"
            using z(3) [OF that] dv(3) by (simp add: restored_def ascend_def pop_dir_def)
          have up: "restored w ?k s ?z" "dirbuf ?z = dirbuf s" if "q = 0" "ends_well (dirbuf s)"
            using ascend_restored [OF z(3) [OF that(1)] that(2) fv(2,3) Suc.prems(3) _ refl _ cwd] 2(3,4) fv(1) by auto
          show ?thesis
          proof (cases "q = 0 \<and> FTW_DEPTH (flags w)")
            case False
            then show ?thesis
              using x2 y1 True ag a z up lz by (cases "FTW_CHDIR (flags w)") (auto simp: agrees_def Let_def)
          next
            case q: True
            obtain p e where e: "call_func w FTW_DP (Some st) ?z = (p, e)" by (cases "call_func w FTW_DP (Some st) ?z")
            have gz: "good m ?z" using z(2) q by simp
            have "restored w ?k s (?z\<lparr> trace := trace e \<rparr>)" if "ends_well (dirbuf s)"
              using up(1) q that by (simp add: restored_def)
            then have re: "ends_well (dirbuf s) \<Longrightarrow> restored w ?k s e" using call_func_view(5) [OF e gz] by simp
            have le: "length (dirs e) = ?k" by (subst call_func_view(5) [OF e gz]) (use lz q in simp)
            have fz: "ends_well (dirbuf s) \<Longrightarrow> ftw_base ?z = ftw_base s" "ends_well (dirbuf s) \<Longrightarrow> ftw_level ?z = ftw_level s"
              using up(1) q by (simp_all add: restored_def)
            show ?thesis
              using x2 y1 True ag a q e re le up(2) fz call_func_view(1,2,4) [OF e gz]
              by (cases "FTW_CHDIR (flags w)") (auto simp: agrees_def Let_def)
          qed
        qed
      qed
    qed
  qed
qed

end
