(* ===== verification/Jftw_Properties.thy ===== *)
theory Jftw_Properties
  imports Jftw_Walk
begin

text \<open>
  The walk as its callers see it: what it reports, how many streams it has open, when it ends,
  and where it departs from its description.
\<close>

section \<open>The start\<close>

definition ref_walk_from :: "'d ftw_data \<Rightarrow> nat \<Rightarrow> 'd \<Rightarrow> string \<Rightarrow> nat \<Rightarrow> (int \<times> ftw_call list) option" where
  "ref_walk_from w fuel d path b =
     (case (if FTW_PHYS (flags w) then fs_lstat (fs w) d path else fs_stat (fs w) d path) of
        Inl e \<Rightarrow>
          (case fs_lstat (fs w) d path of
             Inr st \<Rightarrow>
               if \<not> FTW_PHYS (flags w) \<and> e = ENOENT \<and> st_mode st = S_ISLNK
               then Some (ref_call w (cvt_arr w FTW_SLN) (Some st) path b 0 [])
               else Some (-1, [])
           | Inl _ \<Rightarrow> Some (-1, []))
      | Inr st \<Rightarrow>
          if st_mode st = S_ISDIR then ref_dir (w\<lparr> start_dev := st_dev st \<rparr>) fuel d path b 0 st []
          else Some (ref_call w (cvt_arr w (if st_mode st = S_ISLNK then FTW_SL else FTW_F)) (Some st) path b 0 []))"

definition data_of :: "'d file_system \<Rightarrow> bool \<Rightarrow> (ftw_call list \<Rightarrow> ftw_call \<Rightarrow> int) \<Rightarrow> ftw_flags \<Rightarrow> 'd ftw_data" where
  "data_of f is_nftw fn fl =
     \<lparr> fs = f, flags = fl, cvt_arr = (if is_nftw then nftw_arr else ftw_arr), func = fn, start_dev = 0 \<rparr>"

definition streams :: "int \<Rightarrow> nat" where
  "streams descriptors = (if descriptors < 1 then 1 else nat descriptors)"

lemma data_of_simps [simp]:
  "fs (data_of f n fn fl) = f" "flags (data_of f n fn fl) = fl" "func (data_of f n fn fl) = fn"
  by (simp_all add: data_of_def)

lemma strip_slashes_end:
  assumes "dir \<noteq> []"
  shows "strip_slashes dir \<noteq> []" "ends_well (strip_slashes dir) \<or> strip_slashes dir = ''/''"
proof -
  obtain c cs where dir: "dir = c # cs" using assms by (cases dir) auto
  let ?r = "dropWhile (\<lambda>c. c = CHR ''/'') (rev cs)"
  have s: "strip_slashes dir = c # rev ?r" by (simp add: strip_slashes_def dir)
  then show "strip_slashes dir \<noteq> []" by simp
  show "ends_well (strip_slashes dir) \<or> strip_slashes dir = ''/''"
  proof (cases "?r = []")
    case True
    then show ?thesis by (auto simp: s ends_well_def)
  next
    case False
    then have "hd ?r \<noteq> CHR ''/''" using hd_dropWhile [of "\<lambda>c. c = CHR ''/''" "rev cs"] by auto
    with False show ?thesis by (simp add: s ends_well_def last_rev)
  qed
qed

lemma start_good: "good (streams descriptors) (start_walk dir descriptors here)"
  unfolding good_def
  by (intro conjI exI [of _ 0]) (auto simp: start_walk_def streams_def ring_empty bounded_def)

lemma start_base: "ftw_base (start_walk dir descriptors here) \<le> length (dirbuf (start_walk dir descriptors here))"
  by (simp add: start_walk_def basename_at_def) (metis length_dropWhile_le length_rev)

lemma chdir_start_cases:
  obtains r d where "chdir_start w s = Ran r (s\<lparr> cwd := d \<rparr>)"
proof -
  have "chdir_start w s \<in> {Ran (-1) s, Ran 0 s} \<union> range (\<lambda>d. Ran 0 (s\<lparr> cwd := d \<rparr>))"
    by (auto simp: chdir_start_def split: sum.splits)
  then consider r where "chdir_start w s = Ran r s" | d where "chdir_start w s = Ran 0 (s\<lparr> cwd := d \<rparr>)" by auto
  then show thesis using that [of _ "cwd s"] that by cases simp_all
qed

lemma walk_from_ok:
  assumes names: "names_ok (fs w)" and g: "good m s" and d: "dirs s = []"
    and b: "dirbuf s \<noteq> []" "ftw_base s \<le> length (dirbuf s)"
  shows "step_ok w m (\<lambda>t. dirs t = []) (walk_from w fuel s)"
    "ends_well (dirbuf s) \<or> \<not> FTW_DEPTH (flags w) \<Longrightarrow> ftw_level s = 0 \<Longrightarrow> trace s = [] \<Longrightarrow>
       agrees w (walk_from w fuel s) (ref_walk_from w fuel (cwd s) (dirbuf s) (ftw_base s))"
proof -
  have call: "bounded m (trace t) \<and> good m t \<and> dirs t = [] \<and>
      (r, calls (trace t)) = ref_call w flag st (dirbuf s) (ftw_base s) (ftw_level s) (calls (trace s))"
    if c: "call_func w flag st s = (r, t)" for flag st r t
  proof -
    have "dirs t = dirs s" by (subst call_func_view(5) [OF c g]) simp
    with call_func_view(1,2,4) [OF c g] d show ?thesis by simp
  qed
  have dir: "step_ok w m (\<lambda>t. dirs t = []) (ftw_dir (w\<lparr> start_dev := v \<rparr>) fuel st s) \<and>
      (ends_well (dirbuf s) \<or> \<not> FTW_DEPTH (flags w) \<longrightarrow>
        agrees w (ftw_dir (w\<lparr> start_dev := v \<rparr>) fuel st s)
          (ref_dir (w\<lparr> start_dev := v \<rparr>) fuel (cwd s) (dirbuf s) (ftw_base s) (ftw_level s) st (calls (trace s))))" for v st
    using ftw_dir_ok [of "w\<lparr> start_dev := v \<rparr>" m s fuel st] names g b d
    by (auto simp: agrees_def step_ok_def split: option.splits run.splits)
  show "step_ok w m (\<lambda>t. dirs t = []) (walk_from w fuel s)"
    using dir call good_bounded [OF g] d
    by (auto simp: walk_from_def Let_def add_object_def split: sum.splits prod.splits)
  show "agrees w (walk_from w fuel s) (ref_walk_from w fuel (cwd s) (dirbuf s) (ftw_base s))"
    if "ends_well (dirbuf s) \<or> \<not> FTW_DEPTH (flags w)" "ftw_level s = 0" "trace s = []"
  proof (cases "FTW_CHDIR (flags w)")
    case False
    with that dir call show ?thesis
      by (auto simp: walk_from_def ref_walk_from_def Let_def add_object_def agrees_def split: sum.splits prod.splits)
  qed (simp add: agrees_def)
qed

section \<open>Sample file systems\<close>

text \<open>A directory \<open>d\<close> with a file and a directory that has a file.\<close>

definition dir_names :: "string \<Rightarrow> string list option" where
  "dir_names p = (if p = ''d'' then Some [''.'', ''..'', ''a'', ''s''] else if p = ''d/s'' then Some [''b''] else None)"

definition sample_fs :: "unit file_system" where
  "sample_fs = (let look = (\<lambda>_ p. if dir_names p \<noteq> None then Inr \<lparr> st_mode = S_ISDIR, st_dev = 1 \<rparr>
       else if p = ''d/a'' \<or> p = ''d/s/b'' then Inr \<lparr> st_mode = S_OTHER, st_dev = 1 \<rparr> else Inl ENOENT)
     in \<lparr> fs_lstat = look, fs_stat = look,
        fs_opendir = (\<lambda>_ p. case dir_names p of None \<Rightarrow> Inl ENOENT | Some es \<Rightarrow> Inr ((), es)),
        fs_chdir = (\<lambda>_ _. Inl ENOENT), fs_fchdir = (\<lambda>_. None), fs_getcwd = (\<lambda>_. None) \<rparr>)"

definition phys :: "bool \<Rightarrow> ftw_flags" where
  "phys depth = \<lparr> FTW_PHYS = True, FTW_MOUNT = False, FTW_CHDIR = False, FTW_DEPTH = depth \<rparr>"

text \<open>A root directory with nothing in it; a directory whose one entry is a link to itself.\<close>

definition root_fs :: "unit file_system" where
  "root_fs = sample_fs\<lparr> fs_lstat := (\<lambda>_ _. Inr \<lparr> st_mode = S_ISDIR, st_dev = 1 \<rparr>), fs_opendir := (\<lambda>_ _. Inr ((), [])) \<rparr>"

definition loop_fs :: "unit file_system" where
  "loop_fs = root_fs\<lparr> fs_stat := (\<lambda>_ _. Inr \<lparr> st_mode = S_ISDIR, st_dev = 1 \<rparr>),
     fs_lstat := (\<lambda>_ p. Inr \<lparr> st_mode = (if p = ''d'' then S_ISDIR else S_ISLNK), st_dev = 1 \<rparr>),
     fs_opendir := (\<lambda>_ _. Inr ((), [''.'', ''..'', ''l''])) \<rparr>"

lemma names_ok_samples: "names_ok sample_fs" "names_ok root_fs" "names_ok loop_fs"
  by (auto simp: names_ok_def sample_fs_def root_fs_def loop_fs_def dir_names_def ends_well_def Let_def
      split: option.splits if_splits)

section \<open>Properties\<close>

lemma startup_view:
  assumes "names_ok f" "\<not> FTW_CHDIR fl" "dir \<noteq> []" "strip_slashes dir \<noteq> ''/'' \<or> \<not> FTW_DEPTH fl"
  shows "view (ftw_startup f fuel dir is_nftw fn descriptors fl here) =
     ref_walk_from (data_of f is_nftw fn fl) fuel here (strip_slashes dir) (basename_at (strip_slashes dir))"
proof -
  let ?s = "start_walk dir descriptors here"
  let ?w = "data_of f is_nftw fn fl"
  have ew: "ends_well (dirbuf ?s) \<or> \<not> FTW_DEPTH (flags ?w)" "dirbuf ?s \<noteq> []"
    using strip_slashes_end [OF assms(3)] assms(4) by (auto simp: start_walk_def)
  have st: "dirs ?s = []" "ftw_level ?s = 0" "trace ?s = []" "cwd ?s = here" "dirbuf ?s = strip_slashes dir"
    "ftw_base ?s = basename_at (strip_slashes dir)"
    by (simp_all add: start_walk_def)
  have names: "names_ok (fs ?w)" using assms(1) by simp
  note ok = walk_from_ok [OF names start_good st(1) ew(2) start_base, where fuel = fuel]
  have x: "ftw_startup f fuel dir is_nftw fn descriptors fl here =
      and_then (walk_from ?w fuel ?s) Ran"
    using assms(2,3) by (simp add: ftw_startup_def Let_def chdir_start_def chdir_home_def data_of_def)
  have "view (and_then y Ran) = view y" for y :: "'a run"
    by (cases y) auto
  then show ?thesis using ok(2) [OF ew(1) st(2,3)] st assms(2) unfolding x by (simp add: agrees_def)
qed

text \<open>
  C31: A walk that does not change the working directory (no \<open>FTW_CHDIR\<close>) and, for
  \<open>FTW_DEPTH\<close>, does not start at the root reports what a plain recursion over the tree reports,
  in the same order and with the same result, whatever number of streams it may have open:
  closing the stream of an outer directory and going on from the names kept makes no
  difference. Where one goes deeper than the given depth, so does the other.
\<close>

theorem walk_reports_tree:
  assumes "names_ok f" "\<not> FTW_CHDIR fl" "dir \<noteq> []" "strip_slashes dir \<noteq> ''/'' \<or> \<not> FTW_DEPTH fl"
  shows "view (ftw_startup f fuel dir is_nftw fn descriptors fl here) =
     ref_walk_from (data_of f is_nftw fn fl) fuel here (strip_slashes dir) (basename_at (strip_slashes dir))"
  by (rule startup_view [OF assms])

theorem walk_reports_tree_witness:
  "view (ftw_startup sample_fs 2 ''d/'' True (\<lambda>_ _. 0) 1 (phys False) ()) =
     ref_walk_from (data_of sample_fs True (\<lambda>_ _. 0) (phys False)) 2 () ''d'' 0"
  using walk_reports_tree [of sample_fs "phys False" "''d/''" 2 True "\<lambda>_ _. 0" 1 "()"] names_ok_samples
  by (simp add: phys_def strip_slashes_def basename_at_def)

lemma startup_streams:
  assumes "names_ok f"
  shows "case ftw_startup f fuel dir is_nftw fn descriptors fl here of
     Ran r t \<Rightarrow> bounded (streams descriptors) (trace t) \<and> (r = 0 \<longrightarrow> in_use (trace t) = 0)
   | Broken \<Rightarrow> False
   | Cut t \<Rightarrow> bounded (streams descriptors) (trace t)"
proof (cases "dir = []")
  case True
  then show ?thesis by (simp add: ftw_startup_def Let_def start_walk_def bounded_def)
next
  case False
  let ?s = "start_walk dir descriptors here"
  let ?w = "data_of f is_nftw fn fl"
  obtain r d where c: "chdir_start ?w ?s = Ran r (?s\<lparr> cwd := d \<rparr>)" by (rule chdir_start_cases)
  define t where "t = ?s\<lparr> cwd := d \<rparr>"
  have t: "good (streams descriptors) t" "dirs t = []" "dirbuf t \<noteq> []" "ftw_base t \<le> length (dirbuf t)"
    using start_good [of descriptors dir here] start_base [of dir descriptors here] strip_slashes_end(1) [OF False]
    by (simp_all add: t_def) (simp_all add: start_walk_def)
  have home: "trace (chdir_home ?w here u) = trace u" for u
    by (auto simp: chdir_home_def split: option.splits sum.splits)
  have closed: "in_use (trace u) = 0" if "good m u" "dirs u = []" for m and u :: "'a walk"
    using that by (auto simp: good_def)
  have names: "names_ok (fs ?w)" using assms by simp
  have x: "ftw_startup f fuel dir is_nftw fn descriptors fl here =
      and_then (if r = 0 then walk_from ?w fuel t else Ran r t) (\<lambda>r u. Ran r (chdir_home ?w here u))"
    using False c by (simp add: ftw_startup_def Let_def data_of_def t_def)
  show ?thesis
  proof (cases "r = 0")
    case True
    from walk_from_ok(1) [OF names t, of fuel] show ?thesis
      by (cases rule: step_okE) (use x True home closed in auto)
  next
    case False
    then show ?thesis using x home good_bounded [OF t(1)] by simp
  qed
qed

lemma startup_defined: "names_ok f \<Longrightarrow> ftw_startup f fuel dir is_nftw fn descriptors fl here \<noteq> Broken"
  using startup_streams [of f descriptors fuel dir is_nftw fn fl here] by auto



section \<open>Ending\<close>

text \<open>A directory below which every path of directories comes to its end.\<close>

inductive bottoms_out :: "'d ftw_data \<Rightarrow> 'd \<Rightarrow> string \<Rightarrow> bool" for w d where
  bottom: "(\<And>d' es e st. fs_opendir (fs w) d path = Inr (d', es) \<Longrightarrow> e \<in> set es \<Longrightarrow> e \<noteq> ''.'' \<Longrightarrow> e \<noteq> ''..'' \<Longrightarrow>
      inspect w d (slashed path @ e) = Some (FTW_D, st) \<Longrightarrow> bottoms_out w d (slashed path @ e)) \<Longrightarrow>
    bottoms_out w d path"

lemma inspect_dev [simp]: "inspect (w\<lparr> start_dev := v \<rparr>) = inspect w"
  by (intro ext) (simp add: inspect_def split: sum.split)

lemma bottoms_out_dev: "bottoms_out w d path \<Longrightarrow> bottoms_out (w\<lparr> start_dev := v \<rparr>) d path"
  by (induction rule: bottoms_out.induct) (rule bottom, simp)

definition returns :: "'d ref_walk \<Rightarrow> 'd \<Rightarrow> string \<Rightarrow> bool" where
  "returns ref d path \<longleftrightarrow> (\<forall>b l st cs. ref d path b l st cs \<noteq> None)"

lemma ref_entries_return:
  assumes "\<And>e st. e \<in> set es \<Longrightarrow> e \<noteq> ''.'' \<Longrightarrow> e \<noteq> ''..'' \<Longrightarrow> inspect w d (prefix @ e) = Some (FTW_D, st) \<Longrightarrow>
      returns ref d (prefix @ e)"
  shows "ref_entries w ref d prefix l es cs \<noteq> None"
  using assms
proof (induction es arbitrary: cs)
  case (Cons e es)
  have "ref_entry w ref d prefix l e cs \<noteq> None"
    using Cons.prems [of e] by (auto simp: ref_entry_def returns_def split: option.splits)
  with Cons show ?case by (auto split: option.splits)
qed simp

lemma ref_dir_returns: "bottoms_out w d path \<Longrightarrow> \<exists>n. \<forall>m. returns (ref_dir w (n + m)) d path"
proof (induction rule: bottoms_out.induct)
  case (bottom path)
  show ?case
  proof (cases "fs_opendir (fs w) d path")
    case (Inl e)
    then have "returns (ref_dir w (Suc 0 + m)) d path" for m by (simp add: returns_def)
    then show ?thesis by blast
  next
    case (Inr x)
    obtain d' es where x: "x = (d', es)" by (cases x)
    let ?sub = "\<lambda>e. e \<noteq> ''.'' \<and> e \<noteq> ''..'' \<and> (\<exists>st. inspect w d (slashed path @ e) = Some (FTW_D, st))"
    have "\<forall>e\<in>set es. \<exists>n. ?sub e \<longrightarrow> (\<forall>m. returns (ref_dir w (n + m)) d (slashed path @ e))"
      using bottom.IH Inr x by blast
    then obtain N where N: "\<And>e m. e \<in> set es \<Longrightarrow> ?sub e \<Longrightarrow> returns (ref_dir w (N e + m)) d (slashed path @ e)"
      by metis
    define n where "n = sum_list (map N es)"
    have "returns (ref_dir w (n + m)) d (slashed path @ e)" if "e \<in> set es" "?sub e" for e m
    proof -
      have "N e \<le> n" using that(1) member_le_sum_list [of "N e" "map N es"] by (simp add: n_def)
      then show ?thesis using N [OF that, of "n - N e + m"] by simp
    qed
    then have some: "ref_entries w (ref_dir w (n + m)) d (slashed path) l es cs \<noteq> None" for m l cs
      by (intro ref_entries_return) blast
    have "returns (ref_dir w (Suc n + m)) d path" for m
      using Inr x by (simp add: returns_def some del: not_None_eq split: option.split prod.split)
    then show ?thesis by blast
  qed
qed

text \<open>
  C33: A walk over a tree of finite depth returns, however few streams it may have open, if it
  does not change the working directory (no \<open>FTW_CHDIR\<close>) and, for \<open>FTW_DEPTH\<close>, does not
  start at the root: following it down to some depth suffices, and going deeper does no harm.
\<close>

theorem walk_terminates:
  assumes "names_ok f" "\<not> FTW_CHDIR fl" "dir \<noteq> []" "strip_slashes dir \<noteq> ''/'' \<or> \<not> FTW_DEPTH fl"
    and tree: "bottoms_out (data_of f is_nftw fn fl) here (strip_slashes dir)"
  shows "\<exists>n. \<forall>m. \<exists>r t. ftw_startup f (n + m) dir is_nftw fn descriptors fl here = Ran r t"
proof -
  let ?w = "data_of f is_nftw fn fl"
  have "\<exists>n. \<forall>m. ref_walk_from ?w (n + m) here (strip_slashes dir) (basename_at (strip_slashes dir)) \<noteq> None"
  proof (cases "if FTW_PHYS fl then fs_lstat f here (strip_slashes dir) else fs_stat f here (strip_slashes dir)")
    case (Inl e)
    then show ?thesis by (auto simp: ref_walk_from_def split: sum.splits)
  next
    case (Inr st)
    from ref_dir_returns [OF bottoms_out_dev [OF tree]] obtain n where
      "\<forall>m. returns (ref_dir (?w\<lparr> start_dev := st_dev st \<rparr>) (n + m)) here (strip_slashes dir)" by blast
    with Inr show ?thesis by (auto simp: ref_walk_from_def returns_def intro!: exI [of _ n])
  qed
  then obtain n where "\<And>m. ref_walk_from ?w (n + m) here (strip_slashes dir) (basename_at (strip_slashes dir)) \<noteq> None"
    by blast
  then have some: "view (ftw_startup f (n + m) dir is_nftw fn descriptors fl here) \<noteq> None" for m
    using startup_view [OF assms(1-4), of "n + m" is_nftw fn descriptors here] by simp
  have "\<exists>r t. ftw_startup f (n + m) dir is_nftw fn descriptors fl here = Ran r t" for m
    using some [of m] startup_defined [OF assms(1), of "n + m" dir is_nftw fn descriptors fl here]
    by (cases "ftw_startup f (n + m) dir is_nftw fn descriptors fl here") simp_all
  then show ?thesis by blast
qed

lemma sample_bottoms_out: "bottoms_out (data_of sample_fs True fn (phys False)) () ''d''"
proof -
  have inner: "bottoms_out (data_of sample_fs True fn (phys False)) () ''d/s''"
  proof (rule bottom, goal_cases)
    case (1 d' es e st)
    then have "e = ''b''" by (auto simp: sample_fs_def dir_names_def Let_def)
    with 1 show ?case by (simp add: sample_fs_def dir_names_def Let_def inspect_def phys_def slashed_def)
  qed
  show ?thesis
  proof (rule bottom, goal_cases)
    case (1 d' es e st)
    then have "e = ''a'' \<or> e = ''s''" by (auto simp: sample_fs_def dir_names_def Let_def)
    then show ?case
    proof
      assume "e = ''a''"
      with 1 show ?case by (simp add: sample_fs_def dir_names_def Let_def inspect_def phys_def slashed_def)
    next
      assume "e = ''s''"
      with inner show ?case by (simp add: slashed_def)
    qed
  qed
qed

theorem walk_terminates_witness:
  "\<exists>n. \<forall>m. \<exists>r t. ftw_startup sample_fs (n + m) ''d'' True (\<lambda>_ _. 0) 1 (phys False) () = Ran r t"
  using walk_terminates [of sample_fs "phys False" "''d''" True "\<lambda>_ _. 0" "()" 1] names_ok_samples sample_bottoms_out
  by (simp add: phys_def strip_slashes_def)

section \<open>Departures\<close>

text \<open>What a walk with one stream reports of the sample, in either order.\<close>

lemma sample_reports:
  "map_option (\<lambda>x. map (\<lambda>c. (c_path c, c_flag c)) (snd x)) (view (ftw_startup sample_fs 2 ''d//'' True (\<lambda>_ _. 0) 1 (phys False) ())) =
     Some [(''d'', FTW_D), (''d/a'', FTW_F), (''d/s'', FTW_D), (''d/s/b'', FTW_F)]"
  "map_option (\<lambda>x. map (\<lambda>c. (c_path c, c_flag c)) (snd x)) (view (ftw_startup sample_fs 2 ''d'' True (\<lambda>_ _. 0) 1 (phys True) ())) =
     Some [(''d/a'', FTW_F), (''d/s/b'', FTW_F), (''d/s'', FTW_DP), (''d'', FTW_DP)]"
  by code_simp+

text \<open>The root directory, reported last, has lost its name.\<close>

lemma root_reported_without_name:
  "map_option (\<lambda>x. map c_path (snd x)) (view (ftw_startup root_fs 1 ''/'' True (\<lambda>_ _. 0) 1 (phys True) ())) = Some [[]]"
  "map_option (\<lambda>x. map c_path (snd x)) (view (ftw_startup root_fs 1 ''/'' True (\<lambda>_ _. 0) 1 (phys False) ())) = Some [''/'']"
  by code_simp+

text \<open>When the caller's function stops the walk at a directory, the stream of that directory stays open.\<close>

lemma stopped_walk_leaks:
  "(case ftw_startup sample_fs 2 ''d'' True (\<lambda>_ c. if c_path c = ''d/s'' then 7 else 0) 4 (phys False) () of
     Ran r t \<Rightarrow> (r, in_use (trace t)) | _ \<Rightarrow> (0, 0)) = (7, 1)"
  by code_simp

text \<open>
  \<open>jftw\<close> follows links, and the function that was to remember the directories seen does nothing:
  a directory with a link to itself is walked for ever.
\<close>

lemma loop_ref_dir: "ref_dir (data_of loop_fs False (\<lambda>_ _. 0) no_flags\<lparr> start_dev := v \<rparr>) n () path b l st cs = None"
proof (induction n arbitrary: path b l st cs)
  case (Suc n)
  have "inspect (data_of loop_fs False (\<lambda>_ _. 0) no_flags) () p = Some (FTW_D, Some \<lparr> st_mode = S_ISDIR, st_dev = 1 \<rparr>)" for p
    by (simp add: inspect_def loop_fs_def no_flags_def)
  moreover have "fs_opendir loop_fs () path = Inr ((), [''.'', ''..'', ''l''])" "\<not> FTW_DEPTH no_flags" "\<not> FTW_MOUNT no_flags"
    by (simp_all add: loop_fs_def no_flags_def)
  ultimately show ?case using Suc by (simp add: ref_entry_def ref_call_def)
qed simp

lemma jftw_loops_on_links: "\<exists>t. jftw loop_fs fuel ''d'' (\<lambda>_ _. 0) descriptors () = Cut t"
proof -
  have "view (jftw loop_fs fuel ''d'' (\<lambda>_ _. 0) descriptors ()) =
      ref_walk_from (data_of loop_fs False (\<lambda>_ _. 0) no_flags) fuel () ''d'' 0"
    using startup_view [of loop_fs no_flags "''d''" fuel False "\<lambda>_ _. 0" descriptors "()"] names_ok_samples
    by (simp add: jftw_def no_flags_def strip_slashes_def basename_at_def)
  then have "view (jftw loop_fs fuel ''d'' (\<lambda>_ _. 0) descriptors ()) = None"
    using loop_ref_dir by (simp add: ref_walk_from_def) (simp add: loop_fs_def no_flags_def)
  then show ?thesis by (cases "jftw loop_fs fuel ''d'' (\<lambda>_ _. 0) descriptors ()") simp_all
qed

end
