(* ===== verification/Mgt_Client.thy ===== *)
theory Mgt_Client
  imports Str_Util
begin

text \<open>
  \<open>mgt_client.c\<close>: a command is sent to the management server on the loopback interface, and
  the answer, two strings that end with a null character, is collected byte by byte in buffers
  that grow. A buffer is the list of its bytes; what it holds is the string up to its first
  null character.
\<close>

section \<open>Operations\<close>

definition MIN_STR_LEN :: nat where "MIN_STR_LEN = 16"

definition strlen :: "string \<Rightarrow> nat" where
  "strlen buf = length (takeWhile (\<lambda>c. c \<noteq> NUL) buf)"

text \<open>
  \<open>str_putc\<close> on the pointer and the length it was given, which starts as 0; the first argument
  says whether \<open>realloc\<close> succeeds. \<open>None\<close> is an access outside the buffer. A new buffer is
  zeroed from the old length on.
\<close>

definition str_putc :: "bool \<Rightarrow> char \<Rightarrow> string option \<times> nat \<Rightarrow> (string option \<times> nat) option" where
  "str_putc mem c x = (case x of (s, len) \<Rightarrow>
     let new_len = (if len = 0 then MIN_STR_LEN
           else case s of None \<Rightarrow> 0 | Some buf \<Rightarrow> if strlen buf + 1 \<ge> len then len * 2 else 0)
     in if new_len \<noteq> 0 \<and> \<not> mem then Some (s, len)
     else let (t, l) = (if new_len \<noteq> 0
           then (Some (take len (case s of None \<Rightarrow> [] | Some buf \<Rightarrow> buf) @ replicate (new_len - len) NUL), new_len)
           else (s, len))
       in case t of
            None \<Rightarrow> None
          | Some buf \<Rightarrow> if strlen buf < length buf then Some (Some (buf[strlen buf := c]), l) else None)"

text \<open>
  The loops of \<open>mgt_command\<close>: bytes come until a null character or the end of the stream. They
  return the buffer and what is left of the stream.
\<close>

fun collect :: "(nat \<Rightarrow> bool) \<Rightarrow> string \<Rightarrow> string option \<times> nat \<Rightarrow> ((string option \<times> nat) \<times> string) option" where
  "collect mem [] x = Some (x, [])"
| "collect mem (c # cs) x =
     (if c = NUL then Some (x, cs)
      else case str_putc (mem (length cs)) c x of None \<Rightarrow> None | Some y \<Rightarrow> collect mem cs y)"

text \<open>
  \<open>mgt_write\<close>, one call of \<open>write\<close>: the bytes that leave, given what \<open>write\<close> returns, which may
  be less than asked for or negative, and the result.
\<close>

definition mgt_write :: "int \<Rightarrow> string \<Rightarrow> string \<times> int" where
  "mgt_write ret data = (take (nat ret) data, ret)"

text \<open>
  \<open>mgt_command\<close> with a connection, or none if it could not be opened: the code returned, the
  caller's pointer, and the bytes sent. \<open>None\<close> is undefined. The first two arguments are the
  results of the two calls of \<open>write\<close>, which it does not look at.
\<close>

definition mgt_command ::
    "int \<Rightarrow> int \<Rightarrow> (nat \<Rightarrow> bool) \<Rightarrow> string option \<Rightarrow> string option \<Rightarrow> string option \<Rightarrow>
     (int \<times> string option \<times> string) option" where
  "mgt_command w1 w2 mem conn cmd result = (case (cmd, conn) of
       (Some (c # cs), Some answer) \<Rightarrow>
         (case collect mem answer (result, 0) of
            None \<Rightarrow> None
          | Some ((res, _), rest) \<Rightarrow>
              (case collect mem rest (None, 0) of
                 None \<Rightarrow> None
               | Some ((rc_str, _), _) \<Rightarrow>
                   Some (case rc_str of None \<Rightarrow> -1 | Some buf \<Rightarrow> atoi (takeWhile (\<lambda>c. c \<noteq> NUL) buf), res,
                         fst (mgt_write w1 (c # cs)) @ fst (mgt_write w2 [NUL]))))
     | _ \<Rightarrow> Some (-1, result, []))"

section \<open>Properties\<close>

text \<open>A buffer that holds a string: there is room for a null character, and nothing but them behind it.\<close>

definition holds :: "string option \<times> nat \<Rightarrow> string \<Rightarrow> bool" where
  "holds x str \<longleftrightarrow> (case x of (s, len) \<Rightarrow> NUL \<notin> set str \<and>
     (if len = 0 then str = [] else length str < len \<and> s = Some (str @ replicate (len - length str) NUL)))"

lemma takeWhile_padded: "NUL \<notin> set str \<Longrightarrow> takeWhile (\<lambda>c. c \<noteq> NUL) (str @ replicate n NUL) = str"
  by (induction str) (auto simp: takeWhile_replicate)

lemma strlen_padded [simp]: "NUL \<notin> set str \<Longrightarrow> strlen (str @ replicate n NUL) = length str"
  by (simp add: strlen_def takeWhile_padded)

lemma put_padded: "0 < n \<Longrightarrow> (str @ replicate n NUL)[length str := c] = (str @ [c]) @ replicate (n - 1) NUL"
  by (cases n) (simp_all add: list_update_append)

lemma str_putc_first:
  "str_putc True c (s, 0) = Some (Some ([c] @ replicate 15 NUL), 16)"
  using strlen_padded [of "[]" 16] put_padded [of 16 "[]" c] by (simp add: str_putc_def MIN_STR_LEN_def Let_def)

lemma str_putc_holds:
  assumes "holds x str" "c \<noteq> NUL"
  obtains y where "str_putc mem c x = Some y" "holds y (str @ [c]) \<or> \<not> mem \<and> y = x"
proof -
  obtain s len where x: "x = (s, len)" by (cases x)
  show thesis
  proof (cases "len = 0")
    case True
    then show thesis
      using assms x str_putc_first [of c s] that
      by (cases mem) (auto simp: holds_def str_putc_def Let_def MIN_STR_LEN_def)
  next
    case False
    with assms(1) x have h: "NUL \<notin> set str" "length str < len" "s = Some (str @ replicate (len - length str) NUL)"
      by (auto simp: holds_def)
    show thesis
    proof (cases "length str + 1 \<ge> len")
      case True
      then have len: "len = Suc (length str)" using h(2) by simp
      show thesis
      proof (cases mem)
        case grow: True
        have "take len (str @ replicate (len - length str) NUL) @ replicate (len * 2 - len) NUL = str @ replicate (Suc len) NUL"
          using len by (simp add: replicate_append_same)
        then have "str_putc mem c x = Some (Some ((str @ [c]) @ replicate len NUL), len * 2)"
          using False x h grow True strlen_padded [OF h(1), of "Suc len"] strlen_padded [OF h(1), of 1] put_padded [of "Suc len" str c]
          by (simp add: str_putc_def Let_def)
        then show thesis using that h assms(2) len by (fastforce simp: holds_def)
      next
        case no: False
        then have "str_putc mem c x = Some x" using False x h True strlen_padded [OF h(1), of "len - length str"] by (simp add: str_putc_def Let_def)
        then show thesis using that no by blast
      qed
    next
      case small: False
      then have "str_putc mem c x = Some (Some ((str @ [c]) @ replicate (len - length str - 1) NUL), len)"
        using False x h put_padded [of "len - length str" str c] by (simp add: str_putc_def Let_def)
      then show thesis using that h assms(2) small by (auto simp: holds_def)
    qed
  qed
qed

lemma collect_defined: "holds x str \<Longrightarrow> \<exists>y rest. collect mem cs x = Some (y, rest)"
proof (induction cs arbitrary: x str)
  case (Cons c cs)
  show ?case
  proof (cases "c = NUL")
    case False
    from str_putc_holds [OF Cons.prems False, of "mem (length cs)"] obtain y where
      y: "str_putc (mem (length cs)) c x = Some y" "\<exists>str. holds y str" using Cons.prems by metis
    from y(2) obtain str' where "holds y str'" ..
    from Cons.IH [OF this] y(1) False show ?thesis by simp
  qed simp
qed simp

lemma collect_string:
  "holds x str \<Longrightarrow> NUL \<notin> set cs \<Longrightarrow> \<exists>y. collect (\<lambda>_. True) (cs @ NUL # rest) x = Some (y, rest) \<and> holds y (str @ cs) \<and> (cs = [] \<longrightarrow> y = x)"
proof (induction cs arbitrary: x str)
  case (Cons c cs)
  from Cons.prems(2) have c: "c \<noteq> NUL" "NUL \<notin> set cs" by auto
  from str_putc_holds [OF Cons.prems(1) c(1), of True] obtain y where
    y: "str_putc True c x = Some y" "holds y (str @ [c])" by auto
  from Cons.IH [OF y(2) c(2)] y(1) c(1) show ?case by auto
qed simp

lemma holds_string: "holds (s, len) str \<Longrightarrow> str \<noteq> [] \<Longrightarrow> \<exists>buf. s = Some buf \<and> takeWhile (\<lambda>c. c \<noteq> NUL) buf = str"
  by (auto simp: holds_def takeWhile_padded split: if_splits)

text \<open>
  C39: The management client never writes outside its buffers, whatever the server answers and
  whenever memory runs out. With memory, the caller gets the first string of the answer and
  the number the second one holds; an empty first string leaves the caller's pointer as it
  was. The server gets of the command and its null character what the two calls of \<open>write\<close>
  take, all of it if they take all; a short write goes unnoticed.
\<close>

theorem mgt_command_answer:
  "mgt_command w1 w2 mem conn cmd result \<noteq> None \<and>
   (c_string res \<and> c_string rc \<and> cmd' \<noteq> [] \<longrightarrow>
     (\<exists>buf sent. mgt_command w1 w2 (\<lambda>_. True) (Some (res @ NUL # rc @ NUL # rest)) (Some cmd') result =
         Some (if rc = [] then -1 else atoi rc, buf, sent) \<and>
       (if res = [] then buf = result else map_option (takeWhile (\<lambda>c. c \<noteq> NUL)) buf = Some res) \<and>
       sent = take (nat w1) cmd' @ take (nat w2) [NUL] \<and>
       (int (length cmd') \<le> w1 \<and> 1 \<le> w2 \<longrightarrow> sent = cmd' @ [NUL])))"
proof (intro conjI impI)
  have empty: "holds (s, 0) []" for s by (simp add: holds_def)
  have "\<exists>y rest. collect mem cs (s, 0) = Some (y, rest)" for cs s
    using collect_defined [OF empty] .
  then show "mgt_command w1 w2 mem conn cmd result \<noteq> None"
    unfolding mgt_command_def
    by (auto split: option.splits list.splits prod.splits) (metis option.distinct(1) surj_pair)+
  assume h: "c_string res \<and> c_string rc \<and> cmd' \<noteq> []"
  then have n: "NUL \<notin> set res" "NUL \<notin> set rc" by (simp_all add: c_string_def)
  obtain s1 l1 where a: "collect (\<lambda>_. True) (res @ NUL # rc @ NUL # rest) (result, 0) = Some ((s1, l1), rc @ NUL # rest)"
    "holds (s1, l1) res" "res = [] \<longrightarrow> s1 = result"
    using collect_string [OF empty n(1), of "rc @ NUL # rest" result] by auto
  obtain s2 l2 where b: "collect (\<lambda>_. True) (rc @ NUL # rest) (None, 0) = Some ((s2, l2), rest)"
    "holds (s2, l2) rc" "rc = [] \<longrightarrow> s2 = None"
    using collect_string [OF empty n(2), of rest None] by auto
  obtain c cs where "cmd' = c # cs" using h by (cases cmd') auto
  moreover have "take (nat w1) cmd' @ take (nat w2) [NUL] = cmd' @ [NUL]" if "int (length cmd') \<le> w1 \<and> 1 \<le> w2"
  proof -
    from that have "length cmd' \<le> nat w1" "length [NUL] \<le> nat w2" by auto
    then show ?thesis by (simp only: take_all)
  qed
  ultimately show "\<exists>buf sent. mgt_command w1 w2 (\<lambda>_. True) (Some (res @ NUL # rc @ NUL # rest)) (Some cmd') result =
         Some (if rc = [] then -1 else atoi rc, buf, sent) \<and>
       (if res = [] then buf = result else map_option (takeWhile (\<lambda>c. c \<noteq> NUL)) buf = Some res) \<and>
       sent = take (nat w1) cmd' @ take (nat w2) [NUL] \<and>
       (int (length cmd') \<le> w1 \<and> 1 \<le> w2 \<longrightarrow> sent = cmd' @ [NUL])"
    using a b holds_string [OF a(2)] holds_string [OF b(2)]
    by (cases "rc = []"; cases "res = []") (auto simp: mgt_command_def mgt_write_def)
qed

theorem mgt_command_answer_witness:
  "\<exists>buf. mgt_command 3 1 (\<lambda>_. True) (Some (''ok'' @ NUL # ''12'' @ NUL # [])) (Some ''run'') None =
     Some (if ''12'' = [] then -1 else atoi ''12'', buf, ''run'' @ [NUL]) \<and>
     (if ''ok'' = [] then buf = None else map_option (takeWhile (\<lambda>c. c \<noteq> NUL)) buf = Some ''ok'')"
proof -
  have h: "c_string ''ok'' \<and> c_string ''12'' \<and> ''run'' \<noteq> []" by code_simp
  have w: "int (length ''run'') \<le> 3 \<and> (1 :: int) \<le> 1" by simp
  from conjunct2 [OF mgt_command_answer [of 3 1 "\<lambda>_. True" None None None "''ok''" "''12''" "''run''" "[]"], THEN mp, OF h]
  show ?thesis using w by (elim exE conjE) (rule exI, rule conjI, simp only: mp, assumption)
qed

end
