(* ===== verification/Ip_Address.thy ===== *)
theory Ip_Address
  imports Prelude "HOL-Library.Word"
begin

text \<open>
  Addresses and networks as the key exchange and the packet filters of the gateway handle them
  (\<open>src/core0/pkg/freeswan/lib\<close>): comparison of addresses, masks, networks given by a mask or,
  an extension of the vendor's, by a range of addresses, and the tests of membership and
  inclusion between them. Bytes are 8-bit words, in the order of the wire; an \<open>unsigned int\<close>
  is a 32-bit word. An error text is the left value of a sum. What C leaves undefined, the use
  of a variable that was never written, is \<open>None\<close>.
\<close>

unbundle bit_operations_syntax

section \<open>Addresses\<close>

type_synonym byte = "8 word"

definition AF_INET :: int where "AF_INET = 2"

definition AF_INET6 :: int where "AF_INET6 = 10"

text \<open>
  The union of \<open>sockaddr_in\<close> and \<open>sockaddr_in6\<close>: the family and the port are at the same place
  in both, and \<open>s_addr\<close> of the first is where the second has its flow information.
\<close>

record ip_address =
  sin_family :: int
  sin_port :: "16 word"
  s_addr :: "byte list"
  sin6_addr :: "byte list"

text \<open>What the types of C give: 4 and 16 bytes.\<close>

definition wf_address :: "ip_address \<Rightarrow> bool" where
  "wf_address a \<longleftrightarrow> length (s_addr a) = 4 \<and> length (sin6_addr a) = 16"

definition addrtypeof :: "ip_address \<Rightarrow> int" where
  "addrtypeof src = sin_family src"

text \<open>The bytes of an address, none for an unknown family; their number is what the function returns.\<close>

definition addrbytesptr :: "ip_address \<Rightarrow> byte list" where
  "addrbytesptr src =
     (if sin_family src = AF_INET then s_addr src
      else if sin_family src = AF_INET6 then sin6_addr src
      else [])"

definition addrlenof :: "ip_address \<Rightarrow> nat" where
  "addrlenof src = length (addrbytesptr src)"

definition addrbytesof :: "ip_address \<Rightarrow> nat \<Rightarrow> nat \<times> byte list" where
  "addrbytesof src dstlen = (length (addrbytesptr src), take dstlen (addrbytesptr src))"

definition initaddr :: "byte list \<Rightarrow> int \<Rightarrow> ip_address \<Rightarrow> string + ip_address" where
  "initaddr src af dst =
     (if af = AF_INET then
        if length src \<noteq> 4 then Inl ''IPv4 address must be exactly 4 bytes''
        else Inr (dst\<lparr> sin_family := af, sin_port := 0, s_addr := src \<rparr>)
      else if af = AF_INET6 then
        if length src \<noteq> 16 then Inl ''IPv6 address must be exactly 16 bytes''
        else Inr (dst\<lparr> sin_family := af, s_addr := [0, 0, 0, 0], sin_port := 0, sin6_addr := src \<rparr>)
      else Inl ''unknown address family in initaddr'')"

definition anyaddr :: "int \<Rightarrow> ip_address \<Rightarrow> string + ip_address" where
  "anyaddr af dst =
     (if af = AF_INET then initaddr [0, 0, 0, 0] af dst
      else if af = AF_INET6 then initaddr (replicate 16 0) af dst
      else Inl ''unknown address family in anyaddr/unspecaddr'')"

definition loopbackaddr :: "int \<Rightarrow> ip_address \<Rightarrow> string + ip_address" where
  "loopbackaddr af dst =
     (if af = AF_INET then initaddr [127, 0, 0, 1] af dst
      else if af = AF_INET6 then initaddr (replicate 15 0 @ [1]) af dst
      else Inl ''unknown address family in loopbackaddr'')"

definition isanyaddr :: "ip_address \<Rightarrow> bool" where
  "isanyaddr src =
     (if sin_family src = AF_INET then s_addr src = [0, 0, 0, 0]
      else if sin_family src = AF_INET6 then sin6_addr src = replicate 16 0
      else False)"

definition isloopbackaddr :: "ip_address \<Rightarrow> bool" where
  "isloopbackaddr src =
     (if sin_family src = AF_INET then s_addr src = [127, 0, 0, 1]
      else if sin_family src = AF_INET6 then sin6_addr src = replicate 15 0 @ [1]
      else False)"

text \<open>\<open>memcmp\<close> of the standard library: the first bytes that differ decide.\<close>

fun memcmp :: "byte list \<Rightarrow> byte list \<Rightarrow> int" where
  "memcmp (x # xs) (y # ys) = (if x = y then memcmp xs ys else if x < y then -1 else 1)"
| "memcmp _ _ = 0"

definition addrcmp :: "ip_address \<Rightarrow> ip_address \<Rightarrow> int" where
  "addrcmp a b = (let
       ap = addrbytesptr a; bp = addrbytesptr b; n = min (length ap) (length bp);
       c = memcmp (take n ap) (take n bp)
     in if c \<noteq> 0 then (if c < 0 then -1 else 1)
     else if length ap \<noteq> length bp then (if length ap < length bp then -1 else 1)
     else if addrtypeof a \<noteq> addrtypeof b then (if addrtypeof a < addrtypeof b then -1 else 1)
     else 0)"

definition sameaddr :: "ip_address \<Rightarrow> ip_address \<Rightarrow> bool" where
  "sameaddr a b \<longleftrightarrow> addrcmp a b = 0"

definition sameaddrtype :: "ip_address \<Rightarrow> ip_address \<Rightarrow> bool" where
  "sameaddrtype a b \<longleftrightarrow> addrtypeof a = addrtypeof b"

section \<open>Networks\<close>

text \<open>\<open>is_subnet\<close> tells the members of the union apart. A mask count is not negative.\<close>

datatype ip_subnet =
    Net (net_addr: ip_address) (maskbits: nat)
  | Span (range_from: ip_address) (range_to: ip_address)

definition is_subnet :: "ip_subnet \<Rightarrow> bool" where
  "is_subnet s \<longleftrightarrow> (case s of Net _ _ \<Rightarrow> True | Span _ _ \<Rightarrow> False)"

definition SUBNET_ADDR_GET :: "ip_subnet \<Rightarrow> ip_address" where
  "SUBNET_ADDR_GET s = (case s of Net a _ \<Rightarrow> a | Span f _ \<Rightarrow> f)"

definition initrange :: "ip_address \<Rightarrow> ip_address \<Rightarrow> ip_subnet" where
  "initrange from to = Span from to"

text \<open>The address with other bytes, written through the pointer \<open>addrbytesptr\<close> gave.\<close>

definition with_bytes :: "ip_address \<Rightarrow> byte list \<Rightarrow> ip_address" where
  "with_bytes a bs = (if sin_family a = AF_INET then a\<lparr> s_addr := bs \<rparr> else a\<lparr> sin6_addr := bs \<rparr>)"

text \<open>
  The loop of \<open>initsubnet\<close> over the bytes of the host part: \<open>m\<close> masks the host bits of the
  first of them. \<open>None\<close> if it is to die on a host bit and there is one.
\<close>

fun clear_host :: "bool \<Rightarrow> byte \<Rightarrow> byte list \<Rightarrow> byte list option" where
  "clear_host die m [] = Some []"
| "clear_host die m (b # bs) =
     (if b AND m \<noteq> 0 \<and> die then None
      else map_option (Cons (if b AND m \<noteq> 0 then b AND NOT m else b)) (clear_host die 0xff bs))"

definition initsubnet :: "ip_address \<Rightarrow> nat \<Rightarrow> char \<Rightarrow> string + ip_subnet" where
  "initsubnet addr count clash = (let p = addrbytesptr addr in
     if p = [] then Inl ''unknown address family''
     else if clash \<noteq> CHR ''0'' \<and> clash \<noteq> CHR ''x'' then Inl ''unknown clash-control value in initsubnet''
     else let c = count div 8 in
     if c > length p then Inl ''impossible mask count''
     else let m = (if length p - c > 0 \<and> count mod 8 \<noteq> 0 then drop_bit (count mod 8) 0xff else 0xff) in
     case clear_host (clash = CHR ''x'') m (drop c p) of
       None \<Rightarrow> Inl ''improper subnet, host-part bits on''
     | Some bs \<Rightarrow> Inr (Net (with_bytes addr (take c p @ bs)) count))"

definition addrtosubnet :: "ip_address \<Rightarrow> string + ip_subnet" where
  "addrtosubnet addr = (if addrlenof addr = 0 then Inl ''unknown address family'' else Inr (Net addr (addrlenof addr * 8)))"

definition subnettypeof :: "ip_subnet \<Rightarrow> int" where
  "subnettypeof src = (case src of Net a _ \<Rightarrow> sin_family a | Span f _ \<Rightarrow> sin_family f)"

definition samesubnettype :: "ip_subnet \<Rightarrow> ip_subnet \<Rightarrow> bool" where
  "samesubnettype a b \<longleftrightarrow> subnettypeof a = subnettypeof b"

text \<open>The bytes of the mask with the first \<open>b\<close> bits on.\<close>

fun mask_bytes :: "nat \<Rightarrow> nat \<Rightarrow> byte list" where
  "mask_bytes 0 b = []"
| "mask_bytes (Suc n) b =
     (if b \<ge> 8 then 0xff # mask_bytes n (b - 8)
      else if b \<noteq> 0 then push_bit (8 - b) 0xff # replicate n 0
      else replicate (Suc n) 0)"

text \<open>\<open>None\<close> where the function returns without writing the mask.\<close>

definition maskof :: "ip_address \<Rightarrow> nat \<Rightarrow> ip_address \<Rightarrow> ip_address option" where
  "maskof addr bits dst = (let n = addrlenof addr in
     if bits > n * 8 \<or> n > 16 then None
     else case initaddr (mask_bytes n bits) (addrtypeof addr) dst of Inl _ \<Rightarrow> None | Inr m \<Rightarrow> Some m)"

text \<open>The loop that shifts out the ones at the front of a byte; it ends because the byte becomes smaller.\<close>

lemma bit_80: "bit (0x80 :: byte) n \<longleftrightarrow> n = 7"
proof -
  have "(0x80 :: byte) = 2 ^ 7" by simp
  then show ?thesis by (simp only: bit_exp_iff) auto
qed

lemma byte_less: "unat (b :: byte) < 256"
  by (rule order.strict_trans2 [OF unsigned_less]) simp

lemma top_bit_iff: "(b :: byte) AND 0x80 \<noteq> 0 \<longleftrightarrow> 128 \<le> unat b"
proof -
  have "bit (b AND 0x80) n \<longleftrightarrow> n = 7 \<and> bit b 7" for n by (simp only: bit_and_iff bit_80) auto
  then have "b AND 0x80 \<noteq> 0 \<longleftrightarrow> bit b 7" by (metis bit_0_eq bot_apply bot_bool_def bit_eqI)
  also have "\<dots> \<longleftrightarrow> bit (unat b) 7" by (simp add: bit_unsigned_iff)
  also have "\<dots> \<longleftrightarrow> odd (unat b div 128)" by (simp add: bit_iff_odd)
  also have "unat b div 128 = (if 128 \<le> unat b then 1 else 0)" using byte_less [of b] by (simp add: div_nat_eqI)
  finally show ?thesis by (simp split: if_splits)
qed

lemma unat_shift: "unat (push_bit 1 (b :: byte)) = 2 * unat b mod 256"
  by (simp add: push_bit_eq_mult unat_word_ariths mult.commute)

function shift_ones :: "byte \<Rightarrow> nat \<Rightarrow> byte \<times> nat" where
  "shift_ones b n = (if b AND 0x80 \<noteq> 0 then shift_ones (push_bit 1 b) (Suc n) else (b, n))"
  by auto
termination
proof (relation "measure (\<lambda>(b, n). unat b)")
  fix b :: byte and n :: nat
  assume "b AND 0x80 \<noteq> 0"
  then have "128 \<le> unat b" by (simp add: top_bit_iff)
  then show "((push_bit 1 b, Suc n), (b, n)) \<in> measure (\<lambda>(b, n). unat b)"
    using byte_less [of b] unat_shift [of b] by (simp only: in_measure split) (simp only: mod_if [of "2 * unat b"]; simp)
qed simp


declare shift_ones.simps [simp del]

definition masktocount :: "ip_address \<Rightarrow> int" where
  "masktocount src = (let
       bp = addrbytesptr src; n = 8 * length (takeWhile (\<lambda>b. b = 0xff) bp);
       p = dropWhile (\<lambda>b. b = 0xff) bp;
       mid = (case p of
                b # q \<Rightarrow> if b \<noteq> 0 then (case shift_ones b n of (r, k) \<Rightarrow> if r \<noteq> 0 then None else Some (k, q)) else Some (n, p)
              | [] \<Rightarrow> Some (n, []))
     in if bp = [] then -1
     else case mid of
       None \<Rightarrow> -1
     | Some (k, q) \<Rightarrow> if dropWhile (\<lambda>b. b = 0) q \<noteq> [] then -1 else int k)"

definition networkof :: "ip_subnet \<Rightarrow> ip_address" where
  "networkof src = SUBNET_ADDR_GET src"

text \<open>The number that four bytes make up.\<close>

definition ntohl :: "byte list \<Rightarrow> 32 word" where
  "ntohl bs = foldl (\<lambda>w b. push_bit 8 w OR ucast b) 0 bs"

text \<open>A local variable before it is written; the functions read only what was written.\<close>

definition unwritten :: ip_address where
  "unwritten = \<lparr> sin_family = 0, sin_port = 0, s_addr = [0, 0, 0, 0], sin6_addr = replicate 16 0 \<rparr>"

text \<open>
  \<open>NET_TO_RANGE\<close> of \<open>samesubnet\<close> takes the addresses as they lie in memory; they are only
  compared for equality, so the order of their bytes does not matter.
\<close>

definition NET_TO_RANGE :: "ip_subnet \<Rightarrow> (32 word \<times> 32 word) option" where
  "NET_TO_RANGE x = (case x of
       Net a n \<Rightarrow> map_option (\<lambda>m. (ntohl (s_addr a), ntohl (s_addr a) OR NOT (ntohl (s_addr m)))) (maskof a n unwritten)
     | Span f t \<Rightarrow> Some (ntohl (s_addr f), ntohl (s_addr t)))"

definition samesubnet :: "ip_subnet \<Rightarrow> ip_subnet \<Rightarrow> bool option" where
  "samesubnet a b = (case (NET_TO_RANGE a, NET_TO_RANGE b) of
       (Some (a_from, a_to), Some (b_from, b_to)) \<Rightarrow> Some (a_from = b_from \<and> a_to = b_to)
     | _ \<Rightarrow> None)"

definition subnetishost :: "ip_subnet \<Rightarrow> bool" where
  "subnetishost a = (case a of Net x n \<Rightarrow> n = addrlenof x * 8 | Span f t \<Rightarrow> sameaddr f t)"

record ip_said =
  said_dst :: ip_address
  said_spi :: "32 word"
  said_proto :: int

definition samesaid :: "ip_said \<Rightarrow> ip_said \<Rightarrow> bool" where
  "samesaid a b = (if said_spi a \<noteq> said_spi b then False
     else if \<not> sameaddr (said_dst a) (said_dst b) then False
     else said_proto a = said_proto b)"

text \<open>The loop of \<open>samenbits\<close> and its last, partial byte.\<close>

fun same_bits :: "byte list \<Rightarrow> byte list \<Rightarrow> nat \<Rightarrow> bool" where
  "same_bits (x # xs) (y # ys) nbits =
     (if nbits \<ge> 8 then x = y \<and> same_bits xs ys (nbits - 8)
      else nbits > 0 \<longrightarrow> x AND NOT (drop_bit nbits 0xff) = y AND NOT (drop_bit nbits 0xff))"
| "same_bits _ _ nbits = True"

definition samenbits :: "ip_address \<Rightarrow> ip_address \<Rightarrow> nat \<Rightarrow> bool" where
  "samenbits a b nbits =
     (if addrtypeof a \<noteq> addrtypeof b then False
      else if addrlenof a = 0 then False
      else if nbits > addrlenof a * 8 then False
      else same_bits (addrbytesptr a) (addrbytesptr b) nbits)"

definition addrinsubnet :: "ip_address \<Rightarrow> ip_subnet \<Rightarrow> bool" where
  "addrinsubnet a s =
     (if addrtypeof a \<noteq> subnettypeof s then False
      else case s of
        Net x n \<Rightarrow> samenbits a x n
      | Span f t \<Rightarrow>
          if addrtypeof a = AF_INET
          then ntohl (s_addr f) \<le> ntohl (s_addr a) \<and> ntohl (s_addr a) \<le> ntohl (s_addr t)
          else True)"

definition subnet_end_get :: "ip_subnet \<Rightarrow> 32 word option" where
  "subnet_end_get s = (case s of
       Net a n \<Rightarrow> map_option (\<lambda>m. ntohl (s_addr a) OR NOT (ntohl (s_addr m))) (maskof a n unwritten)
     | Span f t \<Rightarrow> Some (ntohl (s_addr t)))"

definition subnetinsubnet :: "ip_subnet \<Rightarrow> ip_subnet \<Rightarrow> bool option" where
  "subnetinsubnet a b =
     (if subnettypeof a \<noteq> subnettypeof b then Some False
      else case (subnet_end_get a, subnet_end_get b) of
        (Some a_to, Some b_to) \<Rightarrow>
          Some (ntohl (s_addr (SUBNET_ADDR_GET a)) \<ge> ntohl (s_addr (SUBNET_ADDR_GET b)) \<and> a_to \<le> b_to)
      | _ \<Rightarrow> None)"

section \<open>Ranges\<close>

text \<open>
  The loop over the bits of the byte in which the ends of a range differ, from the bit \<open>i\<close>
  down. \<open>None\<close> if they do not differ: then the loop of the code would never end.
\<close>

primrec common_bits :: "nat \<Rightarrow> byte \<Rightarrow> byte \<Rightarrow> nat \<Rightarrow> (byte \<times> byte \<times> nat) option" where
  "common_bits 0 fb tb nnet = None"
| "common_bits (Suc i) fb tb nnet = (let m = push_bit i 1 in
     if fb AND m = tb AND m then common_bits i (fb AND NOT m) (tb OR m) (Suc nnet)
     else Some (fb, tb, nnet))"

text \<open>The bytes behind: all off in one and all on in the other.\<close>

definition full_host :: "byte list \<Rightarrow> byte list \<Rightarrow> bool" where
  "full_host f t \<longleftrightarrow> list_all2 (\<lambda>x y. x = 0 \<and> y = 0xff) f t"

text \<open>The number of bits of the network part, \<open>None\<close> if the range is no network; the outer \<open>None\<close> is a loop without end.\<close>

fun network_bits :: "byte list \<Rightarrow> byte list \<Rightarrow> nat \<Rightarrow> nat option option" where
  "network_bits (x # f) (y # t) nnet =
     (if x = y then network_bits f t (nnet + 8)
      else if x = 0 \<and> y = 0xff then Some (if full_host (x # f) (y # t) then Some nnet else None)
      else map_option (\<lambda>(fb, tb, k). if fb = 0 \<and> tb = 0xff \<and> full_host f t then Some k else None) (common_bits 8 x y nnet))"
| "network_bits _ _ nnet = Some (Some nnet)"

definition rangetosubnet :: "ip_address \<Rightarrow> ip_address \<Rightarrow> (string + ip_subnet) option" where
  "rangetosubnet from to =
     (if addrtypeof from \<noteq> addrtypeof to then Some (Inl ''mismatched address types'')
      else if addrlenof from = 0 then Some (Inl ''unknown address type'')
      else if addrlenof from \<noteq> addrlenof to then Some (Inl ''internal size mismatch in rangetosubnet'')
      else map_option (\<lambda>r. case r of
             None \<Rightarrow> Inr (initrange from to)
           | Some nnet \<Rightarrow> (case initsubnet from nnet CHR ''x'' of Inl _ \<Rightarrow> Inr (initrange from to) | Inr s \<Rightarrow> Inr s))
         (network_bits (addrbytesptr from) (addrbytesptr to) 0))"

section \<open>Masks as numbers\<close>

text \<open>
  \<open>subnetof.c\<close> and \<open>goodmask.c\<close> work on the number of an address; \<open>unsigned long\<close> has 32 bits,
  as on the gateway.
\<close>

definition subnetof :: "32 word \<Rightarrow> 32 word \<Rightarrow> 32 word" where
  "subnetof addr m = addr AND m"

definition hostof :: "32 word \<Rightarrow> 32 word \<Rightarrow> 32 word" where
  "hostof addr m = addr AND NOT m"

definition broadcastof :: "32 word \<Rightarrow> 32 word \<Rightarrow> 32 word" where
  "broadcastof addr m = addr OR NOT m"

definition CRCS1B :: "32 word \<Rightarrow> 32 word" where
  "CRCS1B x = ((x OR (x - 1)) + 1) AND x"

definition goodmask :: "32 word \<Rightarrow> bool" where
  "goodmask x \<longleftrightarrow> x = 0 \<or> (CRCS1B x = 0 \<and> x AND push_bit 31 1 \<noteq> 0)"

text \<open>One step of the search: if the bits are on in \<open>m\<close>, \<open>len\<close> is added and \<open>m\<close> shifted.\<close>

definition search_step :: "32 word \<Rightarrow> nat \<Rightarrow> nat \<times> 32 word \<Rightarrow> nat \<times> 32 word" where
  "search_step bits len x = (case x of (masklen, m) \<Rightarrow>
     if m AND push_bit 1 bits \<noteq> 0 then (masklen + len, push_bit len m) else (masklen, m))"

definition masktobits :: "32 word \<Rightarrow> int" where
  "masktobits m =
     (if \<not> goodmask m then -1
      else if m AND 1 \<noteq> 0 then 32
      else int (fst (search_step 0x40000000 1 (search_step 0x30000000 2 (search_step 0x0f000000 4
             (search_step 0x00ff0000 8 (search_step 0x0000ffff 16 (0, m))))))))"

definition bitstomask :: "int \<Rightarrow> 32 word" where
  "bitstomask n =
     (if n > 0 \<and> n \<le> 32 then NOT (push_bit (nat (32 - n)) 1 - 1)
      else 0)"

end
