(* ===== verification/Ip_Subnet.thy ===== *)
theory Ip_Subnet
  imports Ip_Address
begin

text \<open>
  Networks as sets of numbers. The bytes of an address are read as a number; a comparison of
  the first bits of two addresses is a comparison of quotients by a power of two, and a
  network is an interval. On this rest the theorems: the tests of membership, inclusion and
  equality agree with each other, the conversion of a range keeps its addresses, the masks
  and their bit counts determine each other, and the comparison of addresses is an order.
\<close>

unbundle bit_operations_syntax

section \<open>Bytes and numbers\<close>

primrec val :: "byte list \<Rightarrow> nat" where
  "val [] = 0"
| "val (b # bs) = unat b * 256 ^ length bs + val bs"

lemma val_less: "val bs < 256 ^ length bs"
proof (induction bs)
  case (Cons b bs)
  have "unat b * 256 ^ length bs + val bs < (unat b + 1) * 256 ^ length bs" using Cons by simp
  also have "\<dots> \<le> 256 * 256 ^ length bs" using byte_less [of b] by (intro mult_le_mono1) simp
  finally show ?case by simp
qed simp

lemma val_append: "val (xs @ ys) = val xs * 256 ^ length ys + val ys"
  by (induction xs) (simp_all add: power_add algebra_simps)

lemma digits_eq_iff:
  fixes a b c d n :: nat
  assumes "a < n" "b < n"
  shows "c * n + a = d * n + b \<longleftrightarrow> c = d \<and> a = b"
  by (metis assms add.commute add_right_cancel div_mult_self1 div_less mod_less mod_mult_self1 gr_implies_not0 add_0_right)

lemma val_eq_iff: "length xs = length ys \<Longrightarrow> val xs = val ys \<longleftrightarrow> xs = ys"
proof (induction xs ys rule: list_induct2)
  case (Cons x xs y ys)
  then show ?case
    using digits_eq_iff [OF val_less [of xs] val_less [of ys, folded Cons.hyps], of "unat x" "unat y"]
    by (simp add: word_unat_eq_iff)
qed simp

lemma power_256: "(256 :: nat) ^ n = 2 ^ (8 * n)"
  by (simp add: power_mult)

text \<open>The first bits of a list of bytes.\<close>

lemma val_head:
  assumes "k < 8"
  shows "val (x # xs) div 2 ^ (8 * length (x # xs) - k) = unat x div 2 ^ (8 - k)"
proof -
  have "8 * length (x # xs) - k = 8 * length xs + (8 - k)" using assms by simp
  then have "val (x # xs) div 2 ^ (8 * length (x # xs) - k) = (unat x * 256 ^ length xs + val xs) div 256 ^ length xs div 2 ^ (8 - k)"
    by (simp only: power_add power_256 div_mult2_eq val.simps)
  also have "(unat x * 256 ^ length xs + val xs) div 256 ^ length xs = unat x" using val_less [of xs] by simp
  finally show ?thesis .
qed

lemma val_tail:
  assumes "j \<le> 8 * length xs"
  shows "val (x # xs) div 2 ^ j = unat x * 2 ^ (8 * length xs - j) + val xs div 2 ^ j"
    "val xs div 2 ^ j < 2 ^ (8 * length xs - j)"
proof -
  have p: "(256 :: nat) ^ length xs = 2 ^ (8 * length xs - j) * 2 ^ j" using assms by (simp add: power_256 flip: power_add)
  then show "val (x # xs) div 2 ^ j = unat x * 2 ^ (8 * length xs - j) + val xs div 2 ^ j"
    by (simp add: mult.assoc [symmetric])
  show "val xs div 2 ^ j < 2 ^ (8 * length xs - j)" using val_less [of xs] by (simp add: p less_mult_imp_div_less)
qed

section \<open>Bits of a byte\<close>

lemma host_mask: "k \<le> 8 \<Longrightarrow> drop_bit k (0xff :: byte) = mask (8 - k)"
proof -
  have "(0xff :: byte) = mask 8" by (simp add: mask_eq_exp_minus_1)
  moreover have "drop_bit k (mask 8 :: byte) = mask (8 - k)" if "k \<le> 8"
    using that by (intro bit_eqI) (auto simp: bit_drop_bit_eq bit_mask_iff)
  ultimately show "k \<le> 8 \<Longrightarrow> ?thesis" by (simp only:)
qed

lemma unat_network_bits: "unat (b AND NOT (mask j)) = unat b div 2 ^ j * 2 ^ j" for b :: "'a::len word"
proof -
  have "b AND NOT (mask j) = push_bit j (drop_bit j b)" by (rule bit_eqI) (auto simp: bit_simps)
  moreover have "unat (push_bit j (drop_bit j b)) = take_bit LENGTH('a) (push_bit j (drop_bit j (unat b)))"
    by (simp only: unsigned_push_bit_eq unat_drop_bit_eq)
  ultimately have "unat (b AND NOT (mask j)) = take_bit LENGTH('a) (unat b div 2 ^ j * 2 ^ j)"
    by (simp add: push_bit_eq_mult drop_bit_eq_div)
  also have "unat b div 2 ^ j * 2 ^ j < 2 ^ LENGTH('a)"
    by (rule order.strict_trans1 [OF div_times_less_eq_dividend unsigned_less])
  ultimately show ?thesis by (simp add: take_bit_nat_eq_self)
qed

lemma unat_host_bits: "unat (b AND mask j) = unat b mod 2 ^ j"
  by (simp only: take_bit_eq_mask [symmetric] unsigned_take_bit_eq) (simp add: take_bit_eq_mod)

lemma unat_mask: "j \<le> LENGTH('a) \<Longrightarrow> unat (mask j :: 'a::len word) = 2 ^ j - 1"
proof -
  assume "j \<le> LENGTH('a)"
  then have "unat (mask j :: 'a word) = mask j" by (intro bit_eqI) (auto simp: bit_unsigned_iff bit_mask_iff)
  then show ?thesis by (simp add: mask_eq_exp_minus_1)
qed

lemma same_head:
  assumes "0 < k" "k < 8"
  shows "x AND NOT (drop_bit k 0xff) = y AND NOT (drop_bit k 0xff) \<longleftrightarrow> unat x div 2 ^ (8 - k) = unat (y :: byte) div 2 ^ (8 - k)"
  using assms by (simp add: host_mask word_unat_eq_iff unat_network_bits)

lemma same_bits_val:
  "length xs = length ys \<Longrightarrow> k \<le> 8 * length ys \<Longrightarrow>
     same_bits xs ys k \<longleftrightarrow> val xs div 2 ^ (8 * length ys - k) = val ys div 2 ^ (8 * length ys - k)"
proof (induction xs ys k rule: same_bits.induct)
  case (1 x xs y ys k)
  show ?case
  proof (cases "k \<ge> 8")
    case True
    let ?j = "8 * length ys - (k - 8)"
    have j: "8 * length (y # ys) - k = ?j" using True by simp
    have tail: "val zs div 2 ^ ?j < 2 ^ (8 * length ys - ?j)" if "length zs = length ys" for zs
      using val_tail(2) [of ?j zs] that by simp
    have "same_bits (x # xs) (y # ys) k \<longleftrightarrow> x = y \<and> val xs div 2 ^ ?j = val ys div 2 ^ ?j"
      using 1 True by simp
    also have "\<dots> \<longleftrightarrow> val (x # xs) div 2 ^ ?j = val (y # ys) div 2 ^ ?j"
      using digits_eq_iff [OF tail [of xs] tail [of ys], of "unat x" "unat y"] 1(2)
      by (simp add: val_tail(1) word_unat_eq_iff del: val.simps)
    finally show ?thesis by (simp only: j)
  next
    case False
    then show ?thesis
      using val_head [of k x xs] val_head [of k y ys] 1(2) same_head [of k x y] byte_less [of x] byte_less [of y]
      by (cases "k = 0") (simp_all del: val.simps)
  qed
qed auto

section \<open>Numbers of four bytes\<close>

lemma ntohl_step:
  fixes w :: "32 word" and b :: byte
  assumes "unat w * 256 < 2 ^ 32"
  shows "unat (push_bit 8 w OR ucast b) = unat w * 256 + unat b"
proof -
  have "push_bit 8 w OR ucast b = push_bit 8 w + ucast b"
    by (rule disjunctive_add_eq_or [symmetric]) (auto simp: bit_eq_iff bit_simps dest: bit_imp_le_length)
  moreover have "unat (push_bit 8 w) = unat w * 256"
    using assms by (simp add: push_bit_eq_mult unat_word_ariths)
  moreover have "unat (ucast b :: 32 word) = unat b" by (simp add: unsigned_ucast_eq take_bit_nat_eq_self_iff order.strict_trans [OF byte_less])
  moreover have "unat w * 256 + unat b < 2 ^ 32"
  proof -
    have "unat w < 2 ^ 24" using assms by simp
    then show ?thesis using byte_less [of b] by simp
  qed
  ultimately show ?thesis by (simp add: unat_word_ariths)
qed

lemma four_bytes: "length bs = 4 \<longleftrightarrow> (\<exists>a b c d. bs = [a, b, c, d])"
  by (auto simp: length_Suc_conv numeral_eq_Suc)

lemma unat_ntohl: "length bs = 4 \<Longrightarrow> unat (ntohl bs) = val bs"
proof -
  let ?f = "\<lambda>w b. push_bit 8 w OR ucast b :: 32 word"
  assume "length bs = 4"
  then obtain a b c d where bs: "bs = [a, b, c, d]" by (auto simp: four_bytes)
  have 1: "unat (?f 0 a) = unat a" using ntohl_step [of 0 a] by simp
  have 2: "unat (?f (?f 0 a) b) = unat a * 256 + unat b"
    by (subst ntohl_step; simp only: 1; use byte_less [of a] in simp)
  have 3: "unat (?f (?f (?f 0 a) b) c) = (unat a * 256 + unat b) * 256 + unat c"
    by (subst ntohl_step; simp only: 2; use byte_less [of a] byte_less [of b] in simp)
  have 4: "unat (?f (?f (?f (?f 0 a) b) c) d) = ((unat a * 256 + unat b) * 256 + unat c) * 256 + unat d"
    by (subst ntohl_step; simp only: 3; use byte_less [of a] byte_less [of b] byte_less [of c] in simp)
  show ?thesis using 4 by (simp add: bs ntohl_def algebra_simps)
qed

lemma length_mask_bytes [simp]: "length (mask_bytes n b) = n"
  by (induction n b rule: mask_bytes.induct) auto

lemma ntohl_mask_bytes: "k \<le> 32 \<Longrightarrow> ntohl (mask_bytes 4 k) = NOT (mask (32 - k))"
proof -
  have "\<forall>k\<in>set [0..<33]. ntohl (mask_bytes 4 k) = NOT (mask (32 - k))" by code_simp
  then show "k \<le> 32 \<Longrightarrow> ?thesis" by (metis atLeastLessThan_upt atLeastLessThan_iff le0 less_Suc_eq_le numeral_eq_Suc eval_nat_numeral(3) semiring_norm(26,27))
qed

text \<open>A network whose host bits are off ends where its host bits are on.\<close>

lemma network_end:
  fixes a :: "32 word"
  assumes "2 ^ j dvd unat a" "j \<le> 32"
  shows "unat (a OR mask j) = unat a + (2 ^ j - 1)"
proof -
  have "a AND mask j = 0"
  proof -
    from assms(1) show ?thesis by (simp only: word_unat_eq_iff unat_host_bits dvd_imp_mod_0 unsigned_0)
  qed
  then have "a OR mask j = a + mask j" by (simp add: disjunctive_add_eq_or)
  moreover have "unat (mask j :: 32 word) = 2 ^ j - 1"
    using assms(2) by (simp add: unat_mask)
  moreover have "unat a + (2 ^ j - 1) < 2 ^ 32"
  proof -
    obtain q where q: "unat a = 2 ^ j * q" using assms(1) by auto
    have p: "(2 :: nat) ^ 32 = 2 ^ j * 2 ^ (32 - j)" using assms(2) by (simp flip: power_add)
    have "unat a < 2 ^ 32" using unsigned_less [of a] by simp
    then have "q < 2 ^ (32 - j)" by (simp only: q p nat_mult_less_cancel_disj)
    then have "2 ^ j * (q + 1) \<le> 2 ^ j * 2 ^ (32 - j)" by (intro mult_le_mono2) simp
    then show ?thesis unfolding p q by (simp add: algebra_simps) (use zero_less_power [of "2 :: nat" j] in linarith)
  qed
  ultimately show ?thesis by (simp add: unat_word_ariths)
qed

section \<open>Networks as intervals\<close>

text \<open>A version 4 address, and a network of them: host bits are off, a range is not empty.\<close>

definition ip4 :: "ip_address \<Rightarrow> bool" where
  "ip4 a \<longleftrightarrow> wf_address a \<and> sin_family a = AF_INET"

definition ip4_number :: "ip_address \<Rightarrow> 32 word" where
  "ip4_number a = ntohl (s_addr a)"

definition wf_subnet :: "ip_subnet \<Rightarrow> bool" where
  "wf_subnet s \<longleftrightarrow> (case s of
       Net a n \<Rightarrow> ip4 a \<and> n \<le> 32 \<and> 2 ^ (32 - n) dvd val (s_addr a)
     | Span f t \<Rightarrow> ip4 f \<and> ip4 t \<and> ip4_number f \<le> ip4_number t)"

lemma ip4_simps:
  assumes "ip4 a"
  shows "addrbytesptr a = s_addr a" "addrlenof a = 4" "addrtypeof a = AF_INET" "length (s_addr a) = 4"
    "unat (ip4_number a) = val (s_addr a)"
  using assms by (auto simp: ip4_def wf_address_def addrbytesptr_def addrlenof_def addrtypeof_def ip4_number_def unat_ntohl)

lemma maskof_ip4:
  assumes "ip4 a" "n \<le> 32"
  obtains m where "maskof a n dst = Some m" "ntohl (s_addr m) = NOT (mask (32 - n))"
  using assms ip4_simps [OF assms(1)]
  by (auto simp: maskof_def initaddr_def Let_def ntohl_mask_bytes)

lemma interval_of_quotient:
  fixes a x :: nat
  assumes "2 ^ j dvd a"
  shows "x div 2 ^ j = a div 2 ^ j \<longleftrightarrow> a \<le> x \<and> x \<le> a + (2 ^ j - 1)"
proof -
  obtain q where q: "a = 2 ^ j * q" using assms by auto
  have "x div 2 ^ j = q \<longleftrightarrow> 2 ^ j * q \<le> x \<and> x < 2 ^ j * Suc q"
    using div_nat_eqI [of "2 ^ j" q x] by (auto simp: mult.commute dividend_less_times_div intro: order.strict_trans2)
  also have "\<dots> \<longleftrightarrow> a \<le> x \<and> x \<le> a + (2 ^ j - 1)"
    using zero_less_power [of "2 :: nat" j] by (simp only: q mult_Suc_right) linarith
  finally show ?thesis by (simp add: q)
qed

lemma in_net_iff:
  assumes "wf_subnet (Net a n)" "ip4 x"
  shows "addrinsubnet x (Net a n) \<longleftrightarrow> val (s_addr a) \<le> val (s_addr x) \<and> val (s_addr x) \<le> val (s_addr a) + (2 ^ (32 - n) - 1)"
proof -
  from assms(1) have a: "ip4 a" "n \<le> 32" "2 ^ (32 - n) dvd val (s_addr a)" by (auto simp: wf_subnet_def)
  have "addrinsubnet x (Net a n) \<longleftrightarrow> same_bits (s_addr x) (s_addr a) n"
    using a(1,2) assms(2) by (simp add: addrinsubnet_def samenbits_def ip4_simps subnettypeof_def ip4_def [of a])
  also have "\<dots> \<longleftrightarrow> val (s_addr x) div 2 ^ (32 - n) = val (s_addr a) div 2 ^ (32 - n)"
    using same_bits_val [of "s_addr x" "s_addr a" n] a(1,2) assms(2) by (simp add: ip4_simps)
  finally show ?thesis by (simp only: interval_of_quotient [OF a(3)])
qed

lemma net_end:
  assumes "wf_subnet (Net a n)"
  shows "unat (ip4_number a OR mask (32 - n)) = val (s_addr a) + (2 ^ (32 - n) - 1)"
    "NET_TO_RANGE (Net a n) = Some (ip4_number a, ip4_number a OR mask (32 - n))"
    "subnet_end_get (Net a n) = Some (ip4_number a OR mask (32 - n))"
proof -
  from assms have a: "ip4 a" "n \<le> 32" "2 ^ (32 - n) dvd unat (ip4_number a)"
    by (auto simp: wf_subnet_def ip4_simps(5))
  show "unat (ip4_number a OR mask (32 - n)) = val (s_addr a) + (2 ^ (32 - n) - 1)"
    using network_end [OF a(3)] by (simp add: ip4_simps(5) [OF a(1)])
  obtain m where "maskof a n unwritten = Some m" "ntohl (s_addr m) = NOT (mask (32 - n))"
    by (rule maskof_ip4 [OF a(1,2)])
  then show "NET_TO_RANGE (Net a n) = Some (ip4_number a, ip4_number a OR mask (32 - n))"
    "subnet_end_get (Net a n) = Some (ip4_number a OR mask (32 - n))"
    by (simp_all add: NET_TO_RANGE_def subnet_end_get_def ip4_number_def)
qed

lemma network_interval:
  assumes "wf_subnet s" "ip4 x"
  obtains l h where "NET_TO_RANGE s = Some (l, h)" "subnet_end_get s = Some h"
    "l = ip4_number (SUBNET_ADDR_GET s)" "l \<le> h"
    "addrinsubnet x s \<longleftrightarrow> l \<le> ip4_number x \<and> ip4_number x \<le> h"
proof (cases s)
  case (Net a n)
  with assms have wf: "wf_subnet (Net a n)" and a: "ip4 a" by (simp_all add: wf_subnet_def)
  let ?h = "ip4_number a OR mask (32 - n)"
  have "ip4_number a \<le> ?h" by (simp only: word_le_nat_alt net_end(1) [OF wf] ip4_simps(5) [OF a] le_add1)
  moreover have "addrinsubnet x s \<longleftrightarrow> ip4_number a \<le> ip4_number x \<and> ip4_number x \<le> ?h"
    by (simp only: Net in_net_iff [OF wf assms(2)] word_le_nat_alt net_end(1) [OF wf] ip4_simps(5) [OF a] ip4_simps(5) [OF assms(2)])
  moreover have "ip4_number a = ip4_number (SUBNET_ADDR_GET s)" by (simp add: Net SUBNET_ADDR_GET_def)
  ultimately show thesis using net_end(2,3) [OF wf] Net by (intro that) simp_all
next
  case (Span f t)
  with assms show thesis
    using that [of "ip4_number f" "ip4_number t"]
    by (auto simp: wf_subnet_def NET_TO_RANGE_def subnet_end_get_def SUBNET_ADDR_GET_def addrinsubnet_def
        subnettypeof_def addrtypeof_def ip4_def ip4_number_def)
qed

text \<open>What membership in intervals gives for inclusion and equality.\<close>

locale interval_sets =
  fixes first last :: "'s \<Rightarrow> 'n::linorder" and num :: "'x \<Rightarrow> 'n"
    and mem :: "'x \<Rightarrow> 's \<Rightarrow> bool" and ok :: "'s \<Rightarrow> bool" and point :: "'x \<Rightarrow> bool"
  assumes mem_iff: "ok s \<Longrightarrow> point x \<Longrightarrow> mem x s \<longleftrightarrow> first s \<le> num x \<and> num x \<le> last s"
    and nonempty: "ok s \<Longrightarrow> first s \<le> last s"
    and every_number: "\<exists>x. point x \<and> num x = n"
begin

lemma subset_iff:
  assumes "ok a" "ok b"
  shows "(\<forall>x. point x \<longrightarrow> mem x a \<longrightarrow> mem x b) \<longleftrightarrow> first b \<le> first a \<and> last a \<le> last b"
proof
  assume sub: "\<forall>x. point x \<longrightarrow> mem x a \<longrightarrow> mem x b"
  obtain l where l: "point l" "num l = first a" using every_number by blast
  obtain h where h: "point h" "num h = last a" using every_number by blast
  show "first b \<le> first a \<and> last a \<le> last b"
    using sub l h mem_iff [OF assms(1)] mem_iff [OF assms(2)] nonempty [OF assms(1)] by auto
qed (use assms mem_iff in \<open>auto intro: order_trans\<close>)

lemma same_iff:
  assumes "ok a" "ok b"
  shows "(\<forall>x. point x \<longrightarrow> mem x a = mem x b) \<longleftrightarrow> first a = first b \<and> last a = last b"
  using subset_iff [OF assms] subset_iff [OF assms(2,1)] by (metis order.eq_iff)

end

lemma ntohl_surj: "\<exists>bs. length bs = 4 \<and> ntohl bs = n"
proof -
  let ?b = "word_of_nat :: nat \<Rightarrow> byte"
  let ?u = "unat n"
  let ?bs = "[?b (?u div 16777216), ?b (?u div 65536), ?b (?u div 256), ?b ?u]"
  have "?u < 2 ^ 32" by (rule order.strict_trans2 [OF unsigned_less]) simp
  then have "?u div 16777216 < 256" by (simp add: less_mult_imp_div_less)
  moreover have "unat (?b i) = i mod 256" for i by (simp add: unat_of_nat)
  ultimately have "val ?bs = ?u div 16777216 * 16777216 + ?u div 65536 mod 256 * 65536 + ?u div 256 mod 256 * 256 + ?u mod 256"
    by (simp only: val.simps list.size) simp
  also have "\<dots> = ?u"
  proof -
    have "?u div 65536 = ?u div 16777216 * 256 + ?u div 65536 mod 256"
      using div_mult2_eq [of ?u 65536 256] div_mult_mod_eq [of "?u div 65536" 256] by simp
    moreover have "?u div 256 = ?u div 65536 * 256 + ?u div 256 mod 256"
      using div_mult2_eq [of ?u 256 256] div_mult_mod_eq [of "?u div 256" 256] by simp
    moreover have "?u = ?u div 256 * 256 + ?u mod 256" by simp
    ultimately show ?thesis by linarith
  qed
  finally have "unat (ntohl ?bs) = ?u" by (subst unat_ntohl) simp_all
  then show ?thesis by (intro exI [of _ ?bs]) (simp add: word_unat_eq_iff)
qed

interpretation ip4_nets: interval_sets "\<lambda>s. fst (the (NET_TO_RANGE s))" "\<lambda>s. snd (the (NET_TO_RANGE s))"
  ip4_number addrinsubnet wf_subnet ip4
proof
  fix s x
  assume "wf_subnet s" "ip4 x"
  then show "addrinsubnet x s \<longleftrightarrow> fst (the (NET_TO_RANGE s)) \<le> ip4_number x \<and> ip4_number x \<le> snd (the (NET_TO_RANGE s))"
    by (rule network_interval) simp
next
  fix n
  obtain bs where "length bs = 4" "ntohl bs = n" using ntohl_surj by blast
  then show "\<exists>x. ip4 x \<and> ip4_number x = n"
    by (intro exI [of _ "\<lparr> sin_family = AF_INET, sin_port = 0, s_addr = bs, sin6_addr = replicate 16 0 \<rparr>"])
      (simp add: ip4_def wf_address_def ip4_number_def)
  then obtain x where x: "ip4 x" by blast
  fix s
  assume "wf_subnet s"
  then show "fst (the (NET_TO_RANGE s)) \<le> snd (the (NET_TO_RANGE s))"
    using x by (rule network_interval) simp
qed

section \<open>Making networks\<close>

lemma clear_host_val:
  "k < 8 \<Longrightarrow> (case clear_host die (drop_bit k 0xff) bs of
      None \<Rightarrow> die \<and> val bs mod 2 ^ (8 * length bs - k) \<noteq> 0
    | Some r \<Rightarrow> length r = length bs \<and> (die \<longrightarrow> r = bs) \<and>
        val r = val bs div 2 ^ (8 * length bs - k) * 2 ^ (8 * length bs - k))"
proof (induction bs arbitrary: k)
  case (Cons b bs)
  let ?m = "drop_bit k 0xff :: byte"
  let ?j = "8 * length (b # bs) - k"
  have m: "?m = mask (8 - k)" using Cons.prems by (simp add: host_mask)
  have j: "?j = 8 - k + 8 * length bs" "(2 :: nat) ^ ?j = 2 ^ (8 - k) * 256 ^ length bs"
    using Cons.prems by (simp_all add: power_256 flip: power_add)
  have off: "b AND ?m \<noteq> 0 \<longleftrightarrow> unat b mod 2 ^ (8 - k) \<noteq> 0"
    by (simp only: m word_unat_eq_iff unat_host_bits unsigned_0)
  have b': "unat (if b AND ?m \<noteq> 0 then b AND NOT ?m else b) = unat b div 2 ^ (8 - k) * 2 ^ (8 - k)"
    using off by (auto simp: m unat_network_bits)
  have val: "val (b # bs) div 2 ^ ?j = unat b div 2 ^ (8 - k)" by (rule val_head [OF Cons.prems])
  have tail: "case clear_host die 0xff bs of None \<Rightarrow> die \<and> val bs \<noteq> 0
      | Some r \<Rightarrow> length r = length bs \<and> (die \<longrightarrow> r = bs) \<and> val r = 0"
    using Cons.IH [of 0] val_less [of bs] by (simp add: power_256 split: option.splits)
  have zero: "val (b # bs) mod 2 ^ ?j = 0 \<longleftrightarrow> unat b mod 2 ^ (8 - k) = 0 \<and> val bs = 0"
  proof -
    have "val (b # bs) mod 2 ^ ?j = unat b mod 2 ^ (8 - k) * 256 ^ length bs + val bs"
      unfolding j(2) using val_less [of bs]
      by (subst mult.commute) (simp add: mod_mult2_eq)
    then show ?thesis by simp
  qed
  show ?case
  proof (cases "clear_host die (drop_bit k 0xff) (b # bs)")
    case None
    then show ?thesis using zero off tail by (auto split: if_splits option.splits simp del: val.simps)
  next
    case (Some r)
    then obtain r' where r: "clear_host die 0xff bs = Some r'" "r = (if b AND ?m \<noteq> 0 then b AND NOT ?m else b) # r'"
      "\<not> (b AND ?m \<noteq> 0 \<and> die)"
      by (auto split: if_splits)
    then have "val r = unat b div 2 ^ (8 - k) * (2 ^ (8 - k) * 256 ^ length bs)"
      using tail b' by (simp add: mult.assoc)
    then have "val r = val (b # bs) div 2 ^ ?j * 2 ^ ?j" by (simp only: val [unfolded j(2)] j(2))
    then show ?thesis using Some r tail by (auto simp: r(2))
  qed
qed simp


lemma with_bytes_simps [simp]:
  "addrtypeof (with_bytes a bs) = addrtypeof a"
  "addrbytesptr a \<noteq> [] \<Longrightarrow> addrbytesptr (with_bytes a bs) = bs"
  "with_bytes a (addrbytesptr a) = (if sin_family a = AF_INET \<or> sin_family a = AF_INET6 then a else a\<lparr> sin6_addr := [] \<rparr>)"
  by (auto simp: with_bytes_def addrtypeof_def addrbytesptr_def split: if_splits)

text \<open>A network made from an address: its first bits are those of the address, the others are off.\<close>

lemma initsubnet_cases:
  assumes p: "addrbytesptr addr \<noteq> []" and count: "count \<le> 8 * length (addrbytesptr addr)"
    and clash: "clash = CHR ''0'' \<or> clash = CHR ''x''"
  defines "j \<equiv> 8 * length (addrbytesptr addr) - count"
  obtains bs where "initsubnet addr count clash = Inr (Net (with_bytes addr bs) count)"
      "length bs = length (addrbytesptr addr)" "val bs = val (addrbytesptr addr) div 2 ^ j * 2 ^ j"
      "clash = CHR ''x'' \<Longrightarrow> bs = addrbytesptr addr"
    | "initsubnet addr count clash = Inl ''improper subnet, host-part bits on''"
      "clash = CHR ''x''" "val (addrbytesptr addr) mod 2 ^ j \<noteq> 0"
proof -
  let ?p = "addrbytesptr addr" and ?c = "count div 8" and ?k = "count mod 8"
  let ?net = "take ?c ?p" and ?host = "drop ?c ?p"
  have c: "?c \<le> length ?p" using count by simp
  have j: "j = 8 * length ?host - ?k" using c count by (simp add: j_def) presburger
  have "j \<le> 8 * length ?host" by (simp add: j)
  then obtain e where "8 * length ?host = e + j" by (metis le_add_diff_inverse2)
  then have e: "(256 :: nat) ^ length ?host = 2 ^ e * 2 ^ j" by (simp only: power_256 power_add)
  have split: "val ?p = val ?net * 2 ^ e * 2 ^ j + val ?host"
    using val_append [of ?net ?host] by (simp only: append_take_drop_id e mult.assoc)
  have m: "(if length ?p - ?c > 0 \<and> ?k \<noteq> 0 then drop_bit ?k 0xff else 0xff :: byte) = drop_bit ?k 0xff \<or> ?host = []"
    by auto
  have "initsubnet addr count clash = (case clear_host (clash = CHR ''x'') (drop_bit ?k 0xff) ?host of
       None \<Rightarrow> Inl ''improper subnet, host-part bits on''
     | Some bs \<Rightarrow> Inr (Net (with_bytes addr (?net @ bs)) count))"
    using p clash c m by (auto simp: initsubnet_def Let_def)
  note init = this and host = clear_host_val [of ?k "clash = CHR ''x''" ?host, folded j]
  show thesis
  proof (cases "clear_host (clash = CHR ''x'') (drop_bit ?k 0xff) ?host")
    case None
    with host split init show thesis by (intro that(2)) simp_all
  next
    case (Some bs)
    with host have bs: "length bs = length ?host" "clash = CHR ''x'' \<longrightarrow> bs = ?host" "val bs = val ?host div 2 ^ j * 2 ^ j"
      by simp_all
    have "val ?p div 2 ^ j = val ?net * 2 ^ e + val ?host div 2 ^ j" by (simp add: split)
    then have "val (?net @ bs) = val ?p div 2 ^ j * 2 ^ j"
      by (simp only: val_append bs(1,3) e) (simp add: algebra_simps)
    then show thesis
      using that(1) [of "?net @ bs"] Some bs c init by simp
  qed
qed


section \<open>Ranges that are networks\<close>

text \<open>Two numbers with the same bits from \<open>h\<close> on, below it all off in the first and all on in the second.\<close>

definition netpair :: "nat \<Rightarrow> nat \<Rightarrow> nat \<Rightarrow> bool" where
  "netpair h f t \<longleftrightarrow> f div 2 ^ h = t div 2 ^ h \<and> f mod 2 ^ h = 0 \<and> t mod 2 ^ h = 2 ^ h - 1"

lemma netpair_iff: "netpair h f t \<longleftrightarrow> 2 ^ h dvd f \<and> t = f + (2 ^ h - 1)"
proof
  assume n: "netpair h f t"
  then have "f = f div 2 ^ h * 2 ^ h" "t = f div 2 ^ h * 2 ^ h + (2 ^ h - 1)"
    unfolding netpair_def by (metis add.right_neutral div_mult_mod_eq) (metis div_mult_mod_eq n netpair_def)
  then show "2 ^ h dvd f \<and> t = f + (2 ^ h - 1)" by (metis dvd_triv_right)
next
  assume f: "2 ^ h dvd f \<and> t = f + (2 ^ h - 1)"
  define r where "r = (2 :: nat) ^ h - 1"
  have "r < 2 ^ h" by (simp add: r_def)
  moreover obtain q where "f = 2 ^ h * q" "t = 2 ^ h * q + r" using f by (auto simp: r_def)
  ultimately show "netpair h f t" by (simp add: netpair_def) (simp add: r_def)
qed

lemma netpair_0 [simp]: "netpair 0 f t \<longleftrightarrow> f = t"
  by (auto simp: netpair_def)

lemma netpair_self [simp]: "netpair i f f \<longleftrightarrow> i = 0"
proof (cases "i = 0")
  case False
  then have "1 < (2 :: nat) ^ i" using one_less_power [of "2 :: nat" i] by simp
  with False show ?thesis by (auto simp: netpair_iff)
qed simp

lemma byte_eq_iff: "x = y \<longleftrightarrow> (\<forall>m. bit x m = bit (y :: byte) m)"
  by (auto intro: bit_eqI)

lemma netpair_bits:
  fixes x y :: byte
  assumes that: "h \<le> 8"
  shows "netpair h (unat x) (unat y) \<longleftrightarrow> (\<forall>m. if m < h then \<not> bit x m \<and> bit y m else bit x m = bit y m)"
proof -
  have "unat x div 2 ^ h = unat y div 2 ^ h \<longleftrightarrow> drop_bit h x = drop_bit h y"
    by (simp only: word_unat_eq_iff unat_drop_bit_eq) (simp only: drop_bit_eq_div)
  moreover have "unat x mod 2 ^ h = 0 \<longleftrightarrow> take_bit h x = 0"
    by (simp only: word_unat_eq_iff unsigned_take_bit_eq unsigned_0) (simp only: take_bit_eq_mod)
  moreover have "unat y mod 2 ^ h = 2 ^ h - 1 \<longleftrightarrow> take_bit h y = mask h"
  proof -
    have "unat (mask h :: byte) = 2 ^ h - 1" using that unat_mask [of h, where 'a = 8] by simp
    then show ?thesis by (simp only: word_unat_eq_iff unsigned_take_bit_eq) (simp only: take_bit_eq_mod)
  qed
  moreover have "drop_bit h x = drop_bit h y \<longleftrightarrow> (\<forall>m. bit x (h + m) = bit y (h + m))"
    by (simp only: byte_eq_iff bit_drop_bit_eq comp_apply)
  moreover have "take_bit h x = 0 \<longleftrightarrow> (\<forall>m<h. \<not> bit x m)"
    by (simp only: byte_eq_iff bit_take_bit_iff bit_0_eq bot_apply bot_bool_def) blast
  moreover have "take_bit h y = mask h \<longleftrightarrow> (\<forall>m<h. bit y m)"
  proof -
    have "bit (mask h :: byte) m \<longleftrightarrow> m < h" for m using that by (auto simp: bit_mask_iff)
    then show ?thesis by (simp only: byte_eq_iff bit_take_bit_iff) blast
  qed
  ultimately have "netpair h (unat x) (unat y) \<longleftrightarrow>
      (\<forall>m. bit x (h + m) = bit y (h + m)) \<and> (\<forall>m<h. \<not> bit x m) \<and> (\<forall>m<h. bit y m)"
    by (simp only: netpair_def)
  then show ?thesis by (metis le_Suc_ex linorder_not_less not_add_less1)
qed


lemma bit_byte: "bit (z :: byte) m \<Longrightarrow> m < 8"
  using bit_imp_le_length [of z m] by simp

lemma common_bits_spec:
  assumes "i \<le> 8" "\<exists>m<i. bit fb m \<noteq> bit tb m"
  shows "\<exists>j<i. \<exists>fb' tb'. common_bits i fb tb c = Some (fb', tb', c + (i - Suc j)) \<and>
     bit fb j \<noteq> bit tb j \<and> (\<forall>m. j < m \<and> m < i \<longrightarrow> bit fb m = bit tb m) \<and>
     (\<forall>m. bit fb' m \<longleftrightarrow> bit fb m \<and> \<not> (j < m \<and> m < i)) \<and>
     (\<forall>m. bit tb' m \<longleftrightarrow> bit tb m \<or> (j < m \<and> m < i))"
  using assms
proof (induction i arbitrary: fb tb c)
  case (Suc i)
  let ?m = "push_bit i 1 :: byte"
  have m: "bit ?m n \<longleftrightarrow> n = i" for n using Suc.prems(1) by (simp only: push_bit_of_1 bit_exp_iff) auto
  have same: "fb AND ?m = tb AND ?m \<longleftrightarrow> bit fb i = bit tb i"
  proof -
    have "bit (z AND ?m) n \<longleftrightarrow> n = i \<and> bit z i" for z n by (simp only: bit_and_iff m) auto
    then show ?thesis by (simp only: byte_eq_iff) blast
  qed
  show ?case
  proof (cases "bit fb i = bit tb i")
    case True
    let ?f = "fb AND NOT ?m" and ?t = "tb OR ?m"
    have f: "bit ?f n \<longleftrightarrow> bit fb n \<and> n \<noteq> i" for n
      by (auto simp: bit_and_iff bit_not_iff m simp del: push_bit_of_1 dest: bit_imp_le_length)
    have t: "bit ?t n \<longleftrightarrow> bit tb n \<or> n = i" for n by (simp add: bit_or_iff m del: push_bit_of_1)
    have "\<exists>n<i. bit ?f n \<noteq> bit ?t n" using Suc.prems(2) True by (auto simp: f t less_Suc_eq simp del: push_bit_of_1)
    from Suc.IH [OF Suc_leD [OF Suc.prems(1)] this, of "Suc c"] obtain j fb' tb' where
      j: "j < i" "common_bits i ?f ?t (Suc c) = Some (fb', tb', Suc c + (i - Suc j))" "bit ?f j \<noteq> bit ?t j"
        "\<forall>m. j < m \<and> m < i \<longrightarrow> bit ?f m = bit ?t m"
        "\<forall>m. bit fb' m \<longleftrightarrow> bit ?f m \<and> \<not> (j < m \<and> m < i)" "\<forall>m. bit tb' m \<longleftrightarrow> bit ?t m \<or> (j < m \<and> m < i)"
      by (elim exE conjE) (rule that)
    have "common_bits (Suc i) fb tb c = Some (fb', tb', c + (Suc i - Suc j))"
      using j(1,2) True same by (simp add: Let_def Suc_diff_Suc)
    moreover have "bit fb j \<noteq> bit tb j" using j(1,3) by (simp only: f t) simp
    moreover have "\<forall>m. j < m \<and> m < Suc i \<longrightarrow> bit fb m = bit tb m"
      using j(4) True by (auto simp only: f t less_Suc_eq)
    moreover have "\<forall>m. bit fb' m \<longleftrightarrow> bit fb m \<and> \<not> (j < m \<and> m < Suc i)" using j(1,5) by (auto simp only: f less_Suc_eq)
    moreover have "\<forall>m. bit tb' m \<longleftrightarrow> bit tb m \<or> (j < m \<and> m < Suc i)" using j(1,6) by (auto simp only: t less_Suc_eq)
    ultimately show ?thesis using j(1) less_SucI by blast
  next
    case False
    with same have "common_bits (Suc i) fb tb c = Some (fb, tb, c + (Suc i - Suc i))" by (simp add: Let_def)
    with False show ?thesis by (intro exI [of _ i]) (simp only: option.inject prod.inject, auto)
  qed
qed simp

lemma common_bits_network:
  assumes "x \<noteq> y"
  obtains fb tb k where "common_bits 8 x y c = Some (fb, tb, k)"
    "fb = 0 \<and> tb = 0xff \<longleftrightarrow> (\<exists>h. 0 < h \<and> h \<le> 8 \<and> netpair h (unat x) (unat y))"
    "\<forall>h. 0 < h \<and> h \<le> 8 \<and> netpair h (unat x) (unat y) \<longrightarrow> k = c + (8 - h)"
proof -
  have "\<exists>m<8. bit x m \<noteq> bit y m" using assms by (simp only: byte_eq_iff) (metis bit_byte)
  from common_bits_spec [OF order.refl this, of c] obtain j fb tb where
    r: "j < 8" "common_bits 8 x y c = Some (fb, tb, c + (8 - Suc j))" "bit x j \<noteq> bit y j"
      "\<forall>m. j < m \<and> m < 8 \<longrightarrow> bit x m = bit y m"
      "\<forall>m. bit fb m \<longleftrightarrow> bit x m \<and> \<not> (j < m \<and> m < 8)" "\<forall>m. bit tb m \<longleftrightarrow> bit y m \<or> (j < m \<and> m < 8)"
    by (elim exE conjE) (rule that)
  have big: "\<not> bit (z :: byte) m" if "\<not> m < 8" for z m using that bit_byte [of z m] by auto
  have ff: "bit (0xff :: byte) m \<longleftrightarrow> m < 8" for m
  proof -
    have "(0xff :: byte) = mask 8" by (simp add: mask_eq_exp_minus_1)
    then show ?thesis by (simp only: bit_mask_iff) auto
  qed
  have found: "fb = 0 \<and> tb = 0xff \<longleftrightarrow> netpair (Suc j) (unat x) (unat y)"
  proof -
    have "fb = 0 \<longleftrightarrow> (\<forall>m. \<not> bit fb m)" by (simp only: byte_eq_iff bit_0_eq bot_apply bot_bool_def simp_thms)
    also have "\<dots> \<longleftrightarrow> (\<forall>m. m \<le> j \<longrightarrow> \<not> bit x m)" using r(5) big [of _ x] by (metis linorder_not_less)
    finally have "fb = 0 \<longleftrightarrow> (\<forall>m. m \<le> j \<longrightarrow> \<not> bit x m)" .
    moreover have "tb = 0xff \<longleftrightarrow> (\<forall>m. m \<le> j \<longrightarrow> bit y m)"
    proof -
      have "tb = 0xff \<longleftrightarrow> (\<forall>m. bit tb m \<longleftrightarrow> m < 8)" by (simp only: byte_eq_iff ff)
      also have "\<dots> \<longleftrightarrow> (\<forall>m. m \<le> j \<longrightarrow> bit y m)" using r(1,6) big [of _ y] by (metis linorder_not_less order.strict_trans2)
      finally show ?thesis .
    qed
    moreover have "bit x m = bit y m" if "\<not> m < Suc j" for m using that r(4) big [of m] by (cases "m < 8") auto
    ultimately show ?thesis using r(1) by (subst netpair_bits) (auto simp: less_Suc_eq_le)
  qed
  have unique: "h = Suc j" if h: "0 < h" "h \<le> 8" "netpair h (unat x) (unat y)" for h
  proof -
    have b: "\<forall>m. if m < h then \<not> bit x m \<and> bit y m else bit x m = bit y m" using h(3) netpair_bits [OF h(2)] by simp
    have "j < h" using b r(3) by metis
    moreover have "\<not> Suc j < h" using b r(4) h(2) by (metis lessI order.strict_trans2)
    ultimately show ?thesis by simp
  qed
  show thesis
  proof (rule that [OF r(2)])
    show "fb = 0 \<and> tb = 0xff \<longleftrightarrow> (\<exists>h. 0 < h \<and> h \<le> 8 \<and> netpair h (unat x) (unat y))"
      using found unique r(1) by (metis Suc_leI zero_less_Suc)
  qed (use unique in blast)
qed


lemma val_full: "val ts = 256 ^ length ts - 1 \<longleftrightarrow> list_all (\<lambda>b. b = 0xff) ts"
proof (induction ts)
  case (Cons b ts)
  define q r where "q = (256 :: nat) ^ length ts" and "r = (256 :: nat) ^ length ts - 1"
  have q: "r < q" "q = r + 1" by (simp_all add: q_def r_def)
  have "(256 :: nat) ^ length (b # ts) - 1 = 255 * q + r" using q by (simp flip: q_def)
  then have "val (b # ts) = 256 ^ length (b # ts) - 1 \<longleftrightarrow> unat b = 255 \<and> val ts = r"
    using digits_eq_iff [of "val ts" q r "unat b" 255] val_less [of ts] q(1) by (simp only: val.simps flip: q_def)
  also have "unat b = 255 \<longleftrightarrow> b = 0xff" by (simp add: word_unat_eq_iff)
  finally show ?case using Cons.IH by (simp add: r_def)
qed simp

lemma full_host_val:
  "length f = length t \<Longrightarrow> full_host f t \<longleftrightarrow> val f = 0 \<and> val t = 256 ^ length t - 1"
proof -
  have "val f = 0 \<longleftrightarrow> list_all (\<lambda>b. b = 0) f" by (induction f) (simp_all add: word_unat_eq_iff)
  then show "length f = length t \<Longrightarrow> ?thesis"
    by (simp only: val_full) (auto simp: full_host_def list_all2_conv_all_nth list_all_length)
qed

lemma netpair_low:
  assumes "length f = length t" "h \<le> 8 * length t"
  shows "netpair h (val (x # f)) (val (y # t)) \<longleftrightarrow> x = y \<and> netpair h (val f) (val t)"
proof -
  have m: "val (z # zs) mod 2 ^ h = val zs mod 2 ^ h" if "length zs = length t" for z zs
  proof -
    have "(256 :: nat) ^ length t = 2 ^ (8 * length t - h) * 2 ^ h" using assms(2) by (simp add: power_256 flip: power_add)
    then show ?thesis using that by (simp flip: mult.assoc)
  qed
  have d: "val (z # zs) div 2 ^ h = unat z * 2 ^ (8 * length t - h) + val zs div 2 ^ h"
    "val zs div 2 ^ h < 2 ^ (8 * length t - h)" if "length zs = length t" for z zs
    using val_tail(1) [of h zs z] val_tail(2) [of h zs] that assms(2) by simp_all
  show ?thesis
    using digits_eq_iff [OF d(2) [of f] d(2) [of t], of "unat x" "unat y"] assms(1)
    by (simp add: netpair_def m d(1) word_unat_eq_iff del: val.simps)
qed

lemma netpair_high:
  assumes "length f = length t" "0 < i" "i \<le> 8"
  shows "netpair (8 * length t + i) (val (x # f)) (val (y # t)) \<longleftrightarrow> netpair i (unat x) (unat y) \<and> full_host f t"
proof -
  let ?h = "8 * length t + i"
  define q where "q = (256 :: nat) ^ length t"
  have p: "(2 :: nat) ^ ?h = 2 ^ i * q" by (simp add: q_def power_256 power_add)
  have d: "val (z # zs) div 2 ^ ?h = unat z div 2 ^ i" if "length zs = length t" for z zs
    using val_head [of "8 - i" z zs] that assms(2,3) by (simp del: val.simps)
  have m: "val (z # zs) mod 2 ^ ?h = unat z mod 2 ^ i * q + val zs" "val zs < q" if "length zs = length t" for z zs
  proof -
    show l: "val zs < q" using val_less [of zs] that by (simp add: q_def)
    have "val (z # zs) = unat z * q + val zs" using that by (simp add: q_def)
    then show "val (z # zs) mod 2 ^ ?h = unat z mod 2 ^ i * q + val zs"
      using l by (simp only: p mult.commute [of "2 ^ i"] mod_mult2_eq) simp
  qed
  have full: "(2 :: nat) ^ ?h - 1 = (2 ^ i - 1) * q + (q - 1)"
  proof -
    have "0 < q" by (simp add: q_def)
    then have "q \<le> 2 ^ i * q" by simp
    with \<open>0 < q\<close> show ?thesis unfolding p diff_mult_distrib by simp
  qed
  have "val (x # f) mod 2 ^ ?h = 0 \<longleftrightarrow> unat x mod 2 ^ i = 0 \<and> val f = 0"
    using m(1) [of f x] assms(1) by (auto simp: q_def)
  moreover have "val (y # t) mod 2 ^ ?h = 2 ^ ?h - 1 \<longleftrightarrow> unat y mod 2 ^ i = 2 ^ i - 1 \<and> val t = q - 1"
    unfolding full m(1) [OF refl] by (rule digits_eq_iff) (use m(2) [of t] in simp_all)
  ultimately show ?thesis
    using d [of f x] d [of t y] full_host_val [OF assms(1)] assms(1) by (auto simp: netpair_def q_def simp del: val.simps)
qed

lemma network_bits_spec:
  "length f = length t \<Longrightarrow> \<exists>r. network_bits f t c = Some r \<and>
     (\<forall>k. r = Some k \<longleftrightarrow> (\<exists>h \<le> 8 * length t. k = c + (8 * length t - h) \<and> netpair h (val f) (val t)))"
proof (induction f t c rule: network_bits.induct)
  case (1 x f y t c)
  from 1(2) have len: "length f = length t" by simp
  let ?n = "8 * length t"
  have split: "(\<exists>h \<le> 8 * length (y # t). k = c + (8 * length (y # t) - h) \<and> netpair h (val (x # f)) (val (y # t))) \<longleftrightarrow>
     (if x = y then \<exists>h \<le> ?n. k = c + 8 + (?n - h) \<and> netpair h (val f) (val t)
      else full_host f t \<and> (\<exists>i. 0 < i \<and> i \<le> 8 \<and> k = c + (8 - i) \<and> netpair i (unat x) (unat y)))" for k
  proof -
    have parts: "(\<exists>h \<le> 8 * length (y # t). P h) \<longleftrightarrow> (\<exists>h \<le> ?n. P h) \<or> (\<exists>i. 0 < i \<and> i \<le> 8 \<and> P (?n + i))" for P
    proof -
      have "\<exists>i. 0 < i \<and> i \<le> 8 \<and> h = ?n + i" if "h \<le> 8 * length (y # t)" "\<not> h \<le> ?n" for h
        using that by (intro exI [of _ "h - ?n"]) auto
      then show ?thesis by fastforce
    qed
    have self: "\<not> netpair i (unat x) (unat y)" if "x = y" "0 < i" for i using that by simp
    have low: "k = c + (8 * length (y # t) - h) \<and> netpair h (val (x # f)) (val (y # t)) \<longleftrightarrow>
        x = y \<and> k = c + 8 + (?n - h) \<and> netpair h (val f) (val t)" if "h \<le> ?n" for h
      using netpair_low [OF len that, of x y] that by (auto simp del: val.simps)
    have high: "k = c + (8 * length (y # t) - (?n + i)) \<and> netpair (?n + i) (val (x # f)) (val (y # t)) \<longleftrightarrow>
        full_host f t \<and> k = c + (8 - i) \<and> netpair i (unat x) (unat y)" if "0 < i" "i \<le> 8" for i
      using netpair_high [OF len that, of x y] by (auto simp del: val.simps)
    show ?thesis by (subst parts) (use low high self in \<open>cases "x = y"; simp only: if_True if_False simp_thms; blast\<close>)
  qed
  show ?case
  proof (cases "x = y")
    case True
    with 1(1) [OF True] len split show ?thesis by (simp add: add.commute del: val.simps)
  next
    case False
    obtain fb tb k where cb: "common_bits 8 x y c = Some (fb, tb, k)"
      "fb = 0 \<and> tb = 0xff \<longleftrightarrow> (\<exists>h. 0 < h \<and> h \<le> 8 \<and> netpair h (unat x) (unat y))"
      "\<forall>h. 0 < h \<and> h \<le> 8 \<and> netpair h (unat x) (unat y) \<longrightarrow> k = c + (8 - h)"
      by (rule common_bits_network [OF False, where c = c])
    let ?r = "if fb = 0 \<and> tb = 0xff \<and> full_host f t then Some k else None"
    have "network_bits (x # f) (y # t) c = Some ?r"
    proof (cases "x = 0 \<and> y = 0xff")
      case True
      then have "netpair 8 (unat x) (unat y)" by (simp add: netpair_def)
      with cb(2) cb(3) [rule_format, of 8] have "fb = 0 \<and> tb = 0xff" "k = c" by auto
      with True False show ?thesis by (simp add: full_host_def)
    next
      case other: False
      with False cb(1) show ?thesis by (auto simp del: common_bits.simps)
    qed
    moreover have "?r = Some k' \<longleftrightarrow> full_host f t \<and> (\<exists>i. 0 < i \<and> i \<le> 8 \<and> k' = c + (8 - i) \<and> netpair i (unat x) (unat y))" for k'
      using cb(2,3) by auto
    ultimately show ?thesis using split False by simp
  qed
qed auto


section \<open>Properties\<close>

text \<open>
  C23: The tests on networks agree. For networks of version 4 addresses, given by a mask with
  the host bits off or by a range that is not empty: \<open>subnetinsubnet\<close> holds exactly if every
  address \<open>addrinsubnet\<close> finds in the first is in the second, and \<open>samesubnet\<close> exactly if both
  have the same addresses, whichever way each of them is given.
\<close>

theorem subnet_tests_agree:
  assumes "wf_subnet a" "wf_subnet b"
  shows "subnetinsubnet a b = Some (\<forall>x. ip4 x \<longrightarrow> addrinsubnet x a \<longrightarrow> addrinsubnet x b) \<and>
     samesubnet a b = Some (\<forall>x. ip4 x \<longrightarrow> addrinsubnet x a = addrinsubnet x b)"
proof -
  obtain x where x: "ip4 x" using ip4_nets.every_number by blast
  obtain l h where a: "NET_TO_RANGE a = Some (l, h)" "subnet_end_get a = Some h" "l = ip4_number (SUBNET_ADDR_GET a)"
    by (rule network_interval [OF assms(1) x])
  obtain l' h' where b: "NET_TO_RANGE b = Some (l', h')" "subnet_end_get b = Some h'" "l' = ip4_number (SUBNET_ADDR_GET b)"
    by (rule network_interval [OF assms(2) x])
  have "subnettypeof a = subnettypeof b"
    using assms by (auto simp: wf_subnet_def subnettypeof_def ip4_def split: ip_subnet.splits)
  then show ?thesis
    using a b ip4_nets.subset_iff [OF assms] ip4_nets.same_iff [OF assms]
    by (simp add: subnetinsubnet_def samesubnet_def ip4_number_def)
qed

text \<open>
  C24: \<open>rangetosubnet\<close> ends on every pair of version 4 addresses in order, and what it returns
  has exactly the addresses from the first to the last; it is a network with a mask exactly if
  there is one that has these addresses. So a range that is not a subnet is a success, a range:
  the manual page, \<open>rangetosubnet.3\<close>, and the table of expected results behind the function still
  have an error there.
\<close>

theorem rangetosubnet_exact:
  assumes "ip4 f" "ip4 t" "ip4_number f \<le> ip4_number t"
  shows "\<exists>s. rangetosubnet f t = Some (Inr s) \<and> wf_subnet s \<and>
     (\<forall>x. ip4 x \<longrightarrow> addrinsubnet x s = (ip4_number f \<le> ip4_number x \<and> ip4_number x \<le> ip4_number t)) \<and>
     (is_subnet s \<longleftrightarrow> (\<exists>a n. wf_subnet (Net a n) \<and>
        (\<forall>x. ip4 x \<longrightarrow> addrinsubnet x (Net a n) = (ip4_number f \<le> ip4_number x \<and> ip4_number x \<le> ip4_number t))))"
proof -
  note bytes = ip4_simps [OF assms(1)] ip4_simps [OF assms(2)]
  have span: "wf_subnet (Span f t)" "ip4 x \<Longrightarrow> addrinsubnet x (Span f t) = (ip4_number f \<le> ip4_number x \<and> ip4_number x \<le> ip4_number t)" for x
    using assms by (auto simp: wf_subnet_def addrinsubnet_def subnettypeof_def addrtypeof_def ip4_def ip4_number_def)
  obtain r where r: "network_bits (s_addr f) (s_addr t) 0 = Some r"
    "\<And>k. r = Some k \<longleftrightarrow> (\<exists>h \<le> 32. k = 32 - h \<and> netpair h (val (s_addr f)) (val (s_addr t)))"
    using network_bits_spec [of "s_addr f" "s_addr t" 0] bytes by auto
  have range: "rangetosubnet f t = Some (case r of None \<Rightarrow> Inr (Span f t)
     | Some n \<Rightarrow> (case initsubnet f n CHR ''x'' of Inl _ \<Rightarrow> Inr (Span f t) | Inr s \<Rightarrow> Inr s))"
    using bytes r(1) by (simp add: rangetosubnet_def initrange_def split: option.split sum.split)
  show ?thesis
  proof (cases r)
    case None
    have "\<not> (\<forall>x. ip4 x \<longrightarrow> addrinsubnet x (Net a n) = (ip4_number f \<le> ip4_number x \<and> ip4_number x \<le> ip4_number t))"
      if net: "wf_subnet (Net a n)" for a n
    proof
      assume "\<forall>x. ip4 x \<longrightarrow> addrinsubnet x (Net a n) = (ip4_number f \<le> ip4_number x \<and> ip4_number x \<le> ip4_number t)"
      then have "\<forall>x. ip4 x \<longrightarrow> addrinsubnet x (Net a n) = addrinsubnet x (Span f t)" using span(2) by simp
      then have "fst (the (NET_TO_RANGE (Net a n))) = fst (the (NET_TO_RANGE (Span f t))) \<and>
          snd (the (NET_TO_RANGE (Net a n))) = snd (the (NET_TO_RANGE (Span f t)))"
        by (rule ip4_nets.same_iff [OF net span(1), THEN iffD1])
      moreover have "NET_TO_RANGE (Span f t) = Some (ip4_number f, ip4_number t)"
        by (simp add: NET_TO_RANGE_def ip4_number_def)
      ultimately have "ip4_number a = ip4_number f \<and> ip4_number a OR mask (32 - n) = ip4_number t"
        by (auto simp: net_end(2) [OF net])
      moreover have a: "ip4 a" "2 ^ (32 - n) dvd val (s_addr a)" using net by (simp_all add: wf_subnet_def)
      ultimately have "val (s_addr f) = val (s_addr a)" "val (s_addr t) = val (s_addr a) + (2 ^ (32 - n) - 1)"
        using net_end(1) [OF net] ip4_simps(5) [OF assms(1)] ip4_simps(5) [OF assms(2)] ip4_simps(5) [OF a(1)] by metis+
      then have "netpair (32 - n) (val (s_addr f)) (val (s_addr t))" using a(2) by (simp only: netpair_iff)
      then show False using r(2) [of "32 - (32 - n)"] None by (metis diff_le_self option.distinct(1))
    qed
    with None range span show ?thesis by (intro exI [of _ "Span f t"]) (auto simp: is_subnet_def)
  next
    case (Some k)
    then obtain h where h: "h \<le> 32" "k = 32 - h" "netpair h (val (s_addr f)) (val (s_addr t))" using r(2) by blast
    then have net: "wf_subnet (Net f k)" using assms(1) by (simp add: wf_subnet_def netpair_iff)
    have "initsubnet f k CHR ''x'' = Inr (Net f k)"
      by (rule initsubnet_cases [of f k "CHR ''x''"])
        (use h bytes assms(1) in \<open>auto simp: netpair_def ip4_def with_bytes_def\<close>)
    moreover have "addrinsubnet x (Net f k) = (ip4_number f \<le> ip4_number x \<and> ip4_number x \<le> ip4_number t)" if "ip4 x" for x
      using in_net_iff [OF net that] h by (simp only: word_le_nat_alt bytes ip4_simps(5) [OF that]) (simp add: netpair_iff)
    ultimately show ?thesis using range Some net by (intro exI [of _ "Net f k"]) (auto simp: is_subnet_def)
  qed
qed


definition sample_address :: "byte list \<Rightarrow> ip_address" where
  "sample_address bs = \<lparr> sin_family = AF_INET, sin_port = 0, s_addr = bs, sin6_addr = replicate 16 0 \<rparr>"

lemmas sample_simps = sample_address_def wf_subnet_def ip4_def wf_address_def ip4_number_def word_le_nat_alt unat_ntohl

theorem subnet_tests_agree_witness:
  "subnetinsubnet (Span (sample_address [10, 0, 0, 4]) (sample_address [10, 0, 0, 7])) (Net (sample_address [10, 0, 0, 4]) 30) =
     Some (\<forall>x. ip4 x \<longrightarrow> addrinsubnet x (Span (sample_address [10, 0, 0, 4]) (sample_address [10, 0, 0, 7])) \<longrightarrow>
       addrinsubnet x (Net (sample_address [10, 0, 0, 4]) 30))"
proof -
  have "wf_subnet (Span (sample_address [10, 0, 0, 4]) (sample_address [10, 0, 0, 7]))" by (simp add: sample_simps)
  moreover have "wf_subnet (Net (sample_address [10, 0, 0, 4]) 30)" by (simp add: sample_simps)
  ultimately show ?thesis by (rule subnet_tests_agree [THEN conjunct1])
qed

theorem rangetosubnet_exact_witness:
  "rangetosubnet (sample_address [10, 0, 0, 4]) (sample_address [10, 0, 0, 7]) = Some (Inr (Net (sample_address [10, 0, 0, 4]) 30)) \<and>
   (\<exists>s. rangetosubnet (sample_address [10, 0, 0, 4]) (sample_address [10, 0, 0, 7]) = Some (Inr s) \<and> wf_subnet s)"
proof
  show "rangetosubnet (sample_address [10, 0, 0, 4]) (sample_address [10, 0, 0, 7]) = Some (Inr (Net (sample_address [10, 0, 0, 4]) 30))"
    by code_simp
  have "ip4 (sample_address [10, 0, 0, 4])" "ip4 (sample_address [10, 0, 0, 7])"
    "ip4_number (sample_address [10, 0, 0, 4]) \<le> ip4_number (sample_address [10, 0, 0, 7])" by (simp_all add: sample_simps)
  from rangetosubnet_exact [OF this]
  show "\<exists>s. rangetosubnet (sample_address [10, 0, 0, 4]) (sample_address [10, 0, 0, 7]) = Some (Inr s) \<and> wf_subnet s" by blast
qed

end
