(* ===== verification/Ip_Mask.thy ===== *)
theory Ip_Mask
  imports Ip_Subnet
begin

text \<open>
  Masks and bit counts determine each other, as bytes of an address (\<open>maskof\<close>, \<open>masktocount\<close>)
  and as numbers (\<open>bitstomask\<close>, \<open>masktobits\<close>), and \<open>goodmask\<close>, a test by word arithmetic,
  finds exactly the masks.
\<close>

unbundle bit_operations_syntax

section \<open>Masks as bytes\<close>

lemma shift_ones_add: "shift_ones b (n + m) = (fst (shift_ones b n), snd (shift_ones b n) + m)"
proof (induction b n rule: shift_ones.induct)
  case (1 b n)
  show ?case
  proof (cases "b AND 0x80 \<noteq> 0")
    case True
    with 1 show ?thesis by (subst (1 2 3) shift_ones.simps) simp
  next
    case False
    then show ?thesis by (subst (1 2 3) shift_ones.simps) simp
  qed
qed

lemma shift_ones_mask: "k < 8 \<Longrightarrow> shift_ones (push_bit (8 - k) 0xff) n = (0, n + k)"
proof -
  have "\<forall>k\<in>set [0..<8]. shift_ones (push_bit (8 - k) 0xff) 0 = (0, k)" by code_simp
  then show "k < 8 \<Longrightarrow> ?thesis" using shift_ones_add [of "push_bit (8 - k) 0xff" 0 n] by (simp del: upt.simps upt_rec_numeral push_bit_numeral)
qed

lemma shift_ones_zero: "shift_ones b n = (0, k) \<Longrightarrow> \<exists>i. i \<le> 8 \<and> k = n + i \<and> b = push_bit (8 - i) 0xff"
proof -
  have "\<forall>u\<in>set [0..<256]. (case shift_ones (word_of_nat u) 0 of (r, k) \<Rightarrow> r = 0 \<longrightarrow> k \<le> 8 \<and> word_of_nat u = (push_bit (8 - k) 0xff :: byte))"
    by code_simp
  moreover obtain u where "b = word_of_nat u" "u < 256" using byte_less [of b] by (metis of_nat_unat ucast_id)
  ultimately have "case shift_ones b 0 of (r, k) \<Rightarrow> r = 0 \<longrightarrow> k \<le> 8 \<and> b = push_bit (8 - k) 0xff"
    by (simp only: set_upt atLeastLessThan_iff le0 simp_thms Ball_def)
  then show "shift_ones b n = (0, k) \<Longrightarrow> ?thesis" using shift_ones_add [of b 0 n] by (auto split: prod.splits)
qed

lemma mask_byte_not_full: "k < 8 \<Longrightarrow> push_bit (8 - k) 0xff \<noteq> (0xff :: byte)"
proof -
  have "\<forall>k\<in>set [0..<8]. push_bit (8 - k) 0xff \<noteq> (0xff :: byte)" by code_simp
  then show "k < 8 \<Longrightarrow> ?thesis" by simp
qed

lemma mask_byte_not_zero: "0 < k \<Longrightarrow> k \<le> 8 \<Longrightarrow> push_bit (8 - k) 0xff \<noteq> (0 :: byte)"
proof -
  have "\<forall>k\<in>set [1..<9]. push_bit (8 - k) 0xff \<noteq> (0 :: byte)" by code_simp
  then show "0 < k \<Longrightarrow> k \<le> 8 \<Longrightarrow> ?thesis" by simp
qed

text \<open>The bytes of a mask: full ones, at most one in between, zeros.\<close>

lemma mask_bytes_shape:
  "k \<le> 8 * n \<Longrightarrow> mask_bytes n k = replicate (k div 8) 0xff @
     (if k div 8 = n then [] else (if k mod 8 = 0 then 0 else push_bit (8 - k mod 8) 0xff) # replicate (n - k div 8 - 1) 0)"
proof (induction n k rule: mask_bytes.induct)
  case (2 n k)
  show ?case
  proof (cases "k \<ge> 8")
    case True
    then have "k div 8 = Suc ((k - 8) div 8)" "k mod 8 = (k - 8) mod 8" by (simp_all add: le_div_geq le_mod_geq)
    with 2 True show ?thesis by simp
  qed (simp add: div_less)
qed simp

definition mask_middle :: "nat \<Rightarrow> byte list \<Rightarrow> (nat \<times> byte list) option" where
  "mask_middle n p = (case p of
       b # q \<Rightarrow> if b \<noteq> 0 then (case shift_ones b n of (r, k) \<Rightarrow> if r \<noteq> 0 then None else Some (k, q)) else Some (n, p)
     | [] \<Rightarrow> Some (n, []))"

lemma masktocount_cases:
  assumes "addrbytesptr a \<noteq> []"
  defines "f \<equiv> length (takeWhile (\<lambda>b. b = 0xff) (addrbytesptr a))"
  shows "masktocount a = (case mask_middle (8 * f) (dropWhile (\<lambda>b. b = 0xff) (addrbytesptr a)) of
       None \<Rightarrow> -1
     | Some (k, q) \<Rightarrow> if list_all (\<lambda>b. b = 0) q then int k else -1)"
  using assms(1) by (auto simp: masktocount_def mask_middle_def f_def Let_def list_all_iff dropWhile_eq_Nil_conv
      split: list.splits prod.splits)

lemma while_replicate:
  "takeWhile (\<lambda>b. b = c) (replicate j c @ ys) = replicate j c @ takeWhile (\<lambda>b. b = c) ys"
  "dropWhile (\<lambda>b. b = c) (replicate j c @ ys) = dropWhile (\<lambda>b. b = c) ys"
  by (induction j) simp_all

lemma masktocount_mask:
  assumes "addrbytesptr a = mask_bytes n k" "n \<noteq> 0" "k \<le> 8 * n"
  shows "masktocount a = int k"
proof -
  let ?m = "if k mod 8 = 0 then 0 else push_bit (8 - k mod 8) 0xff :: byte"
  let ?rest = "if k div 8 = n then [] else ?m # replicate (n - k div 8 - 1) 0"
  have m: "?m \<noteq> 0xff" using mask_byte_not_full [of "k mod 8"] by simp
  have b: "addrbytesptr a = replicate (k div 8) 0xff @ ?rest" using assms mask_bytes_shape by simp
  have ne: "addrbytesptr a \<noteq> []" using assms(1,2) by (metis length_0_conv length_mask_bytes)
  have f: "takeWhile (\<lambda>b. b = 0xff) (addrbytesptr a) = replicate (k div 8) 0xff"
    "dropWhile (\<lambda>b. b = 0xff) (addrbytesptr a) = ?rest"
    unfolding b while_replicate using m by simp_all
  have "mask_middle (8 * (k div 8)) ?rest = Some (k, replicate (n - k div 8 - (if k mod 8 = 0 then 0 else 1)) 0)"
  proof (cases "k mod 8 = 0")
    case True
    then show ?thesis
    proof (cases "k div 8 = n")
      case False
      then obtain d where "n - k div 8 = Suc d" using assms(3) by (cases "n - k div 8") auto
      moreover have "8 * (k div 8) = k" using True by auto
      ultimately show ?thesis using True False by (simp add: mask_middle_def)
    qed (auto simp: mask_middle_def)
  next
    case False
    moreover have "k div 8 \<noteq> n" using False assms(3) div_mult_mod_eq [of k 8] by (metis add_le_same_cancel1 le_zero_eq mult.commute)
    moreover have "8 * (k div 8) + k mod 8 = k" by simp
    ultimately show ?thesis
      using shift_ones_mask [of "k mod 8" "8 * (k div 8)"] mask_byte_not_zero [of "k mod 8"] by (simp add: mask_middle_def)
  qed
  then show ?thesis unfolding masktocount_cases [OF ne] f by (simp add: list_all_iff)
qed

section \<open>Masks as numbers\<close>

lemma bitstomask_table:
  "k \<le> 32 \<Longrightarrow> goodmask (bitstomask (int k)) \<and> masktobits (bitstomask (int k)) = int k"
proof -
  have "\<forall>k\<in>set [0..<33]. goodmask (bitstomask (int k)) \<and> masktobits (bitstomask (int k)) = int k"
    by code_simp
  then show "k \<le> 32 \<Longrightarrow> ?thesis" by (simp only: set_upt) (auto simp: less_Suc_eq_le)
qed

lemma word32_eq_iff: "x = y \<longleftrightarrow> (\<forall>m. bit x m = bit (y :: 32 word) m)"
  by (auto intro: bit_eqI)

lemma lowest_bit:
  fixes x :: "32 word"
  assumes "x \<noteq> 0"
  obtains p where "p < 32" "bit x p" "2 ^ p dvd unat x" "(x OR (x - 1)) + 1 = x + push_bit p 1"
proof -
  define p where "p = (LEAST p. bit x p)"
  have "\<exists>p. bit x p" using assms by (simp only: word32_eq_iff bit_0_eq bot_apply bot_bool_def) blast
  then have p: "bit x p" unfolding p_def by (rule LeastI_ex)
  have low: "\<not> bit x m" if "m < p" for m using that not_less_Least by (auto simp: p_def)
  define b where "b = (push_bit p 1 :: 32 word)"
  define y where "y = x AND NOT b"
  have bit_b: "bit b m \<longleftrightarrow> m = p" for m
    unfolding b_def using bit_imp_le_length [OF p] by (simp only: push_bit_of_1 bit_exp_iff) auto
  have bit_m: "bit (mask p :: 32 word) m \<longleftrightarrow> m < p" for m using bit_imp_le_length [OF p] by (auto simp: bit_mask_iff)
  have bit_y: "bit y m \<longleftrightarrow> bit x m \<and> m \<noteq> p" for m
    unfolding y_def by (auto simp: bit_and_iff bit_not_iff bit_b dest: bit_imp_le_length)
  note bits = word32_eq_iff bit_and_iff bit_or_iff bit_0_eq bot_apply bot_bool_def bit_b bit_m bit_y
  have "y AND b = 0" by (simp only: bits) blast
  moreover have "x = y OR b" using p by (simp only: bits) blast
  ultimately have "x = y + b" by (simp only: disjunctive_add_eq_or)
  then have x1: "x - 1 = y + mask p" by (simp add: b_def mask_eq_exp_minus_1 algebra_simps)
  have "y AND mask p = 0" using low by (simp only: bits) blast
  then have "x OR (x - 1) = x OR (y OR mask p)" by (simp only: x1 disjunctive_add_eq_or)
  moreover have "x OR (y OR mask p) = x OR mask p" by (simp only: bits) blast
  moreover have m0: "x AND mask p = 0" using low by (simp only: bits) blast
  ultimately have "x OR (x - 1) = x + mask p" by (simp only: disjunctive_add_eq_or)
  then have "(x OR (x - 1)) + 1 = x + push_bit p 1" by (simp add: mask_eq_exp_minus_1)
  moreover have "2 ^ p dvd unat x"
    using m0 unat_host_bits [of x p] by (simp add: mod_eq_0_iff_dvd)
  ultimately show thesis using that p bit_imp_le_length [OF p] by simp
qed

lemma goodmask_is_mask:
  assumes "goodmask x"
  obtains k where "k \<le> 32" "x = bitstomask (int k)"
proof (cases "x = 0")
  case True
  then show thesis using that [of 0] by (simp add: bitstomask_def)
next
  case False
  obtain p where p: "p < 32" "bit x p" "2 ^ p dvd unat x" "(x OR (x - 1)) + 1 = x + push_bit p 1"
    by (rule lowest_bit [OF False])
  let ?s = "x + push_bit p 1"
  have and0: "?s AND x = 0" and top: "x AND push_bit 31 1 \<noteq> 0" using assms False by (simp_all add: goodmask_def CRCS1B_def p(4))
  have b31: "bit z 31 \<longleftrightarrow> 2 ^ 31 \<le> unat z" for z :: "32 word"
  proof -
    have "unat z < 2 ^ 32" using unsigned_less [of z] by simp
    then have "unat z div 2 ^ 31 = (if 2 ^ 31 \<le> unat z then 1 else 0)" by (simp add: div_nat_eqI)
    moreover have "bit z 31 \<longleftrightarrow> odd (unat z div 2 ^ 31)" 
    proof -
      have "bit z 31 \<longleftrightarrow> bit (unat z) 31" by (simp add: bit_unsigned_iff)
      then show ?thesis by (simp add: bit_iff_odd)
    qed
    ultimately show ?thesis by (simp split: if_splits)
  qed
  have "bit x 31"
  proof (rule ccontr)
    assume "\<not> bit x 31"
    moreover have "bit (push_bit 31 1 :: 32 word) m \<longleftrightarrow> m = 31" for m by (simp only: push_bit_of_1 bit_exp_iff) auto
    ultimately have "x AND push_bit 31 1 = 0"
      by (simp only: word32_eq_iff bit_and_iff bit_0_eq bot_apply bot_bool_def) blast
    with top show False by simp
  qed
  have u: "unat (push_bit p 1 :: 32 word) = 2 ^ p" using power_strict_increasing [OF p(1), of "2 :: nat"] p(1) by (simp only: unsigned_push_bit_eq) (simp add: push_bit_eq_mult take_bit_nat_eq_self)
  have "\<not> unat x + 2 ^ p < 2 ^ 32"
  proof
    assume "unat x + 2 ^ p < 2 ^ 32"
    then have "unat ?s = unat x + 2 ^ p" by (simp add: unat_word_ariths u [unfolded push_bit_of_1])
    with \<open>bit x 31\<close> have "bit ?s 31" by (simp only: b31)
    with \<open>bit x 31\<close> have "bit (?s AND x) 31" by (simp only: bit_and_iff)
    with and0 show False by simp
  qed
  moreover have "unat x + 2 ^ p \<le> 2 ^ 32"
  proof -
    obtain q where q: "unat x = 2 ^ p * q" using p(3) by auto
    have e: "(2 :: nat) ^ 32 = 2 ^ p * 2 ^ (32 - p)" using p(1) by (simp flip: power_add)
    have "unat x < 2 ^ 32" using unsigned_less [of x] by simp
    then have "q < 2 ^ (32 - p)" by (simp only: q e nat_mult_less_cancel_disj)
    then have "2 ^ p * (q + 1) \<le> 2 ^ p * 2 ^ (32 - p)" by (intro mult_le_mono2) simp
    then show ?thesis by (simp only: q e) (simp add: algebra_simps)
  qed
  ultimately have "unat x + 2 ^ p = 2 ^ 32" by simp
  then have "?s = 0" by (simp add: word_unat_eq_iff unat_word_ariths u [unfolded push_bit_of_1])
  then have "x = - push_bit p 1" by (simp add: eq_neg_iff_add_eq_0)
  then have "x = bitstomask (int (32 - p))"
    using p(1) by (simp add: bitstomask_def not_eq_complement of_nat_diff)
  then show thesis using that [of "32 - p"] by simp
qed


lemma masktocount_found:
  assumes "masktocount a \<noteq> -1"
  obtains k where "masktocount a = int k" "k \<le> 8 * addrlenof a" "addrbytesptr a = mask_bytes (addrlenof a) k"
proof -
  have ne: "addrbytesptr a \<noteq> []" using assms by (auto simp: masktocount_def Let_def)
  let ?bs = "addrbytesptr a"
  define f rest where "f = length (takeWhile (\<lambda>b. b = 0xff) ?bs)" and "rest = dropWhile (\<lambda>b. b = 0xff) ?bs"
  have bs: "?bs = replicate f 0xff @ rest"
    unfolding f_def rest_def by (subst takeWhile_dropWhile_id [symmetric], rule arg_cong2 [of _ _ _ _ append])
      (auto intro!: replicate_eqI dest: set_takeWhileD)
  have full: "rest = b # q \<Longrightarrow> b \<noteq> 0xff" for b q unfolding rest_def by (auto simp: dropWhile_eq_Cons_conv)
  from assms masktocount_cases [OF ne] obtain k q where
    k: "mask_middle (8 * f) rest = Some (k, q)" "list_all (\<lambda>b. b = 0) q" "masktocount a = int k"
    by (auto simp: f_def rest_def split: option.splits if_splits)
  have zeros: "q = replicate (length q) 0" using k(2) by (auto intro!: replicate_eqI simp: list_all_iff)
  have len: "addrlenof a = f + length rest" using bs by (simp add: addrlenof_def)
  have "k \<le> 8 * addrlenof a \<and> ?bs = mask_bytes (addrlenof a) k"
  proof (cases rest)
    case Nil
    with k(1) have "k = 8 * f" by (simp add: mask_middle_def)
    with Nil bs len show ?thesis by (simp add: mask_bytes_shape del: mask_bytes.simps)
  next
    case (Cons b q')
    show ?thesis
    proof (cases "b = 0")
      case True
      with Cons k(1) have "k = 8 * f" "q = rest" by (auto simp: mask_middle_def)
      with Cons bs len zeros show ?thesis by (simp add: mask_bytes_shape del: mask_bytes.simps)
    next
      case False
      with Cons k(1) have "shift_ones b (8 * f) = (0, k)" and q: "q = q'"
        by (auto simp: mask_middle_def split: prod.splits if_splits)
      then obtain i where i: "i \<le> 8" "k = 8 * f + i" "b = push_bit (8 - i) 0xff" using shift_ones_zero by blast
      have "i \<noteq> 8" using full [OF Cons] i(3) by auto
      moreover have "i \<noteq> 0"
      proof
        assume "i = 0"
        then have "b = push_bit 8 0xff" using i(3) by simp
        with False show False by simp
      qed
      ultimately have "k div 8 = f" "k mod 8 = i" using i(1,2) by auto
      with Cons bs len i q zeros \<open>i \<noteq> 0\<close> show ?thesis by (simp add: mask_bytes_shape del: mask_bytes.simps)
    qed
  qed
  with k(3) show thesis using that by blast
qed


section \<open>Properties\<close>

text \<open>
  C25: Masks and bit counts determine each other. For an address of either family \<open>maskof\<close>
  gives for every bit count it can have the mask from which \<open>masktocount\<close> reads the count
  again, and what \<open>masktocount\<close> does not refuse is the mask of the count it returns; as numbers,
  \<open>masktobits\<close> undoes \<open>bitstomask\<close>, and \<open>goodmask\<close> accepts exactly what \<open>bitstomask\<close> gives.
\<close>

theorem masks_round_trip:
  "(\<forall>a n dst. wf_address a \<and> addrlenof a \<noteq> 0 \<and> n \<le> 8 * addrlenof a \<longrightarrow>
      (\<exists>m. maskof a n dst = Some m \<and> masktocount m = int n)) \<and>
   (\<forall>m. masktocount m \<noteq> -1 \<longrightarrow>
      (\<exists>n \<le> 8 * addrlenof m. masktocount m = int n \<and> addrbytesptr m = mask_bytes (addrlenof m) n)) \<and>
   (\<forall>n. 0 \<le> n \<and> n \<le> 32 \<longrightarrow> masktobits (bitstomask n) = n) \<and>
   (\<forall>x. goodmask x \<longleftrightarrow> (\<exists>n. 0 \<le> n \<and> n \<le> 32 \<and> x = bitstomask n))"
proof (intro conjI allI impI)
  fix a dst and n
  assume a: "wf_address a \<and> addrlenof a \<noteq> 0 \<and> n \<le> 8 * addrlenof a"
  then have fam: "addrlenof a = 4 \<and> addrtypeof a = AF_INET \<or> addrlenof a = 16 \<and> addrtypeof a = AF_INET6 \<and> AF_INET6 \<noteq> AF_INET"
    by (auto simp: wf_address_def addrlenof_def addrbytesptr_def addrtypeof_def split: if_splits)
  then obtain m where m: "maskof a n dst = Some m" "addrbytesptr m = mask_bytes (addrlenof a) n"
    using a by (auto simp: maskof_def initaddr_def Let_def addrbytesptr_def)
  with masktocount_mask [OF m(2)] a show "\<exists>m. maskof a n dst = Some m \<and> masktocount m = int n" by auto
next
  fix m
  assume "masktocount m \<noteq> -1"
  then show "\<exists>n \<le> 8 * addrlenof m. masktocount m = int n \<and> addrbytesptr m = mask_bytes (addrlenof m) n"
    by (rule masktocount_found) blast
next
  fix n :: int
  assume "0 \<le> n \<and> n \<le> 32"
  then show "masktobits (bitstomask n) = n" using bitstomask_table [of "nat n"] by (simp add: nat_le_iff)
next
  fix x
  show "goodmask x \<longleftrightarrow> (\<exists>n. 0 \<le> n \<and> n \<le> 32 \<and> x = bitstomask n)"
  proof
    assume "goodmask x"
    then show "\<exists>n. 0 \<le> n \<and> n \<le> 32 \<and> x = bitstomask n"
    proof (rule goodmask_is_mask)
      fix k
      assume "k \<le> 32" "x = bitstomask (int k)"
      then show ?thesis by (intro exI [of _ "int k"]) simp
    qed
  next
    assume "\<exists>n. 0 \<le> n \<and> n \<le> 32 \<and> x = bitstomask n"
    then obtain n where "0 \<le> n" "n \<le> 32" "x = bitstomask n" by blast
    then show "goodmask x" using bitstomask_table [of "nat n"] by (simp add: nat_le_iff)
  qed
qed


theorem masks_round_trip_witness:
  "(\<exists>m. maskof (sample_address [10, 0, 0, 0]) 20 unwritten = Some m \<and> masktocount m = 20) \<and> masktobits (bitstomask 20) = 20 \<and>
   goodmask (bitstomask 20)"
proof (intro conjI)
  have "wf_address (sample_address [10, 0, 0, 0])" "addrlenof (sample_address [10, 0, 0, 0]) = 4"
    by (simp_all add: sample_address_def wf_address_def addrlenof_def addrbytesptr_def)
  then show "\<exists>m. maskof (sample_address [10, 0, 0, 0]) 20 unwritten = Some m \<and> masktocount m = 20"
    using masks_round_trip [THEN conjunct1, rule_format, of "sample_address [10, 0, 0, 0]" 20 unwritten] by simp
  show "masktobits (bitstomask 20) = 20"
    by (rule masks_round_trip [THEN conjunct2, THEN conjunct2, THEN conjunct1, rule_format]) simp
  show "goodmask (bitstomask 20)"
    by (rule masks_round_trip [THEN conjunct2, THEN conjunct2, THEN conjunct2, rule_format, THEN iffD2]) (intro exI [of _ 20], simp)
qed

end
