(* ===== verification/Ip_Text.thy ===== *)
theory Ip_Text
  imports Ip_Address Str_Util
begin

text \<open>
  Numbers and addresses as text (\<open>ultot.c\<close>, \<open>ttoul.c\<close>, \<open>addrtot.c\<close>, \<open>ttoaddr.c\<close>, \<open>subnettot.c\<close>
  of \<open>src/core0/pkg/freeswan/lib\<close>). A text given with its length is the list of its
  characters; pointers into it are what is left of it. A function that prints returns the size
  it needs, with the null character, and what it wrote into a buffer of the given size, none
  if the size is 0. \<open>unsigned long\<close> has 32 bits. The answers of the name services are
  parameters.
\<close>

unbundle bit_operations_syntax

section \<open>Numbers\<close>

definition hex :: string where "hex = ''0123456789abcdef''"

definition uchex :: string where "uchex = ''0123456789ABCDEF''"

text \<open>The loops that write the digits from the last to the first.\<close>

fun digits_text :: "nat \<Rightarrow> nat \<Rightarrow> string" where
  "digits_text base n =
     (if base < 2 then [] else if n < base then [hex ! n] else digits_text base (n div base) @ [hex ! (n mod base)])"

declare digits_text.simps [simp del]

text \<open>The text of a number for a base, which may be a character; \<open>None\<close> for a base that is not known.\<close>

definition ultot_text :: "nat \<Rightarrow> nat \<Rightarrow> string option" where
  "ultot_text n base =
     (if base = 10 \<or> base = of_char CHR ''d'' then Some (digits_text 10 n)
      else if base = 16 then Some (digits_text 16 n)
      else if base = 17 then Some (replicate (8 - length (digits_text 16 n)) CHR ''0'' @ digits_text 16 n)
      else if base = of_char CHR ''x'' then Some (''0x'' @ digits_text 16 n)
      else if base = 8 then Some (digits_text 8 n)
      else if base = of_char CHR ''o'' then Some (CHR ''0'' # digits_text 8 n)
      else None)"

text \<open>What is written of a text into a buffer of a size.\<close>

definition written_text :: "string \<Rightarrow> nat \<Rightarrow> string option" where
  "written_text t dstlen = (if dstlen > 0 then Some (take (dstlen - 1) t) else None)"

definition ultot :: "nat \<Rightarrow> nat \<Rightarrow> nat \<Rightarrow> nat \<times> string option" where
  "ultot n base dstlen = (case ultot_text n base of
       None \<Rightarrow> (0, None)
     | Some t \<Rightarrow> (length t + 1, written_text t dstlen))"

definition ultoa :: "nat \<Rightarrow> nat \<Rightarrow> nat \<Rightarrow> nat \<times> string option" where
  "ultoa n base dstlen = (let t =
       (if base = 10 then digits_text 10 n
        else if base = 16 then ''0x'' @ digits_text 16 n
        else if base = 8 then CHR ''0'' # digits_text 8 n
        else ''?'')
     in (length t + 1, written_text t dstlen))"

text \<open>
  The value of a hexadecimal digit as the search for it in the table gives it; the null
  character is found at its end.
\<close>

definition hex_digit :: "char \<Rightarrow> nat option" where
  "hex_digit c =
     (if c \<in> set hex then Some (length (takeWhile (\<lambda>d. d \<noteq> c) hex))
      else if c = NUL then Some 16
      else if c \<in> set uchex then Some (length (takeWhile (\<lambda>d. d \<noteq> c) uchex))
      else None)"

fun hex_loop :: "string \<Rightarrow> 32 word \<Rightarrow> 32 word option" where
  "hex_loop [] r = Some r"
| "hex_loop (c # cs) r = (case hex_digit c of None \<Rightarrow> None | Some d \<Rightarrow> hex_loop cs (push_bit 4 r OR word_of_nat d))"

text \<open>\<open>ULONG_MAX\<close> is \<open>rlimit * base + dlimit\<close>.\<close>

fun dec_loop :: "nat \<Rightarrow> string \<Rightarrow> nat \<Rightarrow> string + nat" where
  "dec_loop base [] r = Inr r"
| "dec_loop base (c # cs) r = (let d = int (of_char c) - 48; rlimit = (2 ^ 32 - 1) div base; dlimit = (2 ^ 32 - 1) - rlimit * base in
     if d < 0 \<or> d \<ge> int base then Inl ''non-digit in number''
     else if r > rlimit \<or> (r = rlimit \<and> nat d > dlimit) then Inl ''unsigned-long overflow''
     else dec_loop base cs (r * base + nat d))"

definition ttoul_base :: "string \<Rightarrow> nat \<Rightarrow> string + nat" where
  "ttoul_base src base =
     (if src = [] then Inl ''empty string''
      else if base \<noteq> 8 \<and> base \<noteq> 10 \<and> base \<noteq> 16 then Inl ''unsupported number base''
      else if base = 16 then
        (case hex_loop src 0 of
           None \<Rightarrow> Inl ''non-hex digit in hex number''
         | Some r \<Rightarrow> if length src > 8 then Inl ''hex number too long'' else Inr (unat r))
      else dec_loop base src 0)"

definition ttoul :: "string \<Rightarrow> nat \<Rightarrow> string + nat" where
  "ttoul src base =
     (if src = [] then Inl ''empty string''
      else if base = 0 then
        if length src > 2 \<and> hd src = CHR ''0'' \<and> (src ! 1 = CHR ''x'' \<or> src ! 1 = CHR ''X'') then ttoul_base (drop 2 src) 16
        else if length src > 1 \<and> hd src = CHR ''0'' then ttoul_base (drop 1 src) 8
        else ttoul_base src 10
      else ttoul_base src base)"

section \<open>Addresses to text\<close>

text \<open>The text of a number written to a place of the buffer where it has the given room.\<close>

definition number_text :: "nat \<Rightarrow> nat \<Rightarrow> nat \<Rightarrow> string" where
  "number_text base room n = (case snd (ultot n base room) of None \<Rightarrow> [] | Some t \<Rightarrow> t)"

definition PERBYTE :: nat where "PERBYTE = 4"

definition normal4 :: "byte list \<Rightarrow> string" where
  "normal4 b = number_text 10 PERBYTE (unat (b ! 0)) @ ''.'' @ number_text 10 PERBYTE (unat (b ! 1)) @ ''.'' @
     number_text 10 PERBYTE (unat (b ! 2)) @ ''.'' @ number_text 10 PERBYTE (unat (b ! 3))"

definition pieces :: "byte list \<Rightarrow> nat list" where
  "pieces b = map (\<lambda>i. unat (b ! (2 * i)) * 256 + unat (b ! (2 * i + 1))) [0..<8]"

definition pieces_text :: "nat list \<Rightarrow> string" where
  "pieces_text ps = concat (map (\<lambda>p. number_text 16 5 p @ '':'') ps)"

text \<open>The loop that passes over further zero pieces.\<close>

fun skip_zeros :: "string \<Rightarrow> string" where
  "skip_zeros (c # d # cs) = (if c = CHR ''0'' \<and> d = CHR '':'' then skip_zeros cs else c # d # cs)"
| "skip_zeros s = s"

definition normal6 :: "byte list \<Rightarrow> string" where
  "normal6 b = (let buf = '':'' @ pieces_text (pieces b) in
     case strstr buf '':0:0:'' of
       Some q \<Rightarrow> (let
           squished = take (q + 1) buf @ '':'' @ skip_zeros (drop (q + 1) buf);
           final = (if last squished = CHR '':'' \<and> last (butlast squished) = CHR '':'' then squished else butlast squished)
         in if final ! 0 = CHR '':'' \<and> final ! 1 = CHR '':'' then final else tl final)
     | None \<Rightarrow> tl (butlast buf))"

definition reverse4 :: "byte list \<Rightarrow> string" where
  "reverse4 b = concat (map (\<lambda>i. number_text 10 PERBYTE (unat (b ! i)) @ ''.'') [3, 2, 1, 0]) @ ''IN-ADDR.ARPA.''"

definition reverse62 :: "byte list \<Rightarrow> string" where
  "reverse62 b = concat (map (\<lambda>x. number_text 16 2 (unat (x AND 0xf)) @ ''.'' @ number_text 16 2 (unat (drop_bit 4 x)) @ ''.'') (rev b)) @
     ''IP6.INT.''"

text \<open>\<open>datatot\<close> with the format 16 writes two digits for every byte.\<close>

definition hex_bytes :: "byte list \<Rightarrow> string" where
  "hex_bytes b = concat (map (\<lambda>x. [hex ! unat (drop_bit 4 x), hex ! unat (x AND 0xf)]) b)"

definition reverse6 :: "byte list \<Rightarrow> string" where
  "reverse6 b = [char_of (92 :: nat)] @ ''[x'' @ hex_bytes b @ ''].IP6.ARPA.''"

definition addrtot_text :: "ip_address \<Rightarrow> char option \<Rightarrow> string option" where
  "addrtot_text src format = (let b = addrbytesptr src; t = addrtypeof src in
     if b = [] then None
     else if t = AF_INET \<and> format = None then Some (normal4 b)
     else if t = AF_INET6 \<and> format = None then Some (normal6 b)
     else if t = AF_INET \<and> format = Some CHR ''r'' then Some (reverse4 b)
     else if t = AF_INET6 \<and> format = Some CHR ''r'' then Some (reverse6 b)
     else if t = AF_INET6 \<and> format = Some CHR ''R'' then Some (reverse62 b)
     else None)"

definition addrtot :: "ip_address \<Rightarrow> char option \<Rightarrow> nat \<Rightarrow> nat \<times> string option" where
  "addrtot src format dstlen = (case addrtot_text src format of
       None \<Rightarrow> (0, None)
     | Some t \<Rightarrow> (length t + 1, written_text t dstlen))"

definition ADDRTOT_BUF :: nat where "ADDRTOT_BUF = 32 * 2 + 3 + 1 + 3 + 1 + 1"


text \<open>Undefined where an address of an unknown family makes it write before the buffer.\<close>

definition subnettot :: "ip_subnet \<Rightarrow> char option \<Rightarrow> nat \<Rightarrow> (nat \<times> string option) option" where
  "subnettot sub format dstlen =
     (if format \<noteq> None then Some (0, None)
      else let
        (len, t) = addrtot (SUBNET_ADDR_GET sub) format dstlen;
        rest = (if len < dstlen then dstlen - len else 0);
        (len', t') = (case sub of Net _ n \<Rightarrow> ultoa n 10 rest | Span _ to \<Rightarrow> addrtot to format rest);
        sep = (if is_subnet sub then ''/'' else ''-'')
      in if len = 0 \<and> dstlen > 0 then None
      else Some (len + len',
        if len < dstlen then map_option (\<lambda>x. x @ sep @ (case t' of None \<Rightarrow> [] | Some x' \<Rightarrow> x')) t else t))"

section \<open>Text to addresses\<close>

text \<open>The loop of \<open>getbyte\<close>.\<close>

fun byte_loop :: "string \<Rightarrow> nat \<Rightarrow> nat \<times> string" where
  "byte_loop [] no = (no, [])"
| "byte_loop (c # cs) no = (if no \<le> 255 \<and> isdigit c then byte_loop cs (no * 10 + (of_char c - 48)) else (no, c # cs))"

definition getbyte :: "string \<Rightarrow> string + nat \<times> string" where
  "getbyte src =
     (if src = [] then Inl ''?empty number in dotted-decimal address''
      else case byte_loop src 0 of (no, p) \<Rightarrow>
        if p = src then Inl ''?non-numeric component in dotted-decimal address''
        else if no > 255 then Inl ''byte overflow in dotted-decimal address''
        else Inr (no, p))"

text \<open>The loop of \<open>trydotted\<close>; the first argument is the number of bytes still to come.\<close>

fun dotted_loop :: "nat \<Rightarrow> string \<Rightarrow> byte list \<Rightarrow> string + byte list \<times> string" where
  "dotted_loop 0 src buf = Inr (buf, src)"
| "dotted_loop (Suc k) src buf =
     (if src = [] then Inr (buf, [])
      else case getbyte src of
        Inl ugh \<Rightarrow> Inl (if hd ugh \<noteq> CHR ''?'' then ugh else if length buf > 1 then tl ugh else ugh)
      | Inr (no, p) \<Rightarrow>
          if length buf < 3 \<and> p \<noteq> [] then
            if hd p \<noteq> CHR ''.'' then
              Inl (if length buf = 0 then ''?syntax error in dotted-decimal address'' else ''syntax error in dotted-decimal address'')
            else dotted_loop k (tl p) (buf @ [word_of_nat no])
          else dotted_loop k p (buf @ [word_of_nat no]))"

definition trydotted :: "string \<Rightarrow> ip_address \<Rightarrow> string + ip_address" where
  "trydotted src dst = (case dotted_loop 4 src [] of
       Inl ugh \<Rightarrow> Inl ugh
     | Inr (buf, p) \<Rightarrow>
         if p \<noteq> [] then Inl ''extra garbage on end of dotted-decimal address''
         else initaddr (buf @ replicate (4 - length buf) 0) AF_INET dst)"

text \<open>The text \<open>:\<close> as a complaint means that the field is empty.\<close>

definition getpiece :: "string \<Rightarrow> string + nat \<times> string" where
  "getpiece src =
     (if src = [] \<or> hd src = CHR '':'' then Inl '':''
      else let d = length (takeWhile isxdigit (take 4 src)) in
      if d = 0 then Inl ''non-hex field in IPv6 numeric address''
      else if d = 4 \<and> length src > 4 \<and> isxdigit (src ! 4) then Inl ''field in IPv6 numeric address longer than 4 hex digits''
      else case ttoul (take d src) 16 of
        Inl ugh \<Rightarrow> Inl ugh
      | Inr ret \<Rightarrow> Inr (ret, drop d src))"

text \<open>
  The loop of \<open>colon\<close>: the pieces read so far, where an empty field was seen, and what is left
  of the text.
\<close>

fun colon_loop :: "nat \<Rightarrow> string \<Rightarrow> nat list \<Rightarrow> nat option \<Rightarrow> string + nat list \<times> nat option \<times> string" where
  "colon_loop 0 src ps gapat = Inr (ps, gapat, src)"
| "colon_loop (Suc k) src ps gapat =
     (if src = [] then Inr (ps, gapat, [])
      else let
        field = (case getpiece src of
            Inl ugh \<Rightarrow>
              if hd ugh = CHR '':'' then
                if gapat \<noteq> None then Inl ''more than one :: in IPv6 numeric address''
                else Inr (0, src, Some (length ps))
              else Inl ugh
          | Inr (piece, p) \<Rightarrow> Inr (piece, p, gapat))
      in case field of
        Inl ugh \<Rightarrow> Inl ugh
      | Inr (piece, p, gap) \<Rightarrow>
          if k > 0 then
            if p = [] \<and> gap = None then Inl ''IPv6 numeric address ends prematurely''
            else if p \<noteq> [] \<and> hd p \<noteq> CHR '':'' then Inl ''syntax error in IPv6 numeric address''
            else colon_loop k (tl p) (ps @ [piece]) gap
          else colon_loop k p (ps @ [piece]) gap)"

definition piece_bytes :: "nat list \<Rightarrow> byte list" where
  "piece_bytes ps = concat (map (\<lambda>p. [word_of_nat (p div 256), word_of_nat (p mod 256)]) ps)"

text \<open>The pieces behind the empty field moved to the end, zeros between.\<close>

definition close_gap :: "nat list \<Rightarrow> nat \<Rightarrow> nat list" where
  "close_gap ps gap = take gap ps @ replicate (8 - (length ps - 1)) 0 @ drop (gap + 1) ps"

definition colon_fields :: "string \<Rightarrow> ip_address \<Rightarrow> string + ip_address" where
  "colon_fields s dst =
     (if last s = CHR '':'' \<and> (length s = 1 \<or> s ! (length s - 2) \<noteq> CHR '':'')
      then Inl ''illegal trailing `:' in IPv6 numeric address''
      else case colon_loop 8 s [] None of
        Inl ugh \<Rightarrow> Inl ugh
      | Inr (ps, gapat, p) \<Rightarrow>
          if p \<noteq> [] then Inl ''extra garbage on end of IPv6 numeric address''
          else case gapat of
            None \<Rightarrow> if length ps < 8 then Inl ''incomplete IPv6 numeric address (internal error)''
              else initaddr (piece_bytes ps) AF_INET6 dst
          | Some g \<Rightarrow> if length ps = 8 then Inl ''non-abbreviating empty field in IPv6 numeric address''
              else initaddr (piece_bytes (close_gap ps g)) AF_INET6 dst)"

definition colon :: "string \<Rightarrow> ip_address \<Rightarrow> string + ip_address" where
  "colon src dst =
     (if hd src = CHR '':'' then
        if length src = 1 \<or> src ! 1 \<noteq> CHR '':'' then Inl ''illegal leading `:' in IPv6 numeric address''
        else if length src = 2 then anyaddr AF_INET6 dst
        else colon_fields (tl src) dst
      else colon_fields src dst)"

text \<open>
  \<open>ttoaddr\<close> and \<open>tnatoaddr\<close>. The name services are the parameters \<open>hosts\<close> and \<open>nets\<close>: the
  family and the bytes of the address they know for a name. \<open>ends\<close> tells that the text is known
  to end with a null character, \<open>mem\<close> that memory is available, and \<open>little\<close> that the host
  has the bytes of a number in the order of increasing weight.
\<close>

definition namechars :: string where
  "namechars = ''abcdefghijklmnopqrstuvwxyz0123456789ABCDEFGHIJKLMNOPQRSTUVWXYZ-_.''"

record resolver =
  hosts :: "string \<Rightarrow> int \<Rightarrow> (int \<times> byte list) option"
  nets :: "string \<Rightarrow> (int \<times> byte list) option"

definition tryname :: "resolver \<Rightarrow> bool \<Rightarrow> bool \<Rightarrow> string \<Rightarrow> int \<Rightarrow> ip_address \<Rightarrow> string + ip_address" where
  "tryname res mem ends src af dst =
     (if \<exists>c \<in> set src. (of_char c :: nat) < 128 \<and> c \<noteq> NUL \<and> c \<notin> set namechars
      then Inl ''illegal (non-DNS-name) character in name''
      else if \<not> ends \<and> length src + 1 > 100 \<and> \<not> mem then Inl ''unable to get temporary space for name''
      else let cp = (if ends then src else takeWhile (\<lambda>c. c \<noteq> NUL) src) in
      case hosts res cp af of
        Some (t, b) \<Rightarrow>
          if t \<noteq> af then Inl ''address-type mismatch from gethostbyname2!!!'' else initaddr b af dst
      | None \<Rightarrow>
          (case (if af = AF_INET then nets res cp else None) of
             None \<Rightarrow> Inl ''does not look numeric and name lookup failed''
           | Some (t, b) \<Rightarrow>
               if t \<noteq> af then Inl ''address-type mismatch from getnetbyname!!!'' else initaddr b af dst))"

definition number_bytes :: "nat \<Rightarrow> byte list" where
  "number_bytes n = [word_of_nat (n div 2 ^ 24), word_of_nat (n div 2 ^ 16), word_of_nat (n div 2 ^ 8), word_of_nat n]"

definition tryhex :: "bool \<Rightarrow> string \<Rightarrow> bool \<Rightarrow> ip_address \<Rightarrow> string + ip_address" where
  "tryhex little src host_order dst =
     (if length src \<noteq> 8 then Inl ''internal error, tryhex called with bad length''
      else case ttoul src 16 of
        Inl ugh \<Rightarrow> Inl ugh
      | Inr ul \<Rightarrow> initaddr (if host_order \<and> little then rev (number_bytes ul) else number_bytes ul) AF_INET dst)"

definition tnatoaddr :: "string \<Rightarrow> int \<Rightarrow> ip_address \<Rightarrow> string + ip_address" where
  "tnatoaddr src af dst =
     (if src = [] then Inl ''empty string''
      else if af = AF_INET6 then colon src dst
      else if af = AF_INET then
        (case trydotted src dst of
           Inl ugh \<Rightarrow> Inl (if hd ugh \<noteq> CHR ''?'' then ugh else ''does not appear to be numeric address'')
         | Inr a \<Rightarrow> Inr a)
      else Inl ''unknown address family in tnatoaddr'')"

definition ttoaddr :: "resolver \<Rightarrow> bool \<Rightarrow> bool \<Rightarrow> bool \<Rightarrow> string \<Rightarrow> int \<Rightarrow> ip_address \<Rightarrow> string + ip_address" where
  "ttoaddr res little mem ends src af dst =
     (if src = [] then Inl ''empty string''
      else if af \<noteq> AF_INET \<and> af \<noteq> AF_INET6 then Inl ''invalid address family''
      else if af = AF_INET \<and> length src = 10 \<and> hd src = CHR ''0'' \<and> (src ! 1 = CHR ''x'' \<or> src ! 1 = CHR ''X'')
      then tryhex little (drop 2 src) False dst
      else if af = AF_INET \<and> length src = 10 \<and> hd src = CHR ''0'' \<and> (src ! 1 = CHR ''h'' \<or> src ! 1 = CHR ''H'')
      then tryhex little (drop 2 src) True dst
      else if CHR '':'' \<in> set src then
        if af \<noteq> AF_INET6 then Inl (''non-ipv6 address may not contain `:'' @ [char_of (39 :: nat)])
        else colon src dst
      else if af = AF_INET then
        (case trydotted src dst of
           Inr a \<Rightarrow> Inr a
         | Inl ugh \<Rightarrow> if hd ugh \<noteq> CHR ''?'' then Inl ugh else tryname res mem ends src af dst)
      else tryname res mem ends src af dst)"

end
