(* ===== verification/Ip_Text_Numbers.thy ===== *)
theory Ip_Text_Numbers
  imports Ip_Text
begin

text \<open>Numbers printed by \<open>ultot\<close>, and read back by \<open>ttoul\<close>, \<open>getbyte\<close> and \<open>getpiece\<close>.\<close>

unbundle bit_operations_syntax

section \<open>Digits\<close>

lemma dec_digits: "k < 10 \<Longrightarrow> isdigit (hex ! k) \<and> of_char (hex ! k) = 48 + k"
proof -
  have "\<forall>k\<in>set [0..<10]. isdigit (hex ! k) \<and> of_char (hex ! k) = 48 + k" by code_simp
  then show "k < 10 \<Longrightarrow> ?thesis" by simp
qed

lemma hex_digits: "k < 16 \<Longrightarrow> isxdigit (hex ! k) \<and> hex_digit (hex ! k) = Some k \<and> hex ! k \<noteq> CHR '':'' \<and> hex ! k \<noteq> CHR ''.''"
proof -
  have "\<forall>k\<in>set [0..<16]. isxdigit (hex ! k) \<and> hex_digit (hex ! k) = Some k \<and> hex ! k \<noteq> CHR '':'' \<and> hex ! k \<noteq> CHR ''.''" by code_simp
  then show "k < 16 \<Longrightarrow> ?thesis" by simp
qed

lemma digits_text_short: "2 \<le> base \<Longrightarrow> n < base \<Longrightarrow> digits_text base n = [hex ! n]"
  by (simp add: digits_text.simps)

lemma digits_text_long:
  "2 \<le> base \<Longrightarrow> base \<le> n \<Longrightarrow> digits_text base n = digits_text base (n div base) @ [hex ! (n mod base)]"
  by (subst digits_text.simps) simp

lemma digits_induct [case_names short long]:
  fixes base n :: nat
  assumes "2 \<le> base" "\<And>n. n < base \<Longrightarrow> P n" "\<And>n. base \<le> n \<Longrightarrow> P (n div base) \<Longrightarrow> P n"
  shows "P n"
proof (induction n rule: less_induct)
  case (less n)
  show ?case
  proof (cases "n < base")
    case False
    then have "n div base < n" using assms(1) by (intro div_less_dividend) linarith+
    from less [OF this] show ?thesis using assms(3) [of n] False by simp
  qed (rule assms(2))
qed

lemmas dec_induct_digits = digits_induct [of 10, simplified, case_names short long]
lemmas hex_induct_digits = digits_induct [of 16, simplified, case_names short long]

lemma digits_text_not_empty: "2 \<le> base \<Longrightarrow> digits_text base n \<noteq> []"
  by (cases "n < base") (simp_all add: digits_text_short digits_text_long)

lemma length_digits_text: "2 \<le> base \<Longrightarrow> n < base ^ Suc k \<Longrightarrow> length (digits_text base n) \<le> Suc k"
proof (induction k arbitrary: n)
  case (Suc k)
  show ?case
  proof (cases "n < base")
    case False
    have "n div base < base ^ Suc k" using Suc.prems by (simp add: less_mult_imp_div_less mult.commute)
    with Suc False show ?thesis by (simp add: digits_text_long)
  qed (use Suc in \<open>simp add: digits_text_short\<close>)
qed (simp add: digits_text_short)

lemma set_digits_text:
  assumes "2 \<le> base" "c \<in> set (digits_text base n)"
  shows "\<exists>k < base. c = hex ! k"
  using assms(2)
proof (induction n rule: digits_induct [OF assms(1)])
  case (1 n)
  then show ?case using assms(1) by (auto simp: digits_text_short)
next
  case (2 n)
  then have "c \<in> set (digits_text base (n div base)) \<or> c = hex ! (n mod base)" using assms(1) by (auto simp: digits_text_long)
  moreover have "n mod base < base" using assms(1) by simp
  ultimately show ?case using 2(2) by blast
qed

lemma number_text_fits:
  assumes "base = 10 \<or> base = 16" "n < base ^ Suc k" "room = k + 2"
  shows "number_text base room n = digits_text base n"
proof -
  have "length (digits_text base n) \<le> Suc k" using assms(1,2) by (intro length_digits_text) auto
  then show ?thesis using assms(1,3) by (auto simp: number_text_def ultot_def ultot_text_def written_text_def)
qed

section \<open>Reading\<close>

lemma byte_loop_digits: "n div 10 \<le> 255 \<Longrightarrow> byte_loop (digits_text 10 n @ rest) 0 = byte_loop rest n"
proof (induction n arbitrary: rest rule: dec_induct_digits)
  case (short n)
  then show ?case using dec_digits [of n] by (simp add: digits_text_short)
next
  case (long n)
  then have "n div 10 div 10 \<le> 255" by (meson div_le_dividend le_trans)
  with long dec_digits [of "n mod 10"] show ?case by (simp add: digits_text_long)
qed

lemma getbyte_digits:
  assumes "n \<le> 255" "rest = [] \<or> \<not> isdigit (hd rest)"
  shows "getbyte (digits_text 10 n @ rest) = Inr (n, rest)"
proof -
  have "byte_loop rest n = (n, rest)" using assms(2) by (cases rest) auto
  moreover have "n div 10 \<le> 255" using assms(1) by simp
  ultimately show ?thesis
    using assms(1) digits_text_not_empty [of 10 n] by (simp add: getbyte_def byte_loop_digits)
qed

lemma push_digit: "d < 16 \<Longrightarrow> push_bit 4 (word_of_nat m) OR word_of_nat d = (word_of_nat (m * 16 + d) :: 32 word)"
proof -
  assume d: "d < 16"
  have "\<forall>d\<in>set [0..<16]. take_bit 4 (word_of_nat d) = (word_of_nat d :: 32 word)" by code_simp
  with d have t: "take_bit 4 (word_of_nat d) = (word_of_nat d :: 32 word)" by simp
  have "push_bit 4 x AND take_bit 4 y = 0" for x y :: "32 word"
    by (rule bit_eqI) (auto simp: bit_and_iff bit_push_bit_iff bit_take_bit_iff)
  then have "push_bit 4 (word_of_nat m) AND word_of_nat d = (0 :: 32 word)" by (metis t)
  then have "push_bit 4 (word_of_nat m) OR word_of_nat d = push_bit 4 (word_of_nat m) + (word_of_nat d :: 32 word)"
    by (simp only: disjunctive_add_eq_or)
  then show ?thesis by (simp add: push_bit_eq_mult)
qed

lemma hex_loop_digits: "hex_loop (digits_text 16 n @ rest) 0 = hex_loop rest (word_of_nat n)"
proof (induction n arbitrary: rest rule: hex_induct_digits)
  case (short n)
  then show ?case using hex_digits [of n] by (simp add: digits_text_short)
next
  case (long n)
  with hex_digits [of "n mod 16"] push_digit [of "n mod 16" "n div 16"] show ?case by (simp add: digits_text_long)
qed

lemma ttoul_hex: "n < 2 ^ 32 \<Longrightarrow> ttoul (digits_text 16 n) 16 = Inr n"
proof -
  assume n: "n < 2 ^ 32"
  then have "n < 16 ^ Suc 7" by simp
  then have "length (digits_text 16 n) \<le> 8" using length_digits_text [of 16 n 7] by simp
  with n show ?thesis
    using hex_loop_digits [of n "[]"] digits_text_not_empty [of 16 n]
    by (simp add: ttoul_def ttoul_base_def unat_of_nat)
qed

lemma dec_loop_digits:
  assumes "base = 8 \<or> base = 10" "n < 2 ^ 32"
  shows "dec_loop base (digits_text base n @ rest) 0 = dec_loop base rest n"
proof -
  have two: "2 \<le> base" using assms(1) by auto
  show ?thesis using assms(2)
  proof (induction n arbitrary: rest rule: digits_induct [OF two])
  case (1 n)
  then show ?case using dec_digits [of n] assms(1) by (auto simp: digits_text_short Let_def)
next
  case (2 n)
  have "n mod base < 10" using assms(1) by auto
  note dig = dec_digits [OF this]
  have "n div base \<le> (2 ^ 32 - 1) div base" using 2(3) by (intro div_le_mono) simp
  moreover have "n mod base \<le> (2 ^ 32 - 1) - (2 ^ 32 - 1) div base * base" if "n div base = (2 ^ 32 - 1) div base"
  proof -
    have "n = (2 ^ 32 - 1) div base * base + n mod base" using that div_mult_mod_eq [of n base] by simp
    then show ?thesis using 2(3) by simp
  qed
  ultimately have "\<not> (n div base > (2 ^ 32 - 1) div base \<or>
      n div base = (2 ^ 32 - 1) div base \<and> n mod base > (2 ^ 32 - 1) - (2 ^ 32 - 1) div base * base)" by auto
  moreover have "n mod base < base" using assms(1) by auto
  ultimately have "dec_loop base (hex ! (n mod base) # rest) (n div base) = dec_loop base rest n"
    using dig by (auto simp: Let_def)
  moreover have "n div base < 2 ^ 32" using 2(3) by (meson div_le_dividend le_less_trans)
  ultimately show ?case using 2(1,2) two by (simp add: digits_text_long)
  qed
qed

lemma ttoul_dec:
  assumes "base = 8 \<or> base = 10" "n < 2 ^ 32"
  shows "ttoul (digits_text base n) base = Inr n"
  using dec_loop_digits [OF assms, of "[]"] digits_text_not_empty [of base n] assms(1)
  by (auto simp: ttoul_def ttoul_base_def)

text \<open>
  \<open>ttoul\<close> reads every number of 32 bits that \<open>ultot\<close> prints, in octal, decimal and
  hexadecimal, and \<open>ultot\<close> asks for exactly the room its text needs.
\<close>

theorem number_text_round_trip:
  assumes "n < 2 ^ 32" "base \<in> {8, 10, 16}"
  shows "\<exists>t. ultot_text n base = Some t \<and> ttoul t base = Inr n \<and>
     ultot n base (length t + 1) = (length t + 1, Some t)"
  using assms ttoul_hex ttoul_dec
  by (auto simp: ultot_text_def ultot_def written_text_def)

theorem number_text_round_trip_witness:
  "\<exists>t. ultot_text 48879 16 = Some t \<and> ttoul t 16 = Inr 48879"
  using number_text_round_trip [of 48879 16] by auto

end
