(* ===== verification/Ip_Order.thy ===== *)
theory Ip_Order
  imports Ip_Address "HOL-Library.List_Lexorder" "HOL-Library.Product_Lexorder"
begin

text \<open>The comparison of addresses as an order: first by their bytes, a prefix first, then by the family.\<close>

definition address_key :: "ip_address \<Rightarrow> byte list \<times> int" where
  "address_key a = (addrbytesptr a, addrtypeof a)"

lemma memcmp_prefix: "memcmp (take (min (length xs) (length ys)) xs) (take (min (length xs) (length ys)) ys) = memcmp xs ys"
  by (induction xs ys rule: memcmp.induct) simp_all

lemma memcmp_values: "memcmp xs ys = -1 \<or> memcmp xs ys = 0 \<or> memcmp xs ys = 1"
  by (induction xs ys rule: memcmp.induct) auto

lemma memcmp_equal: "length xs = length ys \<Longrightarrow> memcmp xs ys = 0 \<longleftrightarrow> xs = ys"
  by (induction xs ys rule: memcmp.induct) auto

lemma nil_less: "[] < (ys :: byte list) \<longleftrightarrow> ys \<noteq> []"
  by (cases ys) simp_all

lemma memcmp_less: "xs < ys \<longleftrightarrow> memcmp xs ys = -1 \<or> memcmp xs ys = 0 \<and> length xs < length ys"
  by (induction xs ys rule: memcmp.induct) (auto simp: nil_less)

text \<open>
  \<open>addrcmp\<close> is the comparison of a total order: of the bytes of the addresses, the shorter
  first if one continues the other, and of the families where the bytes are the same. It
  returns 0 exactly for addresses that agree in both, whatever their ports are.
\<close>

lemma addrcmp_key:
  "addrcmp a b = (if address_key a < address_key b then -1 else if address_key a = address_key b then 0 else 1)"
proof -
  let ?x = "addrbytesptr a" and ?y = "addrbytesptr b"
  have less: "address_key a < address_key b \<longleftrightarrow> ?x < ?y \<or> ?x = ?y \<and> addrtypeof a < addrtypeof b"
    by (auto simp: address_key_def less_prod_def)
  show ?thesis
    using memcmp_values [of ?x ?y] memcmp_equal [of ?x ?y] memcmp_less [of ?x ?y]
    by (auto simp: addrcmp_def Let_def memcmp_prefix less address_key_def)
qed

lemma sameaddr_iff: "sameaddr a b \<longleftrightarrow> address_key a = address_key b"
  by (auto simp: sameaddr_def addrcmp_key)

end
