(* ===== verification/Ip_Text_Properties.thy ===== *)
theory Ip_Text_Properties
  imports Ip_Text_Numbers Ip_Order
begin

text \<open>Addresses printed by \<open>addrtot\<close> and read back by \<open>tnatoaddr\<close> and \<open>ttoaddr\<close>.\<close>

section \<open>Dotted decimal addresses\<close>

abbreviation dec_text :: "nat \<Rightarrow> string" where "dec_text \<equiv> digits_text 10"

lemma byte_le: "unat (x :: byte) \<le> 255"
proof -
  have "unat x < 2 ^ LENGTH(8)" by (rule unsigned_less)
  then show ?thesis by simp
qed

lemma normal4_text:
  "normal4 b = dec_text (unat (b ! 0)) @ ''.'' @ dec_text (unat (b ! 1)) @ ''.'' @ dec_text (unat (b ! 2)) @ ''.'' @ dec_text (unat (b ! 3))"
proof -
  have "number_text 10 4 (unat x) = dec_text (unat x)" for x :: byte
    using byte_le [of x] by (intro number_text_fits [of 10 "unat x" 2]) auto
  then show ?thesis by (simp add: normal4_def PERBYTE_def)
qed

lemma getbyte_dot: "n \<le> 255 \<Longrightarrow> getbyte (dec_text n @ CHR ''.'' # rest) = Inr (n, CHR ''.'' # rest)"
  by (rule getbyte_digits) (simp_all add: isdigit_def)

lemma getbyte_last: "n \<le> 255 \<Longrightarrow> getbyte (dec_text n) = Inr (n, [])"
  using getbyte_digits [of n "[]"] by simp

lemma trydotted_normal4:
  assumes "length b = 4"
  shows "trydotted (normal4 b) dst = initaddr b AF_INET dst"
proof -
  obtain w x y z where b: "b = [w, x, y, z]"
    using assms by (auto simp: length_Suc_conv numeral_eq_Suc)
  have four: "dotted_loop 4 = dotted_loop (Suc (Suc (Suc (Suc 0))))" by (simp add: numeral_eq_Suc)
  show ?thesis
    using digits_text_not_empty [of 10]
    by (simp add: trydotted_def normal4_text b four getbyte_dot getbyte_last byte_le)
qed

lemma set_dec_text: "c \<in> set (dec_text n) \<Longrightarrow> isdigit c"
  using set_digits_text [of 10 c n] dec_digits by auto

lemma set_normal4: "c \<in> set (normal4 b) \<Longrightarrow> isdigit c \<or> c = CHR ''.''"
  by (auto simp: normal4_text dest: set_dec_text)

lemma normal4_not_empty: "normal4 b \<noteq> []"
  by (simp add: normal4_text)

section \<open>Pieces of an IPv6 address\<close>

abbreviation hex_text :: "nat \<Rightarrow> string" where "hex_text \<equiv> digits_text 16"

definition pt :: "nat list \<Rightarrow> string" where
  "pt ps = concat (map (\<lambda>p. hex_text p @ '':'') ps)"

definition small :: "nat list \<Rightarrow> bool" where
  "small ps \<longleftrightarrow> (\<forall>p \<in> set ps. p < 65536)"

lemma pt_simps [simp]: "pt [] = []" "pt (p # ps) = hex_text p @ CHR '':'' # pt ps" "pt (ps @ qs) = pt ps @ pt qs"
  by (simp_all add: pt_def)

lemma small_simps [simp]: "small []" "small (p # ps) \<longleftrightarrow> p < 65536 \<and> small ps" "small (ps @ qs) \<longleftrightarrow> small ps \<and> small qs"
  by (auto simp: small_def)

lemma pieces_text_pt: "small ps \<Longrightarrow> pieces_text ps = pt ps"
proof -
  assume "small ps"
  then have "number_text 16 5 p = hex_text p" if "p \<in> set ps" for p
    using that number_text_fits [of 16 p 3] by (simp add: small_def)
  then show ?thesis by (simp add: pieces_text_def pt_def cong: map_cong)
qed

lemma hex_text_chars: "c \<in> set (hex_text p) \<Longrightarrow> isxdigit c \<and> c \<noteq> CHR '':''"
  using set_digits_text [of 16 c p] hex_digits by auto

lemma hex_text_not_empty [simp]: "hex_text p \<noteq> []"
  by (rule digits_text_not_empty) simp

lemma hex_text_0 [simp]: "hex_text 0 = ''0''"
  by (simp add: digits_text_short hex_def)

lemma hex_text_zero: "p < 65536 \<Longrightarrow> hex_text p = ''0'' \<longleftrightarrow> p = 0"
proof
  assume "p < 65536" "hex_text p = ''0''"
  then have "Inr p = (Inr 0 :: string + nat)" using ttoul_hex [of p] ttoul_hex [of 0] by simp
  then show "p = 0" by simp
qed simp

text \<open>A piece whose text begins as that of zero is zero.\<close>

lemma hex_text_cases:
  assumes "p < 65536"
  obtains "p = 0" | c cs where "hex_text p = c # cs" "c \<noteq> CHR ''0''" "c \<noteq> CHR '':''"
    | d cs where "hex_text p = CHR ''0'' # d # cs" "d \<noteq> CHR '':''"
proof (cases "hex_text p")
  case (Cons c cs)
  then have c: "c \<noteq> CHR '':''" using hex_text_chars [of c p] by simp
  show thesis
  proof (cases cs)
    case Nil
    then show thesis using that(1,2) Cons c hex_text_zero [OF assms] by metis
  next
    case (Cons d ds)
    then have "d \<noteq> CHR '':''" using \<open>hex_text p = c # cs\<close> hex_text_chars [of d p] by simp
    then show thesis using that(2,3) \<open>hex_text p = c # cs\<close> Cons c by metis
  qed
qed simp

section \<open>Squishing zeros\<close>

text \<open>Where the first two zero pieces begin.\<close>

fun zero_run :: "nat list \<Rightarrow> nat option" where
  "zero_run [] = None"
| "zero_run (p # qs) = (if p = 0 \<and> qs \<noteq> [] \<and> hd qs = 0 then Some 0 else map_option Suc (zero_run qs))"

lemma strstr_skip:
  "CHR '':'' \<notin> set xs \<Longrightarrow> strstr (xs @ ys) (CHR '':'' # needle) = map_option (\<lambda>i. length xs + i) (strstr ys (CHR '':'' # needle))"
  by (induction xs; cases "strstr ys (CHR '':'' # needle)") auto

lemma strstr_zero_run:
  "small ps \<Longrightarrow> strstr (CHR '':'' # pt ps) '':0:0:'' = map_option (\<lambda>i. length (pt (take i ps))) (zero_run ps)"
proof (induction ps)
  case (Cons p qs)
  have skip: "strstr (hex_text p @ CHR '':'' # pt qs) '':0:0:'' =
      map_option (\<lambda>i. length (hex_text p) + i) (strstr (CHR '':'' # pt qs) '':0:0:'')"
    using hex_text_chars [of "CHR '':''" p] by (intro strstr_skip) blast
  have match: "take 5 (CHR '':'' # pt (p # qs)) = '':0:0:'' \<longleftrightarrow> p = 0 \<and> qs \<noteq> [] \<and> hd qs = 0"
  proof (cases qs)
    case Nil
    then show ?thesis using Cons.prems by (auto elim!: hex_text_cases [of p])
  next
    case (Cons q rs)
    then show ?thesis using Cons.prems \<open>small (p # qs)\<close>
      by (auto elim!: hex_text_cases [of p] hex_text_cases [of q])
  qed
  have "strstr (CHR '':'' # pt (p # qs)) '':0:0:'' =
      (if take 5 (CHR '':'' # pt (p # qs)) = '':0:0:'' then Some 0 else map_option Suc (strstr (pt (p # qs)) '':0:0:''))"
    by (simp only: strstr.simps) (simp add: eval_nat_numeral)
  then show ?case
    using Cons.IH Cons.prems skip unfolding match by (auto simp: option.map_comp o_def simp del: strstr.simps)
qed simp

lemma skip_zeros_other: "c \<noteq> CHR ''0'' \<Longrightarrow> skip_zeros (c # cs) = c # cs"
  by (cases cs) auto

lemma skip_zeros_pt: "small ps \<Longrightarrow> skip_zeros (pt ps) = pt (dropWhile (\<lambda>p. p = 0) ps)"
proof (induction ps)
  case (Cons p qs)
  then show ?case by (auto elim!: hex_text_cases [of p] simp: skip_zeros_other)
qed simp

lemma zero_run_Some:
  "zero_run ps = Some i \<Longrightarrow> ps = take i ps @ [0, 0] @ drop (i + 2) ps \<and> i + 2 \<le> length ps"
proof (induction ps arbitrary: i)
  case (Cons p qs)
  then show ?case by (cases qs) (auto split: if_splits)
qed simp

text \<open>A string of pieces without its last colon.\<close>

lemma pt_last: "bs \<noteq> [] \<Longrightarrow> pt bs = pt (butlast bs) @ hex_text (last bs) @ '':''"
  by (induction bs) auto

lemma butlast_pt: "bs \<noteq> [] \<Longrightarrow> butlast (pt bs) = pt (butlast bs) @ hex_text (last bs)"
  by (simp add: pt_last butlast_append)

lemma hd_hex_text [simp]: "hd (hex_text p) \<noteq> CHR '':''"
  using hex_text_chars [of "hd (hex_text p)" p] by simp

lemma last_hex_text [simp]: "last (hex_text p) \<noteq> CHR '':''"
  using hex_text_chars [of "last (hex_text p)" p] by simp

lemma hd_pt [simp]: "as \<noteq> [] \<Longrightarrow> hd (pt as @ xs) \<noteq> CHR '':''"
  by (cases as) auto

lemma pt_empty [simp]: "pt as = [] \<longleftrightarrow> as = []"
  by (cases as) auto

lemma last_pt: "as \<noteq> [] \<Longrightarrow> last (pt as) = CHR '':''"
  by (simp add: pt_last)

lemma last_butlast_pt: "bs \<noteq> [] \<Longrightarrow> last (butlast (pt bs)) \<noteq> CHR '':''"
  by (simp add: butlast_pt)

text \<open>The text of the pieces before and behind the zeros left out.\<close>

definition squished_text :: "nat list \<Rightarrow> nat list \<Rightarrow> string" where
  "squished_text as bs = (if as = [] then '':'' else []) @ pt as @ '':'' @ butlast (pt bs)"

lemma normal6_text:
  assumes "small (pieces b)"
  shows "normal6 b = (case zero_run (pieces b) of
      None \<Rightarrow> butlast (pt (pieces b))
    | Some i \<Rightarrow> squished_text (take i (pieces b)) (dropWhile (\<lambda>p. p = 0) (drop i (pieces b))))"
proof (cases "zero_run (pieces b)")
  case None
  moreover have "pieces b \<noteq> []" by (simp add: pieces_def)
  ultimately show ?thesis using strstr_zero_run [OF assms] by (simp add: normal6_def pieces_text_pt [OF assms] del: strstr.simps)
next
  case (Some i)
  define as where "as = take i (pieces b)"
  define bs where "bs = dropWhile (\<lambda>p. p = 0) (drop i (pieces b))"
  have split: "pt (pieces b) = pt as @ pt (drop i (pieces b))"
    unfolding as_def by (simp flip: pt_simps(3))
  have "small (drop i (pieces b))" using assms by (metis append_take_drop_id small_simps(3))
  note zeros = skip_zeros_pt [OF this, folded bs_def]
  define final where "final = (let s = CHR '':'' # pt as @ CHR '':'' # pt bs in
      if last s = CHR '':'' \<and> last (butlast s) = CHR '':'' then s else butlast s)"
  have final: "final = CHR '':'' # pt as @ CHR '':'' # butlast (pt bs)"
    by (cases "bs = []"; cases "as = []")
      (auto simp: final_def Let_def butlast_append last_pt last_butlast_pt butlast_pt)
  have "normal6 b = (if final ! 0 = CHR '':'' \<and> final ! 1 = CHR '':'' then final else tl final)"
    using strstr_zero_run [OF assms] Some zeros
    by (simp add: normal6_def pieces_text_pt [OF assms] split final_def as_def [symmetric] Let_def del: strstr.simps)
  also have "\<dots> = squished_text as bs"
    unfolding final using hd_pt [of as] by (auto simp: squished_text_def hd_conv_nth)
  finally show ?thesis using Some by (simp add: as_def bs_def)
qed

section \<open>Reading pieces\<close>

lemma getpiece_text:
  assumes "p < 65536" "rest = [] \<or> hd rest = CHR '':''"
  shows "getpiece (hex_text p @ rest) = Inr (p, rest)"
proof -
  have len: "length (hex_text p) \<le> 4" using assms(1) length_digits_text [of 16 p 3] by simp
  have no: "rest = [] \<or> \<not> isxdigit (hd rest)" using assms(2) by (auto simp: isxdigit_def isdigit_def)
  have all: "\<forall>c\<in>set (hex_text p). isxdigit c" using hex_text_chars by blast
  have "takeWhile isxdigit (take 4 (hex_text p @ rest)) = hex_text p"
    using len no all by (cases rest; cases "4 - length (hex_text p)") (auto simp: takeWhile_append)
  moreover have "\<not> isxdigit ((hex_text p @ rest) ! 4)" if "length (hex_text p) = 4" "length (hex_text p @ rest) > 4"
    using that no by (auto simp: nth_append hd_conv_nth)
  moreover have "hd (hex_text p @ rest) \<noteq> CHR '':''" by simp
  ultimately show ?thesis using assms(1) by (auto simp: getpiece_def ttoul_hex Let_def)
qed

lemma colon_loop_pieces:
  "small as \<Longrightarrow> length as < k \<Longrightarrow> colon_loop k (pt as @ rest) ps gap = colon_loop (k - length as) rest (ps @ as) gap"
proof (induction as arbitrary: k ps)
  case (Cons a as)
  then obtain k' where k: "k = Suc k'" "0 < k'" by (cases k) auto
  have "colon_loop k (pt (a # as) @ rest) ps gap = colon_loop k' (pt as @ rest) (ps @ [a]) gap"
    using Cons.prems k getpiece_text [of a "CHR '':'' # pt as @ rest"] by (simp add: Let_def)
  with Cons k show ?case by simp
qed simp

lemma colon_loop_gap:
  "0 < k \<Longrightarrow> colon_loop (Suc k) (CHR '':'' # rest) ps None = colon_loop k rest (ps @ [0]) (Some (length ps))"
  by (simp add: getpiece_def Let_def)

lemma colon_loop_end:
  assumes "small bs" "bs \<noteq> []" "length bs \<le> k" "gap = None \<Longrightarrow> length bs = k"
  shows "colon_loop k (butlast (pt bs)) ps gap = Inr (ps @ bs, gap, [])"
proof -
  have "small (butlast bs)" "last bs < 65536"
    using assms(1,2) append_butlast_last_id [of bs] by (metis small_simps)+
  have less: "length (butlast bs) < k" using assms(2,3) by (cases bs rule: rev_cases) auto
  then obtain j where j: "k - length (butlast bs) = Suc j" by (cases "k - length (butlast bs)") simp_all
  have "gap = None \<Longrightarrow> j = 0" using assms(2,4) j by (cases bs rule: rev_cases) auto
  have "colon_loop k (butlast (pt bs)) ps gap = colon_loop (Suc j) (hex_text (last bs)) (ps @ butlast bs) gap"
    unfolding butlast_pt [OF assms(2)] colon_loop_pieces [OF \<open>small (butlast bs)\<close> less] j by (rule refl)
  also have "\<dots> = Inr ((ps @ butlast bs) @ [last bs], gap, [])"
    using getpiece_text [OF \<open>last bs < 65536\<close>, of "[]"] \<open>gap = None \<Longrightarrow> j = 0\<close>
    by (cases j) (auto simp: Let_def)
  finally show ?thesis using assms(2) by simp
qed

section \<open>Addresses\<close>

lemma small_pieces [simp]: "small (pieces b)"
proof -
  have "unat x * 256 + unat y < 65536" for x y :: byte
    using byte_le [of x] byte_le [of y] by linarith
  then show ?thesis by (auto simp: small_def pieces_def)
qed

lemma length_pieces [simp]: "length (pieces b) = 8"
  by (simp add: pieces_def)

lemma piece_bytes_pieces: "length b = 16 \<Longrightarrow> piece_bytes (pieces b) = b"
proof -
  assume len: "length b = 16"
  have "(unat x * 256 + unat y) div 256 = unat x" "(unat x * 256 + unat y) mod 256 = unat y" for x y :: byte
    using byte_le [of y] by simp_all
  then have "piece_bytes (pieces b) = concat (map (\<lambda>i. [b ! (2 * i), b ! (2 * i + 1)]) [0..<8])"
    by (simp add: piece_bytes_def pieces_def o_def)
  also have "\<dots> = map ((!) b) [0..<16]" by (simp add: upt_rec eval_nat_numeral)
  finally show ?thesis using map_nth [of b] len by simp
qed

text \<open>What \<open>colon_fields\<close> reads from the text of the pieces around a gap.\<close>

lemma colon_fields_gap:
  assumes "small as" "small bs" "length as + length bs \<le> 6" "as \<noteq> [] \<or> bs \<noteq> []"
  shows "colon_fields (pt as @ CHR '':'' # butlast (pt bs)) dst =
    initaddr (piece_bytes (as @ replicate (8 - (length as + length bs)) 0 @ bs)) AF_INET6 dst"
proof -
  define s where "s = pt as @ CHR '':'' # butlast (pt bs)"
  define k where "k = 7 - length as"
  have k: "8 - length as = Suc k" "0 < k" "length bs \<le> k" "length as < 8" using assms(3) by (auto simp: k_def)
  have "colon_loop 8 s [] None = colon_loop k (butlast (pt bs)) (as @ [0]) (Some (length as))"
    unfolding s_def using colon_loop_pieces [of as 8] assms(1) k colon_loop_gap [of k] by (simp del: colon_loop.simps)
  also have "\<dots> = Inr ((as @ [0]) @ bs, Some (length as), [])"
  proof (cases "bs = []")
    case True
    then show ?thesis using k(2) by (cases k) auto
  next
    case False
    then show ?thesis using colon_loop_end [OF assms(2) False k(3)] by blast
  qed
  finally have run: "colon_loop 8 s [] None = Inr ((as @ [0]) @ bs, Some (length as), [])" .
  have ending: "\<not> (last s = CHR '':'' \<and> (length s = 1 \<or> s ! (length s - 2) \<noteq> CHR '':''))"
  proof (cases "bs = []")
    case True
    with assms(4) have "s = (pt (butlast as) @ hex_text (last as)) @ '':'' @ '':''" by (simp add: s_def pt_last)
    then show ?thesis by (simp add: nth_append)
  next
    case False
    with last_butlast_pt [OF False] show ?thesis by (simp add: s_def butlast_pt)
  qed
  have "colon_fields s dst = initaddr (piece_bytes (close_gap ((as @ [0]) @ bs) (length as))) AF_INET6 dst"
    unfolding colon_fields_def if_not_P [OF ending] run using assms(3) by simp
  then show ?thesis by (simp add: s_def close_gap_def)
qed

lemma colon_fields_full:
  assumes "small ps" "length ps = 8"
  shows "colon_fields (butlast (pt ps)) dst = initaddr (piece_bytes ps) AF_INET6 dst"
proof -
  have ps: "ps \<noteq> []" using assms(2) by auto
  with assms colon_loop_end [of ps 8 None "[]"] last_butlast_pt [OF ps] show ?thesis
    by (simp add: colon_fields_def del: colon_loop.simps)
qed

lemma zero_prefix: "takeWhile (\<lambda>p. p = 0) ps = replicate (length ps - length (dropWhile (\<lambda>p. p = 0) ps)) (0 :: nat)"
  by (induction ps) (auto simp: Suc_diff_le length_dropWhile_le)

lemma colon_normal6:
  assumes "length b = 16"
  shows "colon (normal6 b) dst = initaddr b AF_INET6 dst"
proof (cases "zero_run (pieces b)")
  case None
  have ne: "pieces b \<noteq> []" using length_pieces [of b] by (auto simp del: length_pieces)
  have "butlast (pt (pieces b)) \<noteq> []" "hd (butlast (pt (pieces b))) \<noteq> CHR '':''"
    using ne by (auto simp: butlast_pt) (cases "butlast (pieces b)"; simp)+
  with None show ?thesis by (simp add: normal6_text colon_def colon_fields_full piece_bytes_pieces assms)
next
  case (Some i)
  define as where "as = take i (pieces b)"
  define bs where "bs = dropWhile (\<lambda>p. p = 0) (drop i (pieces b))"
  from zero_run_Some [OF Some] have i: "i + 2 \<le> 8" "pieces b = as @ [0, 0] @ drop (i + 2) (pieces b)" by (simp_all add: as_def)
  then have "drop i (pieces b) = [0, 0] @ drop (i + 2) (pieces b)" by (metis append_eq_conv_conj as_def append_take_drop_id same_append_eq)
  then have "bs = dropWhile (\<lambda>p. p = 0) (drop (i + 2) (pieces b))" by (simp add: bs_def)
  then have "length bs \<le> length (drop (i + 2) (pieces b))" by (simp only: length_dropWhile_le)
  then have len: "length as = i" "length as + length bs \<le> 6" using i(1) by (auto simp: as_def)
  have all: "pieces b = as @ replicate (8 - (length as + length bs)) 0 @ bs"
    using zero_prefix [of "drop i (pieces b)"] len(1) takeWhile_dropWhile_id [of "\<lambda>p. p = 0" "drop i (pieces b)"]
    by (metis append_take_drop_id as_def bs_def diff_diff_left length_drop length_pieces)
  have small: "small as" "small bs" using small_pieces [of b] all by (metis small_simps(3))+
  have "colon (squished_text as bs) dst = initaddr (piece_bytes (as @ replicate (8 - (length as + length bs)) 0 @ bs)) AF_INET6 dst"
  proof (cases "as = [] \<and> bs = []")
    case True
    have "piece_bytes (replicate 8 0) = replicate 16 0" by code_simp
    with True show ?thesis by (simp add: squished_text_def colon_def anyaddr_def AF_INET_def AF_INET6_def)
  next
    case False
    then show ?thesis using colon_fields_gap [OF small len(2)] hd_pt [of as]
      by (cases "as = []") (auto simp: squished_text_def colon_def butlast_pt)
  qed
  moreover have "normal6 b = squished_text as bs" using Some by (simp add: normal6_text as_def bs_def)
  moreover have "piece_bytes (as @ replicate (8 - (length as + length bs)) 0 @ bs) = b"
    unfolding all [symmetric] by (rule piece_bytes_pieces [OF assms])
  ultimately show ?thesis by simp
qed

lemma colon_in_normal6: "CHR '':'' \<in> set (normal6 b)"
proof (cases "zero_run (pieces b)")
  case None
  obtain p q ps where "pieces b = p # q # ps" using length_pieces [of b] by (metis length_Suc_conv numeral_eq_Suc pred_numeral_simps(2,3))
  moreover have "normal6 b = butlast (pt (pieces b))" using None by (simp add: normal6_text)
  ultimately show ?thesis by (simp add: butlast_append)
qed (simp add: normal6_text squished_text_def)

lemma reads_normal4:
  assumes "length b = 4"
  shows "tnatoaddr (normal4 b) AF_INET dst = initaddr b AF_INET dst"
    "ttoaddr res little mem ends (normal4 b) AF_INET dst = initaddr b AF_INET dst"
proof -
  obtain a' where a': "initaddr b AF_INET dst = Inr a'" using assms by (simp add: initaddr_def)
  note read = trydotted_normal4 [OF assms, of dst, unfolded a']
  show "tnatoaddr (normal4 b) AF_INET dst = initaddr b AF_INET dst"
    unfolding tnatoaddr_def read a' by (simp add: normal4_not_empty AF_INET_def AF_INET6_def)
  have other: "c \<notin> set (normal4 b)" if "\<not> (isdigit c \<or> c = CHR ''.'')" for c
    using that set_normal4 by blast
  have letters: "\<not> (isdigit c \<or> c = CHR ''.'')" if "c \<in> {CHR ''x'', CHR ''X'', CHR ''h'', CHR ''H''}" for c
    using that by (auto simp: isdigit_def)
  have "\<not> (normal4 b ! 1 = c)" if "length (normal4 b) = 10" "\<not> (isdigit c \<or> c = CHR ''.'')" for c
    using that(1) other [OF that(2)] nth_mem [of 1 "normal4 b"] by (metis one_less_numeral_iff semiring_norm(76))
  then have prefix: "\<not> (length (normal4 b) = 10 \<and> hd (normal4 b) = CHR ''0'' \<and> (normal4 b ! 1 = c \<or> normal4 b ! 1 = d))"
    if "c \<in> {CHR ''x'', CHR ''h''}" "d \<in> {CHR ''X'', CHR ''H''}" for c d
    using that letters by (metis insert_iff)
  have "CHR '':'' \<notin> set (normal4 b)" by (rule other) (simp add: isdigit_def)
  with prefix [of "CHR ''x''" "CHR ''X''"] prefix [of "CHR ''h''" "CHR ''H''"]
  show "ttoaddr res little mem ends (normal4 b) AF_INET dst = initaddr b AF_INET dst"
    unfolding ttoaddr_def read a' by (auto simp: normal4_not_empty)
qed

lemma reads_normal6:
  assumes "length b = 16"
  shows "tnatoaddr (normal6 b) AF_INET6 dst = initaddr b AF_INET6 dst"
    "ttoaddr res little mem ends (normal6 b) AF_INET6 dst = initaddr b AF_INET6 dst"
proof -
  have "normal6 b \<noteq> []" using colon_in_normal6 [of b] by auto
  with colon_in_normal6 [of b] colon_normal6 [OF assms, of dst]
  show "tnatoaddr (normal6 b) AF_INET6 dst = initaddr b AF_INET6 dst"
    "ttoaddr res little mem ends (normal6 b) AF_INET6 dst = initaddr b AF_INET6 dst"
    by (simp_all add: tnatoaddr_def ttoaddr_def AF_INET_def AF_INET6_def)
qed

lemma initaddr_same:
  assumes "wf_address a" "addrtypeof a = AF_INET \<or> addrtypeof a = AF_INET6"
  shows "\<exists>a'. initaddr (addrbytesptr a) (addrtypeof a) dst = Inr a' \<and> sameaddr a' a"
  using assms
  by (auto simp: initaddr_def addrbytesptr_def addrtypeof_def wf_address_def sameaddr_iff address_key_def AF_INET_def AF_INET6_def)

lemma addrtot_text_normal:
  assumes "wf_address a"
  shows "addrtypeof a = AF_INET \<Longrightarrow> addrtot_text a None = Some (normal4 (addrbytesptr a)) \<and> length (addrbytesptr a) = 4"
    "addrtypeof a = AF_INET6 \<Longrightarrow> addrtot_text a None = Some (normal6 (addrbytesptr a)) \<and> length (addrbytesptr a) = 16"
  using assms by (auto simp: Let_def addrtot_text_def addrbytesptr_def addrtypeof_def wf_address_def AF_INET_def AF_INET6_def)

text \<open>
  C26: what \<open>addrtot\<close> prints of an IPv4 or IPv6 address, zeros left out or not, is read back
  by \<open>tnatoaddr\<close> and by \<open>ttoaddr\<close> as the same address, whatever the name services know and
  whatever the address held before; they never report an error.
\<close>

theorem address_text_round_trip:
  assumes "wf_address a" "addrtypeof a = AF_INET \<or> addrtypeof a = AF_INET6"
  shows "\<exists>t a'. addrtot_text a None = Some t \<and> sameaddr a' a \<and>
    tnatoaddr t (addrtypeof a) dst = Inr a' \<and> ttoaddr res little mem ends t (addrtypeof a) dst = Inr a'"
proof -
  from initaddr_same [OF assms] obtain a' where "initaddr (addrbytesptr a) (addrtypeof a) dst = Inr a'" "sameaddr a' a" by blast
  with assms(2) show ?thesis
    using addrtot_text_normal [OF assms(1)] reads_normal4 reads_normal6 by metis
qed

theorem address_text_round_trip_witness:
  "\<exists>t a'. addrtot_text \<lparr> sin_family = AF_INET6, sin_port = 0, s_addr = [0, 0, 0, 0], sin6_addr = replicate 15 0 @ [1] \<rparr> None = Some t \<and>
     tnatoaddr t AF_INET6 \<lparr> sin_family = AF_INET, sin_port = 0, s_addr = [0, 0, 0, 0], sin6_addr = replicate 16 0 \<rparr> = Inr a'"
  using address_text_round_trip [of "\<lparr> sin_family = AF_INET6, sin_port = 0, s_addr = [0, 0, 0, 0], sin6_addr = replicate 15 0 @ [1] \<rparr>"
    "\<lparr> sin_family = AF_INET, sin_port = 0, s_addr = [0, 0, 0, 0], sin6_addr = replicate 16 0 \<rparr>"]
  by (simp add: wf_address_def addrtypeof_def) blast

end
