(* ===== verification/Ip_Subnet_Text.thy ===== *)
theory Ip_Subnet_Text
  imports Ip_Text_Properties
begin

text \<open>
  Networks and ranges read from text (\<open>ttosubnet.c\<close>, \<open>portof.c\<close> of
  \<open>src/core0/pkg/freeswan/lib\<close>), and networks printed by \<open>subnettot\<close> and read back. A port is
  the number it stands for, \<open>htons\<close> applied. A text is what its length covers, and \<open>behind\<close>
  what follows it in memory up to the null character: a part of the text of length 0 is taken
  to reach up to there.
\<close>

unbundle bit_operations_syntax

section \<open>Ports\<close>

definition portof :: "ip_address \<Rightarrow> int" where
  "portof src = (if sin_family src = AF_INET \<or> sin_family src = AF_INET6 then uint (sin_port src) else -1)"

definition setportof :: "nat \<Rightarrow> ip_address \<Rightarrow> ip_address" where
  "setportof port dst =
     (if sin_family dst = AF_INET \<or> sin_family dst = AF_INET6 then dst\<lparr> sin_port := word_of_nat port \<rparr> else dst)"

section \<open>Text to networks\<close>

text \<open>The part of a text from a place, given to a function with its length.\<close>

definition part :: "string \<Rightarrow> string \<Rightarrow> nat \<Rightarrow> nat \<Rightarrow> string" where
  "part src behind p n = (if n = 0 then takeWhile (\<lambda>c. c \<noteq> NUL) (drop p (src @ behind)) else take n (drop p src))"

text \<open>\<open>memchr\<close>: the place of the first such character.\<close>

definition memchr :: "string \<Rightarrow> char \<Rightarrow> nat option" where
  "memchr s c = (if c \<in> set s then Some (length (takeWhile (\<lambda>d. d \<noteq> c) s)) else None)"

definition ttorange :: "resolver \<Rightarrow> bool \<Rightarrow> bool \<Rightarrow> string \<Rightarrow> string \<Rightarrow> int \<Rightarrow> string + ip_subnet" where
  "ttorange res little mem src behind af =
     (if src = [] then Inl ''empty string''
      else case memchr src CHR ''-'' of
        None \<Rightarrow> Inl ''no '-' in range specification''
      | Some to \<Rightarrow>
          (case ttoaddr res little mem (to = 0) (part src behind 0 to) af unwritten of
             Inl err \<Rightarrow> Inl err
           | Inr tmp_from \<Rightarrow> let n = length src - (to + 1) in
               (case ttoaddr res little mem (n = 0) (part src behind (to + 1) n) af unwritten of
                  Inl err \<Rightarrow> Inl err
                | Inr tmp_to \<Rightarrow> Inr (initrange tmp_from tmp_to))))"

definition DEFAULTSUBNET :: string where "DEFAULTSUBNET = ''%default''"

text \<open>The mask, of the length \<open>mlen\<close> at the place \<open>msk\<close>: a count of bits or an address.\<close>

definition mask_count :: "resolver \<Rightarrow> bool \<Rightarrow> bool \<Rightarrow> string \<Rightarrow> string \<Rightarrow> nat \<Rightarrow> nat \<Rightarrow> int \<Rightarrow> nat \<Rightarrow> string + nat" where
  "mask_count res little mem src behind msk mlen af nbits = (let t = part src behind msk mlen in
     case ttoul t 10 of
       Inr bc \<Rightarrow> if bc > nbits then Inl ''subnet mask bit count too large'' else Inr bc
     | Inl _ \<Rightarrow>
         (case ttoaddr res little mem (mlen = 0) t af unwritten of
            Inl ugh \<Rightarrow> Inl ugh
          | Inr masktmp \<Rightarrow>
              if masktocount masktmp < 0 then Inl ''non-contiguous or otherwise erroneous mask''
              else Inr (nat (masktocount masktmp))))"

text \<open>The port behind the mask, 0 if there is none, and the length of the mask without it.\<close>

definition mask_port :: "string \<Rightarrow> string \<Rightarrow> nat \<Rightarrow> nat \<Rightarrow> string + nat \<times> nat" where
  "mask_port src behind msk mlen = (case memchr (take mlen (drop msk src)) CHR '':'' of
       None \<Rightarrow> Inr (0, mlen)
     | Some c \<Rightarrow> (case ttoul (part src behind (msk + c + 1) (mlen - (c + 1))) 10 of
           Inl ugh \<Rightarrow> Inl ugh
         | Inr port \<Rightarrow> Inr (port, c)))"

definition ttosubnet_text :: "resolver \<Rightarrow> bool \<Rightarrow> bool \<Rightarrow> string \<Rightarrow> string \<Rightarrow> int \<Rightarrow> nat \<Rightarrow> string + ip_subnet" where
  "ttosubnet_text res little mem src behind af nbits = (case memchr src CHR ''/'' of
       None \<Rightarrow> Inl ''no / in subnet specification''
     | Some slash \<Rightarrow>
         (case ttoaddr res little mem (slash = 0) (part src behind 0 slash) af unwritten of
            Inl ugh \<Rightarrow> Inl ugh
          | Inr addrtmp \<Rightarrow> let msk = slash + 1 in
              (case mask_port src behind msk (length src - msk) of
                 Inl ugh \<Rightarrow> Inl ugh
               | Inr (port, mlen) \<Rightarrow>
                   (case mask_count res little mem src behind msk mlen af nbits of
                      Inl ugh \<Rightarrow> Inl ugh
                    | Inr i \<Rightarrow> initsubnet (setportof port addrtmp) i CHR ''0''))))"

definition ttosubnet :: "resolver \<Rightarrow> bool \<Rightarrow> bool \<Rightarrow> string \<Rightarrow> string \<Rightarrow> int \<Rightarrow> string + ip_subnet" where
  "ttosubnet res little mem src behind af =
     (if src = [] then Inl ''empty string''
      else if af = AF_INET then
        (if src = DEFAULTSUBNET then ttosubnet_text res little mem ''0/0'' [] af 32 else ttosubnet_text res little mem src behind af 32)
      else if af = AF_INET6 then
        (if src = DEFAULTSUBNET then ttosubnet_text res little mem ''::/0'' [] af 128 else ttosubnet_text res little mem src behind af 128)
      else Inl ''unknown address family in ttosubnet'')"

section \<open>Reading back a network\<close>

lemma memchr_first: "c \<notin> set xs \<Longrightarrow> memchr (xs @ c # ys) c = Some (length xs)"
  by (induction xs) (auto simp: memchr_def)

lemma memchr_none: "c \<notin> set xs \<Longrightarrow> memchr xs c = None"
  by (simp add: memchr_def)

lemma clear_host_again: "clear_host die m bs = Some cs \<Longrightarrow> clear_host die' m cs = Some cs"
proof (induction die m bs arbitrary: cs rule: clear_host.induct)
  case (2 die m b bs)
  have "(b AND NOT m) AND m = 0" by (simp add: and.assoc)
  with 2 show ?case by (auto split: if_splits)
qed simp

lemma length_clear_host: "clear_host die m bs = Some cs \<Longrightarrow> length cs = length bs"
  by (induction die m bs arbitrary: cs rule: clear_host.induct) (auto split: if_splits)

lemma addrbytesptr_with_bytes [simp]:
  "addrtypeof (with_bytes a bs) = addrtypeof a" "sin_port (with_bytes a bs) = sin_port a"
  "addrtypeof a = AF_INET \<or> addrtypeof a = AF_INET6 \<Longrightarrow> addrbytesptr (with_bytes a bs) = bs"
  by (auto simp: with_bytes_def addrtypeof_def addrbytesptr_def)

abbreviation known_family :: "ip_address \<Rightarrow> bool" where
  "known_family a \<equiv> addrtypeof a = AF_INET \<or> addrtypeof a = AF_INET6"

text \<open>The host part of a network is off already, and is not changed by making the network again.\<close>

lemma initsubnet_again:
  assumes "known_family a" "initsubnet a n c = Inr s"
  shows "\<exists>x. s = Net x n \<and> addrtypeof x = addrtypeof a \<and> length (addrbytesptr x) = length (addrbytesptr a) \<and>
    (\<forall>a'. addrtypeof a' = addrtypeof a \<and> addrbytesptr a' = addrbytesptr x \<longrightarrow>
      (\<exists>y. initsubnet a' n CHR ''0'' = Inr (Net y n) \<and> sameaddr y x))"
proof -
  let ?p = "addrbytesptr a" and ?c = "n div 8"
  let ?m = "if length ?p - ?c > 0 \<and> n mod 8 \<noteq> 0 then drop_bit (n mod 8) 0xff else 0xff :: byte"
  from assms(2) obtain bs where ok: "?p \<noteq> []" "?c \<le> length ?p" "clear_host (c = CHR ''x'') ?m (drop ?c ?p) = Some bs"
      and s: "s = Net (with_bytes a (take ?c ?p @ bs)) n"
    by (auto simp: initsubnet_def Let_def split: if_splits option.splits)
  define q where "q = take ?c ?p @ bs"
  from length_clear_host [OF ok(3)] have len: "length q = length ?p" using ok(2) by (simp add: q_def)
  then have q: "q \<noteq> []" "drop ?c q = bs" "take ?c q = take ?c ?p" "take ?c ?p @ bs = q" using ok(1,2) by (auto simp: q_def)
  have "initsubnet a' n CHR ''0'' = Inr (Net (with_bytes a' q) n)" if "addrbytesptr a' = q" for a'
    using ok(2) q(1) clear_host_again [OF ok(3), of False] unfolding initsubnet_def that Let_def len q by (simp add: q(4))
  then have "\<exists>y. initsubnet a' n CHR ''0'' = Inr (Net y n) \<and> sameaddr y (with_bytes a q)"
    if "addrtypeof a' = addrtypeof a" "addrbytesptr a' = q" for a'
    using that assms(1) by (auto simp: sameaddr_iff address_key_def)
  then show ?thesis using s len assms(1) unfolding q(4) by (intro exI [of _ "with_bytes a q"]) auto
qed

lemma ultoa_dec: "ultoa n 10 room = (length (dec_text n) + 1, written_text (dec_text n) room)"
  by (simp add: ultoa_def Let_def)

lemma written_text_fits: "length t < room \<Longrightarrow> written_text t room = Some t"
  by (simp add: written_text_def)

lemma set_hex_text_slash: "CHR ''/'' \<notin> set (hex_text p)" "CHR ''-'' \<notin> set (hex_text p)"
  using hex_text_chars [of "CHR ''/''" p] hex_text_chars [of "CHR ''-''" p] by (auto simp: isxdigit_def isdigit_def)

lemma pt_slash: "CHR ''/'' \<notin> set (pt ps)" "CHR ''-'' \<notin> set (pt ps)"
  by (induction ps) (auto simp: set_hex_text_slash)

lemma normal6_chars: "CHR ''/'' \<notin> set (normal6 b)" "CHR ''-'' \<notin> set (normal6 b)"
  using pt_slash by (auto simp: normal6_text squished_text_def split: option.split dest: in_set_butlastD)

lemma normal4_chars: "CHR ''/'' \<notin> set (normal4 b)" "CHR ''-'' \<notin> set (normal4 b)"
  using set_normal4 [of "CHR ''/''" b] set_normal4 [of "CHR ''-''" b] by (auto simp: isdigit_def)

text \<open>The text of an address, and that it is read again.\<close>

lemma address_text:
  assumes "known_family a" "length (addrbytesptr a) = (if addrtypeof a = AF_INET then 4 else 16)"
  shows "\<exists>t a'. addrtot_text a None = Some t \<and> t \<noteq> [] \<and> CHR ''/'' \<notin> set t \<and> CHR ''-'' \<notin> set t \<and> sameaddr a' a \<and>
    (\<forall>res little mem ends. ttoaddr res little mem ends t (addrtypeof a) dst = Inr a') \<and> sin_port a' = 0"
proof (cases "addrtypeof a = AF_INET")
  case True
  then obtain a' where "initaddr (addrbytesptr a) AF_INET dst = Inr a'" "sameaddr a' a" "sin_port a' = 0"
    using assms(2) by (auto simp: initaddr_def sameaddr_iff address_key_def addrbytesptr_def addrtypeof_def)
  then show ?thesis using True assms(2) normal4_chars normal4_not_empty reads_normal4 [of "addrbytesptr a"]
    by (intro exI [of _ "normal4 (addrbytesptr a)"] exI [of _ a']) (auto simp: addrtot_text_def Let_def)
next
  case False
  then have v6: "addrtypeof a = AF_INET6" using assms(1) by simp
  then obtain a' where "initaddr (addrbytesptr a) AF_INET6 dst = Inr a'" "sameaddr a' a" "sin_port a' = 0"
    using assms(2) False by (auto simp: initaddr_def sameaddr_iff address_key_def addrbytesptr_def addrtypeof_def)
  moreover have "normal6 (addrbytesptr a) \<noteq> []" using colon_in_normal6 [of "addrbytesptr a"] by auto
  ultimately show ?thesis using False v6 assms(2) normal6_chars reads_normal6 [of "addrbytesptr a"]
    by (intro exI [of _ "normal6 (addrbytesptr a)"] exI [of _ a']) (auto simp: addrtot_text_def Let_def)
qed

lemma mask_read:
  assumes "n \<le> nbits" "nbits < 2 ^ 32" "length (t @ ''/'') = msk"
  shows "mask_port (t @ CHR ''/'' # dec_text n) behind msk (length (dec_text n)) = Inr (0, length (dec_text n))"
    "mask_count res little mem (t @ CHR ''/'' # dec_text n) behind msk (length (dec_text n)) af nbits = Inr n"
proof -
  have "CHR '':'' \<notin> set (dec_text n)" using set_dec_text [of "CHR '':''" n] by (auto simp: isdigit_def)
  then show "mask_port (t @ CHR ''/'' # dec_text n) behind msk (length (dec_text n)) = Inr (0, length (dec_text n))"
    using assms(3) by (auto simp: mask_port_def memchr_none)
  have "part (t @ CHR ''/'' # dec_text n) behind msk (length (dec_text n)) = dec_text n"
    using assms(3) digits_text_not_empty [of 10 n] by (auto simp: part_def)
  then show "mask_count res little mem (t @ CHR ''/'' # dec_text n) behind msk (length (dec_text n)) af nbits = Inr n"
    using assms(1,2) ttoul_dec [of 10 n] by (simp add: mask_count_def)
qed

lemma addrlenof_known:
  "wf_address a \<Longrightarrow> known_family a \<Longrightarrow> addrlenof a = (if addrtypeof a = AF_INET then 4 else 16)"
  by (auto simp: wf_address_def addrlenof_def addrtypeof_def addrbytesptr_def)

lemma slash_not_default: "CHR ''/'' \<in> set t \<Longrightarrow> t \<noteq> DEFAULTSUBNET"
  by (auto simp: DEFAULTSUBNET_def)

lemma subnettot_net:
  assumes "addrtot_text x None = Some t" "length (t @ ''/'' @ dec_text n) < dstlen"
  shows "subnettot (Net x n) None dstlen = Some (length (t @ ''/'' @ dec_text n) + 1, Some (t @ ''/'' @ dec_text n))"
proof -
  have "addrtot x None dstlen = (length t + 1, Some t)"
    using assms by (simp add: addrtot_def written_text_fits)
  moreover have "ultoa n 10 (dstlen - (length t + 1)) = (length (dec_text n) + 1, Some (dec_text n))"
    using assms(2) by (simp add: ultoa_dec written_text_fits)
  ultimately show ?thesis using assms(2) by (simp add: subnettot_def SUBNET_ADDR_GET_def is_subnet_def)
qed

text \<open>
  C27: a network that \<open>initsubnet\<close> made, printed by \<open>subnettot\<close> into a buffer that is large
  enough, is read back by \<open>ttosubnet\<close> as the same network, for IPv4 and IPv6 and every length
  of the network part.
\<close>

theorem subnet_text_round_trip:
  assumes "wf_address a" "addrtypeof a = AF_INET \<or> addrtypeof a = AF_INET6"
    "n \<le> 8 * addrlenof a" "initsubnet a n c = Inr s"
  shows "\<exists>t s'. (\<forall>dstlen > length t. subnettot s None dstlen = Some (length t + 1, Some t)) \<and>
    ttosubnet res little mem t behind (addrtypeof a) = Inr s' \<and> is_subnet s' \<and>
    maskbits s' = n \<and> sameaddr (SUBNET_ADDR_GET s') (SUBNET_ADDR_GET s)"
proof -
  have len: "addrlenof a = (if addrtypeof a = AF_INET then 4 else 16)" using addrlenof_known [OF assms(1,2)] .
  obtain x where s: "s = Net x n" "addrtypeof x = addrtypeof a" "length (addrbytesptr x) = length (addrbytesptr a)"
      and again: "\<And>a'. addrtypeof a' = addrtypeof a \<Longrightarrow> addrbytesptr a' = addrbytesptr x \<Longrightarrow>
        \<exists>y. initsubnet a' n CHR ''0'' = Inr (Net y n) \<and> sameaddr y x"
    using initsubnet_again [OF assms(2,4)] by metis
  have "known_family x" "length (addrbytesptr x) = (if addrtypeof x = AF_INET then 4 else 16)"
    using assms(2) s(2,3) len by (simp_all add: addrlenof_def)
  from address_text [OF this, of unwritten] obtain t a' where t: "addrtot_text x None = Some t" "t \<noteq> []" "CHR ''/'' \<notin> set t"
      "sameaddr a' x" "\<And>res little mem ends. ttoaddr res little mem ends t (addrtypeof x) unwritten = Inr a'" "sin_port a' = 0"
    by auto
  let ?t = "t @ ''/'' @ dec_text n"
  have port: "setportof 0 a' = a'" using t(6) by (simp add: setportof_def)
  from t(4) have "addrtypeof a' = addrtypeof a" "addrbytesptr a' = addrbytesptr x" using s(2) by (simp_all add: sameaddr_iff address_key_def)
  then obtain y where y: "initsubnet a' n CHR ''0'' = Inr (Net y n)" "sameaddr y x" using again by blast
  have read: "ttosubnet_text res little mem ?t behind (addrtypeof a) (8 * addrlenof a) = Inr (Net y n)"
  proof -
    have "memchr ?t CHR ''/'' = Some (length t)" using memchr_first [OF t(3)] by simp
    moreover have "part ?t behind 0 (length t) = t" using t(2) by (simp add: part_def)
    ultimately show ?thesis
      using t(5) [unfolded s(2)] y(1) port mask_read [of n "8 * addrlenof a" t "length t + 1"] assms(3) len
      by (simp add: ttosubnet_text_def)
  qed
  have "?t \<noteq> DEFAULTSUBNET" by (rule slash_not_default) simp
  then have "ttosubnet res little mem ?t behind (addrtypeof a) = Inr (Net y n)"
    using read len assms(2) by (auto simp: ttosubnet_def AF_INET_def AF_INET6_def)
  then show ?thesis using subnettot_net [OF t(1)] s(1) y(2)
    by (intro exI [of _ ?t] exI [of _ "Net y n"]) (simp add: is_subnet_def SUBNET_ADDR_GET_def)
qed

definition sample6 :: ip_address where
  "sample6 = \<lparr> sin_family = AF_INET6, sin_port = 0, s_addr = [0, 0, 0, 0], sin6_addr = [0x30, 0x49, 0, 1] @ replicate 12 0 \<rparr>"

theorem subnet_text_round_trip_witness:
  "\<exists>t s'. subnettot (Net sample6 32) None (length t + 1) = Some (length t + 1, Some t) \<and>
     ttosubnet \<lparr> hosts = \<lambda>_ _. None, nets = \<lambda>_. None \<rparr> True True t [] AF_INET6 = Inr s' \<and> sameaddr (SUBNET_ADDR_GET s') sample6"
proof -
  have "wf_address sample6" "addrtypeof sample6 = AF_INET \<or> addrtypeof sample6 = AF_INET6" "32 \<le> 8 * addrlenof sample6"
    by (simp_all add: sample6_def wf_address_def addrtypeof_def addrlenof_def addrbytesptr_def AF_INET_def AF_INET6_def)
  moreover have "initsubnet sample6 32 CHR ''x'' = Inr (Net sample6 32)" by code_simp
  ultimately show ?thesis
    using subnet_text_round_trip [of sample6 32 "CHR ''x''" "Net sample6 32"
        "\<lparr> hosts = \<lambda>_ _. None, nets = \<lambda>_. None \<rparr>" True True "[]"]
    by (auto simp: SUBNET_ADDR_GET_def sample6_def addrtypeof_def)
qed

text \<open>
  A mask written as an IPv6 address is refused wherever it leaves out zeros: what follows its
  first colon is taken for a port.
\<close>

lemma ipv6_mask_refused:
  assumes "t \<noteq> []" "CHR ''/'' \<notin> set t" "ttoaddr res little mem False t AF_INET6 unwritten = Inr a" "CHR '':'' \<notin> set m"
  shows "ttosubnet res little mem (t @ ''/'' @ m @ ''::'' @ rest) behind AF_INET6 = Inl ''non-digit in number''"
proof -
  let ?s = "t @ CHR ''/'' # m @ CHR '':'' # CHR '':'' # rest"
  have "memchr ?s CHR ''/'' = Some (length t)" by (rule memchr_first [OF assms(2)])
  moreover have "part ?s behind 0 (length t) = t" using assms(1) by (simp add: part_def)
  moreover have "mask_port ?s behind (length t + 1) (length ?s - (length t + 1)) = Inl ''non-digit in number''"
    using memchr_first [OF assms(4), of "CHR '':'' # rest"]
    by (simp add: mask_port_def part_def ttoul_def ttoul_base_def Let_def)
  ultimately show ?thesis using assms(1,3) slash_not_default [of ?s]
    by (simp add: ttosubnet_def ttosubnet_text_def AF_INET_def AF_INET6_def)
qed

end
