(* ===== verification/Block_Ip.thy ===== *)
theory Block_Ip
  imports Ip_Order
begin

text \<open>
  \<open>block_ip.c\<close> of the key exchange daemon (\<open>src/core0/pkg/freeswan/pluto\<close>): peers whose
  messages are rejected too often are blocked for a while. The file keeps a linked list of
  peers, here a list; the threshold and the period are globals, here in the same record. With
  it \<open>now\<close> of \<open>timer.c\<close>, a clock that does not go back, and the places in \<open>demux.c\<close> that
  consult and feed the list (a message before it is handled, the end of a transition). A function that reads the clock takes what \<open>time\<close> returned, once
  for every reading. Counters and times are integers: the model leaves out what happens when
  they outgrow 32 bits.
\<close>

section \<open>The clock\<close>

record clock =
  delta :: int
  last_time :: int

definition clock_start :: clock where
  "clock_start = \<lparr> delta = 0, last_time = 0 \<rparr>"

text \<open>\<open>None\<close> where \<open>passert\<close> fails.\<close>

definition now :: "int \<Rightarrow> clock \<Rightarrow> (int \<times> clock) option" where
  "now n c =
     (if n = -1 then None
      else let d = (if last_time c > n then delta c + (last_time c - n) else delta c)
        in Some (n + d, \<lparr> delta = d, last_time = n \<rparr>))"

section \<open>The list of peers\<close>

record block_peer =
  peer_ip :: ip_address
  reject_num :: int
  start_time :: int
  last_reject_time :: int

record blocker =
  block_peer_head :: "block_peer list"
  block_ip_reject_num :: int
  block_ip_period :: int
  pluto_clock :: clock
  block_log :: "(string \<times> ip_address) list"

definition blocker_start :: blocker where
  "blocker_start = \<lparr> block_peer_head = [], block_ip_reject_num = 0, block_ip_period = 0,
     pluto_clock = clock_start, block_log = [] \<rparr>"

datatype state_kind = STATE_UNDEFINED | OPPO_ACQUIRE | OPPO_GW_DISCOVERED
  | STATE_MAIN_R0 | STATE_MAIN_I1 | STATE_MAIN_R1 | STATE_MAIN_I2 | STATE_MAIN_R2 | STATE_MAIN_I3
  | STATE_MAIN_R3 | STATE_MAIN_I4
  | STATE_AGGR_R0 | STATE_AGGR_I1 | STATE_AGGR_R1 | STATE_AGGR_I2 | STATE_AGGR_R2
  | STATE_QUICK_R0 | STATE_QUICK_I1 | STATE_QUICK_R1 | STATE_QUICK_I2 | STATE_QUICK_R2
  | STATE_INFO | STATE_INFO_PROTECTED

definition block_peer_log :: "string \<Rightarrow> block_peer \<Rightarrow> blocker \<Rightarrow> blocker" where
  "block_peer_log msg peer s = s\<lparr> block_log := block_log s @ [(msg, peer_ip peer)] \<rparr>"

definition block_peer_is_block_state :: "state_kind \<Rightarrow> bool" where
  "block_peer_is_block_state st \<longleftrightarrow> st = STATE_MAIN_R1 \<or> st = STATE_MAIN_R2 \<or>
     st = STATE_MAIN_R3 \<or> st = STATE_AGGR_R1 \<or> st = STATE_AGGR_R2"

definition block_peer_is_blocked :: "blocker \<Rightarrow> block_peer option \<Rightarrow> bool" where
  "block_peer_is_blocked s p = (case p of
       None \<Rightarrow> False
     | Some peer \<Rightarrow> reject_num peer \<ge> block_ip_reject_num s \<and> start_time peer \<noteq> 0)"

definition block_peer_get_by_ip :: "blocker \<Rightarrow> ip_address \<Rightarrow> block_peer option" where
  "block_peer_get_by_ip s a = find (\<lambda>p. sameaddr a (peer_ip p)) (block_peer_head s)"

definition peer_expired :: "blocker \<Rightarrow> int \<Rightarrow> block_peer \<Rightarrow> bool" where
  "peer_expired s cur_time p \<longleftrightarrow> (let is_blocked = block_peer_is_blocked s (Some p) in
     (is_blocked \<and> cur_time - start_time p \<ge> block_ip_period s) \<or>
     (\<not> is_blocked \<and> cur_time - last_reject_time p \<ge> block_ip_period s))"

text \<open>The loop of \<open>block_peer_check_expired\<close>, from a place in the list on.\<close>

fun check_loop :: "int \<Rightarrow> block_peer list \<Rightarrow> blocker \<Rightarrow> block_peer list \<times> blocker" where
  "check_loop cur_time [] s = ([], s)"
| "check_loop cur_time (p # ps) s =
     (if peer_expired s cur_time p
      then check_loop cur_time ps (block_peer_log ''unblock IP address %s'' p s)
      else case check_loop cur_time ps s of (qs, t) \<Rightarrow> (p # qs, t))"

definition block_peer_check_expired :: "int \<Rightarrow> blocker \<Rightarrow> blocker option" where
  "block_peer_check_expired n s = map_option (\<lambda>(cur_time, c).
     case check_loop cur_time (block_peer_head s) (s\<lparr> pluto_clock := c \<rparr>) of (ps, t) \<Rightarrow> t\<lparr> block_peer_head := ps \<rparr>)
     (now n (pluto_clock s))"

text \<open>The peer as it is left in the list, and the rest of the state.\<close>

definition block_peer_start_block :: "int \<Rightarrow> block_peer \<Rightarrow> blocker \<Rightarrow> (block_peer \<times> blocker) option" where
  "block_peer_start_block n peer s =
     (if block_peer_is_blocked s (Some peer) then Some (peer, s)
      else if reject_num peer < block_ip_reject_num s then Some (peer, s)
      else map_option (\<lambda>(cur_time, c). let p = peer\<lparr> start_time := cur_time \<rparr> in
        (p, block_peer_log ''start block the IP address %s'' p (s\<lparr> pluto_clock := c \<rparr>))) (now n (pluto_clock s)))"

fun del_loop :: "ip_address option \<Rightarrow> block_peer list \<Rightarrow> blocker \<Rightarrow> block_peer list \<times> blocker" where
  "del_loop a [] s = ([], s)"
| "del_loop a (p # ps) s =
     (case a of
        Some x \<Rightarrow>
          if \<not> sameaddr x (peer_ip p) then (case del_loop a ps s of (qs, t) \<Rightarrow> (p # qs, t))
          else (ps, block_peer_log ''IP address %s was removed from block-IP list'' p s)
      | None \<Rightarrow> del_loop a ps (block_peer_log ''IP address %s was removed from block-IP list'' p s))"

definition block_peer_del :: "ip_address option \<Rightarrow> blocker \<Rightarrow> blocker" where
  "block_peer_del a s = (case del_loop a (block_peer_head s) s of (ps, t) \<Rightarrow> t\<lparr> block_peer_head := ps \<rparr>)"

text \<open>
  The loop of \<open>block_peer_add\<close> and what follows it, from a place in the list on: the peer of
  that address is found and counted, or a new one is put at the end if there is memory;
  \<open>n1\<close> and \<open>n2\<close> are the readings of the clock for the rejection and for the start of a block.
\<close>

fun add_loop :: "bool \<Rightarrow> int \<Rightarrow> int \<Rightarrow> ip_address \<Rightarrow> block_peer list \<Rightarrow> blocker \<Rightarrow> (block_peer list \<times> blocker) option" where
  "add_loop mem n1 n2 a [] s =
     (if \<not> mem then Some ([], s)
      else case now n1 (pluto_clock s) of
        None \<Rightarrow> None
      | Some (t1, c) \<Rightarrow> (let tmp = \<lparr> peer_ip = a, reject_num = 1, start_time = 0, last_reject_time = t1 \<rparr> in
          map_option (\<lambda>(p, t). ([p], t)) (block_peer_start_block n2 tmp
            (block_peer_log ''IP address %s was added to block-IP list'' tmp (s\<lparr> pluto_clock := c \<rparr>)))))"
| "add_loop mem n1 n2 a (p # ps) s =
     (if \<not> sameaddr (peer_ip p) a then map_option (\<lambda>(qs, t). (p # qs, t)) (add_loop mem n1 n2 a ps s)
      else case now n1 (pluto_clock s) of
        None \<Rightarrow> None
      | Some (t1, c) \<Rightarrow> map_option (\<lambda>(q, t). (q # ps, t)) (block_peer_start_block n2
          (p\<lparr> reject_num := reject_num p + 1, last_reject_time := t1 \<rparr>) (s\<lparr> pluto_clock := c \<rparr>)))"

definition block_peer_add :: "bool \<Rightarrow> int \<Rightarrow> int \<Rightarrow> ip_address \<Rightarrow> blocker \<Rightarrow> blocker option" where
  "block_peer_add mem n1 n2 a s =
     (if block_ip_reject_num s = 0 then Some s
      else map_option (\<lambda>(ps, t). t\<lparr> block_peer_head := ps \<rparr>) (add_loop mem n1 n2 a (block_peer_head s) s))"

definition block_peer_set :: "int \<Rightarrow> int \<Rightarrow> blocker \<Rightarrow> blocker" where
  "block_peer_set num period s = (let t = s\<lparr> block_ip_reject_num := num, block_ip_period := period \<rparr> in
     if num = 0 then block_peer_del None t else t)"

section \<open>The use of the list\<close>

text \<open>
  \<open>demux.c\<close>: whether a message that leads to the state \<open>next\<close> is looked at, what its rejection
  and its success bring about.
\<close>

definition message_admitted :: "state_kind \<Rightarrow> ip_address \<Rightarrow> blocker \<Rightarrow> bool" where
  "message_admitted next sender s \<longleftrightarrow>
     \<not> (block_peer_is_block_state next \<and> block_peer_is_blocked s (block_peer_get_by_ip s sender))"

definition message_rejected :: "bool \<Rightarrow> int \<Rightarrow> int \<Rightarrow> state_kind \<Rightarrow> ip_address \<Rightarrow> blocker \<Rightarrow> blocker option" where
  "message_rejected mem n1 n2 next sender s =
     (if block_peer_is_block_state next then block_peer_add mem n1 n2 sender s else Some s)"

text \<open>
  The end of \<open>complete_state_transition\<close>, as far as the list is concerned: \<open>is_success\<close> is
  cleared only when the transition failed with a notification, \<open>STF_FAIL\<close> and a number above it.
\<close>

datatype stf_status = STF_IGNORE | STF_SUSPEND | STF_OK | STF_INTERNAL_ERROR | STF_FAIL | STF_FAIL_NOTE nat

definition transition_completed ::
    "bool \<Rightarrow> int \<Rightarrow> int \<Rightarrow> stf_status \<Rightarrow> state_kind \<Rightarrow> ip_address \<Rightarrow> blocker \<Rightarrow> blocker option" where
  "transition_completed mem n1 n2 result next sender s =
     (case (case result of STF_FAIL_NOTE k \<Rightarrow> (False, message_rejected mem n1 n2 next sender s) | _ \<Rightarrow> (True, Some s)) of
        (is_success, r) \<Rightarrow> map_option (\<lambda>t.
          if is_success \<and> (next = STATE_MAIN_R3 \<or> next = STATE_AGGR_R2)
          then block_peer_del (Some sender) t else t) r)"

end
