(* ===== verification/Block_Properties.thy ===== *)
theory Block_Properties
  imports Block_Ip
begin

text \<open>
  The list of blocked peers implements a table from addresses to their counters and times, and
  blocks a peer exactly while its rejections have reached the threshold.
\<close>

section \<open>Lists with keys\<close>

locale keyed_list =
  fixes key :: "'p \<Rightarrow> 'k" and same :: "'x \<Rightarrow> 'p \<Rightarrow> bool" and key_of :: "'x \<Rightarrow> 'k"
  assumes same_iff: "same x p \<longleftrightarrow> key p = key_of x"
begin

lemma find_none: "key_of x \<notin> key ` set ps \<longleftrightarrow> find (same x) ps = None"
  by (auto simp: find_None_iff same_iff image_iff)

lemma find_filter:
  "distinct (map key ps) \<Longrightarrow> find (same x) (filter P ps) = (case find (same x) ps of None \<Rightarrow> None | Some p \<Rightarrow> if P p then Some p else None)"
proof (induction ps)
  case (Cons p ps)
  have "same x p \<Longrightarrow> find (same x) ps = None" using Cons.prems by (subst find_none [symmetric]) (auto simp: same_iff)
  moreover have "same x p \<Longrightarrow> find (same x) (filter P ps) = None"
    using Cons.prems by (subst find_none [symmetric]) (auto simp: same_iff)
  ultimately show ?case using Cons by (auto split: option.splits)
qed simp

end

definition peer_key :: "block_peer \<Rightarrow> byte list \<times> int" where
  "peer_key p = address_key (peer_ip p)"

interpretation peers: keyed_list peer_key "\<lambda>a p. sameaddr a (peer_ip p)" address_key
  by unfold_locales (auto simp: peer_key_def sameaddr_iff)

section \<open>The table\<close>

text \<open>What is known of an address: the rejections, when it was blocked (or 0), and when it was last rejected.\<close>

record entry =
  e_rejects :: int
  e_start :: int
  e_last :: int

definition entry_of :: "block_peer \<Rightarrow> entry" where
  "entry_of p = \<lparr> e_rejects = reject_num p, e_start = start_time p, e_last = last_reject_time p \<rparr>"

definition peer_table :: "blocker \<Rightarrow> ip_address \<rightharpoonup> entry" where
  "peer_table s a = map_option entry_of (block_peer_get_by_ip s a)"

definition wf_blocker :: "blocker \<Rightarrow> bool" where
  "wf_blocker s \<longleftrightarrow> distinct (map peer_key (block_peer_head s))"

definition entry_blocked :: "int \<Rightarrow> entry \<Rightarrow> bool" where
  "entry_blocked num e \<longleftrightarrow> e_rejects e \<ge> num \<and> e_start e \<noteq> 0"

text \<open>A rejection at the time \<open>t1\<close>; a block it brings about starts at \<open>t2\<close>.\<close>

definition rejected_entry :: "int \<Rightarrow> int \<Rightarrow> int \<Rightarrow> entry option \<Rightarrow> entry" where
  "rejected_entry num t1 t2 e = (let
       n = (case e of None \<Rightarrow> 1 | Some x \<Rightarrow> e_rejects x + 1);
       st = (case e of None \<Rightarrow> 0 | Some x \<Rightarrow> e_start x)
     in \<lparr> e_rejects = n, e_start = (if n \<ge> num \<and> st = 0 then t2 else st), e_last = t1 \<rparr>)"

definition entry_expired :: "int \<Rightarrow> int \<Rightarrow> int \<Rightarrow> entry \<Rightarrow> bool" where
  "entry_expired num period t e \<longleftrightarrow> t - (if entry_blocked num e then e_start e else e_last e) \<ge> period"

lemma log_simps [simp]:
  "block_peer_head (block_peer_log m p s) = block_peer_head s"
  "block_ip_reject_num (block_peer_log m p s) = block_ip_reject_num s"
  "block_ip_period (block_peer_log m p s) = block_ip_period s"
  "pluto_clock (block_peer_log m p s) = pluto_clock s"
  by (simp_all add: block_peer_log_def)

lemma blocked_log [simp]: "block_peer_is_blocked (block_peer_log m p s) = block_peer_is_blocked s"
  by (intro ext) (simp add: block_peer_is_blocked_def split: option.split)

lemma expired_log [simp]: "peer_expired (block_peer_log m p s) t = peer_expired s t"
  by (intro ext) (simp add: peer_expired_def)

lemma peer_expired_entry: "peer_expired s t p \<longleftrightarrow> entry_expired (block_ip_reject_num s) (block_ip_period s) t (entry_of p)"
  by (auto simp: peer_expired_def entry_expired_def entry_blocked_def entry_of_def block_peer_is_blocked_def)

text \<open>The fields a walk over the list leaves alone.\<close>

definition same_settings :: "blocker \<Rightarrow> blocker \<Rightarrow> bool" where
  "same_settings s t \<longleftrightarrow> block_ip_reject_num t = block_ip_reject_num s \<and> block_ip_period t = block_ip_period s"

lemma check_loop_filter:
  assumes "check_loop t ps s = (qs, s')"
  shows "qs = filter (\<lambda>p. \<not> peer_expired s t p) ps \<and> same_settings s s' \<and> pluto_clock s' = pluto_clock s"
  using assms
proof (induction t ps s arbitrary: qs s' rule: check_loop.induct)
  case (2 t p ps s)
  then show ?case by (fastforce simp: same_settings_def split: if_splits prod.splits)
qed (simp add: same_settings_def)

lemma del_loop_filter:
  assumes "distinct (map peer_key ps)" "del_loop a ps s = (qs, s')"
  shows "qs = (case a of None \<Rightarrow> [] | Some x \<Rightarrow> filter (\<lambda>p. \<not> sameaddr x (peer_ip p)) ps) \<and> same_settings s s' \<and> pluto_clock s' = pluto_clock s"
  using assms
proof (induction a ps s arbitrary: qs s' rule: del_loop.induct)
  case (2 a p ps s)
  show ?case
  proof (cases a)
    case None
    with 2 show ?thesis by (fastforce simp: same_settings_def)
  next
    case (Some x)
    show ?thesis
    proof (cases "sameaddr x (peer_ip p)")
      case True
      then have "filter (\<lambda>p. \<not> sameaddr x (peer_ip p)) ps = ps"
        using 2(3) by (auto simp: filter_id_conv peers.same_iff image_iff)
      with True Some 2(4) show ?thesis by (auto simp: same_settings_def)
    next
      case False
      with Some 2 show ?thesis by (fastforce split: prod.splits)
    qed
  qed
qed (simp add: same_settings_def split: option.split)


lemma start_block_entry:
  assumes "now n2 (pluto_clock s) = Some (t2, c2)"
  shows "\<exists>q s'. block_peer_start_block n2 p s = Some (q, s') \<and> peer_ip q = peer_ip p \<and> same_settings s s' \<and> pluto_clock s' \<in> {pluto_clock s, c2} \<and>
     entry_of q = (entry_of p)\<lparr> e_start := (if reject_num p \<ge> block_ip_reject_num s \<and> start_time p = 0 then t2 else start_time p) \<rparr>"
proof (cases "reject_num p \<ge> block_ip_reject_num s \<and> start_time p = 0")
  case True
  with assms show ?thesis
    by (intro exI [of _ "p\<lparr> start_time := t2 \<rparr>"])
      (auto simp: block_peer_start_block_def block_peer_is_blocked_def Let_def same_settings_def entry_of_def)
next
  case False
  then show ?thesis
    by (auto simp: block_peer_start_block_def block_peer_is_blocked_def same_settings_def entry_of_def)
qed

lemma add_loop_table:
  assumes "distinct (map peer_key ps)" "now n1 (pluto_clock s) = Some (t1, c1)" "now n2 c1 = Some (t2, c2)"
  shows "\<exists>qs s'. add_loop True n1 n2 a ps s = Some (qs, s') \<and> same_settings s s' \<and> pluto_clock s' \<in> {c1, c2} \<and> distinct (map peer_key qs) \<and>
     set (map peer_key qs) = insert (address_key a) (set (map peer_key ps)) \<and>
     (\<forall>x. map_option entry_of (find (\<lambda>p. sameaddr x (peer_ip p)) qs) =
        (if address_key x = address_key a
         then Some (rejected_entry (block_ip_reject_num s) t1 t2 (map_option entry_of (find (\<lambda>p. sameaddr a (peer_ip p)) ps)))
         else map_option entry_of (find (\<lambda>p. sameaddr x (peer_ip p)) ps)))"
  using assms(1)
proof (induction ps)
  case Nil
  let ?p = "\<lparr> peer_ip = a, reject_num = 1, start_time = 0, last_reject_time = t1 \<rparr>"
  obtain q s' where "block_peer_start_block n2 ?p
      (block_peer_log ''IP address %s was added to block-IP list'' ?p (s\<lparr> pluto_clock := c1 \<rparr>)) = Some (q, s')"
    "peer_ip q = a" "same_settings s s'" "pluto_clock s' \<in> {c1, c2}"
    "entry_of q = (entry_of ?p)\<lparr> e_start := (if block_ip_reject_num s \<le> 1 then t2 else 0) \<rparr>"
    using start_block_entry [of n2 "block_peer_log ''IP address %s was added to block-IP list'' ?p (s\<lparr> pluto_clock := c1 \<rparr>)" t2 c2 ?p] assms(3)
    by (auto simp: same_settings_def)
  then show ?case using assms(2)
    by (auto simp: peers.same_iff peer_key_def rejected_entry_def entry_of_def Let_def)
next
  case (Cons p ps)
  show ?case
  proof (cases "sameaddr (peer_ip p) a")
    case True
    then have key: "peer_key p = address_key a" by (simp add: sameaddr_iff peer_key_def)
    let ?p = "p\<lparr> reject_num := reject_num p + 1, last_reject_time := t1 \<rparr>"
    obtain q s' where "block_peer_start_block n2 ?p (s\<lparr> pluto_clock := c1 \<rparr>) = Some (q, s')"
      "peer_key q = address_key a" "same_settings s s'" "pluto_clock s' \<in> {c1, c2}"
      "entry_of q = (entry_of ?p)\<lparr> e_start := (if reject_num p + 1 \<ge> block_ip_reject_num s \<and> start_time p = 0 then t2 else start_time p) \<rparr>"
      using start_block_entry [of n2 "s\<lparr> pluto_clock := c1 \<rparr>" t2 c2 ?p] assms(3) key
      by (auto simp: same_settings_def peer_key_def)
    then show ?thesis using assms(2) True key Cons.prems
      by (auto simp: peers.same_iff rejected_entry_def entry_of_def [abs_def] Let_def)
  next
    case False
    then have key: "peer_key p \<noteq> address_key a" by (simp add: sameaddr_iff peer_key_def)
    obtain qs s' where "add_loop True n1 n2 a ps s = Some (qs, s')" and rest: "same_settings s s'" "pluto_clock s' \<in> {c1, c2}" "distinct (map peer_key qs)"
      "set (map peer_key qs) = insert (address_key a) (set (map peer_key ps))"
      "\<forall>x. map_option entry_of (find (\<lambda>p. sameaddr x (peer_ip p)) qs) =
        (if address_key x = address_key a
         then Some (rejected_entry (block_ip_reject_num s) t1 t2 (map_option entry_of (find (\<lambda>p. sameaddr a (peer_ip p)) ps)))
         else map_option entry_of (find (\<lambda>p. sameaddr x (peer_ip p)) ps))"
      using Cons by (auto simp del: insert_iff)
    with False have add: "add_loop True n1 n2 a (p # ps) s = Some (p # qs, s')" by simp
    show ?thesis using rest key Cons.prems unfolding add
      by (intro exI [of _ "p # qs"] exI [of _ s']) (auto simp: peers.same_iff)
  qed
qed


lemma add_loop_no_memory:
  "add_loop False n1 n2 a ps s =
     (if find (\<lambda>p. sameaddr a (peer_ip p)) ps = None then Some (ps, s) else add_loop True n1 n2 a ps s)"
proof (induction ps)
  case (Cons p ps)
  have "sameaddr a (peer_ip p) = sameaddr (peer_ip p) a" by (auto simp: sameaddr_iff)
  with Cons show ?case by auto
qed simp

lemmas table_defs = peer_table_def block_peer_get_by_ip_def wf_blocker_def

lemma add_table:
  assumes "wf_blocker s" "now n1 (pluto_clock s) = Some (t1, c1)" "now n2 c1 = Some (t2, c2)"
  shows "\<exists>t. block_peer_add True n1 n2 a s = Some t \<and> wf_blocker t \<and> same_settings s t \<and>
     pluto_clock t \<in> {pluto_clock s, c1, c2} \<and>
     (\<forall>x. peer_table t x =
        (if block_ip_reject_num s \<noteq> 0 \<and> address_key x = address_key a
         then Some (rejected_entry (block_ip_reject_num s) t1 t2 (peer_table s a)) else peer_table s x))"
proof (cases "block_ip_reject_num s = 0")
  case True
  then show ?thesis using assms(1) by (auto simp: block_peer_add_def same_settings_def)
next
  case False
  from add_loop_table [OF assms(1) [unfolded wf_blocker_def] assms(2,3), of a] obtain qs s' where
    "add_loop True n1 n2 a (block_peer_head s) s = Some (qs, s')" "same_settings s s'" "pluto_clock s' \<in> {c1, c2}"
    "distinct (map peer_key qs)"
    "\<forall>x. map_option entry_of (find (\<lambda>p. sameaddr x (peer_ip p)) qs) =
        (if address_key x = address_key a
         then Some (rejected_entry (block_ip_reject_num s) t1 t2 (map_option entry_of (find (\<lambda>p. sameaddr a (peer_ip p)) (block_peer_head s))))
         else map_option entry_of (find (\<lambda>p. sameaddr x (peer_ip p)) (block_peer_head s)))"
    by (elim exE conjE) (rule that)
  with False show ?thesis
    by (intro exI [of _ "s'\<lparr> block_peer_head := qs \<rparr>"]) (auto simp: block_peer_add_def table_defs same_settings_def)
qed

lemma expire_table:
  assumes "wf_blocker s" "now n (pluto_clock s) = Some (t1, c1)"
  shows "\<exists>t. block_peer_check_expired n s = Some t \<and> wf_blocker t \<and> same_settings s t \<and> pluto_clock t = c1 \<and>
     (\<forall>x. peer_table t x = (case peer_table s x of
        None \<Rightarrow> None
      | Some e \<Rightarrow> if entry_expired (block_ip_reject_num s) (block_ip_period s) t1 e then None else Some e))"
proof -
  let ?s = "s\<lparr> pluto_clock := c1 \<rparr>"
  obtain qs s' where loop: "check_loop t1 (block_peer_head s) ?s = (qs, s')" by force
  note qs = check_loop_filter [OF loop]
  have exp: "peer_expired ?s t1 p \<longleftrightarrow> entry_expired (block_ip_reject_num s) (block_ip_period s) t1 (entry_of p)" for p
    by (simp add: peer_expired_entry)
  have "find (\<lambda>p. sameaddr x (peer_ip p)) qs = (case find (\<lambda>p. sameaddr x (peer_ip p)) (block_peer_head s) of
      None \<Rightarrow> None | Some p \<Rightarrow> if entry_expired (block_ip_reject_num s) (block_ip_period s) t1 (entry_of p) then None else Some p)" for x
    using peers.find_filter [of "block_peer_head s" x "\<lambda>p. \<not> peer_expired ?s t1 p"] assms(1) qs
    by (auto simp: wf_blocker_def exp split: option.splits)
  moreover have "distinct (map peer_key qs)" using assms(1) qs by (simp add: wf_blocker_def distinct_map_filter)
  ultimately show ?thesis using assms(2) loop qs
    by (intro exI [of _ "s'\<lparr> block_peer_head := qs \<rparr>"])
      (auto simp: block_peer_check_expired_def table_defs same_settings_def split: option.splits)
qed

lemma del_table:
  assumes "wf_blocker s"
  shows "wf_blocker (block_peer_del a s) \<and> same_settings s (block_peer_del a s) \<and> pluto_clock (block_peer_del a s) = pluto_clock s \<and>
     (\<forall>x. peer_table (block_peer_del a s) x =
        (case a of None \<Rightarrow> None | Some y \<Rightarrow> if address_key x = address_key y then None else peer_table s x))"
proof -
  obtain qs s' where loop: "del_loop a (block_peer_head s) s = (qs, s')" by force
  note qs = del_loop_filter [OF assms [unfolded wf_blocker_def] loop]
  have "map_option entry_of (find (\<lambda>p. sameaddr x (peer_ip p)) qs) =
      (case a of None \<Rightarrow> None | Some y \<Rightarrow> if address_key x = address_key y then None else peer_table s x)" for x
  proof (cases a)
    case (Some y)
    then show ?thesis
      using peers.find_filter [of "block_peer_head s" x "\<lambda>p. \<not> sameaddr y (peer_ip p)"] assms qs
        find_Some_iff [of "\<lambda>p. sameaddr x (peer_ip p)" "block_peer_head s"]
      by (auto simp: table_defs peers.same_iff split: option.splits) (metis+)
  qed (use qs in simp)
  moreover have "distinct (map peer_key qs)"
    using assms qs by (auto simp: wf_blocker_def distinct_map_filter split: option.splits)
  ultimately show ?thesis using loop qs by (auto simp: block_peer_del_def table_defs same_settings_def)
qed


lemma set_table:
  assumes "wf_blocker s"
  shows "wf_blocker (block_peer_set num period s) \<and>
     (\<forall>x. peer_table (block_peer_set num period s) x = (if num = 0 then None else peer_table s x))"
  using assms del_table [of "s\<lparr> block_ip_reject_num := num, block_ip_period := period \<rparr>" None]
  by (auto simp: block_peer_set_def Let_def table_defs)

section \<open>The clock\<close>

lemma now_later: "now n c = Some (t, c') \<Longrightarrow> t = n + delta c' \<and> last_time c + delta c \<le> t \<and> last_time c' = n \<and> delta c \<le> delta c'"
  by (auto simp: now_def Let_def split: if_splits)

lemma now_monotonic: "now n c = Some (t, c') \<Longrightarrow> now n' c' = Some (t', c'') \<Longrightarrow> t \<le> t'"
  using now_later [of n c t c'] now_later [of n' c' t' c''] by auto

section \<open>Steps\<close>

text \<open>
  What happens to the list while the settings stay as they are: messages are rejected, state
  transitions complete, the timer runs, connections are deleted. The clock of the system runs
  after the start of its count.
\<close>

inductive block_step :: "blocker \<Rightarrow> blocker \<Rightarrow> bool" where
  rejected: "n1 > 0 \<Longrightarrow> n2 > 0 \<Longrightarrow> message_rejected mem n1 n2 st a s = Some t \<Longrightarrow> block_step s t"
| completed: "n1 > 0 \<Longrightarrow> n2 > 0 \<Longrightarrow> transition_completed mem n1 n2 result st a s = Some t \<Longrightarrow> block_step s t"
| timer: "n > 0 \<Longrightarrow> block_peer_check_expired n s = Some t \<Longrightarrow> block_step s t"
| deleted: "block_step s (block_peer_del (Some a) s)"

text \<open>A peer is marked as blocked exactly if its rejections have reached the threshold.\<close>

definition entry_ok :: "int \<Rightarrow> entry \<Rightarrow> bool" where
  "entry_ok num e \<longleftrightarrow> e_rejects e \<ge> 1 \<and> (e_start e \<noteq> 0 \<longleftrightarrow> e_rejects e \<ge> num)"

definition blocker_ok :: "blocker \<Rightarrow> bool" where
  "blocker_ok s \<longleftrightarrow> wf_blocker s \<and> delta (pluto_clock s) \<ge> 0 \<and>
     (\<forall>x e. peer_table s x = Some e \<longrightarrow> entry_ok (block_ip_reject_num s) e)"

lemma rejected_entry_ok:
  "t2 > 0 \<Longrightarrow> (\<And>x. e = Some x \<Longrightarrow> entry_ok num x) \<Longrightarrow> entry_ok num (rejected_entry num t1 t2 e)"
  by (cases e) (auto simp: entry_ok_def rejected_entry_def Let_def)

lemma add_ok:
  assumes "blocker_ok s" "n1 > 0" "n2 > 0" "block_peer_add mem n1 n2 a s = Some t"
  shows "blocker_ok t \<and> same_settings s t"
proof -
  obtain t1 c1 where 1: "now n1 (pluto_clock s) = Some (t1, c1)" using assms(2) by (auto simp: now_def Let_def)
  obtain t2 c2 where 2: "now n2 c1 = Some (t2, c2)" using assms(3) by (auto simp: now_def Let_def)
  have clk: "delta c1 \<ge> 0" "delta c2 \<ge> 0" "t2 > 0"
    using now_later [OF 1] now_later [OF 2] assms(1,3) by (auto simp: blocker_ok_def)
  from add_table [OF _ 1 2, of a] assms(1) obtain t' where t': "block_peer_add True n1 n2 a s = Some t'"
    "wf_blocker t'" "same_settings s t'" "pluto_clock t' \<in> {pluto_clock s, c1, c2}"
    "\<forall>x. peer_table t' x = (if block_ip_reject_num s \<noteq> 0 \<and> address_key x = address_key a
         then Some (rejected_entry (block_ip_reject_num s) t1 t2 (peer_table s a)) else peer_table s x)"
    by (auto simp: blocker_ok_def simp del: insert_iff)
  then have "blocker_ok t'"
    using assms(1) clk rejected_entry_ok [of t2 "peer_table s a"]
    by (auto simp: blocker_ok_def same_settings_def split: if_splits)
  moreover have "t = t' \<or> t = s"
    using assms(4) t'(1) by (cases mem) (auto simp: block_peer_add_def add_loop_no_memory split: if_splits)
  ultimately show ?thesis using t'(3) assms(1) by (auto simp: same_settings_def)
qed

lemma del_ok: "blocker_ok s \<Longrightarrow> blocker_ok (block_peer_del (Some a) s) \<and> same_settings s (block_peer_del (Some a) s)"
  using del_table [of s "Some a"] by (auto simp: blocker_ok_def same_settings_def split: if_splits)

lemma expire_ok:
  assumes "blocker_ok s" "n > 0" "block_peer_check_expired n s = Some t"
  shows "blocker_ok t \<and> same_settings s t"
proof -
  obtain t1 c1 where 1: "now n (pluto_clock s) = Some (t1, c1)" using assms(2) by (auto simp: now_def Let_def)
  show ?thesis
    using expire_table [OF _ 1] assms now_later [OF 1]
    by (fastforce simp: blocker_ok_def same_settings_def split: option.splits if_splits)
qed

lemma step_ok_blocker: "block_step s t \<Longrightarrow> blocker_ok s \<Longrightarrow> blocker_ok t \<and> same_settings s t"
proof (induction rule: block_step.induct)
  case (rejected n1 n2 mem st a s t)
  then show ?case using add_ok by (fastforce simp: message_rejected_def same_settings_def split: if_splits)
next
  case (completed n1 n2 mem result st a s t)
  then obtain u where u: "(case result of STF_FAIL_NOTE k \<Rightarrow> message_rejected mem n1 n2 st a s | _ \<Rightarrow> Some s) = Some u"
    "t = u \<or> t = block_peer_del (Some a) u"
    by (cases result) (auto simp: transition_completed_def split: if_splits)
  have "blocker_ok u \<and> same_settings s u"
    using u(1) completed add_ok
    by (cases result) (fastforce simp: message_rejected_def same_settings_def split: if_splits)+
  with u(2) del_ok [of u a] show ?case by (auto simp: same_settings_def)
next
  case (timer n s t)
  then show ?case using expire_ok by blast
next
  case (deleted s a)
  then show ?case using del_ok by blast
qed


inductive_cases block_stepE: "block_step s t"

text \<open>
  What does not let a blocked peer go before a given time: rejections, of anybody's messages;
  transitions that fail with a notification, are not the last of an exchange, or are another's;
  the timer, before that time; deletions of others. The settings stay as they are.
\<close>

inductive holding_step :: "ip_address \<Rightarrow> int \<Rightarrow> blocker \<Rightarrow> blocker \<Rightarrow> bool" for a finish where
  h_rejected: "n1 > 0 \<Longrightarrow> n2 > 0 \<Longrightarrow> message_rejected mem n1 n2 st b s = Some t \<Longrightarrow> holding_step a finish s t"
| h_completed: "n1 > 0 \<Longrightarrow> n2 > 0 \<Longrightarrow> transition_completed mem n1 n2 result st b s = Some t \<Longrightarrow>
    (\<exists>k. result = STF_FAIL_NOTE k) \<or> st \<notin> {STATE_MAIN_R3, STATE_AGGR_R2} \<or> address_key b \<noteq> address_key a \<Longrightarrow>
    holding_step a finish s t"
| h_timer: "now n (pluto_clock s) = Some (t1, c1) \<Longrightarrow> t1 < finish \<Longrightarrow> block_peer_check_expired n s = Some t \<Longrightarrow>
    holding_step a finish s t"
| h_deleted: "address_key b \<noteq> address_key a \<Longrightarrow> holding_step a finish s (block_peer_del (Some b) s)"

definition held :: "ip_address \<Rightarrow> int \<Rightarrow> blocker \<Rightarrow> bool" where
  "held a start s \<longleftrightarrow> wf_blocker s \<and>
     (\<exists>e. peer_table s a = Some e \<and> entry_blocked (block_ip_reject_num s) e \<and> e_start e = start)"

lemma held_add:
  assumes "held a start s" "n1 > 0" "n2 > 0" "block_peer_add mem n1 n2 b s = Some t"
  shows "held a start t \<and> same_settings s t"
proof -
  obtain t1 c1 where 1: "now n1 (pluto_clock s) = Some (t1, c1)" using assms(2) by (auto simp: now_def Let_def)
  obtain t2 c2 where 2: "now n2 c1 = Some (t2, c2)" using assms(3) by (auto simp: now_def Let_def)
  from add_table [OF _ 1 2, of b] assms(1) obtain u where u: "block_peer_add True n1 n2 b s = Some u"
    "wf_blocker u" "same_settings s u"
    "\<forall>x. peer_table u x = (if block_ip_reject_num s \<noteq> 0 \<and> address_key x = address_key b
         then Some (rejected_entry (block_ip_reject_num s) t1 t2 (peer_table s b)) else peer_table s x)"
    unfolding held_def by blast
  have "address_key a = address_key b \<Longrightarrow> peer_table s b = peer_table s a"
    by (simp add: table_defs peers.same_iff)
  with u assms(1) have "held a start u"
    by (auto simp: held_def entry_blocked_def rejected_entry_def same_settings_def Let_def)
  moreover have "t = u \<or> t = s"
    using assms(4) u(1) by (cases mem) (auto simp: block_peer_add_def add_loop_no_memory split: if_splits)
  ultimately show ?thesis using assms(1) u(3) by (auto simp: same_settings_def)
qed

lemma held_rejected:
  "held a start s \<Longrightarrow> n1 > 0 \<Longrightarrow> n2 > 0 \<Longrightarrow> message_rejected mem n1 n2 st b s = Some t \<Longrightarrow> held a start t \<and> same_settings s t"
  using held_add by (fastforce simp: message_rejected_def same_settings_def split: if_splits)

lemma held_del:
  "held a start s \<Longrightarrow> address_key b \<noteq> address_key a \<Longrightarrow> held a start (block_peer_del (Some b) s) \<and> same_settings s (block_peer_del (Some b) s)"
  using del_table [of s "Some b"] by (auto simp: held_def same_settings_def)

lemma holding_step_holds:
  assumes "holding_step a (start + block_ip_period s) s t" "held a start s"
  shows "held a start t \<and> same_settings s t"
  using assms(1)
proof cases
  case (h_rejected n1 n2 mem st b)
  with held_rejected [OF assms(2)] show ?thesis by blast
next
  case (h_completed n1 n2 mem result st b)
  from h_completed(3) obtain u where
    u: "(case result of STF_FAIL_NOTE k \<Rightarrow> message_rejected mem n1 n2 st b s | _ \<Rightarrow> Some s) = Some u"
    "t = u \<or> address_key b \<noteq> address_key a \<and> t = block_peer_del (Some b) u"
    using h_completed(4) by (cases result) (auto simp: transition_completed_def split: if_splits)
  have "held a start u \<and> same_settings s u"
    using u(1) assms(2) held_rejected [OF assms(2) h_completed(1,2)]
    by (cases result) (auto simp: same_settings_def)
  with u(2) held_del [of a start u b] show ?thesis by (auto simp: same_settings_def)
next
  case (h_timer n t1 c1)
  from assms(2) have wf: "wf_blocker s" by (simp add: held_def)
  from expire_table [OF wf h_timer(1)] h_timer(2,3) assms(2) show ?thesis
    by (auto simp: held_def entry_expired_def same_settings_def)
next
  case (h_deleted b)
  with held_del [OF assms(2)] show ?thesis by simp
qed

lemma holding_steps_hold:
  assumes "(holding_step a (start + block_ip_period s))\<^sup>*\<^sup>* s t" "held a start s"
  shows "held a start t \<and> same_settings s t"
  using assms(1)
proof (induction rule: rtranclp_induct)
  case base
  then show ?case using assms(2) by (simp add: same_settings_def)
next
  case (step u t)
  from step(3) have "block_ip_period u = block_ip_period s" by (simp add: same_settings_def)
  with step holding_step_holds [of a start u t] show ?case by (auto simp: same_settings_def)
qed

section \<open>Properties\<close>

text \<open>
  C20: The list of peers refines a table from addresses to counters and times. It never holds
  an address twice; a rejection counts one up and starts a block when the threshold is
  reached, or does nothing when blocking is off; the timer removes exactly the entries whose
  block, or whose last rejection, is a period ago; a deletion removes one address, and
  switching blocking off all of them.
\<close>

theorem block_list_refines_table:
  assumes "wf_blocker s" "now n1 (pluto_clock s) = Some (t1, c1)" "now n2 c1 = Some (t2, c2)"
  shows "(\<exists>t. block_peer_add True n1 n2 a s = Some t \<and> wf_blocker t \<and>
       (\<forall>x. peer_table t x =
          (if block_ip_reject_num s \<noteq> 0 \<and> address_key x = address_key a
           then Some (rejected_entry (block_ip_reject_num s) t1 t2 (peer_table s a)) else peer_table s x))) \<and>
     (\<exists>t. block_peer_check_expired n1 s = Some t \<and> wf_blocker t \<and>
       (\<forall>x. peer_table t x = (case peer_table s x of
            None \<Rightarrow> None
          | Some e \<Rightarrow> if entry_expired (block_ip_reject_num s) (block_ip_period s) t1 e then None else Some e))) \<and>
     wf_blocker (block_peer_del (Some a) s) \<and>
     (\<forall>x. peer_table (block_peer_del (Some a) s) x = (if address_key x = address_key a then None else peer_table s x)) \<and>
     (\<forall>x. peer_table (block_peer_set num period s) x = (if num = 0 then None else peer_table s x))"
  using add_table [OF assms, of a] expire_table [OF assms(1,2)] del_table [OF assms(1), of "Some a"] set_table [OF assms(1), of num period]
  by auto

text \<open>
  C21: While the settings stay as they are, a message that would take the exchange on is turned
  away exactly if its sender is in the table with as many rejections as the threshold: in
  every state that rejections, completed transitions, the timer and deletions lead to, from an
  empty list.
\<close>

theorem blocked_iff_enough_rejections:
  assumes "block_step\<^sup>*\<^sup>* (block_peer_set num period blocker_start) s" "block_peer_is_block_state st"
  shows "message_admitted st a s \<longleftrightarrow> (\<forall>e. peer_table s a = Some e \<longrightarrow> e_rejects e < num)"
proof -
  let ?s = "block_peer_set num period blocker_start"
  have start: "blocker_ok ?s \<and> block_ip_reject_num ?s = num"
    by (simp add: block_peer_set_def blocker_start_def blocker_ok_def table_defs block_peer_del_def clock_start_def Let_def)
  have "blocker_ok s \<and> block_ip_reject_num s = num"
    using assms(1)
  proof (induction rule: rtranclp_induct)
    case (step t u)
    then show ?case using step_ok_blocker [of t u] by (simp add: same_settings_def)
  qed (rule start)
  then have ok: "peer_table s a = Some e \<Longrightarrow> entry_ok num e" and num: "block_ip_reject_num s = num" for e
    by (auto simp: blocker_ok_def)
  show ?thesis
    using assms(2) ok num
    by (cases "block_peer_get_by_ip s a")
      (auto simp: message_admitted_def block_peer_is_blocked_def peer_table_def entry_ok_def entry_of_def)
qed

text \<open>
  C22: A block lasts for the period. From a state where a peer is blocked, after any number of
  rejections, its own or others', of transitions that fail with a notification, are not the
  last of an exchange or are another's, of deletions of others and of runs of the timer before
  the start of the block plus the period, it is still blocked, from the same start, and its
  messages are turned away; the first run of the timer at or after that time takes it off the
  list. What is left out are deletions of the peer itself, its last transitions that count as
  a success, and changes of the settings.
\<close>

theorem block_lasts_period:
  assumes "wf_blocker s" "peer_table s a = Some e" "entry_blocked (block_ip_reject_num s) e"
    and "(holding_step a (e_start e + block_ip_period s))\<^sup>*\<^sup>* s t"
  shows "(\<exists>e'. peer_table t a = Some e' \<and> entry_blocked (block_ip_reject_num t) e' \<and> e_start e' = e_start e) \<and>
     (block_peer_is_block_state st \<longrightarrow> \<not> message_admitted st a t) \<and>
     (\<forall>n t1 c1. now n (pluto_clock t) = Some (t1, c1) \<and> e_start e + block_ip_period s \<le> t1 \<longrightarrow>
        (\<exists>u. block_peer_check_expired n t = Some u \<and> peer_table u a = None))"
proof -
  have "held a (e_start e) s" using assms(1-3) by (simp add: held_def)
  from holding_steps_hold [OF assms(4) this] obtain e' where
    t: "wf_blocker t" "peer_table t a = Some e'" "entry_blocked (block_ip_reject_num t) e'" "e_start e' = e_start e"
      "same_settings s t" by (auto simp: held_def)
  from t(2,3) have "block_peer_is_block_state st \<longrightarrow> \<not> message_admitted st a t"
    by (auto simp: message_admitted_def peer_table_def block_peer_is_blocked_def entry_blocked_def entry_of_def)
  moreover have "\<exists>u. block_peer_check_expired n t = Some u \<and> peer_table u a = None"
    if "now n (pluto_clock t) = Some (t1, c1)" "e_start e + block_ip_period s \<le> t1" for n t1 c1
    using expire_table [OF t(1) that(1)] t that(2) by (auto simp: entry_expired_def same_settings_def)
  ultimately show ?thesis using t by blast
qed

section \<open>Examples and departures\<close>

definition peer_a :: ip_address where
  "peer_a = \<lparr> sin_family = AF_INET, sin_port = 0, s_addr = [10, 0, 0, 1], sin6_addr = replicate 16 0 \<rparr>"

text \<open>A threshold of one, and one rejection at the time 5.\<close>

definition blocked_once :: blocker where
  "blocked_once = \<lparr> block_peer_head = [\<lparr> peer_ip = peer_a, reject_num = 1, start_time = 5, last_reject_time = 5 \<rparr>],
     block_ip_reject_num = 1, block_ip_period = 60, pluto_clock = \<lparr> delta = 0, last_time = 5 \<rparr>,
     block_log = [(''IP address %s was added to block-IP list'', peer_a), (''start block the IP address %s'', peer_a)] \<rparr>"

lemmas example_defs = blocker_start_def clock_start_def block_peer_set_def block_peer_add_def
  block_peer_start_block_def block_peer_is_blocked_def block_peer_log_def now_def Let_def

lemma blocked_once_reached: "message_rejected True 5 5 STATE_MAIN_R1 peer_a (block_peer_set 1 60 blocker_start) = Some blocked_once"
  by (simp add: message_rejected_def block_peer_is_block_state_def blocked_once_def example_defs)

lemma blocked_once_table: "peer_table blocked_once peer_a = Some \<lparr> e_rejects = 1, e_start = 5, e_last = 5 \<rparr>" "wf_blocker blocked_once"
  by (simp_all add: table_defs blocked_once_def entry_of_def sameaddr_iff)

theorem block_list_refines_table_witness:
  "\<exists>t. block_peer_add True 7 8 peer_a blocked_once = Some t \<and> wf_blocker t \<and>
     peer_table t peer_a = Some \<lparr> e_rejects = 2, e_start = 5, e_last = 7 \<rparr>"
  using block_list_refines_table [of blocked_once 7 7 "\<lparr> delta = 0, last_time = 7 \<rparr>" 8 8 "\<lparr> delta = 0, last_time = 8 \<rparr>" peer_a 0 0]
    blocked_once_table
  by (auto simp: now_def Let_def blocked_once_def rejected_entry_def)

theorem blocked_iff_enough_rejections_witness:
  "\<not> message_admitted STATE_MAIN_R1 peer_a blocked_once"
proof -
  have "block_step (block_peer_set 1 60 blocker_start) blocked_once"
    by (rule rejected [OF _ _ blocked_once_reached]) simp_all
  then have run: "block_step\<^sup>*\<^sup>* (block_peer_set 1 60 blocker_start) blocked_once" by blast
  show ?thesis
    using blocked_iff_enough_rejections [OF run, of STATE_MAIN_R1 peer_a] blocked_once_table(1)
    by (simp add: block_peer_is_block_state_def)
qed

theorem block_lasts_period_witness:
  "\<exists>t u. block_peer_add True 30 30 peer_a blocked_once = Some t \<and> \<not> message_admitted STATE_MAIN_R1 peer_a t \<and>
     block_peer_check_expired 65 t = Some u \<and> peer_table u peer_a = None"
proof -
  let ?t = "blocked_once\<lparr> block_peer_head := [\<lparr> peer_ip = peer_a, reject_num = 2, start_time = 5, last_reject_time = 30 \<rparr>],
     pluto_clock := \<lparr> delta = 0, last_time = 30 \<rparr> \<rparr>"
  have add: "block_peer_add True 30 30 peer_a blocked_once = Some ?t"
    by (simp add: blocked_once_def example_defs sameaddr_iff)
  then have "message_rejected True 30 30 STATE_MAIN_R1 peer_a blocked_once = Some ?t"
    by (simp add: message_rejected_def block_peer_is_block_state_def)
  then have "holding_step peer_a 65 blocked_once ?t" by (rule h_rejected [rotated 2]) simp_all
  then have run: "(holding_step peer_a 65)\<^sup>*\<^sup>* blocked_once ?t" by blast
  have e: "entry_blocked (block_ip_reject_num blocked_once) \<lparr> e_rejects = 1, e_start = 5, e_last = 5 \<rparr>"
    "5 + block_ip_period blocked_once = 65"
    by (simp_all add: entry_blocked_def blocked_once_def)
  have "now 65 (pluto_clock ?t) = Some (65, \<lparr> delta = 0, last_time = 65 \<rparr>)" by (simp add: now_def Let_def)
  with block_lasts_period [OF blocked_once_table(2,1) e(1), of ?t STATE_MAIN_R1] run e(2) add show ?thesis
    by (auto simp: block_peer_is_block_state_def)
qed

text \<open>
  A transition that was only suspended, or failed without a notification, counts as a success
  and takes its sender off the list.
\<close>

lemma suspended_transition_unblocks:
  "\<exists>t. transition_completed True 6 6 STF_SUSPEND STATE_MAIN_R3 peer_a blocked_once = Some t \<and> message_admitted STATE_MAIN_R3 peer_a t"
  by (simp add: transition_completed_def block_peer_del_def blocked_once_def block_peer_log_def sameaddr_iff
      message_admitted_def block_peer_is_block_state_def block_peer_get_by_ip_def block_peer_is_blocked_def)

text \<open>
  A threshold that is raised while a peer is blocked lifts the block, but the start of that
  block stays: the next block counts from it and ends early.
\<close>

lemma raised_threshold_keeps_start:
  "\<exists>t. block_peer_add True 64 64 peer_a (block_peer_set 2 60 blocked_once) = Some t \<and> \<not> message_admitted STATE_MAIN_R1 peer_a t \<and>
     (\<exists>u. block_peer_check_expired 65 t = Some u \<and> message_admitted STATE_MAIN_R1 peer_a u)"
  by (simp add: blocked_once_def example_defs sameaddr_iff block_peer_check_expired_def peer_expired_def
      message_admitted_def block_peer_is_block_state_def block_peer_get_by_ip_def)

end
