(* ===== verification/Spec2Isabelle.thy ===== *)
theory Spec2Isabelle
  imports Board_Effects Distributions Command_Properties Numbers Mkconfig
    Program Host_Properties Ipc_Protocol Rg_Error Build_Tools Jftw_Properties Mgt_Client
    Ip_Mask Ip_Subnet_Text Block_Properties
begin

text \<open>
  The configuration program of the OpenRG build, verified, with the small library beside it.

  The tree builds the firmware of a residential gateway. What the vendor wrote of it, and
  what decides what ends up in an image, is \<open>create_config\<close> (\<open>src/core0/pkg/build\<close>): it
  holds a table of some two thousand nine hundred options, reads a command line, runs
  scripts that switch options on according to the distribution, the board, the operating
  system and the features chosen, finds out what the host offers, and writes the result as a
  make file, a C header, a C file and a list of features. \<open>mkconfig\<close>
  (\<open>src/core0/pkg/util/mkconfig.c\<close>) later turns a make file back into C definitions, and
  \<open>rg_gcc\<close> compiles with what was configured. The programs share \<open>src/core0/pkg/util\<close>:
  strings, error reports, messages between processes. Of the gateway's own programs the
  key exchange daemon (\<open>src/core0/pkg/freeswan\<close>) has parts the vendor rewrote: ranges of
  addresses beside networks, ports in their text, and the blocking of peers that fail to
  authenticate. The theories model these parts as the
  published build compiles them: \<open>CONFIG_RG_GPL\<close> is defined, \<open>CONFIG_RG_DO_DEVICES\<close> is not.

  State. An option array is a list of records (\<open>option_t\<close>) without the null entry that ends
  it in C; a pointer into it is an index, a string that may be null an \<open>option\<close>. The globals
  of the program are the record \<open>conf\<close>. A statement is a function from \<open>conf\<close> to a new
  \<open>conf\<close> or an error (\<open>conf_error\<close>): \<open>exit\<close>, \<open>conf_err\<close> and what C leaves undefined (a null
  string passed to \<open>strcmp\<close> or \<open>%s\<close>) are values. Bit masks are 32-bit words. Source lines,
  which the program stores with every option and prints, are part of the model. The host is
  a parameter, the record \<open>host\<close>: the environment, what a shell command answers and which
  files exist, the last three depending on the commands run before. A run of the program
  leaves what it has made of its three files (\<open>files_made\<close>: untouched, or the lines in them,
  also where printing stopped at an option) beside its result. A socket is what the
  system will answer to each \<open>read\<close> and \<open>write\<close>, in order, and what was sent.

  Theories, in the order they build on each other.
  Ground: \<open>Prelude\<close> (results, lists), \<open>C_Lib\<close> (characters, \<open>strcmp\<close>, \<open>sscanf\<close>, \<open>vsnprintf\<close>),
  \<open>Str_Util\<close> (\<open>str.c\<close>: comparing, cutting, trimming, replacing).
  Option store, \<open>config_opt.h\<close> and the end of \<open>feature_config.c\<close>: \<open>Config_Opt\<close> (records,
  readers, \<open>_token_set\<close>, the statement combinators), \<open>Script_Logic\<close> (the step relation
  \<open>cfg_step\<close>, what a script may write, \<open>emits\<close>, and how it may fail, \<open>safe\<close>), \<open>License\<close>
  (\<open>_enable_module\<close>), \<open>Option_Store\<close> and \<open>Store_Properties\<close> (every call of \<open>_token_set\<close>, those
  that fail and those with the value \<open>m\<close> among them, refines an abstract write to a store of
  values, priorities and types; a series of writes; \<open>stored_as_given\<close> says which values an
  option stores unchanged), \<open>Numbers\<close>.
  Tables, \<open>config_opt.c\<close>: \<open>Option_Tables\<close>, \<open>Table_Facts\<close> (every option with its type),
  \<open>Options_Init\<close>, \<open>Name_Order\<close> and \<open>Table_Unique\<close> (no name twice).
  Scripts: \<open>Feature_Base\<close>, \<open>Feature_Config_1\<close> to \<open>Feature_Config_4\<close> and \<open>Feature_Config\<close>
  (\<open>feature_config.c\<close>), \<open>Target_Os\<close> (\<open>config_target_os.c\<close>), \<open>Hw_Base\<close>, \<open>Hw_Config_1\<close> to
  \<open>Hw_Config_3\<close> and \<open>Hw_Config\<close> (\<open>hw_config.c\<close>), \<open>Dist_Base\<close>, \<open>Dist_Config_1\<close> to
  \<open>Dist_Config_6\<close> and \<open>Dist_Config\<close> (\<open>dist_config.c\<close>). A long function is cut into numbered
  definitions of consecutive statements; each comes with the lemma \<open>ok_...\<close> that it writes
  only what \<open>policy\<close> allows and fails only as \<open>script_failure\<close> says.
  Program, \<open>create_config.c\<close>: \<open>Command_Line\<close>, \<open>Output\<close> (\<open>configure_print\<close>, which opens the
  files and writes them option by option), \<open>Script_Invariants\<close> (what every run of
  steps keeps), \<open>Create_Config\<close> (the order of the scripts, package builds; \<open>main_configure\<close> is
  \<open>main\<close> up to the host configuration), \<open>Major_Features\<close> (\<open>major_features.c\<close>), \<open>Program\<close>
  (\<open>program\<close>, the whole of \<open>main\<close>, and what it prints of an option of the command line).
  Host configuration, \<open>config_host.c\<close>: \<open>Host_Base\<close> (the host, commands whose value is used,
  strings built step by step), \<open>Config_Host_1\<close> to \<open>Config_Host_3\<close> (its functions, each with
  its \<open>ok_...\<close> lemma), \<open>Config_Host\<close> (their order), \<open>Host_Properties\<close> (the C library, the
  operating system, the path, the search for files).
  Effects: \<open>Script_Effects\<close> and \<open>Feature_Effects\<close> (what a switch brings about), \<open>Board_Effects\<close>
  (what the board scripts do for one board, and that the branches of the others are idle),
  \<open>Distributions\<close> (the chain of distributions against their table), \<open>Command_Properties\<close>
  (command line, licensing, merging, the files written).
  Other programs: \<open>Mkconfig\<close>, with its agreement with the header of the first program, and
  \<open>Build_Tools\<close> (\<open>rg_gcc.c\<close>, with the array its arguments are written to, and \<open>checksum.c\<close>).
  Library: \<open>Bio_Socket\<close> (\<open>bio_socket.c\<close>: reads and writes that are cut and interrupted, the
  body of each loop a definition of its own, \<open>read_turn\<close> and \<open>write_turn\<close>), \<open>Ipc\<close> (\<open>ipc.c\<close> as
  sequences of reads and writes), \<open>Ipc_Protocol\<close> (a client and a server running against each
  other under any schedule, a step being one turn of a loop of \<open>bio_socket.c\<close>), \<open>Rg_Error\<close>
  (\<open>rg_error.c\<close> with every failure of \<open>malloc\<close>, and the \<open>rg_error\<close> of \<open>openrg_gpl.c\<close>),
  \<open>Mgt_Client\<close> (\<open>mgt_client.c\<close>: a command and its answer, with short writes and failures of
  \<open>realloc\<close>),
  \<open>Jftw\<close> (\<open>jftw.c\<close>, the walk over a file tree with a bounded number of open directories; the
  file system is the parameter \<open>file_system\<close>), \<open>Jftw_Walk\<close> (a plain recursion over the tree
  as reference, the invariant of the ring of streams, and that the walk follows the
  reference), \<open>Jftw_Properties\<close> (what a walk reports, opens and closes, and that it ends).
  Key exchange, \<open>src/core0/pkg/freeswan\<close>: \<open>Ip_Address\<close> (addresses, networks, ranges and masks
  of \<open>lib\<close>, one definition for each function), \<open>Ip_Order\<close> (\<open>addrcmp\<close> is a total order),
  \<open>Ip_Subnet\<close> (networks and ranges as intervals of numbers; the tests between them and
  \<open>rangetosubnet\<close>), \<open>Ip_Mask\<close> (masks and counts of bits), \<open>Ip_Text\<close> (numbers and addresses
  printed and read), \<open>Ip_Text_Numbers\<close> and \<open>Ip_Text_Properties\<close> (what is printed is read
  back, the squishing of zeros in IPv6 addresses included), \<open>Ip_Subnet_Text\<close> (networks and
  ranges read from text, and networks printed and read back), \<open>Block_Ip\<close> (\<open>pluto/block_ip.c\<close>,
  its clock, and what \<open>demux.c\<close> does with the list), \<open>Block_Properties\<close> (the list as a table,
  the step relation of the daemon on it, when a peer is blocked and, along the steps that do
  not release it, for how long).

  Interfaces are locales: \<open>step_invariant\<close> and \<open>option_invariant\<close> (a relation every step
  keeps, hence every script), \<open>script_schema\<close> and \<open>license_schema\<close> (what the accessors need
  of a table), \<open>conversation\<close> (two programs whose sends and receives match), \<open>prio_store\<close> (a
  store with priorities), \<open>interval_sets\<close> (sets of addresses given by their ends),
  \<open>keyed_list\<close> (a list with one entry for a key), each interpreted on the shipped table, on
  the invariants of the model, on the messages or on the functions of the code.

  Bounds and fuel. A value holds at most 4094 characters, the text of an error report 1023,
  numbers are read into 32 bits. Only three loops need fuel: that of \<open>jpkg_configuration\<close>, over
  a list its own turns extend, that of \<open>mkconfig\<close>, over a stack of files that may include
  each other, and the recursion of \<open>ftw_dir\<close>, whose fuel is the depth it is followed down to;
  for each it is proved that some fuel suffices (for a walk, if no chain of directories goes on
  for ever, the working directory stays and, with \<open>FTW_DEPTH\<close>, the start is not the root) and
  that more gives the same. A walk that goes deeper is \<open>Cut\<close>, with what it has done so far, so
  that the bounds on its streams are proved of walks that never end too. The
  loops of \<open>str_replace\<close> and \<open>str_count_str\<close>, which an empty search string keeps busy for
  ever, are partial functions. The loop of \<open>rangetosubnet\<close> over the bits of a byte would not
  end on equal bytes; it is proved to be entered only with different ones. A read or write whose answers run out waits for ever (\<open>None\<close>).

  Widths. The counters and times of \<open>block_ip.c\<close>, \<open>int\<close> and \<open>time_t\<close> in C, are unbounded; the
  memory of \<open>jftw.c\<close> is taken to suffice.

  Not modelled. The device declarations of the scripts (\<open>dev_add\<close> and the like) are macros
  without effect in this build; \<open>device_config.c\<close> is not compiled. \<open>license_init\<close> and
  \<open>set_dist_license\<close> need a license library that is not published. Of \<open>str.c\<close> the conversions
  of numbers and binary buffers; of \<open>ipc.c\<close> its reports, the listening socket and the wait for
  a server; of \<open>rg_error.c\<close> the stack trace, the name of the process and what is compiled into
  a kernel; of \<open>openrg_gpl.c\<close> all but \<open>rg_error\<close>. Of the daemon the key exchange itself, the
  text of keys (\<open>datatot.c\<close>, \<open>ttodata.c\<close>) and of security associations, the interface to the
  kernel and the name services, which are a parameter. The programs and helpers that only pass
  system calls on are left out. The rest of the tree (the kernels, the programs under \<open>pkg\<close>) is
  third-party code with patches.
\<close>

section \<open>The configuration as a whole\<close>

text \<open>
  What the user sets on the command line survives. Every option that \<open>-f NAME=VALUE\<close>
  gave a value comes out of the whole configuration (scripts, merge of bundled
  distributions, last script) exactly as the command line left it.
\<close>

theorem command_line_options_survive:
  "case read_arguments argv of
     Inl e \<Rightarrow> main_configure fuel argv = Some (Inl e)
   | Inr (n, s) \<Rightarrow> (case configure fuel s of
       Some (Inr s') \<Rightarrow> main_configure fuel argv = Some (Inr (n, s')) \<and>
         list_all2 pinned_value_kept (cfg_options s) (cfg_options s')
     | Some (Inl e) \<Rightarrow> main_configure fuel argv = Some (Inl e)
     | None \<Rightarrow> main_configure fuel argv = None)"
  using configure_keeps_pinned started_arguments
  by (auto simp: main_configure_def split: sum.splits option.splits)

text \<open>
  The configuration terminates. The loop over bundled distributions runs over a list
  its own turns may extend; from every command line it comes to an end, and more fuel than
  needed does no harm.
\<close>

theorem configuration_terminates:
  "\<exists>n. \<forall>m. \<exists>r. main_configure (n + m) argv = Some r"
proof (cases "read_arguments argv")
  case (Inl e)
  then show ?thesis by (simp add: main_configure_def)
next
  case (Inr x)
  obtain files s where x: "x = (files, s)" by (cases x)
  from configure_total [OF started_arguments [OF Inr [unfolded x]]] obtain n where
    "\<forall>m. \<exists>r. configure (n + m) s = Some r" ..
  with Inr x show ?thesis by (auto simp: main_configure_def intro!: exI [of _ n])
qed

text \<open>
  C3: The configured options are those of the shipped table: same names, same types, same
  order, each once.
\<close>

theorem configuration_keeps_schema:
  "case main_configure fuel argv of
     Some (Inr (n, s')) \<Rightarrow> schema_of (cfg_options s') = base_schema \<and> distinct (map opt_token (cfg_options s'))
   | _ \<Rightarrow> True"
  using configure_schema started_arguments
  by (fastforce simp: main_configure_def has_schema_def bind_res_eq_Inr split: sum.splits option.splits)

text \<open>
  C4: How the scripts fail (\<open>script_failure\<close>). On the shipped table none of them names an
  option that is not declared, \<open>CONFIG_KNCX821XX_PCB\<close> apart, tests a string option as a
  switch, or gives \<open>m\<close> to an option without a type, \<open>CONFIG_USB_OV511\<close>, \<open>CONFIG_USB_PWC\<close> and
  \<open>CONFIG_USB_SPCA5XX\<close> apart. What is left are their explicit errors, failed dependencies and
  overlong values among them, and what C leaves undefined: a null string compared or
  printed, a directive without an argument that fits.
\<close>

theorem script_failures_known:
  "list_all (safe base_schema) [distribution_features, target_os_features, package_features,
     board_features, openrg_features, general_features, target_primary_os]"
  by (simp; intro conjI; rule ok_safe; rule safe_scripts)

text \<open>
  C6: \<open>hardware_features\<close> fails in the ways of \<open>script_failure\<close> only (those of C4), or because
  the board is not in the table of boards; otherwise it leaves names and types as they are.
\<close>

theorem hardware_features_failures:
  assumes "has_schema base_schema s"
  shows "case hardware_features s of Inl e \<Rightarrow> script_failure e \<or> board_failure e | Inr s' \<Rightarrow> has_schema base_schema s'"
  using hardware_failure [OF assms] emits_schema [OF emits_hardware_features assms]
  by (auto split: sum.split)

definition with_board :: "string \<Rightarrow> conf" where
  "with_board h = (initial_conf config_options_base)\<lparr> cfg_hw := Some h \<rparr>"

lemma with_board_schema: "has_schema base_schema (with_board h)"
  using started_initial by (simp add: with_board_def started_def has_schema_def)

theorem hardware_features_failures_witness:
  "(\<exists>s'. hardware_features (with_board ''ALLWELL_RTL_RTL'') = Inr s' \<and> has_schema base_schema s') \<and>
   (case hardware_features (with_board ''PENTIUM_BOARD'') of
     Inl e \<Rightarrow> script_failure e \<or> board_failure e | Inr s' \<Rightarrow> has_schema base_schema s')"
proof
  have "cfg_hw (with_board ''ALLWELL_RTL_RTL'') = Some ''ALLWELL_RTL_RTL''" by (simp add: with_board_def)
  then obtain s' where "hardware_features (with_board ''ALLWELL_RTL_RTL'') = Inr s'"
    by (rule allwell_steps [OF with_board_schema])
  with hardware_features_failures [OF with_board_schema, of "''ALLWELL_RTL_RTL''"]
  show "\<exists>s'. hardware_features (with_board ''ALLWELL_RTL_RTL'') = Inr s' \<and> has_schema base_schema s'" by simp
qed (rule hardware_features_failures [OF with_board_schema])

text \<open>The scripts of a target, each alone and in the order \<open>main\<close> runs them.\<close>

definition target_scripts :: "stmt list" where
  "target_scripts = [distribution_features, target_os_features, package_features, hardware_features,
     openrg_features, general_features, configure_features, configure_target, target_primary_os]"

lemma emits_target_scripts:
  assumes "c \<in> set target_scripts"
  shows "emits base_schema (policy base_schema value_tokens bundled) c"
proof -
  have "list_all (emits base_schema (policy base_schema value_tokens bundled)) target_scripts"
    unfolding target_scripts_def list.pred_inject(2)
    by (intro conjI list.pred_inject(1) emits_hardware_features emits_configure_features emits_configure_target
        emits_target_primary_os; rule ok_emits; rule safe_scripts)
  with assms show ?thesis by (simp add: list_all_iff)
qed

lemma openrg_runs:
  obtains s' where "openrg_features (initial_conf config_options_base) = Inr s'"
    and "has_schema base_schema (initial_conf config_options_base)" "openrg_features \<in> set target_scripts"
  using liveD [OF live_openrg, of "initial_conf config_options_base"] started_initial
  by (auto simp: started_def target_scripts_def)

text \<open>
  C7: A switch that is on stays on through every script. Excluded are the options the scripts
  give values (\<open>value_tokens\<close>), which a value other than \<open>y\<close> or \<open>m\<close> replaces.
\<close>

theorem switches_stay_on:
  assumes "has_schema base_schema s" "c \<in> set target_scripts" "c s = Inr s'"
  shows "list_all2 (stays_on value_tokens) (cfg_options s) (cfg_options s')"
  by (rule onset.script [OF emits_target_scripts [OF assms(2)] assms(1,3)])

theorem switches_stay_on_witness:
  "\<exists>s'. openrg_features (initial_conf config_options_base) = Inr s' \<and>
     list_all2 (stays_on value_tokens) (cfg_options (initial_conf config_options_base)) (cfg_options s')"
  by (rule openrg_runs) (use switches_stay_on in blast)

text \<open>
  C8: The scripts keep the options printable. An option that is not one of those the scripts
  give values (\<open>value_tokens\<close>) and is valid before a script passes \<open>check_option_validity\<close>
  after it.
\<close>

theorem scripts_keep_options_valid:
  assumes "has_schema base_schema s" "c \<in> set target_scripts" "c s = Inr s'"
  shows "list_all2 validity_kept (cfg_options s) (cfg_options s')"
  by (rule script_keeps_validity [OF emits_target_scripts [OF assms(2)] assms(1,3)])

theorem scripts_keep_options_valid_witness:
  "\<exists>s'. openrg_features (initial_conf config_options_base) = Inr s' \<and>
     list_all2 validity_kept (cfg_options (initial_conf config_options_base)) (cfg_options s')"
  by (rule openrg_runs) (use scripts_keep_options_valid in blast)

text \<open>
  C9: No script lowers the priority of an option.
\<close>

theorem priorities_never_fall:
  assumes "has_schema base_schema s" "c \<in> set target_scripts" "c s = Inr s'"
  shows "list_all2 prio_rises (cfg_options s) (cfg_options s')"
  by (rule rising.script [OF emits_any [OF emits_target_scripts [OF assms(2)]] assms(1,3)])

theorem priorities_never_fall_witness:
  "\<exists>s'. openrg_features (initial_conf config_options_base) = Inr s' \<and>
     list_all2 prio_rises (cfg_options (initial_conf config_options_base)) (cfg_options s')"
  by (rule openrg_runs) (use priorities_never_fall in blast)

text \<open>
  C10: The shipped tables pass the uniqueness check \<open>main\<close> begins with.
\<close>

theorem shipped_tables_unique:
  "validate_unique_configs openrg_hw_options openrg_os_options openrg_distribution_options
     (cfg_options (initial_conf config_options_base)) = Inr ()"
proof -
  have "validate_unique os = Inr ()" if "distinct (map opt_token os)" for os
    using that validate_unique_Inr by auto
  then show ?thesis
    by (simp add: validate_unique_configs_def initial_conf_def Let_def distinct_openrg_hw_options
        distinct_openrg_os_options distinct_openrg_distribution_options distinct_config_options_base)
qed

end
